(* ===== verification/Prelude.thy ===== *)
theory Prelude
  imports Complex_Main "HOL-Library.Word" "HOL-Library.Signed_Division"
begin

text \<open>
  Shared vocabulary of the development: the machine integers of the code, the error codes
  of \<open>audio_errors.h\<close>, the outcome type of operations whose C++ body can run into
  undefined behaviour, and the generic facts on lists, maps and words the components share.

  Machine integers are words of their width. \<open>size_t\<close> is taken as 64 bits wide (the LP64
  targets of the repository). A signed quantity is read with \<^const>\<open>sint\<close> where the code
  compares or divides it. An \<open>int32_t\<close> that is only an error code, a pid, a file descriptor
  or an enumerator is an \<^typ>\<open>int\<close>, since no arithmetic is done on it.
\<close>

unbundle bit_operations_syntax

section \<open>Machine integers\<close>

type_synonym u8 = "8 word"
type_synonym u32 = "32 word"
type_synonym u64 = "64 word"
type_synonym s32 = "32 word"
type_synonym s64 = "64 word"

named_theorems err_defs \<open>values of the error codes\<close>
named_theorems cfg_defs \<open>configuration constants of the code\<close>

section \<open>Outcomes\<close>

text \<open>
  Where the C++ code divides by a zero divisor, follows a null pointer, leaves the range of a
  signed type in arithmetic or converts a float outside the target it has no defined result. The operations that can do so return \<^term>\<open>Inl f\<close> there, every other outcome
  (error codes included) is \<^term>\<open>Inr r\<close>.
\<close>

datatype fault = DivByZero | NullDeref | UncheckedAccess | SignedOverflow | BadConversion

type_synonym 'a exec = "fault + 'a"

definition exec_bind :: "'a exec \<Rightarrow> ('a \<Rightarrow> 'b exec) \<Rightarrow> 'b exec" where
  "exec_bind m f = (case m of Inl e \<Rightarrow> Inl e | Inr x \<Rightarrow> f x)"

lemma exec_bind_simps [simp]: "exec_bind (Inl e) f = Inl e" "exec_bind (Inr x) f = f x"
  by (simp_all add: exec_bind_def)

lemma exec_bind_Inr: "exec_bind m f = Inr y \<longleftrightarrow> (\<exists>x. m = Inr x \<and> f x = Inr y)"
  by (cases m) simp_all

text \<open>\<open>returns P m\<close>: when \<open>m\<close> does not fault, its value has \<open>P\<close>.\<close>

definition returns :: "('a \<Rightarrow> bool) \<Rightarrow> 'a exec \<Rightarrow> bool" where
  "returns P m \<longleftrightarrow> (case m of Inl _ \<Rightarrow> True | Inr x \<Rightarrow> P x)"

lemma returns_simps [simp]: "returns P (Inl f)" "returns P (Inr x) = P x"
  by (simp_all add: returns_def)

lemma returns_bind: "returns P (exec_bind m f) = returns (\<lambda>x. returns P (f x)) m"
  by (cases m) simp_all

lemma returns_any: "(\<And>x. P x) \<Longrightarrow> returns P m"
  by (cases m) simp_all

lemma returns_bind_any: "(\<And>x. returns P (f x)) \<Longrightarrow> returns P (exec_bind m f)"
  by (cases m) simp_all

lemma returns_mono: "returns P m \<Longrightarrow> (\<And>x. P x \<Longrightarrow> Q x) \<Longrightarrow> returns Q m"
  by (cases m) simp_all

lemma returnsD: "returns P m \<Longrightarrow> m = Inr x \<Longrightarrow> P x"
  by simp

section \<open>Floats\<close>

text \<open>
  A \<open>float\<close> value is a rational number, an infinity or not-a-number (theory \<open>Float32\<close> has the
  rounding of arithmetic), and the comparisons are those of IEEE 754: every ordered comparison with \<open>FNaN\<close> is false and
  \<open>FNaN\<close> differs from everything, itself included.
\<close>

datatype f32 = FNaN | FNegInf | FPosInf | FFin rat

fun f32_less :: "f32 \<Rightarrow> f32 \<Rightarrow> bool" where
  "f32_less FNaN _ = False"
| "f32_less _ FNaN = False"
| "f32_less FNegInf y = (y \<noteq> FNegInf)"
| "f32_less _ FNegInf = False"
| "f32_less FPosInf _ = False"
| "f32_less _ FPosInf = True"
| "f32_less (FFin x) (FFin y) = (x < y)"

definition f32_eq :: "f32 \<Rightarrow> f32 \<Rightarrow> bool" where
  "f32_eq x y = (x \<noteq> FNaN \<and> x = y)"

definition f32_le :: "f32 \<Rightarrow> f32 \<Rightarrow> bool" where
  "f32_le x y = (f32_less x y \<or> f32_eq x y)"

section \<open>Error codes\<close>

type_synonym err = int

definition ErrCodeOffset :: "int \<Rightarrow> int \<Rightarrow> int" where
  "ErrCodeOffset subsys modl = push_bit 21 subsys OR push_bit 16 modl"

definition BASE_AUDIO_ERR_OFFSET :: err where
  "BASE_AUDIO_ERR_OFFSET = - ErrCodeOffset 30 1"

definition SUCCESS :: err where [err_defs]: "SUCCESS = 0"
definition ERROR :: err where "ERROR = BASE_AUDIO_ERR_OFFSET"
definition ERR_ILLEGAL_STATE :: err where "ERR_ILLEGAL_STATE = BASE_AUDIO_ERR_OFFSET - 1"
definition ERR_INVALID_PARAM :: err where "ERR_INVALID_PARAM = BASE_AUDIO_ERR_OFFSET - 2"
definition ERR_INVALID_OPERATION :: err where "ERR_INVALID_OPERATION = BASE_AUDIO_ERR_OFFSET - 4"
definition ERR_OPERATION_FAILED :: err where "ERR_OPERATION_FAILED = BASE_AUDIO_ERR_OFFSET - 5"
definition ERR_WRITE_FAILED :: err where "ERR_WRITE_FAILED = BASE_AUDIO_ERR_OFFSET - 12"
definition ERR_FOCUS_DENIED :: err where "ERR_FOCUS_DENIED = BASE_AUDIO_ERR_OFFSET - 18"
definition ERR_UNKNOWN :: err where "ERR_UNKNOWN = BASE_AUDIO_ERR_OFFSET - 200"
definition ERR_CONCEDE_INCOMING_STREAM :: err where
  "ERR_CONCEDE_INCOMING_STREAM = BASE_AUDIO_ERR_OFFSET - 26"

lemma BASE_AUDIO_ERR_OFFSET_value [err_defs]: "BASE_AUDIO_ERR_OFFSET = - 62980096"
  by (simp add: BASE_AUDIO_ERR_OFFSET_def ErrCodeOffset_def)

lemmas err_code_defs [err_defs] =
  ERROR_def ERR_ILLEGAL_STATE_def ERR_INVALID_PARAM_def ERR_INVALID_OPERATION_def
  ERR_OPERATION_FAILED_def ERR_WRITE_FAILED_def ERR_FOCUS_DENIED_def
  ERR_CONCEDE_INCOMING_STREAM_def ERR_UNKNOWN_def

lemma err_neq_SUCCESS [simp]:
  "ERROR \<noteq> SUCCESS" "SUCCESS \<noteq> ERROR"
  "ERR_ILLEGAL_STATE \<noteq> SUCCESS" "SUCCESS \<noteq> ERR_ILLEGAL_STATE"
  "ERR_INVALID_PARAM \<noteq> SUCCESS" "SUCCESS \<noteq> ERR_INVALID_PARAM"
  "ERR_INVALID_OPERATION \<noteq> SUCCESS" "SUCCESS \<noteq> ERR_INVALID_OPERATION"
  "ERR_OPERATION_FAILED \<noteq> SUCCESS" "SUCCESS \<noteq> ERR_OPERATION_FAILED"
  "ERR_WRITE_FAILED \<noteq> SUCCESS" "SUCCESS \<noteq> ERR_WRITE_FAILED"
  "ERR_FOCUS_DENIED \<noteq> SUCCESS" "SUCCESS \<noteq> ERR_FOCUS_DENIED"
  "ERR_UNKNOWN \<noteq> SUCCESS" "SUCCESS \<noteq> ERR_UNKNOWN"
  "ERR_CONCEDE_INCOMING_STREAM \<noteq> SUCCESS" "SUCCESS \<noteq> ERR_CONCEDE_INCOMING_STREAM"
  by (simp_all add: err_defs)

section \<open>Words\<close>

text \<open>
  The positions of the ring buffers are compared and subtracted as unsigned 64-bit words.
  These facts move such a comparison to \<^typ>\<open>nat\<close>, where \<open>arith\<close> decides it.
\<close>

lemma unat_sub_le: "(y::'a::len word) \<le> x \<Longrightarrow> unat (x - y) = unat x - unat y"
  by (rule unat_sub)

lemma u32_bound: "unat (x::u32) < 2 ^ 32"
  using unsigned_less [of x] by simp

lemma u64_bound: "unat (x::u64) < 2 ^ 64"
  using unsigned_less [of x] by simp

lemma unat_ucast_32_64 [simp]: "unat (ucast (x::u32) :: u64) = unat x"
  using u32_bound [of x] by (simp add: unsigned_ucast_eq take_bit_nat_def)

lemma unat_add_small:
  "unat (x::'a::len word) + unat y < 2 ^ LENGTH('a) \<Longrightarrow> unat (x + y) = unat x + unat y"
  by (simp add: unat_word_ariths)

lemma unat_mult_small:
  "unat (x::'a::len word) * unat y < 2 ^ LENGTH('a) \<Longrightarrow> unat (x * y) = unat x * unat y"
  by (simp add: unat_word_ariths)

lemma unat_div_mult: "unat (x div (y::'a::len word) * y) = unat x div unat y * unat y"
proof -
  have "unat x div unat y * unat y \<le> unat x" by simp
  also have "\<dots> < 2 ^ LENGTH('a)" by (rule unsigned_less)
  finally have "unat (x div y) * unat y < 2 ^ LENGTH('a)" by (simp add: unat_div_distrib)
  then show ?thesis by (simp add: unat_mult_small unat_div_distrib)
qed

lemma word_div_mult_eq_iff:
  "(x div (y::'a::len word) * y = x) \<longleftrightarrow> unat y dvd unat x"
proof -
  have "(x div y * y = x) \<longleftrightarrow> unat x div unat y * unat y = unat x"
    by (metis unat_div_mult word_unat_eq_iff)
  also have "\<dots> \<longleftrightarrow> unat y dvd unat x"
    by (metis dvd_div_mult_self dvd_triv_right)
  finally show ?thesis .
qed

lemma unat_ucast_64_32:
  assumes "unat (x::u64) < 2 ^ 32"
  shows "unat (ucast x :: u32) = unat x"
  using assms by (simp add: unsigned_ucast_eq take_bit_nat_def)

lemma u32_zero_less_max [simp]: "(0::u32) < - 1"
  by (simp add: word_less_nat_alt unsigned_minus_1_eq_mask mask_eq_exp_minus_1)

lemma sint_small_u32:
  assumes "unat (x::u32) < 2 ^ 31"
  shows "sint x = int (unat x)"
proof -
  have "int (unat x) < int (2 ^ 31)" using assms by (simp only: of_nat_less_iff)
  then have "uint x < 2 ^ 31" by simp
  then have "signed_take_bit 31 (uint x) = uint x"
    using order.trans [of "- (2 ^ 31)" 0 "uint x"] by (simp add: signed_take_bit_int_eq_self)
  then show ?thesis by (simp add: sint_uint)
qed

text \<open>
  Signed 64-bit arithmetic: \<open>+\<close>, \<open>-\<close> and \<open>*\<close> are those of words, division truncates towards
  zero. In the range of \<open>int64_t\<close> they are the operations on integers.
\<close>

definition s64_quot :: "s64 \<Rightarrow> s64 \<Rightarrow> s64" where
  "s64_quot x y = word_of_int (sint x sdiv sint y)"

definition in_s64 :: "int \<Rightarrow> bool" where
  "in_s64 i \<longleftrightarrow> - (2 ^ 63) \<le> i \<and> i < 2 ^ 63"

lemma in_s64I: "- 9223372036854775808 \<le> i \<Longrightarrow> i < 9223372036854775808 \<Longrightarrow> in_s64 i"
  by (simp add: in_s64_def)

lemma sint_in_s64 [simp]: "in_s64 (sint (x::s64))"
  using sint_range_size [of x] by (simp add: in_s64_def word_size)

lemma sint_of_int_64: "in_s64 i \<Longrightarrow> sint (word_of_int i :: s64) = i"
  by (simp add: in_s64_def sint_sbintrunc' signed_take_bit_int_eq_self)

lemma s64_add: "in_s64 (sint x + sint y) \<Longrightarrow> sint (x + y :: s64) = sint x + sint y"
  by (simp add: sint_word_add in_s64_def signed_take_bit_int_eq_self)

lemma s64_sub: "in_s64 (sint x - sint y) \<Longrightarrow> sint (x - y :: s64) = sint x - sint y"
  by (simp add: sint_word_diff in_s64_def signed_take_bit_int_eq_self)

lemma s64_mult: "in_s64 (sint x * sint y) \<Longrightarrow> sint (x * y :: s64) = sint x * sint y"
  by (simp add: sint_word_mult in_s64_def signed_take_bit_int_eq_self)

lemma s64_minus: "in_s64 (- sint x) \<Longrightarrow> sint (- x :: s64) = - sint x"
  by (simp add: sint_word_minus in_s64_def signed_take_bit_int_eq_self)

lemma sdiv_pos: "0 \<le> a \<Longrightarrow> 0 < b \<Longrightarrow> (a::int) sdiv b = a div b"
  by (simp add: sgn_if signed_divide_int_def)

lemma sdiv_neg: "0 \<le> a \<Longrightarrow> 0 < b \<Longrightarrow> (- a::int) sdiv b = - (a div b)"
  by (cases "a = 0") (simp_all add: sgn_if signed_divide_int_def)

lemma sdiv_mono:
  assumes "(a::int) \<le> b" and "0 < r"
  shows "a sdiv r \<le> b sdiv r"
proof -
  consider "0 \<le> a" | "a < 0" "0 \<le> b" | "b < 0" by linarith
  then show ?thesis
  proof cases
    case 1
    then show ?thesis using assms by (simp add: sdiv_pos zdiv_mono1)
  next
    case 2
    have "a sdiv r \<le> 0" using sdiv_neg [of "- a" r] 2 assms(2) by (simp add: pos_imp_zdiv_nonneg_iff)
    also have "0 \<le> b sdiv r" using 2 assms(2) by (simp add: sdiv_pos pos_imp_zdiv_nonneg_iff)
    finally show ?thesis .
  next
    case 3
    then show ?thesis
      using assms sdiv_neg [of "- a" r] sdiv_neg [of "- b" r] by (simp add: zdiv_mono1)
  qed
qed

lemma s64_quot_minus:
  assumes "in_s64 (- sint x)"
  shows "s64_quot (- x) y = - s64_quot x y"
  unfolding s64_quot_def s64_minus [OF assms] by (simp add: signed_divide_int_def sgn_minus wi_hom_neg [symmetric])

lemma sint_small_u64:
  assumes "unat (x::u64) < 2 ^ 63"
  shows "sint x = int (unat x)"
proof -
  have "int (unat x) < int (2 ^ 63)" using assms by (simp only: of_nat_less_iff)
  then have "uint x < 2 ^ 63" by simp
  then have "signed_take_bit 63 (uint x) = uint x"
    using order.trans [of "- (2 ^ 63)" 0 "uint x"] by (simp add: signed_take_bit_int_eq_self)
  then show ?thesis by (simp add: sint_uint)
qed

end
