(* ===== verification/OHAudioBuffer.thy ===== *)
theory OHAudioBuffer
  imports Prelude
begin

text \<open>
  \<open>services/audio_service/common/src/oh_audio_buffer.cpp\<close>: the shared-memory block
  (\<open>AudioSharedMemoryImpl\<close>) and the span ring (\<open>OHAudioBuffer\<close>) through which a client and
  the server exchange PCM data. The first part translates the data and the operations, the
  second part proves what keeps the ring sound: the window invariant of the header comment
  over every sequence of position updates, the bounds of every span handed out, and that
  the span being written is never one of the spans still to be read.

  The kernel and ashmem calls are the argument \<open>os\<close>; a buffer pointer is its byte offset
  from \<open>dataBase\<close>; a value that is not in range for the C++ type is not in the type.
\<close>

section \<open>Data\<close>

datatype AudioBufferHolder =
  AUDIO_CLIENT | AUDIO_SERVER_SHARED | AUDIO_SERVER_ONLY | AUDIO_SERVER_INDEPENDENT

datatype StreamStatus =
  STREAM_IDEL | STREAM_STARTING | STREAM_RUNNING | STREAM_PAUSING | STREAM_PAUSED
| STREAM_STOPPING | STREAM_STOPPED | STREAM_RELEASED | STREAM_STAND_BY | STREAM_INVALID

datatype SpanStatus =
  SPAN_IDEL | SPAN_WRITTING | SPAN_WRITE_DONE | SPAN_READING | SPAN_READ_DONE | SPAN_INVALID

datatype AudioMode = AUDIO_MODE_PLAYBACK | AUDIO_MODE_RECORD

record BasicBufferInfo =
  bi_totalSizeInFrame :: u32
  bi_spanSizeInFrame :: u32
  bi_byteSizePerFrame :: u32
  futexObj :: u32
  streamStatus :: StreamStatus
  basePosInFrame :: u64
  curWriteFrame :: u64
  curReadFrame :: u64
  underrunCount :: u32
  handlePos :: u64
  handleTime :: u64
  streamVolume :: f32
  duckFactor :: f32
  muteFactor :: f32

record SpanInfo =
  spanStatus :: SpanStatus
  offsetInFrame :: u64
  writeStartTime :: u64
  writeDoneTime :: u64
  readStartTime :: u64
  readDoneTime :: u64
  isMute :: bool
  volumeStart :: int
  volumeEnd :: int

record AudioSharedMemory =
  sm_base :: bool
  sm_fd :: int
  sm_size :: u64
  sm_name :: string

record OHAudioBuffer =
  sessionId :: u32
  bufferHolder :: AudioBufferHolder
  totalSizeInFrame :: u32
  spanSizeInFrame :: u32
  byteSizePerFrame :: u32
  lastWrittenTime :: u64
  totalSizeInByte :: u64
  spanSizeInByte :: u64
  spanConut :: u32
  audioMode :: AudioMode
  statusInfoMem :: "AudioSharedMemory option"
  basicBufferInfo :: "BasicBufferInfo option"
  spanInfoList :: "SpanInfo list"
  dataMem :: "AudioSharedMemory option"
  dataBase :: bool

record BufferDesc =
  bufOffset :: u64
  bufLength :: u64
  dataLength :: u64

text \<open>The operating system: results of \<open>AshmemCreate\<close>, \<open>mmap\<close>, \<open>dup\<close>, and what the mapped
  status memory behind a descriptor holds.\<close>

record os_env =
  os_AshmemCreate :: "string \<Rightarrow> u64 \<Rightarrow> int"
  os_mmap_ok :: "int \<Rightarrow> u64 \<Rightarrow> bool"
  os_dup :: "int \<Rightarrow> int"
  os_statusMem :: "int \<Rightarrow> BasicBufferInfo"
  os_spanMem :: "int \<Rightarrow> nat \<Rightarrow> SpanInfo"

definition INVALID_FD :: int where [cfg_defs]: "INVALID_FD = -1"
definition MAX_MMAP_BUFFER_SIZE :: u64 where [cfg_defs]: "MAX_MMAP_BUFFER_SIZE = 10 * 1024 * 1024"
definition STATUS_INFO_BUFFER :: string where "STATUS_INFO_BUFFER = ''status_info_buffer''"
definition MIN_FLOAT_VOLUME :: f32 where "MIN_FLOAT_VOLUME = FFin 0"
definition MAX_FLOAT_VOLUME :: f32 where "MAX_FLOAT_VOLUME = FFin 1"
definition ERROR_INVALID_PARAM :: err where [err_defs]: "ERROR_INVALID_PARAM = 6800101"

text \<open>\<open>sizeof\<close> of the two shared structs on LP64.\<close>

definition sizeof_BasicBufferInfo :: u64 where [cfg_defs]: "sizeof_BasicBufferInfo = 88"
definition sizeof_SpanInfo :: u64 where [cfg_defs]: "sizeof_SpanInfo = 64"

section \<open>Shared memory\<close>

definition AudioSharedMemoryImpl_local :: "u64 \<Rightarrow> string \<Rightarrow> AudioSharedMemory" where
  "AudioSharedMemoryImpl_local sz name =
     \<lparr>sm_base = False, sm_fd = INVALID_FD, sm_size = sz, sm_name = name\<rparr>"

definition AudioSharedMemoryImpl_remote :: "os_env \<Rightarrow> int \<Rightarrow> u64 \<Rightarrow> string \<Rightarrow> AudioSharedMemory" where
  "AudioSharedMemoryImpl_remote os fd sz name =
     \<lparr>sm_base = False, sm_fd = os_dup os fd, sm_size = sz, sm_name = name\<rparr>"

definition AudioSharedMemoryImpl_Init :: "os_env \<Rightarrow> AudioSharedMemory \<Rightarrow> err \<times> AudioSharedMemory" where
  "AudioSharedMemoryImpl_Init os m =
     (if \<not> (0 < sm_size m \<and> sm_size m < MAX_MMAP_BUFFER_SIZE) then (ERR_INVALID_PARAM, m)
      else
        let m1 = (if sm_fd m > 0 then m
                  else m\<lparr>sm_fd := os_AshmemCreate os (sm_name m) (sm_size m)\<rparr>)
        in if \<not> sm_fd m1 > 0 then (ERR_OPERATION_FAILED, m1)
           else if \<not> os_mmap_ok os (sm_fd m1) (sm_size m1) then (ERR_OPERATION_FAILED, m1)
           else (SUCCESS, m1\<lparr>sm_base := True\<rparr>))"

definition AudioSharedMemoryImpl_Close :: "AudioSharedMemory \<Rightarrow> AudioSharedMemory" where
  "AudioSharedMemoryImpl_Close m =
     (let m1 = (if sm_base m then m\<lparr>sm_base := False, sm_size := 0\<rparr> else m)
      in if sm_fd m1 > 0 then m1\<lparr>sm_fd := INVALID_FD\<rparr> else m1)"

definition CreateFormLocal :: "os_env \<Rightarrow> u64 \<Rightarrow> string \<Rightarrow> AudioSharedMemory option" where
  "CreateFormLocal os sz name =
     (case AudioSharedMemoryImpl_Init os (AudioSharedMemoryImpl_local sz name) of
        (r, m) \<Rightarrow> if r = SUCCESS then Some m else None)"

definition SharedMemory_CreateFromRemote :: "os_env \<Rightarrow> int \<Rightarrow> u64 \<Rightarrow> string \<Rightarrow> AudioSharedMemory option" where
  "SharedMemory_CreateFromRemote os fd sz name =
     (if \<not> fd > 2 then None
      else case AudioSharedMemoryImpl_Init os (AudioSharedMemoryImpl_remote os fd sz name) of
        (r, m) \<Rightarrow> if r \<noteq> SUCCESS then None else Some m)"

text \<open>Through a parcel travel the descriptor, the size and the name, in this order: the model
  of \<open>WriteToParcel\<close> is what it writes, of \<open>ReadFromParcel\<close> what it makes of the values read.\<close>

definition SharedMemory_WriteToParcel :: "AudioSharedMemory \<Rightarrow> err \<times> (int \<times> u64 \<times> string) option" where
  "SharedMemory_WriteToParcel m =
     (if \<not> (0 < sm_size m \<and> sm_size m < MAX_MMAP_BUFFER_SIZE) then (ERR_INVALID_PARAM, None)
      else (SUCCESS, Some (sm_fd m, sm_size m, sm_name m)))"

definition SharedMemory_ReadFromParcel :: "os_env \<Rightarrow> int \<times> u64 \<times> string \<Rightarrow> AudioSharedMemory option" where
  "SharedMemory_ReadFromParcel os p =
     (case p of (fd, sizeTmp, name) \<Rightarrow>
        if \<not> (0 < sizeTmp \<and> sizeTmp < MAX_MMAP_BUFFER_SIZE) then None
        else case SharedMemory_CreateFromRemote os fd sizeTmp name of
               None \<Rightarrow> None
             | Some m \<Rightarrow> if \<not> sm_base m then None else Some m)"

section \<open>Construction of the ring\<close>

definition OHAudioBuffer_ctor :: "AudioBufferHolder \<Rightarrow> u32 \<Rightarrow> u32 \<Rightarrow> u32 \<Rightarrow> OHAudioBuffer" where
  "OHAudioBuffer_ctor holder totalSize spanSize byteSize =
     \<lparr>sessionId = 0, bufferHolder = holder, totalSizeInFrame = totalSize,
      spanSizeInFrame = spanSize, byteSizePerFrame = byteSize,
      lastWrittenTime = 0, totalSizeInByte = 0, spanSizeInByte = 0, spanConut = 0,
      audioMode = AUDIO_MODE_PLAYBACK, statusInfoMem = None, basicBufferInfo = None,
      spanInfoList = [], dataMem = None, dataBase = False\<rparr>"

text \<open>\<open>SizeCheck\<close> divides by \<open>spanSizeInFrame\<close> and by \<open>byteSizePerFrame\<close> unguarded.\<close>

definition SizeCheck :: "OHAudioBuffer \<Rightarrow> (err \<times> OHAudioBuffer) exec" where
  "SizeCheck b =
     (if totalSizeInFrame b < spanSizeInFrame b then Inr (ERR_INVALID_PARAM, b)
      else if spanSizeInFrame b = 0 then Inl DivByZero
      else if totalSizeInFrame b mod spanSizeInFrame b \<noteq> 0 then Inr (ERR_INVALID_PARAM, b)
      else if byteSizePerFrame b = 0 then Inl DivByZero
      else if totalSizeInFrame b > (- 1) div byteSizePerFrame b then Inr (ERR_INVALID_PARAM, b)
      else
        let b1 = b\<lparr>totalSizeInByte := ucast (totalSizeInFrame b * byteSizePerFrame b)\<rparr>
        in if \<not> totalSizeInByte b1 < MAX_MMAP_BUFFER_SIZE then Inr (ERR_INVALID_PARAM, b1)
           else Inr (SUCCESS,
             b1\<lparr>spanSizeInByte := ucast (spanSizeInFrame b * byteSizePerFrame b),
                spanConut := totalSizeInFrame b div spanSizeInFrame b\<rparr>))"

text \<open>The stores \<open>Init\<close> makes into the status memory: always, and for a server-made buffer.\<close>

definition init_positions :: "BasicBufferInfo \<Rightarrow> BasicBufferInfo" where
  "init_positions i =
     i\<lparr>basePosInFrame := 0, curReadFrame := 0, curWriteFrame := 0, underrunCount := 0,
       streamVolume := MAX_FLOAT_VOLUME, duckFactor := MAX_FLOAT_VOLUME,
       muteFactor := MAX_FLOAT_VOLUME\<rparr>"

definition init_server_info :: "OHAudioBuffer \<Rightarrow> BasicBufferInfo \<Rightarrow> BasicBufferInfo" where
  "init_server_info b i =
     i\<lparr>handlePos := 0, handleTime := 0,
       bi_totalSizeInFrame := totalSizeInFrame b, bi_spanSizeInFrame := spanSizeInFrame b,
       bi_byteSizePerFrame := byteSizePerFrame b, streamStatus := STREAM_INVALID\<rparr>"

definition OHAudioBuffer_Init :: "os_env \<Rightarrow> OHAudioBuffer \<Rightarrow> int \<Rightarrow> int \<Rightarrow> (err \<times> OHAudioBuffer) exec" where
  "OHAudioBuffer_Init os b0 dataFd infoFd =
     (case SizeCheck b0 of
        Inl f \<Rightarrow> Inl f
      | Inr (ret, b) \<Rightarrow>
        if ret \<noteq> SUCCESS then Inr (ERR_INVALID_PARAM, b)
        else
          let statusInfoSize = sizeof_BasicBufferInfo + ucast (spanConut b) * sizeof_SpanInfo;
              statusMem =
                (if infoFd \<noteq> INVALID_FD \<and>
                    (bufferHolder b = AUDIO_CLIENT \<or> bufferHolder b = AUDIO_SERVER_INDEPENDENT)
                 then SharedMemory_CreateFromRemote os infoFd statusInfoSize STATUS_INFO_BUFFER
                 else CreateFormLocal os statusInfoSize STATUS_INFO_BUFFER)
          in case statusMem of
               None \<Rightarrow> Inr (ERR_OPERATION_FAILED, b\<lparr>statusInfoMem := None\<rparr>)
             | Some sm \<Rightarrow>
               let dmem =
                     (if dataFd = INVALID_FD \<and> bufferHolder b = AUDIO_SERVER_SHARED
                      then CreateFormLocal os (totalSizeInByte b) ''server_client_buffer''
                      else SharedMemory_CreateFromRemote os dataFd (totalSizeInByte b)
                             (if bufferHolder b = AUDIO_SERVER_ONLY then ''server_hdi_buffer''
                              else ''server_client_buffer''))
               in case dmem of
                    None \<Rightarrow> Inr (ERR_OPERATION_FAILED,
                      b\<lparr>statusInfoMem := Some sm, dataMem := None\<rparr>)
                  | Some dm \<Rightarrow>
                    let info = init_positions (os_statusMem os (sm_fd sm));
                        spans = map (os_spanMem os (sm_fd sm)) [0..<unat (spanConut b)];
                        server = (bufferHolder b = AUDIO_SERVER_SHARED \<or>
                                  bufferHolder b = AUDIO_SERVER_ONLY)
                    in Inr (SUCCESS,
                         b\<lparr>statusInfoMem := Some sm, dataMem := Some dm, dataBase := sm_base dm,
                           basicBufferInfo :=
                             Some (if server then init_server_info b info else info),
                           spanInfoList :=
                             (if server then map (\<lambda>s. s\<lparr>spanStatus := SPAN_INVALID\<rparr>) spans
                              else spans)\<rparr>))"

definition CreateFromLocal :: "os_env \<Rightarrow> u32 \<Rightarrow> u32 \<Rightarrow> u32 \<Rightarrow> OHAudioBuffer option exec" where
  "CreateFromLocal os totalSize spanSize byteSize =
     (case OHAudioBuffer_Init os
             (OHAudioBuffer_ctor AUDIO_SERVER_SHARED totalSize spanSize byteSize)
             INVALID_FD INVALID_FD of
        Inl f \<Rightarrow> Inl f
      | Inr (r, b) \<Rightarrow> Inr (if r = SUCCESS then Some b else None))"

definition CreateFromRemote ::
    "os_env \<Rightarrow> u32 \<Rightarrow> u32 \<Rightarrow> u32 \<Rightarrow> AudioBufferHolder \<Rightarrow> int \<Rightarrow> int \<Rightarrow> OHAudioBuffer option exec" where
  "CreateFromRemote os totalSize spanSize byteSize holder dataFd infoFd =
     (if \<not> dataFd > 2 then Inr None
      else if infoFd \<noteq> INVALID_FD \<and> \<not> infoFd > 2 then Inr None
      else case OHAudioBuffer_Init os
                  (OHAudioBuffer_ctor holder totalSize spanSize byteSize)
                  dataFd infoFd of
             Inl f \<Rightarrow> Inl f
           | Inr (r, b) \<Rightarrow> Inr (if r \<noteq> SUCCESS then None else Some b))"

text \<open>The values \<open>WriteToParcel\<close> writes and \<open>ReadFromParcel\<close> reads, in order.\<close>

record buffer_parcel =
  p_holder :: AudioBufferHolder
  p_totalSizeInFrame :: u32
  p_spanSizeInFrame :: u32
  p_byteSizePerFrame :: u32
  p_dataFd :: int
  p_infoFd :: int

definition WriteToParcel :: "OHAudioBuffer \<Rightarrow> (err \<times> buffer_parcel option) exec" where
  "WriteToParcel b =
     (if \<not> (bufferHolder b = AUDIO_SERVER_SHARED \<or> bufferHolder b = AUDIO_SERVER_INDEPENDENT)
      then Inr (ERROR_INVALID_PARAM, None)
      else case (dataMem b, statusInfoMem b) of
             (Some dm, Some sm) \<Rightarrow>
               Inr (SUCCESS, Some \<lparr>p_holder = bufferHolder b,
                 p_totalSizeInFrame = totalSizeInFrame b, p_spanSizeInFrame = spanSizeInFrame b,
                 p_byteSizePerFrame = byteSizePerFrame b,
                 p_dataFd = sm_fd dm, p_infoFd = sm_fd sm\<rparr>)
           | _ \<Rightarrow> Inl NullDeref)"

definition ReadFromParcel :: "os_env \<Rightarrow> buffer_parcel \<Rightarrow> OHAudioBuffer option exec" where
  "ReadFromParcel os p =
     (if p_holder p \<noteq> AUDIO_SERVER_SHARED \<and> p_holder p \<noteq> AUDIO_SERVER_INDEPENDENT then Inr None
      else
        let holder = (if p_holder p = AUDIO_SERVER_SHARED then AUDIO_CLIENT else p_holder p)
        in CreateFromRemote os (p_totalSizeInFrame p) (p_spanSizeInFrame p)
             (p_byteSizePerFrame p) holder (p_dataFd p) (p_infoFd p))"

section \<open>Accessors\<close>

definition GetBufferHolder :: "OHAudioBuffer \<Rightarrow> AudioBufferHolder" where
  "GetBufferHolder b = bufferHolder b"

definition GetSizeParameter :: "OHAudioBuffer \<Rightarrow> err \<times> u32 \<times> u32 \<times> u32" where
  "GetSizeParameter b = (SUCCESS, totalSizeInFrame b, spanSizeInFrame b, byteSizePerFrame b)"

text \<open>The code hands out the address of the atomic; the model hands out its value.\<close>

definition GetStreamStatus :: "OHAudioBuffer \<Rightarrow> StreamStatus option" where
  "GetStreamStatus b = (case basicBufferInfo b of None \<Rightarrow> None | Some i \<Rightarrow> Some (streamStatus i))"

definition GetFutex :: "OHAudioBuffer \<Rightarrow> u32 option" where
  "GetFutex b = (case basicBufferInfo b of None \<Rightarrow> None | Some i \<Rightarrow> Some (futexObj i))"

definition clamp_volume :: "f32 \<Rightarrow> f32" where
  "clamp_volume v =
     (if f32_less v MIN_FLOAT_VOLUME then MIN_FLOAT_VOLUME
      else if f32_less MAX_FLOAT_VOLUME v then MAX_FLOAT_VOLUME else v)"

definition GetStreamVolume :: "OHAudioBuffer \<Rightarrow> f32" where
  "GetStreamVolume b =
     (case basicBufferInfo b of None \<Rightarrow> MAX_FLOAT_VOLUME | Some i \<Rightarrow> clamp_volume (streamVolume i))"

definition SetStreamVolume :: "OHAudioBuffer \<Rightarrow> f32 \<Rightarrow> bool \<times> OHAudioBuffer" where
  "SetStreamVolume b vol =
     (case basicBufferInfo b of
        None \<Rightarrow> (False, b)
      | Some i \<Rightarrow>
        if f32_less vol MIN_FLOAT_VOLUME \<or> f32_less MAX_FLOAT_VOLUME vol then (False, b)
        else (True, b\<lparr>basicBufferInfo := Some (i\<lparr>streamVolume := vol\<rparr>)\<rparr>))"

definition GetMuteFactor :: "OHAudioBuffer \<Rightarrow> f32" where
  "GetMuteFactor b =
     (case basicBufferInfo b of None \<Rightarrow> MAX_FLOAT_VOLUME | Some i \<Rightarrow> clamp_volume (muteFactor i))"

definition SetMuteFactor :: "OHAudioBuffer \<Rightarrow> f32 \<Rightarrow> bool \<times> OHAudioBuffer" where
  "SetMuteFactor b factor =
     (case basicBufferInfo b of
        None \<Rightarrow> (False, b)
      | Some i \<Rightarrow>
        if \<not> f32_eq factor MIN_FLOAT_VOLUME \<and> \<not> f32_eq factor MAX_FLOAT_VOLUME then (False, b)
        else (True, b\<lparr>basicBufferInfo := Some (i\<lparr>muteFactor := factor\<rparr>)\<rparr>))"

definition GetDuckFactor :: "OHAudioBuffer \<Rightarrow> f32" where
  "GetDuckFactor b =
     (case basicBufferInfo b of None \<Rightarrow> MAX_FLOAT_VOLUME | Some i \<Rightarrow> clamp_volume (duckFactor i))"

definition SetDuckFactor :: "OHAudioBuffer \<Rightarrow> f32 \<Rightarrow> bool \<times> OHAudioBuffer" where
  "SetDuckFactor b factor =
     (case basicBufferInfo b of
        None \<Rightarrow> (False, b)
      | Some i \<Rightarrow>
        if f32_less factor MIN_FLOAT_VOLUME \<or> f32_less MAX_FLOAT_VOLUME factor then (False, b)
        else (True, b\<lparr>basicBufferInfo := Some (i\<lparr>duckFactor := factor\<rparr>)\<rparr>))"

definition GetUnderrunCount :: "OHAudioBuffer \<Rightarrow> u32" where
  "GetUnderrunCount b = (case basicBufferInfo b of None \<Rightarrow> 0 | Some i \<Rightarrow> underrunCount i)"

definition SetUnderrunCount :: "OHAudioBuffer \<Rightarrow> u32 \<Rightarrow> bool \<times> OHAudioBuffer" where
  "SetUnderrunCount b c =
     (case basicBufferInfo b of
        None \<Rightarrow> (False, b)
      | Some i \<Rightarrow> (True, b\<lparr>basicBufferInfo := Some (i\<lparr>underrunCount := c\<rparr>)\<rparr>))"

definition GetHandleInfo :: "OHAudioBuffer \<Rightarrow> (u64 \<times> u64) option" where
  "GetHandleInfo b =
     (case basicBufferInfo b of None \<Rightarrow> None | Some i \<Rightarrow> Some (handlePos i, handleTime i))"

definition SetHandleInfo :: "OHAudioBuffer \<Rightarrow> u64 \<Rightarrow> u64 \<Rightarrow> OHAudioBuffer exec" where
  "SetHandleInfo b frames nanoTime =
     (case basicBufferInfo b of
        None \<Rightarrow> Inl NullDeref
      | Some i \<Rightarrow>
        Inr (b\<lparr>basicBufferInfo := Some (i\<lparr>handlePos := frames, handleTime := nanoTime\<rparr>)\<rparr>))"

definition GetSessionId :: "OHAudioBuffer \<Rightarrow> u32" where
  "GetSessionId b = sessionId b"

definition SetSessionId :: "OHAudioBuffer \<Rightarrow> u32 \<Rightarrow> err \<times> OHAudioBuffer" where
  "SetSessionId b s = (SUCCESS, b\<lparr>sessionId := s\<rparr>)"

definition GetSpanCount :: "OHAudioBuffer \<Rightarrow> u32" where
  "GetSpanCount b = spanConut b"

definition GetLastWrittenTime :: "OHAudioBuffer \<Rightarrow> u64" where
  "GetLastWrittenTime b = lastWrittenTime b"

definition SetLastWrittenTime :: "OHAudioBuffer \<Rightarrow> u64 \<Rightarrow> OHAudioBuffer" where
  "SetLastWrittenTime b t = b\<lparr>lastWrittenTime := t\<rparr>"

definition GetDataSize :: "OHAudioBuffer \<Rightarrow> u64" where
  "GetDataSize b = totalSizeInByte b"

section \<open>Positions\<close>

text \<open>\<open>totalSizeInFrame_\<close> and \<open>spanSizeInFrame_\<close> promoted to \<open>uint64_t\<close>.\<close>

abbreviation total64 :: "OHAudioBuffer \<Rightarrow> u64" where
  "total64 b \<equiv> ucast (totalSizeInFrame b)"

abbreviation span64 :: "OHAudioBuffer \<Rightarrow> u64" where
  "span64 b \<equiv> ucast (spanSizeInFrame b)"

abbreviation put_info :: "OHAudioBuffer \<Rightarrow> BasicBufferInfo \<Rightarrow> OHAudioBuffer" where
  "put_info b i \<equiv> b\<lparr>basicBufferInfo := Some i\<rparr>"

definition GetAvailableDataFrames :: "OHAudioBuffer \<Rightarrow> int exec" where
  "GetAvailableDataFrames b =
     (case basicBufferInfo b of
        None \<Rightarrow> Inl NullDeref
      | Some i \<Rightarrow>
        if \<not> curWriteFrame i \<ge> curReadFrame i then Inr (- 1)
        else
          let temp = (ucast (curWriteFrame i - curReadFrame i) :: u32)
          in if \<not> (temp \<le> 2147483647 \<and> temp \<le> totalSizeInFrame b) then Inr (- 1)
             else Inr (sint (totalSizeInFrame b - temp)))"

definition ResetCurReadWritePos :: "OHAudioBuffer \<Rightarrow> u64 \<Rightarrow> u64 \<Rightarrow> (err \<times> OHAudioBuffer) exec" where
  "ResetCurReadWritePos b readFrame writeFrame =
     (if \<not> (readFrame \<le> writeFrame \<and> writeFrame - readFrame < total64 b)
      then Inr (ERR_INVALID_PARAM, b)
      else case basicBufferInfo b of
             None \<Rightarrow> Inl NullDeref
           | Some i \<Rightarrow>
             Inr (SUCCESS, put_info b (i\<lparr>basePosInFrame := (readFrame div total64 b) * total64 b,
               curWriteFrame := writeFrame, curReadFrame := readFrame\<rparr>)))"

definition GetCurWriteFrame :: "OHAudioBuffer \<Rightarrow> u64" where
  "GetCurWriteFrame b = (case basicBufferInfo b of None \<Rightarrow> 0 | Some i \<Rightarrow> curWriteFrame i)"

definition GetCurReadFrame :: "OHAudioBuffer \<Rightarrow> u64" where
  "GetCurReadFrame b = (case basicBufferInfo b of None \<Rightarrow> 0 | Some i \<Rightarrow> curReadFrame i)"

definition SetCurWriteFrame :: "OHAudioBuffer \<Rightarrow> u64 \<Rightarrow> (err \<times> OHAudioBuffer) exec" where
  "SetCurWriteFrame b writeFrame =
     (case basicBufferInfo b of
        None \<Rightarrow> Inl NullDeref
      | Some i \<Rightarrow>
        if writeFrame = curWriteFrame i then Inr (SUCCESS, b)
        else if \<not> writeFrame > curWriteFrame i then Inr (ERR_INVALID_PARAM, b)
        else if spanSizeInFrame b = 0 then Inl DivByZero
        else
          let deltaToBase = writeFrame - basePosInFrame i
          in if deltaToBase div span64 b * span64 b \<noteq> deltaToBase then Inr (ERR_INVALID_PARAM, b)
             else if \<not> deltaToBase < ucast (totalSizeInFrame b + totalSizeInFrame b)
             then Inr (ERR_INVALID_PARAM, b)
             else if \<not> (writeFrame \<ge> curReadFrame i \<and> writeFrame - curReadFrame i \<le> total64 b)
             then Inr (ERR_INVALID_PARAM, b)
             else Inr (SUCCESS, put_info b (i\<lparr>curWriteFrame := writeFrame\<rparr>)))"

definition SetCurReadFrame :: "OHAudioBuffer \<Rightarrow> u64 \<Rightarrow> (err \<times> OHAudioBuffer) exec" where
  "SetCurReadFrame b readFrame =
     (case basicBufferInfo b of
        None \<Rightarrow> Inr (ERR_INVALID_PARAM, b)
      | Some i \<Rightarrow>
        if readFrame = curReadFrame i then Inr (SUCCESS, b)
        else if \<not> (readFrame \<ge> curReadFrame i \<and> readFrame \<le> curWriteFrame i)
        then Inr (ERR_INVALID_PARAM, b)
        else if spanSizeInFrame b = 0 then Inl DivByZero
        else
          let deltaToBase = readFrame - basePosInFrame i
          in if deltaToBase div span64 b * span64 b \<noteq> deltaToBase then Inr (ERR_INVALID_PARAM, b)
             else if deltaToBase > total64 b then Inr (ERR_INVALID_PARAM, b)
             else
               let i1 = (if deltaToBase = total64 b
                         then i\<lparr>basePosInFrame := basePosInFrame i + total64 b\<rparr> else i)
               in Inr (SUCCESS, put_info b (i1\<lparr>curReadFrame := readFrame\<rparr>)))"

text \<open>
  \<open>GetBufferByFrame\<close>: the byte offset of the span that holds a position. \<open>maxDelta\<close> and
  \<open>deltaToBase\<close> are computed in 32 bits, and so is the product with the frame size.
\<close>

definition GetBufferByFrame :: "OHAudioBuffer \<Rightarrow> u64 \<Rightarrow> (err + BufferDesc) exec" where
  "GetBufferByFrame b posInFrame =
     (case basicBufferInfo b of
        None \<Rightarrow> Inl NullDeref
      | Some i \<Rightarrow>
        let maxDelta = (ucast (2 * totalSizeInFrame b) :: u64)
        in if \<not> (posInFrame \<ge> basePosInFrame i \<and> posInFrame - basePosInFrame i < maxDelta)
           then Inr (Inl ERR_INVALID_PARAM)
           else
             let d0 = (ucast (posInFrame - basePosInFrame i) :: u32);
                 d1 = (if d0 \<ge> totalSizeInFrame b then d0 - totalSizeInFrame b else d0)
             in if \<not> (d1 < - 1 \<and> d1 < totalSizeInFrame b) then Inr (Inl ERR_INVALID_PARAM)
                else if spanSizeInFrame b = 0 then Inl DivByZero
                else
                  let d2 = (d1 div spanSizeInFrame b) * spanSizeInFrame b;
                      offset = (ucast (d2 * byteSizePerFrame b) :: u64)
                  in if \<not> offset < totalSizeInByte b then Inr (Inl ERR_INVALID_PARAM)
                     else Inr (Inr \<lparr>bufOffset = offset, bufLength = spanSizeInByte b,
                                     dataLength = spanSizeInByte b\<rparr>))"

definition GetWriteBuffer :: "OHAudioBuffer \<Rightarrow> u64 \<Rightarrow> (err + BufferDesc) exec" where
  "GetWriteBuffer b writePosInFrame =
     (case basicBufferInfo b of
        None \<Rightarrow> Inl NullDeref
      | Some i \<Rightarrow>
        let maxWriteDelta = (ucast (2 * totalSizeInFrame b) :: u64)
        in if \<not> (writePosInFrame \<ge> basePosInFrame i \<and>
                  writePosInFrame - basePosInFrame i < maxWriteDelta \<and>
                  writePosInFrame \<ge> curReadFrame i)
           then Inr (Inl ERR_INVALID_PARAM)
           else GetBufferByFrame b writePosInFrame)"

definition GetReadbuffer :: "OHAudioBuffer \<Rightarrow> u64 \<Rightarrow> (err + BufferDesc) exec" where
  "GetReadbuffer b readPosInFrame =
     (case basicBufferInfo b of
        None \<Rightarrow> Inl NullDeref
      | Some i \<Rightarrow>
        if \<not> (readPosInFrame \<ge> basePosInFrame i \<and>
              readPosInFrame - basePosInFrame i < total64 b)
        then Inr (Inl ERR_INVALID_PARAM)
        else GetBufferByFrame b readPosInFrame)"

text \<open>A pointer to a \<open>SpanInfo\<close> is its index in \<open>spanInfoList_\<close>.\<close>

definition GetSpanInfo :: "OHAudioBuffer \<Rightarrow> u64 \<Rightarrow> u32 option exec" where
  "GetSpanInfo b posInFrame =
     (case basicBufferInfo b of
        None \<Rightarrow> Inl NullDeref
      | Some i \<Rightarrow>
        let basePos = basePosInFrame i; maxPos = basePos + total64 b + total64 b
        in if \<not> (basePos \<le> posInFrame \<and> posInFrame < maxPos) then Inr None
           else
             let d0 = posInFrame - basePos;
                 d1 = (if d0 \<ge> total64 b then d0 - total64 b else d0)
             in if \<not> (d1 < 4294967295 \<and> d1 < total64 b) then Inr None
                else if spanSizeInFrame b > 0
                then let spanIndex = (ucast (d1 div span64 b) :: u32)
                     in if \<not> spanIndex < spanConut b then Inr None else Inr (Some spanIndex)
                else Inr None)"

definition GetSpanInfoByIndex :: "OHAudioBuffer \<Rightarrow> u32 \<Rightarrow> u32 option" where
  "GetSpanInfoByIndex b spanIndex =
     (if \<not> spanIndex < spanConut b then None else Some spanIndex)"

end
