(* ===== verification/SpanRing.thy ===== *)
theory SpanRing
  imports OHAudioBuffer
begin

text \<open>
  Correctness of the span ring of \<open>OHAudioBuffer\<close>. \<open>geometry_ok\<close> is what \<open>SizeCheck\<close> leaves
  behind, \<open>window_ok\<close> the relation between base, read and write position, both over the
  natural numbers the words denote. \<open>ring_step\<close> is one call of any operation that changes
  the buffer; the invariant is proved for every state such calls reach.
\<close>

section \<open>The invariant\<close>

abbreviation totalN :: "OHAudioBuffer \<Rightarrow> nat" where "totalN b \<equiv> unat (totalSizeInFrame b)"
abbreviation spanN :: "OHAudioBuffer \<Rightarrow> nat" where "spanN b \<equiv> unat (spanSizeInFrame b)"
abbreviation byteN :: "OHAudioBuffer \<Rightarrow> nat" where "byteN b \<equiv> unat (byteSizePerFrame b)"
abbreviation baseN :: "BasicBufferInfo \<Rightarrow> nat" where "baseN i \<equiv> unat (basePosInFrame i)"
abbreviation readN :: "BasicBufferInfo \<Rightarrow> nat" where "readN i \<equiv> unat (curReadFrame i)"
abbreviation writeN :: "BasicBufferInfo \<Rightarrow> nat" where "writeN i \<equiv> unat (curWriteFrame i)"

definition geometry_ok :: "OHAudioBuffer \<Rightarrow> bool" where
  "geometry_ok b \<longleftrightarrow>
     0 < spanN b \<and> 0 < totalN b \<and> 0 < byteN b \<and> spanN b dvd totalN b \<and>
     totalN b * byteN b < 10485760 \<and>
     unat (totalSizeInByte b) = totalN b * byteN b \<and>
     unat (spanSizeInByte b) = spanN b * byteN b \<and>
     unat (spanConut b) = totalN b div spanN b"

definition window_ok :: "OHAudioBuffer \<Rightarrow> BasicBufferInfo \<Rightarrow> bool" where
  "window_ok b i \<longleftrightarrow>
     totalN b dvd baseN i \<and> baseN i \<le> readN i \<and> readN i < baseN i + totalN b \<and>
     readN i \<le> writeN i \<and> writeN i \<le> readN i + totalN b"

definition ring_ok :: "OHAudioBuffer \<Rightarrow> bool" where
  "ring_ok b \<longleftrightarrow> geometry_ok b \<and>
     (case basicBufferInfo b of None \<Rightarrow> False | Some i \<Rightarrow> window_ok b i)"

text \<open>Read and write position on span boundaries: the discipline of the two endpoints.\<close>

definition spans_aligned :: "OHAudioBuffer \<Rightarrow> bool" where
  "spans_aligned b =
     (case basicBufferInfo b of None \<Rightarrow> False
      | Some i \<Rightarrow> spanN b dvd readN i \<and> spanN b dvd writeN i)"

lemma ring_okE:
  assumes "ring_ok b"
  obtains i where "basicBufferInfo b = Some i" "geometry_ok b" "window_ok b i"
  using assms by (auto simp: ring_ok_def split: option.splits)

lemma geometry_span_pos: "geometry_ok b \<Longrightarrow> spanSizeInFrame b \<noteq> 0"
  by (auto simp: geometry_ok_def)

lemma geometry_total_small:
  assumes "geometry_ok b"
  shows "totalN b < 10485760"
proof -
  from assms have "0 < byteN b" and lt: "totalN b * byteN b < 10485760"
    by (simp_all add: geometry_ok_def)
  then have "totalN b \<le> totalN b * byteN b" by (cases "byteN b") simp_all
  from this lt show ?thesis by (rule order.strict_trans1)
qed

lemma geometry_put_info [simp]: "geometry_ok (put_info b i) = geometry_ok b"
  by (simp add: geometry_ok_def)

lemma window_put_info [simp]: "window_ok (put_info b j) i = window_ok b i"
  by (simp add: window_ok_def)

lemma unat_total_twice:
  assumes "geometry_ok b"
  shows "unat (totalSizeInFrame b + totalSizeInFrame b) = 2 * totalN b"
proof -
  have "totalN b + totalN b < 2 ^ LENGTH(32)"
    using geometry_total_small [OF assms] by simp
  then have "unat (totalSizeInFrame b + totalSizeInFrame b) = totalN b + totalN b"
    by (rule unat_add_small)
  then show ?thesis by (simp only: mult_2)
qed

lemma unat_two_total: "geometry_ok b \<Longrightarrow> unat (2 * totalSizeInFrame b) = 2 * totalN b"
  using unat_total_twice [of b] by (simp only: mult_2 [symmetric])

section \<open>Construction\<close>

lemma SizeCheck_success:
  assumes "SizeCheck b = Inr (SUCCESS, b')"
  shows "geometry_ok b' \<and> basicBufferInfo b' = basicBufferInfo b"
proof -
  let ?t = "totalSizeInFrame b" and ?s = "spanSizeInFrame b" and ?y = "byteSizePerFrame b"
  from assms have s: "?s \<noteq> 0" "\<not> ?t < ?s" "?t mod ?s = 0" "?y \<noteq> 0" "\<not> ?t > (- 1) div ?y"
    and small: "(ucast (?t * ?y) :: u64) < MAX_MMAP_BUFFER_SIZE"
    and b': "b' = b\<lparr>totalSizeInByte := ucast (?t * ?y), spanSizeInByte := ucast (?s * ?y),
                spanConut := ?t div ?s\<rparr>"
    by (auto simp: SizeCheck_def Let_def split: if_splits)
  have y: "0 < unat ?y" using s(4) by (simp add: unat_gt_0)
  have sp: "0 < unat ?s" using s(1) by (simp add: unat_gt_0)
  have le: "unat ?s \<le> unat ?t" using s(2) by (simp add: word_le_nat_alt [symmetric])
  have "unat ?t \<le> unat ((- 1 :: u32) div ?y)" using s(5) by (simp add: word_le_nat_alt [symmetric])
  also have "\<dots> = (2 ^ 32 - 1) div unat ?y"
    by (simp add: unat_div_distrib unsigned_minus_1_eq_mask mask_eq_exp_minus_1)
  finally have "unat ?t * unat ?y \<le> 2 ^ 32 - 1"
    by (metis y less_eq_div_iff_mult_less_eq)
  then have ty: "unat (?t * ?y) = unat ?t * unat ?y"
    by (intro unat_mult_small) simp
  have "unat ?s * unat ?y \<le> unat ?t * unat ?y" using le by (rule mult_le_mono1)
  also have "\<dots> \<le> 2 ^ 32 - 1" by fact
  finally have "unat ?s * unat ?y < 2 ^ LENGTH(32)" by simp
  then have sy: "unat (?s * ?y) = unat ?s * unat ?y"
    by (rule unat_mult_small)
  have "unat ?t mod unat ?s = 0"
    using s(3) by (metis unat_0 unat_mod_distrib)
  then have dvd: "unat ?s dvd unat ?t" by auto
  have "unat (ucast (?t * ?y) :: u64) < unat MAX_MMAP_BUFFER_SIZE"
    using small by (simp only: word_less_nat_alt)
  then have "unat ?t * unat ?y < 10485760"
    by (simp only: unat_ucast_32_64 ty) (simp add: MAX_MMAP_BUFFER_SIZE_def)
  then show ?thesis
    using y sp le dvd unfolding b' geometry_ok_def
    by (simp add: ty sy unat_div_distrib)
qed

lemma geometry_upd [simp]:
  "geometry_ok (b\<lparr>statusInfoMem := x1\<rparr>) = geometry_ok b"
  "geometry_ok (b\<lparr>dataMem := x2\<rparr>) = geometry_ok b"
  "geometry_ok (b\<lparr>dataBase := x3\<rparr>) = geometry_ok b"
  "geometry_ok (b\<lparr>basicBufferInfo := x4\<rparr>) = geometry_ok b"
  "geometry_ok (b\<lparr>spanInfoList := x5\<rparr>) = geometry_ok b"
  "geometry_ok (b\<lparr>sessionId := x6\<rparr>) = geometry_ok b"
  "geometry_ok (b\<lparr>lastWrittenTime := x7\<rparr>) = geometry_ok b"
  by (simp_all add: geometry_ok_def)

lemma window_ok_start:
  assumes "geometry_ok b"
  shows "window_ok b' (init_positions i) = (0 < totalN b')"
    and "window_ok b' (init_server_info b'' (init_positions i)) = (0 < totalN b')"
  by (auto simp: window_ok_def init_positions_def init_server_info_def)

lemma OHAudioBuffer_Init_ok:
  assumes "OHAudioBuffer_Init os b0 dataFd infoFd = Inr (SUCCESS, b)"
  shows "ring_ok b \<and> spans_aligned b"
proof -
  obtain r b1 where sz: "SizeCheck b0 = Inr (r, b1)"
    using assms by (cases "SizeCheck b0") (auto simp: OHAudioBuffer_Init_def)
  have r: "r = SUCCESS"
    using assms by (rule contrapos_pp) (simp add: OHAudioBuffer_Init_def sz)
  from sz r have g: "geometry_ok b1" by (simp add: SizeCheck_success)
  then have t: "0 < totalN b1" by (simp add: geometry_ok_def)
  show ?thesis
    using assms g t unfolding OHAudioBuffer_Init_def sz r ring_ok_def spans_aligned_def
    by (simp add: Let_def window_ok_start split: option.splits prod.splits)
       (auto simp: init_positions_def init_server_info_def window_ok_def)
qed

lemma CreateFromLocal_ok:
  "CreateFromLocal os t s y = Inr (Some b) \<Longrightarrow> ring_ok b \<and> spans_aligned b"
  by (auto simp: CreateFromLocal_def split: sum.splits prod.splits if_splits
      dest: OHAudioBuffer_Init_ok)

lemma CreateFromRemote_ok:
  "CreateFromRemote os t s y h d f = Inr (Some b) \<Longrightarrow> ring_ok b \<and> spans_aligned b"
  by (auto simp: CreateFromRemote_def split: sum.splits prod.splits if_splits
      dest: OHAudioBuffer_Init_ok)

section \<open>Every operation keeps the window\<close>

lemma ResetCurReadWritePos_ok:
  assumes ok: "ring_ok b" and res: "ResetCurReadWritePos b r w = Inr (e, b')"
  shows "ring_ok b'"
proof -
  from ok obtain i where i: "basicBufferInfo b = Some i" "geometry_ok b" "window_ok b i"
    by (rule ring_okE)
  show ?thesis
  proof (cases "r \<le> w \<and> w - r < total64 b")
    case False
    with res ok show ?thesis by (auto simp: ResetCurReadWritePos_def)
  next
    case True
    let ?base = "(r div total64 b) * total64 b"
    from True have rw: "unat r \<le> unat w" by (simp add: word_le_nat_alt)
    from True have "unat (w - r) < totalN b"
      by (simp only: word_less_nat_alt unat_ucast_32_64)
    with True have d: "unat w - unat r < totalN b" by (simp only: unat_sub_le)
    have b0: "unat ?base = unat r div totalN b * totalN b"
      by (simp only: unat_div_mult unat_ucast_32_64)
    have t: "0 < totalN b" using i(2) by (simp add: geometry_ok_def)
    have "unat r = unat r div totalN b * totalN b + unat r mod totalN b" by simp
    moreover have "unat r mod totalN b < totalN b" using t by simp
    moreover have "totalN b dvd unat r div totalN b * totalN b" by simp
    ultimately have
      "window_ok b (i\<lparr>basePosInFrame := ?base, curWriteFrame := w, curReadFrame := r\<rparr>)"
      unfolding window_ok_def using rw d b0 by (simp; linarith)
    with True res i(1,2) show ?thesis
      by (auto simp: ResetCurReadWritePos_def ring_ok_def)
  qed
qed

lemma SetCurWriteFrame_cases:
  assumes "ring_ok b" and "basicBufferInfo b = Some i" and "SetCurWriteFrame b w = Inr (e, b')"
  shows "(b' = b \<and> (e = SUCCESS \<longleftrightarrow> w = curWriteFrame i)) \<or>
    (e = SUCCESS \<and> b' = put_info b (i\<lparr>curWriteFrame := w\<rparr>) \<and>
      writeN i < unat w \<and> unat w \<le> readN i + totalN b \<and> spanN b dvd unat w - baseN i)"
proof -
  from assms(1,2) have g: "geometry_ok b" and win: "window_ok b i"
    by (auto elim!: ring_okE)
  have s0: "spanSizeInFrame b \<noteq> 0" using g by (rule geometry_span_pos)
  let ?d = "w - basePosInFrame i"
  show ?thesis
  proof (cases "curWriteFrame i < w \<and> ?d div span64 b * span64 b = ?d \<and>
      ?d < ucast (totalSizeInFrame b + totalSizeInFrame b) \<and>
      curReadFrame i \<le> w \<and> w - curReadFrame i \<le> total64 b")
    case False
    with assms(3) show ?thesis
      unfolding SetCurWriteFrame_def Let_def assms(2)
      by (simp only: option.case s0 if_False sum.inject prod.inject split: if_split_asm)
         (simp_all only: err_neq_SUCCESS simp_thms)
  next
    case True
    then have lt: "writeN i < unat w" by (simp add: word_less_nat_alt)
    with win have bw: "basePosInFrame i \<le> w" by (simp add: word_le_nat_alt window_ok_def)
    from True have "unat (w - curReadFrame i) \<le> totalN b"
      by (simp only: word_le_nat_alt unat_ucast_32_64)
    with True have le: "unat w \<le> readN i + totalN b" by (simp add: unat_sub_le)
    from True have "spanN b dvd unat ?d"
      by (simp only: word_div_mult_eq_iff unat_ucast_32_64)
    with bw have dv: "spanN b dvd unat w - baseN i" by (simp only: unat_sub_le)
    from True have c: "curWriteFrame i < w" "?d div span64 b * span64 b = ?d"
      "?d < ucast (totalSizeInFrame b + totalSizeInFrame b)"
      "curReadFrame i \<le> w" "w - curReadFrame i \<le> total64 b" by blast+
    from c(1) have ne: "w \<noteq> curWriteFrame i" by (rule order.strict_implies_not_eq [symmetric])
    have "SetCurWriteFrame b w = Inr (SUCCESS, put_info b (i\<lparr>curWriteFrame := w\<rparr>))"
      by (simp only: SetCurWriteFrame_def Let_def assms(2) option.case c ne s0 simp_thms if_False)
    with assms(3) lt le dv show ?thesis by simp
  qed
qed

lemma SetCurWriteFrame_ok:
  assumes ok: "ring_ok b" and res: "SetCurWriteFrame b w = Inr (e, b')"
  shows "ring_ok b'"
proof -
  from ok obtain i where i: "basicBufferInfo b = Some i" "geometry_ok b" "window_ok b i"
    by (rule ring_okE)
  from SetCurWriteFrame_cases [OF ok i(1) res] ok i show ?thesis
    by (auto simp: ring_ok_def window_ok_def)
qed

lemma SetCurReadFrame_cases:
  assumes "ring_ok b" and "basicBufferInfo b = Some i" and "SetCurReadFrame b r = Inr (e, b')"
  shows "(b' = b \<and> (e = SUCCESS \<longleftrightarrow> r = curReadFrame i)) \<or>
    (e = SUCCESS \<and> readN i \<le> unat r \<and> unat r \<le> writeN i \<and>
      spanN b dvd unat r - baseN i \<and> unat r \<le> baseN i + totalN b \<and>
      b' = put_info b (i\<lparr>basePosInFrame := (if unat r = baseN i + totalN b then r else basePosInFrame i),
             curReadFrame := r\<rparr>))"
proof -
  from assms(1,2) have g: "geometry_ok b" and win: "window_ok b i"
    by (auto elim!: ring_okE)
  have s0: "spanSizeInFrame b \<noteq> 0" using g by (rule geometry_span_pos)
  let ?d = "r - basePosInFrame i"
  show ?thesis
  proof (cases "r \<noteq> curReadFrame i \<and> curReadFrame i \<le> r \<and> r \<le> curWriteFrame i \<and>
      ?d div span64 b * span64 b = ?d \<and> \<not> ?d > total64 b")
    case False
    with assms(3) show ?thesis
      unfolding SetCurReadFrame_def Let_def assms(2)
      by (simp only: option.case s0 if_False sum.inject prod.inject split: if_split_asm)
         (simp_all only: err_neq_SUCCESS simp_thms)
  next
    case True
    then have c: "r \<noteq> curReadFrame i" "curReadFrame i \<le> r" "r \<le> curWriteFrame i"
      "?d div span64 b * span64 b = ?d" "\<not> ?d > total64 b" by blast+
    have n: "readN i \<le> unat r" "unat r \<le> writeN i"
      using c(2,3) by (simp_all only: word_le_nat_alt)
    have bN: "baseN i \<le> unat r" using n(1) win by (simp add: window_ok_def)
    then have br: "basePosInFrame i \<le> r" by (simp only: word_le_nat_alt)
    have dN: "unat ?d = unat r - baseN i" using br by (rule unat_sub)
    have dv: "spanN b dvd unat r - baseN i"
      using c(4) by (simp only: word_div_mult_eq_iff unat_ucast_32_64 dN)
    have "unat ?d \<le> totalN b"
      using c(5) by (simp only: not_less word_le_nat_alt unat_ucast_32_64)
    then have le: "unat r \<le> baseN i + totalN b" using dN by linarith
    have eq: "(?d = total64 b) = (unat r = baseN i + totalN b)"
    proof -
      have "(?d = total64 b) = (unat ?d = totalN b)"
        by (simp only: word_unat_eq_iff unat_ucast_32_64)
      also have "\<dots> = (unat r = baseN i + totalN b)" using dN bN by linarith
      finally show ?thesis .
    qed
    have nb: "?d = total64 b \<Longrightarrow> basePosInFrame i + total64 b = r"
      by (simp only: eq_diff_eq' [symmetric] add.commute diff_eq_eq)
    have "SetCurReadFrame b r = Inr (SUCCESS, put_info b (i\<lparr>basePosInFrame :=
        (if ?d = total64 b then basePosInFrame i + total64 b else basePosInFrame i),
        curReadFrame := r\<rparr>))"
      by (simp add: SetCurReadFrame_def assms(2) c s0 del: word_div_mult_le)
    then have "e = SUCCESS \<and> b' = put_info b (i\<lparr>basePosInFrame :=
        (if unat r = baseN i + totalN b then r else basePosInFrame i), curReadFrame := r\<rparr>)"
      using assms(3) nb eq by (simp split: if_splits)
    then show ?thesis using n dv le by blast
  qed
qed

lemma SetCurReadFrame_ok:
  assumes ok: "ring_ok b" and res: "SetCurReadFrame b r = Inr (e, b')"
  shows "ring_ok b'"
proof -
  from ok obtain i where i: "basicBufferInfo b = Some i" "geometry_ok b" "window_ok b i"
    by (rule ring_okE)
  from i(2) have "0 < totalN b" by (simp add: geometry_ok_def)
  then show ?thesis
    using SetCurReadFrame_cases [OF ok i(1) res] ok i
    by (auto simp: ring_ok_def window_ok_def)
qed

section \<open>Reachable buffers\<close>

text \<open>One call of an operation that changes the buffer, by either endpoint.\<close>

inductive ring_step :: "OHAudioBuffer \<Rightarrow> OHAudioBuffer \<Rightarrow> bool" where
  set_write: "SetCurWriteFrame b w = Inr (e, b') \<Longrightarrow> ring_step b b'"
| set_read: "SetCurReadFrame b r = Inr (e, b') \<Longrightarrow> ring_step b b'"
| reset: "ResetCurReadWritePos b r w = Inr (e, b') \<Longrightarrow> ring_step b b'"
| set_volume: "SetStreamVolume b v = (f, b') \<Longrightarrow> ring_step b b'"
| set_mute: "SetMuteFactor b v = (f, b') \<Longrightarrow> ring_step b b'"
| set_duck: "SetDuckFactor b v = (f, b') \<Longrightarrow> ring_step b b'"
| set_underrun: "SetUnderrunCount b c = (f, b') \<Longrightarrow> ring_step b b'"
| set_handle: "SetHandleInfo b n t = Inr b' \<Longrightarrow> ring_step b b'"
| set_session: "SetSessionId b s = (e, b') \<Longrightarrow> ring_step b b'"
| set_written: "ring_step b (SetLastWrittenTime b t)"

inductive ring_reachable :: "os_env \<Rightarrow> OHAudioBuffer \<Rightarrow> bool" for os where
  local: "CreateFromLocal os t s y = Inr (Some b) \<Longrightarrow> ring_reachable os b"
| remote: "CreateFromRemote os t s y h d f = Inr (Some b) \<Longrightarrow> ring_reachable os b"
| step: "ring_reachable os b \<Longrightarrow> ring_step b b' \<Longrightarrow> ring_reachable os b'"

lemma window_ok_upd [simp]:
  "window_ok b (i\<lparr>streamVolume := v\<rparr>) = window_ok b i"
  "window_ok b (i\<lparr>muteFactor := v\<rparr>) = window_ok b i"
  "window_ok b (i\<lparr>duckFactor := v\<rparr>) = window_ok b i"
  "window_ok b (i\<lparr>underrunCount := c\<rparr>) = window_ok b i"
  "window_ok b (i\<lparr>handlePos := n, handleTime := t\<rparr>) = window_ok b i"
  "window_ok (b\<lparr>sessionId := s\<rparr>) i = window_ok b i"
  "window_ok (b\<lparr>lastWrittenTime := t\<rparr>) i = window_ok b i"
  by (simp_all add: window_ok_def)

lemmas setter_defs =
  SetStreamVolume_def SetMuteFactor_def SetDuckFactor_def SetUnderrunCount_def
  SetHandleInfo_def SetSessionId_def SetLastWrittenTime_def

lemma ring_step_ok: "ring_step b b' \<Longrightarrow> ring_ok b \<Longrightarrow> ring_ok b'"
proof (induction rule: ring_step.induct)
  case (set_write b w e b') then show ?case by (rule SetCurWriteFrame_ok [rotated])
next
  case (set_read b r e b') then show ?case by (rule SetCurReadFrame_ok [rotated])
next
  case (reset b r w e b') then show ?case by (rule ResetCurReadWritePos_ok [rotated])
qed (auto simp: setter_defs ring_ok_def split: option.splits if_splits)

lemma ring_reachable_ok: "ring_reachable os b \<Longrightarrow> ring_ok b"
  by (induction rule: ring_reachable.induct)
     (auto dest: CreateFromLocal_ok CreateFromRemote_ok ring_step_ok)

section \<open>The spans handed out\<close>

text \<open>The byte offset of the span that holds a frame position.\<close>

definition span_offset :: "OHAudioBuffer \<Rightarrow> nat \<Rightarrow> nat" where
  "span_offset b pos = (pos mod totalN b div spanN b * spanN b) * byteN b"

lemma mod_below_twice: "(n::nat) < 2 * t \<Longrightarrow> n mod t = (if t \<le> n then n - t else n)"
  by (simp add: mod_if)

lemma ring_delta:
  assumes "totalN b dvd baseN i" and "baseN i \<le> n"
  shows "(n - baseN i) mod totalN b = n mod totalN b"
  using assms by (metis dvd_def le_add_diff_inverse mod_mult_self2 add.commute)

lemma GetBufferByFrame_rejects:
  assumes g: "geometry_ok b" and i: "basicBufferInfo b = Some i"
    and out: "unat pos < baseN i \<or> baseN i + 2 * totalN b \<le> unat pos"
  shows "GetBufferByFrame b pos = Inr (Inl ERR_INVALID_PARAM)"
proof -
  have "\<not> (basePosInFrame i \<le> pos \<and> pos - basePosInFrame i < ucast (2 * totalSizeInFrame b))"
  proof
    assume a: "basePosInFrame i \<le> pos \<and> pos - basePosInFrame i < ucast (2 * totalSizeInFrame b)"
    then have "unat (pos - basePosInFrame i) < 2 * totalN b"
      by (simp only: word_less_nat_alt unat_ucast_32_64 unat_two_total [OF g])
    with a have "unat pos - baseN i < 2 * totalN b" by (simp only: unat_sub_le)
    moreover from a have "baseN i \<le> unat pos" by (simp only: word_le_nat_alt)
    ultimately show False using out by linarith
  qed
  then show ?thesis
    by (simp only: GetBufferByFrame_def Let_def i option.case simp_thms if_True)
qed

lemma GetBufferByFrame_spec:
  assumes g: "geometry_ok b" and i: "basicBufferInfo b = Some i" and al: "totalN b dvd baseN i"
    and lo: "baseN i \<le> unat pos" and hi: "unat pos < baseN i + 2 * totalN b"
  shows "\<exists>d. GetBufferByFrame b pos = Inr (Inr d) \<and>
    unat (bufOffset d) = span_offset b (unat pos) \<and> unat (bufLength d) = spanN b * byteN b"
proof -
  from g have pos: "0 < spanN b" "0 < totalN b" "0 < byteN b" "spanN b dvd totalN b"
    and small: "totalN b * byteN b < 10485760"
    and bytes: "unat (totalSizeInByte b) = totalN b * byteN b"
      "unat (spanSizeInByte b) = spanN b * byteN b"
    by (simp_all add: geometry_ok_def)
  have t: "totalN b < 10485760" using g by (rule geometry_total_small)
  let ?d0 = "ucast (pos - basePosInFrame i) :: u32"
  let ?d1 = "if ?d0 \<ge> totalSizeInFrame b then ?d0 - totalSizeInFrame b else ?d0"
  let ?d2 = "(?d1 div spanSizeInFrame b) * spanSizeInFrame b"
  let ?off = "ucast (?d2 * byteSizePerFrame b) :: u64"
  have le: "basePosInFrame i \<le> pos" using lo by (simp only: word_le_nat_alt)
  have dN: "unat (pos - basePosInFrame i) = unat pos - baseN i" using le by (rule unat_sub)
  have dlt: "unat pos - baseN i < 2 * totalN b" using lo hi by linarith
  have inr: "pos - basePosInFrame i < ucast (2 * totalSizeInFrame b)"
    by (simp only: word_less_nat_alt unat_ucast_32_64 unat_two_total [OF g] dN dlt)
  have d0: "unat ?d0 = unat pos - baseN i"
    using unat_ucast_64_32 [of "pos - basePosInFrame i"] dN dlt t by simp
  have d1: "unat ?d1 = unat pos mod totalN b"
  proof -
    have "unat ?d1 = (if totalN b \<le> unat ?d0 then unat ?d0 - totalN b else unat ?d0)"
      by (simp add: word_le_nat_alt unat_sub)
    also have "\<dots> = (unat pos - baseN i) mod totalN b"
      using mod_below_twice [OF dlt] d0 by simp
    finally show ?thesis using ring_delta [OF al lo] by simp
  qed
  have m: "unat pos mod totalN b < totalN b" using pos(2) by simp
  have d1t: "?d1 < totalSizeInFrame b" by (simp only: word_less_nat_alt d1 m)
  have d1m: "?d1 < - 1"
    using d1t by (rule order.strict_trans2) (simp add: word_order.extremum)
  have d2: "unat ?d2 = unat pos mod totalN b div spanN b * spanN b"
    by (simp only: unat_div_mult d1)
  have d2le: "unat pos mod totalN b div spanN b * spanN b \<le> unat pos mod totalN b" by simp
  then have d2t: "unat pos mod totalN b div spanN b * spanN b < totalN b" using m by linarith
  then have mt: "span_offset b (unat pos) < totalN b * byteN b"
    unfolding span_offset_def using pos(3) by simp
  have off: "unat ?off = span_offset b (unat pos)"
  proof -
    have "unat ?d2 * byteN b < 2 ^ LENGTH(32)"
      using mt small by (simp only: d2 span_offset_def [symmetric]) simp
    then have "unat (?d2 * byteSizePerFrame b) = unat ?d2 * byteN b"
      by (rule unat_mult_small)
    then show ?thesis by (simp only: unat_ucast_32_64 d2 span_offset_def)
  qed
  have offt: "?off < totalSizeInByte b"
    by (simp only: word_less_nat_alt off bytes mt)
  have "GetBufferByFrame b pos = Inr (Inr \<lparr>bufOffset = ?off, bufLength = spanSizeInByte b,
      dataLength = spanSizeInByte b\<rparr>)"
    by (simp only: GetBufferByFrame_def Let_def i option.case le inr d1m d1t offt simp_thms
        if_False geometry_span_pos [OF g])
  then show ?thesis using off bytes by simp
qed

lemma span_offset_in_bounds:
  assumes "geometry_ok b"
  shows "span_offset b n + spanN b * byteN b \<le> totalN b * byteN b"
proof -
  from assms have pos: "0 < spanN b" "0 < totalN b" "spanN b dvd totalN b"
    by (simp_all add: geometry_ok_def)
  then obtain k where k: "totalN b = spanN b * k" by (auto simp: dvd_def)
  have "n mod totalN b < spanN b * k" using pos k by simp
  then have "n mod totalN b div spanN b < k"
    by (simp add: div_less_iff_less_mult pos mult.commute)
  then have "(n mod totalN b div spanN b + 1) * spanN b \<le> k * spanN b"
    by (intro mult_le_mono1) simp
  then have "n mod totalN b div spanN b * spanN b + spanN b \<le> totalN b"
    by (simp add: k algebra_simps)
  then have "(n mod totalN b div spanN b * spanN b + spanN b) * byteN b \<le> totalN b * byteN b"
    by (rule mult_le_mono1)
  then show ?thesis by (simp add: span_offset_def algebra_simps)
qed

text \<open>Span-aligned positions less than one ring apart lie in disjoint spans.\<close>

lemma aligned_offset:
  assumes "geometry_ok b" and "spanN b dvd n"
  shows "span_offset b n = (n mod totalN b) * byteN b"
  using assms by (simp add: span_offset_def geometry_ok_def dvd_mod)

lemma mod_neq_within:
  fixes m n t :: nat
  assumes "m < n" and "n < m + t"
  shows "m mod t \<noteq> n mod t"
proof
  assume "m mod t = n mod t"
  with assms(1) have "t dvd n - m" by (metis mod_eq_dvd_iff_nat less_imp_le)
  then show False using assms by (auto dest: dvd_imp_le)
qed

lemma spans_disjoint:
  assumes g: "geometry_ok b" and al: "spanN b dvd m" "spanN b dvd n"
    and w: "m < n" "n < m + totalN b"
  shows "span_offset b m + spanN b * byteN b \<le> span_offset b n \<or>
         span_offset b n + spanN b * byteN b \<le> span_offset b m"
proof -
  have dv: "spanN b dvd totalN b" using g by (simp add: geometry_ok_def)
  have am: "spanN b dvd m mod totalN b" and an: "spanN b dvd n mod totalN b"
    using al dv by (simp_all add: dvd_mod)
  have *: "x + spanN b \<le> y" if "x < y" "spanN b dvd x" "spanN b dvd y" for x y :: nat
  proof -
    from that have "spanN b dvd y - x" by simp
    with that(1) have "spanN b \<le> y - x" by (simp add: dvd_imp_le)
    with that(1) show ?thesis by linarith
  qed
  have "m mod totalN b < n mod totalN b \<or> n mod totalN b < m mod totalN b"
    using mod_neq_within [OF w] by linarith
  then have "m mod totalN b + spanN b \<le> n mod totalN b \<or> n mod totalN b + spanN b \<le> m mod totalN b"
    using * am an by blast
  then show ?thesis
    using mult_le_mono1 [of "m mod totalN b + spanN b" "n mod totalN b" "byteN b"]
      mult_le_mono1 [of "n mod totalN b + spanN b" "m mod totalN b" "byteN b"]
    by (auto simp: aligned_offset [OF g al(1)] aligned_offset [OF g al(2)] add_mult_distrib)
qed

text \<open>Reading span by span.\<close>

lemma GetReadbuffer_spec:
  assumes "ring_ok b" and i: "basicBufferInfo b = Some i"
  shows "\<exists>d. GetReadbuffer b (curReadFrame i) = Inr (Inr d) \<and>
    unat (bufOffset d) = span_offset b (readN i) \<and> unat (bufLength d) = spanN b * byteN b"
proof -
  from assms have g: "geometry_ok b" and w: "window_ok b i" by (auto elim!: ring_okE)
  from w have base: "totalN b dvd baseN i" "baseN i \<le> readN i" "readN i < baseN i + totalN b"
    by (simp_all add: window_ok_def)
  have "basePosInFrame i \<le> curReadFrame i" using base(2) by (simp add: word_le_nat_alt)
  moreover have "curReadFrame i - basePosInFrame i < total64 b"
    using base calculation by (simp add: word_less_nat_alt unat_sub_le)
  ultimately show ?thesis
    using GetBufferByFrame_spec [OF g i base(1,2)] base(3) by (simp add: GetReadbuffer_def i)
qed

lemma SetCurReadFrame_advances:
  assumes r: "ring_ok b" "spans_aligned b" and i: "basicBufferInfo b = Some i"
    and room: "readN i + spanN b \<le> writeN i"
  shows "SetCurReadFrame b (curReadFrame i + span64 b) =
    Inr (SUCCESS, put_info b (i\<lparr>basePosInFrame := (if readN i + spanN b = baseN i + totalN b
           then basePosInFrame i + total64 b else basePosInFrame i),
         curReadFrame := curReadFrame i + span64 b\<rparr>))"
proof -
  from r i have g: "geometry_ok b" and w: "window_ok b i" by (auto elim!: ring_okE)
  have al: "spanN b dvd readN i" using r(2) i by (simp add: spans_aligned_def)
  from g have s: "0 < spanN b" "spanN b dvd totalN b" by (simp_all add: geometry_ok_def)
  let ?r = "curReadFrame i + span64 b"
  have rN: "unat ?r = readN i + spanN b"
    using room u64_bound [of "curWriteFrame i"] by (subst unat_add_small) simp_all
  have base: "spanN b dvd baseN i" using s(2) w unfolding window_ok_def by (meson dvd_trans)
  have dN: "unat (?r - basePosInFrame i) = readN i + spanN b - baseN i"
    using w rN by (subst unat_sub_le) (simp_all add: word_le_nat_alt window_ok_def)
  have "spanN b dvd readN i + spanN b - baseN i" using al base by (intro dvd_diff_nat) simp_all
  then have d: "(?r - basePosInFrame i) div span64 b * span64 b = ?r - basePosInFrame i"
    by (simp only: word_div_mult_eq_iff dN unat_ucast_32_64)
  have le: "readN i + spanN b - baseN i \<le> totalN b"
  proof -
    from al base s(2) obtain x y z where x: "readN i = spanN b * x" and y: "baseN i = spanN b * y"
      and z: "totalN b = spanN b * z" by (auto simp: dvd_def)
    have "spanN b * x < spanN b * (y + z)" using w x y z by (simp add: window_ok_def algebra_simps)
    then have "x < y + z" using s(1) by simp
    then have "spanN b * (x + 1) \<le> spanN b * (y + z)" by (intro mult_le_mono2) simp
    then show ?thesis using x y z by (simp add: algebra_simps)
  qed
  have c: "?r \<noteq> curReadFrame i" "curReadFrame i \<le> ?r" "?r \<le> curWriteFrame i" "\<not> ?r - basePosInFrame i > total64 b"
    using rN s(1) room le by (auto simp: word_le_nat_alt word_less_nat_alt dN)
  have e: "(?r - basePosInFrame i = total64 b) = (readN i + spanN b = baseN i + totalN b)"
    using w by (simp add: word_unat_eq_iff dN window_ok_def) arith
  show ?thesis
    unfolding SetCurReadFrame_def Let_def i option.case e
    using c geometry_span_pos [OF g] d by simp
qed

lemma SetCurReadFrame_refuses:
  assumes "basicBufferInfo b = Some i" and "\<not> readN i + spanN b \<le> writeN i" and "geometry_ok b"
    and "readN i + spanN b < 2 ^ 64"
  shows "SetCurReadFrame b (curReadFrame i + span64 b) = Inr (ERR_INVALID_PARAM, b)"
proof -
  have rN: "unat (curReadFrame i + span64 b) = readN i + spanN b"
    using assms(4) by (subst unat_add_small) simp_all
  have "curReadFrame i + span64 b \<noteq> curReadFrame i"
    using rN assms(3) by (auto simp: geometry_ok_def)
  moreover have "\<not> curReadFrame i + span64 b \<le> curWriteFrame i"
    using rN assms(2) by (simp add: word_le_nat_alt)
  ultimately show ?thesis by (simp add: SetCurReadFrame_def assms(1))
qed

section \<open>A concrete ring\<close>

text \<open>An operating system whose calls succeed, and the ring of four two-frame spans on it.\<close>

definition demo_info :: BasicBufferInfo where
  "demo_info = \<lparr>bi_totalSizeInFrame = 0, bi_spanSizeInFrame = 0, bi_byteSizePerFrame = 0,
     futexObj = 0, streamStatus = STREAM_IDEL, basePosInFrame = 0, curWriteFrame = 0,
     curReadFrame = 0, underrunCount = 0, handlePos = 0, handleTime = 0,
     streamVolume = FFin 0, duckFactor = FFin 0, muteFactor = FFin 0\<rparr>"

definition demo_span :: SpanInfo where
  "demo_span = \<lparr>spanStatus = SPAN_IDEL, offsetInFrame = 0, writeStartTime = 0,
     writeDoneTime = 0, readStartTime = 0, readDoneTime = 0, isMute = False,
     volumeStart = 0, volumeEnd = 0\<rparr>"

definition demo_os :: os_env where
  "demo_os = \<lparr>os_AshmemCreate = (\<lambda>_ _. 5), os_mmap_ok = (\<lambda>_ _. True), os_dup = (\<lambda>fd. fd),
     os_statusMem = (\<lambda>_. demo_info), os_spanMem = (\<lambda>_ _. demo_span)\<rparr>"

definition demo_mem :: "u64 \<Rightarrow> string \<Rightarrow> AudioSharedMemory" where
  "demo_mem sz name = \<lparr>sm_base = True, sm_fd = 5, sm_size = sz, sm_name = name\<rparr>"

definition demo_ring :: "u64 \<Rightarrow> u64 \<Rightarrow> u64 \<Rightarrow> OHAudioBuffer" where
  "demo_ring base r w =
     \<lparr>sessionId = 0, bufferHolder = AUDIO_SERVER_SHARED, totalSizeInFrame = 8,
      spanSizeInFrame = 2, byteSizePerFrame = 4, lastWrittenTime = 0, totalSizeInByte = 32,
      spanSizeInByte = 8, spanConut = 4, audioMode = AUDIO_MODE_PLAYBACK,
      statusInfoMem = Some (demo_mem 344 STATUS_INFO_BUFFER),
      basicBufferInfo = Some (init_server_info
        (OHAudioBuffer_ctor AUDIO_SERVER_SHARED 8 2 4) (init_positions demo_info)
        \<lparr>basePosInFrame := base, curReadFrame := r, curWriteFrame := w\<rparr>),
      spanInfoList = replicate 4 (demo_span\<lparr>spanStatus := SPAN_INVALID\<rparr>),
      dataMem = Some (demo_mem 32 ''server_client_buffer''), dataBase = True\<rparr>"

lemma four_spans: "map f [0..<4] = [f 0, f 1, f 2, f (3::nat)]" "replicate 4 x = [x, x, x, x]"
proof -
  have "[0..<4] = [0, 1, 2, 3::nat]" by code_simp
  then show "map f [0..<4] = [f 0, f 1, f 2, f (3::nat)]" by simp
  show "replicate 4 x = [x, x, x, x]" by (simp add: numeral_eq_Suc)
qed

lemma demo_ring_created: "CreateFromLocal demo_os 8 2 4 = Inr (Some (demo_ring 0 0 0))"
  by (simp add: CreateFromLocal_def OHAudioBuffer_Init_def SizeCheck_def OHAudioBuffer_ctor_def
      CreateFormLocal_def AudioSharedMemoryImpl_local_def AudioSharedMemoryImpl_Init_def
      cfg_defs demo_os_def demo_mem_def demo_ring_def init_server_info_def init_positions_def
      four_spans)

lemma demo_ring_reachable_start: "ring_reachable demo_os (demo_ring 0 0 0)"
  using demo_ring_created by (rule ring_reachable.local)

lemma demo_ring_write:
  "w \<in> {2, 4, 6, 8} \<Longrightarrow> SetCurWriteFrame (demo_ring 0 0 0) w = Inr (SUCCESS, demo_ring 0 0 w)"
  by (auto simp: SetCurWriteFrame_def demo_ring_def init_server_info_def init_positions_def)

lemma demo_ring_reachable:
  "w \<in> {2, 4, 6, 8} \<Longrightarrow> ring_reachable demo_os (demo_ring 0 0 w)"
  by (rule ring_reachable.step [OF demo_ring_reachable_start])
     (rule ring_step.set_write [OF demo_ring_write])

section \<open>Properties\<close>

text \<open>
  C5: In every buffer that any sequence of operations reaches, the base is a multiple of the
  ring size and base \<open>\<le>\<close> read \<open><\<close> base + total and read \<open>\<le>\<close> write \<open>\<le>\<close> read + total.
\<close>

theorem ring_window_invariant:
  assumes "ring_reachable os b"
  shows "\<exists>i. basicBufferInfo b = Some i \<and> totalN b dvd baseN i \<and>
    baseN i \<le> readN i \<and> readN i < baseN i + totalN b \<and>
    readN i \<le> writeN i \<and> writeN i \<le> readN i + totalN b"
  using ring_reachable_ok [OF assms] by (auto elim!: ring_okE simp: window_ok_def)

theorem ring_window_invariant_witness:
  "ring_reachable demo_os (demo_ring 0 0 6) \<and>
   (\<exists>i. basicBufferInfo (demo_ring 0 0 6) = Some i \<and> writeN i \<le> readN i + 8)"
proof -
  have r: "ring_reachable demo_os (demo_ring 0 0 6)" by (simp add: demo_ring_reachable)
  from ring_window_invariant [OF r] obtain i where
    "basicBufferInfo (demo_ring 0 0 6) = Some i"
    "writeN i \<le> readN i + totalN (demo_ring 0 0 6)" by blast
  with r show ?thesis by (simp add: demo_ring_def)
qed

text \<open>
  C6: \<open>GetBufferByFrame\<close> answers every position: within two ring lengths of the base it
  returns the span of the position modulo the ring, which lies inside the data buffer;
  outside it returns \<open>ERR_INVALID_PARAM\<close>. It never divides by zero.
\<close>

theorem span_handed_out_in_bounds:
  assumes "ring_reachable os b" and "basicBufferInfo b = Some i"
  shows "(baseN i \<le> unat pos \<and> unat pos < baseN i + 2 * totalN b \<and>
      (\<exists>d. GetBufferByFrame b pos = Inr (Inr d) \<and>
        unat (bufOffset d) = span_offset b (unat pos) \<and>
        unat (bufOffset d) + unat (bufLength d) \<le> unat (totalSizeInByte b))) \<or>
    ((unat pos < baseN i \<or> baseN i + 2 * totalN b \<le> unat pos) \<and>
      GetBufferByFrame b pos = Inr (Inl ERR_INVALID_PARAM))"
proof (cases "baseN i \<le> unat pos \<and> unat pos < baseN i + 2 * totalN b")
  case True
  from ring_reachable_ok [OF assms(1)] assms(2) have g: "geometry_ok b" and w: "window_ok b i"
    by (auto elim!: ring_okE)
  have bytes: "unat (totalSizeInByte b) = totalN b * byteN b"
    using g by (simp add: geometry_ok_def)
  have "totalN b dvd baseN i" using w by (simp add: window_ok_def)
  from GetBufferByFrame_spec [OF g assms(2) this] True obtain d where
    d: "GetBufferByFrame b pos = Inr (Inr d)" "unat (bufOffset d) = span_offset b (unat pos)"
      "unat (bufLength d) = spanN b * byteN b" by blast
  have "unat (bufOffset d) + unat (bufLength d) \<le> unat (totalSizeInByte b)"
    by (simp only: d bytes span_offset_in_bounds [OF g])
  with d True show ?thesis by blast
next
  case False
  have "geometry_ok b" using ring_reachable_ok [OF assms(1)] by (rule ring_okE)
  with False assms(2) show ?thesis
    by (metis GetBufferByFrame_rejects not_le)
qed

theorem span_handed_out_in_bounds_witness:
  "\<exists>d. GetBufferByFrame (demo_ring 0 0 6) 13 = Inr (Inr d) \<and>
     unat (bufOffset d) = 16 \<and> unat (bufOffset d) + unat (bufLength d) \<le> 32"
proof -
  have r: "ring_reachable demo_os (demo_ring 0 0 6)" by (simp add: demo_ring_reachable)
  obtain i where i: "basicBufferInfo (demo_ring 0 0 6) = Some i" "baseN i = 0"
    by (simp add: demo_ring_def)
  from span_handed_out_in_bounds [OF r i(1), of 13] i(2) show ?thesis
    by (auto simp: demo_ring_def span_offset_def)
qed

text \<open>
  C7: While the ring is not full, the span \<open>GetWriteBuffer\<close> hands out for the write position
  shares no byte with any span that is still to be read.
\<close>

theorem write_span_never_unread:
  assumes "ring_reachable os b" and i: "basicBufferInfo b = Some i" and "spans_aligned b"
    and room: "writeN i < readN i + totalN b"
  shows "\<exists>dw. GetWriteBuffer b (curWriteFrame i) = Inr (Inr dw) \<and>
    (\<forall>pos. readN i \<le> unat pos \<longrightarrow> unat pos < writeN i \<longrightarrow> spanN b dvd unat pos \<longrightarrow>
      (\<exists>dr. GetBufferByFrame b pos = Inr (Inr dr) \<and>
        (unat (bufOffset dr) + unat (bufLength dr) \<le> unat (bufOffset dw) \<or>
         unat (bufOffset dw) + unat (bufLength dw) \<le> unat (bufOffset dr))))"
proof -
  from ring_reachable_ok [OF assms(1)] i have g: "geometry_ok b" and w: "window_ok b i"
    by (auto elim!: ring_okE)
  from w have al: "totalN b dvd baseN i" and wn: "baseN i \<le> readN i"
    "readN i < baseN i + totalN b" "readN i \<le> writeN i" by (simp_all add: window_ok_def)
  have aw: "spanN b dvd writeN i" using assms(3) i by (simp add: spans_aligned_def)
  from wn room have inw: "baseN i \<le> writeN i" "writeN i < baseN i + 2 * totalN b" by linarith+
  from GetBufferByFrame_spec [OF g i al inw] obtain dw where
    dw: "GetBufferByFrame b (curWriteFrame i) = Inr (Inr dw)"
      "unat (bufOffset dw) = span_offset b (writeN i)" "unat (bufLength dw) = spanN b * byteN b"
    by blast
  have guard: "basePosInFrame i \<le> curWriteFrame i"
    "curWriteFrame i - basePosInFrame i < ucast (2 * totalSizeInFrame b)"
    "curReadFrame i \<le> curWriteFrame i"
  proof -
    show le: "basePosInFrame i \<le> curWriteFrame i" using inw by (simp only: word_le_nat_alt)
    have "writeN i - baseN i < 2 * totalN b" using inw by linarith
    then show "curWriteFrame i - basePosInFrame i < ucast (2 * totalSizeInFrame b)"
      by (simp only: word_less_nat_alt unat_ucast_32_64 unat_two_total [OF g] unat_sub_le [OF le])
    show "curReadFrame i \<le> curWriteFrame i" using wn(3) by (simp only: word_le_nat_alt)
  qed
  have gw: "GetWriteBuffer b (curWriteFrame i) = Inr (Inr dw)"
    by (simp only: GetWriteBuffer_def Let_def i option.case guard simp_thms if_False dw)
  have "\<exists>dr. GetBufferByFrame b pos = Inr (Inr dr) \<and>
        (unat (bufOffset dr) + unat (bufLength dr) \<le> unat (bufOffset dw) \<or>
         unat (bufOffset dw) + unat (bufLength dw) \<le> unat (bufOffset dr))"
    if p: "readN i \<le> unat pos" "unat pos < writeN i" "spanN b dvd unat pos" for pos
  proof -
    from p wn room have inp: "baseN i \<le> unat pos" "unat pos < baseN i + 2 * totalN b"
      "writeN i < unat pos + totalN b" by linarith+
    from GetBufferByFrame_spec [OF g i al inp(1,2)]
      spans_disjoint [OF g p(3) aw p(2) inp(3)]
    show ?thesis by (metis dw(2,3))
  qed
  with gw show ?thesis by blast
qed

theorem write_span_never_unread_witness:
  "\<exists>dw. GetWriteBuffer (demo_ring 0 0 6) 6 = Inr (Inr dw) \<and>
    (\<exists>dr. GetBufferByFrame (demo_ring 0 0 6) 4 = Inr (Inr dr) \<and>
      (unat (bufOffset dr) + unat (bufLength dr) \<le> unat (bufOffset dw) \<or>
       unat (bufOffset dw) + unat (bufLength dw) \<le> unat (bufOffset dr)))"
proof -
  have r: "ring_reachable demo_os (demo_ring 0 0 6)" by (simp add: demo_ring_reachable)
  obtain i where i: "basicBufferInfo (demo_ring 0 0 6) = Some i"
    "curWriteFrame i = 6" "curReadFrame i = 0"
    by (simp add: demo_ring_def)
  have a: "spans_aligned (demo_ring 0 0 6)" by (simp add: spans_aligned_def demo_ring_def)
  have room: "writeN i < readN i + totalN (demo_ring 0 0 6)"
    by (simp add: i demo_ring_def)
  have d: "spanN (demo_ring 0 0 6) dvd unat (4 :: u64)" by (simp add: demo_ring_def)
  from write_span_never_unread [OF r i(1) a room] i(2,3) d show ?thesis by fastforce
qed

text \<open>
  The write position may run a whole ring ahead of the read position, and then
  \<open>GetWriteBuffer\<close> hands out the very bytes of the oldest unread span: a writer has to ask
  \<open>GetAvailableDataFrames\<close> first, which answers 0 there.
\<close>

theorem full_ring_hands_out_unread_span:
  "ring_reachable demo_os (demo_ring 0 0 8) \<and>
   GetCurWriteFrame (demo_ring 0 0 8) - GetCurReadFrame (demo_ring 0 0 8)
     = total64 (demo_ring 0 0 8) \<and>
   GetWriteBuffer (demo_ring 0 0 8) 8 = GetReadbuffer (demo_ring 0 0 8) 0 \<and>
   isl (projr (GetWriteBuffer (demo_ring 0 0 8) 8)) = False \<and>
   GetAvailableDataFrames (demo_ring 0 0 8) = Inr 0"
proof -
  have r: "ring_reachable demo_os (demo_ring 0 0 8)" by (simp add: demo_ring_reachable)
  have w: "GetWriteBuffer (demo_ring 0 0 8) 8 =
      Inr (Inr \<lparr>bufOffset = 0, bufLength = 8, dataLength = 8\<rparr>)"
    by (simp add: GetWriteBuffer_def GetBufferByFrame_def demo_ring_def)
  have rd: "GetReadbuffer (demo_ring 0 0 8) 0 =
      Inr (Inr \<lparr>bufOffset = 0, bufLength = 8, dataLength = 8\<rparr>)"
    by (simp add: GetReadbuffer_def GetBufferByFrame_def demo_ring_def)
  show ?thesis
    unfolding w rd using r
    by (simp add: GetCurWriteFrame_def GetCurReadFrame_def GetAvailableDataFrames_def demo_ring_def)
qed

lemma free_frames:
  fixes r w t :: nat
  assumes "r \<le> w" and "w \<le> r + t"
  shows "int (t - (w - r)) = int t - (int w - int r)" and "0 \<le> int t - (int w - int r)"
  using assms by linarith+

text \<open>
  In every reachable buffer \<open>GetAvailableDataFrames\<close> is the exact number of free frames,
  between 0 and the ring size; the truncation to 32 bits never shows.
\<close>

theorem available_frames_exact:
  assumes "ring_reachable os b" and i: "basicBufferInfo b = Some i"
  shows "GetAvailableDataFrames b = Inr (int (totalN b) - (int (writeN i) - int (readN i))) \<and>
    0 \<le> int (totalN b) - (int (writeN i) - int (readN i))"
proof -
  from ring_reachable_ok [OF assms(1)] i have g: "geometry_ok b" and w: "window_ok b i"
    by (auto elim!: ring_okE)
  have t: "totalN b < 10485760" using g by (rule geometry_total_small)
  from w have wn: "readN i \<le> writeN i" "writeN i \<le> readN i + totalN b"
    by (simp_all add: window_ok_def)
  let ?temp = "ucast (curWriteFrame i - curReadFrame i) :: u32"
  have le: "curReadFrame i \<le> curWriteFrame i" using wn(1) by (simp only: word_le_nat_alt)
  have dN: "unat (curWriteFrame i - curReadFrame i) = writeN i - readN i"
    using le by (rule unat_sub)
  then have "unat (curWriteFrame i - curReadFrame i) < 2 ^ 32" using wn t by simp
  then have temp: "unat ?temp = writeN i - readN i" using unat_ucast_64_32 dN by simp
  have tt: "?temp \<le> totalSizeInFrame b" using temp wn by (simp add: word_le_nat_alt)
  have t31: "?temp \<le> 2147483647" using temp wn t by (simp add: word_le_nat_alt)
  have res: "unat (totalSizeInFrame b - ?temp) = totalN b - (writeN i - readN i)"
    using unat_sub [OF tt] temp by simp
  then have small: "unat (totalSizeInFrame b - ?temp) < 2 ^ 31" using t by simp
  have "sint (totalSizeInFrame b - ?temp) = int (unat (totalSizeInFrame b - ?temp))"
    using small by (rule sint_small_u32)
  moreover have "GetAvailableDataFrames b = Inr (sint (totalSizeInFrame b - ?temp))"
    by (simp only: GetAvailableDataFrames_def Let_def i option.case le t31 tt simp_thms if_False)
  ultimately show ?thesis by (simp only: res free_frames [OF wn] simp_thms)
qed

theorem available_frames_exact_witness:
  "GetAvailableDataFrames (demo_ring 0 0 6) = Inr 2"
proof -
  have r: "ring_reachable demo_os (demo_ring 0 0 6)" by (simp add: demo_ring_reachable)
  obtain i where i: "basicBufferInfo (demo_ring 0 0 6) = Some i"
    "curWriteFrame i = 6" "curReadFrame i = 0"
    by (simp add: demo_ring_def)
  have "totalN (demo_ring 0 0 6) = 8" by (simp add: demo_ring_def)
  with available_frames_exact [OF r i(1)] i(2,3) show ?thesis by simp
qed

text \<open>
  On a reachable buffer no position operation divides by zero or follows a null pointer,
  whatever its arguments are.
\<close>

theorem position_operations_never_fault:
  assumes "ring_reachable os b"
  shows "(\<exists>r. SetCurWriteFrame b n = Inr r) \<and> (\<exists>r. SetCurReadFrame b n = Inr r) \<and>
    (\<exists>r. ResetCurReadWritePos b n m = Inr r) \<and> (\<exists>r. GetAvailableDataFrames b = Inr r) \<and>
    (\<exists>r. GetBufferByFrame b n = Inr r) \<and> (\<exists>r. GetWriteBuffer b n = Inr r) \<and>
    (\<exists>r. GetReadbuffer b n = Inr r) \<and> (\<exists>r. GetSpanInfo b n = Inr r)"
proof -
  from ring_reachable_ok [OF assms] obtain i where i: "basicBufferInfo b = Some i"
    and g: "geometry_ok b" by (rule ring_okE)
  have s0: "spanSizeInFrame b \<noteq> 0" using g by (rule geometry_span_pos)
  have inr: "(\<exists>r. x = Inr r) = (\<not> isl x)" for x :: "fault + 'a" by (cases x) simp_all
  have ite: "isl (if c then x else y) = (if c then isl x else isl y)" for c and x y :: "fault + 'a"
    by simp
  have get: "\<not> isl (GetBufferByFrame b n)"
    by (simp only: GetBufferByFrame_def Let_def i option.case ite s0 if_False sum.disc if_cancel
        simp_thms)
  show ?thesis
    unfolding inr
    by (simp only: SetCurWriteFrame_def SetCurReadFrame_def ResetCurReadWritePos_def
        GetAvailableDataFrames_def GetWriteBuffer_def GetReadbuffer_def GetSpanInfo_def Let_def i
        option.case ite s0 get if_False sum.disc if_cancel simp_thms)
qed

theorem position_operations_never_fault_witness:
  "\<exists>r. GetBufferByFrame (demo_ring 0 0 6) 1000 = Inr r"
proof -
  have r: "ring_reachable demo_os (demo_ring 0 0 6)" by (simp add: demo_ring_reachable)
  from position_operations_never_fault [OF r, of 1000] show ?thesis by blast
qed

text \<open>
  The volume setters of an initialised buffer accept exactly the factors in [0, 1] and
  not-a-number, which their two ordered comparisons let through; the getter then returns it
  unclamped. The mute setter, which compares for equality, refuses it.
\<close>

theorem volume_guard_accepts_nan:
  assumes "basicBufferInfo b = Some i"
  shows "fst (SetStreamVolume b v) = (v = FNaN \<or> (\<exists>q. v = FFin q \<and> 0 \<le> q \<and> q \<le> 1)) \<and>
    (fst (SetStreamVolume b v) \<longrightarrow> GetStreamVolume (snd (SetStreamVolume b v)) = v) \<and>
    (\<not> fst (SetStreamVolume b v) \<longrightarrow> snd (SetStreamVolume b v) = b) \<and>
    fst (SetDuckFactor b v) = fst (SetStreamVolume b v) \<and>
    fst (SetMuteFactor b v) = (v = FFin 0 \<or> v = FFin 1)"
  by (cases v)
     (auto simp: assms SetStreamVolume_def GetStreamVolume_def SetDuckFactor_def SetMuteFactor_def
        clamp_volume_def MIN_FLOAT_VOLUME_def MAX_FLOAT_VOLUME_def f32_eq_def)

theorem volume_guard_accepts_nan_witness:
  "fst (SetStreamVolume (demo_ring 0 0 0) FNaN) \<and>
   GetStreamVolume (snd (SetStreamVolume (demo_ring 0 0 0) FNaN)) = FNaN \<and>
   \<not> fst (SetMuteFactor (demo_ring 0 0 0) FNaN)"
proof -
  obtain i where i: "basicBufferInfo (demo_ring 0 0 0) = Some i" by (simp add: demo_ring_def)
  from volume_guard_accepts_nan [OF i, of FNaN] show ?thesis by simp
qed

lemma SizeCheck_holder:
  "SizeCheck b = Inr (r, b1) \<Longrightarrow>
   SizeCheck (b\<lparr>bufferHolder := h\<rparr>) = Inr (r, b1\<lparr>bufferHolder := h\<rparr>)"
  unfolding SizeCheck_def Let_def by (cases b) (auto split: if_split_asm)

lemma SizeCheck_keeps:
  "SizeCheck b = Inr (r, b1) \<Longrightarrow>
   totalSizeInFrame b1 = totalSizeInFrame b \<and> spanSizeInFrame b1 = spanSizeInFrame b \<and>
   byteSizePerFrame b1 = byteSizePerFrame b \<and> bufferHolder b1 = bufferHolder b"
  unfolding SizeCheck_def Let_def by (auto split: if_splits)

lemma CreateFormLocal_cases:
  "CreateFormLocal os sz name = Some m \<Longrightarrow>
   0 < sz \<and> sz < MAX_MMAP_BUFFER_SIZE \<and> sm_fd m > 0 \<and> sm_size m = sz \<and> sm_name m = name"
  by (auto simp: CreateFormLocal_def AudioSharedMemoryImpl_Init_def AudioSharedMemoryImpl_local_def
      INVALID_FD_def Let_def split: if_splits)

lemma SharedMemory_CreateFromRemote_succeeds:
  assumes "fd > 2" and "0 < sz" and "sz < MAX_MMAP_BUFFER_SIZE"
    and "\<And>f. f > 2 \<Longrightarrow> 0 < os_dup os f" and "\<And>f n. os_mmap_ok os f n"
  shows "SharedMemory_CreateFromRemote os fd sz name =
    Some \<lparr>sm_base = True, sm_fd = os_dup os fd, sm_size = sz, sm_name = name\<rparr>"
  using assms by (simp add: SharedMemory_CreateFromRemote_def AudioSharedMemoryImpl_Init_def
      AudioSharedMemoryImpl_remote_def Let_def)

lemma CreateFromLocal_shape:
  assumes "CreateFromLocal os t s y = Inr (Some b)"
  obtains b1 sm dm where
    "SizeCheck (OHAudioBuffer_ctor AUDIO_SERVER_SHARED t s y) = Inr (SUCCESS, b1)"
    "CreateFormLocal os (sizeof_BasicBufferInfo + ucast (spanConut b1) * sizeof_SpanInfo)
       STATUS_INFO_BUFFER = Some sm"
    "CreateFormLocal os (totalSizeInByte b1) ''server_client_buffer'' = Some dm"
    "statusInfoMem b = Some sm" "dataMem b = Some dm" "bufferHolder b = AUDIO_SERVER_SHARED"
    "totalSizeInFrame b = t" "spanSizeInFrame b = s" "byteSizePerFrame b = y"
    "spanConut b = spanConut b1" "totalSizeInByte b = totalSizeInByte b1"
    "spanSizeInByte b = spanSizeInByte b1"
proof -
  let ?c = "OHAudioBuffer_ctor AUDIO_SERVER_SHARED t s y"
  from assms have init: "OHAudioBuffer_Init os ?c INVALID_FD INVALID_FD = Inr (SUCCESS, b)"
    by (auto simp: CreateFromLocal_def split: sum.splits prod.splits if_splits)
  obtain r b1 where sz: "SizeCheck ?c = Inr (r, b1)"
    using init by (cases "SizeCheck ?c") (auto simp: OHAudioBuffer_Init_def)
  have r: "r = SUCCESS"
    using init by (rule contrapos_pp) (simp add: OHAudioBuffer_Init_def sz)
  have keep: "totalSizeInFrame b1 = t" "spanSizeInFrame b1 = s" "byteSizePerFrame b1 = y"
    "bufferHolder b1 = AUDIO_SERVER_SHARED"
    using SizeCheck_keeps [OF sz] by (simp_all add: OHAudioBuffer_ctor_def)
  show thesis
    using init unfolding OHAudioBuffer_Init_def sz r
    by (simp add: Let_def keep split: option.splits) (rule that [OF sz [unfolded r]], auto simp: keep)
qed

text \<open>The same memory under another descriptor: size and name are those of \<open>m\<close>.\<close>

definition mapped_copy :: "os_env \<Rightarrow> AudioSharedMemory \<Rightarrow> AudioSharedMemory" where
  "mapped_copy os m = \<lparr>sm_base = True, sm_fd = os_dup os (sm_fd m), sm_size = sm_size m, sm_name = sm_name m\<rparr>"

text \<open>
  C18: The buffer a server writes to a parcel reaches the client: with descriptors above 2 that can
  be duplicated and mapped, \<open>ReadFromParcel\<close> succeeds on the values \<open>WriteToParcel\<close> wrote. The
  client's buffer has the same geometry; its two memories are the server's, of the same size and name,
  under duplicated descriptors, and its status and spans are what these memories hold, the
  positions at the start. Its holder is the client, and its window invariant holds.
\<close>

theorem buffer_parcel_roundtrip:
  assumes local: "CreateFromLocal os t s y = Inr (Some b)"
    and fds: "sm_fd (the (dataMem b)) > 2" "sm_fd (the (statusInfoMem b)) > 2"
    and dup: "\<And>f. f > 2 \<Longrightarrow> 0 < os_dup os f" and map: "\<And>f n. os_mmap_ok os f n"
  shows "\<exists>p c. WriteToParcel b = Inr (SUCCESS, Some p) \<and> ReadFromParcel os p = Inr (Some c) \<and>
    bufferHolder c = AUDIO_CLIENT \<and> GetSizeParameter c = GetSizeParameter b \<and>
    spanConut c = spanConut b \<and> totalSizeInByte c = totalSizeInByte b \<and>
    spanSizeInByte c = spanSizeInByte b \<and>
    dataMem c = Some (mapped_copy os (the (dataMem b))) \<and>
    statusInfoMem c = Some (mapped_copy os (the (statusInfoMem b))) \<and> dataBase c \<and>
    basicBufferInfo c = Some (init_positions (os_statusMem os (os_dup os (sm_fd (the (statusInfoMem b)))))) \<and>
    spanInfoList c = map (os_spanMem os (os_dup os (sm_fd (the (statusInfoMem b))))) [0..<unat (spanConut b)] \<and>
    ring_ok c"
proof -
  from local obtain b1 sm dm where
    b1: "SizeCheck (OHAudioBuffer_ctor AUDIO_SERVER_SHARED t s y) = Inr (SUCCESS, b1)"
    and sm: "CreateFormLocal os (sizeof_BasicBufferInfo + ucast (spanConut b1) * sizeof_SpanInfo)
       STATUS_INFO_BUFFER = Some sm"
    and dm: "CreateFormLocal os (totalSizeInByte b1) ''server_client_buffer'' = Some dm"
    and b: "statusInfoMem b = Some sm" "dataMem b = Some dm" "bufferHolder b = AUDIO_SERVER_SHARED"
    "totalSizeInFrame b = t" "spanSizeInFrame b = s" "byteSizePerFrame b = y"
    "spanConut b = spanConut b1" "totalSizeInByte b = totalSizeInByte b1"
    "spanSizeInByte b = spanSizeInByte b1"
    by (rule CreateFromLocal_shape)
  let ?c0 = "OHAudioBuffer_ctor AUDIO_CLIENT t s y"
  let ?b2 = "b1\<lparr>bufferHolder := AUDIO_CLIENT\<rparr>"
  have c0: "?c0 = (OHAudioBuffer_ctor AUDIO_SERVER_SHARED t s y)\<lparr>bufferHolder := AUDIO_CLIENT\<rparr>"
    by (simp add: OHAudioBuffer_ctor_def)
  have sz: "SizeCheck ?c0 = Inr (SUCCESS, ?b2)"
    unfolding c0 using b1 by (rule SizeCheck_holder)
  have k: "totalSizeInFrame b1 = t" "spanSizeInFrame b1 = s" "byteSizePerFrame b1 = y"
    using SizeCheck_keeps [OF b1] by (simp_all add: OHAudioBuffer_ctor_def)
  have sm': "SharedMemory_CreateFromRemote os (sm_fd sm)
      (sizeof_BasicBufferInfo + ucast (spanConut b1) * sizeof_SpanInfo) STATUS_INFO_BUFFER = Some (mapped_copy os sm)"
    using SharedMemory_CreateFromRemote_succeeds [OF _ _ _ dup map] CreateFormLocal_cases [OF sm]
      fds(2) b(1) by (simp add: mapped_copy_def)
  have dm': "SharedMemory_CreateFromRemote os (sm_fd dm) (totalSizeInByte b1)
      ''server_client_buffer'' = Some (mapped_copy os dm)"
    using SharedMemory_CreateFromRemote_succeeds [OF _ _ _ dup map] CreateFormLocal_cases [OF dm]
      fds(1) b(2) by (simp add: mapped_copy_def)
  have nf: "sm_fd sm \<noteq> INVALID_FD" "sm_fd dm \<noteq> INVALID_FD" "2 < sm_fd sm" "2 < sm_fd dm"
    using fds b(1,2) by (simp_all add: INVALID_FD_def)
  obtain c where init: "OHAudioBuffer_Init os ?c0 (sm_fd dm) (sm_fd sm) = Inr (SUCCESS, c)"
    and c: "bufferHolder c = AUDIO_CLIENT" "totalSizeInFrame c = t" "spanSizeInFrame c = s"
      "byteSizePerFrame c = y" "spanConut c = spanConut b1"
      "totalSizeInByte c = totalSizeInByte b1" "spanSizeInByte c = spanSizeInByte b1"
      "dataMem c = Some (mapped_copy os dm)" "statusInfoMem c = Some (mapped_copy os sm)" "dataBase c"
      "basicBufferInfo c = Some (init_positions (os_statusMem os (os_dup os (sm_fd sm))))"
      "spanInfoList c = map (os_spanMem os (os_dup os (sm_fd sm))) [0..<unat (spanConut b1)]"
    by (simp add: OHAudioBuffer_Init_def mapped_copy_def sz Let_def nf sm' dm' k)
  let ?p = "\<lparr>p_holder = AUDIO_SERVER_SHARED, p_totalSizeInFrame = t, p_spanSizeInFrame = s,
    p_byteSizePerFrame = y, p_dataFd = sm_fd dm, p_infoFd = sm_fd sm\<rparr>"
  have "WriteToParcel b = Inr (SUCCESS, Some ?p)" by (simp add: WriteToParcel_def b)
  moreover have "ReadFromParcel os ?p = Inr (Some c)"
    by (simp add: ReadFromParcel_def CreateFromRemote_def nf init)
  ultimately show ?thesis
    using c b OHAudioBuffer_Init_ok [OF init] by (auto simp: GetSizeParameter_def)
qed

theorem buffer_parcel_roundtrip_witness:
  "\<exists>p c. WriteToParcel (demo_ring 0 0 0) = Inr (SUCCESS, Some p) \<and>
     ReadFromParcel demo_os p = Inr (Some c) \<and> bufferHolder c = AUDIO_CLIENT"
proof -
  have fds: "sm_fd (the (dataMem (demo_ring 0 0 0))) > 2"
    "sm_fd (the (statusInfoMem (demo_ring 0 0 0))) > 2"
    by (simp_all add: demo_ring_def demo_mem_def)
  have dup: "0 < os_dup demo_os f" if "f > 2" for f using that by (simp add: demo_os_def)
  have map: "os_mmap_ok demo_os f n" for f n by (simp add: demo_os_def)
  from buffer_parcel_roundtrip [OF demo_ring_created fds dup map] show ?thesis by blast
qed

end
