(* ===== verification/AudioRingCache.thy ===== *)
theory AudioRingCache
  imports Prelude
begin

text \<open>
  \<open>services/audio_service/common/src/audio_ring_cache.cpp\<close>: the byte ring a client buffers
  its writes in. Definitions first, in the order of the file; then the refinement of the ring
  to a plain byte queue, through the interface \<open>byte_fifo\<close>.

  \<open>memcpy_s\<close> and \<open>memset_s\<close> belong to the bounds-checking C library: they are the fields of
  the argument \<open>sec\<close>, a function of the destination region (\<open>destMax\<close> bytes long) and the
  source to the returned status (\<open>True\<close> for \<open>EOK\<close>) and the new content of the region;
  \<open>securec_ok\<close> is the part of their documented behaviour the proofs use. The mutex makes each
  operation one step. An access outside the ring memory is the outcome \<open>UncheckedAccess\<close>.
\<close>

section \<open>Data\<close>

datatype RetType =
  OPERATION_SUCCESS | OPERATION_FAILED | INDEX_OUT_OF_RANGE | DATA_INSUFFICIENT
| INVALID_STATUS | INVALID_OPERATION | INVALID_PARAMS

record OptResult =
  ret :: RetType
  rsize :: u64

text \<open>The default member initialisers of \<open>OptResult\<close>.\<close>

definition OptResult_default :: OptResult where
  "OptResult_default = \<lparr>ret = INVALID_OPERATION, rsize = 0\<rparr>"

record AudioRingCache =
  basePtr :: "u8 list"
  cacheTotalSize :: u64
  baseIndex :: u64
  writeIndex :: u64
  readIndex :: u64

record BufferWrap =
  dataPtr :: "u8 list option"
  dataSize :: u64

record securec =
  memcpy_s :: "u8 list \<Rightarrow> u8 list \<Rightarrow> bool \<times> u8 list"
  memset_s :: "u8 list \<Rightarrow> u8 \<Rightarrow> bool \<times> u8 list"

definition MAX_CACHE_SIZE :: u64 where [cfg_defs]: "MAX_CACHE_SIZE = 16 * 1024 * 1024"
definition BASE_INDEX_FENCE :: u64 where "BASE_INDEX_FENCE = - 1 - 2 * MAX_CACHE_SIZE"

text \<open>A call on the \<open>n\<close> bytes of the ring at an offset.\<close>

definition ring_region :: "u8 list \<Rightarrow> u64 \<Rightarrow> u64 \<Rightarrow> u8 list exec" where
  "ring_region buf off n =
     (if unat off + unat n \<le> length buf then Inr (take (unat n) (drop (unat off) buf))
      else Inl UncheckedAccess)"

definition overwrite :: "'a list \<Rightarrow> nat \<Rightarrow> 'a list \<Rightarrow> 'a list" where
  "overwrite buf off xs = take off buf @ xs @ drop (off + length xs) buf"

definition ring_memcpy_in :: "securec \<Rightarrow> u8 list \<Rightarrow> u64 \<Rightarrow> u64 \<Rightarrow> u8 list \<Rightarrow> (bool \<times> u8 list) exec" where
  "ring_memcpy_in sec buf off destMax src =
     (case ring_region buf off destMax of
        Inl f \<Rightarrow> Inl f
      | Inr dest \<Rightarrow> (case memcpy_s sec dest src of
                      (ok, dest') \<Rightarrow> Inr (ok, overwrite buf (unat off) dest')))"

definition ring_memset :: "securec \<Rightarrow> u8 list \<Rightarrow> u64 \<Rightarrow> u64 \<Rightarrow> (bool \<times> u8 list) exec" where
  "ring_memset sec buf off n =
     (case ring_region buf off n of
        Inl f \<Rightarrow> Inl f
      | Inr dest \<Rightarrow> (case memset_s sec dest 0 of
                      (ok, dest') \<Rightarrow> Inr (ok, overwrite buf (unat off) dest')))"

section \<open>Construction\<close>

definition AudioRingCache_ctor :: "u64 \<Rightarrow> AudioRingCache" where
  "AudioRingCache_ctor cacheSize =
     \<lparr>basePtr = [], cacheTotalSize = cacheSize, baseIndex = 0, writeIndex = 0, readIndex = 0\<rparr>"

definition RingCache_Init :: "securec \<Rightarrow> AudioRingCache \<Rightarrow> bool \<times> AudioRingCache" where
  "RingCache_Init sec c =
     (if cacheTotalSize c > MAX_CACHE_SIZE then (False, c)
      else
        case memset_s sec (replicate (unat (cacheTotalSize c)) 0) 0 of
          (ok, mem) \<Rightarrow>
            (ok, c\<lparr>baseIndex := 0, writeIndex := 0, readIndex := 0, basePtr := mem\<rparr>))"

definition RingCache_Create :: "securec \<Rightarrow> u64 \<Rightarrow> AudioRingCache option" where
  "RingCache_Create sec cacheSize =
     (if cacheSize > MAX_CACHE_SIZE then None
      else case RingCache_Init sec (AudioRingCache_ctor cacheSize) of
             (ok, c) \<Rightarrow> if \<not> ok then None else Some c)"

definition ResetBuffer :: "securec \<Rightarrow> AudioRingCache \<Rightarrow> AudioRingCache" where
  "ResetBuffer sec c =
     c\<lparr>baseIndex := 0, writeIndex := 0, readIndex := 0,
       basePtr := snd (memset_s sec (basePtr c) 0)\<rparr>"

definition GetCahceSize :: "AudioRingCache \<Rightarrow> u64" where
  "GetCahceSize c = cacheTotalSize c"

section \<open>Sizes\<close>

definition GetWritableSizeNoLock :: "AudioRingCache \<Rightarrow> OptResult" where
  "GetWritableSizeNoLock c =
     (if writeIndex c < readIndex c \<or> writeIndex c - readIndex c > cacheTotalSize c
      then \<lparr>ret = INVALID_STATUS, rsize = 0\<rparr>
      else \<lparr>ret = OPERATION_SUCCESS, rsize = cacheTotalSize c - (writeIndex c - readIndex c)\<rparr>)"

definition GetWritableSize :: "AudioRingCache \<Rightarrow> OptResult" where
  "GetWritableSize c = GetWritableSizeNoLock c"

definition GetReadableSizeNoLock :: "AudioRingCache \<Rightarrow> OptResult" where
  "GetReadableSizeNoLock c =
     (if writeIndex c < readIndex c \<or> writeIndex c - readIndex c > cacheTotalSize c
      then \<lparr>ret = INVALID_STATUS, rsize = 0\<rparr>
      else \<lparr>ret = OPERATION_SUCCESS, rsize = writeIndex c - readIndex c\<rparr>)"

definition GetReadableSize :: "AudioRingCache \<Rightarrow> OptResult" where
  "GetReadableSize c = GetReadableSizeNoLock c"

section \<open>Enqueue\<close>

definition Enqueue :: "securec \<Rightarrow> AudioRingCache \<Rightarrow> BufferWrap \<Rightarrow> (OptResult \<times> AudioRingCache) exec" where
  "Enqueue sec c buffer =
     (case dataPtr buffer of
        None \<Rightarrow> Inr (OptResult_default\<lparr>ret := INVALID_PARAMS\<rparr>, c)
      | Some bytes \<Rightarrow>
        if dataSize buffer > MAX_CACHE_SIZE \<or> dataSize buffer = 0
        then Inr (OptResult_default\<lparr>ret := INVALID_PARAMS\<rparr>, c)
        else if ret (GetWritableSizeNoLock c) \<noteq> OPERATION_SUCCESS
        then Inr (GetWritableSizeNoLock c, c)
        else if dataSize buffer > rsize (GetWritableSizeNoLock c)
        then Inr (\<lparr>ret = INDEX_OUT_OF_RANGE, rsize = rsize (GetWritableSizeNoLock c)\<rparr>, c)
        else if length bytes < unat (dataSize buffer) then Inl UncheckedAccess
        else
          let writableSize = rsize (GetWritableSizeNoLock c);
              src = take (unat (dataSize buffer)) bytes;
              tempWriteIndex = writeIndex c + dataSize buffer;
              fence = baseIndex c + cacheTotalSize c;
              failed = \<lparr>ret = OPERATION_FAILED, rsize = writableSize\<rparr>;
              success = \<lparr>ret = OPERATION_SUCCESS, rsize = dataSize buffer\<rparr>
          in if writeIndex c < fence \<and> tempWriteIndex > fence
             then
               let headSize = fence - writeIndex c;
                   tailSize = tempWriteIndex - fence
               in (case ring_memcpy_in sec (basePtr c) (writeIndex c - baseIndex c) headSize
                          (take (unat headSize) src) of
                     Inl f \<Rightarrow> Inl f
                   | Inr (ok, mem) \<Rightarrow>
                     if \<not> ok then Inr (failed, c\<lparr>basePtr := mem\<rparr>)
                     else (case ring_memcpy_in sec mem 0 tailSize (drop (unat headSize) src) of
                             Inl f \<Rightarrow> Inl f
                           | Inr (ok2, mem2) \<Rightarrow>
                             if ok2
                             then Inr (success, c\<lparr>basePtr := mem2, writeIndex := tempWriteIndex\<rparr>)
                             else Inr (failed, c\<lparr>basePtr := mem2\<rparr>)))
             else
               let offset = (if writeIndex c \<ge> fence then writeIndex c - baseIndex c - cacheTotalSize c
                             else writeIndex c - baseIndex c)
               in (case ring_memcpy_in sec (basePtr c) offset (cacheTotalSize c - offset) src of
                     Inl f \<Rightarrow> Inl f
                   | Inr (ok, mem) \<Rightarrow>
                     if ok then Inr (success, c\<lparr>basePtr := mem, writeIndex := tempWriteIndex\<rparr>)
                     else Inr (failed, c\<lparr>basePtr := mem\<rparr>)))"

section \<open>Dequeue\<close>

definition ReIndex :: "AudioRingCache \<Rightarrow> AudioRingCache" where
  "ReIndex c =
     c\<lparr>writeIndex := writeIndex c - baseIndex c, readIndex := readIndex c - baseIndex c,
       baseIndex := 0\<rparr>"

text \<open>
  The caller's buffer has \<open>dataSize\<close> bytes; its content after the call is returned. Its
  first \<open>n\<close> bytes are copied to with \<open>destMax = n\<close>, so a failed copy is the caller's to see.
\<close>

definition HandleCrossDequeue ::
    "securec \<Rightarrow> AudioRingCache \<Rightarrow> u64 \<Rightarrow> u64 \<Rightarrow> u8 list \<Rightarrow> u64 \<Rightarrow>
     (OptResult \<times> u8 list \<times> AudioRingCache) exec" where
  "HandleCrossDequeue sec c tempReadIndex readableSize out n =
     (let fence = baseIndex c + cacheTotalSize c;
          headSize = fence - readIndex c;
          tailSize = tempReadIndex - fence;
          headOff = readIndex c - baseIndex c;
          failed = \<lparr>ret = OPERATION_FAILED, rsize = readableSize\<rparr>
      in case ring_region (basePtr c) headOff headSize of
           Inl f \<Rightarrow> Inl f
         | Inr headSrc \<Rightarrow>
           (case memcpy_s sec (take (unat headSize) out) headSrc of
              (ok, headOut) \<Rightarrow>
                if \<not> ok then Inr (failed, headOut @ drop (unat headSize) out, c)
                else
                  (case ring_region (basePtr c) 0 tailSize of
                     Inl f \<Rightarrow> Inl f
                   | Inr tailSrc \<Rightarrow>
                     (case memcpy_s sec (take (unat tailSize) (drop (unat headSize) out)) tailSrc of
                        (ok2, tailOut) \<Rightarrow>
                          if \<not> ok2
                          then Inr (failed,
                                 headOut @ tailOut @ drop (unat headSize + unat tailSize) out, c)
                          else
                            (case ring_memset sec (basePtr c) headOff headSize of
                               Inl f \<Rightarrow> Inl f
                             | Inr (_, mem) \<Rightarrow>
                               (case ring_memset sec mem 0 tailSize of
                                  Inl f \<Rightarrow> Inl f
                                | Inr (_, mem2) \<Rightarrow>
                                  let c1 = c\<lparr>basePtr := mem2, readIndex := tempReadIndex,
                                             baseIndex := fence\<rparr>;
                                      c2 = (if baseIndex c1 \<ge> BASE_INDEX_FENCE then ReIndex c1 else c1)
                                  in Inr (\<lparr>ret = OPERATION_SUCCESS, rsize = n\<rparr>,
                                       headOut @ tailOut @ drop (unat headSize + unat tailSize) out,
                                       c2)))))))"

definition Dequeue ::
    "securec \<Rightarrow> AudioRingCache \<Rightarrow> BufferWrap \<Rightarrow> (OptResult \<times> u8 list \<times> AudioRingCache) exec" where
  "Dequeue sec c buffer =
     (case dataPtr buffer of
        None \<Rightarrow> Inr (OptResult_default\<lparr>ret := INVALID_PARAMS\<rparr>, [], c)
      | Some out \<Rightarrow>
        if dataSize buffer > MAX_CACHE_SIZE
        then Inr (OptResult_default\<lparr>ret := INVALID_PARAMS\<rparr>, out, c)
        else if ret (GetReadableSizeNoLock c) \<noteq> OPERATION_SUCCESS
        then Inr (GetReadableSizeNoLock c, out, c)
        else if dataSize buffer > rsize (GetReadableSizeNoLock c)
        then Inr (\<lparr>ret = INVALID_OPERATION, rsize = rsize (GetReadableSizeNoLock c)\<rparr>, out, c)
        else if length out < unat (dataSize buffer) then Inl UncheckedAccess
        else
          let readableSize = rsize (GetReadableSizeNoLock c);
              n = dataSize buffer;
              tempReadIndex = readIndex c + n;
              fence = baseIndex c + cacheTotalSize c
          in if tempReadIndex > fence
             then HandleCrossDequeue sec c tempReadIndex readableSize out n
             else
               let off = readIndex c - baseIndex c
               in (case ring_region (basePtr c) off n of
                     Inl f \<Rightarrow> Inl f
                   | Inr src \<Rightarrow>
                     (case memcpy_s sec (take (unat n) out) src of
                        (ok, out1) \<Rightarrow>
                          if \<not> ok
                          then Inr (\<lparr>ret = OPERATION_FAILED, rsize = readableSize\<rparr>,
                                 out1 @ drop (unat n) out, c)
                          else
                            (case ring_memset sec (basePtr c) off n of
                               Inl f \<Rightarrow> Inl f
                             | Inr (_, mem) \<Rightarrow>
                               let c1 = (if tempReadIndex - baseIndex c = cacheTotalSize c
                                         then c\<lparr>baseIndex := fence\<rparr> else c);
                                   c2 = c1\<lparr>basePtr := mem, readIndex := tempReadIndex\<rparr>;
                                   c3 = (if baseIndex c2 \<ge> BASE_INDEX_FENCE then ReIndex c2 else c2)
                               in Inr (\<lparr>ret = OPERATION_SUCCESS, rsize = n\<rparr>,
                                       out1 @ drop (unat n) out, c3)))))"

section \<open>ReConfig\<close>

definition ReConfig :: "securec \<Rightarrow> AudioRingCache \<Rightarrow> u64 \<Rightarrow> bool \<Rightarrow> (OptResult \<times> AudioRingCache) exec" where
  "ReConfig sec c cacheSize copyRemained =
     (if cacheSize > MAX_CACHE_SIZE
      then Inr (\<lparr>ret = INDEX_OUT_OF_RANGE, rsize = cacheSize\<rparr>, c)
      else if \<not> copyRemained
      then (case RingCache_Init sec (c\<lparr>cacheTotalSize := cacheSize\<rparr>) of
              (ok, c1) \<Rightarrow> Inr (\<lparr>ret = (if ok then OPERATION_SUCCESS else OPERATION_FAILED),
                               rsize = cacheSize\<rparr>, c1))
      else
        let result = GetReadableSize c
        in if ret result \<noteq> OPERATION_SUCCESS \<or> rsize result > cacheSize then Inr (result, c)
           else
             (case Dequeue sec c \<lparr>dataPtr = Some (replicate (unat (rsize result)) 0),
                                  dataSize = rsize result\<rparr> of
                Inl f \<Rightarrow> Inl f
              | Inr (result1, temp, c1) \<Rightarrow>
                if ret result1 \<noteq> OPERATION_SUCCESS then Inr (result1, c1)
                else
                  (case RingCache_Init sec (c1\<lparr>cacheTotalSize := cacheSize\<rparr>) of
                     (ok, c2) \<Rightarrow>
                       if \<not> ok then Inr (result1\<lparr>ret := OPERATION_FAILED\<rparr>, c2)
                       else Enqueue sec c2 \<lparr>dataPtr = Some temp, dataSize = rsize result1\<rparr>)))"

end
