(* ===== verification/RingList.thy ===== *)
theory RingList
  imports AudioRingCache
begin

text \<open>
  Lists read and written modulo their length: the pure half of the ring-cache proofs.
  \<open>ring_list buf r n\<close> is the \<open>n\<close> elements from index \<open>r\<close> on, wrapping at the end.
\<close>

definition ring_list :: "'a list \<Rightarrow> nat \<Rightarrow> nat \<Rightarrow> 'a list" where
  "ring_list buf r n = map (\<lambda>k. buf ! ((r + k) mod length buf)) [0..<n]"

lemma length_ring_list [simp]: "length (ring_list buf r n) = n"
  by (simp add: ring_list_def)

lemma nth_ring_list [simp]: "k < n \<Longrightarrow> ring_list buf r n ! k = buf ! ((r + k) mod length buf)"
  by (simp add: ring_list_def)

lemma ring_list_0 [simp]: "ring_list buf r 0 = []"
  by (simp add: ring_list_def)

lemma length_overwrite [simp]:
  "off + length xs \<le> length buf \<Longrightarrow> length (overwrite buf off xs) = length buf"
  by (simp add: overwrite_def)

lemma nth_overwrite:
  assumes "off + length xs \<le> length buf" and "i < length buf"
  shows "overwrite buf off xs ! i =
    (if off \<le> i \<and> i < off + length xs then xs ! (i - off) else buf ! i)"
  using assms by (auto simp: overwrite_def nth_append)

text \<open>Writing the head of a region and keeping its rest is writing the head alone.\<close>

lemma overwrite_keep_rest:
  assumes "off + m \<le> length buf" and "length xs \<le> m"
  shows "overwrite buf off (xs @ drop (length xs) (take m (drop off buf))) = overwrite buf off xs"
proof (rule nth_equalityI)
  let ?r = "xs @ drop (length xs) (take m (drop off buf))"
  have len: "length ?r = m" using assms by simp
  show "length (overwrite buf off ?r) = length (overwrite buf off xs)"
    using assms len by simp
  fix i assume "i < length (overwrite buf off ?r)"
  then have i: "i < length buf" using assms len by simp
  have "overwrite buf off ?r ! i = (if off \<le> i \<and> i < off + m then ?r ! (i - off) else buf ! i)"
    using nth_overwrite [of off ?r buf i] len assms i by simp
  also have "\<dots> = (if off \<le> i \<and> i < off + length xs then xs ! (i - off) else buf ! i)"
    using assms i by (auto simp: nth_append)
  also have "\<dots> = overwrite buf off xs ! i"
    using nth_overwrite [of off xs buf i] assms i by simp
  finally show "overwrite buf off ?r ! i = overwrite buf off xs ! i" .
qed

lemma ring_index_inj:
  fixes r T j k :: nat
  assumes "j < T" and "k < T" and "(r + j) mod T = (r + k) mod T"
  shows "j = k"
proof (cases "j \<le> k")
  case True
  have "T dvd (r + k) - (r + j)" using assms(3) True by (metis add_le_cancel_left mod_eq_dvd_iff_nat)
  then have "T dvd k - j" by simp
  with assms(2) True show ?thesis by (metis dvd_imp_le le_antisym less_imp_diff_less not_le
        zero_less_diff le_neq_implies_less)
next
  case False
  have "T dvd (r + j) - (r + k)" using assms(3) False
    by (metis add_le_cancel_left mod_eq_dvd_iff_nat nat_le_linear)
  then have "T dvd j - k" by simp
  with assms(1) False show ?thesis by (metis dvd_imp_le less_imp_diff_less not_le zero_less_diff)
qed

text \<open>Appending \<open>xs\<close> at the write index without wrapping.\<close>

lemma ring_list_put:
  assumes fit: "n + length xs \<le> length buf" and w: "w = (r + n) mod length buf"
    and nowrap: "w + length xs \<le> length buf" and pos: "0 < length buf"
  shows "ring_list (overwrite buf w xs) r (n + length xs) = ring_list buf r n @ xs"
proof (rule nth_equalityI)
  let ?T = "length buf"
  fix k assume "k < length (ring_list (overwrite buf w xs) r (n + length xs))"
  then have k: "k < n + length xs" by simp
  let ?i = "(r + k) mod ?T"
  have i: "?i < ?T" using pos by simp
  have lhs: "ring_list (overwrite buf w xs) r (n + length xs) ! k = overwrite buf w xs ! ?i"
    using k nowrap by simp
  show "ring_list (overwrite buf w xs) r (n + length xs) ! k = (ring_list buf r n @ xs) ! k"
  proof (cases "k < n")
    case True
    have "\<not> (w \<le> ?i \<and> ?i < w + length xs)"
    proof
      assume a: "w \<le> ?i \<and> ?i < w + length xs"
      define d where "d = ?i - w"
      have d: "d < length xs" "?i = w + d" using a by (auto simp: d_def)
      have "(r + (n + d)) mod ?T = (w + d) mod ?T" by (simp add: w mod_simps add.assoc)
      also have "\<dots> = (r + k) mod ?T" using d i by simp
      finally have "n + d = k"
        using ring_index_inj [of "n + d" ?T k r] d fit True by simp
      with True show False by simp
    qed
    then have "overwrite buf w xs ! ?i = buf ! ?i"
      using nth_overwrite [OF nowrap i] by auto
    then show ?thesis using lhs True by (simp add: nth_append)
  next
    case False
    define d where "d = k - n"
    have d: "d < length xs" "k = n + d" using False k by (auto simp: d_def)
    have "?i = (w + d) mod ?T" by (simp add: d(2) w mod_simps add.assoc)
    also have "\<dots> = w + d" using d nowrap by simp
    finally show ?thesis
      using lhs d nth_overwrite [OF nowrap i] by (simp add: nth_append)
  qed
qed simp

text \<open>Appending across the end of the memory: the two copies of \<open>Enqueue\<close>.\<close>

lemma ring_list_put_cross:
  assumes fit: "n + length xs \<le> length buf" and w: "w = r + n" "w < length buf"
    and wrap: "length buf < w + length xs"
  shows "ring_list (overwrite (overwrite buf w (take (length buf - w) xs)) 0 (drop (length buf - w) xs))
           r (n + length xs) = ring_list buf r n @ xs"
proof -
  let ?h = "length buf - w" and ?b = "overwrite buf w (take (length buf - w) xs)"
  have h: "length (take ?h xs) = ?h" "w + ?h = length buf" using w wrap by simp_all
  have b: "length ?b = length buf" using h by simp
  have ne: "buf \<noteq> []" using w by auto
  have 1: "ring_list ?b r (n + ?h) = ring_list buf r n @ take ?h xs"
    using ring_list_put [of n "take ?h xs" buf w r] fit w h wrap ne by simp
  have "(r + (n + ?h)) mod length ?b = 0" using w h b by (simp add: add.assoc [symmetric])
  then have 2: "ring_list (overwrite ?b 0 (drop ?h xs)) r (n + ?h + length (drop ?h xs)) =
      ring_list ?b r (n + ?h) @ drop ?h xs"
    using ring_list_put [of "n + ?h" "drop ?h xs" ?b 0 r] fit wrap w b ne by simp
  have "n + ?h + length (drop ?h xs) = n + length xs" using wrap w by simp
  with 1 2 show ?thesis by simp
qed

lemma take_ring_list: "m \<le> n \<Longrightarrow> take m (ring_list buf r n) = ring_list buf r m"
  by (rule nth_equalityI) simp_all

lemma drop_ring_list: "drop m (ring_list buf r n) = ring_list buf (r + m) (n - m)"
  by (rule nth_equalityI) (simp_all add: add.assoc)

lemma ring_list_mod: "ring_list buf (r mod length buf) n = ring_list buf r n"
  by (rule nth_equalityI) (simp_all add: mod_simps)

text \<open>What \<open>Dequeue\<close> copies out, in one piece or two.\<close>

lemma ring_list_straight:
  "r + n \<le> length buf \<Longrightarrow> take n (drop r buf) = ring_list buf r n"
  by (rule nth_equalityI) simp_all

lemma ring_list_cross:
  assumes "r < length buf" and "length buf < r + n" and "n \<le> length buf"
  shows "drop r buf @ take (r + n - length buf) buf = ring_list buf r n"
proof (rule nth_equalityI)
  show "length (drop r buf @ take (r + n - length buf) buf) = length (ring_list buf r n)"
    using assms by simp
  fix i assume "i < length (drop r buf @ take (r + n - length buf) buf)"
  then have i: "i < n" using assms by simp
  show "(drop r buf @ take (r + n - length buf) buf) ! i = ring_list buf r n ! i"
  proof (cases "i < length buf - r")
    case True
    with i assms show ?thesis by (simp add: nth_append)
  next
    case False
    then have ge: "length buf \<le> r + i" using assms by linarith
    have "(r + i) mod length buf = r + i - length buf"
      using ge i assms by (simp add: le_mod_geq)
    then have "ring_list buf r n ! i = buf ! (r + i - length buf)" using i by simp
    moreover have "(drop r buf @ take (r + n - length buf) buf) ! i = buf ! (i - (length buf - r))"
      using False i ge assms by (simp add: nth_append)
    moreover have "i - (length buf - r) = r + i - length buf" using ge assms by linarith
    ultimately show ?thesis by simp
  qed
qed

text \<open>Clearing what was read leaves the rest as it was.\<close>

lemma ring_list_cong:
  assumes "length buf' = length buf"
    and "\<And>k. k < n \<Longrightarrow> buf' ! ((r + k) mod length buf) = buf ! ((r + k) mod length buf)"
  shows "ring_list buf' r n = ring_list buf r n"
  using assms by (intro nth_equalityI) simp_all

lemma ring_list_clear:
  assumes "r + m \<le> length buf" and "m \<le> n" and "n \<le> length buf" and "length z = m"
    and pos: "0 < length buf"
  shows "ring_list (overwrite buf r z) (r + m) (n - m) = ring_list buf (r + m) (n - m)"
proof (rule ring_list_cong)
  show "length (overwrite buf r z) = length buf" using assms by simp
  fix k assume k: "k < n - m"
  let ?i = "(r + m + k) mod length buf"
  have "\<not> (r \<le> ?i \<and> ?i < r + m)"
  proof
    assume a: "r \<le> ?i \<and> ?i < r + m"
    define d where "d = ?i - r"
    have d: "d < m" "r + d = ?i" using a by (auto simp: d_def)
    have "?i < length buf" using pos by simp
    then have "(r + d) mod length buf = (r + (m + k)) mod length buf"
      using d(2) by (simp add: add.assoc)
    moreover have "m + k < length buf" "d < length buf" using d k assms by linarith+
    ultimately have "d = m + k"
      using ring_index_inj [of d "length buf" "m + k" r] by simp
    with d show False by simp
  qed
  then show "overwrite buf r z ! ?i = buf ! ?i"
    using nth_overwrite [of r z buf ?i] assms pos by auto
qed

end
