(* ===== verification/ByteFifo.thy ===== *)
theory ByteFifo
  imports RingList
begin

text \<open>
  The contract of \<open>AudioRingCache\<close> and the proof that the code meets it. The locale
  \<open>byte_fifo\<close> is the interface its clients (\<open>RendererInClient\<close>, \<open>CapturerInClient\<close>,
  \<open>CapturerInServer\<close>) rely on: a bounded queue of bytes. What holds of every interleaving of
  a producer and a consumer is proved once inside it and inherited through the
  interpretation on \<open>Enqueue\<close> and \<open>Dequeue\<close>.
\<close>

section \<open>The interface\<close>

datatype 'b fifo_op = Put "'b list" | Get nat

text \<open>A run of calls: the bytes accepted, the bytes delivered and the final queue.\<close>

fun fifo_run :: "('c \<Rightarrow> 'b list \<Rightarrow> 'c option) \<Rightarrow> ('c \<Rightarrow> nat \<Rightarrow> ('b list \<times> 'c) option) \<Rightarrow>
    'c \<Rightarrow> 'b fifo_op list \<Rightarrow> 'b list \<times> 'b list \<times> 'c" where
  "fifo_run enq deq c [] = ([], [], c)"
| "fifo_run enq deq c (Put xs # ops) =
     (case enq c xs of
        None \<Rightarrow> fifo_run enq deq c ops
      | Some c1 \<Rightarrow> (case fifo_run enq deq c1 ops of (w, r, c') \<Rightarrow> (xs @ w, r, c')))"
| "fifo_run enq deq c (Get n # ops) =
     (case deq c n of
        None \<Rightarrow> fifo_run enq deq c ops
      | Some (ys, c1) \<Rightarrow> (case fifo_run enq deq c1 ops of (w, r, c') \<Rightarrow> (w, ys @ r, c')))"

locale byte_fifo =
  fixes inv :: "'c \<Rightarrow> bool"
    and cap :: "'c \<Rightarrow> nat"
    and content :: "'c \<Rightarrow> 'b list"
    and enq :: "'c \<Rightarrow> 'b list \<Rightarrow> 'c option"
    and deq :: "'c \<Rightarrow> nat \<Rightarrow> ('b list \<times> 'c) option"
  assumes content_le: "inv c \<Longrightarrow> length (content c) \<le> cap c"
    and enq_fits: "inv c \<Longrightarrow> xs \<noteq> [] \<Longrightarrow> length (content c) + length xs \<le> cap c \<Longrightarrow>
      \<exists>c'. enq c xs = Some c' \<and> inv c' \<and> content c' = content c @ xs \<and> cap c' = cap c"
    and enq_refused: "inv c \<Longrightarrow> xs = [] \<or> cap c < length (content c) + length xs \<Longrightarrow> enq c xs = None"
    and deq_avail: "inv c \<Longrightarrow> 0 < n \<Longrightarrow> n \<le> length (content c) \<Longrightarrow>
      \<exists>c'. deq c n = Some (take n (content c), c') \<and> inv c' \<and>
        content c' = drop n (content c) \<and> cap c' = cap c"
    and deq_refused: "inv c \<Longrightarrow> n = 0 \<or> length (content c) < n \<Longrightarrow> deq c n = None"
begin

lemma enq_cases:
  assumes "inv c" and "enq c xs = Some c1"
  shows "inv c1 \<and> content c1 = content c @ xs \<and> cap c1 = cap c"
proof -
  have "xs \<noteq> [] \<and> length (content c) + length xs \<le> cap c"
    using enq_refused [OF assms(1), of xs] assms(2) by (metis not_le option.distinct(1))
  with enq_fits [OF assms(1), of xs] assms(2) show ?thesis by auto
qed

lemma deq_cases:
  assumes "inv c" and "deq c n = Some (ys, c1)"
  shows "inv c1 \<and> content c = ys @ content c1 \<and> cap c1 = cap c \<and> length ys = n"
proof -
  have n: "0 < n \<and> n \<le> length (content c)"
    using deq_refused [OF assms(1), of n] assms(2) by (metis gr0I not_le option.distinct(1))
  with deq_avail [OF assms(1), of n] assms(2) show ?thesis by auto
qed

lemma run_fifo:
  assumes "inv c" and "fifo_run enq deq c ops = (w, r, c')"
  shows "content c @ w = r @ content c' \<and> inv c' \<and> cap c' = cap c"
  using assms
proof (induction ops arbitrary: c w r)
  case Nil
  then show ?case by simp
next
  case (Cons op ops)
  show ?case
  proof (cases op)
    case (Put xs)
    show ?thesis
    proof (cases "enq c xs")
      case None
      with Cons Put show ?thesis by simp
    next
      case (Some c1)
      obtain w1 where run: "fifo_run enq deq c1 ops = (w1, r, c')" "w = xs @ w1"
        using Cons.prems(2) Put Some by (auto split: prod.splits)
      from enq_cases [OF Cons.prems(1) Some] Cons.IH [OF _ run(1)] run(2)
      show ?thesis by simp
    qed
  next
    case (Get n)
    show ?thesis
    proof (cases "deq c n")
      case None
      with Cons Get show ?thesis by simp
    next
      case (Some p)
      obtain ys c1 where p: "p = (ys, c1)" by (cases p)
      obtain r1 where run: "fifo_run enq deq c1 ops = (w, r1, c')" "r = ys @ r1"
        using Cons.prems(2) Get Some p by (auto split: prod.splits)
      from deq_cases [OF Cons.prems(1), of n] Some p Cons.IH [OF _ run(1)] run(2)
      show ?thesis by simp
    qed
  qed
qed

end

section \<open>The ring cache as a byte queue\<close>

abbreviation cacheN :: "AudioRingCache \<Rightarrow> nat" where "cacheN c \<equiv> unat (cacheTotalSize c)"
abbreviation cbaseN :: "AudioRingCache \<Rightarrow> nat" where "cbaseN c \<equiv> unat (baseIndex c)"
abbreviation creadN :: "AudioRingCache \<Rightarrow> nat" where "creadN c \<equiv> unat (readIndex c)"
abbreviation cwriteN :: "AudioRingCache \<Rightarrow> nat" where "cwriteN c \<equiv> unat (writeIndex c)"

text \<open>What the proofs use of the bounds-checking library.\<close>

definition securec_ok :: "securec \<Rightarrow> bool" where
  "securec_ok sec \<longleftrightarrow>
     (\<forall>dest src. src \<noteq> [] \<longrightarrow> length src \<le> length dest \<longrightarrow>
        memcpy_s sec dest src = (True, src @ drop (length src) dest)) \<and>
     (\<forall>dest v. dest \<noteq> [] \<longrightarrow> memset_s sec dest v = (True, replicate (length dest) v)) \<and>
     (\<forall>src. memcpy_s sec [] src = (False, [])) \<and> (\<forall>v. memset_s sec [] v = (False, []))"

definition cache_ok :: "AudioRingCache \<Rightarrow> bool" where
  "cache_ok c \<longleftrightarrow>
     length (basePtr c) = cacheN c \<and> 0 < cacheN c \<and> cacheN c \<le> 16777216 \<and>
     cbaseN c < 2 ^ 64 - 1 - 2 * 16777216 \<and>
     cbaseN c \<le> creadN c \<and> creadN c < cbaseN c + cacheN c \<and>
     creadN c \<le> cwriteN c \<and> cwriteN c \<le> creadN c + cacheN c"

definition cache_content :: "AudioRingCache \<Rightarrow> u8 list" where
  "cache_content c = ring_list (basePtr c) (creadN c - cbaseN c) (cwriteN c - creadN c)"

lemma length_cache_content [simp]: "length (cache_content c) = cwriteN c - creadN c"
  by (simp add: cache_content_def)

lemma cache_okD:
  assumes "cache_ok c"
  shows "length (basePtr c) = cacheN c" "0 < cacheN c" "cacheN c \<le> 16777216"
    "cbaseN c < 2 ^ 64 - 1 - 2 * 16777216" "cbaseN c \<le> creadN c"
    "creadN c < cbaseN c + cacheN c" "creadN c \<le> cwriteN c" "cwriteN c \<le> creadN c + cacheN c"
  using assms by (simp_all only: cache_ok_def)

lemma cache_okI:
  assumes "cacheN c = T" "cbaseN c = B" "creadN c = R" "cwriteN c = W" "length (basePtr c) = T"
    and "0 < T" "T \<le> 16777216" "B < 2 ^ 64 - 1 - 2 * 16777216" "B \<le> R" "R < B + T" "R \<le> W"
    "W \<le> R + T"
  shows "cache_ok c"
  unfolding cache_ok_def assms(1-5) using assms(6-12) by (simp only: simp_thms)

lemma cache_used_le: "cache_ok c \<Longrightarrow> cwriteN c - creadN c \<le> cacheN c"
  unfolding cache_ok_def by linarith

lemma unat_MAX_CACHE_SIZE: "unat MAX_CACHE_SIZE = 16777216"
  by (simp add: MAX_CACHE_SIZE_def)

lemma unat_BASE_INDEX_FENCE: "unat BASE_INDEX_FENCE = 2 ^ 64 - 1 - 2 * 16777216"
  by (simp add: BASE_INDEX_FENCE_def MAX_CACHE_SIZE_def)

lemma cache_fence:
  assumes "cache_ok c"
  shows "unat (baseIndex c + cacheTotalSize c) = cbaseN c + cacheN c"
  using assms by (intro unat_add_small) (simp add: cache_ok_def)

lemma readable_ok:
  assumes "cache_ok c"
  shows "GetReadableSizeNoLock c = \<lparr>ret = OPERATION_SUCCESS, rsize = writeIndex c - readIndex c\<rparr>"
    and "unat (writeIndex c - readIndex c) = cwriteN c - creadN c"
proof -
  have le: "readIndex c \<le> writeIndex c" using assms by (simp add: cache_ok_def word_le_nat_alt)
  then show d: "unat (writeIndex c - readIndex c) = cwriteN c - creadN c" by (rule unat_sub)
  have "cwriteN c - creadN c \<le> cacheN c" using assms by (rule cache_used_le)
  then have "\<not> (writeIndex c < readIndex c \<or> writeIndex c - readIndex c > cacheTotalSize c)"
    using le by (simp only: not_less de_Morgan_disj word_le_nat_alt d)
  then show "GetReadableSizeNoLock c = \<lparr>ret = OPERATION_SUCCESS, rsize = writeIndex c - readIndex c\<rparr>"
    by (simp only: GetReadableSizeNoLock_def if_False)
qed

lemma writable_ok:
  assumes "cache_ok c"
  shows "GetWritableSizeNoLock c =
      \<lparr>ret = OPERATION_SUCCESS, rsize = cacheTotalSize c - (writeIndex c - readIndex c)\<rparr>"
    and "unat (cacheTotalSize c - (writeIndex c - readIndex c)) =
      cacheN c - (cwriteN c - creadN c)"
proof -
  note d = readable_ok(2) [OF assms]
  have le: "readIndex c \<le> writeIndex c" using assms by (simp add: cache_ok_def word_le_nat_alt)
  have "cwriteN c - creadN c \<le> cacheN c" using assms by (rule cache_used_le)
  then have le2: "writeIndex c - readIndex c \<le> cacheTotalSize c"
    by (simp only: word_le_nat_alt d)
  then show "unat (cacheTotalSize c - (writeIndex c - readIndex c)) =
      cacheN c - (cwriteN c - creadN c)" by (simp only: unat_sub_le d)
  have "\<not> (writeIndex c < readIndex c \<or> writeIndex c - readIndex c > cacheTotalSize c)"
    using le le2 by (simp only: not_less de_Morgan_disj)
  then show "GetWritableSizeNoLock c =
      \<lparr>ret = OPERATION_SUCCESS, rsize = cacheTotalSize c - (writeIndex c - readIndex c)\<rparr>"
    by (simp only: GetWritableSizeNoLock_def if_False)
qed

text \<open>A copy into the ring, where it fits the region.\<close>

lemma ring_memcpy_in_ok:
  assumes sec: "securec_ok sec" and "unat off + unat m \<le> length buf"
    and "src \<noteq> []" and "length src \<le> unat m"
  shows "ring_memcpy_in sec buf off m src = Inr (True, overwrite buf (unat off) src)"
proof -
  let ?dest = "take (unat m) (drop (unat off) buf)"
  have "memcpy_s sec ?dest src = (True, src @ drop (length src) ?dest)"
    using sec assms by (simp add: securec_ok_def)
  then show ?thesis
    using assms overwrite_keep_rest [OF assms(2,4)]
    by (simp add: ring_memcpy_in_def ring_region_def)
qed

lemma ring_memset_ok:
  assumes sec: "securec_ok sec" and "unat off + unat m \<le> length buf" and "0 < unat m"
  shows "ring_memset sec buf off m = Inr (True, overwrite buf (unat off) (replicate (unat m) 0))"
proof -
  let ?dest = "take (unat m) (drop (unat off) buf)"
  have len: "length ?dest = unat m" using assms(2) by simp
  then have "?dest \<noteq> []" using assms(3) by (metis length_0_conv less_irrefl)
  then have "memset_s sec ?dest 0 = (True, replicate (unat m) 0)"
    using sec len by (simp add: securec_ok_def)
  then show ?thesis using assms(2) by (simp add: ring_memset_def ring_region_def)
qed

section \<open>Enqueue\<close>

lemma unat_cache_off:
  assumes "cache_ok c"
  shows "unat (readIndex c - baseIndex c) = creadN c - cbaseN c"
    and "unat (writeIndex c - baseIndex c) = cwriteN c - cbaseN c"
  using assms by (auto intro!: unat_sub simp: cache_ok_def word_le_nat_alt)

lemma unat_write_end:
  assumes "cache_ok c" and "cwriteN c - creadN c + unat n \<le> cacheN c"
  shows "unat (writeIndex c + n) = cwriteN c + unat n"
proof (rule unat_add_small)
  have "cwriteN c + unat n < 2 ^ 64" using assms(2) cache_okD [OF assms(1)] by linarith
  then show "cwriteN c + unat n < 2 ^ LENGTH(64)" by simp
qed

lemma enqueue_guards:
  assumes "cache_ok c" and "0 < unat n" and "cwriteN c - creadN c + unat n \<le> cacheN c"
  shows "\<not> (n > MAX_CACHE_SIZE \<or> n = 0)"
    and "\<not> n > rsize (GetWritableSizeNoLock c)"
proof -
  have "cacheN c \<le> 16777216" using assms(1) by (simp add: cache_ok_def)
  then have "unat n \<le> unat MAX_CACHE_SIZE" using assms(3) unat_MAX_CACHE_SIZE by linarith
  moreover have "n \<noteq> 0" using assms(2) by (metis less_irrefl unat_0)
  ultimately show "\<not> (n > MAX_CACHE_SIZE \<or> n = 0)" by (simp only: not_less word_le_nat_alt simp_thms)
  have "unat n \<le> cacheN c - (cwriteN c - creadN c)" using assms(3) by linarith
  then show "\<not> n > rsize (GetWritableSizeNoLock c)"
    by (simp only: writable_ok(1) [OF assms(1)] OptResult.select_convs not_less word_le_nat_alt
        writable_ok(2) [OF assms(1)])
qed

lemma Enqueue_fits:
  assumes sec: "securec_ok sec" and ok: "cache_ok c" and ne: "xs \<noteq> []"
    and len: "length xs = unat n" and fit: "cwriteN c - creadN c + unat n \<le> cacheN c"
  shows "\<exists>mem. Enqueue sec c \<lparr>dataPtr = Some xs, dataSize = n\<rparr> =
        Inr (\<lparr>ret = OPERATION_SUCCESS, rsize = n\<rparr>,
             c\<lparr>basePtr := mem, writeIndex := writeIndex c + n\<rparr>) \<and>
      length mem = cacheN c \<and>
      ring_list mem (creadN c - cbaseN c) (cwriteN c - creadN c + unat n) = cache_content c @ xs"
proof -
  let ?B = "cbaseN c" and ?T = "cacheN c" and ?R = "creadN c" and ?W = "cwriteN c"
  let ?fence = "baseIndex c + cacheTotalSize c" and ?tw = "writeIndex c + n"
  have pos: "0 < unat n" using ne len by (metis length_greater_0_conv)
  note I = cache_okD [OF ok]
  note guards = enqueue_guards [OF ok pos fit]
  note bl = I(1) and T0 = I(2)
  have wf: "unat ?fence = ?B + ?T" by (rule cache_fence [OF ok])
  have wt: "unat ?tw = ?W + unat n" by (rule unat_write_end [OF ok fit])
  have enq: "Enqueue sec c \<lparr>dataPtr = Some xs, dataSize = n\<rparr> = Inr r" if
    cross: "writeIndex c < ?fence \<and> ?tw > ?fence \<Longrightarrow>
       ring_memcpy_in sec (basePtr c) (writeIndex c - baseIndex c) (?fence - writeIndex c)
         (take (unat (?fence - writeIndex c)) xs) = Inr (True, m1) \<and>
       ring_memcpy_in sec m1 0 (?tw - ?fence) (drop (unat (?fence - writeIndex c)) xs) = Inr (True, m2) \<and>
       r = (\<lparr>ret = OPERATION_SUCCESS, rsize = n\<rparr>, c\<lparr>basePtr := m2, writeIndex := ?tw\<rparr>)" and
    flat: "\<not> (writeIndex c < ?fence \<and> ?tw > ?fence) \<Longrightarrow>
       ring_memcpy_in sec (basePtr c)
         (if writeIndex c \<ge> ?fence then writeIndex c - baseIndex c - cacheTotalSize c
          else writeIndex c - baseIndex c)
         (cacheTotalSize c - (if writeIndex c \<ge> ?fence
            then writeIndex c - baseIndex c - cacheTotalSize c else writeIndex c - baseIndex c)) xs =
         Inr (True, m1) \<and>
       r = (\<lparr>ret = OPERATION_SUCCESS, rsize = n\<rparr>, c\<lparr>basePtr := m1, writeIndex := ?tw\<rparr>)" for m1 m2 r
  proof -
    have tk: "take (unat n) xs = xs" using len by simp
    have nl: "\<not> length xs < unat n" using len by simp
    have ws: "ret (GetWritableSizeNoLock c) = OPERATION_SUCCESS"
      by (simp only: writable_ok(1) [OF ok] OptResult.select_convs)
    show ?thesis
    proof (cases "writeIndex c < ?fence \<and> ?tw > ?fence")
      case True
      show ?thesis using cross [OF True]
        by (simp only: Enqueue_def Let_def BufferWrap.select_convs option.case guards ws tk nl True
            if_False if_True not_True_eq_False sum.case prod.case simp_thms)
    next
      case False
      show ?thesis using flat [OF False]
        by (simp only: Enqueue_def Let_def BufferWrap.select_convs option.case guards ws tk nl False
            if_False if_True not_True_eq_False sum.case prod.case simp_thms)
    qed
  qed
  show ?thesis
  proof (cases "writeIndex c < ?fence \<and> ?tw > ?fence")
    case True
    then have W: "?W < ?B + ?T" "?B + ?T < ?W + unat n"
      by (simp_all only: word_less_nat_alt wf wt)
    let ?h = "?fence - writeIndex c" and ?o = "writeIndex c - baseIndex c"
    have h: "unat ?h = ?B + ?T - ?W"
      using True by (subst unat_sub_le) (simp_all only: wf less_imp_le)
    have t: "unat (?tw - ?fence) = ?W + unat n - (?B + ?T)"
      using True by (subst unat_sub_le) (simp_all only: wf wt less_imp_le)
    have o: "unat ?o = ?W - ?B" by (rule unat_cache_off(2) [OF ok])
    define m1 where "m1 = overwrite (basePtr c) (unat ?o) (take (unat ?h) xs)"
    define m2 where "m2 = overwrite m1 0 (drop (unat ?h) xs)"
    have 1: "ring_memcpy_in sec (basePtr c) ?o ?h (take (unat ?h) xs) = Inr (True, m1)"
      unfolding m1_def
    proof (rule ring_memcpy_in_ok [OF sec])
      show "unat ?o + unat ?h \<le> length (basePtr c)" unfolding h o bl using W I(5,7) by linarith
      show "take (unat ?h) xs \<noteq> []" unfolding h using W(1) ne by simp
    qed simp
    have lt: "length (take (unat ?h) xs) = unat ?h" unfolding h length_take len using W fit I by linarith
    have ld: "length (drop (unat ?h) xs) = unat (?tw - ?fence)"
      unfolding h t length_drop len using W fit I by linarith
    have l1: "length m1 = ?T"
    proof -
      have "unat ?o + length (take (unat ?h) xs) \<le> length (basePtr c)"
        unfolding lt unfolding h o bl using W I(5,7) by linarith
      then show ?thesis unfolding m1_def by (simp only: length_overwrite bl)
    qed
    have t1: "unat (?tw - ?fence) \<le> length m1" unfolding t l1 using fit I(6) by linarith
    have "ring_memcpy_in sec m1 0 (?tw - ?fence) (drop (unat ?h) xs) =
        Inr (True, overwrite m1 (unat (0::u64)) (drop (unat ?h) xs))"
    proof (rule ring_memcpy_in_ok [OF sec])
      have "0 < length (drop (unat ?h) xs)" unfolding ld t using W(2) by linarith
      then show "drop (unat ?h) xs \<noteq> []" by (metis length_greater_0_conv)
    qed (use t1 ld in simp_all)
    then have 2: "ring_memcpy_in sec m1 0 (?tw - ?fence) (drop (unat ?h) xs) = Inr (True, m2)"
      by (simp add: m2_def)
    have l2: "length m2 = ?T"
      unfolding m2_def by (subst length_overwrite) (use t1 ld l1 in simp_all)
    have a: "?W - ?B = ?R - ?B + (?W - ?R)" "?B + ?T - ?W = ?T - (?W - ?B)" using I W by linarith+
    have "ring_list m2 (?R - ?B) (?W - ?R + length xs) = cache_content c @ xs"
      unfolding m2_def m1_def cache_content_def h o
      unfolding a(2) unfolding bl [symmetric]
    proof (rule ring_list_put_cross)
      show "?W - ?R + length xs \<le> length (basePtr c)" using fit unfolding len bl .
      show "?W - ?B < length (basePtr c)" "length (basePtr c) < ?W - ?B + length xs"
        unfolding len bl using W I by linarith+
    qed (rule a)
    with l2 len enq [of m1 m2] 1 2 True show ?thesis by auto
  next
    case False
    let ?o = "if writeIndex c \<ge> ?fence then writeIndex c - baseIndex c - cacheTotalSize c
          else writeIndex c - baseIndex c"
    have wr: "(?fence \<le> writeIndex c) = (?B + ?T \<le> ?W)" by (simp only: word_le_nat_alt wf)
    have o: "unat ?o = (?W - ?B) mod ?T \<and> unat ?o + unat n \<le> ?T"
    proof (cases "?B + ?T \<le> ?W")
      case True
      have "unat (writeIndex c - baseIndex c - cacheTotalSize c) = ?W - ?B - ?T"
        using True unat_cache_off(2) [OF ok]
        by (subst unat_sub_le) (simp_all add: word_le_nat_alt)
      moreover have "?W - ?B - ?T < ?T" "?W - ?B - ?T + unat n \<le> ?T" "?T \<le> ?W - ?B"
        using True I fit by linarith+
      ultimately show ?thesis using True wr by (simp only: if_True le_mod_geq mod_less simp_thms)
    next
      case F: False
      have "\<not> ?B + ?T < ?W + unat n"
        using False F by (simp only: not_le not_less word_le_nat_alt word_less_nat_alt wf wt simp_thms)
      then have "?W - ?B < ?T" "?W - ?B + unat n \<le> ?T" using F I by linarith+
      then show ?thesis using F wr unat_cache_off(2) [OF ok] by (simp only: if_False mod_less simp_thms)
    qed
    have o2: "(?W - ?B) mod ?T + unat n \<le> ?T" using conjunct2 [OF o] unfolding conjunct1 [OF o] .
    have r: "unat (cacheTotalSize c - ?o) = ?T - unat ?o"
    proof (rule unat_sub_le)
      show "?o \<le> cacheTotalSize c"
        by (rule word_le_nat_alt [THEN iffD2]) (rule order.trans [OF le_add1 conjunct2 [OF o]])
    qed
    define m1 where "m1 = overwrite (basePtr c) (unat ?o) xs"
    have 1: "ring_memcpy_in sec (basePtr c) ?o (cacheTotalSize c - ?o) xs = Inr (True, m1)"
      unfolding m1_def by (rule ring_memcpy_in_ok [OF sec]) (use o r bl ne len in linarith | rule ne)+
    have l1: "length m1 = ?T"
      unfolding m1_def using o len bl by (subst length_overwrite) auto
    have "?R - ?B + (?W - ?R) = ?W - ?B" using I by linarith
    then have "ring_list m1 (?R - ?B) (?W - ?R + length xs) = cache_content c @ xs"
      unfolding m1_def cache_content_def
      by (intro ring_list_put) (unfold len bl, use o o2 fit T0 in \<open>simp_all only:\<close>)
    with l1 len enq [of m1 undefined] 1 False show ?thesis by auto
  qed
qed

lemma cache_ok_put:
  assumes ok: "cache_ok c" and fit: "cwriteN c - creadN c + unat n \<le> cacheN c"
    and "length mem = cacheN c"
  shows "cache_ok (c\<lparr>basePtr := mem, writeIndex := writeIndex c + n\<rparr>)"
proof (rule cache_okI [where T = "cacheN c" and B = "cbaseN c" and R = "creadN c"
      and W = "cwriteN c + unat n"])
  show "cwriteN (c\<lparr>basePtr := mem, writeIndex := writeIndex c + n\<rparr>) = cwriteN c + unat n"
    using unat_write_end [OF ok fit] by simp
qed (use cache_okD [OF ok] fit assms(3) in simp_all)

lemma Enqueue_refused:
  assumes ok: "cache_ok c" and len: "length xs = unat n"
    and big: "xs = [] \<or> cacheN c < cwriteN c - creadN c + unat n"
  shows "\<exists>r. Enqueue sec c \<lparr>dataPtr = Some xs, dataSize = n\<rparr> = Inr (r, c) \<and> ret r \<noteq> OPERATION_SUCCESS"
proof (cases "n > MAX_CACHE_SIZE \<or> n = 0")
  case True
  then show ?thesis
    by (simp only: Enqueue_def BufferWrap.select_convs option.case if_True OptResult_default_def) auto
next
  case False
  then have "xs \<noteq> []" using len by (metis list.size(3) unat_eq_zero)
  then have "cacheN c < cwriteN c - creadN c + unat n" using big by (simp only: simp_thms)
  then have "cacheN c - (cwriteN c - creadN c) < unat n"
    using cache_used_le [OF ok] by linarith
  then have "n > rsize (GetWritableSizeNoLock c)"
    by (simp only: writable_ok(1) [OF ok] OptResult.select_convs word_less_nat_alt
        writable_ok(2) [OF ok])
  moreover have "ret (GetWritableSizeNoLock c) = OPERATION_SUCCESS"
    by (simp only: writable_ok(1) [OF ok] OptResult.select_convs)
  ultimately show ?thesis using False
    by (simp only: Enqueue_def BufferWrap.select_convs option.case if_True if_False
        not_True_eq_False simp_thms) simp
qed

section \<open>Dequeue\<close>

lemma ring_region_ok:
  "unat off + unat n \<le> length buf \<Longrightarrow> ring_region buf off n = Inr (take (unat n) (drop (unat off) buf))"
  by (simp only: ring_region_def if_True)

lemma memcpy_s_ok:
  assumes "securec_ok sec" and "length src = length dest" and "src \<noteq> []"
  shows "memcpy_s sec dest src = (True, src)"
  using assms unfolding securec_ok_def by (metis append_Nil2 drop_all order_refl)

lemma cache_ok_move:
  assumes ok: "cache_ok c" and len: "length mem = cacheN c" and m: "unat n \<le> cwriteN c - creadN c"
    and b: "b = (if baseIndex c + cacheTotalSize c \<le> readIndex c + n
              then baseIndex c + cacheTotalSize c else baseIndex c)"
    and c': "c' = c\<lparr>basePtr := mem, readIndex := readIndex c + n, baseIndex := b\<rparr>"
    and c'': "c'' = (if baseIndex c' \<ge> BASE_INDEX_FENCE then ReIndex c' else c')"
  shows "cache_ok c''" and "cache_content c'' =
      ring_list mem (creadN c - cbaseN c + unat n) (cwriteN c - creadN c - unat n)"
    and "cacheN c'' = cacheN c"
proof -
  let ?B = "cbaseN c" and ?T = "cacheN c" and ?R = "creadN c" and ?W = "cwriteN c"
  note I = cache_okD [OF ok]
  have rn: "unat (readIndex c + n) = ?R + unat n"
    by (rule unat_add_small) (use I m in simp)
  have wf: "unat (baseIndex c + cacheTotalSize c) = ?B + ?T" by (rule cache_fence [OF ok])
  have bN: "unat b = (if ?B + ?T \<le> ?R + unat n then ?B + ?T else ?B)"
    unfolding b word_le_nat_alt wf rn by (simp only: wf split: if_split) simp
  have sel: "basePtr c' = mem" "cacheTotalSize c' = cacheTotalSize c" "writeIndex c' = writeIndex c"
    "readIndex c' = readIndex c + n" "baseIndex c' = b" by (simp_all add: c')
  have J: "unat b \<le> ?R + unat n" "?R + unat n < unat b + ?T" "?R + unat n \<le> ?W"
    "?W \<le> ?R + unat n + ?T" "unat b = ?B \<or> unat b = ?B + ?T"
    unfolding bN using I m by (auto split: if_split)
  have subs: "unat (writeIndex c - b) = ?W - unat b" "unat (readIndex c + n - b) = ?R + unat n - unat b"
    using J by (simp_all only: unat_sub_le word_le_nat_alt rn)
  have fin: "basePtr c'' = mem \<and> cacheTotalSize c'' = cacheTotalSize c \<and>
      (cbaseN c'' = unat b \<and> creadN c'' = ?R + unat n \<and> cwriteN c'' = ?W \<and>
         unat b < 2 ^ 64 - 1 - 2 * 16777216 \<or>
       cbaseN c'' = 0 \<and> creadN c'' = ?R + unat n - unat b \<and> cwriteN c'' = ?W - unat b)"
  proof (cases "baseIndex c' \<ge> BASE_INDEX_FENCE")
    case True
    then show ?thesis using sel subs by (simp add: c'' ReIndex_def)
  next
    case False
    then have "unat b < unat BASE_INDEX_FENCE" by (simp only: sel not_le word_less_nat_alt)
    then have "unat b < 2 ^ 64 - 1 - 2 * 16777216" by (simp only: unat_BASE_INDEX_FENCE)
    with False show ?thesis using sel rn by (simp only: c'' if_False simp_thms)
  qed
  show "cacheN c'' = ?T" using fin by (simp only: simp_thms)
  show "cache_ok c''"
    using fin
  proof (elim conjE disjE)
    assume *: "basePtr c'' = mem" "cacheTotalSize c'' = cacheTotalSize c" "cbaseN c'' = unat b"
      "creadN c'' = ?R + unat n" "cwriteN c'' = ?W" "unat b < 2 ^ 64 - 1 - 2 * 16777216"
    show ?thesis by (rule cache_okI [OF _ *(3-5)]) (use * I(2,3) J len in simp_all)
  next
    assume *: "basePtr c'' = mem" "cacheTotalSize c'' = cacheTotalSize c" "cbaseN c'' = 0"
      "creadN c'' = ?R + unat n - unat b" "cwriteN c'' = ?W - unat b"
    show ?thesis by (rule cache_okI [OF _ *(3-5)]) (use * I(2,3) J len in auto)
  qed
  have d: "creadN c'' - cbaseN c'' = ?R + unat n - unat b"
    "cwriteN c'' - creadN c'' = ?W - ?R - unat n" using fin J by auto
  have "ring_list mem (?R + unat n - unat b) k = ring_list mem (?R - ?B + unat n) k" for k
  proof (cases "unat b = ?B")
    case True
    then show ?thesis using I by simp
  next
    case False
    then have "?R - ?B + unat n = (?R + unat n - unat b) + length mem" using J I len by linarith
    then show ?thesis using ring_list_mod [of mem] by (metis mod_add_self2)
  qed
  with d fin show "cache_content c'' = ring_list mem (?R - ?B + unat n) (?W - ?R - unat n)"
    by (simp only: cache_content_def)
qed

lemma dequeue_guards:
  assumes "cache_ok c" and "unat n \<le> cwriteN c - creadN c"
  shows "\<not> n > MAX_CACHE_SIZE" and "\<not> n > rsize (GetReadableSizeNoLock c)"
    and "ret (GetReadableSizeNoLock c) = OPERATION_SUCCESS"
    and "unat (readIndex c + n) = creadN c + unat n"
proof -
  note I = cache_okD [OF assms(1)]
  show "\<not> n > MAX_CACHE_SIZE"
    using cache_used_le [OF assms(1)] assms(2) I(3) unat_MAX_CACHE_SIZE
    by (simp only: not_less word_le_nat_alt)
  show "\<not> n > rsize (GetReadableSizeNoLock c)"
    by (simp only: readable_ok(1) [OF assms(1)] OptResult.select_convs not_less word_le_nat_alt
        readable_ok(2) [OF assms(1)] assms(2))
  show "ret (GetReadableSizeNoLock c) = OPERATION_SUCCESS"
    by (simp only: readable_ok(1) [OF assms(1)] OptResult.select_convs)
  show "unat (readIndex c + n) = creadN c + unat n"
    by (rule unat_add_small) (use I assms(2) in simp)
qed

lemma HandleCrossDequeue_ok:
  assumes sec: "securec_ok sec" and ok: "cache_ok c" and m: "unat n \<le> cwriteN c - creadN c"
    and out: "length out = unat n"
    and cross: "readIndex c + n > baseIndex c + cacheTotalSize c"
  shows "\<exists>c'. HandleCrossDequeue sec c (readIndex c + n) rs out n =
      Inr (\<lparr>ret = OPERATION_SUCCESS, rsize = n\<rparr>, take (unat n) (cache_content c), c') \<and> cache_ok c' \<and>
      cache_content c' = drop (unat n) (cache_content c) \<and> cacheN c' = cacheN c"
proof -
  let ?B = "cbaseN c" and ?T = "cacheN c" and ?R = "creadN c" and ?W = "cwriteN c"
  let ?fence = "baseIndex c + cacheTotalSize c" and ?tr = "readIndex c + n"
  let ?h = "?fence - readIndex c" and ?t = "?tr - ?fence" and ?o = "readIndex c - baseIndex c"
  note I = cache_okD [OF ok] and g = dequeue_guards [OF ok m] and wf = cache_fence [OF ok]
  have R: "?B + ?T < ?R + unat n" using cross by (simp only: word_less_nat_alt wf g(4))
  have h: "unat ?h = ?B + ?T - ?R"
    by (subst unat_sub_le) (use I(6) in \<open>simp_all only: wf word_le_nat_alt less_imp_le\<close>)
  have t: "unat ?t = ?R + unat n - (?B + ?T)"
    by (subst unat_sub_le) (use R in \<open>simp_all only: wf g(4) word_le_nat_alt less_imp_le\<close>)
  have o: "unat ?o = ?R - ?B" by (rule unat_cache_off(1) [OF ok])
  have fits: "unat ?o + unat ?h \<le> length (basePtr c)" "unat (0::u64) + unat ?t \<le> length (basePtr c)"
    unfolding h t o I(1) using I R m by (simp_all only: unat_0 add_0)
  define hs where "hs = take (unat ?h) (drop (unat ?o) (basePtr c))"
  define ts where "ts = take (unat ?t) (drop (unat (0::u64)) (basePtr c))"
  have hl: "length hs = unat ?h" unfolding hs_def length_take length_drop using fits(1) by linarith
  have tl: "length ts = unat ?t" unfolding ts_def length_take length_drop using fits(2) by linarith
  have ne: "0 < unat ?h" "0 < unat ?t" unfolding h t using I(6) R by linarith+
  have ht: "unat ?h + unat ?t = unat n" unfolding h t using R I(6) by linarith
  have c1: "memcpy_s sec (take (unat ?h) out) hs = (True, hs)"
    using ne hl ht out by (intro memcpy_s_ok [OF sec]) auto
  have c2: "memcpy_s sec (take (unat ?t) (drop (unat ?h) out)) ts = (True, ts)"
    using ne tl ht out by (intro memcpy_s_ok [OF sec]) auto
  define m1 where "m1 = overwrite (basePtr c) (unat ?o) (replicate (unat ?h) 0)"
  define m2 where "m2 = overwrite m1 (unat (0::u64)) (replicate (unat ?t) 0)"
  have l1: "length m1 = length (basePtr c)" unfolding m1_def using fits(1) by simp
  have l2: "length m2 = ?T" unfolding m2_def using fits(2) l1 I(1) by simp
  have s1: "ring_memset sec (basePtr c) ?o ?h = Inr (True, m1)"
    unfolding m1_def by (rule ring_memset_ok [OF sec fits(1) ne(1)])
  have s2: "ring_memset sec m1 0 ?t = Inr (True, m2)"
    unfolding m2_def by (rule ring_memset_ok [OF sec _ ne(2)]) (use fits(2) l1 in simp)
  define c' where "c' = c\<lparr>basePtr := m2, readIndex := ?tr, baseIndex := ?fence\<rparr>"
  define c'' where "c'' = (if baseIndex c' \<ge> BASE_INDEX_FENCE then ReIndex c' else c')"
  have "?fence = (if ?fence \<le> ?tr then ?fence else baseIndex c)"
    using cross by (simp only: less_imp_le if_True)
  note mv = cache_ok_move [OF ok l2 m this c'_def c''_def]
  have run: "HandleCrossDequeue sec c ?tr rs out n =
      Inr (\<lparr>ret = OPERATION_SUCCESS, rsize = n\<rparr>, hs @ ts @ drop (unat ?h + unat ?t) out, c'')"
    unfolding c''_def c'_def
    by (simp only: HandleCrossDequeue_def Let_def ring_region_ok [OF fits(1)]
        ring_region_ok [OF fits(2)] hs_def [symmetric] ts_def [symmetric] sum.case prod.case c1 c2
        s1 s2 not_True_eq_False if_False AudioRingCache.simps)
  have "hs @ ts = drop (?R - ?B) (basePtr c) @ take (?R - ?B + unat n - length (basePtr c)) (basePtr c)"
    unfolding hs_def ts_def h t o I(1) using I R by (simp add: I(1))
  also have "\<dots> = ring_list (basePtr c) (?R - ?B) (unat n)"
    by (rule ring_list_cross) (use I R m in linarith)+
  also have "\<dots> = take (unat n) (cache_content c)"
    using m by (simp only: cache_content_def take_ring_list)
  finally have res: "hs @ ts @ drop (unat ?h + unat ?t) out = take (unat n) (cache_content c)"
    using ht out by simp
  have "cache_content c'' = drop (unat n) (cache_content c)"
    unfolding mv(2) unfolding cache_content_def drop_ring_list
  proof (rule ring_list_cong)
    show "length m2 = length (basePtr c)" using l2 I(1) by simp
    fix k assume k: "k < ?W - ?R - unat n"
    let ?i = "(?R - ?B + unat n + k) mod length (basePtr c)"
    have "?R - ?B + unat n + k - ?T < ?T" "?T \<le> ?R - ?B + unat n + k" using I R m k by linarith+
    then have i: "?i = ?R - ?B + unat n + k - ?T" by (simp only: I(1) le_mod_geq mod_less)
    have "unat ?t \<le> ?i" "?i < unat ?o" unfolding i t o using I R m k by linarith+
    moreover have "?i < length (basePtr c)" using I(1,2) by simp
    ultimately show "m2 ! ?i = basePtr c ! ?i"
      unfolding m2_def m1_def using fits by (simp add: nth_overwrite)
  qed
  with mv run res show ?thesis by metis
qed

lemma Dequeue_avail:
  assumes sec: "securec_ok sec" and ok: "cache_ok c" and pos: "0 < unat n"
    and m: "unat n \<le> cwriteN c - creadN c" and out: "length out = unat n"
  shows "\<exists>c'. Dequeue sec c \<lparr>dataPtr = Some out, dataSize = n\<rparr> =
      Inr (\<lparr>ret = OPERATION_SUCCESS, rsize = n\<rparr>, take (unat n) (cache_content c), c') \<and> cache_ok c' \<and>
      cache_content c' = drop (unat n) (cache_content c) \<and> cacheN c' = cacheN c"
proof -
  let ?B = "cbaseN c" and ?T = "cacheN c" and ?R = "creadN c" and ?W = "cwriteN c"
  let ?fence = "baseIndex c + cacheTotalSize c" and ?tr = "readIndex c + n"
  let ?o = "readIndex c - baseIndex c"
  note I = cache_okD [OF ok] and g = dequeue_guards [OF ok m] and wf = cache_fence [OF ok]
  have nl: "\<not> length out < unat n" using out by simp
  show ?thesis
  proof (cases "?tr > ?fence")
    case True
    have "Dequeue sec c \<lparr>dataPtr = Some out, dataSize = n\<rparr> =
        HandleCrossDequeue sec c ?tr (rsize (GetReadableSizeNoLock c)) out n"
      by (simp only: Dequeue_def BufferWrap.select_convs option.case g(1-3) nl Let_def True if_False
          if_True not_True_eq_False simp_thms)
    then show ?thesis using HandleCrossDequeue_ok [OF sec ok m out True] by metis
  next
    case False
    have R: "?R + unat n \<le> ?B + ?T" using False by (simp only: not_less word_le_nat_alt wf g(4))
    have o: "unat ?o = ?R - ?B" by (rule unat_cache_off(1) [OF ok])
    have fits: "unat ?o + unat n \<le> length (basePtr c)" unfolding o I(1) using I R by linarith
    define src where "src = take (unat n) (drop (unat ?o) (basePtr c))"
    have sl: "length src = unat n" unfolding src_def length_take length_drop using fits by linarith
    have c1: "memcpy_s sec (take (unat n) out) src = (True, src)"
      using pos sl out by (intro memcpy_s_ok [OF sec]) auto
    define m1 where "m1 = overwrite (basePtr c) (unat ?o) (replicate (unat n) 0)"
    have l1: "length m1 = ?T" unfolding m1_def using fits I(1) by simp
    have s1: "ring_memset sec (basePtr c) ?o n = Inr (True, m1)"
      unfolding m1_def by (rule ring_memset_ok [OF sec fits pos])
    have eqb: "(?tr - baseIndex c = cacheTotalSize c) = (?fence \<le> ?tr)"
    proof -
      have "(?tr - baseIndex c = cacheTotalSize c) = (?tr = ?fence)" by (auto simp: algebra_simps)
      then show ?thesis using False by (auto simp: not_less)
    qed
    define b where "b = (if ?fence \<le> ?tr then ?fence else baseIndex c)"
    define c' where "c' = c\<lparr>basePtr := m1, readIndex := ?tr, baseIndex := b\<rparr>"
    define c'' where "c'' = (if baseIndex c' \<ge> BASE_INDEX_FENCE then ReIndex c' else c')"
    note mv = cache_ok_move [OF ok l1 m b_def c'_def c''_def]
    have cc: "(if ?tr - baseIndex c = cacheTotalSize c then c\<lparr>baseIndex := ?fence\<rparr> else c)
        \<lparr>basePtr := m1, readIndex := ?tr\<rparr> = c'"
      unfolding eqb c'_def b_def by simp
    have run: "Dequeue sec c \<lparr>dataPtr = Some out, dataSize = n\<rparr> =
        Inr (\<lparr>ret = OPERATION_SUCCESS, rsize = n\<rparr>, src @ drop (unat n) out, c'')"
      unfolding c''_def
      by (simp only: Dequeue_def BufferWrap.select_convs option.case g(1-3) nl Let_def False if_False
          if_True not_True_eq_False ring_region_ok [OF fits] src_def [symmetric] sum.case prod.case
          c1 s1 cc simp_thms)
    have "src = take (unat n) (cache_content c)"
      unfolding src_def o cache_content_def take_ring_list [OF m]
      by (rule ring_list_straight) (use fits o in simp)
    then have res: "src @ drop (unat n) out = take (unat n) (cache_content c)" using out by simp
    have "?R - ?B + unat n \<le> length (basePtr c)" using fits o by simp
    then have "ring_list m1 (?R - ?B + unat n) (?W - ?R - unat n) =
        ring_list (basePtr c) (?R - ?B + unat n) (?W - ?R - unat n)"
      unfolding m1_def o using m I(1,2) cache_used_le [OF ok] by (intro ring_list_clear) simp_all
    then have "cache_content c'' = drop (unat n) (cache_content c)"
      unfolding mv(2) unfolding cache_content_def drop_ring_list .
    with mv run res show ?thesis by metis
  qed
qed

lemma Dequeue_refused:
  assumes sec: "securec_ok sec" and ok: "cache_ok c" and len: "length out = unat n"
    and big: "n = 0 \<or> cwriteN c - creadN c < unat n"
  shows "\<exists>r. Dequeue sec c \<lparr>dataPtr = Some out, dataSize = n\<rparr> = Inr (r, out, c) \<and>
    ret r \<noteq> OPERATION_SUCCESS"
proof (cases "n = 0")
  case True
  have g: "\<not> (0::u64) > MAX_CACHE_SIZE" "\<not> 0 > rsize (GetReadableSizeNoLock c)"
    "\<not> readIndex c + 0 > baseIndex c + cacheTotalSize c" "out = []"
    using cache_okD(6) [OF ok] cache_fence [OF ok] len True
    by (simp_all add: not_less word_le_nat_alt)
  have r: "ring_region (basePtr c) (readIndex c - baseIndex c) 0 = Inr []"
    using cache_okD(1,2,5,6) [OF ok] unat_cache_off(1) [OF ok]
    by (simp add: ring_region_def)
  have m: "memcpy_s sec [] [] = (False, [])" using sec by (simp add: securec_ok_def)
  have s: "ret (GetReadableSizeNoLock c) = OPERATION_SUCCESS"
    by (simp only: readable_ok(1) [OF ok] OptResult.select_convs)
  show ?thesis unfolding True g(4)
    by (simp only: Dequeue_def BufferWrap.select_convs option.case g(1-3) s Let_def if_False
          if_True not_True_eq_False r sum.case prod.case take_Nil drop_Nil m append_Nil
          list.size(3) unat_0 less_irrefl) simp
next
  case False
  then have "n > rsize (GetReadableSizeNoLock c)"
    using big by (simp only: readable_ok(1) [OF ok] OptResult.select_convs word_less_nat_alt
        readable_ok(2) [OF ok] simp_thms)
  then show ?thesis
    by (simp add: Dequeue_def OptResult_default_def)
qed

section \<open>The interface is met\<close>

text \<open>One call on a caller's buffer, its result read the way the callers read it.\<close>

definition cache_put :: "securec \<Rightarrow> AudioRingCache \<Rightarrow> u8 list \<Rightarrow> AudioRingCache option" where
  "cache_put sec c xs =
     (if int (length xs) < 2 ^ 64
      then (case Enqueue sec c \<lparr>dataPtr = Some xs, dataSize = of_nat (length xs)\<rparr> of
              Inr (r, c') \<Rightarrow> if ret r = OPERATION_SUCCESS then Some c' else None
            | Inl _ \<Rightarrow> None)
      else None)"

definition cache_get :: "securec \<Rightarrow> AudioRingCache \<Rightarrow> nat \<Rightarrow> (u8 list \<times> AudioRingCache) option" where
  "cache_get sec c n =
     (if int n < 2 ^ 64
      then (case Dequeue sec c \<lparr>dataPtr = Some (replicate n 0), dataSize = of_nat n\<rparr> of
              Inr (r, out, c') \<Rightarrow> if ret r = OPERATION_SUCCESS then Some (out, c') else None
            | Inl _ \<Rightarrow> None)
      else None)"

lemma unat_of_nat_64: "n < 2 ^ 64 \<Longrightarrow> unat (of_nat n :: u64) = n"
  by (simp add: unat_of_nat take_bit_nat_eq_self)

interpretation rc: byte_fifo "\<lambda>c. securec_ok sec \<and> cache_ok c" cacheN cache_content
    "cache_put sec" "cache_get sec" for sec
proof
  fix c :: AudioRingCache
  assume A: "securec_ok sec \<and> cache_ok c"
  then have ok: "cache_ok c" and sec: "securec_ok sec" by simp_all
  note I = cache_okD [OF ok]
  show "length (cache_content c) \<le> cacheN c" using cache_used_le [OF ok] by simp
  fix xs :: "u8 list"
  show "\<exists>c'. cache_put sec c xs = Some c' \<and> (securec_ok sec \<and> cache_ok c') \<and>
      cache_content c' = cache_content c @ xs \<and> cacheN c' = cacheN c"
    if ne: "xs \<noteq> []" and fit: "length (cache_content c) + length xs \<le> cacheN c"
  proof -
    have lt: "length xs < 2 ^ 64" using fit I(3) by simp
    have len: "length xs = unat (of_nat (length xs) :: u64)" using unat_of_nat_64 [OF lt] by simp
    have fit': "cwriteN c - creadN c + unat (of_nat (length xs) :: u64) \<le> cacheN c"
      using fit len by simp
    from Enqueue_fits [OF sec ok ne len fit'] obtain mem where e:
      "Enqueue sec c \<lparr>dataPtr = Some xs, dataSize = of_nat (length xs)\<rparr> =
        Inr (\<lparr>ret = OPERATION_SUCCESS, rsize = of_nat (length xs)\<rparr>,
             c\<lparr>basePtr := mem, writeIndex := writeIndex c + of_nat (length xs)\<rparr>)"
      and ml: "length mem = cacheN c" and rl: "ring_list mem (creadN c - cbaseN c)
        (cwriteN c - creadN c + unat (of_nat (length xs) :: u64)) = cache_content c @ xs"
      by blast
    let ?c' = "c\<lparr>basePtr := mem, writeIndex := writeIndex c + of_nat (length xs)\<rparr>"
    have put: "cache_put sec c xs = Some ?c'"
      using lt by (simp add: cache_put_def e)
    have ok': "cache_ok ?c'" by (rule cache_ok_put [OF ok fit' ml])
    have "cwriteN ?c' = cwriteN c + length xs" using unat_write_end [OF ok fit'] len by simp
    moreover have "cwriteN c + length xs - creadN c = cwriteN c - creadN c + length xs"
      using I(7) by linarith
    ultimately have "cache_content ?c' = cache_content c @ xs"
      using rl len by (simp add: cache_content_def)
    with put ok' sec show ?thesis by auto
  qed
  show "cache_put sec c xs = None" if big: "xs = [] \<or> cacheN c < length (cache_content c) + length xs"
  proof (cases "length xs < 2 ^ 64")
    case True
    then have len: "length xs = unat (of_nat (length xs) :: u64)" using unat_of_nat_64 by metis
    have "xs = [] \<or> cacheN c < cwriteN c - creadN c + unat (of_nat (length xs) :: u64)"
      using big len by simp
    from Enqueue_refused [OF ok len this] obtain r where
      "Enqueue sec c \<lparr>dataPtr = Some xs, dataSize = of_nat (length xs)\<rparr> = Inr (r, c)"
      "ret r \<noteq> OPERATION_SUCCESS" by blast
    then show ?thesis by (simp add: cache_put_def)
  next
    case False
    then show ?thesis by (simp add: cache_put_def)
  qed
  fix n :: nat
  show "\<exists>c'. cache_get sec c n = Some (take n (cache_content c), c') \<and>
      (securec_ok sec \<and> cache_ok c') \<and> cache_content c' = drop n (cache_content c) \<and> cacheN c' = cacheN c"
    if pos: "0 < n" and le: "n \<le> length (cache_content c)"
  proof -
    have lt: "n < 2 ^ 64" using le cache_used_le [OF ok] I(3) by simp
    note un = unat_of_nat_64 [OF lt]
    have "0 < unat (of_nat n :: u64)" "unat (of_nat n :: u64) \<le> cwriteN c - creadN c"
      "length (replicate n (0::u8)) = unat (of_nat n :: u64)"
      using pos le un by simp_all
    from Dequeue_avail [OF sec ok this] obtain c' where
      "Dequeue sec c \<lparr>dataPtr = Some (replicate n 0), dataSize = of_nat n\<rparr> =
         Inr (\<lparr>ret = OPERATION_SUCCESS, rsize = of_nat n\<rparr>, take n (cache_content c), c')"
      "cache_ok c'" "cache_content c' = drop n (cache_content c)" "cacheN c' = cacheN c"
      unfolding un by blast
    with lt sec show ?thesis by (simp add: cache_get_def)
  qed
  show "cache_get sec c n = None" if big: "n = 0 \<or> length (cache_content c) < n"
  proof (cases "n < 2 ^ 64")
    case True
    note un = unat_of_nat_64 [OF True]
    have "length (replicate n (0::u8)) = unat (of_nat n :: u64)"
      "(of_nat n :: u64) = 0 \<or> cwriteN c - creadN c < unat (of_nat n :: u64)"
      using big un by auto
    from Dequeue_refused [OF sec ok this] obtain r where
      "Dequeue sec c \<lparr>dataPtr = Some (replicate n 0), dataSize = of_nat n\<rparr> = Inr (r, replicate n 0, c)"
      "ret r \<noteq> OPERATION_SUCCESS" by blast
    then show ?thesis by (simp add: cache_get_def)
  next
    case False
    then show ?thesis by (simp add: cache_get_def)
  qed
qed

section \<open>Properties of the ring cache\<close>

definition demo_sec :: securec where
  "demo_sec =
     \<lparr>memcpy_s = (\<lambda>dest src. if dest = [] \<or> length dest < length src then (False, dest)
                  else (True, src @ drop (length src) dest)),
      memset_s = (\<lambda>dest v. if dest = [] then (False, dest) else (True, replicate (length dest) v))\<rparr>"

lemma demo_sec_ok: "securec_ok demo_sec"
  by (auto simp: securec_ok_def demo_sec_def)

lemma RingCache_Init_ok:
  assumes sec: "securec_ok sec" and t: "0 < cacheN c" "cacheN c \<le> 16777216"
  shows "\<exists>c'. RingCache_Init sec c = (True, c') \<and> cache_ok c' \<and> cache_content c' = [] \<and>
    cacheTotalSize c' = cacheTotalSize c"
proof -
  have "\<not> cacheTotalSize c > MAX_CACHE_SIZE"
    using t(2) unat_MAX_CACHE_SIZE by (simp only: not_less word_le_nat_alt)
  moreover have "memset_s sec (replicate (cacheN c) 0) 0 = (True, replicate (cacheN c) 0)"
  proof -
    have "replicate (cacheN c) (0::u8) \<noteq> []" using t(1) by (metis length_replicate list.size(3) less_irrefl)
    then have "memset_s sec (replicate (cacheN c) 0) 0 = (True, replicate (length (replicate (cacheN c) (0::u8))) 0)"
      using sec unfolding securec_ok_def by blast
    then show ?thesis by simp
  qed
  moreover have "cache_ok (c\<lparr>baseIndex := 0, writeIndex := 0, readIndex := 0, basePtr := replicate (cacheN c) 0\<rparr>)"
    by (rule cache_okI [where T = "cacheN c" and B = 0 and R = 0 and W = 0]) (use t in simp_all)
  ultimately show ?thesis by (simp add: RingCache_Init_def cache_content_def)
qed

lemma RingCache_Create_ok:
  assumes "securec_ok sec" and "RingCache_Create sec sz = Some c"
  shows "cache_ok c" and "cache_content c = []" and "cacheTotalSize c = sz"
proof -
  have small: "\<not> sz > MAX_CACHE_SIZE" using assms(2) by (auto simp: RingCache_Create_def split: if_splits)
  then have le: "unat sz \<le> 16777216" by (simp only: not_less word_le_nat_alt unat_MAX_CACHE_SIZE)
  have "0 < unat sz"
  proof (rule ccontr)
    assume "\<not> 0 < unat sz"
    then have z: "sz = 0" by (simp only: not_gr_zero unat_eq_zero)
    have "memset_s sec [] 0 = (False, [])" using assms(1) by (simp add: securec_ok_def)
    then show False using assms(2) z
      by (simp add: RingCache_Create_def RingCache_Init_def AudioRingCache_ctor_def)
  qed
  then have "0 < cacheN (AudioRingCache_ctor sz)" "cacheN (AudioRingCache_ctor sz) \<le> 16777216"
    using le by (simp_all add: AudioRingCache_ctor_def)
  from RingCache_Init_ok [OF assms(1) this] assms(2) small
  show "cache_ok c" "cache_content c = []" "cacheTotalSize c = sz"
    by (auto simp: RingCache_Create_def AudioRingCache_ctor_def)
qed

text \<open>
  C8: a cache from \<open>Create\<close> is a first-in first-out byte queue under every interleaving of
  accepted and refused \<open>Enqueue\<close> and \<open>Dequeue\<close> calls: the bytes accepted are exactly the bytes
  delivered followed by the bytes still held, whatever the wrap-around of the ring and the
  re-basing of the indices did in between, and it never holds more than its capacity.
\<close>

theorem cache_delivers_fifo:
  assumes "securec_ok sec" and "RingCache_Create sec sz = Some c"
    and "fifo_run (cache_put sec) (cache_get sec) c ops = (w, r, c')"
  shows "w = r @ cache_content c' \<and> length (cache_content c') \<le> unat sz"
proof -
  note create = RingCache_Create_ok [OF assms(1,2)]
  have "securec_ok sec \<and> cache_ok c" using create(1) assms(1) by simp
  from rc.run_fifo [OF this assms(3)] create(2,3) rc.content_le [of sec c'] show ?thesis by auto
qed

definition demo_cache :: AudioRingCache where
  "demo_cache = \<lparr>basePtr = [0, 0, 0, 0], cacheTotalSize = 4, baseIndex = 0, writeIndex = 0, readIndex = 0\<rparr>"

definition demo_ops :: "u8 fifo_op list" where
  "demo_ops = [Put [1, 2, 3], Get 2, Put [4, 5, 6], Put [7], Get 3, Get 2]"

lemma four_zeros: "replicate 4 (0::u8) = [0, 0, 0, 0]"
  by (simp add: numeral_eq_Suc)

lemma demo_create: "RingCache_Create demo_sec 4 = Some demo_cache"
  by (simp add: RingCache_Create_def RingCache_Init_def AudioRingCache_ctor_def MAX_CACHE_SIZE_def
      demo_sec_def demo_cache_def four_zeros)

text \<open>Six calls that cross the end of the ring; the fourth and the last are refused.\<close>

theorem cache_delivers_fifo_witness:
  "\<exists>c'. fifo_run (cache_put demo_sec) (cache_get demo_sec) demo_cache demo_ops =
     ([1, 2, 3, 4, 5, 6], [1, 2, 3, 4, 5], c') \<and> [1, 2, 3, 4, 5, 6] = [1, 2, 3, 4, 5] @ cache_content c'"
proof -
  let ?run = "fifo_run (cache_put demo_sec) (cache_get demo_sec) demo_cache demo_ops"
  have run: "fst ?run = [1, 2, 3, 4, 5, 6] \<and> fst (snd ?run) = [1, 2, 3, 4, 5]" by code_simp
  obtain w r c' where e: "?run = (w, r, c')" by (cases ?run)
  with run have "?run = ([1, 2, 3, 4, 5, 6], [1, 2, 3, 4, 5], c')" by simp
  with cache_delivers_fifo [OF demo_sec_ok demo_create this] show ?thesis by blast
qed

text \<open>
  \<open>Enqueue\<close> is total on a well-formed cache. With the caller's buffer as large as it says,
  the call never leaves the ring memory; it succeeds exactly when it is given between one byte
  and the writable size, and then appends them; otherwise it reports an error and changes
  nothing.
\<close>

theorem enqueue_total:
  assumes "securec_ok sec" and "cache_ok c" and "length xs = unat n"
  shows "\<exists>r c'. Enqueue sec c \<lparr>dataPtr = Some xs, dataSize = n\<rparr> = Inr (r, c') \<and> cache_ok c' \<and>
    (ret r = OPERATION_SUCCESS) = (0 < unat n \<and> unat n \<le> unat (rsize (GetWritableSize c))) \<and>
    (if ret r = OPERATION_SUCCESS then cache_content c' = cache_content c @ xs else c' = c)"
proof (cases "0 < unat n \<and> cwriteN c - creadN c + unat n \<le> cacheN c")
  case True
  have "xs \<noteq> []" using True assms(3) by auto
  from Enqueue_fits [OF assms(1,2) this assms(3)] True obtain mem where e:
    "Enqueue sec c \<lparr>dataPtr = Some xs, dataSize = n\<rparr> = Inr (\<lparr>ret = OPERATION_SUCCESS, rsize = n\<rparr>,
       c\<lparr>basePtr := mem, writeIndex := writeIndex c + n\<rparr>)"
    and mem: "length mem = cacheN c"
      "ring_list mem (creadN c - cbaseN c) (cwriteN c - creadN c + unat n) = cache_content c @ xs"
    by blast
  let ?c' = "c\<lparr>basePtr := mem, writeIndex := writeIndex c + n\<rparr>"
  have fit: "cwriteN c - creadN c + unat n \<le> cacheN c" using True by simp
  have "cwriteN c + unat n - creadN c = cwriteN c - creadN c + unat n"
    using cache_okD(7) [OF assms(2)] by linarith
  then have "cache_content ?c' = cache_content c @ xs"
    using mem unat_write_end [OF assms(2) fit] by (simp add: cache_content_def)
  moreover have "unat n \<le> unat (rsize (GetWritableSize c))"
    using fit by (simp add: GetWritableSize_def writable_ok [OF assms(2)])
  ultimately show ?thesis using True e cache_ok_put [OF assms(2) fit mem(1)] by auto
next
  case False
  have "xs = [] \<or> cacheN c < cwriteN c - creadN c + unat n" using False assms(3) by auto
  from Enqueue_refused [OF assms(2,3) this] obtain r where
    "Enqueue sec c \<lparr>dataPtr = Some xs, dataSize = n\<rparr> = Inr (r, c)" "ret r \<noteq> OPERATION_SUCCESS" by blast
  moreover have "\<not> (0 < unat n \<and> unat n \<le> unat (rsize (GetWritableSize c)))"
    unfolding GetWritableSize_def writable_ok(1) [OF assms(2)] OptResult.select_convs
      writable_ok(2) [OF assms(2)] using False cache_used_le [OF assms(2)] by linarith
  ultimately show ?thesis using assms(2) by (simp only:) auto
qed

lemma demo_cache_ok: "cache_ok demo_cache"
  by (simp add: cache_ok_def demo_cache_def)

theorem enqueue_total_witness:
  "\<exists>r c'. Enqueue demo_sec demo_cache \<lparr>dataPtr = Some [7, 8], dataSize = 2\<rparr> = Inr (r, c') \<and>
     ret r = OPERATION_SUCCESS \<and> cache_content c' = [7, 8]"
proof -
  have w: "unat (rsize (GetWritableSize demo_cache)) = 4" "cache_content demo_cache = []"
    by (simp_all add: GetWritableSize_def GetWritableSizeNoLock_def demo_cache_def cache_content_def)
  from enqueue_total [OF demo_sec_ok demo_cache_ok, of "[7, 8]" 2] w show ?thesis by auto
qed

text \<open>
  \<open>ReConfig\<close> to a size the remaining bytes fit in keeps them: with \<open>copyRemained\<close> and a
  non-empty cache the call succeeds, the new cache has the new size and the same content.
\<close>

theorem reconfig_keeps_content:
  assumes sec: "securec_ok sec" and ok: "cache_ok c" and "sz \<le> MAX_CACHE_SIZE"
    and ne: "cache_content c \<noteq> []" and fit: "length (cache_content c) \<le> unat sz"
  shows "\<exists>r c'. ReConfig sec c sz True = Inr (r, c') \<and> ret r = OPERATION_SUCCESS \<and> cache_ok c' \<and>
    cache_content c' = cache_content c \<and> cacheTotalSize c' = sz"
proof -
  let ?n = "writeIndex c - readIndex c"
  have un: "unat ?n = length (cache_content c)" using readable_ok(2) [OF ok] by simp
  have rs: "GetReadableSize c = \<lparr>ret = OPERATION_SUCCESS, rsize = ?n\<rparr>"
    by (simp only: GetReadableSize_def readable_ok(1) [OF ok])
  have pos: "0 < unat ?n" using ne unfolding un by (simp only: length_greater_0_conv simp_thms)
  have m: "unat ?n \<le> cwriteN c - creadN c" using un by simp
  from Dequeue_avail [OF sec ok pos m, of "replicate (unat ?n) 0"] obtain c1 where d:
    "Dequeue sec c \<lparr>dataPtr = Some (replicate (unat ?n) 0), dataSize = ?n\<rparr> =
      Inr (\<lparr>ret = OPERATION_SUCCESS, rsize = ?n\<rparr>, cache_content c, c1)"
    using un by auto
  have small: "unat sz \<le> 16777216" using assms(3) by (simp only: word_le_nat_alt unat_MAX_CACHE_SIZE)
  have "0 < cacheN (c1\<lparr>cacheTotalSize := sz\<rparr>)" "cacheN (c1\<lparr>cacheTotalSize := sz\<rparr>) \<le> 16777216"
    using pos un fit small by simp_all
  from RingCache_Init_ok [OF sec this] obtain c2 where i:
    "RingCache_Init sec (c1\<lparr>cacheTotalSize := sz\<rparr>) = (True, c2)" and ok2: "cache_ok c2"
    and c2: "cache_content c2 = []" "cacheTotalSize c2 = sz" by auto
  have room: "0 < unat ?n \<and> unat ?n \<le> unat (rsize (GetWritableSize c2))"
    unfolding GetWritableSize_def writable_ok(1) [OF ok2] OptResult.select_convs writable_ok(2) [OF ok2]
    using pos un fit c2 length_cache_content [of c2] by simp
  from Enqueue_fits [OF sec ok2 ne un [symmetric]] c2 length_cache_content [of c2] fit un
  obtain mem where e: "Enqueue sec c2 \<lparr>dataPtr = Some (cache_content c), dataSize = ?n\<rparr> =
      Inr (\<lparr>ret = OPERATION_SUCCESS, rsize = ?n\<rparr>,
           c2\<lparr>basePtr := mem, writeIndex := writeIndex c2 + ?n\<rparr>)"
    by auto
  from un have len: "length (cache_content c) = unat ?n" by simp
  let ?c' = "c2\<lparr>basePtr := mem, writeIndex := writeIndex c2 + ?n\<rparr>"
  from enqueue_total [OF sec ok2 len] e have c': "cache_ok ?c'" "cache_content ?c' = cache_content c"
    using c2 by auto
  have "\<not> sz > MAX_CACHE_SIZE" "\<not> ?n > sz"
    using assms(3) fit un by (simp_all only: not_less word_le_nat_alt)
  then have "ReConfig sec c sz True = Inr (\<lparr>ret = OPERATION_SUCCESS, rsize = ?n\<rparr>, ?c')"
    by (simp add: ReConfig_def rs d i e)
  with c' c2 show ?thesis by auto
qed

definition demo_used :: AudioRingCache where
  "demo_used = \<lparr>basePtr = [5, 0, 3, 4], cacheTotalSize = 4, baseIndex = 4, writeIndex = 9, readIndex = 6\<rparr>"

lemma demo_used_ok: "cache_ok demo_used" "cache_content demo_used = [3, 4, 5]"
  by (simp add: cache_ok_def demo_used_def)
     (simp add: cache_content_def ring_list_def demo_used_def upt_rec)

theorem reconfig_keeps_content_witness:
  "\<exists>r c'. ReConfig demo_sec demo_used 8 True = Inr (r, c') \<and> ret r = OPERATION_SUCCESS \<and>
     cache_content c' = [3, 4, 5]"
  using reconfig_keeps_content [OF demo_sec_ok demo_used_ok(1), of 8]
  by (auto simp: demo_used_ok(2) MAX_CACHE_SIZE_def)

text \<open>
  A \<open>ReConfig\<close> with \<open>copyRemained\<close> of an empty cache never succeeds, at any size: the
  zero-byte \<open>Dequeue\<close> hands \<open>memcpy_s\<close> a zero \<open>destMax\<close>, and the call returns before the
  cache is resized. The capacity and the content are those of before.
\<close>

theorem reconfig_of_empty_cache_fails:
  assumes sec: "securec_ok sec" and ok: "cache_ok c" and "cache_content c = []"
  shows "\<exists>r. ReConfig sec c sz True = Inr (r, c) \<and> ret r \<noteq> OPERATION_SUCCESS"
proof (cases "sz > MAX_CACHE_SIZE")
  case True
  then show ?thesis by (simp add: ReConfig_def)
next
  case False
  let ?n = "writeIndex c - readIndex c"
  have "unat ?n = 0" using readable_ok(2) [OF ok] assms(3) length_cache_content [of c] by simp
  then have z: "?n = 0" by (simp only: unat_eq_zero)
  have rs: "GetReadableSize c = \<lparr>ret = OPERATION_SUCCESS, rsize = 0\<rparr>"
    by (simp only: GetReadableSize_def readable_ok(1) [OF ok] z)
  from Dequeue_refused [OF sec ok, of "[]" 0] obtain r where
    "Dequeue sec c \<lparr>dataPtr = Some [], dataSize = 0\<rparr> = Inr (r, [], c)" "ret r \<noteq> OPERATION_SUCCESS"
    by auto
  then show ?thesis using False by (simp add: ReConfig_def rs)
qed

theorem reconfig_of_empty_cache_fails_witness:
  "\<exists>r. ReConfig demo_sec demo_cache 8 True = Inr (r, demo_cache) \<and> ret r \<noteq> OPERATION_SUCCESS"
  using reconfig_of_empty_cache_fails [OF demo_sec_ok demo_cache_ok, of 8]
  by (simp add: cache_content_def demo_cache_def)

text \<open>
  A \<open>ReConfig\<close> with \<open>copyRemained\<close> to a size smaller than the remaining bytes does nothing
  and still returns \<open>OPERATION_SUCCESS\<close>: the result of \<open>GetReadableSize\<close> is returned as it is.
\<close>

theorem reconfig_too_small_reports_success:
  assumes "cache_ok c" and "sz \<le> MAX_CACHE_SIZE" and "unat sz < length (cache_content c)"
  shows "ReConfig sec c sz True =
    Inr (\<lparr>ret = OPERATION_SUCCESS, rsize = of_nat (length (cache_content c))\<rparr>, c)"
proof -
  let ?n = "writeIndex c - readIndex c"
  have un: "unat ?n = length (cache_content c)" using readable_ok(2) [OF assms(1)] by simp
  have of: "of_nat (length (cache_content c)) = ?n" unfolding un [symmetric] by simp
  have "?n > sz" using assms(3) un by (simp only: word_less_nat_alt)
  then show ?thesis using assms(2) unfolding of
    by (simp add: ReConfig_def GetReadableSize_def readable_ok(1) [OF assms(1)] not_less [symmetric])
qed

theorem reconfig_too_small_reports_success_witness:
  "ReConfig demo_sec demo_used 2 True = Inr (\<lparr>ret = OPERATION_SUCCESS, rsize = 3\<rparr>, demo_used)"
  using reconfig_too_small_reports_success [OF demo_used_ok(1), of 2 demo_sec]
  by (simp add: demo_used_ok(2) MAX_CACHE_SIZE_def)

end
