(* ===== verification/PosTime.thy ===== *)
theory PosTime
  imports Prelude
begin

text \<open>
  \<open>services/audio_service/common/src/linear_pos_time_model.cpp\<close>: the linear model that
  predicts the time at which a frame position is reached from one stamped pair of position
  and time and the sample rate. Positions are \<open>uint64_t\<close>, times are \<open>int64_t\<close> nanoseconds.

  Signed overflow is undefined in C++; the words wrap instead, and every theorem states the
  range of its inputs in which no intermediate result leaves \<open>int64_t\<close>.
\<close>

section \<open>Data and operations\<close>

record LinearPosTimeModel =
  isConfiged :: bool
  sampleRate :: s32
  nanoTimePerFrame :: s64
  spanCountInFrame :: u64
  stampFrame :: u64
  stampNanoTime :: s64

definition NANO_COUNT_PER_SECOND :: s64 where "NANO_COUNT_PER_SECOND = 1000000000"
definition MAX_SUPPORT_SAMPLE_RETE :: s32 where "MAX_SUPPORT_SAMPLE_RETE = 384000"
definition REASONABLE_BOUND_IN_NANO :: s64 where "REASONABLE_BOUND_IN_NANO = 10000000"

definition LinearPosTimeModel_ctor :: LinearPosTimeModel where
  "LinearPosTimeModel_ctor =
     \<lparr>isConfiged = False, sampleRate = 0, nanoTimePerFrame = 0, spanCountInFrame = 0,
      stampFrame = 0, stampNanoTime = 0\<rparr>"

definition ConfigSampleRate :: "LinearPosTimeModel \<Rightarrow> s32 \<Rightarrow> bool \<times> LinearPosTimeModel" where
  "ConfigSampleRate m rate =
     (if isConfiged m then (False, m)
      else
        let m1 = m\<lparr>sampleRate := rate\<rparr>
        in if sint rate \<le> 0 \<or> sint rate > sint MAX_SUPPORT_SAMPLE_RETE then (False, m1)
           else (True, m1\<lparr>nanoTimePerFrame := s64_quot NANO_COUNT_PER_SECOND (scast rate),
                          isConfiged := True\<rparr>))"

definition ResetFrameStamp :: "LinearPosTimeModel \<Rightarrow> u64 \<Rightarrow> s64 \<Rightarrow> LinearPosTimeModel" where
  "ResetFrameStamp m frame nanoTime = m\<lparr>stampFrame := frame, stampNanoTime := nanoTime\<rparr>"

definition IsReasonable :: "LinearPosTimeModel \<Rightarrow> u64 \<Rightarrow> s64 \<Rightarrow> bool exec" where
  "IsReasonable m frame nanoTime =
     (if frame = stampFrame m \<and> nanoTime = stampNanoTime m then Inr True
      else if sampleRate m = 0 then Inl DivByZero
      else
        let deltaFrame = (if frame > stampFrame m then frame - stampFrame m
                          else - (stampFrame m - frame)) :: s64;
            reasonableDeltaTime = stampNanoTime m +
              s64_quot (deltaFrame * NANO_COUNT_PER_SECOND) (scast (sampleRate m))
        in Inr (sint nanoTime \<le> sint (reasonableDeltaTime + REASONABLE_BOUND_IN_NANO) \<and>
                sint nanoTime \<ge> sint (reasonableDeltaTime - REASONABLE_BOUND_IN_NANO)))"

definition UpdataFrameStamp ::
    "LinearPosTimeModel \<Rightarrow> u64 \<Rightarrow> s64 \<Rightarrow> (bool \<times> LinearPosTimeModel) exec" where
  "UpdataFrameStamp m frame nanoTime =
     (case IsReasonable m frame nanoTime of
        Inl f \<Rightarrow> Inl f
      | Inr True \<Rightarrow> Inr (True, m\<lparr>stampFrame := frame, stampNanoTime := nanoTime\<rparr>)
      | Inr False \<Rightarrow> Inr (False, m))"

definition GetFrameStamp :: "LinearPosTimeModel \<Rightarrow> (u64 \<times> s64) option" where
  "GetFrameStamp m = (if \<not> isConfiged m then None else Some (stampFrame m, stampNanoTime m))"

definition SetSpanCount :: "LinearPosTimeModel \<Rightarrow> u64 \<Rightarrow> LinearPosTimeModel" where
  "SetSpanCount m n = m\<lparr>spanCountInFrame := n\<rparr>"

definition GetTimeOfPos :: "LinearPosTimeModel \<Rightarrow> u64 \<Rightarrow> s64" where
  "GetTimeOfPos m posInFrame =
     (if \<not> isConfiged m then - 1
      else if posInFrame \<ge> stampFrame m
      then stampNanoTime m +
             s64_quot ((posInFrame - stampFrame m) * NANO_COUNT_PER_SECOND) (scast (sampleRate m))
      else stampNanoTime m -
             s64_quot ((stampFrame m - posInFrame) * NANO_COUNT_PER_SECOND) (scast (sampleRate m)))"

section \<open>The prediction over the integers\<close>

text \<open>A model \<open>ConfigSampleRate\<close> accepted.\<close>

definition configured :: "LinearPosTimeModel \<Rightarrow> bool" where
  "configured m \<longleftrightarrow> isConfiged m \<and> 0 < sint (sampleRate m) \<and> sint (sampleRate m) \<le> 384000"

text \<open>
  The frames are within \<open>9 * 10^9\<close> of the stamp (more than six hours at the highest rate)
  and the stamped time is within \<open>2^61\<close> ns of zero: then nothing overflows.
\<close>

definition near :: "LinearPosTimeModel \<Rightarrow> u64 \<Rightarrow> bool" where
  "near m pos \<longleftrightarrow> \<bar>int (unat pos) - int (unat (stampFrame m))\<bar> \<le> 4000000000 \<and>
     \<bar>sint (stampNanoTime m)\<bar> \<le> 2 ^ 61"

definition predicted :: "LinearPosTimeModel \<Rightarrow> u64 \<Rightarrow> int" where
  "predicted m pos =
     (let d = int (unat pos) - int (unat (stampFrame m))
      in sint (stampNanoTime m) + (d * 1000000000) sdiv sint (sampleRate m))"

lemma sint_scast_32_64: "sint (scast (x::s32) :: s64) = sint x"
  by (simp add: sint_up_scast is_up_def source_size_def target_size_def word_size)

lemma nano_sint: "sint NANO_COUNT_PER_SECOND = 1000000000"
  by (simp add: NANO_COUNT_PER_SECOND_def)

lemma bound_sint: "sint REASONABLE_BOUND_IN_NANO = 10000000"
  by (simp add: REASONABLE_BOUND_IN_NANO_def)

lemma product_of_delta:
  assumes "unat (d::u64) \<le> 4000000000"
  shows "sint (d * NANO_COUNT_PER_SECOND) = int (unat d) * 1000000000"
proof -
  have sd: "sint d = int (unat d)" using assms by (intro sint_small_u64) simp
  have le: "int (unat d) * 1000000000 \<le> 4000000000000000000" using assms by linarith
  show ?thesis unfolding sd [symmetric] nano_sint [symmetric]
    by (rule s64_mult, unfold sd nano_sint, rule in_s64I) (use le in linarith)+
qed

lemma quot_of_delta:
  assumes "unat (d::u64) \<le> 4000000000" and "0 < sint (r::s32)"
  shows "sint (s64_quot (d * NANO_COUNT_PER_SECOND) (scast r)) = int (unat d) * 1000000000 div sint r"
    and "0 \<le> int (unat d) * 1000000000 div sint r"
    and "int (unat d) * 1000000000 div sint r \<le> 4000000000000000000"
proof -
  have le: "int (unat d) * 1000000000 \<le> 4000000000000000000" using assms(1) by linarith
  note pr = product_of_delta [OF assms(1)]
  show nn: "0 \<le> int (unat d) * 1000000000 div sint r"
    using assms(2) by (simp add: pos_imp_zdiv_nonneg_iff)
  have "int (unat d) * 1000000000 div sint r \<le> int (unat d) * 1000000000 div 1"
    using assms(2) by (intro zdiv_mono2) simp_all
  then show ub: "int (unat d) * 1000000000 div sint r \<le> 4000000000000000000" using le by simp
  show "sint (s64_quot (d * NANO_COUNT_PER_SECOND) (scast r)) = int (unat d) * 1000000000 div sint r"
    unfolding s64_quot_def pr sint_scast_32_64
    using nn ub assms(2) by (subst sint_of_int_64) (simp_all add: sdiv_pos in_s64_def)
qed

lemma GetTimeOfPos_predicted:
  assumes c: "configured m" and n: "near m pos"
  shows "sint (GetTimeOfPos m pos) = predicted m pos" and "\<bar>predicted m pos\<bar> < 2 ^ 62 + 2 ^ 61"
proof -
  let ?r = "sampleRate m" and ?t = "stampNanoTime m" and ?f = "stampFrame m"
  have r: "0 < sint ?r" and conf: "isConfiged m" using c by (simp_all add: configured_def)
  have t: "\<bar>sint ?t\<bar> \<le> 2 ^ 61" using n by (simp add: near_def)
  have "sint (GetTimeOfPos m pos) = predicted m pos \<and> \<bar>predicted m pos\<bar> < 2 ^ 62 + 2 ^ 61"
  proof (cases "pos \<ge> ?f")
    case True
    then have d: "unat (pos - ?f) = unat pos - unat ?f" and le: "unat ?f \<le> unat pos"
      by (simp_all add: unat_sub_le word_le_nat_alt)
    then have small: "unat (pos - ?f) \<le> 4000000000" using n unfolding near_def d by linarith
    note q = quot_of_delta [OF small r]
    have pd: "predicted m pos = sint ?t + int (unat (pos - ?f)) * 1000000000 div sint ?r"
    proof -
      have "0 \<le> (int (unat pos) - int (unat ?f)) * 1000000000"
        by (rule mult_nonneg_nonneg) (simp_all only: diff_ge_0_iff_ge of_nat_le_iff le zero_le_numeral)
      then show ?thesis unfolding predicted_def Let_def d of_nat_diff [OF le]
        using r by (simp only: sdiv_pos)
    qed
    have "sint (?t + s64_quot ((pos - ?f) * NANO_COUNT_PER_SECOND) (scast ?r)) =
        sint ?t + int (unat (pos - ?f)) * 1000000000 div sint ?r"
      unfolding q(1) [symmetric] by (rule s64_add) (use q t in \<open>auto simp: in_s64_def\<close>)
    then show ?thesis using True conf pd q(2,3) t by (auto simp: GetTimeOfPos_def)
  next
    case False
    then have le: "unat pos \<le> unat ?f" by (simp add: word_le_nat_alt)
    then have d: "unat (?f - pos) = unat ?f - unat pos"
      by (simp add: unat_sub_le word_le_nat_alt)
    then have small: "unat (?f - pos) \<le> 4000000000" using n le unfolding near_def d by linarith
    note q = quot_of_delta [OF small r]
    have e: "(int (unat pos) - int (unat ?f)) * 1000000000 = - (int (unat (?f - pos)) * 1000000000)"
      unfolding d of_nat_diff [OF le] by simp
    have pd: "predicted m pos = sint ?t - int (unat (?f - pos)) * 1000000000 div sint ?r"
      unfolding predicted_def Let_def e using r by (subst sdiv_neg) simp_all
    have "sint (?t - s64_quot ((?f - pos) * NANO_COUNT_PER_SECOND) (scast ?r)) =
        sint ?t - int (unat (?f - pos)) * 1000000000 div sint ?r"
      unfolding q(1) [symmetric] by (rule s64_sub) (use q t in \<open>auto simp: in_s64_def\<close>)
    then show ?thesis using False conf pd q(2,3) t by (auto simp: GetTimeOfPos_def)
  qed
  then show "sint (GetTimeOfPos m pos) = predicted m pos" "\<bar>predicted m pos\<bar> < 2 ^ 62 + 2 ^ 61"
    by simp_all
qed

section \<open>Properties\<close>

text \<open>
  On a configured model the prediction is exact: \<open>GetTimeOfPos\<close> returns the stamped time
  plus the distance in frames divided by the rate, truncated towards the stamp, on both sides
  of the stamp and with no overflow on the way; at the stamp it returns the stamped time.
\<close>

theorem time_of_pos_exact:
  assumes "configured m" and "near m pos"
  shows "sint (GetTimeOfPos m pos) = predicted m pos \<and> GetTimeOfPos m (stampFrame m) = stampNanoTime m"
  using GetTimeOfPos_predicted(1) [OF assms] assms(1)
  by (simp add: GetTimeOfPos_def configured_def s64_quot_def)

definition demo_model :: LinearPosTimeModel where
  "demo_model = snd (ConfigSampleRate (ResetFrameStamp LinearPosTimeModel_ctor 48000 5000000000) 48000)"

lemma demo_model_fields:
  "isConfiged demo_model" "sampleRate demo_model = 48000" "stampFrame demo_model = 48000"
  "stampNanoTime demo_model = 5000000000"
  by (simp_all add: demo_model_def ConfigSampleRate_def ResetFrameStamp_def LinearPosTimeModel_ctor_def
      MAX_SUPPORT_SAMPLE_RETE_def)

lemma demo_model_configured: "configured demo_model"
  by (simp add: configured_def demo_model_fields)

theorem time_of_pos_exact_witness:
  "sint (GetTimeOfPos demo_model 47999) = 5000000000 - 20833"
  using time_of_pos_exact [OF demo_model_configured, of 47999]
  by (simp add: near_def predicted_def demo_model_fields signed_divide_int_def)

text \<open>
  The prediction never runs backwards: a later position is never predicted earlier.
\<close>

theorem time_of_pos_monotone:
  assumes "configured m" and "near m p" and "near m q" and "p \<le> q"
  shows "sint (GetTimeOfPos m p) \<le> sint (GetTimeOfPos m q)"
proof -
  have r: "0 < sint (sampleRate m)" using assms(1) by (simp add: configured_def)
  have "(int (unat p) - int (unat (stampFrame m))) * 1000000000 \<le>
      (int (unat q) - int (unat (stampFrame m))) * 1000000000"
    using assms(4) by (simp add: word_le_def)
  then show ?thesis
    unfolding GetTimeOfPos_predicted(1) [OF assms(1,2)] GetTimeOfPos_predicted(1) [OF assms(1,3)]
      predicted_def Let_def
    using sdiv_mono r by simp
qed

theorem time_of_pos_monotone_witness:
  "sint (GetTimeOfPos demo_model 40000) \<le> sint (GetTimeOfPos demo_model 50000)"
  by (rule time_of_pos_monotone [OF demo_model_configured])
     (simp_all add: near_def demo_model_fields)

text \<open>
  \<open>UpdataFrameStamp\<close> accepts a pair exactly when it lies within 10 ms of what the model
  predicts for the position; an accepted pair becomes the stamp, so the prediction at that
  position moves by at most 10 ms, and a refused pair changes nothing.
\<close>

theorem update_accepts_within_bound:
  assumes "configured m" and "near m frame" and "\<bar>sint nanoTime\<bar> \<le> 2 ^ 61"
  shows "UpdataFrameStamp m frame nanoTime =
    (if \<bar>sint nanoTime - sint (GetTimeOfPos m frame)\<bar> \<le> 10000000
     then Inr (True, ResetFrameStamp m frame nanoTime) else Inr (False, m))"
proof -
  let ?r = "sampleRate m" and ?t = "stampNanoTime m" and ?f = "stampFrame m"
  let ?d = "(if frame > ?f then frame - ?f else - (?f - frame)) :: s64"
  let ?p = "?t + s64_quot (?d * NANO_COUNT_PER_SECOND) (scast ?r)"
  have r: "0 < sint ?r" "?r \<noteq> 0" and conf: "isConfiged m"
    using assms(1) by (auto simp: configured_def)
  note pred = GetTimeOfPos_predicted [OF assms(1,2)]
  have p: "?p = GetTimeOfPos m frame"
  proof (cases "frame \<ge> ?f")
    case True
    have "?d = frame - ?f" using True by (auto simp: not_less order_le_less)
    then show ?thesis using True conf by (simp only: GetTimeOfPos_def simp_thms if_True if_False)
  next
    case False
    then have le: "unat frame \<le> unat ?f" by (simp add: word_le_nat_alt)
    have "unat (?f - frame) = unat ?f - unat frame" using False by (simp add: unat_sub_le)
    then have small: "unat (?f - frame) \<le> 4000000000" using assms(2) le unfolding near_def by linarith
    have d: "?d = - (?f - frame)" using False by auto
    have "in_s64 (- sint ((?f - frame) * NANO_COUNT_PER_SECOND))"
      using product_of_delta [OF small] small by (intro in_s64I) linarith+
    then show ?thesis using False conf unfolding d
      by (simp only: GetTimeOfPos_def simp_thms if_True if_False mult_minus_left s64_quot_minus
          diff_conv_add_uminus)
  qed
  have "IsReasonable m frame nanoTime = Inr (\<bar>sint nanoTime - sint (GetTimeOfPos m frame)\<bar> \<le> 10000000)"
  proof (cases "frame = ?f \<and> nanoTime = ?t")
    case True
    then show ?thesis using conf by (simp add: IsReasonable_def GetTimeOfPos_def s64_quot_def)
  next
    case False
    have b: "\<bar>sint (GetTimeOfPos m frame)\<bar> < 2 ^ 62 + 2 ^ 61" unfolding pred(1) by (rule pred(2))
    have a: "sint (GetTimeOfPos m frame + REASONABLE_BOUND_IN_NANO) = sint (GetTimeOfPos m frame) + 10000000"
      "sint (GetTimeOfPos m frame - REASONABLE_BOUND_IN_NANO) = sint (GetTimeOfPos m frame) - 10000000"
      using s64_add [OF in_s64I, of "GetTimeOfPos m frame" REASONABLE_BOUND_IN_NANO]
        s64_sub [OF in_s64I, of "GetTimeOfPos m frame" REASONABLE_BOUND_IN_NANO] b
      by (simp_all add: bound_sint abs_less_iff)
    show ?thesis unfolding IsReasonable_def Let_def p a using False r(2) by auto
  qed
  then show ?thesis by (auto simp: UpdataFrameStamp_def ResetFrameStamp_def)
qed

theorem update_accepts_within_bound_witness:
  "UpdataFrameStamp demo_model 48480 5015000000 = Inr (True, ResetFrameStamp demo_model 48480 5015000000) \<and>
   UpdataFrameStamp demo_model 48480 5025000000 = Inr (False, demo_model)"
proof -
  have n: "near demo_model 48480" by (simp add: near_def demo_model_fields)
  have "predicted demo_model 48480 = 5010000000"
    by (simp add: predicted_def demo_model_fields signed_divide_int_def)
  then have t: "sint (GetTimeOfPos demo_model 48480) = 5010000000"
    by (simp add: GetTimeOfPos_predicted(1) [OF demo_model_configured n])
  show ?thesis
    using update_accepts_within_bound [OF demo_model_configured n, of 5015000000]
      update_accepts_within_bound [OF demo_model_configured n, of 5025000000]
    by (simp add: t)
qed

text \<open>
  The sample rate is set at most once, and only to \<open>1 .. 384000\<close> Hz: \<open>ConfigSampleRate\<close>
  succeeds exactly then, a configured model is never changed by it, and a model reachable by
  it from the constructor is configured or still answers \<open>GetTimeOfPos\<close> with \<open>-1\<close>.
\<close>

theorem sample_rate_set_once:
  "(case ConfigSampleRate m rate of (b, m') \<Rightarrow>
      b = (\<not> isConfiged m \<and> 0 < sint rate \<and> sint rate \<le> 384000) \<and>
      (if b then configured m' \<and> sampleRate m' = rate \<and> m'\<lparr>sampleRate := sampleRate m,
              nanoTimePerFrame := nanoTimePerFrame m, isConfiged := isConfiged m\<rparr> = m
       else isConfiged m' = isConfiged m \<and> (if isConfiged m then m' = m else GetTimeOfPos m' pos = - 1)))"
  by (cases "isConfiged m"; cases "sint rate \<le> 0 \<or> sint rate > 384000")
     (auto simp: ConfigSampleRate_def configured_def GetTimeOfPos_def MAX_SUPPORT_SAMPLE_RETE_def Let_def)

text \<open>
  On a model whose rate was never set, \<open>UpdataFrameStamp\<close> divides by the zero rate for
  every pair other than the stamp itself: the guard \<open>GetFrameStamp\<close> and \<open>GetTimeOfPos\<close> have is
  missing there.
\<close>

theorem update_unconfigured_divides_by_zero:
  "UpdataFrameStamp (ResetFrameStamp LinearPosTimeModel_ctor f t) frame nanoTime =
     (if frame = f \<and> nanoTime = t
      then Inr (True, ResetFrameStamp LinearPosTimeModel_ctor f t) else Inl DivByZero)"
  by (simp add: UpdataFrameStamp_def IsReasonable_def ResetFrameStamp_def LinearPosTimeModel_ctor_def)

end
