(* ===== verification/AudioTypes.thy ===== *)
theory AudioTypes
  imports Prelude "HOL-Library.AList"
begin

text \<open>
  The enumerations and structures of the framework's common headers that the policy server
  works with: \<open>audio_stream_info.h\<close>, \<open>audio_source_type.h\<close>, \<open>audio_interrupt_info.h\<close>,
  \<open>audio_session_info.h\<close> and \<open>audio_info.h\<close>. An enumeration is a datatype with the source's
  enumerators; its \<open>_code\<close> function is the underlying value, given where the code compares it.

  An associative container is an association list with distinct keys: \<open>AList.update\<close> is
  \<open>m[k] = v\<close> or \<open>insert_or_assign\<close>, \<open>AList.delete\<close> is \<open>erase\<close>, \<open>map_of\<close> is \<open>find\<close>. The list order
  stands for the iteration order, which the standard leaves open for unordered containers.
\<close>

section \<open>Enumerations\<close>

datatype AudioStreamType =
  STREAM_DEFAULT | STREAM_VOICE_CALL | STREAM_MUSIC | STREAM_RING | STREAM_MEDIA
| STREAM_VOICE_ASSISTANT | STREAM_SYSTEM | STREAM_ALARM | STREAM_NOTIFICATION
| STREAM_BLUETOOTH_SCO | STREAM_ENFORCED_AUDIBLE | STREAM_DTMF | STREAM_TTS
| STREAM_ACCESSIBILITY | STREAM_RECORDING | STREAM_MOVIE | STREAM_GAME | STREAM_SPEECH
| STREAM_SYSTEM_ENFORCED | STREAM_ULTRASONIC | STREAM_WAKEUP | STREAM_VOICE_MESSAGE
| STREAM_NAVIGATION | STREAM_INTERNAL_FORCE_STOP | STREAM_SOURCE_VOICE_CALL
| STREAM_VOICE_COMMUNICATION | STREAM_VOICE_RING | STREAM_VOICE_CALL_ASSISTANT | STREAM_ALL

fun stream_code :: "AudioStreamType \<Rightarrow> int" where
  "stream_code STREAM_DEFAULT = -1"
| "stream_code STREAM_VOICE_CALL = 0"
| "stream_code STREAM_MUSIC = 1"
| "stream_code STREAM_RING = 2"
| "stream_code STREAM_MEDIA = 3"
| "stream_code STREAM_VOICE_ASSISTANT = 4"
| "stream_code STREAM_SYSTEM = 5"
| "stream_code STREAM_ALARM = 6"
| "stream_code STREAM_NOTIFICATION = 7"
| "stream_code STREAM_BLUETOOTH_SCO = 8"
| "stream_code STREAM_ENFORCED_AUDIBLE = 9"
| "stream_code STREAM_DTMF = 10"
| "stream_code STREAM_TTS = 11"
| "stream_code STREAM_ACCESSIBILITY = 12"
| "stream_code STREAM_RECORDING = 13"
| "stream_code STREAM_MOVIE = 14"
| "stream_code STREAM_GAME = 15"
| "stream_code STREAM_SPEECH = 16"
| "stream_code STREAM_SYSTEM_ENFORCED = 17"
| "stream_code STREAM_ULTRASONIC = 18"
| "stream_code STREAM_WAKEUP = 19"
| "stream_code STREAM_VOICE_MESSAGE = 20"
| "stream_code STREAM_NAVIGATION = 21"
| "stream_code STREAM_INTERNAL_FORCE_STOP = 22"
| "stream_code STREAM_SOURCE_VOICE_CALL = 23"
| "stream_code STREAM_VOICE_COMMUNICATION = 24"
| "stream_code STREAM_VOICE_RING = 25"
| "stream_code STREAM_VOICE_CALL_ASSISTANT = 26"
| "stream_code STREAM_ALL = 100"

lemma stream_code_inj [simp]: "stream_code x = stream_code y \<longleftrightarrow> x = y"
  by (cases x; cases y) simp_all

datatype SourceType =
  SOURCE_TYPE_INVALID | SOURCE_TYPE_MIC | SOURCE_TYPE_VOICE_RECOGNITION
| SOURCE_TYPE_PLAYBACK_CAPTURE | SOURCE_TYPE_WAKEUP | SOURCE_TYPE_VOICE_CALL
| SOURCE_TYPE_VOICE_COMMUNICATION | SOURCE_TYPE_ULTRASONIC | SOURCE_TYPE_VIRTUAL_CAPTURE
| SOURCE_TYPE_VOICE_MESSAGE | SOURCE_TYPE_REMOTE_CAST | SOURCE_TYPE_VOICE_TRANSCRIPTION

fun source_code :: "SourceType \<Rightarrow> int" where
  "source_code SOURCE_TYPE_INVALID = -1"
| "source_code SOURCE_TYPE_MIC = 0"
| "source_code SOURCE_TYPE_VOICE_RECOGNITION = 1"
| "source_code SOURCE_TYPE_PLAYBACK_CAPTURE = 2"
| "source_code SOURCE_TYPE_WAKEUP = 3"
| "source_code SOURCE_TYPE_VOICE_CALL = 4"
| "source_code SOURCE_TYPE_VOICE_COMMUNICATION = 7"
| "source_code SOURCE_TYPE_ULTRASONIC = 8"
| "source_code SOURCE_TYPE_VIRTUAL_CAPTURE = 9"
| "source_code SOURCE_TYPE_VOICE_MESSAGE = 10"
| "source_code SOURCE_TYPE_REMOTE_CAST = 11"
| "source_code SOURCE_TYPE_VOICE_TRANSCRIPTION = 12"

lemma source_code_inj [simp]: "source_code x = source_code y \<longleftrightarrow> x = y"
  by (cases x; cases y) simp_all

text \<open>\<open>STREAM_USAGE_MUSIC\<close> and \<open>STREAM_USAGE_RINGTONE\<close> are second names of the enumerators before them.\<close>

datatype StreamUsage =
  STREAM_USAGE_INVALID | STREAM_USAGE_UNKNOWN | STREAM_USAGE_MEDIA
| STREAM_USAGE_VOICE_COMMUNICATION | STREAM_USAGE_VOICE_ASSISTANT | STREAM_USAGE_ALARM
| STREAM_USAGE_VOICE_MESSAGE | STREAM_USAGE_NOTIFICATION_RINGTONE | STREAM_USAGE_NOTIFICATION
| STREAM_USAGE_ACCESSIBILITY | STREAM_USAGE_SYSTEM | STREAM_USAGE_MOVIE | STREAM_USAGE_GAME
| STREAM_USAGE_AUDIOBOOK | STREAM_USAGE_NAVIGATION | STREAM_USAGE_DTMF
| STREAM_USAGE_ENFORCED_TONE | STREAM_USAGE_ULTRASONIC | STREAM_USAGE_VIDEO_COMMUNICATION
| STREAM_USAGE_RANGING | STREAM_USAGE_VOICE_MODEM_COMMUNICATION | STREAM_USAGE_VOICE_RINGTONE
| STREAM_USAGE_VOICE_CALL_ASSISTANT

datatype ContentType =
  CONTENT_TYPE_UNKNOWN | CONTENT_TYPE_SPEECH | CONTENT_TYPE_MUSIC | CONTENT_TYPE_MOVIE
| CONTENT_TYPE_SONIFICATION | CONTENT_TYPE_RINGTONE | CONTENT_TYPE_PROMPT | CONTENT_TYPE_GAME
| CONTENT_TYPE_DTMF | CONTENT_TYPE_ULTRASONIC

datatype AudioScene =
  AUDIO_SCENE_INVALID | AUDIO_SCENE_DEFAULT | AUDIO_SCENE_RINGING | AUDIO_SCENE_PHONE_CALL
| AUDIO_SCENE_PHONE_CHAT | AUDIO_SCENE_CALL_START | AUDIO_SCENE_CALL_END
| AUDIO_SCENE_VOICE_RINGING | AUDIO_SCENE_MAX

datatype ActionTarget = CURRENT | INCOMING | BOTH

datatype AudioFocuState = ACTIVE | DUCK | PAUSE | STOP | PLACEHOLDER

fun focu_code :: "AudioFocuState \<Rightarrow> nat" where
  "focu_code ACTIVE = 0"
| "focu_code DUCK = 1"
| "focu_code PAUSE = 2"
| "focu_code STOP = 3"
| "focu_code PLACEHOLDER = 4"

text \<open>The code compares focus states by their value: \<open>newState > incomingState\<close>.\<close>

instantiation AudioFocuState :: linorder
begin

definition less_eq_AudioFocuState :: "AudioFocuState \<Rightarrow> AudioFocuState \<Rightarrow> bool" where
  "less_eq_AudioFocuState x y \<longleftrightarrow> focu_code x \<le> focu_code y"

definition less_AudioFocuState :: "AudioFocuState \<Rightarrow> AudioFocuState \<Rightarrow> bool" where
  "less_AudioFocuState x y \<longleftrightarrow> focu_code x < focu_code y"

instance
proof
  fix x y :: AudioFocuState
  show "x = y" if "x \<le> y" and "y \<le> x"
    using that by (cases x; cases y) (simp_all add: less_eq_AudioFocuState_def)
qed (auto simp: less_eq_AudioFocuState_def less_AudioFocuState_def)

end

datatype InterruptMode = SHARE_MODE | INDEPENDENT_MODE
datatype InterruptType = INTERRUPT_TYPE_BEGIN | INTERRUPT_TYPE_END
datatype InterruptHint =
  INTERRUPT_HINT_NONE | INTERRUPT_HINT_RESUME | INTERRUPT_HINT_PAUSE | INTERRUPT_HINT_STOP
| INTERRUPT_HINT_DUCK | INTERRUPT_HINT_UNDUCK
datatype InterruptForceType = INTERRUPT_FORCE | INTERRUPT_SHARE
datatype AudioInterruptChangeType = ACTIVATE_AUDIO_INTERRUPT | DEACTIVATE_AUDIO_INTERRUPT

datatype AudioConcurrencyMode =
  MODE_DEFAULT | MIX_WITH_OTHERS | DUCK_OTHERS | PAUSE_OTHERS

datatype AudioSessionDeactiveReason = LOW_PRIORITY | TIMEOUT

datatype AudioSessionType =
  SESSION_TYPE_DEFAULT | SESSION_TYPE_MEDIA | SESSION_TYPE_SONIFICATION | SESSION_TYPE_CALL
| SESSION_TYPE_VOIP | SESSION_TYPE_SYSTEM | SESSION_TYPE_NOTIFICATION | SESSION_TYPE_DTMF
| SESSION_TYPE_VOICE_ASSISTANT

section \<open>Structures\<close>

text \<open>The volume of an interrupt event is only passed on: \<open>1\<close>, \<open>0\<close> or \<open>DUCK_FACTOR\<close>.\<close>

record InterruptEventInternal =
  eventType :: InterruptType
  forceType :: InterruptForceType
  hintType :: InterruptHint
  duckVolume :: f32

record AudioFocusEntry =
  entryForceType :: InterruptForceType
  entryHintType :: InterruptHint
  actionOn :: ActionTarget
  isReject :: bool

text \<open>What \<open>operator[]\<close> inserts for a missing key: the value-initialised entry.\<close>

definition AudioFocusEntry_default :: AudioFocusEntry where
  "AudioFocusEntry_default =
     \<lparr>entryForceType = INTERRUPT_FORCE, entryHintType = INTERRUPT_HINT_NONE, actionOn = CURRENT,
      isReject = False\<rparr>"

record AudioFocusType =
  streamType :: AudioStreamType
  sourceType :: SourceType
  isPlay :: bool

definition AudioFocusType_eq :: "AudioFocusType \<Rightarrow> AudioFocusType \<Rightarrow> bool" where
  "AudioFocusType_eq a b \<longleftrightarrow>
     streamType a = streamType b \<and> sourceType a = sourceType b \<and> isPlay a = isPlay b"

definition AudioFocusType_less :: "AudioFocusType \<Rightarrow> AudioFocusType \<Rightarrow> bool" where
  "AudioFocusType_less a b \<longleftrightarrow>
     stream_code (streamType a) < stream_code (streamType b) \<or>
     streamType a = streamType b \<and> source_code (sourceType a) < source_code (sourceType b)"

text \<open>
  The key of the focus configuration is a pair of focus types, compared by \<open>operator<\<close>, which
  does not look at \<open>isPlay\<close>: two focus types are the same key when neither is less.
\<close>

type_synonym focus_key = "(AudioStreamType \<times> SourceType) \<times> (AudioStreamType \<times> SourceType)"

definition focus_key :: "AudioFocusType \<Rightarrow> AudioFocusType \<Rightarrow> focus_key" where
  "focus_key a b = ((streamType a, sourceType a), (streamType b, sourceType b))"

lemma focus_type_equivalent:
  "\<not> AudioFocusType_less a b \<and> \<not> AudioFocusType_less b a \<longleftrightarrow>
     streamType a = streamType b \<and> sourceType a = sourceType b"
  unfolding AudioFocusType_less_def
  using stream_code_inj [of "streamType a" "streamType b"]
    source_code_inj [of "sourceType a" "sourceType b"] by force

record AudioInterrupt =
  streamUsage :: StreamUsage
  contentType :: ContentType
  audioFocusType :: AudioFocusType
  sessionId :: u32
  pauseWhenDucked :: bool
  pid :: int
  mode :: InterruptMode
  parallelPlayFlag :: bool
  sourcesTypes :: "SourceType list"

record AudioSessionStrategy =
  concurrencyMode :: AudioConcurrencyMode

type_synonym focus_info = "AudioInterrupt \<times> AudioFocuState"

section \<open>Association lists\<close>

lemma map_of_update [simp]: "map_of (AList.update k v xs) k' = (if k' = k then Some v else map_of xs k')"
  by (simp add: AList.update_conv)

lemma map_of_delete [simp]: "map_of (AList.delete k xs) k' = (if k' = k then None else map_of xs k')"
  by (simp add: AList.delete_conv)

lemma delete_eq_Nil: "AList.delete k xs = [] \<longleftrightarrow> (\<forall>k' v. map_of xs k' = Some v \<longrightarrow> k' = k)"
proof
  assume "AList.delete k xs = []"
  then have "map_of (AList.delete k xs) = Map.empty" by simp
  then show "\<forall>k' v. map_of xs k' = Some v \<longrightarrow> k' = k" by (auto simp: fun_eq_iff split: if_splits)
next
  assume "\<forall>k' v. map_of xs k' = Some v \<longrightarrow> k' = k"
  then have "map_of (AList.delete k xs) = Map.empty" by (fastforce simp: fun_eq_iff)
  then show "AList.delete k xs = []" by simp
qed

end
