(* ===== verification/AudioSessions.thy ===== *)
theory AudioSessions
  imports AudioTypes
begin

text \<open>
  Audio sessions: \<open>audio_session_timer.cpp\<close>, \<open>audio_session.cpp\<close> and
  \<open>audio_session_service.cpp\<close> of \<open>services/audio_policy/server/src/service/session\<close>. A process
  activates a session with a concurrency strategy; while the session holds no stream its timer
  runs, and after a minute of that the session is deactivated.

  The one timer object the service and its sessions share is a field of the service, and a
  session operation takes it and returns it updated. \<open>now\<close> is the reading of the system clock
  in seconds (\<open>time_t\<close>). Each operation holds its lock for its whole body, so it is one step;
  the interleaving of \<open>TimerLoopFunc\<close> with the others is in \<open>TimerThread\<close>. The timer is the one
  \<open>Init\<close> creates, right after the construction of the service.
\<close>

section \<open>The timer\<close>

datatype TimerState = TIMER_INVALID | TIMER_NEW | TIMER_RUNNING | TIMER_STOPPED

text \<open>\<open>timerThread\<close>: the pointer is set; \<open>isThreadRunning\<close>: the loop has been entered and not left.\<close>

record AudioSessionTimer =
  timerState :: TimerState
  timerMap :: "(int \<times> int) list"
  timerThread :: bool
  isThreadRunning :: bool
  timerCallback :: bool

definition SECONDS_OF_ONE_MINUTE :: int where "SECONDS_OF_ONE_MINUTE = 60"

definition AudioSessionTimer_ctor :: AudioSessionTimer where
  "AudioSessionTimer_ctor =
     \<lparr>timerState = TIMER_NEW, timerMap = [], timerThread = False, isThreadRunning = False,
      timerCallback = False\<rparr>"

text \<open>The two places that join a thread whose loop is over and reset the pointer.\<close>

definition join_finished :: "AudioSessionTimer \<Rightarrow> AudioSessionTimer" where
  "join_finished t =
     (if \<not> isThreadRunning t \<and> timerThread t then t\<lparr>timerThread := False\<rparr> else t)"

definition StartTimer :: "int \<Rightarrow> AudioSessionTimer \<Rightarrow> int \<Rightarrow> AudioSessionTimer" where
  "StartTimer now t callerPid =
     (if map_of (timerMap t) callerPid \<noteq> None then t
      else
        let t1 = t\<lparr>timerMap := AList.update callerPid now (timerMap t)\<rparr>;
            t2 = (if timerMap t1 \<noteq> [] then t1\<lparr>timerState := TIMER_RUNNING\<rparr> else t1);
            t3 = join_finished t2
        in if \<not> timerThread t3 then t3\<lparr>timerThread := True\<rparr> else t3)"

definition StopTimer :: "AudioSessionTimer \<Rightarrow> int \<Rightarrow> AudioSessionTimer" where
  "StopTimer t callerPid =
     (let t1 = t\<lparr>timerMap := AList.delete callerPid (timerMap t)\<rparr>
      in if timerMap t1 = [] then join_finished (t1\<lparr>timerState := TIMER_STOPPED\<rparr>) else t1)"

definition IsSessionTimerRunning :: "AudioSessionTimer \<Rightarrow> int \<Rightarrow> bool" where
  "IsSessionTimerRunning t callerPid = (map_of (timerMap t) callerPid \<noteq> None)"

definition SetAudioSessionTimerCallback :: "AudioSessionTimer \<Rightarrow> bool \<Rightarrow> err \<times> AudioSessionTimer" where
  "SetAudioSessionTimerCallback t isSet =
     (if \<not> isSet then (ERR_INVALID_PARAM, t) else (SUCCESS, t\<lparr>timerCallback := True\<rparr>))"

text \<open>
  One pass of the loop over the map, at the time \<open>now\<close>: the callback runs for every entry at
  least a minute old, before the entry is erased. \<open>cb\<close> is \<open>OnAudioSessionTimeOut\<close> of the
  registered callback object, on whatever state it works on.
\<close>

fun expire_entries :: "(int \<Rightarrow> 's \<Rightarrow> 's) \<Rightarrow> int \<Rightarrow> (int \<times> int) list \<Rightarrow> 's \<Rightarrow> (int \<times> int) list \<times> 's" where
  "expire_entries cb now [] s = ([], s)"
| "expire_entries cb now ((p, t) # es) s =
     (if now - t \<ge> SECONDS_OF_ONE_MINUTE then expire_entries cb now es (cb p s)
      else case expire_entries cb now es s of (es', s') \<Rightarrow> ((p, t) # es', s'))"

section \<open>A session\<close>

datatype AudioSessionState =
  SESSION_INVALID | SESSION_NEW | SESSION_ACTIVE | SESSION_DEACTIVE | SESSION_RELEASED

record AudioSession =
  callerPid :: int
  strategy :: AudioSessionStrategy
  sessionState :: AudioSessionState
  interruptMap :: "(u32 \<times> focus_info) list"

definition AudioSession_ctor :: "int \<Rightarrow> AudioSessionStrategy \<Rightarrow> AudioSession" where
  "AudioSession_ctor p st =
     \<lparr>callerPid = p, strategy = st, sessionState = SESSION_NEW, interruptMap = []\<rparr>"

definition AudioSession_Activate :: "AudioSession \<Rightarrow> AudioSession" where
  "AudioSession_Activate s = s\<lparr>sessionState := SESSION_ACTIVE\<rparr>"

definition AudioSession_Deactivate :: "AudioSession \<Rightarrow> AudioSession" where
  "AudioSession_Deactivate s = s\<lparr>sessionState := SESSION_DEACTIVE, interruptMap := []\<rparr>"

definition SetSessionStrategy :: "AudioSession \<Rightarrow> AudioSessionStrategy \<Rightarrow> AudioSession" where
  "SetSessionStrategy s st = s\<lparr>strategy := st\<rparr>"

definition GetSessionStrategy :: "AudioSession \<Rightarrow> AudioSessionStrategy" where
  "GetSessionStrategy s = strategy s"

definition IsAudioSessionEmpty :: "AudioSession \<Rightarrow> bool" where
  "IsAudioSessionEmpty s = (length (interruptMap s) = 0)"

definition AddAudioInterrpt ::
    "AudioSessionTimer \<Rightarrow> AudioSession \<Rightarrow> focus_info \<Rightarrow> AudioSession \<times> AudioSessionTimer" where
  "AddAudioInterrpt t s interruptPair =
     (let streamId = sessionId (fst interruptPair);
          s1 = s\<lparr>interruptMap := AList.update streamId interruptPair (interruptMap s)\<rparr>
      in (s1, if IsSessionTimerRunning t (callerPid s) then StopTimer t (callerPid s) else t))"

definition RemoveAudioInterrptByStreamId ::
    "int \<Rightarrow> AudioSessionTimer \<Rightarrow> AudioSession \<Rightarrow> u32 \<Rightarrow> AudioSession \<times> AudioSessionTimer" where
  "RemoveAudioInterrptByStreamId now t s streamId =
     (if map_of (interruptMap s) streamId = None then (s, t)
      else
        let s1 = s\<lparr>interruptMap := AList.delete streamId (interruptMap s)\<rparr>
        in (s1, if interruptMap s1 = [] \<and> \<not> IsSessionTimerRunning t (callerPid s)
                then StartTimer now t (callerPid s) else t))"

definition RemoveAudioInterrpt ::
    "int \<Rightarrow> AudioSessionTimer \<Rightarrow> AudioSession \<Rightarrow> focus_info \<Rightarrow> AudioSession \<times> AudioSessionTimer" where
  "RemoveAudioInterrpt now t s interruptPair =
     (let streamId = sessionId (fst interruptPair)
      in if map_of (interruptMap s) streamId = None then (s, t)
         else
           let s1 = s\<lparr>interruptMap := AList.delete streamId (interruptMap s)\<rparr>
           in (s1, if interruptMap s1 = [] \<and> \<not> IsSessionTimerRunning t (callerPid s)
                   then StartTimer now t (callerPid s) else t))"

section \<open>The session service\<close>

fun SESSION_TYPE_MAP :: "AudioStreamType \<Rightarrow> AudioSessionType option" where
  "SESSION_TYPE_MAP STREAM_ALARM = Some SESSION_TYPE_SONIFICATION"
| "SESSION_TYPE_MAP STREAM_RING = Some SESSION_TYPE_SONIFICATION"
| "SESSION_TYPE_MAP STREAM_MUSIC = Some SESSION_TYPE_MEDIA"
| "SESSION_TYPE_MAP STREAM_MOVIE = Some SESSION_TYPE_MEDIA"
| "SESSION_TYPE_MAP STREAM_GAME = Some SESSION_TYPE_MEDIA"
| "SESSION_TYPE_MAP STREAM_SPEECH = Some SESSION_TYPE_MEDIA"
| "SESSION_TYPE_MAP STREAM_NAVIGATION = Some SESSION_TYPE_MEDIA"
| "SESSION_TYPE_MAP STREAM_VOICE_MESSAGE = Some SESSION_TYPE_MEDIA"
| "SESSION_TYPE_MAP STREAM_VOICE_CALL = Some SESSION_TYPE_CALL"
| "SESSION_TYPE_MAP STREAM_VOICE_CALL_ASSISTANT = Some SESSION_TYPE_CALL"
| "SESSION_TYPE_MAP STREAM_VOICE_COMMUNICATION = Some SESSION_TYPE_VOIP"
| "SESSION_TYPE_MAP STREAM_SYSTEM = Some SESSION_TYPE_SYSTEM"
| "SESSION_TYPE_MAP STREAM_SYSTEM_ENFORCED = Some SESSION_TYPE_SYSTEM"
| "SESSION_TYPE_MAP STREAM_ACCESSIBILITY = Some SESSION_TYPE_SYSTEM"
| "SESSION_TYPE_MAP STREAM_ULTRASONIC = Some SESSION_TYPE_SYSTEM"
| "SESSION_TYPE_MAP STREAM_NOTIFICATION = Some SESSION_TYPE_NOTIFICATION"
| "SESSION_TYPE_MAP STREAM_DTMF = Some SESSION_TYPE_DTMF"
| "SESSION_TYPE_MAP STREAM_VOICE_ASSISTANT = Some SESSION_TYPE_VOICE_ASSISTANT"
| "SESSION_TYPE_MAP _ = None"

definition IsSameTypeForAudioSession :: "AudioStreamType \<Rightarrow> AudioStreamType \<Rightarrow> bool" where
  "IsSameTypeForAudioSession incomingType existedType =
     (if SESSION_TYPE_MAP incomingType = None \<or> SESSION_TYPE_MAP existedType = None then False
      else SESSION_TYPE_MAP incomingType = SESSION_TYPE_MAP existedType)"

record AudioSessionService =
  sessionTimer :: AudioSessionTimer
  sessionMap :: "(int \<times> AudioSession) list"
  timeOutCallback :: bool

definition AudioSessionService_Init :: AudioSessionService where
  "AudioSessionService_Init =
     \<lparr>sessionTimer = snd (SetAudioSessionTimerCallback AudioSessionTimer_ctor True),
      sessionMap = [], timeOutCallback = False\<rparr>"

definition AUDIO_INVALID_PARAM :: err where "AUDIO_INVALID_PARAM = -1"

definition SetSessionTimeOutCallback :: "AudioSessionService \<Rightarrow> bool \<Rightarrow> err \<times> AudioSessionService" where
  "SetSessionTimeOutCallback svc isSet =
     (if \<not> isSet then (AUDIO_INVALID_PARAM, svc) else (SUCCESS, svc\<lparr>timeOutCallback := True\<rparr>))"

definition ActivateAudioSession ::
    "int \<Rightarrow> AudioSessionService \<Rightarrow> int \<Rightarrow> AudioSessionStrategy \<Rightarrow> err \<times> AudioSessionService" where
  "ActivateAudioSession now svc p st =
     (let s = (case map_of (sessionMap svc) p of
                 Some s0 \<Rightarrow> SetSessionStrategy s0 st
               | None \<Rightarrow> AudioSession_Activate (AudioSession_ctor p st));
          svc1 = svc\<lparr>sessionMap := AList.update p s (sessionMap svc)\<rparr>
      in (SUCCESS, if IsAudioSessionEmpty s
                   then svc1\<lparr>sessionTimer := StartTimer now (sessionTimer svc1) p\<rparr> else svc1))"

text \<open>The deactivated session object is dropped with the map entry.\<close>

definition DeactivateAudioSessionInternal ::
    "AudioSessionService \<Rightarrow> int \<Rightarrow> bool \<Rightarrow> err \<times> AudioSessionService" where
  "DeactivateAudioSessionInternal svc p isSessionTimeout =
     (case map_of (sessionMap svc) p of
        None \<Rightarrow> (ERR_ILLEGAL_STATE, svc)
      | Some s \<Rightarrow>
        let svc1 = svc\<lparr>sessionMap := AList.delete p (AList.update p (AudioSession_Deactivate s) (sessionMap svc))\<rparr>
        in (SUCCESS, if \<not> isSessionTimeout
                     then svc1\<lparr>sessionTimer := StopTimer (sessionTimer svc1) p\<rparr> else svc1))"

definition DeactivateAudioSession :: "AudioSessionService \<Rightarrow> int \<Rightarrow> err \<times> AudioSessionService" where
  "DeactivateAudioSession svc p = DeactivateAudioSessionInternal svc p False"

definition IsAudioSessionActivated :: "AudioSessionService \<Rightarrow> int \<Rightarrow> bool" where
  "IsAudioSessionActivated svc p = (if map_of (sessionMap svc) p = None then False else True)"

definition GetAudioSessionByPid :: "AudioSessionService \<Rightarrow> int \<Rightarrow> AudioSession option" where
  "GetAudioSessionByPid svc p = map_of (sessionMap svc) p"

text \<open>
  A call through the pointer \<open>GetAudioSessionByPid\<close> returned changes the session in the map.
\<close>

definition session_add :: "AudioSessionService \<Rightarrow> int \<Rightarrow> focus_info \<Rightarrow> AudioSessionService" where
  "session_add svc p i =
     (case GetAudioSessionByPid svc p of
        None \<Rightarrow> svc
      | Some s \<Rightarrow> (case AddAudioInterrpt (sessionTimer svc) s i of
                    (s', t') \<Rightarrow> svc\<lparr>sessionMap := AList.update p s' (sessionMap svc), sessionTimer := t'\<rparr>))"

definition session_remove :: "int \<Rightarrow> AudioSessionService \<Rightarrow> int \<Rightarrow> u32 \<Rightarrow> AudioSessionService" where
  "session_remove now svc p streamId =
     (case GetAudioSessionByPid svc p of
        None \<Rightarrow> svc
      | Some s \<Rightarrow> (case RemoveAudioInterrptByStreamId now (sessionTimer svc) s streamId of
                    (s', t') \<Rightarrow> svc\<lparr>sessionMap := AList.update p s' (sessionMap svc), sessionTimer := t'\<rparr>))"

text \<open>
  \<open>OnAudioSessionTimeOut\<close>, called by the loop with the timer's lock held: the session is
  deactivated without touching the timer, then the client's \<open>OnSessionTimeout\<close> runs. The service
  sits inside the client's state \<open>'s\<close>; \<open>get\<close> and \<open>put\<close> reach it.
\<close>

definition OnAudioSessionTimeOut ::
    "('s \<Rightarrow> AudioSessionService) \<Rightarrow> (AudioSessionService \<Rightarrow> 's \<Rightarrow> 's) \<Rightarrow> (int \<Rightarrow> 's \<Rightarrow> 's) \<Rightarrow>
     int \<Rightarrow> 's \<Rightarrow> 's" where
  "OnAudioSessionTimeOut get put onSessionTimeout p s =
     (let s1 = put (snd (DeactivateAudioSessionInternal (get s) p True)) s
      in if \<not> timeOutCallback (get s1) then s1 else onSessionTimeout p s1)"

text \<open>One pass of \<open>TimerLoopFunc\<close> at the time \<open>now\<close>, its map being the one of the shared timer.\<close>

definition TimerLoop_pass ::
    "('s \<Rightarrow> AudioSessionService) \<Rightarrow> (AudioSessionService \<Rightarrow> 's \<Rightarrow> 's) \<Rightarrow> (int \<Rightarrow> 's \<Rightarrow> 's) \<Rightarrow>
     int \<Rightarrow> 's \<Rightarrow> 's" where
  "TimerLoop_pass get put onSessionTimeout now s =
     (let cb = (if timerCallback (sessionTimer (get s))
                then OnAudioSessionTimeOut get put onSessionTimeout else (\<lambda>_ s. s))
      in case expire_entries cb now (timerMap (sessionTimer (get s))) s of
           (left, s') \<Rightarrow>
             put ((get s')\<lparr>sessionTimer := (sessionTimer (get s'))\<lparr>timerMap := left\<rparr>\<rparr>) s')"

end
