(* ===== verification/Refinement.thy ===== *)
theory Refinement
  imports Prelude
begin

text \<open>
  The interface between a component and its abstract specification: an invariant, an
  abstraction function and a step on both sides that commute. A component that interprets
  \<open>functional_refinement\<close> inherits that every run of its operations is a run of its specification.
\<close>

locale functional_refinement =
  fixes inv :: "'c \<Rightarrow> bool"
    and abs :: "'c \<Rightarrow> 'a"
    and step :: "'c \<Rightarrow> 'op \<Rightarrow> 'c"
    and astep :: "'a \<Rightarrow> 'op \<Rightarrow> 'a"
  assumes inv_step: "inv c \<Longrightarrow> inv (step c op)"
    and abs_step: "inv c \<Longrightarrow> abs (step c op) = astep (abs c) op"
begin

lemma run_inv: "inv c \<Longrightarrow> inv (foldl step c ops)"
  by (induction ops arbitrary: c) (simp_all add: inv_step)

lemma run_abs: "inv c \<Longrightarrow> abs (foldl step c ops) = foldl astep (abs c) ops"
  by (induction ops arbitrary: c) (simp_all add: inv_step abs_step)

end

end
