(* ===== verification/SessionRegistry.thy ===== *)
theory SessionRegistry
  imports AudioSessions Refinement
begin

text \<open>
  The contract of the session service: a registry that maps a process to the set of streams
  of its session, with a timer that runs exactly for the sessions that hold no stream. The
  locale states it as a refinement; the interpretation proves it of the code's operations.
\<close>

section \<open>The contract\<close>

datatype session_op =
  Activate int int AudioSessionStrategy
| Deactivate int
| AddStream int focus_info
| RemoveStream int int u32

type_synonym registry = "int \<Rightarrow> u32 set option"

fun registry_step :: "registry \<Rightarrow> session_op \<Rightarrow> registry" where
  "registry_step r (Activate now p st) = (case r p of None \<Rightarrow> r(p \<mapsto> {}) | Some _ \<Rightarrow> r)"
| "registry_step r (Deactivate p) = r(p := None)"
| "registry_step r (AddStream p i) =
     (case r p of None \<Rightarrow> r | Some S \<Rightarrow> r(p \<mapsto> insert (sessionId (fst i)) S))"
| "registry_step r (RemoveStream now p i) = (case r p of None \<Rightarrow> r | Some S \<Rightarrow> r(p \<mapsto> S - {i}))"

locale session_registry = functional_refinement inv abs step registry_step
  for inv :: "'s \<Rightarrow> bool"
    and abs :: "'s \<Rightarrow> registry"
    and step :: "'s \<Rightarrow> session_op \<Rightarrow> 's" +
  fixes timed :: "'s \<Rightarrow> int \<Rightarrow> bool"
  assumes timed_iff: "inv s \<Longrightarrow> timed s p \<longleftrightarrow> abs s p = Some {}"
begin

lemma run_timed: "inv s \<Longrightarrow> timed (foldl step s ops) p \<longleftrightarrow> foldl registry_step (abs s) ops p = Some {}"
  by (simp add: timed_iff [OF run_inv] run_abs)

end

section \<open>The code meets it\<close>

fun session_step :: "AudioSessionService \<Rightarrow> session_op \<Rightarrow> AudioSessionService" where
  "session_step svc (Activate now p st) = snd (ActivateAudioSession now svc p st)"
| "session_step svc (Deactivate p) = snd (DeactivateAudioSession svc p)"
| "session_step svc (AddStream p i) = session_add svc p i"
| "session_step svc (RemoveStream now p i) = session_remove now svc p i"

definition session_streams :: "AudioSession \<Rightarrow> u32 set" where
  "session_streams s = fst ` set (interruptMap s)"

definition registry_of :: "AudioSessionService \<Rightarrow> registry" where
  "registry_of svc p = map_option session_streams (map_of (sessionMap svc) p)"

definition timer_of :: "AudioSessionService \<Rightarrow> int \<Rightarrow> int option" where
  "timer_of svc p = map_of (timerMap (sessionTimer svc)) p"

definition sessions_ok :: "AudioSessionService \<Rightarrow> bool" where
  "sessions_ok svc \<longleftrightarrow>
     (\<forall>p s. map_of (sessionMap svc) p = Some s \<longrightarrow> callerPid s = p \<and> sessionState s = SESSION_ACTIVE) \<and>
     (\<forall>p. timer_of svc p \<noteq> None \<longleftrightarrow> registry_of svc p = Some {}) \<and>
     distinct (map fst (timerMap (sessionTimer svc)))"

lemma timerMap_join [simp]: "timerMap (join_finished t) = timerMap t"
  by (simp add: join_finished_def)

lemma timerMap_Start:
  "timerMap (StartTimer now t p) =
     (if map_of (timerMap t) p = None then AList.update p now (timerMap t) else timerMap t)"
  by (simp add: StartTimer_def Let_def)

lemma timerMap_Stop [simp]: "timerMap (StopTimer t p) = AList.delete p (timerMap t)"
  by (simp add: StopTimer_def Let_def)

lemma running_Start [simp]:
  "IsSessionTimerRunning (StartTimer now t p) q \<longleftrightarrow> q = p \<or> IsSessionTimerRunning t q"
  by (auto simp: IsSessionTimerRunning_def timerMap_Start)

lemma running_Stop [simp]:
  "IsSessionTimerRunning (StopTimer t p) q \<longleftrightarrow> q \<noteq> p \<and> IsSessionTimerRunning t q"
  by (simp add: IsSessionTimerRunning_def)

declare distinct_delete [simp]

lemma distinct_Start [simp]:
  "distinct (map fst (timerMap t)) \<Longrightarrow> distinct (map fst (timerMap (StartTimer now t p)))"
  by (simp add: timerMap_Start distinct_update)

lemma distinct_Stop [simp]:
  "distinct (map fst (timerMap t)) \<Longrightarrow> distinct (map fst (timerMap (StopTimer t p)))"
  by (simp add: distinct_delete)

lemma sessions_okI:
  assumes "\<And>p s. map_of (sessionMap svc) p = Some s \<Longrightarrow> callerPid s = p \<and> sessionState s = SESSION_ACTIVE"
    and "\<And>p. IsSessionTimerRunning (sessionTimer svc) p \<longleftrightarrow>
      (\<exists>s. map_of (sessionMap svc) p = Some s \<and> interruptMap s = [])"
    and "distinct (map fst (timerMap (sessionTimer svc)))"
  shows "sessions_ok svc"
  using assms
  by (auto simp: sessions_ok_def timer_of_def registry_of_def session_streams_def IsSessionTimerRunning_def)

lemma sessions_okD:
  assumes "sessions_ok svc"
  shows "map_of (sessionMap svc) p = Some s \<Longrightarrow> callerPid s = p \<and> sessionState s = SESSION_ACTIVE"
    and "IsSessionTimerRunning (sessionTimer svc) p \<longleftrightarrow>
      (\<exists>s. map_of (sessionMap svc) p = Some s \<and> interruptMap s = [])"
    and "distinct (map fst (timerMap (sessionTimer svc)))"
  using assms
  by (auto simp: sessions_ok_def timer_of_def registry_of_def session_streams_def IsSessionTimerRunning_def)

lemma update_neq_Nil [simp]: "AList.update k v xs \<noteq> []"
  by (cases xs) auto

lemma streams_update [simp]: "fst ` set (AList.update k v xs) = insert k (fst ` set xs)"
  by (induction xs) auto

lemma streams_delete [simp]: "fst ` set (AList.delete k xs) = fst ` set xs - {k}"
  by (induction xs) auto

lemma step_activate:
  assumes "sessions_ok svc"
  shows "sessions_ok (snd (ActivateAudioSession now svc p st))"
    and "registry_of (snd (ActivateAudioSession now svc p st)) = registry_step (registry_of svc) (Activate now p st)"
proof -
  note D = sessions_okD [OF assms]
  show "sessions_ok (snd (ActivateAudioSession now svc p st))"
  proof (rule sessions_okI)
    fix q s assume "map_of (sessionMap (snd (ActivateAudioSession now svc p st))) q = Some s"
    then show "callerPid s = q \<and> sessionState s = SESSION_ACTIVE"
      using D(1) by (auto simp: ActivateAudioSession_def Let_def SetSessionStrategy_def
          AudioSession_Activate_def AudioSession_ctor_def split: if_splits option.splits)
  next
    fix q
    show "IsSessionTimerRunning (sessionTimer (snd (ActivateAudioSession now svc p st))) q \<longleftrightarrow>
      (\<exists>s. map_of (sessionMap (snd (ActivateAudioSession now svc p st))) q = Some s \<and> interruptMap s = [])"
      using D(2) [of q] D(2) [of p]
      by (auto simp: ActivateAudioSession_def Let_def SetSessionStrategy_def IsAudioSessionEmpty_def
          AudioSession_Activate_def AudioSession_ctor_def split: if_splits option.splits)
  next
    show "distinct (map fst (timerMap (sessionTimer (snd (ActivateAudioSession now svc p st)))))"
      using D(3) by (auto simp: ActivateAudioSession_def Let_def)
  qed
  show "registry_of (snd (ActivateAudioSession now svc p st)) = registry_step (registry_of svc) (Activate now p st)"
    by (auto simp: fun_eq_iff registry_of_def session_streams_def ActivateAudioSession_def Let_def
        SetSessionStrategy_def AudioSession_Activate_def AudioSession_ctor_def split: option.splits)
qed

lemma step_deactivate:
  assumes "sessions_ok svc"
  shows "sessions_ok (snd (DeactivateAudioSession svc p))"
    and "registry_of (snd (DeactivateAudioSession svc p)) = registry_step (registry_of svc) (Deactivate p)"
proof -
  note D = sessions_okD [OF assms]
  show "sessions_ok (snd (DeactivateAudioSession svc p))"
    by (rule sessions_okI)
      (use D in \<open>auto simp: DeactivateAudioSession_def DeactivateAudioSessionInternal_def Let_def
          split: option.splits if_splits\<close>)
  show "registry_of (snd (DeactivateAudioSession svc p)) = registry_step (registry_of svc) (Deactivate p)"
    by (auto simp: fun_eq_iff registry_of_def DeactivateAudioSession_def DeactivateAudioSessionInternal_def
        Let_def split: option.splits)
qed

lemma step_add:
  assumes "sessions_ok svc"
  shows "sessions_ok (session_add svc p i)"
    and "registry_of (session_add svc p i) = registry_step (registry_of svc) (AddStream p i)"
proof -
  note D = sessions_okD [OF assms]
  show "sessions_ok (session_add svc p i)"
  proof (cases "map_of (sessionMap svc) p")
    case None
    then show ?thesis using assms by (simp add: session_add_def GetAudioSessionByPid_def)
  next
    case (Some s)
    show ?thesis
      by (rule sessions_okI)
        (use D Some in \<open>auto simp: session_add_def GetAudioSessionByPid_def AddAudioInterrpt_def Let_def
            split: if_splits\<close>)
  qed
  show "registry_of (session_add svc p i) = registry_step (registry_of svc) (AddStream p i)"
    by (auto simp: fun_eq_iff registry_of_def session_streams_def session_add_def GetAudioSessionByPid_def
        AddAudioInterrpt_def Let_def split: option.splits)
qed

lemma step_remove:
  assumes "sessions_ok svc"
  shows "sessions_ok (session_remove now svc p i)"
    and "registry_of (session_remove now svc p i) = registry_step (registry_of svc) (RemoveStream now p i)"
proof -
  note D = sessions_okD [OF assms]
  show "sessions_ok (session_remove now svc p i)"
  proof (cases "map_of (sessionMap svc) p")
    case None
    then show ?thesis using assms by (simp add: session_remove_def GetAudioSessionByPid_def)
  next
    case (Some s)
    show ?thesis
      by (rule sessions_okI)
        (use D Some in \<open>auto simp: session_remove_def GetAudioSessionByPid_def
            RemoveAudioInterrptByStreamId_def Let_def split: if_splits\<close>)
  qed
  show "registry_of (session_remove now svc p i) = registry_step (registry_of svc) (RemoveStream now p i)"
    by (auto simp: fun_eq_iff registry_of_def session_streams_def session_remove_def GetAudioSessionByPid_def
        RemoveAudioInterrptByStreamId_def Let_def split: option.splits dest: weak_map_of_SomeI)
qed

interpretation reg: session_registry sessions_ok registry_of session_step
    "\<lambda>svc p. IsSessionTimerRunning (sessionTimer svc) p"
proof
  fix svc op p
  assume ok: "sessions_ok svc"
  show "sessions_ok (session_step svc op)"
    using step_activate(1) step_deactivate(1) step_add(1) step_remove(1) ok by (cases op) simp_all
  show "registry_of (session_step svc op) = registry_step (registry_of svc) op"
    using step_activate(2) step_deactivate(2) step_add(2) step_remove(2) ok
    by (cases op) (simp_all del: registry_step.simps)
  show "IsSessionTimerRunning (sessionTimer svc) p \<longleftrightarrow> registry_of svc p = Some {}"
    using sessions_okD(2) [OF ok] by (auto simp: registry_of_def session_streams_def)
qed

section \<open>The expiry pass\<close>

text \<open>What the pass leaves of the map, and the order in which it reports the expired.\<close>

definition expired :: "int \<Rightarrow> int \<times> int \<Rightarrow> bool" where
  "expired now e \<longleftrightarrow> now - snd e \<ge> SECONDS_OF_ONE_MINUTE"

lemma expire_entries_eq:
  "expire_entries cb now es s =
     (filter (Not \<circ> expired now) es, fold cb (map fst (filter (expired now) es)) s)"
  by (induction es arbitrary: s) (auto simp: expired_def split: prod.splits)

text \<open>The pass on the service alone, with a client that only records the timeouts.\<close>

definition service_pass :: "int \<Rightarrow> AudioSessionService \<Rightarrow> AudioSessionService" where
  "service_pass now svc = TimerLoop_pass (\<lambda>s. s) (\<lambda>t _. t) (\<lambda>_ s. s) now svc"

lemma timeout_effect:
  "OnAudioSessionTimeOut (\<lambda>s. s) (\<lambda>t _. t) (\<lambda>_ s. s) p svc = svc\<lparr>sessionMap := AList.delete p (sessionMap svc)\<rparr>"
proof -
  have "AList.delete p (AList.update p s xs) = AList.delete p xs" for s and xs :: "(int \<times> AudioSession) list"
    by (induction xs) auto
  moreover have "AList.delete p (sessionMap svc) = sessionMap svc" if "map_of (sessionMap svc) p = None"
    using that by (simp add: map_of_eq_None_iff delete_id)
  ultimately show ?thesis
    by (auto simp: OnAudioSessionTimeOut_def DeactivateAudioSessionInternal_def Let_def split: option.splits)
qed

lemma timeouts_effect:
  "map_of (sessionMap (fold (OnAudioSessionTimeOut (\<lambda>s. s) (\<lambda>t _. t) (\<lambda>_ s. s)) ps svc)) q =
     (if q \<in> set ps then None else map_of (sessionMap svc) q) \<and>
   sessionTimer (fold (OnAudioSessionTimeOut (\<lambda>s. s) (\<lambda>t _. t) (\<lambda>_ s. s)) ps svc) = sessionTimer svc"
  by (induction ps arbitrary: svc) (auto simp: timeout_effect)

lemma map_of_filter_distinct:
  "distinct (map fst es) \<Longrightarrow> map_of (filter P es) k =
     (case map_of es k of None \<Rightarrow> None | Some v \<Rightarrow> if P (k, v) then Some v else None)"
proof (induction es)
  case (Cons e es)
  then have "map_of es (fst e) = None" by (simp add: map_of_eq_None_iff)
  then show ?case using Cons by (cases e) (auto split: option.splits)
qed simp

lemma service_pass_effect:
  assumes ok: "sessions_ok svc" and cb: "timerCallback (sessionTimer svc)"
  shows "timer_of (service_pass now svc) p =
      (case timer_of svc p of None \<Rightarrow> None | Some t \<Rightarrow> if now - t \<ge> 60 then None else Some t)"
    and "map_of (sessionMap (service_pass now svc)) p =
      (case timer_of svc p of Some t \<Rightarrow> if now - t \<ge> 60 then None else map_of (sessionMap svc) p
                            | None \<Rightarrow> map_of (sessionMap svc) p)"
    and "distinct (map fst (timerMap (sessionTimer (service_pass now svc))))"
proof -
  let ?es = "timerMap (sessionTimer svc)"
  have d: "distinct (map fst ?es)" by (rule sessions_okD(3) [OF ok])
  have pass: "service_pass now svc =
      (let s' = fold (OnAudioSessionTimeOut (\<lambda>s. s) (\<lambda>t _. t) (\<lambda>_ s. s)) (map fst (filter (expired now) ?es)) svc
       in s'\<lparr>sessionTimer := (sessionTimer s')\<lparr>timerMap := filter (Not \<circ> expired now) ?es\<rparr>\<rparr>)"
    by (simp add: service_pass_def TimerLoop_pass_def cb expire_entries_eq Let_def)
  show "timer_of (service_pass now svc) p =
      (case timer_of svc p of None \<Rightarrow> None | Some t \<Rightarrow> if now - t \<ge> 60 then None else Some t)"
    by (auto simp: pass Let_def timer_of_def map_of_filter_distinct [OF d] expired_def
        SECONDS_OF_ONE_MINUTE_def split: option.splits)
  have "p \<in> set (map fst (filter (expired now) ?es)) \<longleftrightarrow> (\<exists>t. timer_of svc p = Some t \<and> now - t \<ge> 60)"
    using d by (force simp: timer_of_def expired_def SECONDS_OF_ONE_MINUTE_def)
  then show "map_of (sessionMap (service_pass now svc)) p =
      (case timer_of svc p of Some t \<Rightarrow> if now - t \<ge> 60 then None else map_of (sessionMap svc) p
                            | None \<Rightarrow> map_of (sessionMap svc) p)"
    by (simp add: pass Let_def timeouts_effect split: option.splits)
  show "distinct (map fst (timerMap (sessionTimer (service_pass now svc))))"
    using d by (simp add: pass Let_def distinct_map_filter)
qed

lemma service_pass_ok:
  assumes ok: "sessions_ok svc" and cb: "timerCallback (sessionTimer svc)"
  shows "sessions_ok (service_pass now svc)"
proof (rule sessions_okI)
  note D = sessions_okD [OF ok] and E = service_pass_effect [OF assms, of now]
  show "distinct (map fst (timerMap (sessionTimer (service_pass now svc))))" by (rule E(3))
  fix p
  show "IsSessionTimerRunning (sessionTimer (service_pass now svc)) p \<longleftrightarrow>
      (\<exists>s. map_of (sessionMap (service_pass now svc)) p = Some s \<and> interruptMap s = [])"
    using D(2) [of p] E(1,2) [of p]
    by (auto simp: IsSessionTimerRunning_def timer_of_def split: option.splits if_splits)
  fix s assume "map_of (sessionMap (service_pass now svc)) p = Some s"
  then show "callerPid s = p \<and> sessionState s = SESSION_ACTIVE"
    using D(1) [of p s] E(2) [of p] by (auto split: option.splits if_splits)
qed

section \<open>Properties\<close>

lemma Init_ok: "sessions_ok AudioSessionService_Init" "registry_of AudioSessionService_Init = (\<lambda>_. None)"
    "timerCallback (sessionTimer AudioSessionService_Init)"
  by (simp_all add: sessions_ok_def timer_of_def registry_of_def AudioSessionService_Init_def
      SetAudioSessionTimerCallback_def AudioSessionTimer_ctor_def fun_eq_iff)

text \<open>
  C9: after any history of activations, deactivations and stream changes the session service
  holds exactly the sessions and streams the history says, and the timer of a process runs
  exactly when its session is active and holds no stream.
\<close>

theorem session_timer_runs_iff_empty:
  "registry_of (foldl session_step AudioSessionService_Init ops) = foldl registry_step (\<lambda>_. None) ops \<and>
   (IsSessionTimerRunning (sessionTimer (foldl session_step AudioSessionService_Init ops)) p \<longleftrightarrow>
      foldl registry_step (\<lambda>_. None) ops p = Some {})"
  using reg.run_abs [OF Init_ok(1)] reg.run_timed [OF Init_ok(1)] by (simp add: Init_ok(2))

text \<open>
  One pass of the timer loop deactivates exactly the sessions that have held no stream for
  a minute. A session that holds a stream, or has been empty for less, is left as it is, and
  the correspondence between timers and empty sessions is kept.
\<close>

theorem expiry_pass_exact:
  assumes "sessions_ok svc" and "timerCallback (sessionTimer svc)"
  shows "sessions_ok (service_pass now svc) \<and>
    GetAudioSessionByPid (service_pass now svc) p =
      (case timer_of svc p of
         Some t \<Rightarrow> if now - t \<ge> 60 then None else GetAudioSessionByPid svc p
       | None \<Rightarrow> GetAudioSessionByPid svc p) \<and>
    (timer_of svc p \<noteq> None \<longleftrightarrow> registry_of svc p = Some {})"
proof -
  have "timer_of svc p \<noteq> None \<longleftrightarrow> registry_of svc p = Some {}"
    using assms(1) by (simp add: sessions_ok_def)
  with service_pass_ok [OF assms] service_pass_effect(2) [OF assms] show ?thesis
    by (simp add: GetAudioSessionByPid_def split: option.split)
qed

definition demo_sessions :: AudioSessionService where
  "demo_sessions = foldl session_step AudioSessionService_Init
     [Activate 0 7 \<lparr>concurrencyMode = MIX_WITH_OTHERS\<rparr>, Activate 30 8 \<lparr>concurrencyMode = DUCK_OTHERS\<rparr>]"

theorem expiry_pass_exact_witness:
  "GetAudioSessionByPid (service_pass 61 demo_sessions) 7 = None \<and>
   GetAudioSessionByPid (service_pass 61 demo_sessions) 8 \<noteq> None"
proof -
  have ok: "sessions_ok demo_sessions" unfolding demo_sessions_def by (rule reg.run_inv [OF Init_ok(1)])
  have cb: "timerCallback (sessionTimer demo_sessions)" by code_simp
  have "timer_of demo_sessions 7 = Some 0" "timer_of demo_sessions 8 = Some 30"
    "GetAudioSessionByPid demo_sessions 8 \<noteq> None" by code_simp+
  with expiry_pass_exact [OF ok cb, of 61 7] expiry_pass_exact [OF ok cb, of 61 8] show ?thesis by simp
qed

end
