(* ===== verification/TimerThread.thy ===== *)
theory TimerThread
  imports SessionRegistry
begin

text \<open>
  The interleaving of \<open>AudioSessionTimer::TimerLoopFunc\<close> with the calls into the timer, at the
  granularity of the locks. A caller holds the lock of the interrupt service (and of the
  session service) for the whole of a call into the timer, so there is one caller at a time;
  inside it takes \<open>sessionTimerMutex_\<close>. The loop holds \<open>sessionTimerMutex_\<close> while it walks the
  map, and its callback takes the service's locks.
\<close>

section \<open>The steps\<close>

datatype timer_call = CallStart int | CallStop int

text \<open>
  The caller: outside, inside with the service locks and about to take the timer's, or in
  \<open>StartTimer\<close> or \<open>StopTimer\<close> waiting in \<open>join\<close> with the timer's lock released and the service
  locks still held.
\<close>

datatype caller_pc = CIdle | CEntered timer_call | CJoinStart | CJoinStop

text \<open>
  The thread: not there, created, at the head of the loop, walking the map with the timer's
  lock held (the time read and the entries left), in \<open>wait_for\<close>, out of the loop but before
  \<open>isThreadRunning_\<close> is reset, finished.
\<close>

datatype thread_pc = TNone | TSpawned | TLoopTop | TExpiring int "(int \<times> int) list" | TWaiting | TExiting | TDone

record timer_world =
  clock :: int
  timer :: AudioSessionTimer
  caller :: caller_pc
  thread :: thread_pc

definition timer_world_init :: timer_world where
  "timer_world_init =
     \<lparr>clock = 0, timer = sessionTimer AudioSessionService_Init, caller = CIdle, thread = TNone\<rparr>"

definition timer_locked :: "timer_world \<Rightarrow> bool" where
  "timer_locked w \<longleftrightarrow> (case thread w of TExpiring _ _ \<Rightarrow> True | _ \<Rightarrow> False)"

text \<open>
  A call that has to join the thread waits when the thread is there, its loop has not begun
  (so \<open>isThreadRunning_\<close> is false) and it has not finished either.
\<close>

definition unfinished :: "timer_world \<Rightarrow> bool" where
  "unfinished w \<longleftrightarrow> \<not> isThreadRunning (timer w) \<and> timerThread (timer w) \<and> thread w \<noteq> TDone"

definition start_waits :: "timer_world \<Rightarrow> int \<Rightarrow> bool" where
  "start_waits w p \<longleftrightarrow> map_of (timerMap (timer w)) p = None \<and> unfinished w"

definition stop_waits :: "timer_world \<Rightarrow> int \<Rightarrow> bool" where
  "stop_waits w p \<longleftrightarrow> AList.delete p (timerMap (timer w)) = [] \<and> unfinished w"

definition thread_after_start :: "timer_world \<Rightarrow> int \<Rightarrow> thread_pc" where
  "thread_after_start w p =
     (if map_of (timerMap (timer w)) p = None \<and> (\<not> timerThread (timer w) \<or> \<not> isThreadRunning (timer w))
      then TSpawned else thread w)"

inductive world_step :: "timer_world \<Rightarrow> timer_world \<Rightarrow> bool" where
  tick: "world_step w (w\<lparr>clock := clock w + 1\<rparr>)"
| call: "caller w = CIdle \<Longrightarrow> world_step w (w\<lparr>caller := CEntered c\<rparr>)"
| start: "caller w = CEntered (CallStart p) \<Longrightarrow> \<not> timer_locked w \<Longrightarrow> \<not> start_waits w p \<Longrightarrow>
    world_step w (w\<lparr>timer := StartTimer (clock w) (timer w) p, thread := thread_after_start w p,
                    caller := CIdle\<rparr>)"
| start_wait: "caller w = CEntered (CallStart p) \<Longrightarrow> \<not> timer_locked w \<Longrightarrow> start_waits w p \<Longrightarrow>
    world_step w (w\<lparr>timer := (timer w)\<lparr>timerMap := AList.update p (clock w) (timerMap (timer w)),
                      timerState := TIMER_RUNNING\<rparr>, caller := CJoinStart\<rparr>)"
| start_joined: "caller w = CJoinStart \<Longrightarrow> thread w = TDone \<Longrightarrow>
    world_step w (w\<lparr>timer := (timer w)\<lparr>timerThread := True\<rparr>, thread := TSpawned, caller := CIdle\<rparr>)"
| stop: "caller w = CEntered (CallStop p) \<Longrightarrow> \<not> timer_locked w \<Longrightarrow> \<not> stop_waits w p \<Longrightarrow>
    world_step w (w\<lparr>timer := StopTimer (timer w) p,
                    thread := (if timerThread (StopTimer (timer w) p) then thread w else TNone),
                    caller := CIdle\<rparr>)"
| stop_wait: "caller w = CEntered (CallStop p) \<Longrightarrow> \<not> timer_locked w \<Longrightarrow> stop_waits w p \<Longrightarrow>
    world_step w (w\<lparr>timer := (timer w)\<lparr>timerMap := [], timerState := TIMER_STOPPED\<rparr>,
                    caller := CJoinStop\<rparr>)"
| stop_joined: "caller w = CJoinStop \<Longrightarrow> thread w = TDone \<Longrightarrow>
    world_step w (w\<lparr>timer := (timer w)\<lparr>timerThread := False\<rparr>, thread := TNone, caller := CIdle\<rparr>)"
| enter: "thread w = TSpawned \<Longrightarrow>
    world_step w (w\<lparr>timer := (timer w)\<lparr>isThreadRunning := True\<rparr>, thread := TLoopTop\<rparr>)"
| top_exit: "thread w = TLoopTop \<Longrightarrow> timerMap (timer w) = [] \<Longrightarrow> world_step w (w\<lparr>thread := TExiting\<rparr>)"
| top_walk: "thread w = TLoopTop \<Longrightarrow> timerMap (timer w) \<noteq> [] \<Longrightarrow>
    world_step w (w\<lparr>thread := TExpiring (clock w) (timerMap (timer w))\<rparr>)"
| walk_keep: "thread w = TExpiring now (e # es) \<Longrightarrow> \<not> expired now e \<Longrightarrow>
    world_step w (w\<lparr>thread := TExpiring now es\<rparr>)"
| walk_expire: "thread w = TExpiring now (e # es) \<Longrightarrow> expired now e \<Longrightarrow> caller w = CIdle \<Longrightarrow>
    world_step w (w\<lparr>timer := (timer w)\<lparr>timerMap := AList.delete (fst e) (timerMap (timer w))\<rparr>,
                    thread := TExpiring now es\<rparr>)"
| walk_done: "thread w = TExpiring now [] \<Longrightarrow> world_step w (w\<lparr>thread := TWaiting\<rparr>)"
| wake_exit: "thread w = TWaiting \<Longrightarrow> timerState (timer w) = TIMER_STOPPED \<Longrightarrow>
    world_step w (w\<lparr>thread := TExiting\<rparr>)"
| wake_loop: "thread w = TWaiting \<Longrightarrow> timerState (timer w) \<noteq> TIMER_STOPPED \<Longrightarrow>
    world_step w (w\<lparr>thread := TLoopTop\<rparr>)"
| leave: "thread w = TExiting \<Longrightarrow>
    world_step w (w\<lparr>timer := (timer w)\<lparr>isThreadRunning := False\<rparr>, thread := TDone\<rparr>)"

inductive_cases world_stepE: "world_step w w'"

inductive world_reach :: "timer_world \<Rightarrow> timer_world \<Rightarrow> bool" for w0 where
  base: "world_reach w0 w0"
| more: "world_reach w0 w \<Longrightarrow> world_step w w' \<Longrightarrow> world_reach w0 w'"

section \<open>Schedules\<close>

text \<open>A schedule names who moves; each move is then determined.\<close>

datatype move = Tick | Call timer_call | RunCaller | RunThread

fun run_caller :: "timer_world \<Rightarrow> timer_world option" where
  "run_caller w =
     (case caller w of
        CEntered (CallStart p) \<Rightarrow>
          if timer_locked w then None
          else if start_waits w p
          then Some (w\<lparr>timer := (timer w)\<lparr>timerMap := AList.update p (clock w) (timerMap (timer w)),
                          timerState := TIMER_RUNNING\<rparr>, caller := CJoinStart\<rparr>)
          else Some (w\<lparr>timer := StartTimer (clock w) (timer w) p, thread := thread_after_start w p,
                        caller := CIdle\<rparr>)
      | CEntered (CallStop p) \<Rightarrow>
          if timer_locked w then None
          else if stop_waits w p
          then Some (w\<lparr>timer := (timer w)\<lparr>timerMap := [], timerState := TIMER_STOPPED\<rparr>,
                        caller := CJoinStop\<rparr>)
          else Some (w\<lparr>timer := StopTimer (timer w) p,
                        thread := (if timerThread (StopTimer (timer w) p) then thread w else TNone),
                        caller := CIdle\<rparr>)
      | _ \<Rightarrow> None)"

fun run_thread :: "timer_world \<Rightarrow> timer_world option" where
  "run_thread w =
     (case thread w of
        TSpawned \<Rightarrow> Some (w\<lparr>timer := (timer w)\<lparr>isThreadRunning := True\<rparr>, thread := TLoopTop\<rparr>)
      | TLoopTop \<Rightarrow>
          if timerMap (timer w) = [] then Some (w\<lparr>thread := TExiting\<rparr>)
          else Some (w\<lparr>thread := TExpiring (clock w) (timerMap (timer w))\<rparr>)
      | TExpiring now [] \<Rightarrow> Some (w\<lparr>thread := TWaiting\<rparr>)
      | TExpiring now (e # es) \<Rightarrow>
          if \<not> expired now e then Some (w\<lparr>thread := TExpiring now es\<rparr>)
          else if caller w = CIdle
          then Some (w\<lparr>timer := (timer w)\<lparr>timerMap := AList.delete (fst e) (timerMap (timer w))\<rparr>,
                        thread := TExpiring now es\<rparr>)
          else None
      | TWaiting \<Rightarrow>
          if timerState (timer w) = TIMER_STOPPED then Some (w\<lparr>thread := TExiting\<rparr>)
          else Some (w\<lparr>thread := TLoopTop\<rparr>)
      | TExiting \<Rightarrow> Some (w\<lparr>timer := (timer w)\<lparr>isThreadRunning := False\<rparr>, thread := TDone\<rparr>)
      | _ \<Rightarrow> None)"

fun do_move :: "timer_world \<Rightarrow> move \<Rightarrow> timer_world option" where
  "do_move w Tick = Some (w\<lparr>clock := clock w + 1\<rparr>)"
| "do_move w (Call c) = (if caller w = CIdle then Some (w\<lparr>caller := CEntered c\<rparr>) else None)"
| "do_move w RunCaller = run_caller w"
| "do_move w RunThread = run_thread w"

fun do_moves :: "timer_world \<Rightarrow> move list \<Rightarrow> timer_world option" where
  "do_moves w [] = Some w"
| "do_moves w (m # ms) = (case do_move w m of None \<Rightarrow> None | Some w1 \<Rightarrow> do_moves w1 ms)"

lemma run_caller_step: "run_caller w = Some w' \<Longrightarrow> world_step w w'"
  using stop [of w]
  by (auto split: caller_pc.splits timer_call.splits if_splits intro: start start_wait stop_wait)

lemma run_thread_step: "run_thread w = Some w' \<Longrightarrow> world_step w w'"
  by (auto split: thread_pc.splits list.splits if_splits
      intro: enter top_exit top_walk walk_keep walk_expire walk_done wake_exit wake_loop leave)

lemma do_move_step: "do_move w m = Some w' \<Longrightarrow> world_step w w'"
  by (cases m) (auto simp del: run_caller.simps run_thread.simps split: if_splits
      intro: tick call run_caller_step run_thread_step)

lemma do_moves_reach: "world_reach w0 w \<Longrightarrow> do_moves w ms = Some w' \<Longrightarrow> world_reach w0 w'"
proof (induction ms arbitrary: w)
  case (Cons m ms)
  obtain w1 where "do_move w m = Some w1" "do_moves w1 ms = Some w'"
    using Cons.prems(2) by (auto simp del: do_move.simps split: option.splits)
  with Cons show ?case using more do_move_step by blast
qed simp

section \<open>Invariants\<close>

definition in_loop :: "thread_pc \<Rightarrow> bool" where
  "in_loop th \<longleftrightarrow> (case th of TLoopTop \<Rightarrow> True | TExpiring _ _ \<Rightarrow> True | TWaiting \<Rightarrow> True | TExiting \<Rightarrow> True
                             | _ \<Rightarrow> False)"

lemma in_loop_simps [simp]:
  "\<not> in_loop TNone" "\<not> in_loop TSpawned" "in_loop TLoopTop" "in_loop (TExpiring now es)"
  "in_loop TWaiting" "in_loop TExiting" "\<not> in_loop TDone"
  by (simp_all add: in_loop_def)

text \<open>A caller joining a thread it cannot outlive: the loop is not left while it waits.\<close>

definition held_up :: "timer_world \<Rightarrow> bool" where
  "held_up w \<longleftrightarrow> caller w = CJoinStart \<and> timerMap (timer w) \<noteq> [] \<and> timerState (timer w) = TIMER_RUNNING \<and>
     thread w \<noteq> TDone \<and> thread w \<noteq> TExiting \<and> thread w \<noteq> TNone"

definition world_ok :: "timer_world \<Rightarrow> bool" where
  "world_ok w \<longleftrightarrow>
     (timerThread (timer w) \<longleftrightarrow> thread w \<noteq> TNone) \<and>
     (isThreadRunning (timer w) \<longleftrightarrow> in_loop (thread w)) \<and>
     (timerMap (timer w) \<noteq> [] \<longrightarrow> thread w \<noteq> TNone) \<and>
     (caller w = CJoinStart \<longrightarrow> held_up w) \<and> (caller w = CJoinStop \<longrightarrow> timerMap (timer w) = [])"

lemma timer_fields_Start:
  "timerThread (StartTimer now t p) = (map_of (timerMap t) p = None \<or> timerThread t)"
  "isThreadRunning (StartTimer now t p) = isThreadRunning t"
  by (auto simp: StartTimer_def Let_def join_finished_def)

lemma timer_fields_Stop:
  "timerThread (StopTimer t p) =
     (timerThread t \<and> (AList.delete p (timerMap t) \<noteq> [] \<or> isThreadRunning t))"
  "isThreadRunning (StopTimer t p) = isThreadRunning t"
  by (auto simp: StopTimer_def Let_def join_finished_def)

lemma world_ok_step:
  assumes "world_step w w'" and "world_ok w"
  shows "world_ok w'"
  using assms
proof cases
  case (start p)
  then show ?thesis using assms(2)
    by (auto simp: world_ok_def timer_fields_Start thread_after_start_def start_waits_def unfinished_def
        timerMap_Start)
next
  case (stop p)
  then show ?thesis using assms(2)
    by (auto simp: world_ok_def timer_fields_Stop stop_waits_def unfinished_def)
next
  case (start_wait p)
  then show ?thesis using assms(2)
    by (auto simp: world_ok_def held_up_def start_waits_def unfinished_def)
next
  case (stop_wait p)
  then show ?thesis using assms(2)
    by (auto simp: world_ok_def held_up_def stop_waits_def unfinished_def)
qed (use assms(2) in \<open>auto simp: world_ok_def held_up_def\<close>)

lemma world_ok_reach: "world_reach w0 w \<Longrightarrow> world_ok w0 \<Longrightarrow> world_ok w"
  by (induction rule: world_reach.induct) (auto intro: world_ok_step)

lemma world_ok_init: "world_ok timer_world_init"
  by (simp add: world_ok_def timer_world_init_def AudioSessionService_Init_def AudioSessionTimer_ctor_def
      SetAudioSessionTimerCallback_def)

lemma held_up_step: "world_step w w' \<Longrightarrow> held_up w \<Longrightarrow> held_up w'"
  by (erule world_stepE) (auto simp: held_up_def)

lemma held_up_reach: "world_reach w w' \<Longrightarrow> held_up w \<Longrightarrow> held_up w'"
  by (induction rule: world_reach.induct) (auto intro: held_up_step)

section \<open>Properties\<close>

text \<open>
  C10: in every interleaving the flags of the timer describe the thread: the pointer is set
  exactly when a thread object exists, \<open>isThreadRunning_\<close> exactly between the entry and the exit
  of the loop, and while a timer is in the map there is a thread object.
\<close>

theorem timer_thread_consistent:
  assumes "world_reach timer_world_init w"
  shows "(timerThread (timer w) \<longleftrightarrow> thread w \<noteq> TNone) \<and> (isThreadRunning (timer w) \<longleftrightarrow> in_loop (thread w)) \<and>
    (timerMap (timer w) \<noteq> [] \<longrightarrow> thread w \<noteq> TNone)"
  using world_ok_reach [OF assms world_ok_init] by (simp add: world_ok_def)

definition sched_two_starts :: "move list" where
  "sched_two_starts =
     [Call (CallStart 1), RunCaller, Call (CallStart 2), RunCaller, RunThread, RunThread]"

theorem timer_thread_consistent_witness:
  "\<exists>w. do_moves timer_world_init sched_two_starts = Some w \<and> timerThread (timer w) \<and> isThreadRunning (timer w)"
proof -
  let ?w = "the (do_moves timer_world_init sched_two_starts)"
  have w: "do_moves timer_world_init sched_two_starts = Some ?w"
    and t: "thread ?w = TExpiring 0 [(1, 0), (2, 0)]" by code_simp+
  from timer_thread_consistent [OF do_moves_reach [OF world_reach.base w]] t w show ?thesis
    by (metis in_loop_simps(1) in_loop_simps(4))
qed

text \<open>
  A caller of \<open>StartTimer\<close> that finds the thread created but not yet in its loop never
  returns: it joins, with the service locks held, a thread that leaves its loop only after the
  map is emptied, and only callers with those locks or the expiry callback, which needs them,
  empty the map.
\<close>

theorem start_join_never_returns:
  assumes "world_reach timer_world_init w" and "caller w = CJoinStart" and "world_reach w w'"
  shows "caller w' = CJoinStart \<and> timerMap (timer w') \<noteq> []"
proof -
  have "held_up w" using world_ok_reach [OF assms(1) world_ok_init] assms(2) by (simp add: world_ok_def)
  from held_up_reach [OF assms(3) this] show ?thesis by (simp add: held_up_def)
qed

theorem start_join_never_returns_witness:
  "\<exists>w. world_reach timer_world_init w \<and> caller w = CJoinStart \<and>
     {w'. world_reach w w'} \<subseteq> {w'. caller w' = CJoinStart}"
proof -
  let ?w = "the (do_moves timer_world_init sched_two_starts)"
  have w: "do_moves timer_world_init sched_two_starts = Some ?w" and c: "caller ?w = CJoinStart" by code_simp+
  have r: "world_reach timer_world_init ?w" by (rule do_moves_reach [OF world_reach.base w])
  with start_join_never_returns [OF r c] c show ?thesis by blast
qed

definition sched_deadlock :: "move list" where
  "sched_deadlock =
     [Call (CallStart 1), RunCaller, RunThread] @ replicate 60 Tick @
     [RunThread, Call (CallStop 1)]"

text \<open>
  The expiry of a session and a call into the timer can deadlock. The loop holds
  \<open>sessionTimerMutex_\<close> while its callback waits for the service locks; a caller that holds
  those waits for \<open>sessionTimerMutex_\<close>. There is a reachable state from which only time moves.
\<close>

theorem expiry_deadlock_reachable:
  "\<exists>w. world_reach timer_world_init w \<and> caller w = CEntered (CallStop 1) \<and>
     (\<lambda>w'. w'\<lparr>clock := clock w\<rparr>) ` {w'. world_reach w w'} = {w}"
proof -
  let ?w = "the (do_moves timer_world_init sched_deadlock)"
  have w: "do_moves timer_world_init sched_deadlock = Some ?w"
    and c: "caller ?w = CEntered (CallStop 1)" and t: "thread ?w = TExpiring 60 [(1, 0)]" by code_simp+
  have r: "world_reach timer_world_init ?w" by (rule do_moves_reach [OF world_reach.base w])
  have "w'\<lparr>clock := clock ?w\<rparr> = ?w" if "world_reach ?w w'" for w'
    using that
  proof induction
    case (more w1 w2)
    then have s: "caller w1 = CEntered (CallStop 1)" "thread w1 = TExpiring 60 [(1, 0)]"
      using c t by (metis timer_world.select_convs(3) timer_world.surjective timer_world.update_convs(1),
        metis timer_world.select_convs(4) timer_world.surjective timer_world.update_convs(1))
    have "\<exists>k. w2 = w1\<lparr>clock := k\<rparr>"
      using more.hyps(2) s
      by (cases) (auto simp: timer_locked_def expired_def SECONDS_OF_ONE_MINUTE_def)
    with more.IH show ?case by auto
  qed simp
  moreover have "world_reach ?w ?w" by (rule world_reach.base)
  ultimately have "(\<lambda>w'. w'\<lparr>clock := clock ?w\<rparr>) ` {w'. world_reach ?w w'} = {?w}" by force
  with r c show ?thesis by blast
qed

definition sched_lost :: "move list" where
  "sched_lost =
     [Call (CallStart 1), RunCaller, RunThread, RunThread, RunThread, RunThread,
      Call (CallStop 1), RunCaller, RunThread, Call (CallStart 2), RunCaller, RunThread]"

text \<open>
  A timer can be lost. A \<open>StartTimer\<close> that runs after the loop was told to stop and before
  \<open>isThreadRunning_\<close> is reset neither joins the old thread nor makes a new one: a timer is in the
  map, the thread is finished, and until the next call into the timer only time moves.
\<close>

theorem timer_lost_reachable:
  "\<exists>w. world_reach timer_world_init w \<and> IsSessionTimerRunning (timer w) 2 \<and> thread w = TDone \<and>
     caller w = CIdle \<and> run_thread w = None \<and> (\<forall>now. StartTimer now (timer w) 2 = timer w)"
proof -
  let ?w = "the (do_moves timer_world_init sched_lost)"
  have w: "do_moves timer_world_init sched_lost = Some ?w"
    and t: "thread ?w = TDone" "caller ?w = CIdle" "IsSessionTimerRunning (timer ?w) 2" by code_simp+
  have "StartTimer now (timer ?w) 2 = timer ?w" for now
    using t(3) by (simp add: StartTimer_def IsSessionTimerRunning_def)
  with do_moves_reach [OF world_reach.base w] t show ?thesis by auto
qed

end
