(* ===== verification/InterruptState.thy ===== *)
theory InterruptState
  imports SessionRegistry
begin

text \<open>
  The state of \<open>AudioInterruptService\<close> and its small helpers
  (\<open>services/audio_policy/server/src/service/interrupt/audio_interrupt_service.cpp\<close>): zones,
  clients, the focus configuration, priorities, and what it sends to the other parts.

  A zone pointer in \<open>zonesMap\<close> may be null: \<open>None\<close>. What the service does to objects outside it
  is a log of events: messages through \<open>handler_\<close> (sent only when it is set), calls on the
  policy server and on the audio server proxy. The policy server answers \<open>GetAudioScene\<close> with
  \<open>serverScene\<close>; \<open>sysTime\<close> is the clock the session timer reads. \<open>interrupt_env\<close> holds the
  build option \<open>FEATURE_APPGALLERY\<close>, the client type manager's answers and whether the audio
  server proxy can be had.
\<close>

section \<open>Data\<close>

datatype ClientType = CLIENT_TYPE_OTHERS | CLIENT_TYPE_GAME

record interrupt_env =
  appGallery :: bool
  clientTypeByUid :: "u32 \<Rightarrow> ClientType"
  audioServer :: bool

text \<open>
  The sets are strictly ascending lists, as \<open>std::set\<close> iterates. The two dump fields are the
  ones \<open>AddDumpInfo\<close> fills.
\<close>

record AudioInterruptZone =
  zoneId :: int
  pids :: "int list"
  interruptCbSessionIdsMap :: "u32 list"
  audioPolicyClientProxyCBClientPidMap :: "int list"
  interruptCbsMap :: "(u32 \<times> nat) list"
  audioPolicyClientProxyCBMap :: "(int \<times> nat) list"
  audioFocusInfoList :: "focus_info list"

definition AudioInterruptZone_new :: AudioInterruptZone where
  "AudioInterruptZone_new =
     \<lparr>zoneId = 0, pids = [], interruptCbSessionIdsMap = [], audioPolicyClientProxyCBClientPidMap = [],
      interruptCbsMap = [], audioPolicyClientProxyCBMap = [], audioFocusInfoList = []\<rparr>"

record AudioInterruptClient =
  clientCallback :: nat
  callingUid :: u32

datatype callback_category =
  NONE_CALLBACK_CATEGORY | REQUEST_CALLBACK_CATEGORY | ABANDON_CALLBACK_CATEGORY

datatype svc_event =
  InterruptWithSessionId InterruptEventInternal u32
| InterruptWithClientId InterruptEventInternal int
| AudioFocusInfoChange callback_category AudioInterrupt "focus_info list"
| AudioSessionDeactive int AudioSessionDeactiveReason
| SetNonInterruptMute u32 bool
| CheckStreamMode u32
| OffloadStreamCheck int int
| OffloadStopPlaying AudioInterrupt
| SetAudioSceneInternal AudioScene
| FocusMigrate int
| ClientOnInterrupt u32 InterruptEventInternal

record InterruptService =
  policyServer :: bool
  handler :: bool
  sessionService :: "AudioSessionService option"
  focusCfgMap :: "(focus_key \<times> AudioFocusEntry) list"
  zonesMap :: "(int \<times> AudioInterruptZone option) list"
  interruptClients :: "(u32 \<times> AudioInterruptClient) list"
  focussedAudioInterruptInfo :: "AudioInterrupt option"
  clientOnFocus :: int
  serverScene :: AudioScene
  sysTime :: int
  events :: "svc_event list"

definition ZONEID_DEFAULT :: int where [simp]: "ZONEID_DEFAULT = 0"
definition DEFAULT_APP_PID :: int where [simp]: "DEFAULT_APP_PID = -1"
definition OFFLOAD_NO_SESSION_ID :: int where "OFFLOAD_NO_SESSION_ID = -1"
definition DUCK_FACTOR :: f32 where "DUCK_FACTOR = FFin (2/10)"
definition STREAM_DEFAULT_PRIORITY :: int where "STREAM_DEFAULT_PRIORITY = 100"
definition MEDIA_SA_UID :: u32 where "MEDIA_SA_UID = 1013"

section \<open>Sets, zones and events\<close>

definition set_insert :: "int \<Rightarrow> int list \<Rightarrow> int list" where
  "set_insert x xs = insort_insert x xs"

definition set_erase :: "int \<Rightarrow> int list \<Rightarrow> int list" where
  "set_erase x xs = remove1 x xs"

definition zone_at :: "InterruptService \<Rightarrow> int \<Rightarrow> AudioInterruptZone option" where
  "zone_at s z = (case map_of (zonesMap s) z of Some (Some zn) \<Rightarrow> Some zn | _ \<Rightarrow> None)"

text \<open>The local copy most functions take: the zone's list, empty when there is no zone.\<close>

definition focus_list :: "InterruptService \<Rightarrow> int \<Rightarrow> focus_info list" where
  "focus_list s z = (case zone_at s z of Some zn \<Rightarrow> audioFocusInfoList zn | None \<Rightarrow> [])"

definition put_zone :: "InterruptService \<Rightarrow> int \<Rightarrow> AudioInterruptZone \<Rightarrow> InterruptService" where
  "put_zone s z zn = s\<lparr>zonesMap := AList.update z (Some zn) (zonesMap s)\<rparr>"

text \<open>A change through the pointer the zones map holds.\<close>

definition zone_mod :: "InterruptService \<Rightarrow> int \<Rightarrow> (AudioInterruptZone \<Rightarrow> AudioInterruptZone) \<Rightarrow> InterruptService" where
  "zone_mod s z f = (case zone_at s z of Some zn \<Rightarrow> put_zone s z (f zn) | None \<Rightarrow> s)"

definition emit :: "InterruptService \<Rightarrow> svc_event \<Rightarrow> InterruptService" where
  "emit s e = s\<lparr>events := events s @ [e]\<rparr>"

definition emit_handler :: "InterruptService \<Rightarrow> svc_event \<Rightarrow> InterruptService" where
  "emit_handler s e = (if handler s then emit s e else s)"

definition SendFocusChangeEvent ::
    "InterruptService \<Rightarrow> int \<Rightarrow> callback_category \<Rightarrow> AudioInterrupt \<Rightarrow> InterruptService" where
  "SendFocusChangeEvent s z callbackCategory audioInterrupt =
     (if \<not> handler s then s
      else emit s (AudioFocusInfoChange callbackCategory audioInterrupt (focus_list s z)))"

section \<open>Sessions, through the optional service\<close>

definition session_active :: "InterruptService \<Rightarrow> int \<Rightarrow> bool" where
  "session_active s p =
     (case sessionService s of None \<Rightarrow> False | Some svc \<Rightarrow> IsAudioSessionActivated svc p)"

definition session_of :: "InterruptService \<Rightarrow> int \<Rightarrow> AudioSession option" where
  "session_of s p = (case sessionService s of None \<Rightarrow> None | Some svc \<Rightarrow> GetAudioSessionByPid svc p)"

definition session_mod ::
    "InterruptService \<Rightarrow> (AudioSessionService \<Rightarrow> AudioSessionService) \<Rightarrow> InterruptService" where
  "session_mod s f = s\<lparr>sessionService := map_option f (sessionService s)\<rparr>"

section \<open>Priorities\<close>

fun HINT_STATE_MAP :: "InterruptHint \<Rightarrow> AudioFocuState option" where
  "HINT_STATE_MAP INTERRUPT_HINT_PAUSE = Some PAUSE"
| "HINT_STATE_MAP INTERRUPT_HINT_DUCK = Some DUCK"
| "HINT_STATE_MAP INTERRUPT_HINT_NONE = Some ACTIVE"
| "HINT_STATE_MAP INTERRUPT_HINT_RESUME = Some ACTIVE"
| "HINT_STATE_MAP INTERRUPT_HINT_UNDUCK = Some ACTIVE"
| "HINT_STATE_MAP INTERRUPT_HINT_STOP = None"

definition GetAudioSceneFromAudioInterrupt :: "AudioInterrupt \<Rightarrow> AudioScene" where
  "GetAudioSceneFromAudioInterrupt i =
     (let st = streamType (audioFocusType i)
      in if st = STREAM_RING then AUDIO_SCENE_RINGING
         else if st = STREAM_VOICE_CALL \<or> st = STREAM_VOICE_COMMUNICATION
         then (if streamUsage i = STREAM_USAGE_VOICE_MODEM_COMMUNICATION then AUDIO_SCENE_PHONE_CALL
               else AUDIO_SCENE_PHONE_CHAT)
         else if st = STREAM_VOICE_RING then AUDIO_SCENE_VOICE_RINGING
         else AUDIO_SCENE_DEFAULT)"

fun SCENE_PRIORITY :: "AudioScene \<Rightarrow> int option" where
  "SCENE_PRIORITY AUDIO_SCENE_PHONE_CALL = Some 5"
| "SCENE_PRIORITY AUDIO_SCENE_VOICE_RINGING = Some 4"
| "SCENE_PRIORITY AUDIO_SCENE_PHONE_CHAT = Some 3"
| "SCENE_PRIORITY AUDIO_SCENE_RINGING = Some 2"
| "SCENE_PRIORITY AUDIO_SCENE_DEFAULT = Some 1"
| "SCENE_PRIORITY _ = None"

definition GetAudioScenePriority :: "AudioScene \<Rightarrow> int" where
  "GetAudioScenePriority sc =
     (case SCENE_PRIORITY sc of None \<Rightarrow> the (SCENE_PRIORITY AUDIO_SCENE_DEFAULT) | Some n \<Rightarrow> n)"

fun DEFAULT_STREAM_PRIORITY :: "AudioStreamType \<Rightarrow> int option" where
  "DEFAULT_STREAM_PRIORITY STREAM_VOICE_CALL = Some 0"
| "DEFAULT_STREAM_PRIORITY STREAM_VOICE_CALL_ASSISTANT = Some 0"
| "DEFAULT_STREAM_PRIORITY STREAM_VOICE_COMMUNICATION = Some 0"
| "DEFAULT_STREAM_PRIORITY STREAM_VOICE_MESSAGE = Some 1"
| "DEFAULT_STREAM_PRIORITY STREAM_NOTIFICATION = Some 2"
| "DEFAULT_STREAM_PRIORITY STREAM_VOICE_ASSISTANT = Some 3"
| "DEFAULT_STREAM_PRIORITY STREAM_RING = Some 4"
| "DEFAULT_STREAM_PRIORITY STREAM_VOICE_RING = Some 4"
| "DEFAULT_STREAM_PRIORITY STREAM_ALARM = Some 5"
| "DEFAULT_STREAM_PRIORITY STREAM_NAVIGATION = Some 6"
| "DEFAULT_STREAM_PRIORITY STREAM_MUSIC = Some 7"
| "DEFAULT_STREAM_PRIORITY STREAM_MOVIE = Some 7"
| "DEFAULT_STREAM_PRIORITY STREAM_SPEECH = Some 7"
| "DEFAULT_STREAM_PRIORITY STREAM_GAME = Some 7"
| "DEFAULT_STREAM_PRIORITY STREAM_DTMF = Some 8"
| "DEFAULT_STREAM_PRIORITY STREAM_SYSTEM = Some 8"
| "DEFAULT_STREAM_PRIORITY STREAM_SYSTEM_ENFORCED = Some 9"
| "DEFAULT_STREAM_PRIORITY _ = None"

definition GetStreamTypePriority :: "AudioStreamType \<Rightarrow> int" where
  "GetStreamTypePriority st =
     (case DEFAULT_STREAM_PRIORITY st of Some n \<Rightarrow> n | None \<Rightarrow> STREAM_DEFAULT_PRIORITY)"

definition GetHighestPriorityAudioScene :: "InterruptService \<Rightarrow> int \<Rightarrow> AudioScene" where
  "GetHighestPriorityAudioScene s z =
     foldl (\<lambda>sc i. let it = GetAudioSceneFromAudioInterrupt (fst i)
                   in if GetAudioScenePriority it > GetAudioScenePriority sc then it else sc)
       AUDIO_SCENE_DEFAULT (focus_list s z)"

definition UpdateAudioSceneFromInterrupt ::
    "InterruptService \<Rightarrow> AudioScene \<Rightarrow> AudioInterruptChangeType \<Rightarrow> InterruptService" where
  "UpdateAudioSceneFromInterrupt s audioScene changeType =
     (if \<not> policyServer s then s
      else case changeType of
             ACTIVATE_AUDIO_INTERRUPT \<Rightarrow> emit s (SetAudioSceneInternal audioScene)
           | DEACTIVATE_AUDIO_INTERRUPT \<Rightarrow>
               if GetAudioScenePriority audioScene \<ge> GetAudioScenePriority (serverScene s) then s
               else emit s (SetAudioSceneInternal audioScene))"

text \<open>\<open>GetStreamInFocus\<close>: the loop carries the best priority and its stream.\<close>

fun stream_in_focus :: "focus_info list \<Rightarrow> int \<Rightarrow> AudioStreamType \<Rightarrow> AudioStreamType" where
  "stream_in_focus [] focusPriority streamInFocus = streamInFocus"
| "stream_in_focus ((i, st) # rest) focusPriority streamInFocus =
     (if (st \<noteq> ACTIVE \<and> st \<noteq> DUCK) \<or> sourceType (audioFocusType i) \<noteq> SOURCE_TYPE_INVALID
      then stream_in_focus rest focusPriority streamInFocus
      else
        let curPriority = GetStreamTypePriority (streamType (audioFocusType i))
        in if curPriority < focusPriority
           then stream_in_focus rest curPriority (streamType (audioFocusType i))
           else stream_in_focus rest focusPriority streamInFocus)"

definition GetStreamInFocus :: "InterruptService \<Rightarrow> int \<Rightarrow> AudioStreamType" where
  "GetStreamInFocus s z =
     (let st = stream_in_focus (focus_list s z) STREAM_DEFAULT_PRIORITY STREAM_DEFAULT
      in if st = STREAM_DEFAULT then STREAM_MUSIC else st)"

definition AudioInterrupt_ctor :: "StreamUsage \<Rightarrow> ContentType \<Rightarrow> AudioFocusType \<Rightarrow> u32 \<Rightarrow> AudioInterrupt" where
  "AudioInterrupt_ctor usage content ft sid =
     \<lparr>streamUsage = usage, contentType = content, audioFocusType = ft, sessionId = sid,
      pauseWhenDucked = False, pid = -1, mode = SHARE_MODE, parallelPlayFlag = False, sourcesTypes = []\<rparr>"

definition GetSessionInfoInFocus :: "InterruptService \<Rightarrow> int \<Rightarrow> err \<times> AudioInterrupt" where
  "GetSessionInfoInFocus s z =
     (SUCCESS,
      foldl (\<lambda>a i. if snd i = ACTIVE then fst i else a)
        (AudioInterrupt_ctor STREAM_USAGE_UNKNOWN CONTENT_TYPE_UNKNOWN
           \<lparr>streamType = STREAM_DEFAULT, sourceType = SOURCE_TYPE_INVALID, isPlay = True\<rparr> (- 1))
        (focus_list s z))"

definition GetAudioFocusInfoList :: "InterruptService \<Rightarrow> int \<Rightarrow> err \<times> focus_info list" where
  "GetAudioFocusInfoList s z = (SUCCESS, focus_list s z)"

section \<open>Clients\<close>

definition GetClientTypeBySessionId :: "interrupt_env \<Rightarrow> InterruptService \<Rightarrow> u32 \<Rightarrow> ClientType" where
  "GetClientTypeBySessionId E s sid =
     (if appGallery E
      then
        let uid = (case map_of (interruptClients s) sid of Some c \<Rightarrow> callingUid c | None \<Rightarrow> 0)
        in if uid = 0 then CLIENT_TYPE_OTHERS else clientTypeByUid E uid
      else CLIENT_TYPE_OTHERS)"

definition ResetNonInterruptControl :: "interrupt_env \<Rightarrow> InterruptService \<Rightarrow> u32 \<Rightarrow> InterruptService" where
  "ResetNonInterruptControl E s sid =
     (if GetClientTypeBySessionId E s sid \<noteq> CLIENT_TYPE_GAME then s
      else if \<not> audioServer E then s
      else emit s (SetNonInterruptMute sid False))"

definition ShouldCallbackToClient ::
    "interrupt_env \<Rightarrow> InterruptService \<Rightarrow> u32 \<Rightarrow> u32 \<Rightarrow> InterruptHint \<Rightarrow> bool \<times> InterruptService" where
  "ShouldCallbackToClient E s uid sid hint =
     (if clientTypeByUid E uid \<noteq> CLIENT_TYPE_GAME then (True, s)
      else if \<not> audioServer E then (True, s)
      else
        (False,
         case hint of
           INTERRUPT_HINT_RESUME \<Rightarrow> emit s (SetNonInterruptMute sid False)
         | INTERRUPT_HINT_PAUSE \<Rightarrow> emit s (SetNonInterruptMute sid True)
         | INTERRUPT_HINT_STOP \<Rightarrow> emit s (SetNonInterruptMute sid True)
         | _ \<Rightarrow> s))"

definition DispatchInterruptEventWithSessionId ::
    "interrupt_env \<Rightarrow> InterruptService \<Rightarrow> u32 \<Rightarrow> InterruptEventInternal \<Rightarrow> InterruptService" where
  "DispatchInterruptEventWithSessionId E s sid ev =
     (if sid = 0
      then foldl (\<lambda>s c. emit s (ClientOnInterrupt (fst c) ev)) s (interruptClients s)
      else case map_of (interruptClients s) sid of
             None \<Rightarrow> s
           | Some c \<Rightarrow>
             if appGallery E
             then (case ShouldCallbackToClient E s (callingUid c) sid (hintType ev) of
                     (should, s') \<Rightarrow> if should then emit s' (ClientOnInterrupt sid ev) else s')
             else emit s (ClientOnInterrupt sid ev))"

text \<open>
  \<open>object\<close> is the callback object received: null, one the two casts fail on, or one they accept
  (a handle). \<open>callerUid\<close> is the uid of the calling process.
\<close>

datatype remote_object = NullObject | NotAListener | Listener nat

definition SetAudioInterruptCallback ::
    "InterruptService \<Rightarrow> int \<Rightarrow> u32 \<Rightarrow> remote_object \<Rightarrow> u32 \<Rightarrow> u32 \<Rightarrow> err \<times> InterruptService" where
  "SetAudioInterruptCallback s z sid object uid callerUid =
     (case object of
        Listener cb \<Rightarrow>
          if map_of (interruptClients s) sid = None
          then
            let callingUid' = (if callerUid = MEDIA_SA_UID then uid else callerUid);
                s1 = s\<lparr>interruptClients :=
                  AList.update sid \<lparr>clientCallback = cb, callingUid = callingUid'\<rparr> (interruptClients s)\<rparr>
            in (SUCCESS, zone_mod s1 z (\<lambda>zn. zn\<lparr>interruptCbsMap := AList.update sid cb (interruptCbsMap zn)\<rparr>))
          else (ERR_INVALID_PARAM, s)
      | _ \<Rightarrow> (ERR_INVALID_PARAM, s))"

definition UnsetAudioInterruptCallback ::
    "InterruptService \<Rightarrow> int \<Rightarrow> u32 \<Rightarrow> err \<times> InterruptService" where
  "UnsetAudioInterruptCallback s z sid =
     (if map_of (interruptClients s) sid = None then (ERR_INVALID_PARAM, s)
      else
        let s1 = s\<lparr>interruptClients := AList.delete sid (interruptClients s)\<rparr>
        in (SUCCESS, zone_mod s1 z (\<lambda>zn. zn\<lparr>interruptCbsMap := AList.delete sid (interruptCbsMap zn)\<rparr>)))"

section \<open>The deprecated focus interface\<close>

text \<open>\<open>make_unique\<close> zero-initialises the members without an initialiser: \<open>SOURCE_TYPE_MIC\<close> is \<open>0\<close>.\<close>

definition NotifyFocusGranted :: "InterruptService \<Rightarrow> int \<Rightarrow> AudioInterrupt \<Rightarrow> InterruptService" where
  "NotifyFocusGranted s clientId i =
     (if handler s
      then
        (emit s (InterruptWithClientId
           \<lparr>eventType = INTERRUPT_TYPE_END, forceType = INTERRUPT_SHARE, hintType = INTERRUPT_HINT_NONE,
            duckVolume = FFin 0\<rparr> clientId))
        \<lparr>focussedAudioInterruptInfo := Some (AudioInterrupt_ctor (streamUsage i) (contentType i)
             \<lparr>streamType = streamType (audioFocusType i), sourceType = SOURCE_TYPE_MIC, isPlay = False\<rparr> 0
           \<lparr>pauseWhenDucked := pauseWhenDucked i\<rparr>),
         clientOnFocus := clientId\<rparr>
      else s)"

definition NotifyFocusAbandoned :: "InterruptService \<Rightarrow> int \<Rightarrow> AudioInterrupt \<Rightarrow> InterruptService" where
  "NotifyFocusAbandoned s clientId i =
     emit_handler s (InterruptWithClientId
       \<lparr>eventType = INTERRUPT_TYPE_BEGIN, forceType = INTERRUPT_SHARE, hintType = INTERRUPT_HINT_STOP,
        duckVolume = FFin 0\<rparr> clientId)"

definition AbandonAudioFocusInternal :: "InterruptService \<Rightarrow> int \<Rightarrow> AudioInterrupt \<Rightarrow> err \<times> InterruptService" where
  "AbandonAudioFocusInternal s clientId i =
     (SUCCESS, if clientId = clientOnFocus s
               then s\<lparr>focussedAudioInterruptInfo := None, clientOnFocus := 0\<rparr> else s)"

definition RequestAudioFocus :: "InterruptService \<Rightarrow> int \<Rightarrow> AudioInterrupt \<Rightarrow> err \<times> InterruptService" where
  "RequestAudioFocus s clientId i =
     (if clientOnFocus s = clientId then (SUCCESS, NotifyFocusGranted s clientId i)
      else
        let s1 = (case focussedAudioInterruptInfo s of
                    None \<Rightarrow> s
                  | Some f \<Rightarrow>
                    let s' = NotifyFocusAbandoned s (clientOnFocus s) f
                    in snd (AbandonAudioFocusInternal s' (clientOnFocus s') f))
        in (SUCCESS, NotifyFocusGranted s1 clientId i))"

definition AbandonAudioFocus :: "InterruptService \<Rightarrow> int \<Rightarrow> AudioInterrupt \<Rightarrow> err \<times> InterruptService" where
  "AbandonAudioFocus s clientId i = AbandonAudioFocusInternal s clientId i"

end
