(* ===== verification/InterruptFocus.thy ===== *)
theory InterruptFocus
  imports InterruptState
begin

text \<open>
  The focus policy of \<open>AudioInterruptService\<close>: what an incoming stream does to the streams that
  hold focus and what they do to it, the entry points \<open>ActivateAudioInterrupt\<close> and
  \<open>DeactivateAudioInterrupt\<close>, the resumption of interrupted streams, and the session entry points.
  An iteration over a list with an iterator is a recursion with the list already passed
  (\<open>done\<close>) and the list to come. A null pointer the code follows is the outcome \<open>NullDeref\<close>.
\<close>

section \<open>Mixing\<close>

definition IsSameAppInShareMode :: "AudioInterrupt \<Rightarrow> AudioInterrupt \<Rightarrow> bool" where
  "IsSameAppInShareMode incoming active =
     (if mode incoming \<noteq> SHARE_MODE \<or> mode active \<noteq> SHARE_MODE then False
      else if pid incoming = DEFAULT_APP_PID \<or> pid active = DEFAULT_APP_PID then False
      else pid incoming = pid active)"

definition IsIncomingStreamLowPriority :: "AudioFocusEntry \<Rightarrow> bool" where
  "IsIncomingStreamLowPriority e =
     (if isReject e then True
      else actionOn e = INCOMING \<and>
        (entryHintType e = INTERRUPT_HINT_PAUSE \<or> entryHintType e = INTERRUPT_HINT_STOP \<or>
         entryHintType e = INTERRUPT_HINT_DUCK))"

definition IsActiveStreamLowPriority :: "AudioFocusEntry \<Rightarrow> bool" where
  "IsActiveStreamLowPriority e =
     (actionOn e = CURRENT \<and>
        (entryHintType e = INTERRUPT_HINT_PAUSE \<or> entryHintType e = INTERRUPT_HINT_STOP \<or>
         entryHintType e = INTERRUPT_HINT_DUCK))"

definition CanMixForIncomingSession ::
    "InterruptService \<Rightarrow> AudioInterrupt \<Rightarrow> AudioInterrupt \<Rightarrow> AudioFocusEntry \<Rightarrow> bool" where
  "CanMixForIncomingSession s incoming active e =
     (if \<not> session_active s (pid incoming) then False
      else case session_of s (pid incoming) of
             None \<Rightarrow> False
           | Some sess \<Rightarrow>
             if concurrencyMode (GetSessionStrategy sess) \<noteq> MIX_WITH_OTHERS then False
             else if IsIncomingStreamLowPriority e
             then IsSameTypeForAudioSession (streamType (audioFocusType incoming))
                    (streamType (audioFocusType active))
             else True)"

definition CanMixForActiveSession ::
    "InterruptService \<Rightarrow> AudioInterrupt \<Rightarrow> AudioInterrupt \<Rightarrow> AudioFocusEntry \<Rightarrow> bool" where
  "CanMixForActiveSession s incoming active e =
     (if \<not> session_active s (pid active) then False
      else case session_of s (pid active) of
             None \<Rightarrow> False
           | Some sess \<Rightarrow>
             if concurrencyMode (GetSessionStrategy sess) \<noteq> MIX_WITH_OTHERS then False
             else if IsActiveStreamLowPriority e
             then IsSameTypeForAudioSession (streamType (audioFocusType incoming))
                    (streamType (audioFocusType active))
             else True)"

definition CanMixForSession ::
    "InterruptService \<Rightarrow> AudioInterrupt \<Rightarrow> AudioInterrupt \<Rightarrow> AudioFocusEntry \<Rightarrow> bool" where
  "CanMixForSession s incoming active e =
     (if isReject e \<and> sourceType (audioFocusType incoming) \<noteq> SOURCE_TYPE_INVALID then False
      else if CanMixForIncomingSession s incoming active e then True
      else CanMixForActiveSession s incoming active e)"

definition UpdateHintTypeForExistingSession ::
    "InterruptService \<Rightarrow> AudioInterrupt \<Rightarrow> AudioFocusEntry \<Rightarrow> AudioFocusEntry" where
  "UpdateHintTypeForExistingSession s incoming e =
     (if \<not> session_active s (pid incoming) then e
      else if actionOn e \<noteq> CURRENT then e
      else case session_of s (pid incoming) of
             None \<Rightarrow> e
           | Some sess \<Rightarrow>
             (case concurrencyMode (GetSessionStrategy sess) of
                DUCK_OTHERS \<Rightarrow>
                  if entryHintType e = INTERRUPT_HINT_DUCK \<or> entryHintType e = INTERRUPT_HINT_PAUSE \<or>
                     entryHintType e = INTERRUPT_HINT_STOP
                  then e\<lparr>entryHintType := INTERRUPT_HINT_DUCK\<rparr> else e
              | PAUSE_OTHERS \<Rightarrow>
                  if entryHintType e = INTERRUPT_HINT_PAUSE \<or> entryHintType e = INTERRUPT_HINT_STOP
                  then e\<lparr>entryHintType := INTERRUPT_HINT_PAUSE\<rparr> else e
              | _ \<Rightarrow> e))"

definition IsAudioSourceConcurrency ::
    "SourceType \<Rightarrow> SourceType \<Rightarrow> SourceType list \<Rightarrow> SourceType list \<Rightarrow> bool" where
  "IsAudioSourceConcurrency existSource incomingSource existConcurrent incomingConcurrent \<longleftrightarrow>
     (length incomingConcurrent > 0 \<and> source_code existSource \<ge> 0 \<and> existSource \<in> set incomingConcurrent) \<or>
     (length existConcurrent > 0 \<and> source_code incomingSource \<ge> 0 \<and> incomingSource \<in> set existConcurrent)"

abbreviation source_concurrency :: "AudioInterrupt \<Rightarrow> AudioInterrupt \<Rightarrow> bool" where
  "source_concurrency active incoming \<equiv>
     IsAudioSourceConcurrency (sourceType (audioFocusType active)) (sourceType (audioFocusType incoming))
       (sourcesTypes active) (sourcesTypes incoming)"

text \<open>\<open>focusCfgMap_[...]\<close>: the entry, and the map with the default entry added when it is missing.\<close>

definition cfg_lookup :: "InterruptService \<Rightarrow> AudioInterrupt \<Rightarrow> AudioInterrupt \<Rightarrow> AudioFocusEntry option" where
  "cfg_lookup s active incoming =
     map_of (focusCfgMap s) (focus_key (audioFocusType active) (audioFocusType incoming))"

definition cfg_index ::
    "InterruptService \<Rightarrow> AudioInterrupt \<Rightarrow> AudioInterrupt \<Rightarrow> AudioFocusEntry \<times> InterruptService" where
  "cfg_index s active incoming =
     (case cfg_lookup s active incoming of
        Some e \<Rightarrow> (e, s)
      | None \<Rightarrow> (AudioFocusEntry_default,
                 s\<lparr>focusCfgMap := AList.update (focus_key (audioFocusType active) (audioFocusType incoming))
                     AudioFocusEntry_default (focusCfgMap s)\<rparr>))"

section \<open>The streams that hold focus\<close>

text \<open>Returns the state of the existing stream, the event for it and whether it is removed.\<close>

definition ProcessExistInterrupt ::
    "interrupt_env \<Rightarrow> InterruptService \<Rightarrow> focus_info \<Rightarrow> AudioFocusEntry \<Rightarrow> AudioInterrupt \<Rightarrow>
     InterruptEventInternal \<Rightarrow> AudioFocuState \<times> InterruptEventInternal \<times> bool" where
  "ProcessExistInterrupt E s info e0 incoming ev =
     (let active = fst info;
          st = snd info;
          e = UpdateHintTypeForExistingSession s incoming e0
      in case entryHintType e of
           INTERRUPT_HINT_STOP \<Rightarrow>
             if source_concurrency active incoming then (st, ev, False)
             else if GetClientTypeBySessionId E s (sessionId active) = CLIENT_TYPE_GAME
             then (PAUSE, ev\<lparr>hintType := INTERRUPT_HINT_PAUSE\<rparr>, False)
             else (st, ev\<lparr>hintType := entryHintType e\<rparr>, True)
         | INTERRUPT_HINT_PAUSE \<Rightarrow>
             if source_concurrency active incoming then (st, ev, False)
             else if st = ACTIVE \<or> st = DUCK
             then (PAUSE, ev\<lparr>hintType := entryHintType e\<rparr>, False)
             else (st, ev, False)
         | INTERRUPT_HINT_DUCK \<Rightarrow>
             if st = ACTIVE
             then (DUCK, ev\<lparr>duckVolume := DUCK_FACTOR, hintType := entryHintType e\<rparr>, False)
             else (st, ev, False)
         | _ \<Rightarrow> (st, ev, False))"

definition HandleLowPriorityEvent :: "InterruptService \<Rightarrow> int \<Rightarrow> u32 \<Rightarrow> InterruptService" where
  "HandleLowPriorityEvent s p streamId =
     (case session_of s p of
        None \<Rightarrow> s
      | Some _ \<Rightarrow>
        let s1 = session_mod s (\<lambda>svc. session_remove (sysTime s) svc p streamId)
        in (case session_of s1 p of
              Some sess \<Rightarrow>
                if IsAudioSessionEmpty sess
                then emit_handler (session_mod s1 (\<lambda>svc. snd (DeactivateAudioSession svc p)))
                       (AudioSessionDeactive p LOW_PRIORITY)
                else s1
            | None \<Rightarrow> s1))"

definition SendActiveInterruptEvent ::
    "InterruptService \<Rightarrow> u32 \<Rightarrow> InterruptEventInternal \<Rightarrow> AudioInterrupt \<Rightarrow> InterruptService" where
  "SendActiveInterruptEvent s activeSessionId ev incoming =
     (if hintType ev \<noteq> INTERRUPT_HINT_NONE
      then SendFocusChangeEvent (emit_handler s (InterruptWithSessionId ev activeSessionId))
             ZONEID_DEFAULT NONE_CALLBACK_CATEGORY incoming
      else s)"

fun process_active ::
    "interrupt_env \<Rightarrow> int \<Rightarrow> AudioInterrupt \<Rightarrow> focus_info list \<Rightarrow> focus_info list \<Rightarrow> InterruptService \<Rightarrow>
     focus_info list \<times> InterruptService" where
  "process_active E z incoming passed [] s = (passed, s)"
| "process_active E z incoming passed ((active, st) # rest) s =
     (case cfg_index s active incoming of
        (e, s0) \<Rightarrow>
          if actionOn e \<noteq> CURRENT \<or> IsSameAppInShareMode incoming active \<or> st = PLACEHOLDER \<or>
             CanMixForSession s0 incoming active e
          then process_active E z incoming (passed @ [(active, st)]) rest s0
          else
            case ProcessExistInterrupt E s0 (active, st) e incoming
                   \<lparr>eventType = INTERRUPT_TYPE_BEGIN, forceType = entryForceType e,
                    hintType = INTERRUPT_HINT_NONE, duckVolume = FFin 1\<rparr> of
              (st', ev, removeFocusInfo) \<Rightarrow>
                if removeFocusInfo
                then
                  let s1 = zone_mod s0 z (\<lambda>zn. zn\<lparr>pids := set_erase (pid active) (pids zn),
                                                 audioFocusInfoList := passed @ rest\<rparr>);
                      s2 = (if session_active s1 (pid active)
                            then HandleLowPriorityEvent s1 (pid active) (sessionId active) else s1)
                  in process_active E z incoming passed rest
                       (SendActiveInterruptEvent s2 (sessionId active) ev incoming)
                else process_active E z incoming (passed @ [(active, st')]) rest
                       (SendActiveInterruptEvent s0 (sessionId active) ev incoming))"

definition ProcessActiveInterrupt ::
    "interrupt_env \<Rightarrow> InterruptService \<Rightarrow> int \<Rightarrow> AudioInterrupt \<Rightarrow> InterruptService exec" where
  "ProcessActiveInterrupt E s z incoming =
     (case map_of (zonesMap s) z of
        None \<Rightarrow> Inr s
      | Some None \<Rightarrow> Inl NullDeref
      | Some (Some zn) \<Rightarrow>
        (case process_active E z incoming [] (audioFocusInfoList zn)
                (put_zone s z (zn\<lparr>zoneId := z\<rparr>)) of
           (infos, s1) \<Rightarrow> Inr (zone_mod s1 z (\<lambda>zn. zn\<lparr>audioFocusInfoList := infos\<rparr>))))"

section \<open>The incoming stream\<close>

text \<open>Returns the new state and \<open>shouldReturnSuccess\<close>.\<close>

definition ProcessAudioScene ::
    "InterruptService \<Rightarrow> AudioInterrupt \<Rightarrow> u32 \<Rightarrow> int \<Rightarrow> InterruptService \<times> bool" where
  "ProcessAudioScene s i incomingSessionId z =
     (case map_of (zonesMap s) z of
        None \<Rightarrow> (s, False)
      | Some zp \<Rightarrow>
        let s0 = zone_mod s z (\<lambda>zn. zn\<lparr>zoneId := z\<rparr>);
            infos0 = focus_list s0 z;
            p = pid i;
            fresh = (infos0 \<noteq> [] \<and> zp \<noteq> None);
            infos = (if fresh
                     then filter (\<lambda>f. \<not> (sessionId (fst f) = incomingSessionId \<or>
                                         pid (fst f) = p \<and> snd f = PLACEHOLDER)) infos0
                     else infos0);
            s1 = (if fresh
                  then zone_mod s0 z (\<lambda>zn. zn\<lparr>pids := set_erase p (pids zn), audioFocusInfoList := infos\<rparr>)
                  else s0);
            s2 = (if fresh \<and> session_active s1 p
                  then session_mod s1 (\<lambda>svc. session_remove (sysTime s1) svc p incomingSessionId) else s1)
        in if fresh \<and> session_active s1 p \<and> session_of s1 p = None then (s1, False)
           else if infos = []
           then
             let s3 = zone_mod s2 z (\<lambda>zn. zn\<lparr>pids := set_insert p (pids zn),
                                            audioFocusInfoList := audioFocusInfoList zn @ [(i, ACTIVE)]\<rparr>)
             in if session_active s3 p \<and> session_of s3 p = None then (s3, False)
                else
                  let s4 = (if session_active s3 p
                            then session_mod s3 (\<lambda>svc. session_remove (sysTime s3) svc p incomingSessionId)
                            else s3);
                      s5 = SendFocusChangeEvent s4 z REQUEST_CALLBACK_CATEGORY i
                  in (UpdateAudioSceneFromInterrupt s5 (GetHighestPriorityAudioScene s5 z)
                        ACTIVATE_AUDIO_INTERRUPT, True)
           else (s2, False))"

text \<open>The loop of \<open>ProcessFocusEntry\<close>: \<open>None\<close> is its early return, the invalid type pair.\<close>

fun incoming_state ::
    "interrupt_env \<Rightarrow> InterruptService \<Rightarrow> AudioInterrupt \<Rightarrow> AudioFocuState \<Rightarrow> focus_info list \<Rightarrow>
     AudioFocuState option" where
  "incoming_state E s incoming cur [] = Some cur"
| "incoming_state E s incoming cur ((active, st) # rest) =
     (if IsSameAppInShareMode incoming active then incoming_state E s incoming cur rest
      else case cfg_lookup s active incoming of
             None \<Rightarrow> None
           | Some e \<Rightarrow>
             if actionOn e = CURRENT \<or> st = PLACEHOLDER \<or> CanMixForSession s incoming active e
             then incoming_state E s incoming cur rest
             else if ((actionOn e = INCOMING \<and> entryHintType e = INTERRUPT_HINT_PAUSE) \<or> isReject e) \<and>
                     source_concurrency active incoming
             then incoming_state E s incoming cur rest
             else if isReject e
             then (if GetClientTypeBySessionId E s (sessionId active) = CLIENT_TYPE_GAME
                   then incoming_state E s incoming PAUSE rest
                   else Some STOP)
             else
               let newState = (case HINT_STATE_MAP (entryHintType e) of None \<Rightarrow> ACTIVE | Some x \<Rightarrow> x)
               in incoming_state E s incoming (if newState > cur then newState else cur) rest)"

definition HandleIncomingState ::
    "interrupt_env \<Rightarrow> InterruptService \<Rightarrow> int \<Rightarrow> AudioFocuState \<Rightarrow> InterruptEventInternal \<Rightarrow> AudioInterrupt \<Rightarrow>
     (InterruptEventInternal \<times> InterruptService) exec" where
  "HandleIncomingState E s z incomingState ev incoming =
     (if incomingState = STOP then Inr (ev\<lparr>hintType := INTERRUPT_HINT_STOP\<rparr>, s)
      else
        let ev' = (if incomingState = PAUSE then ev\<lparr>hintType := INTERRUPT_HINT_PAUSE\<rparr>
                   else if incomingState = DUCK
                   then ev\<lparr>hintType := INTERRUPT_HINT_DUCK, duckVolume := DUCK_FACTOR\<rparr>
                   else ev)
        in exec_bind (ProcessActiveInterrupt E s z incoming) (\<lambda>s'. Inr (ev', s')))"

definition AddToAudioFocusInfoList ::
    "InterruptService \<Rightarrow> int \<Rightarrow> AudioInterrupt \<Rightarrow> AudioFocuState \<Rightarrow> InterruptService" where
  "AddToAudioFocusInfoList s z incoming incomingState =
     (if incomingState = STOP then s
      else
        let s1 = zone_mod s z (\<lambda>zn. zn\<lparr>zoneId := z, pids := set_insert (pid incoming) (pids zn),
                    audioFocusInfoList := audioFocusInfoList zn @ [(incoming, incomingState)]\<rparr>);
            s2 = SendFocusChangeEvent s1 z REQUEST_CALLBACK_CATEGORY incoming
        in if session_active s2 (pid incoming)
           then session_mod s2 (\<lambda>svc. session_add svc (pid incoming) (incoming, incomingState))
           else s2)"

definition SendInterruptEventToIncomingStream ::
    "InterruptService \<Rightarrow> InterruptEventInternal \<Rightarrow> AudioInterrupt \<Rightarrow> InterruptService" where
  "SendInterruptEventToIncomingStream s ev incoming =
     (if hintType ev \<noteq> INTERRUPT_HINT_NONE \<and> handler s
      then emit s (InterruptWithSessionId ev (sessionId incoming)) else s)"

definition ProcessFocusEntry ::
    "interrupt_env \<Rightarrow> InterruptService \<Rightarrow> int \<Rightarrow> AudioInterrupt \<Rightarrow> (err \<times> InterruptService) exec" where
  "ProcessFocusEntry E s z incoming =
     (case map_of (zonesMap s) z of
        None \<Rightarrow> Inr (ERROR, s)
      | Some None \<Rightarrow> Inl NullDeref
      | Some (Some zn) \<Rightarrow>
        (case incoming_state E s incoming ACTIVE (audioFocusInfoList zn) of
           None \<Rightarrow> Inr (ERR_INVALID_PARAM, s)
         | Some incomingState \<Rightarrow>
           exec_bind
             (HandleIncomingState E s z incomingState
                \<lparr>eventType = INTERRUPT_TYPE_BEGIN, forceType = INTERRUPT_FORCE,
                 hintType = INTERRUPT_HINT_NONE, duckVolume = FFin 1\<rparr> incoming)
             (\<lambda>(ev, s1).
                let s2 = AddToAudioFocusInfoList s1 z incoming incomingState;
                    s3 = SendInterruptEventToIncomingStream s2 ev incoming
                in Inr (if incomingState \<ge> PAUSE then ERR_FOCUS_DENIED else SUCCESS, s3))))"

definition ActivateAudioInterrupt ::
    "interrupt_env \<Rightarrow> InterruptService \<Rightarrow> int \<Rightarrow> AudioInterrupt \<Rightarrow> (err \<times> InterruptService) exec" where
  "ActivateAudioInterrupt E s z i =
     (if parallelPlayFlag i then Inr (SUCCESS, s)
      else
        let s1 = ResetNonInterruptControl E s (sessionId i)
        in if \<not> policyServer s1 then Inl NullDeref
           else
             let s2 = emit (emit s1 (CheckStreamMode (sessionId i)))
                        (OffloadStreamCheck (uint (sessionId i)) OFFLOAD_NO_SESSION_ID)
             in (case ProcessAudioScene s2 i (sessionId i) z of
                   (s3, shouldReturnSuccess) \<Rightarrow>
                     if shouldReturnSuccess then Inr (SUCCESS, s3)
                     else
                       exec_bind (ProcessFocusEntry E s3 z i)
                         (\<lambda>(r, s4).
                            if r \<noteq> SUCCESS then Inr (ERR_FOCUS_DENIED, s4)
                            else Inr (SUCCESS,
                                   UpdateAudioSceneFromInterrupt s4 (GetHighestPriorityAudioScene s4 z)
                                     ACTIVATE_AUDIO_INTERRUPT))))"

end
