(* ===== verification/InterruptResume.thy ===== *)
theory InterruptResume
  imports InterruptFocus
begin

text \<open>
  What \<open>AudioInterruptService\<close> does when a stream gives up focus: the simulation of the remaining
  list, the resumption of the streams it shows as no longer interrupted, deactivation, and the
  entry points of audio sessions and of dead clients.
\<close>

section \<open>SimulateFocusEntry\<close>

text \<open>
  The inner loop: the list simulated so far is walked (\<open>passed\<close>, then the rest) against the
  stream \<open>incoming\<close> of focus state \<open>own\<close>; the result is the state of \<open>incoming\<close> and the list.
  An unknown type pair ends the loop with \<open>own\<close>.
\<close>

fun simulate_inner ::
    "interrupt_env \<Rightarrow> InterruptService \<Rightarrow> AudioInterrupt \<Rightarrow> AudioFocuState \<Rightarrow> AudioFocuState \<Rightarrow>
     focus_info list \<Rightarrow> focus_info list \<Rightarrow> AudioFocuState \<times> focus_info list" where
  "simulate_inner E s incoming own cur passed [] = (cur, passed)"
| "simulate_inner E s incoming own cur passed ((inprocessing, st) # rest) =
     (if st = PAUSE \<or> IsSameAppInShareMode incoming inprocessing \<or> st = PLACEHOLDER
      then simulate_inner E s incoming own cur (passed @ [(inprocessing, st)]) rest
      else case cfg_lookup s inprocessing incoming of
             None \<Rightarrow> (own, passed @ (inprocessing, st) # rest)
           | Some e0 \<Rightarrow>
             if CanMixForSession s incoming inprocessing e0
             then simulate_inner E s incoming own cur (passed @ [(inprocessing, st)]) rest
             else
               let e1 = UpdateHintTypeForExistingSession s incoming e0;
                   e = (if GetClientTypeBySessionId E s (sessionId incoming) = CLIENT_TYPE_GAME \<and>
                           entryHintType e1 = INTERRUPT_HINT_STOP
                        then e1\<lparr>entryHintType := INTERRUPT_HINT_PAUSE\<rparr> else e1)
               in (case HINT_STATE_MAP (entryHintType e) of
                     None \<Rightarrow> simulate_inner E s incoming own cur (passed @ [(inprocessing, st)]) rest
                   | Some newState \<Rightarrow>
                     if actionOn e = CURRENT
                     then simulate_inner E s incoming own cur (passed @ [(inprocessing, newState)]) rest
                     else simulate_inner E s incoming own (if newState > cur then newState else cur)
                            (passed @ [(inprocessing, st)]) rest))"

definition simulate_one ::
    "interrupt_env \<Rightarrow> InterruptService \<Rightarrow> focus_info list \<Rightarrow> focus_info \<Rightarrow> focus_info list" where
  "simulate_one E s simulated info =
     (case simulate_inner E s (fst info) (snd info) ACTIVE [] simulated of
        (incomingState, touched) \<Rightarrow>
          (if incomingState = PAUSE then simulated else touched) @
          [(fst info, if snd info = PLACEHOLDER then PLACEHOLDER else incomingState)])"

definition SimulateFocusEntry :: "interrupt_env \<Rightarrow> InterruptService \<Rightarrow> int \<Rightarrow> focus_info list" where
  "SimulateFocusEntry E s z = foldl (simulate_one E s) [] (focus_list s z)"

section \<open>ResumeAudioFocusList\<close>

text \<open>Returns the state the list entry gets, \<open>removeFocusInfo\<close> and the service.\<close>

definition SendInterruptEvent ::
    "InterruptService \<Rightarrow> AudioFocuState \<Rightarrow> AudioFocuState \<Rightarrow> focus_info \<Rightarrow>
     AudioFocuState \<times> bool \<times> InterruptService" where
  "SendInterruptEvent s oldState newState info =
     (if \<not> handler s then (snd info, False, s)
      else
        let sid = sessionId (fst info);
            forceActive = \<lparr>eventType = INTERRUPT_TYPE_END, forceType = INTERRUPT_SHARE,
              hintType = INTERRUPT_HINT_RESUME, duckVolume = FFin 1\<rparr>;
            forceUnduck = \<lparr>eventType = INTERRUPT_TYPE_END, forceType = INTERRUPT_FORCE,
              hintType = INTERRUPT_HINT_UNDUCK, duckVolume = FFin 1\<rparr>;
            forceDuck = \<lparr>eventType = INTERRUPT_TYPE_END, forceType = INTERRUPT_FORCE,
              hintType = INTERRUPT_HINT_DUCK, duckVolume = DUCK_FACTOR\<rparr>;
            forcePause = \<lparr>eventType = INTERRUPT_TYPE_END, forceType = INTERRUPT_FORCE,
              hintType = INTERRUPT_HINT_PAUSE, duckVolume = FFin 1\<rparr>
        in case newState of
             ACTIVE \<Rightarrow>
               (newState, oldState = PAUSE,
                if oldState = PAUSE then emit s (InterruptWithSessionId forceActive sid)
                else if oldState = DUCK then emit s (InterruptWithSessionId forceUnduck sid) else s)
           | DUCK \<Rightarrow>
               (newState, oldState = PAUSE,
                if oldState = PAUSE then emit s (InterruptWithSessionId forceActive sid)
                else if oldState = ACTIVE then emit s (InterruptWithSessionId forceDuck sid) else s)
           | PAUSE \<Rightarrow>
               (newState, False,
                emit (if oldState = DUCK then emit s (InterruptWithSessionId forceUnduck sid) else s)
                  (InterruptWithSessionId forcePause sid))
           | _ \<Rightarrow> (newState, False, s))"

definition SendSessionTimeOutStopEvent ::
    "InterruptService \<Rightarrow> int \<Rightarrow> AudioInterrupt \<Rightarrow> focus_info list \<Rightarrow> InterruptService" where
  "SendSessionTimeOutStopEvent s z i infos =
     (let s1 = emit_handler s (InterruptWithSessionId
            \<lparr>eventType = INTERRUPT_TYPE_END, forceType = INTERRUPT_FORCE,
             hintType = INTERRUPT_HINT_STOP, duckVolume = FFin 1\<rparr> (sessionId i));
          s2 = zone_mod s1 z (\<lambda>zn. zn\<lparr>zoneId := z, pids := set_erase (pid i) (pids zn),
                                         audioFocusInfoList := infos\<rparr>)
      in SendFocusChangeEvent s2 z ABANDON_CALLBACK_CATEGORY i)"

text \<open>
  The two iterators move together and the loop ends with the shorter list. Returns the list,
  the scene of highest priority among the entries kept, and the service.
\<close>

fun resume_loop ::
    "interrupt_env \<Rightarrow> int \<Rightarrow> bool \<Rightarrow> AudioScene \<Rightarrow> focus_info list \<Rightarrow> focus_info list \<Rightarrow> focus_info list \<Rightarrow>
     InterruptService \<Rightarrow> focus_info list \<times> AudioScene \<times> InterruptService" where
  "resume_loop E z isTimeout scene passed (a # act) (n # new) s =
     (let oldState = snd a; newState = snd n
      in if oldState \<noteq> newState \<and> isTimeout \<and> oldState = PAUSE \<and> (newState = ACTIVE \<or> newState = DUCK)
         then resume_loop E z isTimeout scene passed act new
                (SendSessionTimeOutStopEvent s z (fst a) (passed @ act))
         else
           case (if oldState \<noteq> newState then SendInterruptEvent s oldState newState a
                 else (oldState, False, s)) of
             (st, removeFocusInfo, s1) \<Rightarrow>
               if removeFocusInfo \<and> GetClientTypeBySessionId E s1 (sessionId (fst a)) \<noteq> CLIENT_TYPE_GAME
               then resume_loop E z isTimeout scene passed act new
                      (SendFocusChangeEvent s1 z ABANDON_CALLBACK_CATEGORY (fst a))
               else
                 let target = GetAudioSceneFromAudioInterrupt (fst a);
                     scene' = (if GetAudioScenePriority target > GetAudioScenePriority scene
                               then target else scene)
                 in resume_loop E z isTimeout scene' (passed @ [(fst a, st)]) act new s1)"
| "resume_loop E z isTimeout scene passed act new s = (passed @ act, scene, s)"

definition ResumeAudioFocusList ::
    "interrupt_env \<Rightarrow> InterruptService \<Rightarrow> int \<Rightarrow> bool \<Rightarrow> InterruptService" where
  "ResumeAudioFocusList E s z isSessionTimeout =
     (case resume_loop E z isSessionTimeout AUDIO_SCENE_DEFAULT [] (focus_list s z)
             (SimulateFocusEntry E s z) s of
        (infos, scene, s1) \<Rightarrow>
          UpdateAudioSceneFromInterrupt (zone_mod s1 z (\<lambda>zn. zn\<lparr>audioFocusInfoList := infos\<rparr>))
            scene DEACTIVATE_AUDIO_INTERRUPT)"

section \<open>Deactivation\<close>

text \<open>\<open>find_if\<close> on the session id, and the list without, or with a new state of, what it found.\<close>

fun remove_session :: "u32 \<Rightarrow> focus_info list \<Rightarrow> focus_info list" where
  "remove_session sid [] = []"
| "remove_session sid (f # fs) = (if sessionId (fst f) = sid then fs else f # remove_session sid fs)"

fun set_state :: "u32 \<Rightarrow> AudioFocuState \<Rightarrow> focus_info list \<Rightarrow> focus_info list" where
  "set_state sid st [] = []"
| "set_state sid st (f # fs) =
     (if sessionId (fst f) = sid then (fst f, st) # fs else f # set_state sid st fs)"

definition has_session :: "u32 \<Rightarrow> focus_info list \<Rightarrow> bool" where
  "has_session sid fs \<longleftrightarrow> sid \<in> (\<lambda>f. sessionId (fst f)) ` set fs"

definition DeactivateAudioInterruptInternal ::
    "interrupt_env \<Rightarrow> InterruptService \<Rightarrow> int \<Rightarrow> AudioInterrupt \<Rightarrow> bool \<Rightarrow> InterruptService exec" where
  "DeactivateAudioInterruptInternal E s z i isSessionTimeout =
     (case zone_at s z of
        None \<Rightarrow> Inr s
      | Some zn \<Rightarrow>
        let infos = audioFocusInfoList zn;
            s1 = (if session_active s (pid i)
                  then session_mod s (\<lambda>svc. session_remove (sysTime s) svc (pid i) (sessionId i)) else s);
            needPlaceHolder = (session_active s (pid i) \<and>
              (case session_of s1 (pid i) of Some sess \<Rightarrow> IsAudioSessionEmpty sess | None \<Rightarrow> False))
        in if has_session (sessionId i) infos
           then
             if needPlaceHolder
             then Inr (zone_mod s1 z (\<lambda>zn. zn\<lparr>audioFocusInfoList := set_state (sessionId i) PLACEHOLDER infos\<rparr>))
             else
               let s2 = ResetNonInterruptControl E s1 (sessionId i);
                   s3 = zone_mod s2 z (\<lambda>zn. zn\<lparr>zoneId := z, pids := set_erase (pid i) (pids zn),
                                                  audioFocusInfoList := remove_session (sessionId i) infos\<rparr>);
                   s4 = SendFocusChangeEvent s3 z ABANDON_CALLBACK_CATEGORY i
               in if \<not> policyServer s4 then Inl NullDeref
                  else
                    let s5 = emit (emit s4 (OffloadStreamCheck OFFLOAD_NO_SESSION_ID (uint (sessionId i))))
                               (OffloadStopPlaying i)
                    in Inr (ResumeAudioFocusList E s5 z isSessionTimeout)
           else Inr s1)"

definition DeactivateAudioInterrupt ::
    "interrupt_env \<Rightarrow> InterruptService \<Rightarrow> int \<Rightarrow> AudioInterrupt \<Rightarrow> (err \<times> InterruptService) exec" where
  "DeactivateAudioInterrupt E s z i =
     (if parallelPlayFlag i then Inr (SUCCESS, s)
      else exec_bind (DeactivateAudioInterruptInternal E s z i False) (\<lambda>s'. Inr (SUCCESS, s')))"

section \<open>Audio sessions\<close>

definition RemovePlaceholderInterruptForSession ::
    "interrupt_env \<Rightarrow> InterruptService \<Rightarrow> int \<Rightarrow> bool \<Rightarrow> InterruptService exec" where
  "RemovePlaceholderInterruptForSession E s p isSessionTimeout =
     (if sessionService s = None then Inr s
      else if session_active s p then Inr s
      else if map_of (zonesMap s) ZONEID_DEFAULT = None then Inr s
      else case find (\<lambda>f. pid (fst f) = p \<and> snd f = PLACEHOLDER) (focus_list s ZONEID_DEFAULT) of
             None \<Rightarrow> Inr s
           | Some f \<Rightarrow> DeactivateAudioInterruptInternal E s ZONEID_DEFAULT (fst f) isSessionTimeout)"

definition HandleSessionTimeOutEvent ::
    "interrupt_env \<Rightarrow> InterruptService \<Rightarrow> int \<Rightarrow> InterruptService exec" where
  "HandleSessionTimeOutEvent E s p =
     exec_bind (RemovePlaceholderInterruptForSession E s p True)
       (\<lambda>s1. Inr (emit_handler s1 (AudioSessionDeactive p TIMEOUT)))"

definition OnSessionTimeout :: "interrupt_env \<Rightarrow> InterruptService \<Rightarrow> int \<Rightarrow> InterruptService exec" where
  "OnSessionTimeout E s p = HandleSessionTimeOutEvent E s p"

text \<open>
  One pass of the session timer's loop over this service. An expired session is dropped from the session
  service before \<open>OnSessionTimeout\<close> runs, and its timer is erased afterwards. A fault of a callback ends
  the pass.
\<close>

definition session_service_in :: "InterruptService exec \<Rightarrow> AudioSessionService" where
  "session_service_in m =
     (case m of Inl _ \<Rightarrow> AudioSessionService_Init
      | Inr s \<Rightarrow> (case sessionService s of None \<Rightarrow> AudioSessionService_Init | Some svc \<Rightarrow> svc))"

definition put_session_service :: "AudioSessionService \<Rightarrow> InterruptService exec \<Rightarrow> InterruptService exec" where
  "put_session_service svc m = exec_bind m (\<lambda>s. Inr (s\<lparr>sessionService := Some svc\<rparr>))"

definition Interrupt_TimerLoop :: "interrupt_env \<Rightarrow> int \<Rightarrow> InterruptService \<Rightarrow> InterruptService exec" where
  "Interrupt_TimerLoop E now s =
     (if sessionService s = None then Inr s
      else TimerLoop_pass session_service_in put_session_service
             (\<lambda>p m. exec_bind m (\<lambda>s. OnSessionTimeout E s p)) now (Inr s))"

definition AddActiveInterruptToSession :: "InterruptService \<Rightarrow> int \<Rightarrow> InterruptService" where
  "AddActiveInterruptToSession s p =
     (if \<not> session_active s p then s
      else if map_of (zonesMap s) ZONEID_DEFAULT = None then s
      else foldl (\<lambda>s f. if pid (fst f) = p then session_mod s (\<lambda>svc. session_add svc p f) else s)
             s (focus_list s ZONEID_DEFAULT))"

definition Interrupt_ActivateAudioSession ::
    "InterruptService \<Rightarrow> int \<Rightarrow> AudioSessionStrategy \<Rightarrow> err \<times> InterruptService" where
  "Interrupt_ActivateAudioSession s p st =
     (case sessionService s of
        None \<Rightarrow> (ERR_UNKNOWN, s)
      | Some svc \<Rightarrow>
        (case ActivateAudioSession (sysTime s) svc p st of
           (r, svc') \<Rightarrow>
             let s1 = s\<lparr>sessionService := Some svc'\<rparr>
             in if r \<noteq> SUCCESS then (r, s1) else (SUCCESS, AddActiveInterruptToSession s1 p)))"

definition Interrupt_DeactivateAudioSession ::
    "interrupt_env \<Rightarrow> InterruptService \<Rightarrow> int \<Rightarrow> (err \<times> InterruptService) exec" where
  "Interrupt_DeactivateAudioSession E s p =
     (case sessionService s of
        None \<Rightarrow> Inr (ERR_UNKNOWN, s)
      | Some svc \<Rightarrow>
        (case DeactivateAudioSession svc p of
           (r, svc') \<Rightarrow>
             let s1 = s\<lparr>sessionService := Some svc'\<rparr>
             in if r \<noteq> SUCCESS then Inr (r, s1)
                else exec_bind (RemovePlaceholderInterruptForSession E s1 p False)
                       (\<lambda>s2. Inr (SUCCESS, s2))))"

text \<open>The error code is returned as a \<open>bool\<close>, and is not zero.\<close>

definition Interrupt_IsAudioSessionActivated :: "InterruptService \<Rightarrow> int \<Rightarrow> bool" where
  "Interrupt_IsAudioSessionActivated s p =
     (case sessionService s of None \<Rightarrow> ERR_UNKNOWN \<noteq> 0 | Some svc \<Rightarrow> IsAudioSessionActivated svc p)"

section \<open>Clients and accounts\<close>

text \<open>\<open>RemoveClient\<close> follows the iterator of the default zone and its pointer without a check.\<close>

definition RemoveClient ::
    "interrupt_env \<Rightarrow> InterruptService \<Rightarrow> int \<Rightarrow> u32 \<Rightarrow> InterruptService exec" where
  "RemoveClient E s z sid =
     (case zone_at s ZONEID_DEFAULT of
        None \<Rightarrow> Inl NullDeref
      | Some zn \<Rightarrow>
        exec_bind
          (case find (\<lambda>f. sessionId (fst f) = sid) (audioFocusInfoList zn) of
             Some f \<Rightarrow> DeactivateAudioInterruptInternal E s ZONEID_DEFAULT (fst f) False
           | None \<Rightarrow> Inr s)
          (\<lambda>s1.
             let s2 = s1\<lparr>interruptClients := AList.delete sid (interruptClients s1)\<rparr>
             in Inr (zone_mod s2 z (\<lambda>zn. zn\<lparr>interruptCbsMap := AList.delete sid (interruptCbsMap zn)\<rparr>))))"

definition exempt_usage :: "AudioInterrupt \<Rightarrow> bool" where
  "exempt_usage i \<longleftrightarrow> streamUsage i = STREAM_USAGE_VOICE_MODEM_COMMUNICATION \<or>
     streamUsage i = STREAM_USAGE_VOICE_RINGTONE"

definition stop_all_event :: InterruptEventInternal where
  "stop_all_event = \<lparr>eventType = INTERRUPT_TYPE_BEGIN, forceType = INTERRUPT_FORCE,
     hintType = INTERRUPT_HINT_STOP, duckVolume = FFin 1\<rparr>"

text \<open>The loop over the zones returns at the first entry to stop when \<open>handler_\<close> is null.\<close>

fun clear_zones :: "int list \<Rightarrow> InterruptService \<Rightarrow> InterruptService" where
  "clear_zones [] s = s"
| "clear_zones (z # zs) s =
     (case zone_at s z of
        None \<Rightarrow> clear_zones zs s
      | Some zn \<Rightarrow>
        let gone = filter (\<lambda>f. \<not> exempt_usage (fst f)) (audioFocusInfoList zn)
        in if gone \<noteq> [] \<and> \<not> handler s then s
           else
             let s1 = foldl (\<lambda>s f. emit s (InterruptWithSessionId stop_all_event (sessionId (fst f)))) s gone
             in clear_zones zs (zone_mod s1 z
                  (\<lambda>zn. zn\<lparr>audioFocusInfoList := filter (\<lambda>f. exempt_usage (fst f)) (audioFocusInfoList zn)\<rparr>)))"

definition ClearAudioFocusInfoListOnAccountsChanged :: "InterruptService \<Rightarrow> InterruptService" where
  "ClearAudioFocusInfoListOnAccountsChanged s = clear_zones (map fst (zonesMap s)) s"

definition SetCallbackHandler :: "InterruptService \<Rightarrow> bool \<Rightarrow> InterruptService" where
  "SetCallbackHandler s isSet = s\<lparr>handler := isSet\<rparr>"

end
