(* ===== verification/InterruptZones.thy ===== *)
theory InterruptZones
  imports InterruptResume
begin

text \<open>
  The interrupt zones of \<open>AudioInterruptService\<close>: creation, release, adding and removing of
  processes, and initialisation. \<open>callerUid\<close> is the uid of the calling process.

  \<open>hitZoneId\<close> is declared without an initialiser and set only by a hit; the value it holds
  otherwise is the argument \<open>junk\<close> of the operations that read it.
\<close>

definition UID_AUDIO :: u32 where "UID_AUDIO = 1041"

definition CheckAudioInterruptZonePermission :: "u32 \<Rightarrow> bool" where
  "CheckAudioInterruptZonePermission callerUid = (if callerUid = UID_AUDIO then True else False)"

section \<open>Finding a zone with the same processes\<close>

text \<open>
  For each pid the inner loop stops at the first pid of the zone that differs. Returns
  \<open>hitZoneId\<close> and \<open>haveSamePids\<close>.
\<close>

fun HitZoneId :: "int list \<Rightarrow> int list \<Rightarrow> int \<Rightarrow> int \<Rightarrow> bool \<Rightarrow> int \<times> bool" where
  "HitZoneId [] zonePids z hit same = (hit, same)"
| "HitZoneId (p # ps) zonePids z hit same =
     (let same' = (if list_ex (\<lambda>q. p \<noteq> q) zonePids then False else same)
      in if \<not> same' then (hit, same') else HitZoneId ps zonePids z z same')"

fun hit_loop :: "(int \<times> AudioInterruptZone option) list \<Rightarrow> int list \<Rightarrow> int \<Rightarrow> int" where
  "hit_loop [] ps hit = hit"
| "hit_loop ((z, zp) # zs) ps hit =
     (if z = ZONEID_DEFAULT then hit_loop zs ps hit
      else
        case (case zp of
                Some zn \<Rightarrow> if length ps = length (pids zn) then HitZoneId ps (pids zn) z hit True
                           else (hit, True)
              | None \<Rightarrow> (hit, True)) of
          (hit', same) \<Rightarrow> if same then hit' else hit_loop zs ps hit')"

definition HitZoneIdHaveTheSamePidsZone :: "InterruptService \<Rightarrow> int list \<Rightarrow> int \<Rightarrow> int" where
  "HitZoneIdHaveTheSamePidsZone s ps hitZoneId = hit_loop (zonesMap s) ps hitZoneId"

section \<open>Filling a zone\<close>

text \<open>\<open>emplace\<close> keeps the element already there.\<close>

definition emplace :: "'k \<Rightarrow> 'v \<Rightarrow> ('k \<times> 'v) list \<Rightarrow> ('k \<times> 'v) list" where
  "emplace k v xs = (if map_of xs k = None then xs @ [(k, v)] else xs)"

definition copy_info :: "int \<Rightarrow> (u32 \<times> nat) list \<Rightarrow> AudioInterruptZone \<Rightarrow> focus_info \<Rightarrow> AudioInterruptZone" where
  "copy_info p cbs zn info =
     (let zn1 = (if pid (fst info) = p
                 then zn\<lparr>audioFocusInfoList := audioFocusInfoList zn @ [info]\<rparr> else zn)
      in case map_of cbs (sessionId (fst info)) of
           Some cb \<Rightarrow> zn1\<lparr>interruptCbsMap := emplace (sessionId (fst info)) cb (interruptCbsMap zn1)\<rparr>
         | None \<Rightarrow> zn1)"

definition copy_client :: "int \<Rightarrow> (int \<times> nat) list \<Rightarrow> AudioInterruptZone \<Rightarrow> AudioInterruptZone" where
  "copy_client p clients zn =
     (case map_of clients p of
        Some cb \<Rightarrow> zn\<lparr>audioPolicyClientProxyCBMap := emplace p cb (audioPolicyClientProxyCBMap zn)\<rparr>
      | None \<Rightarrow> zn)"

text \<open>From another zone: its list is not changed by the copying.\<close>

definition DealAudioInterruptZoneData :: "int \<Rightarrow> AudioInterruptZone \<Rightarrow> AudioInterruptZone \<Rightarrow> AudioInterruptZone" where
  "DealAudioInterruptZoneData p from to =
     copy_client p (audioPolicyClientProxyCBMap from)
       (foldl (copy_info p (interruptCbsMap from)) to (audioFocusInfoList from))"

text \<open>
  From the zone itself, when the two pointers are the same: the loop walks the list it appends
  to, so it has still to come across what it has appended. \<open>None\<close> is a loop that never ends.
\<close>

partial_function (option) copy_self :: "int \<Rightarrow> focus_info list \<Rightarrow> AudioInterruptZone \<Rightarrow> AudioInterruptZone option" where
  "copy_self p queue zn =
     (case queue of
        [] \<Rightarrow> Some zn
      | info # rest \<Rightarrow>
          if pid (fst info) = p
          then copy_self p (rest @ [info]) (copy_info p (interruptCbsMap zn) zn info)
          else copy_self p rest (copy_info p (interruptCbsMap zn) zn info))"

definition DealAudioInterruptZoneData_self :: "int \<Rightarrow> AudioInterruptZone \<Rightarrow> AudioInterruptZone option" where
  "DealAudioInterruptZoneData_self p zn =
     map_option (\<lambda>zn'. copy_client p (audioPolicyClientProxyCBMap zn') zn')
       (copy_self p (audioFocusInfoList zn) zn)"

text \<open>
  \<open>self\<close> is the id under which the zones map already holds the zone being filled (\<open>None\<close> for a
  zone that is not in the map yet).
\<close>

fun fill_zone :: "int option \<Rightarrow> int \<Rightarrow> (int \<times> AudioInterruptZone option) list \<Rightarrow> AudioInterruptZone \<Rightarrow>
    AudioInterruptZone option" where
  "fill_zone self p [] zn = Some zn"
| "fill_zone self p ((z, zp) # zs) zn =
     (if self = Some z
      then (case DealAudioInterruptZoneData_self p zn of
              None \<Rightarrow> None
            | Some zn' \<Rightarrow> fill_zone self p zs zn')
      else case zp of
             None \<Rightarrow> fill_zone self p zs zn
           | Some from \<Rightarrow> fill_zone self p zs (DealAudioInterruptZoneData p from zn))"

fun fill_zone_pids :: "int option \<Rightarrow> int list \<Rightarrow> (int \<times> AudioInterruptZone option) list \<Rightarrow>
    AudioInterruptZone \<Rightarrow> AudioInterruptZone option" where
  "fill_zone_pids self [] zs zn = Some zn"
| "fill_zone_pids self (p # ps) zs zn =
     (case fill_zone self p zs zn of None \<Rightarrow> None | Some zn' \<Rightarrow> fill_zone_pids self ps zs zn')"

definition NewAudioInterruptZoneByPids ::
    "InterruptService \<Rightarrow> int option \<Rightarrow> AudioInterruptZone \<Rightarrow> int list \<Rightarrow> int \<Rightarrow> InterruptService option" where
  "NewAudioInterruptZoneByPids s self zn ps z =
     map_option (put_zone s z)
       (fill_zone_pids self ps (zonesMap s) (zn\<lparr>zoneId := z, pids := ps\<rparr>))"

section \<open>Moving a zone into another\<close>

definition ArchiveToNewAudioInterruptZone :: "InterruptService \<Rightarrow> int \<Rightarrow> int \<Rightarrow> InterruptService" where
  "ArchiveToNewAudioInterruptZone s fromZoneId toZoneId =
     (if fromZoneId = toZoneId \<or> fromZoneId = ZONEID_DEFAULT then s
      else case map_of (zonesMap s) fromZoneId of
             None \<Rightarrow> s
           | Some None \<Rightarrow> s\<lparr>zonesMap := AList.delete fromZoneId (zonesMap s)\<rparr>
           | Some (Some from) \<Rightarrow>
             (case map_of (zonesMap s) toZoneId of
                None \<Rightarrow> s
              | Some None \<Rightarrow> emit s (FocusMigrate toZoneId)
              | Some (Some to) \<Rightarrow>
                let merged = AudioInterruptZone_new
                      \<lparr>zoneId := toZoneId,
                       pids := foldl (\<lambda>ps p. set_insert p ps) (pids to) (pids from),
                       audioPolicyClientProxyCBMap :=
                         foldl (\<lambda>m (k, v). AList.update k v m) (audioPolicyClientProxyCBMap to)
                           (audioPolicyClientProxyCBMap from),
                       interruptCbsMap :=
                         foldl (\<lambda>m (k, v). AList.update k v m) (interruptCbsMap to) (interruptCbsMap from),
                       audioFocusInfoList := audioFocusInfoList to @ audioFocusInfoList from\<rparr>;
                    s1 = put_zone s toZoneId merged;
                    s2 = s1\<lparr>zonesMap := AList.delete fromZoneId (zonesMap s1)\<rparr>
                in emit s2 (FocusMigrate toZoneId)))"

section \<open>The zone operations\<close>

text \<open>\<open>None\<close> is an operation that does not return.\<close>

definition CreateAudioInterruptZoneInternal ::
    "InterruptService \<Rightarrow> int \<Rightarrow> int list \<Rightarrow> int \<Rightarrow> (err \<times> InterruptService) option" where
  "CreateAudioInterruptZoneInternal s z ps junk =
     (if map_of (zonesMap s) z \<noteq> None then Some (SUCCESS, s)
      else
        let hitZoneId = HitZoneIdHaveTheSamePidsZone s ps junk
        in map_option (\<lambda>s1. (SUCCESS, ArchiveToNewAudioInterruptZone s1 hitZoneId z))
             (NewAudioInterruptZoneByPids s None AudioInterruptZone_new ps z))"

definition CreateAudioInterruptZone ::
    "InterruptService \<Rightarrow> u32 \<Rightarrow> int \<Rightarrow> int list \<Rightarrow> int \<Rightarrow> (err \<times> InterruptService) option" where
  "CreateAudioInterruptZone s callerUid z ps junk =
     (if \<not> CheckAudioInterruptZonePermission callerUid then Some (ERR_INVALID_PARAM, s)
      else CreateAudioInterruptZoneInternal s z ps junk)"

definition ReleaseAudioInterruptZone ::
    "InterruptService \<Rightarrow> u32 \<Rightarrow> int \<Rightarrow> err \<times> InterruptService" where
  "ReleaseAudioInterruptZone s callerUid z =
     (if \<not> CheckAudioInterruptZonePermission callerUid then (ERR_INVALID_PARAM, s)
      else case map_of (zonesMap s) z of
             None \<Rightarrow> (SUCCESS, s)
           | Some None \<Rightarrow> (SUCCESS, s\<lparr>zonesMap := AList.delete z (zonesMap s)\<rparr>)
           | Some (Some _) \<Rightarrow> (SUCCESS, ArchiveToNewAudioInterruptZone s z ZONEID_DEFAULT))"

definition AddAudioInterruptZonePids ::
    "InterruptService \<Rightarrow> u32 \<Rightarrow> int \<Rightarrow> int list \<Rightarrow> int \<Rightarrow> (err \<times> InterruptService) option" where
  "AddAudioInterruptZonePids s callerUid z ps junk =
     (if \<not> CheckAudioInterruptZonePermission callerUid then Some (ERR_INVALID_PARAM, s)
      else case map_of (zonesMap s) z of
             None \<Rightarrow> map_option (\<lambda>(_, s'). (SUCCESS, s')) (CreateAudioInterruptZoneInternal s z ps junk)
           | Some None \<Rightarrow>
               map_option (\<lambda>(_, s'). (SUCCESS, s'))
                 (CreateAudioInterruptZoneInternal (s\<lparr>zonesMap := AList.delete z (zonesMap s)\<rparr>) z ps junk)
           | Some (Some zn) \<Rightarrow>
             let zn1 = zn\<lparr>pids := foldl (\<lambda>qs p. set_insert p qs) (pids zn) ps\<rparr>;
                 s1 = put_zone s z zn1;
                 hitZoneId = HitZoneIdHaveTheSamePidsZone s1 (pids zn1) junk
             in map_option (\<lambda>s2. (SUCCESS, ArchiveToNewAudioInterruptZone s2 hitZoneId z))
                  (NewAudioInterruptZoneByPids s1 (Some z) zn1 (pids zn1) z))"

definition RemoveAudioInterruptZonePids ::
    "InterruptService \<Rightarrow> u32 \<Rightarrow> int \<Rightarrow> int list \<Rightarrow> err \<times> InterruptService" where
  "RemoveAudioInterruptZonePids s callerUid z ps =
     (if \<not> CheckAudioInterruptZonePermission callerUid then (ERR_INVALID_PARAM, s)
      else case map_of (zonesMap s) z of
             None \<Rightarrow> (SUCCESS, s)
           | Some None \<Rightarrow> (SUCCESS, s\<lparr>zonesMap := AList.delete z (zonesMap s)\<rparr>)
           | Some (Some zn) \<Rightarrow>
             let zn1 = foldl (\<lambda>zn p. zn\<lparr>pids := set_erase p (pids zn),
                   audioPolicyClientProxyCBMap := AList.delete p (audioPolicyClientProxyCBMap zn)\<rparr>) zn ps
             in (SUCCESS, ArchiveToNewAudioInterruptZone (put_zone s z zn1) z ZONEID_DEFAULT))"

definition dump_zone :: "int \<Rightarrow> AudioInterruptZone \<Rightarrow> AudioInterruptZone" where
  "dump_zone z zn = AudioInterruptZone_new
     \<lparr>zoneId := z, pids := pids zn,
      interruptCbSessionIdsMap := map fst (interruptCbsMap zn),
      audioPolicyClientProxyCBClientPidMap := map fst (audioPolicyClientProxyCBMap zn),
      audioFocusInfoList := audioFocusInfoList zn\<rparr>"

text \<open>A null zone pointer is followed; the dump is the sets in iteration order.\<close>

definition AddDumpInfo :: "InterruptService \<Rightarrow> (int \<times> AudioInterruptZone) list exec" where
  "AddDumpInfo s =
     foldl (\<lambda>acc (z, zp). exec_bind acc
              (\<lambda>m. case zp of None \<Rightarrow> Inl NullDeref
                             | Some zn \<Rightarrow> Inr (AList.update z (dump_zone z zn) m)))
       (Inr []) (zonesMap s)"

section \<open>Initialisation\<close>

definition InterruptService_ctor :: "InterruptService" where
  "InterruptService_ctor =
     \<lparr>policyServer = False, handler = False, sessionService = None, focusCfgMap = [], zonesMap = [],
      interruptClients = [], focussedAudioInterruptInfo = None, clientOnFocus = 0,
      serverScene = AUDIO_SCENE_DEFAULT, sysTime = 0, events = []\<rparr>"

text \<open>\<open>loaded\<close> is what \<open>AudioFocusParser::LoadConfig\<close> returns: its code and the map.\<close>

definition InterruptService_Init ::
    "InterruptService \<Rightarrow> err \<times> (focus_key \<times> AudioFocusEntry) list \<Rightarrow> bool \<Rightarrow> int \<Rightarrow> InterruptService option" where
  "InterruptService_Init s loaded server junk =
     (let s1 = s\<lparr>focusCfgMap := snd loaded\<rparr>
      in if fst loaded \<noteq> SUCCESS then Some s1
         else
           let s2 = s1\<lparr>policyServer := server, clientOnFocus := 0, focussedAudioInterruptInfo := None\<rparr>
           in map_option
                (\<lambda>(_, s3). s3\<lparr>sessionService :=
                   Some (snd (SetSessionTimeOutCallback AudioSessionService_Init True))\<rparr>)
                (CreateAudioInterruptZoneInternal s2 ZONEID_DEFAULT [] junk))"

end
