(* ===== verification/InterruptSpec.thy ===== *)
theory InterruptSpec
  imports InterruptZones "HOL-Library.Sublist"
begin

text \<open>
  What the focus operations promise, over the focus lists alone: the list of a zone after an
  activation or a deactivation is a function of the list before, the configuration and the
  clients. The lemmas first say what each helper leaves unchanged.
\<close>

section \<open>Frames\<close>

named_theorems frame \<open>what the helpers of the service leave unchanged\<close>

lemma emit_frame [frame, simp]:
  "zonesMap (emit s e) = zonesMap s" "sessionService (emit s e) = sessionService s"
  "focusCfgMap (emit s e) = focusCfgMap s" "interruptClients (emit s e) = interruptClients s"
  "handler (emit s e) = handler s" "policyServer (emit s e) = policyServer s"
  "sysTime (emit s e) = sysTime s"
  by (simp_all add: emit_def)

lemma emit_handler_frame [frame, simp]:
  "zonesMap (emit_handler s e) = zonesMap s" "sessionService (emit_handler s e) = sessionService s"
  "focusCfgMap (emit_handler s e) = focusCfgMap s" "interruptClients (emit_handler s e) = interruptClients s"
  "handler (emit_handler s e) = handler s" "policyServer (emit_handler s e) = policyServer s"
  "sysTime (emit_handler s e) = sysTime s"
  by (simp_all add: emit_handler_def)

lemma SendFocusChangeEvent_frame [frame, simp]:
  "zonesMap (SendFocusChangeEvent s z c i) = zonesMap s"
  "sessionService (SendFocusChangeEvent s z c i) = sessionService s"
  "focusCfgMap (SendFocusChangeEvent s z c i) = focusCfgMap s"
  "interruptClients (SendFocusChangeEvent s z c i) = interruptClients s"
  "handler (SendFocusChangeEvent s z c i) = handler s"
  "policyServer (SendFocusChangeEvent s z c i) = policyServer s"
  "sysTime (SendFocusChangeEvent s z c i) = sysTime s"
  by (simp_all add: SendFocusChangeEvent_def)

lemma UpdateAudioScene_frame [frame, simp]:
  "zonesMap (UpdateAudioSceneFromInterrupt s sc ct) = zonesMap s"
  "sessionService (UpdateAudioSceneFromInterrupt s sc ct) = sessionService s"
  "focusCfgMap (UpdateAudioSceneFromInterrupt s sc ct) = focusCfgMap s"
  "interruptClients (UpdateAudioSceneFromInterrupt s sc ct) = interruptClients s"
  "handler (UpdateAudioSceneFromInterrupt s sc ct) = handler s"
  "policyServer (UpdateAudioSceneFromInterrupt s sc ct) = policyServer s"
  by (cases ct; simp add: UpdateAudioSceneFromInterrupt_def)+

lemma ResetNonInterruptControl_frame [frame, simp]:
  "zonesMap (ResetNonInterruptControl E s sid) = zonesMap s"
  "sessionService (ResetNonInterruptControl E s sid) = sessionService s"
  "focusCfgMap (ResetNonInterruptControl E s sid) = focusCfgMap s"
  "interruptClients (ResetNonInterruptControl E s sid) = interruptClients s"
  "handler (ResetNonInterruptControl E s sid) = handler s"
  "policyServer (ResetNonInterruptControl E s sid) = policyServer s"
  "sysTime (ResetNonInterruptControl E s sid) = sysTime s"
  by (simp_all add: ResetNonInterruptControl_def)

lemma SendActiveInterruptEvent_frame [frame, simp]:
  "zonesMap (SendActiveInterruptEvent s a ev i) = zonesMap s"
  "sessionService (SendActiveInterruptEvent s a ev i) = sessionService s"
  "focusCfgMap (SendActiveInterruptEvent s a ev i) = focusCfgMap s"
  "interruptClients (SendActiveInterruptEvent s a ev i) = interruptClients s"
  "handler (SendActiveInterruptEvent s a ev i) = handler s"
  "policyServer (SendActiveInterruptEvent s a ev i) = policyServer s"
  by (simp_all add: SendActiveInterruptEvent_def)

lemma SendInterruptEventToIncoming_frame [frame, simp]:
  "zonesMap (SendInterruptEventToIncomingStream s ev i) = zonesMap s"
  "sessionService (SendInterruptEventToIncomingStream s ev i) = sessionService s"
  "focusCfgMap (SendInterruptEventToIncomingStream s ev i) = focusCfgMap s"
  "interruptClients (SendInterruptEventToIncomingStream s ev i) = interruptClients s"
  "policyServer (SendInterruptEventToIncomingStream s ev i) = policyServer s"
  by (simp_all add: SendInterruptEventToIncomingStream_def)

lemma session_mod_frame [frame, simp]:
  "zonesMap (session_mod s f) = zonesMap s" "focusCfgMap (session_mod s f) = focusCfgMap s"
  "interruptClients (session_mod s f) = interruptClients s" "handler (session_mod s f) = handler s"
  "policyServer (session_mod s f) = policyServer s"
  "sessionService (session_mod s f) = map_option f (sessionService s)"
  by (simp_all add: session_mod_def)

lemma put_zone_frame [frame, simp]:
  "sessionService (put_zone s z zn) = sessionService s" "focusCfgMap (put_zone s z zn) = focusCfgMap s"
  "interruptClients (put_zone s z zn) = interruptClients s" "handler (put_zone s z zn) = handler s"
  "policyServer (put_zone s z zn) = policyServer s" "sysTime (put_zone s z zn) = sysTime s"
  by (simp_all add: put_zone_def)

lemma zone_mod_frame [frame, simp]:
  "sessionService (zone_mod s z f) = sessionService s" "focusCfgMap (zone_mod s z f) = focusCfgMap s"
  "interruptClients (zone_mod s z f) = interruptClients s" "handler (zone_mod s z f) = handler s"
  "policyServer (zone_mod s z f) = policyServer s" "sysTime (zone_mod s z f) = sysTime s"
  by (simp_all add: zone_mod_def split: option.splits)

lemma HandleLowPriorityEvent_frame [frame, simp]:
  "zonesMap (HandleLowPriorityEvent s p i) = zonesMap s"
  "focusCfgMap (HandleLowPriorityEvent s p i) = focusCfgMap s"
  "interruptClients (HandleLowPriorityEvent s p i) = interruptClients s"
  "handler (HandleLowPriorityEvent s p i) = handler s"
  "policyServer (HandleLowPriorityEvent s p i) = policyServer s"
  by (simp_all add: HandleLowPriorityEvent_def Let_def split: option.splits)

lemma zone_at_cong: "zonesMap s' = zonesMap s \<Longrightarrow> zone_at s' z = zone_at s z"
  by (simp add: zone_at_def)

lemma focus_list_cong: "zonesMap s' = zonesMap s \<Longrightarrow> focus_list s' z = focus_list s z"
  by (simp add: focus_list_def zone_at_def)

lemma zone_at_put [simp]: "zone_at (put_zone s z zn) z' = (if z' = z then Some zn else zone_at s z')"
  by (simp add: zone_at_def put_zone_def)

lemma zone_at_mod [simp]:
  "zone_at (zone_mod s z f) z' = (if z' = z then map_option f (zone_at s z) else zone_at s z')"
  by (simp add: zone_mod_def split: option.splits)

lemma zone_at_Some: "zone_at s z = Some zn \<longleftrightarrow> map_of (zonesMap s) z = Some (Some zn)"
  by (auto simp: zone_at_def split: option.splits)

text \<open>What the configuration answers, with the default for a missing pair.\<close>

definition policy :: "InterruptService \<Rightarrow> AudioInterrupt \<Rightarrow> AudioInterrupt \<Rightarrow> AudioFocusEntry" where
  "policy s active incoming =
     (case cfg_lookup s active incoming of Some e \<Rightarrow> e | None \<Rightarrow> AudioFocusEntry_default)"

lemma cfg_lookup_cong: "focusCfgMap s' = focusCfgMap s \<Longrightarrow> cfg_lookup s' a i = cfg_lookup s a i"
  by (simp add: cfg_lookup_def)

lemma policy_cong: "focusCfgMap s' = focusCfgMap s \<Longrightarrow> policy s' a i = policy s a i"
  by (simp add: policy_def cfg_lookup_def)

lemma cfg_index_policy:
  assumes "cfg_index s a i = (e, s0)"
  shows "e = policy s a i" and "policy s0 = policy s" and "zonesMap s0 = zonesMap s"
    and "sessionService s0 = sessionService s" and "interruptClients s0 = interruptClients s"
    and "handler s0 = handler s" and "policyServer s0 = policyServer s"
  using assms
  by (auto simp: cfg_index_def policy_def cfg_lookup_def fun_eq_iff split: option.splits if_splits)

lemma GetClientType_cong:
  "interruptClients s' = interruptClients s \<Longrightarrow> GetClientTypeBySessionId E s' sid = GetClientTypeBySessionId E s sid"
  by (simp add: GetClientTypeBySessionId_def)

section \<open>Activation without audio sessions\<close>

definition no_sessions :: "InterruptService \<Rightarrow> bool" where
  "no_sessions s \<longleftrightarrow> (\<forall>p. \<not> session_active s p)"

lemma no_sessions_cong: "sessionService s' = sessionService s \<Longrightarrow> no_sessions s' = no_sessions s"
  by (simp add: no_sessions_def session_active_def)

lemma no_sessions_simps:
  assumes "no_sessions s"
  shows "\<not> CanMixForSession s incoming active e" and "UpdateHintTypeForExistingSession s incoming e = e"
    and "\<not> session_active s p"
  using assms
  by (simp_all add: no_sessions_def CanMixForSession_def CanMixForIncomingSession_def
      CanMixForActiveSession_def UpdateHintTypeForExistingSession_def)

text \<open>
  What an existing stream becomes when \<open>incoming\<close> takes focus: \<open>None\<close> when it is stopped.
\<close>

definition exist_after ::
    "interrupt_env \<Rightarrow> InterruptService \<Rightarrow> AudioInterrupt \<Rightarrow> focus_info \<Rightarrow> focus_info option" where
  "exist_after E s incoming info =
     (let active = fst info; st = snd info; e = policy s active incoming
      in if actionOn e \<noteq> CURRENT \<or> IsSameAppInShareMode incoming active \<or> st = PLACEHOLDER then Some info
         else case entryHintType e of
                INTERRUPT_HINT_STOP \<Rightarrow>
                  if source_concurrency active incoming then Some info
                  else if GetClientTypeBySessionId E s (sessionId active) = CLIENT_TYPE_GAME
                  then Some (active, PAUSE) else None
              | INTERRUPT_HINT_PAUSE \<Rightarrow>
                  if \<not> source_concurrency active incoming \<and> (st = ACTIVE \<or> st = DUCK)
                  then Some (active, PAUSE) else Some info
              | INTERRUPT_HINT_DUCK \<Rightarrow> if st = ACTIVE then Some (active, DUCK) else Some info
              | _ \<Rightarrow> Some info)"

lemma exist_after_cong:
  "policy s' = policy s \<Longrightarrow> interruptClients s' = interruptClients s \<Longrightarrow> exist_after E s' i f = exist_after E s i f"
proof -
  assume p: "policy s' = policy s" and "interruptClients s' = interruptClients s"
  then have "GetClientTypeBySessionId E s' = GetClientTypeBySessionId E s"
    by (intro ext GetClientType_cong)
  with p show ?thesis by (simp only: exist_after_def)
qed

lemma ProcessExistInterrupt_spec:
  assumes "no_sessions s" and "e = policy s active incoming" and "actionOn e = CURRENT"
    and "\<not> IsSameAppInShareMode incoming active" and "st \<noteq> PLACEHOLDER"
    and "ProcessExistInterrupt E s (active, st) e incoming ev = (st', ev', rm)"
  shows "exist_after E s incoming (active, st) = (if rm then None else Some (active, st'))"
proof -
  note u = no_sessions_simps(2) [OF assms(1)]
  have e: "policy s active incoming = e" using assms(2) by simp
  show ?thesis
    using assms(3-6)
    by (cases "entryHintType e")
      (auto simp add: ProcessExistInterrupt_def exist_after_def Let_def u e split: if_split_asm)
qed

text \<open>The configuration keeps its entries; a pair that was missing may have got the default entry.\<close>

definition only_defaults_added :: "InterruptService \<Rightarrow> InterruptService \<Rightarrow> bool" where
  "only_defaults_added s s' \<longleftrightarrow>
     (\<forall>k. map_of (focusCfgMap s') k = map_of (focusCfgMap s) k \<or>
          map_of (focusCfgMap s) k = None \<and> map_of (focusCfgMap s') k = Some AudioFocusEntry_default)"

lemma only_defaults_same: "focusCfgMap s' = focusCfgMap s \<Longrightarrow> only_defaults_added s s'"
  by (simp add: only_defaults_added_def)

lemma only_defaults_trans: "only_defaults_added s t \<Longrightarrow> only_defaults_added t u \<Longrightarrow> only_defaults_added s u"
  unfolding only_defaults_added_def by metis

lemma only_defaults_index: "cfg_index s a i = (e, s0) \<Longrightarrow> only_defaults_added s s0"
  by (auto simp: cfg_index_def cfg_lookup_def only_defaults_added_def update_conv' split: option.splits if_splits)

text \<open>The changes the walk may make to the service: the entries of zone \<open>z\<close> and new default entries.\<close>

definition walk_frame :: "int \<Rightarrow> InterruptService \<Rightarrow> InterruptService \<Rightarrow> bool" where
  "walk_frame z s s' \<longleftrightarrow>
     (zone_at s' z = None \<longleftrightarrow> zone_at s z = None) \<and> (\<forall>z'. z' \<noteq> z \<longrightarrow> zone_at s' z' = zone_at s z') \<and>
     policy s' = policy s \<and> only_defaults_added s s' \<and> interruptClients s' = interruptClients s \<and> handler s' = handler s \<and>
     policyServer s' = policyServer s \<and> sessionService s' = sessionService s"

lemma walk_frame_refl [simp]: "walk_frame z s s"
  by (simp add: walk_frame_def only_defaults_same)

lemma walk_frame_trans: "walk_frame z s s' \<Longrightarrow> walk_frame z s' s'' \<Longrightarrow> walk_frame z s s''"
  by (auto simp: walk_frame_def intro: only_defaults_trans)

lemma walk_frame_same:
  assumes "zonesMap s' = zonesMap s" and "focusCfgMap s' = focusCfgMap s"
    and "interruptClients s' = interruptClients s" and "handler s' = handler s"
    and "policyServer s' = policyServer s" and "sessionService s' = sessionService s"
  shows "walk_frame z s s'"
  using assms by (simp add: walk_frame_def zone_at_def policy_def cfg_lookup_def only_defaults_same fun_eq_iff)

lemma walk_frame_index: "cfg_index s a i = (e, s0) \<Longrightarrow> walk_frame z s s0"
  using cfg_index_policy [of s a i e s0] only_defaults_index [of s a i e s0] by (simp add: walk_frame_def zone_at_def)

lemma walk_frame_send: "walk_frame z s (SendActiveInterruptEvent s a ev i)"
proof -
  have "policy (SendActiveInterruptEvent s a ev i) = policy s" by (intro ext policy_cong) simp
  moreover have "zone_at (SendActiveInterruptEvent s a ev i) = zone_at s" by (intro ext zone_at_cong) simp
  ultimately show ?thesis by (simp add: walk_frame_def only_defaults_same)
qed

lemma walk_frame_mod: "walk_frame z s (zone_mod s z f)"
proof -
  have "policy (zone_mod s z f) = policy s" by (intro ext policy_cong) simp
  then show ?thesis by (simp add: walk_frame_def only_defaults_same)
qed

lemma walk_frame_exist: "walk_frame z s s' \<Longrightarrow> exist_after E s' i = exist_after E s i"
  by (intro ext exist_after_cong) (simp_all add: walk_frame_def)

lemma walk_frame_no_sessions: "walk_frame z s s' \<Longrightarrow> no_sessions s' = no_sessions s"
  by (intro no_sessions_cong) (simp add: walk_frame_def)

lemma process_active_spec:
  assumes "no_sessions s" and "process_active E z incoming passed infos s = (infos', s')"
  shows "infos' = passed @ List.map_filter (exist_after E s incoming) infos \<and> walk_frame z s s'"
  using assms
proof (induction infos arbitrary: passed s)
  case Nil
  then show ?case by (auto simp: List.map_filter_simps)
next
  case (Cons info rest)
  obtain active st where info: "info = (active, st)" by (cases info)
  obtain e s0 where idx: "cfg_index s active incoming = (e, s0)" by fastforce
  note f0 = walk_frame_index [OF idx, of z]
  have ns0: "no_sessions s0" using Cons.prems(1) walk_frame_no_sessions [OF f0] by simp
  have e0: "e = policy s0 active incoming" using cfg_index_policy(1,2) [OF idx] by simp
  have next_step: ?case if "walk_frame z s0 s1" and "process_active E z incoming passed1 rest s1 = (infos', s')"
    and "passed1 = passed @ (case exist_after E s incoming info of None \<Rightarrow> [] | Some f \<Rightarrow> [f])" for s1 passed1
  proof -
    have f: "walk_frame z s s1" by (rule walk_frame_trans [OF f0 that(1)])
    have "no_sessions s1" using Cons.prems(1) walk_frame_no_sessions [OF f] by simp
    from Cons.IH [OF this that(2)] show ?thesis
      using walk_frame_trans [OF f] that(3) walk_frame_exist [OF f]
      by (auto simp: List.map_filter_simps split: option.splits)
  qed
  show ?case
  proof (cases "actionOn e \<noteq> CURRENT \<or> IsSameAppInShareMode incoming active \<or> st = PLACEHOLDER")
    case True
    have "process_active E z incoming (passed @ [info]) rest s0 = (infos', s')"
      using Cons.prems(2) True by (auto simp: info idx)
    moreover have "exist_after E s incoming info = Some info"
      using True cfg_index_policy(1) [OF idx] by (simp add: info exist_after_def Let_def)
    ultimately show ?thesis by (intro next_step [of s0]) simp_all
  next
    case False
    let ?ev0 = "\<lparr>eventType = INTERRUPT_TYPE_BEGIN, forceType = entryForceType e,
                    hintType = INTERRUPT_HINT_NONE, duckVolume = FFin 1\<rparr>"
    obtain st' ev rm where pe: "ProcessExistInterrupt E s0 (active, st) e incoming ?ev0 = (st', ev, rm)"
      by (metis prod_cases3)
    have eff: "exist_after E s incoming info = (if rm then None else Some (active, st'))"
      unfolding walk_frame_exist [OF f0, symmetric] info
      by (rule ProcessExistInterrupt_spec [OF ns0 e0 _ _ _ pe]) (use False in auto)
    let ?s1 = "zone_mod s0 z (\<lambda>zn. zn\<lparr>pids := set_erase (pid active) (pids zn),
                                      audioFocusInfoList := passed @ rest\<rparr>)"
    have "no_sessions ?s1" using ns0 walk_frame_no_sessions [OF walk_frame_mod] by blast
    note ns1 = no_sessions_simps(3) [OF this]
    show ?thesis
    proof (cases rm)
      case True
      have "process_active E z incoming passed rest
          (SendActiveInterruptEvent ?s1 (sessionId active) ev incoming) = (infos', s')"
        using Cons.prems(2) False True by (simp add: info idx no_sessions_simps(1) [OF ns0] pe ns1)
      moreover have "walk_frame z s0 (SendActiveInterruptEvent ?s1 (sessionId active) ev incoming)"
        by (rule walk_frame_trans [OF walk_frame_mod walk_frame_send])
      ultimately show ?thesis using eff True by (intro next_step) simp_all
    next
      case F: False
      have "process_active E z incoming (passed @ [(active, st')]) rest
          (SendActiveInterruptEvent s0 (sessionId active) ev incoming) = (infos', s')"
        using Cons.prems(2) False F by (simp add: info idx no_sessions_simps(1) [OF ns0] pe)
      then show ?thesis using eff F by (intro next_step [OF walk_frame_send]) simp_all
    qed
  qed
qed

text \<open>The entries an activation starts from: the session itself and the placeholder of its process go.\<close>

definition contenders :: "AudioInterrupt \<Rightarrow> focus_info list \<Rightarrow> focus_info list" where
  "contenders i infos =
     filter (\<lambda>f. \<not> (sessionId (fst f) = sessionId i \<or> pid (fst f) = pid i \<and> snd f = PLACEHOLDER)) infos"

text \<open>The specification of an activation: the code returned and the list of the zone.\<close>

definition activation_spec ::
    "interrupt_env \<Rightarrow> InterruptService \<Rightarrow> AudioInterrupt \<Rightarrow> focus_info list \<Rightarrow> err \<times> focus_info list" where
  "activation_spec E s i infos =
     (case incoming_state E s i ACTIVE (contenders i infos) of
        None \<Rightarrow> (ERR_FOCUS_DENIED, contenders i infos)
      | Some st \<Rightarrow>
        if st = STOP then (ERR_FOCUS_DENIED, contenders i infos)
        else (if st \<ge> PAUSE then ERR_FOCUS_DENIED else SUCCESS,
              List.map_filter (exist_after E s i) (contenders i infos) @ [(i, st)]))"

lemma focus_states [simp]:
  "PAUSE \<le> st \<longleftrightarrow> st = PAUSE \<or> st = STOP \<or> st = PLACEHOLDER"
  by (cases st) (simp_all add: less_eq_AudioFocuState_def)

lemma session_active_cong: "sessionService s' = sessionService s \<Longrightarrow> session_active s' = session_active s"
  by (simp add: session_active_def fun_eq_iff)

lemma incoming_state_cong:
  assumes "focusCfgMap s' = focusCfgMap s" and "interruptClients s' = interruptClients s"
    and "sessionService s' = sessionService s"
  shows "incoming_state E s' i cur infos = incoming_state E s i cur infos"
proof -
  have "session_active s' = session_active s" "session_of s' = session_of s"
    using assms(3) by (simp_all add: session_active_def session_of_def fun_eq_iff)
  then have m: "CanMixForSession s' = CanMixForSession s"
    by (intro ext) (simp add: CanMixForSession_def CanMixForIncomingSession_def CanMixForActiveSession_def)
  have c: "cfg_lookup s' = cfg_lookup s" using assms(1) by (intro ext cfg_lookup_cong)
  have g: "GetClientTypeBySessionId E s' = GetClientTypeBySessionId E s"
    using assms(2) by (intro ext GetClientType_cong)
  show ?thesis
  proof (induction infos arbitrary: cur)
    case (Cons f fs)
    then show ?case by (cases f) (simp add: m c g cong: option.case_cong if_cong)
  qed simp
qed

lemma ProcessActiveInterrupt_spec:
  assumes ns: "no_sessions s" and zn: "zone_at s z = Some zn"
  shows "\<exists>s'. ProcessActiveInterrupt E s z i = Inr s' \<and> walk_frame z s s' \<and>
    focus_list s' z = List.map_filter (exist_after E s i) (audioFocusInfoList zn) \<and> zone_at s' z \<noteq> None"
proof -
  let ?s0 = "put_zone s z (zn\<lparr>zoneId := z\<rparr>)"
  have mz: "?s0 = zone_mod s z (\<lambda>zn. zn\<lparr>zoneId := z\<rparr>)" using zn by (simp add: zone_mod_def)
  have f0: "walk_frame z s ?s0" unfolding mz by (rule walk_frame_mod)
  have ns0: "no_sessions ?s0" using ns walk_frame_no_sessions [OF f0] by simp
  obtain infos s1 where run: "process_active E z i [] (audioFocusInfoList zn) ?s0 = (infos, s1)" by fastforce
  from process_active_spec [OF ns0 run]
  have infos: "infos = List.map_filter (exist_after E s i) (audioFocusInfoList zn)"
    and f1: "walk_frame z s s1" using walk_frame_exist [OF f0] walk_frame_trans [OF f0] by auto
  let ?s' = "zone_mod s1 z (\<lambda>zn. zn\<lparr>audioFocusInfoList := infos\<rparr>)"
  have z1: "zone_at s1 z \<noteq> None" using f1 zn by (simp add: walk_frame_def)
  have "ProcessActiveInterrupt E s z i = Inr ?s'"
    using zn by (simp add: ProcessActiveInterrupt_def zone_at_Some run)
  moreover have "focus_list ?s' z = infos" "zone_at ?s' z \<noteq> None"
    using z1 by (auto simp: focus_list_def)
  ultimately show ?thesis using infos walk_frame_trans [OF f1 walk_frame_mod] by blast
qed

lemma Add_list:
  assumes "zone_at s z \<noteq> None" and "no_sessions s" and "st \<noteq> STOP"
  shows "focus_list (AddToAudioFocusInfoList s z i st) z = focus_list s z @ [(i, st)]"
    and "walk_frame z s (AddToAudioFocusInfoList s z i st)"
proof -
  let ?f = "\<lambda>zn. zn\<lparr>zoneId := z, pids := set_insert (pid i) (pids zn),
                    audioFocusInfoList := audioFocusInfoList zn @ [(i, st)]\<rparr>"
  have ns: "\<not> session_active (SendFocusChangeEvent (zone_mod s z ?f) z REQUEST_CALLBACK_CATEGORY i) (pid i)"
    using assms(2) by (simp add: no_sessions_def session_active_def)
  have eq: "AddToAudioFocusInfoList s z i st =
      SendFocusChangeEvent (zone_mod s z ?f) z REQUEST_CALLBACK_CATEGORY i"
    using ns assms(3) by (simp add: AddToAudioFocusInfoList_def Let_def)
  show "focus_list (AddToAudioFocusInfoList s z i st) z = focus_list s z @ [(i, st)]"
    unfolding eq using assms(1)
    by (auto simp: focus_list_def zone_at_cong [of "SendFocusChangeEvent _ _ _ _"])
  have "walk_frame z (zone_mod s z ?f) (SendFocusChangeEvent (zone_mod s z ?f) z REQUEST_CALLBACK_CATEGORY i)"
    by (rule walk_frame_same) simp_all
  then show "walk_frame z s (AddToAudioFocusInfoList s z i st)"
    unfolding eq by (rule walk_frame_trans [OF walk_frame_mod])
qed

lemma walk_frame_to_incoming: "walk_frame z s (SendInterruptEventToIncomingStream s ev i)"
  by (rule walk_frame_same) (simp_all add: SendInterruptEventToIncomingStream_def)

lemma ProcessFocusEntry_spec:
  assumes ns: "no_sessions s" and zn: "zone_at s z = Some zn"
  shows "\<exists>r s'. ProcessFocusEntry E s z i = Inr (r, s') \<and> walk_frame z s s' \<and>
    (case incoming_state E s i ACTIVE (audioFocusInfoList zn) of
       None \<Rightarrow> r = ERR_INVALID_PARAM \<and> s' = s
     | Some st \<Rightarrow> r = (if st \<ge> PAUSE then ERR_FOCUS_DENIED else SUCCESS) \<and>
         focus_list s' z = (if st = STOP then audioFocusInfoList zn
           else List.map_filter (exist_after E s i) (audioFocusInfoList zn) @ [(i, st)]))"
proof (cases "incoming_state E s i ACTIVE (audioFocusInfoList zn)")
  case None
  then show ?thesis using zn by (simp add: ProcessFocusEntry_def zone_at_Some)
next
  case (Some st)
  note mz = zn [unfolded zone_at_Some]
  show ?thesis
  proof (cases "st = STOP")
    case True
    have "focus_list (SendInterruptEventToIncomingStream s ev i) z = audioFocusInfoList zn" for ev
      using zn by (simp add: focus_list_def zone_at_cong [of "SendInterruptEventToIncomingStream s ev i" s])
    then show ?thesis using Some True mz walk_frame_to_incoming
      by (simp add: ProcessFocusEntry_def HandleIncomingState_def AddToAudioFocusInfoList_def)
  next
    case False
    from ProcessActiveInterrupt_spec [OF ns zn, of E i] obtain s1 where
      pa: "ProcessActiveInterrupt E s z i = Inr s1" and f1: "walk_frame z s s1"
      and l1: "focus_list s1 z = List.map_filter (exist_after E s i) (audioFocusInfoList zn)"
      and z1: "zone_at s1 z \<noteq> None" by blast
    have ns1: "no_sessions s1" using ns walk_frame_no_sessions [OF f1] by simp
    note add = Add_list [OF z1 ns1 False, of i]
    let ?s2 = "AddToAudioFocusInfoList s1 z i st"
    have fin: "focus_list (SendInterruptEventToIncomingStream ?s2 ev i) z = focus_list ?s2 z" for ev
      by (rule focus_list_cong) simp
    have fr: "walk_frame z s (SendInterruptEventToIncomingStream ?s2 ev i)" for ev
      by (rule walk_frame_trans [OF f1 walk_frame_trans [OF add(2) walk_frame_to_incoming]])
    show ?thesis using Some False mz fr
      by (simp add: ProcessFocusEntry_def HandleIncomingState_def pa Let_def fin add(1) l1)
  qed
qed

text \<open>What an activation may change: the entries of its zone, configuration defaults, events.\<close>

lemma ProcessAudioScene_spec:
  assumes ns: "no_sessions s" and zn: "zone_at s z = Some zn"
  shows "\<exists>s'. ProcessAudioScene s i (sessionId i) z = (s', contenders i (audioFocusInfoList zn) = []) \<and>
    walk_frame z s s' \<and> focusCfgMap s' = focusCfgMap s \<and> zone_at s' z \<noteq> None \<and>
    focus_list s' z = (if contenders i (audioFocusInfoList zn) = [] then [(i, ACTIVE)]
                       else contenders i (audioFocusInfoList zn))"
proof -
  let ?c = "contenders i (audioFocusInfoList zn)"
  have mz: "map_of (zonesMap s) z = Some (Some zn)" using zn by (simp add: zone_at_Some)
  have na: "\<not> session_active s' p" if "sessionService s' = sessionService s" for s' p
    using ns that by (simp add: no_sessions_def session_active_def)
  let ?s0 = "zone_mod s z (\<lambda>zn. zn\<lparr>zoneId := z\<rparr>)"
  have l0: "focus_list ?s0 z = audioFocusInfoList zn" using zn by (simp add: focus_list_def)
  let ?s1 = "if audioFocusInfoList zn \<noteq> []
             then zone_mod ?s0 z (\<lambda>zn'. zn'\<lparr>pids := set_erase (pid i) (pids zn'), audioFocusInfoList := ?c\<rparr>)
             else ?s0"
  have svc1: "sessionService ?s1 = sessionService s" by simp
  have f1: "walk_frame z s ?s1" using walk_frame_trans [OF walk_frame_mod walk_frame_mod] walk_frame_mod
    by simp
  have c0: "?c = []" if "audioFocusInfoList zn = []" using that by (simp add: contenders_def)
  have z1: "zone_at ?s1 z \<noteq> None" "focus_list ?s1 z = ?c"
    using zn c0 by (auto simp: focus_list_def)
  have cfg1: "focusCfgMap ?s1 = focusCfgMap s" by simp
  let ?s3 = "zone_mod ?s1 z (\<lambda>zn. zn\<lparr>pids := set_insert (pid i) (pids zn),
                                 audioFocusInfoList := audioFocusInfoList zn @ [(i, ACTIVE)]\<rparr>)"
  let ?s5 = "SendFocusChangeEvent ?s3 z REQUEST_CALLBACK_CATEGORY i"
  let ?s6 = "UpdateAudioSceneFromInterrupt ?s5 (GetHighestPriorityAudioScene ?s5 z) ACTIVATE_AUDIO_INTERRUPT"
  have res: "ProcessAudioScene s i (sessionId i) z = (if ?c = [] then (?s6, True) else (?s1, False))"
    unfolding ProcessAudioScene_def mz Let_def contenders_def
    by (auto simp: l0 na)
  have fr6: "walk_frame z ?s3 ?s6"
    by (rule walk_frame_same) simp_all
  have z6: "zone_at ?s6 = zone_at ?s3" by (intro ext zone_at_cong) simp
  have f6: "walk_frame z s ?s6" by (rule walk_frame_trans [OF f1 walk_frame_trans [OF walk_frame_mod fr6]])
  have l6: "focus_list ?s6 z = [(i, ACTIVE)]" "zone_at ?s6 z \<noteq> None" if "?c = []"
    using z1 that unfolding focus_list_def z6 by auto
  show ?thesis
  proof (cases "?c = []")
    case True
    then show ?thesis using res f6 l6 by (intro exI [of _ ?s6]) simp
  next
    case False
    then show ?thesis using res f1 z1 cfg1 by (intro exI [of _ ?s1]) simp
  qed
qed

lemma ActivateAudioInterrupt_spec:
  assumes ns: "no_sessions s" and zn: "zone_at s z = Some zn" and "policyServer s"
    and "\<not> parallelPlayFlag i"
  shows "\<exists>r s'. ActivateAudioInterrupt E s z i = Inr (r, s') \<and>
    (r, focus_list s' z) = activation_spec E s i (audioFocusInfoList zn) \<and> walk_frame z s s'"
proof -
  let ?c = "contenders i (audioFocusInfoList zn)"
  let ?s2 = "emit (emit (ResetNonInterruptControl E s (sessionId i)) (CheckStreamMode (sessionId i)))
                        (OffloadStreamCheck (uint (sessionId i)) OFFLOAD_NO_SESSION_ID)"
  have f2: "walk_frame z s ?s2"
    by (rule walk_frame_same) simp_all
  have ns2: "no_sessions ?s2" using ns walk_frame_no_sessions [OF f2] by simp
  have zn2: "zone_at ?s2 z = Some zn" using zn by (simp add: zone_at_def)
  from ProcessAudioScene_spec [OF ns2 zn2, of i] obtain s3 where
    ps: "ProcessAudioScene ?s2 i (sessionId i) z = (s3, ?c = [])" and f3: "walk_frame z ?s2 s3"
    and cfg3: "focusCfgMap s3 = focusCfgMap ?s2" and z3: "zone_at s3 z \<noteq> None"
    and l3: "focus_list s3 z = (if ?c = [] then [(i, ACTIVE)] else ?c)" by blast
  have fs3: "walk_frame z s s3" by (rule walk_frame_trans [OF f2 f3])
  have act: "ActivateAudioInterrupt E s z i =
      (if ?c = [] then Inr (SUCCESS, s3)
       else exec_bind (ProcessFocusEntry E s3 z i)
              (\<lambda>(r, s4). if r \<noteq> SUCCESS then Inr (ERR_FOCUS_DENIED, s4)
                         else Inr (SUCCESS, UpdateAudioSceneFromInterrupt s4
                                (GetHighestPriorityAudioScene s4 z) ACTIVATE_AUDIO_INTERRUPT)))"
    using assms(3,4) by (simp add: ActivateAudioInterrupt_def Let_def ps)
  show ?thesis
  proof (cases "?c = []")
    case True
    then have "activation_spec E s i (audioFocusInfoList zn) = (SUCCESS, [(i, ACTIVE)])"
      by (simp add: activation_spec_def List.map_filter_simps)
    then show ?thesis using act True l3 fs3 by simp
  next
    case False
    obtain zn3 where zn3: "zone_at s3 z = Some zn3" using z3 by auto
    then have lz: "audioFocusInfoList zn3 = ?c" using l3 False by (simp add: focus_list_def)
    have ns3: "no_sessions s3" using ns walk_frame_no_sessions [OF fs3] by simp
    have inc: "incoming_state E s3 i ACTIVE ?c = incoming_state E s i ACTIVE ?c"
      using fs3 cfg3 by (intro incoming_state_cong) (simp_all add: walk_frame_def)
    note ea = walk_frame_exist [OF fs3, of E i]
    from ProcessFocusEntry_spec [OF ns3 zn3, of E i, unfolded lz inc ea] obtain r s4 where
      pf: "ProcessFocusEntry E s3 z i = Inr (r, s4)" and f4: "walk_frame z s3 s4"
      and res: "case incoming_state E s i ACTIVE ?c of
         None \<Rightarrow> r = ERR_INVALID_PARAM \<and> s4 = s3
       | Some st \<Rightarrow> r = (if st \<ge> PAUSE then ERR_FOCUS_DENIED else SUCCESS) \<and>
           focus_list s4 z = (if st = STOP then ?c else List.map_filter (exist_after E s i) ?c @ [(i, st)])"
      by blast
    let ?s5 = "if r \<noteq> SUCCESS then s4 else UpdateAudioSceneFromInterrupt s4
                 (GetHighestPriorityAudioScene s4 z) ACTIVATE_AUDIO_INTERRUPT"
    have run: "ActivateAudioInterrupt E s z i = Inr (if r \<noteq> SUCCESS then ERR_FOCUS_DENIED else SUCCESS, ?s5)"
      using act False pf by simp
    have f5: "walk_frame z s4 ?s5" by (rule walk_frame_same) simp_all
    have l5: "focus_list ?s5 z = focus_list s4 z" by (rule focus_list_cong) simp
    have "((if r \<noteq> SUCCESS then ERR_FOCUS_DENIED else SUCCESS), focus_list ?s5 z) =
        activation_spec E s i (audioFocusInfoList zn)"
      unfolding l5 activation_spec_def using res l3 False
      by (auto split: option.splits if_splits)
    then show ?thesis using run walk_frame_trans [OF fs3 walk_frame_trans [OF f4 f5]] by blast
  qed
qed

end
