(* ===== verification/InterruptInv.thy ===== *)
theory InterruptInv
  imports InterruptSpec
begin

text \<open>
  An invariant of the focus lists under every operation on focus, sessions and clients, audio
  sessions active or not: a session id occurs at most once in the list of a zone. Each
  operation takes a sublist of a list, changes states in it, or appends an interrupt whose
  session it has just removed.
\<close>

section \<open>What happens to the interrupts of a list\<close>

definition interrupts :: "focus_info list \<Rightarrow> AudioInterrupt list" where
  "interrupts infos = map fst infos"

lemma interrupts_simps [simp]:
  "interrupts [] = []" "interrupts (f # fs) = fst f # interrupts fs"
  "interrupts (xs @ ys) = interrupts xs @ interrupts ys"
  by (simp_all add: interrupts_def)

definition sids :: "focus_info list \<Rightarrow> u32 list" where
  "sids infos = map sessionId (interrupts infos)"

lemma sids_simps [simp]:
  "sids [] = []" "sids (f # fs) = sessionId (fst f) # sids fs" "sids (xs @ ys) = sids xs @ sids ys"
  by (simp_all add: sids_def)

lemma sids_subseq: "subseq (interrupts xs) (interrupts ys) \<Longrightarrow> subseq (sids xs) (sids ys)"
  by (simp add: sids_def subseq_map)

lemma subseq_set: "subseq xs ys \<Longrightarrow> set xs \<subseteq> set ys"
  by (induction rule: list_emb.induct) auto

lemma distinct_subseq: "subseq xs ys \<Longrightarrow> distinct ys \<Longrightarrow> distinct xs"
  by (induction rule: list_emb.induct) (auto dest: list_emb_set)

text \<open>Only zone \<open>z\<close> may change, and it stays a zone.\<close>

definition only_zone :: "int \<Rightarrow> InterruptService \<Rightarrow> InterruptService \<Rightarrow> bool" where
  "only_zone z s s' \<longleftrightarrow>
     (zone_at s' z = None \<longleftrightarrow> zone_at s z = None) \<and> (\<forall>z'. z' \<noteq> z \<longrightarrow> zone_at s' z' = zone_at s z')"

lemma only_zone_refl [simp]: "only_zone z s s"
  by (simp add: only_zone_def)

lemma only_zone_trans: "only_zone z s s' \<Longrightarrow> only_zone z s' s'' \<Longrightarrow> only_zone z s s''"
  by (simp add: only_zone_def)

lemma only_zone_same: "zonesMap s' = zonesMap s \<Longrightarrow> only_zone z s s'"
  by (simp add: only_zone_def zone_at_def)

lemma only_zone_mod [simp]: "only_zone z s (zone_mod s z f)"
  by (simp add: only_zone_def)

lemma process_active_sublist:
  "process_active E z i passed infos s = (infos', s') \<Longrightarrow>
     subseq (interrupts infos') (interrupts (passed @ infos)) \<and> only_zone z s s'"
proof (induction infos arbitrary: passed s)
  case (Cons info rest)
  obtain active st where info: "info = (active, st)" by (cases info)
  obtain e s0 where idx: "cfg_index s active i = (e, s0)" by fastforce
  have z0: "only_zone z s s0" by (rule only_zone_same) (rule cfg_index_policy(3) [OF idx])
  have next_step: ?case if "only_zone z s0 s1" and "process_active E z i passed1 rest s1 = (infos', s')"
    and p1: "passed1 = passed \<or> (\<exists>st1. passed1 = passed @ [(active, st1)])" for s1 passed1
  proof -
    from Cons.IH [OF that(2)] have sub: "subseq (interrupts infos') (interrupts (passed1 @ rest))"
      and z: "only_zone z s s'" using only_zone_trans [OF only_zone_trans [OF z0 that(1)]] by auto
    have "subseq (interrupts (passed1 @ rest)) (interrupts (passed @ info # rest))"
    proof (cases "passed1 = passed")
      case True
      show ?thesis unfolding True by (auto intro!: list_emb_append_mono)
    next
      case False
      then obtain st1 where "passed1 = passed @ [(active, st1)]" using p1 by blast
      then show ?thesis by (simp add: info)
    qed
    with sub z show ?thesis using subseq_order.order_trans by blast
  qed
  show ?case
  proof (cases "actionOn e \<noteq> CURRENT \<or> IsSameAppInShareMode i active \<or> st = PLACEHOLDER \<or>
                CanMixForSession s0 i active e")
    case True
    have "process_active E z i (passed @ [(active, st)]) rest s0 = (infos', s')"
      using Cons.prems True by (auto simp: info idx)
    then show ?thesis by (rule next_step [OF only_zone_refl]) blast
  next
    case False
    let ?ev0 = "\<lparr>eventType = INTERRUPT_TYPE_BEGIN, forceType = entryForceType e,
                    hintType = INTERRUPT_HINT_NONE, duckVolume = FFin 1\<rparr>"
    obtain st' ev rm where pe: "ProcessExistInterrupt E s0 (active, st) e i ?ev0 = (st', ev, rm)"
      by (metis prod_cases3)
    let ?s1 = "zone_mod s0 z (\<lambda>zn. zn\<lparr>pids := set_erase (pid active) (pids zn),
                                      audioFocusInfoList := passed @ rest\<rparr>)"
    let ?s2 = "if session_active ?s1 (pid active)
               then HandleLowPriorityEvent ?s1 (pid active) (sessionId active) else ?s1"
    show ?thesis
    proof (cases rm)
      case True
      have "process_active E z i passed rest (SendActiveInterruptEvent ?s2 (sessionId active) ev i) = (infos', s')"
        using Cons.prems False True by (simp add: info idx pe Let_def)
      moreover have "only_zone z s0 (SendActiveInterruptEvent ?s2 (sessionId active) ev i)"
        by (rule only_zone_trans [OF only_zone_mod only_zone_same]) simp
      ultimately show ?thesis using next_step by blast
    next
      case F: False
      have "process_active E z i (passed @ [(active, st')]) rest
          (SendActiveInterruptEvent s0 (sessionId active) ev i) = (infos', s')"
        using Cons.prems False F by (simp add: info idx pe)
      moreover have "only_zone z s0 (SendActiveInterruptEvent s0 (sessionId active) ev i)"
        by (rule only_zone_same) simp
      ultimately show ?thesis using next_step by blast
    qed
  qed
qed simp

lemma SendInterruptEvent_frame [simp]:
  "SendInterruptEvent s old new f = (st, rm, s') \<Longrightarrow> zonesMap s' = zonesMap s"
  by (auto simp: SendInterruptEvent_def Let_def split: if_splits AudioFocuState.splits)

lemma SendInterruptEvent_frame2:
  "SendInterruptEvent s old new f = (st, rm, s') \<Longrightarrow>
     interruptClients s' = interruptClients s \<and> handler s' = handler s"
  by (auto simp: SendInterruptEvent_def Let_def split: if_splits AudioFocuState.splits)

lemma only_zone_timeout_stop: "only_zone z s (SendSessionTimeOutStopEvent s z i infos)"
  unfolding SendSessionTimeOutStopEvent_def Let_def
  by (rule only_zone_trans [OF only_zone_same only_zone_trans [OF only_zone_mod only_zone_same]]) simp_all

lemma resume_loop_sublist:
  "resume_loop E z timeout sc passed act new s = (infos', sc', s') \<Longrightarrow>
     subseq (interrupts infos') (interrupts (passed @ act)) \<and> only_zone z s s'"
proof (induction E z timeout sc passed act new s rule: resume_loop.induct)
  case (1 E z timeout sc passed a act n new s)
  let ?old = "snd a" and ?new = "snd n"
  let ?drop = "?old \<noteq> ?new \<and> timeout \<and> ?old = PAUSE \<and> (?new = ACTIVE \<or> ?new = DUCK)"
  have dropped: "subseq (interrupts (passed @ act)) (interrupts (passed @ a # act))"
    by (auto intro!: list_emb_append_mono)
  show ?case
  proof (cases ?drop)
    case True
    let ?s1 = "SendSessionTimeOutStopEvent s z (fst a) (passed @ act)"
    have "resume_loop E z timeout sc passed act new ?s1 = (infos', sc', s')"
      using 1(4) by (simp only: resume_loop.simps Let_def if_P [OF True])
    from 1(1) [OF refl refl True this] show ?thesis
      using only_zone_trans [OF only_zone_timeout_stop] subseq_order.order_trans [OF _ dropped] by blast
  next
    case False
    obtain st rm s1 where snd: "(if ?old \<noteq> ?new then SendInterruptEvent s ?old ?new a
        else (?old, False, s)) = (st, rm, s1)" by (metis prod_cases3)
    have z1: "only_zone z s s1"
      using snd by (intro only_zone_same) (auto split: if_splits)
    show ?thesis
    proof (cases "rm \<and> GetClientTypeBySessionId E s1 (sessionId (fst a)) \<noteq> CLIENT_TYPE_GAME")
      case True
      let ?s2 = "SendFocusChangeEvent s1 z ABANDON_CALLBACK_CATEGORY (fst a)"
      have z2: "only_zone z s ?s2" by (rule only_zone_trans [OF z1 only_zone_same]) simp
      have "resume_loop E z timeout sc passed act new ?s2 = (infos', sc', s')"
        using 1(4) snd by (simp only: resume_loop.simps Let_def if_not_P [OF False] if_P [OF True] prod.case)
      from 1(2) [OF refl refl False snd [symmetric] refl True this] show ?thesis
        using only_zone_trans [OF z2] subseq_order.order_trans [OF _ dropped] by blast
    next
      case F: False
      let ?sc = "if GetAudioScenePriority (GetAudioSceneFromAudioInterrupt (fst a)) > GetAudioScenePriority sc
                 then GetAudioSceneFromAudioInterrupt (fst a) else sc"
      have "resume_loop E z timeout ?sc (passed @ [(fst a, st)]) act new s1 = (infos', sc', s')"
        using 1(4) snd by (simp only: resume_loop.simps Let_def if_not_P [OF False] if_not_P [OF F] prod.case)
      from 1(3) [OF refl refl False snd [symmetric] refl F refl refl this] show ?thesis
        using only_zone_trans [OF z1] by simp
    qed
  qed
qed auto

section \<open>The invariant and the operations\<close>

definition focus_ok :: "InterruptService \<Rightarrow> bool" where
  "focus_ok s \<longleftrightarrow> (\<forall>z. distinct (sids (focus_list s z)))"

lemma focus_ok_same: "focus_ok s \<Longrightarrow> zonesMap s' = zonesMap s \<Longrightarrow> focus_ok s'"
  by (simp add: focus_ok_def focus_list_def zone_at_def)

lemma focus_list_other: "only_zone z s s' \<Longrightarrow> z' \<noteq> z \<Longrightarrow> focus_list s' z' = focus_list s z'"
  by (simp add: only_zone_def focus_list_def)

lemma focus_ok_zone:
  assumes "focus_ok s" and "only_zone z s s'" and "distinct (sids (focus_list s' z))"
  shows "focus_ok s'"
  unfolding focus_ok_def
proof
  fix z'
  show "distinct (sids (focus_list s' z'))"
    using assms focus_list_other [OF assms(2)] by (cases "z' = z") (simp_all add: focus_ok_def)
qed

lemma focus_ok_mod:
  assumes "focus_ok s" and "\<And>zn. audioFocusInfoList (f zn) = audioFocusInfoList zn"
  shows "focus_ok (zone_mod s z f)"
proof (rule focus_ok_zone [OF assms(1) only_zone_mod])
  have "focus_list (zone_mod s z f) z = focus_list s z"
    by (simp add: focus_list_def assms(2) split: option.splits)
  with assms(1) show "distinct (sids (focus_list (zone_mod s z f) z))" by (simp add: focus_ok_def)
qed

lemma ProcessActive_sublist:
  assumes "ProcessActiveInterrupt E s z i = Inr s'"
  shows "subseq (interrupts (focus_list s' z)) (interrupts (focus_list s z)) \<and> only_zone z s s'"
proof (cases "map_of (zonesMap s) z")
  case None
  then show ?thesis using assms by (simp add: ProcessActiveInterrupt_def)
next
  case (Some zp)
  then obtain zn where zn: "zp = Some zn" using assms by (cases zp) (auto simp: ProcessActiveInterrupt_def)
  let ?s0 = "put_zone s z (zn\<lparr>zoneId := z\<rparr>)"
  have at: "zone_at s z = Some zn" using Some zn by (simp add: zone_at_Some)
  obtain infos s1 where run: "process_active E z i [] (audioFocusInfoList zn) ?s0 = (infos, s1)" by fastforce
  have s': "s' = zone_mod s1 z (\<lambda>zn. zn\<lparr>audioFocusInfoList := infos\<rparr>)"
    using assms Some zn run by (simp add: ProcessActiveInterrupt_def)
  from process_active_sublist [OF run]
  have sub: "subseq (interrupts infos) (interrupts (audioFocusInfoList zn))" and z1: "only_zone z ?s0 s1" by simp_all
  have z0: "only_zone z s ?s0" using at by (simp add: only_zone_def)
  have "zone_at s1 z \<noteq> None" using z1 by (simp add: only_zone_def)
  then have "focus_list s' z = infos" unfolding s' by (auto simp: focus_list_def)
  moreover have "focus_list s z = audioFocusInfoList zn" using at by (simp add: focus_list_def)
  moreover have "only_zone z s s'"
    unfolding s' by (rule only_zone_trans [OF z0 only_zone_trans [OF z1 only_zone_mod]])
  ultimately show ?thesis using sub by simp
qed

lemma AddTo_list:
  "only_zone z s (AddToAudioFocusInfoList s z i st) \<and>
   (focus_list (AddToAudioFocusInfoList s z i st) z = focus_list s z \<or>
    focus_list (AddToAudioFocusInfoList s z i st) z = focus_list s z @ [(i, st)])"
proof (cases "st = STOP")
  case True
  then show ?thesis by (simp add: AddToAudioFocusInfoList_def)
next
  case False
  let ?s1 = "zone_mod s z (\<lambda>zn. zn\<lparr>zoneId := z, pids := set_insert (pid i) (pids zn),
                    audioFocusInfoList := audioFocusInfoList zn @ [(i, st)]\<rparr>)"
  have z: "zonesMap (AddToAudioFocusInfoList s z i st) = zonesMap ?s1"
    using False by (simp add: AddToAudioFocusInfoList_def Let_def)
  have "focus_list ?s1 z = focus_list s z \<or> focus_list ?s1 z = focus_list s z @ [(i, st)]"
    by (simp add: focus_list_def split: option.splits)
  then show ?thesis
    using only_zone_trans [OF only_zone_mod only_zone_same [OF z]] focus_list_cong [OF z] by auto
qed

lemma ProcessFocusEntry_ok:
  assumes "focus_ok s" and "sessionId i \<notin> set (sids (focus_list s z))"
    and "ProcessFocusEntry E s z i = Inr (r, s')"
  shows "focus_ok s'"
proof (cases "map_of (zonesMap s) z")
  case None
  then show ?thesis using assms by (simp add: ProcessFocusEntry_def)
next
  case (Some zp)
  then obtain zn where zn: "zp = Some zn" using assms(3) by (cases zp) (auto simp: ProcessFocusEntry_def)
  show ?thesis
  proof (cases "incoming_state E s i ACTIVE (audioFocusInfoList zn)")
    case None
    then show ?thesis using assms Some zn by (simp add: ProcessFocusEntry_def)
  next
    case st: (Some st)
    obtain ev s1 where h: "HandleIncomingState E s z st \<lparr>eventType = INTERRUPT_TYPE_BEGIN,
        forceType = INTERRUPT_FORCE, hintType = INTERRUPT_HINT_NONE, duckVolume = FFin 1\<rparr> i = Inr (ev, s1)"
      and s': "s' = SendInterruptEventToIncomingStream (AddToAudioFocusInfoList s1 z i st) ev i"
      using assms(3) Some zn st by (auto simp: ProcessFocusEntry_def exec_bind_Inr Let_def)
    have sub: "subseq (interrupts (focus_list s1 z)) (interrupts (focus_list s z)) \<and> only_zone z s s1"
      using h ProcessActive_sublist [of E s z i]
      by (auto simp: HandleIncomingState_def exec_bind_Inr Let_def split: if_splits)
    let ?s2 = "AddToAudioFocusInfoList s1 z i st"
    have sub_sids: "subseq (sids (focus_list s1 z)) (sids (focus_list s z))" using sub sids_subseq by blast
    have d: "distinct (sids (focus_list s1 z))" "sessionId i \<notin> set (sids (focus_list s1 z))"
      using distinct_subseq [OF sub_sids] subseq_set [OF sub_sids] assms(1,2) by (auto simp: focus_ok_def)
    have "focus_ok ?s2"
    proof (rule focus_ok_zone [OF assms(1)])
      show "only_zone z s ?s2" using only_zone_trans sub AddTo_list by blast
      show "distinct (sids (focus_list ?s2 z))" using AddTo_list [of z s1 i st] d by auto
    qed
    then show ?thesis unfolding s' by (rule focus_ok_same) simp
  qed
qed

lemma session_active_of [simp]: "\<not> (session_active s p \<and> session_of s p = None)"
  by (auto simp: session_active_def session_of_def IsAudioSessionActivated_def GetAudioSessionByPid_def
      split: option.splits)

lemma zone_mod_zones: "zonesMap s = zonesMap s' \<Longrightarrow> zonesMap (zone_mod s z f) = zonesMap (zone_mod s' z f)"
  by (simp add: zone_mod_def zone_at_def put_zone_def split: option.splits)

lemma ProcessAudioScene_ok:
  assumes ok: "focus_ok s" and run: "ProcessAudioScene s i (sessionId i) z = (s', b)"
  shows "focus_ok s' \<and> (\<not> b \<longrightarrow> sessionId i \<notin> set (sids (focus_list s' z)))"
proof (cases "zone_at s z")
  case None
  then have fl: "focus_list s z = []" by (simp add: focus_list_def)
  have "zone_mod s z f = s" for f using None by (simp add: zone_mod_def)
  with None fl run have "zonesMap s' = zonesMap s"
    by (auto simp: ProcessAudioScene_def Let_def zone_mod_def zone_at_cong [of "session_mod _ _"]
        split: option.splits if_splits)
  then show ?thesis using ok fl focus_list_cong [of s' s z] focus_ok_same by simp
next
  case (Some zn)
  have mz: "map_of (zonesMap s) z = Some (Some zn)" using Some by (simp add: zone_at_Some)
  let ?s0 = "zone_mod s z (\<lambda>zn. zn\<lparr>zoneId := z\<rparr>)"
  let ?c = "contenders i (audioFocusInfoList zn)"
  have l0: "focus_list ?s0 z = audioFocusInfoList zn" using Some by (simp add: focus_list_def)
  let ?s1 = "if audioFocusInfoList zn \<noteq> []
             then zone_mod ?s0 z (\<lambda>zn'. zn'\<lparr>pids := set_erase (pid i) (pids zn'), audioFocusInfoList := ?c\<rparr>)
             else ?s0"
  have c0: "?c = []" if "audioFocusInfoList zn = []" using that by (simp add: contenders_def)
  have z1: "only_zone z s ?s1" using only_zone_trans [OF only_zone_mod only_zone_mod] by simp
  have l1: "focus_list ?s1 z = ?c" "zone_at ?s1 z \<noteq> None" using Some c0 by (auto simp: focus_list_def)
  let ?add = "\<lambda>zn. zn\<lparr>pids := set_insert (pid i) (pids zn),
                                 audioFocusInfoList := audioFocusInfoList zn @ [(i, ACTIVE)]\<rparr>"
  let ?s2 = "if audioFocusInfoList zn \<noteq> [] \<and> session_active ?s1 (pid i)
             then session_mod ?s1 (\<lambda>svc. session_remove (sysTime ?s1) svc (pid i) (sessionId i)) else ?s1"
  let ?s3 = "zone_mod ?s2 z ?add"
  have cif: "(if audioFocusInfoList zn \<noteq> [] then ?c else audioFocusInfoList zn) = ?c" using c0 by simp
  have none: "(session_active t p \<and> session_of t p = None) = False" for t p using session_active_of by blast
  have fl: "filter (\<lambda>f. \<not> (sessionId (fst f) = sessionId i \<or> pid (fst f) = pid i \<and> snd f = PLACEHOLDER))
      (audioFocusInfoList zn) = ?c" by (simp add: contenders_def)
  have "(s', b) = (if ?c = []
      then (UpdateAudioSceneFromInterrupt
              (SendFocusChangeEvent (if session_active ?s3 (pid i)
                 then session_mod ?s3 (\<lambda>svc. session_remove (sysTime ?s3) svc (pid i) (sessionId i)) else ?s3)
                 z REQUEST_CALLBACK_CATEGORY i)
              (GetHighestPriorityAudioScene
                (SendFocusChangeEvent (if session_active ?s3 (pid i)
                 then session_mod ?s3 (\<lambda>svc. session_remove (sysTime ?s3) svc (pid i) (sessionId i)) else ?s3)
                 z REQUEST_CALLBACK_CATEGORY i) z) ACTIVATE_AUDIO_INTERRUPT, True)
      else (?s2, False))"
    unfolding run [symmetric] ProcessAudioScene_def mz Let_def option.case
    by (simp only: l0 none fl cif option.distinct simp_thms if_False)
  then have "zonesMap s' = zonesMap (if ?c = [] then ?s3 else ?s2) \<and> b = (?c = [])"
    by (simp split: if_split_asm)
  moreover have "zonesMap ?s2 = zonesMap ?s1" by simp
  ultimately have s': "zonesMap s' = zonesMap (if ?c = [] then zone_mod ?s1 z ?add else ?s1)"
    and b: "b = (?c = [])" using zone_mod_zones [of ?s2 ?s1 z ?add] by auto
  let ?t = "if ?c = [] then zone_mod ?s1 z ?add else ?s1"
  have lt: "focus_list ?t z = (if ?c = [] then [(i, ACTIVE)] else ?c)"
    using l1 by (auto simp: focus_list_def)
  have oz: "only_zone z s ?t" using z1 only_zone_trans [OF z1 only_zone_mod] by simp
  have sub: "subseq (sids ?c) (sids (audioFocusInfoList zn))"
    unfolding sids_def interrupts_def contenders_def by (intro subseq_map subseq_filter_left)
  have "distinct (sids (audioFocusInfoList zn))"
    using ok Some by (auto simp: focus_ok_def focus_list_def dest!: spec [of _ z])
  then have d: "distinct (sids ?c)" by (rule distinct_subseq [OF sub])
  have "focus_ok ?t" by (rule focus_ok_zone [OF ok oz]) (use d lt in auto)
  then have "focus_ok s'" by (rule focus_ok_same) (rule s')
  moreover have "sessionId i \<notin> set (sids ?c)"
    by (auto simp: sids_def interrupts_def contenders_def)
  ultimately show ?thesis using b lt focus_list_cong [OF s', of z] by auto
qed

lemma ActivateAudioInterrupt_ok:
  assumes "focus_ok s" and "ActivateAudioInterrupt E s z i = Inr (r, s')"
  shows "focus_ok s'"
proof (cases "parallelPlayFlag i")
  case True
  then show ?thesis using assms by (simp add: ActivateAudioInterrupt_def)
next
  case False
  let ?s2 = "emit (emit (ResetNonInterruptControl E s (sessionId i)) (CheckStreamMode (sessionId i)))
                        (OffloadStreamCheck (uint (sessionId i)) OFFLOAD_NO_SESSION_ID)"
  have ok2: "focus_ok ?s2" by (rule focus_ok_same [OF assms(1)]) simp
  obtain s3 b where ps: "ProcessAudioScene ?s2 i (sessionId i) z = (s3, b)" by fastforce
  note ok3 = ProcessAudioScene_ok [OF ok2 ps]
  show ?thesis
  proof (cases b)
    case True
    then show ?thesis using assms(2) False ok3 ps
      by (auto simp: ActivateAudioInterrupt_def Let_def split: if_splits)
  next
    case nb: False
    obtain r4 s4 where pf: "ProcessFocusEntry E s3 z i = Inr (r4, s4)"
      and s': "s' = s4 \<or> s' = UpdateAudioSceneFromInterrupt s4 (GetHighestPriorityAudioScene s4 z)
                 ACTIVATE_AUDIO_INTERRUPT"
      using assms(2) False ps nb
      by (auto simp: ActivateAudioInterrupt_def Let_def exec_bind_Inr split: if_splits)
    have "focus_ok s4" using ProcessFocusEntry_ok [OF _ _ pf] ok3 nb by simp
    with s' show ?thesis using focus_ok_same [of s4] by auto
  qed
qed

lemma ResumeAudioFocusList_ok:
  assumes "focus_ok s"
  shows "focus_ok (ResumeAudioFocusList E s z timeout)"
proof -
  obtain infos sc s1 where run: "resume_loop E z timeout AUDIO_SCENE_DEFAULT [] (focus_list s z)
      (SimulateFocusEntry E s z) s = (infos, sc, s1)" by (metis prod_cases3)
  from resume_loop_sublist [OF run] have sub: "subseq (sids infos) (sids (focus_list s z))"
    and z1: "only_zone z s s1" using sids_subseq by auto
  let ?s2 = "zone_mod s1 z (\<lambda>zn. zn\<lparr>audioFocusInfoList := infos\<rparr>)"
  have d: "distinct (sids infos)" using distinct_subseq [OF sub] assms by (simp add: focus_ok_def)
  have "focus_list ?s2 z = infos \<or> focus_list ?s2 z = []"
    by (simp add: focus_list_def split: option.splits)
  then have "focus_ok ?s2"
    using d by (intro focus_ok_zone [OF assms only_zone_trans [OF z1 only_zone_mod]]) auto
  then show ?thesis
    by (rule focus_ok_same) (simp add: ResumeAudioFocusList_def run)
qed

lemma sids_set_state [simp]: "sids (set_state sid st infos) = sids infos"
  by (induction infos) simp_all

lemma sids_remove_session: "subseq (sids (remove_session sid infos)) (sids infos)"
  by (induction infos) auto

lemma DeactivateInternal_ok:
  assumes ok: "focus_ok s" and run: "DeactivateAudioInterruptInternal E s z i timeout = Inr s'"
  shows "focus_ok s'"
proof (cases "zone_at s z")
  case None
  then show ?thesis using assms by (simp add: DeactivateAudioInterruptInternal_def)
next
  case (Some zn)
  have d: "distinct (sids (audioFocusInfoList zn))"
    using ok Some by (auto simp: focus_ok_def focus_list_def dest!: spec [of _ z])
  let ?s1 = "if session_active s (pid i)
             then session_mod s (\<lambda>svc. session_remove (sysTime s) svc (pid i) (sessionId i)) else s"
  have ok1: "focus_ok ?s1" by (rule focus_ok_same [OF ok]) simp
  have modded: "focus_ok (zone_mod t z (\<lambda>zn. (f zn)\<lparr>audioFocusInfoList := infos\<rparr>))"
    if "focus_ok t" and "distinct (sids infos)" for t f infos
  proof (rule focus_ok_zone [OF that(1) only_zone_mod])
    have "focus_list (zone_mod t z (\<lambda>zn. (f zn)\<lparr>audioFocusInfoList := infos\<rparr>)) z = infos \<or>
        focus_list (zone_mod t z (\<lambda>zn. (f zn)\<lparr>audioFocusInfoList := infos\<rparr>)) z = []"
      by (simp add: focus_list_def split: option.splits)
    then show "distinct (sids (focus_list (zone_mod t z (\<lambda>zn. (f zn)\<lparr>audioFocusInfoList := infos\<rparr>)) z))"
      using that(2) by auto
  qed
  let ?s2 = "ResetNonInterruptControl E ?s1 (sessionId i)"
  have ok2: "focus_ok ?s2" by (rule focus_ok_same [OF ok1]) simp
  let ?s3 = "zone_mod ?s2 z (\<lambda>zn'. zn'\<lparr>zoneId := z, pids := set_erase (pid i) (pids zn'),
                 audioFocusInfoList := remove_session (sessionId i) (audioFocusInfoList zn)\<rparr>)"
  have ok3: "focus_ok ?s3"
    using modded [OF ok2 distinct_subseq [OF sids_remove_session d],
        where f = "\<lambda>zn'. zn'\<lparr>zoneId := z, pids := set_erase (pid i) (pids zn')\<rparr>"] by simp
  let ?s5 = "emit (emit (SendFocusChangeEvent ?s3 z ABANDON_CALLBACK_CATEGORY i)
               (OffloadStreamCheck OFFLOAD_NO_SESSION_ID (uint (sessionId i)))) (OffloadStopPlaying i)"
  have ok5: "focus_ok ?s5" by (rule focus_ok_same [OF ok3]) simp
  have okp: "focus_ok (zone_mod ?s1 z (\<lambda>zn'. zn'\<lparr>audioFocusInfoList :=
      set_state (sessionId i) PLACEHOLDER (audioFocusInfoList zn)\<rparr>))"
    using modded [OF ok1, where f = "\<lambda>zn. zn"
        and infos = "set_state (sessionId i) PLACEHOLDER (audioFocusInfoList zn)"] d by simp
  have "s' = ?s1 \<or> s' = zone_mod ?s1 z (\<lambda>zn'. zn'\<lparr>audioFocusInfoList :=
      set_state (sessionId i) PLACEHOLDER (audioFocusInfoList zn)\<rparr>) \<or>
      s' = ResumeAudioFocusList E ?s5 z timeout"
    using run Some unfolding DeactivateAudioInterruptInternal_def Let_def
    by (simp only: option.case) (auto split: if_split_asm)
  then show ?thesis using ok1 okp ResumeAudioFocusList_ok [OF ok5] by blast
qed

lemma RemovePlaceholder_ok:
  "focus_ok s \<Longrightarrow> RemovePlaceholderInterruptForSession E s p timeout = Inr s' \<Longrightarrow> focus_ok s'"
  by (auto simp: RemovePlaceholderInterruptForSession_def split: if_splits option.splits
      dest: DeactivateInternal_ok)

lemma AddActive_zones: "zonesMap (AddActiveInterruptToSession s p) = zonesMap s"
proof -
  have "zonesMap (foldl (\<lambda>s f. if pid (fst f) = p then session_mod s (\<lambda>svc. session_add svc p f) else s) s fs) =
      zonesMap s" for fs
    by (induction fs arbitrary: s) simp_all
  then show ?thesis by (simp add: AddActiveInterruptToSession_def)
qed

lemma clear_zones_ok: "focus_ok s \<Longrightarrow> focus_ok (clear_zones zs s)"
proof (induction zs s rule: clear_zones.induct)
  case (2 z zs s)
  show ?case
  proof (cases "zone_at s z")
    case None
    then show ?thesis using 2 by simp
  next
    case (Some zn)
    let ?gone = "filter (\<lambda>f. \<not> exempt_usage (fst f)) (audioFocusInfoList zn)"
    let ?s1 = "foldl (\<lambda>s f. emit s (InterruptWithSessionId stop_all_event (sessionId (fst f)))) s ?gone"
    let ?s2 = "zone_mod ?s1 z
        (\<lambda>zn. zn\<lparr>audioFocusInfoList := filter (\<lambda>f. exempt_usage (fst f)) (audioFocusInfoList zn)\<rparr>)"
    have z1: "zonesMap (foldl (\<lambda>s f. emit s (InterruptWithSessionId stop_all_event (sessionId (fst f)))) s fs) =
        zonesMap s" for fs by (induction fs arbitrary: s) simp_all
    have oz: "only_zone z s ?s2" by (rule only_zone_trans [OF only_zone_same [OF z1] only_zone_mod])
    have at: "zone_at ?s1 z = Some zn" unfolding zone_at_cong [OF z1] by (rule Some)
    have "subseq (sids (focus_list ?s2 z)) (sids (focus_list s z))"
      using Some at unfolding focus_list_def sids_def interrupts_def
      by (simp add: subseq_map subseq_filter_left)
    then have "distinct (sids (focus_list ?s2 z))"
      using 2(3) distinct_subseq by (auto simp: focus_ok_def)
    then have ok2: "focus_ok ?s2" by (rule focus_ok_zone [OF 2(3) oz])
    show ?thesis
    proof (cases "?gone \<noteq> [] \<and> \<not> handler s")
      case True
      then show ?thesis using Some 2(3) by simp
    next
      case False
      show ?thesis using 2(2) [OF Some refl False refl ok2] Some False by (auto simp: Let_def)
    qed
  qed
qed simp

section \<open>Every operation\<close>

text \<open>One call on the service, on its sessions or from its clients; zone administration apart.\<close>

lemma OnSessionTimeout_ok:
  assumes "focus_ok s"
  shows "returns focus_ok (OnSessionTimeout E s p)"
proof (cases "OnSessionTimeout E s p")
  case (Inr s')
  then obtain s1 where "RemovePlaceholderInterruptForSession E s p True = Inr s1"
    and "s' = emit_handler s1 (AudioSessionDeactive p TIMEOUT)"
    by (auto simp: OnSessionTimeout_def HandleSessionTimeOutEvent_def exec_bind_Inr)
  then show ?thesis using Inr RemovePlaceholder_ok [OF assms] focus_ok_same [of s1] by simp
qed simp

lemma expire_entries_keeps:
  assumes "P s" and "\<And>p s. P s \<Longrightarrow> P (cb p s)"
  shows "P (snd (expire_entries cb now es s))"
  using assms(1)
proof (induction es arbitrary: s)
  case (Cons e es)
  obtain p t where e: "e = (p, t)" by (rule prod.exhaust)
  show ?case using Cons.IH [OF Cons.prems] Cons.IH [OF assms(2) [OF Cons.prems]] by (auto simp: e split: prod.split)
qed simp

lemma Interrupt_TimerLoop_ok:
  assumes "focus_ok s" and "Interrupt_TimerLoop E now s = Inr s'"
  shows "focus_ok s'"
proof (cases "sessionService s = None")
  case False
  let ?P = "returns focus_ok"
  let ?cb = "OnAudioSessionTimeOut session_service_in put_session_service (\<lambda>p m. exec_bind m (\<lambda>s. OnSessionTimeout E s p))"
  have put: "?P (put_session_service svc m)" if "?P m" for svc m
    unfolding put_session_service_def returns_bind
    by (rule returns_mono [OF that]) (simp add: focus_ok_same)
  have "?P (exec_bind m (\<lambda>s. OnSessionTimeout E s p))" if "?P m" for m p
    unfolding returns_bind by (rule returns_mono [OF that]) (rule OnSessionTimeout_ok)
  then have cb: "?P (?cb p m)" if "?P m" for m p
    using put that by (simp add: OnAudioSessionTimeOut_def Let_def)
  have "?P (TimerLoop_pass session_service_in put_session_service (\<lambda>p m. exec_bind m (\<lambda>s. OnSessionTimeout E s p)) now (Inr s))"
    unfolding TimerLoop_pass_def Let_def
    using expire_entries_keeps [where P = ?P and s = "Inr s" and cb = ?cb] 
      expire_entries_keeps [where P = ?P and s = "Inr s" and cb = "\<lambda>_ m. m"] assms(1) cb put
    by (auto simp: case_prod_beta)
  then show ?thesis using assms(2) False by (simp add: Interrupt_TimerLoop_def)
qed (use assms in \<open>simp add: Interrupt_TimerLoop_def\<close>)

inductive focus_step :: "interrupt_env \<Rightarrow> InterruptService \<Rightarrow> InterruptService \<Rightarrow> bool" for E where
  step_activate: "ActivateAudioInterrupt E s z i = Inr (r, s') \<Longrightarrow> focus_step E s s'"
| step_deactivate: "DeactivateAudioInterrupt E s z i = Inr (r, s') \<Longrightarrow> focus_step E s s'"
| step_session_on: "Interrupt_ActivateAudioSession s p st = (r, s') \<Longrightarrow> focus_step E s s'"
| step_session_off: "Interrupt_DeactivateAudioSession E s p = Inr (r, s') \<Longrightarrow> focus_step E s s'"
| step_timer: "Interrupt_TimerLoop E now s = Inr s' \<Longrightarrow> focus_step E s s'"
| step_clock: "focus_step E s (s\<lparr>sysTime := now\<rparr>)"
| step_client_died: "RemoveClient E s z sid = Inr s' \<Longrightarrow> focus_step E s s'"
| step_accounts: "focus_step E s (ClearAudioFocusInfoListOnAccountsChanged s)"
| step_set_cb: "SetAudioInterruptCallback s z sid obj uid callerUid = (r, s') \<Longrightarrow> focus_step E s s'"
| step_unset_cb: "UnsetAudioInterruptCallback s z sid = (r, s') \<Longrightarrow> focus_step E s s'"
| step_request: "RequestAudioFocus s c i = (r, s') \<Longrightarrow> focus_step E s s'"
| step_abandon: "AbandonAudioFocus s c i = (r, s') \<Longrightarrow> focus_step E s s'"
| step_dispatch: "focus_step E s (DispatchInterruptEventWithSessionId E s sid ev)"
| step_handler: "focus_step E s (SetCallbackHandler s b)"

inductive focus_reach :: "interrupt_env \<Rightarrow> InterruptService \<Rightarrow> InterruptService \<Rightarrow> bool" for E s0 where
  reach_here: "focus_reach E s0 s0"
| reach_step: "focus_reach E s0 s \<Longrightarrow> focus_step E s s' \<Longrightarrow> focus_reach E s0 s'"

lemma Dispatch_zones: "zonesMap (DispatchInterruptEventWithSessionId E s sid ev) = zonesMap s"
proof -
  have "zonesMap (foldl (\<lambda>s c. emit s (ClientOnInterrupt (fst c) ev)) s cs) = zonesMap s"
    for cs :: "(u32 \<times> AudioInterruptClient) list"
    by (induction cs arbitrary: s) simp_all
  then show ?thesis
    by (auto simp: DispatchInterruptEventWithSessionId_def ShouldCallbackToClient_def
        split: option.splits prod.splits if_splits InterruptHint.splits)
qed

lemma focus_step_ok:
  assumes "focus_step E s s'" and "focus_ok s"
  shows "focus_ok s'"
  using assms
proof cases
  case (step_activate z i r)
  then show ?thesis using assms(2) by (blast intro: ActivateAudioInterrupt_ok)
next
  case (step_deactivate z i r)
  then show ?thesis using assms(2) DeactivateInternal_ok
    by (auto simp: DeactivateAudioInterrupt_def exec_bind_Inr split: if_splits)
next
  case (step_session_on p st r)
  then have "zonesMap s' = zonesMap s"
    by (auto simp: Interrupt_ActivateAudioSession_def Let_def AddActive_zones split: option.splits prod.splits if_splits)
  then show ?thesis using assms(2) focus_ok_same by blast
next
  case (step_session_off p r)
  show ?thesis
  proof (cases "sessionService s")
    case None
    then show ?thesis using step_session_off assms(2) by (simp add: Interrupt_DeactivateAudioSession_def)
  next
    case (Some svc)
    obtain r0 svc' where d: "DeactivateAudioSession svc p = (r0, svc')" by fastforce
    let ?s1 = "s\<lparr>sessionService := Some svc'\<rparr>"
    have ok1: "focus_ok ?s1" by (rule focus_ok_same [OF assms(2)]) simp
    show ?thesis
    proof (cases "r0 = SUCCESS")
      case True
      then show ?thesis using step_session_off Some d RemovePlaceholder_ok [OF ok1]
        by (auto simp: Interrupt_DeactivateAudioSession_def Let_def exec_bind_Inr)
    next
      case False
      then show ?thesis using step_session_off Some d ok1
        by (simp add: Interrupt_DeactivateAudioSession_def Let_def)
    qed
  qed
next
  case (step_timer now)
  then show ?thesis using assms(2) Interrupt_TimerLoop_ok by blast
next
  case (step_clock now)
  then show ?thesis using assms(2) focus_ok_same by simp
next
  case (step_client_died z sid)
  then obtain s1 where s1: "focus_ok s1" and s': "s' = zone_mod
      (s1\<lparr>interruptClients := AList.delete sid (interruptClients s1)\<rparr>) z
      (\<lambda>zn. zn\<lparr>interruptCbsMap := AList.delete sid (interruptCbsMap zn)\<rparr>)"
    using assms(2)
    by (auto simp: RemoveClient_def exec_bind_Inr split: option.splits dest: DeactivateInternal_ok)
  have "focus_ok (s1\<lparr>interruptClients := AList.delete sid (interruptClients s1)\<rparr>)"
    by (rule focus_ok_same [OF s1]) simp
  then show ?thesis unfolding s' by (rule focus_ok_mod) simp
next
  case step_accounts
  then show ?thesis using assms(2) clear_zones_ok
    by (simp add: ClearAudioFocusInfoListOnAccountsChanged_def)
next
  case (step_set_cb z sid obj uid callerUid r)
  then show ?thesis using assms(2)
    by (auto simp: SetAudioInterruptCallback_def Let_def split: remote_object.splits if_splits
        intro!: focus_ok_mod intro: focus_ok_same)
next
  case (step_unset_cb z sid r)
  then show ?thesis using assms(2)
    by (auto simp: UnsetAudioInterruptCallback_def Let_def split: if_splits
        intro!: focus_ok_mod intro: focus_ok_same)
next
  case (step_request c i r)
  then have "zonesMap s' = zonesMap s"
    by (auto simp: RequestAudioFocus_def Let_def NotifyFocusGranted_def NotifyFocusAbandoned_def
        AbandonAudioFocusInternal_def split: if_splits option.splits)
  then show ?thesis using assms(2) focus_ok_same by blast
next
  case (step_abandon c i r)
  then have "zonesMap s' = zonesMap s"
    by (auto simp: AbandonAudioFocus_def AbandonAudioFocusInternal_def split: if_splits)
  then show ?thesis using assms(2) focus_ok_same by blast
next
  case (step_dispatch sid ev)
  then show ?thesis using assms(2) focus_ok_same Dispatch_zones by blast
next
  case (step_handler b)
  then show ?thesis using assms(2) focus_ok_same by (simp add: SetCallbackHandler_def)
qed

lemma focus_reach_ok: "focus_reach E s0 s \<Longrightarrow> focus_ok s0 \<Longrightarrow> focus_ok s"
  by (induction rule: focus_reach.induct) (auto intro: focus_step_ok)

end
