(* ===== verification/InterruptProps.thy ===== *)
theory InterruptProps
  imports InterruptInv
begin

text \<open>
  The properties of \<open>AudioInterruptService\<close>: the invariant of its lists, what an activation and a
  deactivation do to them, the scene and the stream in focus, and the places where the code
  does something else than its callers are told.
\<close>

section \<open>Deactivation without audio sessions\<close>

lemma simulate_inner_cong:
  assumes "focusCfgMap s' = focusCfgMap s" and "interruptClients s' = interruptClients s"
    and "sessionService s' = sessionService s"
  shows "simulate_inner E s' i own cur passed infos = simulate_inner E s i own cur passed infos"
proof -
  have a: "session_active s' = session_active s" "session_of s' = session_of s"
    using assms(3) by (simp_all add: session_active_def session_of_def fun_eq_iff)
  have m: "CanMixForSession s' = CanMixForSession s"
    by (intro ext) (simp add: a CanMixForSession_def CanMixForIncomingSession_def CanMixForActiveSession_def)
  have u: "UpdateHintTypeForExistingSession s' = UpdateHintTypeForExistingSession s"
    by (intro ext) (simp add: a UpdateHintTypeForExistingSession_def)
  have c: "cfg_lookup s' = cfg_lookup s" using assms(1) by (intro ext cfg_lookup_cong)
  have g: "GetClientTypeBySessionId E s' = GetClientTypeBySessionId E s"
    using assms(2) by (intro ext GetClientType_cong)
  show ?thesis
  proof (induction infos arbitrary: cur passed)
    case (Cons f fs)
    obtain j st where f: "f = (j, st)" by (cases f)
    show ?case unfolding f simulate_inner.simps m c g u Cons.IH by (rule refl)
  qed simp
qed

definition simulated :: "interrupt_env \<Rightarrow> InterruptService \<Rightarrow> focus_info list \<Rightarrow> focus_info list" where
  "simulated E s infos = foldl (simulate_one E s) [] infos"

lemma simulated_cong:
  assumes "focusCfgMap s' = focusCfgMap s" and "interruptClients s' = interruptClients s"
    and "sessionService s' = sessionService s"
  shows "simulated E s' = simulated E s"
proof -
  have "simulate_one E s' = simulate_one E s"
    by (intro ext) (simp add: simulate_one_def simulate_inner_cong [OF assms])
  then show ?thesis by (intro ext) (simp only: simulated_def)
qed

lemma simulate_inner_interrupts:
  "interrupts (snd (simulate_inner E s i own cur passed infos)) = interrupts (passed @ infos)"
proof (induction infos arbitrary: cur passed)
  case (Cons f fs)
  obtain j st where f: "f = (j, st)" by (cases f)
  show ?case
    unfolding f simulate_inner.simps Let_def
    by (auto split: option.split simp: Cons.IH)
qed simp

text \<open>The simulation keeps every stream, in order.\<close>

lemma simulated_interrupts: "interrupts (simulated E s infos) = interrupts infos"
proof -
  have one: "interrupts (simulate_one E s sim f) = interrupts sim @ [fst f]" for sim f
  proof -
    obtain st touched where run: "simulate_inner E s (fst f) (snd f) ACTIVE [] sim = (st, touched)" by fastforce
    have "interrupts touched = interrupts sim"
      using simulate_inner_interrupts [of E s "fst f" "snd f" ACTIVE "[]" sim] run by simp
    then show ?thesis by (simp add: simulate_one_def run)
  qed
  have "interrupts (foldl (simulate_one E s) sim infos) = interrupts sim @ interrupts infos" for sim
    by (induction infos arbitrary: sim) (simp_all add: one)
  then show ?thesis by (simp add: simulated_def)
qed

text \<open>
  What the resumption makes of a list: an entry whose simulated state differs takes it, and a
  paused stream that may play again is dropped, since it has to ask for focus anew.
\<close>

fun resumed :: "interrupt_env \<Rightarrow> InterruptService \<Rightarrow> focus_info list \<Rightarrow> focus_info list \<Rightarrow> focus_info list" where
  "resumed E s (a # act) (n # new) =
     (if snd a = snd n \<or> \<not> handler s then a # resumed E s act new
      else if snd a = PAUSE \<and> (snd n = ACTIVE \<or> snd n = DUCK) \<and>
              GetClientTypeBySessionId E s (sessionId (fst a)) \<noteq> CLIENT_TYPE_GAME
      then resumed E s act new
      else (fst a, snd n) # resumed E s act new)"
| "resumed E s act new = act"

lemma resumed_cong:
  "interruptClients s' = interruptClients s \<Longrightarrow> handler s' = handler s \<Longrightarrow>
     resumed E s' act new = resumed E s act new"
proof (induction E s act new rule: resumed.induct)
  case (1 E s a act n new)
  have "GetClientTypeBySessionId E s' = GetClientTypeBySessionId E s"
    using 1(4) by (intro ext GetClientType_cong)
  with 1 show ?case by auto
qed simp_all

lemma SendInterruptEvent_effect:
  assumes "SendInterruptEvent s old new f = (st, rm, s')" and "snd f = old"
  shows "st = (if handler s then new else old) \<and> rm = (handler s \<and> old = PAUSE \<and> (new = ACTIVE \<or> new = DUCK))"
  using assms by (cases new) (auto simp: SendInterruptEvent_def Let_def split: if_splits)

lemma resume_loop_spec:
  "resume_loop E z False sc passed act new s = (infos', sc', s') \<Longrightarrow>
     infos' = passed @ resumed E s act new \<and> zonesMap s' = zonesMap s \<and>
     interruptClients s' = interruptClients s \<and> handler s' = handler s"
proof (induction E z False sc passed act new s rule: resume_loop.induct)
  case (1 E z sc passed a act n new s)
  let ?old = "snd a" and ?new = "snd n"
  have F: "\<not> (?old \<noteq> ?new \<and> False \<and> ?old = PAUSE \<and> (?new = ACTIVE \<or> ?new = DUCK))" by simp
  obtain st rm s1 where snd: "(if ?old \<noteq> ?new then SendInterruptEvent s ?old ?new a
      else (?old, False, s)) = (st, rm, s1)" by (metis prod_cases3)
  have fr: "zonesMap s1 = zonesMap s" "interruptClients s1 = interruptClients s" "handler s1 = handler s"
    using snd SendInterruptEvent_frame2 [of s ?old ?new a st rm s1] by (auto split: if_splits)
  have eff: "st = (if ?old \<noteq> ?new \<and> handler s then ?new else ?old)"
      "rm = (?old \<noteq> ?new \<and> handler s \<and> ?old = PAUSE \<and> (?new = ACTIVE \<or> ?new = DUCK))"
    using snd SendInterruptEvent_effect [of s ?old ?new a st rm s1] by (auto split: if_splits)
  have g: "GetClientTypeBySessionId E s1 sid = GetClientTypeBySessionId E s sid" for sid
    by (rule GetClientType_cong [OF fr(2)])
  show ?case
  proof (cases "rm \<and> GetClientTypeBySessionId E s1 (sessionId (fst a)) \<noteq> CLIENT_TYPE_GAME")
    case True
    let ?s2 = "SendFocusChangeEvent s1 z ABANDON_CALLBACK_CATEGORY (fst a)"
    have run: "resume_loop E z False sc passed act new ?s2 = (infos', sc', s')"
      using 1(4) snd by (simp only: resume_loop.simps Let_def if_not_P [OF F] if_P [OF True] prod.case)
    from 1(2) [OF refl refl F snd [symmetric] refl True run]
    have "infos' = passed @ resumed E ?s2 act new" "zonesMap s' = zonesMap ?s2"
      "interruptClients s' = interruptClients ?s2" "handler s' = handler ?s2" by simp_all
    moreover have "resumed E ?s2 act new = resumed E s act new"
      by (rule resumed_cong) (simp_all add: fr)
    moreover have "resumed E s (a # act) (n # new) = resumed E s act new"
      using True eff(2) g [of "sessionId (fst a)"]
      by (cases "snd n") simp_all
    ultimately show ?thesis using fr by simp
  next
    case F2: False
    let ?sc = "if GetAudioScenePriority (GetAudioSceneFromAudioInterrupt (fst a)) > GetAudioScenePriority sc
               then GetAudioSceneFromAudioInterrupt (fst a) else sc"
    have run: "resume_loop E z False ?sc (passed @ [(fst a, st)]) act new s1 = (infos', sc', s')"
      using 1(4) snd by (simp only: resume_loop.simps Let_def if_not_P [OF F] if_not_P [OF F2] prod.case)
    from 1(3) [OF refl refl F snd [symmetric] refl F2 refl refl run]
    have "infos' = passed @ (fst a, st) # resumed E s1 act new" "zonesMap s' = zonesMap s1"
      "interruptClients s' = interruptClients s1" "handler s' = handler s1" by simp_all
    moreover have "resumed E s1 act new = resumed E s act new"
      by (rule resumed_cong) (simp_all add: fr)
    moreover have "resumed E s (a # act) (n # new) = (fst a, st) # resumed E s act new"
    proof (cases "?old = ?new \<or> \<not> handler s")
      case True
      then show ?thesis using eff(1) by auto
    next
      case False
      then have "\<not> (?old = PAUSE \<and> (?new = ACTIVE \<or> ?new = DUCK) \<and>
          GetClientTypeBySessionId E s (sessionId (fst a)) \<noteq> CLIENT_TYPE_GAME)"
        using F2 eff(2) g [of "sessionId (fst a)"] by auto
      with False show ?thesis using eff(1)
        by (simp only: resumed.simps if_not_P [OF False] if_False) simp
    qed
    ultimately show ?thesis using fr by simp
  qed
qed auto

text \<open>The specification of a deactivation.\<close>

definition deactivation_spec ::
    "interrupt_env \<Rightarrow> InterruptService \<Rightarrow> u32 \<Rightarrow> focus_info list \<Rightarrow> focus_info list" where
  "deactivation_spec E s sid infos =
     (if has_session sid infos
      then resumed E s (remove_session sid infos) (simulated E s (remove_session sid infos))
      else infos)"

lemma Resume_spec:
  assumes "zone_at s z \<noteq> None"
  shows "focus_list (ResumeAudioFocusList E s z False) z =
      resumed E s (focus_list s z) (simulated E s (focus_list s z))"
proof -
  obtain infos sc s1 where run: "resume_loop E z False AUDIO_SCENE_DEFAULT [] (focus_list s z)
      (SimulateFocusEntry E s z) s = (infos, sc, s1)" by (metis prod_cases3)
  from resume_loop_spec [OF run] have i: "infos = resumed E s (focus_list s z) (SimulateFocusEntry E s z)"
    and z1: "zonesMap s1 = zonesMap s" by simp_all
  let ?s2 = "zone_mod s1 z (\<lambda>zn. zn\<lparr>audioFocusInfoList := infos\<rparr>)"
  have "zone_at s1 z \<noteq> None" using assms zone_at_cong [OF z1] by simp
  then have "focus_list ?s2 z = infos" by (auto simp: focus_list_def)
  moreover have "focus_list (ResumeAudioFocusList E s z False) z = focus_list ?s2 z"
    by (rule focus_list_cong) (simp add: ResumeAudioFocusList_def run)
  ultimately show ?thesis using i by (simp add: SimulateFocusEntry_def simulated_def)
qed

lemma DeactivateAudioInterrupt_spec:
  assumes ns: "no_sessions s" and zn: "zone_at s z = Some zn" and ps: "policyServer s"
    and np: "\<not> parallelPlayFlag i"
  shows "\<exists>s'. DeactivateAudioInterrupt E s z i = Inr (SUCCESS, s') \<and>
    focus_list s' z = deactivation_spec E s (sessionId i) (audioFocusInfoList zn) \<and>
    (\<not> has_session (sessionId i) (audioFocusInfoList zn) \<longrightarrow> s' = s)"
proof (cases "has_session (sessionId i) (audioFocusInfoList zn)")
  case False
  then show ?thesis using assms no_sessions_simps(3) [OF ns]
    by (simp add: DeactivateAudioInterrupt_def DeactivateAudioInterruptInternal_def deactivation_spec_def
        focus_list_def)
next
  case True
  let ?L = "remove_session (sessionId i) (audioFocusInfoList zn)"
  let ?s2 = "ResetNonInterruptControl E s (sessionId i)"
  let ?s3 = "zone_mod ?s2 z (\<lambda>zn'. zn'\<lparr>zoneId := z, pids := set_erase (pid i) (pids zn'),
                 audioFocusInfoList := ?L\<rparr>)"
  let ?s5 = "emit (emit (SendFocusChangeEvent ?s3 z ABANDON_CALLBACK_CATEGORY i)
               (OffloadStreamCheck OFFLOAD_NO_SESSION_ID (uint (sessionId i)))) (OffloadStopPlaying i)"
  have z2: "zone_at ?s2 z = Some zn" using zn zone_at_cong [of ?s2 s z] by simp
  have z5: "zone_at ?s5 z = zone_at ?s3 z" by (rule zone_at_cong) simp
  have l5: "focus_list ?s5 z = ?L" "zone_at ?s5 z \<noteq> None"
    using z2 unfolding focus_list_def z5 by simp_all
  have "resumed E ?s5 ?L (simulated E ?s5 ?L) = resumed E s ?L (simulated E s ?L)"
    using resumed_cong [of ?s5 s] simulated_cong [of ?s5 s] by simp
  then have "focus_list (ResumeAudioFocusList E ?s5 z False) z =
      deactivation_spec E s (sessionId i) (audioFocusInfoList zn)"
    using Resume_spec [OF l5(2)] l5(1) True by (simp add: deactivation_spec_def)
  moreover have "DeactivateAudioInterrupt E s z i = Inr (SUCCESS, ResumeAudioFocusList E ?s5 z False)"
    using zn ps np True no_sessions_simps(3) [OF ns]
    by (simp add: DeactivateAudioInterrupt_def DeactivateAudioInterruptInternal_def Let_def)
  ultimately show ?thesis using True by blast
qed

end
