(* ===== verification/FocusProps.thy ===== *)
theory FocusProps
  imports InterruptProps
begin

text \<open>
  The properties of \<open>AudioInterruptService\<close> over its specifications, each with a run of the
  service on a small configuration, and the places where the code does something else than
  its callers are told.
\<close>

section \<open>What a granted activation settles\<close>

text \<open>
  The state one existing entry demands of an incoming stream. A rejection is worth \<open>STOP\<close>, or
  \<open>PAUSE\<close> when the existing stream belongs to a game.
\<close>

definition demand :: "interrupt_env \<Rightarrow> InterruptService \<Rightarrow> AudioInterrupt \<Rightarrow> focus_info \<Rightarrow> AudioFocuState" where
  "demand E s i f =
     (let a = fst f; e = policy s a i
      in if IsSameAppInShareMode i a \<or> actionOn e = CURRENT \<or> snd f = PLACEHOLDER then ACTIVE
         else if (isReject e \<or> actionOn e = INCOMING \<and> entryHintType e = INTERRUPT_HINT_PAUSE) \<and>
                 source_concurrency a i
         then ACTIVE
         else if isReject e
         then (if GetClientTypeBySessionId E s (sessionId a) = CLIENT_TYPE_GAME then PAUSE else STOP)
         else case HINT_STATE_MAP (entryHintType e) of None \<Rightarrow> ACTIVE | Some st \<Rightarrow> st)"

text \<open>The existing entry has given way to \<open>incoming\<close> as far as the configuration asks.\<close>

definition gave_way :: "interrupt_env \<Rightarrow> InterruptService \<Rightarrow> AudioInterrupt \<Rightarrow> focus_info \<Rightarrow> bool" where
  "gave_way E s i f =
     (let a = fst f; st = snd f; e = policy s a i
      in if actionOn e \<noteq> CURRENT \<or> IsSameAppInShareMode i a \<or> st = PLACEHOLDER then True
         else case entryHintType e of
                INTERRUPT_HINT_STOP \<Rightarrow> source_concurrency a i \<or> st = PAUSE
              | INTERRUPT_HINT_PAUSE \<Rightarrow> source_concurrency a i \<or> st = PAUSE \<or> st = STOP
              | INTERRUPT_HINT_DUCK \<Rightarrow> st \<noteq> ACTIVE
              | _ \<Rightarrow> True)"

lemma focu_order [simp]:
  "ACTIVE \<le> x" "\<not> x < ACTIVE" "DUCK < PAUSE" "ACTIVE < PAUSE" "ACTIVE < DUCK" "PAUSE \<le> STOP"
  "\<not> STOP < PAUSE" "\<not> PAUSE < DUCK" "PAUSE < STOP" "DUCK < STOP" "ACTIVE < STOP"
  for x :: AudioFocuState
  by (cases x; simp add: less_eq_AudioFocuState_def less_AudioFocuState_def)+

lemma exist_after_gave_way:
  assumes "exist_after E s i f = Some f'"
  shows "fst f' = fst f \<and> gave_way E s i f' \<and> demand E s i f' = demand E s i f"
  using assms
  by (cases "entryHintType (policy s (fst f) i)"; cases "snd f")
     (auto simp: exist_after_def gave_way_def demand_def Let_def split: if_splits)

lemma HINT_STATE_le: "HINT_STATE_MAP h = Some st \<Longrightarrow> st \<le> PAUSE"
  by (cases h) (auto simp: less_eq_AudioFocuState_def)

text \<open>Short of a denial the loop of \<open>ProcessFocusEntry\<close> computes the strongest demand.\<close>

lemma incoming_state_demand:
  assumes "incoming_state E s i cur infos = Some st" and "no_sessions s" and "st < PAUSE" and "cur \<le> PAUSE"
  shows "cur \<le> st \<and> (\<forall>f\<in>set infos. demand E s i f \<le> st)"
  using assms
proof (induction infos arbitrary: cur)
  case (Cons f fs)
  obtain a sta where f: "f = (a, sta)" by (cases f)
  note mix = no_sessions_simps(1) [OF Cons.prems(2)]
  show ?case
  proof (cases "IsSameAppInShareMode i a")
    case True
    then have "demand E s i f = ACTIVE" by (simp add: f demand_def)
    then show ?thesis using Cons True by (simp add: f)
  next
    case False
    show ?thesis
    proof (cases "cfg_lookup s a i")
      case None
      then show ?thesis using Cons.prems(1) False by (simp add: f)
    next
      case (Some e)
      have e: "policy s a i = e" using Some by (simp add: policy_def)
      let ?skip = "actionOn e = CURRENT \<or> sta = PLACEHOLDER"
      let ?conc = "((actionOn e = INCOMING \<and> entryHintType e = INTERRUPT_HINT_PAUSE) \<or> isReject e) \<and>
                     source_concurrency a i"
      let ?new = "case HINT_STATE_MAP (entryHintType e) of None \<Rightarrow> ACTIVE | Some x \<Rightarrow> x"
      have run: "incoming_state E s i cur (f # fs) =
          (if ?skip \<or> ?conc then incoming_state E s i cur fs
           else if isReject e
           then (if GetClientTypeBySessionId E s (sessionId a) = CLIENT_TYPE_GAME
                 then incoming_state E s i PAUSE fs else Some STOP)
           else incoming_state E s i (if ?new > cur then ?new else cur) fs)"
        using False Some mix by (simp add: f Let_def)
      show ?thesis
      proof (cases "?skip \<or> ?conc")
        case True
        then have "demand E s i f = ACTIVE" using e by (auto simp: f demand_def Let_def)
        moreover have "incoming_state E s i cur fs = Some st" using Cons.prems(1) run True by simp
        ultimately show ?thesis using Cons.IH [OF _ Cons.prems(2,3,4)] by simp
      next
        case F: False
        show ?thesis
        proof (cases "isReject e")
          case True
          then have "incoming_state E s i PAUSE fs = Some st"
            using run F Cons.prems(1,3) by (auto split: if_splits)
          from Cons.IH [OF this Cons.prems(2,3)] have "PAUSE \<le> st" by blast
          with Cons.prems(3) show ?thesis by (meson leD)
        next
          case nr: False
          have d: "demand E s i f = ?new" using False F nr e by (auto simp: f demand_def Let_def)
          let ?cur = "if ?new > cur then ?new else cur"
          have le: "?new \<le> PAUSE" by (auto split: option.split dest: HINT_STATE_le)
          have "incoming_state E s i ?cur fs = Some st"
            using Cons.prems(1) by (simp only: run if_not_P [OF F] if_not_P [OF nr])
          moreover have "?cur \<le> PAUSE" using le Cons.prems(4) by simp
          ultimately have "?cur \<le> st \<and> (\<forall>f\<in>set fs. demand E s i f \<le> st)"
            using Cons.IH [OF _ Cons.prems(2,3)] by blast
          then show ?thesis using d by (auto split: if_splits)
        qed
      qed
    qed
  qed
qed simp


text \<open>The spec's view: an activation that succeeds.\<close>

lemma activation_spec_granted:
  assumes "activation_spec E s i infos = (SUCCESS, L)" and "no_sessions s"
  shows "\<exists>rest st. L = rest @ [(i, st)] \<and> st < PAUSE \<and>
    (\<forall>f\<in>set rest. gave_way E s i f \<and> demand E s i f \<le> st)"
proof (cases "contenders i infos = []")
  case True
  then show ?thesis using assms(1) by (intro exI [of _ "[]"]) (auto simp: activation_spec_def)
next
  case False
  let ?c = "contenders i infos"
  obtain st where st: "incoming_state E s i ACTIVE ?c = Some st"
    using assms(1) by (cases "incoming_state E s i ACTIVE ?c")
      (auto simp: activation_spec_def SUCCESS_def ERR_FOCUS_DENIED_def err_defs)
  have lt: "st < PAUSE" using assms(1) st False
    by (auto simp: activation_spec_def err_defs not_le[symmetric] split: if_splits)
  have L: "L = List.map_filter (exist_after E s i) ?c @ [(i, st)]"
    using assms(1) st False lt by (auto simp: activation_spec_def split: if_splits)
  have d: "demand E s i f \<le> st" if "f \<in> set ?c" for f
    using incoming_state_demand [OF st assms(2) lt] that by (auto simp: less_eq_AudioFocuState_def)
  have "gave_way E s i g \<and> demand E s i g \<le> st" if g: "g \<in> set (List.map_filter (exist_after E s i) ?c)" for g
  proof -
    obtain f where "f \<in> set ?c" "exist_after E s i f = Some g"
      using g by (auto simp: List.map_filter_def)
    then show ?thesis using exist_after_gave_way d by metis
  qed
  with L lt show ?thesis by blast
qed


section \<open>A small configuration\<close>

definition demo_env :: interrupt_env where
  "demo_env = \<lparr>appGallery = False, clientTypeByUid = (\<lambda>_. CLIENT_TYPE_OTHERS), audioServer = True\<rparr>"

definition demo_type :: "AudioStreamType \<Rightarrow> AudioFocusType" where
  "demo_type st = \<lparr>streamType = st, sourceType = SOURCE_TYPE_INVALID, isPlay = True\<rparr>"

definition demo_interrupt :: "AudioStreamType \<Rightarrow> u32 \<Rightarrow> int \<Rightarrow> AudioInterrupt" where
  "demo_interrupt st sid p =
     (AudioInterrupt_ctor STREAM_USAGE_MEDIA CONTENT_TYPE_MUSIC (demo_type st) sid)\<lparr>pid := p\<rparr>"

definition demo_entry :: "InterruptHint \<Rightarrow> ActionTarget \<Rightarrow> AudioFocusEntry" where
  "demo_entry hint act = \<lparr>entryForceType = INTERRUPT_FORCE, entryHintType = hint, actionOn = act, isReject = False\<rparr>"

text \<open>A call pauses music, navigation ducks it; music asked for during a call waits.\<close>

definition demo_cfg :: "(focus_key \<times> AudioFocusEntry) list" where
  "demo_cfg =
     [(focus_key (demo_type STREAM_MUSIC) (demo_type STREAM_VOICE_CALL), demo_entry INTERRUPT_HINT_PAUSE CURRENT),
      (focus_key (demo_type STREAM_MUSIC) (demo_type STREAM_NAVIGATION), demo_entry INTERRUPT_HINT_DUCK CURRENT),
      (focus_key (demo_type STREAM_VOICE_CALL) (demo_type STREAM_MUSIC), demo_entry INTERRUPT_HINT_PAUSE INCOMING)]"

definition demo_service :: InterruptService where
  "demo_service = SetCallbackHandler
     (InterruptService_ctor\<lparr>focusCfgMap := demo_cfg, policyServer := True,
        zonesMap := [(ZONEID_DEFAULT, Some (AudioInterruptZone_new\<lparr>zoneId := ZONEID_DEFAULT\<rparr>))],
        sessionService := Some (snd (SetSessionTimeOutCallback AudioSessionService_Init True))\<rparr>) True"

lemma demo_service_Init:
  "InterruptService_Init InterruptService_ctor (SUCCESS, demo_cfg) True junk =
     Some (SetCallbackHandler demo_service False)"
  by (simp add: InterruptService_Init_def CreateAudioInterruptZoneInternal_def InterruptService_ctor_def
      NewAudioInterruptZoneByPids_def put_zone_def ArchiveToNewAudioInterruptZone_def
      HitZoneIdHaveTheSamePidsZone_def demo_service_def SetCallbackHandler_def AudioInterruptZone_new_def Let_def)

definition music :: AudioInterrupt where "music = demo_interrupt STREAM_MUSIC 1 10"
definition call :: AudioInterrupt where "call = demo_interrupt STREAM_VOICE_CALL 2 20"

definition demo_act :: "InterruptService \<Rightarrow> AudioInterrupt \<Rightarrow> InterruptService" where
  "demo_act s i = snd (projr (ActivateAudioInterrupt demo_env s 0 i))"

definition demo_deact :: "InterruptService \<Rightarrow> AudioInterrupt \<Rightarrow> InterruptService" where
  "demo_deact s i = snd (projr (DeactivateAudioInterrupt demo_env s 0 i))"

lemma demo_step:
  "\<not> isl (ActivateAudioInterrupt demo_env s 0 i) \<Longrightarrow> focus_reach demo_env s0 s \<Longrightarrow> focus_reach demo_env s0 (demo_act s i)"
  unfolding demo_act_def
  by (cases "ActivateAudioInterrupt demo_env s 0 i") (auto intro: reach_step [OF _ step_activate])

lemma demo_runs:
  "\<not> isl (ActivateAudioInterrupt demo_env demo_service 0 music)"
  "\<not> isl (ActivateAudioInterrupt demo_env (demo_act demo_service music) 0 call)"
  "focus_list (demo_act demo_service music) 0 = [(music, ACTIVE)]"
  "focus_list (demo_act (demo_act demo_service music) call) 0 = [(music, PAUSE), (call, ACTIVE)]"
  by code_simp+

section \<open>Activation and deactivation\<close>

lemma Init_focus_ok:
  assumes "InterruptService_Init InterruptService_ctor loaded server junk = Some s"
  shows "focus_ok s"
proof (cases "fst loaded = SUCCESS")
  case True
  obtain r s3 where c: "CreateAudioInterruptZoneInternal
      (InterruptService_ctor\<lparr>focusCfgMap := snd loaded, policyServer := server, clientOnFocus := 0,
         focussedAudioInterruptInfo := None\<rparr>) ZONEID_DEFAULT [] junk = Some (r, s3)"
    and s: "zonesMap s = zonesMap s3" using assms True by (auto simp: InterruptService_Init_def Let_def)
  from c have "zonesMap s3 = [(0, Some (AudioInterruptZone_new\<lparr>zoneId := 0, pids := []\<rparr>))] \<or> zonesMap s3 = []"
    by (auto simp: CreateAudioInterruptZoneInternal_def NewAudioInterruptZoneByPids_def Let_def put_zone_def
        InterruptService_ctor_def ArchiveToNewAudioInterruptZone_def HitZoneIdHaveTheSamePidsZone_def emit_def
        split: option.splits if_splits)
  then show ?thesis unfolding focus_ok_def focus_list_def zone_at_def s
    by (auto simp: AudioInterruptZone_new_def)
next
  case False
  then show ?thesis using assms
    by (auto simp: InterruptService_Init_def Let_def InterruptService_ctor_def focus_ok_def focus_list_def zone_at_def)
qed

text \<open>
  C3: from initialisation on, under every sequence of activations, deactivations, audio session
  operations, passes of the session timer (which drop the expired sessions and run the time-out
  of each), client deaths and account changes, a stream has at most one entry in the focus list
  of a zone.
\<close>

theorem focus_sessions_unique:
  assumes "InterruptService_Init InterruptService_ctor loaded server junk = Some s0"
    and "focus_reach E s0 s"
  shows "distinct (map (\<lambda>f. sessionId (fst f)) (focus_list s z))"
  using focus_reach_ok [OF assms(2) Init_focus_ok [OF assms(1)]]
  by (simp add: focus_ok_def sids_def interrupts_def comp_def)

text \<open>A process activates a session, plays and stops; its stream keeps its place until the session expires.\<close>

abbreviation demo_strategy :: AudioSessionStrategy where
  "demo_strategy \<equiv> \<lparr>concurrencyMode = MODE_DEFAULT\<rparr>"

definition demo_held :: InterruptService where
  "demo_held = demo_deact (demo_act (snd (Interrupt_ActivateAudioSession demo_service (pid music) demo_strategy)) music) music"

lemma demo_expiry:
  "\<not> isl (ActivateAudioInterrupt demo_env (snd (Interrupt_ActivateAudioSession demo_service (pid music) demo_strategy)) 0 music)"
  "\<not> isl (DeactivateAudioInterrupt demo_env (demo_act (snd (Interrupt_ActivateAudioSession demo_service (pid music) demo_strategy)) music) 0 music)"
  "focus_list demo_held 0 = [(music, PLACEHOLDER)]" "session_active demo_held (pid music)"
  "\<not> isl (Interrupt_TimerLoop demo_env 60 demo_held)"
  "focus_list (projr (Interrupt_TimerLoop demo_env 60 demo_held)) 0 = []"
  "\<not> session_active (projr (Interrupt_TimerLoop demo_env 60 demo_held)) (pid music)"
  by code_simp+

lemma demo_expired:
  assumes "focus_reach demo_env s0 demo_service"
  shows "focus_reach demo_env s0 (projr (Interrupt_TimerLoop demo_env 60 demo_held))"
proof -
  let ?a = "snd (Interrupt_ActivateAudioSession demo_service (pid music) demo_strategy)"
  have "focus_reach demo_env s0 ?a"
    by (rule reach_step [OF assms step_session_on [where p = "pid music" and st = demo_strategy]]) (rule prod.collapse [symmetric])
  then have a: "focus_reach demo_env s0 (demo_act ?a music)" by (rule demo_step [OF demo_expiry(1)])
  obtain r t where d: "DeactivateAudioInterrupt demo_env (demo_act ?a music) 0 music = Inr (r, t)"
    using demo_expiry(2) by (cases "DeactivateAudioInterrupt demo_env (demo_act ?a music) 0 music") auto
  have "focus_reach demo_env s0 demo_held"
    using reach_step [OF a step_deactivate [OF d]] by (simp add: demo_held_def demo_deact_def d)
  then show ?thesis
    using demo_expiry(5) reach_step [OF _ step_timer]
    by (cases "Interrupt_TimerLoop demo_env 60 demo_held") auto
qed

theorem focus_sessions_unique_witness:
  "focus_list (demo_act (demo_act demo_service music) call) 0 = [(music, PAUSE), (call, ACTIVE)] \<and>
   distinct [sessionId music, sessionId call] \<and>
   (\<exists>s. focus_reach demo_env (SetCallbackHandler demo_service False) s \<and> \<not> session_active s (pid music) \<and> focus_list s 0 = [])"
proof -
  let ?s0 = "SetCallbackHandler demo_service False"
  have "SetCallbackHandler ?s0 True = demo_service" by (simp add: SetCallbackHandler_def demo_service_def)
  then have r: "focus_reach demo_env ?s0 demo_service"
    using reach_step [OF reach_here step_handler, of demo_env ?s0 True] by simp
  have "focus_reach demo_env ?s0 (demo_act (demo_act demo_service music) call)"
    by (intro demo_step demo_runs r)
  from focus_sessions_unique [OF demo_service_Init this, of 0] demo_runs(4) demo_expired [OF r] demo_expiry(6,7)
  show ?thesis by auto
qed

text \<open>
  C1: with no audio session active and the policy server set, an activation of a stream without the
  flag for parallel play on an existing zone always returns, with the code and the focus list \<open>activation_spec\<close> computes
  from the list before. It leaves the other zones, the sessions, the clients and every entry of the
  configuration as they are; a pair of streams that was missing from the configuration may have
  got the default entry.
\<close>

theorem activation_refines_spec:
  assumes "no_sessions s" and "zone_at s z = Some zn" and "policyServer s" and "\<not> parallelPlayFlag i"
  shows "\<exists>r s'. ActivateAudioInterrupt E s z i = Inr (r, s') \<and>
    (r, focus_list s' z) = activation_spec E s i (audioFocusInfoList zn) \<and> walk_frame z s s'"
  using ActivateAudioInterrupt_spec [OF assms] .

lemma demo_no_sessions: "no_sessions demo_service"
  by (simp add: no_sessions_def session_active_def demo_service_def SetCallbackHandler_def
      IsAudioSessionActivated_def AudioSessionService_Init_def SetSessionTimeOutCallback_def)

theorem activation_refines_spec_witness:
  "\<exists>s'. ActivateAudioInterrupt demo_env (demo_act demo_service music) 0 call = Inr (SUCCESS, s') \<and>
     focus_list s' 0 = [(music, PAUSE), (call, ACTIVE)]"
proof -
  let ?s = "demo_act demo_service music"
  have "no_sessions ?s"
  proof -
    have "sessionService ?s \<noteq> None" "sessionMap (the (sessionService ?s)) = []" by code_simp+
    then show ?thesis by (auto simp: no_sessions_def session_active_def IsAudioSessionActivated_def)
  qed
  moreover obtain zn where zn: "zone_at ?s 0 = Some zn" and l: "audioFocusInfoList zn = [(music, ACTIVE)]"
    using demo_runs(3) by (auto simp: focus_list_def split: option.splits)
  moreover have "policyServer ?s" "\<not> parallelPlayFlag call" by code_simp+
  ultimately obtain r s' where run: "ActivateAudioInterrupt demo_env ?s 0 call = Inr (r, s')"
    and "(r, focus_list s' 0) = activation_spec demo_env ?s call [(music, ACTIVE)]"
    using activation_refines_spec [of ?s 0 zn call demo_env] by auto
  moreover have "activation_spec demo_env ?s call [(music, ACTIVE)] = (SUCCESS, [(music, PAUSE), (call, ACTIVE)])"
    by code_simp
  ultimately show ?thesis by auto
qed


text \<open>
  C2: with no audio session active, the policy server set and without the flag for parallel play, a
  granted activation on an existing zone settles every conflict the way the configuration says. The incoming stream is the last entry,
  playing or ducked; every other entry has given way as far as its pair asks, and what it demands
  of the incoming stream is no more than the state the incoming stream got.
\<close>

theorem granted_activation_respects_policy:
  assumes "no_sessions s" and "zone_at s z = Some zn" and "policyServer s" and "\<not> parallelPlayFlag i"
    and "ActivateAudioInterrupt E s z i = Inr (SUCCESS, s')"
  shows "\<exists>rest st. focus_list s' z = rest @ [(i, st)] \<and> st < PAUSE \<and>
    (\<forall>f\<in>set rest. gave_way E s i f \<and> demand E s i f \<le> st)"
  using activation_spec_granted [OF _ assms(1)] ActivateAudioInterrupt_spec [OF assms(1-4), of E] assms(5) by auto

lemma demo_music_no_sessions: "no_sessions (demo_act demo_service music)"
proof -
  have "sessionService (demo_act demo_service music) \<noteq> None"
    "sessionMap (the (sessionService (demo_act demo_service music))) = []" by code_simp+
  then show ?thesis by (auto simp: no_sessions_def session_active_def IsAudioSessionActivated_def)
qed

lemma demo_music_zone:
  obtains zn where "zone_at (demo_act demo_service music) 0 = Some zn" and "audioFocusInfoList zn = [(music, ACTIVE)]"
  using demo_runs(3) by (auto simp: focus_list_def split: option.splits)

lemma demo_music_server: "policyServer (demo_act demo_service music)" by code_simp

theorem granted_activation_respects_policy_witness:
  "gave_way demo_env (demo_act demo_service music) call (music, PAUSE) \<and>
   demand demo_env (demo_act demo_service music) call (music, PAUSE) \<le> ACTIVE"
proof -
  let ?s = "demo_act demo_service music"
  obtain zn where zn: "zone_at ?s 0 = Some zn" by (rule demo_music_zone)
  have par: "\<not> parallelPlayFlag call" by code_simp
  have "fst (projr (ActivateAudioInterrupt demo_env ?s 0 call)) = SUCCESS" by code_simp
  then have "ActivateAudioInterrupt demo_env ?s 0 call = Inr (SUCCESS, demo_act ?s call)"
    using demo_runs(2) by (cases "ActivateAudioInterrupt demo_env ?s 0 call") (auto simp: demo_act_def)
  from granted_activation_respects_policy [OF demo_music_no_sessions zn demo_music_server par this]
  show ?thesis using demo_runs(4) by auto
qed



section \<open>The first stream of a session\<close>

text \<open>
  When a process with an active, empty audio session starts the first stream of a zone, the
  stream is granted focus but is not recorded in the session, and the session's timer is left as
  it is: \<open>ProcessAudioScene\<close> removes the stream from the session where it means to add it. The
  timer that runs since the session was activated goes on while the stream plays.
\<close>

theorem first_stream_missing_from_session:
  assumes "zone_at s z = Some zn" and "audioFocusInfoList zn = []" and "policyServer s" and "\<not> parallelPlayFlag i"
    and "session_of s (pid i) = Some sess" and "interruptMap sess = []"
  shows "\<exists>s'. ActivateAudioInterrupt E s z i = Inr (SUCCESS, s') \<and> focus_list s' z = [(i, ACTIVE)] \<and>
    session_of s' (pid i) = Some sess \<and>
    map_option sessionTimer (sessionService s') = map_option sessionTimer (sessionService s)"
proof -
  let ?s2 = "emit (emit (ResetNonInterruptControl E s (sessionId i)) (CheckStreamMode (sessionId i)))
                        (OffloadStreamCheck (uint (sessionId i)) OFFLOAD_NO_SESSION_ID)"
  obtain svc where svc: "sessionService s = Some svc" and m: "map_of (sessionMap svc) (pid i) = Some sess"
    using assms(5) by (auto simp: session_of_def GetAudioSessionByPid_def split: option.splits)
  have zm: "map_of (zonesMap ?s2) z = Some (Some zn)" using assms(1) by (simp add: zone_at_Some)
  let ?s0 = "zone_mod ?s2 z (\<lambda>zn. zn\<lparr>zoneId := z\<rparr>)"
  let ?s3 = "zone_mod ?s0 z (\<lambda>zn. zn\<lparr>pids := set_insert (pid i) (pids zn),
                                            audioFocusInfoList := audioFocusInfoList zn @ [(i, ACTIVE)]\<rparr>)"
  let ?s4 = "session_mod ?s3 (\<lambda>svc. session_remove (sysTime ?s3) svc (pid i) (sessionId i))"
  let ?s5 = "SendFocusChangeEvent ?s4 z REQUEST_CALLBACK_CATEGORY i"
  let ?s6 = "UpdateAudioSceneFromInterrupt ?s5 (GetHighestPriorityAudioScene ?s5 z) ACTIVATE_AUDIO_INTERRUPT"
  have at2: "zone_at ?s2 z = Some zn" using zm by (simp add: zone_at_Some)
  have l0: "focus_list ?s0 z = []" using at2 assms(2) by (simp add: focus_list_def)
  have sv3: "sessionService ?s3 = Some svc" using svc by simp
  have act: "session_active ?s3 (pid i)" "session_of ?s3 (pid i) \<noteq> None"
    using sv3 m by (simp_all add: session_active_def session_of_def IsAudioSessionActivated_def GetAudioSessionByPid_def)
  have "ProcessAudioScene ?s2 i (sessionId i) z = (?s6, True)"
    unfolding ProcessAudioScene_def zm option.case Let_def l0 by (simp add: act)
  then have run: "ActivateAudioInterrupt E s z i = Inr (SUCCESS, ?s6)"
    using assms(3,4) by (simp add: ActivateAudioInterrupt_def Let_def)
  have "focus_list ?s6 z = focus_list ?s3 z" by (rule focus_list_cong) simp
  moreover have "focus_list ?s3 z = [(i, ACTIVE)]" using at2 assms(2) by (simp add: focus_list_def)
  moreover have "session_remove (sysTime ?s3) svc (pid i) (sessionId i) =
      svc\<lparr>sessionMap := AList.update (pid i) sess (sessionMap svc)\<rparr>"
    using m assms(6) by (simp add: session_remove_def GetAudioSessionByPid_def RemoveAudioInterrptByStreamId_def)
  then have "sessionService ?s6 = Some (svc\<lparr>sessionMap := AList.update (pid i) sess (sessionMap svc)\<rparr>)"
    using svc by simp
  ultimately show ?thesis using run svc
    by (auto simp: session_of_def GetAudioSessionByPid_def map_of_update)
qed

theorem first_stream_missing_from_session_witness:
  "\<exists>s'. ActivateAudioInterrupt demo_env (snd (Interrupt_ActivateAudioSession demo_service 10
       \<lparr>concurrencyMode = MIX_WITH_OTHERS\<rparr>)) 0 music = Inr (SUCCESS, s') \<and>
     IsSessionTimerRunning (sessionTimer (the (sessionService s'))) 10"
proof -
  let ?s = "snd (Interrupt_ActivateAudioSession demo_service 10 \<lparr>concurrencyMode = MIX_WITH_OTHERS\<rparr>)"
  have z: "zone_at ?s 0 = Some (AudioInterruptZone_new\<lparr>zoneId := ZONEID_DEFAULT\<rparr>)" by code_simp
  have l: "audioFocusInfoList (AudioInterruptZone_new\<lparr>zoneId := ZONEID_DEFAULT\<rparr>) = []" by code_simp
  have p: "policyServer ?s" "\<not> parallelPlayFlag music" "pid music = 10" by code_simp+
  have se: "session_of ?s 10 = Some (AudioSession_Activate (AudioSession_ctor 10 \<lparr>concurrencyMode = MIX_WITH_OTHERS\<rparr>))"
    and ie: "interruptMap (AudioSession_Activate (AudioSession_ctor 10 \<lparr>concurrencyMode = MIX_WITH_OTHERS\<rparr>)) = []"
    and t: "sessionService ?s \<noteq> None" "IsSessionTimerRunning (sessionTimer (the (sessionService ?s))) 10"
    by code_simp+
  from first_stream_missing_from_session [OF z l p(1,2) _ ie, of demo_env] se p(3) t show ?thesis
    by auto
qed


section \<open>The configuration changes under lookups\<close>

text \<open>A navigation prompt of the process that holds the call, and one of another process.\<close>

definition prompt_own :: AudioInterrupt where "prompt_own = demo_interrupt STREAM_NAVIGATION 5 20"
definition prompt_other :: AudioInterrupt where "prompt_other = demo_interrupt STREAM_NAVIGATION 6 30"

text \<open>
  A pair of streams missing from the configuration is refused, until a stream of the same
  process as the existing one has been activated: \<open>ProcessActiveInterrupt\<close> looks the pair up
  with \<open>operator[]\<close>, which stores a default entry, and the check in \<open>ProcessFocusEntry\<close> then
  finds it. The same request is refused before and granted after.
\<close>

theorem lookup_pollutes_configuration:
  "fst (projr (ActivateAudioInterrupt demo_env (demo_act demo_service call) 0 prompt_other)) = ERR_FOCUS_DENIED \<and>
   fst (projr (ActivateAudioInterrupt demo_env
     (demo_deact (demo_act (demo_act demo_service call) prompt_own) prompt_own) 0 prompt_other)) = SUCCESS \<and>
   focus_list (demo_deact (demo_act (demo_act demo_service call) prompt_own) prompt_own) 0 =
     focus_list (demo_act demo_service call) 0"
  by (intro conjI; code_simp)

section \<open>The stream and the scene in focus\<close>

text \<open>
  The scene reported for a zone is one of highest priority: its priority is the maximum over
  the default scene and the scenes of the streams in the zone's list.
\<close>

theorem highest_scene_is_maximum:
  "GetAudioScenePriority (GetHighestPriorityAudioScene s z) =
     Max (insert 1 ((\<lambda>f. GetAudioScenePriority (GetAudioSceneFromAudioInterrupt (fst f))) ` set (focus_list s z)))"
proof -
  let ?g = "\<lambda>sc i. let it = GetAudioSceneFromAudioInterrupt (fst i)
                   in if GetAudioScenePriority it > GetAudioScenePriority sc then it else sc"
  let ?p = "\<lambda>f. GetAudioScenePriority (GetAudioSceneFromAudioInterrupt (fst f))"
  have "GetAudioScenePriority (foldl ?g sc fs) = Max (insert (GetAudioScenePriority sc) (?p ` set fs))"
    for sc and fs :: "focus_info list"
  proof (induction fs arbitrary: sc)
    case (Cons f fs)
    have "GetAudioScenePriority (?g sc f) = max (GetAudioScenePriority sc) (?p f)"
      by (simp add: Let_def max_def)
    moreover have "Max (insert (max a b) S) = max a (Max (insert b S))" if "finite S" for a b :: int and S
      using that by (cases "S = {}") (simp_all add: max.assoc)
    ultimately show ?case using Cons.IH [of "?g sc f"] by (simp add: insert_commute)
  qed simp
  moreover have "GetAudioScenePriority AUDIO_SCENE_DEFAULT = 1" by (simp add: GetAudioScenePriority_def)
  ultimately show ?thesis by (simp add: GetHighestPriorityAudioScene_def)
qed

section \<open>Zones\<close>

lemma copy_self_Some:
  assumes "copy_self p queue zn = Some zn'"
  shows "p \<notin> (\<lambda>f. pid (fst f)) ` set queue"
proof (rule copy_self.raw_induct [OF _ assms, where P = "\<lambda>p queue zn zn'. p \<notin> (\<lambda>f. pid (fst f)) ` set queue"])
  fix copy p queue zn zn'
  assume IH: "\<And>p queue zn zn'. copy p queue zn = Some zn' \<Longrightarrow> p \<notin> (\<lambda>f. pid (fst f)) ` set queue"
    and eq: "(case queue of [] \<Rightarrow> Some zn
      | info # rest \<Rightarrow>
          if pid (fst info) = p
          then copy p (rest @ [info]) (copy_info p (interruptCbsMap zn) zn info)
          else copy p rest (copy_info p (interruptCbsMap zn) zn info)) = Some zn'"
  show "p \<notin> (\<lambda>f. pid (fst f)) ` set queue"
  proof (cases queue)
    case (Cons info rest)
    show ?thesis
    proof (cases "pid (fst info) = p")
      case True
      then have "copy p (rest @ [info]) (copy_info p (interruptCbsMap zn) zn info) = Some zn'"
        using eq Cons by simp
      from IH [OF this] True show ?thesis by auto
    next
      case False
      then have "copy p rest (copy_info p (interruptCbsMap zn) zn info) = Some zn'" using eq Cons by simp
      from IH [OF this] False Cons show ?thesis by auto
    qed
  qed simp
qed

lemma copy_info_keeps: "set (audioFocusInfoList zn) \<subseteq> set (audioFocusInfoList (copy_info p cbs zn f))"
  by (auto simp: copy_info_def Let_def split: option.split)

lemma copy_client_list [simp]: "audioFocusInfoList (copy_client p cl zn) = audioFocusInfoList zn"
  by (simp add: copy_client_def split: option.split)

lemma Deal_keeps: "set (audioFocusInfoList zn) \<subseteq> set (audioFocusInfoList (DealAudioInterruptZoneData p from zn))"
proof -
  have "set (audioFocusInfoList zn) \<subseteq> set (audioFocusInfoList (foldl (copy_info p cbs) zn fs))" for fs cbs
  proof (induction fs arbitrary: zn)
    case (Cons f fs)
    then show ?case using copy_info_keeps [of zn p cbs f] by force
  qed simp
  then show ?thesis by (simp add: DealAudioInterruptZoneData_def)
qed

lemma Deal_self_Some:
  assumes "DealAudioInterruptZoneData_self p zn = Some zn'"
  shows "p \<notin> (\<lambda>f. pid (fst f)) ` set (audioFocusInfoList zn)"
  using assms copy_self_Some [of p "audioFocusInfoList zn" zn]
  by (simp add: DealAudioInterruptZoneData_self_def split: option.splits) blast

lemma copy_self_keeps:
  assumes "copy_self p queue zn = Some zn'"
  shows "set (audioFocusInfoList zn) \<subseteq> set (audioFocusInfoList zn')"
proof (rule copy_self.raw_induct [OF _ assms,
    where P = "\<lambda>p queue zn zn'. set (audioFocusInfoList zn) \<subseteq> set (audioFocusInfoList zn')"])
  fix copy p queue zn zn'
  assume IH: "\<And>p queue zn zn'. copy p queue zn = Some zn' \<Longrightarrow>
      set (audioFocusInfoList zn) \<subseteq> set (audioFocusInfoList zn')"
    and eq: "(case queue of [] \<Rightarrow> Some zn
      | info # rest \<Rightarrow>
          if pid (fst info) = p
          then copy p (rest @ [info]) (copy_info p (interruptCbsMap zn) zn info)
          else copy p rest (copy_info p (interruptCbsMap zn) zn info)) = Some zn'"
  show "set (audioFocusInfoList zn) \<subseteq> set (audioFocusInfoList zn')"
  proof (cases queue)
    case (Cons info rest)
    then obtain q where "copy p q (copy_info p (interruptCbsMap zn) zn info) = Some zn'"
      using eq by (auto split: if_splits)
    from IH [OF this] copy_info_keeps [of zn p "interruptCbsMap zn" info] show ?thesis by blast
  qed (use eq in simp)
qed

lemma fill_zone_Some:
  assumes "fill_zone self p zs zn = Some zn'"
  shows "set (audioFocusInfoList zn) \<subseteq> set (audioFocusInfoList zn') \<and>
    (self \<in> Some ` fst ` set zs \<longrightarrow> p \<notin> (\<lambda>f. pid (fst f)) ` set (audioFocusInfoList zn))"
  using assms
proof (induction zs arbitrary: zn)
  case (Cons entry zs)
  obtain z zp where e: "entry = (z, zp)" by (cases entry)
  show ?case
  proof (cases "self = Some z")
    case True
    then obtain zn1 where d: "DealAudioInterruptZoneData_self p zn = Some zn1" and f: "fill_zone self p zs zn1 = Some zn'"
      using Cons.prems e by (auto split: option.splits)
    have "set (audioFocusInfoList zn) \<subseteq> set (audioFocusInfoList zn1)"
      using d copy_self_keeps by (fastforce simp: DealAudioInterruptZoneData_self_def)
    then show ?thesis using Deal_self_Some [OF d] Cons.IH [OF f] by blast
  next
    case False
    then obtain zn1 where f: "fill_zone self p zs zn1 = Some zn'"
      and k: "set (audioFocusInfoList zn) \<subseteq> set (audioFocusInfoList zn1)"
      using Cons.prems e Deal_keeps by (cases zp) auto
    show ?thesis using Cons.IH [OF f] k False e by auto
  qed
qed simp

lemma fill_zone_pids_Some:
  assumes "fill_zone_pids self ps zs zn = Some zn'" and "self \<in> Some ` fst ` set zs"
  shows "set ps \<inter> (\<lambda>f. pid (fst f)) ` set (audioFocusInfoList zn) = {}"
  using assms
proof (induction ps arbitrary: zn)
  case (Cons p ps)
  then obtain zn1 where f: "fill_zone self p zs zn = Some zn1" and r: "fill_zone_pids self ps zs zn1 = Some zn'"
    by (auto split: option.splits)
  from fill_zone_Some [OF f] Cons.IH [OF r] Cons.prems(2) show ?case by auto
qed simp


lemma set_insert_mem: "set (foldl (\<lambda>qs p. set_insert p qs) qs ps) = set qs \<union> set ps"
  by (induction ps arbitrary: qs) (auto simp: set_insert_def set_insort_insert)

text \<open>
  C17: \<open>AddAudioInterruptZonePids\<close> on an existing zone that holds a stream of one of the zone's
  own or the added processes never returns: \<open>DealAudioInterruptZoneData\<close> is called with the zone
  as its own source, and appends to the list it is walking.
\<close>

theorem add_pids_never_returns:
  assumes "zone_at s z = Some zn" and "f \<in> set (audioFocusInfoList zn)"
    and "pid (fst f) \<in> set (pids zn) \<union> set ps"
  shows "AddAudioInterruptZonePids s UID_AUDIO z ps junk = None"
proof -
  let ?zn1 = "zn\<lparr>pids := foldl (\<lambda>qs p. set_insert p qs) (pids zn) ps\<rparr>"
  let ?s1 = "put_zone s z ?zn1"
  have z: "map_of (zonesMap s) z = Some (Some zn)" using assms(1) by (simp add: zone_at_Some)
  have "z \<in> fst ` set (zonesMap ?s1)"
    by (metis map_of_eq_None_iff option.distinct(1) zone_at_Some zone_at_put)
  then have "fill_zone_pids (Some z) (pids ?zn1) (zonesMap ?s1) (?zn1\<lparr>zoneId := z, pids := pids ?zn1\<rparr>) = None"
    using fill_zone_pids_Some [of "Some z" "pids ?zn1" "zonesMap ?s1" "?zn1\<lparr>zoneId := z, pids := pids ?zn1\<rparr>"]
      assms(2,3) set_insert_mem [of "pids zn" ps]
    by (cases "fill_zone_pids (Some z) (pids ?zn1) (zonesMap ?s1) (?zn1\<lparr>zoneId := z, pids := pids ?zn1\<rparr>)") auto
  then show ?thesis
    by (cases zn) (simp add: AddAudioInterruptZonePids_def CheckAudioInterruptZonePermission_def z Let_def
        NewAudioInterruptZoneByPids_def)
qed

definition demo_zone :: AudioInterruptZone where
  "demo_zone = AudioInterruptZone_new\<lparr>zoneId := 5, pids := [10], audioFocusInfoList := [(music, ACTIVE)]\<rparr>"

definition demo_zones :: InterruptService where
  "demo_zones = demo_act (put_zone demo_service 5 demo_zone) call"

theorem add_pids_never_returns_witness:
  "AddAudioInterruptZonePids demo_zones UID_AUDIO 5 [40] 0 = None"
proof -
  have z: "zone_at demo_zones 5 = Some demo_zone" by code_simp
  have "(music, ACTIVE) \<in> set (audioFocusInfoList demo_zone)"
    "pid (fst (music, ACTIVE)) \<in> set (pids demo_zone) \<union> set [40]" by code_simp+
  from add_pids_never_returns [OF z this] show ?thesis .
qed

lemma HitZoneId_two:
  assumes "ps \<noteq> []" and "\<not> (\<forall>q\<in>set qs. hd ps = q)"
  shows "HitZoneId ps qs z hit True = (hit, False)"
  using assms by (cases ps) (auto simp: list_ex_iff)

text \<open>
  The search for a zone with the same processes finds none for a set of two or more, equal
  sets included, since it asks every process to equal every process of the zone. \<open>hitZoneId\<close>
  then keeps the value of an uninitialised variable, and the zone whose id it happens to hold is
  emptied into the new one and removed.
\<close>

theorem same_pids_zone_not_found:
  assumes "2 \<le> length ps" and "\<And>z zn. (z, Some zn) \<in> set (zonesMap s) \<Longrightarrow> distinct (pids zn)"
  shows "HitZoneIdHaveTheSamePidsZone s ps junk = junk"
proof -
  have "hit_loop zs ps junk = junk" if "\<And>z zn. (z, Some zn) \<in> set zs \<Longrightarrow> distinct (pids zn)" for zs
    using that
  proof (induction zs)
    case (Cons entry zs)
    obtain z zp where e: "entry = (z, zp)" by (cases entry)
    have rest: "hit_loop zs ps junk = junk" using Cons.IH Cons.prems by (meson list.set_intros(2))
    have miss: "HitZoneId ps (pids zn) z junk True = (junk, False)"
      if "zp = Some zn" and len: "length ps = length (pids zn)" for zn
    proof (rule HitZoneId_two)
      have d: "distinct (pids zn)" by (rule Cons.prems [of z]) (simp add: e that(1))
      obtain a b r where ab: "pids zn = a # b # r"
        using assms(1) len by (cases "pids zn"; cases "tl (pids zn)") auto
      then show "\<not> (\<forall>q\<in>set (pids zn). hd ps = q)" using d by auto
    qed (use assms(1) in auto)
    show ?case using rest miss by (simp add: e split: option.splits)
  qed simp
  with assms(2) show ?thesis by (simp add: HitZoneIdHaveTheSamePidsZone_def)
qed

definition demo_pair :: InterruptService where
  "demo_pair = put_zone demo_service 5 (demo_zone\<lparr>pids := [10, 11]\<rparr>)"

theorem same_pids_zone_not_found_witness:
  "HitZoneIdHaveTheSamePidsZone demo_pair [10, 11] 0 = 0 \<and> HitZoneIdHaveTheSamePidsZone demo_pair [10, 11] 5 = 5 \<and>
   map_option (\<lambda>r. focus_list (snd r) 5) (CreateAudioInterruptZone demo_pair UID_AUDIO 7 [10, 11] 0) = Some [(music, ACTIVE)] \<and>
   map_option (\<lambda>r. focus_list (snd r) 5) (CreateAudioInterruptZone demo_pair UID_AUDIO 7 [10, 11] 5) = Some []"
proof -
  have "zonesMap demo_pair = [(0, Some (AudioInterruptZone_new\<lparr>zoneId := ZONEID_DEFAULT\<rparr>)), (5, Some (demo_zone\<lparr>pids := [10, 11]\<rparr>))]"
    by code_simp
  then have "distinct (pids zn)" if "(z, Some zn) \<in> set (zonesMap demo_pair)" for z zn
    using that by (auto simp: AudioInterruptZone_new_def)
  note h = same_pids_zone_not_found [OF _ this, of "[10, 11]"]
  have "map_option (\<lambda>r. focus_list (snd r) 5) (CreateAudioInterruptZone demo_pair UID_AUDIO 7 [10, 11] 0) = Some [(music, ACTIVE)]"
    "map_option (\<lambda>r. focus_list (snd r) 5) (CreateAudioInterruptZone demo_pair UID_AUDIO 7 [10, 11] 5) = Some []"
    by code_simp+
  with h show ?thesis by simp
qed

text \<open>
  Creating a zone for a process that plays in the default zone and releasing it again leaves
  the stream twice in the default zone: creation copies the entries and release appends them.
\<close>

theorem create_release_duplicates_stream:
  "map_option (\<lambda>r. focus_list (snd (ReleaseAudioInterruptZone (snd r) UID_AUDIO 5)) ZONEID_DEFAULT)
     (CreateAudioInterruptZone (demo_act demo_service music) UID_AUDIO 5 [10] 0) =
   Some [(music, ACTIVE), (music, ACTIVE)]"
  by code_simp

end
