(* ===== verification/Float32.thy ===== *)
theory Float32
  imports Prelude
begin

text \<open>
  IEEE 754 arithmetic as the code's \<open>float\<close> expressions use it: every operation is the exact
  result on rationals, rounded to nearest with ties to even at 24 bits of precision (53 for a
  \<open>double\<close>), with the subnormal range and overflow to an infinity. The sign of a zero and the
  payload of a NaN are not represented. An operation is rounded by itself: contraction of a
  multiplication and an addition into one instruction is not modelled.
\<close>

section \<open>The binary exponent of a rational\<close>

fun ilog2 :: "nat \<Rightarrow> nat" where
  "ilog2 n = (if n < 2 then 0 else Suc (ilog2 (n div 2)))"

declare ilog2.simps [simp del]

lemma ilog2_bounds: "0 < n \<Longrightarrow> 2 ^ ilog2 n \<le> n \<and> n < 2 ^ Suc (ilog2 n)"
proof (induction n rule: ilog2.induct)
  case (1 n)
  show ?case
  proof (cases "n < 2")
    case True
    then show ?thesis using 1(2) by (simp add: ilog2.simps [of n])
  next
    case False
    then have "2 ^ ilog2 (n div 2) \<le> n div 2 \<and> n div 2 < 2 ^ Suc (ilog2 (n div 2))" using 1(1) by simp
    with False show ?thesis by (simp add: ilog2.simps [of n]) linarith
  qed
qed

definition pow2 :: "int \<Rightarrow> rat" where
  "pow2 k = (if 0 \<le> k then 2 ^ nat k else 1 / 2 ^ nat (- k))"

lemma pow2_powi: "pow2 k = 2 powi k"
  by (simp add: pow2_def power_int_def power_one_over)

lemma pow2_pos [simp]: "0 < pow2 k" "pow2 k \<noteq> 0" "0 \<le> pow2 k" "\<not> pow2 k < 0"
  by (simp_all add: pow2_powi not_less)

lemma pow2_add: "pow2 (a + b) = pow2 a * pow2 b"
  by (simp add: pow2_powi power_int_add)

lemma pow2_mono: "a \<le> b \<Longrightarrow> pow2 a \<le> pow2 b"
  by (simp add: pow2_powi power_int_increasing)

lemma pow2_diff: "pow2 (a - b) = pow2 a / pow2 b"
  by (simp add: pow2_powi power_int_diff)

lemma pow2_nat: "pow2 (int n) = of_int (2 ^ n)"
  by (simp add: pow2_powi)

lemma pow2_split: "a \<le> b \<Longrightarrow> pow2 b = of_int (2 ^ nat (b - a)) * pow2 a"
  using pow2_add [of "int (nat (b - a))" a] unfolding pow2_nat by simp

lemma pow2_Suc: "pow2 (k + 1) = 2 * pow2 k"
  by (simp add: pow2_add) (simp add: pow2_def)

text \<open>The exponent \<open>e\<close> with \<open>2\<^sup>e \<le> x < 2\<^sup>e\<^sup>+\<^sup>1\<close>, for positive \<open>x\<close>.\<close>

definition expo :: "rat \<Rightarrow> int" where
  "expo x = (case quotient_of x of (p, q) \<Rightarrow>
     let k = int (ilog2 (nat p)) - int (ilog2 (nat q)) in if pow2 k \<le> x then k else k - 1)"

lemma expo_bounds:
  assumes "0 < x"
  shows "pow2 (expo x) \<le> x \<and> x < 2 * pow2 (expo x)"
proof -
  obtain p q where pq: "quotient_of x = (p, q)" by fastforce
  have x: "x = of_int p / of_int q" and q: "0 < q" using pq quotient_of_div quotient_of_denom_pos by blast+
  have p: "0 < p" using assms x q by (simp add: zero_less_divide_iff)
  let ?a = "ilog2 (nat p)" and ?b = "ilog2 (nat q)"
  have "2 ^ ?a \<le> nat p" "nat p < 2 ^ Suc ?a" "2 ^ ?b \<le> nat q" "nat q < 2 ^ Suc ?b"
    using ilog2_bounds [of "nat p"] ilog2_bounds [of "nat q"] p q by auto
  then have "2 ^ ?a \<le> p" "p < 2 ^ Suc ?a" "2 ^ ?b \<le> q" "q < 2 ^ Suc ?b"
    using p q by (simp_all add: nat_less_iff le_nat_iff)
  then have r: "pow2 (int ?a) \<le> of_int p" "of_int p < 2 * pow2 (int ?a)"
    "pow2 (int ?b) \<le> of_int q" "of_int q < 2 * pow2 (int ?b)"
    unfolding pow2_nat by (metis of_int_le_iff, metis of_int_less_iff of_int_mult of_int_numeral power_Suc,
      metis of_int_le_iff, metis of_int_less_iff of_int_mult of_int_numeral power_Suc)
  have q': "(0::rat) < of_int q" using q by simp
  let ?k = "int ?a - int ?b"
  have up: "x < 2 * pow2 ?k"
  proof -
    have "of_int p * pow2 (int ?b) < 2 * pow2 (int ?a) * of_int q"
      using mult_less_le_imp_less [OF r(2) r(3)] p by simp
    then show ?thesis unfolding x pow2_diff using q' by (simp add: field_simps)
  qed
  have lo: "pow2 ?k < 2 * x"
  proof -
    have "pow2 (int ?a) * of_int q < of_int p * (2 * pow2 (int ?b))"
      using mult_le_less_imp_less [OF r(1) r(4)] q' by simp
    then show ?thesis unfolding x pow2_diff using q' by (simp add: field_simps)
  qed
  have half: "2 * pow2 (?k - 1) = pow2 ?k" using pow2_Suc [of "?k - 1"] by simp
  show ?thesis using up lo half unfolding expo_def pq by (auto simp: Let_def)
qed

lemma expo_mono:
  assumes "0 < x" and "x \<le> y"
  shows "expo x \<le> expo y"
proof (rule ccontr)
  assume "\<not> expo x \<le> expo y"
  then have "pow2 (expo y + 1) \<le> pow2 (expo x)" by (intro pow2_mono) simp
  then have "2 * pow2 (expo y) \<le> pow2 (expo x)" by (simp only: pow2_Suc)
  with expo_bounds [OF assms(1)] expo_bounds [of y] assms show False by simp
qed

section \<open>Rounding\<close>

text \<open>To the nearest integer, ties to even.\<close>

definition rne :: "rat \<Rightarrow> int" where
  "rne x = (let f = \<lfloor>x\<rfloor>; d = x - of_int f
            in if d < 1/2 then f else if d > 1/2 then f + 1 else if even f then f else f + 1)"

lemma rne_int [simp]: "rne (of_int n) = n"
  by (simp add: rne_def)

lemma rne_bounds: "\<lfloor>x\<rfloor> \<le> rne x \<and> rne x \<le> \<lfloor>x\<rfloor> + 1"
  by (simp add: rne_def Let_def)

lemma rne_mono:
  assumes "x \<le> y"
  shows "rne x \<le> rne y"
proof (cases "\<lfloor>x\<rfloor> = \<lfloor>y\<rfloor>")
  case True
  then show ?thesis using assms by (auto simp: rne_def Let_def)
next
  case False
  then have "\<lfloor>x\<rfloor> + 1 \<le> \<lfloor>y\<rfloor>" using floor_mono [OF assms] by linarith
  then show ?thesis using rne_bounds [of x] rne_bounds [of y] by linarith
qed

definition fl_pos :: "int \<Rightarrow> int \<Rightarrow> rat \<Rightarrow> rat" where
  "fl_pos prec emin x =
     (if x = 0 then 0 else let u = pow2 (max (expo x - (prec - 1)) emin) in of_int (rne (x / u)) * u)"

definition fl :: "int \<Rightarrow> int \<Rightarrow> rat \<Rightarrow> rat" where
  "fl prec emin x = (if x < 0 then - fl_pos prec emin (- x) else fl_pos prec emin x)"

lemma fl_pos_zero [simp]: "fl_pos prec emin 0 = 0"
  by (simp add: fl_pos_def)

lemma fl_pos_nonneg: "0 \<le> x \<Longrightarrow> 0 \<le> fl_pos prec emin x"
proof -
  assume "0 \<le> x"
  then have "0 \<le> x / pow2 e" for e by simp
  from rne_mono [OF this] have "0 \<le> rne (x / pow2 e)" for e using rne_int [of 0] by simp
  then show ?thesis by (simp add: fl_pos_def Let_def)
qed

text \<open>A multiple of the unit in the last place is exact, at any unit not below the one used.\<close>

lemma fl_pos_exact:
  assumes "0 < x" and "max (expo x - (prec - 1)) emin \<le> k" and "x = of_int n * pow2 k"
  shows "fl_pos prec emin x = x"
proof -
  define e where "e = max (expo x - (prec - 1)) emin"
  have "pow2 k = of_int (2 ^ nat (k - e)) * pow2 e" using assms(2) by (intro pow2_split) (simp add: e_def)
  then have "x = of_int (n * 2 ^ nat (k - e)) * pow2 e" by (simp add: assms(3))
  then have "x / pow2 e = of_int (n * 2 ^ nat (k - e))" by (metis nonzero_mult_div_cancel_right pow2_pos(2))
  then have "of_int (rne (x / pow2 e)) * pow2 e = x" by (metis nonzero_eq_divide_eq pow2_pos(2) rne_int)
  then show ?thesis using assms(1) by (simp add: fl_pos_def Let_def e_def)
qed

lemma fl_pos_mono:
  assumes "0 \<le> x" and "x \<le> y" and "0 < prec"
  shows "fl_pos prec emin x \<le> fl_pos prec emin y"
proof (cases "x = 0")
  case True
  then have "fl_pos prec emin x = 0" by (simp add: fl_pos_def)
  then show ?thesis using fl_pos_nonneg [of y] assms by simp
next
  case False
  then have x: "0 < x" "0 < y" using assms by auto
  let ?e = "\<lambda>x. max (expo x - (prec - 1)) emin"
  have val: "fl_pos prec emin z = of_int (rne (z / pow2 (?e z))) * pow2 (?e z)" if "0 < z" for z
    using that by (simp add: fl_pos_def Let_def)
  show ?thesis
  proof (cases "?e x = ?e y")
    case True
    have "rne (x / pow2 (?e y)) \<le> rne (y / pow2 (?e y))"
      by (rule rne_mono) (simp add: assms(2) divide_right_mono)
    then show ?thesis unfolding val [OF x(1)] val [OF x(2)] True by (simp add: mult_right_mono)
  next
    case ne: False
    have le: "expo x \<le> expo y" by (rule expo_mono [OF x(1) assms(2)])
    with ne have lt: "?e x < ?e y" and ey: "?e y = expo y - (prec - 1)" by auto
    then have lt2: "expo x - (prec - 1) < expo y - (prec - 1)" by linarith
    let ?b = "pow2 (expo y)"
    have "x \<le> ?b" using expo_bounds [OF x(1)] pow2_mono [of "expo x + 1" "expo y"] lt2
      by (simp add: pow2_Suc)
    moreover have bx: "?b = of_int (2 ^ nat (expo y - ?e x)) * pow2 (?e x)"
      by (rule pow2_split) (use lt ey assms(3) in linarith)
    ultimately have "x / pow2 (?e x) \<le> of_int (2 ^ nat (expo y - ?e x))" by (simp add: divide_le_eq)
    then have "rne (x / pow2 (?e x)) \<le> 2 ^ nat (expo y - ?e x)" using rne_mono rne_int by metis
    then have "(of_int (rne (x / pow2 (?e x))) :: rat) \<le> of_int (2 ^ nat (expo y - ?e x))"
      by (simp only: of_int_le_iff)
    then have 1: "fl_pos prec emin x \<le> ?b" unfolding val [OF x(1)] bx by (simp add: mult_right_mono)
    have b_y: "?b = of_int (2 ^ nat (expo y - ?e y)) * pow2 (?e y)"
      by (rule pow2_split) (use ey assms(3) in linarith)
    have "?b \<le> y" using expo_bounds [OF x(2)] by simp
    then have "of_int (2 ^ nat (expo y - ?e y)) \<le> y / pow2 (?e y)" unfolding b_y by (simp add: le_divide_eq)
    then have "2 ^ nat (expo y - ?e y) \<le> rne (y / pow2 (?e y))" using rne_mono rne_int by metis
    then have "(of_int (2 ^ nat (expo y - ?e y)) :: rat) \<le> of_int (rne (y / pow2 (?e y)))"
      by (simp only: of_int_le_iff)
    then have "?b \<le> fl_pos prec emin y" unfolding val [OF x(2)] b_y by (simp add: mult_right_mono)
    with 1 show ?thesis by linarith
  qed
qed

lemma fl_zero [simp]: "fl prec emin 0 = 0"
  by (simp add: fl_def fl_pos_def)

lemma fl_minus: "fl prec emin (- x) = - fl prec emin x"
  by (simp add: fl_def fl_pos_def)

lemma fl_mono: "x \<le> y \<Longrightarrow> 0 < prec \<Longrightarrow> fl prec emin x \<le> fl prec emin y"
  using fl_pos_mono [of x y prec emin] fl_pos_mono [of "- y" "- x" prec emin]
    fl_pos_nonneg [of "- x" prec emin] fl_pos_nonneg [of y prec emin]
  by (auto simp: fl_def)

text \<open>Integers of at most \<open>prec\<close> bits are exact.\<close>

lemma fl_int:
  assumes "\<bar>n\<bar> < 2 ^ nat prec" and "emin \<le> 0" and "0 < prec"
  shows "fl prec emin (of_int n) = of_int n"
proof -
  have "fl_pos prec emin (of_int m) = of_int m" if "0 \<le> m" and "m < 2 ^ nat prec" for m
  proof (cases "m = 0")
    case False
    then have m: "0 < (of_int m :: rat)" using that by simp
    have "(of_int m :: rat) < pow2 prec" using that(2) assms(3) pow2_nat [of "nat prec"] by simp
    then have "expo (of_int m) < prec" using expo_bounds [OF m] pow2_mono [of prec "expo (of_int m)"] by force
    then show ?thesis using fl_pos_exact [OF m, of prec emin 0 m] assms(2) by (simp add: pow2_def)
  qed (simp add: fl_pos_def)
  from this [of n] this [of "- n"] assms(1) show ?thesis by (auto simp: fl_def)
qed

section \<open>Single precision\<close>

definition fl32 :: "rat \<Rightarrow> rat" where "fl32 = fl 24 (- 149)"
definition fl64 :: "rat \<Rightarrow> rat" where "fl64 = fl 53 (- 1074)"

lemma fl32_zero [simp]: "fl32 0 = 0" by (simp add: fl32_def)

lemma fl32_mono: "x \<le> y \<Longrightarrow> fl32 x \<le> fl32 y"
  by (simp add: fl32_def fl_mono)

lemma fl32_int: "\<bar>n\<bar> < 16777216 \<Longrightarrow> fl32 (of_int n) = of_int n"
  unfolding fl32_def by (rule fl_int) simp_all

lemma fl32_one [simp]: "fl32 1 = 1"
  using fl32_int [of 1] by simp

lemma fl32_nonneg: "0 \<le> x \<Longrightarrow> 0 \<le> fl32 x"
  using fl32_mono [of 0 x] by simp

definition f32_round :: "rat \<Rightarrow> f32" where
  "f32_round x = (let r = fl32 x in if r \<ge> 2 ^ 128 then FPosInf else if r \<le> - (2 ^ 128) then FNegInf else FFin r)"

lemma f32_round_finite: "\<bar>fl32 x\<bar> < 2 ^ 128 \<Longrightarrow> f32_round x = FFin (fl32 x)"
  by (auto simp: f32_round_def Let_def abs_less_iff)

definition f32_of_int :: "int \<Rightarrow> f32" where "f32_of_int n = f32_round (of_int n)"

text \<open>The conversion of a \<open>float\<close> to an integer truncates; outside the target it is undefined.\<close>

fun rat_trunc :: "rat \<Rightarrow> int" where
  "rat_trunc x = (if x < 0 then - \<lfloor>- x\<rfloor> else \<lfloor>x\<rfloor>)"

fun f32_trunc :: "f32 \<Rightarrow> int option" where
  "f32_trunc (FFin x) = Some (rat_trunc x)"
| "f32_trunc _ = None"

end
