(* ===== verification/VolumeTools.thy ===== *)
theory VolumeTools
  imports Float32
begin

text \<open>
  \<open>services/audio_service/common/src/volume_tools.cpp\<close> and \<open>format_converter.cpp\<close>: scaling PCM
  data by a volume that may ramp over the buffer, measuring its level, and converting between
  mono and stereo. A buffer is its bytes (\<open>None\<close> for a null pointer), in little-endian order.
  Volumes are \<open>int32_t\<close> between 0 and 65536, amplitudes are integers; the right shift of a
  negative number is the arithmetic one.

  A \<open>float\<close> sample has a bit pattern the integer code never looks at: its decoding and encoding
  are the fields of the argument \<open>R\<close>.
\<close>

section \<open>Samples in memory\<close>

type_synonym sample_format = u8

definition SAMPLE_U8 :: sample_format where [simp]: "SAMPLE_U8 = 0"
definition SAMPLE_S16LE :: sample_format where [simp]: "SAMPLE_S16LE = 1"
definition SAMPLE_S24LE :: sample_format where [simp]: "SAMPLE_S24LE = 2"
definition SAMPLE_S32LE :: sample_format where [simp]: "SAMPLE_S32LE = 3"
definition SAMPLE_F32LE :: sample_format where [simp]: "SAMPLE_F32LE = 4"

definition GetByteSize :: "sample_format \<Rightarrow> nat" where
  "GetByteSize format =
     (if format = SAMPLE_U8 then 1 else if format = SAMPLE_S16LE then 2 else if format = SAMPLE_S24LE then 3
      else if format = SAMPLE_S32LE then 4 else if format = SAMPLE_F32LE then 4 else 2)"

record float_repr =
  f32_dec :: "u8 list \<Rightarrow> f32"
  f32_enc :: "f32 \<Rightarrow> u8 list"

text \<open>The bytes of a word, lowest first, and the word of bytes.\<close>

fun read_le :: "u8 list \<Rightarrow> 'a::len word" where
  "read_le [] = 0"
| "read_le (b # bs) = ucast b OR push_bit 8 (read_le bs)"

fun write_le :: "nat \<Rightarrow> 'a::len word \<Rightarrow> u8 list" where
  "write_le 0 w = []"
| "write_le (Suc n) w = ucast w # write_le n (drop_bit 8 w)"

lemma write_le_length [simp]: "length (write_le n w) = n"
  by (induction n w rule: write_le.induct) simp_all

lemma bit_read_write:
  "bit (read_le (write_le n w) :: 'a::len word) i \<longleftrightarrow> bit (w :: 'a word) i \<and> i < 8 * n"
proof (induction n arbitrary: w i)
  case (Suc n)
  have "bit (read_le (write_le (Suc n) w) :: 'a word) i \<longleftrightarrow>
      i < LENGTH('a) \<and> (i < 8 \<and> bit w i \<or> 8 \<le> i \<and> bit (read_le (write_le n (drop_bit 8 w)) :: 'a word) (i - 8))"
    by (auto simp: bit_simps)
  also have "\<dots> \<longleftrightarrow> bit w i \<and> i < 8 * Suc n"
    using Suc.IH [of "drop_bit 8 w" "i - 8"] by (auto simp: bit_simps dest: bit_imp_le_length)
  finally show ?case .
qed simp

lemma read_write:
  assumes "LENGTH('a) \<le> 8 * n"
  shows "read_le (write_le n w) = (w :: 'a::len word)"
  by (rule bit_word_eqI) (use assms in \<open>simp add: bit_read_write\<close>)

lemma bit_read_le:
  "bit (read_le bs :: 'a::len word) i \<longleftrightarrow> i < LENGTH('a) \<and> i < 8 * length bs \<and> bit (bs ! (i div 8)) (i mod 8)"
proof (induction bs arbitrary: i)
  case (Cons b bs)
  show ?case
  proof (cases "i < 8")
    case True
    then show ?thesis by (auto simp: bit_simps)
  next
    case False
    then have "i div 8 = Suc ((i - 8) div 8)" "i mod 8 = (i - 8) mod 8"
      by (simp_all add: le_div_geq le_mod_geq)
    moreover have "\<not> bit b i" using False bit_imp_le_length [of b i] by auto
    ultimately show ?thesis using False Cons.IH [of "i - 8"] by (auto simp: bit_simps)
  qed
qed simp

lemma write_read:
  assumes "8 * length bs \<le> LENGTH('a::len)"
  shows "write_le (length bs) (read_le bs :: 'a word) = bs"
  using assms
proof (induction bs)
  case (Cons b bs)
  have 1: "ucast (read_le (b # bs) :: 'a word) = b"
    by (rule bit_word_eqI) (use Cons.prems in \<open>auto simp: bit_simps\<close>)
  have 2: "drop_bit 8 (read_le (b # bs) :: 'a word) = read_le bs"
  proof (rule bit_word_eqI)
    fix n
    assume n: "n < LENGTH('a)"
    have "\<not> bit b (8 + n)" using bit_imp_le_length [of b "8 + n"] by auto
    moreover have "bit (read_le bs :: 'a word) n \<Longrightarrow> 8 + n < LENGTH('a)"
      using Cons.prems by (auto simp: bit_read_le)
    ultimately show "bit (drop_bit 8 (read_le (b # bs) :: 'a word)) n = bit (read_le bs :: 'a word) n"
      by (auto simp: bit_simps)
  qed
  show ?case using 1 2 Cons by simp
qed simp

section \<open>Volumes\<close>

definition CHANNEL_MAX :: nat where "CHANNEL_MAX = 16"
definition INT32_VOLUME_MIN :: int where [simp]: "INT32_VOLUME_MIN = 0"
definition INT32_VOLUME_MAX :: int where [simp]: "INT32_VOLUME_MAX = 65536"
definition VOLUME_SHIFT :: nat where [simp]: "VOLUME_SHIFT = 16"
definition MIN_FRAME_SIZE :: nat where [simp]: "MIN_FRAME_SIZE = 1"
definition MAX_FRAME_SIZE :: nat where [simp]: "MAX_FRAME_SIZE = 100000"

record ChannelVolumes =
  channel :: nat
  volStart :: "int list"
  volEnd :: "int list"

definition ChannelVolumes_zero :: ChannelVolumes where
  "ChannelVolumes_zero = \<lparr>channel = 2, volStart = replicate CHANNEL_MAX 0, volEnd = replicate CHANNEL_MAX 0\<rparr>"

definition IsVolumeValid_float :: "f32 \<Rightarrow> bool" where
  "IsVolumeValid_float v = (f32_le (FFin 0) v \<and> f32_le v (FFin 1))"

definition IsVolumeValid_int :: "int \<Rightarrow> bool" where
  "IsVolumeValid_int v = (v \<ge> INT32_VOLUME_MIN \<and> v \<le> INT32_VOLUME_MAX)"

definition IsVolumeValid :: "ChannelVolumes \<Rightarrow> bool" where
  "IsVolumeValid vols =
     (if channel vols > 16 \<or> channel vols < 1 then False
      else list_all (\<lambda>i. IsVolumeValid_int (volStart vols ! i) \<and> IsVolumeValid_int (volEnd vols ! i))
             [0..<channel vols])"

fun f32_value :: "f32 \<Rightarrow> rat" where
  "f32_value (FFin x) = x"
| "f32_value _ = 0"

definition GetInt32Vol :: "f32 \<Rightarrow> int" where
  "GetInt32Vol v =
     (if IsVolumeValid_float v then rat_trunc (fl32 (f32_value v * of_int INT32_VOLUME_MAX))
      else if f32_less v (FFin 0) then INT32_VOLUME_MIN
      else INT32_VOLUME_MAX)"

definition set_all :: "nat \<Rightarrow> int \<Rightarrow> int list \<Rightarrow> int list" where
  "set_all n v xs = map (\<lambda>i. if i < n then v else xs ! i) [0..<length xs]"

definition GetChannelVolumes_int :: "nat \<Rightarrow> int \<Rightarrow> int \<Rightarrow> ChannelVolumes" where
  "GetChannelVolumes_int ch v0 v1 =
     (let vols = ChannelVolumes_zero
      in if \<not> IsVolumeValid_int v0 \<or> \<not> IsVolumeValid_int v1 \<or> ch > 16 \<or> ch < 1 then vols
         else vols\<lparr>channel := ch, volStart := set_all ch v0 (volStart vols), volEnd := set_all ch v1 (volEnd vols)\<rparr>)"

definition GetChannelVolumes_float :: "nat \<Rightarrow> f32 \<Rightarrow> f32 \<Rightarrow> ChannelVolumes" where
  "GetChannelVolumes_float ch v0 v1 =
     (let vols = ChannelVolumes_zero
      in if \<not> IsVolumeValid_float v0 \<or> \<not> IsVolumeValid_float v1 \<or> ch > 16 \<or> ch < 1 then vols
         else vols\<lparr>channel := ch, volStart := set_all ch (GetInt32Vol v0) (volStart vols),
                   volEnd := set_all ch (GetInt32Vol v1) (volEnd vols)\<rparr>)"

definition VolumeFlatten :: "int \<Rightarrow> int" where
  "VolumeFlatten vol = (if vol < INT32_VOLUME_MIN then 0 else if vol > INT32_VOLUME_MAX then INT32_VOLUME_MAX else vol)"

section \<open>Scaling\<close>

definition clamp :: "int \<Rightarrow> int \<Rightarrow> int \<Rightarrow> int" where
  "clamp lo hi x = (if x < lo then lo else if x > hi then hi else x)"

definition ReadInt24LE :: "u8 list \<Rightarrow> u32" where
  "ReadInt24LE p = push_bit 16 (ucast (p ! 2)) OR push_bit 8 (ucast (p ! 1)) OR ucast (p ! 0)"

definition WriteInt24LE :: "u32 \<Rightarrow> u8 list" where
  "WriteInt24LE u = [ucast u, ucast (drop_bit 8 u), ucast (drop_bit 16 u)]"

text \<open>The bytes of one sample before and after.\<close>

definition ProcessOneFrame :: "float_repr \<Rightarrow> sample_format \<Rightarrow> int \<Rightarrow> u8 list \<Rightarrow> u8 list" where
  "ProcessOneFrame R format vol p =
     (if format = SAMPLE_U8
      then [word_of_int (clamp (- 128) 127 (drop_bit VOLUME_SHIFT ((uint (p ! 0) - 128) * vol)) + 128)]
      else if format = SAMPLE_S16LE
      then write_le 2 (word_of_int (clamp (- 32768) 32767
             (drop_bit VOLUME_SHIFT (sint (read_le p :: 16 word) * vol))) :: 16 word)
      else if format = SAMPLE_S24LE
      then WriteInt24LE (drop_bit 8 (word_of_int
             (drop_bit VOLUME_SHIFT (sint (push_bit 8 (ReadInt24LE p) :: u32) * vol)) :: u32))
      else if format = SAMPLE_S32LE
      then write_le 4 (word_of_int (clamp (- 2147483648) 2147483647
             (drop_bit VOLUME_SHIFT (sint (read_le p :: u32) * vol))) :: u32)
      else if format = SAMPLE_F32LE
      then f32_enc R (case f32_dec R p of
             FFin x \<Rightarrow> f32_round (x * fl32 (fl32 (of_int vol) / of_int INT32_VOLUME_MAX))
           | other \<Rightarrow> if vol = 0 then FNaN else other)
      else p)"

text \<open>
  The ramp of one channel: the step per frame and the volume of a frame, in \<open>float\<close> arithmetic.
  The values stay far below the range of \<open>int32_t\<close>.
\<close>

definition vol_step :: "int \<Rightarrow> int \<Rightarrow> nat \<Rightarrow> rat" where
  "vol_step v0 v1 frameSize =
     (if v1 = v0 then 0 else fl32 (fl32 (of_int (v1 - v0)) / fl32 (of_nat (frameSize - MIN_FRAME_SIZE))))"

definition frame_volume :: "int \<Rightarrow> int \<Rightarrow> nat \<Rightarrow> nat \<Rightarrow> int" where
  "frame_volume v0 v1 frameSize frameIndex =
     VolumeFlatten (rat_trunc (fl32 (fl32 (vol_step v0 v1 frameSize * fl32 (of_nat frameIndex)) + fl32 (of_int v0))))"

definition slice :: "nat \<Rightarrow> nat \<Rightarrow> 'a list \<Rightarrow> 'a list" where
  "slice off n xs = take n (drop off xs)"

text \<open>
  The two loops touch the samples in the order they lie in memory, each its own bytes: the
  sample with number \<open>k\<close> is channel \<open>k mod channel\<close> of frame \<open>k div channel\<close>.
\<close>

definition Process ::
    "float_repr \<Rightarrow> u8 list option \<Rightarrow> sample_format \<Rightarrow> ChannelVolumes \<Rightarrow> err \<times> u8 list option" where
  "Process R buffer format vols =
     (if format > SAMPLE_F32LE \<or> \<not> IsVolumeValid vols then (ERR_INVALID_PARAM, buffer)
      else
        let bd = GetByteSize format; bf = bd * channel vols
        in case buffer of
             None \<Rightarrow> (ERR_INVALID_PARAM, buffer)
           | Some bytes \<Rightarrow>
             if length bytes mod bf \<noteq> 0 then (ERR_INVALID_PARAM, buffer)
             else
               let frameSize = length bytes div bf
               in if frameSize \<le> MIN_FRAME_SIZE then (ERR_INVALID_PARAM, buffer)
                  else (SUCCESS, Some (concat (map (\<lambda>k.
                    ProcessOneFrame R format
                      (frame_volume (volStart vols ! (k mod channel vols)) (volEnd vols ! (k mod channel vols))
                         frameSize (k div channel vols))
                      (slice (k * bd) bd bytes)) [0..<frameSize * channel vols]))))"

definition ProcessVol ::
    "float_repr \<Rightarrow> u8 list option \<Rightarrow> nat \<Rightarrow> sample_format \<Rightarrow> f32 \<Rightarrow> f32 \<Rightarrow> err \<times> u8 list option" where
  "ProcessVol R buffer channels format v0 v1 = Process R buffer format (GetChannelVolumes_float channels v0 v1)"

section \<open>Measuring\<close>

text \<open>
  The four integer counters differ in the sample width, in the amplitude they read and in the
  width of the sum: 32 bits, which may overflow, or 64 bits.
\<close>

definition abs_sample :: "sample_format \<Rightarrow> u8 list \<Rightarrow> int" where
  "abs_sample format p =
     (if format = SAMPLE_U8 then (if uint (p ! 0) \<ge> 128 then uint (p ! 0) - 128 else 128 - uint (p ! 0))
      else if format = SAMPLE_S16LE then \<bar>sint (read_le p :: 16 word)\<bar>
      else if format = SAMPLE_S24LE then \<bar>sint (ReadInt24LE p)\<bar>
      else \<bar>sint (read_le p :: u32)\<bar>)"

fun checked_sum :: "int \<Rightarrow> int list \<Rightarrow> int \<Rightarrow> int exec" where
  "checked_sum bound [] acc = Inr acc"
| "checked_sum bound (x # xs) acc =
     (if acc + x > bound then Inl SignedOverflow else checked_sum bound xs (acc + x))"

fun exec_list :: "'a exec list \<Rightarrow> 'a list exec" where
  "exec_list [] = Inr []"
| "exec_list (m # ms) = exec_bind m (\<lambda>x. exec_bind (exec_list ms) (\<lambda>xs. Inr (x # xs)))"

definition channel_samples :: "nat \<Rightarrow> nat \<Rightarrow> nat \<Rightarrow> nat \<Rightarrow> u8 list \<Rightarrow> u8 list list" where
  "channel_samples bd ch frameSize c bytes = map (\<lambda>f. slice ((f * ch + c) * bd) bd bytes) [0..<frameSize]"

definition CountIntVolume :: "u8 list option \<Rightarrow> sample_format \<Rightarrow> nat \<Rightarrow> ChannelVolumes \<Rightarrow> ChannelVolumes exec" where
  "CountIntVolume buffer format ch vols =
     (let bd = GetByteSize format; bf = bd * ch
      in case buffer of
           None \<Rightarrow> Inr vols
         | Some bytes \<Rightarrow>
           if bf = 0 \<or> length bytes mod bf \<noteq> 0 then Inr vols
           else
             let frameSize = length bytes div bf
             in if frameSize \<le> MIN_FRAME_SIZE \<or> frameSize \<ge> MAX_FRAME_SIZE then Inr vols
                else
                  let bound = (if format = SAMPLE_S32LE then 2 ^ 63 - 1 else 2 ^ 31 - 1);
                      totals = map (\<lambda>c. if format = SAMPLE_S32LE \<and>
                                         (\<exists>p\<in>set (channel_samples bd ch frameSize c bytes). abs_sample format p = 2 ^ 31)
                                      then Inl SignedOverflow
                                      else checked_sum bound (map (abs_sample format)
                                             (channel_samples bd ch frameSize c bytes)) 0) [0..<ch]
                  in exec_bind (exec_list totals)
                       (\<lambda>ss. Inr (vols\<lparr>volStart := map (\<lambda>i. if i < ch then ss ! i div int frameSize else volStart vols ! i)
                                        [0..<CHANNEL_MAX],
                                      volEnd := (if format = SAMPLE_S32LE then volEnd vols
                                                 else set_all ch 0 (volEnd vols))\<rparr>)))"

definition CountU8Volume :: "u8 list option \<Rightarrow> nat \<Rightarrow> ChannelVolumes \<Rightarrow> ChannelVolumes exec" where
  "CountU8Volume buffer ch vols = CountIntVolume buffer SAMPLE_U8 ch vols"

definition CountS16Volume :: "u8 list option \<Rightarrow> nat \<Rightarrow> ChannelVolumes \<Rightarrow> ChannelVolumes exec" where
  "CountS16Volume buffer ch vols = CountIntVolume buffer SAMPLE_S16LE ch vols"

definition CountS24Volume :: "u8 list option \<Rightarrow> nat \<Rightarrow> ChannelVolumes \<Rightarrow> ChannelVolumes exec" where
  "CountS24Volume buffer ch vols = CountIntVolume buffer SAMPLE_S24LE ch vols"

definition CountS32Volume :: "u8 list option \<Rightarrow> nat \<Rightarrow> ChannelVolumes \<Rightarrow> ChannelVolumes exec" where
  "CountS32Volume buffer ch vols = CountIntVolume buffer SAMPLE_S32LE ch vols"

text \<open>The \<open>float\<close> counter sums in \<open>double\<close>.\<close>

definition CountF32Volume :: "float_repr \<Rightarrow> u8 list option \<Rightarrow> nat \<Rightarrow> ChannelVolumes \<Rightarrow> ChannelVolumes exec" where
  "CountF32Volume R buffer ch vols =
     (let bd = 4; bf = bd * ch
      in case buffer of
           None \<Rightarrow> Inr vols
         | Some bytes \<Rightarrow>
           if bf = 0 \<or> length bytes mod bf \<noteq> 0 then Inr vols
           else
             let frameSize = length bytes div bf
             in if frameSize \<le> MIN_FRAME_SIZE \<or> frameSize \<ge> MAX_FRAME_SIZE then Inr vols
                else
                  let level = (\<lambda>c.
                        let ds = map (f32_dec R) (channel_samples bd ch frameSize c bytes)
                        in if \<not> list_all (\<lambda>d. case d of FFin _ \<Rightarrow> True | _ \<Rightarrow> False) ds then Inl BadConversion
                           else
                             let total = foldl (\<lambda>a d. fl64 (a + \<bar>f32_value d\<bar>)) 0 ds;
                                 v = rat_trunc (fl64 (total / of_nat frameSize))
                             in if v \<ge> 2 ^ 31 then Inl BadConversion else Inr v)
                  in exec_bind (exec_list (map level [0..<ch]))
                       (\<lambda>ss. Inr (vols\<lparr>volStart := map (\<lambda>i. if i < ch then ss ! i else volStart vols ! i)
                                        [0..<CHANNEL_MAX]\<rparr>)))"

definition CountVolumeLevel ::
    "float_repr \<Rightarrow> u8 list option \<Rightarrow> sample_format \<Rightarrow> nat \<Rightarrow> ChannelVolumes exec" where
  "CountVolumeLevel R buffer format ch =
     (let vols = ChannelVolumes_zero\<lparr>channel := ch\<rparr>
      in if format > SAMPLE_F32LE \<or> ch > 16 then Inr vols
         else if format = SAMPLE_U8 then CountU8Volume buffer ch vols
         else if format = SAMPLE_S16LE then CountS16Volume buffer ch vols
         else if format = SAMPLE_S24LE then CountS24Volume buffer ch vols
         else if format = SAMPLE_S32LE then CountS32Volume buffer ch vols
         else CountF32Volume R buffer ch vols)"

section \<open>Mono and stereo\<close>

definition s16_samples :: "u8 list \<Rightarrow> nat \<Rightarrow> 16 word list" where
  "s16_samples bytes n = map (\<lambda>k. read_le (slice (2 * k) 2 bytes)) [0..<n]"

definition s16_bytes :: "16 word list \<Rightarrow> u8 list" where
  "s16_bytes ws = concat (map (write_le 2) ws)"

text \<open>The samples written overwrite the beginning of the destination.\<close>

definition S16MonoToS16Stereo :: "u8 list option \<Rightarrow> u8 list option \<Rightarrow> int \<times> u8 list option" where
  "S16MonoToS16Stereo src dst =
     (case (src, dst) of
        (Some s, Some d) \<Rightarrow>
          if length s \<noteq> length d div 2 then (- 1, dst)
          else
            let out = s16_bytes (concat (map (\<lambda>w. [w, w]) (s16_samples s (length s div 2))))
            in (0, Some (out @ drop (length out) d))
      | _ \<Rightarrow> (- 1, dst))"

fun pair_means :: "16 word list \<Rightarrow> 16 word list" where
  "pair_means (l # r # ws) = word_of_int ((sint l + sint r) sdiv 2) # pair_means ws"
| "pair_means _ = []"

definition S16StereoToS16Mono :: "u8 list option \<Rightarrow> u8 list option \<Rightarrow> int \<times> u8 list option" where
  "S16StereoToS16Mono src dst =
     (case (src, dst) of
        (Some s, Some d) \<Rightarrow>
          if length d \<noteq> length s div 2 then (- 1, dst)
          else
            let out = s16_bytes (pair_means (s16_samples s (2 * (length s div 2 div 2))))
            in (0, Some (out @ drop (length out) d))
      | _ \<Rightarrow> (- 1, dst))"

end
