(* ===== verification/VolumeProps.thy ===== *)
theory VolumeProps
  imports VolumeTools
begin

text \<open>
  What scaling does to the amplitudes: every integer format has the same gain function on its
  amplitudes, the gain of a frame lies between silence and unity, and ramps are monotone.
\<close>

section \<open>Amplitudes\<close>

definition sample_value :: "sample_format \<Rightarrow> u8 list \<Rightarrow> int" where
  "sample_value format p =
     (if format = SAMPLE_U8 then uint (p ! 0) - 128
      else if format = SAMPLE_S16LE then sint (read_le p :: 16 word)
      else if format = SAMPLE_S24LE then sint (ucast (ReadInt24LE p) :: 24 word)
      else sint (read_le p :: u32))"

definition sample_values :: "sample_format \<Rightarrow> u8 list \<Rightarrow> int list" where
  "sample_values format bytes =
     map (\<lambda>k. sample_value format (slice (k * GetByteSize format) (GetByteSize format) bytes))
       [0..<length bytes div GetByteSize format]"

definition int_format :: "sample_format \<Rightarrow> bool" where
  "int_format format \<longleftrightarrow> format = SAMPLE_U8 \<or> format = SAMPLE_S16LE \<or> format = SAMPLE_S24LE \<or> format = SAMPLE_S32LE"

definition gain :: "int \<Rightarrow> int \<Rightarrow> int" where
  "gain v x = x * v div 65536"

lemma gain_range:
  assumes "0 \<le> v" and "v \<le> 65536"
  shows "\<bar>gain v x\<bar> \<le> \<bar>x\<bar>" and "- m \<le> x \<Longrightarrow> 0 \<le> m \<Longrightarrow> - m \<le> gain v x" and "x < m \<Longrightarrow> 0 < m \<Longrightarrow> gain v x < m"
proof -
  have pos: "0 \<le> gain v x \<and> gain v x \<le> x" if "0 \<le> x"
  proof -
    have "x * v \<le> x * 65536" using assms that by (simp add: mult_left_mono)
    then have "x * v div 65536 \<le> x" by simp
    then show ?thesis using assms that by (simp add: gain_def pos_imp_zdiv_nonneg_iff)
  qed
  have neg: "x \<le> gain v x \<and> gain v x \<le> 0" if "x < 0"
  proof -
    have "x * 65536 \<le> x * v" using assms that by (simp add: mult_left_mono_neg)
    then have "x * 65536 div 65536 \<le> x * v div 65536" by (rule zdiv_mono1) simp
    moreover have "x * v div 65536 \<le> 0 div 65536"
      using assms that by (intro zdiv_mono1) (simp_all add: mult_nonpos_nonneg)
    ultimately show ?thesis by (simp add: gain_def)
  qed
  show "\<bar>gain v x\<bar> \<le> \<bar>x\<bar>" using pos neg by (cases "0 \<le> x") auto
  show "- m \<le> gain v x" if "- m \<le> x" "0 \<le> m" using pos neg that by (cases "0 \<le> x") auto
  show "gain v x < m" if "x < m" "0 < m" using pos neg that by (cases "0 \<le> x") auto
qed

lemma drop_bit_gain: "drop_bit VOLUME_SHIFT (x * v) = gain v x"
  by (simp add: gain_def drop_bit_eq_div)

lemma clamp_id: "lo \<le> x \<Longrightarrow> x \<le> hi \<Longrightarrow> clamp lo hi x = x"
  by (simp add: clamp_def)

lemma sint_of_int_small:
  assumes "- (2 ^ (LENGTH('a) - 1)) \<le> i" and "i < 2 ^ (LENGTH('a) - 1)"
  shows "sint (word_of_int i :: 'a::len word) = i"
  using assms by (simp add: sint_sbintrunc' signed_take_bit_int_eq_self)

lemma sint_bounds: "- (2 ^ (LENGTH('a) - 1)) \<le> sint (w::'a::len word)" "sint (w::'a::len word) < 2 ^ (LENGTH('a) - 1)"
  using sint_range_size [of w] by (simp_all add: word_size)

section \<open>24-bit samples\<close>

lemma bit_u8: "bit (b::u8) n \<Longrightarrow> n < 8"
  using bit_imp_le_length [of b n] by simp

lemma sint_push24: "sint (push_bit 8 u :: u32) = 256 * sint (ucast u :: 24 word)"
proof -
  have "sint (push_bit 8 u :: u32) = push_bit 8 (sint (ucast u :: 24 word))"
    by (rule bit_eqI) (auto simp: bit_simps min_def)
  then show ?thesis by (simp add: push_bit_eq_mult)
qed

lemma Read_Write24: "(ucast (ReadInt24LE (WriteInt24LE u)) :: 24 word) = ucast u"
proof (rule bit_word_eqI)
  fix n
  assume "n < LENGTH(24)"
  then consider "n < 8" | "8 \<le> n" "n < 16" | "16 \<le> n" "n < 24" by fastforce
  then show "bit (ucast (ReadInt24LE (WriteInt24LE u)) :: 24 word) n = bit (ucast u :: 24 word) n"
    by cases (auto simp: ReadInt24LE_def WriteInt24LE_def bit_simps dest: bit_u8)
qed

lemma ucast_drop24: "(ucast (drop_bit 8 (word_of_int i :: u32)) :: 24 word) = word_of_int (i div 256)"
proof (rule bit_word_eqI)
  fix n
  assume "n < LENGTH(24)"
  then show "bit (ucast (drop_bit 8 (word_of_int i :: u32)) :: 24 word) n = bit (word_of_int (i div 256) :: 24 word) n"
    using bit_drop_bit_eq [of 8 i]
    by (simp add: bit_ucast_iff bit_drop_bit_eq bit_word_of_int_iff drop_bit_eq_div [of 8 i, symmetric, simplified])
qed

section \<open>One sample\<close>

lemma ProcessOneFrame_length:
  "int_format format \<Longrightarrow> length (ProcessOneFrame R format vol p) = GetByteSize format"
  by (auto simp: int_format_def ProcessOneFrame_def GetByteSize_def WriteInt24LE_def)

lemma ProcessOneFrame_value:
  assumes "int_format format" and v: "0 \<le> vol" "vol \<le> 65536"
  shows "sample_value format (ProcessOneFrame R format vol p) = gain vol (sample_value format p)"
proof -
  note g = gain_range [OF v]
  consider "format = SAMPLE_U8" | "format = SAMPLE_S16LE" | "format = SAMPLE_S24LE" | "format = SAMPLE_S32LE"
    using assms(1) by (auto simp: int_format_def)
  then show ?thesis
  proof cases
    case 1
    let ?x = "uint (p ! 0) - 128"
    have "- 128 \<le> ?x" "?x < 128" using uint_bounded [of "p ! 0"] by simp_all
    then have r: "- 128 \<le> gain vol ?x" "gain vol ?x < 128" using g(2) [of 128 ?x] g(3) [of ?x 128] by simp_all
    then have "uint (word_of_int (gain vol ?x + 128) :: u8) = gain vol ?x + 128"
      by (subst uint_word_of_int_eq, subst take_bit_int_eq_self) simp_all
    then show ?thesis using 1 r by (simp add: sample_value_def ProcessOneFrame_def drop_bit_gain [simplified] clamp_id)
  next
    case 2
    let ?x = "sint (read_le p :: 16 word)"
    have "- 32768 \<le> ?x" "?x < 32768" using sint_bounds [of "read_le p :: 16 word"] by simp_all
    then have r: "- 32768 \<le> gain vol ?x" "gain vol ?x < 32768" using g(2) [of 32768 ?x] g(3) [of ?x 32768] by simp_all
    then have "sint (word_of_int (gain vol ?x) :: 16 word) = gain vol ?x" by (intro sint_of_int_small) simp_all
    then show ?thesis using 2 r
      by (simp add: sample_value_def ProcessOneFrame_def drop_bit_gain [simplified] clamp_id read_write)
  next
    case 3
    let ?x = "sint (ucast (ReadInt24LE p) :: 24 word)"
    have "- 8388608 \<le> ?x" "?x < 8388608" using sint_bounds [of "ucast (ReadInt24LE p) :: 24 word"] by simp_all
    then have r: "- 8388608 \<le> gain vol ?x" "gain vol ?x < 8388608" using g(2) [of 8388608 ?x] g(3) [of ?x 8388608] by simp_all
    have "gain vol (256 * ?x) div 256 = (256 * (?x * vol)) div (256 * 65536)"
      unfolding gain_def by (simp add: zdiv_zmult2_eq [symmetric] mult.assoc)
    also have "\<dots> = gain vol ?x" unfolding gain_def by (rule div_mult_mult1) simp
    finally have d: "gain vol (256 * ?x) div 256 = gain vol ?x" .
    have "sint (word_of_int (gain vol ?x) :: 24 word) = gain vol ?x" by (rule sint_of_int_small) (use r in simp_all)
    then show ?thesis using 3 d
      by (simp add: sample_value_def ProcessOneFrame_def drop_bit_gain [simplified] sint_push24 Read_Write24 ucast_drop24)
  next
    case 4
    let ?x = "sint (read_le p :: u32)"
    have "- 2147483648 \<le> ?x" "?x < 2147483648" using sint_bounds [of "read_le p :: u32"] by simp_all
    then have r: "- 2147483648 \<le> gain vol ?x" "gain vol ?x < 2147483648"
      using g(2) [of 2147483648 ?x] g(3) [of ?x 2147483648] by simp_all
    then have "sint (word_of_int (gain vol ?x) :: u32) = gain vol ?x" by (intro sint_of_int_small) simp_all
    then show ?thesis using 4 r
      by (simp add: sample_value_def ProcessOneFrame_def drop_bit_gain [simplified] clamp_id read_write)
  qed
qed


section \<open>A buffer\<close>

lemma length_concat_const:
  assumes "\<And>k. k < m \<Longrightarrow> length (f k) = n"
  shows "length (concat (map f [0..<m])) = m * n"
  using assms by (induction m) auto

lemma slice_concat:
  assumes "\<And>k. k < m \<Longrightarrow> length (f k) = n" and "k < m"
  shows "slice (k * n) n (concat (map f [0..<m])) = f k"
  using assms
proof (induction m)
  case (Suc m)
  have len: "length (concat (map f [0..<m])) = m * n"
    by (rule length_concat_const) (use Suc.prems(1) in simp)
  show ?case
  proof (cases "k = m")
    case True
    then show ?thesis using len Suc.prems(1) [of m] by (simp add: slice_def)
  next
    case False
    then have km: "k < m" using Suc.prems(2) by simp
    then have le: "k * n + n \<le> m * n" by (metis Suc_leI add.commute mult_Suc mult_le_mono1)
    have "slice (k * n) n (concat (map f [0..<Suc m])) = slice (k * n) n (concat (map f [0..<m]))"
      using len le by (simp add: slice_def)
    then show ?thesis using Suc.IH [OF _ km] Suc.prems(1) by simp
  qed
qed simp

lemma GetByteSize_pos [simp]: "0 < GetByteSize format" "GetByteSize format \<noteq> 0"
  by (simp_all add: GetByteSize_def)

lemma VolumeFlatten_range: "0 \<le> VolumeFlatten v" "VolumeFlatten v \<le> 65536"
  by (simp_all add: VolumeFlatten_def)

lemma frame_volume_range: "0 \<le> frame_volume a b n k" "frame_volume a b n k \<le> 65536"
  by (simp_all add: frame_volume_def VolumeFlatten_range)

text \<open>The result of a successful \<open>Process\<close>, sample by sample.\<close>

lemma Process_values:
  assumes f: "int_format format" and ok: "IsVolumeValid vols" and n: "2 \<le> n"
    and len: "length bytes = n * (GetByteSize format * channel vols)"
  shows "\<exists>out. Process R (Some bytes) format vols = (SUCCESS, Some out) \<and> length out = length bytes \<and>
    sample_values format out = map (\<lambda>k. gain (frame_volume (volStart vols ! (k mod channel vols))
        (volEnd vols ! (k mod channel vols)) n (k div channel vols)) (sample_values format bytes ! k))
      [0..<n * channel vols]"
proof -
  let ?bd = "GetByteSize format" and ?ch = "channel vols"
  have ch: "0 < ?ch" using ok by (simp add: IsVolumeValid_def split: if_splits)
  let ?v = "\<lambda>k. frame_volume (volStart vols ! (k mod ?ch)) (volEnd vols ! (k mod ?ch)) n (k div ?ch)"
  let ?f = "\<lambda>k. ProcessOneFrame R format (?v k) (slice (k * ?bd) ?bd bytes)"
  let ?out = "concat (map ?f [0..<n * ?ch])"
  have div: "length bytes div (?bd * ?ch) = n" using ch len by simp
  have fmt: "\<not> format > SAMPLE_F32LE" using f by (auto simp: int_format_def word_less_nat_alt)
  have run: "Process R (Some bytes) format vols = (SUCCESS, Some ?out)"
    using fmt ok n div len ch unfolding Process_def by (simp add: Let_def)
  have lf: "length (?f k) = ?bd" for k by (rule ProcessOneFrame_length [OF f])
  have lo: "length ?out = n * ?ch * ?bd" by (rule length_concat_const) (rule lf)
  then have leq: "length ?out = length bytes" using len by (simp add: ac_simps)
  have ns: "length bytes div ?bd = n * ?ch" using len by (simp add: ac_simps)
  have "sample_values format ?out ! k = gain (?v k) (sample_values format bytes ! k)" if k: "k < n * ?ch" for k
  proof -
    have "sample_values format ?out ! k = sample_value format (?f k)"
      using k leq ns slice_concat [of "n * ?ch" ?f ?bd k] lf by (simp add: sample_values_def)
    also have "\<dots> = gain (?v k) (sample_value format (slice (k * ?bd) ?bd bytes))"
      by (rule ProcessOneFrame_value [OF f frame_volume_range])
    finally show ?thesis using k ns by (simp add: sample_values_def)
  qed
  moreover have "length (sample_values format ?out) = n * ?ch" using leq ns by (simp add: sample_values_def)
  ultimately have "sample_values format ?out = map (\<lambda>k. gain (?v k) (sample_values format bytes ! k)) [0..<n * ?ch]"
    by (intro nth_equalityI) simp_all
  with run leq show ?thesis by blast
qed

section \<open>The ramp\<close>

lemma rat_trunc_mono: "x \<le> y \<Longrightarrow> rat_trunc x \<le> rat_trunc y"
proof (cases "x < 0 \<and> \<not> y < 0")
  case True
  then have "0 \<le> \<lfloor>- x\<rfloor>" "0 \<le> \<lfloor>y\<rfloor>" by (simp_all add: zero_le_floor)
  with True show ?thesis by (simp only: rat_trunc.simps if_P if_not_P if_False)
next
  case False
  then show "x \<le> y \<Longrightarrow> rat_trunc x \<le> rat_trunc y" by (auto simp: floor_mono)
qed

lemma rat_trunc_int [simp]: "rat_trunc (of_int n) = n"
  by simp

lemma VolumeFlatten_mono: "x \<le> y \<Longrightarrow> VolumeFlatten x \<le> VolumeFlatten y"
  by (simp add: VolumeFlatten_def)

lemma VolumeFlatten_id: "0 \<le> v \<Longrightarrow> v \<le> 65536 \<Longrightarrow> VolumeFlatten v = v"
  by (simp add: VolumeFlatten_def)

lemma frame_volume_first:
  assumes "0 \<le> a" and "a \<le> 65536"
  shows "frame_volume a b n 0 = a" and "frame_volume a a n k = a"
proof -
  have "fl32 (of_int a) = of_int a" by (rule fl32_int) (use assms in simp)
  then show "frame_volume a b n 0 = a" "frame_volume a a n k = a"
    using assms by (simp_all add: frame_volume_def vol_step_def VolumeFlatten_id del: rat_trunc.simps)
qed

lemma vol_step_sign:
  "a \<le> b \<Longrightarrow> 0 \<le> vol_step a b n" "b \<le> a \<Longrightarrow> vol_step a b n \<le> 0"
proof -
  have d: "0 \<le> fl32 (of_nat (n - MIN_FRAME_SIZE))" by (rule fl32_nonneg) simp
  show "0 \<le> vol_step a b n" if "a \<le> b"
  proof -
    have "0 \<le> fl32 (of_int (b - a))" using that by (intro fl32_nonneg) simp
    with d show ?thesis by (simp add: vol_step_def fl32_nonneg)
  qed
  show "vol_step a b n \<le> 0" if "b \<le> a"
  proof -
    have "fl32 (of_int (b - a)) \<le> fl32 0" using that by (intro fl32_mono) simp
    then have "fl32 (of_int (b - a)) / fl32 (of_nat (n - MIN_FRAME_SIZE)) \<le> 0"
      using d by (simp add: divide_nonpos_nonneg)
    from fl32_mono [OF this] show ?thesis by (simp add: vol_step_def)
  qed
qed

lemma frame_volume_mono:
  assumes "k \<le> l"
  shows "a \<le> b \<Longrightarrow> frame_volume a b n k \<le> frame_volume a b n l"
    and "b \<le> a \<Longrightarrow> frame_volume a b n l \<le> frame_volume a b n k"
proof -
  have kl: "fl32 (of_nat k) \<le> fl32 (of_nat l)" by (rule fl32_mono) (use assms in simp)
  show "frame_volume a b n k \<le> frame_volume a b n l" if "a \<le> b"
    unfolding frame_volume_def
    by (intro VolumeFlatten_mono rat_trunc_mono fl32_mono add_right_mono mult_left_mono kl vol_step_sign that)
  show "frame_volume a b n l \<le> frame_volume a b n k" if "b \<le> a"
    unfolding frame_volume_def
    by (intro VolumeFlatten_mono rat_trunc_mono fl32_mono add_right_mono mult_left_mono_neg kl vol_step_sign that)
qed

section \<open>Properties\<close>

text \<open>
  C15: \<open>Process\<close> never amplifies and never clips: on any valid volumes, ramping or not, over any
  whole number of at least two frames of an integer format, it succeeds, keeps the length, and
  no amplitude of the result is larger than the one it replaces.
\<close>

theorem process_never_amplifies:
  assumes "int_format format" and "IsVolumeValid vols" and "2 \<le> n"
    and "length bytes = n * (GetByteSize format * channel vols)"
  shows "\<exists>out. Process R (Some bytes) format vols = (SUCCESS, Some out) \<and> length out = length bytes \<and>
    list_all2 (\<lambda>x y. \<bar>x\<bar> \<le> \<bar>y\<bar>) (sample_values format out) (sample_values format bytes)"
proof -
  obtain out where run: "Process R (Some bytes) format vols = (SUCCESS, Some out)" "length out = length bytes"
    and vals: "sample_values format out = map (\<lambda>k. gain (frame_volume (volStart vols ! (k mod channel vols))
        (volEnd vols ! (k mod channel vols)) n (k div channel vols)) (sample_values format bytes ! k))
      [0..<n * channel vols]"
    using Process_values [OF assms, of R] by blast
  have "length (sample_values format bytes) = n * channel vols"
    using assms(4) by (simp add: sample_values_def ac_simps)
  then show ?thesis using run gain_range(1) [OF frame_volume_range]
    by (intro exI [of _ out]) (simp add: list_all2_conv_all_nth vals)
qed

definition demo_repr :: float_repr where
  "demo_repr = \<lparr>f32_dec = (\<lambda>_. FFin 0), f32_enc = (\<lambda>_. [0, 0, 0, 0])\<rparr>"

definition demo_pcm :: "u8 list" where "demo_pcm = s16_bytes [1000, - 1000, 32767, - 32768]"

lemma demo_values: "sample_values SAMPLE_S16LE demo_pcm = [1000, - 1000, 32767, - 32768]"
  by code_simp

theorem process_never_amplifies_witness:
  "\<exists>out. Process demo_repr (Some demo_pcm) SAMPLE_S16LE (GetChannelVolumes_int 2 65536 32768) = (SUCCESS, Some out) \<and>
     list_all2 (\<lambda>x y. \<bar>x\<bar> \<le> \<bar>y\<bar>) (sample_values SAMPLE_S16LE out) [1000, - 1000, 32767, - 32768]"
proof -
  have "IsVolumeValid (GetChannelVolumes_int 2 65536 32768)" by code_simp
  moreover have "length demo_pcm = 2 * (GetByteSize SAMPLE_S16LE * channel (GetChannelVolumes_int 2 65536 32768))"
    by code_simp
  moreover have "int_format SAMPLE_S16LE" by (simp add: int_format_def)
  ultimately show ?thesis
    using process_never_amplifies [of SAMPLE_S16LE "GetChannelVolumes_int 2 65536 32768" 2 demo_pcm demo_repr] demo_values by auto
qed


text \<open>
  A constant volume \<open>v\<close> multiplies every amplitude of every channel by \<open>v / 65536\<close>, rounded
  down: unity leaves the buffer's samples as they are and zero silences them.
\<close>

theorem process_constant_gain:
  assumes "int_format format" and "1 \<le> ch" and "ch \<le> 16" and "0 \<le> v" and "v \<le> 65536" and "2 \<le> n"
    and "length bytes = n * (GetByteSize format * ch)"
  shows "\<exists>out. Process R (Some bytes) format (GetChannelVolumes_int ch v v) = (SUCCESS, Some out) \<and>
    sample_values format out = map (\<lambda>x. x * v div 65536) (sample_values format bytes)"
proof -
  let ?vols = "GetChannelVolumes_int ch v v"
  have vols: "channel ?vols = ch" and at: "volStart ?vols ! i = v" "volEnd ?vols ! i = v" if "i < ch" for i
    using assms that by (simp_all add: GetChannelVolumes_int_def IsVolumeValid_int_def Let_def set_all_def
        ChannelVolumes_zero_def CHANNEL_MAX_def)
  then have c: "channel ?vols = ch" using assms(2) by (metis less_le_trans zero_less_one)
  have "IsVolumeValid ?vols"
    using at assms by (auto simp: IsVolumeValid_def c list_all_iff IsVolumeValid_int_def)
  from Process_values [OF assms(1) this assms(6), unfolded c, OF assms(7)] obtain out where
    run: "Process R (Some bytes) format ?vols = (SUCCESS, Some out)"
    and vals: "sample_values format out = map (\<lambda>k. gain (frame_volume (volStart ?vols ! (k mod ch))
        (volEnd ?vols ! (k mod ch)) n (k div ch)) (sample_values format bytes ! k)) [0..<n * ch]"
    by blast
  have "k mod ch < ch" for k using assms(2) by simp
  then have "sample_values format out = map (\<lambda>k. gain v (sample_values format bytes ! k)) [0..<n * ch]"
    unfolding vals by (simp add: at frame_volume_first(2) [OF assms(4,5)])
  moreover have "length (sample_values format bytes) = n * ch"
    using assms(7) by (simp add: sample_values_def ac_simps)
  then have "map (gain v) (sample_values format bytes) = map (gain v) (map (nth (sample_values format bytes)) [0..<n * ch])"
    using map_nth [of "sample_values format bytes"] by simp
  ultimately have "sample_values format out = map (gain v) (sample_values format bytes)" by simp
  with run show ?thesis by (auto simp: gain_def)
qed

theorem process_constant_gain_witness:
  "\<exists>out. Process demo_repr (Some demo_pcm) SAMPLE_S16LE (GetChannelVolumes_int 2 32768 32768) = (SUCCESS, Some out) \<and>
     sample_values SAMPLE_S16LE out = [500, - 500, 16383, - 16384]"
proof -
  have "length demo_pcm = 2 * (GetByteSize SAMPLE_S16LE * 2)" by code_simp
  moreover have "int_format SAMPLE_S16LE" by (simp add: int_format_def)
  moreover have "map (\<lambda>x. x * 32768 div 65536) (sample_values SAMPLE_S16LE demo_pcm) = [500, - 500, 16383, - 16384]"
    unfolding demo_values by simp
  ultimately show ?thesis
    using process_constant_gain [of SAMPLE_S16LE 2 32768 2 demo_pcm demo_repr] demo_values by auto
qed

text \<open>
  A ramp begins exactly at its first volume, never leaves the range of valid volumes and
  never turns back, whatever the rounding of the \<open>float\<close> steps.
\<close>

theorem ramp_is_monotone:
  assumes "0 \<le> a" and "a \<le> 65536" and "k \<le> l"
  shows "frame_volume a b n 0 = a \<and> 0 \<le> frame_volume a b n k \<and> frame_volume a b n k \<le> 65536 \<and>
    (if a \<le> b then frame_volume a b n k \<le> frame_volume a b n l else frame_volume a b n l \<le> frame_volume a b n k)"
  using frame_volume_first(1) [OF assms(1,2)] frame_volume_range frame_volume_mono [OF assms(3)] by simp

theorem ramp_is_monotone_witness:
  "frame_volume 0 65536 4 1 \<le> frame_volume 0 65536 4 2 \<and> frame_volume 0 65536 4 0 = 0"
  using ramp_is_monotone [of 0 1 2 65536 4] by simp

lemma checked_sum_replicate:
  "0 \<le> acc \<Longrightarrow> 0 < x \<Longrightarrow> acc \<le> bound \<Longrightarrow> bound < acc + int n * x \<Longrightarrow>
     checked_sum bound (replicate n x) acc = Inl SignedOverflow"
  by (induction n arbitrary: acc) (auto simp: algebra_simps)

lemma slice_replicate: "off + n \<le> m \<Longrightarrow> slice off n (replicate m x) = replicate n x"
  by (simp add: slice_def min_def)

lemma quiet_24bit_overflows: "CountVolumeLevel R (Some (replicate 387 255)) SAMPLE_S24LE 1 = Inl SignedOverflow"
proof -
  have "channel_samples 3 1 129 0 (replicate 387 255) = map (\<lambda>_. [255, 255, 255]) [0..<129]"
    unfolding channel_samples_def by (intro map_cong) (simp_all add: slice_replicate numeral_3_eq_3)
  then have c: "map (abs_sample SAMPLE_S24LE) (channel_samples 3 1 129 0 (replicate 387 255)) = replicate 129 16777215"
    by (simp add: abs_sample_def ReadInt24LE_def map_replicate_const)
  have "checked_sum (2 ^ 31 - 1) (replicate 129 16777215) 0 = Inl SignedOverflow"
    by (rule checked_sum_replicate) simp_all
  with c show ?thesis
    by (simp add: CountVolumeLevel_def CountS16Volume_def CountS24Volume_def CountIntVolume_def GetByteSize_def Let_def)
qed

lemma quiet_levels:
  "map_sum id (\<lambda>v. volStart v ! 0) (CountVolumeLevel R (Some (replicate 6 255)) SAMPLE_S24LE 1) = Inr 16777215"
  "map_sum id (\<lambda>v. volStart v ! 0) (CountVolumeLevel R (Some (replicate 4 255)) SAMPLE_S16LE 1) = Inr 1"
proof -
  have "channel_samples 3 1 2 0 (replicate 6 255) = [[255, 255, 255], [255, 255, 255]]"
    "channel_samples 2 1 2 0 (replicate 4 255) = [[255, 255], [255, 255]]"
    by (simp_all add: channel_samples_def slice_def upt_rec numeral_eq_Suc)
  moreover have "abs_sample SAMPLE_S24LE [255, 255, 255] = 16777215" "abs_sample SAMPLE_S16LE [255, 255] = 1"
    by (simp_all add: abs_sample_def ReadInt24LE_def)
  ultimately show
    "map_sum id (\<lambda>v. volStart v ! 0) (CountVolumeLevel R (Some (replicate 6 255)) SAMPLE_S24LE 1) = Inr 16777215"
    "map_sum id (\<lambda>v. volStart v ! 0) (CountVolumeLevel R (Some (replicate 4 255)) SAMPLE_S16LE 1) = Inr 1"
    by (simp_all add: CountVolumeLevel_def CountS16Volume_def CountS24Volume_def CountIntVolume_def GetByteSize_def CHANNEL_MAX_def Let_def del: replicate.simps)
qed

text \<open>
  The level of a 24-bit buffer counts a negative sample as a large positive one:
  \<open>ReadInt24LE\<close> is not sign extended, so an amplitude of \<open>-x\<close> counts as \<open>2\<^sup>2\<^sup>4 - x\<close>. A buffer one
  step below silence reads 16777215 where its 16-bit form reads 1, and 129 frames of it overflow
  the 32-bit sum.
\<close>

theorem level_of_negative_24bit:
  assumes "sample_value SAMPLE_S24LE p < 0"
  shows "abs_sample SAMPLE_S24LE p = 16777216 + sample_value SAMPLE_S24LE p \<and>
    map_sum id (\<lambda>v. volStart v ! 0) (CountVolumeLevel R (Some (replicate 6 255)) SAMPLE_S24LE 1) = Inr 16777215 \<and>
    map_sum id (\<lambda>v. volStart v ! 0) (CountVolumeLevel R (Some (replicate 4 255)) SAMPLE_S16LE 1) = Inr 1 \<and>
    CountVolumeLevel R (Some (replicate 387 255)) SAMPLE_S24LE 1 = Inl SignedOverflow"
proof -
  let ?u = "ReadInt24LE p"
  have u: "bit ?u n \<Longrightarrow> n < 24" for n by (auto simp: ReadInt24LE_def bit_simps dest: bit_u8)
  then have m: "take_bit 24 (uint ?u) = uint ?u" by (intro bit_eqI) (auto simp: bit_simps)
  have lt: "uint ?u < 16777216" using take_bit_int_less_exp [of 24 "uint ?u"] m by simp
  have "sint ?u = uint ?u"
    using lt order_trans [of "- 2147483648" 0 "uint ?u"] by (simp add: sint_uint signed_take_bit_int_eq_self)
  moreover have "sint (ucast ?u :: 24 word) = uint ?u - (if bit (uint ?u) 23 then 16777216 else 0)"
    using lt by (simp add: sint_uint unsigned_ucast_eq m signed_take_bit_eq_take_bit_minus)
  moreover have "map_sum id (\<lambda>v. volStart v ! 0) (CountVolumeLevel R (Some (replicate 6 255)) SAMPLE_S24LE 1) = Inr 16777215"
    "map_sum id (\<lambda>v. volStart v ! 0) (CountVolumeLevel R (Some (replicate 4 255)) SAMPLE_S16LE 1) = Inr 1"
    by (rule quiet_levels)+
  ultimately show ?thesis using assms quiet_24bit_overflows [of R]
    by (auto simp: abs_sample_def sample_value_def split: if_splits)
qed

theorem level_of_negative_24bit_witness:
  "abs_sample SAMPLE_S24LE [254, 255, 255] = 16777214"
proof -
  have v: "sample_value SAMPLE_S24LE [254, 255, 255] = - 2" by code_simp
  from level_of_negative_24bit [of "[254, 255, 255]" demo_repr] v show ?thesis by simp
qed

section \<open>Mono and stereo\<close>

lemma s16_bytes_length: "length (s16_bytes ws) = 2 * length ws"
  by (induction ws) (simp_all add: s16_bytes_def)

lemma s16_bytes_Cons: "s16_bytes (w # ws) = write_le 2 w @ s16_bytes ws"
  by (simp add: s16_bytes_def)

lemma s16_samples_shift:
  "length p = 2 \<Longrightarrow> s16_samples (p @ bytes) (Suc n) = read_le p # s16_samples bytes n"
proof -
  assume p: "length p = 2"
  have "map (\<lambda>k. read_le (slice (2 * k) 2 (p @ bytes)) :: 16 word) [0..<Suc n] =
      read_le (slice 0 2 (p @ bytes)) # map (\<lambda>k. read_le (slice (2 * Suc k) 2 (p @ bytes))) [0..<n]"
    by (simp only: upt_conv_Cons [of 0 "Suc n"] map_Suc_upt [symmetric] list.map map_map comp_def zero_less_Suc mult_0_right)
  with p show ?thesis by (simp add: s16_samples_def slice_def)
qed

lemma s16_samples_bytes: "s16_samples (s16_bytes ws @ rest) (length ws) = ws"
  by (induction ws) (simp_all add: s16_bytes_Cons s16_samples_shift read_write, simp add: s16_samples_def)

lemma s16_bytes_samples: "length bytes = 2 * n \<Longrightarrow> s16_bytes (s16_samples bytes n) = bytes"
proof (induction n arbitrary: bytes)
  case (Suc n)
  then obtain a b r where b: "bytes = [a, b] @ r" "length r = 2 * n"
    by (metis append_Cons append_Nil length_Suc_conv mult_Suc_right add_2_eq_Suc)
  have "write_le (length [a, b]) (read_le [a, b] :: 16 word) = [a, b]" by (rule write_read) simp
  then have "write_le 2 (read_le [a, b] :: 16 word) = [a, b]" by (simp only: list.size numeral_2_eq_2 add_0 add_0_right add_Suc_right)
  moreover have "s16_samples ([a, b] @ r) (Suc n) = read_le [a, b] # s16_samples r n"
    by (rule s16_samples_shift) simp
  ultimately show ?case unfolding b(1) using Suc.IH [OF b(2)] by (simp only: s16_bytes_Cons)
qed (simp add: s16_samples_def s16_bytes_def)

lemma pair_means_twice: "pair_means (concat (map (\<lambda>w. [w, w]) ws)) = ws"
proof (induction ws)
  case (Cons w ws)
  have "(sint w + sint w) sdiv 2 = sint w" by (simp add: signed_divide_int_def sgn_if abs_mult)
  then show ?case using Cons by simp
qed simp

text \<open>
  Converting mono to stereo and back returns the mono data, for any mono buffer of whole
  samples and destinations of the sizes the two functions ask for.
\<close>

theorem mono_stereo_roundtrip:
  assumes "even (length m)" and "length st = 2 * length m" and "length back = length m"
  shows "\<exists>stereo. S16MonoToS16Stereo (Some m) (Some st) = (0, Some stereo) \<and>
    length stereo = length st \<and> S16StereoToS16Mono (Some stereo) (Some back) = (0, Some m)"
proof -
  let ?n = "length m div 2"
  let ?ws = "s16_samples m ?n"
  let ?dup = "concat (map (\<lambda>w. [w, w]) ?ws)"
  have lw: "length ?ws = ?n" by (simp add: s16_samples_def)
  have ld: "length ?dup = 2 * ?n" using lw by (simp add: length_concat comp_def sum_list_triv)
  have ln: "length m = 2 * ?n" using assms(1) by simp
  have lb: "length (s16_bytes ?dup) = 2 * length m" using ld ln by (simp add: s16_bytes_length)
  have one: "S16MonoToS16Stereo (Some m) (Some st) = (0, Some (s16_bytes ?dup))"
    using assms(2) lb by (simp add: S16MonoToS16Stereo_def)
  have "s16_samples (s16_bytes ?dup) (2 * (length (s16_bytes ?dup) div 2 div 2)) = ?dup"
    using s16_samples_bytes [of ?dup "[]"] ld lb by simp
  then have "S16StereoToS16Mono (Some (s16_bytes ?dup)) (Some back) = (0, Some (s16_bytes ?ws))"
    using assms(3) lb lw ln by (simp add: S16StereoToS16Mono_def pair_means_twice s16_bytes_length Let_def)
  moreover have "s16_bytes ?ws = m" by (rule s16_bytes_samples [OF ln])
  ultimately show ?thesis using one lb assms(2) by simp
qed

theorem mono_stereo_roundtrip_witness:
  "\<exists>stereo. S16MonoToS16Stereo (Some [1, 2, 255, 255]) (Some (replicate 8 0)) = (0, Some stereo) \<and>
     S16StereoToS16Mono (Some stereo) (Some [0, 0, 0, 0]) = (0, Some [1, 2, 255, 255])"
  using mono_stereo_roundtrip [of "[1, 2, 255, 255]" "replicate 8 0" "[0, 0, 0, 0]"] by auto

end
