(* ===== verification/PcmConvert.thy ===== *)
theory PcmConvert
  imports VolumeTools
begin

text \<open>
  \<open>services/audio_service/common/src/audio_common_converter.cpp\<close> and
  \<open>frameworks/native/audioutils/src/audio_channel_blend.cpp\<close>: conversion of PCM data to 32-bit,
  16-bit and \<open>float\<close> samples with a volume, and the blending of left and right channels.

  A converter walks a source and a destination with pointers, some of which start behind the
  end. A pointer is its offset; reading or writing outside the array is \<open>UncheckedAccess\<close>,
  and converting a \<open>float\<close> that does not fit the target is \<open>BadConversion\<close>.
\<close>

section \<open>Arrays and loops\<close>

definition fetch :: "'a list \<Rightarrow> int \<Rightarrow> 'a exec" where
  "fetch xs i = (if 0 \<le> i \<and> i < int (length xs) then Inr (xs ! nat i) else Inl UncheckedAccess)"

definition store :: "'a list \<Rightarrow> int \<Rightarrow> 'a \<Rightarrow> 'a list exec" where
  "store xs i v = (if 0 \<le> i \<and> i < int (length xs) then Inr (xs[nat i := v]) else Inl UncheckedAccess)"

fun for_down :: "(int \<Rightarrow> 's \<Rightarrow> 's exec) \<Rightarrow> nat \<Rightarrow> 's \<Rightarrow> 's exec" where
  "for_down body 0 s = Inr s"
| "for_down body (Suc n) s = exec_bind (body (int n) s) (for_down body n)"

fun for_up :: "(int \<Rightarrow> 's \<Rightarrow> 's exec) \<Rightarrow> int \<Rightarrow> nat \<Rightarrow> 's \<Rightarrow> 's exec" where
  "for_up body i 0 s = Inr s"
| "for_up body i (Suc n) s = exec_bind (body i s) (for_up body (i + 1) n)"

text \<open>An integer times a \<open>float\<close>, converted to a signed integer of \<open>w\<close> bits.\<close>

definition in_range :: "nat \<Rightarrow> int \<Rightarrow> bool" where
  "in_range w i \<longleftrightarrow> - (2 ^ (w - 1)) \<le> i \<and> i < 2 ^ (w - 1)"

definition to_int :: "nat \<Rightarrow> f32 \<Rightarrow> int exec" where
  "to_int w x = (case x of
     FFin r \<Rightarrow> if in_range w (rat_trunc r) then Inr (rat_trunc r) else Inl BadConversion
   | _ \<Rightarrow> Inl BadConversion)"

fun f32_mul :: "f32 \<Rightarrow> f32 \<Rightarrow> f32" where
  "f32_mul (FFin x) (FFin y) = f32_round (x * y)"
| "f32_mul FNaN _ = FNaN"
| "f32_mul _ FNaN = FNaN"
| "f32_mul (FFin x) y = (if x = 0 then FNaN else if (x > 0) = (y = FPosInf) then FPosInf else FNegInf)"
| "f32_mul y (FFin x) = (if x = 0 then FNaN else if (x > 0) = (y = FPosInf) then FPosInf else FNegInf)"
| "f32_mul x y = (if x = y then FPosInf else FNegInf)"

definition mul_to_int :: "nat \<Rightarrow> int \<Rightarrow> f32 \<Rightarrow> int exec" where
  "mul_to_int w x volume = to_int w (f32_mul (f32_of_int x) volume)"

section \<open>Converters\<close>

definition read16 :: "u8 list \<Rightarrow> int \<Rightarrow> int exec" where
  "read16 buffer i = exec_bind (fetch buffer (2 * i)) (\<lambda>b0. exec_bind (fetch buffer (2 * i + 1))
     (\<lambda>b1. Inr (sint (read_le [b0, b1] :: 16 word))))"

definition read32 :: "u8 list \<Rightarrow> int \<Rightarrow> u32 exec" where
  "read32 buffer i = exec_bind (fetch buffer (4 * i)) (\<lambda>b0. exec_bind (fetch buffer (4 * i + 1))
     (\<lambda>b1. exec_bind (fetch buffer (4 * i + 2)) (\<lambda>b2. exec_bind (fetch buffer (4 * i + 3))
     (\<lambda>b3. Inr (read_le [b0, b1, b2, b3])))))"

text \<open>One element of each format; \<open>R\<close> decodes the bits of a \<open>float\<close>.\<close>

definition to32_body :: "float_repr \<Rightarrow> u8 list \<Rightarrow> int \<Rightarrow> f32 \<Rightarrow> int \<Rightarrow> int list \<Rightarrow> int list exec" where
  "to32_body R buffer format volume i dst =
     exec_bind
       (if format = 0
        then exec_bind (fetch buffer i) (\<lambda>b. Inr ((uint b - 128) * 2 ^ 24))
        else if format = 1
        then exec_bind (read16 buffer i) (\<lambda>x. mul_to_int 32 (x * 2 ^ 16) volume)
        else if format = 2
        then exec_bind (fetch buffer (3 * i)) (\<lambda>b0. exec_bind (fetch buffer (3 * i + 1)) (\<lambda>b1.
             exec_bind (fetch buffer (3 * i + 2)) (\<lambda>b2.
               mul_to_int 32 (sint (push_bit 8 (ucast b0) OR push_bit 16 (ucast b1) OR push_bit 24 (ucast b2) :: u32)) volume)))
        else if format = 3
        then exec_bind (read32 buffer i) (\<lambda>x. mul_to_int 32 (sint x) volume)
        else exec_bind (read32 buffer i) (\<lambda>x.
               to_int 32 (f32_mul (f32_mul (f32_dec R (write_le 4 x)) volume) (FFin (2 ^ 31)))))
       (\<lambda>v. store dst i v)"

definition ConvertBufferTo32Bit ::
    "float_repr \<Rightarrow> u8 list \<Rightarrow> int \<Rightarrow> int list \<Rightarrow> nat \<Rightarrow> f32 \<Rightarrow> int list exec" where
  "ConvertBufferTo32Bit R buffer format dst count volume =
     (if 0 \<le> format \<and> format \<le> 3 then for_down (to32_body R buffer format volume) count dst
      else if format = 4 then for_up (to32_body R buffer format volume) 0 count dst
      else Inr dst)"

text \<open>
  In the 24-bit case both pointers are moved to the end and then walk forward: element \<open>i\<close> of
  the loop is read and written \<open>count\<close> elements behind the beginning.
\<close>

definition to16_24_body :: "u8 list \<Rightarrow> nat \<Rightarrow> f32 \<Rightarrow> int \<Rightarrow> int list \<Rightarrow> int list exec" where
  "to16_24_body buffer count volume i dst =
     exec_bind (fetch buffer (3 * (int count + i) + 1)) (\<lambda>b1. exec_bind (fetch buffer (3 * (int count + i) + 2)) (\<lambda>b2.
       exec_bind (mul_to_int 16 (uint b1 + uint b2 * 256) volume) (\<lambda>v. store dst (int count + i) v)))"

definition to16_body :: "float_repr \<Rightarrow> u8 list \<Rightarrow> int \<Rightarrow> f32 \<Rightarrow> int \<Rightarrow> int list \<Rightarrow> int list exec" where
  "to16_body R buffer format volume i dst =
     exec_bind
       (if format = 0
        then exec_bind (fetch buffer i) (\<lambda>b. Inr ((uint b - 128) * 2 ^ 8))
        else if format = 1
        then exec_bind (read16 buffer i) (\<lambda>x. mul_to_int 16 x volume)
        else if format = 3
        then exec_bind (read32 buffer i) (\<lambda>x. mul_to_int 16 (drop_bit 16 (sint x)) volume)
        else exec_bind (read32 buffer i) (\<lambda>x.
               to_int 16 (f32_mul (f32_mul (f32_dec R (write_le 4 x)) (FFin (2 ^ 15))) volume)))
       (\<lambda>v. store dst i v)"

definition ConvertBufferTo16Bit ::
    "float_repr \<Rightarrow> u8 list \<Rightarrow> int \<Rightarrow> int list \<Rightarrow> nat \<Rightarrow> f32 \<Rightarrow> int list exec" where
  "ConvertBufferTo16Bit R buffer format dst count volume =
     (if format = 0 \<or> format = 1 \<or> format = 3 then for_down (to16_body R buffer format volume) count dst
      else if format = 2 then for_up (to16_24_body buffer count volume) 0 count dst
      else if format = 4 then for_up (to16_body R buffer format volume) 0 count dst
      else Inr dst)"

section \<open>Blending channels\<close>

datatype ChannelBlendMode = MODE_DEFAULT | MODE_BLEND_LR | MODE_ALL_LEFT | MODE_ALL_RIGHT

record AudioBlend =
  blendMode :: ChannelBlendMode
  blendFormat :: u8
  channels :: u8

definition AudioBlend_ctor :: AudioBlend where
  "AudioBlend_ctor = \<lparr>blendMode = MODE_DEFAULT, blendFormat = 0, channels = 0\<rparr>"

definition SetParams :: "AudioBlend \<Rightarrow> ChannelBlendMode \<Rightarrow> u8 \<Rightarrow> u8 \<Rightarrow> AudioBlend" where
  "SetParams a m f c = a\<lparr>blendMode := m, blendFormat := f, channels := c\<rparr>"

text \<open>
  The three switches visit the same pairs in the same order, fall-throughs included; \<open>op\<close> is
  what the mode does to a pair.
\<close>

definition channel_pairs :: "nat \<Rightarrow> (nat \<times> nat) list" where
  "channel_pairs ch =
     (if ch = 8 then [(6, 7), (4, 5), (0, 1)]
      else if ch = 7 \<or> ch = 6 then [(4, 5), (0, 1)]
      else if ch = 5 \<or> ch = 4 then [(2, 3), (0, 1)]
      else if ch = 3 \<or> ch = 2 then [(0, 1)]
      else [])"

definition on_pair :: "('a \<Rightarrow> 'a \<Rightarrow> 'a \<times> 'a) \<Rightarrow> nat \<Rightarrow> 'a list \<Rightarrow> nat \<times> nat \<Rightarrow> 'a list" where
  "on_pair op off buf ij =
     (case op (buf ! (off + fst ij)) (buf ! (off + snd ij)) of
        (l, r) \<Rightarrow> buf[off + fst ij := l, off + snd ij := r])"

definition blend_frame :: "('a \<Rightarrow> 'a \<Rightarrow> 'a \<times> 'a) \<Rightarrow> nat \<Rightarrow> 'a list \<Rightarrow> nat \<Rightarrow> 'a list" where
  "blend_frame op ch buf i = foldl (on_pair op (i * ch)) buf (channel_pairs ch)"

text \<open>The loop over \<open>count\<close> frames; the buffer must hold them.\<close>

definition blend_frames :: "('a \<Rightarrow> 'a \<Rightarrow> 'a \<times> 'a) \<Rightarrow> nat \<Rightarrow> nat \<Rightarrow> 'a list \<Rightarrow> 'a list exec" where
  "blend_frames op ch count buf =
     (if channel_pairs ch \<noteq> [] \<and> length buf < count * ch then Inl UncheckedAccess
      else Inr (foldl (blend_frame op ch) buf [0..<count]))"

definition all_left :: "'a \<Rightarrow> 'a \<Rightarrow> 'a \<times> 'a" where "all_left l r = (l, l)"
definition all_right :: "'a \<Rightarrow> 'a \<Rightarrow> 'a \<times> 'a" where "all_right l r = (r, r)"

definition BlendLR_u8 :: "u8 \<Rightarrow> u8 \<Rightarrow> u8 \<times> u8" where
  "BlendLR_u8 l r = (let m = word_of_int (uint l div 2 + uint r div 2) in (m, m))"

definition BlendLR_signed :: "'a::len word \<Rightarrow> 'a word \<Rightarrow> 'a word \<times> 'a word" where
  "BlendLR_signed l r = (let m = word_of_int (sint l sdiv 2 + sint r sdiv 2) in (m, m))"

text \<open>A 24-bit sample is its three signed bytes, and each byte is averaged by itself.\<close>

definition half_sum8 :: "u8 \<Rightarrow> u8 \<Rightarrow> u8" where
  "half_sum8 x y = word_of_int (sint x sdiv 2 + sint y sdiv 2)"

definition BlendLR_int24 :: "u8 \<times> u8 \<times> u8 \<Rightarrow> u8 \<times> u8 \<times> u8 \<Rightarrow> (u8 \<times> u8 \<times> u8) \<times> (u8 \<times> u8 \<times> u8)" where
  "BlendLR_int24 l r =
     (case (l, r) of ((l0, l1, l2), (r0, r1, r2)) \<Rightarrow>
        let l0' = half_sum8 l0 r0; l1' = half_sum8 l1 r1; l2' = half_sum8 l2 r2
        in ((l0', l1', l2'), (l0', r1, l2')))"

definition blend_op :: "ChannelBlendMode \<Rightarrow> ('a \<Rightarrow> 'a \<Rightarrow> 'a \<times> 'a) \<Rightarrow> ('a \<Rightarrow> 'a \<Rightarrow> 'a \<times> 'a) option" where
  "blend_op m blend = (case m of
     MODE_BLEND_LR \<Rightarrow> Some blend | MODE_ALL_LEFT \<Rightarrow> Some all_left | MODE_ALL_RIGHT \<Rightarrow> Some all_right | _ \<Rightarrow> None)"

definition ProcessWithBlendMode ::
    "AudioBlend \<Rightarrow> ('a \<Rightarrow> 'a \<Rightarrow> 'a \<times> 'a) \<Rightarrow> nat \<Rightarrow> 'a list \<Rightarrow> 'a list exec" where
  "ProcessWithBlendMode a blend bufferSize buf =
     (if channels a = 0 then Inr buf
      else
        let frameCount = (bufferSize div (unat (channels a) * (unat (blendFormat a) + 1))) mod 2 ^ 32
        in case blend_op (blendMode a) blend of
             None \<Rightarrow> Inr buf
           | Some op \<Rightarrow> blend_frames op (unat (channels a)) frameCount buf)"

text \<open>The bytes of a buffer as samples of \<open>n\<close> bytes, and back.\<close>

definition split_samples :: "nat \<Rightarrow> u8 list \<Rightarrow> u8 list list" where
  "split_samples n bytes = map (\<lambda>k. slice (k * n) n bytes) [0..<length bytes div n]"

definition through_samples ::
    "nat \<Rightarrow> (u8 list \<Rightarrow> 'a) \<Rightarrow> ('a \<Rightarrow> u8 list) \<Rightarrow> ('a list \<Rightarrow> 'a list exec) \<Rightarrow> u8 list \<Rightarrow> u8 list exec" where
  "through_samples n dec enc f bytes =
     exec_bind (f (map dec (split_samples n bytes)))
       (\<lambda>xs. Inr (concat (map enc xs) @ drop (length bytes div n * n) bytes))"

definition AudioBlend_Process :: "AudioBlend \<Rightarrow> u8 list \<Rightarrow> nat \<Rightarrow> u8 list exec" where
  "AudioBlend_Process a buffer bufferSize =
     (if blendFormat a = SAMPLE_U8
      then through_samples 1 hd (\<lambda>b. [b]) (ProcessWithBlendMode a BlendLR_u8 bufferSize) buffer
      else if blendFormat a = SAMPLE_S16LE
      then through_samples 2 (read_le :: _ \<Rightarrow> 16 word) (write_le 2) (ProcessWithBlendMode a BlendLR_signed bufferSize) buffer
      else if blendFormat a = SAMPLE_S24LE
      then through_samples 3 (\<lambda>p. (p ! 0, p ! 1, p ! 2)) (\<lambda>(x, y, z). [x, y, z])
             (ProcessWithBlendMode a BlendLR_int24 bufferSize) buffer
      else if blendFormat a = SAMPLE_S32LE
      then through_samples 4 (read_le :: _ \<Rightarrow> u32) (write_le 4) (ProcessWithBlendMode a BlendLR_signed bufferSize) buffer
      else Inr buffer)"

section \<open>Through floats\<close>

definition sample_int :: "nat \<Rightarrow> u8 list \<Rightarrow> int" where
  "sample_int samplePerFrame p =
     (if samplePerFrame = 3
      then sint (push_bit 24 (ucast (p ! 2)) OR push_bit 16 (ucast (p ! 1)) OR push_bit 8 (ucast (p ! 0)) :: u32)
      else sint (read_le p :: u32))"

text \<open>The shifts of the two functions are defined for one to four bytes per sample.\<close>

definition sample_to_float :: "nat \<Rightarrow> f32 \<Rightarrow> u8 list \<Rightarrow> f32" where
  "sample_to_float samplePerFrame volume p =
     f32_mul (f32_mul (f32_of_int (sample_int samplePerFrame p)) volume)
       (FFin (if samplePerFrame = 3 then fl32 (1 / 2 ^ 31) else fl32 (1 / 2 ^ (samplePerFrame * 8 - 1))))"

definition ConvertBufferToFloat :: "u8 list \<Rightarrow> nat \<Rightarrow> nat \<Rightarrow> f32 \<Rightarrow> f32 list exec" where
  "ConvertBufferToFloat buffer samplePerFrame n volume =
     (if n = 0 then Inr []
      else if samplePerFrame = 0 \<or> samplePerFrame > 4 then Inl BadConversion
      else if length buffer < n * samplePerFrame then Inl UncheckedAccess
      else Inr (map (\<lambda>i. sample_to_float samplePerFrame volume (slice (i * samplePerFrame) samplePerFrame buffer)) [0..<n]))"

text \<open>\<open>std::pow\<close> and the product are in \<open>double\<close>, where they are exact for these operands.\<close>

definition float_to_sample :: "nat \<Rightarrow> f32 \<Rightarrow> u8 list exec" where
  "float_to_sample samplePerFrame x =
     (case x of
        FFin r \<Rightarrow>
          let v = rat_trunc (fl64 (r * 2 ^ (samplePerFrame * 8 - 1)))
          in if in_range 32 v then Inr (write_le samplePerFrame (word_of_int v :: u32)) else Inl BadConversion
      | _ \<Rightarrow> Inl BadConversion)"

definition ConvertFloatToAudioBuffer :: "f32 list \<Rightarrow> u8 list \<Rightarrow> nat \<Rightarrow> u8 list exec" where
  "ConvertFloatToAudioBuffer xs buffer samplePerFrame =
     (if xs = [] then Inr buffer
      else if samplePerFrame = 0 \<or> samplePerFrame > 4 then Inl BadConversion
      else if length buffer < length xs * samplePerFrame then Inl UncheckedAccess
      else exec_bind (exec_list (map (float_to_sample samplePerFrame) xs))
             (\<lambda>ps. Inr (concat ps @ drop (length xs * samplePerFrame) buffer)))"

section \<open>Exact floats\<close>

lemma fl_exact:
  assumes "\<bar>n\<bar> < 2 ^ nat prec" and "emin \<le> k" and "0 < prec"
  shows "fl prec emin (of_int n * pow2 k) = of_int n * pow2 k"
proof -
  have pos: "fl_pos prec emin (of_int m * pow2 k) = of_int m * pow2 k" if "0 < m" "m < 2 ^ nat prec" for m :: int
  proof (rule fl_pos_exact [where k = k and n = m])
    show p: "(0::rat) < of_int m * pow2 k" using that by simp
    have "(of_int m :: rat) < pow2 prec" using that(2) assms(3) pow2_nat [of "nat prec"] by simp
    then have "of_int m * pow2 k < pow2 (prec + k)" by (simp add: pow2_add)
    then have "expo (of_int m * pow2 k) < prec + k"
      using expo_bounds [OF p] pow2_mono [of "prec + k" "expo (of_int m * pow2 k)"] by force
    then show "max (expo (of_int m * pow2 k) - (prec - 1)) emin \<le> k" using assms(2) by simp
  qed simp
  show ?thesis
    using pos [of n] pos [of "- n"] assms by (cases "n = 0"; cases "0 < n") (auto simp: fl_def mult_less_0_iff)
qed

lemma fl32_exact: "\<bar>n\<bar> < 16777216 \<Longrightarrow> - 149 \<le> k \<Longrightarrow> fl32 (of_int n * pow2 k) = of_int n * pow2 k"
  unfolding fl32_def by (rule fl_exact) simp_all

lemma f32_round_exact:
  assumes "\<bar>n\<bar> < 16777216" and "- 149 \<le> k" and "k \<le> 100"
  shows "f32_round (of_int n * pow2 k) = FFin (of_int n * pow2 k)"
proof -
  have "\<bar>of_int n * pow2 k\<bar> \<le> of_int \<bar>n\<bar> * pow2 100"
    using pow2_mono [OF assms(3)] by (simp add: abs_mult mult_left_mono)
  also have "\<dots> < pow2 24 * pow2 100"
  proof -
    have "(of_int \<bar>n\<bar> :: rat) < 16777216" using assms(1) by (metis of_int_less_iff of_int_numeral)
    then show ?thesis by (intro mult_strict_right_mono) (simp_all add: pow2_def)
  qed
  also have "\<dots> \<le> 2 ^ 128" by (simp add: pow2_def)
  finally show ?thesis using fl32_exact [OF assms(1,2)] by (simp add: f32_round_finite)
qed


section \<open>Round trip through floats\<close>

lemma write_le_cong:
  "(\<And>i. i < 8 * n \<Longrightarrow> bit (v::'a::len word) i = bit w i) \<Longrightarrow> write_le n v = write_le n w"
proof (induction n arbitrary: v w)
  case (Suc n)
  have "(ucast v :: u8) = ucast w" by (rule bit_word_eqI) (use Suc.prems in \<open>auto simp: bit_simps\<close>)
  moreover have "write_le n (drop_bit 8 v) = write_le n (drop_bit 8 w)"
    by (rule Suc.IH) (use Suc.prems in \<open>auto simp: bit_simps\<close>)
  ultimately show ?case by simp
qed simp

text \<open>A sample of one to three bytes is an integer of at most 24 bits, times 256 when it has three.\<close>

lemma push_drop_low:
  assumes "\<And>i. i < n \<Longrightarrow> \<not> bit k i"
  shows "drop_bit n k * 2 ^ n = (k::int)"
proof -
  have "take_bit n k = 0" by (rule bit_eqI) (auto simp: bit_take_bit_iff assms)
  then show ?thesis using bits_ident [of n k] by (simp add: push_bit_eq_mult)
qed

lemma length_3: "length p = 3 \<Longrightarrow> p = [p ! 0, p ! 1, p ! 2]"
  by (rule nth_equalityI) (auto simp: less_Suc_eq numeral_3_eq_3 numeral_2_eq_2)

lemma sample_int_split3:
  fixes p :: "u8 list"
  assumes "length p = 3"
  obtains t where "sample_int 3 p = t * 2 ^ 8" and "\<bar>t\<bar> < 16777216"
    and "write_le 3 (word_of_int t :: u32) = p" and "in_range 32 t" and "in_range 32 (sample_int 3 p)"
proof -
  define u where "u = (push_bit 24 (ucast (p ! 2)) OR push_bit 16 (ucast (p ! 1)) OR push_bit 8 (ucast (p ! 0)) :: u32)"
  define t where "t = drop_bit 8 (sint u)"
  have z: "\<not> bit (sint u) i" if "i < 8" for i
    using that unfolding u_def by (simp add: bit_sint_iff bit_or_iff bit_push_bit_iff)
  have su: "sample_int 3 p = sint u" by (simp add: sample_int_def u_def)
  then have 1: "sample_int 3 p = t * 2 ^ 8" unfolding t_def using push_drop_low [OF z] by metis
  have r: "- (2 ^ 31) \<le> sint u" "sint u < 2 ^ 31" using sint_greater_eq [of u] sint_less [of u] by simp_all
  then have 2: "\<bar>t\<bar> < 16777216" unfolding t_def drop_bit_eq_div by simp
  then have "- 2147483648 \<le> t" "t < 2147483648" by linarith+
  then have 3: "in_range 32 t" unfolding in_range_def by simp
  have "write_le 3 (word_of_int t :: u32) = write_le 3 (read_le p :: u32)"
  proof (rule write_le_cong)
    fix i :: nat
    assume i: "i < 8 * 3"
    then have "bit (word_of_int t :: u32) i = bit u (8 + i)"
      unfolding t_def by (simp add: bit_word_of_int_iff bit_drop_bit_eq bit_sint_iff min_def)
    also have "\<dots> = bit (p ! (i div 8)) (i mod 8)"
    proof -
      have len: "bit (x::u8) m \<Longrightarrow> m < 8" for x m using bit_imp_le_length [of x m] by simp
      consider "i < 8" | "8 \<le> i" "i < 16" | "16 \<le> i" "i < 24" using i by fastforce
      then show ?thesis
      proof cases
        case 1
        then show ?thesis unfolding u_def
          by (auto simp: bit_or_iff bit_push_bit_iff bit_ucast_iff dest: len)
      next
        case 2
        then have "i div 8 = 1" "i mod 8 = i - 8" by presburger+
        with 2 show ?thesis unfolding u_def
          by (auto simp: bit_or_iff bit_push_bit_iff bit_ucast_iff dest: len)
      next
        case 3
        then have "i div 8 = 2" "i mod 8 = i - 16" by presburger+
        with 3 show ?thesis unfolding u_def
          by (auto simp: bit_or_iff bit_push_bit_iff bit_ucast_iff dest: len)
      qed
    qed
    also have "\<dots> = bit (read_le p :: u32) i" using i assms by (simp add: bit_read_le)
    finally show "bit (word_of_int t :: u32) i = bit (read_le p :: u32) i" .
  qed
  also have "\<dots> = p" using write_read [of p, where 'a = 32] assms by simp
  finally have 4: "write_le 3 (word_of_int t :: u32) = p" .
  have "in_range 32 (sample_int 3 p)" unfolding su in_range_def using r by simp
  then show ?thesis by (rule that [OF 1 2 4 3])
qed


lemma sample_int_split:
  assumes "n = 1 \<or> n = 2" and "length p = n"
  obtains t where "sample_int n p = t" and "\<bar>t\<bar> < 16777216"
    and "write_le n (word_of_int t :: u32) = p" and "in_range 32 t"
proof -
  define r where "r = (read_le p :: u32)"
  have "bit r i \<Longrightarrow> i < 16" for i unfolding r_def using assms by (auto simp: bit_read_le)
  then have "take_bit 16 r = r" by (intro bit_word_eqI) (auto simp: bit_take_bit_iff)
  then have "uint r = take_bit 16 (uint r)" by (metis unsigned_take_bit_eq)
  then have lt: "uint r < 65536" using take_bit_int_less_exp [of 16 "uint r"] by simp
  have nn: "0 \<le> uint r" by simp
  have s: "sint r = uint r"
    unfolding sint_uint by (rule signed_take_bit_int_eq_self) (use lt nn in \<open>simp_all add: order_trans [OF _ nn]\<close>)
  have 2: "\<bar>uint r\<bar> < 16777216" using lt nn by linarith
  have "- 2147483648 \<le> uint r" "uint r < 2147483648" using lt nn by linarith+
  then have 3: "in_range 32 (uint r)" unfolding in_range_def by simp
  have "write_le n r = p" unfolding r_def using write_read [of p, where 'a = 32] assms by auto
  moreover have "sample_int n p = uint r" using assms(1) s unfolding sample_int_def r_def by auto
  ultimately show ?thesis using that [of "uint r"] 2 3 by simp
qed

lemma pow2_vals: "pow2 8 = 256" "pow2 (- 31) = 1 / 2 ^ 31" "pow2 (- 23) = 1 / 2 ^ 23" "pow2 0 = 1"
  "pow2 (- 7) = 1 / 2 ^ 7" "pow2 (- 15) = 1 / 2 ^ 15"
  by (simp_all add: pow2_def)

text \<open>The float of a sample \<open>t * 2\<^sup>j\<close> under the scale \<open>2\<^sup>k\<close>, and back.\<close>

lemma float_sample_step:
  assumes "sample_int n p = t * 2 ^ j" and t: "\<bar>t\<bar> < 16777216" and "j \<le> 8"
    and sc: "(if n = 3 then fl32 (1 / 2 ^ 31) else fl32 (1 / 2 ^ (n * 8 - 1))) = pow2 k" and "- 31 \<le> k" "k \<le> 0"
  shows "sample_to_float n (FFin 1) p = FFin (of_int t * pow2 (int j + k))"
proof -
  have r: "f32_round (of_int t * pow2 i) = FFin (of_int t * pow2 i)" if "- 149 \<le> i" "i \<le> 100" for i
    by (rule f32_round_exact [OF t that])
  have "(of_int (sample_int n p) :: rat) = of_int t * pow2 (int j)" unfolding assms(1) pow2_nat by simp
  then have "f32_of_int (sample_int n p) = FFin (of_int t * pow2 (int j))"
    unfolding f32_of_int_def using r [of "int j"] assms(3) by simp
  moreover have "of_int t * pow2 (int j) * pow2 k = of_int t * pow2 (int j + k)" by (simp add: pow2_add mult.assoc)
  ultimately show ?thesis
    unfolding sample_to_float_def sc using r [of "int j"] r [of "int j + k"] assms(3,5,6)
    by (simp only: f32_mul.simps mult_1_right)
qed

lemma float_back_step:
  assumes "\<bar>t\<bar> < 16777216" "in_range 32 t" "write_le n (word_of_int t :: u32) = p"
  shows "float_to_sample n (FFin (of_int t * pow2 (- int (n * 8 - 1)))) = Inr p"
proof -
  have e: "(of_int t :: rat) * pow2 (- int (n * 8 - 1)) * 2 ^ (n * 8 - 1) = of_int t"
    using pow2_nat [of "n * 8 - 1"] pow2_add [of "- int (n * 8 - 1)" "int (n * 8 - 1)"]
    by (simp add: pow2_vals mult.assoc)
  have f: "fl64 (of_int t) = of_int t" unfolding fl64_def by (rule fl_int) (use assms(1) in simp_all)
  have g: "rat_trunc (of_int t) = t" by simp
  show ?thesis unfolding float_to_sample_def f32.case e f Let_def g using assms by simp
qed

lemma float_sample_roundtrip_one:
  assumes "n = 1 \<or> n = 2 \<or> n = 3" and "length p = n"
  shows "float_to_sample n (sample_to_float n (FFin 1) p) = Inr p"
proof -
  have s: "fl32 (pow2 k) = pow2 k" if "- 149 \<le> k" for k using fl32_exact [of 1 k] that by simp
  show ?thesis
  proof (cases "n = 3")
    case True
    then obtain t where "sample_int 3 p = t * 2 ^ 8" "\<bar>t\<bar> < 16777216"
      "write_le 3 (word_of_int t :: u32) = p" "in_range 32 t"
      using sample_int_split3 assms(2) by metis
    then show ?thesis
      using float_sample_step [of 3 p t 8 "- 31"] float_back_step [of t 3 p] s [of "- 31"] True by (simp add: pow2_vals)
  next
    case False
    with assms(1) have n: "n = 1 \<or> n = 2" by simp
    from sample_int_split [OF this assms(2)] obtain t where "sample_int n p = t" "\<bar>t\<bar> < 16777216"
      "write_le n (word_of_int t :: u32) = p" "in_range 32 t" .
    moreover have "(if n = 3 then fl32 (1 / 2 ^ 31) else fl32 (1 / 2 ^ (n * 8 - 1))) = pow2 (- int (n * 8 - 1))"
      using n s [of "- 7"] s [of "- 15"] by (auto simp: pow2_vals)
    ultimately show ?thesis
      using float_sample_step [of n p t 0 "- int (n * 8 - 1)"] float_back_step [of t n p] n by auto
  qed
qed

end
