(* ===== verification/PcmProps.thy ===== *)
theory PcmProps
  imports PcmConvert
begin

text \<open>
  Properties of \<open>PcmConvert\<close>: the converters as maps over samples, their faults, the round trip
  through \<open>float\<close> samples, and what blending does to each pair of channels.
\<close>

section \<open>Loops that fill an array\<close>

lemma for_down_fill:
  assumes "\<And>i s. i < n \<Longrightarrow> length s = length dst \<Longrightarrow> body (int i) s = store s (int i) (g i)"
    and "n \<le> length dst"
  shows "for_down body n dst = Inr (map g [0..<n] @ drop n dst)"
proof -
  have "for_down body m s = Inr (map g [0..<m] @ drop m s)"
    if "m \<le> n" "length s = length dst" for m s
    using that
  proof (induction m arbitrary: s)
    case (Suc m)
    then have m: "m < n" "m < length s" using assms(2) by simp_all
    have "for_down body (Suc m) s = for_down body m (s[m := g m])"
      using assms(1) [OF m(1) Suc.prems(2)] m by (simp add: store_def)
    also have "\<dots> = Inr (map g [0..<m] @ drop m (s[m := g m]))"
      using Suc.IH [of "s[m := g m]"] Suc.prems by simp
    also have "drop m (s[m := g m]) = g m # drop (Suc m) s"
      using m by (simp add: Cons_nth_drop_Suc [symmetric])
    finally show ?case by simp
  qed simp
  from this [of n dst] assms(2) show ?thesis by simp
qed

lemma fetch_in [simp]: "0 \<le> i \<Longrightarrow> i < int (length xs) \<Longrightarrow> fetch xs i = Inr (xs ! nat i)"
  by (simp add: fetch_def)

lemma fetch_out: "int (length xs) \<le> i \<Longrightarrow> fetch xs i = Inl UncheckedAccess"
  by (simp add: fetch_def)

section \<open>Widening at unit volume\<close>

text \<open>The value of element \<open>i\<close> in the 8-, 16- and 24-bit formats, aligned to 32 bits.\<close>

definition widened :: "int \<Rightarrow> u8 list \<Rightarrow> nat \<Rightarrow> int" where
  "widened format buffer i =
     (if format = 0 then (uint (buffer ! i) - 128) * 2 ^ 24
      else if format = 1 then sint (read_le (slice (2 * i) 2 buffer) :: 16 word) * 2 ^ 16
      else sample_int 3 (slice (3 * i) 3 buffer))"

lemma nth_slice: "i < n \<Longrightarrow> off + n \<le> length bytes \<Longrightarrow> slice off n bytes ! i = bytes ! (off + i)"
  by (simp add: slice_def)

lemma slice_nths:
  assumes "off + n \<le> length bytes"
  shows "slice off n bytes = map (\<lambda>i. bytes ! (off + i)) [0..<n]"
  by (rule nth_equalityI) (use assms in \<open>auto simp: slice_def\<close>)

lemma mul_to_int_unit:
  assumes "x = t * 2 ^ j" "\<bar>t\<bar> < 16777216" "j \<le> 16" "in_range w x"
  shows "mul_to_int w x (FFin 1) = Inr x"
proof -
  have x: "(of_int x :: rat) = of_int t * pow2 (int j)" unfolding assms(1) pow2_nat by simp
  have "f32_round (of_int x) = FFin (of_int x)" unfolding x by (rule f32_round_exact) (use assms in simp_all)
  then have "f32_mul (f32_of_int x) (FFin 1) = FFin (of_int x)" by (simp add: f32_of_int_def)
  moreover have "rat_trunc (of_int x) = x" by simp
  ultimately show ?thesis unfolding mul_to_int_def to_int_def by (simp only: f32.case assms(4) if_True)
qed

lemma to32_element:
  assumes "0 \<le> format" "format \<le> 2" "length buffer = n * nat (format + 1)" "i < n"
  shows "to32_body R buffer format (FFin 1) (int i) s = store s (int i) (widened format buffer i)"
proof -
  consider "format = 0" | "format = 1" | "format = 2" using assms by linarith
  then show ?thesis
  proof cases
    case 1
    then show ?thesis using assms by (simp add: to32_body_def widened_def)
  next
    case 2
    define x where "x = (read_le (slice (2 * i) 2 buffer) :: 16 word)"
    have len: "2 * i + 2 \<le> length buffer" using assms 2 by simp
    then have sl: "slice (2 * i) 2 buffer = [buffer ! (2 * i), buffer ! (2 * i + 1)]"
      by (simp add: slice_nths numeral_2_eq_2)
    have "read16 buffer (int i) = Inr (sint x)"
      using len by (simp add: read16_def x_def sl nat_add_distrib nat_mult_distrib)
    moreover have "- (2 ^ 15) \<le> sint x" "sint x < 2 ^ 15" using sint_greater_eq [of x] sint_less [of x] by simp_all
    then have "mul_to_int 32 (sint x * 2 ^ 16) (FFin 1) = Inr (sint x * 2 ^ 16)"
      by (intro mul_to_int_unit [where j = 16 and t = "sint x"]) (auto simp: in_range_def)
    ultimately show ?thesis using 2 by (simp add: to32_body_def widened_def x_def)
  next
    case 3
    let ?p = "slice (3 * i) 3 buffer"
    have len: "3 * i + 3 \<le> length buffer" using assms 3 by simp
    then have sl: "?p = [buffer ! (3 * i), buffer ! (3 * i + 1), buffer ! (3 * i + 2)]"
      by (simp add: slice_nths numeral_3_eq_3 numeral_2_eq_2)
    then obtain t where t: "sample_int 3 ?p = t * 2 ^ 8" "\<bar>t\<bar> < 16777216" "in_range 32 (sample_int 3 ?p)"
      using sample_int_split3 [of ?p] by (metis length_Cons list.size(3) numeral_3_eq_3)
    then have "mul_to_int 32 (sample_int 3 ?p) (FFin 1) = Inr (sample_int 3 ?p)"
      by (intro mul_to_int_unit [where j = 8 and t = t]) simp_all
    moreover have "fetch buffer (3 * int i) = Inr (buffer ! (3 * i))"
      "fetch buffer (3 * int i + 1) = Inr (buffer ! (3 * i + 1))"
      "fetch buffer (3 * int i + 2) = Inr (buffer ! (3 * i + 2))"
      using len by (simp_all add: nat_add_distrib nat_mult_distrib)
    moreover have "sint (push_bit 8 (ucast (buffer ! (3 * i))) OR push_bit 16 (ucast (buffer ! (3 * i + 1)))
        OR push_bit 24 (ucast (buffer ! (3 * i + 2))) :: u32) = sample_int 3 ?p"
      by (simp add: sample_int_def sl or.commute or.left_commute)
    ultimately show ?thesis using 3 by (simp only: to32_body_def widened_def) simp
  qed
qed

text \<open>A representation of floats for the witnesses of integer formats, which never use it.\<close>

definition plain_repr :: float_repr where
  "plain_repr = \<lparr>f32_dec = (\<lambda>_. FFin 0), f32_enc = (\<lambda>_. [0, 0, 0, 0])\<rparr>"

text \<open>
  At unit volume, widening 8-, 16- and 24-bit samples to 32 bits is exact: every element is
  its sample shifted to the top of the word, and what lies behind the elements is not written.
\<close>

theorem widening_is_exact:
  assumes "0 \<le> format" and "format \<le> 2" and "length buffer = n * nat (format + 1)" and "n \<le> length dst"
  shows "ConvertBufferTo32Bit R buffer format dst n (FFin 1) = Inr (map (widened format buffer) [0..<n] @ drop n dst)"
  unfolding ConvertBufferTo32Bit_def using assms
  by (simp add: for_down_fill [where g = "widened format buffer"] to32_element [OF assms(1-3)])

theorem widening_is_exact_witness:
  "ConvertBufferTo32Bit plain_repr [1, 2, 3, 255, 255, 255] 2 [0, 0, 7] 2 (FFin 1) = Inr [3 * 2 ^ 24 + 2 * 2 ^ 16 + 2 ^ 8, - 256, 7]"
proof -
  have "map (widened 2 [1, 2, 3, 255, 255, 255]) [0..<2] = [3 * 2 ^ 24 + 2 * 2 ^ 16 + 2 ^ 8, - 256]" by code_simp
  then show ?thesis using widening_is_exact [of 2 "[1, 2, 3, 255, 255, 255]" 2 "[0, 0, 7]" plain_repr] by simp
qed

section \<open>Faults of the converters\<close>

text \<open>
  Narrowing 24-bit samples to 16 bits reads behind the end of the source: both pointers are
  moved to the end before the loop that advances them, so on a source that holds exactly the
  samples the first access is already out of it.
\<close>

theorem narrowing_24bit_faults:
  assumes "0 < n" and "length buffer = 3 * n"
  shows "ConvertBufferTo16Bit R buffer 2 dst n volume = Inl UncheckedAccess"
proof -
  obtain m where "n = Suc m" using assms(1) gr0_conv_Suc by blast
  moreover have "fetch buffer (3 * int n + 1) = Inl UncheckedAccess" by (rule fetch_out) (simp add: assms(2))
  ultimately show ?thesis by (simp add: ConvertBufferTo16Bit_def to16_24_body_def)
qed

theorem narrowing_24bit_faults_witness:
  "ConvertBufferTo16Bit plain_repr [0, 0, 64] 2 [0] 1 (FFin 1) = Inl UncheckedAccess"
  by (rule narrowing_24bit_faults) simp_all

lemma expo_eqI:
  assumes "pow2 k \<le> x" and "x < 2 * pow2 k"
  shows "expo x = k"
proof -
  have x: "0 < x" using assms(1) pow2_pos(1) [of k] by linarith
  note e = expo_bounds [OF x]
  have "\<not> k + 1 \<le> expo x" using pow2_mono [of "k + 1" "expo x"] e assms(2) by (auto simp: pow2_Suc)
  moreover have "\<not> expo x + 1 \<le> k" using pow2_mono [of "expo x + 1" k] e assms(1) by (auto simp: pow2_Suc)
  ultimately show ?thesis by linarith
qed

lemma fl32_boundary:
  "fl32 2147483584 = 2147483648" "fl32 2147483583 = 2147483520" "fl32 2147483520 = 2147483520"
  "fl32 2147483648 = 2147483648" "fl32 (- 2147483648) = - 2147483648"
proof -
  have "expo 2147483584 = 30" "expo 2147483583 = 30" by (rule expo_eqI; simp add: pow2_def)+
  moreover have "\<lfloor>33554431 / 2 :: rat\<rfloor> = 16777215" "\<lfloor>2147483583 / 128 :: rat\<rfloor> = 16777215"
    by (simp_all add: floor_eq_iff)
  ultimately show "fl32 2147483584 = 2147483648" "fl32 2147483583 = 2147483520"
    by (simp_all add: fl32_def fl_def fl_pos_def pow2_def rne_def Let_def)
  show "fl32 2147483520 = 2147483520" using fl32_exact [of 16777215 7] by (simp add: pow2_def)
  show "fl32 2147483648 = 2147483648" using fl32_exact [of 1 31] by (simp add: pow2_def)
  show "fl32 (- 2147483648) = - 2147483648" using fl32_exact [of "- 1" 31] by (simp add: pow2_def)
qed

lemma rat_trunc_bounds:
  "of_int a \<le> x \<Longrightarrow> 0 \<le> a \<Longrightarrow> a \<le> rat_trunc x"
  "x \<le> of_int a \<Longrightarrow> 0 \<le> a \<Longrightarrow> rat_trunc x \<le> a"
  "of_int b \<le> x \<Longrightarrow> b \<le> 0 \<Longrightarrow> b \<le> rat_trunc x"
proof -
  show "of_int a \<le> x \<Longrightarrow> 0 \<le> a \<Longrightarrow> a \<le> rat_trunc x" by (simp add: le_floor_iff)
  have "x < 0 \<Longrightarrow> 0 \<le> \<lfloor>- x\<rfloor>" by simp
  then show "x \<le> of_int a \<Longrightarrow> 0 \<le> a \<Longrightarrow> rat_trunc x \<le> a"
    using floor_mono [of x "of_int a"] order_trans [of "- \<lfloor>- x\<rfloor>" 0 a] by (cases "x < 0") simp_all
  have "of_int b \<le> x \<Longrightarrow> \<lfloor>- x\<rfloor> \<le> - b" using floor_mono [of "- x" "of_int (- b)"] by simp
  moreover have "\<not> x < 0 \<Longrightarrow> 0 \<le> \<lfloor>x\<rfloor>" by simp
  ultimately show "of_int b \<le> x \<Longrightarrow> b \<le> 0 \<Longrightarrow> b \<le> rat_trunc x"
    using order_trans [of b 0 "\<lfloor>x\<rfloor>"] by (cases "x < 0") auto
qed

text \<open>An integer of 32 bits that goes through \<open>float\<close> fits again, up to the last 64.\<close>

lemma mul_to_int_unit32:
  assumes x: "- 2147483648 \<le> (x::int)" "x < 2147483648"
  shows "mul_to_int 32 x (FFin 1) = Inl BadConversion \<longleftrightarrow> 2147483584 \<le> x"
    and "\<exists>v. mul_to_int 32 x (FFin 1) \<in> {Inl BadConversion, Inr v}"
proof -
  define r where "r = fl32 (of_int x)"
  have r2: "- 2147483648 \<le> r" "r \<le> 2147483648"
    unfolding r_def using fl32_mono [of "- 2147483648" "of_int x"] fl32_mono [of "of_int x" 2147483648] x
    by (simp_all add: fl32_boundary)
  have r3: "- 2147483648 \<le> fl32 r" "fl32 r \<le> 2147483648"
    using fl32_mono [OF r2(1)] fl32_mono [OF r2(2)] by (simp_all add: fl32_boundary)
  have "f32_of_int x = FFin r"
    unfolding f32_of_int_def r_def by (rule f32_round_finite) (use r2 in \<open>simp add: r_def abs_less_iff\<close>)
  moreover have "f32_round (r * 1) = FFin (fl32 r)"
    using r3 by (simp add: f32_round_finite abs_less_iff)
  ultimately have m: "mul_to_int 32 x (FFin 1) = (if in_range 32 (rat_trunc (fl32 r)) then Inr (rat_trunc (fl32 r)) else Inl BadConversion)"
    unfolding mul_to_int_def to_int_def by (simp only: f32_mul.simps f32.case)
  have lo: "- 2147483648 \<le> rat_trunc (fl32 r)" using rat_trunc_bounds(3) [of "- 2147483648" "fl32 r"] r3 by simp
  have "in_range 32 (rat_trunc (fl32 r)) \<longleftrightarrow> x < 2147483584"
  proof (cases "2147483584 \<le> x")
    case True
    then have "2147483648 \<le> r" using fl32_mono [of 2147483584 "of_int x"] by (simp add: r_def fl32_boundary)
    then have "2147483648 \<le> fl32 r" using fl32_mono [of 2147483648 r] by (simp add: fl32_boundary)
    then have "2147483648 \<le> rat_trunc (fl32 r)" using rat_trunc_bounds(1) [of 2147483648 "fl32 r"] by simp
    then show ?thesis using True by (simp add: in_range_def)
  next
    case False
    then have "r \<le> 2147483520" using fl32_mono [of "of_int x" 2147483583] by (simp add: r_def fl32_boundary)
    then have "fl32 r \<le> 2147483520" using fl32_mono [of r 2147483520] by (simp add: fl32_boundary)
    then have "rat_trunc (fl32 r) \<le> 2147483520" using rat_trunc_bounds(2) [of "fl32 r" 2147483520] by simp
    then show ?thesis using False lo by (simp add: in_range_def)
  qed
  then show "mul_to_int 32 x (FFin 1) = Inl BadConversion \<longleftrightarrow> 2147483584 \<le> x"
    "\<exists>v. mul_to_int 32 x (FFin 1) \<in> {Inl BadConversion, Inr v}"
    unfolding m by (auto simp del: rat_trunc.simps)
qed

lemma to32_unit_32bit:
  assumes "length buffer = 4"
  shows "ConvertBufferTo32Bit R buffer 3 [d] 1 (FFin 1) =
    exec_bind (mul_to_int 32 (sint (read_le buffer :: u32)) (FFin 1)) (\<lambda>v. Inr [v])"
proof -
  have b: "buffer = [buffer ! 0, buffer ! 1, buffer ! 2, buffer ! 3]"
    by (rule nth_equalityI) (use assms in \<open>auto simp: less_Suc_eq numeral_3_eq_3 numeral_2_eq_2 eval_nat_numeral\<close>)
  have "read32 buffer 0 = Inr (read_le buffer)"
    by (subst (2) b) (simp add: read32_def assms)
  then show ?thesis
    by (cases "mul_to_int 32 (sint (read_le buffer :: u32)) (FFin 1)") (simp_all add: ConvertBufferTo32Bit_def to32_body_def store_def)
qed

text \<open>
  At unit volume a 32-bit sample still goes through \<open>float\<close>: the conversion of its product
  back to an integer is undefined exactly for the samples from 2147483584 on, which round to
  the limit.
\<close>

theorem full_scale_overflows:
  assumes "length buffer = 4"
  shows "ConvertBufferTo32Bit R buffer 3 [d] 1 (FFin 1) = Inl BadConversion
    \<longleftrightarrow> 2147483584 \<le> sint (read_le buffer :: u32)"
proof -
  let ?x = "sint (read_le buffer :: u32)"
  have "- 2147483648 \<le> ?x" "?x < 2147483648"
    using sint_greater_eq [of "read_le buffer :: u32"] sint_less [of "read_le buffer :: u32"] by simp_all
  note x = mul_to_int_unit32 [OF this]
  show ?thesis unfolding to32_unit_32bit [OF assms] x(1) [symmetric] using x(2) by auto
qed

theorem full_scale_overflows_witness:
  "ConvertBufferTo32Bit plain_repr [255, 255, 255, 127] 3 [0] 1 (FFin 1) = Inl BadConversion"
proof -
  have "sint (read_le [255, 255, 255, 127] :: u32) = 2147483647" by code_simp
  then show ?thesis using full_scale_overflows [of "[255, 255, 255, 127]" plain_repr 0] by simp
qed

section \<open>The round trip through floats\<close>

lemma exec_list_map: "(\<And>x. x \<in> set xs \<Longrightarrow> f x = Inr (g x)) \<Longrightarrow> exec_list (map f xs) = Inr (map g xs)"
  by (induction xs) auto

lemma concat_slices:
  "length bytes = n * k \<Longrightarrow> concat (map (\<lambda>i. slice (i * k) k bytes) [0..<n]) = bytes"
proof (induction n arbitrary: bytes)
  case (Suc n)
  have "concat (map (\<lambda>i. slice (i * k) k bytes) [0..<n]) = concat (map (\<lambda>i. slice (i * k) k (take (n * k) bytes)) [0..<n])"
  proof (intro arg_cong [where f = concat] map_cong refl)
    fix i assume "i \<in> set [0..<n]"
    then have "i * k + k \<le> n * k" by (metis add.commute atLeastLessThan_upt atLeastLessThan_iff mult_Suc mult_le_mono1 Suc_leI)
    then show "slice (i * k) k bytes = slice (i * k) k (take (n * k) bytes)"
      by (simp add: slice_def drop_take min_def)
  qed
  also have "\<dots> = take (n * k) bytes" using Suc.prems by (intro Suc.IH) simp
  finally show ?case using Suc.prems by (simp add: slice_def)
qed simp

text \<open>
  Decoding a buffer of samples of one, two or three bytes to \<open>float\<close> at unit volume and
  encoding the result again gives the buffer: every such sample, read without its sign, is exact.
\<close>

theorem float_buffer_roundtrip:
  assumes "k = 1 \<or> k = 2 \<or> k = 3" and "length buffer = n * k" and "length dst = n * k" and "0 < n"
  shows "exec_bind (ConvertBufferToFloat buffer k n (FFin 1)) (\<lambda>xs. ConvertFloatToAudioBuffer xs dst k) = Inr buffer"
proof -
  let ?p = "\<lambda>i. slice (i * k) k buffer"
  have "length (?p i) = k" if "i < n" for i
  proof -
    have "Suc i * k \<le> n * k" using that by (intro mult_le_mono1) simp
    then show ?thesis by (simp add: slice_def assms(2))
  qed
  then have "exec_list (map (float_to_sample k) (map (\<lambda>i. sample_to_float k (FFin 1) (?p i)) [0..<n])) = Inr (map ?p [0..<n])"
    unfolding map_map by (intro exec_list_map) (simp add: float_sample_roundtrip_one [OF assms(1)])
  then show ?thesis
    using assms by (auto simp: ConvertBufferToFloat_def ConvertFloatToAudioBuffer_def concat_slices)
qed

theorem float_buffer_roundtrip_witness:
  "exec_bind (ConvertBufferToFloat [1, 2, 255, 128] 2 2 (FFin 1)) (\<lambda>xs. ConvertFloatToAudioBuffer xs [0, 0, 0, 0] 2)
    = Inr [1, 2, 255, 128]"
  by (rule float_buffer_roundtrip [where n = 2]) simp_all

section \<open>Blending\<close>

definition touched :: "(nat \<times> nat) list \<Rightarrow> nat set" where
  "touched ps = (\<Union>(i, j) \<in> set ps. {i, j})"

fun disjoint_pairs :: "(nat \<times> nat) list \<Rightarrow> bool" where
  "disjoint_pairs [] \<longleftrightarrow> True"
| "disjoint_pairs ((i, j) # ps) \<longleftrightarrow> i \<noteq> j \<and> i \<notin> touched ps \<and> j \<notin> touched ps \<and> disjoint_pairs ps"

lemma touched_simps [simp]:
  "touched [] = {}" "touched ((i, j) # ps) = {i, j} \<union> touched ps" "touched (ps @ qs) = touched ps \<union> touched qs"
  by (auto simp: touched_def)

lemma disjoint_pairs_append:
  "disjoint_pairs (ps @ qs) \<longleftrightarrow> disjoint_pairs ps \<and> disjoint_pairs qs \<and> touched ps \<inter> touched qs = {}"
  by (induction ps) (auto split: prod.splits)

lemma foldl_on_pair:
  assumes "disjoint_pairs ps" and "\<forall>m\<in>touched ps. m < length buf"
  shows "length (foldl (on_pair f 0) buf ps) = length buf
    \<and> (\<forall>m. m \<notin> touched ps \<longrightarrow> foldl (on_pair f 0) buf ps ! m = buf ! m)
    \<and> (\<forall>(i, j)\<in>set ps. (foldl (on_pair f 0) buf ps ! i, foldl (on_pair f 0) buf ps ! j) = f (buf ! i) (buf ! j))"
  using assms
proof (induction ps arbitrary: buf)
  case (Cons p ps)
  obtain i j where p: "p = (i, j)" by fastforce
  obtain l r where lr: "f (buf ! i) (buf ! j) = (l, r)" by fastforce
  define b where "b = buf[i := l, j := r]"
  define out where "out = foldl (on_pair f 0) b ps"
  have step: "foldl (on_pair f 0) buf (p # ps) = out"
    by (simp add: p on_pair_def lr b_def out_def)
  have d: "disjoint_pairs ps" "i \<noteq> j" "i \<notin> touched ps" "j \<notin> touched ps" "i < length buf" "j < length buf"
    "\<forall>m\<in>touched ps. m < length b"
    using Cons.prems by (auto simp: p b_def)
  note IH = Cons.IH [OF d(1,7), folded out_def]
  have "(out ! i, out ! j) = f (buf ! i) (buf ! j)" using IH d lr by (simp add: b_def)
  moreover have "(out ! i', out ! j') = f (buf ! i') (buf ! j')" if in_ps: "(i', j') \<in> set ps" for i' j'
  proof -
    have "i' \<in> touched ps" "j' \<in> touched ps" using in_ps by (auto simp: touched_def)
    then have "b ! i' = buf ! i'" "b ! j' = buf ! j'" using d by (auto simp: b_def nth_list_update)
    then show ?thesis using IH in_ps by fastforce
  qed
  moreover have "length out = length buf" using IH by (simp add: b_def)
  moreover have "out ! m = buf ! m" if "m \<notin> touched (p # ps)" for m
    using that IH by (simp add: p b_def)
  ultimately show ?case unfolding step by (auto simp: p)
qed simp

definition frame_pairs :: "nat \<Rightarrow> nat \<Rightarrow> (nat \<times> nat) list" where
  "frame_pairs ch k = map (\<lambda>(i, j). (k * ch + i, k * ch + j)) (channel_pairs ch)"

lemma blend_frame_pairs: "blend_frame op ch buf k = foldl (on_pair op 0) buf (frame_pairs ch k)"
  by (simp add: blend_frame_def frame_pairs_def foldl_map split_beta) (simp add: on_pair_def [abs_def])

lemma blend_frames_pairs:
  "foldl (blend_frame op ch) buf [0..<n] = foldl (on_pair op 0) buf (concat (map (frame_pairs ch) [0..<n]))"
  by (induction n) (simp_all add: blend_frame_pairs)

lemma channel_pairs_lt: "(i, j) \<in> set (channel_pairs ch) \<Longrightarrow> i < ch \<and> j < ch"
  by (auto simp: channel_pairs_def split: if_splits)

lemma touched_frame: "touched (frame_pairs ch k) \<subseteq> {k * ch..<Suc k * ch}"
  by (auto simp: touched_def frame_pairs_def dest: channel_pairs_lt)

lemma disjoint_frame: "disjoint_pairs (frame_pairs ch k)"
  by (simp add: frame_pairs_def channel_pairs_def)

lemma touched_frames: "touched (concat (map (frame_pairs ch) [0..<n])) \<subseteq> {..<n * ch}"
proof (induction n)
  case (Suc n)
  then show ?case using touched_frame [of ch n] by fastforce
qed simp

lemma disjoint_frames: "disjoint_pairs (concat (map (frame_pairs ch) [0..<n]))"
proof (induction n)
  case (Suc n)
  have "touched (concat (map (frame_pairs ch) [0..<n])) \<inter> touched (frame_pairs ch n) = {}"
    using touched_frames [of ch n] touched_frame [of ch n] by fastforce
  then show ?case using Suc disjoint_frame by (simp add: disjoint_pairs_append)
qed simp

text \<open>
  C16: blending with any mode works pair by pair: in every frame each pair of channels of the
  layout becomes what the mode makes of its two old samples, and every other sample is kept,
  the odd channel of a layout and what lies behind the frames included.
\<close>

theorem blending_is_pairwise:
  assumes "channels a \<noteq> 0" and "blend_op (blendMode a) blend = Some f"
    and "n = bufferSize div (unat (channels a) * (unat (blendFormat a) + 1))" and "n < 2 ^ 32"
    and "n * unat (channels a) \<le> length buf"
  shows "\<exists>out. ProcessWithBlendMode a blend bufferSize buf = Inr out \<and> length out = length buf \<and>
    (\<forall>k<n. \<forall>(i, j) \<in> set (channel_pairs (unat (channels a))).
       (out ! (k * unat (channels a) + i), out ! (k * unat (channels a) + j)) =
         f (buf ! (k * unat (channels a) + i)) (buf ! (k * unat (channels a) + j))) \<and>
    (\<forall>m. (\<forall>k<n. \<forall>(i, j) \<in> set (channel_pairs (unat (channels a))).
       m \<noteq> k * unat (channels a) + i \<and> m \<noteq> k * unat (channels a) + j) \<longrightarrow> out ! m = buf ! m)"
proof -
  define ch where "ch = unat (channels a)"
  define ps where "ps = concat (map (frame_pairs ch) [0..<n])"
  have lt: "m < length buf" if "m \<in> touched ps" for m
    using that touched_frames [of ch n] assms(5) unfolding ps_def ch_def by fastforce
  have "disjoint_pairs ps" by (simp add: ps_def disjoint_frames)
  note f = foldl_on_pair [OF this, of buf f]
  have "ProcessWithBlendMode a blend bufferSize buf = Inr (foldl (on_pair f 0) buf ps)"
    using assms by (simp add: ProcessWithBlendMode_def blend_frames_def blend_frames_pairs ps_def ch_def)
  moreover have "(k * ch + i, k * ch + j) \<in> set ps" if "k < n" "(i, j) \<in> set (channel_pairs ch)" for k i j
    using that by (force simp: ps_def frame_pairs_def)
  moreover have "m \<notin> touched ps"
    if "\<forall>k<n. \<forall>(i, j) \<in> set (channel_pairs ch). m \<noteq> k * ch + i \<and> m \<noteq> k * ch + j" for m
    using that by (force simp: touched_def ps_def frame_pairs_def)
  ultimately show ?thesis unfolding ch_def [symmetric] using f lt by blast
qed

theorem blending_is_pairwise_witness:
  "\<exists>out. ProcessWithBlendMode (SetParams AudioBlend_ctor MODE_ALL_LEFT 0 3) BlendLR_u8 6 [1, 2, 3, 4, 5, 6] = Inr out \<and>
     out ! 3 = 4 \<and> out ! 4 = 4 \<and> out ! 5 = 6"
proof -
  let ?a = "SetParams AudioBlend_ctor MODE_ALL_LEFT 0 3"
  have "channels ?a \<noteq> 0" "blend_op (blendMode ?a) BlendLR_u8 = Some all_left"
    "2 = 6 div (unat (channels ?a) * (unat (blendFormat ?a) + 1))" and u: "unat (channels ?a) = 3"
    by (simp_all add: SetParams_def AudioBlend_ctor_def blend_op_def)
  from blending_is_pairwise [OF this(1-3), of "[1, 2, 3, 4, 5, 6]"] show ?thesis
    unfolding u by (fastforce simp: channel_pairs_def all_left_def less_2_cases_iff)
qed

lemma sdiv2_bounds: "min x 0 \<le> 2 * (x sdiv 2)" "2 * (x sdiv 2) \<le> max x (0::int)"
proof -
  have "0 \<le> x \<or> x = - (- x) \<and> x < 0" by auto
  then show "min x 0 \<le> 2 * (x sdiv 2)" "2 * (x sdiv 2) \<le> max x (0::int)"
    by (auto simp: signed_divide_int_def sgn_if abs_if)
qed

text \<open>
  Averaging two signed samples never overflows its type, is the sum of the halves, is at
  most as loud as the louder of the two, and both channels get it.
\<close>

theorem blend_signed_average:
  fixes l r :: "'a::len word"
  shows "sint (fst (BlendLR_signed l r)) = sint l sdiv 2 + sint r sdiv 2
    \<and> snd (BlendLR_signed l r) = fst (BlendLR_signed l r)
    \<and> \<bar>sint (fst (BlendLR_signed l r))\<bar> \<le> max \<bar>sint l\<bar> \<bar>sint r\<bar>"
proof -
  let ?s = "sint l sdiv 2 + sint r sdiv 2"
  note b = sdiv2_bounds [of "sint l"] sdiv2_bounds [of "sint r"]
  define M where "M = (2::int) ^ (LENGTH('a) - 1)"
  have "- M \<le> sint l" "sint l < M" "- M \<le> sint r" "sint r < M" "0 < M"
    using sint_greater_eq [of l] sint_less [of l] sint_greater_eq [of r] sint_less [of r] by (simp_all add: M_def)
  with b have "- M \<le> ?s" "?s < M" by linarith+
  then have "sint (word_of_int ?s :: 'a word) = ?s"
    unfolding M_def by (simp only: sint_sbintrunc' signed_take_bit_int_eq_self)
  moreover have "\<bar>?s\<bar> \<le> max \<bar>sint l\<bar> \<bar>sint r\<bar>" using b by linarith
  ultimately show ?thesis by (simp add: BlendLR_signed_def Let_def)
qed

text \<open>
  A 24-bit sample is averaged byte by byte, and the middle byte of the right channel is
  never written: the two channels are the same afterwards exactly if it was the average already.
\<close>

theorem blend_24bit_misses_middle:
  "fst (BlendLR_int24 l r) = snd (BlendLR_int24 l r) \<longleftrightarrow> fst (snd r) = half_sum8 (fst (snd l)) (fst (snd r))"
  by (cases l; cases r) (auto simp: BlendLR_int24_def Let_def)

end
