(* ===== verification/DeviceTypes.thy ===== *)
theory DeviceTypes
  imports AudioTypes
begin

text \<open>
  The device types of the policy server (\<open>audio_device_info.h\<close>, \<open>audio_system_manager.h\<close>,
  \<open>audio_device_descriptor.cpp\<close>): enumerations, what the configuration says of a kind of device,
  and the descriptor with its constructors.

  A descriptor points to the one it is paired with, and descriptors are shared between the lists
  of the device manager and their pairs; so they live in a store, and a pointer is a \<open>ref\<close>.
  Enumerations that the code uses as bit masks are integers.
\<close>

unbundle bit_operations_syntax

type_synonym ref = nat

section \<open>Enumerations\<close>

datatype DeviceType =
  DEVICE_TYPE_NONE | DEVICE_TYPE_INVALID | DEVICE_TYPE_EARPIECE | DEVICE_TYPE_SPEAKER
| DEVICE_TYPE_WIRED_HEADSET | DEVICE_TYPE_WIRED_HEADPHONES | DEVICE_TYPE_BLUETOOTH_SCO
| DEVICE_TYPE_BLUETOOTH_A2DP | DEVICE_TYPE_MIC | DEVICE_TYPE_WAKEUP | DEVICE_TYPE_USB_HEADSET
| DEVICE_TYPE_DP | DEVICE_TYPE_REMOTE_CAST | DEVICE_TYPE_FILE_SINK | DEVICE_TYPE_FILE_SOURCE
| DEVICE_TYPE_EXTERN_CABLE | DEVICE_TYPE_DEFAULT | DEVICE_TYPE_USB_ARM_HEADSET | DEVICE_TYPE_MAX

type_synonym DeviceRole = int
definition DEVICE_ROLE_NONE :: DeviceRole where [simp]: "DEVICE_ROLE_NONE = - 1"
definition INPUT_DEVICE :: DeviceRole where [simp]: "INPUT_DEVICE = 1"
definition OUTPUT_DEVICE :: DeviceRole where [simp]: "OUTPUT_DEVICE = 2"

datatype AudioDevicePrivacyType = TYPE_PRIVACY | TYPE_PUBLIC | TYPE_NEGATIVE

type_synonym DeviceCategory = int
definition CATEGORY_DEFAULT :: DeviceCategory where [simp]: "CATEGORY_DEFAULT = 0"
definition BT_HEADPHONE :: DeviceCategory where [simp]: "BT_HEADPHONE = 1"
definition BT_SOUNDBOX :: DeviceCategory where [simp]: "BT_SOUNDBOX = 2"
definition BT_CAR :: DeviceCategory where [simp]: "BT_CAR = 4"
definition BT_GLASSES :: DeviceCategory where [simp]: "BT_GLASSES = 8"
definition BT_WATCH :: DeviceCategory where [simp]: "BT_WATCH = 16"
definition BT_HEARAID :: DeviceCategory where [simp]: "BT_HEARAID = 32"
definition BT_UNWEAR_HEADPHONE :: DeviceCategory where [simp]: "BT_UNWEAR_HEADPHONE = 64"

type_synonym DeviceUsage = int
definition MEDIA :: DeviceUsage where [simp]: "MEDIA = 1"
definition VOICE :: DeviceUsage where [simp]: "VOICE = 2"
definition ALL_USAGE :: DeviceUsage where [simp]: "ALL_USAGE = 3"
definition RECONGNITION :: DeviceUsage where [simp]: "RECONGNITION = 4"

type_synonym AudioDeviceUsage = int
definition MEDIA_OUTPUT_DEVICES :: AudioDeviceUsage where [simp]: "MEDIA_OUTPUT_DEVICES = 1"
definition MEDIA_INPUT_DEVICES :: AudioDeviceUsage where [simp]: "MEDIA_INPUT_DEVICES = 2"
definition ALL_MEDIA_DEVICES :: AudioDeviceUsage where [simp]: "ALL_MEDIA_DEVICES = 3"
definition CALL_OUTPUT_DEVICES :: AudioDeviceUsage where [simp]: "CALL_OUTPUT_DEVICES = 4"
definition CALL_INPUT_DEVICES :: AudioDeviceUsage where [simp]: "CALL_INPUT_DEVICES = 8"
definition ALL_CALL_DEVICES :: AudioDeviceUsage where [simp]: "ALL_CALL_DEVICES = 12"

datatype DeviceInfoUpdateCommand =
  CATEGORY_UPDATE | CONNECTSTATE_UPDATE | ENABLE_UPDATE | EXCEPTION_FLAG_UPDATE

datatype ConnectState = CONNECTED | SUSPEND_CONNECTED | VIRTUAL_CONNECTED | DEACTIVE_CONNECTED

datatype AudioRingerMode = RINGER_MODE_SILENT | RINGER_MODE_VIBRATE | RINGER_MODE_NORMAL

datatype CastType = CAST_TYPE_NULL | CAST_TYPE_ALL | CAST_TYPE_PROJECTION | CAST_TYPE_COOPERATION

datatype RouterType =
  ROUTER_TYPE_NONE | ROUTER_TYPE_DEFAULT | ROUTER_TYPE_STREAM_FILTER | ROUTER_TYPE_PACKAGE_FILTER
| ROUTER_TYPE_COCKPIT_PHONE | ROUTER_TYPE_PRIVACY_PRIORITY | ROUTER_TYPE_PUBLIC_PRIORITY
| ROUTER_TYPE_PAIR_DEVICE | ROUTER_TYPE_USER_SELECT | ROUTER_TYPE_APP_SELECT

abbreviation STREAM_USAGE_MUSIC :: StreamUsage where "STREAM_USAGE_MUSIC \<equiv> STREAM_USAGE_MEDIA"
abbreviation STREAM_USAGE_RINGTONE :: StreamUsage where
  "STREAM_USAGE_RINGTONE \<equiv> STREAM_USAGE_NOTIFICATION_RINGTONE"

definition LOCAL_NETWORK_ID :: string where [simp]: "LOCAL_NETWORK_ID = ''LocalDevice''"

section \<open>Structs\<close>

record DevicePrivacyInfo =
  infoName :: string
  infoType :: DeviceType
  infoRole :: DeviceRole
  infoCategory :: DeviceCategory
  infoUsage :: DeviceUsage

record DeviceStreamInfo =
  encoding :: int
  streamFormat :: int
  channelLayout :: int
  samplingRate :: "int set"
  streamChannels :: "int set"

definition DeviceStreamInfo_default :: DeviceStreamInfo where
  "DeviceStreamInfo_default = \<lparr>encoding = 0, streamFormat = - 1, channelLayout = 0, samplingRate = {}, streamChannels = {}\<rparr>"

record AudioDeviceDescriptor =
  deviceType :: DeviceType
  deviceRole :: DeviceRole
  deviceId :: int
  channelMasks :: int
  channelIndexMasks :: int
  deviceName :: string
  macAddress :: string
  interruptGroupId :: int
  volumeGroupId :: int
  networkId :: string
  displayName :: string
  exceptionFlag :: bool
  audioStreamInfo :: DeviceStreamInfo
  deviceCategory :: DeviceCategory
  connectTimeStamp :: int
  pairDevice :: "ref option"
  connectState :: ConnectState
  isScoRealConnected :: bool
  isEnable :: bool

section \<open>Constructors\<close>

definition AudioDeviceDescriptor_make :: "DeviceType \<Rightarrow> DeviceRole \<Rightarrow> AudioDeviceDescriptor" where
  "AudioDeviceDescriptor_make t r =
     \<lparr>deviceType = t, deviceRole = r, deviceId = 0, channelMasks = 0, channelIndexMasks = 0,
      deviceName = [], macAddress = [], interruptGroupId = 0, volumeGroupId = 0,
      networkId = LOCAL_NETWORK_ID, displayName = [], exceptionFlag = False,
      audioStreamInfo = DeviceStreamInfo_default, deviceCategory = CATEGORY_DEFAULT,
      connectTimeStamp = 0, pairDevice = None, connectState = CONNECTED,
      isScoRealConnected = False, isEnable = True\<rparr>"

definition AudioDeviceDescriptor_ctor :: AudioDeviceDescriptor where
  "AudioDeviceDescriptor_ctor = AudioDeviceDescriptor_make DEVICE_TYPE_NONE DEVICE_ROLE_NONE"

definition AudioDeviceDescriptor_groups ::
    "DeviceType \<Rightarrow> DeviceRole \<Rightarrow> int \<Rightarrow> int \<Rightarrow> string \<Rightarrow> AudioDeviceDescriptor" where
  "AudioDeviceDescriptor_groups t r ig vg net =
     (AudioDeviceDescriptor_make t r)\<lparr>interruptGroupId := ig, volumeGroupId := vg, networkId := net\<rparr>"

text \<open>Both copies keep every field but the channel layout, which is left at its default.\<close>

definition AudioDeviceDescriptor_copy :: "AudioDeviceDescriptor \<Rightarrow> AudioDeviceDescriptor" where
  "AudioDeviceDescriptor_copy d =
     d\<lparr>audioStreamInfo := (audioStreamInfo d)\<lparr>channelLayout := 0\<rparr>\<rparr>"

definition AudioDeviceDescriptor_of :: "AudioDeviceDescriptor option \<Rightarrow> AudioDeviceDescriptor" where
  "AudioDeviceDescriptor_of p = (case p of
     None \<Rightarrow> AudioDeviceDescriptor_ctor\<lparr>networkId := []\<rparr>
   | Some d \<Rightarrow> AudioDeviceDescriptor_copy d)"

lemma copy_simps [simp]:
  "deviceType (AudioDeviceDescriptor_copy d) = deviceType d"
  "deviceRole (AudioDeviceDescriptor_copy d) = deviceRole d"
  "deviceId (AudioDeviceDescriptor_copy d) = deviceId d"
  "macAddress (AudioDeviceDescriptor_copy d) = macAddress d"
  "networkId (AudioDeviceDescriptor_copy d) = networkId d"
  "deviceCategory (AudioDeviceDescriptor_copy d) = deviceCategory d"
  "connectTimeStamp (AudioDeviceDescriptor_copy d) = connectTimeStamp d"
  "pairDevice (AudioDeviceDescriptor_copy d) = pairDevice d"
  "connectState (AudioDeviceDescriptor_copy d) = connectState d"
  "isEnable (AudioDeviceDescriptor_copy d) = isEnable d"
  "exceptionFlag (AudioDeviceDescriptor_copy d) = exceptionFlag d"
  "AudioDeviceDescriptor_copy (AudioDeviceDescriptor_copy d) = AudioDeviceDescriptor_copy d"
  by (simp_all add: AudioDeviceDescriptor_copy_def)

lemma ctor_simps [simp]:
  "deviceType AudioDeviceDescriptor_ctor = DEVICE_TYPE_NONE"
  "deviceId AudioDeviceDescriptor_ctor = 0"
  "deviceType (AudioDeviceDescriptor_of None) = DEVICE_TYPE_NONE"
  "AudioDeviceDescriptor_of (Some d) = AudioDeviceDescriptor_copy d"
  by (simp_all add: AudioDeviceDescriptor_ctor_def AudioDeviceDescriptor_make_def AudioDeviceDescriptor_of_def)

definition isSameDeviceDesc :: "AudioDeviceDescriptor \<Rightarrow> AudioDeviceDescriptor \<Rightarrow> bool" where
  "isSameDeviceDesc d e \<longleftrightarrow>
     deviceType e = deviceType d \<and> macAddress e = macAddress d \<and> networkId e = networkId d"

end
