(* ===== verification/DeviceManager.thy ===== *)
theory DeviceManager
  imports DeviceTypes
begin

text \<open>
  \<open>AudioDeviceManager\<close> (\<open>services/audio_policy/server/src/service/audio_device_manager.cpp\<close>):
  the connected devices, the lists of devices per purpose, the pairing of outputs with inputs and
  the default output selection of streams.

  The member \<open>vector\<close>s of shared pointers but \<open>connectedDevices_\<close> are the function
  \<open>descArrays\<close>, whose arguments are their names: the code passes them by reference. They hold
  no null pointer: only pointers of \<open>make_shared\<close> are ever added. The caller's \<open>sptr\<close> is a
  pointer into the same store; a descriptor passed by value, or copied before anything else, is
  a value. The clock is an argument. Log output and encryption of addresses for it are left out.
\<close>

section \<open>State\<close>

datatype DeviceArray =
  remoteRenderDevices | remoteCaptureDevices
| commRenderPrivacyDevices | commRenderPublicDevices | commCapturePrivacyDevices | commCapturePublicDevices
| mediaRenderPrivacyDevices | mediaRenderPublicDevices | mediaCapturePrivacyDevices | mediaCapturePublicDevices
| capturePrivacyDevices | capturePublicDevices | reconCapturePrivacyDevices

record AudioDeviceManager =
  heap :: "ref \<Rightarrow> AudioDeviceDescriptor"
  nextRef :: ref
  privacyDeviceList :: "DevicePrivacyInfo list"
  publicDeviceList :: "DevicePrivacyInfo list"
  devicePrivacyMaps :: "(AudioDevicePrivacyType \<times> DevicePrivacyInfo list) list"
  descArrays :: "DeviceArray \<Rightarrow> ref list"
  connectedDevices :: "ref list"
  earpiece :: "ref option"
  speaker :: "ref option"
  defalutMic :: "ref option"
  hasEarpiece :: bool
  selectedDefaultOutputDeviceInfo :: "u32 \<rightharpoonup> DeviceType \<times> StreamUsage"
  mediaDefaultOutputDevices :: "(u32 \<times> DeviceType) list"
  callDefaultOutputDevices :: "(u32 \<times> DeviceType) list"
  selectedMediaDefaultOutputDevice :: DeviceType
  selectedCallDefaultOutputDevice :: DeviceType

definition AudioDeviceManager_ctor :: AudioDeviceManager where
  "AudioDeviceManager_ctor =
     \<lparr>heap = (\<lambda>_. AudioDeviceDescriptor_ctor), nextRef = 0, privacyDeviceList = [], publicDeviceList = [],
      devicePrivacyMaps = [], descArrays = (\<lambda>_. []), connectedDevices = [], earpiece = None,
      speaker = None, defalutMic = None, hasEarpiece = False, selectedDefaultOutputDeviceInfo = Map.empty,
      mediaDefaultOutputDevices = [], callDefaultOutputDevices = [],
      selectedMediaDefaultOutputDevice = DEVICE_TYPE_DEFAULT, selectedCallDefaultOutputDevice = DEVICE_TYPE_DEFAULT\<rparr>"

definition alloc :: "AudioDeviceDescriptor \<Rightarrow> AudioDeviceManager \<Rightarrow> ref \<times> AudioDeviceManager" where
  "alloc d s = (nextRef s, s\<lparr>heap := (heap s)(nextRef s := d), nextRef := nextRef s + 1\<rparr>)"

definition modify :: "ref \<Rightarrow> (AudioDeviceDescriptor \<Rightarrow> AudioDeviceDescriptor) \<Rightarrow> AudioDeviceManager \<Rightarrow> AudioDeviceManager" where
  "modify r f s = s\<lparr>heap := (heap s)(r := f (heap s r))\<rparr>"

definition set_pair :: "ref \<Rightarrow> ref option \<Rightarrow> AudioDeviceManager \<Rightarrow> AudioDeviceManager" where
  "set_pair r p = modify r (\<lambda>d. d\<lparr>pairDevice := p\<rparr>)"

definition deref :: "AudioDeviceManager \<Rightarrow> ref option \<Rightarrow> AudioDeviceDescriptor option" where
  "deref s p = map_option (heap s) p"

section \<open>Configuration\<close>

definition OnXmlParsingCompleted ::
    "(AudioDevicePrivacyType \<times> DevicePrivacyInfo list) list \<Rightarrow> AudioDeviceManager \<Rightarrow> AudioDeviceManager" where
  "OnXmlParsingCompleted xmlData s =
     (if xmlData = [] then s
      else
        let s = s\<lparr>devicePrivacyMaps := xmlData\<rparr>;
            s = (case map_of xmlData TYPE_PRIVACY of Some l \<Rightarrow> s\<lparr>privacyDeviceList := l\<rparr> | None \<Rightarrow> s)
        in (case map_of xmlData TYPE_PUBLIC of Some l \<Rightarrow> s\<lparr>publicDeviceList := l\<rparr> | None \<Rightarrow> s))"

definition DeviceAttrMatch ::
    "AudioDeviceManager \<Rightarrow> ref \<Rightarrow> AudioDevicePrivacyType \<Rightarrow> DeviceRole \<Rightarrow> DeviceUsage \<Rightarrow> bool" where
  "DeviceAttrMatch s r privacyType devRole devUsage =
     (let d = heap s r;
          matches = (\<lambda>deviceList.
            if connectState d = VIRTUAL_CONNECTED then False
            else list_ex (\<lambda>i. infoType i = deviceType d \<and> devRole = deviceRole d \<and>
                             infoUsage i AND devUsage \<noteq> 0 \<and>
                             (infoCategory i = deviceCategory d \<or> infoCategory i AND deviceCategory d \<noteq> 0))
                   deviceList)
      in case privacyType of
           TYPE_PRIVACY \<Rightarrow> matches (privacyDeviceList s)
         | TYPE_PUBLIC \<Rightarrow> matches (publicDeviceList s)
         | TYPE_NEGATIVE \<Rightarrow> False)"

definition GetDeviceUsage :: "AudioDeviceManager \<Rightarrow> AudioDeviceDescriptor \<Rightarrow> DeviceUsage" where
  "GetDeviceUsage s d =
     (let hit = (\<lambda>i. infoType i = deviceType d \<and> (infoCategory i AND deviceCategory d \<noteq> 0 \<or> infoCategory i = 0))
      in case find hit (privacyDeviceList s) of
           Some i \<Rightarrow> infoUsage i
         | None \<Rightarrow> (case find hit (publicDeviceList s) of
             Some i \<Rightarrow> infoUsage i
           | None \<Rightarrow> if deviceType d = DEVICE_TYPE_BLUETOOTH_SCO then VOICE else MEDIA))"

section \<open>Filling the lists\<close>

definition push_desc :: "DeviceArray \<Rightarrow> ref \<Rightarrow> AudioDeviceManager \<Rightarrow> AudioDeviceManager" where
  "push_desc a r s = s\<lparr>descArrays := (descArrays s)(a := descArrays s a @ [r])\<rparr>"

definition FillArrayWhenDeviceAttrMatch ::
    "ref \<Rightarrow> AudioDevicePrivacyType \<Rightarrow> DeviceRole \<Rightarrow> DeviceUsage \<Rightarrow> DeviceArray \<Rightarrow> AudioDeviceManager \<Rightarrow> AudioDeviceManager" where
  "FillArrayWhenDeviceAttrMatch r privacyType devRole devUsage a s =
     (if DeviceAttrMatch s r privacyType devRole devUsage then push_desc a r s else s)"

definition AddRemoteRenderDev :: "ref \<Rightarrow> AudioDeviceManager \<Rightarrow> AudioDeviceManager" where
  "AddRemoteRenderDev r s =
     (if (networkId (heap s r) \<noteq> LOCAL_NETWORK_ID \<or> deviceType (heap s r) = DEVICE_TYPE_REMOTE_CAST) \<and>
         deviceRole (heap s r) = OUTPUT_DEVICE
      then push_desc remoteRenderDevices r s else s)"

definition AddRemoteCaptureDev :: "ref \<Rightarrow> AudioDeviceManager \<Rightarrow> AudioDeviceManager" where
  "AddRemoteCaptureDev r s =
     (if networkId (heap s r) \<noteq> LOCAL_NETWORK_ID \<and> deviceRole (heap s r) = INPUT_DEVICE
      then push_desc remoteCaptureDevices r s else s)"

definition AddCommunicationDevices :: "ref \<Rightarrow> AudioDeviceManager \<Rightarrow> AudioDeviceManager" where
  "AddCommunicationDevices r s =
     FillArrayWhenDeviceAttrMatch r TYPE_PUBLIC INPUT_DEVICE VOICE commCapturePublicDevices (
     FillArrayWhenDeviceAttrMatch r TYPE_PRIVACY INPUT_DEVICE VOICE commCapturePrivacyDevices (
     FillArrayWhenDeviceAttrMatch r TYPE_PUBLIC OUTPUT_DEVICE VOICE commRenderPublicDevices (
     FillArrayWhenDeviceAttrMatch r TYPE_PRIVACY OUTPUT_DEVICE VOICE commRenderPrivacyDevices s)))"

definition AddMediaDevices :: "ref \<Rightarrow> AudioDeviceManager \<Rightarrow> AudioDeviceManager" where
  "AddMediaDevices r s =
     FillArrayWhenDeviceAttrMatch r TYPE_PUBLIC INPUT_DEVICE MEDIA mediaCapturePublicDevices (
     FillArrayWhenDeviceAttrMatch r TYPE_PRIVACY INPUT_DEVICE MEDIA mediaCapturePrivacyDevices (
     FillArrayWhenDeviceAttrMatch r TYPE_PUBLIC OUTPUT_DEVICE MEDIA mediaRenderPublicDevices (
     FillArrayWhenDeviceAttrMatch r TYPE_PRIVACY OUTPUT_DEVICE MEDIA mediaRenderPrivacyDevices s)))"

definition AddCaptureDevices :: "ref \<Rightarrow> AudioDeviceManager \<Rightarrow> AudioDeviceManager" where
  "AddCaptureDevices r s =
     FillArrayWhenDeviceAttrMatch r TYPE_PRIVACY INPUT_DEVICE RECONGNITION reconCapturePrivacyDevices (
     FillArrayWhenDeviceAttrMatch r TYPE_PUBLIC INPUT_DEVICE ALL_USAGE capturePublicDevices (
     FillArrayWhenDeviceAttrMatch r TYPE_PRIVACY INPUT_DEVICE ALL_USAGE capturePrivacyDevices s))"

definition HandleScoWithDefaultCategory :: "ref \<Rightarrow> AudioDeviceManager \<Rightarrow> AudioDeviceManager" where
  "HandleScoWithDefaultCategory r s =
     (let d = heap s r
      in if deviceType d = DEVICE_TYPE_BLUETOOTH_SCO \<and> deviceCategory d = CATEGORY_DEFAULT \<and> isEnable d
         then if deviceRole d = INPUT_DEVICE then push_desc commCapturePrivacyDevices r s
              else if deviceRole d = OUTPUT_DEVICE then push_desc commRenderPrivacyDevices r s
              else s
         else s)"

definition AddDefaultDevices :: "ref \<Rightarrow> AudioDeviceManager \<Rightarrow> AudioDeviceManager" where
  "AddDefaultDevices r s =
     (case deviceType (heap s r) of
        DEVICE_TYPE_EARPIECE \<Rightarrow> s\<lparr>earpiece := Some r\<rparr>
      | DEVICE_TYPE_SPEAKER \<Rightarrow> s\<lparr>speaker := Some r\<rparr>
      | DEVICE_TYPE_MIC \<Rightarrow> s\<lparr>defalutMic := Some r\<rparr>
      | _ \<Rightarrow> s)"

definition AddBtToOtherList :: "ref \<Rightarrow> AudioDeviceManager \<Rightarrow> AudioDeviceManager" where
  "AddBtToOtherList r s =
     (if networkId (heap s r) \<noteq> LOCAL_NETWORK_ID
      then AddRemoteCaptureDev r (AddRemoteRenderDev r s)
      else AddCaptureDevices r (AddMediaDevices r (AddCommunicationDevices r (HandleScoWithDefaultCategory r s))))"

section \<open>Pairing\<close>

definition MakePairedDefaultDeviceImpl :: "ref \<Rightarrow> ref \<Rightarrow> AudioDeviceManager \<Rightarrow> AudioDeviceManager" where
  "MakePairedDefaultDeviceImpl r c s =
     (let s = set_pair r (Some c) s; d = heap s r;
          same_net = (\<lambda>x y. networkId (heap s x) = networkId (heap s y))
      in case (deviceType d = DEVICE_TYPE_EARPIECE, earpiece s) of
           (True, Some e) \<Rightarrow> if same_net e c then set_pair e (Some c) s else s
         | _ \<Rightarrow> (case (deviceType d = DEVICE_TYPE_SPEAKER, deviceType d = DEVICE_TYPE_MIC, speaker s, defalutMic s) of
             (True, _, Some sp, Some mic) \<Rightarrow>
               let s = (if same_net sp c then set_pair sp (Some c) s else s);
                   s = (if same_net mic r then set_pair mic (Some r) s else s)
               in set_pair c (Some r) s
           | (_, True, Some sp, Some mic) \<Rightarrow>
               let s = (if same_net mic c then set_pair mic (Some c) s else s);
                   s = (if same_net sp r then set_pair sp (Some r) s else s)
               in set_pair c (Some r) s
           | _ \<Rightarrow> s))"

definition MakePairedDefaultDeviceDescriptor :: "ref \<Rightarrow> DeviceRole \<Rightarrow> AudioDeviceManager \<Rightarrow> AudioDeviceManager" where
  "MakePairedDefaultDeviceDescriptor r devRole s =
     (let d = heap s r;
          isPresent = (\<lambda>c. let e = heap s c in
            (deviceType d = DEVICE_TYPE_EARPIECE \<or> deviceType d = DEVICE_TYPE_SPEAKER) \<and> devRole = INPUT_DEVICE \<and>
              deviceType e = DEVICE_TYPE_MIC \<and> networkId e = networkId d \<or>
            deviceType d = DEVICE_TYPE_MIC \<and> devRole = OUTPUT_DEVICE \<and>
              deviceType e = DEVICE_TYPE_SPEAKER \<and> networkId e = networkId d)
      in case find isPresent (connectedDevices s) of
           Some c \<Rightarrow> MakePairedDefaultDeviceImpl r c s
         | None \<Rightarrow> s)"

definition MakePairedDeviceDescriptor_role :: "ref \<Rightarrow> DeviceRole \<Rightarrow> AudioDeviceManager \<Rightarrow> AudioDeviceManager" where
  "MakePairedDeviceDescriptor_role r devRole s =
     (let d = heap s r;
          isPresent = (\<lambda>c. let e = heap s c in
            if networkId e \<noteq> networkId d \<or> deviceRole e \<noteq> devRole then False
            else if macAddress d \<noteq> [] \<and> macAddress d = macAddress e then True
            else deviceType e = deviceType d);
          s = (case find isPresent (connectedDevices s) of
                 Some c \<Rightarrow> set_pair c (Some r) (set_pair r (Some c) s)
               | None \<Rightarrow> s)
      in MakePairedDefaultDeviceDescriptor r devRole s)"

definition MakePairedDeviceDescriptor :: "ref \<Rightarrow> AudioDeviceManager \<Rightarrow> AudioDeviceManager" where
  "MakePairedDeviceDescriptor r s =
     (if deviceRole (heap s r) = INPUT_DEVICE then MakePairedDeviceDescriptor_role r OUTPUT_DEVICE s
      else if deviceRole (heap s r) = OUTPUT_DEVICE then MakePairedDeviceDescriptor_role r INPUT_DEVICE s
      else s)"

definition UpdateDeviceInfo :: "int \<Rightarrow> ref \<Rightarrow> AudioDeviceManager \<Rightarrow> AudioDeviceManager" where
  "UpdateDeviceInfo now r s =
     MakePairedDeviceDescriptor r
       (if connectTimeStamp (heap s r) = 0 then modify r (\<lambda>d. d\<lparr>connectTimeStamp := now\<rparr>) s else s)"

section \<open>Adding a device\<close>

definition is_bluetooth :: "DeviceType \<Rightarrow> bool" where
  "is_bluetooth t \<longleftrightarrow> t = DEVICE_TYPE_BLUETOOTH_A2DP \<or> t = DEVICE_TYPE_BLUETOOTH_SCO"

definition UpdateExistDeviceDescriptor ::
    "int \<Rightarrow> AudioDeviceDescriptor \<Rightarrow> AudioDeviceManager \<Rightarrow> bool \<times> AudioDeviceManager" where
  "UpdateExistDeviceDescriptor now d s =
     (let isPresent = (\<lambda>c. let e = heap s c in
            deviceType e = deviceType d \<and> networkId e = networkId d \<and> deviceRole e = deviceRole d \<and>
            (\<not> is_bluetooth (deviceType e) \<or> macAddress e = macAddress d))
      in case find isPresent (connectedDevices s) of
           Some c \<Rightarrow> (True, UpdateDeviceInfo now c (modify c (\<lambda>_. AudioDeviceDescriptor_copy d) s))
         | None \<Rightarrow> (False, s))"

definition RemoveVirtualConnectedDevice :: "AudioDeviceDescriptor \<Rightarrow> AudioDeviceManager \<Rightarrow> AudioDeviceManager" where
  "RemoveVirtualConnectedDevice d s =
     s\<lparr>connectedDevices := filter (\<lambda>c. let e = heap s c in
         \<not> (deviceType e = deviceType d \<and> deviceRole e = deviceRole d \<and> networkId e = networkId d \<and>
            macAddress e = macAddress d \<and> connectState e = VIRTUAL_CONNECTED)) (connectedDevices s)\<rparr>"

definition AddConnectedDevices :: "ref \<Rightarrow> AudioDeviceManager \<Rightarrow> AudioDeviceManager" where
  "AddConnectedDevices r s = s\<lparr>connectedDevices := r # connectedDevices s\<rparr>"

text \<open>\<open>deviceDescriptor\<close> is the caller's object; the manager works on a copy of it.\<close>

definition AddNewDevice :: "int \<Rightarrow> ref \<Rightarrow> AudioDeviceManager \<Rightarrow> AudioDeviceManager" where
  "AddNewDevice now deviceDescriptor s =
     (let (devDesc, s) = alloc (AudioDeviceDescriptor_copy (heap s deviceDescriptor)) s;
          s = RemoveVirtualConnectedDevice (heap s devDesc) s
      in case UpdateExistDeviceDescriptor now (heap s deviceDescriptor) s of
           (True, s) \<Rightarrow> s
         | (False, s) \<Rightarrow>
             let s = AddConnectedDevices devDesc s;
                 d = heap s devDesc;
                 s = (if networkId d \<noteq> LOCAL_NETWORK_ID \<or> deviceType d = DEVICE_TYPE_REMOTE_CAST
                      then AddRemoteCaptureDev devDesc (AddRemoteRenderDev devDesc s)
                      else AddCaptureDevices devDesc (AddMediaDevices devDesc (AddCommunicationDevices devDesc
                             (AddDefaultDevices deviceDescriptor (HandleScoWithDefaultCategory devDesc s)))))
             in UpdateDeviceInfo now devDesc s)"

section \<open>Removing a device\<close>

definition gone :: "AudioDeviceDescriptor \<Rightarrow> AudioDeviceDescriptor \<Rightarrow> bool" where
  "gone d e \<longleftrightarrow>
     deviceType e = deviceType d \<and> networkId e = networkId d \<and>
     (\<not> is_bluetooth (deviceType e) \<or> macAddress e = macAddress d)"

text \<open>The loop erases the matching devices and resets the pointer of each one's partner to it.\<close>

fun remove_connected :: "AudioDeviceDescriptor \<Rightarrow> ref list \<Rightarrow> AudioDeviceManager \<Rightarrow> ref list \<times> AudioDeviceManager" where
  "remove_connected d [] s = ([], s)"
| "remove_connected d (r # rs) s =
     (if gone d (heap s r)
      then remove_connected d rs (case pairDevice (heap s r) of Some p \<Rightarrow> set_pair p None s | None \<Rightarrow> s)
      else (case remove_connected d rs s of (rest, s) \<Rightarrow> (r # rest, s)))"

definition RemoveConnectedDevices :: "AudioDeviceDescriptor \<Rightarrow> AudioDeviceManager \<Rightarrow> AudioDeviceManager" where
  "RemoveConnectedDevices d s =
     (case remove_connected d (connectedDevices s) s of (rest, s) \<Rightarrow> s\<lparr>connectedDevices := rest\<rparr>)"

definition RemoveMatchDeviceInArray :: "AudioDeviceDescriptor \<Rightarrow> DeviceArray \<Rightarrow> AudioDeviceManager \<Rightarrow> AudioDeviceManager" where
  "RemoveMatchDeviceInArray d a s =
     s\<lparr>descArrays := (descArrays s)(a := filter (\<lambda>r. \<not> isSameDeviceDesc (heap s r) d) (descArrays s a))\<rparr>"

definition RemoveRemoteDevices :: "AudioDeviceDescriptor \<Rightarrow> AudioDeviceManager \<Rightarrow> AudioDeviceManager" where
  "RemoveRemoteDevices d s =
     fold (RemoveMatchDeviceInArray d) [remoteRenderDevices, remoteCaptureDevices] s"

definition RemoveCommunicationDevices :: "AudioDeviceDescriptor \<Rightarrow> AudioDeviceManager \<Rightarrow> AudioDeviceManager" where
  "RemoveCommunicationDevices d s =
     fold (RemoveMatchDeviceInArray d) [commRenderPrivacyDevices, commRenderPublicDevices,
       commCapturePrivacyDevices, commCapturePublicDevices] s"

definition RemoveMediaDevices :: "AudioDeviceDescriptor \<Rightarrow> AudioDeviceManager \<Rightarrow> AudioDeviceManager" where
  "RemoveMediaDevices d s =
     fold (RemoveMatchDeviceInArray d) [mediaRenderPrivacyDevices, mediaRenderPublicDevices,
       mediaCapturePrivacyDevices, mediaCapturePublicDevices] s"

definition RemoveCaptureDevices :: "AudioDeviceDescriptor \<Rightarrow> AudioDeviceManager \<Rightarrow> AudioDeviceManager" where
  "RemoveCaptureDevices d s =
     fold (RemoveMatchDeviceInArray d) [capturePrivacyDevices, capturePublicDevices, reconCapturePrivacyDevices] s"

definition RemoveNewDevice :: "AudioDeviceDescriptor \<Rightarrow> AudioDeviceManager \<Rightarrow> AudioDeviceManager" where
  "RemoveNewDevice d s =
     RemoveCaptureDevices d (RemoveMediaDevices d (RemoveCommunicationDevices d (RemoveRemoteDevices d
       (RemoveConnectedDevices d s))))"

definition RemoveBtFromOtherList :: "AudioDeviceDescriptor \<Rightarrow> AudioDeviceManager \<Rightarrow> AudioDeviceManager" where
  "RemoveBtFromOtherList d s =
     (if networkId d \<noteq> LOCAL_NETWORK_ID then RemoveRemoteDevices d s
      else RemoveCaptureDevices d (RemoveMediaDevices d (RemoveCommunicationDevices d s)))"

end
