(* ===== verification/DeviceQueries.thy ===== *)
theory DeviceQueries
  imports DeviceManager
begin

text \<open>
  The rest of \<open>AudioDeviceManager\<close>: updates of connected devices, the lists it hands out (as
  copies of the descriptors), searches, and the default output devices streams ask for.
\<close>

section \<open>Updates\<close>

text \<open>Each loop visits the connected devices in order; the flag is set by a visit that counts.\<close>

definition category_step ::
    "AudioDeviceDescriptor \<Rightarrow> (ref \<Rightarrow> int) \<Rightarrow> ref \<Rightarrow> bool \<times> AudioDeviceManager \<Rightarrow> bool \<times> AudioDeviceManager" where
  "category_step d now r = (\<lambda>(flag, s).
     let e = heap s r
     in (True,
         if is_bluetooth (deviceType d) \<and> deviceType e = deviceType d \<and> networkId e = networkId d \<and>
            macAddress e = macAddress d \<and> deviceCategory e \<noteq> deviceCategory d
         then let s = modify r (\<lambda>e. e\<lparr>deviceCategory := deviceCategory d\<rparr>) s
              in if deviceCategory d = BT_UNWEAR_HEADPHONE then RemoveBtFromOtherList d s
                 else AddBtToOtherList r (modify r (\<lambda>e. e\<lparr>connectTimeStamp := now r\<rparr>) s)
         else s))"

definition UpdateDeviceCategory ::
    "AudioDeviceDescriptor \<Rightarrow> (ref \<Rightarrow> int) \<Rightarrow> AudioDeviceManager \<Rightarrow> bool \<times> AudioDeviceManager" where
  "UpdateDeviceCategory d now s = fold (category_step d now) (connectedDevices s) (False, s)"

definition connect_step :: "AudioDeviceDescriptor \<Rightarrow> ref \<Rightarrow> bool \<times> AudioDeviceManager \<Rightarrow> bool \<times> AudioDeviceManager" where
  "connect_step d r = (\<lambda>(flag, s).
     let e = heap s r; set_state = (\<lambda>c. modify r (\<lambda>e. e\<lparr>connectState := c\<rparr>) s)
     in if networkId e \<noteq> networkId d \<or> macAddress e \<noteq> macAddress d then (flag, s)
        else if deviceType e = deviceType d then (True, set_state (connectState d))
        else if deviceType d = DEVICE_TYPE_BLUETOOTH_SCO then
          if deviceType e = DEVICE_TYPE_BLUETOOTH_A2DP \<and> connectState d = CONNECTED
          then (True, set_state SUSPEND_CONNECTED)
          else if deviceType e = DEVICE_TYPE_BLUETOOTH_A2DP \<and> connectState e = SUSPEND_CONNECTED \<and>
                  (connectState d = DEACTIVE_CONNECTED \<or> connectState d = SUSPEND_CONNECTED)
          then (True, set_state CONNECTED)
          else (flag, s)
        else (flag, s))"

definition UpdateConnectState :: "AudioDeviceDescriptor \<Rightarrow> AudioDeviceManager \<Rightarrow> bool \<times> AudioDeviceManager" where
  "UpdateConnectState d s = fold (connect_step d) (connectedDevices s) (False, s)"

text \<open>\<open>UpdateEnableState\<close> and \<open>UpdateExceptionFlag\<close> update one flag, read by \<open>get\<close>, written by \<open>put\<close>.\<close>

definition flag_step ::
    "(AudioDeviceDescriptor \<Rightarrow> bool) \<Rightarrow> (bool \<Rightarrow> AudioDeviceDescriptor \<Rightarrow> AudioDeviceDescriptor) \<Rightarrow>
     AudioDeviceDescriptor \<Rightarrow> ref \<Rightarrow> bool \<times> AudioDeviceManager \<Rightarrow> bool \<times> AudioDeviceManager" where
  "flag_step get put d r = (\<lambda>(flag, s).
     let e = heap s r
     in if is_bluetooth (deviceType d)
        then if deviceType e = deviceType d \<and> macAddress e = macAddress d
             then (True, modify r (put (get d)) s) else (flag, s)
        else if deviceType e = deviceType d \<and> networkId e = networkId d \<and> get e \<noteq> get d
             then (True, modify r (put (get d)) s) else (flag, s))"

definition UpdateEnableState :: "AudioDeviceDescriptor \<Rightarrow> AudioDeviceManager \<Rightarrow> bool \<times> AudioDeviceManager" where
  "UpdateEnableState d s =
     fold (flag_step isEnable (\<lambda>b e. e\<lparr>isEnable := b\<rparr>) d) (connectedDevices s) (False, s)"

definition UpdateExceptionFlag :: "AudioDeviceDescriptor \<Rightarrow> AudioDeviceManager \<Rightarrow> bool \<times> AudioDeviceManager" where
  "UpdateExceptionFlag d s =
     fold (flag_step exceptionFlag (\<lambda>b e. e\<lparr>exceptionFlag := b\<rparr>) d) (connectedDevices s) (False, s)"

text \<open>The flag only decides whether an error is logged.\<close>

definition UpdateDevicesListInfo ::
    "AudioDeviceDescriptor \<Rightarrow> DeviceInfoUpdateCommand \<Rightarrow> (ref \<Rightarrow> int) \<Rightarrow> AudioDeviceManager \<Rightarrow> AudioDeviceManager" where
  "UpdateDevicesListInfo d cmd now s = snd (case cmd of
     CATEGORY_UPDATE \<Rightarrow> UpdateDeviceCategory d now s
   | CONNECTSTATE_UPDATE \<Rightarrow> UpdateConnectState d s
   | ENABLE_UPDATE \<Rightarrow> UpdateEnableState d s
   | EXCEPTION_FLAG_UPDATE \<Rightarrow> UpdateExceptionFlag d s)"

definition UpdateScoState :: "string \<Rightarrow> bool \<Rightarrow> AudioDeviceManager \<Rightarrow> AudioDeviceManager" where
  "UpdateScoState mac isConnected s =
     fold (\<lambda>r s. if deviceType (heap s r) = DEVICE_TYPE_BLUETOOTH_SCO \<and> macAddress (heap s r) = mac
                 then modify r (\<lambda>e. e\<lparr>isScoRealConnected := isConnected\<rparr>) s else s) (connectedDevices s) s"

definition OnReceiveBluetoothEvent :: "string \<Rightarrow> string \<Rightarrow> AudioDeviceManager \<Rightarrow> AudioDeviceManager" where
  "OnReceiveBluetoothEvent mac name s =
     fold (\<lambda>r s. if macAddress (heap s r) = mac then modify r (\<lambda>e. e\<lparr>deviceName := name\<rparr>) s else s)
       (connectedDevices s) s"

definition UpdateEarpieceStatus :: "bool \<Rightarrow> AudioDeviceManager \<Rightarrow> AudioDeviceManager" where
  "UpdateEarpieceStatus b s = s\<lparr>hasEarpiece := b\<rparr>"

section \<open>Lists of copies\<close>

definition copies :: "AudioDeviceManager \<Rightarrow> ref list \<Rightarrow> AudioDeviceDescriptor list" where
  "copies s rs = map (\<lambda>r. AudioDeviceDescriptor_copy (heap s r)) rs"

definition GetRemoteRenderDevices :: "AudioDeviceManager \<Rightarrow> AudioDeviceDescriptor list" where
  "GetRemoteRenderDevices s = copies s (descArrays s remoteRenderDevices)"
definition GetRemoteCaptureDevices :: "AudioDeviceManager \<Rightarrow> AudioDeviceDescriptor list" where
  "GetRemoteCaptureDevices s = copies s (descArrays s remoteCaptureDevices)"
definition GetCommRenderPrivacyDevices :: "AudioDeviceManager \<Rightarrow> AudioDeviceDescriptor list" where
  "GetCommRenderPrivacyDevices s = copies s (descArrays s commRenderPrivacyDevices)"
definition GetCommRenderPublicDevices :: "AudioDeviceManager \<Rightarrow> AudioDeviceDescriptor list" where
  "GetCommRenderPublicDevices s = copies s (descArrays s commRenderPublicDevices)"
definition GetCommRenderBTCarDevices :: "AudioDeviceManager \<Rightarrow> AudioDeviceDescriptor list" where
  "GetCommRenderBTCarDevices s =
     copies s (filter (\<lambda>r. deviceCategory (heap s r) = BT_CAR) (descArrays s commRenderPublicDevices))"
definition GetCommCapturePrivacyDevices :: "AudioDeviceManager \<Rightarrow> AudioDeviceDescriptor list" where
  "GetCommCapturePrivacyDevices s = copies s (descArrays s commCapturePrivacyDevices)"
definition GetCommCapturePublicDevices :: "AudioDeviceManager \<Rightarrow> AudioDeviceDescriptor list" where
  "GetCommCapturePublicDevices s = copies s (descArrays s commCapturePublicDevices)"
definition GetMediaRenderPrivacyDevices :: "AudioDeviceManager \<Rightarrow> AudioDeviceDescriptor list" where
  "GetMediaRenderPrivacyDevices s = copies s (descArrays s mediaRenderPrivacyDevices)"
definition GetMediaRenderPublicDevices :: "AudioDeviceManager \<Rightarrow> AudioDeviceDescriptor list" where
  "GetMediaRenderPublicDevices s = copies s (descArrays s mediaRenderPublicDevices)"
definition GetMediaCapturePrivacyDevices :: "AudioDeviceManager \<Rightarrow> AudioDeviceDescriptor list" where
  "GetMediaCapturePrivacyDevices s = copies s (descArrays s mediaCapturePrivacyDevices)"
definition GetMediaCapturePublicDevices :: "AudioDeviceManager \<Rightarrow> AudioDeviceDescriptor list" where
  "GetMediaCapturePublicDevices s = copies s (descArrays s mediaCapturePublicDevices)"
definition GetCapturePrivacyDevices :: "AudioDeviceManager \<Rightarrow> AudioDeviceDescriptor list" where
  "GetCapturePrivacyDevices s = copies s (descArrays s capturePrivacyDevices)"
definition GetCapturePublicDevices :: "AudioDeviceManager \<Rightarrow> AudioDeviceDescriptor list" where
  "GetCapturePublicDevices s = copies s (descArrays s capturePublicDevices)"
definition GetRecongnitionCapturePrivacyDevices :: "AudioDeviceManager \<Rightarrow> AudioDeviceDescriptor list" where
  "GetRecongnitionCapturePrivacyDevices s = copies s (descArrays s reconCapturePrivacyDevices)"

lemmas list_getters =
  GetRemoteRenderDevices_def GetRemoteCaptureDevices_def GetCommRenderPrivacyDevices_def
  GetCommRenderPublicDevices_def GetCommRenderBTCarDevices_def GetCommCapturePrivacyDevices_def
  GetCommCapturePublicDevices_def GetMediaRenderPrivacyDevices_def GetMediaRenderPublicDevices_def
  GetMediaCapturePrivacyDevices_def GetMediaCapturePublicDevices_def GetCapturePrivacyDevices_def
  GetCapturePublicDevices_def GetRecongnitionCapturePrivacyDevices_def

section \<open>Default devices\<close>

definition GetCommRenderDefaultDevice :: "StreamUsage \<Rightarrow> AudioDeviceManager \<Rightarrow> AudioDeviceDescriptor" where
  "GetCommRenderDefaultDevice u s =
     (if hasEarpiece s \<and> u \<noteq> STREAM_USAGE_VIDEO_COMMUNICATION
      then AudioDeviceDescriptor_of (deref s (earpiece s))
      else AudioDeviceDescriptor_of (deref s (speaker s)))"

definition GetRenderDefaultDevice :: "AudioDeviceManager \<Rightarrow> AudioDeviceDescriptor" where
  "GetRenderDefaultDevice s = AudioDeviceDescriptor_of (deref s (speaker s))"

definition GetCaptureDefaultDevice :: "AudioDeviceManager \<Rightarrow> AudioDeviceDescriptor" where
  "GetCaptureDefaultDevice s = AudioDeviceDescriptor_of (deref s (defalutMic s))"

definition GetSelectedMediaRenderDevice :: "AudioDeviceManager \<Rightarrow> AudioDeviceDescriptor option" where
  "GetSelectedMediaRenderDevice s =
     (if selectedMediaDefaultOutputDevice s = DEVICE_TYPE_EARPIECE
      then Some (AudioDeviceDescriptor_of (deref s (earpiece s)))
      else if selectedMediaDefaultOutputDevice s = DEVICE_TYPE_SPEAKER
      then Some (AudioDeviceDescriptor_of (deref s (speaker s)))
      else None)"

definition GetSelectedCallRenderDevice :: "AudioDeviceManager \<Rightarrow> AudioDeviceDescriptor option" where
  "GetSelectedCallRenderDevice s =
     (if selectedCallDefaultOutputDevice s = DEVICE_TYPE_EARPIECE
      then Some (AudioDeviceDescriptor_of (deref s (earpiece s)))
      else if selectedCallDefaultOutputDevice s = DEVICE_TYPE_SPEAKER
      then Some (AudioDeviceDescriptor_of (deref s (speaker s)))
      else None)"

section \<open>Available devices\<close>

definition AddAvailableDevicesByUsage ::
    "AudioDeviceUsage \<Rightarrow> DevicePrivacyInfo \<Rightarrow> AudioDeviceDescriptor \<Rightarrow> AudioDeviceDescriptor list \<Rightarrow> AudioDeviceDescriptor list" where
  "AddAvailableDevicesByUsage usage info d ds =
     (let role = (\<lambda>x. deviceRole d AND x \<noteq> 0); for = (\<lambda>x. infoUsage info AND x \<noteq> 0)
      in if (if usage = MEDIA_OUTPUT_DEVICES then role OUTPUT_DEVICE \<and> for MEDIA
             else if usage = MEDIA_INPUT_DEVICES then role INPUT_DEVICE \<and> for MEDIA
             else if usage = ALL_MEDIA_DEVICES then for MEDIA
             else if usage = CALL_OUTPUT_DEVICES then role OUTPUT_DEVICE \<and> for VOICE
             else if usage = CALL_INPUT_DEVICES then role INPUT_DEVICE \<and> for VOICE
             else if usage = ALL_CALL_DEVICES then for VOICE
             else False)
         then ds @ [AudioDeviceDescriptor_copy d] else ds)"

definition IsExistedDevice :: "AudioDeviceDescriptor \<Rightarrow> AudioDeviceDescriptor list \<Rightarrow> bool" where
  "IsExistedDevice d ds =
     list_ex (\<lambda>e. deviceType d = deviceType e \<and> networkId d = networkId e \<and>
                  deviceRole d = deviceRole e \<and> macAddress d = macAddress e) ds"

definition GetAvailableDevicesWithUsage ::
    "AudioDeviceUsage \<Rightarrow> DevicePrivacyInfo list \<Rightarrow> AudioDeviceDescriptor \<Rightarrow> AudioDeviceDescriptor list \<Rightarrow> AudioDeviceDescriptor list" where
  "GetAvailableDevicesWithUsage usage infos d ds =
     fold (\<lambda>i ds. if deviceType d \<noteq> infoType i \<or> IsExistedDevice d ds then ds
                  else AddAvailableDevicesByUsage usage i d ds) infos ds"

definition remote_of_type :: "DeviceType \<Rightarrow> AudioDeviceManager \<Rightarrow> AudioDeviceDescriptor list" where
  "remote_of_type t s =
     copies s (filter (\<lambda>r. deviceType (heap s r) = t \<and> networkId (heap s r) \<noteq> LOCAL_NETWORK_ID) (connectedDevices s))"

definition default_of :: "AudioDeviceManager \<Rightarrow> ref option \<Rightarrow> AudioDeviceDescriptor list" where
  "default_of s p = (case p of None \<Rightarrow> [] | Some r \<Rightarrow> [AudioDeviceDescriptor_copy (heap s r)])"

definition GetDefaultAvailableDevicesByUsage ::
    "AudioDeviceUsage \<Rightarrow> AudioDeviceManager \<Rightarrow> AudioDeviceDescriptor list" where
  "GetDefaultAvailableDevicesByUsage usage s =
     (if usage AND MEDIA_OUTPUT_DEVICES \<noteq> 0 \<or> usage AND CALL_OUTPUT_DEVICES \<noteq> 0
      then default_of s (speaker s) @ remote_of_type DEVICE_TYPE_SPEAKER s else []) @
     (if usage AND MEDIA_INPUT_DEVICES \<noteq> 0 \<or> usage AND CALL_INPUT_DEVICES \<noteq> 0
      then default_of s (defalutMic s) @ remote_of_type DEVICE_TYPE_MIC s else []) @
     (if usage AND CALL_OUTPUT_DEVICES \<noteq> 0
      then default_of s (earpiece s) @ remote_of_type DEVICE_TYPE_EARPIECE s else [])"

text \<open>The order of the entries of \<open>devicePrivacyMaps_\<close> is the one its hash table iterates in.\<close>

definition GetAvailableDevicesByUsage :: "AudioDeviceUsage \<Rightarrow> AudioDeviceManager \<Rightarrow> AudioDeviceDescriptor list" where
  "GetAvailableDevicesByUsage usage s =
     fold (\<lambda>r. fold (\<lambda>entry. GetAvailableDevicesWithUsage usage (snd entry) (AudioDeviceDescriptor_copy (heap s r)))
               (devicePrivacyMaps s))
       (connectedDevices s) (GetDefaultAvailableDevicesByUsage usage s)"

section \<open>Searches\<close>

definition IsArmUsbDevice :: "AudioDeviceDescriptor \<Rightarrow> AudioDeviceManager \<Rightarrow> bool" where
  "IsArmUsbDevice d s =
     (case find (\<lambda>r. deviceId (heap s r) = deviceId d) (connectedDevices s) of
        None \<Rightarrow> False | Some r \<Rightarrow> deviceType (heap s r) = DEVICE_TYPE_USB_ARM_HEADSET)"

definition GetAvailableBluetoothDevice :: "DeviceType \<Rightarrow> string \<Rightarrow> AudioDeviceManager \<Rightarrow> AudioDeviceDescriptor list" where
  "GetAvailableBluetoothDevice t mac s =
     copies s (filter (\<lambda>r. deviceType (heap s r) = t \<and> macAddress (heap s r) = mac) (connectedDevices s))"

definition GetScoState :: "AudioDeviceManager \<Rightarrow> bool" where
  "GetScoState s = list_ex (\<lambda>r. deviceType (heap s r) = DEVICE_TYPE_BLUETOOTH_SCO \<and>
                                connectState (heap s r) = CONNECTED) (connectedDevices s)"

definition GetDevicesByFilter ::
    "DeviceType \<Rightarrow> DeviceRole \<Rightarrow> string \<Rightarrow> string \<Rightarrow> ConnectState \<Rightarrow> AudioDeviceManager \<Rightarrow> ref list" where
  "GetDevicesByFilter t role mac net cs s =
     filter (\<lambda>r. let e = heap s r in
        (t = DEVICE_TYPE_NONE \<or> t = deviceType e) \<and> (role = DEVICE_ROLE_NONE \<or> role = deviceRole e) \<and>
        (mac = [] \<or> mac = macAddress e) \<and> (net = [] \<or> net = networkId e) \<and> cs = connectState e) (connectedDevices s)"

definition IsDeviceConnected :: "AudioDeviceDescriptor \<Rightarrow> AudioDeviceManager \<Rightarrow> bool" where
  "IsDeviceConnected d s =
     list_ex (\<lambda>r. let e = heap s r in deviceRole e = deviceRole d \<and> deviceType e = deviceType d \<and>
        networkId e = networkId d \<and> macAddress e = macAddress d \<and> volumeGroupId e = volumeGroupId d) (connectedDevices s)"

definition IsVirtualConnectedDevice :: "AudioDeviceDescriptor option \<Rightarrow> AudioDeviceManager \<Rightarrow> bool" where
  "IsVirtualConnectedDevice p s = (case p of None \<Rightarrow> False | Some d \<Rightarrow>
     list_ex (\<lambda>r. let e = heap s r in connectState e = VIRTUAL_CONNECTED \<and> deviceRole e = deviceRole d \<and>
        deviceType e = deviceType d \<and> networkId e = networkId d \<and> macAddress e = macAddress d) (connectedDevices s))"

text \<open>The caller's descriptor is returned with its new id.\<close>

definition UpdateDeviceDescDeviceId ::
    "AudioDeviceDescriptor option \<Rightarrow> AudioDeviceManager \<Rightarrow> err \<times> AudioDeviceDescriptor option" where
  "UpdateDeviceDescDeviceId p s = (case p of None \<Rightarrow> (ERROR, None) | Some d \<Rightarrow>
     (case find (\<lambda>r. let e = heap s r in deviceRole e = deviceRole d \<and> deviceType e = deviceType d \<and>
               networkId e = networkId d \<and> macAddress e = macAddress d) (connectedDevices s) of
        None \<Rightarrow> (ERROR, p)
      | Some r \<Rightarrow> (SUCCESS, Some (d\<lparr>deviceId := deviceId (heap s r)\<rparr>))))"

section \<open>Default output devices of streams\<close>

definition NEED_TO_FETCH :: err where "NEED_TO_FETCH = 1"

definition is_call_usage :: "StreamUsage \<Rightarrow> bool" where
  "is_call_usage u \<longleftrightarrow> u = STREAM_USAGE_VOICE_COMMUNICATION \<or> u = STREAM_USAGE_VIDEO_COMMUNICATION \<or>
     u = STREAM_USAGE_VOICE_MODEM_COMMUNICATION"

fun erase_session :: "u32 \<Rightarrow> (u32 \<times> DeviceType) list \<Rightarrow> (u32 \<times> DeviceType) list" where
  "erase_session i [] = []"
| "erase_session i (x # xs) = (if fst x = i then xs else x # erase_session i xs)"

definition SetDefaultOutputDevice ::
    "DeviceType \<Rightarrow> u32 \<Rightarrow> StreamUsage \<Rightarrow> bool \<Rightarrow> AudioDeviceManager \<Rightarrow> err \<times> AudioDeviceManager" where
  "SetDefaultOutputDevice t sessionID u isRunning s =
     (let s = s\<lparr>selectedDefaultOutputDeviceInfo := (selectedDefaultOutputDeviceInfo s)(sessionID \<mapsto> (t, u))\<rparr>
      in if \<not> isRunning then (SUCCESS, s)
         else if u = STREAM_USAGE_VOICE_MESSAGE then
           let s' = s\<lparr>mediaDefaultOutputDevices := erase_session sessionID (mediaDefaultOutputDevices s) @ [(sessionID, t)]\<rparr>
           in if selectedMediaDefaultOutputDevice s \<noteq> t
              then (NEED_TO_FETCH, s'\<lparr>selectedMediaDefaultOutputDevice := t\<rparr>) else (SUCCESS, s')
         else if is_call_usage u then
           let s' = s\<lparr>callDefaultOutputDevices := erase_session sessionID (callDefaultOutputDevices s) @ [(sessionID, t)]\<rparr>
           in if selectedCallDefaultOutputDevice s \<noteq> t
              then (NEED_TO_FETCH, s'\<lparr>selectedCallDefaultOutputDevice := t\<rparr>) else (SUCCESS, s')
         else (ERROR, s))"

definition UpdateDefaultOutputDeviceWhenStarting :: "u32 \<Rightarrow> AudioDeviceManager \<Rightarrow> err \<times> AudioDeviceManager" where
  "UpdateDefaultOutputDeviceWhenStarting sessionID s =
     (case selectedDefaultOutputDeviceInfo s sessionID of
        None \<Rightarrow> (SUCCESS, s)
      | Some (t, u) \<Rightarrow> (SUCCESS,
          if u = STREAM_USAGE_VOICE_MESSAGE
          then s\<lparr>mediaDefaultOutputDevices := erase_session sessionID (mediaDefaultOutputDevices s) @ [(sessionID, t)],
                 selectedMediaDefaultOutputDevice := t\<rparr>
          else if is_call_usage u
          then s\<lparr>callDefaultOutputDevices := erase_session sessionID (callDefaultOutputDevices s) @ [(sessionID, t)],
                 selectedCallDefaultOutputDevice := t\<rparr>
          else s))"

definition last_choice :: "(u32 \<times> DeviceType) list \<Rightarrow> DeviceType" where
  "last_choice xs = (if xs = [] then DEVICE_TYPE_DEFAULT else snd (last xs))"

definition UpdateDefaultOutputDeviceWhenStopping :: "u32 \<Rightarrow> AudioDeviceManager \<Rightarrow> err \<times> AudioDeviceManager" where
  "UpdateDefaultOutputDeviceWhenStopping sessionID s =
     (case selectedDefaultOutputDeviceInfo s sessionID of
        None \<Rightarrow> (SUCCESS, s)
      | Some (t, u) \<Rightarrow> (SUCCESS,
          if u = STREAM_USAGE_VOICE_MESSAGE then
            if sessionID \<notin> fst ` set (mediaDefaultOutputDevices s) then s
            else let xs = erase_session sessionID (mediaDefaultOutputDevices s)
                 in s\<lparr>mediaDefaultOutputDevices := xs, selectedMediaDefaultOutputDevice := last_choice xs\<rparr>
          else if is_call_usage u then
            if sessionID \<notin> fst ` set (callDefaultOutputDevices s) then s
            else let xs = erase_session sessionID (callDefaultOutputDevices s)
                 in s\<lparr>callDefaultOutputDevices := xs, selectedCallDefaultOutputDevice := last_choice xs\<rparr>
          else s))"

definition RemoveSelectedDefaultOutputDevice :: "u32 \<Rightarrow> AudioDeviceManager \<Rightarrow> err \<times> AudioDeviceManager" where
  "RemoveSelectedDefaultOutputDevice sessionID s =
     (SUCCESS, s\<lparr>selectedDefaultOutputDeviceInfo := (selectedDefaultOutputDeviceInfo s)(sessionID := None)\<rparr>)"

end
