(* ===== verification/DevicePreference.thy ===== *)
theory DevicePreference
  imports DeviceQueries "HOL-Library.AList"
begin

text \<open>
  What users and applications prefer: \<open>AudioStateManager\<close> (\<open>audio_state_manager.cpp\<close>) holds the
  device the user chose per purpose, \<open>AudioAffinityManager\<close> (\<open>audio_affinity_manager.cpp\<close>) the
  one an application chose for itself. Both hold \<open>sptr\<close>s into the store of the device manager;
  hash tables are association lists in the order they iterate.
\<close>

section \<open>The choices of the user\<close>

record AudioStateManager =
  preferredMediaRenderDevice :: "ref option"
  preferredCallRenderDevice :: "ref option"
  preferredCallCaptureDevice :: "ref option"
  preferredRingRenderDevice :: "ref option"
  preferredRecordCaptureDevice :: "ref option"
  preferredToneRenderDevice :: "ref option"

definition SetPreferredMediaRenderDevice :: "ref option \<Rightarrow> AudioStateManager \<Rightarrow> AudioStateManager" where
  "SetPreferredMediaRenderDevice p m = m\<lparr>preferredMediaRenderDevice := p\<rparr>"
definition SetPreferredCallRenderDevice :: "ref option \<Rightarrow> AudioStateManager \<Rightarrow> AudioStateManager" where
  "SetPreferredCallRenderDevice p m = m\<lparr>preferredCallRenderDevice := p\<rparr>"
definition SetPreferredCallCaptureDevice :: "ref option \<Rightarrow> AudioStateManager \<Rightarrow> AudioStateManager" where
  "SetPreferredCallCaptureDevice p m = m\<lparr>preferredCallCaptureDevice := p\<rparr>"
definition SetPreferredRingRenderDevice :: "ref option \<Rightarrow> AudioStateManager \<Rightarrow> AudioStateManager" where
  "SetPreferredRingRenderDevice p m = m\<lparr>preferredRingRenderDevice := p\<rparr>"
definition SetPreferredRecordCaptureDevice :: "ref option \<Rightarrow> AudioStateManager \<Rightarrow> AudioStateManager" where
  "SetPreferredRecordCaptureDevice p m = m\<lparr>preferredRecordCaptureDevice := p\<rparr>"
definition SetPreferredToneRenderDevice :: "ref option \<Rightarrow> AudioStateManager \<Rightarrow> AudioStateManager" where
  "SetPreferredToneRenderDevice p m = m\<lparr>preferredToneRenderDevice := p\<rparr>"

definition GetPreferredMediaRenderDevice :: "AudioDeviceManager \<Rightarrow> AudioStateManager \<Rightarrow> AudioDeviceDescriptor" where
  "GetPreferredMediaRenderDevice s m = AudioDeviceDescriptor_of (deref s (preferredMediaRenderDevice m))"
definition GetPreferredCallRenderDevice :: "AudioDeviceManager \<Rightarrow> AudioStateManager \<Rightarrow> AudioDeviceDescriptor" where
  "GetPreferredCallRenderDevice s m = AudioDeviceDescriptor_of (deref s (preferredCallRenderDevice m))"
definition GetPreferredCallCaptureDevice :: "AudioDeviceManager \<Rightarrow> AudioStateManager \<Rightarrow> AudioDeviceDescriptor" where
  "GetPreferredCallCaptureDevice s m = AudioDeviceDescriptor_of (deref s (preferredCallCaptureDevice m))"
definition GetPreferredRingRenderDevice :: "AudioDeviceManager \<Rightarrow> AudioStateManager \<Rightarrow> AudioDeviceDescriptor" where
  "GetPreferredRingRenderDevice s m = AudioDeviceDescriptor_of (deref s (preferredRingRenderDevice m))"
definition GetPreferredRecordCaptureDevice :: "AudioDeviceManager \<Rightarrow> AudioStateManager \<Rightarrow> AudioDeviceDescriptor" where
  "GetPreferredRecordCaptureDevice s m = AudioDeviceDescriptor_of (deref s (preferredRecordCaptureDevice m))"
definition GetPreferredToneRenderDevice :: "AudioDeviceManager \<Rightarrow> AudioStateManager \<Rightarrow> AudioDeviceDescriptor" where
  "GetPreferredToneRenderDevice s m = AudioDeviceDescriptor_of (deref s (preferredToneRenderDevice m))"

text \<open>The state is written into the shared object.\<close>

definition update_preferred :: "ref option \<Rightarrow> ConnectState \<Rightarrow> AudioDeviceManager \<Rightarrow> AudioDeviceManager" where
  "update_preferred p c s = (case p of None \<Rightarrow> s | Some r \<Rightarrow> modify r (\<lambda>d. d\<lparr>connectState := c\<rparr>) s)"

definition UpdatePreferredMediaRenderDeviceConnectState ::
    "ConnectState \<Rightarrow> AudioStateManager \<Rightarrow> AudioDeviceManager \<Rightarrow> AudioDeviceManager" where
  "UpdatePreferredMediaRenderDeviceConnectState c m = update_preferred (preferredMediaRenderDevice m) c"
definition UpdatePreferredCallRenderDeviceConnectState ::
    "ConnectState \<Rightarrow> AudioStateManager \<Rightarrow> AudioDeviceManager \<Rightarrow> AudioDeviceManager" where
  "UpdatePreferredCallRenderDeviceConnectState c m = update_preferred (preferredCallRenderDevice m) c"
definition UpdatePreferredCallCaptureDeviceConnectState ::
    "ConnectState \<Rightarrow> AudioStateManager \<Rightarrow> AudioDeviceManager \<Rightarrow> AudioDeviceManager" where
  "UpdatePreferredCallCaptureDeviceConnectState c m = update_preferred (preferredCallCaptureDevice m) c"
definition UpdatePreferredRecordCaptureDeviceConnectState ::
    "ConnectState \<Rightarrow> AudioStateManager \<Rightarrow> AudioDeviceManager \<Rightarrow> AudioDeviceManager" where
  "UpdatePreferredRecordCaptureDeviceConnectState c m = update_preferred (preferredRecordCaptureDevice m) c"

section \<open>The choices of applications\<close>

record AffinityDeviceInfo =
  groupName :: string
  affinityType :: DeviceType
  deviceFlag :: nat
  affinityNetwork :: string
  chooseTimeStamp :: int
  isPrimary :: bool
  SupportedConcurrency :: bool

definition AffinityDeviceInfo_zero :: AffinityDeviceInfo where
  "AffinityDeviceInfo_zero = \<lparr>groupName = [], affinityType = DEVICE_TYPE_INVALID, deviceFlag = 0, affinityNetwork = [],
     chooseTimeStamp = 0, isPrimary = False, SupportedConcurrency = False\<rparr>"

definition OUTPUT_DEVICES_FLAG :: nat where [simp]: "OUTPUT_DEVICES_FLAG = 1"

type_synonym affinity_groups = "(string \<times> (int \<times> AffinityDeviceInfo) list) list"

record AudioAffinityManager =
  activeRendererDeviceMap :: "(int \<times> ref) list"
  activeCapturerDeviceMap :: "(int \<times> ref) list"
  rendererAffinityDeviceArray :: "AffinityDeviceInfo list"
  capturerAffinityDeviceArray :: "AffinityDeviceInfo list"
  activeRendererGroupAffinityMap :: affinity_groups
  activeCapturerGroupAffinityMap :: affinity_groups

definition AudioAffinityManager_ctor :: AudioAffinityManager where
  "AudioAffinityManager_ctor =
     \<lparr>activeRendererDeviceMap = [], activeCapturerDeviceMap = [], rendererAffinityDeviceArray = [],
      capturerAffinityDeviceArray = [], activeRendererGroupAffinityMap = [], activeCapturerGroupAffinityMap = []\<rparr>"

definition affinity_OnXmlParsingCompleted :: "AffinityDeviceInfo list \<Rightarrow> AudioAffinityManager \<Rightarrow> AudioAffinityManager" where
  "affinity_OnXmlParsingCompleted xmlData a =
     a\<lparr>rendererAffinityDeviceArray := rendererAffinityDeviceArray a @ filter (\<lambda>i. deviceFlag i = OUTPUT_DEVICES_FLAG) xmlData,
       capturerAffinityDeviceArray := capturerAffinityDeviceArray a @ filter (\<lambda>i. deviceFlag i \<noteq> OUTPUT_DEVICES_FLAG) xmlData\<rparr>"

definition GetRendererDevice :: "int \<Rightarrow> AudioDeviceManager \<Rightarrow> AudioAffinityManager \<Rightarrow> AudioDeviceDescriptor" where
  "GetRendererDevice uid s a = (case map_of (activeRendererDeviceMap a) uid of
     Some r \<Rightarrow> AudioDeviceDescriptor_copy (heap s r) | None \<Rightarrow> AudioDeviceDescriptor_ctor)"

definition GetCapturerDevice :: "int \<Rightarrow> AudioDeviceManager \<Rightarrow> AudioAffinityManager \<Rightarrow> AudioDeviceDescriptor" where
  "GetCapturerDevice uid s a = (case map_of (activeCapturerDeviceMap a) uid of
     Some r \<Rightarrow> AudioDeviceDescriptor_copy (heap s r) | None \<Rightarrow> AudioDeviceDescriptor_ctor)"

text \<open>
  The loop walks the given array but stops at the end of the renderers' array. At the end of
  another array it goes on reading, except that the ends of two vectors that have never held
  anything are both null.
\<close>

fun GetAffinityDeviceInfoByDeviceType ::
    "bool \<Rightarrow> AffinityDeviceInfo list \<Rightarrow> DeviceType \<Rightarrow> string \<Rightarrow> AffinityDeviceInfo exec" where
  "GetAffinityDeviceInfoByDeviceType stops [] t net = (if stops then Inr AffinityDeviceInfo_zero else Inl UncheckedAccess)"
| "GetAffinityDeviceInfoByDeviceType stops (i # is) t net =
     (if net = affinityNetwork i \<and> t = affinityType i then Inr i
      else GetAffinityDeviceInfoByDeviceType stops is t net)"

definition capturer_stops :: "AudioAffinityManager \<Rightarrow> bool" where
  "capturer_stops a \<longleftrightarrow> rendererAffinityDeviceArray a = [] \<and> capturerAffinityDeviceArray a = []"

definition GetActiveAffinityDeviceMapByGroupName ::
    "affinity_groups \<Rightarrow> string \<Rightarrow> (int \<times> AffinityDeviceInfo) list" where
  "GetActiveAffinityDeviceMapByGroupName groups name = (case map_of groups name of Some m \<Rightarrow> m | None \<Rightarrow> [])"

definition add_to_group :: "int \<Rightarrow> int \<Rightarrow> AffinityDeviceInfo \<Rightarrow> affinity_groups \<Rightarrow> affinity_groups" where
  "add_to_group uid now info groups =
     (let info = info\<lparr>chooseTimeStamp := now\<rparr>
      in AList.update (groupName info)
           (AList.update uid info (GetActiveAffinityDeviceMapByGroupName groups (groupName info))) groups)"

definition AddSelectRendererDevice ::
    "int \<Rightarrow> int \<Rightarrow> ref option \<Rightarrow> AudioDeviceManager \<Rightarrow> AudioAffinityManager \<Rightarrow> AudioAffinityManager exec" where
  "AddSelectRendererDevice now uid desc s a = (case desc of
     None \<Rightarrow> Inr a
   | Some r \<Rightarrow>
       exec_bind (GetAffinityDeviceInfoByDeviceType True (rendererAffinityDeviceArray a) (deviceType (heap s r)) (networkId (heap s r)))
         (\<lambda>info. Inr (a\<lparr>activeRendererDeviceMap := AList.update uid r (activeRendererDeviceMap a),
                        activeRendererGroupAffinityMap := add_to_group uid now info (activeRendererGroupAffinityMap a)\<rparr>)))"

definition AddSelectCapturerDevice ::
    "int \<Rightarrow> int \<Rightarrow> ref option \<Rightarrow> AudioDeviceManager \<Rightarrow> AudioAffinityManager \<Rightarrow> AudioAffinityManager exec" where
  "AddSelectCapturerDevice now uid desc s a = (case desc of
     None \<Rightarrow> Inr a
   | Some r \<Rightarrow>
       exec_bind (GetAffinityDeviceInfoByDeviceType (capturer_stops a) (capturerAffinityDeviceArray a)
                    (deviceType (heap s r)) (networkId (heap s r)))
         (\<lambda>info. Inr (a\<lparr>activeCapturerDeviceMap := AList.update uid r (activeCapturerDeviceMap a),
                        activeCapturerGroupAffinityMap := add_to_group uid now info (activeCapturerGroupAffinityMap a)\<rparr>)))"

definition DelActiveGroupAffinityMap ::
    "int \<Rightarrow> bool \<Rightarrow> AffinityDeviceInfo list \<Rightarrow> AudioDeviceDescriptor \<Rightarrow> affinity_groups \<Rightarrow> affinity_groups exec" where
  "DelActiveGroupAffinityMap uid stops arr d groups =
     exec_bind (GetAffinityDeviceInfoByDeviceType stops arr (deviceType d) (networkId d))
       (\<lambda>info. Inr (AList.update (groupName info)
          (AList.delete uid (GetActiveAffinityDeviceMapByGroupName groups (groupName info))) groups))"

definition DelSelectRendererDevice :: "int \<Rightarrow> AudioDeviceManager \<Rightarrow> AudioAffinityManager \<Rightarrow> AudioAffinityManager exec" where
  "DelSelectRendererDevice uid s a = (case map_of (activeRendererDeviceMap a) uid of
     None \<Rightarrow> Inr a
   | Some r \<Rightarrow>
       exec_bind (DelActiveGroupAffinityMap uid True (rendererAffinityDeviceArray a) (heap s r) (activeRendererGroupAffinityMap a))
         (\<lambda>g. Inr (a\<lparr>activeRendererGroupAffinityMap := g,
                     activeRendererDeviceMap := AList.delete uid (activeRendererDeviceMap a)\<rparr>)))"

definition DelSelectCapturerDevice :: "int \<Rightarrow> AudioDeviceManager \<Rightarrow> AudioAffinityManager \<Rightarrow> AudioAffinityManager exec" where
  "DelSelectCapturerDevice uid s a = (case map_of (activeCapturerDeviceMap a) uid of
     None \<Rightarrow> Inr a
   | Some r \<Rightarrow>
       exec_bind (DelActiveGroupAffinityMap uid (capturer_stops a) (capturerAffinityDeviceArray a) (heap s r) (activeCapturerGroupAffinityMap a))
         (\<lambda>g. Inr (a\<lparr>activeCapturerGroupAffinityMap := g,
                     activeCapturerDeviceMap := AList.delete uid (activeCapturerDeviceMap a)\<rparr>)))"

text \<open>The devices of a type and network that went away, one after the other.\<close>

fun remove_offline ::
    "bool \<Rightarrow> AffinityDeviceInfo list \<Rightarrow> AudioDeviceDescriptor \<Rightarrow> AudioDeviceManager \<Rightarrow>
     (int \<times> ref) list \<Rightarrow> affinity_groups \<Rightarrow> ((int \<times> ref) list \<times> affinity_groups) exec" where
  "remove_offline stops arr d s [] groups = Inr ([], groups)"
| "remove_offline stops arr d s ((uid, r) # rest) groups =
     (if deviceType (heap s r) = deviceType d \<and> networkId (heap s r) = networkId d
      then exec_bind (DelActiveGroupAffinityMap uid stops arr (heap s r) groups)
             (remove_offline stops arr d s rest)
      else exec_bind (remove_offline stops arr d s rest groups) (\<lambda>(m, g). Inr ((uid, r) # m, g)))"

definition RemoveOfflineRendererDevice ::
    "AudioDeviceDescriptor \<Rightarrow> AudioDeviceManager \<Rightarrow> AudioAffinityManager \<Rightarrow> AudioAffinityManager exec" where
  "RemoveOfflineRendererDevice d s a =
     exec_bind (remove_offline True (rendererAffinityDeviceArray a) d s (activeRendererDeviceMap a) (activeRendererGroupAffinityMap a))
       (\<lambda>(m, g). Inr (a\<lparr>activeRendererDeviceMap := m, activeRendererGroupAffinityMap := g\<rparr>))"

definition RemoveOfflineCapturerDevice ::
    "AudioDeviceDescriptor \<Rightarrow> AudioDeviceManager \<Rightarrow> AudioAffinityManager \<Rightarrow> AudioAffinityManager exec" where
  "RemoveOfflineCapturerDevice d s a =
     exec_bind (remove_offline (capturer_stops a) (capturerAffinityDeviceArray a) d s (activeCapturerDeviceMap a)
                  (activeCapturerGroupAffinityMap a))
       (\<lambda>(m, g). Inr (a\<lparr>activeCapturerDeviceMap := m, activeCapturerGroupAffinityMap := g\<rparr>))"

lemma affinity_search_total: "\<exists>i. GetAffinityDeviceInfoByDeviceType True is t net = Inr i"
  by (induction "is") auto

lemma affinity_search_found:
  "\<exists>i\<in>set is. affinityNetwork i = net \<and> affinityType i = t \<Longrightarrow> \<exists>i. GetAffinityDeviceInfoByDeviceType b is t net = Inr i"
  by (induction "is") auto

lemma affinity_search_missing:
  "\<forall>i\<in>set is. \<not> (affinityNetwork i = net \<and> affinityType i = t) \<Longrightarrow>
   GetAffinityDeviceInfoByDeviceType False is t net = Inl UncheckedAccess"
  by (induction "is") auto

lemma remove_offline_total: "\<exists>g'. remove_offline True arr d s m g =
    Inr (filter (\<lambda>(uid, r). \<not> (deviceType (heap s r) = deviceType d \<and> networkId (heap s r) = networkId d)) m, g')"
proof (induction m arbitrary: g)
  case (Cons p m)
  obtain uid r where p: "p = (uid, r)" by fastforce
  obtain i where "GetAffinityDeviceInfoByDeviceType True arr (deviceType (heap s r)) (networkId (heap s r)) = Inr i"
    using affinity_search_total by blast
  then obtain g1 where "DelActiveGroupAffinityMap uid True arr (heap s r) g = Inr g1"
    by (simp add: DelActiveGroupAffinityMap_def)
  then show ?case using Cons.IH [of g1] Cons.IH [of g] by (auto simp: p)
qed simp

end
