(* ===== verification/Routers.thy ===== *)
theory Routers
  imports DevicePreference
begin

text \<open>
  The routers (\<open>services/audio_policy/server/src/service/routers\<close>, \<open>router_base.h\<close>): each
  answers for a purpose with a device, or with a descriptor of no type when it has no opinion.

  A router reads the device manager, the preferences, and some state of the policy service and
  the stream collector; \<open>RouterView\<close> is what it can see. \<open>sort_devices\<close> is \<open>std::sort\<close> by
  connection time, whose order of equal times is not specified. The pointers the routers hand
  out are unique, so they are values.
\<close>

datatype Router =
  AppSelectRouter | UserSelectRouter | PrivacyPriorityRouter | PublicPriorityRouter | StreamFilterRouter
| DefaultRouter | CockpitPhoneRouter | PairDeviceRouter | PackageFilterRouter

datatype RendererState =
  RENDERER_INVALID | RENDERER_NEW | RENDERER_PREPARED | RENDERER_RUNNING | RENDERER_STOPPED
| RENDERER_RELEASED | RENDERER_PAUSED

record RouterView =
  devices :: AudioDeviceManager
  preferences :: AudioStateManager
  affinities :: AudioAffinityManager
  audioScene :: AudioScene
  lastAudioScene :: AudioScene
  ringerMode :: AudioRingerMode
  distributedRouting :: "AudioDeviceDescriptor option \<times> CastType"
  activeOutputDevice :: AudioDeviceDescriptor
  rendererInfos :: "(StreamUsage \<times> RendererState) list"
  sort_devices :: "AudioDeviceDescriptor list \<Rightarrow> AudioDeviceDescriptor list"

definition IsCallStreamUsage :: "StreamUsage \<Rightarrow> bool" where
  "IsCallStreamUsage u \<longleftrightarrow> u = STREAM_USAGE_VOICE_COMMUNICATION \<or> u = STREAM_USAGE_VIDEO_COMMUNICATION \<or>
     u = STREAM_USAGE_VOICE_MODEM_COMMUNICATION"

definition GetLastestRunningCallStreamUsage :: "(StreamUsage \<times> RendererState) list \<Rightarrow> StreamUsage" where
  "GetLastestRunningCallStreamUsage infos =
     (case find (\<lambda>(u, st). IsCallStreamUsage u \<and> st = RENDERER_RUNNING \<or>
                  u = STREAM_USAGE_VOICE_MODEM_COMMUNICATION \<and> st = RENDERER_PREPARED) infos of
        Some (u, _) \<Rightarrow> u | None \<Rightarrow> STREAM_USAGE_UNKNOWN)"

section \<open>Base\<close>

definition usable :: "AudioDeviceDescriptor \<Rightarrow> bool" where
  "usable d \<longleftrightarrow> \<not> exceptionFlag d \<and> isEnable d \<and>
     \<not> (deviceType d = DEVICE_TYPE_BLUETOOTH_SCO \<and> connectState d = SUSPEND_CONNECTED)"

definition GetLatestConnectDeivce :: "RouterView \<Rightarrow> AudioDeviceDescriptor list \<Rightarrow> AudioDeviceDescriptor" where
  "GetLatestConnectDeivce v descs =
     (let descs = filter usable descs
      in if descs \<noteq> [] then last (sort_devices v descs) else AudioDeviceDescriptor_ctor)"

definition GetPairCaptureDevice :: "AudioDeviceDescriptor \<Rightarrow> AudioDeviceDescriptor list \<Rightarrow> AudioDeviceDescriptor" where
  "GetPairCaptureDevice d captureDescs =
     (case find (\<lambda>c. deviceRole c = deviceRole d \<and> deviceType c = deviceType d \<and> networkId c = networkId d \<and>
                     macAddress c = macAddress d \<and> usable c) captureDescs of
        Some c \<Rightarrow> c | None \<Rightarrow> AudioDeviceDescriptor_ctor)"

text \<open>Every derived router declares a \<open>name_\<close> of its own beside the one of the base, which stays empty.\<close>

definition base_name :: "Router \<Rightarrow> string" where "base_name r = []"

fun GetClassName :: "Router \<Rightarrow> string" where
  "GetClassName AppSelectRouter = ''app_select_router''"
| "GetClassName UserSelectRouter = ''user_select_router''"
| "GetClassName PrivacyPriorityRouter = ''privacy_priority_router''"
| "GetClassName PublicPriorityRouter = ''public_priority_router''"
| "GetClassName StreamFilterRouter = ''stream_filter_router''"
| "GetClassName DefaultRouter = ''default_router''"
| "GetClassName CockpitPhoneRouter = ''cockpit_phone_router''"
| "GetClassName PairDeviceRouter = ''pair_device_router''"
| "GetClassName PackageFilterRouter = ''package_filter_router''"

fun GetRouterType :: "Router \<Rightarrow> RouterType" where
  "GetRouterType AppSelectRouter = ROUTER_TYPE_APP_SELECT"
| "GetRouterType UserSelectRouter = ROUTER_TYPE_USER_SELECT"
| "GetRouterType PrivacyPriorityRouter = ROUTER_TYPE_PRIVACY_PRIORITY"
| "GetRouterType PublicPriorityRouter = ROUTER_TYPE_PUBLIC_PRIORITY"
| "GetRouterType StreamFilterRouter = ROUTER_TYPE_STREAM_FILTER"
| "GetRouterType DefaultRouter = ROUTER_TYPE_DEFAULT"
| "GetRouterType CockpitPhoneRouter = ROUTER_TYPE_COCKPIT_PHONE"
| "GetRouterType PairDeviceRouter = ROUTER_TYPE_PAIR_DEVICE"
| "GetRouterType PackageFilterRouter = ROUTER_TYPE_PACKAGE_FILTER"

section \<open>Selections of users and applications\<close>

definition user_select :: "AudioDeviceDescriptor \<Rightarrow> AudioDeviceDescriptor list \<Rightarrow> AudioDeviceDescriptor" where
  "user_select perDev available =
     (if deviceId perDev = 0 then AudioDeviceDescriptor_ctor else GetPairCaptureDevice perDev available)"

definition UserSelect_GetMediaRenderDevice :: "RouterView \<Rightarrow> StreamUsage \<Rightarrow> AudioDeviceDescriptor" where
  "UserSelect_GetMediaRenderDevice v u =
     (if u = STREAM_USAGE_RINGTONE \<or> u = STREAM_USAGE_VOICE_RINGTONE then AudioDeviceDescriptor_ctor
      else user_select (GetPreferredMediaRenderDevice (devices v) (preferences v))
             (GetAvailableDevicesByUsage MEDIA_OUTPUT_DEVICES (devices v)))"

definition UserSelect_GetCallRenderDevice :: "RouterView \<Rightarrow> AudioDeviceDescriptor" where
  "UserSelect_GetCallRenderDevice v =
     user_select (GetPreferredCallRenderDevice (devices v) (preferences v))
       (GetAvailableDevicesByUsage CALL_OUTPUT_DEVICES (devices v))"

definition UserSelect_GetCallCaptureDevice :: "RouterView \<Rightarrow> AudioDeviceDescriptor" where
  "UserSelect_GetCallCaptureDevice v =
     user_select (GetPreferredCallCaptureDevice (devices v) (preferences v))
       (GetAvailableDevicesByUsage CALL_INPUT_DEVICES (devices v))"

definition UserSelect_GetRecordCaptureDevice :: "RouterView \<Rightarrow> AudioDeviceDescriptor" where
  "UserSelect_GetRecordCaptureDevice v =
     user_select (GetPreferredRecordCaptureDevice (devices v) (preferences v))
       (GetAvailableDevicesByUsage MEDIA_INPUT_DEVICES (devices v))"

definition AppSelect_renderer :: "RouterView \<Rightarrow> int \<Rightarrow> AudioDeviceDescriptor" where
  "AppSelect_renderer v uid = GetRendererDevice uid (devices v) (affinities v)"

definition AppSelect_capturer :: "RouterView \<Rightarrow> int \<Rightarrow> AudioDeviceDescriptor" where
  "AppSelect_capturer v uid = GetCapturerDevice uid (devices v) (affinities v)"

section \<open>Private, public and car devices\<close>

definition PrivacyPriority_GetMediaRenderDevice :: "RouterView \<Rightarrow> AudioDeviceDescriptor" where
  "PrivacyPriority_GetMediaRenderDevice v = GetLatestConnectDeivce v (GetMediaRenderPrivacyDevices (devices v))"

definition RemoveArmUsb :: "AudioDeviceDescriptor list \<Rightarrow> AudioDeviceDescriptor list" where
  "RemoveArmUsb descs = filter (\<lambda>d. deviceType d \<noteq> DEVICE_TYPE_USB_ARM_HEADSET) descs"

definition PrivacyPriority_GetCallRenderDevice :: "RouterView \<Rightarrow> StreamUsage \<Rightarrow> AudioDeviceDescriptor" where
  "PrivacyPriority_GetCallRenderDevice v u =
     (let descs = GetCommRenderPrivacyDevices (devices v)
      in GetLatestConnectDeivce v (if u = STREAM_USAGE_VOICE_MODEM_COMMUNICATION then RemoveArmUsb descs else descs))"

definition PrivacyPriority_GetCallCaptureDevice :: "RouterView \<Rightarrow> AudioDeviceDescriptor" where
  "PrivacyPriority_GetCallCaptureDevice v = GetLatestConnectDeivce v (GetCommCapturePrivacyDevices (devices v))"

definition PrivacyPriority_GetRecordCaptureDevice :: "RouterView \<Rightarrow> SourceType \<Rightarrow> AudioDeviceDescriptor" where
  "PrivacyPriority_GetRecordCaptureDevice v src =
     (if src = SOURCE_TYPE_VOICE_RECOGNITION
      then GetLatestConnectDeivce v (GetRecongnitionCapturePrivacyDevices (devices v))
      else GetLatestConnectDeivce v (GetMediaCapturePrivacyDevices (devices v)))"

definition is_ring :: "StreamUsage \<Rightarrow> bool" where
  "is_ring u \<longleftrightarrow> u = STREAM_USAGE_VOICE_RINGTONE \<or> u = STREAM_USAGE_RINGTONE"

text \<open>A device that is heard by one person is accompanied by the default device.\<close>

definition with_default :: "RouterView \<Rightarrow> StreamUsage \<Rightarrow> AudioDeviceDescriptor \<Rightarrow> AudioDeviceDescriptor list" where
  "with_default v u d =
     (if u = STREAM_USAGE_ALARM then [d, GetRenderDefaultDevice (devices v)]
      else if is_ring u then
        if ringerMode v = RINGER_MODE_NORMAL then [d, GetRenderDefaultDevice (devices v)] else [d]
      else [d])"

definition PrivacyPriority_GetRingRenderDevices :: "RouterView \<Rightarrow> StreamUsage \<Rightarrow> AudioDeviceDescriptor list" where
  "PrivacyPriority_GetRingRenderDevices v u =
     (let curDescs = (if is_ring u then GetCommRenderPrivacyDevices (devices v) else GetMediaRenderPrivacyDevices (devices v));
          latest = GetLatestConnectDeivce v curDescs
      in if deviceType latest = DEVICE_TYPE_NONE then [AudioDeviceDescriptor_ctor]
         else if deviceType latest \<in> {DEVICE_TYPE_WIRED_HEADSET, DEVICE_TYPE_WIRED_HEADPHONES,
                                       DEVICE_TYPE_BLUETOOTH_SCO, DEVICE_TYPE_USB_HEADSET}
         then with_default v u latest
         else [latest])"

definition PublicPriority_GetMediaRenderDevice :: "RouterView \<Rightarrow> StreamUsage \<Rightarrow> AudioDeviceDescriptor" where
  "PublicPriority_GetMediaRenderDevice v u =
     (let descs = (if is_ring u
                   then let descs = GetCommRenderPublicDevices (devices v)
                        in if descs = [] then GetMediaRenderPublicDevices (devices v) else descs
                   else GetMediaRenderPublicDevices (devices v))
      in GetLatestConnectDeivce v descs)"

definition PublicPriority_GetRingRenderDevices :: "RouterView \<Rightarrow> StreamUsage \<Rightarrow> AudioDeviceDescriptor list" where
  "PublicPriority_GetRingRenderDevices v u =
     (let curDescs = (if is_ring u then GetCommRenderPublicDevices (devices v) else GetMediaRenderPublicDevices (devices v));
          latest = GetLatestConnectDeivce v curDescs
      in if deviceType latest = DEVICE_TYPE_NONE then [AudioDeviceDescriptor_ctor]
         else if deviceType latest = DEVICE_TYPE_BLUETOOTH_SCO then with_default v u latest
         else [latest])"

definition PublicPriority_GetRecordCaptureDevice :: "RouterView \<Rightarrow> AudioDeviceDescriptor" where
  "PublicPriority_GetRecordCaptureDevice v = GetLatestConnectDeivce v (GetMediaCapturePublicDevices (devices v))"

definition GetBTCarDevices :: "AudioDeviceDescriptor list \<Rightarrow> AudioDeviceDescriptor list" where
  "GetBTCarDevices descs =
     map AudioDeviceDescriptor_copy (filter (\<lambda>d. deviceCategory d = BT_CAR) descs)"

definition CockpitPhone_GetCallRenderDevice :: "RouterView \<Rightarrow> AudioDeviceDescriptor" where
  "CockpitPhone_GetCallRenderDevice v =
     GetLatestConnectDeivce v (GetBTCarDevices (GetCommRenderPublicDevices (devices v)))"

definition CockpitPhone_GetCallCaptureDevice :: "RouterView \<Rightarrow> AudioDeviceDescriptor" where
  "CockpitPhone_GetCallCaptureDevice v =
     GetLatestConnectDeivce v (GetBTCarDevices (GetCommCapturePublicDevices (devices v)))"

text \<open>The car devices are looked for in \<open>descs\<close>, the result, which is still empty, not in \<open>curDescs\<close>.\<close>

definition CockpitPhone_GetRingRenderDevices :: "RouterView \<Rightarrow> StreamUsage \<Rightarrow> AudioDeviceDescriptor list" where
  "CockpitPhone_GetRingRenderDevices v u =
     (let descs = []; curDescs = GetCommRenderPublicDevices (devices v);
          carDescs = GetBTCarDevices descs;
          latest = GetLatestConnectDeivce v carDescs
      in if deviceType latest = DEVICE_TYPE_NONE then descs
         else if deviceType latest \<in> {DEVICE_TYPE_WIRED_HEADSET, DEVICE_TYPE_WIRED_HEADPHONES,
                   DEVICE_TYPE_BLUETOOTH_SCO, DEVICE_TYPE_USB_HEADSET, DEVICE_TYPE_USB_ARM_HEADSET}
         then with_default v u latest
         else [latest])"

section \<open>Distributed, paired and default devices\<close>

definition IsIncomingDeviceInRemoteDevice :: "AudioDeviceDescriptor list \<Rightarrow> AudioDeviceDescriptor \<Rightarrow> bool" where
  "IsIncomingDeviceInRemoteDevice descs d =
     list_ex (\<lambda>e. deviceRole e = deviceRole d \<and> deviceType e = deviceType d \<and>
                  interruptGroupId e = interruptGroupId d \<and> volumeGroupId e = volumeGroupId d \<and>
                  networkId e = networkId d \<and> macAddress e = macAddress d) descs"

definition SelectRemoteCaptureDevice ::
    "AudioDeviceDescriptor list \<Rightarrow> AudioDeviceDescriptor \<Rightarrow> AudioDeviceDescriptor option" where
  "SelectRemoteCaptureDevice descs d =
     map_option AudioDeviceDescriptor_copy
       (find (\<lambda>e. networkId e = networkId d \<and> deviceRole e = INPUT_DEVICE \<and> deviceType e = DEVICE_TYPE_MIC) descs)"

definition remote_if :: "bool \<Rightarrow> AudioDeviceDescriptor \<Rightarrow> AudioDeviceDescriptor" where
  "remote_if b d = (if b then AudioDeviceDescriptor_copy d else AudioDeviceDescriptor_ctor)"

definition StreamFilter_GetMediaRenderDevice :: "RouterView \<Rightarrow> StreamUsage \<Rightarrow> AudioDeviceDescriptor" where
  "StreamFilter_GetMediaRenderDevice v u =
     (case distributedRouting v of
        (None, _) \<Rightarrow> AudioDeviceDescriptor_ctor
      | (Some d, type) \<Rightarrow>
          let present = IsIncomingDeviceInRemoteDevice (GetRemoteRenderDevices (devices v)) d
          in remote_if (case type of CAST_TYPE_ALL \<Rightarrow> present
                        | CAST_TYPE_PROJECTION \<Rightarrow> u = STREAM_USAGE_MUSIC \<and> present
                        | _ \<Rightarrow> False) d)"

definition StreamFilter_GetCallRenderDevice :: "RouterView \<Rightarrow> AudioDeviceDescriptor" where
  "StreamFilter_GetCallRenderDevice v =
     (case distributedRouting v of
        (None, _) \<Rightarrow> AudioDeviceDescriptor_ctor
      | (Some d, type) \<Rightarrow>
          remote_if (type = CAST_TYPE_ALL \<and> IsIncomingDeviceInRemoteDevice (GetRemoteRenderDevices (devices v)) d) d)"

definition StreamFilter_GetCallCaptureDevice :: "RouterView \<Rightarrow> AudioDeviceDescriptor" where
  "StreamFilter_GetCallCaptureDevice v =
     (case distributedRouting v of
        (None, _) \<Rightarrow> AudioDeviceDescriptor_ctor
      | (Some d, type) \<Rightarrow>
          remote_if (type = CAST_TYPE_ALL \<and> IsIncomingDeviceInRemoteDevice (GetRemoteCaptureDevices (devices v)) d) d)"

definition StreamFilter_GetRecordCaptureDevice :: "RouterView \<Rightarrow> SourceType \<Rightarrow> AudioDeviceDescriptor" where
  "StreamFilter_GetRecordCaptureDevice v src =
     (case distributedRouting v of
        (None, _) \<Rightarrow> AudioDeviceDescriptor_ctor
      | (Some d, type) \<Rightarrow>
          (case (if type = CAST_TYPE_ALL \<or> type = CAST_TYPE_PROJECTION \<and> src = SOURCE_TYPE_MIC
                 then SelectRemoteCaptureDevice (GetRemoteCaptureDevices (devices v)) d else None) of
             Some e \<Rightarrow> e | None \<Rightarrow> AudioDeviceDescriptor_ctor))"

definition PairDevice_GetCallCaptureDevice :: "RouterView \<Rightarrow> AudioDeviceDescriptor" where
  "PairDevice_GetCallCaptureDevice v =
     (case pairDevice (activeOutputDevice v) of
        None \<Rightarrow> AudioDeviceDescriptor_ctor
      | Some r \<Rightarrow>
          let p = heap (devices v) r
          in if connectState p \<noteq> SUSPEND_CONNECTED \<and> \<not> exceptionFlag p \<and> isEnable p
             then AudioDeviceDescriptor_copy p else AudioDeviceDescriptor_ctor)"

definition Default_GetMediaRenderDevice :: "RouterView \<Rightarrow> AudioDeviceDescriptor" where
  "Default_GetMediaRenderDevice v =
     (case GetSelectedMediaRenderDevice (devices v) of
        Some d \<Rightarrow> d | None \<Rightarrow> GetRenderDefaultDevice (devices v))"

definition Default_GetCallRenderDevice :: "RouterView \<Rightarrow> StreamUsage \<Rightarrow> AudioDeviceDescriptor" where
  "Default_GetCallRenderDevice v u =
     (case GetSelectedCallRenderDevice (devices v) of
        Some d \<Rightarrow> d | None \<Rightarrow> GetCommRenderDefaultDevice u (devices v))"

definition Default_GetRingRenderDevices :: "RouterView \<Rightarrow> AudioDeviceDescriptor list" where
  "Default_GetRingRenderDevices v =
     (if ringerMode v = RINGER_MODE_NORMAL then [GetRenderDefaultDevice (devices v)] else [AudioDeviceDescriptor_ctor])"

section \<open>The virtual functions\<close>

fun GetMediaRenderDevice :: "Router \<Rightarrow> RouterView \<Rightarrow> StreamUsage \<Rightarrow> int \<Rightarrow> AudioDeviceDescriptor" where
  "GetMediaRenderDevice AppSelectRouter v u uid = AppSelect_renderer v uid"
| "GetMediaRenderDevice UserSelectRouter v u uid = UserSelect_GetMediaRenderDevice v u"
| "GetMediaRenderDevice PrivacyPriorityRouter v u uid = PrivacyPriority_GetMediaRenderDevice v"
| "GetMediaRenderDevice PublicPriorityRouter v u uid = PublicPriority_GetMediaRenderDevice v u"
| "GetMediaRenderDevice StreamFilterRouter v u uid = StreamFilter_GetMediaRenderDevice v u"
| "GetMediaRenderDevice DefaultRouter v u uid = Default_GetMediaRenderDevice v"
| "GetMediaRenderDevice _ v u uid = AudioDeviceDescriptor_ctor"

fun GetCallRenderDevice :: "Router \<Rightarrow> RouterView \<Rightarrow> StreamUsage \<Rightarrow> int \<Rightarrow> AudioDeviceDescriptor" where
  "GetCallRenderDevice AppSelectRouter v u uid = AppSelect_renderer v uid"
| "GetCallRenderDevice UserSelectRouter v u uid = UserSelect_GetCallRenderDevice v"
| "GetCallRenderDevice PrivacyPriorityRouter v u uid = PrivacyPriority_GetCallRenderDevice v u"
| "GetCallRenderDevice StreamFilterRouter v u uid = StreamFilter_GetCallRenderDevice v"
| "GetCallRenderDevice DefaultRouter v u uid = Default_GetCallRenderDevice v u"
| "GetCallRenderDevice CockpitPhoneRouter v u uid = CockpitPhone_GetCallRenderDevice v"
| "GetCallRenderDevice _ v u uid = AudioDeviceDescriptor_ctor"

fun GetCallCaptureDevice :: "Router \<Rightarrow> RouterView \<Rightarrow> SourceType \<Rightarrow> int \<Rightarrow> AudioDeviceDescriptor" where
  "GetCallCaptureDevice AppSelectRouter v src uid = AppSelect_capturer v uid"
| "GetCallCaptureDevice UserSelectRouter v src uid = UserSelect_GetCallCaptureDevice v"
| "GetCallCaptureDevice PrivacyPriorityRouter v src uid = PrivacyPriority_GetCallCaptureDevice v"
| "GetCallCaptureDevice StreamFilterRouter v src uid = StreamFilter_GetCallCaptureDevice v"
| "GetCallCaptureDevice DefaultRouter v src uid = GetCaptureDefaultDevice (devices v)"
| "GetCallCaptureDevice CockpitPhoneRouter v src uid = CockpitPhone_GetCallCaptureDevice v"
| "GetCallCaptureDevice PairDeviceRouter v src uid = PairDevice_GetCallCaptureDevice v"
| "GetCallCaptureDevice _ v src uid = AudioDeviceDescriptor_ctor"

fun GetRingRenderDevices :: "Router \<Rightarrow> RouterView \<Rightarrow> StreamUsage \<Rightarrow> int \<Rightarrow> AudioDeviceDescriptor list" where
  "GetRingRenderDevices PrivacyPriorityRouter v u uid = PrivacyPriority_GetRingRenderDevices v u"
| "GetRingRenderDevices PublicPriorityRouter v u uid = PublicPriority_GetRingRenderDevices v u"
| "GetRingRenderDevices DefaultRouter v u uid = Default_GetRingRenderDevices v"
| "GetRingRenderDevices CockpitPhoneRouter v u uid = CockpitPhone_GetRingRenderDevices v u"
| "GetRingRenderDevices _ v u uid = []"

fun GetRecordCaptureDevice :: "Router \<Rightarrow> RouterView \<Rightarrow> SourceType \<Rightarrow> int \<Rightarrow> AudioDeviceDescriptor" where
  "GetRecordCaptureDevice AppSelectRouter v src uid = AppSelect_capturer v uid"
| "GetRecordCaptureDevice UserSelectRouter v src uid = UserSelect_GetRecordCaptureDevice v"
| "GetRecordCaptureDevice PrivacyPriorityRouter v src uid = PrivacyPriority_GetRecordCaptureDevice v src"
| "GetRecordCaptureDevice PublicPriorityRouter v src uid = PublicPriority_GetRecordCaptureDevice v"
| "GetRecordCaptureDevice StreamFilterRouter v src uid = StreamFilter_GetRecordCaptureDevice v src"
| "GetRecordCaptureDevice DefaultRouter v src uid = GetCaptureDefaultDevice (devices v)"
| "GetRecordCaptureDevice _ v src uid = AudioDeviceDescriptor_ctor"

fun GetToneRenderDevice :: "Router \<Rightarrow> RouterView \<Rightarrow> StreamUsage \<Rightarrow> int \<Rightarrow> AudioDeviceDescriptor" where
  "GetToneRenderDevice AppSelectRouter v u uid = AppSelect_renderer v uid"
| "GetToneRenderDevice DefaultRouter v u uid = GetRenderDefaultDevice (devices v)"
| "GetToneRenderDevice _ v u uid = AudioDeviceDescriptor_ctor"

end
