(* ===== verification/RouterCenter.thy ===== *)
theory RouterCenter
  imports Routers
begin

text \<open>
  \<open>AudioRouterCenter\<close> (\<open>audio_router_center.cpp\<close>), which asks the routers of a purpose one after
  the other, and the two parsers that configure it: \<open>AudioStrategyRouterParser\<close> (which routers,
  in which order) and \<open>AudioUsageStrategyParser\<close> (which purpose a usage has). The parsers start
  from the attributes of the elements, which the XML library reads.

  \<open>operator[]\<close> on a configuration map adds an empty entry for a missing key; an empty entry and a
  missing one are never told apart. The refiner callback is a remote object, hence a function.
\<close>

section \<open>Configuration\<close>

fun split_at :: "char \<Rightarrow> string \<Rightarrow> string \<Rightarrow> string list" where
  "split_at c acc [] = [rev acc]"
| "split_at c acc (x # xs) = (if x = c then rev acc # split_at c [] xs else split_at c (x # acc) xs)"

definition split_config :: "string \<Rightarrow> string list" where
  "split_config line = split_at (CHR '','') [] line"

definition AddRouters :: "string \<Rightarrow> Router list" where
  "AddRouters routeName = concat (map (\<lambda>name.
     if name = ''AppSelectRouter'' then [AppSelectRouter]
     else if name = ''UserSelectRouter'' then [UserSelectRouter]
     else if name = ''PrivacyPriorityRouter'' then [PrivacyPriorityRouter]
     else if name = ''PublicPriorityRouter'' then [PublicPriorityRouter]
     else if name = ''StreamFilterRouter'' then [StreamFilterRouter]
     else if name = ''DefaultRouter'' then [DefaultRouter]
     else if name = ''CockpitPhoneRouter'' then [CockpitPhoneRouter]
     else if name = ''PairDeviceRouter'' then [PairDeviceRouter]
     else []) (split_config routeName))"

type_synonym refiner =
  "AudioDeviceDescriptor list \<Rightarrow> RouterType \<Rightarrow> StreamUsage + SourceType \<Rightarrow> int \<Rightarrow> AudioDeviceDescriptor list"

record AudioRouterCenter =
  mediaRenderRouters :: "Router list"
  callRenderRouters :: "Router list"
  callCaptureRouters :: "Router list"
  ringRenderRouters :: "Router list"
  toneRenderRouters :: "Router list"
  recordCaptureRouters :: "Router list"
  voiceMessageRouters :: "Router list"
  renderConfigMap :: "StreamUsage \<rightharpoonup> string"
  capturerConfigMap :: "SourceType \<rightharpoonup> string"
  audioDeviceRefinerCb :: "refiner option"

definition AudioRouterCenter_empty :: AudioRouterCenter where
  "AudioRouterCenter_empty =
     \<lparr>mediaRenderRouters = [], callRenderRouters = [], callCaptureRouters = [], ringRenderRouters = [],
      toneRenderRouters = [], recordCaptureRouters = [], voiceMessageRouters = [],
      renderConfigMap = Map.empty, capturerConfigMap = Map.empty, audioDeviceRefinerCb = None\<rparr>"

definition ParserStrategyInfo :: "string \<times> string \<Rightarrow> AudioRouterCenter \<Rightarrow> AudioRouterCenter" where
  "ParserStrategyInfo strategy c =
     (case strategy of (name, routers) \<Rightarrow>
        let rs = AddRouters routers
        in if name = ''MEDIA_RENDER'' then c\<lparr>mediaRenderRouters := mediaRenderRouters c @ rs\<rparr>
           else if name = ''CALL_RENDER'' then c\<lparr>callRenderRouters := callRenderRouters c @ rs\<rparr>
           else if name = ''RING_RENDER'' then c\<lparr>ringRenderRouters := ringRenderRouters c @ rs\<rparr>
           else if name = ''TONE_RENDER'' then c\<lparr>toneRenderRouters := toneRenderRouters c @ rs\<rparr>
           else if name = ''RECORD_CAPTURE'' then c\<lparr>recordCaptureRouters := recordCaptureRouters c @ rs\<rparr>
           else if name = ''CALL_CAPTURE'' then c\<lparr>callCaptureRouters := callCaptureRouters c @ rs\<rparr>
           else if name = ''VOICE_MESSAGE'' then c\<lparr>voiceMessageRouters := voiceMessageRouters c @ rs\<rparr>
           else c)"

definition streamUsageMap :: "(string \<times> StreamUsage) list" where
  "streamUsageMap =
     [(''STREAM_USAGE_UNKNOWN'', STREAM_USAGE_UNKNOWN), (''STREAM_USAGE_MEDIA'', STREAM_USAGE_MEDIA),
      (''STREAM_USAGE_MUSIC'', STREAM_USAGE_MUSIC), (''STREAM_USAGE_VOICE_COMMUNICATION'', STREAM_USAGE_VOICE_COMMUNICATION),
      (''STREAM_USAGE_VOICE_ASSISTANT'', STREAM_USAGE_VOICE_ASSISTANT),
      (''STREAM_USAGE_VOICE_CALL_ASSISTANT'', STREAM_USAGE_VOICE_CALL_ASSISTANT),
      (''STREAM_USAGE_ALARM'', STREAM_USAGE_ALARM), (''STREAM_USAGE_VOICE_MESSAGE'', STREAM_USAGE_VOICE_MESSAGE),
      (''STREAM_USAGE_NOTIFICATION_RINGTONE'', STREAM_USAGE_NOTIFICATION_RINGTONE),
      (''STREAM_USAGE_RINGTONE'', STREAM_USAGE_RINGTONE), (''STREAM_USAGE_NOTIFICATION'', STREAM_USAGE_NOTIFICATION),
      (''STREAM_USAGE_ACCESSIBILITY'', STREAM_USAGE_ACCESSIBILITY), (''STREAM_USAGE_SYSTEM'', STREAM_USAGE_SYSTEM),
      (''STREAM_USAGE_MOVIE'', STREAM_USAGE_MOVIE), (''STREAM_USAGE_GAME'', STREAM_USAGE_GAME),
      (''STREAM_USAGE_AUDIOBOOK'', STREAM_USAGE_AUDIOBOOK), (''STREAM_USAGE_NAVIGATION'', STREAM_USAGE_NAVIGATION),
      (''STREAM_USAGE_DTMF'', STREAM_USAGE_DTMF), (''STREAM_USAGE_ENFORCED_TONE'', STREAM_USAGE_ENFORCED_TONE),
      (''STREAM_USAGE_ULTRASONIC'', STREAM_USAGE_ULTRASONIC),
      (''STREAM_USAGE_VIDEO_COMMUNICATION'', STREAM_USAGE_VIDEO_COMMUNICATION),
      (''STREAM_USAGE_RANGING'', STREAM_USAGE_RANGING),
      (''STREAM_USAGE_VOICE_MODEM_COMMUNICATION'', STREAM_USAGE_VOICE_MODEM_COMMUNICATION),
      (''STREAM_USAGE_VOICE_RINGTONE'', STREAM_USAGE_VOICE_RINGTONE)]"

definition sourceTypeMap :: "(string \<times> SourceType) list" where
  "sourceTypeMap =
     [(''SOURCE_TYPE_MIC'', SOURCE_TYPE_MIC), (''SOURCE_TYPE_VOICE_RECOGNITION'', SOURCE_TYPE_VOICE_RECOGNITION),
      (''SOURCE_TYPE_PLAYBACK_CAPTURE'', SOURCE_TYPE_PLAYBACK_CAPTURE), (''SOURCE_TYPE_WAKEUP'', SOURCE_TYPE_WAKEUP),
      (''SOURCE_TYPE_VOICE_COMMUNICATION'', SOURCE_TYPE_VOICE_COMMUNICATION),
      (''SOURCE_TYPE_VOICE_CALL'', SOURCE_TYPE_VOICE_CALL), (''SOURCE_TYPE_ULTRASONIC'', SOURCE_TYPE_ULTRASONIC),
      (''SOURCE_TYPE_VIRTUAL_CAPTURE'', SOURCE_TYPE_VIRTUAL_CAPTURE),
      (''SOURCE_TYPE_VOICE_MESSAGE'', SOURCE_TYPE_VOICE_MESSAGE),
      (''SOURCE_TYPE_VOICE_TRANSCRIPTION'', SOURCE_TYPE_VOICE_TRANSCRIPTION)]"

text \<open>
  A name that is not in the table leaves the local variable as it is: at the value of the name
  before it, or, at the first name, uninitialised, which is the first argument.
\<close>

fun ParserStreamUsage ::
    "StreamUsage \<Rightarrow> string list \<Rightarrow> string \<Rightarrow> (StreamUsage \<rightharpoonup> string) \<Rightarrow> (StreamUsage \<rightharpoonup> string)" where
  "ParserStreamUsage usage [] routerName m = m"
| "ParserStreamUsage usage (name # buf) routerName m =
     (let usage = (case map_of streamUsageMap name of Some u \<Rightarrow> u | None \<Rightarrow> usage)
      in ParserStreamUsage usage buf routerName (m(usage \<mapsto> routerName)))"

definition ParserStreamUsageInfo ::
    "StreamUsage \<Rightarrow> string \<times> string \<Rightarrow> (StreamUsage \<rightharpoonup> string) \<Rightarrow> (StreamUsage \<rightharpoonup> string)" where
  "ParserStreamUsageInfo uninit strategy m =
     (case strategy of (strategyName, streamUsages) \<Rightarrow>
        let buf = split_config streamUsages
        in if strategyName = ''MEDIA_RENDER'' then ParserStreamUsage uninit buf ''MediaRenderRouters'' m
           else if strategyName = ''CALL_RENDER'' then ParserStreamUsage uninit buf ''CallRenderRouters'' m
           else if strategyName = ''RING_RENDER'' then ParserStreamUsage uninit buf ''RingRenderRouters'' m
           else if strategyName = ''TONE_RENDER'' then ParserStreamUsage uninit buf ''ToneRenderRouters'' m
           else m)"

fun ParserSourceTypes ::
    "SourceType \<Rightarrow> string list \<Rightarrow> string \<Rightarrow> (SourceType \<rightharpoonup> string) \<Rightarrow> (SourceType \<rightharpoonup> string)" where
  "ParserSourceTypes src [] routerName m = m"
| "ParserSourceTypes src (name # buf) routerName m =
     (let src = (case map_of sourceTypeMap name of Some t \<Rightarrow> t | None \<Rightarrow> src)
      in ParserSourceTypes src buf routerName (m(src \<mapsto> routerName)))"

definition ParserSourceTypeInfo ::
    "SourceType \<Rightarrow> string \<times> string \<Rightarrow> (SourceType \<rightharpoonup> string) \<Rightarrow> (SourceType \<rightharpoonup> string)" where
  "ParserSourceTypeInfo uninit strategy m =
     (case strategy of (strategyName, sourceTypes) \<Rightarrow>
        let buf = split_config sourceTypes
        in if strategyName = ''RECORD_CAPTURE'' then ParserSourceTypes uninit buf ''RecordCaptureRouters'' m
           else if strategyName = ''CALL_CAPTURE'' then ParserSourceTypes uninit buf ''CallCaptureRouters'' m
           else if strategyName = ''VOICE_MESSAGE'' then ParserSourceTypes uninit buf ''VoiceMessages'' m
           else m)"

text \<open>The constructor; the strategies, usages and sources are the elements the parsers visit, in order.\<close>

definition AudioRouterCenter_ctor ::
    "StreamUsage \<Rightarrow> SourceType \<Rightarrow> (string \<times> string) list \<Rightarrow> (string \<times> string) list \<Rightarrow> (string \<times> string) list \<Rightarrow> AudioRouterCenter" where
  "AudioRouterCenter_ctor uninit_usage uninit_source strategies usages sources =
     (fold ParserStrategyInfo strategies AudioRouterCenter_empty)
       \<lparr>renderConfigMap := fold (ParserStreamUsageInfo uninit_usage) usages Map.empty,
        capturerConfigMap := fold (ParserSourceTypeInfo uninit_source) sources Map.empty\<rparr>"

section \<open>Fetching a device\<close>

text \<open>The first router with an opinion; the type of the router is kept if there is none.\<close>

definition first_device ::
    "(Router \<Rightarrow> AudioDeviceDescriptor) \<Rightarrow> Router list \<Rightarrow> RouterType \<Rightarrow> AudioDeviceDescriptor \<times> RouterType" where
  "first_device ask routers rt =
     (case find (\<lambda>r. deviceType (ask r) \<noteq> DEVICE_TYPE_NONE) routers of
        Some r \<Rightarrow> (ask r, GetRouterType r)
      | None \<Rightarrow> (AudioDeviceDescriptor_ctor, rt))"

definition FetchMediaRenderDevice ::
    "AudioRouterCenter \<Rightarrow> RouterView \<Rightarrow> StreamUsage \<Rightarrow> int \<Rightarrow> RouterType \<Rightarrow> AudioDeviceDescriptor \<times> RouterType" where
  "FetchMediaRenderDevice c v u uid rt = first_device (\<lambda>r. GetMediaRenderDevice r v u uid) (mediaRenderRouters c) rt"

definition FetchCallRenderDevice ::
    "AudioRouterCenter \<Rightarrow> RouterView \<Rightarrow> StreamUsage \<Rightarrow> int \<Rightarrow> RouterType \<Rightarrow> AudioDeviceDescriptor \<times> RouterType" where
  "FetchCallRenderDevice c v u uid rt = first_device (\<lambda>r. GetCallRenderDevice r v u uid) (callRenderRouters c) rt"

definition FetchRingRenderDevices ::
    "AudioRouterCenter \<Rightarrow> RouterView \<Rightarrow> StreamUsage \<Rightarrow> int \<Rightarrow> RouterType \<Rightarrow> AudioDeviceDescriptor list \<times> RouterType" where
  "FetchRingRenderDevices c v u uid rt =
     (case find (\<lambda>r. let ds = GetRingRenderDevices r v u uid in ds \<noteq> [] \<and> deviceType (hd ds) \<noteq> DEVICE_TYPE_NONE)
             (ringRenderRouters c) of
        Some r \<Rightarrow> (GetRingRenderDevices r v u uid, GetRouterType r)
      | None \<Rightarrow> (if ringerMode v = RINGER_MODE_NORMAL then [GetRenderDefaultDevice (devices v)]
                 else [AudioDeviceDescriptor_ctor], rt))"

definition HasScoDevice :: "RouterView \<Rightarrow> bool" where
  "HasScoDevice v \<longleftrightarrow>
     list_ex (\<lambda>d. deviceType d = DEVICE_TYPE_BLUETOOTH_SCO) (GetCommRenderPrivacyDevices (devices v)) \<or>
     list_ex (\<lambda>d. deviceType d = DEVICE_TYPE_BLUETOOTH_SCO \<and> deviceCategory d = BT_CAR)
       (GetCommRenderPublicDevices (devices v))"

text \<open>During a call the package filter router, if there is one, and then the call routers decide.\<close>

definition follow_call ::
    "AudioRouterCenter \<Rightarrow> RouterView \<Rightarrow> StreamUsage \<Rightarrow> int \<Rightarrow> AudioDeviceDescriptor \<times> RouterType" where
  "follow_call c v u uid =
     (let (desc, rt) =
        (case find (\<lambda>r. base_name r = ''package_filter_router'') (mediaRenderRouters c) of
           Some r \<Rightarrow> (GetMediaRenderDevice r v u uid, GetRouterType r)
         | None \<Rightarrow> (AudioDeviceDescriptor_ctor, ROUTER_TYPE_NONE))
      in if deviceType desc = DEVICE_TYPE_NONE
         then FetchCallRenderDevice c v (GetLastestRunningCallStreamUsage (rendererInfos v)) uid rt
         else (desc, rt))"

definition DealRingRenderRouters ::
    "AudioRouterCenter \<Rightarrow> RouterView \<Rightarrow> StreamUsage \<Rightarrow> int \<Rightarrow> AudioDeviceDescriptor list \<times> RouterType" where
  "DealRingRenderRouters c v u uid =
     (if audioScene v = AUDIO_SCENE_PHONE_CALL \<or> audioScene v = AUDIO_SCENE_PHONE_CHAT \<or>
         lastAudioScene v = AUDIO_SCENE_PHONE_CHAT \<and> audioScene v = AUDIO_SCENE_VOICE_RINGING
      then map_prod (\<lambda>d. [d]) id (follow_call c v u uid)
      else FetchRingRenderDevices c v u uid ROUTER_TYPE_NONE)"

definition config_is :: "('a \<rightharpoonup> string) \<Rightarrow> 'a \<Rightarrow> string \<Rightarrow> bool" where
  "config_is m k s \<longleftrightarrow> m k = Some s"

definition media_follows_call :: "RouterView \<Rightarrow> bool" where
  "media_follows_call v \<longleftrightarrow>
     audioScene v = AUDIO_SCENE_PHONE_CALL \<or> audioScene v = AUDIO_SCENE_PHONE_CHAT \<or>
     (audioScene v = AUDIO_SCENE_RINGING \<or> audioScene v = AUDIO_SCENE_VOICE_RINGING) \<and> HasScoDevice v"

text \<open>The first device is read for a log line, whatever the callback made of the list.\<close>

definition refine_output ::
    "AudioRouterCenter \<Rightarrow> StreamUsage + SourceType \<Rightarrow> int \<Rightarrow> AudioDeviceDescriptor list \<times> RouterType \<Rightarrow>
     AudioDeviceDescriptor list exec" where
  "refine_output c what uid = (\<lambda>(descs, rt).
     let descs = (case audioDeviceRefinerCb c of None \<Rightarrow> descs | Some f \<Rightarrow> f descs rt what uid)
     in if descs = [] then Inl UncheckedAccess else Inr descs)"

definition FetchOutputDevices ::
    "AudioRouterCenter \<Rightarrow> RouterView \<Rightarrow> StreamUsage \<Rightarrow> int \<Rightarrow> AudioDeviceDescriptor list exec" where
  "FetchOutputDevices c v u uid =
     (let configured = config_is (renderConfigMap c) u
      in if configured ''MediaRenderRouters'' \<or> configured ''ToneRenderRouters'' then
           refine_output c (Inl u) uid (map_prod (\<lambda>d. [d]) id
             (if media_follows_call v then follow_call c v u uid
              else FetchMediaRenderDevice c v u uid ROUTER_TYPE_NONE))
         else if configured ''RingRenderRouters'' then refine_output c (Inl u) uid (DealRingRenderRouters c v u uid)
         else if configured ''CallRenderRouters'' then
           refine_output c (Inl u) uid (map_prod (\<lambda>d. [d]) id (FetchCallRenderDevice c v u uid ROUTER_TYPE_NONE))
         else Inr [AudioDeviceDescriptor_ctor])"

text \<open>The loops over capture routers leave the last answer in \<open>desc\<close> when none has an opinion.\<close>

fun ask_until ::
    "(Router \<Rightarrow> AudioDeviceDescriptor) \<Rightarrow> AudioDeviceDescriptor \<Rightarrow> Router list \<Rightarrow> AudioDeviceDescriptor \<times> RouterType" where
  "ask_until ask desc [] = (desc, ROUTER_TYPE_NONE)"
| "ask_until ask desc (r # rs) =
     (let desc = ask r in if deviceType desc \<noteq> DEVICE_TYPE_NONE then (desc, GetRouterType r) else ask_until ask desc rs)"

definition FetchInputDevice ::
    "AudioRouterCenter \<Rightarrow> RouterView \<Rightarrow> SourceType \<Rightarrow> int \<Rightarrow> AudioDeviceDescriptor exec" where
  "FetchInputDevice c v src uid =
     (let configured = config_is (capturerConfigMap c) src;
          fetch = (\<lambda>ask routers.
            let (desc, rt) = ask_until ask AudioDeviceDescriptor_ctor routers
            in exec_bind (refine_output c (Inr src) uid ([AudioDeviceDescriptor_copy desc], rt)) (\<lambda>descs. Inr (hd descs)))
      in if configured ''RecordCaptureRouters'' then fetch (\<lambda>r. GetRecordCaptureDevice r v src uid) (recordCaptureRouters c)
         else if configured ''CallCaptureRouters'' then fetch (\<lambda>r. GetCallCaptureDevice r v src uid) (callCaptureRouters c)
         else if configured ''VoiceMessages'' then fetch (\<lambda>r. GetRecordCaptureDevice r v src uid) (voiceMessageRouters c)
         else Inr AudioDeviceDescriptor_ctor)"

definition isCallRenderRouter :: "AudioRouterCenter \<Rightarrow> StreamUsage \<Rightarrow> bool" where
  "isCallRenderRouter c u = config_is (renderConfigMap c) u ''CallRenderRouters''"

definition SetAudioDeviceRefinerCallback ::
    "refiner option \<Rightarrow> AudioRouterCenter \<Rightarrow> err \<times> AudioRouterCenter" where
  "SetAudioDeviceRefinerCallback listener c =
     (case listener of Some f \<Rightarrow> (SUCCESS, c\<lparr>audioDeviceRefinerCb := Some f\<rparr>) | None \<Rightarrow> (ERROR, c))"

definition UnsetAudioDeviceRefinerCallback :: "AudioRouterCenter \<Rightarrow> err \<times> AudioRouterCenter" where
  "UnsetAudioDeviceRefinerCallback c = (SUCCESS, c\<lparr>audioDeviceRefinerCb := None\<rparr>)"

end
