(* ===== verification/DeviceInv.thy ===== *)
theory DeviceInv
  imports DeviceQueries
begin

text \<open>
  An invariant of \<open>AudioDeviceManager\<close> over every sequence of its operations: what a list of
  devices may hold, that no device is connected twice, what the defaults point to and which
  default output the streams have chosen.
\<close>

section \<open>Identity of a device\<close>

text \<open>No operation changes what identifies a device that is in the store.\<close>

definition ident :: "AudioDeviceDescriptor \<Rightarrow> DeviceType \<times> DeviceRole \<times> string \<times> string" where
  "ident d = (deviceType d, deviceRole d, networkId d, if is_bluetooth (deviceType d) then macAddress d else [])"

lemma identD:
  assumes "ident d = ident e"
  shows "deviceType d = deviceType e" and "deviceRole d = deviceRole e" and "networkId d = networkId e"
  using assms by (simp_all add: ident_def)

lemma ident_copy [simp]: "ident (AudioDeviceDescriptor_copy d) = ident d"
  by (simp add: ident_def)

fun fits :: "DeviceArray \<Rightarrow> AudioDeviceDescriptor \<Rightarrow> bool" where
  "fits remoteRenderDevices d \<longleftrightarrow> deviceRole d = OUTPUT_DEVICE \<and>
     (networkId d \<noteq> LOCAL_NETWORK_ID \<or> deviceType d = DEVICE_TYPE_REMOTE_CAST)"
| "fits remoteCaptureDevices d \<longleftrightarrow> deviceRole d = INPUT_DEVICE \<and> networkId d \<noteq> LOCAL_NETWORK_ID"
| "fits a d \<longleftrightarrow> networkId d = LOCAL_NETWORK_ID \<and>
     deviceRole d = (if a \<in> {commRenderPrivacyDevices, commRenderPublicDevices,
                              mediaRenderPrivacyDevices, mediaRenderPublicDevices}
                     then OUTPUT_DEVICE else INPUT_DEVICE)"

lemma fits_ident: "ident d = ident e \<Longrightarrow> fits a d \<longleftrightarrow> fits a e"
  by (cases a) (auto dest: identD)

definition choices :: "AudioDeviceManager \<Rightarrow> _" where
  "choices s = (selectedDefaultOutputDeviceInfo s, mediaDefaultOutputDevices s, callDefaultOutputDevices s,
     selectedMediaDefaultOutputDevice s, selectedCallDefaultOutputDevice s)"

section \<open>Frames\<close>

text \<open>What the operations on one device leave alone.\<close>

definition frame :: "AudioDeviceManager \<Rightarrow> AudioDeviceManager \<Rightarrow> bool" where
  "frame s s' \<longleftrightarrow> nextRef s' = nextRef s \<and> (\<forall>r. ident (heap s' r) = ident (heap s r)) \<and> choices s' = choices s"

definition heap_only :: "AudioDeviceManager \<Rightarrow> AudioDeviceManager \<Rightarrow> bool" where
  "heap_only s s' \<longleftrightarrow> frame s s' \<and> connectedDevices s' = connectedDevices s \<and> descArrays s' = descArrays s \<and>
     earpiece s' = earpiece s \<and> speaker s' = speaker s \<and> defalutMic s' = defalutMic s"

lemma heap_only_refl [simp]: "heap_only s s"
  by (simp add: heap_only_def frame_def)

lemma heap_only_trans [trans]: "heap_only s t \<Longrightarrow> heap_only t u \<Longrightarrow> heap_only s u"
  by (simp add: heap_only_def frame_def)

lemma heap_only_modify: "ident (f (heap s r)) = ident (heap s r) \<Longrightarrow> heap_only s (modify r f s)"
  by (simp add: heap_only_def frame_def modify_def choices_def)

lemma heap_only_set_pair [simp]: "heap_only s (set_pair r p s)"
  unfolding set_pair_def by (rule heap_only_modify) (simp add: ident_def)

lemma heap_only_pair_step: "heap_only s t \<Longrightarrow> heap_only s (set_pair r p t)"
  using heap_only_trans heap_only_set_pair by blast

lemma heap_only_default: "heap_only s (MakePairedDefaultDeviceImpl r c s)"
  by (auto simp: MakePairedDefaultDeviceImpl_def Let_def intro!: heap_only_pair_step split: option.splits bool.splits)

lemma heap_only_paired: "heap_only s (MakePairedDeviceDescriptor r s)"
proof -
  have d: "heap_only t (MakePairedDefaultDeviceDescriptor r q t)" for q t
    by (simp add: MakePairedDefaultDeviceDescriptor_def Let_def heap_only_default split: option.split)
  have "heap_only s (MakePairedDeviceDescriptor_role r q s)" for q
    unfolding MakePairedDeviceDescriptor_role_def Let_def
    by (rule heap_only_trans [OF _ d]) (simp add: heap_only_pair_step split: option.split)
  then show ?thesis by (simp add: MakePairedDeviceDescriptor_def)
qed

lemma heap_only_info: "heap_only s (UpdateDeviceInfo now r s)"
  unfolding UpdateDeviceInfo_def
  by (rule heap_only_trans [OF _ heap_only_paired]) (simp add: heap_only_modify ident_def)

section \<open>Lists that grow\<close>

definition grows :: "ref \<Rightarrow> AudioDeviceManager \<Rightarrow> AudioDeviceManager \<Rightarrow> bool" where
  "grows r s s' \<longleftrightarrow> frame s s' \<and> heap s' = heap s \<and> connectedDevices s' = connectedDevices s \<and>
     earpiece s' = earpiece s \<and> speaker s' = speaker s \<and> defalutMic s' = defalutMic s \<and>
     (\<forall>a. set (descArrays s' a) \<subseteq> set (descArrays s a) \<union> (if fits a (heap s r) then {r} else {}))"

lemma grows_refl [simp]: "grows r s s"
  by (simp add: grows_def frame_def)

lemma grows_trans [trans]: "grows r s t \<Longrightarrow> grows r t u \<Longrightarrow> grows r s u"
  unfolding grows_def frame_def by (fastforce split: if_splits)

lemma grows_push: "fits a (heap s r) \<Longrightarrow> grows r s (push_desc a r s)"
  by (auto simp: grows_def frame_def push_desc_def choices_def)

lemma grows_fill:
  assumes "networkId (heap s r) = LOCAL_NETWORK_ID" "a \<noteq> remoteRenderDevices" "a \<noteq> remoteCaptureDevices"
    and "devRole = (if a \<in> {commRenderPrivacyDevices, commRenderPublicDevices,
                             mediaRenderPrivacyDevices, mediaRenderPublicDevices} then OUTPUT_DEVICE else INPUT_DEVICE)"
  shows "grows r s (FillArrayWhenDeviceAttrMatch r p devRole u a s)"
proof (cases "DeviceAttrMatch s r p devRole u")
  case True
  then have "deviceRole (heap s r) = devRole"
    by (auto simp: DeviceAttrMatch_def Let_def list_ex_iff split: AudioDevicePrivacyType.splits if_splits)
  then have "fits a (heap s r)" using assms by (cases a) auto
  then show ?thesis using True by (simp add: FillArrayWhenDeviceAttrMatch_def grows_push)
qed (simp add: FillArrayWhenDeviceAttrMatch_def)

lemma grows_fill_step:
  assumes "grows r s t" and "networkId (heap s r) = LOCAL_NETWORK_ID" "a \<noteq> remoteRenderDevices" "a \<noteq> remoteCaptureDevices"
    and "devRole = (if a \<in> {commRenderPrivacyDevices, commRenderPublicDevices,
                             mediaRenderPrivacyDevices, mediaRenderPublicDevices} then OUTPUT_DEVICE else INPUT_DEVICE)"
  shows "grows r s (FillArrayWhenDeviceAttrMatch r p devRole u a t)"
proof -
  have "networkId (heap t r) = LOCAL_NETWORK_ID" using assms(1,2) by (simp add: grows_def)
  from grows_fill [OF this assms(3-5)] show ?thesis by (rule grows_trans [OF assms(1)])
qed

lemma grows_lists:
  assumes "networkId (heap s r) = LOCAL_NETWORK_ID"
  shows "grows r s (AddCommunicationDevices r s)" and "grows r s (AddMediaDevices r s)"
    and "grows r s (AddCaptureDevices r s)" and "grows r s (HandleScoWithDefaultCategory r s)"
proof -
  show "grows r s (AddCommunicationDevices r s)" "grows r s (AddMediaDevices r s)" "grows r s (AddCaptureDevices r s)"
    unfolding AddCommunicationDevices_def AddMediaDevices_def AddCaptureDevices_def
    by (simp_all add: grows_fill_step assms)
  show "grows r s (HandleScoWithDefaultCategory r s)"
    using assms by (auto simp: HandleScoWithDefaultCategory_def Let_def intro!: grows_push)
qed

lemma grows_local:
  assumes "networkId (heap s r) = LOCAL_NETWORK_ID"
  shows "grows r s (AddCaptureDevices r (AddMediaDevices r (AddCommunicationDevices r (HandleScoWithDefaultCategory r s))))"
proof -
  note step = grows_trans [OF _ grows_lists(1)] grows_trans [OF _ grows_lists(2)] grows_trans [OF _ grows_lists(3)]
  have net: "networkId (heap t r) = LOCAL_NETWORK_ID" if "grows r s t" for t using that assms by (simp add: grows_def)
  show ?thesis using grows_lists(4) [OF assms] by (intro step net) (simp_all add: grows_lists net)
qed

lemma grows_remote: "grows r s (AddRemoteCaptureDev r (AddRemoteRenderDev r s))"
proof -
  have "grows r s (AddRemoteRenderDev r s)" by (auto simp: AddRemoteRenderDev_def intro!: grows_push)
  moreover have "grows r t (AddRemoteCaptureDev r t)" for t by (auto simp: AddRemoteCaptureDev_def intro!: grows_push)
  ultimately show ?thesis by (rule grows_trans)
qed

lemma grows_bt: "grows r s (AddBtToOtherList r s)"
  by (simp add: AddBtToOtherList_def grows_remote grows_local)

section \<open>The invariant\<close>

definition default_ok :: "AudioDeviceManager \<Rightarrow> ref option \<Rightarrow> DeviceType \<Rightarrow> bool" where
  "default_ok s p t \<longleftrightarrow> (\<forall>r. p = Some r \<longrightarrow> r < nextRef s \<and> deviceType (heap s r) = t)"

definition choice_ok :: "(u32 \<times> DeviceType) list \<Rightarrow> DeviceType \<Rightarrow> bool" where
  "choice_ok xs t \<longleftrightarrow> distinct (map fst xs) \<and> t = last_choice xs"

definition dm_inv :: "AudioDeviceManager \<Rightarrow> bool" where
  "dm_inv s \<longleftrightarrow>
     (\<forall>r\<in>set (connectedDevices s). r < nextRef s) \<and>
     distinct (map (\<lambda>r. ident (heap s r)) (connectedDevices s)) \<and>
     (\<forall>a. \<forall>r\<in>set (descArrays s a). r < nextRef s \<and> fits a (heap s r)) \<and>
     default_ok s (earpiece s) DEVICE_TYPE_EARPIECE \<and> default_ok s (speaker s) DEVICE_TYPE_SPEAKER \<and>
     default_ok s (defalutMic s) DEVICE_TYPE_MIC \<and>
     choice_ok (mediaDefaultOutputDevices s) (selectedMediaDefaultOutputDevice s) \<and>
     choice_ok (callDefaultOutputDevices s) (selectedCallDefaultOutputDevice s)"

lemma dm_inv_ctor: "dm_inv AudioDeviceManager_ctor"
  by (simp add: dm_inv_def AudioDeviceManager_ctor_def default_ok_def choice_ok_def last_choice_def)

lemma default_ok_frame: "frame s s' \<Longrightarrow> default_ok s p t \<Longrightarrow> default_ok s' p t"
  unfolding default_ok_def frame_def by (metis identD(1))

text \<open>The invariant by its parts, for states that agree with \<open>s\<close> on identities and choices.\<close>

lemma inv_frame:
  assumes "dm_inv s" and f: "frame s s'"
    and "\<And>r. r \<in> set (connectedDevices s') \<Longrightarrow> r < nextRef s"
    and "distinct (map (\<lambda>r. ident (heap s r)) (connectedDevices s'))"
    and "\<And>a r. r \<in> set (descArrays s' a) \<Longrightarrow> r < nextRef s \<and> fits a (heap s r)"
    and "default_ok s (earpiece s') DEVICE_TYPE_EARPIECE" "default_ok s (speaker s') DEVICE_TYPE_SPEAKER"
      "default_ok s (defalutMic s') DEVICE_TYPE_MIC"
  shows "dm_inv s'"
proof -
  have i: "ident (heap s' r) = ident (heap s r)" and n: "nextRef s' = nextRef s" for r
    using f by (simp_all add: frame_def)
  have "choices s' = choices s" using f by (simp add: frame_def)
  then have "choice_ok (mediaDefaultOutputDevices s') (selectedMediaDefaultOutputDevice s')"
    "choice_ok (callDefaultOutputDevices s') (selectedCallDefaultOutputDevice s')"
    using assms(1) unfolding choices_def dm_inv_def by (metis prod.inject)+
  moreover have "\<forall>a. \<forall>r\<in>set (descArrays s' a). r < nextRef s' \<and> fits a (heap s' r)"
    using assms(5) fits_ident [OF i] unfolding n by blast
  ultimately show ?thesis
    unfolding dm_inv_def i using assms(3,4) default_ok_frame [OF f] assms(6-8) unfolding n by blast
qed

lemma inv_parts:
  assumes "dm_inv s"
  shows "r \<in> set (connectedDevices s) \<Longrightarrow> r < nextRef s"
    and "distinct (map (\<lambda>r. ident (heap s r)) (connectedDevices s))"
    and "r \<in> set (descArrays s a) \<Longrightarrow> r < nextRef s \<and> fits a (heap s r)"
    and "default_ok s (earpiece s) DEVICE_TYPE_EARPIECE" "default_ok s (speaker s) DEVICE_TYPE_SPEAKER"
      "default_ok s (defalutMic s) DEVICE_TYPE_MIC"
  using assms by (simp_all add: dm_inv_def)

lemma inv_heap_only:
  assumes "dm_inv s" "heap_only s s'"
  shows "dm_inv s'"
proof -
  have f: "frame s s'" and eq: "connectedDevices s' = connectedDevices s" "descArrays s' = descArrays s"
    "earpiece s' = earpiece s" "speaker s' = speaker s" "defalutMic s' = defalutMic s"
    using assms(2) by (simp_all add: heap_only_def)
  show ?thesis by (rule inv_frame [OF assms(1) f]) (simp_all only: eq inv_parts [OF assms(1)])
qed

lemma inv_grows:
  assumes "dm_inv s" "grows r s s'" "r < nextRef s"
  shows "dm_inv s'"
proof -
  have f: "frame s s'" and eq: "connectedDevices s' = connectedDevices s"
    "earpiece s' = earpiece s" "speaker s' = speaker s" "defalutMic s' = defalutMic s"
    using assms(2) by (simp_all add: grows_def)
  have "x < nextRef s \<and> fits a (heap s x)" if "x \<in> set (descArrays s' a)" for a x
  proof -
    have "x \<in> set (descArrays s a) \<or> x = r \<and> fits a (heap s r)"
      using that assms(2) unfolding grows_def by (fastforce split: if_splits)
    then show ?thesis using inv_parts(3) [OF assms(1)] assms(3) by blast
  qed
  then show ?thesis by (intro inv_frame [OF assms(1) f]) (simp_all only: eq inv_parts [OF assms(1)])
qed

lemma inv_arrays:
  assumes "dm_inv s" "frame s s'" "connectedDevices s' = filter P (connectedDevices s)"
    and "\<And>a. set (descArrays s' a) \<subseteq> set (descArrays s a)"
    and "earpiece s' = earpiece s" "speaker s' = speaker s" "defalutMic s' = defalutMic s"
  shows "dm_inv s'"
proof (rule inv_frame [OF assms(1,2)])
  show "distinct (map (\<lambda>r. ident (heap s r)) (connectedDevices s'))"
    unfolding assms(3) using inv_parts(2) [OF assms(1)] by (rule distinct_map_filter)
  show "r \<in> set (connectedDevices s') \<Longrightarrow> r < nextRef s" for r
    unfolding assms(3) using inv_parts(1) [OF assms(1)] by simp
  show "r \<in> set (descArrays s' a) \<Longrightarrow> r < nextRef s \<and> fits a (heap s r)" for r a
    using assms(4) [of a] inv_parts(3) [OF assms(1)] by blast
qed (simp_all only: assms(5-7) inv_parts [OF assms(1)])

section \<open>Adding\<close>

lemma inv_alloc:
  assumes "dm_inv s"
  shows "dm_inv (snd (alloc d s))"
proof -
  have "r \<in> set (connectedDevices s) \<Longrightarrow> r < nextRef s" "r \<in> set (descArrays s a) \<Longrightarrow> r < nextRef s" for r a
    using inv_parts [OF assms] by blast+
  then have c: "r \<in> set (connectedDevices s) \<Longrightarrow> r \<noteq> nextRef s" "r \<in> set (descArrays s a) \<Longrightarrow> r \<noteq> nextRef s" for r a
    by blast+
  have m: "map (\<lambda>r. ident (if r = nextRef s then d else heap s r)) (connectedDevices s) = map (\<lambda>r. ident (heap s r)) (connectedDevices s)"
    using c(1) by simp
  show ?thesis
    using assms c unfolding dm_inv_def alloc_def default_ok_def by (auto simp: m fun_upd_apply less_Suc_eq)
qed

lemma inv_UpdateDeviceInfo: "dm_inv s \<Longrightarrow> dm_inv (UpdateDeviceInfo now r s)"
  by (rule inv_heap_only [OF _ heap_only_info])

lemma ident_eq:
  "ident e = ident d \<longleftrightarrow> deviceType e = deviceType d \<and> networkId e = networkId d \<and> deviceRole e = deviceRole d \<and>
     (\<not> is_bluetooth (deviceType e) \<or> macAddress e = macAddress d)"
  by (auto simp: ident_def)

lemma UpdateExist_find:
  "UpdateExistDeviceDescriptor now d s = (case find (\<lambda>c. ident (heap s c) = ident d) (connectedDevices s) of
     Some c \<Rightarrow> (True, UpdateDeviceInfo now c (modify c (\<lambda>_. AudioDeviceDescriptor_copy d) s)) | None \<Rightarrow> (False, s))"
  by (simp only: UpdateExistDeviceDescriptor_def Let_def ident_eq)

lemma update_exist_cases:
  obtains (found) c where "c \<in> set (connectedDevices s)" "ident (heap s c) = ident d"
      "UpdateExistDeviceDescriptor now d s = (True, UpdateDeviceInfo now c (modify c (\<lambda>_. AudioDeviceDescriptor_copy d) s))"
  | (new) "\<forall>c\<in>set (connectedDevices s). ident (heap s c) \<noteq> ident d" "UpdateExistDeviceDescriptor now d s = (False, s)"
proof (cases "find (\<lambda>c. ident (heap s c) = ident d) (connectedDevices s)")
  case None
  then have "\<forall>c\<in>set (connectedDevices s). ident (heap s c) \<noteq> ident d" by (simp add: find_None_iff)
  then show ?thesis by (rule new) (simp add: UpdateExist_find None)
next
  case (Some c)
  then have "c \<in> set (connectedDevices s)" "ident (heap s c) = ident d" by (auto simp: find_Some_iff)
  then show ?thesis using found [of c] Some by (simp add: UpdateExist_find)
qed

lemma inv_exist:
  assumes "dm_inv s" "c \<in> set (connectedDevices s)" "ident (heap s c) = ident d"
  shows "dm_inv (UpdateDeviceInfo now c (modify c (\<lambda>_. AudioDeviceDescriptor_copy d) s))"
  by (intro inv_UpdateDeviceInfo inv_heap_only [OF assms(1)] heap_only_modify) (simp add: assms(3))

lemma inv_RemoveVirtual: "dm_inv s \<Longrightarrow> dm_inv (RemoveVirtualConnectedDevice d s)"
  unfolding RemoveVirtualConnectedDevice_def
  by (erule inv_arrays) (auto simp: frame_def choices_def)

lemma inv_connect:
  assumes "dm_inv s" "r < nextRef s" "\<forall>c\<in>set (connectedDevices s). ident (heap s c) \<noteq> ident (heap s r)"
  shows "dm_inv (AddConnectedDevices r s)"
  unfolding AddConnectedDevices_def
  by (rule inv_frame [OF assms(1)])
    (use assms inv_parts [OF assms(1)] in \<open>auto simp: frame_def choices_def\<close>)

lemma inv_AddDefault:
  assumes "dm_inv s" "r < nextRef s"
  shows "dm_inv (AddDefaultDevices r s)"
proof (rule inv_frame [OF assms(1)])
  show "frame s (AddDefaultDevices r s)"
    by (simp add: AddDefaultDevices_def frame_def choices_def split: DeviceType.split)
  show "default_ok s (earpiece (AddDefaultDevices r s)) DEVICE_TYPE_EARPIECE"
    "default_ok s (speaker (AddDefaultDevices r s)) DEVICE_TYPE_SPEAKER"
    "default_ok s (defalutMic (AddDefaultDevices r s)) DEVICE_TYPE_MIC"
    using inv_parts(4-6) [OF assms(1)] assms(2)
    by (auto simp: AddDefaultDevices_def default_ok_def split: DeviceType.splits)
qed (use inv_parts [OF assms(1)] in \<open>simp_all add: AddDefaultDevices_def split: DeviceType.splits\<close>)

lemma default_frame [simp]:
  "heap (AddDefaultDevices r s) = heap s" "nextRef (AddDefaultDevices r s) = nextRef s"
  by (simp_all add: AddDefaultDevices_def split: DeviceType.split)

lemma inv_add_local:
  assumes "dm_inv s" "r < nextRef s" "c < nextRef s" "networkId (heap s r) = LOCAL_NETWORK_ID"
  shows "dm_inv (AddCaptureDevices r (AddMediaDevices r (AddCommunicationDevices r
    (AddDefaultDevices c (HandleScoWithDefaultCategory r s)))))"
proof -
  let ?s1 = "HandleScoWithDefaultCategory r s" and ?s2 = "AddDefaultDevices c (HandleScoWithDefaultCategory r s)"
  have g: "grows r s ?s1" by (rule grows_lists(4) [OF assms(4)])
  then have "dm_inv ?s2" "r < nextRef ?s2" "networkId (heap ?s2 r) = LOCAL_NETWORK_ID"
    using assms inv_grows [OF assms(1) g assms(2)] by (auto simp: grows_def frame_def intro!: inv_AddDefault)
  moreover have "grows r t (AddCaptureDevices r (AddMediaDevices r (AddCommunicationDevices r t)))"
    if "networkId (heap t r) = LOCAL_NETWORK_ID" for t
    unfolding AddCommunicationDevices_def AddMediaDevices_def AddCaptureDevices_def
    by (simp add: grows_fill_step that)
  ultimately show ?thesis by (blast intro: inv_grows)
qed

lemma inv_AddNewDevice:
  assumes "dm_inv s" "c < nextRef s"
  shows "dm_inv (AddNewDevice now c s)"
proof -
  obtain r s1 where al: "alloc (AudioDeviceDescriptor_copy (heap s c)) s = (r, s1)" by fastforce
  then have r: "r = nextRef s" "nextRef s1 = nextRef s + 1" "heap s1 r = AudioDeviceDescriptor_copy (heap s c)"
    "heap s1 c = heap s c"
    using assms(2) by (auto simp: alloc_def)
  define s2 where "s2 = RemoveVirtualConnectedDevice (heap s1 r) s1"
  have s2: "dm_inv s2" "heap s2 = heap s1" "nextRef s2 = nextRef s1"
    using inv_alloc [OF assms(1), of "AudioDeviceDescriptor_copy (heap s c)"] al inv_RemoveVirtual
    by (simp_all add: s2_def RemoveVirtualConnectedDevice_def) 
  have id: "ident (heap s2 c) = ident (heap s2 r)" using s2(2) r by simp
  show ?thesis
  proof (cases rule: update_exist_cases [of s2 "heap s2 c" now])
    case (found x)
    then have "AddNewDevice now c s = UpdateDeviceInfo now x (modify x (\<lambda>_. AudioDeviceDescriptor_copy (heap s2 c)) s2)"
      by (simp add: AddNewDevice_def al s2_def [symmetric] s2(2) r(4) Let_def)
    then show ?thesis using inv_exist [OF s2(1) found(1,2)] by simp
  next
    case new
    define s3 where "s3 = AddConnectedDevices r s2"
    have s3: "dm_inv s3" "r < nextRef s3" "c < nextRef s3" "heap s3 = heap s2"
      unfolding s3_def using inv_connect [OF s2(1)] new(1) id s2(3) r(1,2) assms(2) by (simp_all add: AddConnectedDevices_def)
    let ?rem = "AddRemoteCaptureDev r (AddRemoteRenderDev r s3)"
    let ?loc = "AddCaptureDevices r (AddMediaDevices r (AddCommunicationDevices r
      (AddDefaultDevices c (HandleScoWithDefaultCategory r s3))))"
    have "dm_inv ?rem" by (rule inv_grows [OF s3(1) grows_remote s3(2)])
    moreover have "networkId (heap s3 r) = LOCAL_NETWORK_ID \<Longrightarrow> dm_inv ?loc" by (rule inv_add_local [OF s3(1-3)])
    moreover have "AddNewDevice now c s = UpdateDeviceInfo now r
        (if networkId (heap s3 r) \<noteq> LOCAL_NETWORK_ID \<or> deviceType (heap s3 r) = DEVICE_TYPE_REMOTE_CAST then ?rem else ?loc)"
      using new(2) by (simp add: AddNewDevice_def al s2_def [symmetric] s2(2) r(4) s3_def [symmetric] Let_def)
    ultimately show ?thesis using inv_UpdateDeviceInfo by auto
  qed
qed

section \<open>Removing and updating\<close>

lemma heap_only_steps:
  "(\<And>x s. heap_only s (f x s)) \<Longrightarrow> heap_only s (fold f xs s)"
  by (induction xs arbitrary: s) (auto intro: heap_only_trans)

lemma heap_only_flag_steps:
  "(\<And>x b s. heap_only s (snd (f x (b, s)))) \<Longrightarrow> heap_only s (snd (fold f xs (b, s)))"
proof (induction xs arbitrary: b s)
  case (Cons x xs)
  obtain b' s' where "f x (b, s) = (b', s')" by fastforce
  then show ?case using Cons.prems [of s x b] Cons.IH [OF Cons.prems, of s' b'] by (auto intro: heap_only_trans)
qed simp

lemma gone_ident: "ident e = ident e' \<Longrightarrow> gone d e \<longleftrightarrow> gone d e'"
  unfolding gone_def ident_def by (auto split: if_splits)

lemma remove_connected_eq:
  "heap_only s (snd (remove_connected d rs s)) \<and> fst (remove_connected d rs s) = filter (\<lambda>r. \<not> gone d (heap s r)) rs"
proof (induction rs arbitrary: s)
  case (Cons r rs)
  define s' where "s' = (case pairDevice (heap s r) of Some p \<Rightarrow> set_pair p None s | None \<Rightarrow> s)"
  have h: "heap_only s s'" by (simp add: s'_def split: option.split)
  then have "gone d (heap s' x) \<longleftrightarrow> gone d (heap s x)" for x by (intro gone_ident) (simp add: heap_only_def frame_def)
  then show ?case using Cons.IH [of s'] Cons.IH [of s] h
    by (auto simp: s'_def [symmetric] split: prod.split intro: heap_only_trans)
qed simp

lemma removed_connected:
  "frame s (RemoveConnectedDevices d s)"
  "connectedDevices (RemoveConnectedDevices d s) = filter (\<lambda>r. \<not> gone d (heap s r)) (connectedDevices s)"
  "descArrays (RemoveConnectedDevices d s) = descArrays s" "earpiece (RemoveConnectedDevices d s) = earpiece s"
  "speaker (RemoveConnectedDevices d s) = speaker s" "defalutMic (RemoveConnectedDevices d s) = defalutMic s"
  using remove_connected_eq [of s d "connectedDevices s"]
  by (auto simp: RemoveConnectedDevices_def heap_only_def frame_def choices_def split: prod.splits)

text \<open>Removing from lists; the invariant does not ask that a list holds anything.\<close>

lemma inv_RemoveConnected: "dm_inv s \<Longrightarrow> dm_inv (RemoveConnectedDevices d s)"
  by (erule inv_arrays [OF _ removed_connected(1,2)]) (simp_all only: removed_connected subset_refl)

lemma inv_RemoveMatch: "dm_inv s \<Longrightarrow> dm_inv (RemoveMatchDeviceInArray d a s)"
  unfolding RemoveMatchDeviceInArray_def
  by (erule inv_arrays [where P = "\<lambda>_. True"]) (auto simp: frame_def choices_def)

lemma inv_remove_lists:
  assumes "dm_inv s"
  shows "dm_inv (RemoveRemoteDevices d s)" "dm_inv (RemoveCommunicationDevices d s)"
    "dm_inv (RemoveMediaDevices d s)" "dm_inv (RemoveCaptureDevices d s)"
  using assms
  by (simp_all add: RemoveRemoteDevices_def RemoveCommunicationDevices_def RemoveMediaDevices_def
      RemoveCaptureDevices_def inv_RemoveMatch)

lemma inv_RemoveNewDevice: "dm_inv s \<Longrightarrow> dm_inv (RemoveNewDevice d s)"
  unfolding RemoveNewDevice_def by (intro inv_remove_lists inv_RemoveConnected)

lemma inv_category_step:
  assumes "dm_inv s" "r < nextRef s"
  shows "dm_inv (snd (category_step d now r (b, s)))"
proof -
  let ?s1 = "modify r (\<lambda>e. e\<lparr>deviceCategory := deviceCategory d\<rparr>) s"
  have 1: "heap_only s ?s1" by (rule heap_only_modify) (simp add: ident_def)
  let ?s2 = "modify r (\<lambda>e. e\<lparr>connectTimeStamp := now r\<rparr>) ?s1"
  have 2: "heap_only s ?s2" by (rule heap_only_trans [OF 1 heap_only_modify]) (simp add: ident_def)
  have "dm_inv ?s1" by (rule inv_heap_only [OF assms(1) 1])
  then have "dm_inv (RemoveBtFromOtherList d ?s1)" by (simp add: RemoveBtFromOtherList_def inv_remove_lists)
  moreover have "dm_inv (AddBtToOtherList r ?s2)"
    by (rule inv_grows [OF inv_heap_only [OF assms(1) 2] grows_bt]) (use 2 assms(2) in \<open>simp add: heap_only_def frame_def\<close>)
  ultimately show ?thesis
    using assms(1) by (simp only: category_step_def Let_def prod.case snd_conv split: if_split) blast
qed

lemma category_step_nextRef: "nextRef (snd (category_step d now r (b, s))) = nextRef s"
proof -
  have "nextRef (RemoveMatchDeviceInArray d a t) = nextRef t" for a t by (simp add: RemoveMatchDeviceInArray_def)
  moreover have "nextRef (AddBtToOtherList r t) = nextRef t" for t using grows_bt [of r t] by (simp add: grows_def frame_def)
  ultimately show ?thesis
    by (simp add: category_step_def Let_def modify_def RemoveBtFromOtherList_def RemoveRemoteDevices_def
        RemoveCommunicationDevices_def RemoveMediaDevices_def RemoveCaptureDevices_def)
qed

lemma inv_UpdateDeviceCategory:
  assumes "dm_inv s"
  shows "dm_inv (snd (UpdateDeviceCategory d now s))"
proof -
  have "dm_inv (snd (fold (category_step d now) rs (b, t)))" if "dm_inv t" "\<forall>r\<in>set rs. r < nextRef t" for rs b t
    using that
  proof (induction rs arbitrary: b t)
    case (Cons r rs)
    obtain b' t' where "category_step d now r (b, t) = (b', t')" by fastforce
    then show ?case
      using Cons inv_category_step [of t r d now b] category_step_nextRef [of d now r b t] by simp
  qed simp
  then show ?thesis using assms inv_parts(1) [OF assms] by (simp add: UpdateDeviceCategory_def)
qed

lemma heap_only_connect_step: "heap_only s (snd (connect_step d r (b, s)))"
  by (auto simp: connect_step_def Let_def intro!: heap_only_modify) (simp_all add: ident_def)

lemma heap_only_flag_step:
  "(\<And>b e. ident (put b e) = ident e) \<Longrightarrow> heap_only s (snd (flag_step get put d r (b, s)))"
  by (auto simp: flag_step_def Let_def intro!: heap_only_modify)

lemma inv_UpdateDevicesListInfo: "dm_inv s \<Longrightarrow> dm_inv (UpdateDevicesListInfo d cmd now s)"
proof (cases cmd)
  case CATEGORY_UPDATE
  then show "dm_inv s \<Longrightarrow> ?thesis" by (simp add: UpdateDevicesListInfo_def inv_UpdateDeviceCategory)
next
  case CONNECTSTATE_UPDATE
  then show "dm_inv s \<Longrightarrow> ?thesis"
    by (auto simp: UpdateDevicesListInfo_def UpdateConnectState_def
        intro!: inv_heap_only [OF _ heap_only_flag_steps] heap_only_connect_step)
next
  case ENABLE_UPDATE
  then show "dm_inv s \<Longrightarrow> ?thesis"
    by (auto simp: UpdateDevicesListInfo_def UpdateEnableState_def ident_def
        intro!: inv_heap_only [OF _ heap_only_flag_steps] heap_only_flag_step)
next
  case EXCEPTION_FLAG_UPDATE
  then show "dm_inv s \<Longrightarrow> ?thesis"
    by (auto simp: UpdateDevicesListInfo_def UpdateExceptionFlag_def ident_def
        intro!: inv_heap_only [OF _ heap_only_flag_steps] heap_only_flag_step)
qed

section \<open>Every sequence of operations\<close>

datatype DeviceOp =
  OpXml "(AudioDevicePrivacyType \<times> DevicePrivacyInfo list) list"
| OpAdd AudioDeviceDescriptor int
| OpRemove AudioDeviceDescriptor
| OpUpdate AudioDeviceDescriptor DeviceInfoUpdateCommand "ref \<Rightarrow> int"
| OpSco string bool
| OpName string string
| OpEarpiece bool
| OpSetDefault DeviceType u32 StreamUsage bool
| OpStart u32
| OpStop u32
| OpForget u32

text \<open>A device is added from an object of the caller's own.\<close>

fun run_op :: "DeviceOp \<Rightarrow> AudioDeviceManager \<Rightarrow> AudioDeviceManager" where
  "run_op (OpXml x) s = OnXmlParsingCompleted x s"
| "run_op (OpAdd d now) s = (case alloc d s of (r, s) \<Rightarrow> AddNewDevice now r s)"
| "run_op (OpRemove d) s = RemoveNewDevice d s"
| "run_op (OpUpdate d cmd now) s = UpdateDevicesListInfo d cmd now s"
| "run_op (OpSco mac b) s = UpdateScoState mac b s"
| "run_op (OpName mac name) s = OnReceiveBluetoothEvent mac name s"
| "run_op (OpEarpiece b) s = UpdateEarpieceStatus b s"
| "run_op (OpSetDefault t i u running) s = snd (SetDefaultOutputDevice t i u running s)"
| "run_op (OpStart i) s = snd (UpdateDefaultOutputDeviceWhenStarting i s)"
| "run_op (OpStop i) s = snd (UpdateDefaultOutputDeviceWhenStopping i s)"
| "run_op (OpForget i) s = snd (RemoveSelectedDefaultOutputDevice i s)"

definition device_run :: "DeviceOp list \<Rightarrow> AudioDeviceManager" where
  "device_run ops = fold run_op ops AudioDeviceManager_ctor"

lemma inv_same_lists:
  assumes "dm_inv s" "heap s' = heap s" "nextRef s' = nextRef s" "connectedDevices s' = connectedDevices s"
    "descArrays s' = descArrays s" "earpiece s' = earpiece s" "speaker s' = speaker s" "defalutMic s' = defalutMic s"
    and "choice_ok (mediaDefaultOutputDevices s') (selectedMediaDefaultOutputDevice s')"
      "choice_ok (callDefaultOutputDevices s') (selectedCallDefaultOutputDevice s')"
  shows "dm_inv s'"
  using assms by (simp add: dm_inv_def default_ok_def)

lemma set_erase_session: "set (erase_session i xs) \<subseteq> set xs"
  by (induction xs) auto

lemma erase_session_distinct:
  "distinct (map fst xs) \<Longrightarrow> distinct (map fst (erase_session i xs)) \<and> i \<notin> fst ` set (erase_session i xs)"
proof (induction xs)
  case (Cons x xs)
  then show ?case using set_erase_session [of i xs] by (auto simp: image_iff)
qed simp

lemma choice_append: "choice_ok xs t \<Longrightarrow> choice_ok (erase_session i xs @ [(i, t')]) t'"
  using erase_session_distinct [of xs i] by (simp add: choice_ok_def last_choice_def)

lemma choice_append_same: "choice_ok xs t \<Longrightarrow> \<not> t \<noteq> t' \<Longrightarrow> choice_ok (erase_session i xs @ [(i, t')]) t"
  using choice_append by fastforce

lemma choice_erase: "choice_ok xs t \<Longrightarrow> choice_ok (erase_session i xs) (last_choice (erase_session i xs))"
  using erase_session_distinct [of xs i] by (simp add: choice_ok_def)

lemma inv_choices:
  assumes "dm_inv s"
  shows "choice_ok (mediaDefaultOutputDevices s) (selectedMediaDefaultOutputDevice s)"
    "choice_ok (callDefaultOutputDevices s) (selectedCallDefaultOutputDevice s)"
  using assms by (simp_all add: dm_inv_def)

lemma inv_default_ops:
  assumes "dm_inv s"
  shows "dm_inv (snd (SetDefaultOutputDevice t i u running s))"
    and "dm_inv (snd (UpdateDefaultOutputDeviceWhenStarting i s))"
    and "dm_inv (snd (UpdateDefaultOutputDeviceWhenStopping i s))"
    and "dm_inv (snd (RemoveSelectedDefaultOutputDevice i s))"
  using inv_choices [OF assms]
  by (auto simp: SetDefaultOutputDevice_def UpdateDefaultOutputDeviceWhenStarting_def
      UpdateDefaultOutputDeviceWhenStopping_def RemoveSelectedDefaultOutputDevice_def Let_def
      intro!: inv_same_lists [OF assms] choice_erase choice_append choice_append_same split: option.split)

lemma inv_run_op:
  assumes "dm_inv s"
  shows "dm_inv (run_op op s)"
proof (cases op)
  case (OpXml x)
  then show ?thesis using inv_choices [OF assms]
    by (auto simp: OnXmlParsingCompleted_def Let_def intro!: inv_same_lists [OF assms] split: option.split)
next
  case (OpAdd d now)
  have "dm_inv (snd (alloc d s))" "fst (alloc d s) < nextRef (snd (alloc d s))"
    using inv_alloc [OF assms] by (simp_all add: alloc_def)
  then have "dm_inv (AddNewDevice now (fst (alloc d s)) (snd (alloc d s)))" by (rule inv_AddNewDevice)
  then show ?thesis by (simp add: OpAdd split_beta)
next
  case (OpSco mac b)
  then show ?thesis
    by (auto simp: UpdateScoState_def ident_def intro!: inv_heap_only [OF assms heap_only_steps] heap_only_modify)
next
  case (OpName mac name)
  then show ?thesis
    by (auto simp: OnReceiveBluetoothEvent_def ident_def intro!: inv_heap_only [OF assms heap_only_steps] heap_only_modify)
next
  case (OpEarpiece b)
  then show ?thesis using inv_choices [OF assms]
    by (auto simp: UpdateEarpieceStatus_def intro!: inv_same_lists [OF assms])
qed (simp_all add: inv_RemoveNewDevice [OF assms] inv_UpdateDevicesListInfo [OF assms] inv_default_ops [OF assms])

lemma inv_device_run: "dm_inv (device_run ops)"
proof -
  have "dm_inv (fold run_op ops s)" if "dm_inv s" for s
    using that by (induction ops arbitrary: s) (simp_all add: inv_run_op)
  then show ?thesis by (simp add: device_run_def dm_inv_ctor)
qed

end
