(* ===== verification/DeviceProps.thy ===== *)
theory DeviceProps
  imports DeviceInv
begin

text \<open>
  Properties of the device manager, and a configuration and devices to run it with.
\<close>

section \<open>A configuration\<close>

text \<open>The rows of \<open>config/audio_device_privacy.xml\<close>; names and roles are not read by the manager.\<close>

definition info :: "DeviceType \<Rightarrow> DeviceCategory \<Rightarrow> DeviceUsage \<Rightarrow> DevicePrivacyInfo" where
  "info t c u = \<lparr>infoName = [], infoType = t, infoRole = OUTPUT_DEVICE, infoCategory = c, infoUsage = u\<rparr>"

definition shipped_privacy :: "(AudioDevicePrivacyType \<times> DevicePrivacyInfo list) list" where
  "shipped_privacy =
     [(TYPE_PRIVACY, [info DEVICE_TYPE_WIRED_HEADSET 0 3, info DEVICE_TYPE_WIRED_HEADPHONES 0 3,
        info DEVICE_TYPE_USB_HEADSET 0 3, info DEVICE_TYPE_USB_ARM_HEADSET 0 3,
        info DEVICE_TYPE_BLUETOOTH_A2DP 9 1, info DEVICE_TYPE_BLUETOOTH_SCO 9 6]),
      (TYPE_PUBLIC, [info DEVICE_TYPE_BLUETOOTH_A2DP 6 1, info DEVICE_TYPE_BLUETOOTH_SCO 6 2, info DEVICE_TYPE_DP 0 1]),
      (TYPE_NEGATIVE, [info DEVICE_TYPE_BLUETOOTH_A2DP 64 1, info DEVICE_TYPE_BLUETOOTH_SCO 80 2])]"

definition demo_device :: "DeviceType \<Rightarrow> DeviceRole \<Rightarrow> string \<Rightarrow> DeviceCategory \<Rightarrow> AudioDeviceDescriptor" where
  "demo_device t role mac c = (AudioDeviceDescriptor_make t role)\<lparr>macAddress := mac, deviceCategory := c\<rparr>"

definition demo_ops :: "DeviceOp list" where
  "demo_ops = [OpXml shipped_privacy, OpAdd (demo_device DEVICE_TYPE_SPEAKER OUTPUT_DEVICE [] 0) 1,
     OpAdd (demo_device DEVICE_TYPE_MIC INPUT_DEVICE [] 0) 2,
     OpAdd (demo_device DEVICE_TYPE_BLUETOOTH_A2DP OUTPUT_DEVICE ''m'' BT_HEADPHONE) 3,
     OpAdd (demo_device DEVICE_TYPE_BLUETOOTH_SCO OUTPUT_DEVICE ''m'' BT_HEADPHONE) 4]"

section \<open>Lists\<close>

text \<open>
  C11: after every sequence of operations the lists the manager hands out hold what they say:
  a render list only output devices, a capture list only input devices, all of them local; the
  remote render list only output devices that are on another network or a remote cast, the remote
  capture list only input devices of another network.
\<close>

theorem lists_hold_their_devices:
  "(\<forall>d \<in> set (GetMediaRenderPrivacyDevices (device_run ops)) \<union> set (GetMediaRenderPublicDevices (device_run ops)) \<union>
        set (GetCommRenderPrivacyDevices (device_run ops)) \<union> set (GetCommRenderPublicDevices (device_run ops)).
      deviceRole d = OUTPUT_DEVICE \<and> networkId d = LOCAL_NETWORK_ID) \<and>
   (\<forall>d \<in> set (GetMediaCapturePrivacyDevices (device_run ops)) \<union> set (GetMediaCapturePublicDevices (device_run ops)) \<union>
        set (GetCommCapturePrivacyDevices (device_run ops)) \<union> set (GetCommCapturePublicDevices (device_run ops)) \<union>
        set (GetCapturePrivacyDevices (device_run ops)) \<union> set (GetCapturePublicDevices (device_run ops)) \<union>
        set (GetRecongnitionCapturePrivacyDevices (device_run ops)).
      deviceRole d = INPUT_DEVICE \<and> networkId d = LOCAL_NETWORK_ID) \<and>
   (\<forall>d \<in> set (GetRemoteRenderDevices (device_run ops)).
      deviceRole d = OUTPUT_DEVICE \<and> (networkId d \<noteq> LOCAL_NETWORK_ID \<or> deviceType d = DEVICE_TYPE_REMOTE_CAST)) \<and>
   (\<forall>d \<in> set (GetRemoteCaptureDevices (device_run ops)). deviceRole d = INPUT_DEVICE \<and> networkId d \<noteq> LOCAL_NETWORK_ID)"
proof -
  have fit: "fits a (heap (device_run ops) r)" if "r \<in> set (descArrays (device_run ops) a)" for a r
    using inv_parts(3) [OF inv_device_run that] by blast
  show ?thesis by (auto simp: list_getters copies_def dest: fit)
qed

theorem lists_hold_their_devices_witness:
  "deviceRole (hd (GetMediaRenderPrivacyDevices (device_run demo_ops))) = OUTPUT_DEVICE"
proof -
  have "length (GetMediaRenderPrivacyDevices (device_run demo_ops)) = 1" by code_simp
  then have "hd (GetMediaRenderPrivacyDevices (device_run demo_ops)) \<in> set (GetMediaRenderPrivacyDevices (device_run demo_ops))"
    by (metis hd_in_set list.size(3) zero_neq_one)
  then show ?thesis using lists_hold_their_devices [of demo_ops] by blast
qed

text \<open>
  C12: no device is connected twice, after any sequence of operations: two entries of
  \<open>connectedDevices_\<close> differ in type, role, network or, for Bluetooth, the address. The default
  speaker, earpiece and microphone are devices of their type.
\<close>

theorem connected_once:
  "distinct (map (\<lambda>r. ident (heap (device_run ops) r)) (connectedDevices (device_run ops))) \<and>
   deviceType (GetRenderDefaultDevice (device_run ops)) \<in> {DEVICE_TYPE_SPEAKER, DEVICE_TYPE_NONE} \<and>
   deviceType (GetCaptureDefaultDevice (device_run ops)) \<in> {DEVICE_TYPE_MIC, DEVICE_TYPE_NONE} \<and>
   deviceType (GetCommRenderDefaultDevice u (device_run ops)) \<in> {DEVICE_TYPE_EARPIECE, DEVICE_TYPE_SPEAKER, DEVICE_TYPE_NONE}"
  using inv_parts(2,4-6) [OF inv_device_run [of ops]]
  by (auto simp: GetRenderDefaultDevice_def GetCaptureDefaultDevice_def GetCommRenderDefaultDevice_def
      AudioDeviceDescriptor_of_def deref_def default_ok_def AudioDeviceDescriptor_ctor_def
      AudioDeviceDescriptor_make_def split: option.splits)

definition pairs_only :: "AudioDeviceManager \<Rightarrow> AudioDeviceManager \<Rightarrow> bool" where
  "pairs_only s s' \<longleftrightarrow> (\<forall>r. (heap s' r)\<lparr>pairDevice := None\<rparr> = (heap s r)\<lparr>pairDevice := None\<rparr>)"

lemma pairs_only_remove: "pairs_only s (snd (remove_connected d rs s))"
proof (induction rs arbitrary: s)
  case (Cons r rs)
  define s' where "s' = (case pairDevice (heap s r) of Some p \<Rightarrow> set_pair p None s | None \<Rightarrow> s)"
  have "pairs_only s s'" by (simp add: s'_def pairs_only_def set_pair_def modify_def split: option.split)
  then show ?case using Cons.IH [of s'] Cons.IH [of s]
    by (auto simp: s'_def [symmetric] pairs_only_def split: prod.split)
qed (simp add: pairs_only_def)

lemma pairs_only_same: "pairs_only s s' \<Longrightarrow> isSameDeviceDesc (heap s' r) d = isSameDeviceDesc (heap s r) d"
  unfolding pairs_only_def isSameDeviceDesc_def
  by (metis AudioDeviceDescriptor.ext_inject AudioDeviceDescriptor.surjective AudioDeviceDescriptor.update_convs(16))

lemma remove_lists:
  "descArrays (RemoveCaptureDevices d (RemoveMediaDevices d (RemoveCommunicationDevices d (RemoveRemoteDevices d s)))) =
     (\<lambda>a. filter (\<lambda>r. \<not> isSameDeviceDesc (heap s r) d) (descArrays s a))"
  "connectedDevices (RemoveCaptureDevices d (RemoveMediaDevices d (RemoveCommunicationDevices d (RemoveRemoteDevices d s)))) =
     connectedDevices s"
  "heap (RemoveCaptureDevices d (RemoveMediaDevices d (RemoveCommunicationDevices d (RemoveRemoteDevices d s)))) = heap s"
proof -
  show "descArrays (RemoveCaptureDevices d (RemoveMediaDevices d (RemoveCommunicationDevices d (RemoveRemoteDevices d s)))) =
     (\<lambda>a. filter (\<lambda>r. \<not> isSameDeviceDesc (heap s r) d) (descArrays s a))" (is "?l = ?r")
  proof
    fix a show "?l a = ?r a"
      by (cases a) (simp_all add: RemoveRemoteDevices_def RemoveCommunicationDevices_def
        RemoveMediaDevices_def RemoveCaptureDevices_def RemoveMatchDeviceInArray_def)
  qed
qed (simp_all add: RemoveRemoteDevices_def RemoveCommunicationDevices_def
    RemoveMediaDevices_def RemoveCaptureDevices_def RemoveMatchDeviceInArray_def)

text \<open>
  Removing a device removes exactly it: from the connected ones every device of its type and
  network (and address, for Bluetooth), from each list every device of its type, network and
  address, in both cases keeping the others in their order; no descriptor changes but for its pair.
\<close>

theorem removal_is_exact:
  "connectedDevices (RemoveNewDevice d s) = filter (\<lambda>r. \<not> gone d (heap s r)) (connectedDevices s) \<and>
   descArrays (RemoveNewDevice d s) = (\<lambda>a. filter (\<lambda>r. \<not> isSameDeviceDesc (heap s r) d) (descArrays s a)) \<and>
   (\<lambda>r. (heap (RemoveNewDevice d s) r)\<lparr>pairDevice := None\<rparr>) = (\<lambda>r. (heap s r)\<lparr>pairDevice := None\<rparr>)"
proof -
  let ?t = "RemoveConnectedDevices d s"
  have "pairs_only s ?t"
    using pairs_only_remove [of s d "connectedDevices s"]
    by (simp add: RemoveConnectedDevices_def pairs_only_def split_beta)
  then show ?thesis
    by (simp add: RemoveNewDevice_def remove_lists removed_connected pairs_only_same) (simp add: pairs_only_def)
qed

section \<open>Findings on lists\<close>

text \<open>
  A headset that turns into another category is added to the lists of the new one and stays
  in those of the old: under the shipped configuration a headphone that reports itself as a car
  is in the private and in the public media list, and one that changes to glasses is twice in
  the private list.
\<close>

theorem category_change_keeps_old_list:
  "map deviceCategory (GetMediaRenderPrivacyDevices (device_run [OpXml shipped_privacy,
       OpAdd (demo_device DEVICE_TYPE_BLUETOOTH_A2DP OUTPUT_DEVICE ''m'' BT_HEADPHONE) 5,
       OpUpdate (demo_device DEVICE_TYPE_BLUETOOTH_A2DP OUTPUT_DEVICE ''m'' BT_CAR) CATEGORY_UPDATE (\<lambda>_. 9)])) = [BT_CAR] \<and>
   map deviceCategory (GetMediaRenderPublicDevices (device_run [OpXml shipped_privacy,
       OpAdd (demo_device DEVICE_TYPE_BLUETOOTH_A2DP OUTPUT_DEVICE ''m'' BT_HEADPHONE) 5,
       OpUpdate (demo_device DEVICE_TYPE_BLUETOOTH_A2DP OUTPUT_DEVICE ''m'' BT_CAR) CATEGORY_UPDATE (\<lambda>_. 9)])) = [BT_CAR] \<and>
   map deviceCategory (GetMediaRenderPrivacyDevices (device_run [OpXml shipped_privacy,
       OpAdd (demo_device DEVICE_TYPE_BLUETOOTH_A2DP OUTPUT_DEVICE ''m'' BT_HEADPHONE) 5,
       OpUpdate (demo_device DEVICE_TYPE_BLUETOOTH_A2DP OUTPUT_DEVICE ''m'' BT_GLASSES) CATEGORY_UPDATE (\<lambda>_. 9)]))
     = [BT_GLASSES, BT_GLASSES]"
  by (intro conjI; code_simp)

section \<open>Suspension of the media profile\<close>

definition next_state :: "AudioDeviceDescriptor \<Rightarrow> AudioDeviceDescriptor \<Rightarrow> ConnectState" where
  "next_state d e =
     (if networkId e \<noteq> networkId d \<or> macAddress e \<noteq> macAddress d then connectState e
      else if deviceType e = deviceType d then connectState d
      else if deviceType d = DEVICE_TYPE_BLUETOOTH_SCO \<and> deviceType e = DEVICE_TYPE_BLUETOOTH_A2DP then
        if connectState d = CONNECTED then SUSPEND_CONNECTED
        else if connectState e = SUSPEND_CONNECTED \<and>
                (connectState d = DEACTIVE_CONNECTED \<or> connectState d = SUSPEND_CONNECTED) then CONNECTED
        else connectState e
      else connectState e)"

lemma connect_idem: "(h::ref \<Rightarrow> AudioDeviceDescriptor)(r := (h r)\<lparr>connectState := connectState (h r)\<rparr>) = h"
  by (simp add: fun_upd_idem)

lemma connect_step_heap:
  "heap (snd (connect_step d r (b, s))) = (heap s)(r := (heap s r)\<lparr>connectState := next_state d (heap s r)\<rparr>)"
proof -
  let ?same = "networkId (heap s r) \<noteq> networkId d \<or> macAddress (heap s r) \<noteq> macAddress d"
    and ?type = "deviceType (heap s r) = deviceType d"
    and ?sco = "deviceType d = DEVICE_TYPE_BLUETOOTH_SCO" and ?a2dp = "deviceType (heap s r) = DEVICE_TYPE_BLUETOOTH_A2DP"
  have h: "heap (modify r (\<lambda>e. e\<lparr>connectState := c\<rparr>) s) = (heap s)(r := (heap s r)\<lparr>connectState := c\<rparr>)" for c
    by (simp add: modify_def)
  consider ?same | "\<not> ?same" ?type | "\<not> ?same" "\<not> ?type" "?sco" "?a2dp" | "\<not> ?same" "\<not> ?type" "\<not> (?sco \<and> ?a2dp)"
    by argo
  then show ?thesis
  proof cases
    case 3
    then show ?thesis
      by (simp only: connect_step_def next_state_def Let_def prod.case if_False if_True simp_thms)
        (simp add: h connect_idem, argo?)
  next
    case 4
    then have "snd (connect_step d r (b, s)) = s" "next_state d (heap s r) = connectState (heap s r)"
      unfolding connect_step_def next_state_def Let_def by auto
    then show ?thesis by (simp only: connect_idem)
  qed (simp_all add: connect_step_def next_state_def h connect_idem)
qed

lemma connect_steps_heap:
  assumes "distinct rs"
  shows "heap (snd (fold (connect_step d) rs (b, s))) =
    (\<lambda>r. if r \<in> set rs then (heap s r)\<lparr>connectState := next_state d (heap s r)\<rparr> else heap s r)"
  using assms
proof (induction rs arbitrary: b s)
  case (Cons r rs)
  obtain b' s' where st: "connect_step d r (b, s) = (b', s')" by fastforce
  then have "heap s' = (heap s)(r := (heap s r)\<lparr>connectState := next_state d (heap s r)\<rparr>)"
    using connect_step_heap [of d r b s] by simp
  then show ?case using Cons st by (auto simp: fun_eq_iff)
qed simp

text \<open>
  A change of the connection of a device sets the state of the devices with its address: its
  own, and for the call profile of a headset also that of the media profile, which is suspended
  while a call is connected and comes back when the call profile is deactivated or suspended.
  Every other device keeps its state.
\<close>

theorem connect_state_update:
  "heap (snd (UpdateConnectState d (device_run ops))) =
     (\<lambda>r. if r \<in> set (connectedDevices (device_run ops))
          then (heap (device_run ops) r)\<lparr>connectState := next_state d (heap (device_run ops) r)\<rparr>
          else heap (device_run ops) r)"
  using inv_parts(2) [OF inv_device_run [of ops]]
  by (simp add: UpdateConnectState_def connect_steps_heap distinct_map)

section \<open>Default output devices\<close>

text \<open>
  After any sequence of operations the default output device for media, and the one for calls,
  is the choice of the stream that chose last among those that hold one, or none, and every
  stream holds at most one.
\<close>

theorem default_output_is_latest:
  "distinct (map fst (mediaDefaultOutputDevices (device_run ops))) \<and>
   distinct (map fst (callDefaultOutputDevices (device_run ops))) \<and>
   selectedMediaDefaultOutputDevice (device_run ops) = last_choice (mediaDefaultOutputDevices (device_run ops)) \<and>
   selectedCallDefaultOutputDevice (device_run ops) = last_choice (callDefaultOutputDevices (device_run ops))"
  using inv_choices [OF inv_device_run [of ops]] by (simp add: choice_ok_def)

text \<open>
  A stream that chose a device for voice messages and then asks again with a call usage leaves
  its first choice behind: stopping and releasing it does not take the choice back.
\<close>

theorem choice_outlives_stream:
  "selectedMediaDefaultOutputDevice (device_run
     [OpSetDefault t i STREAM_USAGE_VOICE_MESSAGE True, OpSetDefault t' i STREAM_USAGE_VOICE_COMMUNICATION True,
      OpStop i, OpForget i, OpStop i]) = t \<and>
   selectedCallDefaultOutputDevice (device_run
     [OpSetDefault t i STREAM_USAGE_VOICE_MESSAGE True, OpSetDefault t' i STREAM_USAGE_VOICE_COMMUNICATION True,
      OpStop i, OpForget i, OpStop i]) = DEVICE_TYPE_DEFAULT"
  by (cases "t = DEVICE_TYPE_DEFAULT"; cases "t' = DEVICE_TYPE_DEFAULT")
    (simp_all add: device_run_def AudioDeviceManager_ctor_def SetDefaultOutputDevice_def is_call_usage_def Let_def
      UpdateDefaultOutputDeviceWhenStopping_def RemoveSelectedDefaultOutputDevice_def last_choice_def)

end
