(* ===== verification/RouterProps.thy ===== *)
theory RouterProps
  imports RouterCenter DeviceProps
begin

text \<open>
  Properties of the routers, of the center that asks them and of the choices they follow, on the
  device manager's invariant.
\<close>

section \<open>Sorting by connection time\<close>

text \<open>What the routers rely on of \<open>std::sort\<close>; the order of equal times is left open.\<close>

locale connection_sort =
  fixes srt :: "AudioDeviceDescriptor list \<Rightarrow> AudioDeviceDescriptor list"
  assumes srt_set: "set (srt ds) = set ds"
    and srt_sorted: "sorted (map connectTimeStamp (srt ds))"
begin

lemma srt_empty: "srt ds = [] \<longleftrightarrow> ds = []"
  using srt_set [of ds] by (metis set_empty)

lemma last_srt:
  assumes "ds \<noteq> []"
  shows "last (srt ds) \<in> set ds" and "e \<in> set ds \<Longrightarrow> connectTimeStamp e \<le> connectTimeStamp (last (srt ds))"
proof -
  have ne: "srt ds \<noteq> []" using assms srt_empty by blast
  then show "last (srt ds) \<in> set ds" using srt_set last_in_set by metis
  assume "e \<in> set ds"
  then obtain i where i: "i < length (srt ds)" "srt ds ! i = e"
    by (metis srt_set in_set_conv_nth)
  have "connectTimeStamp (srt ds ! i) \<le> connectTimeStamp (srt ds ! (length (srt ds) - 1))"
    using sorted_nth_mono [OF srt_sorted, of i "length (srt ds) - 1" ds] i(1) by simp
  then show "connectTimeStamp e \<le> connectTimeStamp (last (srt ds))" by (simp add: i(2) last_conv_nth [OF ne])
qed

lemma latest:
  assumes "sort_devices v = srt"
  shows "if filter usable ds = [] then GetLatestConnectDeivce v ds = AudioDeviceDescriptor_ctor
    else GetLatestConnectDeivce v ds \<in> set ds \<and> usable (GetLatestConnectDeivce v ds) \<and>
      (\<forall>e\<in>set ds. usable e \<longrightarrow> connectTimeStamp e \<le> connectTimeStamp (GetLatestConnectDeivce v ds))"
  using last_srt [of "filter usable ds"] by (auto simp: GetLatestConnectDeivce_def assms)

lemma latest_or_none:
  assumes "sort_devices v = srt"
  shows "GetLatestConnectDeivce v ds = AudioDeviceDescriptor_ctor \<or>
    GetLatestConnectDeivce v ds \<in> set ds \<and> usable (GetLatestConnectDeivce v ds)"
  using latest [OF assms, of ds] by (auto split: if_splits)

end

interpretation by_time: connection_sort "sort_key connectTimeStamp"
  by unfold_locales simp_all

definition demo_view :: "AudioDeviceManager \<Rightarrow> RouterView" where
  "demo_view s =
     \<lparr>devices = s, preferences = \<lparr>preferredMediaRenderDevice = None, preferredCallRenderDevice = None,
        preferredCallCaptureDevice = None, preferredRingRenderDevice = None, preferredRecordCaptureDevice = None,
        preferredToneRenderDevice = None\<rparr>,
      affinities = AudioAffinityManager_ctor, audioScene = AUDIO_SCENE_DEFAULT, lastAudioScene = AUDIO_SCENE_DEFAULT,
      ringerMode = RINGER_MODE_NORMAL, distributedRouting = (None, CAST_TYPE_NULL),
      activeOutputDevice = AudioDeviceDescriptor_ctor, rendererInfos = [], sort_devices = sort_key connectTimeStamp\<rparr>"

lemma demo_view_simps [simp]:
  "devices (demo_view s) = s" "sort_devices (demo_view s) = sort_key connectTimeStamp"
  "affinities (demo_view s) = AudioAffinityManager_ctor" "audioScene (demo_view s) = AUDIO_SCENE_DEFAULT"
  by (simp_all add: demo_view_def)

text \<open>
  Whatever order the sort gives devices connected at the same time, the latest connected
  device is a device of the list that is enabled, without exception and not a suspended call
  profile, and none of the others of this kind was connected after it; it has no type exactly
  when the list has no such device.
\<close>

theorem latest_connected_device:
  assumes "\<And>ds. set (sort_devices v ds) = set ds" and "\<And>ds. sorted (map connectTimeStamp (sort_devices v ds))"
  shows "if filter usable ds = [] then GetLatestConnectDeivce v ds = AudioDeviceDescriptor_ctor
    else GetLatestConnectDeivce v ds \<in> set ds \<and> usable (GetLatestConnectDeivce v ds) \<and>
      (\<forall>e\<in>set ds. usable e \<longrightarrow> connectTimeStamp e \<le> connectTimeStamp (GetLatestConnectDeivce v ds))"
  using connection_sort.latest [of "sort_devices v" v ds] assms by (simp add: connection_sort_def)

theorem latest_connected_device_witness:
  "GetLatestConnectDeivce (demo_view AudioDeviceManager_ctor) [demo_device DEVICE_TYPE_SPEAKER OUTPUT_DEVICE [] 0]
     = demo_device DEVICE_TYPE_SPEAKER OUTPUT_DEVICE [] 0"
  using latest_connected_device [of "demo_view AudioDeviceManager_ctor" "[demo_device DEVICE_TYPE_SPEAKER OUTPUT_DEVICE [] 0]"]
  by (simp add: demo_device_def AudioDeviceDescriptor_make_def usable_def)

section \<open>Private and public devices\<close>

definition priority_output :: "Router \<Rightarrow> RouterView \<Rightarrow> StreamUsage \<Rightarrow> AudioDeviceDescriptor set" where
  "priority_output r v u = {GetMediaRenderDevice r v u 0, GetCallRenderDevice r v u 0}"

definition priority_input :: "Router \<Rightarrow> RouterView \<Rightarrow> SourceType \<Rightarrow> AudioDeviceDescriptor set" where
  "priority_input r v src = {GetCallCaptureDevice r v src 0, GetRecordCaptureDevice r v src 0}"

lemma list_fits:
  assumes "r \<in> set (descArrays (device_run ops) a)"
  shows "fits a (heap (device_run ops) r)"
  using inv_parts(3) [OF inv_device_run assms] by blast

lemma copies_fit:
  assumes "d \<in> set (copies (device_run ops) (descArrays (device_run ops) a))"
  shows "fits a d"
proof -
  obtain r where "r \<in> set (descArrays (device_run ops) a)" "d = AudioDeviceDescriptor_copy (heap (device_run ops) r)"
    using assms by (auto simp: copies_def)
  then show ?thesis using list_fits [of r ops a] fits_ident [of d "heap (device_run ops) r" a] by simp
qed

lemmas priority_defs =
  PrivacyPriority_GetMediaRenderDevice_def PrivacyPriority_GetCallRenderDevice_def
  PrivacyPriority_GetCallCaptureDevice_def PrivacyPriority_GetRecordCaptureDevice_def
  PublicPriority_GetMediaRenderDevice_def PublicPriority_GetRecordCaptureDevice_def
  CockpitPhone_GetCallRenderDevice_def CockpitPhone_GetCallCaptureDevice_def

definition output_lists :: "AudioDeviceManager \<Rightarrow> AudioDeviceDescriptor list set" where
  "output_lists s = {GetMediaRenderPrivacyDevices s, GetMediaRenderPublicDevices s, GetCommRenderPrivacyDevices s,
     GetCommRenderPublicDevices s, RemoveArmUsb (GetCommRenderPrivacyDevices s), GetBTCarDevices (GetCommRenderPublicDevices s)}"

definition input_lists :: "AudioDeviceManager \<Rightarrow> AudioDeviceDescriptor list set" where
  "input_lists s = {GetMediaCapturePrivacyDevices s, GetMediaCapturePublicDevices s, GetCommCapturePrivacyDevices s,
     GetRecongnitionCapturePrivacyDevices s, GetBTCarDevices (GetCommCapturePublicDevices s)}"

lemma priority_answers:
  assumes "r \<in> {PrivacyPriorityRouter, PublicPriorityRouter, CockpitPhoneRouter}"
  shows "priority_output r v u \<subseteq> insert AudioDeviceDescriptor_ctor (GetLatestConnectDeivce v ` output_lists (devices v))"
    and "priority_input r v src \<subseteq> insert AudioDeviceDescriptor_ctor (GetLatestConnectDeivce v ` input_lists (devices v))"
  using assms
  by (auto simp: priority_output_def priority_input_def output_lists_def input_lists_def priority_defs Let_def
      simp del: LOCAL_NETWORK_ID_def)

definition local_as :: "DeviceRole \<Rightarrow> AudioDeviceDescriptor \<Rightarrow> bool" where
  "local_as role d \<longleftrightarrow> deviceRole d = role \<and> networkId d = LOCAL_NETWORK_ID"

lemma fits_local:
  "a \<in> {commRenderPrivacyDevices, commRenderPublicDevices, mediaRenderPrivacyDevices, mediaRenderPublicDevices} \<Longrightarrow>
     fits a d \<Longrightarrow> local_as OUTPUT_DEVICE d"
  "a \<notin> {commRenderPrivacyDevices, commRenderPublicDevices, mediaRenderPrivacyDevices, mediaRenderPublicDevices,
          remoteRenderDevices, remoteCaptureDevices} \<Longrightarrow> fits a d \<Longrightarrow> local_as INPUT_DEVICE d"
  by (cases a; simp add: local_as_def)+

lemma lists_local:
  "ds \<in> output_lists (device_run ops) \<Longrightarrow> d \<in> set ds \<Longrightarrow> local_as OUTPUT_DEVICE d"
  "ds \<in> input_lists (device_run ops) \<Longrightarrow> d \<in> set ds \<Longrightarrow> local_as INPUT_DEVICE d"
proof -
  have car: "local_as role d" if "d \<in> set (GetBTCarDevices ds)" "\<And>e. e \<in> set ds \<Longrightarrow> local_as role e" for role ds d
    using that by (auto simp: GetBTCarDevices_def local_as_def)
  note fit = fits_local [OF _ copies_fit, rotated]
  show "ds \<in> output_lists (device_run ops) \<Longrightarrow> d \<in> set ds \<Longrightarrow> local_as OUTPUT_DEVICE d"
    unfolding output_lists_def list_getters by (auto simp: RemoveArmUsb_def simp del: OUTPUT_DEVICE_def intro: fit(1) car)
  show "ds \<in> input_lists (device_run ops) \<Longrightarrow> d \<in> set ds \<Longrightarrow> local_as INPUT_DEVICE d"
    unfolding input_lists_def list_getters by (auto simp del: INPUT_DEVICE_def intro: fit(2) car)
qed

text \<open>
  After any history of the device manager, what the routers for private, public and car
  devices answer with is a usable local device of the right direction, or no device.
\<close>

theorem priority_routers_answer_local_devices:
  assumes "\<And>ds. set (sort_devices v ds) = set ds" and "\<And>ds. sorted (map connectTimeStamp (sort_devices v ds))"
    and "devices v = device_run ops" and "r \<in> {PrivacyPriorityRouter, PublicPriorityRouter, CockpitPhoneRouter}"
  shows "(\<forall>d\<in>priority_output r v u. d = AudioDeviceDescriptor_ctor \<or> local_as OUTPUT_DEVICE d \<and> usable d) \<and>
         (\<forall>d\<in>priority_input r v src. d = AudioDeviceDescriptor_ctor \<or> local_as INPUT_DEVICE d \<and> usable d)"
proof -
  have "connection_sort (sort_devices v)" using assms(1,2) by (simp add: connection_sort_def)
  note latest = connection_sort.latest_or_none [OF this refl]
  have "d = AudioDeviceDescriptor_ctor \<or> local_as OUTPUT_DEVICE d \<and> usable d" if "d \<in> priority_output r v u" for d
    using priority_answers(1) [OF assms(4), of v u] that latest lists_local(1) unfolding assms(3) by blast
  moreover have "d = AudioDeviceDescriptor_ctor \<or> local_as INPUT_DEVICE d \<and> usable d" if "d \<in> priority_input r v src" for d
    using priority_answers(2) [OF assms(4), of v src] that latest lists_local(2) unfolding assms(3) by blast
  ultimately show ?thesis by blast
qed

theorem priority_routers_answer_local_devices_witness:
  "deviceType (GetMediaRenderDevice PrivacyPriorityRouter (demo_view (device_run demo_ops)) STREAM_USAGE_MUSIC 0)
     = DEVICE_TYPE_BLUETOOTH_A2DP \<and>
   local_as OUTPUT_DEVICE (GetMediaRenderDevice PrivacyPriorityRouter (demo_view (device_run demo_ops)) STREAM_USAGE_MUSIC 0)"
    (is "?t \<and> ?l")
proof
  show t: ?t by code_simp
  have "GetMediaRenderDevice PrivacyPriorityRouter (demo_view (device_run demo_ops)) STREAM_USAGE_MUSIC 0 \<noteq> AudioDeviceDescriptor_ctor"
    using t by fastforce
  then show ?l
    using priority_routers_answer_local_devices [of "demo_view (device_run demo_ops)" demo_ops PrivacyPriorityRouter STREAM_USAGE_MUSIC]
    unfolding priority_output_def demo_view_simps by (simp add: by_time.srt_sorted)
qed

section \<open>The center\<close>

lemma first_device_answers:
  assumes "r \<in> set routers" and "deviceType (ask r) \<noteq> DEVICE_TYPE_NONE"
  shows "deviceType (fst (first_device ask routers rt)) \<noteq> DEVICE_TYPE_NONE"
proof (cases "find (\<lambda>r. deviceType (ask r) \<noteq> DEVICE_TYPE_NONE) routers")
  case None
  then show ?thesis using assms by (simp add: find_None_iff)
next
  case (Some q)
  moreover from this have "deviceType (ask q) \<noteq> DEVICE_TYPE_NONE" by (auto simp: find_Some_iff)
  ultimately show ?thesis by (simp add: first_device_def)
qed

lemma first_device_skips:
  assumes "\<And>p. p \<in> set pre \<Longrightarrow> deviceType (ask p) = DEVICE_TYPE_NONE" and "deviceType (ask r) \<noteq> DEVICE_TYPE_NONE"
  shows "first_device ask (pre @ r # post) rt = (ask r, GetRouterType r)"
proof -
  have "find (\<lambda>r. deviceType (ask r) \<noteq> DEVICE_TYPE_NONE) (pre @ r # post) = Some r"
    using assms by (induction pre) auto
  then show ?thesis by (simp add: first_device_def)
qed

lemma refine_plain:
  assumes "audioDeviceRefinerCb c = None"
  shows "refine_output c what uid (map_prod (\<lambda>d. [d]) id x) = Inr [fst x]"
  using assms by (simp add: refine_output_def split_beta)

lemma no_package_router:
  "follow_call c v u uid = FetchCallRenderDevice c v (GetLastestRunningCallStreamUsage (rendererInfos v)) uid ROUTER_TYPE_NONE"
proof -
  have "find (\<lambda>r. base_name r = ''package_filter_router'') rs = None" for rs
    by (induction rs) (simp_all add: base_name_def)
  then show ?thesis by (simp add: follow_call_def)
qed

definition has_defaults :: "AudioDeviceManager \<Rightarrow> bool" where
  "has_defaults s \<longleftrightarrow> earpiece s \<noteq> None \<and> speaker s \<noteq> None"

lemma default_answers:
  assumes "has_defaults (device_run ops)" and "devices v = device_run ops"
  shows "deviceType (GetMediaRenderDevice DefaultRouter v u uid) \<noteq> DEVICE_TYPE_NONE"
    and "deviceType (GetCallRenderDevice DefaultRouter v u uid) \<noteq> DEVICE_TYPE_NONE"
proof -
  obtain e sp where "earpiece (device_run ops) = Some e" "speaker (device_run ops) = Some sp"
    using assms(1) unfolding has_defaults_def by blast
  moreover have "deviceType (heap (device_run ops) e) = DEVICE_TYPE_EARPIECE"
    "deviceType (heap (device_run ops) sp) = DEVICE_TYPE_SPEAKER"
    using inv_parts(4,5) [OF inv_device_run [of ops]] calculation by (simp_all add: default_ok_def)
  ultimately show "deviceType (GetMediaRenderDevice DefaultRouter v u uid) \<noteq> DEVICE_TYPE_NONE"
    and "deviceType (GetCallRenderDevice DefaultRouter v u uid) \<noteq> DEVICE_TYPE_NONE"
    by (simp_all add: Default_GetMediaRenderDevice_def Default_GetCallRenderDevice_def assms(2) deref_def
        GetSelectedMediaRenderDevice_def GetSelectedCallRenderDevice_def GetRenderDefaultDevice_def
        GetCommRenderDefaultDevice_def)
qed

text \<open>
  C13: on a device with a speaker and an earpiece every stream whose usage the configuration gives to
  the media, tone or call routers is routed to exactly one device, in and out of calls, whatever was
  plugged, unplugged, selected and chosen before. The default router has to be among those of media
  and of calls, and no refiner callback to be registered. A usage the configuration does not give to
  any routers is not covered.
\<close>

theorem every_stream_is_routed:
  assumes "devices v = device_run ops" and "has_defaults (device_run ops)"
    and "DefaultRouter \<in> set (mediaRenderRouters c)" and "DefaultRouter \<in> set (callRenderRouters c)"
    and "audioDeviceRefinerCb c = None"
    and "renderConfigMap c u \<in> {Some ''MediaRenderRouters'', Some ''ToneRenderRouters'', Some ''CallRenderRouters''}"
  shows "\<exists>d. FetchOutputDevices c v u uid = Inr [d] \<and> deviceType d \<noteq> DEVICE_TYPE_NONE"
proof -
  have media: "deviceType (fst (FetchMediaRenderDevice c v u' uid rt)) \<noteq> DEVICE_TYPE_NONE"
    and call: "deviceType (fst (FetchCallRenderDevice c v u' uid rt)) \<noteq> DEVICE_TYPE_NONE" for u' rt
    using first_device_answers [OF assms(3)] first_device_answers [OF assms(4)] default_answers [OF assms(2,1)]
    by (simp_all add: FetchMediaRenderDevice_def FetchCallRenderDevice_def)
  show ?thesis using assms(6)
    by (auto simp: FetchOutputDevices_def config_is_def Let_def refine_plain [OF assms(5)] no_package_router media call)
qed

definition shipped_strategies :: "(string \<times> string) list" where
  "shipped_strategies =
    [(''MEDIA_RENDER'', ''AppSelectRouter,UserSelectRouter,PrivacyPriorityRouter,PublicPriorityRouter,StreamFilterRouter,DefaultRouter''),
     (''CALL_RENDER'', ''AppSelectRouter,UserSelectRouter,PrivacyPriorityRouter,CockpitPhoneRouter,StreamFilterRouter,DefaultRouter''),
     (''RING_RENDER'', ''AppSelectRouter,UserSelectRouter,PrivacyPriorityRouter,PublicPriorityRouter,StreamFilterRouter,DefaultRouter''),
     (''TONE_RENDER'', ''AppSelectRouter,UserSelectRouter,PrivacyPriorityRouter,PublicPriorityRouter,StreamFilterRouter,DefaultRouter''),
     (''RECORD_CAPTURE'', ''AppSelectRouter,UserSelectRouter,PrivacyPriorityRouter,PublicPriorityRouter,StreamFilterRouter,DefaultRouter''),
     (''CALL_CAPTURE'', ''AppSelectRouter,UserSelectRouter,PairDeviceRouter,PrivacyPriorityRouter,CockpitPhoneRouter,StreamFilterRouter,DefaultRouter''),
     (''VOICE_MESSAGE'', ''StreamFilterRouter,DefaultRouter'')]"

definition shipped_usages :: "(string \<times> string) list" where
  "shipped_usages =
    [(''MEDIA_RENDER'', ''STREAM_USAGE_UNKNOWN,STREAM_USAGE_MEDIA,STREAM_USAGE_MUSIC,STREAM_USAGE_MOVIE,STREAM_USAGE_GAME,STREAM_USAGE_AUDIOBOOK,STREAM_USAGE_NAVIGATION,STREAM_USAGE_ULTRASONIC,STREAM_USAGE_VOICE_MESSAGE''),
     (''CALL_RENDER'', ''STREAM_USAGE_VOICE_COMMUNICATION,STREAM_USAGE_VOICE_MODEM_COMMUNICATION,STREAM_USAGE_VIDEO_COMMUNICATION,         STREAM_USAGE_VOICE_CALL_ASSISTANT''),
     (''RING_RENDER'', ''STREAM_USAGE_ALARM,STREAM_USAGE_NOTIFICATION_RINGTONE,STREAM_USAGE_RINGTONE,STREAM_USAGE_RANGING,STREAM_USAGE_VOICE_RINGTONE''),
     (''TONE_RENDER'', ''STREAM_USAGE_NOTIFICATION,STREAM_USAGE_ACCESSIBILITY,STREAM_USAGE_SYSTEM,STREAM_USAGE_DTMF,STREAM_USAGE_ENFORCED_TONE,STREAM_USAGE_VOICE_ASSISTANT'')]"

definition shipped_sources :: "(string \<times> string) list" where
  "shipped_sources =
    [(''RECORD_CAPTURE'', ''SOURCE_TYPE_MIC,SOURCE_TYPE_VOICE_RECOGNITION,SOURCE_TYPE_ULTRASONIC,SOURCE_TYPE_VOICE_TRANSCRIPTION''),
     (''CALL_CAPTURE'', ''SOURCE_TYPE_VOICE_COMMUNICATION,SOURCE_TYPE_VIRTUAL_CAPTURE,SOURCE_TYPE_VOICE_CALL''),
     (''VOICE_MESSAGE'', ''SOURCE_TYPE_VOICE_MESSAGE'')]"

definition shipped_center :: AudioRouterCenter where
  "shipped_center = AudioRouterCenter_ctor STREAM_USAGE_UNKNOWN SOURCE_TYPE_MIC shipped_strategies shipped_usages shipped_sources"

lemma shipped_routers:
  "mediaRenderRouters shipped_center =
     [AppSelectRouter, UserSelectRouter, PrivacyPriorityRouter, PublicPriorityRouter, StreamFilterRouter, DefaultRouter]"
  "callRenderRouters shipped_center =
     [AppSelectRouter, UserSelectRouter, PrivacyPriorityRouter, CockpitPhoneRouter, StreamFilterRouter, DefaultRouter]"
  "renderConfigMap shipped_center STREAM_USAGE_MUSIC = Some ''MediaRenderRouters''"
  by code_simp+

lemma shipped_no_refiner: "audioDeviceRefinerCb shipped_center = None"
  by code_simp

definition default_ops :: "DeviceOp list" where
  "default_ops = [OpAdd (demo_device DEVICE_TYPE_SPEAKER OUTPUT_DEVICE [] 0) 1,
     OpAdd (demo_device DEVICE_TYPE_EARPIECE OUTPUT_DEVICE [] 0) 2]"

theorem every_stream_is_routed_witness:
  "\<exists>d. FetchOutputDevices shipped_center (demo_view (device_run default_ops)) STREAM_USAGE_MUSIC 7 = Inr [d] \<and>
     deviceType d \<noteq> DEVICE_TYPE_NONE"
proof (rule every_stream_is_routed)
  show "has_defaults (device_run default_ops)" by code_simp
qed (simp_all add: shipped_routers shipped_no_refiner)

text \<open>
  Under the shipped configuration exactly one usage has no router: the assistant in a call. The
  line break in its attribute is read as part of its name, which no table holds, and its streams
  are given a device of no type whatever is connected.
\<close>

theorem voice_call_assistant_unrouted:
  "filter (\<lambda>u. renderConfigMap shipped_center u = None) (map snd streamUsageMap) = [STREAM_USAGE_VOICE_CALL_ASSISTANT] \<and>
   FetchOutputDevices shipped_center v STREAM_USAGE_VOICE_CALL_ASSISTANT uid = Inr [AudioDeviceDescriptor_ctor]"
proof
  have "renderConfigMap shipped_center STREAM_USAGE_VOICE_CALL_ASSISTANT = None" by code_simp
  then show "FetchOutputDevices shipped_center v STREAM_USAGE_VOICE_CALL_ASSISTANT uid = Inr [AudioDeviceDescriptor_ctor]"
    by (simp add: FetchOutputDevices_def config_is_def)
  show "filter (\<lambda>u. renderConfigMap shipped_center u = None) (map snd streamUsageMap) = [STREAM_USAGE_VOICE_CALL_ASSISTANT]"
    by code_simp
qed

section \<open>The choice of the user\<close>

definition same_device :: "AudioDeviceDescriptor \<Rightarrow> AudioDeviceDescriptor \<Rightarrow> bool" where
  "same_device d e \<longleftrightarrow> deviceRole d = deviceRole e \<and> deviceType d = deviceType e \<and> networkId d = networkId e \<and>
     macAddress d = macAddress e"

lemma pair_found:
  assumes "e \<in> set ds" and "same_device e d" and "usable e"
  shows "GetPairCaptureDevice d ds \<in> set ds \<and> same_device (GetPairCaptureDevice d ds) d \<and> usable (GetPairCaptureDevice d ds)"
proof -
  define P where "P = (\<lambda>c. deviceRole c = deviceRole d \<and> deviceType c = deviceType d \<and> networkId c = networkId d \<and>
    macAddress c = macAddress d \<and> usable c)"
  have "P e" using assms(2,3) by (simp add: P_def same_device_def)
  then obtain c where c: "find P ds = Some c" using assms(1) by (cases "find P ds") (auto simp: find_None_iff)
  then have "c \<in> set ds" "P c" by (auto simp: find_Some_iff)
  moreover have "GetPairCaptureDevice d ds = c" using c by (simp add: GetPairCaptureDevice_def P_def)
  ultimately show ?thesis by (simp add: P_def same_device_def)
qed

text \<open>
  C14: outside calls the device the user chose for media is the one a media stream plays on, as
  long as it is available and usable and the application has no choice of its own, whatever else
  is connected. The first two media routers are those of the shipped configuration, and no refiner
  callback is registered.
\<close>

theorem user_choice_is_used:
  assumes "mediaRenderRouters c = AppSelectRouter # UserSelectRouter # routers" and "audioDeviceRefinerCb c = None"
    and "renderConfigMap c u = Some ''MediaRenderRouters''" and "\<not> is_ring u" and "\<not> media_follows_call v"
    and "map_of (activeRendererDeviceMap (affinities v)) uid = None"
    and "preferredMediaRenderDevice (preferences v) = Some r" and "deviceId (heap (devices v) r) \<noteq> 0"
    and "deviceType (heap (devices v) r) \<noteq> DEVICE_TYPE_NONE"
    and "e \<in> set (GetAvailableDevicesByUsage MEDIA_OUTPUT_DEVICES (devices v))"
    and "same_device e (heap (devices v) r)" and "usable e"
  shows "\<exists>d. FetchOutputDevices c v u uid = Inr [d] \<and> same_device d (heap (devices v) r) \<and> usable d \<and>
    d \<in> set (GetAvailableDevicesByUsage MEDIA_OUTPUT_DEVICES (devices v))"
proof -
  let ?p = "AudioDeviceDescriptor_copy (heap (devices v) r)"
    and ?av = "GetAvailableDevicesByUsage MEDIA_OUTPUT_DEVICES (devices v)"
  have same: "same_device d ?p = same_device d (heap (devices v) r)" for d by (simp add: same_device_def)
  note found = pair_found [OF assms(10), of ?p, unfolded same, OF assms(11,12)]
  have user: "UserSelect_GetMediaRenderDevice v u = GetPairCaptureDevice ?p ?av"
    using assms(4,7,8) by (auto simp: UserSelect_GetMediaRenderDevice_def user_select_def deref_def is_ring_def
        GetPreferredMediaRenderDevice_def)
  have app: "AppSelect_renderer v uid = AudioDeviceDescriptor_ctor"
    using assms(6) by (simp add: AppSelect_renderer_def GetRendererDevice_def)
  have "deviceType (GetPairCaptureDevice ?p ?av) \<noteq> DEVICE_TYPE_NONE"
    using found assms(9) by (simp add: same_device_def)
  then have "FetchMediaRenderDevice c v u uid ROUTER_TYPE_NONE = (GetPairCaptureDevice ?p ?av, ROUTER_TYPE_USER_SELECT)"
    using first_device_skips [of "[AppSelectRouter]" "\<lambda>r. GetMediaRenderDevice r v u uid" UserSelectRouter routers]
    by (simp add: FetchMediaRenderDevice_def assms(1) user app)
  then have "FetchOutputDevices c v u uid = Inr [GetPairCaptureDevice ?p ?av]"
    by (simp add: FetchOutputDevices_def config_is_def assms(3,5) refine_output_def assms(2))
  then show ?thesis using found by blast
qed

definition user_ops :: "DeviceOp list" where
  "user_ops = [OpXml shipped_privacy, OpAdd ((demo_device DEVICE_TYPE_SPEAKER OUTPUT_DEVICE [] 0)\<lparr>deviceId := 1\<rparr>) 1,
     OpAdd ((demo_device DEVICE_TYPE_WIRED_HEADSET OUTPUT_DEVICE [] 0)\<lparr>deviceId := 2\<rparr>) 2]"

definition user_view :: RouterView where
  "user_view = (let v = demo_view (device_run user_ops) in
     v\<lparr>preferences := SetPreferredMediaRenderDevice (speaker (devices v)) (preferences v)\<rparr>)"

theorem user_choice_is_used_witness:
  "\<exists>d. FetchOutputDevices shipped_center user_view STREAM_USAGE_MUSIC 7 = Inr [d] \<and> deviceType d = DEVICE_TYPE_SPEAKER"
proof -
  obtain r where r: "speaker (device_run user_ops) = Some r"
    and h: "deviceId (heap (devices user_view) r) \<noteq> 0" "deviceType (heap (devices user_view) r) = DEVICE_TYPE_SPEAKER"
    "same_device (hd (GetAvailableDevicesByUsage MEDIA_OUTPUT_DEVICES (devices user_view))) (heap (devices user_view) r)"
    "usable (hd (GetAvailableDevicesByUsage MEDIA_OUTPUT_DEVICES (devices user_view)))"
    "hd (GetAvailableDevicesByUsage MEDIA_OUTPUT_DEVICES (devices user_view))
       \<in> set (GetAvailableDevicesByUsage MEDIA_OUTPUT_DEVICES (devices user_view))"
  proof -
    have "speaker (device_run user_ops) = Some 0 \<and> deviceId (heap (devices user_view) 0) \<noteq> 0 \<and>
      deviceType (heap (devices user_view) 0) = DEVICE_TYPE_SPEAKER \<and>
      same_device (hd (GetAvailableDevicesByUsage MEDIA_OUTPUT_DEVICES (devices user_view))) (heap (devices user_view) 0) \<and>
      usable (hd (GetAvailableDevicesByUsage MEDIA_OUTPUT_DEVICES (devices user_view))) \<and>
      hd (GetAvailableDevicesByUsage MEDIA_OUTPUT_DEVICES (devices user_view))
       \<in> set (GetAvailableDevicesByUsage MEDIA_OUTPUT_DEVICES (devices user_view))" by code_simp
    then show ?thesis using that [of 0] by blast
  qed
  have v: "preferredMediaRenderDevice (preferences user_view) = Some r" "\<not> media_follows_call user_view"
    "map_of (activeRendererDeviceMap (affinities user_view)) 7 = None"
    by (simp_all add: user_view_def Let_def SetPreferredMediaRenderDevice_def r media_follows_call_def
        AudioAffinityManager_ctor_def)
  have "\<exists>d. FetchOutputDevices shipped_center user_view STREAM_USAGE_MUSIC 7 = Inr [d] \<and>
      same_device d (heap (devices user_view) r) \<and> usable d \<and>
      d \<in> set (GetAvailableDevicesByUsage MEDIA_OUTPUT_DEVICES (devices user_view))"
    by (rule user_choice_is_used [OF shipped_routers(1) shipped_no_refiner shipped_routers(3) _ v(2,3,1) h(1) _ h(5,3,4)])
      (simp_all add: is_ring_def h(2))
  then show ?thesis using h(2) by (auto simp: same_device_def)
qed

section \<open>Lists of routers\<close>

fun config_name :: "Router \<Rightarrow> string" where
  "config_name AppSelectRouter = ''AppSelectRouter''"
| "config_name UserSelectRouter = ''UserSelectRouter''"
| "config_name PrivacyPriorityRouter = ''PrivacyPriorityRouter''"
| "config_name PublicPriorityRouter = ''PublicPriorityRouter''"
| "config_name StreamFilterRouter = ''StreamFilterRouter''"
| "config_name DefaultRouter = ''DefaultRouter''"
| "config_name CockpitPhoneRouter = ''CockpitPhoneRouter''"
| "config_name PairDeviceRouter = ''PairDeviceRouter''"
| "config_name PackageFilterRouter = ''PackageFilterRouter''"

fun join_config :: "string list \<Rightarrow> string" where
  "join_config [] = []"
| "join_config [n] = n"
| "join_config (n # ns) = n @ CHR '','' # join_config ns"

lemma split_at_name:
  "CHR '','' \<notin> set n \<Longrightarrow> split_at (CHR '','') acc n = [rev acc @ n]"
  "CHR '','' \<notin> set n \<Longrightarrow> split_at (CHR '','') acc (n @ CHR '','' # rest) = (rev acc @ n) # split_at (CHR '','') [] rest"
  by (induction n arbitrary: acc) auto

lemma split_join:
  "\<forall>n\<in>set ns. CHR '','' \<notin> set n \<Longrightarrow> split_config (join_config ns) = (if ns = [] then [[]] else ns)"
  by (induction ns rule: join_config.induct) (auto simp: split_config_def split_at_name)

text \<open>
  A list of routers written as a line of names is read back as the same list, in its order;
  only the package filter router has no name the center knows.
\<close>

theorem router_list_roundtrip:
  "AddRouters (join_config (map config_name rs)) = filter (\<lambda>r. r \<noteq> PackageFilterRouter) rs"
proof -
  have "CHR '','' \<notin> set (config_name r)" for r by (cases r) simp_all
  then have "split_config (join_config (map config_name rs)) = (if rs = [] then [[]] else map config_name rs)"
    by (subst split_join) auto
  then show ?thesis
  proof (cases "rs = []")
    case False
    have "concat (map (\<lambda>name.
       if name = ''AppSelectRouter'' then [AppSelectRouter]
       else if name = ''UserSelectRouter'' then [UserSelectRouter]
       else if name = ''PrivacyPriorityRouter'' then [PrivacyPriorityRouter]
       else if name = ''PublicPriorityRouter'' then [PublicPriorityRouter]
       else if name = ''StreamFilterRouter'' then [StreamFilterRouter]
       else if name = ''DefaultRouter'' then [DefaultRouter]
       else if name = ''CockpitPhoneRouter'' then [CockpitPhoneRouter]
       else if name = ''PairDeviceRouter'' then [PairDeviceRouter]
       else []) (map config_name rs)) = filter (\<lambda>r. r \<noteq> PackageFilterRouter) rs"
    proof (induction rs)
      case (Cons r rs)
      then show ?case by (cases r) simp_all
    qed simp
    with False \<open>split_config _ = _\<close> show ?thesis by (simp only: AddRouters_def if_False)
  qed (simp add: AddRouters_def)
qed

section \<open>The choices of applications\<close>

text \<open>
  The device an application chose for playing is the one it gets until the choice is deleted,
  and then none; the choices of the other applications stay as they are, and neither step faults.
\<close>

theorem app_choice_roundtrip:
  "\<exists>chosen deleted. AddSelectRendererDevice now uid (Some r) s a = Inr chosen \<and>
     DelSelectRendererDevice uid s chosen = Inr deleted \<and>
     GetRendererDevice x s chosen =
       (if x = uid then AudioDeviceDescriptor_copy (heap s r) else GetRendererDevice x s a) \<and>
     GetRendererDevice x s deleted =
       (if x = uid then AudioDeviceDescriptor_ctor else GetRendererDevice x s a)"
proof -
  obtain i where "GetAffinityDeviceInfoByDeviceType True (rendererAffinityDeviceArray a)
      (deviceType (heap s r)) (networkId (heap s r)) = Inr i"
    using affinity_search_total by blast
  then show ?thesis
    by (simp add: AddSelectRendererDevice_def DelSelectRendererDevice_def DelActiveGroupAffinityMap_def
        GetRendererDevice_def update_conv' delete_conv')
qed

text \<open>
  An application's choice of a capture device that the configuration does not list reads past
  the end of the configuration, unless the configuration is empty: the loop over the capture
  devices looks for the end of the render devices.
\<close>

theorem capturer_choice_reads_past_end:
  assumes "rendererAffinityDeviceArray a \<noteq> [] \<or> capturerAffinityDeviceArray a \<noteq> []"
    and "\<forall>i\<in>set (capturerAffinityDeviceArray a).
           \<not> (affinityNetwork i = networkId (heap s r) \<and> affinityType i = deviceType (heap s r))"
  shows "AddSelectCapturerDevice now uid (Some r) s a = Inl UncheckedAccess"
  using affinity_search_missing [OF assms(2)] assms(1)
  by (auto simp: AddSelectCapturerDevice_def capturer_stops_def)

theorem capturer_choice_reads_past_end_witness:
  "AddSelectCapturerDevice 0 7 (Some 0) AudioDeviceManager_ctor
     (affinity_OnXmlParsingCompleted [AffinityDeviceInfo_zero\<lparr>deviceFlag := OUTPUT_DEVICES_FLAG\<rparr>] AudioAffinityManager_ctor)
   = Inl UncheckedAccess"
  by (rule capturer_choice_reads_past_end)
    (simp_all add: affinity_OnXmlParsingCompleted_def AudioAffinityManager_ctor_def AffinityDeviceInfo_zero_def)

end
