(* ===== verification/Parcels.thy ===== *)
theory Parcels
  imports Prelude "HOL-Library.State_Monad"
begin

text \<open>
  How the framework's structures cross a process boundary. The parcel itself belongs to the
  inter-process library, whose code is not in the repository: it is an argument, a record of its
  typed write and read calls over a state \<^typ>\<open>'p\<close>, and what the code relies on is the predicate
  \<open>parcel_fifo\<close>: a write appends one item, a read of the same width takes the first. Signed and
  unsigned integers of one width are the same item, as the library documents.

  A writer is a state action that yields the \<open>bool\<close> the C++ call returns. \<open>write_all\<close> is a chain
  of \<open>&&\<close>, which stops at the first failure; \<open>write_each\<close> is a sequence of calls whose results
  nobody looks at.
\<close>

section \<open>The parcel\<close>

record 'p Parcel =
  WriteInt32 :: "s32 \<Rightarrow> ('p, bool) state"
  WriteUint32 :: "u32 \<Rightarrow> ('p, bool) state"
  WriteUint64 :: "u64 \<Rightarrow> ('p, bool) state"
  WriteUint8 :: "u8 \<Rightarrow> ('p, bool) state"
  WriteBool :: "bool \<Rightarrow> ('p, bool) state"
  WriteString :: "string \<Rightarrow> ('p, bool) state"
  ReadInt32 :: "('p, s32) state"
  ReadUint32 :: "('p, u32) state"
  ReadUint64 :: "('p, u64) state"
  ReadUint8 :: "('p, u8) state"
  ReadBool :: "('p, bool) state"
  ReadString :: "('p, string) state"

fun write_all :: "('p, bool) state list \<Rightarrow> ('p, bool) state" where
  "write_all [] = State_Monad.return True"
| "write_all (w # ws) =
     do { ok \<leftarrow> w; if ok then write_all ws else State_Monad.return False }"

fun write_each :: "('p, bool) state list \<Rightarrow> ('p, unit) state" where
  "write_each [] = State_Monad.return ()"
| "write_each (w # ws) = do { _ \<leftarrow> w; write_each ws }"

datatype parcel_item = I32 u32 | I64 u64 | I8 u8 | IBool bool | IStr string

text \<open>\<open>puts pend w its v\<close>: the action appends these items and its value is \<open>v\<close>; \<open>yields pend r its v\<close>:
  the action takes them off the front and its value is \<open>v\<close>. \<open>pend\<close> tells what is still unread.\<close>

definition puts :: "('p \<Rightarrow> parcel_item list) \<Rightarrow> ('p, 'a) state \<Rightarrow> parcel_item list \<Rightarrow> 'a \<Rightarrow> bool" where
  "puts pend w its v \<longleftrightarrow> (\<forall>p. \<exists>p'. run_state w p = (v, p') \<and> pend p' = pend p @ its)"

abbreviation emits :: "('p \<Rightarrow> parcel_item list) \<Rightarrow> ('p, bool) state \<Rightarrow> parcel_item list \<Rightarrow> bool" where
  "emits pend w its \<equiv> puts pend w its True"

definition yields :: "('p \<Rightarrow> parcel_item list) \<Rightarrow> ('p, 'a) state \<Rightarrow> parcel_item list \<Rightarrow> 'a \<Rightarrow> bool" where
  "yields pend r its v \<longleftrightarrow>
     (\<forall>p rest. pend p = its @ rest \<longrightarrow> (\<exists>p'. run_state r p = (v, p') \<and> pend p' = rest))"

definition parcel_fifo :: "'p Parcel \<Rightarrow> ('p \<Rightarrow> parcel_item list) \<Rightarrow> bool" where
  "parcel_fifo P pend \<longleftrightarrow>
     (\<forall>v. emits pend (WriteInt32 P v) [I32 v]) \<and> (\<forall>v. emits pend (WriteUint32 P v) [I32 v]) \<and>
     (\<forall>v. emits pend (WriteUint64 P v) [I64 v]) \<and> (\<forall>v. emits pend (WriteUint8 P v) [I8 v]) \<and>
     (\<forall>v. emits pend (WriteBool P v) [IBool v]) \<and> (\<forall>v. emits pend (WriteString P v) [IStr v]) \<and>
     (\<forall>v. yields pend (ReadInt32 P) [I32 v] v) \<and> (\<forall>v. yields pend (ReadUint32 P) [I32 v] v) \<and>
     (\<forall>v. yields pend (ReadUint64 P) [I64 v] v) \<and> (\<forall>v. yields pend (ReadUint8 P) [I8 v] v) \<and>
     (\<forall>v. yields pend (ReadBool P) [IBool v] v) \<and> (\<forall>v. yields pend (ReadString P) [IStr v] v)"

section \<open>Reading back what was written\<close>

named_theorems parcel_rules \<open>what each call writes and reads\<close>

lemma fifo_writes [parcel_rules]:
  assumes "parcel_fifo P pend"
  shows "emits pend (WriteInt32 P v) [I32 v]" and "emits pend (WriteUint32 P v) [I32 v]"
    and "emits pend (WriteUint64 P w) [I64 w]" and "emits pend (WriteUint8 P c) [I8 c]"
    and "emits pend (WriteBool P b) [IBool b]" and "emits pend (WriteString P s) [IStr s]"
  using assms unfolding parcel_fifo_def by simp_all

lemma fifo_reads:
  assumes "parcel_fifo P pend"
  shows "yields pend (ReadInt32 P) [I32 v] v" and "yields pend (ReadUint32 P) [I32 v] v"
    and "yields pend (ReadUint64 P) [I64 w] w" and "yields pend (ReadUint8 P) [I8 c] c"
    and "yields pend (ReadBool P) [IBool b] b" and "yields pend (ReadString P) [IStr s] s"
  using assms unfolding parcel_fifo_def by simp_all

lemma yields_return [parcel_rules]: "v = w \<Longrightarrow> yields pend (State_Monad.return v) [] w"
  by (simp add: yields_def)

lemma yields_bind:
  assumes "yields pend r its v" and "yields pend (f v) js w" and "ks = its @ js"
  shows "yields pend (do { x \<leftarrow> r; f x }) ks w"
  using assms unfolding yields_def by fastforce

lemma yields_bind_item:
  assumes "yields pend r [i] v" and "yields pend (f v) its w"
  shows "yields pend (do { x \<leftarrow> r; f x }) (i # its) w"
  using assms by (rule yields_bind) simp

lemma fifo_reads_bind [parcel_rules]:
  assumes "parcel_fifo P pend"
  shows "yields pend (f1 v) its x \<Longrightarrow> yields pend (do { y \<leftarrow> ReadInt32 P; f1 y }) (I32 v # its) x"
    and "yields pend (f1 v) its x \<Longrightarrow> yields pend (do { y \<leftarrow> ReadUint32 P; f1 y }) (I32 v # its) x"
    and "yields pend (f2 w) its x \<Longrightarrow> yields pend (do { y \<leftarrow> ReadUint64 P; f2 y }) (I64 w # its) x"
    and "yields pend (f3 c) its x \<Longrightarrow> yields pend (do { y \<leftarrow> ReadUint8 P; f3 y }) (I8 c # its) x"
    and "yields pend (f4 b) its x \<Longrightarrow> yields pend (do { y \<leftarrow> ReadBool P; f4 y }) (IBool b # its) x"
    and "yields pend (f5 s) its x \<Longrightarrow> yields pend (do { y \<leftarrow> ReadString P; f5 y }) (IStr s # its) x"
  by (auto intro!: yields_bind_item fifo_reads [OF assms])

lemma puts_return [parcel_rules]: "v = w \<Longrightarrow> puts pend (State_Monad.return v) [] w"
  by (simp add: puts_def)

lemma puts_bind:
  assumes "puts pend w its v" and "puts pend (f v) js x" and "ks = its @ js"
  shows "puts pend (do { y \<leftarrow> w; f y }) ks x"
  unfolding puts_def
proof
  fix p
  obtain p1 where p1: "run_state w p = (v, p1)" "pend p1 = pend p @ its"
    using assms(1) unfolding puts_def by blast
  obtain p2 where "run_state (f v) p1 = (x, p2)" "pend p2 = pend p1 @ js"
    using assms(2) unfolding puts_def by blast
  with p1 assms(3) show "\<exists>p'. run_state (do { y \<leftarrow> w; f y }) p = (x, p') \<and> pend p' = pend p @ ks"
    by simp
qed

lemma puts_then_return [parcel_rules]:
  assumes "puts pend w its ()"
  shows "puts pend (do { _ \<leftarrow> w; State_Monad.return x }) its x"
  using assms puts_return [OF refl, of pend x] by (rule puts_bind) simp

lemma emits_all_Nil [parcel_rules]: "emits pend (write_all []) []"
  by (simp add: puts_return)

lemma emits_all_item [parcel_rules]:
  assumes "emits pend w [i]" and "emits pend (write_all ws) its"
  shows "emits pend (write_all (w # ws)) (i # its)"
  unfolding write_all.simps by (rule puts_bind [OF assms(1)]) (simp_all add: assms(2))

lemma emits_all_part [parcel_rules]:
  assumes "emits pend w js" and "emits pend (write_all ws) its"
  shows "emits pend (write_all (w # ws)) (js @ its)"
  unfolding write_all.simps by (rule puts_bind [OF assms(1)]) (simp_all add: assms(2))

lemma puts_each_Nil [parcel_rules]: "puts pend (write_each []) [] ()"
  by (simp add: puts_return)

lemma puts_each_item [parcel_rules]:
  assumes "emits pend w [i]" and "puts pend (write_each ws) its ()"
  shows "puts pend (write_each (w # ws)) (i # its) ()"
  unfolding write_each.simps by (rule puts_bind [OF assms(1)]) (simp_all add: assms(2))

lemma puts_each_map [parcel_rules]:
  assumes "\<And>x. emits pend (w x) [i x]" and "puts pend (write_each ws) its ()"
  shows "puts pend (write_each (map w xs @ ws)) (map i xs @ its) ()"
  using assms(2) by (induction xs) (simp_all add: puts_each_item assms(1) del: write_each.simps(2))

lemma emits_all_map [parcel_rules]:
  assumes "\<And>x. emits pend (w x) [i x]"
  shows "emits pend (write_all (map w xs)) (map i xs)"
  by (induction xs) (simp_all add: emits_all_item emits_all_Nil assms del: write_all.simps)

text \<open>A list written element by element is read back by as many reads.\<close>

lemma yields_traverse:
  assumes "\<And>x. x \<in> set xs \<Longrightarrow> yields pend r [i x] (g x)" and "length ns = length xs"
  shows "yields pend (traverse_list (\<lambda>_. r) ns) (map i xs) (map g xs)"
  using assms
proof (induction xs arbitrary: ns)
  case (Cons x xs)
  then obtain n ns' where ns: "ns = n # ns'" "length ns' = length xs" by (cases ns) auto
  have "yields pend (traverse_list (\<lambda>_. r) ns') (map i xs) (map g xs)"
    using Cons ns by simp
  then show ?case
    unfolding ns by (auto intro!: yields_bind_item Cons.prems yields_bind [where js = "[]"] yields_return)
qed (simp add: yields_return)

text \<open>A round trip: what one process writes into an empty parcel the other one reads.\<close>

lemma roundtrip:
  assumes "puts pend w its x" and "yields pend r its v" and "pend p = []"
  shows "\<exists>p' p''. run_state w p = (x, p') \<and> run_state r p' = (v, p'') \<and> pend p'' = []"
  using assms unfolding puts_def yields_def by (metis append_Nil append_Nil2)

section \<open>An instance\<close>

text \<open>A queue of items, to evaluate the model on: reads of a missing or different item yield the
  default the library gives.\<close>

fun take_item :: "(parcel_item \<Rightarrow> 'a option) \<Rightarrow> 'a \<Rightarrow> (parcel_item list, 'a) state" where
  "take_item sel dflt = State (\<lambda>p. case p of
     [] \<Rightarrow> (dflt, []) | i # q \<Rightarrow> (case sel i of Some v \<Rightarrow> (v, q) | None \<Rightarrow> (dflt, p)))"

definition put_item :: "parcel_item \<Rightarrow> (parcel_item list, bool) state" where
  "put_item i = State (\<lambda>p. (True, p @ [i]))"

definition queue_parcel :: "parcel_item list Parcel" where
  "queue_parcel =
     \<lparr>WriteInt32 = put_item \<circ> I32, WriteUint32 = put_item \<circ> I32, WriteUint64 = put_item \<circ> I64,
      WriteUint8 = put_item \<circ> I8, WriteBool = put_item \<circ> IBool, WriteString = put_item \<circ> IStr,
      ReadInt32 = take_item (\<lambda>i. case i of I32 v \<Rightarrow> Some v | _ \<Rightarrow> None) 0,
      ReadUint32 = take_item (\<lambda>i. case i of I32 v \<Rightarrow> Some v | _ \<Rightarrow> None) 0,
      ReadUint64 = take_item (\<lambda>i. case i of I64 v \<Rightarrow> Some v | _ \<Rightarrow> None) 0,
      ReadUint8 = take_item (\<lambda>i. case i of I8 v \<Rightarrow> Some v | _ \<Rightarrow> None) 0,
      ReadBool = take_item (\<lambda>i. case i of IBool v \<Rightarrow> Some v | _ \<Rightarrow> None) False,
      ReadString = take_item (\<lambda>i. case i of IStr v \<Rightarrow> Some v | _ \<Rightarrow> None) []\<rparr>"

lemma queue_parcel_fifo: "parcel_fifo queue_parcel id"
  by (simp add: parcel_fifo_def queue_parcel_def puts_def yields_def put_item_def)

end
