(* ===== verification/ProcessConfig.thy ===== *)
theory ProcessConfig
  imports Parcels
begin

text \<open>
  What a client sends when it creates a stream: the configurations of \<open>audio_process_config.cpp\<close>
  and the structures of \<open>audio_info.h\<close> and \<open>audio_stream_info.h\<close> they are made of.

  A \<open>static_cast\<close> from the parcel gives an enumeration any value of its underlying type, so an
  enumeration is that value here: 32 bits, or 8 for the sample format and the channels, which travel
  as 32 bits and are cut when they are read. A structure is read into an existing one: the fields that
  do not travel keep the value the reader's structure had.
\<close>

type_synonym enum32 = s32

lemma ucast_back:
  assumes "LENGTH('e::len) \<le> 32"
  shows "ucast (ucast v :: s32) = (v :: 'e word)"
  by (rule bit_word_eqI) (use assms in \<open>auto simp: bit_simps\<close>)

lemma ucast_back_u8 [simp]: "ucast (ucast v :: s32) = (v :: u8)"
  by (rule ucast_back) simp

section \<open>Structures\<close>

record AudioStreamInfo =
  si_samplingRate :: enum32
  si_encoding :: enum32
  si_format :: u8
  si_channels :: u8
  si_channelLayout :: u64

record AudioRendererInfo =
  ri_contentType :: enum32
  ri_streamUsage :: enum32
  ri_rendererFlags :: s32
  ri_sceneType :: string
  ri_spatializationEnabled :: bool
  ri_headTrackingEnabled :: bool
  ri_originalFlag :: s32
  ri_pipeType :: enum32
  ri_samplingRate :: enum32
  ri_encodingType :: u8
  ri_channelLayout :: u64
  ri_format :: u8
  ri_isOffloadAllowed :: bool
  ri_isSatellite :: bool

record AudioCapturerInfo =
  ci_sourceType :: enum32
  ci_capturerFlags :: s32
  ci_originalFlag :: s32
  ci_pipeType :: enum32
  ci_samplingRate :: enum32
  ci_encodingType :: u8
  ci_channelLayout :: u64
  ci_sceneType :: string

record AppInfo =
  appUid :: s32
  appTokenId :: u32
  appPid :: s32
  appFullTokenId :: u64

record AudioProcessConfig =
  callerUid :: s32
  appInfo :: AppInfo
  streamInfo :: AudioStreamInfo
  pc_audioMode :: enum32
  rendererInfo :: AudioRendererInfo
  capturerInfo :: AudioCapturerInfo
  pc_streamType :: enum32
  pc_deviceType :: enum32
  isInnerCapturer :: bool
  isWakeupCapturer :: bool
  originalSessionId :: s32
  privacyType :: enum32
  innerCapMode :: u32

record CaptureFilterOptions =
  fo_usages :: "enum32 list"
  fo_usageFilterMode :: u32
  fo_pids :: "s32 list"
  fo_pidFilterMode :: u32

record AudioPlaybackCaptureConfig =
  filterOptions :: CaptureFilterOptions
  silentCapture :: bool

section \<open>The configuration of a process\<close>

definition WriteConfigToParcel :: "'p Parcel \<Rightarrow> AudioProcessConfig \<Rightarrow> ('p, err) state" where
  "WriteConfigToParcel P c = do {
     _ \<leftarrow> write_each
       [WriteInt32 P (appUid (appInfo c)), WriteUint32 P (appTokenId (appInfo c)),
        WriteInt32 P (appPid (appInfo c)), WriteUint64 P (appFullTokenId (appInfo c)),
        WriteInt32 P (si_samplingRate (streamInfo c)), WriteInt32 P (si_encoding (streamInfo c)),
        WriteInt32 P (ucast (si_format (streamInfo c))), WriteInt32 P (ucast (si_channels (streamInfo c))),
        WriteUint64 P (si_channelLayout (streamInfo c)),
        WriteInt32 P (pc_audioMode c),
        WriteInt32 P (ri_contentType (rendererInfo c)), WriteInt32 P (ri_streamUsage (rendererInfo c)),
        WriteInt32 P (ri_rendererFlags (rendererInfo c)), WriteInt32 P (ri_originalFlag (rendererInfo c)),
        WriteString P (ri_sceneType (rendererInfo c)),
        WriteBool P (ri_spatializationEnabled (rendererInfo c)),
        WriteBool P (ri_headTrackingEnabled (rendererInfo c)),
        WriteBool P (ri_isSatellite (rendererInfo c)), WriteInt32 P (ri_pipeType (rendererInfo c)),
        WriteInt32 P (privacyType c),
        WriteInt32 P (ci_sourceType (capturerInfo c)), WriteInt32 P (ci_capturerFlags (capturerInfo c)),
        WriteInt32 P (ci_originalFlag (capturerInfo c)), WriteInt32 P (ci_pipeType (capturerInfo c)),
        WriteInt32 P (pc_streamType c), WriteInt32 P (pc_deviceType c),
        WriteBool P (isInnerCapturer c), WriteBool P (isWakeupCapturer c),
        WriteInt32 P (originalSessionId c)];
     State_Monad.return SUCCESS }"

definition ReadConfigFromParcel ::
    "'p Parcel \<Rightarrow> AudioProcessConfig \<Rightarrow> ('p, err \<times> AudioProcessConfig) state" where
  "ReadConfigFromParcel P c = do {
     uid \<leftarrow> ReadInt32 P; token \<leftarrow> ReadUint32 P; pid \<leftarrow> ReadInt32 P; fullToken \<leftarrow> ReadUint64 P;
     rate \<leftarrow> ReadInt32 P; enc \<leftarrow> ReadInt32 P; fmt \<leftarrow> ReadInt32 P; chs \<leftarrow> ReadInt32 P;
     layout \<leftarrow> ReadUint64 P;
     md \<leftarrow> ReadInt32 P;
     content \<leftarrow> ReadInt32 P; usage \<leftarrow> ReadInt32 P; rflags \<leftarrow> ReadInt32 P; rorig \<leftarrow> ReadInt32 P;
     scene \<leftarrow> ReadString P; spat \<leftarrow> ReadBool P; head \<leftarrow> ReadBool P; satellite \<leftarrow> ReadBool P;
     rpipe \<leftarrow> ReadInt32 P;
     privacy \<leftarrow> ReadInt32 P;
     source \<leftarrow> ReadInt32 P; cflags \<leftarrow> ReadInt32 P; corig \<leftarrow> ReadInt32 P; cpipe \<leftarrow> ReadInt32 P;
     stream \<leftarrow> ReadInt32 P; device \<leftarrow> ReadInt32 P;
     inner \<leftarrow> ReadBool P; wakeup \<leftarrow> ReadBool P;
     orig \<leftarrow> ReadInt32 P;
     State_Monad.return (SUCCESS,
       c\<lparr>appInfo := \<lparr>appUid = uid, appTokenId = token, appPid = pid, appFullTokenId = fullToken\<rparr>,
         streamInfo := \<lparr>si_samplingRate = rate, si_encoding = enc, si_format = ucast fmt,
           si_channels = ucast chs, si_channelLayout = layout\<rparr>,
         pc_audioMode := md,
         rendererInfo := (rendererInfo c)\<lparr>ri_contentType := content, ri_streamUsage := usage,
           ri_rendererFlags := rflags, ri_originalFlag := rorig, ri_sceneType := scene,
           ri_spatializationEnabled := spat, ri_headTrackingEnabled := head,
           ri_isSatellite := satellite, ri_pipeType := rpipe\<rparr>,
         privacyType := privacy,
         capturerInfo := (capturerInfo c)\<lparr>ci_sourceType := source, ci_capturerFlags := cflags,
           ci_originalFlag := corig, ci_pipeType := cpipe\<rparr>,
         pc_streamType := stream, pc_deviceType := device,
         isInnerCapturer := inner, isWakeupCapturer := wakeup, originalSessionId := orig\<rparr>) }"

section \<open>The configuration of an inner capturer\<close>

definition MAX_VALID_USAGE_SIZE :: nat where [cfg_defs]: "MAX_VALID_USAGE_SIZE = 30"
definition MAX_VALID_PIDS_SIZE :: nat where [cfg_defs]: "MAX_VALID_PIDS_SIZE = 128"
definition MAX_FILTER_MODE :: u32 where [cfg_defs]: "MAX_FILTER_MODE = 2"

definition AUDIO_SUPPORTED_STREAM_USAGES :: "enum32 list" where [cfg_defs]:
  "AUDIO_SUPPORTED_STREAM_USAGES =
     [0, 1, 1, 2, 3, 4, 5, 6, 6, 7, 8, 9, 10, 11, 12, 13, 14, 15, 16, 17, 18, 19, 20, 21]"

definition WriteInnerCapConfigToParcel :: "'p Parcel \<Rightarrow> AudioPlaybackCaptureConfig \<Rightarrow> ('p, err) state" where
  "WriteInnerCapConfigToParcel P c =
     (let us = fo_usages (filterOptions c); ps = fo_pids (filterOptions c) in
      if \<not> length us < MAX_VALID_USAGE_SIZE then State_Monad.return ERR_INVALID_PARAM
      else do {
        _ \<leftarrow> write_each (WriteUint32 P (of_nat (length us)) # map (WriteInt32 P) us @
               [WriteUint32 P (fo_usageFilterMode (filterOptions c))]);
        if \<not> length ps \<le> MAX_VALID_PIDS_SIZE then State_Monad.return ERR_INVALID_PARAM
        else do {
          _ \<leftarrow> write_each (WriteUint32 P (of_nat (length ps)) # map (WriteUint32 P) ps @
                 [WriteUint32 P (fo_pidFilterMode (filterOptions c)), WriteBool P (silentCapture c)]);
          State_Monad.return SUCCESS } })"

text \<open>The two reading loops return at the first value they reject, \<open>None\<close> here.\<close>

fun read_checked :: "'p Parcel \<Rightarrow> (s32 \<Rightarrow> bool) \<Rightarrow> nat \<Rightarrow> ('p, s32 list option) state" where
  "read_checked P ok 0 = State_Monad.return (Some [])"
| "read_checked P ok (Suc n) = do {
     v \<leftarrow> ReadInt32 P;
     if \<not> ok v then State_Monad.return None
     else do { vs \<leftarrow> read_checked P ok n; State_Monad.return (map_option (Cons v) vs) } }"

abbreviation put_filter ::
    "AudioPlaybackCaptureConfig \<Rightarrow> (CaptureFilterOptions \<Rightarrow> CaptureFilterOptions) \<Rightarrow> AudioPlaybackCaptureConfig" where
  "put_filter c f \<equiv> c\<lparr>filterOptions := f (filterOptions c)\<rparr>"

definition ReadInnerCapConfigFromParcel ::
    "'p Parcel \<Rightarrow> AudioPlaybackCaptureConfig \<Rightarrow> ('p, err \<times> AudioPlaybackCaptureConfig) state" where
  "ReadInnerCapConfigFromParcel P c = do {
     usageSize \<leftarrow> ReadUint32 P;
     if unat usageSize > MAX_VALID_USAGE_SIZE then State_Monad.return (ERR_INVALID_PARAM, c)
     else do {
       us \<leftarrow> read_checked P (\<lambda>u. u \<in> set AUDIO_SUPPORTED_STREAM_USAGES) (unat usageSize);
       case us of None \<Rightarrow> State_Monad.return (ERR_INVALID_PARAM, c)
       | Some usages \<Rightarrow> (let c1 = put_filter c (\<lambda>fo. fo\<lparr>fo_usages := usages\<rparr>) in do {
         tempMode \<leftarrow> ReadUint32 P;
         if tempMode \<ge> MAX_FILTER_MODE then State_Monad.return (ERR_INVALID_PARAM, c1)
         else (let c2 = put_filter c1 (\<lambda>fo. fo\<lparr>fo_usageFilterMode := tempMode\<rparr>) in do {
           pidSize \<leftarrow> ReadUint32 P;
           if unat pidSize > MAX_VALID_PIDS_SIZE then State_Monad.return (ERR_INVALID_PARAM, c2)
           else do {
             ps \<leftarrow> read_checked P (\<lambda>tmpPid. \<not> tmpPid \<le>s 0) (unat pidSize);
             case ps of None \<Rightarrow> State_Monad.return (ERR_INVALID_PARAM, c2)
             | Some pids \<Rightarrow> (let c3 = put_filter c2 (\<lambda>fo. fo\<lparr>fo_pids := pids\<rparr>) in do {
               tempMode2 \<leftarrow> ReadUint32 P;
               if tempMode2 \<ge> MAX_FILTER_MODE then State_Monad.return (ERR_INVALID_PARAM, c3)
               else do {
                 silent \<leftarrow> ReadBool P;
                 State_Monad.return (SUCCESS,
                   (put_filter c3 (\<lambda>fo. fo\<lparr>fo_pidFilterMode := tempMode2\<rparr>))\<lparr>silentCapture := silent\<rparr>) } }) } }) }) } }"

section \<open>What arrives\<close>

text \<open>The wire format of a process configuration, item by item.\<close>

definition config_items :: "AudioProcessConfig \<Rightarrow> parcel_item list" where
  "config_items c =
     (let a = appInfo c; s = streamInfo c; r = rendererInfo c; k = capturerInfo c in
      [I32 (appUid a), I32 (appTokenId a), I32 (appPid a), I64 (appFullTokenId a),
       I32 (si_samplingRate s), I32 (si_encoding s), I32 (ucast (si_format s)), I32 (ucast (si_channels s)),
       I64 (si_channelLayout s), I32 (pc_audioMode c),
       I32 (ri_contentType r), I32 (ri_streamUsage r), I32 (ri_rendererFlags r),
       I32 (ri_originalFlag r), IStr (ri_sceneType r), IBool (ri_spatializationEnabled r),
       IBool (ri_headTrackingEnabled r), IBool (ri_isSatellite r), I32 (ri_pipeType r),
       I32 (privacyType c), I32 (ci_sourceType k), I32 (ci_capturerFlags k),
       I32 (ci_originalFlag k), I32 (ci_pipeType k), I32 (pc_streamType c), I32 (pc_deviceType c),
       IBool (isInnerCapturer c), IBool (isWakeupCapturer c), I32 (originalSessionId c)])"

lemma config_written:
  assumes "parcel_fifo P pend"
  shows "puts pend (WriteConfigToParcel P c) (config_items c) SUCCESS"
  unfolding WriteConfigToParcel_def config_items_def Let_def
  by (intro puts_then_return puts_each_item puts_each_Nil fifo_writes [OF assms])

text \<open>What a reader makes of it: the fields that do not travel are the reader's own.\<close>

definition received_config :: "AudioProcessConfig \<Rightarrow> AudioProcessConfig \<Rightarrow> AudioProcessConfig" where
  "received_config sent old =
     sent\<lparr>callerUid := callerUid old, innerCapMode := innerCapMode old,
       rendererInfo := (rendererInfo sent)\<lparr>
         ri_samplingRate := ri_samplingRate (rendererInfo old),
         ri_encodingType := ri_encodingType (rendererInfo old),
         ri_channelLayout := ri_channelLayout (rendererInfo old),
         ri_format := ri_format (rendererInfo old),
         ri_isOffloadAllowed := ri_isOffloadAllowed (rendererInfo old)\<rparr>,
       capturerInfo := (capturerInfo sent)\<lparr>
         ci_samplingRate := ci_samplingRate (capturerInfo old),
         ci_encodingType := ci_encodingType (capturerInfo old),
         ci_channelLayout := ci_channelLayout (capturerInfo old),
         ci_sceneType := ci_sceneType (capturerInfo old)\<rparr>\<rparr>"

lemma config_read:
  assumes "parcel_fifo P pend"
  shows "yields pend (ReadConfigFromParcel P old) (config_items c) (SUCCESS, received_config c old)"
  unfolding ReadConfigFromParcel_def config_items_def Let_def
  by (intro fifo_reads_bind [OF assms] yields_return) (simp add: received_config_def)

text \<open>
  C19: A process configuration survives the trip from the client to the server in every field that
  the server reads: what arrives is the configuration sent, except for the caller's uid, the
  inner-capture mode and the renderer's and capturer's sampling rate, encoding, layout, format,
  offload permission and capturer scene, which keep the values of the structure read into.
\<close>

theorem process_config_roundtrip:
  assumes "parcel_fifo P pend" and "pend p = []"
  shows "\<exists>p' p''. run_state (WriteConfigToParcel P sent) p = (SUCCESS, p') \<and>
           run_state (ReadConfigFromParcel P old) p' = ((SUCCESS, received_config sent old), p'') \<and>
           pend p'' = []"
  by (rule roundtrip [OF config_written [OF assms(1)] config_read [OF assms(1)] assms(2)])

subsection \<open>Inner capture\<close>

text \<open>What the reader insists on.\<close>

definition inner_cap_ok :: "AudioPlaybackCaptureConfig \<Rightarrow> bool" where
  "inner_cap_ok c \<longleftrightarrow>
     length (fo_usages (filterOptions c)) \<le> MAX_VALID_USAGE_SIZE \<and>
     set (fo_usages (filterOptions c)) \<subseteq> set AUDIO_SUPPORTED_STREAM_USAGES \<and>
     fo_usageFilterMode (filterOptions c) < MAX_FILTER_MODE \<and>
     length (fo_pids (filterOptions c)) \<le> MAX_VALID_PIDS_SIZE \<and>
     (\<forall>p \<in> set (fo_pids (filterOptions c)). 0 <s p) \<and>
     fo_pidFilterMode (filterOptions c) < MAX_FILTER_MODE"

definition inner_cap_items :: "AudioPlaybackCaptureConfig \<Rightarrow> parcel_item list" where
  "inner_cap_items c =
     (let f = filterOptions c in
      (I32 (of_nat (length (fo_usages f))) # map I32 (fo_usages f) @ [I32 (fo_usageFilterMode f)]) @
      (I32 (of_nat (length (fo_pids f))) # map I32 (fo_pids f) @ [I32 (fo_pidFilterMode f), IBool (silentCapture c)]))"

lemma read_checked_run:
  "run_state (read_checked P ok n) p = (Some vs, p') \<Longrightarrow> length vs = n \<and> (\<forall>v \<in> set vs. ok v)"
proof (induction n arbitrary: p vs)
  case (Suc n)
  then show ?case by (fastforce split: prod.splits if_splits)
qed simp

lemma read_checked_yields:
  assumes "parcel_fifo P pend" and "\<forall>v \<in> set vs. ok v" and "n = length vs"
  shows "yields pend (read_checked P ok n) (map I32 vs) (Some vs)"
  using assms(2,3)
proof (induction vs arbitrary: n)
  case (Cons v vs)
  then show ?case
    by (auto intro!: fifo_reads_bind(1) [OF assms(1)] yields_bind [where js = "[]"] yields_return)
qed (simp add: yields_return)

lemma inner_cap_written:
  assumes "parcel_fifo P pend" and "length (fo_usages (filterOptions c)) < MAX_VALID_USAGE_SIZE"
    and "length (fo_pids (filterOptions c)) \<le> MAX_VALID_PIDS_SIZE"
  shows "puts pend (WriteInnerCapConfigToParcel P c) (inner_cap_items c) SUCCESS"
proof -
  note writes = puts_each_item puts_each_map puts_each_Nil fifo_writes [OF assms(1)]
  show ?thesis
    unfolding WriteInnerCapConfigToParcel_def Let_def inner_cap_items_def
    apply (simp only: assms(2,3) not_True_eq_False if_False)
    apply (rule puts_bind [where v = "()", OF _ _ refl])
     apply (intro writes)
    apply (intro puts_then_return writes)
    done
qed

lemma inner_cap_read:
  assumes "parcel_fifo P pend" and "inner_cap_ok c"
  shows "yields pend (ReadInnerCapConfigFromParcel P old) (inner_cap_items c) (SUCCESS, c)"
proof -
  let ?f = "filterOptions c"
  have len: "unat (of_nat (length (fo_usages ?f)) :: u32) = length (fo_usages ?f)"
    "unat (of_nat (length (fo_pids ?f)) :: u32) = length (fo_pids ?f)"
    using assms(2) by (auto simp: inner_cap_ok_def cfg_defs unat_of_nat)
  have us: "yields pend (read_checked P (\<lambda>u. u \<in> set AUDIO_SUPPORTED_STREAM_USAGES) (length (fo_usages ?f)))
      (map I32 (fo_usages ?f)) (Some (fo_usages ?f))"
    using assms(2) by (intro read_checked_yields [OF assms(1)]) (auto simp: inner_cap_ok_def)
  have ps: "yields pend (read_checked P (\<lambda>tmpPid. \<not> tmpPid \<le>s 0) (length (fo_pids ?f)))
      (map I32 (fo_pids ?f)) (Some (fo_pids ?f))"
    using assms(2) by (intro read_checked_yields [OF assms(1)]) (auto simp: inner_cap_ok_def word_sle_eq word_sless_alt)
  have ok: "\<not> length (fo_usages ?f) > MAX_VALID_USAGE_SIZE" "\<not> length (fo_pids ?f) > MAX_VALID_PIDS_SIZE"
    "\<not> fo_usageFilterMode ?f \<ge> MAX_FILTER_MODE" "\<not> fo_pidFilterMode ?f \<ge> MAX_FILTER_MODE"
    using assms(2) by (auto simp: inner_cap_ok_def)
  note reads = fifo_reads_bind [OF assms(1)]
  show ?thesis
    unfolding ReadInnerCapConfigFromParcel_def inner_cap_items_def Let_def append_Cons append.assoc
    apply (rule reads(2), simp only: len ok if_False)
    apply (rule yields_bind [OF us _ refl], simp only: option.case append_Cons append_Nil)
    apply (rule reads(2), simp only: ok if_False)
    apply (rule reads(2), simp only: len ok if_False)
    apply (rule yields_bind [OF ps _ refl], simp only: option.case append_Cons append_Nil)
    apply (rule reads(2), simp only: ok if_False)
    apply (rule reads(5), rule yields_return, simp)
    done
qed

text \<open>
  A playback capture configuration with supported usages, positive pids, valid filter modes,
  at most 128 pids and fewer than 30 usages reaches the server unchanged.
\<close>

theorem inner_cap_config_roundtrip:
  assumes "parcel_fifo P pend" and "pend p = []" and "inner_cap_ok c"
    and "length (fo_usages (filterOptions c)) < MAX_VALID_USAGE_SIZE"
  shows "\<exists>p' p''. run_state (WriteInnerCapConfigToParcel P c) p = (SUCCESS, p') \<and>
           run_state (ReadInnerCapConfigFromParcel P old) p' = ((SUCCESS, c), p'') \<and> pend p'' = []"
proof -
  have "length (fo_pids (filterOptions c)) \<le> MAX_VALID_PIDS_SIZE"
    using assms(3) by (simp add: inner_cap_ok_def)
  from roundtrip [OF inner_cap_written [OF assms(1,4) this] inner_cap_read [OF assms(1,3)] assms(2)]
  show ?thesis .
qed

text \<open>
  C20: Whatever the parcel holds, and however its reads behave, a capture configuration the server
  accepts is well formed: its usages are supported ones, its pids positive, its modes filter
  modes, and its lists within their bounds.
\<close>

theorem accepted_inner_cap_config_is_ok:
  assumes "run_state (ReadInnerCapConfigFromParcel P old) p = ((SUCCESS, c), p')"
  shows "inner_cap_ok c"
  using assms unfolding ReadInnerCapConfigFromParcel_def
  by (auto simp: Let_def inner_cap_ok_def not_le word_sle_eq word_sless_alt
      dest!: read_checked_run split: prod.splits if_splits option.splits)

section \<open>Instances\<close>

definition demo_stream_info :: AudioStreamInfo where
  "demo_stream_info = \<lparr>si_samplingRate = 48000, si_encoding = 0, si_format = 1, si_channels = 2, si_channelLayout = 3\<rparr>"

definition demo_renderer_info :: AudioRendererInfo where
  "demo_renderer_info =
     \<lparr>ri_contentType = 2, ri_streamUsage = 1, ri_rendererFlags = 0, ri_sceneType = ''SCENE_MUSIC'',
      ri_spatializationEnabled = True, ri_headTrackingEnabled = False, ri_originalFlag = 0,
      ri_pipeType = 1, ri_samplingRate = 48000, ri_encodingType = 0, ri_channelLayout = 3,
      ri_format = 1, ri_isOffloadAllowed = True, ri_isSatellite = False\<rparr>"

definition demo_capturer_info :: AudioCapturerInfo where
  "demo_capturer_info =
     \<lparr>ci_sourceType = 0, ci_capturerFlags = 0, ci_originalFlag = 0, ci_pipeType = 0,
      ci_samplingRate = 16000, ci_encodingType = 0, ci_channelLayout = 0, ci_sceneType = []\<rparr>"

definition demo_config :: AudioProcessConfig where
  "demo_config =
     \<lparr>callerUid = 1041, appInfo = \<lparr>appUid = 20010045, appTokenId = 7, appPid = 4711, appFullTokenId = 7\<rparr>,
      streamInfo = demo_stream_info, pc_audioMode = 0, rendererInfo = demo_renderer_info,
      capturerInfo = demo_capturer_info, pc_streamType = 1, pc_deviceType = 2,
      isInnerCapturer = False, isWakeupCapturer = False, originalSessionId = - 1, privacyType = 1,
      innerCapMode = 0\<rparr>"

definition demo_capture :: AudioPlaybackCaptureConfig where
  "demo_capture =
     \<lparr>filterOptions = \<lparr>fo_usages = [1, 10], fo_usageFilterMode = 0, fo_pids = [1234], fo_pidFilterMode = 1\<rparr>,
      silentCapture = False\<rparr>"

lemma demo_capture_ok: "inner_cap_ok demo_capture"
  by (simp add: inner_cap_ok_def demo_capture_def cfg_defs word_sless_alt)

theorem process_config_roundtrip_witness:
  "\<exists>p' p''. run_state (WriteConfigToParcel queue_parcel demo_config) [] = (SUCCESS, p') \<and>
     run_state (ReadConfigFromParcel queue_parcel demo_config) p' =
       ((SUCCESS, received_config demo_config demo_config), p'') \<and> id p'' = []"
  by (rule process_config_roundtrip [OF queue_parcel_fifo]) simp

theorem inner_cap_config_roundtrip_witness:
  "\<exists>p' p''. run_state (WriteInnerCapConfigToParcel queue_parcel demo_capture) [] = (SUCCESS, p') \<and>
     run_state (ReadInnerCapConfigFromParcel queue_parcel demo_capture) p' = ((SUCCESS, demo_capture), p'') \<and>
     id p'' = []"
  by (rule inner_cap_config_roundtrip [OF queue_parcel_fifo _ demo_capture_ok])
    (simp_all add: demo_capture_def cfg_defs)

theorem accepted_inner_cap_config_is_ok_witness:
  "inner_cap_ok \<lparr>filterOptions = \<lparr>fo_usages = [3], fo_usageFilterMode = 1, fo_pids = [99], fo_pidFilterMode = 0\<rparr>,
     silentCapture = True\<rparr>"
proof (rule accepted_inner_cap_config_is_ok)
  show "run_state (ReadInnerCapConfigFromParcel queue_parcel demo_capture)
      [I32 1, I32 3, I32 1, I32 1, I32 99, I32 0, IBool True] =
    ((SUCCESS, \<lparr>filterOptions = \<lparr>fo_usages = [3], fo_usageFilterMode = 1, fo_pids = [99], fo_pidFilterMode = 0\<rparr>,
      silentCapture = True\<rparr>), [])"
    by code_simp
qed

end
