(* ===== verification/ChangeInfo.thy ===== *)
theory ChangeInfo
  imports ProcessConfig
begin

text \<open>
  The stream change notices the policy server sends to its clients: \<open>AudioRendererInfo\<close>,
  \<open>AudioCapturerInfo\<close>, \<open>AudioRendererChangeInfo\<close> and \<open>AudioCapturerChangeInfo\<close> of \<open>audio_info.h\<close>,
  \<open>DeviceInfo\<close> and \<open>DeviceStreamInfo\<close> of \<open>audio_device_info.h\<close>. Each has a \<open>Marshalling\<close> for the
  framework itself and, the notices and devices, one that leaves out what the receiving
  application has no permission to see.
\<close>

section \<open>Devices\<close>

record WireStreamInfo =
  ws_encoding :: enum32
  ws_format :: u8
  ws_channelLayout :: u64
  ws_samplingRate :: "enum32 set"
  ws_channels :: "u8 set"

record DeviceInfo =
  di_deviceType :: enum32
  di_deviceRole :: enum32
  di_deviceId :: s32
  di_channelMasks :: s32
  di_channelIndexMasks :: s32
  di_deviceName :: string
  di_macAddress :: string
  di_audioStreamInfo :: WireStreamInfo
  di_networkId :: string
  di_displayName :: string
  di_interruptGroupId :: s32
  di_volumeGroupId :: s32
  di_isLowLatencyDevice :: bool
  di_a2dpOffloadFlag :: s32
  di_connectState :: enum32
  di_deviceCategory :: enum32

definition AUDIO_DEVICE_INFO_SIZE_LIMIT :: nat where [cfg_defs]: "AUDIO_DEVICE_INFO_SIZE_LIMIT = 30"
definition INVALID_GROUP_ID :: s32 where "INVALID_GROUP_ID = - 1"
definition EMPTY_UID :: s32 where "EMPTY_UID = 0"
definition API_11 :: int where [cfg_defs]: "API_11 = 11"
definition INVALID_RENDERER_STATE :: enum32 where "INVALID_RENDERER_STATE = - 1"
definition INVALID_CAPTURER_STATE :: enum32 where "INVALID_CAPTURER_STATE = - 1"

text \<open>A \<open>std::set\<close> of enumerators is walked in ascending order of the underlying type, which is
  unsigned for the sampling rates (32 bits) and for the channels (8 bits).\<close>

definition in_order :: "'e::len word set \<Rightarrow> 'e word list" where
  "in_order S = sorted_list_of_set S"

definition MarshallingSetInt32 :: "'p Parcel \<Rightarrow> 'e::len word set \<Rightarrow> ('p, bool) state" where
  "MarshallingSetInt32 P S =
     write_all (WriteUint64 P (of_nat (card S)) # map (\<lambda>v. WriteInt32 P (ucast v)) (in_order S))"

definition UnmarshallingSetInt32 :: "'p Parcel \<Rightarrow> nat \<Rightarrow> ('p, 'e::len word set) state" where
  "UnmarshallingSetInt32 P maxSize = do {
     n \<leftarrow> ReadUint64 P;
     vs \<leftarrow> traverse_list (\<lambda>_. ReadInt32 P) [0..<min (unat n) maxSize];
     State_Monad.return (set (map ucast vs)) }"

definition DeviceStreamInfo_Marshalling :: "'p Parcel \<Rightarrow> WireStreamInfo \<Rightarrow> ('p, bool) state" where
  "DeviceStreamInfo_Marshalling P s =
     write_all [WriteInt32 P (ws_encoding s), WriteInt32 P (ucast (ws_format s)),
       MarshallingSetInt32 P (ws_samplingRate s), MarshallingSetInt32 P (ws_channels s)]"

definition DeviceStreamInfo_Unmarshalling :: "'p Parcel \<Rightarrow> WireStreamInfo \<Rightarrow> ('p, WireStreamInfo) state" where
  "DeviceStreamInfo_Unmarshalling P s = do {
     enc \<leftarrow> ReadInt32 P; fmt \<leftarrow> ReadInt32 P;
     rates \<leftarrow> UnmarshallingSetInt32 P AUDIO_DEVICE_INFO_SIZE_LIMIT;
     chs \<leftarrow> UnmarshallingSetInt32 P AUDIO_DEVICE_INFO_SIZE_LIMIT;
     State_Monad.return (s\<lparr>ws_encoding := enc, ws_format := ucast fmt, ws_samplingRate := rates, ws_channels := chs\<rparr>) }"

definition DeviceStreamInfo_CheckParams :: "WireStreamInfo \<Rightarrow> bool" where
  "DeviceStreamInfo_CheckParams s \<longleftrightarrow> card (ws_samplingRate s) \<noteq> 0 \<and> card (ws_channels s) \<noteq> 0"

definition DeviceInfo_Marshalling :: "'p Parcel \<Rightarrow> DeviceInfo \<Rightarrow> ('p, bool) state" where
  "DeviceInfo_Marshalling P d =
     write_all [WriteInt32 P (di_deviceType d), WriteInt32 P (di_deviceRole d), WriteInt32 P (di_deviceId d),
       WriteInt32 P (di_channelMasks d), WriteInt32 P (di_channelIndexMasks d),
       WriteString P (di_deviceName d), WriteString P (di_macAddress d),
       DeviceStreamInfo_Marshalling P (di_audioStreamInfo d),
       WriteString P (di_networkId d), WriteString P (di_displayName d),
       WriteInt32 P (di_interruptGroupId d), WriteInt32 P (di_volumeGroupId d),
       WriteBool P (di_isLowLatencyDevice d), WriteInt32 P (di_a2dpOffloadFlag d),
       WriteInt32 P (di_deviceCategory d)]"

text \<open>An old application that asks about a device without a type is shown a speaker or a
  microphone, and a device without rates or channels 44100 Hz and stereo.\<close>

definition api_fix :: "int \<Rightarrow> DeviceInfo \<Rightarrow> enum32 \<times> s32 \<times> WireStreamInfo" where
  "api_fix apiVersion d =
     (let s = di_audioStreamInfo d in
      if apiVersion < API_11 \<and> (di_deviceType d = - 1 \<or> di_deviceType d = 0)
      then (if di_deviceRole d = 2 then 2 else if di_deviceRole d = 1 then 15 else di_deviceType d,
            if di_deviceRole d = 2 then 1 else if di_deviceRole d = 1 then 2 else di_deviceId d,
            s\<lparr>ws_samplingRate := (if ws_samplingRate s = {} then {44100} else ws_samplingRate s),
              ws_channels := (if ws_channels s = {} then {2} else ws_channels s)\<rparr>)
      else (di_deviceType d, di_deviceId d, s))"

definition DeviceInfo_MarshallingFor ::
    "'p Parcel \<Rightarrow> bool \<Rightarrow> bool \<Rightarrow> int \<Rightarrow> DeviceInfo \<Rightarrow> ('p, bool) state" where
  "DeviceInfo_MarshallingFor P hasBT hasSys apiVersion d =
     (case api_fix apiVersion d of (devType, devId, sInfo) \<Rightarrow>
      let noBT = (\<not> hasBT \<and> (di_deviceType d = 8 \<or> di_deviceType d = 7)) in
      write_all [WriteInt32 P devType, WriteInt32 P (di_deviceRole d), WriteInt32 P devId,
       WriteInt32 P (di_channelMasks d), WriteInt32 P (di_channelIndexMasks d),
       WriteString P (if noBT then [] else di_deviceName d),
       WriteString P (if noBT then [] else di_macAddress d),
       DeviceStreamInfo_Marshalling P sInfo,
       WriteString P (if hasSys then di_networkId d else []), WriteString P (di_displayName d),
       WriteInt32 P (if hasSys then di_interruptGroupId d else INVALID_GROUP_ID),
       WriteInt32 P (if hasSys then di_volumeGroupId d else INVALID_GROUP_ID),
       WriteBool P (di_isLowLatencyDevice d), WriteInt32 P (di_a2dpOffloadFlag d),
       WriteInt32 P (di_deviceCategory d)])"

definition DeviceInfo_Unmarshalling :: "'p Parcel \<Rightarrow> DeviceInfo \<Rightarrow> ('p, DeviceInfo) state" where
  "DeviceInfo_Unmarshalling P d = do {
     devType \<leftarrow> ReadInt32 P; devRole \<leftarrow> ReadInt32 P; devId \<leftarrow> ReadInt32 P;
     masks \<leftarrow> ReadInt32 P; indexMasks \<leftarrow> ReadInt32 P;
     name \<leftarrow> ReadString P; mac \<leftarrow> ReadString P;
     s \<leftarrow> DeviceStreamInfo_Unmarshalling P (di_audioStreamInfo d);
     net \<leftarrow> ReadString P; disp \<leftarrow> ReadString P; ig \<leftarrow> ReadInt32 P; vg \<leftarrow> ReadInt32 P;
     low \<leftarrow> ReadBool P; a2dp \<leftarrow> ReadInt32 P; cat \<leftarrow> ReadInt32 P;
     State_Monad.return (d\<lparr>di_deviceType := devType, di_deviceRole := devRole, di_deviceId := devId,
       di_channelMasks := masks, di_channelIndexMasks := indexMasks, di_deviceName := name,
       di_macAddress := mac, di_audioStreamInfo := s, di_networkId := net, di_displayName := disp,
       di_interruptGroupId := ig, di_volumeGroupId := vg, di_isLowLatencyDevice := low,
       di_a2dpOffloadFlag := a2dp, di_deviceCategory := cat\<rparr>) }"

section \<open>Renderers and capturers\<close>

definition AudioRendererInfo_Marshalling :: "'p Parcel \<Rightarrow> AudioRendererInfo \<Rightarrow> ('p, bool) state" where
  "AudioRendererInfo_Marshalling P r =
     write_all [WriteInt32 P (ri_contentType r), WriteInt32 P (ri_streamUsage r),
       WriteInt32 P (ri_rendererFlags r), WriteInt32 P (ri_originalFlag r), WriteString P (ri_sceneType r),
       WriteBool P (ri_spatializationEnabled r), WriteBool P (ri_headTrackingEnabled r),
       WriteInt32 P (ri_pipeType r), WriteInt32 P (ri_samplingRate r), WriteUint8 P (ri_encodingType r),
       WriteUint64 P (ri_channelLayout r), WriteInt32 P (ucast (ri_format r)), WriteBool P (ri_isOffloadAllowed r)]"

definition AudioRendererInfo_Unmarshalling :: "'p Parcel \<Rightarrow> AudioRendererInfo \<Rightarrow> ('p, AudioRendererInfo) state" where
  "AudioRendererInfo_Unmarshalling P r = do {
     content \<leftarrow> ReadInt32 P; usage \<leftarrow> ReadInt32 P; flags \<leftarrow> ReadInt32 P; orig \<leftarrow> ReadInt32 P;
     scene \<leftarrow> ReadString P; spat \<leftarrow> ReadBool P; head \<leftarrow> ReadBool P; pipe \<leftarrow> ReadInt32 P;
     rate \<leftarrow> ReadInt32 P; enc \<leftarrow> ReadUint8 P; layout \<leftarrow> ReadUint64 P; fmt \<leftarrow> ReadInt32 P;
     offload \<leftarrow> ReadBool P;
     State_Monad.return (r\<lparr>ri_contentType := content, ri_streamUsage := usage, ri_rendererFlags := flags,
       ri_originalFlag := orig, ri_sceneType := scene, ri_spatializationEnabled := spat,
       ri_headTrackingEnabled := head, ri_pipeType := pipe, ri_samplingRate := rate,
       ri_encodingType := enc, ri_channelLayout := layout, ri_format := ucast fmt, ri_isOffloadAllowed := offload\<rparr>) }"

definition AudioCapturerInfo_Marshalling :: "'p Parcel \<Rightarrow> AudioCapturerInfo \<Rightarrow> ('p, bool) state" where
  "AudioCapturerInfo_Marshalling P c =
     write_all [WriteInt32 P (ci_sourceType c), WriteInt32 P (ci_capturerFlags c),
       WriteInt32 P (ci_originalFlag c), WriteInt32 P (ci_pipeType c), WriteInt32 P (ci_samplingRate c),
       WriteUint8 P (ci_encodingType c), WriteUint64 P (ci_channelLayout c), WriteString P (ci_sceneType c)]"

definition AudioCapturerInfo_Unmarshalling :: "'p Parcel \<Rightarrow> AudioCapturerInfo \<Rightarrow> ('p, AudioCapturerInfo) state" where
  "AudioCapturerInfo_Unmarshalling P c = do {
     source \<leftarrow> ReadInt32 P; flags \<leftarrow> ReadInt32 P; orig \<leftarrow> ReadInt32 P; pipe \<leftarrow> ReadInt32 P;
     rate \<leftarrow> ReadInt32 P; enc \<leftarrow> ReadUint8 P; layout \<leftarrow> ReadUint64 P; scene \<leftarrow> ReadString P;
     State_Monad.return (c\<lparr>ci_sourceType := source, ci_capturerFlags := flags, ci_originalFlag := orig,
       ci_pipeType := pipe, ci_samplingRate := rate, ci_encodingType := enc, ci_channelLayout := layout,
       ci_sceneType := scene\<rparr>) }"

section \<open>Change notices\<close>

record AudioRendererChangeInfo =
  rc_createrUID :: s32
  rc_clientUID :: s32
  rc_sessionId :: s32
  rc_callerPid :: s32
  rc_clientPid :: s32
  rc_tokenId :: s32
  rc_channelCount :: s32
  rc_rendererInfo :: AudioRendererInfo
  rc_rendererState :: enum32
  rc_outputDeviceInfo :: DeviceInfo
  rc_prerunningState :: bool

record AudioCapturerChangeInfo =
  cc_createrUID :: s32
  cc_clientUID :: s32
  cc_sessionId :: s32
  cc_callerPid :: s32
  cc_clientPid :: s32
  cc_capturerInfo :: AudioCapturerInfo
  cc_capturerState :: enum32
  cc_inputDeviceInfo :: DeviceInfo
  cc_muted :: bool
  cc_appTokenId :: u32

definition RendererChangeInfo_Marshalling :: "'p Parcel \<Rightarrow> AudioRendererChangeInfo \<Rightarrow> ('p, bool) state" where
  "RendererChangeInfo_Marshalling P c =
     (let r = rc_rendererInfo c in
      write_all [WriteInt32 P (rc_createrUID c), WriteInt32 P (rc_clientUID c), WriteInt32 P (rc_sessionId c),
        WriteInt32 P (rc_callerPid c), WriteInt32 P (rc_clientPid c), WriteInt32 P (rc_tokenId c),
        WriteInt32 P (rc_channelCount c), WriteInt32 P (ri_contentType r), WriteInt32 P (ri_streamUsage r),
        WriteInt32 P (ri_rendererFlags r), WriteInt32 P (ri_originalFlag r), WriteInt32 P (ri_samplingRate r),
        WriteInt32 P (ucast (ri_format r)), AudioRendererInfo_Marshalling P r, WriteInt32 P (rc_rendererState c),
        DeviceInfo_Marshalling P (rc_outputDeviceInfo c)])"

definition RendererChangeInfo_MarshallingFor ::
    "'p Parcel \<Rightarrow> bool \<Rightarrow> bool \<Rightarrow> int \<Rightarrow> AudioRendererChangeInfo \<Rightarrow> ('p, bool) state" where
  "RendererChangeInfo_MarshallingFor P hasBT hasSys apiVersion c =
     (let r = rc_rendererInfo c in
      write_all [WriteInt32 P (rc_createrUID c),
        WriteInt32 P (if hasSys then rc_clientUID c else EMPTY_UID), WriteInt32 P (rc_sessionId c),
        WriteInt32 P (rc_callerPid c), WriteInt32 P (rc_clientPid c), WriteInt32 P (rc_tokenId c),
        WriteInt32 P (rc_channelCount c), WriteInt32 P (ri_contentType r), WriteInt32 P (ri_streamUsage r),
        WriteInt32 P (ri_rendererFlags r), WriteInt32 P (ri_originalFlag r), WriteInt32 P (ri_samplingRate r),
        WriteInt32 P (ucast (ri_format r)), AudioRendererInfo_Marshalling P r,
        WriteInt32 P (if hasSys then rc_rendererState c else INVALID_RENDERER_STATE),
        DeviceInfo_MarshallingFor P hasBT hasSys apiVersion (rc_outputDeviceInfo c)])"

definition RendererChangeInfo_Unmarshalling ::
    "'p Parcel \<Rightarrow> AudioRendererChangeInfo \<Rightarrow> ('p, AudioRendererChangeInfo) state" where
  "RendererChangeInfo_Unmarshalling P c = do {
     creater \<leftarrow> ReadInt32 P; client \<leftarrow> ReadInt32 P; session \<leftarrow> ReadInt32 P; caller \<leftarrow> ReadInt32 P;
     pid \<leftarrow> ReadInt32 P; token \<leftarrow> ReadInt32 P; chs \<leftarrow> ReadInt32 P;
     content \<leftarrow> ReadInt32 P; usage \<leftarrow> ReadInt32 P; flags \<leftarrow> ReadInt32 P; orig \<leftarrow> ReadInt32 P;
     rate \<leftarrow> ReadInt32 P; fmt \<leftarrow> ReadInt32 P;
     r \<leftarrow> AudioRendererInfo_Unmarshalling P
       ((rc_rendererInfo c)\<lparr>ri_contentType := content, ri_streamUsage := usage, ri_rendererFlags := flags,
          ri_originalFlag := orig, ri_samplingRate := rate, ri_format := ucast fmt\<rparr>);
     st \<leftarrow> ReadInt32 P;
     d \<leftarrow> DeviceInfo_Unmarshalling P (rc_outputDeviceInfo c);
     State_Monad.return (c\<lparr>rc_createrUID := creater, rc_clientUID := client, rc_sessionId := session,
       rc_callerPid := caller, rc_clientPid := pid, rc_tokenId := token, rc_channelCount := chs,
       rc_rendererInfo := r, rc_rendererState := st, rc_outputDeviceInfo := d\<rparr>) }"

definition CapturerChangeInfo_Marshalling :: "'p Parcel \<Rightarrow> AudioCapturerChangeInfo \<Rightarrow> ('p, bool) state" where
  "CapturerChangeInfo_Marshalling P c =
     write_all [WriteInt32 P (cc_createrUID c), WriteInt32 P (cc_clientUID c), WriteInt32 P (cc_sessionId c),
       WriteInt32 P (cc_callerPid c), WriteInt32 P (cc_clientPid c),
       AudioCapturerInfo_Marshalling P (cc_capturerInfo c), WriteInt32 P (cc_capturerState c),
       DeviceInfo_Marshalling P (cc_inputDeviceInfo c), WriteBool P (cc_muted c),
       WriteUint32 P (cc_appTokenId c)]"

definition CapturerChangeInfo_MarshallingFor ::
    "'p Parcel \<Rightarrow> bool \<Rightarrow> bool \<Rightarrow> int \<Rightarrow> AudioCapturerChangeInfo \<Rightarrow> ('p, bool) state" where
  "CapturerChangeInfo_MarshallingFor P hasBT hasSys apiVersion c =
     write_all [WriteInt32 P (cc_createrUID c),
       WriteInt32 P (if hasSys then cc_clientUID c else EMPTY_UID), WriteInt32 P (cc_sessionId c),
       WriteInt32 P (cc_callerPid c), WriteInt32 P (cc_clientPid c),
       AudioCapturerInfo_Marshalling P (cc_capturerInfo c),
       WriteInt32 P (if hasSys then cc_capturerState c else INVALID_CAPTURER_STATE),
       DeviceInfo_MarshallingFor P hasBT hasSys apiVersion (cc_inputDeviceInfo c),
       WriteBool P (cc_muted c), WriteUint32 P (cc_appTokenId c)]"

definition CapturerChangeInfo_Unmarshalling ::
    "'p Parcel \<Rightarrow> AudioCapturerChangeInfo \<Rightarrow> ('p, AudioCapturerChangeInfo) state" where
  "CapturerChangeInfo_Unmarshalling P c = do {
     creater \<leftarrow> ReadInt32 P; client \<leftarrow> ReadInt32 P; session \<leftarrow> ReadInt32 P; caller \<leftarrow> ReadInt32 P;
     pid \<leftarrow> ReadInt32 P;
     k \<leftarrow> AudioCapturerInfo_Unmarshalling P (cc_capturerInfo c);
     st \<leftarrow> ReadInt32 P;
     d \<leftarrow> DeviceInfo_Unmarshalling P (cc_inputDeviceInfo c);
     muted \<leftarrow> ReadBool P; token \<leftarrow> ReadUint32 P;
     State_Monad.return (c\<lparr>cc_createrUID := creater, cc_clientUID := client, cc_sessionId := session,
       cc_callerPid := caller, cc_clientPid := pid, cc_capturerInfo := k, cc_capturerState := st,
       cc_inputDeviceInfo := d, cc_muted := muted, cc_appTokenId := token\<rparr>) }"

section \<open>What arrives\<close>

text \<open>The wire format of the parts.\<close>

definition set_items :: "'e::len word set \<Rightarrow> parcel_item list" where
  "set_items S = I64 (of_nat (card S)) # map (\<lambda>v. I32 (ucast v)) (in_order S)"

definition stream_info_items :: "WireStreamInfo \<Rightarrow> parcel_item list" where
  "stream_info_items s = I32 (ws_encoding s) # I32 (ucast (ws_format s)) #
     set_items (ws_samplingRate s) @ set_items (ws_channels s)"

definition device_items :: "DeviceInfo \<Rightarrow> parcel_item list" where
  "device_items d =
     I32 (di_deviceType d) # I32 (di_deviceRole d) # I32 (di_deviceId d) # I32 (di_channelMasks d) #
     I32 (di_channelIndexMasks d) # IStr (di_deviceName d) # IStr (di_macAddress d) #
     stream_info_items (di_audioStreamInfo d) @
     [IStr (di_networkId d), IStr (di_displayName d), I32 (di_interruptGroupId d),
      I32 (di_volumeGroupId d), IBool (di_isLowLatencyDevice d), I32 (di_a2dpOffloadFlag d),
      I32 (di_deviceCategory d)]"

definition renderer_items :: "AudioRendererInfo \<Rightarrow> parcel_item list" where
  "renderer_items r =
     [I32 (ri_contentType r), I32 (ri_streamUsage r), I32 (ri_rendererFlags r), I32 (ri_originalFlag r),
      IStr (ri_sceneType r), IBool (ri_spatializationEnabled r), IBool (ri_headTrackingEnabled r),
      I32 (ri_pipeType r), I32 (ri_samplingRate r), I8 (ri_encodingType r), I64 (ri_channelLayout r),
      I32 (ucast (ri_format r)), IBool (ri_isOffloadAllowed r)]"

definition renderer_change_items :: "AudioRendererChangeInfo \<Rightarrow> parcel_item list" where
  "renderer_change_items c =
     (let r = rc_rendererInfo c in
      I32 (rc_createrUID c) # I32 (rc_clientUID c) # I32 (rc_sessionId c) # I32 (rc_callerPid c) #
      I32 (rc_clientPid c) # I32 (rc_tokenId c) # I32 (rc_channelCount c) # I32 (ri_contentType r) #
      I32 (ri_streamUsage r) # I32 (ri_rendererFlags r) # I32 (ri_originalFlag r) #
      I32 (ri_samplingRate r) # I32 (ucast (ri_format r)) # renderer_items r @
      I32 (rc_rendererState c) # device_items (rc_outputDeviceInfo c) @ [])"

lemma in_order_props: "set (in_order S) = S" "length (in_order S) = card S"
  by (simp_all add: in_order_def)

lemma set_written:
  assumes "parcel_fifo P pend"
  shows "emits pend (MarshallingSetInt32 P S) (set_items S)"
  unfolding MarshallingSetInt32_def set_items_def
  by (intro emits_all_item emits_all_map fifo_writes [OF assms])

lemma stream_info_written:
  assumes "parcel_fifo P pend"
  shows "emits pend (DeviceStreamInfo_Marshalling P s) (stream_info_items s)"
proof -
  have "emits pend (DeviceStreamInfo_Marshalling P s) (I32 (ws_encoding s) # I32 (ucast (ws_format s)) #
      set_items (ws_samplingRate s) @ set_items (ws_channels s) @ [])"
    unfolding DeviceStreamInfo_Marshalling_def
    by (intro emits_all_item emits_all_part emits_all_Nil set_written [OF assms] fifo_writes [OF assms])
  then show ?thesis by (simp add: stream_info_items_def)
qed

lemma device_written:
  assumes "parcel_fifo P pend"
  shows "emits pend (DeviceInfo_Marshalling P d) (device_items d)"
  unfolding DeviceInfo_Marshalling_def device_items_def
  by (intro emits_all_item emits_all_part emits_all_Nil stream_info_written [OF assms] fifo_writes [OF assms])

lemma renderer_written:
  assumes "parcel_fifo P pend"
  shows "emits pend (AudioRendererInfo_Marshalling P r) (renderer_items r)"
  unfolding AudioRendererInfo_Marshalling_def renderer_items_def
  by (intro emits_all_item emits_all_Nil fifo_writes [OF assms])

lemma renderer_change_written:
  assumes "parcel_fifo P pend"
  shows "emits pend (RendererChangeInfo_Marshalling P c) (renderer_change_items c)"
  unfolding RendererChangeInfo_Marshalling_def renderer_change_items_def Let_def
  by (intro emits_all_item emits_all_part emits_all_Nil renderer_written [OF assms]
      device_written [OF assms] fifo_writes [OF assms])

text \<open>The reader stops at 30 elements of a set, so a larger set would leave the rest of its
  elements in front of the fields that follow.\<close>

definition device_ok :: "DeviceInfo \<Rightarrow> bool" where
  "device_ok d \<longleftrightarrow> card (ws_samplingRate (di_audioStreamInfo d)) \<le> AUDIO_DEVICE_INFO_SIZE_LIMIT \<and>
     card (ws_channels (di_audioStreamInfo d)) \<le> AUDIO_DEVICE_INFO_SIZE_LIMIT"

definition received_stream_info :: "WireStreamInfo \<Rightarrow> WireStreamInfo \<Rightarrow> WireStreamInfo" where
  "received_stream_info sent old = sent\<lparr>ws_channelLayout := ws_channelLayout old\<rparr>"

definition received_device :: "DeviceInfo \<Rightarrow> DeviceInfo \<Rightarrow> DeviceInfo" where
  "received_device sent old =
     sent\<lparr>di_connectState := di_connectState old,
       di_audioStreamInfo := received_stream_info (di_audioStreamInfo sent) (di_audioStreamInfo old)\<rparr>"

definition received_renderer :: "AudioRendererInfo \<Rightarrow> AudioRendererInfo \<Rightarrow> AudioRendererInfo" where
  "received_renderer sent old = sent\<lparr>ri_isSatellite := ri_isSatellite old\<rparr>"

definition received_renderer_change ::
    "AudioRendererChangeInfo \<Rightarrow> AudioRendererChangeInfo \<Rightarrow> AudioRendererChangeInfo" where
  "received_renderer_change sent old =
     sent\<lparr>rc_prerunningState := rc_prerunningState old,
       rc_rendererInfo := received_renderer (rc_rendererInfo sent) (rc_rendererInfo old),
       rc_outputDeviceInfo := received_device (rc_outputDeviceInfo sent) (rc_outputDeviceInfo old)\<rparr>"

lemma set_read:
  assumes "parcel_fifo P pend" and "card S \<le> n" and "n < 2 ^ 64"
    and len: "LENGTH('e::len) \<le> 32"
  shows "yields pend (UnmarshallingSetInt32 P n) (set_items S) (S :: 'e word set)"
proof -
  have n: "min (unat (of_nat (card S) :: u64)) n = card S"
    using assms(2,3) by (simp add: unat_of_nat)
  have t: "yields pend (traverse_list (\<lambda>_. ReadInt32 P) [0..<card S]) (map (\<lambda>v. I32 (ucast v)) (in_order S))
      (map ucast (in_order S))"
    using yields_traverse [of "map ucast (in_order S)" pend "ReadInt32 P" I32 id "[0..<card S]"] fifo_reads(1) [OF assms(1)]
    by (simp add: in_order_props o_def)
  show ?thesis
    unfolding UnmarshallingSetInt32_def set_items_def
    by (rule fifo_reads_bind(3) [OF assms(1)], simp only: n, rule yields_bind [OF t, where js = "[]"])
      (simp_all add: yields_return in_order_props o_def ucast_back [OF len] image_image)
qed

lemma stream_info_read:
  assumes "parcel_fifo P pend"
    and "card (ws_samplingRate s) \<le> AUDIO_DEVICE_INFO_SIZE_LIMIT" "card (ws_channels s) \<le> AUDIO_DEVICE_INFO_SIZE_LIMIT"
  shows "yields pend (DeviceStreamInfo_Unmarshalling P old) (stream_info_items s) (received_stream_info s old)"
  unfolding DeviceStreamInfo_Unmarshalling_def stream_info_items_def
  apply (intro fifo_reads_bind(1) [OF assms(1)])
  apply (rule yields_bind [OF set_read [OF assms(1,2)] _ refl], simp add: cfg_defs, simp)
  apply (rule yields_bind [OF set_read [OF assms(1,3)], where js = "[]"], simp add: cfg_defs, simp)
   apply (simp_all add: yields_return received_stream_info_def)
  done

lemma device_read:
  assumes "parcel_fifo P pend" and "device_ok d"
  shows "yields pend (DeviceInfo_Unmarshalling P old) (device_items d) (received_device d old)"
  using stream_info_read [OF assms(1)] assms(2)
  unfolding DeviceInfo_Unmarshalling_def device_items_def device_ok_def
  by (intro fifo_reads_bind [OF assms(1)])
    (rule yields_bind [OF _ _ refl], (blast)[1],
     intro fifo_reads_bind [OF assms(1)] yields_return, simp add: received_device_def)

lemma renderer_read:
  assumes "parcel_fifo P pend"
  shows "yields pend (AudioRendererInfo_Unmarshalling P old) (renderer_items r) (received_renderer r old)"
  unfolding AudioRendererInfo_Unmarshalling_def renderer_items_def
  by (intro fifo_reads_bind [OF assms] yields_return) (simp add: received_renderer_def)

lemma renderer_change_read:
  assumes "parcel_fifo P pend" and "device_ok (rc_outputDeviceInfo c)"
  shows "yields pend (RendererChangeInfo_Unmarshalling P old) (renderer_change_items c)
           (received_renderer_change c old)"
  unfolding RendererChangeInfo_Unmarshalling_def renderer_change_items_def Let_def
  apply (intro fifo_reads_bind [OF assms(1)])
  apply (rule yields_bind [OF renderer_read [OF assms(1)] _ refl])
  apply (intro fifo_reads_bind [OF assms(1)])
  apply (rule yields_bind [OF device_read [OF assms] _ refl])
  apply (rule yields_return)
  apply (simp add: received_renderer_change_def received_renderer_def)
  done

definition capturer_items :: "AudioCapturerInfo \<Rightarrow> parcel_item list" where
  "capturer_items c =
     [I32 (ci_sourceType c), I32 (ci_capturerFlags c), I32 (ci_originalFlag c), I32 (ci_pipeType c),
      I32 (ci_samplingRate c), I8 (ci_encodingType c), I64 (ci_channelLayout c), IStr (ci_sceneType c)]"

definition capturer_change_items :: "AudioCapturerChangeInfo \<Rightarrow> parcel_item list" where
  "capturer_change_items c =
     I32 (cc_createrUID c) # I32 (cc_clientUID c) # I32 (cc_sessionId c) # I32 (cc_callerPid c) #
     I32 (cc_clientPid c) # capturer_items (cc_capturerInfo c) @ I32 (cc_capturerState c) #
     device_items (cc_inputDeviceInfo c) @ [IBool (cc_muted c), I32 (cc_appTokenId c)]"

definition received_capturer_change ::
    "AudioCapturerChangeInfo \<Rightarrow> AudioCapturerChangeInfo \<Rightarrow> AudioCapturerChangeInfo" where
  "received_capturer_change sent old =
     sent\<lparr>cc_inputDeviceInfo := received_device (cc_inputDeviceInfo sent) (cc_inputDeviceInfo old)\<rparr>"

lemma capturer_written:
  assumes "parcel_fifo P pend"
  shows "emits pend (AudioCapturerInfo_Marshalling P c) (capturer_items c)"
  unfolding AudioCapturerInfo_Marshalling_def capturer_items_def
  by (intro emits_all_item emits_all_Nil fifo_writes [OF assms])

lemma capturer_change_written:
  assumes "parcel_fifo P pend"
  shows "emits pend (CapturerChangeInfo_Marshalling P c) (capturer_change_items c)"
  unfolding CapturerChangeInfo_Marshalling_def capturer_change_items_def
  by (intro emits_all_item emits_all_part emits_all_Nil capturer_written [OF assms]
      device_written [OF assms] fifo_writes [OF assms])

lemma capturer_read:
  assumes "parcel_fifo P pend"
  shows "yields pend (AudioCapturerInfo_Unmarshalling P old) (capturer_items c) c"
  unfolding AudioCapturerInfo_Unmarshalling_def capturer_items_def
  by (intro fifo_reads_bind [OF assms] yields_return) simp

lemma capturer_change_read:
  assumes "parcel_fifo P pend" and "device_ok (cc_inputDeviceInfo c)"
  shows "yields pend (CapturerChangeInfo_Unmarshalling P old) (capturer_change_items c)
           (received_capturer_change c old)"
  unfolding CapturerChangeInfo_Unmarshalling_def capturer_change_items_def
  apply (intro fifo_reads_bind [OF assms(1)])
  apply (rule yields_bind [OF capturer_read [OF assms(1)] _ refl])
  apply (intro fifo_reads_bind [OF assms(1)])
  apply (rule yields_bind [OF device_read [OF assms] _ refl])
  apply (intro fifo_reads_bind [OF assms(1)] yields_return)
  apply (simp add: received_capturer_change_def)
  done

lemma capturer_change_roundtrip:
  assumes "parcel_fifo P pend" and "pend p = []" and "device_ok (cc_inputDeviceInfo sent)"
  shows "\<exists>p' p''. run_state (CapturerChangeInfo_Marshalling P sent) p = (True, p') \<and>
           run_state (CapturerChangeInfo_Unmarshalling P old) p' = (received_capturer_change sent old, p'') \<and>
           pend p'' = []"
  by (rule roundtrip [OF capturer_change_written [OF assms(1)] capturer_change_read [OF assms(1,3)] assms(2)])

text \<open>
  A renderer change notice survives the trip to a client in every field but those that do
  not travel: the receiver keeps its own pre-running state, satellite flag, connection state and
  channel layout. The device may offer up to 30 sampling rates and channel counts.
\<close>

theorem renderer_change_roundtrip:
  assumes "parcel_fifo P pend" and "pend p = []" and "device_ok (rc_outputDeviceInfo sent)"
  shows "\<exists>p' p''. run_state (RendererChangeInfo_Marshalling P sent) p = (True, p') \<and>
           run_state (RendererChangeInfo_Unmarshalling P old) p' = (received_renderer_change sent old, p'') \<and>
           pend p'' = []"
  by (rule roundtrip [OF renderer_change_written [OF assms(1)] renderer_change_read [OF assms(1,3)] assms(2)])

section \<open>What is left out\<close>

text \<open>A notice with everything the receiver may not see replaced by the value it is shown.\<close>

definition censored_device :: "bool \<Rightarrow> bool \<Rightarrow> DeviceInfo \<Rightarrow> DeviceInfo" where
  "censored_device hasBT hasSys d =
     (let d1 = (if \<not> hasBT \<and> (di_deviceType d = 8 \<or> di_deviceType d = 7)
                then d\<lparr>di_deviceName := [], di_macAddress := []\<rparr> else d)
      in if hasSys then d1
         else d1\<lparr>di_networkId := [], di_interruptGroupId := INVALID_GROUP_ID, di_volumeGroupId := INVALID_GROUP_ID\<rparr>)"

definition censored_renderer :: "bool \<Rightarrow> bool \<Rightarrow> AudioRendererChangeInfo \<Rightarrow> AudioRendererChangeInfo" where
  "censored_renderer hasBT hasSys c =
     (let c1 = c\<lparr>rc_outputDeviceInfo := censored_device hasBT hasSys (rc_outputDeviceInfo c)\<rparr>
      in if hasSys then c1 else c1\<lparr>rc_clientUID := EMPTY_UID, rc_rendererState := INVALID_RENDERER_STATE\<rparr>)"

definition censored_capturer :: "bool \<Rightarrow> bool \<Rightarrow> AudioCapturerChangeInfo \<Rightarrow> AudioCapturerChangeInfo" where
  "censored_capturer hasBT hasSys c =
     (let c1 = c\<lparr>cc_inputDeviceInfo := censored_device hasBT hasSys (cc_inputDeviceInfo c)\<rparr>
      in if hasSys then c1 else c1\<lparr>cc_clientUID := EMPTY_UID, cc_capturerState := INVALID_CAPTURER_STATE\<rparr>)"

lemma censored_device_simps:
  "di_deviceType (censored_device hasBT hasSys d) = di_deviceType d"
  "di_deviceRole (censored_device hasBT hasSys d) = di_deviceRole d"
  "di_deviceId (censored_device hasBT hasSys d) = di_deviceId d"
  "di_channelMasks (censored_device hasBT hasSys d) = di_channelMasks d"
  "di_channelIndexMasks (censored_device hasBT hasSys d) = di_channelIndexMasks d"
  "di_audioStreamInfo (censored_device hasBT hasSys d) = di_audioStreamInfo d"
  "di_displayName (censored_device hasBT hasSys d) = di_displayName d"
  "di_isLowLatencyDevice (censored_device hasBT hasSys d) = di_isLowLatencyDevice d"
  "di_a2dpOffloadFlag (censored_device hasBT hasSys d) = di_a2dpOffloadFlag d"
  "di_deviceCategory (censored_device hasBT hasSys d) = di_deviceCategory d"
  by (simp_all add: censored_device_def Let_def)

lemma device_marshalling_censored:
  "DeviceInfo_MarshallingFor P hasBT hasSys api (censored_device hasBT hasSys d) =
   DeviceInfo_MarshallingFor P hasBT hasSys api d"
proof -
  have "api_fix api (censored_device hasBT hasSys d) = api_fix api d"
    by (simp only: api_fix_def censored_device_simps)
  moreover have "(if \<not> hasBT \<and> (di_deviceType d = 8 \<or> di_deviceType d = 7) then []
      else di_deviceName (censored_device hasBT hasSys d)) =
    (if \<not> hasBT \<and> (di_deviceType d = 8 \<or> di_deviceType d = 7) then [] else di_deviceName d)"
    "(if \<not> hasBT \<and> (di_deviceType d = 8 \<or> di_deviceType d = 7) then []
      else di_macAddress (censored_device hasBT hasSys d)) =
    (if \<not> hasBT \<and> (di_deviceType d = 8 \<or> di_deviceType d = 7) then [] else di_macAddress d)"
    "(if hasSys then di_networkId (censored_device hasBT hasSys d) else []) =
     (if hasSys then di_networkId d else [])"
    "(if hasSys then di_interruptGroupId (censored_device hasBT hasSys d) else INVALID_GROUP_ID) =
     (if hasSys then di_interruptGroupId d else INVALID_GROUP_ID)"
    "(if hasSys then di_volumeGroupId (censored_device hasBT hasSys d) else INVALID_GROUP_ID) =
     (if hasSys then di_volumeGroupId d else INVALID_GROUP_ID)"
    by (simp_all add: censored_device_def Let_def)
  ultimately show ?thesis by (simp only: DeviceInfo_MarshallingFor_def Let_def censored_device_simps)
qed

lemma renderer_marshalling_censored:
  "RendererChangeInfo_MarshallingFor P hasBT hasSys api (censored_renderer hasBT hasSys c) =
   RendererChangeInfo_MarshallingFor P hasBT hasSys api c"
  by (simp add: RendererChangeInfo_MarshallingFor_def censored_renderer_def Let_def device_marshalling_censored del: write_all.simps)

lemma capturer_marshalling_censored:
  "CapturerChangeInfo_MarshallingFor P hasBT hasSys api (censored_capturer hasBT hasSys c) =
   CapturerChangeInfo_MarshallingFor P hasBT hasSys api c"
  by (simp add: CapturerChangeInfo_MarshallingFor_def censored_capturer_def Let_def device_marshalling_censored del: write_all.simps)

text \<open>
  C21: A change notice tells an application nothing it has no permission to see: two renderer (or
  capturer) notices that differ only in the client's uid, the stream's state, the device's network
  and groups (without system permission) and a Bluetooth device's name and address (without
  Bluetooth permission) are the same parcel, call for call.
\<close>

theorem change_notice_hides:
  assumes "censored_renderer hasBT hasSys c1 = censored_renderer hasBT hasSys c2"
    and "censored_capturer hasBT hasSys k1 = censored_capturer hasBT hasSys k2"
  shows "RendererChangeInfo_MarshallingFor P hasBT hasSys api c1 =
           RendererChangeInfo_MarshallingFor P hasBT hasSys api c2 \<and>
         CapturerChangeInfo_MarshallingFor P hasBT hasSys api k1 =
           CapturerChangeInfo_MarshallingFor P hasBT hasSys api k2"
  by (metis assms renderer_marshalling_censored capturer_marshalling_censored)

section \<open>Instances\<close>

definition demo_device_info :: DeviceInfo where
  "demo_device_info =
     \<lparr>di_deviceType = 8, di_deviceRole = 2, di_deviceId = 5, di_channelMasks = 3, di_channelIndexMasks = 0,
      di_deviceName = ''headset'', di_macAddress = ''08:00:2B:01:02:03'',
      di_audioStreamInfo = \<lparr>ws_encoding = 0, ws_format = 1, ws_channelLayout = 0,
        ws_samplingRate = {44100, 48000}, ws_channels = {1, 2}\<rparr>,
      di_networkId = ''LocalDevice'', di_displayName = ''headset'', di_interruptGroupId = 1,
      di_volumeGroupId = 1, di_isLowLatencyDevice = False, di_a2dpOffloadFlag = 0,
      di_connectState = 0, di_deviceCategory = 1\<rparr>"

definition demo_renderer_change :: AudioRendererChangeInfo where
  "demo_renderer_change =
     \<lparr>rc_createrUID = 1, rc_clientUID = 20010045, rc_sessionId = 100001, rc_callerPid = 2, rc_clientPid = 4711,
      rc_tokenId = 7, rc_channelCount = 2, rc_rendererInfo = demo_renderer_info, rc_rendererState = 2,
      rc_outputDeviceInfo = demo_device_info, rc_prerunningState = False\<rparr>"

definition demo_capturer_change :: AudioCapturerChangeInfo where
  "demo_capturer_change =
     \<lparr>cc_createrUID = 1, cc_clientUID = 20010045, cc_sessionId = 100002, cc_callerPid = 2, cc_clientPid = 4711,
      cc_capturerInfo = demo_capturer_info, cc_capturerState = 2, cc_inputDeviceInfo = demo_device_info,
      cc_muted = False, cc_appTokenId = 7\<rparr>"

theorem renderer_change_roundtrip_witness:
  "\<exists>p' p''. run_state (RendererChangeInfo_Marshalling queue_parcel demo_renderer_change) [] = (True, p') \<and>
     run_state (RendererChangeInfo_Unmarshalling queue_parcel demo_renderer_change) p' =
       (received_renderer_change demo_renderer_change demo_renderer_change, p'') \<and> id p'' = []"
  by (rule renderer_change_roundtrip [OF queue_parcel_fifo])
    (simp_all add: demo_renderer_change_def demo_device_info_def device_ok_def cfg_defs)

theorem change_notice_hides_witness:
  "RendererChangeInfo_MarshallingFor queue_parcel True False 12 demo_renderer_change =
     RendererChangeInfo_MarshallingFor queue_parcel True False 12 (demo_renderer_change\<lparr>rc_clientUID := 42\<rparr>) \<and>
   CapturerChangeInfo_MarshallingFor queue_parcel True False 12 demo_capturer_change =
     CapturerChangeInfo_MarshallingFor queue_parcel True False 12 (demo_capturer_change\<lparr>cc_capturerState := 3\<rparr>)"
  by (rule change_notice_hides)
    (simp_all add: censored_renderer_def censored_capturer_def demo_renderer_change_def demo_capturer_change_def)

end
