(* ===== verification/EndpointState.thy ===== *)
theory EndpointState
  imports ChangeInfo OHAudioBuffer PosTime PcmConvert
begin

text \<open>
  The state of the server's fast path (\<open>services/audio_service/server\<close>): endpoints
  (\<open>audio_endpoint.cpp\<close>), one per fast device, the processes linked to them
  (\<open>audio_process_in_server.cpp\<close>), and the shared buffers between them and their clients.

  Buffers, processes and endpoints are shared by pointer, so they live in stores and a pointer is
  a number. A buffer is its control block, an \<open>OHAudioBuffer\<close>, and its data, a byte array.

  What the server asks outside itself is part of the state as well: every read of the clock takes
  the next value of \<open>clock\<close>, every call of the device adapter or the inner-capture stream takes
  the next of \<open>replies\<close> and is noted in \<open>calls\<close>, every position query the next of \<open>positions\<close>. So
  nothing is assumed of what they answer.

  Not modelled: trace points, dump files and media-monitor events, the latency measurement and the
  amplitude statistics, none of which another operation reads.
\<close>

unbundle bit_operations_syntax

section \<open>Data\<close>

type_synonym bref = nat
type_synonym pref = nat
type_synonym eref = nat

datatype EndpointType = TYPE_MMAP | TYPE_INVALID | TYPE_INDEPENDENT | TYPE_VOIP_MMAP

datatype EndpointStatus =
  INVALID | UNLINKED | IDEL | STARTING | RUNNING | STOPPING | STOPPED

datatype FastSinkType =
  NONE_FAST_SINK | FAST_SINK_TYPE_NORMAL | FAST_SINK_TYPE_REMOTE | FAST_SINK_TYPE_VOIP
| FAST_SINK_TYPE_BLUETOOTH

datatype FastSourceType =
  NONE_FAST_SOURCE | FAST_SOURCE_TYPE_NORMAL | FAST_SOURCE_TYPE_REMOTE | FAST_SOURCE_TYPE_VOIP

text \<open>The calls that leave the server, with the result where one comes back.\<close>

datatype hdi_call =
  SinkStart err | SinkStop err | SourceStart err | SourceStop err | SinkDeInit | SourceDeInit
| Privacy u32 bool err | DupCreate err | DupStart | DupStop | DupRelease | DupEnqueue "u8 list" err | UpdateAppsUid "s32 list"

record AudioProcess =
  processConfig :: AudioProcessConfig
  muteFlag :: bool
  isInnerCapped :: bool
  hasReleaseCallback :: bool
  needCheckBackground :: bool
  ap_sessionId :: u32
  ap_isInited :: bool
  streamStatusOf :: "bref option"
  clientTid :: u32
  clientBundleName :: string
  clientThreadPriorityRequested :: bool
  ap_totalSizeInframe :: u32
  ap_spanSizeInframe :: u32
  ap_byteSizePerFrame :: u32
  isBufferConfiged :: bool
  processBuffer :: "bref option"
  listenerList :: "eref list"
  convertedBuffer :: "u8 list option"

record server =
  buffers :: "bref \<Rightarrow> OHAudioBuffer"
  mems :: "bref \<Rightarrow> u8 list"
  procs :: "pref \<Rightarrow> AudioProcess"
  clock :: "nat \<Rightarrow> s64"
  ticks :: nat
  replies :: "nat \<Rightarrow> err"
  calls :: "hdi_call list"
  positions :: "nat \<Rightarrow> bool \<times> err \<times> u64 \<times> s64 \<times> s64"
  queries :: nat

record AudioEndpoint =
  deviceInfo :: DeviceInfo
  dstStreamInfo :: AudioStreamInfo
  endpointType :: EndpointType
  ep_id :: int
  processList :: "pref list"
  processBufferList :: "bref list"
  clientConfig :: AudioProcessConfig
  ep_isInited :: bool
  isInnerCapEnabled :: bool
  dupStream :: bool
  dupBufferSize :: nat
  dupBuffer :: "u8 list option"
  fastSink :: bool
  fastSource :: bool
  fastSinkType :: FastSinkType
  fastSourceType :: FastSourceType
  readTimeModel :: LinearPosTimeModel
  writeTimeModel :: LinearPosTimeModel
  spanDuration :: s64
  serverAheadReadTime :: s64
  dstBufferFd :: int
  dstTotalSizeInframe :: u32
  dstSpanSizeInframe :: u32
  dstByteSizePerFrame :: u32
  dstAudioBuffer :: "bref option"
  endpointStatus :: EndpointStatus
  isStarted :: bool
  delayStopTime :: s64
  delayStopTimeForZeroVolume :: s64
  lastHandleProcessTime :: s64
  stopUpdateThread :: bool
  posInFrame :: u64
  timeInNano :: s64
  isDeviceRunningInIdel :: bool
  needReSyncPosition :: bool
  zeroVolumeStopDevice :: bool
  isVolumeAlreadyZero :: bool

definition INT64_MAX :: s64 where [cfg_defs]: "INT64_MAX = 0x7FFFFFFFFFFFFFFF"
definition VOLUME_SHIFT_NUMBER :: nat where [cfg_defs]: "VOLUME_SHIFT_NUMBER = 16"
definition RECORD_DELAY_TIME :: s64 where [cfg_defs]: "RECORD_DELAY_TIME = 4000000"
definition RECORD_VOIP_DELAY_TIME :: s64 where [cfg_defs]: "RECORD_VOIP_DELAY_TIME = 10000000"
definition MAX_SPAN_DURATION_IN_NANO :: s64 where [cfg_defs]: "MAX_SPAN_DURATION_IN_NANO = 100000000"
definition DELAY_STOP_HDI_TIME :: s64 where [cfg_defs]: "DELAY_STOP_HDI_TIME = 10000000000"
definition WAIT_CLIENT_STANDBY_TIME_NS :: s64 where [cfg_defs]: "WAIT_CLIENT_STANDBY_TIME_NS = 1000000000"
definition DELAY_STOP_HDI_TIME_FOR_ZERO_VOLUME :: s64 where [cfg_defs]:
  "DELAY_STOP_HDI_TIME_FOR_ZERO_VOLUME = 4000000000"
definition ONE_MILLISECOND_DURATION :: s64 where [cfg_defs]: "ONE_MILLISECOND_DURATION = 1000000"
definition MAX_LINKED_PROCESS :: nat where [cfg_defs]: "MAX_LINKED_PROCESS = 6"
definition AUDIO_NS_PER_SECOND :: s64 where [cfg_defs]: "AUDIO_NS_PER_SECOND = 1000000000"
definition AUDIO_MS_PER_SECOND :: u32 where [cfg_defs]: "AUDIO_MS_PER_SECOND = 1000"
definition ERR_INVALID_HANDLE :: err where [err_defs]: "ERR_INVALID_HANDLE = BASE_AUDIO_ERR_OFFSET - 9"
definition ERR_NOT_SUPPORTED :: err where [err_defs]: "ERR_NOT_SUPPORTED = BASE_AUDIO_ERR_OFFSET - 10"
definition ERR_PERMISSION_DENIED :: err where [err_defs]: "ERR_PERMISSION_DENIED = BASE_AUDIO_ERR_OFFSET - 20"

abbreviation is_input :: "AudioEndpoint \<Rightarrow> bool" where
  "is_input e \<equiv> di_deviceRole (deviceInfo e) = 1"

abbreviation is_output :: "AudioEndpoint \<Rightarrow> bool" where
  "is_output e \<equiv> di_deviceRole (deviceInfo e) = 2"

definition AudioEndpointInner_ctor :: "EndpointType \<Rightarrow> int \<Rightarrow> AudioProcessConfig \<Rightarrow> DeviceInfo \<Rightarrow> AudioStreamInfo \<Rightarrow> AudioEndpoint" where
  "AudioEndpointInner_ctor type i cfg dev0 info0 =
     \<lparr>deviceInfo = dev0, dstStreamInfo = info0, endpointType = type, ep_id = i, processList = [],
      processBufferList = [], clientConfig = cfg, ep_isInited = False, isInnerCapEnabled = False,
      dupStream = False, dupBufferSize = 0, dupBuffer = None, fastSink = False, fastSource = False,
      fastSinkType = NONE_FAST_SINK, fastSourceType = NONE_FAST_SOURCE,
      readTimeModel = LinearPosTimeModel_ctor, writeTimeModel = LinearPosTimeModel_ctor,
      spanDuration = 0, serverAheadReadTime = 0, dstBufferFd = - 1, dstTotalSizeInframe = 0,
      dstSpanSizeInframe = 0, dstByteSizePerFrame = 0, dstAudioBuffer = None,
      endpointStatus = INVALID, isStarted = False, delayStopTime = INT64_MAX,
      delayStopTimeForZeroVolume = INT64_MAX, lastHandleProcessTime = 0, stopUpdateThread = False,
      posInFrame = 0, timeInNano = 0, isDeviceRunningInIdel = True, needReSyncPosition = True,
      zeroVolumeStopDevice = False, isVolumeAlreadyZero = False\<rparr>"

section \<open>Outside calls\<close>

definition GetCurNano :: "server \<Rightarrow> s64 \<times> server" where
  "GetCurNano w = (clock w (ticks w), w\<lparr>ticks := Suc (ticks w)\<rparr>)"

definition adapter_call :: "(err \<Rightarrow> hdi_call) \<Rightarrow> server \<Rightarrow> err \<times> server" where
  "adapter_call c w =
     (let r = replies w (length (calls w)) in (r, w\<lparr>calls := calls w @ [c r]\<rparr>))"

definition note_call :: "hdi_call \<Rightarrow> server \<Rightarrow> server" where
  "note_call c w = w\<lparr>calls := calls w @ [c]\<rparr>"

section \<open>Buffers and memory\<close>

abbreviation put_buffer :: "server \<Rightarrow> bref \<Rightarrow> OHAudioBuffer \<Rightarrow> server" where
  "put_buffer w b B \<equiv> w\<lparr>buffers := (buffers w)(b := B)\<rparr>"

abbreviation put_proc :: "server \<Rightarrow> pref \<Rightarrow> AudioProcess \<Rightarrow> server" where
  "put_proc w p P \<equiv> w\<lparr>procs := (procs w)(p := P)\<rparr>"

definition overwrite :: "u8 list \<Rightarrow> nat \<Rightarrow> u8 list \<Rightarrow> u8 list" where
  "overwrite mem off bytes = take off mem @ bytes @ drop (off + length bytes) mem"

definition store_at :: "server \<Rightarrow> bref \<Rightarrow> nat \<Rightarrow> u8 list \<Rightarrow> server" where
  "store_at w b off bytes = w\<lparr>mems := (mems w)(b := overwrite (mems w b) off bytes)\<rparr>"

definition clear_data :: "bref \<Rightarrow> server \<Rightarrow> server" where
  "clear_data b w = store_at w b 0 (replicate (unat (GetDataSize (buffers w b))) 0)"

definition span_at :: "OHAudioBuffer \<Rightarrow> u32 \<Rightarrow> SpanInfo" where
  "span_at B k = spanInfoList B ! unat k"

definition upd_span :: "OHAudioBuffer \<Rightarrow> u32 \<Rightarrow> (SpanInfo \<Rightarrow> SpanInfo) \<Rightarrow> OHAudioBuffer" where
  "upd_span B k f = B\<lparr>spanInfoList := (spanInfoList B)[unat k := f (span_at B k)]\<rparr>"

definition set_stream_status :: "OHAudioBuffer \<Rightarrow> StreamStatus \<Rightarrow> OHAudioBuffer" where
  "set_stream_status B s =
     (case basicBufferInfo B of None \<Rightarrow> B | Some i \<Rightarrow> B\<lparr>basicBufferInfo := Some (i\<lparr>streamStatus := s\<rparr>)\<rparr>)"

text \<open>The reset both sides give every span of a buffer.\<close>

definition reset_span :: "SpanStatus \<Rightarrow> SpanInfo \<Rightarrow> SpanInfo" where
  "reset_span st s =
     s\<lparr>spanStatus := st, offsetInFrame := 0, readStartTime := 0, readDoneTime := 0,
       writeStartTime := 0, writeDoneTime := 0, volumeStart := 2 ^ VOLUME_SHIFT_NUMBER,
       volumeEnd := 2 ^ VOLUME_SHIFT_NUMBER, isMute := False\<rparr>"

definition reset_spans :: "SpanStatus \<Rightarrow> OHAudioBuffer \<Rightarrow> OHAudioBuffer" where
  "reset_spans st B =
     (let n = unat (GetSpanCount B) in
      B\<lparr>spanInfoList := map (reset_span st) (take n (spanInfoList B)) @ drop n (spanInfoList B)\<rparr>)"

section \<open>What a process tells an endpoint\<close>

definition GetStreamBuffer :: "AudioProcess \<Rightarrow> bref option" where
  "GetStreamBuffer P = (if isBufferConfiged P then processBuffer P else None)"

definition GetInnerCapState :: "AudioProcess \<Rightarrow> bool" where
  "GetInnerCapState P = isInnerCapped P"

definition GetMuteFlag :: "AudioProcess \<Rightarrow> bool" where
  "GetMuteFlag P = muteFlag P"

definition GetAudioSessionId :: "AudioProcess \<Rightarrow> u32" where
  "GetAudioSessionId P = ap_sessionId P"

definition GetStreamInfo :: "AudioProcess \<Rightarrow> AudioStreamInfo" where
  "GetStreamInfo P = streamInfo (processConfig P)"

definition GetAudioStreamType :: "AudioProcess \<Rightarrow> enum32" where
  "GetAudioStreamType P = pc_streamType (processConfig P)"

definition GetAppInfo :: "AudioProcess \<Rightarrow> AppInfo" where
  "GetAppInfo P = appInfo (processConfig P)"

end
