(* ===== verification/EndpointControl.thy ===== *)
theory EndpointControl
  imports EndpointState
begin

text \<open>
  The status machine of \<open>AudioEndpointInner\<close> (\<open>audio_endpoint.cpp\<close>): starting and stopping the
  device, linking and unlinking processes, what an endpoint does when a process starts or pauses,
  and inner capture. An operation takes the endpoint and the server and returns them.

  A handler runs to its end before the next one starts, which is what its locks give for the lists
  and what the callers give for the rest, with one exception the code makes room for: linking waits
  while another thread is starting the device, and \<open>meanwhile\<close> is what happens during that wait.
\<close>

section \<open>Configuration of the device\<close>

text \<open>What the build and the device adapter answer when an endpoint is configured: whether
  distributed audio is compiled in, which sinks and sources exist, whether the one chosen is
  initialised, and its buffer.\<close>

record adapter_env =
  daudio_enabled :: bool
  sink_instance :: "FastSinkType \<Rightarrow> bool"
  source_instance :: "FastSourceType \<Rightarrow> bool"
  adapter_init :: err
  adapter_inited :: bool
  mmap_info :: "err \<times> int \<times> u32 \<times> u32 \<times> u32"
  a_os :: os_env

definition LOCAL_NETWORK :: string where "LOCAL_NETWORK = ''LocalDevice''"
definition A2DP_OFFLOAD :: s32 where "A2DP_OFFLOAD = 2"

definition GetFastSink :: "adapter_env \<Rightarrow> DeviceInfo \<Rightarrow> EndpointType \<Rightarrow> AudioEndpoint \<Rightarrow> bool \<times> AudioEndpoint" where
  "GetFastSink a d type e =
     (if di_networkId d \<noteq> LOCAL_NETWORK \<and> daudio_enabled a
      then (sink_instance a FAST_SINK_TYPE_REMOTE,
            e\<lparr>fastSinkType := (if type = TYPE_MMAP then FAST_SINK_TYPE_REMOTE else FAST_SINK_TYPE_VOIP)\<rparr>)
      else if di_deviceType d = 8 \<and> di_a2dpOffloadFlag d \<noteq> A2DP_OFFLOAD
      then (sink_instance a FAST_SINK_TYPE_BLUETOOTH, e\<lparr>fastSinkType := FAST_SINK_TYPE_BLUETOOTH\<rparr>)
      else if type = TYPE_MMAP
      then (sink_instance a FAST_SINK_TYPE_NORMAL, e\<lparr>fastSinkType := FAST_SINK_TYPE_NORMAL\<rparr>)
      else if type = TYPE_VOIP_MMAP
      then (sink_instance a FAST_SINK_TYPE_VOIP, e\<lparr>fastSinkType := FAST_SINK_TYPE_VOIP\<rparr>)
      else (False, e))"

text \<open>\<open>ConfigInputPoint\<close> asks for the source by type, and then replaces the answer by the plain
  local source or, when compiled in, the remote one.\<close>

definition GetFastSource :: "adapter_env \<Rightarrow> string \<Rightarrow> EndpointType \<Rightarrow> AudioEndpoint \<Rightarrow> bool \<times> AudioEndpoint" where
  "GetFastSource a net type e =
     (if net \<noteq> LOCAL_NETWORK \<and> daudio_enabled a
      then (source_instance a FAST_SOURCE_TYPE_REMOTE,
            e\<lparr>fastSourceType := (if type = TYPE_MMAP then FAST_SOURCE_TYPE_REMOTE else FAST_SOURCE_TYPE_VOIP)\<rparr>)
      else if type = TYPE_MMAP
      then (source_instance a FAST_SOURCE_TYPE_NORMAL, e\<lparr>fastSourceType := FAST_SOURCE_TYPE_NORMAL\<rparr>)
      else if type = TYPE_VOIP_MMAP
      then (source_instance a FAST_SOURCE_TYPE_VOIP, e\<lparr>fastSourceType := FAST_SOURCE_TYPE_VOIP\<rparr>)
      else (False, e))"

definition GetAdapterBufferInfo :: "adapter_env \<Rightarrow> DeviceInfo \<Rightarrow> AudioEndpoint \<Rightarrow> err \<times> AudioEndpoint" where
  "GetAdapterBufferInfo a d e =
     (if (if di_deviceRole d = 1 then \<not> fastSource e else \<not> fastSink e) then (ERR_INVALID_HANDLE, e)
      else case mmap_info a of (ret, fd, totalSize, spanSize, byteSize) \<Rightarrow>
        let e1 = e\<lparr>dstBufferFd := fd, dstTotalSizeInframe := totalSize, dstSpanSizeInframe := spanSize,
                   dstByteSizePerFrame := byteSize\<rparr>
        in if ret \<noteq> SUCCESS \<or> fd = - 1 \<or> totalSize = 0 \<or> spanSize = 0 \<or> byteSize = 0
           then (ERR_ILLEGAL_STATE, e1) else (SUCCESS, e1))"

definition InitAudiobuffer :: "bool \<Rightarrow> AudioEndpoint \<Rightarrow> server \<Rightarrow> server exec" where
  "InitAudiobuffer resetReadWritePos e w =
     (case dstAudioBuffer e of None \<Rightarrow> Inr w
      | Some b \<Rightarrow>
        exec_bind (if resetReadWritePos then exec_bind (ResetCurReadWritePos (buffers w b) 0 0) (\<lambda>r. Inr (snd r))
                   else Inr (buffers w b))
          (\<lambda>B. Inr (put_buffer w b (reset_spans (if is_input e then SPAN_WRITE_DONE else SPAN_READ_DONE) B))))"

text \<open>\<open>PrepareDeviceBuffer\<close> maps the adapter's buffer; \<open>b\<close> and \<open>mem\<close> are its address and its bytes.\<close>

definition PrepareDeviceBuffer ::
    "adapter_env \<Rightarrow> bref \<Rightarrow> u8 list \<Rightarrow> DeviceInfo \<Rightarrow> AudioEndpoint \<Rightarrow> server \<Rightarrow> (err \<times> AudioEndpoint \<times> server) exec" where
  "PrepareDeviceBuffer a b mem d e w =
     (if dstAudioBuffer e \<noteq> None then Inr (SUCCESS, e, w)
      else case GetAdapterBufferInfo a d e of (ret, e1) \<Rightarrow>
        if ret \<noteq> SUCCESS then Inr (ERR_OPERATION_FAILED, e1, w)
        else if si_samplingRate (dstStreamInfo e1) = 0 then Inl DivByZero
        else
          let dur = s64_quot (ucast (dstSpanSizeInframe e1) * AUDIO_NS_PER_SECOND)
                      (ucast (si_samplingRate (dstStreamInfo e1)));
              temp = s64_quot dur 5 * 3;
              e2 = e1\<lparr>spanDuration := dur,
                      serverAheadReadTime := (if temp <s ONE_MILLISECOND_DURATION then ONE_MILLISECOND_DURATION else temp)\<rparr>
          in if \<not> (0 <s dur \<and> dur <s MAX_SPAN_DURATION_IN_NANO) then Inr (ERR_INVALID_PARAM, e2, w)
             else exec_bind (CreateFromRemote (a_os a) (dstTotalSizeInframe e2) (dstSpanSizeInframe e2)
                      (dstByteSizePerFrame e2) AUDIO_SERVER_ONLY (dstBufferFd e2) INVALID_FD)
               (\<lambda>r. case r of
                  None \<Rightarrow> Inr (ERR_ILLEGAL_STATE, e2, w)
                | Some B \<Rightarrow>
                  if GetBufferHolder B \<noteq> AUDIO_SERVER_ONLY then Inr (ERR_ILLEGAL_STATE, e2\<lparr>dstAudioBuffer := Some b\<rparr>, put_buffer w b B)
                  else if GetStreamStatus B = None then Inr (ERR_INVALID_PARAM, e2\<lparr>dstAudioBuffer := Some b\<rparr>, put_buffer w b B)
                  else
                    let e3 = e2\<lparr>dstAudioBuffer := Some b\<rparr>;
                        w1 = clear_data b ((put_buffer w b (set_stream_status B STREAM_IDEL))\<lparr>mems := (mems w)(b := mem)\<rparr>)
                    in exec_bind (InitAudiobuffer True e3 w1) (\<lambda>w2. Inr (SUCCESS, e3, w2))))"

definition StartThread :: "AudioEndpoint \<Rightarrow> AudioEndpoint" where
  "StartThread e = e\<lparr>endpointStatus := UNLINKED, ep_isInited := True\<rparr>"

text \<open>The failure of \<open>PrepareDeviceBuffer\<close> releases the adapter again.\<close>

definition ConfigInputPoint ::
    "adapter_env \<Rightarrow> bref \<Rightarrow> u8 list \<Rightarrow> DeviceInfo \<Rightarrow> AudioEndpoint \<Rightarrow> server \<Rightarrow> (bool \<times> AudioEndpoint \<times> server) exec" where
  "ConfigInputPoint a b mem d e w =
     (case GetFastSource a (di_networkId d) (endpointType e) e of (src, e0) \<Rightarrow>
      let present = (if di_networkId d = LOCAL_NETWORK then source_instance a FAST_SOURCE_TYPE_NORMAL
                     else if daudio_enabled a then source_instance a FAST_SOURCE_TYPE_REMOTE else src);
          e1 = e0\<lparr>fastSource := present\<rparr>
      in if \<not> present then Inr (False, e1, w)
         else if adapter_init a \<noteq> SUCCESS \<or> \<not> adapter_inited a then Inr (False, e1\<lparr>fastSource := False\<rparr>, w)
         else exec_bind (PrepareDeviceBuffer a b mem d e1 w) (\<lambda>(ret, e2, w1).
           if ret \<noteq> SUCCESS then Inr (False, e2\<lparr>fastSource := False\<rparr>, note_call SourceDeInit w1)
           else case ConfigSampleRate (writeTimeModel e2) (si_samplingRate (dstStreamInfo e2)) of (ok, m) \<Rightarrow>
             let e3 = e2\<lparr>writeTimeModel := m\<rparr>
             in if \<not> ok then Inr (False, e3, w1) else Inr (True, StartThread e3, w1)))"

definition last_in_order :: "'e::len word set \<Rightarrow> 'e word" where
  "last_in_order S = last (in_order S)"

definition Config ::
    "adapter_env \<Rightarrow> bref \<Rightarrow> u8 list \<Rightarrow> DeviceInfo \<Rightarrow> AudioEndpoint \<Rightarrow> server \<Rightarrow> (bool \<times> AudioEndpoint \<times> server) exec" where
  "Config a b mem d e w =
     (let e0 = e\<lparr>deviceInfo := d\<rparr>; s = di_audioStreamInfo d in
      if \<not> DeviceStreamInfo_CheckParams s then Inr (False, e0, w)
      else
        let e1 = e0\<lparr>dstStreamInfo := \<lparr>si_samplingRate = last_in_order (ws_samplingRate s),
                     si_encoding = ws_encoding s, si_format = ws_format s,
                     si_channels = last_in_order (ws_channels s), si_channelLayout = ws_channelLayout s\<rparr>\<rparr>
        in if di_deviceRole d = 1 then ConfigInputPoint a b mem d e1 w
           else case GetFastSink a d (endpointType e1) e1 of (present, e2) \<Rightarrow>
             let e3 = e2\<lparr>fastSink := present\<rparr> in
             if \<not> present then Inr (False, e3, w)
             else if \<not> adapter_inited a then Inr (False, e3\<lparr>fastSink := False\<rparr>, w)
             else exec_bind (PrepareDeviceBuffer a b mem d e3 w) (\<lambda>(ret, e4, w1).
               if ret \<noteq> SUCCESS then Inr (False, e4\<lparr>fastSink := False\<rparr>, note_call SinkDeInit w1)
               else case ConfigSampleRate (readTimeModel e4) (si_samplingRate (dstStreamInfo e4)) of (ok, m) \<Rightarrow>
                 let e5 = e4\<lparr>readTimeModel := m\<rparr>
                 in if \<not> ok then Inr (False, e5, w1) else Inr (True, StartThread e5, w1)))"

definition GetPreferBufferInfo :: "AudioEndpoint \<Rightarrow> err \<times> u32 \<times> u32" where
  "GetPreferBufferInfo e = (SUCCESS, dstTotalSizeInframe e, dstSpanSizeInframe e)"

definition GetStatus :: "AudioEndpoint \<Rightarrow> EndpointStatus" where
  "GetStatus e = endpointStatus e"

section \<open>Starting and stopping the device\<close>

definition IsAnyProcessRunning :: "AudioEndpoint \<Rightarrow> server \<Rightarrow> bool" where
  "IsAnyProcessRunning e w \<longleftrightarrow>
     (\<exists>b \<in> set (processBufferList e). GetStreamStatus (buffers w b) = Some STREAM_RUNNING)"

text \<open>\<open>true\<close> when the adapter is missing or fails; a device that is neither input nor output has none.\<close>

definition start_adapter_fails :: "AudioEndpoint \<Rightarrow> server \<Rightarrow> bool \<times> server" where
  "start_adapter_fails e w =
     (if is_input e
      then if \<not> fastSource e then (True, w)
           else case adapter_call SourceStart w of (r, w1) \<Rightarrow> (r \<noteq> SUCCESS, w1)
      else if is_output e
      then if \<not> fastSink e then (True, w)
           else case adapter_call SinkStart w of (r, w1) \<Rightarrow> (r \<noteq> SUCCESS, w1)
      else (False, w))"

definition stop_adapter :: "AudioEndpoint \<Rightarrow> server \<Rightarrow> bool \<times> server" where
  "stop_adapter e w =
     (if is_input e
      then if \<not> fastSource e then (False, w)
           else case adapter_call SourceStop w of (r, w1) \<Rightarrow> (r = SUCCESS, w1)
      else if \<not> fastSink e then (False, w)
           else case adapter_call SinkStop w of (r, w1) \<Rightarrow> (r = SUCCESS, w1))"

definition HandleStartDeviceFailed :: "AudioEndpoint \<Rightarrow> AudioEndpoint" where
  "HandleStartDeviceFailed e =
     e\<lparr>isStarted := False,
       endpointStatus := (if length (processList e) \<le> 1 then UNLINKED else IDEL)\<rparr>"

definition StartDevice :: "AudioEndpoint \<Rightarrow> server \<Rightarrow> bool \<times> AudioEndpoint \<times> server" where
  "StartDevice e w =
     (if endpointStatus e \<noteq> IDEL then (False, e, w)
      else
        let e1 = e\<lparr>endpointStatus := STARTING\<rparr> in
        case start_adapter_fails e1 w of (failed, w1) \<Rightarrow>
          if failed then (False, HandleStartDeviceFailed e1, w1)
          else
            let e2 = e1\<lparr>isStarted := True\<rparr>;
                w2 = (if isInnerCapEnabled e2 \<and> dupStream e2 then note_call DupStart w1 else w1)
            in (True, e2\<lparr>needReSyncPosition := True,
                         endpointStatus := (if IsAnyProcessRunning e2 w2 then RUNNING else IDEL)\<rparr>, w2))"

definition stop_prologue :: "AudioEndpoint \<Rightarrow> server \<Rightarrow> server" where
  "stop_prologue e w =
     (let w1 = (case dstAudioBuffer e of None \<Rightarrow> w | Some b \<Rightarrow> clear_data b w)
      in if isInnerCapEnabled e \<and> dupStream e then note_call DupStop w1 else w1)"

definition DelayStopDevice :: "AudioEndpoint \<Rightarrow> server \<Rightarrow> bool \<times> AudioEndpoint \<times> server" where
  "DelayStopDevice e w =
     (case stop_adapter e (stop_prologue e w) of (ok, w1) \<Rightarrow>
        if ok then (True, e\<lparr>isStarted := False\<rparr>, w1) else (False, e, w1))"

definition StopDevice :: "AudioEndpoint \<Rightarrow> server \<Rightarrow> bool \<times> AudioEndpoint \<times> server" where
  "StopDevice e w =
     (let e1 = e\<lparr>endpointStatus := STOPPING\<rparr> in
      case stop_adapter e1 (stop_prologue e1 w) of (ok, w1) \<Rightarrow>
        if ok then (True, e1\<lparr>endpointStatus := STOPPED, isStarted := False\<rparr>, w1) else (False, e1, w1))"

definition arm_delay_stop :: "AudioEndpoint \<Rightarrow> server \<Rightarrow> AudioEndpoint \<times> server" where
  "arm_delay_stop e w =
     (case GetCurNano w of (t, w1) \<Rightarrow> (e\<lparr>delayStopTime := t + DELAY_STOP_HDI_TIME\<rparr>, w1))"

section \<open>Processes that start and pause\<close>

definition OnStart :: "AudioEndpoint \<Rightarrow> server \<Rightarrow> err \<times> AudioEndpoint \<times> server" where
  "OnStart e w =
     (if endpointStatus e = RUNNING then (SUCCESS, e, w)
      else
        case (if endpointStatus e = IDEL \<and> \<not> isStarted e then StartDevice e w else (True, e, w)) of
          (ok, e1, w1) \<Rightarrow>
            if \<not> ok then (ERR_OPERATION_FAILED, e1, w1)
            else (SUCCESS, e1\<lparr>endpointStatus := RUNNING, delayStopTime := INT64_MAX\<rparr>, w1))"

text \<open>\<open>CheckStandBy\<close>, and the same two steps of \<open>OnPause\<close>: an endpoint none of whose processes runs
  any more is idle, and an idle one will stop its device.\<close>

definition settle_idle :: "AudioEndpoint \<Rightarrow> server \<Rightarrow> AudioEndpoint \<times> server" where
  "settle_idle e w =
     (let e1 = (if endpointStatus e = RUNNING
                then e\<lparr>endpointStatus := (if IsAnyProcessRunning e w then RUNNING else IDEL)\<rparr> else e)
      in if endpointStatus e1 = IDEL then arm_delay_stop e1 w else (e1, w))"

definition OnPause :: "AudioEndpoint \<Rightarrow> server \<Rightarrow> err \<times> AudioEndpoint \<times> server" where
  "OnPause e w = (case settle_idle e w of (e1, w1) \<Rightarrow> (SUCCESS, e1, w1))"

definition CheckStandBy :: "AudioEndpoint \<Rightarrow> server \<Rightarrow> AudioEndpoint \<times> server" where
  "CheckStandBy e w = settle_idle e w"

section \<open>Linking and unlinking\<close>

definition push_process :: "pref \<Rightarrow> bref \<Rightarrow> AudioEndpoint \<Rightarrow> AudioEndpoint" where
  "push_process p b e =
     e\<lparr>processList := processList e @ [p], processBufferList := processBufferList e @ [b]\<rparr>"

text \<open>From the point where the endpoint is not \<open>STARTING\<close>, or has been for 400 ms.\<close>

definition link_after_wait :: "pref \<Rightarrow> bref \<Rightarrow> bool \<Rightarrow> AudioEndpoint \<Rightarrow> server \<Rightarrow> err \<times> AudioEndpoint \<times> server" where
  "link_after_wait p b needEndpointRunning e w =
     (if endpointStatus e = RUNNING then (SUCCESS, push_process p b e, w)
      else
        case (if endpointStatus e = UNLINKED
              then let e1 = e\<lparr>endpointStatus := IDEL\<rparr>
                   in if isDeviceRunningInIdel e1
                      then case StartDevice e1 w of (ok, e2, w2) \<Rightarrow>
                             if ok then case arm_delay_stop e2 w2 of (e3, w3) \<Rightarrow> (True, e3, w3)
                             else (False, e2, w2)
                      else (True, e1, w)
              else (True, e, w)) of
          (ok, e1, w1) \<Rightarrow>
            if \<not> ok then (ERR_OPERATION_FAILED, e1, w1)
            else if endpointStatus e1 = IDEL
            then let e2 = push_process p b e1 in
                 if \<not> needEndpointRunning then (SUCCESS, e2, w1)
                 else if isDeviceRunningInIdel e2
                 then (SUCCESS, e2\<lparr>endpointStatus := (if IsAnyProcessRunning e2 w1 then RUNNING else IDEL)\<rparr>, w1)
                 else case StartDevice e2 w1 of (ok2, e3, w3) \<Rightarrow>
                        (if ok2 then SUCCESS else ERR_OPERATION_FAILED, e3, w3)
            else (SUCCESS, e1, w1))"

definition LinkProcessStream ::
    "(AudioEndpoint \<times> server \<Rightarrow> AudioEndpoint \<times> server) \<Rightarrow> pref option \<Rightarrow> AudioEndpoint \<Rightarrow> server \<Rightarrow>
     err \<times> AudioEndpoint \<times> server" where
  "LinkProcessStream meanwhile stream e w =
     (case stream of None \<Rightarrow> (ERR_INVALID_PARAM, e, w)
      | Some p \<Rightarrow>
        (case GetStreamBuffer (procs w p) of None \<Rightarrow> (ERR_INVALID_PARAM, e, w)
         | Some b \<Rightarrow>
           if GetStreamStatus (buffers w b) = None then (ERR_INVALID_PARAM, e, w)
           else if \<not> length (processList e) < MAX_LINKED_PROCESS then (ERR_OPERATION_FAILED, e, w)
           else
             let B = snd (SetSessionId (buffers w b) (GetAudioSessionId (procs w p)));
                 w1 = put_buffer w b B;
                 needEndpointRunning = (GetStreamStatus B = Some STREAM_RUNNING);
                 (e2, w2) = (if endpointStatus e = STARTING then meanwhile (e, w1) else (e, w1))
             in link_after_wait p b needEndpointRunning e2 w2))"

fun unlink_lists :: "pref \<Rightarrow> bref \<Rightarrow> pref list \<Rightarrow> bref list \<Rightarrow> pref list \<times> bref list" where
  "unlink_lists p b (x # xs) (y # ys) =
     (if x = p \<and> y = b then (xs, ys)
      else case unlink_lists p b xs ys of (xs', ys') \<Rightarrow> (x # xs', y # ys'))"
| "unlink_lists p b xs ys = (xs, ys)"

definition UnlinkProcessStream :: "pref option \<Rightarrow> AudioEndpoint \<Rightarrow> server \<Rightarrow> err \<times> AudioEndpoint \<times> server" where
  "UnlinkProcessStream stream e w =
     (case stream of None \<Rightarrow> (ERR_INVALID_PARAM, e, w)
      | Some p \<Rightarrow>
        (case GetStreamBuffer (procs w p) of None \<Rightarrow> (ERR_INVALID_PARAM, e, w)
         | Some b \<Rightarrow>
           let (ps, bs) = unlink_lists p b (processList e) (processBufferList e);
               e1 = e\<lparr>processList := ps, processBufferList := bs\<rparr>
           in if ps = []
              then case StopDevice e1 w of (ok, e2, w2) \<Rightarrow> (SUCCESS, e2\<lparr>endpointStatus := UNLINKED\<rparr>, w2)
              else (SUCCESS, e1, w)))"

section \<open>Handle information\<close>

lemma step_back_less:
  fixes pos :: u64 and spanSize :: u32
  assumes "\<not> pos < ucast spanSize" and "spanSize \<noteq> 0"
  shows "unat (pos - ucast spanSize) < unat pos"
proof -
  have "0 < unat (ucast spanSize :: u64)" "unat (ucast spanSize :: u64) \<le> unat pos"
    using assms by (simp_all add: word_less_nat_alt unat_gt_0)
  then show ?thesis by (simp add: unat_sub_le word_le_nat_alt)
qed

text \<open>The search goes back span by span from the position being written. It is bounded by the
  position itself: below one span it ends. With a span of no frames it would not end; the outcome
  \<^term>\<open>Inl UncheckedAccess\<close> stands for the stack it exhausts.\<close>

function GetProcLastWriteDoneInfo :: "OHAudioBuffer \<Rightarrow> u32 \<Rightarrow> u64 \<Rightarrow> (err + u64 \<times> u64) exec" where
  "GetProcLastWriteDoneInfo B spanSize writeFrame =
     exec_bind (GetSpanInfo B writeFrame) (\<lambda>r. case r of
       None \<Rightarrow> Inr (Inl ERR_INVALID_HANDLE)
     | Some k \<Rightarrow>
       if spanStatus (span_at B k) = SPAN_WRITE_DONE \<or> writeFrame < ucast spanSize \<or>
          writeFrame < GetCurReadFrame B
       then Inr (Inr (writeFrame, writeDoneTime (span_at B k)))
       else if spanSize = 0 then Inl UncheckedAccess
       else GetProcLastWriteDoneInfo B spanSize (writeFrame - ucast spanSize))"
  by pat_completeness auto

termination
  by (relation "measure (\<lambda>(B, spanSize, pos). unat pos)") (simp, simp add: step_back_less)

declare GetProcLastWriteDoneInfo.simps [simp del]

definition OnUpdateHandleInfo :: "pref \<Rightarrow> AudioEndpoint \<Rightarrow> server \<Rightarrow> (err \<times> server) exec" where
  "OnUpdateHandleInfo p e w =
     (if p \<notin> set (processList e) then Inr (ERR_OPERATION_FAILED, w)
      else case GetStreamBuffer (procs w p) of
        None \<Rightarrow> Inr (ERR_OPERATION_FAILED, w)
      | Some b \<Rightarrow>
        if is_input e
        then exec_bind (GetProcLastWriteDoneInfo (buffers w b) (dstSpanSizeInframe e) (GetCurWriteFrame (buffers w b)))
               (\<lambda>r. case r of
                  Inl ret \<Rightarrow> Inr (ret, w)
                | Inr (proHandleFrame, proHandleTime) \<Rightarrow>
                  exec_bind (SetHandleInfo (buffers w b) proHandleFrame proHandleTime)
                    (\<lambda>B. Inr (SUCCESS, put_buffer w b B)))
        else Inr (SUCCESS, w))"

section \<open>Inner capture\<close>

definition ShouldInnerCap :: "AudioEndpoint \<Rightarrow> server \<Rightarrow> bool" where
  "ShouldInnerCap e w \<longleftrightarrow> (\<exists>p \<in> set (processList e). GetInnerCapState (procs w p))"

text \<open>The stream that receives the copy is created by the dup playback manager, whose reply
  \<open>SUCCESS\<close> comes with a stream.\<close>

definition InitDupStream :: "AudioEndpoint \<Rightarrow> server \<Rightarrow> (err \<times> AudioEndpoint \<times> server) exec" where
  "InitDupStream e w =
     (if isInnerCapEnabled e then Inr (SUCCESS, e, w)
      else case adapter_call DupCreate w of (r, w1) \<Rightarrow>
        if r \<noteq> SUCCESS then Inr (ERR_OPERATION_FAILED, e, w1)
        else
          let e1 = e\<lparr>dupStream := True,
                     dupBufferSize := unat (dstSpanSizeInframe e * dstByteSizePerFrame e)\<rparr>
          in case dstAudioBuffer e1 of None \<Rightarrow> Inl NullDeref
             | Some b \<Rightarrow>
               if \<not> dupBufferSize e1 < unat (GetDataSize (buffers w1 b)) then Inr (ERR_OPERATION_FAILED, e1, w1)
               else
                 let e2 = e1\<lparr>dupBuffer := Some (replicate (dupBufferSize e1) 0)\<rparr>;
                     w2 = (if endpointStatus e2 = RUNNING \<or> endpointStatus e2 = IDEL \<and> isDeviceRunningInIdel e2
                           then note_call DupStart w1 else w1)
                 in Inr (SUCCESS, e2\<lparr>isInnerCapEnabled := True\<rparr>, w2))"

definition EnableFastInnerCap :: "AudioEndpoint \<Rightarrow> server \<Rightarrow> (err \<times> AudioEndpoint \<times> server) exec" where
  "EnableFastInnerCap e w =
     (if isInnerCapEnabled e then Inr (SUCCESS, e, w)
      else if \<not> is_output e then Inr (ERR_INVALID_OPERATION, e, w)
      else exec_bind (InitDupStream e w) (\<lambda>(ret, e1, w1).
        Inr (if ret = SUCCESS then SUCCESS else ERR_OPERATION_FAILED, e1, w1)))"

definition DisableFastInnerCap :: "AudioEndpoint \<Rightarrow> server \<Rightarrow> err \<times> AudioEndpoint \<times> server" where
  "DisableFastInnerCap e w =
     (if \<not> is_output e \<or> \<not> isInnerCapEnabled e then (SUCCESS, e, w)
      else (SUCCESS, e\<lparr>isInnerCapEnabled := False, dupStream := False\<rparr>, note_call DupRelease w))"

definition Release :: "AudioEndpoint \<Rightarrow> server \<Rightarrow> AudioEndpoint \<times> server" where
  "Release e w =
     (if \<not> ep_isInited e then (e, w)
      else
        let w1 = (if fastSink e then note_call SinkDeInit w else w);
            w2 = (if fastSource e then note_call SourceDeInit w1 else w1);
            e1 = e\<lparr>ep_isInited := False, stopUpdateThread := True, fastSink := False, fastSource := False,
                   endpointStatus := INVALID, dstAudioBuffer := None\<rparr>
        in if is_output e1 \<and> isInnerCapEnabled e1
           then (case DisableFastInnerCap e1 w2 of (_, e2, w3) \<Rightarrow> (e2, w3)) else (e1, w2))"

section \<open>The device position\<close>

definition GetDeviceHandleInfo :: "AudioEndpoint \<Rightarrow> server \<Rightarrow> (u64 \<times> s64) option \<times> server" where
  "GetDeviceHandleInfo e w =
     (if (if is_input e then \<not> fastSource e else \<not> fastSink e) then (None, w)
      else case positions w (queries w) of (inited, ret, frames, timeSec, timeNanoSec) \<Rightarrow>
        let w1 = w\<lparr>queries := Suc (queries w)\<rparr> in
        if \<not> inited \<or> ret \<noteq> SUCCESS then (None, w1)
        else (Some (frames, timeNanoSec + timeSec * AUDIO_NS_PER_SECOND), w1))"

text \<open>One turn of the thread \<open>AsyncGetPosTime\<close>: it wakes up, once a second or when the work loop
  signals it. An idle endpoint whose time is up has its device stopped; otherwise the position of
  a running device is noted.\<close>

definition AsyncGetPosTime :: "AudioEndpoint \<Rightarrow> server \<Rightarrow> AudioEndpoint \<times> server" where
  "AsyncGetPosTime e w =
     (case (if endpointStatus e = IDEL \<and> isStarted e
            then case GetCurNano w of (t, w1) \<Rightarrow> (delayStopTime e <s t, w1) else (False, w)) of
        (timeout, w1) \<Rightarrow>
          if timeout then (case DelayStopDevice e w1 of (_, e2, w2) \<Rightarrow> (e2, w2))
          else if endpointStatus e = IDEL \<and> \<not> isStarted e then (e, w1)
          else case GetDeviceHandleInfo e w1 of
            (None, w2) \<Rightarrow> (e, w2)
          | (Some (frames, t), w2) \<Rightarrow>
            (if posInFrame e \<noteq> frames then e\<lparr>posInFrame := frames, timeInNano := t\<rparr> else e, w2))"

end
