(* ===== verification/EndpointMix.thy ===== *)
theory EndpointMix
  imports EndpointControl AudioTypes
begin

text \<open>
  Playback through an endpoint (\<open>audio_endpoint.cpp\<close>): the data of the processes that are ready,
  their mix into the device's buffer and into the inner-capture copy, and the stop of a device that
  plays nothing but silence.

  The samples of a source are the bytes from its span to the end of the client's memory, as the
  code's pointer sees them; its length is the length of the span.
\<close>

section \<open>Data\<close>

record AudioStreamData =
  sd_streamInfo :: AudioStreamInfo
  sd_data :: "u8 list"
  sd_length :: nat
  sd_volumeStart :: int
  sd_volumeEnd :: int
  sd_isInnerCaped :: bool

text \<open>What the policy service answers: the active output, whether the Bluetooth device takes
  absolute volume, and the shared volume of a volume type on a device (muted, level).\<close>

record policy_env =
  GetActiveOutPutDevice :: enum32
  IsAbsVolumeSupported :: bool
  GetSharedVolume :: "enum32 \<Rightarrow> enum32 \<Rightarrow> (bool \<times> f32) option"

definition defaultVolumeMap :: "(AudioStreamType \<times> AudioStreamType) list" where
  "defaultVolumeMap =
     [(STREAM_VOICE_CALL, STREAM_VOICE_CALL), (STREAM_VOICE_MESSAGE, STREAM_VOICE_CALL),
      (STREAM_VOICE_COMMUNICATION, STREAM_VOICE_CALL), (STREAM_VOICE_CALL_ASSISTANT, STREAM_VOICE_CALL),
      (STREAM_RING, STREAM_RING), (STREAM_SYSTEM, STREAM_RING), (STREAM_NOTIFICATION, STREAM_RING),
      (STREAM_SYSTEM_ENFORCED, STREAM_RING), (STREAM_DTMF, STREAM_RING), (STREAM_VOICE_RING, STREAM_RING),
      (STREAM_MUSIC, STREAM_MUSIC), (STREAM_MEDIA, STREAM_MUSIC), (STREAM_MOVIE, STREAM_MUSIC),
      (STREAM_GAME, STREAM_MUSIC), (STREAM_SPEECH, STREAM_MUSIC), (STREAM_NAVIGATION, STREAM_MUSIC),
      (STREAM_VOICE_ASSISTANT, STREAM_VOICE_ASSISTANT), (STREAM_ALARM, STREAM_ALARM),
      (STREAM_ACCESSIBILITY, STREAM_ACCESSIBILITY), (STREAM_ULTRASONIC, STREAM_ULTRASONIC),
      (STREAM_ALL, STREAM_ALL)]"

definition stream_word :: "AudioStreamType \<Rightarrow> enum32" where
  "stream_word s = word_of_int (stream_code s)"

definition GetVolumeTypeFromStreamType :: "enum32 \<Rightarrow> enum32" where
  "GetVolumeTypeFromStreamType c =
     (case find (\<lambda>(s, v). stream_word s = c) defaultVolumeMap of
        Some (s, v) \<Rightarrow> stream_word v
      | None \<Rightarrow> stream_word STREAM_MUSIC)"

section \<open>Silence\<close>

text \<open>After four seconds at volume zero the device is stopped, and started again at the first
  sample with a volume.\<close>

definition ZeroVolumeCheck :: "int \<Rightarrow> AudioEndpoint \<Rightarrow> server \<Rightarrow> AudioEndpoint \<times> server" where
  "ZeroVolumeCheck vol e w =
     (if vol = 0
      then if \<not> zeroVolumeStopDevice e \<and> \<not> isVolumeAlreadyZero e
           then (case GetCurNano w of (t, w1) \<Rightarrow>
                   (e\<lparr>delayStopTimeForZeroVolume := t + DELAY_STOP_HDI_TIME_FOR_ZERO_VOLUME,
                      isVolumeAlreadyZero := True\<rparr>, w1))
           else (e, w)
      else
        case (if zeroVolumeStopDevice e \<and> \<not> isStarted e
              then if \<not> fastSink e then (e\<lparr>isStarted := False, zeroVolumeStopDevice := False\<rparr>, w)
                   else (case adapter_call SinkStart w of (r, w1) \<Rightarrow>
                           (e\<lparr>isStarted := (r = SUCCESS), zeroVolumeStopDevice := False\<rparr>, w1))
              else (e, w)) of
          (e1, w1) \<Rightarrow> (e1\<lparr>isVolumeAlreadyZero := False, delayStopTimeForZeroVolume := INT64_MAX\<rparr>, w1))"

definition HandleZeroVolumeCheckEvent :: "AudioEndpoint \<Rightarrow> server \<Rightarrow> AudioEndpoint \<times> server" where
  "HandleZeroVolumeCheckEvent e w =
     (if zeroVolumeStopDevice e then (e, w)
      else case GetCurNano w of (t, w1) \<Rightarrow>
        if delayStopTimeForZeroVolume e \<le>s t
        then case (if isStarted e
                   then if \<not> fastSink e then (e\<lparr>isStarted := True\<rparr>, w1)
                        else (case adapter_call SinkStop w1 of (r, w2) \<Rightarrow> (e\<lparr>isStarted := (r \<noteq> SUCCESS)\<rparr>, w2))
                   else (e, w1)) of
               (e1, w2) \<Rightarrow> (e1\<lparr>zeroVolumeStopDevice := True\<rparr>, w2)
        else (e, w1))"

section \<open>Mixing\<close>

definition wrap32 :: "int \<Rightarrow> int" where "wrap32 x = signed_take_bit 31 x"

definition clamp16 :: "int \<Rightarrow> int" where
  "clamp16 x = (if x > 32767 then 32767 else if x < - 32768 then - 32768 else x)"

definition sample16 :: "u8 list \<Rightarrow> nat \<Rightarrow> int" where
  "sample16 bs k = sint (read_le (slice (2 * k) 2 bs) :: 16 word)"

text \<open>A 64-bit product shifted right: the floor of the division.\<close>

definition scaled :: "int \<Rightarrow> int \<Rightarrow> int" where
  "scaled x vol = (x * vol) div 2 ^ VOLUME_SHIFT_NUMBER"

fun mix_sample :: "AudioStreamData list \<Rightarrow> nat \<Rightarrow> int \<Rightarrow> AudioEndpoint \<Rightarrow> server \<Rightarrow> int \<times> AudioEndpoint \<times> server" where
  "mix_sample [] k acc e w = (acc, e, w)"
| "mix_sample (s # ss) k acc e w =
     (case ZeroVolumeCheck (sd_volumeStart s) e w of (e1, w1) \<Rightarrow>
        mix_sample ss k (wrap32 (acc + scaled (sample16 (sd_data s) k) (sd_volumeStart s))) e1 w1)"

fun mix_loop :: "AudioStreamData list \<Rightarrow> nat list \<Rightarrow> AudioEndpoint \<Rightarrow> server \<Rightarrow> 16 word list \<times> AudioEndpoint \<times> server" where
  "mix_loop srcs [] e w = ([], e, w)"
| "mix_loop srcs (k # ks) e w =
     (case mix_sample srcs k 0 e w of (acc, e1, w1) \<Rightarrow>
        case mix_loop srcs ks e1 w1 of (out, e2, w2) \<Rightarrow> (word_of_int (clamp16 acc) # out, e2, w2))"

definition is_s16_stereo :: "AudioStreamInfo \<Rightarrow> bool" where
  "is_s16_stereo s \<longleftrightarrow> si_format s = 1 \<and> si_channels s = 2"

definition is_s16_mono :: "AudioStreamInfo \<Rightarrow> bool" where
  "is_s16_mono s \<longleftrightarrow> si_format s = 1 \<and> si_channels s = 1"

text \<open>The destination is a span of the device's buffer \<open>b\<close>.\<close>

definition mix_into ::
    "AudioStreamData list \<Rightarrow> bref \<Rightarrow> BufferDesc \<Rightarrow> AudioEndpoint \<Rightarrow> server \<Rightarrow> (AudioEndpoint \<times> server) exec" where
  "mix_into srcs b d e w =
     (let n = unat (dataLength d) div 2 in
      if \<exists>s \<in> set srcs. length (sd_data s) < 2 * n then Inl UncheckedAccess
      else case mix_loop srcs [0..<n] e w of (out, e1, w1) \<Rightarrow>
        Inr (HandleZeroVolumeCheckEvent e1 (store_at w1 b (unat (bufOffset d)) (s16_bytes out))))"

definition ProcessData ::
    "AudioStreamData list \<Rightarrow> bref \<Rightarrow> BufferDesc \<Rightarrow> AudioEndpoint \<Rightarrow> server \<Rightarrow> (AudioEndpoint \<times> server) exec" where
  "ProcessData srcs b d e w =
     (if \<exists>s \<in> set srcs. \<not> is_s16_stereo (sd_streamInfo s) \<or> sd_length s \<noteq> unat (bufLength d) \<or>
           sd_length s \<noteq> unat (dataLength d)
      then Inr (e, w)
      else if \<not> is_s16_stereo (dstStreamInfo e) then Inr (e, w)
      else mix_into srcs b d e w)"

definition ProcessSingleData ::
    "AudioStreamData \<Rightarrow> bref \<Rightarrow> BufferDesc \<Rightarrow> AudioEndpoint \<Rightarrow> server \<Rightarrow> (AudioEndpoint \<times> server) exec" where
  "ProcessSingleData s b d e w =
     (if \<not> is_s16_stereo (dstStreamInfo e) then Inr (e, w) else mix_into [s] b d e w)"

text \<open>A mono stream is widened into the converted buffer of the first linked process.\<close>

definition HandleRendererDataParams ::
    "AudioStreamData \<Rightarrow> bref \<Rightarrow> BufferDesc \<Rightarrow> AudioEndpoint \<Rightarrow> server \<Rightarrow> (AudioEndpoint \<times> server) exec" where
  "HandleRendererDataParams s b d e w =
     (if si_encoding (sd_streamInfo s) \<noteq> si_encoding (dstStreamInfo e) then Inr (e, w)
      else if is_s16_stereo (sd_streamInfo s) then ProcessSingleData s b d e w
      else if is_s16_mono (sd_streamInfo s)
      then (case processList e of
              [] \<Rightarrow> Inr (e, w)
            | p # _ \<Rightarrow>
              (case S16MonoToS16Stereo (Some (take (sd_length s) (sd_data s))) (convertedBuffer (procs w p)) of
                 (ret, conv) \<Rightarrow>
                   if ret \<noteq> SUCCESS then Inr (e, w)
                   else
                     let c = the conv in
                     exec_bind (ProcessSingleData (s\<lparr>sd_data := c, sd_length := length c\<rparr>) b d e w)
                       (\<lambda>(e1, w1). Inr (e1, put_proc w1 p
                          ((procs w1 p)\<lparr>convertedBuffer := Some (replicate (length c) 0)\<rparr>)))))
      else Inr (e, w))"

section \<open>The inner-capture copy\<close>

definition add_clamped :: "nat \<Rightarrow> u8 list \<Rightarrow> u8 list \<Rightarrow> u8 list" where
  "add_clamped n buf src =
     s16_bytes (map (\<lambda>k. word_of_int (clamp16 (sample16 buf k + sample16 src k))) [0..<n]) @ drop (2 * n) buf"

fun mix_dup :: "nat \<Rightarrow> AudioStreamData list \<Rightarrow> u8 list \<Rightarrow> u8 list exec" where
  "mix_dup n [] buf = Inr buf"
| "mix_dup n (s # ss) buf =
     (if \<not> sd_isInnerCaped s then mix_dup n ss buf
      else if length (sd_data s) < 2 * n then Inl UncheckedAccess
      else mix_dup n ss (add_clamped n buf (sd_data s)))"

definition MixToDupStream :: "AudioStreamData list \<Rightarrow> AudioEndpoint \<Rightarrow> server \<Rightarrow> (AudioEndpoint \<times> server) exec" where
  "MixToDupStream srcs e w =
     (case dupBuffer e of None \<Rightarrow> Inr (e, w)
      | Some buf \<Rightarrow>
        exec_bind (mix_dup (dupBufferSize e div 2) srcs buf) (\<lambda>mixed.
          if \<not> dupStream e then Inl NullDeref
          else case adapter_call (DupEnqueue mixed) w of (r, w1) \<Rightarrow>
            if r \<noteq> SUCCESS then Inr (e\<lparr>dupBuffer := Some mixed\<rparr>, w1)
            else Inr (e\<lparr>dupBuffer := Some (replicate (dupBufferSize e) 0)\<rparr>, w1)))"

section \<open>The processes that are ready\<close>

definition stream_volume :: "policy_env \<Rightarrow> AudioEndpoint \<Rightarrow> AudioProcess \<Rightarrow> SpanInfo \<Rightarrow> int exec" where
  "stream_volume pol e P sp =
     (if di_networkId (deviceInfo e) = LOCAL_NETWORK \<and>
         (di_deviceType (deviceInfo e) \<noteq> 8 \<or> \<not> IsAbsVolumeSupported pol)
      then case GetSharedVolume pol (GetVolumeTypeFromStreamType (GetAudioStreamType P)) (GetActiveOutPutDevice pol) of
             Some (muted, level) \<Rightarrow> if muted then Inr 0 else mul_to_int 32 (volumeStart sp) level
           | None \<Rightarrow> Inr (volumeStart sp)
      else Inr (volumeStart sp))"

text \<open>A span that was written is taken over for reading. When the read position has no buffer the
  code goes on with a descriptor it never set.\<close>

definition take_ready ::
    "policy_env \<Rightarrow> AudioEndpoint \<Rightarrow> pref \<Rightarrow> bref \<Rightarrow> server \<Rightarrow> (AudioStreamData list \<times> server) exec" where
  "take_ready pol e p b w =
     (let B = buffers w b; P = procs w p; curRead = GetCurReadFrame B in
      exec_bind (GetSpanInfo B curRead) (\<lambda>r. case r of
        None \<Rightarrow> Inr ([], w)
      | Some k \<Rightarrow>
        exec_bind (stream_volume pol e P (span_at B k)) (\<lambda>vol.
          if spanStatus (span_at B k) \<noteq> SPAN_WRITE_DONE then Inr ([], w)
          else
            let B1 = upd_span B k (\<lambda>s. s\<lparr>spanStatus := SPAN_READING\<rparr>) in
            exec_bind (GetReadbuffer B1 curRead) (\<lambda>q. case q of
              Inl _ \<Rightarrow> Inl UncheckedAccess
            | Inr d \<Rightarrow>
              let off = unat (bufOffset d); n = unat (bufLength d);
                  w1 = put_buffer w b B1;
                  w2 = (if GetMuteFlag P then store_at w1 b off (replicate n 0) else w1);
                  data = \<lparr>sd_streamInfo = GetStreamInfo P, sd_data = drop off (mems w2 b), sd_length = n,
                          sd_volumeStart = vol, sd_volumeEnd = volumeEnd (span_at B k),
                          sd_isInnerCaped = GetInnerCapState P\<rparr>
              in case GetCurNano w2 of (t, w3) \<Rightarrow>
                   Inr ([data], put_buffer w3 b (upd_span B1 k (\<lambda>s. s\<lparr>readStartTime := t\<rparr>)))))))"

fun ready_loop ::
    "policy_env \<Rightarrow> AudioEndpoint \<Rightarrow> pref list \<Rightarrow> bref list \<Rightarrow> server \<Rightarrow> (AudioStreamData list \<times> server) exec" where
  "ready_loop pol e ps [] w = Inr ([], w)"
| "ready_loop pol e [] (b # bs) w = Inl UncheckedAccess"
| "ready_loop pol e (p # ps) (b # bs) w =
     exec_bind (take_ready pol e p b w) (\<lambda>(d, w1).
       exec_bind (ready_loop pol e ps bs w1) (\<lambda>(ds, w2). Inr (d @ ds, w2)))"

definition GetAllReadyProcessData ::
    "policy_env \<Rightarrow> AudioEndpoint \<Rightarrow> server \<Rightarrow> (AudioStreamData list \<times> server) exec" where
  "GetAllReadyProcessData pol e w = ready_loop pol e (processList e) (processBufferList e) w"

text \<open>One span of the device: mixed, or silent when no process has data.\<close>

definition ProcessToEndpointDataHandle ::
    "policy_env \<Rightarrow> u64 \<Rightarrow> AudioEndpoint \<Rightarrow> server \<Rightarrow> (bool \<times> AudioEndpoint \<times> server) exec" where
  "ProcessToEndpointDataHandle pol curWritePos e w =
     exec_bind (GetAllReadyProcessData pol e w) (\<lambda>(srcs, w1).
       case dstAudioBuffer e of None \<Rightarrow> Inl NullDeref
       | Some b \<Rightarrow>
         exec_bind (GetWriteBuffer (buffers w1 b) curWritePos) (\<lambda>q. case q of
           Inl _ \<Rightarrow> Inr (False, e, w1)
         | Inr d \<Rightarrow>
           exec_bind (GetSpanInfo (buffers w1 b) curWritePos) (\<lambda>r. case r of
             None \<Rightarrow> Inr (False, e, w1)
           | Some k \<Rightarrow>
             exec_bind
               (if srcs = [] then Inr (e, store_at w1 b (unat (bufOffset d)) (replicate (unat (bufLength d)) 0))
                else if endpointType e = TYPE_VOIP_MMAP \<and> length srcs = 1
                then HandleRendererDataParams (hd srcs) b d e w1
                else ProcessData srcs b d e w1)
               (\<lambda>(e2, w2).
                  exec_bind (if isInnerCapEnabled e2 then MixToDupStream srcs e2 w2 else Inr (e2, w2))
                    (\<lambda>(e3, w3). Inr (True, e3, w3))))))"

end
