(* ===== verification/EndpointLoop.thy ===== *)
theory EndpointLoop
  imports EndpointMix
begin

text \<open>
  The two work loops of an endpoint (\<open>audio_endpoint.cpp\<close>): every period the playback loop waits
  for the clients' data, mixes one span into the device's buffer and frees the spans it read; the
  recording loop copies one span of the device's buffer to every running client.

  A loop function is one turn. Sleeping reads the clock and changes nothing else.
\<close>

section \<open>Keeping in step with the device\<close>

definition KeepWorkloopRunning :: "AudioEndpoint \<Rightarrow> server \<Rightarrow> bool \<times> server" where
  "KeepWorkloopRunning e w =
     (case endpointStatus e of
        RUNNING \<Rightarrow> (True, w)
      | IDEL \<Rightarrow> (case GetCurNano w of (t, w1) \<Rightarrow> (\<not> delayStopTime e <s t \<and> isDeviceRunningInIdel e, w1))
      | _ \<Rightarrow> (False, w))"

definition ReSyncPosition :: "AudioEndpoint \<Rightarrow> server \<Rightarrow> (AudioEndpoint \<times> server) exec" where
  "ReSyncPosition e w =
     (case GetDeviceHandleInfo e w of
        (None, w1) \<Rightarrow> Inr (e, w1)
      | (Some (curHdiReadPos, readTime), w1) \<Rightarrow>
        case GetCurNano w1 of (_, w2) \<Rightarrow>
        let e1 = e\<lparr>readTimeModel := ResetFrameStamp (readTimeModel e) curHdiReadPos readTime\<rparr>;
            next = curHdiReadPos + ucast (dstSpanSizeInframe e)
        in exec_bind (InitAudiobuffer False e1 w2) (\<lambda>w3.
             case dstAudioBuffer e1 of None \<Rightarrow> Inl NullDeref
             | Some b \<Rightarrow>
               exec_bind (ResetCurReadWritePos (buffers w3 b) next next) (\<lambda>(ret, B).
                 if ret \<noteq> SUCCESS then Inr (e1, put_buffer w3 b B)
                 else exec_bind (GetSpanInfo B next) (\<lambda>r. case r of
                   None \<Rightarrow> Inr (e1, put_buffer w3 b B)
                 | Some k \<Rightarrow>
                   Inr (e1, put_buffer w3 b
                     (upd_span B k (\<lambda>s. s\<lparr>offsetInFrame := next, spanStatus := SPAN_READ_DONE\<rparr>)))))))"

definition RecordReSyncPosition :: "AudioEndpoint \<Rightarrow> server \<Rightarrow> (AudioEndpoint \<times> server) exec" where
  "RecordReSyncPosition e w =
     (case GetDeviceHandleInfo e w of
        (None, w1) \<Rightarrow> Inr (e, w1)
      | (Some (curHdiWritePos, writeTime), w1) \<Rightarrow>
        case GetCurNano w1 of (_, w2) \<Rightarrow>
        let e1 = e\<lparr>writeTimeModel := ResetFrameStamp (writeTimeModel e) curHdiWritePos writeTime\<rparr>
        in exec_bind (InitAudiobuffer False e1 w2) (\<lambda>w3.
             case dstAudioBuffer e1 of None \<Rightarrow> Inl NullDeref
             | Some b \<Rightarrow>
               exec_bind (ResetCurReadWritePos (buffers w3 b) curHdiWritePos curHdiWritePos) (\<lambda>(ret, B).
                 if ret \<noteq> SUCCESS then Inr (e1, put_buffer w3 b B)
                 else exec_bind (GetSpanInfo B curHdiWritePos) (\<lambda>r. case r of
                   None \<Rightarrow> Inr (e1, put_buffer w3 b B)
                 | Some k \<Rightarrow>
                   Inr (e1, put_buffer w3 b
                     (upd_span B k (\<lambda>s. s\<lparr>offsetInFrame := curHdiWritePos, spanStatus := SPAN_WRITE_DONE\<rparr>)))))))"

text \<open>The prediction first takes over the position the other thread has noted, if it is new.\<close>

definition take_position :: "LinearPosTimeModel \<Rightarrow> AudioEndpoint \<Rightarrow> LinearPosTimeModel exec" where
  "take_position m e =
     (case GetFrameStamp m of
        Some (frame, _) \<Rightarrow>
          if frame \<noteq> posInFrame e
          then exec_bind (UpdataFrameStamp m (posInFrame e) (timeInNano e)) (\<lambda>(_, m1). Inr m1)
          else Inr m
      | None \<Rightarrow> Inr m)"

definition GetPredictNextReadTime :: "u64 \<Rightarrow> AudioEndpoint \<Rightarrow> (s64 \<times> AudioEndpoint) exec" where
  "GetPredictNextReadTime pos e =
     (if dstSpanSizeInframe e = 0 then Inl DivByZero
      else exec_bind (take_position (readTimeModel e) e) (\<lambda>m.
        Inr (GetTimeOfPos m pos, e\<lparr>readTimeModel := m\<rparr>)))"

definition GetPredictNextWriteTime :: "u64 \<Rightarrow> AudioEndpoint \<Rightarrow> (s64 \<times> AudioEndpoint) exec" where
  "GetPredictNextWriteTime pos e =
     (if dstSpanSizeInframe e = 0 then Inl DivByZero
      else exec_bind (take_position (writeTimeModel e) e) (\<lambda>m.
        Inr (GetTimeOfPos m pos, e\<lparr>writeTimeModel := m\<rparr>)))"

text \<open>The next wake-up: the predicted one, or in a millisecond when that is past.\<close>

definition next_wakeup :: "s64 \<Rightarrow> server \<Rightarrow> s64 \<times> server" where
  "next_wakeup predictWakeupTime w =
     (case GetCurNano w of (t, w1) \<Rightarrow>
        if predictWakeupTime \<le>s t
        then (case GetCurNano w1 of (t2, w2) \<Rightarrow> (t2 + ONE_MILLISECOND_DURATION, w2))
        else (predictWakeupTime, w1))"

section \<open>Playback\<close>

text \<open>One process buffer of \<open>CheckAllBufferReady\<close>: handle information, and either it is not
  running, or has been silent for a second and goes to stand-by, or it has no data yet, or it is
  ready. The two flags are \<open>isAllReady\<close> and \<open>needCheckStandby\<close>.\<close>

definition check_ready :: "s64 \<Rightarrow> bref \<Rightarrow> bool \<times> bool \<Rightarrow> server \<Rightarrow> ((bool \<times> bool) \<times> server) exec" where
  "check_ready checkTime b flags w =
     (case flags of (isAllReady, needCheckStandby) \<Rightarrow>
      let pos = GetCurReadFrame (buffers w b) in
      exec_bind (SetHandleInfo (buffers w b) pos checkTime) (\<lambda>B.
        if GetStreamStatus B \<noteq> None \<and> GetStreamStatus B \<noteq> Some STREAM_RUNNING
        then exec_bind (SetHandleInfo B pos (checkTime + 5000000)) (\<lambda>B1. Inr (flags, put_buffer w b B1))
        else
          case GetCurNano w of (current, w1) \<Rightarrow>
          if WAIT_CLIENT_STANDBY_TIME_NS <s current - GetLastWrittenTime B
          then Inr ((isAllReady, True), put_buffer w1 b (set_stream_status B STREAM_STAND_BY))
          else exec_bind (GetSpanInfo B (GetCurReadFrame B)) (\<lambda>r.
            let ready = (case r of None \<Rightarrow> False | Some k \<Rightarrow> spanStatus (span_at B k) = SPAN_WRITE_DONE)
            in if ready then Inr (flags, put_buffer w1 b (SetLastWrittenTime B current))
               else Inr ((False, needCheckStandby), put_buffer w1 b B))))"

fun check_ready_all :: "s64 \<Rightarrow> bref list \<Rightarrow> bool \<times> bool \<Rightarrow> server \<Rightarrow> ((bool \<times> bool) \<times> server) exec" where
  "check_ready_all checkTime [] flags w = Inr (flags, w)"
| "check_ready_all checkTime (b # bs) flags w =
     exec_bind (check_ready checkTime b flags w) (\<lambda>(flags1, w1). check_ready_all checkTime bs flags1 w1)"

definition WaitAllProcessReady :: "server \<Rightarrow> server" where
  "WaitAllProcessReady w = snd (GetCurNano w)"

definition CheckAllBufferReady :: "s64 \<Rightarrow> AudioEndpoint \<Rightarrow> server \<Rightarrow> (bool \<times> AudioEndpoint \<times> server) exec" where
  "CheckAllBufferReady checkTime e w =
     exec_bind (check_ready_all checkTime (processBufferList e) (True, False) w)
       (\<lambda>((isAllReady, needCheckStandby), w1).
          let e1 = (if processBufferList e = [] then e else e\<lparr>lastHandleProcessTime := checkTime\<rparr>);
              (e2, w2) = (if needCheckStandby then CheckStandBy e1 w1 else (e1, w1))
          in Inr (isAllReady, e2, if isAllReady then w2 else WaitAllProcessReady w2))"

text \<open>A span that was being read is given back to the client: marked, cleared, and the read
  position moved past it. What \<open>SetCurReadFrame\<close> answers is not looked at. \<open>False\<close> when the read
  position has no span.\<close>

definition release_span :: "u32 \<Rightarrow> s64 \<Rightarrow> bref \<Rightarrow> server \<Rightarrow> (bool \<times> server) exec" where
  "release_span dstSpan doneTime b w =
     (let B = buffers w b; pos = GetCurReadFrame B in
      exec_bind (GetSpanInfo B pos) (\<lambda>r. case r of
        None \<Rightarrow> Inr (False, w)
      | Some k \<Rightarrow>
        if GetStreamStatus B = None then Inr (False, w)
        else if spanStatus (span_at B k) \<noteq> SPAN_READING then Inr (True, w)
        else
          let B1 = upd_span B k (\<lambda>s. s\<lparr>spanStatus := SPAN_READ_DONE, readDoneTime := doneTime\<rparr>);
              w1 = put_buffer w b B1
          in exec_bind (GetReadbuffer B1 pos) (\<lambda>q.
               let w2 = (case q of
                     Inr d \<Rightarrow> store_at w1 b (unat (bufOffset d)) (replicate (unat (bufLength d)) 0)
                   | Inl _ \<Rightarrow> w1)
               in exec_bind (SetCurReadFrame B1 (pos + ucast dstSpan)) (\<lambda>(_, B2).
                    Inr (True, put_buffer w2 b B2)))))"

fun release_spans :: "u32 \<Rightarrow> s64 \<Rightarrow> bref list \<Rightarrow> server \<Rightarrow> (bool \<times> server) exec" where
  "release_spans dstSpan doneTime [] w = Inr (True, w)"
| "release_spans dstSpan doneTime (b # bs) w =
     exec_bind (release_span dstSpan doneTime b w) (\<lambda>(ok, w1).
       if \<not> ok then Inr (False, w1) else release_spans dstSpan doneTime bs w1)"

definition PrepareNextLoop :: "u64 \<Rightarrow> AudioEndpoint \<Rightarrow> server \<Rightarrow> (bool \<times> s64 \<times> AudioEndpoint \<times> server) exec" where
  "PrepareNextLoop curWritePos e w =
     (let nextHandlePos = curWritePos + ucast (dstSpanSizeInframe e) in
      exec_bind (GetPredictNextReadTime nextHandlePos e) (\<lambda>(nextHdiReadTime, e1).
        case next_wakeup (nextHdiReadTime - serverAheadReadTime e1) w of (wakeUpTime, w1) \<Rightarrow>
        case dstAudioBuffer e1 of None \<Rightarrow> Inl NullDeref
        | Some b \<Rightarrow>
          exec_bind (GetSpanInfo (buffers w1 b) nextHandlePos) (\<lambda>r. case r of
            None \<Rightarrow> Inr (False, wakeUpTime, e1, w1)
          | Some _ \<Rightarrow>
            exec_bind (SetCurWriteFrame (buffers w1 b) nextHandlePos) (\<lambda>(ret1, B1).
              exec_bind (SetCurReadFrame B1 nextHandlePos) (\<lambda>(ret2, B2).
                let w2 = put_buffer w1 b B2 in
                if \<not> (ret1 = SUCCESS \<and> ret2 = SUCCESS) then Inr (False, wakeUpTime, e1, w2)
                else case GetCurNano w2 of (doneTime, w3) \<Rightarrow>
                  exec_bind (release_spans (dstSpanSizeInframe e1) doneTime (processBufferList e1) w3)
                    (\<lambda>(ok, w4). Inr (ok, wakeUpTime, e1, w4)))))))"

definition app_uids :: "AudioEndpoint \<Rightarrow> server \<Rightarrow> s32 list" where
  "app_uids e w = map (\<lambda>p. appUid (GetAppInfo (procs w p))) (processList e)"

definition ProcessUpdateAppsUidForPlayback :: "AudioEndpoint \<Rightarrow> server \<Rightarrow> server" where
  "ProcessUpdateAppsUidForPlayback e w =
     (if fastSink e then note_call (UpdateAppsUid (app_uids e w)) w else w)"

definition ProcessUpdateAppsUidForRecord :: "AudioEndpoint \<Rightarrow> server \<Rightarrow> server" where
  "ProcessUpdateAppsUidForRecord e w =
     (if fastSource e then note_call (UpdateAppsUid (app_uids e w)) w else w)"

text \<open>A turn yields whether the loop goes on, and the next wake-up time.\<close>

definition EndpointWorkLoopFuc ::
    "policy_env \<Rightarrow> s64 \<Rightarrow> AudioEndpoint \<Rightarrow> server \<Rightarrow> (bool \<times> s64 \<times> AudioEndpoint \<times> server) exec" where
  "EndpointWorkLoopFuc pol wakeUpTime e w =
     (case KeepWorkloopRunning e w of (keep, w0) \<Rightarrow>
      if \<not> keep then Inr (True, wakeUpTime, e, w0)
      else case GetCurNano w0 of (curTime, w1) \<Rightarrow>
        if needReSyncPosition e
        then exec_bind (ReSyncPosition e w1) (\<lambda>(e2, w2).
               Inr (True, curTime, e2\<lparr>needReSyncPosition := False\<rparr>, w2))
        else case dstAudioBuffer e of None \<Rightarrow> Inl NullDeref
        | Some b \<Rightarrow>
          let curWritePos = GetCurWriteFrame (buffers w1 b) in
          exec_bind (CheckAllBufferReady wakeUpTime e w1) (\<lambda>(ready, e2, w2).
            let w3 = (if ready then w2 else snd (GetCurNano w2)) in
            exec_bind (ProcessToEndpointDataHandle pol curWritePos e2 w3) (\<lambda>(ok, e4, w4).
              if \<not> ok then Inr (False, wakeUpTime, e4, w4)
              else exec_bind (PrepareNextLoop curWritePos e4 w4) (\<lambda>(ok2, wake2, e5, w5).
                if \<not> ok2 then Inr (False, wake2, e5, w5)
                else Inr (True, wake2, e5, ProcessUpdateAppsUidForPlayback e5 w5)))))"

section \<open>Recording\<close>

text \<open>\<open>memcpy_s\<close>: a missing source or one longer than the destination is an error, and the
  destination is cleared (C11, Annex K). The destination is a piece of a client's memory.\<close>

definition memcpy_s :: "server \<Rightarrow> bref \<Rightarrow> BufferDesc \<Rightarrow> u8 list option \<Rightarrow> bool \<times> server" where
  "memcpy_s w b d src =
     (case src of
        Some s \<Rightarrow> if length s \<le> unat (bufLength d) then (True, store_at w b (unat (bufOffset d)) s)
                  else (False, store_at w b (unat (bufOffset d)) (replicate (unat (bufLength d)) 0))
      | None \<Rightarrow> (False, store_at w b (unat (bufOffset d)) (replicate (unat (bufLength d)) 0)))"

definition HandleCapturerDataParams ::
    "pref \<Rightarrow> bref \<Rightarrow> BufferDesc \<Rightarrow> u8 list \<Rightarrow> AudioEndpoint \<Rightarrow> server \<Rightarrow> err \<times> server" where
  "HandleCapturerDataParams p b d readBuf e w =
     (if is_s16_stereo (streamInfo (clientConfig e))
      then case memcpy_s w b d (Some readBuf) of (ok, w1) \<Rightarrow> (if ok then SUCCESS else ERROR, w1)
      else if is_s16_mono (streamInfo (clientConfig e))
      then (case S16StereoToS16Mono (Some readBuf) (convertedBuffer (procs w p)) of
              (ret, conv) \<Rightarrow>
                if ret \<noteq> SUCCESS then (ERR_WRITE_FAILED, w)
                else
                  case memcpy_s (put_proc w p ((procs w p)\<lparr>convertedBuffer := conv\<rparr>)) b d conv of (ok, w1) \<Rightarrow>
                  if \<not> ok then (ERR_WRITE_FAILED, w1)
                  else (SUCCESS, put_proc w1 p
                    ((procs w1 p)\<lparr>convertedBuffer := map_option (\<lambda>c. replicate (length c) 0) conv\<rparr>)))
      else (ERR_NOT_SUPPORTED, w))"

definition WriteToSpecialProcBuf ::
    "pref \<Rightarrow> bref \<Rightarrow> u8 list \<Rightarrow> bool \<Rightarrow> AudioEndpoint \<Rightarrow> server \<Rightarrow> (err \<times> server) exec" where
  "WriteToSpecialProcBuf p b readBuf muted e w =
     (let B = buffers w b; curWritePos = GetCurWriteFrame B in
      exec_bind (GetAvailableDataFrames B) (\<lambda>writeAbleSize.
        if writeAbleSize \<le> 0 \<or> nat writeAbleSize \<le> unat (dstSpanSizeInframe e)
        then Inr (ERR_OPERATION_FAILED, w)
        else exec_bind (GetSpanInfo B curWritePos) (\<lambda>r. case r of
          None \<Rightarrow> Inr (ERR_INVALID_HANDLE, w)
        | Some k \<Rightarrow>
          case GetCurNano w of (t, w0) \<Rightarrow>
          let B1 = upd_span B k (\<lambda>s. s\<lparr>spanStatus := SPAN_WRITTING, writeStartTime := t\<rparr>);
              w1 = put_buffer w0 b B1
          in exec_bind (GetWriteBuffer B1 curWritePos) (\<lambda>q. case q of
            Inl ret \<Rightarrow> Inr (ret, w1)
          | Inr d \<Rightarrow>
            case (if muted then (case memcpy_s w1 b d None of (_, w2) \<Rightarrow> (SUCCESS, w2))
                  else if endpointType e = TYPE_VOIP_MMAP then HandleCapturerDataParams p b d readBuf e w1
                  else (case memcpy_s w1 b d (Some readBuf) of (ok, w2) \<Rightarrow> (if ok then SUCCESS else ERROR, w2))) of
              (ret, w2) \<Rightarrow>
                if ret \<noteq> SUCCESS then Inr (ERR_WRITE_FAILED, w2)
                else case GetCurNano w2 of (doneTime, w3) \<Rightarrow>
                  let B2 = upd_span (buffers w3 b) k (\<lambda>s. s\<lparr>writeDoneTime := doneTime\<rparr>) in
                  exec_bind (SetHandleInfo B2 curWritePos doneTime) (\<lambda>B3.
                    exec_bind (SetCurWriteFrame B3 (curWritePos + ucast (dstSpanSizeInframe e))) (\<lambda>(ret2, B4).
                      if ret2 \<noteq> SUCCESS
                      then Inr (ERR_OPERATION_FAILED, put_buffer w3 b (upd_span B4 k (\<lambda>s. s\<lparr>spanStatus := SPAN_READ_DONE\<rparr>)))
                      else Inr (SUCCESS, put_buffer w3 b (upd_span B4 k (\<lambda>s. s\<lparr>spanStatus := SPAN_WRITE_DONE\<rparr>)))))))))"

fun write_loop :: "pref list \<Rightarrow> bref list \<Rightarrow> u8 list \<Rightarrow> AudioEndpoint \<Rightarrow> server \<Rightarrow> server exec" where
  "write_loop ps [] readBuf e w = Inr w"
| "write_loop ps (b # bs) readBuf e w =
     (if GetStreamStatus (buffers w b) \<noteq> None \<and> GetStreamStatus (buffers w b) \<noteq> Some STREAM_RUNNING
      then write_loop (tl ps) bs readBuf e w
      else case ps of [] \<Rightarrow> Inl UncheckedAccess
        | p # _ \<Rightarrow> exec_bind (WriteToSpecialProcBuf p b readBuf (GetMuteFlag (procs w p)) e w)
                  (\<lambda>(_, w1). write_loop (tl ps) bs readBuf e w1))"

definition WriteToProcessBuffers :: "u8 list \<Rightarrow> AudioEndpoint \<Rightarrow> server \<Rightarrow> server exec" where
  "WriteToProcessBuffers readBuf e w = write_loop (processList e) (processBufferList e) readBuf e w"

definition ReadFromEndpoint :: "u64 \<Rightarrow> AudioEndpoint \<Rightarrow> server \<Rightarrow> (err \<times> server) exec" where
  "ReadFromEndpoint curReadPos e w =
     (case dstAudioBuffer e of None \<Rightarrow> Inr (ERR_INVALID_HANDLE, w)
      | Some b \<Rightarrow>
        exec_bind (GetSpanInfo (buffers w b) curReadPos) (\<lambda>r. case r of
          None \<Rightarrow> Inr (ERR_INVALID_HANDLE, w)
        | Some k \<Rightarrow>
          case GetCurNano w of (t, w0) \<Rightarrow>
          let B1 = upd_span (buffers w0 b) k (\<lambda>s. s\<lparr>readStartTime := t, spanStatus := SPAN_READING\<rparr>);
              w1 = put_buffer w0 b B1
          in exec_bind (GetReadbuffer B1 curReadPos) (\<lambda>q. case q of
            Inl ret \<Rightarrow> Inr (ret, w1)
          | Inr d \<Rightarrow>
            exec_bind (WriteToProcessBuffers (slice (unat (bufOffset d)) (unat (bufLength d)) (mems w1 b)) e w1)
              (\<lambda>w2.
                let w3 = store_at w2 b (unat (bufOffset d)) (replicate (unat (bufLength d)) 0) in
                case GetCurNano w3 of (t2, w4) \<Rightarrow>
                  Inr (SUCCESS, put_buffer w4 b
                    (upd_span (buffers w4 b) k (\<lambda>s. s\<lparr>readDoneTime := t2, spanStatus := SPAN_READ_DONE\<rparr>)))))))"

definition RecordPrepareNextLoop :: "u64 \<Rightarrow> AudioEndpoint \<Rightarrow> server \<Rightarrow> (bool \<times> s64 \<times> AudioEndpoint \<times> server) exec" where
  "RecordPrepareNextLoop curReadPos e w =
     (let nextHandlePos = curReadPos + ucast (dstSpanSizeInframe e) in
      exec_bind (GetPredictNextWriteTime nextHandlePos e) (\<lambda>(nextHdiWriteTime, e1).
        let tempDelay = (if endpointType e1 = TYPE_VOIP_MMAP then RECORD_VOIP_DELAY_TIME else RECORD_DELAY_TIME) in
        case next_wakeup (nextHdiWriteTime + tempDelay) w of (wakeUpTime, w1) \<Rightarrow>
        case dstAudioBuffer e1 of None \<Rightarrow> Inl NullDeref
        | Some b \<Rightarrow>
          exec_bind (SetCurWriteFrame (buffers w1 b) nextHandlePos) (\<lambda>(ret1, B1).
            if ret1 \<noteq> SUCCESS then Inr (False, wakeUpTime, e1, put_buffer w1 b B1)
            else exec_bind (SetCurReadFrame B1 nextHandlePos) (\<lambda>(ret2, B2).
              Inr (ret2 = SUCCESS, wakeUpTime, e1, put_buffer w1 b B2)))))"

definition RecordEndpointWorkLoopFuc ::
    "s64 \<Rightarrow> AudioEndpoint \<Rightarrow> server \<Rightarrow> (bool \<times> s64 \<times> AudioEndpoint \<times> server) exec" where
  "RecordEndpointWorkLoopFuc wakeUpTime e w =
     (case KeepWorkloopRunning e w of (keep, w0) \<Rightarrow>
      if \<not> keep then Inr (True, wakeUpTime, e, w0)
      else if needReSyncPosition e
      then exec_bind (RecordReSyncPosition e w0) (\<lambda>(e2, w2).
             case GetCurNano w2 of (t, w3) \<Rightarrow> Inr (True, t, e2\<lparr>needReSyncPosition := False\<rparr>, w3))
      else case GetCurNano w0 of (_, w1) \<Rightarrow>
        case dstAudioBuffer e of None \<Rightarrow> Inl NullDeref
        | Some b \<Rightarrow>
          let curReadPos = GetCurReadFrame (buffers w1 b) in
          exec_bind (ReadFromEndpoint curReadPos e w1) (\<lambda>(ret, w2).
            if ret \<noteq> SUCCESS then Inr (False, wakeUpTime, e, w2)
            else exec_bind (RecordPrepareNextLoop curReadPos e w2) (\<lambda>(ok, wake2, e3, w3).
              if \<not> ok then Inr (False, wake2, e3, w3)
              else Inr (True, wake2, e3, ProcessUpdateAppsUidForRecord e3 w3))))"

end
