(* ===== verification/EndpointInv.thy ===== *)
theory EndpointInv
  imports EndpointLoop
begin

text \<open>
  The invariant of an endpoint over every sequence of its operations: the device is on whenever the
  endpoint takes it to be, and the two lists of linked processes stay in step and within the limit.
\<close>

section \<open>The device as its adapter sees it\<close>

definition device_step :: "bool \<Rightarrow> hdi_call \<Rightarrow> bool" where
  "device_step on c = (case c of
     SinkStart r \<Rightarrow> r = SUCCESS \<or> on
   | SourceStart r \<Rightarrow> r = SUCCESS \<or> on
   | SinkStop r \<Rightarrow> r \<noteq> SUCCESS \<and> on
   | SourceStop r \<Rightarrow> r \<noteq> SUCCESS \<and> on
   | SinkDeInit \<Rightarrow> False
   | SourceDeInit \<Rightarrow> False
   | _ \<Rightarrow> on)"

definition device_on :: "hdi_call list \<Rightarrow> bool" where
  "device_on cs = foldl device_step False cs"

lemma device_on_simps [simp]:
  "device_on [] = False" "device_on (cs @ ds) = foldl device_step (device_on cs) ds"
  by (simp_all add: device_on_def)

text \<open>What the proofs need of an endpoint: while it is configured, it believes the device started
  only if the adapter was told so and not told to stop since.\<close>

definition device_known :: "AudioEndpoint \<Rightarrow> server \<Rightarrow> bool" where
  "device_known e w \<longleftrightarrow>
     (ep_isInited e \<longrightarrow> isStarted e \<longrightarrow> device_on (calls w)) \<and> (is_input e \<or> is_output e)"

definition lists_ok :: "AudioEndpoint \<Rightarrow> bool" where
  "lists_ok e \<longleftrightarrow> length (processList e) = length (processBufferList e) \<and>
     length (processList e) \<le> MAX_LINKED_PROCESS"

definition endpoint_ok :: "AudioEndpoint \<Rightarrow> server \<Rightarrow> bool" where
  "endpoint_ok e w \<longleftrightarrow> device_known e w \<and> lists_ok e"

text \<open>Operations that leave alone what the invariant reads.\<close>

definition same_control :: "AudioEndpoint \<Rightarrow> server \<Rightarrow> AudioEndpoint \<Rightarrow> server \<Rightarrow> bool" where
  "same_control e w e' w' \<longleftrightarrow>
     ep_isInited e' = ep_isInited e \<and> isStarted e' = isStarted e \<and> deviceInfo e' = deviceInfo e \<and>
     processList e' = processList e \<and> processBufferList e' = processBufferList e \<and>
     device_on (calls w') = device_on (calls w)"

lemma same_control_refl [intro]: "same_control e w e w"
  by (simp add: same_control_def)

lemma same_control_trans:
  "same_control e w e1 w1 \<Longrightarrow> same_control e1 w1 e2 w2 \<Longrightarrow> same_control e w e2 w2"
  by (simp add: same_control_def)

lemma same_control_ok: "same_control e w e' w' \<Longrightarrow> endpoint_ok e w \<Longrightarrow> endpoint_ok e' w'"
  by (simp add: same_control_def endpoint_ok_def device_known_def lists_ok_def)

lemma outside_simps [simp]:
  "calls (snd (GetCurNano w)) = calls w"
  "buffers (snd (GetCurNano w)) = buffers w"
  "mems (snd (GetCurNano w)) = mems w"
  "procs (snd (GetCurNano w)) = procs w"
  "calls (clear_data b w) = calls w"
  "calls (store_at w b off bs) = calls w"
  "buffers (store_at w b off bs) = buffers w"
  "procs (store_at w b off bs) = procs w"
  "calls (note_call c w) = calls w @ [c]"
  by (simp_all add: GetCurNano_def clear_data_def store_at_def note_call_def)

lemma device_step_simps [simp]:
  "device_step on DupStart = on" "device_step on DupStop = on" "device_step on DupRelease = on"
  "device_step on (DupCreate r) = on" "device_step on (DupEnqueue bs r) = on"
  "device_step on (UpdateAppsUid us) = on" "device_step on (Privacy t s r) = on"
  by (simp_all add: device_step_def)

lemma stop_prologue_control: "device_on (calls (stop_prologue e w)) = device_on (calls w)"
  by (simp add: stop_prologue_def Let_def split: option.split)

section \<open>Control operations keep the invariant\<close>

lemma start_adapter_on:
  "start_adapter_fails e w = (False, w1) \<Longrightarrow> is_input e \<or> is_output e \<Longrightarrow> device_on (calls w1)"
  by (auto simp: start_adapter_fails_def adapter_call_def Let_def device_step_def split: if_splits)

lemma stop_adapter_off:
  "stop_adapter e w = (ok, w1) \<Longrightarrow> \<not> ok \<Longrightarrow> device_on (calls w) \<Longrightarrow> device_on (calls w1)"
  by (auto simp: stop_adapter_def adapter_call_def Let_def device_step_def split: if_splits)

lemma HandleStartDeviceFailed_ok:
  "is_input e \<or> is_output e \<Longrightarrow> device_known (HandleStartDeviceFailed e) w"
  by (simp add: HandleStartDeviceFailed_def device_known_def)

lemma device_known_status: "device_known (e\<lparr>endpointStatus := s\<rparr>) w = device_known e w"
  by (simp add: device_known_def)

lemma StartDevice_known:
  assumes "device_known e w" and "StartDevice e w = (ok, e', w')"
  shows "device_known e' w'"
proof (cases "endpointStatus e = IDEL")
  case True
  let ?e1 = "e\<lparr>endpointStatus := STARTING\<rparr>"
  obtain failed w1 where s: "start_adapter_fails ?e1 w = (failed, w1)" by fastforce
  have role: "is_input e \<or> is_output e" using assms(1) by (simp add: device_known_def)
  show ?thesis
  proof (cases failed)
    case True
    then show ?thesis
      using assms(2) \<open>endpointStatus e = IDEL\<close> s role
      by (auto simp: StartDevice_def Let_def HandleStartDeviceFailed_def device_known_def)
  next
    case False
    then have "device_on (calls w1)" using start_adapter_on [of ?e1 w w1] s role by simp
    then show ?thesis
      using assms(2) \<open>endpointStatus e = IDEL\<close> s role False
      by (auto simp: StartDevice_def Let_def device_known_def)
  qed
qed (use assms in \<open>simp add: StartDevice_def\<close>)

lemma StartDevice_lists:
  "StartDevice e w = (ok, e', w') \<Longrightarrow> processList e' = processList e \<and> processBufferList e' = processBufferList e"
  by (auto simp: StartDevice_def Let_def HandleStartDeviceFailed_def split: if_splits prod.splits)

lemma DelayStopDevice_known:
  assumes "device_known e w" and "DelayStopDevice e w = (ok, e', w')"
  shows "device_known e' w'"
proof -
  obtain k w1 where s: "stop_adapter e (stop_prologue e w) = (k, w1)" by fastforce
  have "\<not> k \<Longrightarrow> device_on (calls w) \<Longrightarrow> device_on (calls w1)"
    using stop_adapter_off [OF s] by (simp add: stop_prologue_control)
  then show ?thesis
    using assms s by (auto simp: DelayStopDevice_def device_known_def split: if_splits)
qed

lemma StopDevice_known:
  assumes "device_known e w" and "StopDevice e w = (ok, e', w')"
  shows "device_known e' w'"
proof -
  let ?e1 = "e\<lparr>endpointStatus := STOPPING\<rparr>"
  obtain k w1 where s: "stop_adapter ?e1 (stop_prologue ?e1 w) = (k, w1)" by fastforce
  have "\<not> k \<Longrightarrow> device_on (calls w) \<Longrightarrow> device_on (calls w1)"
    using stop_adapter_off [OF s] by (simp add: stop_prologue_control)
  then show ?thesis
    using assms s by (auto simp: StopDevice_def device_known_def Let_def split: if_splits)
qed

lemma stop_lists:
  "DelayStopDevice e w = (ok, e', w') \<Longrightarrow> processList e' = processList e \<and> processBufferList e' = processBufferList e"
  "StopDevice e w = (ok, e', w') \<Longrightarrow> processList e' = processList e \<and> processBufferList e' = processBufferList e"
  by (auto simp: DelayStopDevice_def StopDevice_def Let_def split: if_splits prod.splits)

lemma arm_delay_stop_control:
  assumes "arm_delay_stop e w = (e', w')"
  shows "same_control e w e' w'" "endpointStatus e' = endpointStatus e" "buffers w' = buffers w"
  using assms by (auto simp: arm_delay_stop_def GetCurNano_def same_control_def)

lemma settle_idle_control: "settle_idle e w = (e', w') \<Longrightarrow> same_control e w e' w'"
  by (auto simp: settle_idle_def arm_delay_stop_def GetCurNano_def same_control_def Let_def split: if_splits)

lemma OnStart_ok:
  assumes "endpoint_ok e w" and "OnStart e w = (r, e', w')"
  shows "endpoint_ok e' w'"
proof (cases "endpointStatus e = IDEL \<and> \<not> isStarted e")
  case True
  obtain ok e1 w1 where s: "StartDevice e w = (ok, e1, w1)" by (metis prod_cases3)
  have "endpoint_ok e1 w1"
    using StartDevice_known [OF _ s] StartDevice_lists [OF s] assms(1) by (simp add: endpoint_ok_def lists_ok_def)
  then show ?thesis
    using assms(2) True s
    by (auto simp: OnStart_def endpoint_ok_def device_known_def lists_ok_def split: if_splits)
next
  case False
  then show ?thesis
    using assms by (auto simp: OnStart_def endpoint_ok_def device_known_def lists_ok_def split: if_splits)
qed

lemma OnPause_ok: "endpoint_ok e w \<Longrightarrow> OnPause e w = (r, e', w') \<Longrightarrow> endpoint_ok e' w'"
  using settle_idle_control same_control_ok by (fastforce simp: OnPause_def split: prod.splits)

lemma push_process_ok:
  assumes "endpoint_ok e w" and "length (processList e) < MAX_LINKED_PROCESS"
  shows "endpoint_ok (push_process p b e) w"
  using assms by (simp add: endpoint_ok_def device_known_def lists_ok_def push_process_def)

text \<open>Only the first part of linking can start the device.\<close>

lemma link_after_wait_ok:
  assumes "endpoint_ok e w" and "length (processList e) < MAX_LINKED_PROCESS"
    and "link_after_wait p b n e w = (r, e', w')"
  shows "endpoint_ok e' w'"
proof -
  have started: "endpoint_ok e1 w1 \<and> processList e1 = processList e0"
    if s: "StartDevice e0 w0 = (ok, e1, w1)" and k: "endpoint_ok e0 w0" for e0 w0 ok e1 w1
    using StartDevice_known [OF _ s] StartDevice_lists [OF s] k by (simp add: endpoint_ok_def lists_ok_def)
  have status: "endpoint_ok (e0\<lparr>endpointStatus := s\<rparr>) w0 = endpoint_ok e0 w0" for e0 w0 s
    by (simp add: endpoint_ok_def device_known_def lists_ok_def)
  define first where "first = (if endpointStatus e = UNLINKED
              then let e1 = e\<lparr>endpointStatus := IDEL\<rparr>
                   in if isDeviceRunningInIdel e1
                      then case StartDevice e1 w of (ok, e2, w2) \<Rightarrow>
                             if ok then case arm_delay_stop e2 w2 of (e3, w3) \<Rightarrow> (True, e3, w3)
                             else (False, e2, w2)
                      else (True, e1, w)
              else (True, e, w))"
  obtain ok e1 w1 where f: "first = (ok, e1, w1)" by (metis prod_cases3)
  have one: "endpoint_ok e1 w1 \<and> processList e1 = processList e"
  proof (cases "endpointStatus e = UNLINKED \<and> isDeviceRunningInIdel e")
    case True
    obtain k e2 w2 where s: "StartDevice (e\<lparr>endpointStatus := IDEL\<rparr>) w = (k, e2, w2)" by (metis prod_cases3)
    obtain e3 w3 where a: "arm_delay_stop e2 w2 = (e3, w3)" by fastforce
    have two: "endpoint_ok e2 w2 \<and> processList e2 = processList e"
      using started [OF s] assms(1) by (simp add: status)
    have "endpoint_ok e3 w3 \<and> processList e3 = processList e"
      using arm_delay_stop_control(1) [OF a] two same_control_ok [OF arm_delay_stop_control(1) [OF a]]
      by (simp add: same_control_def)
    then show ?thesis using f True s a two by (simp add: first_def split: if_splits)
  next
    case False
    then show ?thesis
      using f assms(1) status [of IDEL e w] by (auto simp: first_def Let_def split: if_splits)
  qed
  have pushed: "endpoint_ok (push_process p b e1) w1"
    using one assms(2) by (intro push_process_ok) auto
  show ?thesis
  proof (cases "endpointStatus e = RUNNING")
    case True
    then show ?thesis
      using assms push_process_ok [OF assms(1,2)] by (auto simp: link_after_wait_def)
  next
    case False
    then have l: "link_after_wait p b n e w =
      (if \<not> ok then (ERR_OPERATION_FAILED, e1, w1)
       else if endpointStatus e1 = IDEL
       then let e2 = push_process p b e1 in
            if \<not> n then (SUCCESS, e2, w1)
            else if isDeviceRunningInIdel e2
            then (SUCCESS, e2\<lparr>endpointStatus := (if IsAnyProcessRunning e2 w1 then RUNNING else IDEL)\<rparr>, w1)
            else case StartDevice e2 w1 of (ok2, e3, w3) \<Rightarrow>
                   (if ok2 then SUCCESS else ERR_OPERATION_FAILED, e3, w3)
       else (SUCCESS, e1, w1))"
      using f unfolding link_after_wait_def first_def [symmetric] by simp
    show ?thesis
      using assms(3) one pushed started [OF _ pushed]
      unfolding l by (auto simp: Let_def status split: if_splits prod.splits)
  qed
qed

text \<open>What may happen while linking waits for a device that another thread is starting.\<close>

definition settles :: "(AudioEndpoint \<times> server \<Rightarrow> AudioEndpoint \<times> server) \<Rightarrow> bool" where
  "settles meanwhile \<longleftrightarrow> (\<forall>e w. endpoint_ok e w \<longrightarrow> length (processList e) < MAX_LINKED_PROCESS \<longrightarrow>
     (case meanwhile (e, w) of (e', w') \<Rightarrow> endpoint_ok e' w' \<and> length (processList e') < MAX_LINKED_PROCESS))"

lemma put_buffer_ok: "endpoint_ok e (put_buffer w b B) = endpoint_ok e w"
  by (simp add: endpoint_ok_def device_known_def)

lemma LinkProcessStream_ok:
  assumes "endpoint_ok e w" and "settles meanwhile"
    and "LinkProcessStream meanwhile stream e w = (r, e', w')"
  shows "endpoint_ok e' w'"
proof (cases "\<exists>p b. stream = Some p \<and> GetStreamBuffer (procs w p) = Some b \<and>
    GetStreamStatus (buffers w b) \<noteq> None \<and> length (processList e) < MAX_LINKED_PROCESS")
  case False
  then have "\<exists>r. LinkProcessStream meanwhile stream e w = (r, e, w)"
    unfolding LinkProcessStream_def by (auto split: option.split)
  then show ?thesis using assms(1,3) by (metis prod.inject)
next
  case True
  then obtain p b where p: "stream = Some p" "GetStreamBuffer (procs w p) = Some b"
    "GetStreamStatus (buffers w b) \<noteq> None" "length (processList e) < MAX_LINKED_PROCESS" by blast
  let ?B = "snd (SetSessionId (buffers w b) (GetAudioSessionId (procs w p)))"
  let ?w1 = "put_buffer w b ?B"
  obtain e2 w2 where m: "(if endpointStatus e = STARTING then meanwhile (e, ?w1) else (e, ?w1)) = (e2, w2)"
    by (rule prod.exhaust)
  have w1: "endpoint_ok e ?w1" by (simp only: put_buffer_ok assms(1))
  have e2: "endpoint_ok e2 w2 \<and> length (processList e2) < MAX_LINKED_PROCESS"
  proof (cases "endpointStatus e = STARTING")
    case True
    have "meanwhile (e, ?w1) = (e2, w2)" by (rule m [unfolded if_P [OF True]])
    moreover have "case meanwhile (e, ?w1) of (e', w') \<Rightarrow> endpoint_ok e' w' \<and> length (processList e') < MAX_LINKED_PROCESS"
      by (rule assms(2) [unfolded settles_def, THEN spec, THEN spec, THEN mp, THEN mp, OF w1 p(4)])
    ultimately show ?thesis by (simp only: prod.case)
  next
    case False
    have "e = e2 \<and> ?w1 = w2" by (rule m [unfolded if_not_P [OF False] prod.inject])
    then show ?thesis using w1 p(4) by blast
  qed
  have "LinkProcessStream meanwhile stream e w =
      link_after_wait p b (GetStreamStatus ?B = Some STREAM_RUNNING) e2 w2"
    unfolding LinkProcessStream_def Let_def p(1,2) option.case m prod.case
    by (simp only: p(3,4) not_True_eq_False if_False)
  from trans [OF this [symmetric] assms(3)] show ?thesis
    by (rule link_after_wait_ok [OF conjunct1 [OF e2] conjunct2 [OF e2]])
qed

lemma unlink_lists_length:
  assumes "length ps = length bs" and "unlink_lists p b ps bs = (ps', bs')"
  shows "length ps' = length bs' \<and> length ps' \<le> length ps"
  using assms by (induction p b ps bs arbitrary: ps' bs' rule: unlink_lists.induct) (force split: if_splits prod.splits)+

lemma UnlinkProcessStream_ok:
  assumes "endpoint_ok e w" and "UnlinkProcessStream stream e w = (r, e', w')"
  shows "endpoint_ok e' w'"
proof (cases "\<exists>p b. stream = Some p \<and> GetStreamBuffer (procs w p) = Some b")
  case False
  then show ?thesis
    using assms by (auto simp: UnlinkProcessStream_def split: option.splits)
next
  case True
  then obtain p b where p: "stream = Some p" "GetStreamBuffer (procs w p) = Some b" by blast
  obtain ps bs where l: "unlink_lists p b (processList e) (processBufferList e) = (ps, bs)" by fastforce
  let ?e1 = "e\<lparr>processList := ps, processBufferList := bs\<rparr>"
  have lists: "length ps = length bs \<and> length ps \<le> MAX_LINKED_PROCESS"
    using unlink_lists_length [OF _ l] assms(1) by (simp add: endpoint_ok_def lists_ok_def)
  have one: "endpoint_ok ?e1 w"
    using assms(1) lists by (simp add: endpoint_ok_def device_known_def lists_ok_def)
  obtain ok e2 w2 where s: "StopDevice ?e1 w = (ok, e2, w2)" by (metis prod_cases3)
  have "endpoint_ok e2 w2"
    using StopDevice_known [OF _ s] stop_lists(2) [OF s] one by (simp add: endpoint_ok_def lists_ok_def)
  then have "endpoint_ok (e2\<lparr>endpointStatus := UNLINKED\<rparr>) w2"
    by (simp add: endpoint_ok_def device_known_def lists_ok_def)
  then show ?thesis
    using assms(2) p l s one by (auto simp: UnlinkProcessStream_def Let_def split: if_splits)
qed

lemma GetDeviceHandleInfo_calls: "GetDeviceHandleInfo e w = (r, w') \<Longrightarrow> calls w' = calls w"
  by (auto simp: GetDeviceHandleInfo_def Let_def split: if_splits prod.splits)

lemma endpoint_ok_calls: "calls w1 = calls w \<Longrightarrow> endpoint_ok e w1 = endpoint_ok e w"
  by (simp add: endpoint_ok_def device_known_def)

lemma DelayStopDevice_ok: "DelayStopDevice e w = (k, e', w') \<Longrightarrow> endpoint_ok e w \<Longrightarrow> endpoint_ok e' w'"
  using DelayStopDevice_known stop_lists(1) unfolding endpoint_ok_def lists_ok_def by metis

lemma AsyncGetPosTime_ok:
  assumes "endpoint_ok e w"
  shows "case AsyncGetPosTime e w of (e', w') \<Rightarrow> endpoint_ok e' w'"
proof -
  have pos: "endpoint_ok (e\<lparr>posInFrame := f, timeInNano := t\<rparr>) w1 = endpoint_ok e w1" for f t w1
    by (simp add: endpoint_ok_def device_known_def lists_ok_def)
  define first where "first = (if endpointStatus e = IDEL \<and> isStarted e
      then case GetCurNano w of (t, w1) \<Rightarrow> (delayStopTime e <s t, w1) else (False, w))"
  obtain tmo w1 where t: "first = (tmo, w1)" by (rule prod.exhaust)
  have "calls w1 = calls w"
    using t by (auto simp: first_def GetCurNano_def split: if_splits)
  then have w1: "endpoint_ok e w1" using assms endpoint_ok_calls by blast
  obtain k e2 w2 where d: "DelayStopDevice e w1 = (k, e2, w2)" by (rule prod_cases3)
  obtain h w3 where h: "GetDeviceHandleInfo e w1 = (h, w3)" by (rule prod.exhaust)
  have w3: "endpoint_ok e w3" using endpoint_ok_calls [OF GetDeviceHandleInfo_calls [OF h]] w1 by blast
  show ?thesis
    unfolding AsyncGetPosTime_def first_def [symmetric] t prod.case d h
    by (simp add: DelayStopDevice_ok [OF d w1] w1 w3 pos split: option.split prod.split)
qed

lemma EnableFastInnerCap_ok:
  "endpoint_ok e w \<Longrightarrow> returns (\<lambda>(_, e', w'). endpoint_ok e' w') (EnableFastInnerCap e w)"
  by (auto simp: EnableFastInnerCap_def InitDupStream_def adapter_call_def Let_def
      returns_bind endpoint_ok_def device_known_def lists_ok_def split: option.split)

lemma DisableFastInnerCap_ok:
  "endpoint_ok e w \<Longrightarrow> DisableFastInnerCap e w = (r, e', w') \<Longrightarrow> endpoint_ok e' w'"
  by (auto simp: DisableFastInnerCap_def endpoint_ok_def device_known_def lists_ok_def split: if_splits)

lemma Release_ok: "endpoint_ok e w \<Longrightarrow> Release e w = (e', w') \<Longrightarrow> endpoint_ok e' w'"
  by (auto simp: Release_def DisableFastInnerCap_def Let_def endpoint_ok_def device_known_def lists_ok_def
      split: if_splits)

section \<open>A turn of the playback loop keeps the invariant\<close>

lemma ZeroVolumeCheck_ok:
  "endpoint_ok e w \<Longrightarrow> case ZeroVolumeCheck vol e w of (e', w') \<Rightarrow> endpoint_ok e' w'"
  by (auto simp: ZeroVolumeCheck_def GetCurNano_def adapter_call_def Let_def endpoint_ok_def device_known_def
      lists_ok_def device_step_def)

lemma HandleZeroVolumeCheckEvent_ok:
  "endpoint_ok e w \<Longrightarrow> case HandleZeroVolumeCheckEvent e w of (e', w') \<Rightarrow> endpoint_ok e' w'"
  by (auto simp: HandleZeroVolumeCheckEvent_def GetCurNano_def adapter_call_def Let_def endpoint_ok_def
      device_known_def lists_ok_def device_step_def)

lemma mix_sample_ok:
  "endpoint_ok e w \<Longrightarrow> case mix_sample srcs k acc e w of (_, e', w') \<Rightarrow> endpoint_ok e' w'"
proof (induction srcs arbitrary: acc e w)
  case (Cons s srcs)
  obtain e1 w1 where z: "ZeroVolumeCheck (sd_volumeStart s) e w = (e1, w1)" by (rule prod.exhaust)
  have "endpoint_ok e1 w1" using ZeroVolumeCheck_ok [OF Cons.prems, of "sd_volumeStart s"] z by simp
  from Cons.IH [OF this] show ?case by (simp add: z)
qed simp

lemma mix_loop_ok:
  "endpoint_ok e w \<Longrightarrow> case mix_loop srcs ks e w of (_, e', w') \<Rightarrow> endpoint_ok e' w'"
proof (induction ks arbitrary: e w)
  case (Cons k ks)
  obtain acc e1 w1 where m: "mix_sample srcs k 0 e w = (acc, e1, w1)" by (rule prod_cases3)
  have "endpoint_ok e1 w1" using mix_sample_ok [OF Cons.prems, of srcs k 0] m by simp
  from Cons.IH [OF this] show ?case by (simp add: m split: prod.splits)
qed simp

lemma mix_into_ok:
  assumes "endpoint_ok e w"
  shows "returns (\<lambda>(e', w'). endpoint_ok e' w') (mix_into srcs b d e w)"
proof -
  obtain out e1 w1 where m: "mix_loop srcs [0..<unat (dataLength d) div 2] e w = (out, e1, w1)" by (rule prod_cases3)
  have "endpoint_ok e1 w1" using mix_loop_ok [OF assms, of srcs "[0..<unat (dataLength d) div 2]"] m by simp
  then have "endpoint_ok e1 (store_at w1 b (unat (bufOffset d)) (s16_bytes out))"
    using endpoint_ok_calls outside_simps(6) by blast
  from HandleZeroVolumeCheckEvent_ok [OF this] show ?thesis by (simp add: mix_into_def Let_def m)
qed

lemma ProcessData_ok:
  "endpoint_ok e w \<Longrightarrow> returns (\<lambda>(e', w'). endpoint_ok e' w') (ProcessData srcs b d e w)"
  "endpoint_ok e w \<Longrightarrow> returns (\<lambda>(e', w'). endpoint_ok e' w') (ProcessSingleData s b d e w)"
  by (simp_all add: ProcessData_def ProcessSingleData_def mix_into_ok)

lemma put_proc_ok: "endpoint_ok e (put_proc w p P) = endpoint_ok e w"
  by (simp add: endpoint_ok_def device_known_def)

lemma HandleRendererDataParams_ok:
  assumes "endpoint_ok e w"
  shows "returns (\<lambda>(e', w'). endpoint_ok e' w') (HandleRendererDataParams s b d e w)"
  unfolding HandleRendererDataParams_def Let_def
  by (auto simp: assms ProcessData_ok(2) returns_bind put_proc_ok split: list.split prod.split
      intro!: returns_mono [OF ProcessData_ok(2) [OF assms]])

lemma MixToDupStream_ok:
  "endpoint_ok e w \<Longrightarrow> returns (\<lambda>(e', w'). endpoint_ok e' w') (MixToDupStream srcs e w)"
  by (auto simp: MixToDupStream_def returns_bind adapter_call_def Let_def endpoint_ok_def device_known_def
      lists_ok_def intro!: returns_any split: option.split)

lemma take_ready_calls: "returns (\<lambda>(_, w'). calls w' = calls w) (take_ready pol e p b w)"
  by (auto simp: take_ready_def Let_def returns_bind GetCurNano_def store_at_def
      intro!: returns_any split: option.split sum.split)

lemma ready_loop_calls: "returns (\<lambda>(_, w'). calls w' = calls w) (ready_loop pol e ps bs w)"
proof (induction pol e ps bs w rule: ready_loop.induct)
  case (3 pol e p ps b bs w)
  show ?case
    unfolding ready_loop.simps returns_bind
    by (rule returns_mono [OF take_ready_calls])
      (auto simp: returns_bind intro!: returns_mono [OF 3])
qed auto

lemma ProcessToEndpointDataHandle_ok:
  assumes "endpoint_ok e w"
  shows "returns (\<lambda>(_, e', w'). endpoint_ok e' w') (ProcessToEndpointDataHandle pol pos e w)"
proof -
  have mixed: "returns (\<lambda>(e', w'). endpoint_ok e' w')
      (if srcs = [] then Inr (e, store_at w1 b off zs)
       else if endpointType e = TYPE_VOIP_MMAP \<and> length srcs = 1 then HandleRendererDataParams (hd srcs) b d e w1
       else ProcessData srcs b d e w1)"
    if "endpoint_ok e w1" for srcs w1 b d off zs
    using that endpoint_ok_calls [of "store_at w1 b off zs" w1 e]
    by (simp add: ProcessData_ok HandleRendererDataParams_ok)
  have copied: "returns (\<lambda>(_, e', w'). endpoint_ok e' w')
      (exec_bind (if isInnerCapEnabled e2 then MixToDupStream srcs e2 w2 else Inr (e2, w2)) (\<lambda>(e3, w3). Inr (True, e3, w3)))"
    if "endpoint_ok e2 w2" for srcs e2 w2
    using that by (auto simp: returns_bind intro!: returns_mono [OF MixToDupStream_ok [OF that]])
  have whole: "returns (\<lambda>(_, e', w'). endpoint_ok e' w')
      (exec_bind
         (if srcs = [] then Inr (e, store_at w1 b off zs)
          else if endpointType e = TYPE_VOIP_MMAP \<and> length srcs = 1 then HandleRendererDataParams (hd srcs) b d e w1
          else ProcessData srcs b d e w1)
         (\<lambda>(e2, w2). exec_bind (if isInnerCapEnabled e2 then MixToDupStream srcs e2 w2 else Inr (e2, w2))
            (\<lambda>(e3, w3). Inr (True, e3, w3))))"
    if "endpoint_ok e w1" for srcs w1 b d off zs
    by (subst returns_bind, rule returns_mono [OF mixed [OF that]], clarify, rule copied)
  show ?thesis
    unfolding ProcessToEndpointDataHandle_def GetAllReadyProcessData_def returns_bind
  proof (rule returns_mono [OF ready_loop_calls], clarify)
    fix srcs and w1 :: server assume "calls w1 = calls w"
    then have w1: "endpoint_ok e w1" using assms endpoint_ok_calls by blast
    show "returns (\<lambda>(_, e', w'). endpoint_ok e' w')
        (case dstAudioBuffer e of None \<Rightarrow> Inl NullDeref
         | Some b \<Rightarrow> exec_bind (GetWriteBuffer (buffers w1 b) pos) (\<lambda>q. case q of
             Inl _ \<Rightarrow> Inr (False, e, w1)
           | Inr d \<Rightarrow> exec_bind (GetSpanInfo (buffers w1 b) pos) (\<lambda>r. case r of
               None \<Rightarrow> Inr (False, e, w1)
             | Some k \<Rightarrow> exec_bind
                 (if srcs = [] then Inr (e, store_at w1 b (unat (bufOffset d)) (replicate (unat (bufLength d)) 0))
                  else if endpointType e = TYPE_VOIP_MMAP \<and> length srcs = 1
                  then HandleRendererDataParams (hd srcs) b d e w1
                  else ProcessData srcs b d e w1)
                 (\<lambda>(e2, w2). exec_bind (if isInnerCapEnabled e2 then MixToDupStream srcs e2 w2 else Inr (e2, w2))
                    (\<lambda>(e3, w3). Inr (True, e3, w3))))))"
    proof (cases "dstAudioBuffer e")
      case (Some b)
      show ?thesis
        unfolding Some option.case
        by (rule returns_bind_any, split sum.split, intro conjI allI impI, simp add: w1,
            rule returns_bind_any, split option.split, intro conjI allI impI, simp add: w1, rule whole [OF w1])
    qed simp
  qed
qed

lemma check_ready_calls: "returns (\<lambda>(_, w'). calls w' = calls w) (check_ready t b flags w)"
  by (auto simp: check_ready_def Let_def returns_bind GetCurNano_def intro!: returns_any split: option.split prod.split)

lemma check_ready_all_calls: "returns (\<lambda>(_, w'). calls w' = calls w) (check_ready_all t bs flags w)"
proof (induction t bs flags w rule: check_ready_all.induct)
  case (2 t b bs flags w)
  show ?case
    unfolding check_ready_all.simps returns_bind
    by (rule returns_mono [OF check_ready_calls]) (auto intro!: returns_mono [OF 2])
qed simp

lemma settle_idle_ok: "endpoint_ok e w \<Longrightarrow> case CheckStandBy e w of (e', w') \<Rightarrow> endpoint_ok e' w'"
  by (auto simp: CheckStandBy_def intro: same_control_ok [OF settle_idle_control] split: prod.split)

lemma CheckAllBufferReady_ok:
  assumes "endpoint_ok e w"
  shows "returns (\<lambda>(_, e', w'). endpoint_ok e' w') (CheckAllBufferReady t e w)"
proof -
  have tail: "returns (\<lambda>(_, e', w'). endpoint_ok e' w')
      (let (e2, w2) = (if k then CheckStandBy e1 w1 else (e1, w1))
       in Inr (r, e2, if r then w2 else WaitAllProcessReady w2))"
    if "endpoint_ok e1 w1" for k r e1 w1
    using settle_idle_ok [OF that] that
    by (cases k) (auto simp: WaitAllProcessReady_def endpoint_ok_calls [OF outside_simps(1)] split: prod.splits)
  have time: "endpoint_ok (e\<lparr>lastHandleProcessTime := t\<rparr>) w1 = endpoint_ok e w1" for w1
    by (simp add: endpoint_ok_def device_known_def lists_ok_def)
  show ?thesis
    unfolding CheckAllBufferReady_def returns_bind
  proof (rule returns_mono [OF check_ready_all_calls], clarify)
    fix isAllReady needCheckStandby and w1 :: server assume "calls w1 = calls w"
    from endpoint_ok_calls [OF this] assms
    have "endpoint_ok (if processBufferList e = [] then e else e\<lparr>lastHandleProcessTime := t\<rparr>) w1"
      by (simp add: time)
    then show "returns (\<lambda>(_, e', w'). endpoint_ok e' w')
       (let e1 = (if processBufferList e = [] then e else e\<lparr>lastHandleProcessTime := t\<rparr>);
            (e2, w2) = (if needCheckStandby then CheckStandBy e1 w1 else (e1, w1))
        in Inr (isAllReady, e2, if isAllReady then w2 else WaitAllProcessReady w2))"
      by (subst Let_def) (rule tail)
  qed
qed

lemma release_span_calls: "returns (\<lambda>(_, w'). calls w' = calls w) (release_span n t b w)"
  unfolding release_span_def Let_def
  by (rule returns_bind_any, split option.split, intro conjI allI impI, simp)
    (auto simp: store_at_def intro!: returns_bind_any split: sum.split)

lemma release_spans_calls: "returns (\<lambda>(_, w'). calls w' = calls w) (release_spans n t bs w)"
proof (induction n t bs w rule: release_spans.induct)
  case (2 n t b bs w)
  show ?case
    unfolding release_spans.simps returns_bind
    by (rule returns_mono [OF release_span_calls]) (auto intro!: returns_mono [OF 2])
qed simp

text \<open>Fields the invariant does not read.\<close>

lemma endpoint_ok_updates [simp]:
  "endpoint_ok (e\<lparr>readTimeModel := m\<rparr>) w = endpoint_ok e w"
  "endpoint_ok (e\<lparr>writeTimeModel := m\<rparr>) w = endpoint_ok e w"
  "endpoint_ok (e\<lparr>needReSyncPosition := k\<rparr>) w = endpoint_ok e w"
  "endpoint_ok (e\<lparr>endpointStatus := st\<rparr>) w = endpoint_ok e w"
  by (simp_all add: endpoint_ok_def device_known_def lists_ok_def)

lemma predict_ok:
  "endpoint_ok e w \<Longrightarrow> returns (\<lambda>(_, e'). endpoint_ok e' w) (GetPredictNextReadTime pos e)"
  "endpoint_ok e w \<Longrightarrow> returns (\<lambda>(_, e'). endpoint_ok e' w) (GetPredictNextWriteTime pos e)"
  by (auto simp: GetPredictNextReadTime_def GetPredictNextWriteTime_def intro!: returns_bind_any)

lemma next_wakeup_calls: "next_wakeup t w = (t', w') \<Longrightarrow> calls w' = calls w"
  by (auto simp: next_wakeup_def GetCurNano_def split: if_splits)

lemma PrepareNextLoop_ok:
  assumes "endpoint_ok e w"
  shows "returns (\<lambda>(_, _, e', w'). endpoint_ok e' w') (PrepareNextLoop pos e w)"
  unfolding PrepareNextLoop_def Let_def returns_bind
proof (rule returns_mono [OF predict_ok(1) [OF assms]], clarify)
  fix t e1 assume e1: "endpoint_ok e1 w"
  obtain wake w1 where n: "next_wakeup (t - serverAheadReadTime e1) w = (wake, w1)" by (rule prod.exhaust)
  have w1: "endpoint_ok e1 w1" using endpoint_ok_calls [OF next_wakeup_calls [OF n]] e1 by blast
  have done': "returns (\<lambda>(_, _, e', w'). endpoint_ok e' w')
      (case GetCurNano w2 of (doneTime, w3) \<Rightarrow>
         exec_bind (release_spans (dstSpanSizeInframe e1) doneTime (processBufferList e1) w3)
           (\<lambda>(ok, w4). Inr (ok, wake, e1, w4)))" if "endpoint_ok e1 w2" for w2
    unfolding returns_bind GetCurNano_def prod.case
    by (rule returns_mono [OF release_spans_calls]) (use that in \<open>auto simp: endpoint_ok_def device_known_def\<close>)
  show "returns (\<lambda>(_, _, e', w'). endpoint_ok e' w')
     (case next_wakeup (t - serverAheadReadTime e1) w of (wakeUpTime, w1) \<Rightarrow>
        case dstAudioBuffer e1 of None \<Rightarrow> Inl NullDeref
        | Some b \<Rightarrow>
          exec_bind (GetSpanInfo (buffers w1 b) (pos + ucast (dstSpanSizeInframe e))) (\<lambda>r. case r of
            None \<Rightarrow> Inr (False, wakeUpTime, e1, w1)
          | Some _ \<Rightarrow>
            exec_bind (SetCurWriteFrame (buffers w1 b) (pos + ucast (dstSpanSizeInframe e))) (\<lambda>(ret1, B1).
              exec_bind (SetCurReadFrame B1 (pos + ucast (dstSpanSizeInframe e))) (\<lambda>(ret2, B2).
                if \<not> (ret1 = SUCCESS \<and> ret2 = SUCCESS) then Inr (False, wakeUpTime, e1, put_buffer w1 b B2)
                else case GetCurNano (put_buffer w1 b B2) of (doneTime, w3) \<Rightarrow>
                  exec_bind (release_spans (dstSpanSizeInframe e1) doneTime (processBufferList e1) w3)
                    (\<lambda>(ok, w4). Inr (ok, wakeUpTime, e1, w4))))))"
  proof (cases "dstAudioBuffer e1")
    case (Some b)
    show ?thesis
      unfolding n prod.case Some option.case
      by (rule returns_bind_any, split option.split, intro conjI allI impI, simp add: w1,
          rule returns_bind_any, split prod.split, intro allI impI, rule returns_bind_any, split prod.split,
          intro allI impI, split if_split, intro conjI impI, simp add: put_buffer_ok w1,
          rule done', simp only: put_buffer_ok w1)
  qed (simp add: n)
qed

lemma InitAudiobuffer_calls: "returns (\<lambda>w'. calls w' = calls w) (InitAudiobuffer k e w)"
  unfolding InitAudiobuffer_def by (auto intro!: returns_bind_any split: option.split)

lemma GetDeviceHandleInfo_ok: "GetDeviceHandleInfo e w = (r, w') \<Longrightarrow> endpoint_ok e w \<Longrightarrow> endpoint_ok e w'"
  using GetDeviceHandleInfo_calls endpoint_ok_calls by blast

lemma GetCurNano_ok: "GetCurNano w = (t, w') \<Longrightarrow> endpoint_ok e w' = endpoint_ok e w"
  using endpoint_ok_calls [OF outside_simps(1), of e w] by simp

lemma reset_positions_ok:
  assumes "endpoint_ok e w"
  shows "returns (\<lambda>(e', w'). endpoint_ok e' w')
     (case dstAudioBuffer e of None \<Rightarrow> Inl NullDeref
      | Some b \<Rightarrow> exec_bind (ResetCurReadWritePos (buffers w b) p q) (\<lambda>(ret, B).
          if ret \<noteq> SUCCESS then Inr (e, put_buffer w b B)
          else exec_bind (GetSpanInfo B q) (\<lambda>r. case r of
            None \<Rightarrow> Inr (e, put_buffer w b B)
          | Some k \<Rightarrow> Inr (e, put_buffer w b (upd_span B k f)))))"
proof (cases "dstAudioBuffer e")
  case (Some b)
  show ?thesis
    unfolding Some option.case
    by (rule returns_bind_any, split prod.split, intro allI impI, split if_split, intro conjI impI,
        simp add: put_buffer_ok assms, rule returns_bind_any, split option.split)
      (simp add: put_buffer_ok assms)
qed simp

lemma ReSyncPosition_ok:
  assumes "endpoint_ok e w"
  shows "returns (\<lambda>(e', w'). endpoint_ok e' w') (ReSyncPosition e w) \<and>
         returns (\<lambda>(e', w'). endpoint_ok e' w') (RecordReSyncPosition e w)"
proof -
  obtain h w1 where h: "GetDeviceHandleInfo e w = (h, w1)" by (rule prod.exhaust)
  obtain t w2 where t: "GetCurNano w1 = (t, w2)" by (rule prod.exhaust)
  have w1: "endpoint_ok e w1" by (rule GetDeviceHandleInfo_ok [OF h assms])
  have w2: "endpoint_ok e w2" using GetCurNano_ok [OF t] w1 by simp
  have after: "endpoint_ok e1 w3" if "calls w3 = calls w2" "endpoint_ok e1 w2" for e1 w3
    using endpoint_ok_calls [OF that(1)] that(2) by simp
  show ?thesis
  proof (cases h)
    case (Some s)
    obtain frames time where s: "s = (frames, time)" by (rule prod.exhaust)
    show ?thesis
      unfolding ReSyncPosition_def RecordReSyncPosition_def h Some s t prod.case option.case Let_def
        returns_bind [where m = "InitAudiobuffer _ _ _"]
      by (intro conjI; rule returns_mono [OF InitAudiobuffer_calls], rule reset_positions_ok, rule after, assumption)
        (simp_all add: w2)
  qed (simp add: ReSyncPosition_def RecordReSyncPosition_def h w1)
qed

lemma KeepWorkloopRunning_calls: "KeepWorkloopRunning e w = (k, w') \<Longrightarrow> calls w' = calls w"
  by (auto simp: KeepWorkloopRunning_def GetCurNano_def split: EndpointStatus.splits)

lemma update_uids_ok:
  "endpoint_ok e (ProcessUpdateAppsUidForPlayback e w) = endpoint_ok e w"
  "endpoint_ok e (ProcessUpdateAppsUidForRecord e w) = endpoint_ok e w"
  by (simp_all add: ProcessUpdateAppsUidForPlayback_def ProcessUpdateAppsUidForRecord_def endpoint_ok_def device_known_def)

lemma EndpointWorkLoopFuc_ok:
  assumes "endpoint_ok e w"
  shows "returns (\<lambda>(_, _, e', w'). endpoint_ok e' w') (EndpointWorkLoopFuc pol t e w)"
proof -
  obtain k w0 where k: "KeepWorkloopRunning e w = (k, w0)" by (rule prod.exhaust)
  obtain now w1 where n: "GetCurNano w0 = (now, w1)" by (rule prod.exhaust)
  have w0: "endpoint_ok e w0" using endpoint_ok_calls [OF KeepWorkloopRunning_calls [OF k]] assms by simp
  have w1: "endpoint_ok e w1" using GetCurNano_ok [OF n] w0 by simp
  have resync: "returns (\<lambda>(_, _, e', w'). endpoint_ok e' w')
      (exec_bind (ReSyncPosition e w1) (\<lambda>(e2, w2). Inr (True, now, e2\<lparr>needReSyncPosition := False\<rparr>, w2)))"
    unfolding returns_bind by (rule returns_mono [OF conjunct1 [OF ReSyncPosition_ok [OF w1]]]) auto
  have prepared: "returns (\<lambda>(_, _, e', w'). endpoint_ok e' w')
      (exec_bind (PrepareNextLoop pos e4 w4) (\<lambda>(ok2, wake2, e5, w5).
         if \<not> ok2 then Inr (False, wake2, e5, w5)
         else Inr (True, wake2, e5, ProcessUpdateAppsUidForPlayback e5 w5)))" if "endpoint_ok e4 w4" for pos e4 w4
    unfolding returns_bind by (rule returns_mono [OF PrepareNextLoop_ok [OF that]]) (auto simp: update_uids_ok)
  have handled: "returns (\<lambda>(_, _, e', w'). endpoint_ok e' w')
      (exec_bind (ProcessToEndpointDataHandle pol pos e2 w3) (\<lambda>(ok, e4, w4).
         if \<not> ok then Inr (False, t, e4, w4)
         else exec_bind (PrepareNextLoop pos e4 w4) (\<lambda>(ok2, wake2, e5, w5).
           if \<not> ok2 then Inr (False, wake2, e5, w5)
           else Inr (True, wake2, e5, ProcessUpdateAppsUidForPlayback e5 w5))))"
    if "endpoint_ok e2 w3" for pos e2 w3
    by (subst returns_bind, rule returns_mono [OF ProcessToEndpointDataHandle_ok [OF that]], clarify,
        split if_split, intro conjI impI, simp, rule prepared, assumption)
  have mixed: "returns (\<lambda>(_, _, e', w'). endpoint_ok e' w')
      (exec_bind (CheckAllBufferReady t e w1) (\<lambda>(ready, e2, w2).
         exec_bind (ProcessToEndpointDataHandle pol pos e2 (if ready then w2 else snd (GetCurNano w2))) (\<lambda>(ok, e4, w4).
           if \<not> ok then Inr (False, t, e4, w4)
           else exec_bind (PrepareNextLoop pos e4 w4) (\<lambda>(ok2, wake2, e5, w5).
             if \<not> ok2 then Inr (False, wake2, e5, w5)
             else Inr (True, wake2, e5, ProcessUpdateAppsUidForPlayback e5 w5)))))" for pos
  proof (subst returns_bind, rule returns_mono [OF CheckAllBufferReady_ok [OF w1]], clarify)
    fix ready e2 w2 assume e2: "endpoint_ok e2 w2"
    then have "endpoint_ok e2 (if ready then w2 else snd (GetCurNano w2))"
      using endpoint_ok_calls [OF outside_simps(1), of e2 w2] by simp
    from handled [OF this] show "returns (\<lambda>(_, _, e', w'). endpoint_ok e' w')
       (exec_bind (ProcessToEndpointDataHandle pol pos e2 (if ready then w2 else snd (GetCurNano w2))) (\<lambda>(ok, e4, w4).
           if \<not> ok then Inr (False, t, e4, w4)
           else exec_bind (PrepareNextLoop pos e4 w4) (\<lambda>(ok2, wake2, e5, w5).
             if \<not> ok2 then Inr (False, wake2, e5, w5)
             else Inr (True, wake2, e5, ProcessUpdateAppsUidForPlayback e5 w5))))" .
  qed
  show ?thesis
    unfolding EndpointWorkLoopFuc_def k n prod.case Let_def
    by (simp only: returns_simps prod.case w0 resync mixed split: if_split option.split) simp
qed

section \<open>A turn of the recording loop keeps the invariant\<close>

lemma memcpy_s_calls: "calls (snd (memcpy_s w b d src)) = calls w"
  by (simp add: memcpy_s_def split: option.split)

lemma HandleCapturerDataParams_calls: "calls (snd (HandleCapturerDataParams p b d buf e w)) = calls w"
  by (simp add: HandleCapturerDataParams_def prod.case_eq_if memcpy_s_calls)

lemma WriteToSpecialProcBuf_calls:
  "returns (\<lambda>(_, w'). calls w' = calls w) (WriteToSpecialProcBuf p b buf muted e w)"
proof -
  have written: "returns (\<lambda>(_, w'). calls w' = calls w)
      (exec_bind (SetHandleInfo B pos u) (\<lambda>B3. exec_bind (SetCurWriteFrame B3 q) (\<lambda>(ret2, B4).
         if ret2 \<noteq> SUCCESS then Inr (ERR_OPERATION_FAILED, put_buffer w3 b (f B4))
         else Inr (SUCCESS, put_buffer w3 b (g B4)))))" if "calls w3 = calls w" for B pos u q w3 f g
    using that by (auto intro!: returns_bind_any)
  have copied: "calls (snd (if muted then (case memcpy_s w1 b d None of (_, w2) \<Rightarrow> (SUCCESS, w2))
      else if endpointType e = TYPE_VOIP_MMAP then HandleCapturerDataParams p b d buf e w1
      else (case memcpy_s w1 b d (Some buf) of (ok, w2) \<Rightarrow> (if ok then SUCCESS else ERROR, w2)))) = calls w1" for w1 d
    by (simp add: prod.case_eq_if memcpy_s_calls HandleCapturerDataParams_calls)
  have copied': "calls w2 = calls w1" if "(if muted then (case memcpy_s w1 b d None of (_, w2) \<Rightarrow> (SUCCESS, w2))
      else if endpointType e = TYPE_VOIP_MMAP then HandleCapturerDataParams p b d buf e w1
      else (case memcpy_s w1 b d (Some buf) of (ok, w2) \<Rightarrow> (if ok then SUCCESS else ERROR, w2))) = (ret, w2)"
    for w1 w2 ret d
    using copied [of w1 d] unfolding that by simp
  have tick: "calls w2 = calls w1" if "GetCurNano w1 = (t, w2)" for w1 w2 t
    using that by (auto simp: GetCurNano_def)
  show ?thesis
    unfolding WriteToSpecialProcBuf_def Let_def
    by (rule returns_bind_any, split if_split, intro conjI impI, simp, rule returns_bind_any,
        split option.split, intro conjI allI impI, simp,
        split prod.split, intro allI impI, rule returns_bind_any, split sum.split, intro conjI allI impI,
        simp add: tick, split prod.split, intro allI impI, split if_split, intro conjI impI,
        drule copied', simp add: tick, split prod.split, intro allI impI, rule written, drule copied', simp add: tick)
qed

lemma write_loop_calls: "returns (\<lambda>w'. calls w' = calls w) (write_loop ps bs buf e w)"
proof (induction bs arbitrary: ps w)
  case (Cons b bs)
  have next': "returns (\<lambda>w'. calls w' = calls w) (write_loop ps' bs buf e x)" if "calls x = calls w" for ps' x
    using Cons.IH [of x ps'] that by simp
  show ?case
    by (cases ps) (auto simp: returns_bind intro!: returns_mono [OF WriteToSpecialProcBuf_calls] next')
qed simp

lemma ReadFromEndpoint_calls: "returns (\<lambda>(_, w'). calls w' = calls w) (ReadFromEndpoint pos e w)"
proof -
  have tick: "calls w2 = calls w1" if "GetCurNano w1 = (t, w2)" for w1 w2 t
    using that by (auto simp: GetCurNano_def)
  have done': "returns (\<lambda>(_, w'). calls w' = calls w)
      (exec_bind (WriteToProcessBuffers bs e w1) (\<lambda>w2.
        case GetCurNano (store_at w2 b n zs) of (t2, w4) \<Rightarrow> Inr (SUCCESS, put_buffer w4 b (f t2 w4))))"
    if "calls w1 = calls w" for w1 bs b n zs f
    unfolding returns_bind WriteToProcessBuffers_def
    by (rule returns_mono [OF write_loop_calls]) (auto simp: that dest: tick split: prod.split)
  show ?thesis
  proof (cases "dstAudioBuffer e")
    case (Some b)
    show ?thesis
      unfolding ReadFromEndpoint_def Let_def Some option.case
      by (rule returns_bind_any, split option.split, intro conjI allI impI, simp, split prod.split, intro allI impI,
          rule returns_bind_any, split sum.split, intro conjI allI impI, simp add: tick, rule done', simp add: tick)
  qed (simp add: ReadFromEndpoint_def)
qed

lemma RecordPrepareNextLoop_ok:
  assumes "endpoint_ok e w"
  shows "returns (\<lambda>(_, _, e', w'). endpoint_ok e' w') (RecordPrepareNextLoop pos e w)"
  unfolding RecordPrepareNextLoop_def Let_def returns_bind [where m = "GetPredictNextWriteTime _ _"]
proof (rule returns_mono [OF predict_ok(2) [OF assms]], clarify)
  fix t e1 assume e1: "endpoint_ok e1 w"
  obtain wake w1 where n: "next_wakeup (t + (if endpointType e1 = TYPE_VOIP_MMAP then RECORD_VOIP_DELAY_TIME
      else RECORD_DELAY_TIME)) w = (wake, w1)" by (rule prod.exhaust)
  have w1: "endpoint_ok e1 w1" using endpoint_ok_calls [OF next_wakeup_calls [OF n]] e1 by blast
  show "returns (\<lambda>(_, _, e', w'). endpoint_ok e' w')
     (case next_wakeup (t + (if endpointType e1 = TYPE_VOIP_MMAP then RECORD_VOIP_DELAY_TIME
        else RECORD_DELAY_TIME)) w of (wakeUpTime, w1) \<Rightarrow>
        case dstAudioBuffer e1 of None \<Rightarrow> Inl NullDeref
        | Some b \<Rightarrow>
          exec_bind (SetCurWriteFrame (buffers w1 b) (pos + ucast (dstSpanSizeInframe e))) (\<lambda>(ret1, B1).
            if ret1 \<noteq> SUCCESS then Inr (False, wakeUpTime, e1, put_buffer w1 b B1)
            else exec_bind (SetCurReadFrame B1 (pos + ucast (dstSpanSizeInframe e))) (\<lambda>(ret2, B2).
              Inr (ret2 = SUCCESS, wakeUpTime, e1, put_buffer w1 b B2))))"
    unfolding n prod.case
    by (cases "dstAudioBuffer e1") (auto simp: w1 put_buffer_ok intro!: returns_bind_any)
qed

lemma RecordEndpointWorkLoopFuc_ok:
  assumes "endpoint_ok e w"
  shows "returns (\<lambda>(_, _, e', w'). endpoint_ok e' w') (RecordEndpointWorkLoopFuc t e w)"
proof -
  obtain k w0 where k: "KeepWorkloopRunning e w = (k, w0)" by (rule prod.exhaust)
  obtain now w1 where n: "GetCurNano w0 = (now, w1)" by (rule prod.exhaust)
  have w0: "endpoint_ok e w0" using endpoint_ok_calls [OF KeepWorkloopRunning_calls [OF k]] assms by simp
  have w1: "endpoint_ok e w1" using GetCurNano_ok [OF n] w0 by simp
  have resync: "returns (\<lambda>(_, _, e', w'). endpoint_ok e' w')
      (exec_bind (RecordReSyncPosition e w0) (\<lambda>(e2, w2).
         case GetCurNano w2 of (u, w3) \<Rightarrow> Inr (True, u, e2\<lparr>needReSyncPosition := False\<rparr>, w3)))"
    unfolding returns_bind
    by (rule returns_mono [OF conjunct2 [OF ReSyncPosition_ok [OF w0]]]) (auto simp: GetCurNano_ok split: prod.split)
  have prepared: "returns (\<lambda>(_, _, e', w'). endpoint_ok e' w')
      (exec_bind (RecordPrepareNextLoop pos e w2) (\<lambda>(ok, wake2, e3, w3).
         if \<not> ok then Inr (False, wake2, e3, w3)
         else Inr (True, wake2, e3, ProcessUpdateAppsUidForRecord e3 w3)))" if "endpoint_ok e w2" for pos w2
    unfolding returns_bind by (rule returns_mono [OF RecordPrepareNextLoop_ok [OF that]]) (auto simp: update_uids_ok)
  have read: "returns (\<lambda>(_, _, e', w'). endpoint_ok e' w')
      (exec_bind (ReadFromEndpoint pos e w1) (\<lambda>(ret, w2).
         if ret \<noteq> SUCCESS then Inr (False, t, e, w2)
         else exec_bind (RecordPrepareNextLoop pos e w2) (\<lambda>(ok, wake2, e3, w3).
           if \<not> ok then Inr (False, wake2, e3, w3)
           else Inr (True, wake2, e3, ProcessUpdateAppsUidForRecord e3 w3))))" for pos
  proof (subst returns_bind, rule returns_mono [OF ReadFromEndpoint_calls], clarify)
    fix ret and w2 :: server assume c: "calls w2 = calls w1"
    have w2: "endpoint_ok e w2" using endpoint_ok_calls [OF c] w1 by simp
    show "returns (\<lambda>(_, _, e', w'). endpoint_ok e' w')
       (if ret \<noteq> SUCCESS then Inr (False, t, e, w2)
        else exec_bind (RecordPrepareNextLoop pos e w2) (\<lambda>(ok, wake2, e3, w3).
           if \<not> ok then Inr (False, wake2, e3, w3)
           else Inr (True, wake2, e3, ProcessUpdateAppsUidForRecord e3 w3)))"
      by (split if_split, intro conjI impI, simp add: w2, rule prepared [OF w2])
  qed
  show ?thesis
    unfolding RecordEndpointWorkLoopFuc_def k n prod.case Let_def
    by (simp only: returns_simps prod.case w0 resync read split: if_split option.split) simp
qed

section \<open>Reachable endpoints\<close>

definition unused :: "DeviceInfo \<Rightarrow> AudioEndpoint \<Rightarrow> bool" where
  "unused d e \<longleftrightarrow> deviceInfo e = d \<and> \<not> isStarted e \<and> processList e = [] \<and> processBufferList e = []"

lemma unused_updates [simp]:
  "unused d (e\<lparr>fastSinkType := a\<rparr>) = unused d e" "unused d (e\<lparr>fastSourceType := b\<rparr>) = unused d e"
  "unused d (e\<lparr>fastSink := k\<rparr>) = unused d e" "unused d (e\<lparr>fastSource := k\<rparr>) = unused d e"
  "unused d (e\<lparr>dstAudioBuffer := x\<rparr>) = unused d e" "unused d (e\<lparr>writeTimeModel := m\<rparr>) = unused d e"
  "unused d (e\<lparr>readTimeModel := m\<rparr>) = unused d e" "unused d (e\<lparr>dstStreamInfo := i\<rparr>) = unused d e"
  "unused d (e\<lparr>spanDuration := p, serverAheadReadTime := q\<rparr>) = unused d e"
  "unused d (StartThread e) = unused d e"
  by (simp_all add: unused_def StartThread_def)

lemma GetAdapterBufferInfo_unused: "unused d e \<Longrightarrow> unused d (snd (GetAdapterBufferInfo a d' e))"
  by (auto simp: GetAdapterBufferInfo_def unused_def Let_def split: prod.splits)

lemma PrepareDeviceBuffer_unused:
  assumes "unused d e"
  shows "returns (\<lambda>(_, e', _). unused d e') (PrepareDeviceBuffer a b mem d' e w)"
proof -
  obtain ret e1 where g: "GetAdapterBufferInfo a d' e = (ret, e1)" by (rule prod.exhaust)
  have "unused d e1" using GetAdapterBufferInfo_unused [OF assms, of a d'] g by simp
  then show ?thesis
    unfolding PrepareDeviceBuffer_def g prod.case Let_def
    by (auto simp: assms intro!: returns_bind_any split: option.split)
qed

lemma ConfigInputPoint_unused:
  assumes "unused d e"
  shows "returns (\<lambda>(_, e', _). unused d e') (ConfigInputPoint a b mem d' e w)"
proof -
  obtain src e0 where g: "GetFastSource a (di_networkId d') (endpointType e) e = (src, e0)" by (rule prod.exhaust)
  then have "unused d e0" using assms by (auto simp: GetFastSource_def split: if_splits)
  then show ?thesis
    unfolding ConfigInputPoint_def g prod.case Let_def
    by (auto simp: returns_bind intro!: returns_mono [OF PrepareDeviceBuffer_unused] split: prod.split)
qed

lemma Config_unused:
  "returns (\<lambda>(_, e', _). unused d e') (Config a b mem d (AudioEndpointInner_ctor ty i cfg d0 s0) w)"
proof -
  let ?e0 = "(AudioEndpointInner_ctor ty i cfg d0 s0)\<lparr>deviceInfo := d\<rparr>"
  have u: "unused d ?e0" by (simp add: unused_def AudioEndpointInner_ctor_def)
  have sink: "unused d (snd (GetFastSink a d ty' e))" if "unused d e" for ty' e
    using that by (simp add: GetFastSink_def)
  show ?thesis
    unfolding Config_def Let_def
    by (auto simp: u returns_bind intro!: returns_mono [OF PrepareDeviceBuffer_unused] ConfigInputPoint_unused
        split: prod.split dest: arg_cong [where f = "\<lambda>x. unused d (snd x)"] simp: sink)
qed

text \<open>Configuration, and then any sequence of handlers and turns, in between which clients, other
  handlers and the rest of the server do what they like to everything but this device (\<open>others\<close>).
  A handler runs to its end, so none finds the device \<open>STARTING\<close> and nothing happens in the wait of
  \<^term>\<open>LinkProcessStream\<close>; \<open>LinkProcessStream_ok\<close> allows for it.\<close>

inductive endpoint_reach :: "AudioEndpoint \<Rightarrow> server \<Rightarrow> bool" where
  configured: "Config a b mem d (AudioEndpointInner_ctor ty i cfg d0 s0) w = Inr (True, e, w') \<Longrightarrow>
    di_deviceRole d = 1 \<or> di_deviceRole d = 2 \<Longrightarrow> endpoint_reach e w'"
| linked: "endpoint_reach e w \<Longrightarrow> LinkProcessStream id p e w = (r, e', w') \<Longrightarrow> endpoint_reach e' w'"
| unlinked: "endpoint_reach e w \<Longrightarrow> UnlinkProcessStream p e w = (r, e', w') \<Longrightarrow> endpoint_reach e' w'"
| started: "endpoint_reach e w \<Longrightarrow> OnStart e w = (r, e', w') \<Longrightarrow> endpoint_reach e' w'"
| paused: "endpoint_reach e w \<Longrightarrow> OnPause e w = (r, e', w') \<Longrightarrow> endpoint_reach e' w'"
| positioned: "endpoint_reach e w \<Longrightarrow> AsyncGetPosTime e w = (e', w') \<Longrightarrow> endpoint_reach e' w'"
| capturing: "endpoint_reach e w \<Longrightarrow> EnableFastInnerCap e w = Inr (r, e', w') \<Longrightarrow> endpoint_reach e' w'"
| not_capturing: "endpoint_reach e w \<Longrightarrow> DisableFastInnerCap e w = (r, e', w') \<Longrightarrow> endpoint_reach e' w'"
| played: "endpoint_reach e w \<Longrightarrow> EndpointWorkLoopFuc pol t e w = Inr (k, t', e', w') \<Longrightarrow> endpoint_reach e' w'"
| recorded: "endpoint_reach e w \<Longrightarrow> RecordEndpointWorkLoopFuc t e w = Inr (k, t', e', w') \<Longrightarrow> endpoint_reach e' w'"
| released: "endpoint_reach e w \<Longrightarrow> Release e w = (e', w') \<Longrightarrow> endpoint_reach e' w'"
| others: "endpoint_reach e w \<Longrightarrow> calls w' = calls w \<Longrightarrow> endpoint_reach e w'"

lemma settles_id: "settles id"
  by (simp add: settles_def)

lemma endpoint_reach_ok: "endpoint_reach e w \<Longrightarrow> endpoint_ok e w"
proof (induction rule: endpoint_reach.induct)
  case (configured a b mem d ty i cfg d0 s0 w e w')
  have "unused d e" using returnsD [OF Config_unused configured(1)] by simp
  then show ?case
    using configured(2) by (simp add: unused_def endpoint_ok_def device_known_def lists_ok_def)
next
  case (linked e w p r e' w')
  then show ?case using LinkProcessStream_ok [OF linked.IH settles_id] by blast
next
  case (positioned e w e' w')
  then show ?case using AsyncGetPosTime_ok [OF positioned.IH] by simp
next
  case (capturing e w r e' w')
  then show ?case using returnsD [OF EnableFastInnerCap_ok [OF capturing.IH] capturing(2)] by simp
next
  case (played e w pol t k t' e' w')
  then show ?case using returnsD [OF EndpointWorkLoopFuc_ok [OF played.IH] played(2)] by simp
next
  case (recorded e w t k t' e' w')
  then show ?case using returnsD [OF RecordEndpointWorkLoopFuc_ok [OF recorded.IH] recorded(2)] by simp
next
  case (others e w w')
  then show ?case using endpoint_ok_calls [OF others(2)] by simp
qed (blast intro: UnlinkProcessStream_ok OnStart_ok OnPause_ok DisableFastInnerCap_ok Release_ok)+

end
