(* ===== verification/ProcessInServer.thy ===== *)
theory ProcessInServer
  imports EndpointLoop
begin

text \<open>
  A fast stream on the server's side (\<open>audio_process_in_server.cpp\<close>): its buffer, and the requests of
  its client, each of which is checked against the status the client has written into the buffer
  and passed on to the endpoints that listen.

  \<open>fast_server\<close> adds the endpoints to the server. The permission checks and the generator of session
  ids are the policy service's, an argument; what the privacy service answers to a notice is the
  next of \<open>replies\<close>.
\<close>

record fast_server =
  eps :: "eref \<Rightarrow> AudioEndpoint"
  srv :: server

record permission_env =
  NeedVerifyBackgroundCapture :: "s32 \<Rightarrow> enum32 \<Rightarrow> bool"
  VerifyBackgroundCapture :: "u32 \<Rightarrow> u64 \<Rightarrow> bool"
  GenerateSessionId :: "s32 \<Rightarrow> u32"

definition MIN_SESSIONID :: u32 where [cfg_defs]: "MIN_SESSIONID = 100000"
definition MAX_SESSIONID :: u32 where [cfg_defs]: "MAX_SESSIONID = 4294967295 - 100000"

abbreviation is_playback :: "AudioProcess \<Rightarrow> bool" where
  "is_playback P \<equiv> pc_audioMode (processConfig P) = 0"

abbreviation proc_at :: "pref \<Rightarrow> fast_server \<Rightarrow> AudioProcess" where
  "proc_at p f \<equiv> procs (srv f) p"

abbreviation upd_srv :: "(server \<Rightarrow> server) \<Rightarrow> fast_server \<Rightarrow> fast_server" where
  "upd_srv g f \<equiv> f\<lparr>srv := g (srv f)\<rparr>"

abbreviation set_proc :: "pref \<Rightarrow> AudioProcess \<Rightarrow> fast_server \<Rightarrow> fast_server" where
  "set_proc p P f \<equiv> f\<lparr>srv := put_proc (srv f) p P\<rparr>"

section \<open>Construction\<close>

definition AudioProcessInServer_ctor :: "permission_env \<Rightarrow> AudioProcessConfig \<Rightarrow> bool \<Rightarrow> AudioProcess" where
  "AudioProcessInServer_ctor pe cfg cb =
     \<lparr>processConfig = cfg, muteFlag = False, isInnerCapped = False, hasReleaseCallback = cb,
      needCheckBackground = False,
      ap_sessionId = (if originalSessionId cfg < MIN_SESSIONID \<or> originalSessionId cfg > MAX_SESSIONID
                      then GenerateSessionId pe (appUid (appInfo cfg)) else originalSessionId cfg),
      ap_isInited = False, streamStatusOf = None, clientTid = 0, clientBundleName = [],
      clientThreadPriorityRequested = False, ap_totalSizeInframe = 0, ap_spanSizeInframe = 0,
      ap_byteSizePerFrame = 0, isBufferConfiged = False, processBuffer = None, listenerList = [],
      convertedBuffer = None\<rparr>"

definition SetInnerCapState :: "bool \<Rightarrow> AudioProcess \<Rightarrow> AudioProcess" where
  "SetInnerCapState c P = P\<lparr>isInnerCapped := c\<rparr>"

definition AddProcessStatusListener :: "eref \<Rightarrow> AudioProcess \<Rightarrow> err \<times> AudioProcess" where
  "AddProcessStatusListener l P = (SUCCESS, P\<lparr>listenerList := listenerList P @ [l]\<rparr>)"

definition RemoveProcessStatusListener :: "eref \<Rightarrow> AudioProcess \<Rightarrow> err \<times> AudioProcess" where
  "RemoveProcessStatusListener l P = (SUCCESS, P\<lparr>listenerList := remove1 l (listenerList P)\<rparr>)"

definition RegisterThreadPriority :: "u32 \<Rightarrow> string \<Rightarrow> AudioProcess \<Rightarrow> err \<times> AudioProcess" where
  "RegisterThreadPriority tid bundle P =
     (if \<not> clientThreadPriorityRequested P
      then (SUCCESS, P\<lparr>clientTid := tid, clientBundleName := bundle\<rparr>)
      else (ERR_OPERATION_FAILED, P))"

section \<open>The buffer\<close>

definition PcmFormatToBits :: "u8 \<Rightarrow> u32" where
  "PcmFormatToBits f = (if f = 0 then 1 else if f = 1 then 2 else if f = 2 then 3 else if f = 3 then 4 else if f = 4 then 4 else 2)"

definition ResolveBuffer :: "AudioProcess \<Rightarrow> err + bref" where
  "ResolveBuffer P =
     (if \<not> isBufferConfiged P then Inl ERR_ILLEGAL_STATE
      else case processBuffer P of None \<Rightarrow> Inl ERR_ILLEGAL_STATE | Some b \<Rightarrow> Inr b)"

definition InitBufferStatus :: "bref option \<Rightarrow> server \<Rightarrow> err \<times> server" where
  "InitBufferStatus pb w =
     (case pb of None \<Rightarrow> (ERR_ILLEGAL_STATE, w)
      | Some b \<Rightarrow>
        let B = reset_spans SPAN_READ_DONE (buffers w b) in
        case GetCurNano w of (t, w1) \<Rightarrow> (SUCCESS, put_buffer w1 b (SetLastWrittenTime B t)))"

text \<open>The client's span lasts as many whole milliseconds as the server's. \<open>fresh\<close> and \<open>mem\<close> are
  where the buffer made here lies, \<open>shared\<close> the endpoint's own buffer when it lends one.\<close>

definition ConfigProcessBuffer ::
    "os_env \<Rightarrow> bref \<Rightarrow> u8 list \<Rightarrow> u32 \<Rightarrow> u32 \<Rightarrow> WireStreamInfo \<Rightarrow> bref option \<Rightarrow> pref \<Rightarrow> server \<Rightarrow>
     (err \<times> server) exec" where
  "ConfigProcessBuffer os fresh mem totalSize spanSize serverInfo shared p w =
     (let P = procs w p; cfg = streamInfo (processConfig P) in
      if processBuffer P \<noteq> None then Inr (SUCCESS, w)
      else if totalSize = 0 \<or> spanSize = 0 \<or> totalSize mod spanSize \<noteq> 0 then Inr (ERR_INVALID_PARAM, w)
      else if ws_samplingRate serverInfo = {} \<or> ws_channels serverInfo = {} then Inr (ERR_INVALID_PARAM, w)
      else
        let serverRate = last_in_order (ws_samplingRate serverInfo);
            serverChannels = last_in_order (ws_channels serverInfo)
        in if serverRate = 0 then Inl DivByZero
        else
          let spanTime = spanSize * AUDIO_MS_PER_SECOND div serverRate;
              mySpan = spanTime * si_samplingRate cfg div AUDIO_MS_PER_SECOND;
              myTotal = totalSize div spanSize * mySpan;
              myBytes = ucast (si_channels cfg) * PcmFormatToBits (si_format cfg);
              conv = (if serverChannels \<noteq> si_channels cfg
                      then Some (replicate (unat (if is_playback P
                             then spanSize * (ucast serverChannels * PcmFormatToBits (ws_format serverInfo))
                             else mySpan * myBytes)) 0)
                      else convertedBuffer P);
              P1 = P\<lparr>ap_spanSizeInframe := mySpan, ap_totalSizeInframe := myTotal,
                     ap_byteSizePerFrame := myBytes, convertedBuffer := conv\<rparr>
          in exec_bind
               (case shared of
                  Some b \<Rightarrow> Inr (SUCCESS, P1\<lparr>processBuffer := Some b\<rparr>, w)
                | None \<Rightarrow>
                  exec_bind (CreateFromLocal os myTotal mySpan myBytes) (\<lambda>r. case r of
                    None \<Rightarrow> Inr (ERR_OPERATION_FAILED, P1, w)
                  | Some B \<Rightarrow>
                    let P2 = P1\<lparr>processBuffer := Some fresh\<rparr>;
                        w1 = (put_buffer w fresh B)\<lparr>mems := (mems w)(fresh := mem)\<rparr>
                    in if GetBufferHolder B \<noteq> AUDIO_SERVER_SHARED then Inr (ERR_ILLEGAL_STATE, P2, w1)
                       else Inr (SUCCESS, P2, snd (InitBufferStatus (Some fresh) (clear_data fresh w1)))))
               (\<lambda>(ret, P2, w1).
                  if ret \<noteq> SUCCESS then Inr (ret, put_proc w1 p P2)
                  else case processBuffer P2 of None \<Rightarrow> Inl NullDeref
                  | Some b \<Rightarrow>
                    if GetStreamStatus (buffers w1 b) = None then Inr (ERR_OPERATION_FAILED, put_proc w1 p P2)
                    else Inr (SUCCESS, put_proc w1 p
                      (P2\<lparr>streamStatusOf := Some b, isBufferConfiged := True, ap_isInited := True\<rparr>))))"

section \<open>Requests of the client\<close>

text \<open>What \<open>streamStatus_\<close> points to.\<close>

definition load_status :: "AudioProcess \<Rightarrow> server \<Rightarrow> StreamStatus exec" where
  "load_status P w =
     (case streamStatusOf P of None \<Rightarrow> Inl NullDeref
      | Some b \<Rightarrow> (case GetStreamStatus (buffers w b) of None \<Rightarrow> Inl NullDeref | Some s \<Rightarrow> Inr s))"

definition store_status :: "StreamStatus \<Rightarrow> AudioProcess \<Rightarrow> server \<Rightarrow> server" where
  "store_status s P w =
     (case streamStatusOf P of None \<Rightarrow> w | Some b \<Rightarrow> put_buffer w b (set_stream_status (buffers w b) s))"

text \<open>The listeners are told in turn; what they answer is dropped.\<close>

fun notify :: "(AudioEndpoint \<Rightarrow> server \<Rightarrow> err \<times> AudioEndpoint \<times> server) \<Rightarrow> eref list \<Rightarrow> fast_server \<Rightarrow> fast_server" where
  "notify h [] f = f"
| "notify h (l # ls) f =
     (case h (eps f l) (srv f) of (_, e, w) \<Rightarrow> notify h ls (f\<lparr>eps := (eps f)(l := e), srv := w\<rparr>))"

definition notify_privacy :: "u32 \<Rightarrow> bool \<Rightarrow> server \<Rightarrow> bool \<times> server" where
  "notify_privacy token start w = (case adapter_call (Privacy token start) w of (r, w1) \<Rightarrow> (r = SUCCESS, w1))"

text \<open>The gate of a recording that starts or resumes: \<open>None\<close> lets it pass.\<close>

definition background_check :: "permission_env \<Rightarrow> pref \<Rightarrow> fast_server \<Rightarrow> err option \<times> fast_server" where
  "background_check pe p f =
     (let P = proc_at p f; a = appInfo (processConfig P);
          P1 = (if \<not> is_playback P \<and> \<not> needCheckBackground P \<and>
                   NeedVerifyBackgroundCapture pe (callerUid (processConfig P)) (ci_sourceType (capturerInfo (processConfig P)))
                then P\<lparr>needCheckBackground := True\<rparr> else P);
          f1 = set_proc p P1 f
      in if \<not> is_playback P1 \<and> needCheckBackground P1
         then if \<not> VerifyBackgroundCapture pe (appTokenId a) (appFullTokenId a) then (Some ERR_OPERATION_FAILED, f1)
              else case notify_privacy (appTokenId a) True (srv f1) of (ok, w) \<Rightarrow>
                (if ok then None else Some ERR_PERMISSION_DENIED, f1\<lparr>srv := w\<rparr>)
         else (None, f1))"

definition stop_privacy :: "pref \<Rightarrow> fast_server \<Rightarrow> fast_server" where
  "stop_privacy p f =
     (let P = proc_at p f in
      if \<not> is_playback P \<and> needCheckBackground P
      then upd_srv (\<lambda>w. snd (notify_privacy (appTokenId (appInfo (processConfig P))) False w)) f else f)"

definition Start :: "permission_env \<Rightarrow> pref \<Rightarrow> fast_server \<Rightarrow> (err \<times> fast_server) exec" where
  "Start pe p f =
     (if \<not> ap_isInited (proc_at p f) then Inr (ERR_ILLEGAL_STATE, f)
      else exec_bind (load_status (proc_at p f) (srv f)) (\<lambda>st.
        if st \<noteq> STREAM_STARTING \<and> st \<noteq> STREAM_STAND_BY then Inr (ERR_ILLEGAL_STATE, f)
        else case background_check pe p f of
          (Some e, f1) \<Rightarrow> Inr (e, f1)
        | (None, f1) \<Rightarrow>
          let f2 = notify OnStart (listenerList (proc_at p f1)) f1 in
          exec_bind (load_status (proc_at p f2) (srv f2)) (\<lambda>st2.
            let f3 = (if st2 = STREAM_STAND_BY then upd_srv (store_status STREAM_STARTING (proc_at p f2)) f2 else f2)
            in case processBuffer (proc_at p f3) of None \<Rightarrow> Inl NullDeref
               | Some b \<Rightarrow> case GetCurNano (srv f3) of (t, w) \<Rightarrow>
                 Inr (SUCCESS, f3\<lparr>srv := put_buffer w b (SetLastWrittenTime (buffers w b) t)\<rparr>))))"

definition Pause :: "pref \<Rightarrow> fast_server \<Rightarrow> (err \<times> fast_server) exec" where
  "Pause p f =
     (if \<not> ap_isInited (proc_at p f) then Inr (ERR_ILLEGAL_STATE, f)
      else exec_bind (load_status (proc_at p f) (srv f)) (\<lambda>st.
        if st \<noteq> STREAM_PAUSING then Inr (ERR_ILLEGAL_STATE, f)
        else let f1 = stop_privacy p f in Inr (SUCCESS, notify OnPause (listenerList (proc_at p f1)) f1)))"

definition Resume :: "permission_env \<Rightarrow> pref \<Rightarrow> fast_server \<Rightarrow> (err \<times> fast_server) exec" where
  "Resume pe p f =
     (if \<not> ap_isInited (proc_at p f) then Inr (ERR_ILLEGAL_STATE, f)
      else exec_bind (load_status (proc_at p f) (srv f)) (\<lambda>st.
        if st \<noteq> STREAM_STARTING then Inr (ERR_ILLEGAL_STATE, f)
        else case background_check pe p f of
          (Some e, f1) \<Rightarrow> Inr (e, f1)
        | (None, f1) \<Rightarrow> Inr (SUCCESS, notify OnStart (listenerList (proc_at p f1)) f1)))"

definition Stop :: "pref \<Rightarrow> fast_server \<Rightarrow> (err \<times> fast_server) exec" where
  "Stop p f =
     (if \<not> ap_isInited (proc_at p f) then Inr (ERR_ILLEGAL_STATE, f)
      else exec_bind (load_status (proc_at p f) (srv f)) (\<lambda>st.
        if st \<noteq> STREAM_STOPPING then Inr (ERR_ILLEGAL_STATE, f)
        else let f1 = stop_privacy p f in Inr (SUCCESS, notify OnPause (listenerList (proc_at p f1)) f1)))"

fun notify_handle :: "pref \<Rightarrow> eref list \<Rightarrow> fast_server \<Rightarrow> fast_server exec" where
  "notify_handle p [] f = Inr f"
| "notify_handle p (l # ls) f =
     exec_bind (OnUpdateHandleInfo p (eps f l) (srv f)) (\<lambda>(_, w). notify_handle p ls (f\<lparr>srv := w\<rparr>))"

definition RequestHandleInfo :: "pref \<Rightarrow> fast_server \<Rightarrow> (err \<times> fast_server) exec" where
  "RequestHandleInfo p f =
     (if \<not> ap_isInited (proc_at p f) \<or> processBuffer (proc_at p f) = None then Inr (ERR_ILLEGAL_STATE, f)
      else exec_bind (notify_handle p (listenerList (proc_at p f)) f) (\<lambda>f1. Inr (SUCCESS, f1)))"

text \<open>\<open>onRelease\<close> is \<open>AudioService::OnProcessRelease\<close>, over whatever the service adds to the state;
  where it does not return, its value is \<^const>\<open>None\<close>.\<close>

definition process_release ::
    "(pref \<Rightarrow> 's fast_server_scheme \<Rightarrow> 's fast_server_scheme exec option) \<Rightarrow> pref \<Rightarrow> 's fast_server_scheme \<Rightarrow>
     (err \<times> 's fast_server_scheme) exec option" where
  "process_release onRelease p f =
     (let P = procs (srv f) p in
      if \<not> ap_isInited P then Some (Inr (ERR_ILLEGAL_STATE, f))
      else
        let P1 = P\<lparr>clientThreadPriorityRequested := False, ap_isInited := False\<rparr>;
            f1 = f\<lparr>srv := put_proc (srv f) p P1\<rparr>
        in if \<not> hasReleaseCallback P1 then Some (Inr (ERR_OPERATION_FAILED, f1))
           else
             let f2 = (if \<not> is_playback P1 \<and> needCheckBackground P1
                       then f1\<lparr>srv := snd (notify_privacy (appTokenId (appInfo (processConfig P1))) False (srv f1))\<rparr>
                       else f1)
             in (case onRelease p f2 of
                   None \<Rightarrow> None
                 | Some m \<Rightarrow> Some (exec_bind m (\<lambda>f3. Inr (SUCCESS, f3)))))"

end
