(* ===== verification/EndpointProps.thy ===== *)
theory EndpointProps
  imports EndpointInv SpanRing ProcessInServer
begin

text \<open>
  What an endpoint does: the mix is the saturated sum of its sources, a span that was played is
  handed back to its client cleared, an idle endpoint stops its device after ten seconds, and what a
  device that fails to start leaves behind.
\<close>

section \<open>The mix\<close>

text \<open>The reference: the exact sum of the scaled samples, saturated once.\<close>

definition saturated_sum :: "AudioStreamData list \<Rightarrow> nat \<Rightarrow> 16 word" where
  "saturated_sum srcs k =
     word_of_int (max (- 32768) (min 32767 (\<Sum>s\<leftarrow>srcs. sample16 (sd_data s) k * sd_volumeStart s div 65536)))"

lemma clamp16_eq: "clamp16 x = max (- 32768) (min 32767 x)"
  by (simp add: clamp16_def)

lemma scaled_eq: "scaled x vol = x * vol div 65536"
  by (simp add: scaled_def cfg_defs)

definition volume_in_range :: "AudioStreamData \<Rightarrow> bool" where
  "volume_in_range s \<longleftrightarrow> 0 \<le> sd_volumeStart s \<and> sd_volumeStart s \<le> 65536"

lemma sample16_range: "- 32768 \<le> sample16 bs k" "sample16 bs k \<le> 32767"
  using sint_ge [of "read_le (slice (2 * k) 2 bs) :: 16 word"] sint_lt [of "read_le (slice (2 * k) 2 bs) :: 16 word"]
  by (simp_all add: sample16_def)

lemma scaled_range:
  assumes "- 32768 \<le> x" "x \<le> 32767" "0 \<le> vol" "vol \<le> 65536"
  shows "- 32768 \<le> scaled x vol" "scaled x vol \<le> 32767"
proof -
  have "x * vol \<le> 32767 * 65536"
  proof (cases "0 \<le> x")
    case True
    then show ?thesis using assms by (intro mult_mono) auto
  next
    case False
    then have "x * vol \<le> 0" using assms(3) by (simp add: mult_nonpos_nonneg)
    then show ?thesis by simp
  qed
  then have "x * vol div 65536 \<le> 32767 * 65536 div 65536" by (rule zdiv_mono1) simp
  then show "scaled x vol \<le> 32767" by (simp add: scaled_def cfg_defs)
  have "(- 32768) * 65536 \<le> x * vol"
  proof (cases "0 \<le> x")
    case True
    then have "0 \<le> x * vol" using assms(3) by simp
    then show ?thesis by linarith
  next
    case False
    have "(- x) * vol \<le> 32768 * 65536" using False assms by (intro mult_mono) auto
    then show ?thesis by simp
  qed
  then have "(- 32768) * 65536 div 65536 \<le> x * vol div 65536" by (rule zdiv_mono1) simp
  then show "- 32768 \<le> scaled x vol" by (simp add: scaled_def cfg_defs)
qed

lemma wrap32_small: "- 2147483648 \<le> x \<Longrightarrow> x < 2147483648 \<Longrightarrow> wrap32 x = x"
  unfolding wrap32_def by (rule signed_take_bit_int_eq_self) simp_all

text \<open>The 32-bit accumulator holds the sum of more than sixty thousand sources.\<close>

lemma mix_sample_sum:
  assumes "\<forall>s \<in> set srcs. volume_in_range s"
    and "\<bar>acc\<bar> + 32768 * int (length srcs) < 2147483648"
  shows "fst (mix_sample srcs k acc e w) =
    acc + (\<Sum>s\<leftarrow>srcs. scaled (sample16 (sd_data s) k) (sd_volumeStart s))"
  using assms
proof (induction srcs arbitrary: acc e w)
  case (Cons s srcs)
  let ?x = "scaled (sample16 (sd_data s) k) (sd_volumeStart s)"
  have x: "- 32768 \<le> ?x" "?x \<le> 32767"
    using scaled_range [OF sample16_range] Cons.prems(1) by (simp_all add: volume_in_range_def)
  have b: "\<bar>acc + ?x\<bar> + 32768 * int (length srcs) < 2147483648"
    using Cons.prems(2) x by auto
  have "wrap32 (acc + ?x) = acc + ?x" using b by (intro wrap32_small) linarith+
  moreover obtain e1 w1 where "ZeroVolumeCheck (sd_volumeStart s) e w = (e1, w1)" by (rule prod.exhaust)
  ultimately show ?case using Cons.IH [OF _ b, of e1 w1] Cons.prems(1) by simp
qed simp

lemma mix_loop_sum:
  assumes "\<forall>s \<in> set srcs. volume_in_range s" and "length srcs \<le> 60000"
  shows "fst (mix_loop srcs ks e w) = map (saturated_sum srcs) ks"
proof (induction ks arbitrary: e w)
  case (Cons k ks)
  obtain acc e1 w1 where m: "mix_sample srcs k 0 e w = (acc, e1, w1)" by (rule prod_cases3)
  have "acc = (\<Sum>s\<leftarrow>srcs. scaled (sample16 (sd_data s) k) (sd_volumeStart s))"
    using mix_sample_sum [OF assms(1), of 0 k e w] assms(2) m by simp
  then show ?case
    using Cons.IH [of e1 w1] m by (auto simp: saturated_sum_def clamp16_eq scaled_eq split: prod.splits)
qed simp

lemma ZeroVolumeCheck_mems: "mems (snd (ZeroVolumeCheck vol e w)) = mems w"
  by (simp add: ZeroVolumeCheck_def GetCurNano_def adapter_call_def Let_def)

lemma mix_sample_mems: "mems (snd (snd (mix_sample srcs k acc e w))) = mems w"
proof (induction srcs arbitrary: acc e w)
  case (Cons s srcs)
  obtain e1 w1 where z: "ZeroVolumeCheck (sd_volumeStart s) e w = (e1, w1)" by (rule prod.exhaust)
  then have "mems w1 = mems w" using ZeroVolumeCheck_mems [of "sd_volumeStart s" e w] by simp
  then show ?case by (simp add: z Cons.IH)
qed simp

lemma mix_loop_mems: "mems (snd (snd (mix_loop srcs ks e w))) = mems w"
proof (induction ks arbitrary: e w)
  case (Cons k ks)
  obtain acc e1 w1 where m: "mix_sample srcs k 0 e w = (acc, e1, w1)" by (rule prod_cases3)
  then have "mems w1 = mems w" using mix_sample_mems [of srcs k 0 e w] by simp
  then show ?case using Cons.IH [of e1 w1] m by (auto split: prod.splits)
qed simp

lemma HandleZeroVolumeCheckEvent_mems: "mems (snd (HandleZeroVolumeCheckEvent e w)) = mems w"
  by (simp add: HandleZeroVolumeCheckEvent_def GetCurNano_def adapter_call_def Let_def)

text \<open>
  C37: The mix of a turn equals its reference: when the sources have the device's format and length and
  volumes in their range, every sample of the device's span becomes the exact sum of the scaled
  samples, saturated once at the end; nothing overflows on the way, no byte beside the span changes
  and nothing is read out of bounds.
\<close>

theorem mix_is_saturated_sum:
  assumes "\<forall>s \<in> set srcs. volume_in_range s \<and> is_s16_stereo (sd_streamInfo s) \<and>
      sd_length s = unat (bufLength d) \<and> sd_length s \<le> length (sd_data s)"
    and "is_s16_stereo (dstStreamInfo e)" and "length srcs \<le> MAX_LINKED_PROCESS"
    and "dataLength d = bufLength d"
  shows "\<exists>e' w'. ProcessData srcs b d e w = Inr (e', w') \<and>
    mems w' = (mems w)(b := overwrite (mems w b) (unat (bufOffset d))
      (s16_bytes (map (saturated_sum srcs) [0..<unat (bufLength d) div 2])))"
proof -
  let ?ks = "[0..<unat (bufLength d) div 2]"
  obtain out e1 w1 where m: "mix_loop srcs ?ks e w = (out, e1, w1)" by (rule prod_cases3)
  have out: "out = map (saturated_sum srcs) ?ks"
    using mix_loop_sum [of srcs ?ks e w] assms(1,3) m by (simp add: cfg_defs)
  have w1: "mems w1 = mems w" using mix_loop_mems [of srcs ?ks e w] m by simp
  have "\<not> (\<exists>s \<in> set srcs. length (sd_data s) < 2 * (unat (dataLength d) div 2))"
    using assms(1,4) by fastforce
  then have p: "ProcessData srcs b d e w =
      Inr (HandleZeroVolumeCheckEvent e1 (store_at w1 b (unat (bufOffset d)) (s16_bytes out)))"
    using assms m by (simp add: ProcessData_def mix_into_def Let_def)
  show ?thesis
    unfolding p using HandleZeroVolumeCheckEvent_mems [of e1 "store_at w1 b (unat (bufOffset d)) (s16_bytes out)"]
    by (cases "HandleZeroVolumeCheckEvent e1 (store_at w1 b (unat (bufOffset d)) (s16_bytes out))")
      (simp add: out w1 store_at_def)
qed

section \<open>The device over time\<close>

text \<open>
  C38: An endpoint takes its device for started only while the adapter has been told to start and has
  not been stopped since, and its lists of processes and buffers stay in step and within six entries,
  whatever is linked, unlinked, started, paused, played, recorded or captured.
\<close>

theorem endpoint_knows_its_device:
  assumes "endpoint_reach e w"
  shows "(ep_isInited e \<longrightarrow> isStarted e \<longrightarrow> device_on (calls w)) \<and>
    length (processList e) = length (processBufferList e) \<and> length (processList e) \<le> MAX_LINKED_PROCESS"
  using endpoint_reach_ok [OF assms] by (simp add: endpoint_ok_def device_known_def lists_ok_def)

text \<open>
  C40: A playback endpoint none of whose processes runs any more is idle after a pause, and the position
  thread stops its device at the first wake-up more than ten seconds later, clearing its data;
  before that it keeps the device on.
\<close>

theorem idle_device_is_stopped:
  assumes "endpointStatus e = RUNNING" and "isStarted e" and "is_output e" and "fastSink e"
    and "\<not> IsAnyProcessRunning e w"
    and "OnPause e w = (r, e1, w1)"
  shows "r = SUCCESS \<and> endpointStatus e1 = IDEL \<and>
    (let (e2, w2) = AsyncGetPosTime e1 w' in
     if clock w (ticks w) + DELAY_STOP_HDI_TIME <s clock w' (ticks w')
     then calls w2 \<noteq> [] \<and> last (calls w2) = SinkStop (replies w' (length (calls w2) - 1)) \<and>
          isStarted e2 = (last (calls w2) \<noteq> SinkStop SUCCESS) \<and>
          (\<forall>b. dstAudioBuffer e = Some b \<longrightarrow>
             take (unat (GetDataSize (buffers w' b))) (mems w2 b) = replicate (unat (GetDataSize (buffers w' b))) 0)
     else calls w2 = calls w' \<and> isStarted e2)"
proof -
  have e1: "e1 = e\<lparr>endpointStatus := IDEL, delayStopTime := clock w (ticks w) + DELAY_STOP_HDI_TIME\<rparr>"
    and r: "r = SUCCESS"
    using assms by (auto simp: OnPause_def settle_idle_def arm_delay_stop_def GetCurNano_def Let_def)
  have kept: "calls (snd (GetDeviceHandleInfo e1 w'')) = calls w''" for w''
    using GetDeviceHandleInfo_calls [of e1 w''] by (metis surjective_pairing)
  show ?thesis
  proof (cases "clock w (ticks w) + DELAY_STOP_HDI_TIME <s clock w' (ticks w')")
    case True
    then show ?thesis
      using assms(2-4)
      by (auto simp: r e1 AsyncGetPosTime_def GetCurNano_def DelayStopDevice_def stop_adapter_def stop_prologue_def
          adapter_call_def Let_def note_call_def clear_data_def store_at_def overwrite_def split: option.split)
  next
    case False
    then show ?thesis
      using assms(2) kept [of "w'\<lparr>ticks := Suc (ticks w')\<rparr>"]
      by (auto simp: r e1 AsyncGetPosTime_def GetCurNano_def Let_def split: option.splits prod.splits)
  qed
qed

text \<open>
  A device that fails to start leaves an endpoint with at most one process \<open>UNLINKED\<close> although the
  process stays linked; the next start of any of its processes is then answered with success and the
  endpoint runs, without the device ever being asked again.
\<close>

theorem start_after_failed_start:
  assumes "endpointStatus e = IDEL" and "\<not> isStarted e" and "is_output e" and "fastSink e"
    and "length (processList e) \<le> 1" and "replies w (length (calls w)) \<noteq> SUCCESS"
    and "OnStart e w = (r, e1, w1)"
  shows "r = ERR_OPERATION_FAILED \<and> endpointStatus e1 = UNLINKED \<and> processList e1 = processList e \<and>
    (\<forall>w2. \<exists>e2. OnStart e1 w2 = (SUCCESS, e2, w2) \<and> endpointStatus e2 = RUNNING \<and> \<not> isStarted e2)"
  using assms
  by (auto simp: OnStart_def StartDevice_def start_adapter_fails_def adapter_call_def HandleStartDeviceFailed_def Let_def)

section \<open>Spans that were played\<close>

lemma GetSpanInfo_spec:
  assumes g: "geometry_ok b" and i: "basicBufferInfo b = Some i" and al: "totalN b dvd baseN i"
    and lo: "baseN i \<le> unat pos" and hi: "unat pos < baseN i + 2 * totalN b"
    and far: "baseN i + 2 * totalN b < 2 ^ 64"
  shows "\<exists>k. GetSpanInfo b pos = Inr (Some k) \<and> unat k = unat pos mod totalN b div spanN b"
proof -
  from g have s: "0 < spanN b" "0 < totalN b" "spanN b dvd totalN b"
    and count: "unat (spanConut b) = totalN b div spanN b" by (simp_all add: geometry_ok_def)
  have t: "totalN b < 10485760" using g by (rule geometry_total_small)
  let ?max = "basePosInFrame i + total64 b + total64 b"
  have m1: "unat (basePosInFrame i + total64 b) = baseN i + totalN b"
    using far by (subst unat_add_small) simp_all
  have max: "unat ?max = baseN i + 2 * totalN b"
    using far by (subst unat_add_small) (simp_all add: m1)
  have le: "basePosInFrame i \<le> pos" using lo by (simp only: word_le_nat_alt)
  have in_range: "pos < ?max" using hi by (simp only: word_less_nat_alt max)
  let ?d0 = "pos - basePosInFrame i"
  let ?d1 = "if total64 b \<le> ?d0 then ?d0 - total64 b else ?d0"
  have d0: "unat ?d0 = unat pos - baseN i" using le by (rule unat_sub)
  have d1: "unat ?d1 = unat pos mod totalN b"
  proof -
    have "unat ?d1 = (unat pos - baseN i) mod totalN b"
      using mod_below_twice [of "unat pos - baseN i" "totalN b"] hi lo d0
      by (simp add: word_le_nat_alt unat_sub_le)
    then show ?thesis using ring_delta [OF al lo] by simp
  qed
  have small: "unat ?d1 < totalN b" using d1 s(2) by simp
  have c: "?d1 < 4294967295" "?d1 < total64 b"
    using small t by (simp_all only: word_less_nat_alt unat_ucast_32_64) simp_all
  let ?k = "ucast (?d1 div span64 b) :: u32"
  have k: "unat ?k = unat pos mod totalN b div spanN b"
  proof -
    have q: "unat (?d1 div span64 b) = unat pos mod totalN b div spanN b"
      by (simp only: unat_div unat_ucast_32_64 d1)
    have "unat pos mod totalN b div spanN b \<le> unat pos mod totalN b" by (rule div_le_dividend)
    also have "\<dots> < 2 ^ 32" using small [unfolded d1] t by simp
    finally have "unat (?d1 div span64 b) < 2 ^ 32" unfolding q .
    from unat_ucast_64_32 [OF this] show ?thesis using q by simp
  qed
  have "?k < spanConut b"
  proof -
    obtain m where m: "totalN b = spanN b * m" using s(3) by (auto simp: dvd_def)
    have "unat pos mod totalN b < m * spanN b" using s(2) m by (simp add: mult.commute)
    then have "unat pos mod totalN b div spanN b < m" using s(1) by (simp add: div_less_iff_less_mult)
    then show ?thesis using m s(1) by (simp add: word_less_nat_alt k count)
  qed
  moreover have sp: "spanSizeInFrame b > 0" using s(1) by (simp add: word_less_nat_alt)
  ultimately have "GetSpanInfo b pos = Inr (Some ?k)"
    unfolding GetSpanInfo_def Let_def i option.case
    using le in_range c sp by (simp only: simp_thms if_True if_False)
  then show ?thesis using k by blast
qed

text \<open>What a turn does to one buffer and its memory.\<close>

definition span_index :: "OHAudioBuffer \<Rightarrow> nat \<Rightarrow> nat" where
  "span_index b pos = pos mod totalN b div spanN b"

definition handed_back :: "s64 \<Rightarrow> OHAudioBuffer \<Rightarrow> u8 list \<Rightarrow> OHAudioBuffer \<Rightarrow> u8 list \<Rightarrow> bool" where
  "handed_back t B m B' m' \<longleftrightarrow>
     (let pos = GetCurReadFrame B; k = span_index B (unat pos) in
      m' = overwrite m (span_offset B (unat pos)) (replicate (spanN B * byteN B) 0) \<and>
      spanInfoList B' = (spanInfoList B)[k := (spanInfoList B ! k)\<lparr>spanStatus := SPAN_READ_DONE, readDoneTime := t\<rparr>] \<and>
      GetCurReadFrame B' = (if unat pos + spanN B \<le> unat (GetCurWriteFrame B) then pos + span64 B else pos) \<and>
      GetCurWriteFrame B' = GetCurWriteFrame B)"

definition process_buffer_ok :: "u32 \<Rightarrow> OHAudioBuffer \<Rightarrow> bool" where
  "process_buffer_ok n B \<longleftrightarrow> ring_ok B \<and> spans_aligned B \<and> spanSizeInFrame B = n \<and>
     (case basicBufferInfo B of None \<Rightarrow> False | Some i \<Rightarrow> baseN i + 2 * totalN B < 2 ^ 64)"

lemma release_span_returns:
  assumes ok: "process_buffer_ok n (buffers w b)"
  shows "\<exists>w'. release_span n t b w = Inr (True, w') \<and>
    (if spanStatus (spanInfoList (buffers w b) ! span_index (buffers w b) (unat (GetCurReadFrame (buffers w b)))) = SPAN_READING
     then handed_back t (buffers w b) (mems w b) (buffers w' b) (mems w' b)
     else buffers w' b = buffers w b \<and> mems w' b = mems w b) \<and>
    (\<forall>c. c \<noteq> b \<longrightarrow> buffers w' c = buffers w c \<and> mems w' c = mems w c)"
proof -
  let ?B = "buffers w b"
  obtain i where i: "basicBufferInfo ?B = Some i" and g: "geometry_ok ?B" and win: "window_ok ?B i"
    using ok by (auto simp: process_buffer_ok_def elim!: ring_okE)
  have far: "baseN i + 2 * totalN ?B < 2 ^ 64" and n: "n = spanSizeInFrame ?B"
    and al: "spans_aligned ?B" and ring: "ring_ok ?B"
    using ok i by (simp_all add: process_buffer_ok_def)
  have base: "totalN ?B dvd baseN i" "baseN i \<le> readN i" "readN i < baseN i + totalN ?B"
    using win by (simp_all add: window_ok_def)
  have pos: "GetCurReadFrame ?B = curReadFrame i" by (simp add: GetCurReadFrame_def i)
  have wpos: "GetCurWriteFrame ?B = curWriteFrame i" by (simp add: GetCurWriteFrame_def i)
  obtain k where k: "GetSpanInfo ?B (curReadFrame i) = Inr (Some k)" "unat k = span_index ?B (readN i)"
    using GetSpanInfo_spec [OF g i base(1,2) _ far] base(3) by (auto simp: span_index_def)
  have st: "GetStreamStatus ?B = Some (streamStatus i)" by (simp add: GetStreamStatus_def i)
  show ?thesis
  proof (cases "spanStatus (span_at ?B k) = SPAN_READING")
    case False
    then show ?thesis
      by (simp add: release_span_def Let_def pos k st span_at_def)
  next
    case True
    let ?B1 = "upd_span ?B k (\<lambda>s. s\<lparr>spanStatus := SPAN_READ_DONE, readDoneTime := t\<rparr>)"
    have B1: "basicBufferInfo ?B1 = Some i" "geometry_ok ?B1" "totalSizeInFrame ?B1 = totalSizeInFrame ?B"
      "spanSizeInFrame ?B1 = spanSizeInFrame ?B" "byteSizePerFrame ?B1 = byteSizePerFrame ?B"
      "window_ok ?B1 i" "spans_aligned ?B1"
      using i g win al by (simp_all add: upd_span_def geometry_ok_def window_ok_def spans_aligned_def)
    have ring1: "ring_ok ?B1" using B1 by (simp add: ring_ok_def)
    obtain d where rd: "GetReadbuffer ?B1 (curReadFrame i) = Inr (Inr d)"
      and d: "unat (bufOffset d) = span_offset ?B1 (readN i)" "unat (bufLength d) = spanN ?B1 * byteN ?B1"
      using GetReadbuffer_spec [OF ring1 B1(1)] by auto
    have off: "span_offset ?B1 (readN i) = span_offset ?B (readN i)" by (simp add: span_offset_def B1)
    obtain r B2 where set: "SetCurReadFrame ?B1 (curReadFrame i + ucast n) = Inr (r, B2)"
      "GetCurReadFrame B2 = (if readN i + spanN ?B \<le> writeN i then curReadFrame i + span64 ?B else curReadFrame i)"
      "GetCurWriteFrame B2 = curWriteFrame i" "spanInfoList B2 = spanInfoList ?B1"
    proof (cases "readN i + spanN ?B1 \<le> writeN i")
      case True
      note adv = SetCurReadFrame_advances [OF ring1 B1(7,1) True, unfolded B1(4), folded n]
      show ?thesis
        using True by (intro that [OF adv]) (simp_all add: n B1(4) GetCurReadFrame_def GetCurWriteFrame_def)
    next
      case False
      have "spanN ?B \<le> totalN ?B" using g by (simp add: geometry_ok_def dvd_imp_le)
      then have "readN i + spanN ?B1 < 2 ^ 64" using base far by (simp add: B1(4))
      note kept = SetCurReadFrame_refuses [OF B1(1) False B1(2) this, unfolded B1(4), folded n]
      show ?thesis
        using False by (intro that [OF kept]) (simp_all add: n B1(1,4) GetCurReadFrame_def GetCurWriteFrame_def)
    qed
    have R: "release_span n t b w =
        Inr (True, put_buffer (store_at (put_buffer w b ?B1) b (unat (bufOffset d)) (replicate (unat (bufLength d)) 0)) b B2)"
      using True by (simp add: release_span_def Let_def pos k(1) st rd set(1))
    have "handed_back t ?B (mems w b) B2 (overwrite (mems w b) (unat (bufOffset d)) (replicate (unat (bufLength d)) 0))"
      unfolding handed_back_def Let_def
      using set(2-4) d off
      by (simp add: pos wpos B1 k(2) span_at_def) (simp add: upd_span_def span_at_def k(2))
    then show ?thesis
      using True unfolding R by (simp add: store_at_def pos span_at_def k(2))
  qed
qed

text \<open>
  C39: At the end of a turn every linked client's buffer whose span was being read gets it back: marked
  as read with the time, its bytes cleared, the read position moved on by one span unless that would
  pass the writer; the buffers whose span was not being read and everybody else's are left alone,
  and no access is out of bounds.
\<close>

theorem turn_hands_spans_back:
  assumes "distinct bs" and "\<forall>b \<in> set bs. process_buffer_ok n (buffers w b)"
  shows "\<exists>w'. release_spans n t bs w = Inr (True, w') \<and>
    (\<forall>b \<in> set bs.
       if spanStatus (spanInfoList (buffers w b) ! span_index (buffers w b) (unat (GetCurReadFrame (buffers w b)))) = SPAN_READING
       then handed_back t (buffers w b) (mems w b) (buffers w' b) (mems w' b)
       else buffers w' b = buffers w b \<and> mems w' b = mems w b) \<and>
    (\<forall>c. c \<notin> set bs \<longrightarrow> buffers w' c = buffers w c \<and> mems w' c = mems w c)"
  using assms
proof (induction bs arbitrary: w)
  case (Cons b bs)
  obtain w1 where r: "release_span n t b w = Inr (True, w1)"
    and here: "if spanStatus (spanInfoList (buffers w b) ! span_index (buffers w b) (unat (GetCurReadFrame (buffers w b)))) = SPAN_READING
       then handed_back t (buffers w b) (mems w b) (buffers w1 b) (mems w1 b)
       else buffers w1 b = buffers w b \<and> mems w1 b = mems w b"
    and other: "\<And>c. c \<noteq> b \<Longrightarrow> buffers w1 c = buffers w c \<and> mems w1 c = mems w c"
    using release_span_returns [of n w b t] Cons.prems(2) by auto
  have eq: "buffers w1 c = buffers w c" "mems w1 c = mems w c" if "c \<in> set bs" for c
    using other [of c] that Cons.prems(1) by auto
  have "\<forall>c \<in> set bs. process_buffer_ok n (buffers w1 c)" using Cons.prems(2) by (simp add: eq)
  then obtain w2 where rs: "release_spans n t bs w1 = Inr (True, w2)"
    and rest: "\<forall>c \<in> set bs. if spanStatus (spanInfoList (buffers w1 c) ! span_index (buffers w1 c) (unat (GetCurReadFrame (buffers w1 c)))) = SPAN_READING
       then handed_back t (buffers w1 c) (mems w1 c) (buffers w2 c) (mems w2 c)
       else buffers w2 c = buffers w1 c \<and> mems w2 c = mems w1 c"
    and untouched: "\<And>c. c \<notin> set bs \<Longrightarrow> buffers w2 c = buffers w1 c \<and> mems w2 c = mems w1 c"
    using Cons.IH [of w1] Cons.prems(1) by auto
  have "release_spans n t (b # bs) w = Inr (True, w2)" by (simp add: r rs)
  moreover have "b \<notin> set bs" using Cons.prems(1) by simp
  moreover have "\<forall>c \<in> set bs. if spanStatus (spanInfoList (buffers w c) ! span_index (buffers w c) (unat (GetCurReadFrame (buffers w c)))) = SPAN_READING
       then handed_back t (buffers w c) (mems w c) (buffers w2 c) (mems w2 c)
       else buffers w2 c = buffers w c \<and> mems w2 c = mems w c"
    using rest by (simp add: eq cong: if_cong)
  moreover have "\<forall>c. c \<notin> set (b # bs) \<longrightarrow> buffers w2 c = buffers w c \<and> mems w2 c = mems w c"
    using untouched other by simp
  ultimately show ?case using here untouched [of b] by (intro exI [of _ w2]) simp
qed simp

section \<open>Instances\<close>

definition demo_process :: AudioProcess where
  "demo_process = \<lparr>processConfig = demo_config, muteFlag = False, isInnerCapped = False, hasReleaseCallback = True,
     needCheckBackground = False, ap_sessionId = 100001, ap_isInited = True, streamStatusOf = Some 0, clientTid = 0,
     clientBundleName = [], clientThreadPriorityRequested = False, ap_totalSizeInframe = 8, ap_spanSizeInframe = 2,
     ap_byteSizePerFrame = 4, isBufferConfiged = True, processBuffer = Some 0, listenerList = [0],
     convertedBuffer = None\<rparr>"

definition demo_server :: server where
  "demo_server = \<lparr>buffers = (\<lambda>_. demo_ring 0 0 8), mems = (\<lambda>_. replicate 32 1), procs = (\<lambda>_. demo_process),
     clock = (\<lambda>n. of_nat n * 20000000000), ticks = 0, replies = (\<lambda>_. SUCCESS), calls = [],
     positions = (\<lambda>_. (True, SUCCESS, 0, 0, 0)), queries = 0\<rparr>"

definition demo_speaker :: DeviceInfo where
  "demo_speaker = demo_device_info\<lparr>di_deviceType := 2, di_deviceRole := 2, di_networkId := LOCAL_NETWORK,
     di_audioStreamInfo := \<lparr>ws_encoding = 0, ws_format = 1, ws_channelLayout = 3, ws_samplingRate = {1000},
       ws_channels = {2}\<rparr>\<rparr>"

definition demo_adapter :: adapter_env where
  "demo_adapter = \<lparr>daudio_enabled = False, sink_instance = (\<lambda>_. True), source_instance = (\<lambda>_. True),
     adapter_init = SUCCESS, adapter_inited = True, mmap_info = (SUCCESS, 7, 8, 2, 4), a_os = demo_os\<rparr>"

definition demo_new_endpoint :: AudioEndpoint where
  "demo_new_endpoint = AudioEndpointInner_ctor TYPE_MMAP 0 demo_config demo_speaker demo_stream_info"

lemma demo_run:
  "case Config demo_adapter 9 (replicate 32 1) demo_speaker demo_new_endpoint demo_server of
     Inl _ \<Rightarrow> False
   | Inr (ok, e, w) \<Rightarrow> ok \<and> (case LinkProcessStream id (Some 0) e w of (r, e1, w1) \<Rightarrow>
       r = SUCCESS \<and> isStarted e1 \<and> ep_isInited e1 \<and> processList e1 = [0] \<and> calls w1 = [SinkStart SUCCESS])"
  by code_simp


theorem endpoint_knows_its_device_witness:
  "\<exists>(e :: AudioEndpoint) (w :: server). isStarted e \<and> ep_isInited e \<and> processList e = [0] \<and>
     (ep_isInited e \<longrightarrow> isStarted e \<longrightarrow> device_on (calls w)) \<and>
     length (processList e) = length (processBufferList e) \<and> length (processList e) \<le> MAX_LINKED_PROCESS"
proof -
  obtain ok e w where c: "Config demo_adapter 9 (replicate 32 1) demo_speaker demo_new_endpoint demo_server = Inr (ok, e, w)"
    using demo_run by (auto split: sum.splits)
  obtain r e1 w1 where l: "LinkProcessStream id (Some 0) e w = (r, e1, w1)" by (rule prod_cases3)
  have k: "ok \<and> isStarted e1 \<and> ep_isInited e1 \<and> processList e1 = [0]"
    using demo_run unfolding c sum.case prod.case l by blast
  have role: "di_deviceRole demo_speaker = 1 \<or> di_deviceRole demo_speaker = 2" by (simp add: demo_speaker_def)
  have "endpoint_reach e w"
    by (rule endpoint_reach.configured [OF _ role]) (use c k in \<open>simp only: demo_new_endpoint_def\<close>)
  then have "endpoint_reach e1 w1" using l by (rule endpoint_reach.linked)
  from endpoint_knows_its_device [OF this] k show ?thesis by blast
qed

definition demo_source :: AudioStreamData where
  "demo_source = \<lparr>sd_streamInfo = demo_stream_info, sd_data = replicate 32 1, sd_length = 8, sd_volumeStart = 65536,
     sd_volumeEnd = 65536, sd_isInnerCaped = False\<rparr>"

definition demo_desc :: BufferDesc where
  "demo_desc = \<lparr>bufOffset = 8, bufLength = 8, dataLength = 8\<rparr>"

theorem mix_is_saturated_sum_witness:
  "\<exists>e' w'. ProcessData [demo_source, demo_source] 0 demo_desc demo_new_endpoint demo_server = Inr (e', w') \<and>
    mems w' = (mems demo_server)(0 := overwrite (mems demo_server 0) (unat (bufOffset demo_desc))
      (s16_bytes (map (saturated_sum [demo_source, demo_source]) [0..<unat (bufLength demo_desc) div 2])))"
  by (rule mix_is_saturated_sum)
    (simp_all add: demo_source_def demo_desc_def volume_in_range_def is_s16_stereo_def demo_stream_info_def
      demo_new_endpoint_def AudioEndpointInner_ctor_def cfg_defs)

definition demo_playing :: AudioEndpoint where
  "demo_playing = demo_new_endpoint\<lparr>endpointStatus := RUNNING, isStarted := True, fastSink := True, processList := [0],
     processBufferList := [0], dstAudioBuffer := Some 9\<rparr>"

definition demo_later :: server where
  "demo_later = demo_server\<lparr>ticks := 1\<rparr>"

definition demo_failing :: server where
  "demo_failing = demo_server\<lparr>replies := (\<lambda>_. ERROR)\<rparr>"

definition demo_ready :: AudioEndpoint where
  "demo_ready = demo_playing\<lparr>endpointStatus := IDEL, isStarted := False\<rparr>"

lemmas demo_endpoint_defs = demo_playing_def demo_ready_def demo_new_endpoint_def AudioEndpointInner_ctor_def
  demo_speaker_def demo_later_def demo_failing_def demo_server_def

theorem idle_device_is_stopped_witness:
  "case OnPause demo_playing demo_server of (r, e1, w1) \<Rightarrow>
     r = SUCCESS \<and> endpointStatus e1 = IDEL \<and>
     (let (e2, w2) = AsyncGetPosTime e1 demo_later in
      if clock demo_server (ticks demo_server) + DELAY_STOP_HDI_TIME <s clock demo_later (ticks demo_later)
      then calls w2 \<noteq> [] \<and> last (calls w2) = SinkStop (replies demo_later (length (calls w2) - 1)) \<and>
          isStarted e2 = (last (calls w2) \<noteq> SinkStop SUCCESS) \<and>
          (\<forall>b. dstAudioBuffer demo_playing = Some b \<longrightarrow>
             take (unat (GetDataSize (buffers demo_later b))) (mems w2 b) =
               replicate (unat (GetDataSize (buffers demo_later b))) 0)
      else calls w2 = calls demo_later \<and> isStarted e2)"
proof -
  obtain r e1 w1 where p: "OnPause demo_playing demo_server = (r, e1, w1)" by (rule prod_cases3)
  have idle: "\<not> IsAnyProcessRunning demo_playing demo_server" by code_simp
  show ?thesis
    unfolding p prod.case
    by (rule idle_device_is_stopped [OF _ _ _ _ idle p]) (simp_all add: demo_endpoint_defs)
qed

theorem start_after_failed_start_witness:
  "case OnStart demo_ready demo_failing of (r, e1, w1) \<Rightarrow>
     r = ERR_OPERATION_FAILED \<and> endpointStatus e1 = UNLINKED \<and> processList e1 = processList demo_ready \<and>
     (\<forall>w2. \<exists>e2. OnStart e1 w2 = (SUCCESS, e2, w2) \<and> endpointStatus e2 = RUNNING \<and> \<not> isStarted e2)"
proof -
  obtain r e1 w1 where p: "OnStart demo_ready demo_failing = (r, e1, w1)" by (rule prod_cases3)
  show ?thesis
    unfolding p prod.case
    by (rule start_after_failed_start [OF _ _ _ _ _ _ p]) (simp_all add: demo_endpoint_defs)
qed

definition demo_read_ring :: OHAudioBuffer where
  "demo_read_ring = (demo_ring 0 0 8)\<lparr>spanInfoList := replicate 4 (demo_span\<lparr>spanStatus := SPAN_READING\<rparr>)\<rparr>"

theorem turn_hands_spans_back_witness:
  "\<exists>w'. release_spans 2 7 [0, 1] (demo_server\<lparr>buffers := (\<lambda>_. demo_read_ring)\<rparr>) = Inr (True, w') \<and>
     handed_back 7 demo_read_ring (replicate 32 1) (buffers w' 0) (mems w' 0)"
proof -
  let ?w = "demo_server\<lparr>buffers := (\<lambda>_. demo_read_ring)\<rparr>"
  have ok: "\<forall>b \<in> set [0, 1]. process_buffer_ok 2 (buffers ?w b)"
    by (simp add: process_buffer_ok_def demo_read_ring_def demo_ring_def ring_ok_def geometry_ok_def window_ok_def
        spans_aligned_def init_server_info_def init_positions_def)
  have "spanStatus (spanInfoList demo_read_ring ! span_index demo_read_ring (unat (GetCurReadFrame demo_read_ring))) = SPAN_READING"
    by code_simp
  with turn_hands_spans_back [OF _ ok, of 7] show ?thesis by (auto simp: demo_server_def)
qed

end
