(* ===== verification/NormalStream.thy ===== *)
theory NormalStream
  imports EndpointMix VolumeTools
begin

text \<open>
  What the server's normal streams share (\<open>renderer_in_server.cpp\<close>, \<open>capturer_in_server.cpp\<close>): the
  operations and states of \<open>i_stream.h\<close>, the notices of \<open>i_stream_listener.h\<close>, and everything
  a stream asks outside itself.

  A stream talks to its PulseAudio or direct stream, to the stream managers, to its client's
  listener, to the policy and privacy services and to \<open>AudioService\<close>. Each such call is noted in
  \<open>asked\<close>, and what comes back is the next of \<open>answers\<close>, of which nothing is assumed. The clock and
  the wall clock are read from \<open>now\<close> and \<open>wall\<close>. Locks are not modelled but for \<open>try_lock\<close>, whose
  result is an argument.

  The shared buffer is the stream's \<open>OHAudioBuffer\<close> with its data, a byte array; the client's side
  of it is \<open>renderer_step\<close> in theory \<open>RendererProps\<close>.
\<close>

unbundle bit_operations_syntax

section \<open>Operations and states\<close>

datatype IOperation =
  OPERATION_INVALID | OPERATION_STARTED | OPERATION_PAUSED | OPERATION_STOPPED | OPERATION_FLUSHED
| OPERATION_DRAINED | OPERATION_RELEASED | OPERATION_UNDERRUN | OPERATION_UNDERFLOW
| OPERATION_SET_OFFLOAD_ENABLE | OPERATION_UNSET_OFFLOAD_ENABLE
| OPERATION_DATA_LINK_CONNECTING | OPERATION_DATA_LINK_CONNECTED

datatype IStatus =
  I_STATUS_INVALID | I_STATUS_IDLE | I_STATUS_STARTING | I_STATUS_STARTED | I_STATUS_PAUSING
| I_STATUS_PAUSED | I_STATUS_FLUSHING_WHEN_STARTED | I_STATUS_FLUSHING_WHEN_PAUSED
| I_STATUS_FLUSHING_WHEN_STOPPED | I_STATUS_DRAINING | I_STATUS_DRAINED | I_STATUS_STOPPING
| I_STATUS_STOPPED | I_STATUS_RELEASING | I_STATUS_RELEASED

datatype Operation =
  START_STREAM | PAUSE_STREAM | STOP_STREAM | RELEASE_STREAM | FLUSH_STREAM | DRAIN_STREAM
| UPDATE_STREAM | BUFFER_UNDERRUN | BUFFER_OVERFLOW | SET_OFFLOAD_ENABLE | UNDERFLOW_COUNT_ADD
| DATA_LINK_CONNECTING | DATA_LINK_CONNECTED | RESTORE_SESSION | MAX_OPERATION_CODE

datatype ManagerType =
  PLAYBACK | DUP_PLAYBACK | DUAL_PLAYBACK | DIRECT_PLAYBACK | VOIP_PLAYBACK | RECORDER

section \<open>Calls\<close>

text \<open>The stream called: the one of the client, its copy for inner capture, its copy on a second sink.\<close>

datatype stream_id = MainStream | DupStream | DualStream

datatype stream_op =
  StreamStart | StreamPause bool | StreamFlush | StreamDrain | StreamStop
| DequeueBuffer u64 | EnqueueBuffer "u8 list option"
| GetWritableSize | GetSpanSizePerFrame | GetByteSizePerFrame | GetStreamIndex
| GetStreamFramesWritten | GetStreamFramesRead | GetCurrentTimeStamp | GetCurrentPosition | GetLatency
| SetRate s32 | GetLowPowerVolume | SetAudioEffectMode int | GetAudioEffectMode
| SetPrivacyType s32 | GetPrivacyType | SetOffloadMode s32 bool | UnsetOffloadMode
| GetOffloadApproximatelyCacheTime | OffloadSetVolume f32 | UpdateSpatializationState bool bool
| UpdateMaxLength u32 | SetClientVolume f32

datatype manager_op =
  CreateRender | StartRender u32 | PauseRender u32 | StopRender u32 | ReleaseRender u32
| TriggerStartIfNecessary | GetStreamCount | CreateCapturer | ReleaseCapturer u32

datatype service_op =
  RemoveRenderer u32 | RemoveCapturer u32 | UpdateMuteControlSet u32 bool
| SetPlaybackCapturerFilterInfo u32 AudioPlaybackCaptureConfig | RemovePlaybackCapturerFilterInfo u32
| SetSupportStreamUsage "enum32 list" | SetInnerCapturerState bool

datatype outside_call =
  OnStream stream_id stream_op
| OnManager ManagerType manager_op
| OnService service_op
| OnOperationHandled Operation s64
| FutexWake
| StandByEvent bool
| ReportDataToResSched bool
| AskProcessDeviceInfo
| NotifyPrivacy u32 bool

record stream_reply =
  rp_code :: err
  rp_made :: bool
  rp_amount :: u64
  rp_second :: u64
  rp_level :: f32
  rp_mode :: int
  rp_block :: "u8 list option"

record outside =
  now :: "nat \<Rightarrow> s64"
  nows :: nat
  wall :: "nat \<Rightarrow> int"
  walls :: nat
  answers :: "nat \<Rightarrow> stream_reply"
  asked :: "outside_call list"

definition tell :: "outside_call \<Rightarrow> outside \<Rightarrow> outside" where
  "tell c x = x\<lparr>asked := asked x @ [c]\<rparr>"

definition ask :: "outside_call \<Rightarrow> outside \<Rightarrow> stream_reply \<times> outside" where
  "ask c x = (answers x (length (asked x)), tell c x)"

definition cur_nano :: "outside \<Rightarrow> s64 \<times> outside" where
  "cur_nano x = (now x (nows x), x\<lparr>nows := Suc (nows x)\<rparr>)"

definition cur_wall :: "outside \<Rightarrow> int \<times> outside" where
  "cur_wall x = (wall x (walls x), x\<lparr>walls := Suc (walls x)\<rparr>)"

lemma asked_tell [simp]: "asked (tell c x) = asked x @ [c]"
  by (simp add: tell_def)

lemma asked_ask [simp]: "asked (snd (ask c x)) = asked x @ [c]"
  by (simp add: ask_def)

lemma asked_clocks [simp]: "asked (snd (cur_nano x)) = asked x" "asked (snd (cur_wall x)) = asked x"
  by (simp_all add: cur_nano_def cur_wall_def)

section \<open>Enumerators on the wire\<close>

definition DEV_WIRED_HEADSET :: enum32 where [cfg_defs]: "DEV_WIRED_HEADSET = 3"
definition DEV_WIRED_HEADPHONES :: enum32 where [cfg_defs]: "DEV_WIRED_HEADPHONES = 4"
definition DEV_BLUETOOTH_A2DP :: enum32 where [cfg_defs]: "DEV_BLUETOOTH_A2DP = 8"
definition DEV_USB_HEADSET :: enum32 where [cfg_defs]: "DEV_USB_HEADSET = 22"
definition DEV_USB_ARM_HEADSET :: enum32 where [cfg_defs]: "DEV_USB_ARM_HEADSET = 1001"

definition source_word :: "SourceType \<Rightarrow> enum32" where
  "source_word s = word_of_int (source_code s)"

section \<open>Float arithmetic\<close>

fun f32_neg :: "f32 \<Rightarrow> f32" where
  "f32_neg FNaN = FNaN"
| "f32_neg FNegInf = FPosInf"
| "f32_neg FPosInf = FNegInf"
| "f32_neg (FFin x) = FFin (- x)"

definition f32_infinity :: "bool \<Rightarrow> f32" where
  "f32_infinity positive = (if positive then FPosInf else FNegInf)"

fun f32_mult :: "f32 \<Rightarrow> f32 \<Rightarrow> f32" where
  "f32_mult FNaN y = FNaN"
| "f32_mult x FNaN = FNaN"
| "f32_mult (FFin x) (FFin y) = f32_round (x * y)"
| "f32_mult (FFin x) y = (if x = 0 then FNaN else f32_infinity ((0 < x) = (y = FPosInf)))"
| "f32_mult x (FFin y) = (if y = 0 then FNaN else f32_infinity ((0 < y) = (x = FPosInf)))"
| "f32_mult x y = f32_infinity (x = y)"

fun f32_plus :: "f32 \<Rightarrow> f32 \<Rightarrow> f32" where
  "f32_plus (FFin x) (FFin y) = f32_round (x + y)"
| "f32_plus FNaN y = FNaN"
| "f32_plus x FNaN = FNaN"
| "f32_plus (FFin x) y = y"
| "f32_plus x (FFin y) = x"
| "f32_plus x y = (if x = y then x else FNaN)"

fun f32_abs :: "f32 \<Rightarrow> f32" where
  "f32_abs FNegInf = FPosInf"
| "f32_abs (FFin x) = FFin \<bar>x\<bar>"
| "f32_abs v = v"

definition IsVolumeSame :: "f32 \<Rightarrow> f32 \<Rightarrow> f32 \<Rightarrow> bool" where
  "IsVolumeSame a b epsilon = f32_le (f32_abs (f32_plus a (f32_neg b))) (f32_abs epsilon)"

definition AUDIO_VOLOMUE_EPSILON :: f32 where "AUDIO_VOLOMUE_EPSILON = f32_round (1 / 10000)"

section \<open>Bytes of the shared buffer\<close>

definition span_bytes :: "BufferDesc \<Rightarrow> u8 list \<Rightarrow> u8 list" where
  "span_bytes d mem = slice (unat (bufOffset d)) (unat (bufLength d)) mem"

definition put_span :: "BufferDesc \<Rightarrow> u8 list \<Rightarrow> u8 list \<Rightarrow> u8 list" where
  "put_span d bs mem = overwrite mem (unat (bufOffset d)) bs"

definition clear_span :: "BufferDesc \<Rightarrow> u8 list \<Rightarrow> u8 list" where
  "clear_span d mem = put_span d (replicate (unat (bufLength d)) 0) mem"

lemma length_span_bytes:
  "unat (bufOffset d) + unat (bufLength d) \<le> length mem \<Longrightarrow> length (span_bytes d mem) = unat (bufLength d)"
  by (simp add: span_bytes_def slice_def)

lemma length_put_span:
  "unat (bufOffset d) + length bs \<le> length mem \<Longrightarrow> length (put_span d bs mem) = length mem"
  by (simp add: put_span_def overwrite_def)

lemma put_span_same:
  "unat (bufOffset d) + length bs \<le> length mem \<Longrightarrow>
     slice (unat (bufOffset d)) (length bs) (put_span d bs mem) = bs"
  by (simp add: put_span_def overwrite_def slice_def)

lemma put_span_twice:
  assumes "length as = length bs" and "unat (bufOffset d) + length bs \<le> length mem"
  shows "put_span d as (put_span d bs mem) = put_span d as mem"
  using assms by (simp add: put_span_def overwrite_def)

lemma nth_put_span:
  assumes "unat (bufOffset d) + length bs \<le> length mem" and "k < length mem"
  shows "put_span d bs mem ! k =
    (if unat (bufOffset d) \<le> k \<and> k < unat (bufOffset d) + length bs then bs ! (k - unat (bufOffset d)) else mem ! k)"
  using assms by (auto simp: put_span_def overwrite_def nth_append min_def)

text \<open>The bytes a \<open>Process\<close> of the volume tools leaves in the span.\<close>

definition scale_span :: "float_repr \<Rightarrow> sample_format \<Rightarrow> ChannelVolumes \<Rightarrow> u8 list \<Rightarrow> u8 list" where
  "scale_span R format vols bs = (case snd (Process R (Some bs) format vols) of None \<Rightarrow> bs | Some bs' \<Rightarrow> bs')"

end
