(* ===== verification/RendererInServer.thy ===== *)
theory RendererInServer
  imports NormalStream
begin

text \<open>
  A normal playback stream on the server's side (\<open>renderer_in_server.cpp\<close>): it takes the spans its
  client writes, applies the client's volumes, and hands them to its PulseAudio or direct stream, to
  the copy for inner capture and to the copy on a second sink. The client's requests and the
  callbacks of the stream drive its state, \<open>r_status\<close>.

  The memory of a buffer that was created is mapped, so a span handed out is never null and the
  check for it has no branch.

  Not modelled: traces, dump files, the media monitor's copy of the data, the dump text and the
  destructor. \<open>RestoreSession\<close> and \<open>OnDataLinkConnectionUpdate\<close> tell the listener, nothing more.
\<close>

section \<open>State\<close>

record RendererInServer =
  r_config :: AudioProcessConfig
  r_stream :: bool
  r_streamIndex :: u32
  r_status :: IStatus
  r_offloadEnable :: bool
  r_standByEnable :: bool
  r_muteFlag :: bool
  r_isInnerCapEnabled :: bool
  r_dupStreamIndex :: u32
  r_dupStream :: bool
  r_isDualToneEnabled :: bool
  r_dualToneStreamIndex :: u32
  r_dualToneStream :: bool
  r_listener :: bool
  r_totalSizeInFrame :: u64
  r_spanSizeInFrame :: u64
  r_spanSizeInByte :: u64
  r_byteSizePerFrame :: u64
  r_isBufferConfiged :: bool
  r_isInited :: bool
  r_buffer :: "OHAudioBuffer option"
  r_mem :: "u8 list"
  r_needForceWrite :: u64
  r_afterDrain :: bool
  r_lowPowerVolume :: f32
  r_isNeedFade :: bool
  r_oldAppliedVolume :: f32
  r_startedTime :: s64
  r_underrunCount :: u32
  r_standByCounter :: u32
  r_lastWriteTime :: s64
  r_resetTime :: bool
  r_resetTimestamp :: u64
  r_managerType :: ManagerType
  r_fadeoutFlag :: int
  r_startMuteTime :: int
  r_silentState :: int
  r_silentModeAndMixWithOthers :: bool
  r_effectModeWhenDual :: int

definition MOCK_LATENCY :: s64 where [cfg_defs]: "MOCK_LATENCY = 45000000"
definition START_MIN_COST :: s64 where [cfg_defs]: "START_MIN_COST = 80000000"
definition NO_FADING :: int where [cfg_defs]: "NO_FADING = 0"
definition DO_FADINGOUT :: int where [cfg_defs]: "DO_FADINGOUT = 1"
definition FADING_OUT_DONE :: int where [cfg_defs]: "FADING_OUT_DONE = 2"
definition ONE_MINUTE :: int where [cfg_defs]: "ONE_MINUTE = 60"
definition MEDIA_UID :: s32 where [cfg_defs]: "MEDIA_UID = 1013"
definition EFFECT_NONE :: int where [cfg_defs]: "EFFECT_NONE = 0"
definition EFFECT_DEFAULT :: int where [cfg_defs]: "EFFECT_DEFAULT = 1"
definition ERR_RENDERER_IN_SERVER_UNDERRUN :: err where [err_defs]:
  "ERR_RENDERER_IN_SERVER_UNDERRUN = BASE_AUDIO_ERR_OFFSET - 27"

definition RendererInServer_ctor :: "AudioProcessConfig \<Rightarrow> bool \<Rightarrow> RendererInServer" where
  "RendererInServer_ctor cfg listener =
     \<lparr>r_config = cfg, r_stream = False, r_streamIndex = - 1, r_status = I_STATUS_IDLE,
      r_offloadEnable = False, r_standByEnable = False, r_muteFlag = False,
      r_isInnerCapEnabled = False, r_dupStreamIndex = 0, r_dupStream = False,
      r_isDualToneEnabled = False, r_dualToneStreamIndex = 0, r_dualToneStream = False,
      r_listener = listener, r_totalSizeInFrame = 0, r_spanSizeInFrame = 0, r_spanSizeInByte = 0,
      r_byteSizePerFrame = 0, r_isBufferConfiged = False, r_isInited = False, r_buffer = None,
      r_mem = [], r_needForceWrite = 0, r_afterDrain = False, r_lowPowerVolume = FFin 1,
      r_isNeedFade = (callerUid cfg = MEDIA_UID),
      r_oldAppliedVolume = (if callerUid cfg = MEDIA_UID then MIN_FLOAT_VOLUME else MAX_FLOAT_VOLUME),
      r_startedTime = 0, r_underrunCount = 0, r_standByCounter = 0, r_lastWriteTime = 0,
      r_resetTime = False, r_resetTimestamp = 0, r_managerType = PLAYBACK, r_fadeoutFlag = 0,
      r_startMuteTime = 0, r_silentState = 1, r_silentModeAndMixWithOthers = False,
      r_effectModeWhenDual = EFFECT_DEFAULT\<rparr>"

text \<open>A step follows the stream or the buffer pointer.\<close>

definition with_stream :: "RendererInServer \<Rightarrow> 'a exec \<Rightarrow> 'a exec" where
  "with_stream r m = (if r_stream r then m else Inl NullDeref)"

definition with_buffer :: "RendererInServer \<Rightarrow> (OHAudioBuffer \<Rightarrow> 'a exec) \<Rightarrow> 'a exec" where
  "with_buffer r m = (case r_buffer r of None \<Rightarrow> Inl NullDeref | Some B \<Rightarrow> m B)"

abbreviation put_status :: "StreamStatus \<Rightarrow> OHAudioBuffer \<Rightarrow> RendererInServer \<Rightarrow> RendererInServer" where
  "put_status s B r \<equiv> r\<lparr>r_buffer := Some (set_stream_status B s)\<rparr>"

text \<open>The copies take part where they are enabled and present.\<close>

definition tell_dup :: "stream_op \<Rightarrow> RendererInServer \<Rightarrow> outside \<Rightarrow> outside" where
  "tell_dup c r x = (if r_isInnerCapEnabled r \<and> r_dupStream r then tell (OnStream DupStream c) x else x)"

definition tell_dual :: "stream_op \<Rightarrow> RendererInServer \<Rightarrow> outside \<Rightarrow> outside" where
  "tell_dual c r x = (if r_isDualToneEnabled r \<and> r_dualToneStream r then tell (OnStream DualStream c) x else x)"

section \<open>Construction\<close>

definition Renderer_InitBufferStatus :: "OHAudioBuffer option \<Rightarrow> err \<times> OHAudioBuffer option" where
  "Renderer_InitBufferStatus b =
     (case b of None \<Rightarrow> (ERR_ILLEGAL_STATE, None)
      | Some B \<Rightarrow> (SUCCESS, Some (reset_spans SPAN_READ_DONE B)))"

definition Renderer_ConfigServerBuffer ::
    "os_env \<Rightarrow> RendererInServer \<Rightarrow> outside \<Rightarrow> (err \<times> RendererInServer \<times> outside) exec" where
  "Renderer_ConfigServerBuffer os r x =
     (if r_buffer r \<noteq> None then Inr (SUCCESS, r, x)
      else with_stream r
        (case ask (OnStream MainStream GetSpanSizePerFrame) x of (a1, x1) \<Rightarrow>
         case ask (OnStream MainStream GetByteSizePerFrame) x1 of (a2, x2) \<Rightarrow>
         let r1 = r\<lparr>r_spanSizeInFrame := rp_amount a1, r_totalSizeInFrame := rp_amount a1 * 4,
                    r_byteSizePerFrame := rp_amount a2\<rparr>
         in if r_totalSizeInFrame r1 = 0 \<or> r_spanSizeInFrame r1 = 0 \<or>
               r_totalSizeInFrame r1 mod r_spanSizeInFrame r1 \<noteq> 0
            then Inr (ERR_INVALID_PARAM, r1, x2)
            else
              let r2 = r1\<lparr>r_spanSizeInByte := r_spanSizeInFrame r1 * r_byteSizePerFrame r1\<rparr>
              in if r_spanSizeInByte r2 = 0 then Inr (ERR_OPERATION_FAILED, r2, x2)
                 else exec_bind (CreateFromLocal os (ucast (r_totalSizeInFrame r2)) (ucast (r_spanSizeInFrame r2))
                                   (ucast (r_byteSizePerFrame r2))) (\<lambda>made. case made of
                   None \<Rightarrow> Inr (ERR_OPERATION_FAILED, r2, x2)
                 | Some B \<Rightarrow>
                   Inr (SUCCESS,
                     r2\<lparr>r_buffer := snd (Renderer_InitBufferStatus (Some B)),
                        r_mem := replicate (unat (GetDataSize B)) 0,
                        r_isBufferConfiged := True, r_isInited := True\<rparr>, x2))))"

definition IsHighResolution :: "RendererInServer \<Rightarrow> outside \<Rightarrow> bool \<times> outside" where
  "IsHighResolution r x =
     (let c = r_config r in
      if pc_deviceType c \<noteq> DEV_WIRED_HEADSET \<and> pc_deviceType c \<noteq> DEV_USB_HEADSET then (False, x)
      else
        case (if pc_deviceType c = DEV_USB_HEADSET then map_prod rp_made id (ask AskProcessDeviceInfo x)
              else (True, x)) of (known, x1) \<Rightarrow>
        if \<not> known then (False, x1)
        else if pc_streamType c \<noteq> stream_word STREAM_MUSIC \<or> si_samplingRate (streamInfo c) < 48000 \<or>
                si_format (streamInfo c) < SAMPLE_S24LE \<or> ri_pipeType (rendererInfo c) \<noteq> 13
        then (False, x1)
        else if si_samplingRate (streamInfo c) > 192000 then (False, x1)
        else case ask (OnManager DIRECT_PLAYBACK GetStreamCount) x1 of (a, x2) \<Rightarrow>
          (\<not> rp_code a > 0, x2))"

definition CreateRender_on :: "ManagerType \<Rightarrow> RendererInServer \<Rightarrow> outside \<Rightarrow> err \<times> RendererInServer \<times> outside" where
  "CreateRender_on t r x =
     (case ask (OnManager t CreateRender) x of (a, x1) \<Rightarrow> (rp_code a, r\<lparr>r_stream := rp_made a\<rparr>, x1))"

definition choose_manager :: "RendererInServer \<Rightarrow> outside \<Rightarrow> RendererInServer \<times> outside" where
  "choose_manager r x =
     (case IsHighResolution r x of (high, x1) \<Rightarrow>
      let r1 = (if high then r\<lparr>r_managerType := DIRECT_PLAYBACK\<rparr> else r) in
      if ri_rendererFlags (rendererInfo (r_config r1)) = 4
      then case ask (OnManager VOIP_PLAYBACK GetStreamCount) x1 of (a, x2) \<Rightarrow>
        (if rp_code a \<le> 0 then r1\<lparr>r_managerType := VOIP_PLAYBACK\<rparr> else r1, x2)
      else (r1, x1))"

definition Renderer_Init ::
    "os_env \<Rightarrow> RendererInServer \<Rightarrow> outside \<Rightarrow> (err \<times> RendererInServer \<times> outside) exec" where
  "Renderer_Init os r x =
     (case choose_manager r x of (r1, x1) \<Rightarrow>
      case CreateRender_on (r_managerType r1) r1 x1 of (ret, r2, x2) \<Rightarrow>
      case (if ret \<noteq> SUCCESS \<and> (r_managerType r2 = DIRECT_PLAYBACK \<or> r_managerType r2 = VOIP_PLAYBACK)
            then CreateRender_on PLAYBACK (r2\<lparr>r_managerType := PLAYBACK\<rparr>) x2
            else (ret, r2, x2)) of (ret3, r3, x3) \<Rightarrow>
      if \<not> (ret3 = SUCCESS \<and> r_stream r3) then Inr (ERR_OPERATION_FAILED, r3, x3)
      else case ask (OnStream MainStream GetStreamIndex) x3 of (a, x4) \<Rightarrow>
        exec_bind (Renderer_ConfigServerBuffer os (r3\<lparr>r_streamIndex := ucast (rp_amount a)\<rparr>) x4)
          (\<lambda>(ret5, r5, x5). Inr (if ret5 \<noteq> SUCCESS then ERR_OPERATION_FAILED else SUCCESS, r5, x5)))"

section \<open>A span on its way\<close>

definition frame_format :: "RendererInServer \<Rightarrow> sample_format" where
  "frame_format r = si_format (streamInfo (r_config r))"

definition frame_channels :: "RendererInServer \<Rightarrow> nat" where
  "frame_channels r = unat (si_channels (streamInfo (r_config r)))"

text \<open>The volume is the product of the factors that differ from one.\<close>

definition times_unless_one :: "f32 \<Rightarrow> f32 \<Rightarrow> f32" where
  "times_unless_one v factor =
     (if \<not> IsVolumeSame MAX_FLOAT_VOLUME factor AUDIO_VOLOMUE_EPSILON then f32_mult v factor else v)"

definition apply_volume :: "RendererInServer \<Rightarrow> OHAudioBuffer \<Rightarrow> f32" where
  "apply_volume r B =
     (let v = (if r_muteFlag r then FFin 0 else GetStreamVolume B);
          v1 = times_unless_one v (r_lowPowerVolume r);
          v2 = times_unless_one v1 (GetDuckFactor B);
          v3 = times_unless_one v2 (GetMuteFactor B)
      in if r_silentModeAndMixWithOthers r then FFin 0 else v3)"

definition VolumeHandle :: "float_repr \<Rightarrow> u8 list \<Rightarrow> RendererInServer \<Rightarrow> u8 list \<times> RendererInServer" where
  "VolumeHandle R bs r =
     (case r_buffer r of None \<Rightarrow> (bs, r)
      | Some B \<Rightarrow>
        let v = apply_volume r B
        in if \<not> IsVolumeSame MAX_FLOAT_VOLUME v AUDIO_VOLOMUE_EPSILON \<or>
              \<not> IsVolumeSame (r_oldAppliedVolume r) v AUDIO_VOLOMUE_EPSILON
           then (scale_span R (frame_format r)
                   (GetChannelVolumes_float (frame_channels r) (r_oldAppliedVolume r) v) bs,
                 r\<lparr>r_oldAppliedVolume := v\<rparr>)
           else (bs, r))"

definition DoFadingOut :: "float_repr \<Rightarrow> u8 list \<Rightarrow> RendererInServer \<Rightarrow> u8 list \<times> RendererInServer" where
  "DoFadingOut R bs r =
     (if r_fadeoutFlag r = DO_FADINGOUT
      then (scale_span R (frame_format r) (GetChannelVolumes_float (frame_channels r) (FFin 1) (FFin 0)) bs,
            r\<lparr>r_fadeoutFlag := FADING_OUT_DONE\<rparr>)
      else (bs, r))"

text \<open>A stream whose spans have begun with a zero byte for a minute is reported as silent.\<close>

definition WriteMuteDataSysEvent :: "u8 list \<Rightarrow> RendererInServer \<Rightarrow> outside \<Rightarrow> (RendererInServer \<times> outside) exec" where
  "WriteMuteDataSysEvent bs r x =
     (if r_silentModeAndMixWithOthers r then Inr (r, x)
      else case bs of [] \<Rightarrow> Inl UncheckedAccess
      | b # _ \<Rightarrow>
        if b = 0
        then
          case (if r_startMuteTime r = 0
                then case cur_wall x of (t, x1) \<Rightarrow> (r\<lparr>r_startMuteTime := t\<rparr>, x1) else (r, x)) of
            (r1, x1) \<Rightarrow>
          case cur_wall x1 of (t, x2) \<Rightarrow>
            if t - r_startMuteTime r1 \<ge> ONE_MINUTE \<and> r_silentState r1 = 1
            then Inr (r1\<lparr>r_silentState := 0\<rparr>, tell (ReportDataToResSched True) x2)
            else Inr (r1, x2)
        else
          let r1 = r\<lparr>r_startMuteTime := 0\<rparr>
          in if r_silentState r1 = 0
             then Inr (r1\<lparr>r_silentState := 1\<rparr>, tell (ReportDataToResSched False) x)
             else Inr (r1, x))"

definition OtherStreamEnqueue :: "u8 list \<Rightarrow> RendererInServer \<Rightarrow> outside \<Rightarrow> outside" where
  "OtherStreamEnqueue bs r x = tell_dual (EnqueueBuffer (Some bs)) r (tell_dup (EnqueueBuffer (Some bs)) r x)"

section \<open>Writing\<close>

text \<open>The fade-out goes on the last span there is, unless the stream is ultrasonic.\<close>

definition shape_span :: "float_repr \<Rightarrow> bool \<Rightarrow> u8 list \<Rightarrow> RendererInServer \<Rightarrow> u8 list \<times> RendererInServer" where
  "shape_span R lastSpan bs r =
     (case VolumeHandle R bs r of (bs1, r1) \<Rightarrow>
      if pc_streamType (r_config r1) \<noteq> stream_word STREAM_ULTRASONIC \<and> lastSpan
      then DoFadingOut R bs1 r1 else (bs1, r1))"

definition write_span ::
    "float_repr \<Rightarrow> BufferDesc \<Rightarrow> u64 \<Rightarrow> bool \<Rightarrow> RendererInServer \<Rightarrow> outside \<Rightarrow> (RendererInServer \<times> outside) exec" where
  "write_span R d nextReadFrame lastSpan r x =
     (case shape_span R lastSpan (span_bytes d (r_mem r)) r of (bs, r1) \<Rightarrow>
      let x1 = OtherStreamEnqueue bs r1 (tell (OnStream MainStream (EnqueueBuffer (Some bs))) x)
      in exec_bind (WriteMuteDataSysEvent bs r1 x1) (\<lambda>(r2, x2).
           let r3 = r2\<lparr>r_mem := clear_span d (put_span d bs (r_mem r2))\<rparr>
           in with_buffer r3 (\<lambda>B. exec_bind (SetCurReadFrame B nextReadFrame)
                (\<lambda>(_, B'). Inr (r3\<lparr>r_buffer := Some B'\<rparr>, x2)))))"

definition WriteData :: "float_repr \<Rightarrow> RendererInServer \<Rightarrow> outside \<Rightarrow> (err \<times> RendererInServer \<times> outside) exec" where
  "WriteData R r x =
     with_buffer r (\<lambda>B.
       let readPos = GetCurReadFrame B; writePos = GetCurWriteFrame B;
           nextPos = readPos + r_spanSizeInFrame r
       in if nextPos > writePos then Inr (ERR_OPERATION_FAILED, r, tell FutexWake x)
          else exec_bind (GetReadbuffer B readPos) (\<lambda>res.
            exec_bind (case res of
                Inl _ \<Rightarrow> Inr (r, x)
              | Inr d \<Rightarrow> with_stream r (write_span R d nextPos (nextPos = writePos) r x))
              (\<lambda>(r1, x1). case cur_nano (tell FutexWake x1) of (t, x2) \<Rightarrow>
                Inr (SUCCESS, r1\<lparr>r_standByCounter := 0, r_lastWriteTime := t\<rparr>, x2))))"

definition WriteEmptyData :: "RendererInServer \<Rightarrow> outside \<Rightarrow> outside exec" where
  "WriteEmptyData r x =
     with_stream r
       (case ask (OnStream MainStream (DequeueBuffer (r_spanSizeInByte r))) x of (a, x1) \<Rightarrow>
        Inr (tell (OnStream MainStream (EnqueueBuffer (map_option (map (\<lambda>_. 0)) (rp_block a)))) x1))"

text \<open>As many spans as the stream asked for, each attempted whatever became of the one before.\<close>

fun write_times :: "float_repr \<Rightarrow> nat \<Rightarrow> bool \<Rightarrow> RendererInServer \<Rightarrow> outside \<Rightarrow>
    (bool \<times> RendererInServer \<times> outside) exec" where
  "write_times R 0 mayForce r x = Inr (mayForce, r, x)"
| "write_times R (Suc n) mayForce r x =
     exec_bind (WriteData R r x) (\<lambda>(ret, r1, x1). write_times R n (ret \<noteq> SUCCESS \<or> mayForce) r1 x1)"

text \<open>\<open>writable\<close>: \<open>writeLock_.try_lock()\<close> succeeds.\<close>

definition OnWriteData ::
    "float_repr \<Rightarrow> bool \<Rightarrow> u64 \<Rightarrow> RendererInServer \<Rightarrow> outside \<Rightarrow> (err \<times> RendererInServer \<times> outside) exec" where
  "OnWriteData R writable len r x =
     exec_bind
       (if writable
        then if r_spanSizeInByte r = 0 then Inl DivByZero
             else write_times R (unat (len div r_spanSizeInByte r)) False r x
        else Inr (True, r, x))
       (\<lambda>(mayForce, r1, x1). with_stream r1
          (case ask (OnStream MainStream GetWritableSize) x1 of (a, x2) \<Rightarrow>
           exec_bind
             (if mayForce \<and> rp_amount a \<ge> r_spanSizeInByte r1
              then if r_spanSizeInByte r1 = 0 then Inl DivByZero
                   else let n = rp_amount a div r_spanSizeInByte r1
                        in Inr (r1\<lparr>r_needForceWrite := (if n > 3 then 0 else 3 - n)\<rparr>)
              else Inr r1)
             (\<lambda>r2. with_buffer r2 (\<lambda>B.
                case cur_nano x2 of (t, x3) \<Rightarrow>
                exec_bind (SetHandleInfo B (GetCurReadFrame B) (t + MOCK_LATENCY)) (\<lambda>B'.
                  Inr (if mayForce then ERR_RENDERER_IN_SERVER_UNDERRUN else SUCCESS,
                       r2\<lparr>r_buffer := Some B'\<rparr>, x3))))))"

text \<open>\<open>lockedFirst\<close> and \<open>lockedSecond\<close>: the results of the two \<open>try_lock\<close>.\<close>

definition force_write ::
    "float_repr \<Rightarrow> bool \<Rightarrow> RendererInServer \<Rightarrow> outside \<Rightarrow> (RendererInServer \<times> outside) exec" where
  "force_write R lockedFirst r x =
     (if r_needForceWrite r < 3
      then with_stream r
        (case ask (OnStream MainStream GetWritableSize) x of (a, x1) \<Rightarrow>
         if rp_amount a \<ge> r_spanSizeInByte r \<and> lockedFirst
         then exec_bind (WriteData R r x1) (\<lambda>(_, r1, x2).
           Inr (r1\<lparr>r_needForceWrite := r_needForceWrite r1 + 1\<rparr>, x2))
         else Inr (r, x1))
      else Inr (r, x))"

definition UpdateWriteIndex ::
    "float_repr \<Rightarrow> bool \<Rightarrow> bool \<Rightarrow> RendererInServer \<Rightarrow> outside \<Rightarrow> (err \<times> RendererInServer \<times> outside) exec" where
  "UpdateWriteIndex R lockedFirst lockedSecond r x =
     (let x0 = (if r_managerType r \<noteq> PLAYBACK then tell (OnManager (r_managerType r) TriggerStartIfNecessary) x else x)
      in exec_bind (force_write R lockedFirst r x0) (\<lambda>(r1, x1).
           if r_afterDrain r1 \<and> lockedSecond
           then exec_bind (WriteData R (r1\<lparr>r_afterDrain := False\<rparr>) x1) (\<lambda>(_, r2, x2). Inr (SUCCESS, r2, x2))
           else Inr (SUCCESS, r1, x1)))"

end
