(* ===== verification/RendererControl.thy ===== *)
theory RendererControl
  imports RendererInServer
begin

text \<open>
  What drives a normal playback stream (\<open>renderer_in_server.cpp\<close>): the callbacks of its stream, the
  requests of its client, and the two copies.

  \<open>AudioService\<close> is told of a release and of a mute by a noted call.
\<close>

section \<open>Callbacks\<close>

definition HandleOperationFlushed :: "RendererInServer \<Rightarrow> RendererInServer" where
  "HandleOperationFlushed r =
     (case r_status r of
        I_STATUS_FLUSHING_WHEN_STARTED \<Rightarrow> r\<lparr>r_status := I_STATUS_STARTED\<rparr>
      | I_STATUS_FLUSHING_WHEN_PAUSED \<Rightarrow> r\<lparr>r_status := I_STATUS_PAUSED\<rparr>
      | I_STATUS_FLUSHING_WHEN_STOPPED \<Rightarrow> r\<lparr>r_status := I_STATUS_STOPPED\<rparr>
      | _ \<Rightarrow> r)"

definition OnStatusUpdateExt :: "RendererInServer \<Rightarrow> outside \<Rightarrow> RendererInServer \<times> outside" where
  "OnStatusUpdateExt r x =
     (case (if r_status r = I_STATUS_DRAINING
            then (r\<lparr>r_status := I_STATUS_STARTED\<rparr>, tell (OnOperationHandled DRAIN_STREAM 0) x) else (r, x)) of
        (r1, x1) \<Rightarrow> (r1\<lparr>r_afterDrain := True\<rparr>, x1))"

definition ShouldEnableStandBy :: "RendererInServer \<Rightarrow> outside \<Rightarrow> bool \<times> outside" where
  "ShouldEnableStandBy r x =
     (case cur_nano x of (t, x1) \<Rightarrow>
      let maxStandByCounter = (if r_offloadEnable r then 400 else 50);
          timeLimit = (if r_offloadEnable r then 8 * AUDIO_NS_PER_SECOND else 1000000000)
      in (r_standByCounter r \<ge> maxStandByCounter \<and> timeLimit \<le>s t - r_lastWriteTime r, x1))"

definition StandByCheck :: "RendererInServer \<Rightarrow> outside \<Rightarrow> (RendererInServer \<times> outside) exec" where
  "StandByCheck r x =
     (if r_managerType r = DIRECT_PLAYBACK \<or> r_managerType r = VOIP_PLAYBACK then Inr (r, x)
      else if r_standByEnable r then Inr (r, x)
      else
        let r1 = r\<lparr>r_standByCounter := r_standByCounter r + 1\<rparr> in
        case ShouldEnableStandBy r1 x of (enable, x1) \<Rightarrow>
          if \<not> enable then Inr (r1, x1)
          else
            let r2 = r1\<lparr>r_standByEnable := True\<rparr>
            in if r_managerType r2 = PLAYBACK
               then with_stream r2 (Inr (r2, tell (OnStream MainStream (StreamPause True)) x1))
               else Inr (r2, x1))"

definition count_underrun :: "RendererInServer \<Rightarrow> outside \<Rightarrow> (RendererInServer \<times> outside) exec" where
  "count_underrun r x =
     (case cur_nano x of (t, x1) \<Rightarrow>
      if START_MIN_COST <s t - r_startedTime r
      then let r1 = r\<lparr>r_underrunCount := r_underrunCount r + 1\<rparr>
           in with_buffer r1 (\<lambda>B. Inr (r1\<lparr>r_buffer := Some (snd (SetUnderrunCount B (r_underrunCount r1)))\<rparr>, x1))
      else Inr (r, x1))"

definition notify_listener :: "Operation \<Rightarrow> s64 \<Rightarrow> RendererInServer \<Rightarrow> outside \<Rightarrow> outside exec" where
  "notify_listener c v r x = (if r_listener r then Inr (tell (OnOperationHandled c v) x) else Inl NullDeref)"

definition OnStatusUpdateSub ::
    "float_repr \<Rightarrow> IOperation \<Rightarrow> RendererInServer \<Rightarrow> outside \<Rightarrow> (RendererInServer \<times> outside) exec" where
  "OnStatusUpdateSub R c r x =
     (case c of
        OPERATION_RELEASED \<Rightarrow>
          exec_bind (notify_listener RELEASE_STREAM 0 r x) (\<lambda>x1. Inr (r\<lparr>r_status := I_STATUS_RELEASED\<rparr>, x1))
      | OPERATION_UNDERRUN \<Rightarrow>
          with_buffer r (\<lambda>B. exec_bind (GetAvailableDataFrames B) (\<lambda>n.
            if n = sint (ucast (4 * r_spanSizeInFrame r) :: s32)
            then Inr (r\<lparr>r_needForceWrite := 0\<rparr>, x)
            else exec_bind (WriteData R r x) (\<lambda>(_, r1, x1). Inr (r1, x1))))
      | OPERATION_UNDERFLOW \<Rightarrow> exec_bind (count_underrun r x) (\<lambda>(r1, x1). StandByCheck r1 x1)
      | OPERATION_SET_OFFLOAD_ENABLE \<Rightarrow>
          exec_bind (notify_listener SET_OFFLOAD_ENABLE 1 r x) (\<lambda>x1. Inr (r\<lparr>r_offloadEnable := True\<rparr>, x1))
      | OPERATION_UNSET_OFFLOAD_ENABLE \<Rightarrow>
          exec_bind (notify_listener SET_OFFLOAD_ENABLE 0 r x) (\<lambda>x1. Inr (r\<lparr>r_offloadEnable := False\<rparr>, x1))
      | _ \<Rightarrow> Inr (r\<lparr>r_status := I_STATUS_INVALID\<rparr>, x))"

definition OnStatusUpdate ::
    "float_repr \<Rightarrow> IOperation \<Rightarrow> RendererInServer \<Rightarrow> outside \<Rightarrow> (RendererInServer \<times> outside) exec" where
  "OnStatusUpdate R c r x =
     (if c = OPERATION_RELEASED then Inr (r, x)
      else if \<not> r_listener r then Inr (r, x)
      else with_buffer r (\<lambda>B.
        if GetStreamStatus B = None then Inr (r, x)
        else case c of
          OPERATION_STARTED \<Rightarrow>
            (case (if r_standByEnable r
                   then (put_status STREAM_RUNNING B (r\<lparr>r_standByEnable := False\<rparr>),
                         tell (StandByEvent False) (tell FutexWake x))
                   else (r, x)) of (r1, x1) \<Rightarrow>
             case cur_nano x1 of (t, x2) \<Rightarrow>
             Inr (r1\<lparr>r_status := I_STATUS_STARTED, r_startedTime := t\<rparr>,
                  tell (OnOperationHandled START_STREAM 0) x2))
        | OPERATION_PAUSED \<Rightarrow>
            if r_standByEnable r then Inr (put_status STREAM_STAND_BY B r, tell (StandByEvent True) x)
            else Inr (r\<lparr>r_status := I_STATUS_PAUSED\<rparr>, tell (OnOperationHandled PAUSE_STREAM 0) x)
        | OPERATION_STOPPED \<Rightarrow> Inr (r\<lparr>r_status := I_STATUS_STOPPED\<rparr>, tell (OnOperationHandled STOP_STREAM 0) x)
        | OPERATION_FLUSHED \<Rightarrow> Inr (HandleOperationFlushed r, tell (OnOperationHandled FLUSH_STREAM 0) x)
        | OPERATION_DRAINED \<Rightarrow> Inr (OnStatusUpdateExt r x)
        | _ \<Rightarrow> OnStatusUpdateSub R c r x))"

definition OnDataLinkConnectionUpdate :: "IOperation \<Rightarrow> RendererInServer \<Rightarrow> outside \<Rightarrow> outside" where
  "OnDataLinkConnectionUpdate c r x =
     (if \<not> r_listener r then x
      else case c of
        OPERATION_DATA_LINK_CONNECTING \<Rightarrow> tell (OnOperationHandled DATA_LINK_CONNECTING 0) x
      | OPERATION_DATA_LINK_CONNECTED \<Rightarrow> tell (OnOperationHandled DATA_LINK_CONNECTED 0) x
      | _ \<Rightarrow> x)"

definition Renderer_RestoreSession :: "RendererInServer \<Rightarrow> outside \<Rightarrow> outside" where
  "Renderer_RestoreSession r x = (if r_listener r then tell (OnOperationHandled RESTORE_SESSION 0) x else x)"

section \<open>The copies\<close>

text \<open>The copy for inner capture and the copy for a second sink, from \<open>InitDupStream\<close> and
  \<open>InitDualToneStream\<close>: a copy of a running stream is started at once.\<close>

definition Renderer_InitDupStream :: "RendererInServer \<Rightarrow> outside \<Rightarrow> err \<times> RendererInServer \<times> outside" where
  "Renderer_InitDupStream r x =
     (case ask (OnManager DUP_PLAYBACK CreateRender) x of (a, x1) \<Rightarrow>
      let r1 = r\<lparr>r_dupStream := rp_made a\<rparr> in
      if \<not> (rp_code a = SUCCESS \<and> r_dupStream r1) then (ERR_OPERATION_FAILED, r1, x1)
      else case ask (OnStream DupStream GetStreamIndex) x1 of (i, x2) \<Rightarrow>
        let r2 = r1\<lparr>r_dupStreamIndex := ucast (rp_amount i), r_isInnerCapEnabled := True\<rparr>
        in (SUCCESS, r2, if r_status r2 = I_STATUS_STARTED then tell (OnStream DupStream StreamStart) x2 else x2))"

definition EnableInnerCap :: "RendererInServer \<Rightarrow> outside \<Rightarrow> err \<times> RendererInServer \<times> outside" where
  "EnableInnerCap r x =
     (if r_isInnerCapEnabled r then (SUCCESS, r, x)
      else case Renderer_InitDupStream r x of (ret, r1, x1) \<Rightarrow>
        (if ret = SUCCESS then SUCCESS else ERR_OPERATION_FAILED, r1, x1))"

definition DisableInnerCap :: "RendererInServer \<Rightarrow> outside \<Rightarrow> err \<times> RendererInServer \<times> outside" where
  "DisableInnerCap r x =
     (if \<not> r_isInnerCapEnabled r then (ERR_INVALID_OPERATION, r, x)
      else (ERROR, r\<lparr>r_isInnerCapEnabled := False, r_dupStream := False\<rparr>,
            tell (OnManager DUP_PLAYBACK (ReleaseRender (r_dupStreamIndex r))) x))"

definition InitDualToneStream :: "RendererInServer \<Rightarrow> outside \<Rightarrow> (err \<times> RendererInServer \<times> outside) exec" where
  "InitDualToneStream r x =
     (case ask (OnManager DUAL_PLAYBACK CreateRender) x of (a, x1) \<Rightarrow>
      let r1 = r\<lparr>r_dualToneStream := rp_made a\<rparr> in
      if \<not> (rp_code a = SUCCESS \<and> r_dualToneStream r1) then Inr (ERR_OPERATION_FAILED, r1, x1)
      else case ask (OnStream DualStream GetStreamIndex) x1 of (i, x2) \<Rightarrow>
        let r2 = r1\<lparr>r_dualToneStreamIndex := ucast (rp_amount i), r_isDualToneEnabled := True\<rparr>
        in if r_status r2 = I_STATUS_STARTED
           then with_stream r2
             (case ask (OnStream MainStream GetAudioEffectMode) x2 of (m, x3) \<Rightarrow>
              Inr (SUCCESS, r2\<lparr>r_effectModeWhenDual := rp_mode m\<rparr>,
                tell (OnStream DualStream StreamStart) (tell (OnStream MainStream (SetAudioEffectMode EFFECT_NONE)) x3)))
           else Inr (SUCCESS, r2, x2))"

definition EnableDualTone :: "RendererInServer \<Rightarrow> outside \<Rightarrow> (err \<times> RendererInServer \<times> outside) exec" where
  "EnableDualTone r x =
     (if r_isDualToneEnabled r then Inr (SUCCESS, r, x)
      else exec_bind (InitDualToneStream r x) (\<lambda>(ret, r1, x1).
        Inr (if ret = SUCCESS then SUCCESS else ERR_OPERATION_FAILED, r1, x1)))"

text \<open>It is the inner-capture copy that is dropped here, as the code has it.\<close>

definition DisableDualTone :: "RendererInServer \<Rightarrow> outside \<Rightarrow> err \<times> RendererInServer \<times> outside" where
  "DisableDualTone r x =
     (if \<not> r_isDualToneEnabled r then (ERR_INVALID_OPERATION, r, x)
      else (ERROR, r\<lparr>r_isDualToneEnabled := False, r_dupStream := False\<rparr>,
            tell (OnManager DUAL_PLAYBACK (ReleaseRender (r_dualToneStreamIndex r))) x))"

section \<open>Requests of the client\<close>

definition Renderer_GetSessionId :: "RendererInServer \<Rightarrow> err \<times> u32 option" where
  "Renderer_GetSessionId r =
     (if \<not> r_stream r then (ERR_OPERATION_FAILED, None)
      else (if r_streamIndex r < 2147483647 then SUCCESS else ERR_OPERATION_FAILED, Some (r_streamIndex r)))"

text \<open>The effect of the stream is taken off while it also plays on the second sink.\<close>

definition start_dual :: "RendererInServer \<Rightarrow> outside \<Rightarrow> RendererInServer \<times> outside" where
  "start_dual r x =
     (if r_isDualToneEnabled r \<and> r_dualToneStream r
      then case ask (OnStream MainStream GetAudioEffectMode) x of (m, x1) \<Rightarrow>
        (r\<lparr>r_effectModeWhenDual := rp_mode m\<rparr>,
         tell (OnStream DualStream StreamStart) (tell (OnStream MainStream (SetAudioEffectMode EFFECT_NONE)) x1))
      else (r, x))"

definition leave_dual :: "stream_op \<Rightarrow> RendererInServer \<Rightarrow> outside \<Rightarrow> outside" where
  "leave_dual c r x =
     (if r_isDualToneEnabled r \<and> r_dualToneStream r
      then tell (OnStream DualStream c) (tell (OnStream MainStream (SetAudioEffectMode (r_effectModeWhenDual r))) x)
      else x)"

definition exit_standby :: "RendererInServer \<Rightarrow> outside \<Rightarrow> (err \<times> RendererInServer \<times> outside) exec" where
  "exit_standby r x =
     (case cur_nano x of (t, x1) \<Rightarrow>
      with_buffer r (\<lambda>B.
        let r1 = put_status STREAM_STARTING B (r\<lparr>r_standByCounter := 0, r_startedTime := t\<rparr>)
        in if GetStreamStatus B = None then Inl NullDeref
           else case ask (OnManager (r_managerType r1) (StartRender (r_streamIndex r1))) x1 of (a, x2) \<Rightarrow>
             Inr (rp_code a, r1, x2)))"

definition Renderer_Start :: "RendererInServer \<Rightarrow> outside \<Rightarrow> (err \<times> RendererInServer \<times> outside) exec" where
  "Renderer_Start r x =
     (if r_standByEnable r then exit_standby r x
      else
        let r0 = r\<lparr>r_needForceWrite := 0\<rparr>
        in if r_status r0 \<noteq> I_STATUS_IDLE \<and> r_status r0 \<noteq> I_STATUS_PAUSED \<and> r_status r0 \<noteq> I_STATUS_STOPPED
           then Inr (ERR_ILLEGAL_STATE, r0, x)
           else
             let r1 = r0\<lparr>r_status := I_STATUS_STARTING, r_fadeoutFlag := NO_FADING\<rparr> in
             case ask (OnManager (r_managerType r1) (StartRender (r_streamIndex r1))) x of (a, x1) \<Rightarrow>
             if rp_code a \<noteq> SUCCESS then Inr (rp_code a, r1, x1)
             else case cur_nano x1 of (t, x2) \<Rightarrow>
               with_buffer r1 (\<lambda>B. case cur_nano x2 of (t2, x3) \<Rightarrow>
                 exec_bind (SetHandleInfo B (GetCurReadFrame B) (t2 + MOCK_LATENCY)) (\<lambda>B'.
                   case start_dual (r1\<lparr>r_startedTime := t, r_buffer := Some B', r_resetTime := True\<rparr>)
                          (tell_dup StreamStart r1 x3) of (r2, x4) \<Rightarrow> Inr (SUCCESS, r2, x4))))"

definition leave_standby :: "StreamStatus \<Rightarrow> RendererInServer \<Rightarrow> RendererInServer exec" where
  "leave_standby s r =
     (if r_standByEnable r
      then with_buffer r (\<lambda>B. if GetStreamStatus B = None then Inl NullDeref
                               else Inr (put_status s B (r\<lparr>r_standByEnable := False\<rparr>)))
      else Inr r)"

definition Renderer_Pause :: "RendererInServer \<Rightarrow> outside \<Rightarrow> (err \<times> RendererInServer \<times> outside) exec" where
  "Renderer_Pause r x =
     (if r_status r \<noteq> I_STATUS_STARTED then Inr (ERR_ILLEGAL_STATE, r, x)
      else exec_bind (leave_standby STREAM_PAUSED (r\<lparr>r_status := I_STATUS_PAUSING\<rparr>)) (\<lambda>r1.
        let r2 = r1\<lparr>r_standByCounter := 0\<rparr> in
        case ask (OnManager (r_managerType r2) (PauseRender (r_streamIndex r2))) x of (a, x1) \<Rightarrow>
        Inr (rp_code a, r2, leave_dual (StreamPause False) r2 (tell_dup (StreamPause False) r2 x1))))"

text \<open>What is left in the buffer is cleared and skipped, span by span. With spans of no frames the
  walk would not end: then its value is \<^const>\<open>None\<close>.\<close>

partial_function (option) flush_walk ::
    "u64 \<Rightarrow> u64 \<Rightarrow> u64 \<Rightarrow> OHAudioBuffer \<Rightarrow> u8 list \<Rightarrow> (bool \<times> OHAudioBuffer \<times> u8 list) exec option" where
  "flush_walk spanSize readFrame writeFrame B mem =
     (if readFrame < writeFrame
      then case GetReadbuffer B readFrame of
             Inl f \<Rightarrow> Some (Inl f)
           | Inr (Inl e) \<Rightarrow> Some (Inr (False, B, mem))
           | Inr (Inr d) \<Rightarrow>
             (case SetCurReadFrame B (readFrame + spanSize) of
                Inl f \<Rightarrow> Some (Inl f)
              | Inr (_, B') \<Rightarrow> flush_walk spanSize (readFrame + spanSize) writeFrame B' (clear_span d mem))
      else Some (Inr (True, B, mem)))"

definition flushing :: "IStatus \<Rightarrow> IStatus option" where
  "flushing s =
     (if s = I_STATUS_STARTED then Some I_STATUS_FLUSHING_WHEN_STARTED
      else if s = I_STATUS_PAUSED then Some I_STATUS_FLUSHING_WHEN_PAUSED
      else if s = I_STATUS_STOPPED then Some I_STATUS_FLUSHING_WHEN_STOPPED
      else None)"

definition Renderer_Flush :: "RendererInServer \<Rightarrow> outside \<Rightarrow> (err \<times> RendererInServer \<times> outside) exec option" where
  "Renderer_Flush r x =
     (case flushing (r_status r) of
        None \<Rightarrow> Some (Inr (ERR_ILLEGAL_STATE, r, x))
      | Some s \<Rightarrow>
        let r1 = r\<lparr>r_status := s\<rparr> in
        (case r_buffer r1 of
           None \<Rightarrow> Some (Inl NullDeref)
         | Some B \<Rightarrow>
           (case flush_walk (r_spanSizeInFrame r1) (GetCurReadFrame B) (GetCurWriteFrame B) B (r_mem r1) of
              None \<Rightarrow> None
            | Some m \<Rightarrow> Some (exec_bind m (\<lambda>(ok, B', mem').
                let r2 = r1\<lparr>r_buffer := Some B', r_mem := mem'\<rparr>
                in if \<not> ok then Inr (ERR_OPERATION_FAILED, r2, x)
                   else with_stream r2
                     (case ask (OnStream MainStream StreamFlush) x of (a, x1) \<Rightarrow>
                      if rp_code a \<noteq> SUCCESS then Inr (rp_code a, r2, x1)
                      else Inr (SUCCESS, r2, tell_dual StreamFlush r2 (tell_dup StreamFlush r2 x1))))))))"

definition Renderer_Drain :: "bool \<Rightarrow> RendererInServer \<Rightarrow> outside \<Rightarrow> (err \<times> RendererInServer \<times> outside) exec" where
  "Renderer_Drain stopFlag r x =
     (if r_status r \<noteq> I_STATUS_STARTED then Inr (ERR_ILLEGAL_STATE, r, x)
      else
        let r1 = r\<lparr>r_status := I_STATUS_DRAINING, r_fadeoutFlag := (if stopFlag then DO_FADINGOUT else r_fadeoutFlag r)\<rparr>
        in with_stream r1
          (case ask (OnStream MainStream StreamDrain) x of (a, x1) \<Rightarrow>
           if rp_code a \<noteq> SUCCESS then Inr (rp_code a, r1, x1)
           else Inr (SUCCESS, r1, tell_dual StreamDrain r1 (tell_dup StreamDrain r1 x1))))"

definition Renderer_Stop :: "RendererInServer \<Rightarrow> outside \<Rightarrow> (err \<times> RendererInServer \<times> outside) exec" where
  "Renderer_Stop r x =
     (if r_status r \<noteq> I_STATUS_STARTED \<and> r_status r \<noteq> I_STATUS_PAUSED \<and> r_status r \<noteq> I_STATUS_DRAINING \<and>
         r_status r \<noteq> I_STATUS_STARTING
      then Inr (ERR_ILLEGAL_STATE, r, x)
      else exec_bind (leave_standby STREAM_STOPPED (r\<lparr>r_status := I_STATUS_STOPPING\<rparr>)) (\<lambda>r1.
        let r2 = r1\<lparr>r_fadeoutFlag := NO_FADING\<rparr> in
        case ask (OnManager (r_managerType r2) (StopRender (r_streamIndex r2))) x of (a, x1) \<Rightarrow>
        Inr (rp_code a, r2, leave_dual StreamStop r2 (tell_dup StreamStop r2 x1))))"

definition Renderer_Release :: "RendererInServer \<Rightarrow> outside \<Rightarrow> err \<times> RendererInServer \<times> outside" where
  "Renderer_Release r x =
     (let x0 = tell (OnService (RemoveRenderer (r_streamIndex r))) x in
      if r_status r = I_STATUS_RELEASED then (SUCCESS, r, x0)
      else case ask (OnManager (r_managerType r) (ReleaseRender (r_streamIndex r))) x0 of (a, x1) \<Rightarrow>
        if rp_code a < 0 then (rp_code a, r\<lparr>r_status := I_STATUS_INVALID\<rparr>, x1)
        else
          let r1 = r\<lparr>r_status := I_STATUS_RELEASED\<rparr> in
          case (if r_isInnerCapEnabled r1 then snd (DisableInnerCap r1 x1) else (r1, x1)) of (r2, x2) \<Rightarrow>
          case (if r_isDualToneEnabled r2 then snd (DisableDualTone r2 x2) else (r2, x2)) of (r3, x3) \<Rightarrow>
          (SUCCESS, r3, x3))"

section \<open>Position and settings\<close>

text \<open>The position as the client's out-parameters are left: \<^const>\<open>None\<close> where they are not written.\<close>

definition Renderer_GetAudioTime ::
    "RendererInServer \<Rightarrow> outside \<Rightarrow> (err \<times> (u64 \<times> u64) option \<times> RendererInServer \<times> outside) exec" where
  "Renderer_GetAudioTime r x =
     (if r_status r = I_STATUS_STOPPED then Inr (ERR_ILLEGAL_STATE, None, r, x)
      else with_stream r
        (case ask (OnStream MainStream GetStreamFramesWritten) x of (a, x1) \<Rightarrow>
         case ask (OnStream MainStream GetCurrentTimeStamp) x1 of (b, x2) \<Rightarrow>
         Inr (SUCCESS, Some (rp_amount a, rp_amount b),
              (if r_resetTime r then r\<lparr>r_resetTime := False, r_resetTimestamp := rp_amount b\<rparr> else r), x2)))"

definition Renderer_GetAudioPosition ::
    "RendererInServer \<Rightarrow> outside \<Rightarrow> (err \<times> (u64 \<times> u64) option \<times> outside) exec" where
  "Renderer_GetAudioPosition r x =
     (if r_status r = I_STATUS_STOPPED then Inr (ERR_ILLEGAL_STATE, None, x)
      else with_stream r
        (case ask (OnStream MainStream GetCurrentPosition) x of (a, x1) \<Rightarrow>
         Inr (SUCCESS, Some (rp_amount a, rp_second a), x1)))"

text \<open>The requests that are passed to the stream as they are: \<open>GetLatency\<close>, \<open>SetRate\<close>,
  \<open>GetLowPowerVolume\<close>, \<open>SetAudioEffectMode\<close>, \<open>GetAudioEffectMode\<close>, \<open>SetPrivacyType\<close>,
  \<open>GetPrivacyType\<close>, \<open>GetOffloadApproximatelyCacheTime\<close> and \<open>UpdateSpatializationState\<close>.\<close>

definition pass_on :: "stream_op \<Rightarrow> RendererInServer \<Rightarrow> outside \<Rightarrow> (stream_reply \<times> outside) exec" where
  "pass_on c r x = with_stream r (Inr (ask (OnStream MainStream c) x))"

definition SetLowPowerVolume :: "f32 \<Rightarrow> RendererInServer \<Rightarrow> err \<times> RendererInServer" where
  "SetLowPowerVolume v r =
     (if f32_less v MIN_FLOAT_VOLUME \<or> f32_less MAX_FLOAT_VOLUME v then (ERR_INVALID_PARAM, r)
      else (SUCCESS, r\<lparr>r_lowPowerVolume := v\<rparr>))"

definition Renderer_SetOffloadMode ::
    "s32 \<Rightarrow> bool \<Rightarrow> RendererInServer \<Rightarrow> outside \<Rightarrow> (err \<times> outside) exec" where
  "Renderer_SetOffloadMode state isAppBack r x =
     with_stream r
       (case ask (OnStream MainStream (SetOffloadMode state isAppBack)) x of (a, x1) \<Rightarrow>
        Inr (rp_code a, tell_dual (UpdateMaxLength 350) r (tell_dup (UpdateMaxLength 350) r x1)))"

definition Renderer_UnsetOffloadMode :: "RendererInServer \<Rightarrow> outside \<Rightarrow> (err \<times> outside) exec" where
  "Renderer_UnsetOffloadMode r x =
     with_stream r
       (case ask (OnStream MainStream UnsetOffloadMode) x of (a, x1) \<Rightarrow>
        Inr (rp_code a, tell_dual (UpdateMaxLength 20) r (tell_dup (UpdateMaxLength 20) r x1)))"

text \<open>An answer of the policy service that does not come leaves the volume structure at zero.\<close>

definition Renderer_OffloadSetVolume ::
    "policy_env \<Rightarrow> f32 \<Rightarrow> RendererInServer \<Rightarrow> outside \<Rightarrow> (err \<times> outside) exec" where
  "Renderer_OffloadSetVolume pol v r x =
     (if f32_less v MIN_FLOAT_VOLUME \<or> f32_less MAX_FLOAT_VOLUME v then Inr (ERR_INVALID_PARAM, x)
      else
        let dev = GetActiveOutPutDevice pol;
            systemVol = (case GetSharedVolume pol (GetVolumeTypeFromStreamType (pc_streamType (r_config r))) dev of
                           None \<Rightarrow> FFin 0
                         | Some (muted, level) \<Rightarrow> if muted then FFin 0 else level);
            vol = (if IsAbsVolumeSupported pol \<and> dev = DEV_BLUETOOTH_A2DP then FFin 1 else systemVol)
        in with_stream r
          (case ask (OnStream MainStream (OffloadSetVolume (f32_mult vol v))) x of (a, x1) \<Rightarrow>
           Inr (rp_code a, x1)))"

definition GetStreamManagerType :: "RendererInServer \<Rightarrow> int" where
  "GetStreamManagerType r = (if r_managerType r = DIRECT_PLAYBACK then 2 else 0)"

definition SetSilentModeAndMixWithOthers :: "bool \<Rightarrow> RendererInServer \<Rightarrow> err \<times> RendererInServer" where
  "SetSilentModeAndMixWithOthers on r = (SUCCESS, r\<lparr>r_silentModeAndMixWithOthers := on\<rparr>)"

definition Renderer_SetClientVolume :: "RendererInServer \<Rightarrow> outside \<Rightarrow> (err \<times> outside) exec" where
  "Renderer_SetClientVolume r x =
     (case r_buffer r of
        None \<Rightarrow> Inr (ERROR, x)
      | Some B \<Rightarrow> with_stream r
          (case ask (OnStream MainStream (SetClientVolume (GetStreamVolume B))) x of (a, x1) \<Rightarrow>
           Inr (rp_code a, x1)))"

definition Renderer_SetNonInterruptMute :: "bool \<Rightarrow> RendererInServer \<Rightarrow> outside \<Rightarrow> RendererInServer \<times> outside" where
  "Renderer_SetNonInterruptMute mute r x =
     (r\<lparr>r_muteFlag := mute\<rparr>, tell (OnService (UpdateMuteControlSet (r_streamIndex r) mute)) x)"

definition Renderer_ResolveBuffer :: "RendererInServer \<Rightarrow> err \<times> OHAudioBuffer option" where
  "Renderer_ResolveBuffer r = (SUCCESS, r_buffer r)"

end
