(* ===== verification/RendererInv.thy ===== *)
theory RendererInv
  imports RendererControl SpanRing VolumeProps
begin

text \<open>
  A normal playback stream keeps its buffer sound: what holds after \<open>Renderer_Init\<close> and is kept by
  every callback and request of \<open>renderer_in_server.cpp\<close> and by whatever the client does to the
  shared buffer.
\<close>

section \<open>Volume tools keep the length of a span\<close>

definition repr_ok :: "float_repr \<Rightarrow> bool" where
  "repr_ok R \<longleftrightarrow> (\<forall>v. length (f32_enc R v) = 4)"

lemma one_frame_length:
  assumes "repr_ok R" and "\<not> format > SAMPLE_F32LE"
  shows "length (ProcessOneFrame R format vol p) = GetByteSize format"
proof -
  have "unat format \<le> 4" using assms(2) by (simp add: word_le_nat_alt not_less)
  then have "unat format = 0 \<or> unat format = 1 \<or> unat format = 2 \<or> unat format = 3 \<or> unat format = 4" by linarith
  then have "format = 0 \<or> format = 1 \<or> format = 2 \<or> format = 3 \<or> format = 4"
    by (simp add: word_unat_eq_iff)
  then show ?thesis
    using assms(1) by (auto simp: ProcessOneFrame_def GetByteSize_def WriteInt24LE_def repr_ok_def)
qed

lemma scale_span_length [simp]:
  assumes "repr_ok R"
  shows "length (scale_span R format vols bs) = length bs"
proof (cases "snd (Process R (Some bs) format vols) = Some bs")
  case True
  then show ?thesis by (simp add: scale_span_def)
next
  case False
  let ?bd = "GetByteSize format" and ?ch = "channel vols"
  let ?n = "length bs div (?bd * ?ch)"
  from False have fmt: "\<not> format > SAMPLE_F32LE" and div: "length bs mod (?bd * ?ch) = 0"
    by (auto simp: Process_def Let_def split: if_splits)
  have "length bs = ?n * (?bd * ?ch)" using div by (simp add: mod_0_imp_dvd)
  moreover have "length (concat (map (\<lambda>k. ProcessOneFrame R format (f k) (g k)) [0..<?n * ?ch])) = ?n * ?ch * ?bd"
    for f :: "nat \<Rightarrow> int" and g
    by (rule length_concat_const) (rule one_frame_length [OF assms fmt])
  ultimately show ?thesis
    by (simp add: scale_span_def Process_def Let_def ac_simps)
qed

lemma VolumeHandle_shape:
  assumes "VolumeHandle R bs r = (bs', r')" and "repr_ok R"
  shows "length bs' = length bs \<and> r' = r\<lparr>r_oldAppliedVolume := r_oldAppliedVolume r'\<rparr>"
  using assms by (auto simp: VolumeHandle_def Let_def split: option.splits if_splits)

lemma shape_span_shape:
  assumes "shape_span R lastSpan bs r = (bs', r')" and "repr_ok R"
  shows "length bs' = length bs \<and>
    r' = r\<lparr>r_oldAppliedVolume := r_oldAppliedVolume r', r_fadeoutFlag := r_fadeoutFlag r'\<rparr>"
proof -
  obtain bs1 r1 where v: "VolumeHandle R bs r = (bs1, r1)" by (rule prod.exhaust)
  define vol where "vol = r_oldAppliedVolume r1"
  from VolumeHandle_shape [OF v assms(2)] have
    1: "length bs1 = length bs" "r1 = r\<lparr>r_oldAppliedVolume := vol\<rparr>" by (simp_all add: vol_def)
  show ?thesis
    using assms 1 by (auto simp: shape_span_def v DoFadingOut_def split: if_splits)
qed

section \<open>The invariant\<close>

text \<open>\<open>sound\<close>: what both sides rely on in the shared buffer; its sizes never change.\<close>

definition sound :: "OHAudioBuffer \<Rightarrow> bool" where
  "sound B \<longleftrightarrow> ring_ok B \<and> spans_aligned B"

definition same_sizes :: "OHAudioBuffer \<Rightarrow> OHAudioBuffer \<Rightarrow> bool" where
  "same_sizes B B' \<longleftrightarrow> totalSizeInFrame B' = totalSizeInFrame B \<and> spanSizeInFrame B' = spanSizeInFrame B \<and>
     byteSizePerFrame B' = byteSizePerFrame B"

definition stream_ready :: "RendererInServer \<Rightarrow> bool" where
  "stream_ready r \<longleftrightarrow> r_stream r \<and>
     (case r_buffer r of None \<Rightarrow> False
      | Some B \<Rightarrow> sound B \<and> r_spanSizeInFrame r = span64 B \<and> length (r_mem r) = totalN B * byteN B)"

lemma same_sizes_refl [simp]: "same_sizes B B"
  by (simp add: same_sizes_def)

lemma stream_readyE:
  assumes "stream_ready r"
  obtains B i where "r_stream r" "r_buffer r = Some B" "basicBufferInfo B = Some i" "sound B"
    "geometry_ok B" "window_ok B i" "r_spanSizeInFrame r = span64 B" "length (r_mem r) = totalN B * byteN B"
proof -
  from assms obtain B where B: "r_stream r" "r_buffer r = Some B" "sound B" "r_spanSizeInFrame r = span64 B"
    "length (r_mem r) = totalN B * byteN B" by (auto simp: stream_ready_def split: option.splits)
  from B(3) have "ring_ok B" by (simp add: sound_def)
  then obtain i where "basicBufferInfo B = Some i" "geometry_ok B" "window_ok B i" by (rule ring_okE)
  with B show thesis by (intro that)
qed

lemma ready_put_buffer:
  assumes "stream_ready r" and "r_buffer r = Some B" and "sound B'" and "same_sizes B B'"
    and "length m = length (r_mem r)"
  shows "stream_ready (r\<lparr>r_buffer := Some B', r_mem := m\<rparr>)" "stream_ready (r\<lparr>r_buffer := Some B'\<rparr>)"
  using assms by (auto simp: stream_ready_def same_sizes_def)

text \<open>The operations that do not touch the buffer, the stream or the sizes.\<close>

lemma ready_updates [simp]:
  "stream_ready (r\<lparr>r_streamIndex := i\<rparr>) = stream_ready r"
  "stream_ready (r\<lparr>r_status := s\<rparr>) = stream_ready r"
  "stream_ready (r\<lparr>r_offloadEnable := b\<rparr>) = stream_ready r"
  "stream_ready (r\<lparr>r_standByEnable := b\<rparr>) = stream_ready r"
  "stream_ready (r\<lparr>r_muteFlag := b\<rparr>) = stream_ready r"
  "stream_ready (r\<lparr>r_isInnerCapEnabled := b\<rparr>) = stream_ready r"
  "stream_ready (r\<lparr>r_dupStreamIndex := i\<rparr>) = stream_ready r"
  "stream_ready (r\<lparr>r_dupStream := b\<rparr>) = stream_ready r"
  "stream_ready (r\<lparr>r_isDualToneEnabled := b\<rparr>) = stream_ready r"
  "stream_ready (r\<lparr>r_dualToneStreamIndex := i\<rparr>) = stream_ready r"
  "stream_ready (r\<lparr>r_dualToneStream := b\<rparr>) = stream_ready r"
  "stream_ready (r\<lparr>r_needForceWrite := n\<rparr>) = stream_ready r"
  "stream_ready (r\<lparr>r_afterDrain := b\<rparr>) = stream_ready r"
  "stream_ready (r\<lparr>r_lowPowerVolume := v\<rparr>) = stream_ready r"
  "stream_ready (r\<lparr>r_oldAppliedVolume := v\<rparr>) = stream_ready r"
  "stream_ready (r\<lparr>r_startedTime := t\<rparr>) = stream_ready r"
  "stream_ready (r\<lparr>r_underrunCount := i\<rparr>) = stream_ready r"
  "stream_ready (r\<lparr>r_standByCounter := i\<rparr>) = stream_ready r"
  "stream_ready (r\<lparr>r_lastWriteTime := t\<rparr>) = stream_ready r"
  "stream_ready (r\<lparr>r_resetTime := b\<rparr>) = stream_ready r"
  "stream_ready (r\<lparr>r_resetTimestamp := n\<rparr>) = stream_ready r"
  "stream_ready (r\<lparr>r_fadeoutFlag := k\<rparr>) = stream_ready r"
  "stream_ready (r\<lparr>r_startMuteTime := k\<rparr>) = stream_ready r"
  "stream_ready (r\<lparr>r_silentState := k\<rparr>) = stream_ready r"
  "stream_ready (r\<lparr>r_silentModeAndMixWithOthers := b\<rparr>) = stream_ready r"
  "stream_ready (r\<lparr>r_effectModeWhenDual := k\<rparr>) = stream_ready r"
  by (simp_all add: stream_ready_def cong: option.case_cong)

section \<open>What both sides do to the buffer\<close>

lemma sound_SetCurReadFrame:
  assumes "sound B" and "SetCurReadFrame B n = Inr (e, B')"
  shows "sound B' \<and> same_sizes B B'"
proof -
  from assms(1) have ring: "ring_ok B" and al: "spans_aligned B" by (simp_all add: sound_def)
  from ring obtain i where i: "basicBufferInfo B = Some i" "geometry_ok B" "window_ok B i" by (rule ring_okE)
  have base: "spanN B dvd baseN i" using i(2,3) unfolding geometry_ok_def window_ok_def by (meson dvd_trans)
  have ring': "ring_ok B'" by (rule SetCurReadFrame_ok [OF ring assms(2)])
  from SetCurReadFrame_cases [OF ring i(1) assms(2)]
  consider (same) "B' = B"
  | (moved) "readN i \<le> unat n" "spanN B dvd unat n - baseN i"
      "B' = put_info B (i\<lparr>basePosInFrame := (if unat n = baseN i + totalN B then n else basePosInFrame i),
       curReadFrame := n\<rparr>)"
    by blast
  then show ?thesis
  proof cases
    case same
    then show ?thesis using assms(1) by simp
  next
    case moved
    have "baseN i \<le> unat n" using moved(1) i(3) by (simp add: window_ok_def)
    with moved(2) base have "spanN B dvd unat n" using dvd_diffD by blast
    then show ?thesis using al ring' i(1) moved(3) by (simp add: sound_def spans_aligned_def same_sizes_def)
  qed
qed

lemma sound_SetCurWriteFrame:
  assumes "sound B" and "SetCurWriteFrame B n = Inr (e, B')"
  shows "sound B' \<and> same_sizes B B'"
proof -
  from assms(1) have ring: "ring_ok B" and al: "spans_aligned B" by (simp_all add: sound_def)
  from ring obtain i where i: "basicBufferInfo B = Some i" "geometry_ok B" "window_ok B i" by (rule ring_okE)
  have base: "spanN B dvd baseN i" using i(2,3) unfolding geometry_ok_def window_ok_def by (meson dvd_trans)
  have ring': "ring_ok B'" by (rule SetCurWriteFrame_ok [OF ring assms(2)])
  from SetCurWriteFrame_cases [OF ring i(1) assms(2)]
  consider (same) "B' = B"
  | (moved) "writeN i < unat n" "spanN B dvd unat n - baseN i"
      "B' = put_info B (i\<lparr>curWriteFrame := n\<rparr>)"
    by blast
  then show ?thesis
  proof cases
    case same
    then show ?thesis using assms(1) by simp
  next
    case moved
    have "baseN i \<le> unat n" using moved(1) i(3) by (simp add: window_ok_def)
    with moved(2) base have "spanN B dvd unat n" using dvd_diffD by blast
    then show ?thesis using al ring' i(1) moved(3) by (simp add: sound_def spans_aligned_def same_sizes_def)
  qed
qed

lemma sound_put_info:
  assumes "sound B" and "basicBufferInfo B = Some i" and "basePosInFrame j = basePosInFrame i"
    and "curReadFrame j = curReadFrame i" and "curWriteFrame j = curWriteFrame i"
  shows "sound (put_info B j) \<and> same_sizes B (put_info B j)"
  using assms by (auto simp: sound_def ring_ok_def spans_aligned_def window_ok_def same_sizes_def)

lemma sound_cong:
  assumes "sound B" and "totalSizeInFrame B' = totalSizeInFrame B" "spanSizeInFrame B' = spanSizeInFrame B"
    "byteSizePerFrame B' = byteSizePerFrame B" "totalSizeInByte B' = totalSizeInByte B"
    "spanSizeInByte B' = spanSizeInByte B" "spanConut B' = spanConut B" "basicBufferInfo B' = basicBufferInfo B"
  shows "sound B' \<and> same_sizes B B'"
  using assms
  by (simp add: sound_def ring_ok_def geometry_ok_def spans_aligned_def window_ok_def same_sizes_def
      cong: option.case_cong)

lemma sound_info: "sound B \<Longrightarrow> \<exists>i. basicBufferInfo B = Some i"
  by (auto simp: sound_def elim!: ring_okE)

text \<open>The setters of the buffer that leave its positions.\<close>

definition keeps_sound :: "OHAudioBuffer \<Rightarrow> OHAudioBuffer \<Rightarrow> bool" where
  "keeps_sound B B' \<longleftrightarrow> (sound B \<longrightarrow> sound B' \<and> same_sizes B B')"

lemma setters_keep_sound:
  "SetHandleInfo B p t = Inr B1 \<Longrightarrow> keeps_sound B B1"
  "keeps_sound B (snd (SetStreamVolume B v))"
  "keeps_sound B (snd (SetMuteFactor B v))"
  "keeps_sound B (snd (SetDuckFactor B v))"
  "keeps_sound B (snd (SetUnderrunCount B c))"
  "keeps_sound B (set_stream_status B s)"
  "keeps_sound B (reset_spans st B)"
  by (auto simp: keeps_sound_def setter_defs set_stream_status_def sound_put_info split: option.splits if_splits)
    (auto simp: reset_spans_def Let_def intro: sound_cong [THEN conjunct1] sound_cong [THEN conjunct2])

section \<open>Writing a span\<close>

definition silence_reports :: "outside_call set" where
  "silence_reports = {ReportDataToResSched True, ReportDataToResSched False}"

lemma WriteMute_returns: "bs \<noteq> [] \<Longrightarrow> \<exists>r' x'. WriteMuteDataSysEvent bs r x = Inr (r', x')"
  by (auto simp: WriteMuteDataSysEvent_def Let_def split: list.splits prod.splits)

lemma WriteMute_shape:
  assumes "WriteMuteDataSysEvent bs r x = Inr (r', x')"
  shows "r' = r\<lparr>r_startMuteTime := r_startMuteTime r', r_silentState := r_silentState r'\<rparr>"
    and "\<exists>reports. set reports \<subseteq> silence_reports \<and> asked x' = asked x @ reports"
  using assms
  by (auto simp: WriteMuteDataSysEvent_def Let_def cur_wall_def silence_reports_def split: list.splits if_splits)

lemma asked_tell_dup: "asked (tell_dup c r x) =
    asked x @ (if r_isInnerCapEnabled r \<and> r_dupStream r then [OnStream DupStream c] else [])"
  by (simp add: tell_dup_def)

lemma asked_tell_dual: "asked (tell_dual c r x) =
    asked x @ (if r_isDualToneEnabled r \<and> r_dualToneStream r then [OnStream DualStream c] else [])"
  by (simp add: tell_dual_def)

text \<open>What becomes of a span that is written: the same shaped bytes go to the stream and to the
  copies that are enabled and present, the span is cleared, and the read position moves on.\<close>

definition delivered :: "float_repr \<Rightarrow> RendererInServer \<Rightarrow> outside \<Rightarrow> RendererInServer \<Rightarrow> outside \<Rightarrow> bool" where
  "delivered R r x r' x' \<longleftrightarrow>
     (case (r_buffer r, r_buffer r') of
        (Some B, Some B') \<Rightarrow>
          let pos = GetCurReadFrame B; off = span_offset B (unat pos); n = spanN B * byteN B;
              bs = fst (shape_span R (unat pos + spanN B = unat (GetCurWriteFrame B)) (slice off n (r_mem r)) r)
          in length bs = n \<and>
             (\<exists>reports. set reports \<subseteq> silence_reports \<and>
                asked x' = asked x @ OnStream MainStream (EnqueueBuffer (Some bs)) #
                  (if r_isInnerCapEnabled r \<and> r_dupStream r then [OnStream DupStream (EnqueueBuffer (Some bs))] else []) @
                  (if r_isDualToneEnabled r \<and> r_dualToneStream r then [OnStream DualStream (EnqueueBuffer (Some bs))] else []) @
                  reports @ [FutexWake]) \<and>
             r_mem r' = overwrite (r_mem r) off (replicate n 0) \<and>
             GetCurReadFrame B' = pos + span64 B \<and> GetCurWriteFrame B' = GetCurWriteFrame B
      | _ \<Rightarrow> False)"

lemma WriteData_delivers:
  assumes ready: "stream_ready r" and B: "r_buffer r = Some B" and R: "repr_ok R"
    and room: "unat (GetCurReadFrame B) + spanN B \<le> unat (GetCurWriteFrame B)"
  shows "\<exists>r' x'. WriteData R r x = Inr (SUCCESS, r', x') \<and> delivered R r x r' x' \<and> stream_ready r'"
proof -
  obtain i where i: "basicBufferInfo B = Some i" and ok: "sound B" "geometry_ok B" "window_ok B i"
    and r: "r_stream r" "r_spanSizeInFrame r = span64 B" "length (r_mem r) = totalN B * byteN B"
    using ready B by (auto elim!: stream_readyE)
  have ring: "ring_ok B" "spans_aligned B" using ok(1) by (simp_all add: sound_def)
  have pos: "GetCurReadFrame B = curReadFrame i" "GetCurWriteFrame B = curWriteFrame i"
    by (simp_all add: GetCurReadFrame_def GetCurWriteFrame_def i)
  let ?n = "spanN B * byteN B" and ?off = "span_offset B (readN i)" and ?next = "curReadFrame i + span64 B"
  let ?last = "readN i + spanN B = writeN i"
  have room': "readN i + spanN B \<le> writeN i" using room by (simp add: pos)
  have nextN: "unat ?next = readN i + spanN B"
    using room' u64_bound [of "curWriteFrame i"] by (subst unat_add_small) simp_all
  have cond: "\<not> curReadFrame i + r_spanSizeInFrame r > curWriteFrame i"
    "(curReadFrame i + r_spanSizeInFrame r = curWriteFrame i) = ?last"
    using nextN room' by (simp_all add: r(2) word_less_nat_alt word_unat_eq_iff not_less)
  obtain d where rd: "GetReadbuffer B (curReadFrame i) = Inr (Inr d)"
    and d: "unat (bufOffset d) = ?off" "unat (bufLength d) = ?n"
    using GetReadbuffer_spec [OF ring(1) i] by blast
  have fits: "?off + ?n \<le> length (r_mem r)" using span_offset_in_bounds [OF ok(2)] by (simp add: r(3))
  have n: "0 < ?n" using ok(2) by (simp add: geometry_ok_def)
  have raw: "span_bytes d (r_mem r) = slice ?off ?n (r_mem r)" "length (slice ?off ?n (r_mem r)) = ?n"
    using fits by (simp_all add: span_bytes_def d slice_def)
  obtain bs r1 where sh: "shape_span R ?last (slice ?off ?n (r_mem r)) r = (bs, r1)" by (rule prod.exhaust)
  define v f where "v = r_oldAppliedVolume r1" and "f = r_fadeoutFlag r1"
  note shape = shape_span_shape [OF sh R]
  have bs: "length bs = ?n" using shape [THEN conjunct1] raw(2) by (rule trans)
  have r1: "r1 = r\<lparr>r_oldAppliedVolume := v, r_fadeoutFlag := f\<rparr>"
    unfolding v_def f_def by (rule shape [THEN conjunct2])
  let ?x1 = "OtherStreamEnqueue bs r1 (tell (OnStream MainStream (EnqueueBuffer (Some bs))) x)"
  have "bs \<noteq> []" using bs n by auto
  then obtain r2 x2 where mu: "WriteMuteDataSysEvent bs r1 ?x1 = Inr (r2, x2)" using WriteMute_returns by blast
  note r2' = WriteMute_shape(1) [OF mu]
  from WriteMute_shape(2) [OF mu] obtain reports where
    reports: "set reports \<subseteq> silence_reports" "asked x2 = asked ?x1 @ reports" by (elim exE conjE)
  define s k where "s = r_startMuteTime r2" and "k = r_silentState r2"
  have "r2 = r1\<lparr>r_startMuteTime := s, r_silentState := k\<rparr>" unfolding s_def k_def by (rule r2')
  then have r2: "r2 = r\<lparr>r_oldAppliedVolume := v, r_fadeoutFlag := f, r_startMuteTime := s, r_silentState := k\<rparr>"
    by (simp add: r1)
  have mem: "clear_span d (put_span d bs (r_mem r)) = overwrite (r_mem r) ?off (replicate ?n 0)"
  proof -
    have "clear_span d (put_span d bs (r_mem r)) = put_span d (replicate ?n 0) (r_mem r)"
      unfolding clear_span_def d(2) by (rule put_span_twice) (simp_all add: bs d fits)
    then show ?thesis by (simp add: put_span_def d)
  qed
  let ?B' = "put_info B (i\<lparr>basePosInFrame := (if readN i + spanN B = baseN i + totalN B
           then basePosInFrame i + total64 B else basePosInFrame i), curReadFrame := ?next\<rparr>)"
  have set: "SetCurReadFrame B ?next = Inr (SUCCESS, ?B')"
    by (rule SetCurReadFrame_advances [OF ring i room'])
  have sB: "sound ?B' \<and> same_sizes B ?B'" by (rule sound_SetCurReadFrame [OF ok(1) set])
  let ?r3 = "r2\<lparr>r_mem := overwrite (r_mem r) ?off (replicate ?n 0), r_buffer := Some ?B'\<rparr>"
  have ws: "write_span R d ?next ?last r x = Inr (?r3, x2)"
    unfolding write_span_def raw sh prod.case Let_def mu exec_bind_simps
    by (simp add: r2 mem with_buffer_def B set)
  obtain t x3 where t: "cur_nano (tell FutexWake x2) = (t, x3)" "asked x3 = asked x2 @ [FutexWake]"
    using asked_clocks(1) [of "tell FutexWake x2"] by (cases "cur_nano (tell FutexWake x2)") simp
  let ?r4 = "?r3\<lparr>r_standByCounter := 0, r_lastWriteTime := t\<rparr>"
  have res: "WriteData R r x = Inr (SUCCESS, ?r4, x3)"
    unfolding WriteData_def with_buffer_def B option.case Let_def pos rd exec_bind_simps sum.case cond(2) with_stream_def
    using cond(1) ws by (simp add: r(1,2) t(1))
  have len: "length (overwrite (r_mem r) ?off (replicate ?n 0)) = length (r_mem r)"
    using fits by (simp add: overwrite_def)
  have "stream_ready (r\<lparr>r_buffer := Some ?B', r_mem := overwrite (r_mem r) ?off (replicate ?n 0)\<rparr>)"
    by (rule ready_put_buffer(1) [OF ready B]) (use sB len in simp_all)
  then have ready4: "stream_ready ?r4" by (simp add: stream_ready_def r2 cong: option.case_cong)
  have ask: "asked x3 = asked x @ OnStream MainStream (EnqueueBuffer (Some bs)) #
      (if r_isInnerCapEnabled r \<and> r_dupStream r then [OnStream DupStream (EnqueueBuffer (Some bs))] else []) @
      (if r_isDualToneEnabled r \<and> r_dualToneStream r then [OnStream DualStream (EnqueueBuffer (Some bs))] else []) @
      reports @ [FutexWake]"
    by (simp add: t(2) reports(2) OtherStreamEnqueue_def asked_tell_dup asked_tell_dual r1)
  have "delivered R r x ?r4 x3"
    unfolding delivered_def B Let_def pos
    using reports(1) by (simp add: sh bs ask GetCurReadFrame_def GetCurWriteFrame_def i)
  with res ready4 show ?thesis by blast
qed

section \<open>Every operation keeps the invariant\<close>

abbreviation keeps_ready :: "(err \<times> RendererInServer \<times> outside) exec \<Rightarrow> bool" where
  "keeps_ready m \<equiv> returns (\<lambda>(_, r, _). stream_ready r) m"

abbreviation keeps_ready2 :: "(RendererInServer \<times> outside) exec \<Rightarrow> bool" where
  "keeps_ready2 m \<equiv> returns (\<lambda>(r, _). stream_ready r) m"

lemma write_span_ready:
  assumes ready: "stream_ready r" and R: "repr_ok R"
    and fits: "unat (bufOffset d) + unat (bufLength d) \<le> length (r_mem r)"
  shows "keeps_ready2 (write_span R d nextPos lastSpan r x)"
proof -
  obtain bs r1 where sh: "shape_span R lastSpan (span_bytes d (r_mem r)) r = (bs, r1)" by (rule prod.exhaust)
  define v f where "v = r_oldAppliedVolume r1" and "f = r_fadeoutFlag r1"
  note shape = shape_span_shape [OF sh R]
  have bs: "length bs = unat (bufLength d)" using shape fits by (simp add: length_span_bytes)
  have r1: "r1 = r\<lparr>r_oldAppliedVolume := v, r_fadeoutFlag := f\<rparr>"
    unfolding v_def f_def by (rule shape [THEN conjunct2])
  have len: "length (clear_span d (put_span d bs (r_mem r))) = length (r_mem r)"
    using fits bs by (simp add: clear_span_def length_put_span)
  show ?thesis
  proof (cases "WriteMuteDataSysEvent bs r1
      (OtherStreamEnqueue bs r1 (tell (OnStream MainStream (EnqueueBuffer (Some bs))) x))")
    case (Inr q)
    obtain r2 x2 where q: "q = (r2, x2)" by (rule prod.exhaust)
    note r2' = WriteMute_shape(1) [OF Inr [unfolded q]]
    define s k where "s = r_startMuteTime r2" and "k = r_silentState r2"
    have "r2 = r1\<lparr>r_startMuteTime := s, r_silentState := k\<rparr>" unfolding s_def k_def by (rule r2')
    then have r2: "r2 = r\<lparr>r_oldAppliedVolume := v, r_fadeoutFlag := f, r_startMuteTime := s, r_silentState := k\<rparr>"
      by (simp add: r1)
    obtain B where B: "r_buffer r = Some B" "sound B" using ready by (auto elim!: stream_readyE)
    let ?m = "clear_span d (put_span d bs (r_mem r))"
    have step: "stream_ready (r\<lparr>r_buffer := Some B', r_mem := ?m\<rparr>)" if "SetCurReadFrame B nextPos = Inr (e, B')" for e B'
      using sound_SetCurReadFrame [OF B(2) that] by (intro ready_put_buffer(1) [OF ready B(1)] len) simp_all
    show ?thesis
      unfolding write_span_def sh prod.case Let_def Inr q exec_bind_simps
      by (cases "SetCurReadFrame B nextPos") (auto simp: r2 with_buffer_def B(1) stream_ready_def
          dest!: step cong: option.case_cong)
  qed (simp add: write_span_def sh Let_def)
qed

lemma WriteData_ready:
  assumes ready: "stream_ready r" and R: "repr_ok R"
  shows "keeps_ready (WriteData R r x)"
proof -
  obtain B i where B: "r_stream r" "r_buffer r = Some B" "basicBufferInfo B = Some i" "sound B" "geometry_ok B"
    "length (r_mem r) = totalN B * byteN B" using ready by (auto elim!: stream_readyE)
  obtain d where rd: "GetReadbuffer B (curReadFrame i) = Inr (Inr d)"
    and d: "unat (bufOffset d) = span_offset B (readN i)" "unat (bufLength d) = spanN B * byteN B"
    using GetReadbuffer_spec [OF _ B(3)] B(4) by (auto simp: sound_def)
  have fits: "unat (bufOffset d) + unat (bufLength d) \<le> length (r_mem r)"
    using span_offset_in_bounds [OF B(5)] by (simp add: d B(6))
  have pos: "GetCurReadFrame B = curReadFrame i" by (simp add: GetCurReadFrame_def B(3))
  show ?thesis
    unfolding WriteData_def with_buffer_def B(2) option.case Let_def pos rd exec_bind_simps sum.case with_stream_def
    apply (split if_split, intro conjI impI)
     apply (simp add: ready)
    apply (simp only: B(1) if_True returns_bind)
    apply (rule returns_mono [OF write_span_ready [OF ready R fits]])
    apply (auto split: prod.splits)
    done
qed

lemma write_times_ready:
  "stream_ready r \<Longrightarrow> repr_ok R \<Longrightarrow> returns (\<lambda>(_, r', _). stream_ready r') (write_times R n b r x)"
proof (induction n arbitrary: b r x)
  case (Suc n)
  show ?case
    unfolding write_times.simps returns_bind
    by (rule returns_mono [OF WriteData_ready [OF Suc.prems]]) (auto intro: Suc.IH Suc.prems(2))
qed simp

lemma keeps_ready_buffer:
  assumes "stream_ready r" and "r_buffer r = Some B" and "keeps_sound B B'"
  shows "stream_ready (r\<lparr>r_buffer := Some B'\<rparr>)"
  using assms ready_put_buffer(2) [OF assms(1,2), of B' "r_mem r"]
  by (auto simp: keeps_sound_def elim!: stream_readyE)

lemma handle_info_ready:
  assumes "stream_ready r" and "r_buffer r = Some B"
  shows "returns (\<lambda>B'. stream_ready (r\<lparr>r_buffer := Some B'\<rparr>)) (SetHandleInfo B p t)"
  using keeps_ready_buffer [OF assms] setters_keep_sound(1)
  by (cases "SetHandleInfo B p t") auto

lemma OnWriteData_ready:
  assumes "stream_ready r" and "repr_ok R"
  shows "keeps_ready (OnWriteData R writable len r x)"
  unfolding OnWriteData_def returns_bind
proof (rule returns_mono [where P = "\<lambda>(_, r', _). stream_ready r'"])
  show "returns (\<lambda>(_, r', _). stream_ready r')
     (if writable then if r_spanSizeInByte r = 0 then Inl DivByZero
        else write_times R (unat (len div r_spanSizeInByte r)) False r x else Inr (True, r, x))"
    using assms by (simp add: write_times_ready)
next
  fix q :: "bool \<times> RendererInServer \<times> outside"
  obtain b r1 x1 where q: "q = (b, r1, x1)" by (rule prod_cases3)
  assume "case q of (_, r', _) \<Rightarrow> stream_ready r'"
  then have ready: "stream_ready r1" by (simp add: q)
  obtain B where B: "r_buffer r1 = Some B" using ready by (auto elim!: stream_readyE)
  show "keeps_ready (case q of (mayForce, r1, x1) \<Rightarrow> with_stream r1
          (case ask (OnStream MainStream GetWritableSize) x1 of (a, x2) \<Rightarrow>
           exec_bind
             (if mayForce \<and> rp_amount a \<ge> r_spanSizeInByte r1
              then if r_spanSizeInByte r1 = 0 then Inl DivByZero
                   else let n = rp_amount a div r_spanSizeInByte r1
                        in Inr (r1\<lparr>r_needForceWrite := (if n > 3 then 0 else 3 - n)\<rparr>)
              else Inr r1)
             (\<lambda>r2. with_buffer r2 (\<lambda>B.
                case cur_nano x2 of (t, x3) \<Rightarrow>
                exec_bind (SetHandleInfo B (GetCurReadFrame B) (t + MOCK_LATENCY)) (\<lambda>B'.
                  Inr (if mayForce then ERR_RENDERER_IN_SERVER_UNDERRUN else SUCCESS,
                       r2\<lparr>r_buffer := Some B'\<rparr>, x3))))))"
    unfolding q prod.case with_stream_def
    apply (split if_split, intro conjI impI)
     apply (split prod.split, intro allI impI)
     apply (rule returns_bind [THEN iffD2])
     apply (rule returns_mono [where P = "\<lambda>r2. stream_ready r2 \<and> r_buffer r2 = Some B"])
      apply (simp add: ready B Let_def)
     apply (simp add: with_buffer_def returns_bind split: prod.split, intro allI impI)
     apply (rule returns_mono [OF handle_info_ready], simp_all)
    done
qed

section \<open>Flushing\<close>

text \<open>The positions of the spans still to be read, and the bytes of one.\<close>

definition unread :: "OHAudioBuffer \<Rightarrow> nat set" where
  "unread B = {p. spanN B dvd p \<and> unat (GetCurReadFrame B) \<le> p \<and> p < unat (GetCurWriteFrame B)}"

definition in_span :: "OHAudioBuffer \<Rightarrow> nat \<Rightarrow> nat \<Rightarrow> bool" where
  "in_span B p k \<longleftrightarrow> span_offset B p \<le> k \<and> k < span_offset B p + spanN B * byteN B"

definition flushed :: "OHAudioBuffer \<Rightarrow> u8 list \<Rightarrow> u8 list \<Rightarrow> bool" where
  "flushed B m m' \<longleftrightarrow> length m' = length m \<and>
     (\<forall>k<length m. m' ! k = (if \<exists>p\<in>unread B. in_span B p k then 0 else m ! k))"

lemma aligned_room:
  assumes "(s::nat) dvd a" "s dvd b" "a < b"
  shows "a + s \<le> b"
proof -
  have "s dvd b - a" using assms by simp
  then have "s \<le> b - a" using assms(3) by (intro dvd_imp_le) simp_all
  then show ?thesis using assms(3) by linarith
qed

lemma flush_walk_spec:
  assumes "sound B" and "basicBufferInfo B = Some i" and "length m = totalN B * byteN B"
  shows "\<exists>B' m'. flush_walk (span64 B) (GetCurReadFrame B) (GetCurWriteFrame B) B m = Some (Inr (True, B', m')) \<and>
    sound B' \<and> same_sizes B B' \<and> GetCurReadFrame B' = GetCurWriteFrame B \<and>
    GetCurWriteFrame B' = GetCurWriteFrame B \<and> flushed B m m'"
  using assms
proof (induction "writeN i - readN i" arbitrary: B i m rule: less_induct)
  case less
  have ring: "ring_ok B" "spans_aligned B" using less.prems(1) by (simp_all add: sound_def)
  have g: "geometry_ok B" and win: "window_ok B i" using ring(1) less.prems(2) by (auto elim!: ring_okE)
  have pos: "GetCurReadFrame B = curReadFrame i" "GetCurWriteFrame B = curWriteFrame i"
    by (simp_all add: GetCurReadFrame_def GetCurWriteFrame_def less.prems(2))
  have rw: "readN i \<le> writeN i" using win by (simp add: window_ok_def)
  have s0: "0 < spanN B" using g by (simp add: geometry_ok_def)
  have al: "spanN B dvd readN i" "spanN B dvd writeN i"
    using ring(2) less.prems(2) by (simp_all add: spans_aligned_def)
  show ?case
  proof (cases "readN i < writeN i")
    case False
    then have eq: "curReadFrame i = curWriteFrame i" using rw by (simp add: word_unat_eq_iff)
    have "flush_walk (span64 B) (GetCurReadFrame B) (GetCurWriteFrame B) B m = Some (Inr (True, B, m))"
      by (subst flush_walk.simps) (simp add: pos eq)
    moreover have "unread B = {}" by (auto simp: unread_def pos eq)
    then have "flushed B m m" by (simp add: flushed_def)
    ultimately show ?thesis using less.prems(1) by (auto simp: pos eq)
  next
    case True
    have room: "readN i + spanN B \<le> writeN i" by (rule aligned_room [OF al True])
    let ?next = "curReadFrame i + span64 B"
    have nextN: "unat ?next = readN i + spanN B"
      using room u64_bound [of "curWriteFrame i"] by (subst unat_add_small) simp_all
    obtain d where rd: "GetReadbuffer B (curReadFrame i) = Inr (Inr d)"
      and d: "unat (bufOffset d) = span_offset B (readN i)" "unat (bufLength d) = spanN B * byteN B"
      using GetReadbuffer_spec [OF ring(1) less.prems(2)] by blast
    let ?i1 = "i\<lparr>basePosInFrame := (if readN i + spanN B = baseN i + totalN B
           then basePosInFrame i + total64 B else basePosInFrame i), curReadFrame := ?next\<rparr>"
    let ?B1 = "put_info B ?i1" and ?m1 = "clear_span d m"
    have set: "SetCurReadFrame B ?next = Inr (SUCCESS, ?B1)"
      by (rule SetCurReadFrame_advances [OF ring less.prems(2) room])
    have s1: "sound ?B1" "same_sizes B ?B1" using sound_SetCurReadFrame [OF less.prems(1) set] by blast+
    have fits: "span_offset B (readN i) + spanN B * byteN B \<le> length m"
      using span_offset_in_bounds [OF g] by (simp add: less.prems(3))
    have m1: "length ?m1 = length m" using fits by (simp add: clear_span_def length_put_span d)
    have i1: "basicBufferInfo ?B1 = Some ?i1" by simp
    have "writeN ?i1 - readN ?i1 < writeN i - readN i" using room s0 by (simp add: nextN)
    note IH = less.hyps [OF this s1(1) i1]
    have pos1: "GetCurReadFrame ?B1 = ?next" "GetCurWriteFrame ?B1 = curWriteFrame i"
      "spanSizeInFrame ?B1 = spanSizeInFrame B" "totalN ?B1 * byteN ?B1 = length m"
      by (simp_all add: GetCurReadFrame_def GetCurWriteFrame_def less.prems(3))
    from IH [of ?m1, unfolded pos1, OF m1] obtain B' m' where
      walk: "flush_walk (span64 B) ?next (curWriteFrame i) ?B1 ?m1 = Some (Inr (True, B', m'))"
      and B': "sound B'" "same_sizes ?B1 B'" "GetCurReadFrame B' = curWriteFrame i" "GetCurWriteFrame B' = curWriteFrame i"
      and fl: "flushed ?B1 ?m1 m'"
      by blast
    have "curReadFrame i < curWriteFrame i" using True by (simp add: word_less_nat_alt)
    then have res: "flush_walk (span64 B) (GetCurReadFrame B) (GetCurWriteFrame B) B m = Some (Inr (True, B', m'))"
      by (subst flush_walk.simps) (simp add: pos rd set walk)
    have un: "unread B = insert (readN i) (unread ?B1)"
    proof -
      have "unread B = {p. spanN B dvd p \<and> readN i \<le> p \<and> p < writeN i}" by (simp add: unread_def pos)
      moreover have "unread ?B1 = {p. spanN B dvd p \<and> readN i + spanN B \<le> p \<and> p < writeN i}"
        unfolding unread_def pos1 nextN by simp
      moreover have "readN i \<le> p \<longleftrightarrow> p = readN i \<or> readN i + spanN B \<le> p" if "spanN B dvd p" for p
        using aligned_room [OF al(1) that] by linarith
      ultimately show ?thesis using al(1) True by blast
    qed
    have in_eq: "in_span ?B1 = in_span B" by (intro ext) (simp add: in_span_def span_offset_def)
    have nth: "?m1 ! k = (if in_span B (readN i) k then 0 else m ! k)" if "k < length m" for k
      using nth_put_span [of d "replicate (unat (bufLength d)) 0" m k] that fits
      by (auto simp: clear_span_def in_span_def d)
    have "flushed B m m'"
      using fl m1 by (auto simp: flushed_def un in_eq nth)
    then show ?thesis
      using res B' by (auto simp: pos same_sizes_def)
  qed
qed

section \<open>Callbacks and requests\<close>

lemma status_kept [simp]:
  assumes "stream_ready r" and "r_buffer r = Some B"
  shows "stream_ready (r\<lparr>r_buffer := Some (set_stream_status B s)\<rparr>)"
  using keeps_ready_buffer [OF assms setters_keep_sound(6)] .

lemma force_write_ready:
  assumes "stream_ready r" and "repr_ok R"
  shows "keeps_ready2 (force_write R l r x)"
proof -
  have "keeps_ready2 (exec_bind (WriteData R r x1) (\<lambda>(_, r1, x2). Inr (r1\<lparr>r_needForceWrite := r_needForceWrite r1 + 1\<rparr>, x2)))"
    for x1
    unfolding returns_bind by (rule returns_mono [OF WriteData_ready [OF assms]]) auto
  then show ?thesis
    using assms(1) by (simp add: force_write_def with_stream_def split: prod.split)
qed

lemma UpdateWriteIndex_ready:
  assumes "stream_ready r" and "repr_ok R"
  shows "keeps_ready (UpdateWriteIndex R l1 l2 r x)"
  unfolding UpdateWriteIndex_def Let_def returns_bind
proof (rule returns_mono [OF force_write_ready [OF assms]])
  fix q :: "RendererInServer \<times> outside"
  obtain r1 x1 where q: "q = (r1, x1)" by (rule prod.exhaust)
  assume "case q of (r, _) \<Rightarrow> stream_ready r"
  then have r1: "stream_ready r1" by (simp add: q)
  have "keeps_ready (exec_bind (WriteData R (r1\<lparr>r_afterDrain := False\<rparr>) x1) (\<lambda>(_, r2, x2). Inr (SUCCESS, r2, x2)))"
    unfolding returns_bind by (rule returns_mono [OF WriteData_ready [OF _ assms(2)]]) (use r1 in auto)
  then show "keeps_ready (case q of (r1, x1) \<Rightarrow> if r_afterDrain r1 \<and> l2
       then exec_bind (WriteData R (r1\<lparr>r_afterDrain := False\<rparr>) x1) (\<lambda>(_, r2, x2). Inr (SUCCESS, r2, x2))
       else Inr (SUCCESS, r1, x1))"
    using r1 by (simp add: q)
qed

lemma StandByCheck_ready: "stream_ready r \<Longrightarrow> keeps_ready2 (StandByCheck r x)"
  by (simp add: StandByCheck_def Let_def with_stream_def split: prod.split)

lemma count_underrun_ready: "stream_ready r \<Longrightarrow> keeps_ready2 (count_underrun r x)"
  using keeps_ready_buffer [OF _ _ setters_keep_sound(5)]
  by (auto simp: count_underrun_def Let_def with_buffer_def split: prod.split option.split elim!: stream_readyE)

lemma OnStatusUpdateSub_ready:
  assumes "stream_ready r" and "repr_ok R"
  shows "keeps_ready2 (OnStatusUpdateSub R c r x)"
proof -
  have "keeps_ready2 (exec_bind (WriteData R r x) (\<lambda>(_, r1, x1). Inr (r1, x1)))"
    unfolding returns_bind by (rule returns_mono [OF WriteData_ready [OF assms]]) auto
  then have 1: "keeps_ready2 (with_buffer r (\<lambda>B. exec_bind (GetAvailableDataFrames B) (\<lambda>n.
      if n = k then Inr (r\<lparr>r_needForceWrite := 0\<rparr>, x)
      else exec_bind (WriteData R r x) (\<lambda>(_, r1, x1). Inr (r1, x1)))))" for k
    using assms(1) by (auto simp: with_buffer_def split: option.split intro!: returns_bind_any)
  have 2: "keeps_ready2 (exec_bind (count_underrun r x) (\<lambda>(r1, x1). StandByCheck r1 x1))"
    unfolding returns_bind by (rule returns_mono [OF count_underrun_ready [OF assms(1)]]) (auto intro: StandByCheck_ready)
  show ?thesis
    using assms(1) 1 2 by (auto simp: OnStatusUpdateSub_def notify_listener_def split: IOperation.split)
qed

lemma HandleOperationFlushed_ready: "stream_ready r \<Longrightarrow> stream_ready (HandleOperationFlushed r)"
  by (simp add: HandleOperationFlushed_def split: IStatus.split)

lemma OnStatusUpdate_ready:
  assumes "stream_ready r" and "repr_ok R"
  shows "keeps_ready2 (OnStatusUpdate R c r x)"
proof -
  obtain B where B: "r_buffer r = Some B" using assms(1) by (auto elim!: stream_readyE)
  have kept: "stream_ready (r\<lparr>r_standByEnable := b, r_buffer := Some (set_stream_status B s)\<rparr>)" for b s
    using status_kept [of "r\<lparr>r_standByEnable := b\<rparr>" B s] assms(1) B by simp
  show ?thesis
    using assms(1) B kept OnStatusUpdateSub_ready [OF assms] HandleOperationFlushed_ready [OF assms(1)]
    by (auto simp: OnStatusUpdate_def with_buffer_def OnStatusUpdateExt_def split: IOperation.split prod.split)
qed

lemma copies_ready:
  assumes "stream_ready r"
  shows "stream_ready (fst (snd (EnableInnerCap r x)))" "stream_ready (fst (snd (DisableInnerCap r x)))"
    "keeps_ready (EnableDualTone r x)" "stream_ready (fst (snd (DisableDualTone r x)))"
  using assms
  by (auto simp: EnableInnerCap_def Renderer_InitDupStream_def DisableInnerCap_def EnableDualTone_def
      InitDualToneStream_def DisableDualTone_def with_stream_def Let_def split: prod.splits if_splits)

lemma leave_standby_ready:
  assumes "stream_ready r"
  shows "returns stream_ready (leave_standby s r)"
proof -
  obtain B where B: "r_buffer r = Some B" using assms by (auto elim!: stream_readyE)
  have "stream_ready (r\<lparr>r_standByEnable := False, r_buffer := Some (set_stream_status B s)\<rparr>)"
    using status_kept [of "r\<lparr>r_standByEnable := False\<rparr>" B s] assms B by simp
  then show ?thesis using assms B by (auto simp: leave_standby_def with_buffer_def)
qed

lemma start_dual_ready: "start_dual r x = (r', x') \<Longrightarrow> stream_ready r \<Longrightarrow> stream_ready r'"
  by (auto simp: start_dual_def split: prod.splits if_splits)

lemma exit_standby_ready:
  assumes "stream_ready r"
  shows "keeps_ready (exit_standby r x)"
proof -
  obtain B where B: "r_buffer r = Some B" using assms by (auto elim!: stream_readyE)
  have "stream_ready (r\<lparr>r_standByCounter := 0, r_startedTime := t, r_buffer := Some (set_stream_status B s)\<rparr>)" for t s
    using status_kept [of "r\<lparr>r_standByCounter := 0, r_startedTime := t\<rparr>" B s] assms B by simp
  then show ?thesis
    using B by (auto simp: exit_standby_def with_buffer_def Let_def split: prod.split)
qed

lemma Renderer_Start_ready:
  assumes "stream_ready r"
  shows "keeps_ready (Renderer_Start r x)"
proof (cases "r_standByEnable r")
  case True
  then show ?thesis using exit_standby_ready [OF assms] by (simp add: Renderer_Start_def)
next
  case False
  obtain B where B: "r_buffer r = Some B" using assms by (auto elim!: stream_readyE)
  let ?r1 = "r\<lparr>r_needForceWrite := 0, r_status := I_STATUS_STARTING, r_fadeoutFlag := NO_FADING\<rparr>"
  have step: "keeps_ready (exec_bind (SetHandleInfo B p t) (\<lambda>B'.
      case start_dual (?r1\<lparr>r_startedTime := u, r_buffer := Some B', r_resetTime := True\<rparr>) y of
        (r2, x4) \<Rightarrow> Inr (SUCCESS, r2, x4)))" for p t u y
  proof -
    have "stream_ready (?r1\<lparr>r_startedTime := u\<rparr>)" using assms by simp
    from handle_info_ready [OF this, of B p t] B
    have "returns (\<lambda>B'. stream_ready (?r1\<lparr>r_startedTime := u, r_buffer := Some B', r_resetTime := True\<rparr>)) (SetHandleInfo B p t)"
      by simp
    then show ?thesis
      unfolding returns_bind by (rule returns_mono) (auto intro: start_dual_ready split: prod.split)
  qed
  show ?thesis
    using False assms B step
    by (auto simp: Renderer_Start_def Let_def with_buffer_def split: prod.split)
qed

lemma Renderer_Pause_ready:
  assumes "stream_ready r"
  shows "keeps_ready (Renderer_Pause r x)"
proof -
  have "keeps_ready (exec_bind (leave_standby STREAM_PAUSED (r\<lparr>r_status := I_STATUS_PAUSING\<rparr>)) (\<lambda>r1.
      let r2 = r1\<lparr>r_standByCounter := 0\<rparr> in
      case ask (OnManager (r_managerType r2) (PauseRender (r_streamIndex r2))) x of (a, x1) \<Rightarrow>
      Inr (rp_code a, r2, leave_dual (StreamPause False) r2 (tell_dup (StreamPause False) r2 x1))))"
    unfolding returns_bind
    by (rule returns_mono [OF leave_standby_ready]) (use assms in \<open>auto simp: Let_def split: prod.split\<close>)
  then show ?thesis using assms by (simp add: Renderer_Pause_def)
qed

lemma Renderer_Stop_ready:
  assumes "stream_ready r"
  shows "keeps_ready (Renderer_Stop r x)"
proof -
  have "keeps_ready (exec_bind (leave_standby STREAM_STOPPED (r\<lparr>r_status := I_STATUS_STOPPING\<rparr>)) (\<lambda>r1.
      let r2 = r1\<lparr>r_fadeoutFlag := NO_FADING\<rparr> in
      case ask (OnManager (r_managerType r2) (StopRender (r_streamIndex r2))) x of (a, x1) \<Rightarrow>
      Inr (rp_code a, r2, leave_dual StreamStop r2 (tell_dup StreamStop r2 x1))))"
    unfolding returns_bind
    by (rule returns_mono [OF leave_standby_ready]) (use assms in \<open>auto simp: Let_def split: prod.split\<close>)
  then show ?thesis using assms by (simp add: Renderer_Stop_def)
qed

lemma Renderer_Drain_ready: "stream_ready r \<Longrightarrow> keeps_ready (Renderer_Drain b r x)"
  by (simp add: Renderer_Drain_def Let_def with_stream_def split: prod.split)

lemma Renderer_Release_ready:
  assumes "stream_ready r"
  shows "stream_ready (fst (snd (Renderer_Release r x)))"
  using assms
  by (auto simp: Renderer_Release_def Let_def DisableInnerCap_def DisableDualTone_def split: prod.split)

text \<open>A flush ends, and what it leaves is read and cleared.\<close>

lemma Renderer_Flush_spec:
  assumes ready: "stream_ready r" and B: "r_buffer r = Some B" and s: "flushing (r_status r) = Some s"
  shows "\<exists>ret r' x' B'. Renderer_Flush r x = Some (Inr (ret, r', x')) \<and> stream_ready r' \<and>
    r_status r' = s \<and> r_buffer r' = Some B' \<and> GetCurReadFrame B' = GetCurWriteFrame B \<and>
    GetCurWriteFrame B' = GetCurWriteFrame B \<and> flushed B (r_mem r) (r_mem r')"
proof -
  obtain i where i: "basicBufferInfo B = Some i" and so: "sound B" and r: "r_stream r" "r_spanSizeInFrame r = span64 B"
    "length (r_mem r) = totalN B * byteN B" using ready B by (auto elim!: stream_readyE)
  obtain B' m' where walk: "flush_walk (span64 B) (GetCurReadFrame B) (GetCurWriteFrame B) B (r_mem r) = Some (Inr (True, B', m'))"
    and B': "sound B'" "same_sizes B B'" "GetCurReadFrame B' = GetCurWriteFrame B" "GetCurWriteFrame B' = GetCurWriteFrame B"
    and fl: "flushed B (r_mem r) m'" using flush_walk_spec [OF so i r(3)] by blast
  let ?r2 = "r\<lparr>r_status := s, r_buffer := Some B', r_mem := m'\<rparr>"
  have len: "length m' = length (r_mem r)" using fl by (simp add: flushed_def)
  have "stream_ready (r\<lparr>r_buffer := Some B', r_mem := m'\<rparr>)"
    by (rule ready_put_buffer(1) [OF ready B B'(1,2) len])
  then have "stream_ready ?r2" by (simp add: stream_ready_def cong: option.case_cong)
  moreover have "\<exists>ret x'. Renderer_Flush r x = Some (Inr (ret, ?r2, x'))"
    using s walk B r(1,2) by (auto simp: Renderer_Flush_def Let_def with_stream_def split: prod.split)
  ultimately show ?thesis using B' fl by auto
qed

end
