(* ===== verification/RendererFrame.thy ===== *)
theory RendererFrame
  imports RendererControl
begin

text \<open>
  What a normal playback stream does by itself leaves alone what the service looks at when it decides
  about inner capture: the stream's configuration, and whether it is being captured.
\<close>

definition capture_view :: "RendererInServer \<Rightarrow> AudioProcessConfig \<times> bool" where
  "capture_view r = (r_config r, r_isInnerCapEnabled r)"

lemma capture_view_updates [simp]:
  "capture_view (r\<lparr>r_status := s\<rparr>) = capture_view r" "capture_view (r\<lparr>r_buffer := b\<rparr>) = capture_view r"
  "capture_view (r\<lparr>r_mem := m\<rparr>) = capture_view r" "capture_view (r\<lparr>r_needForceWrite := n\<rparr>) = capture_view r"
  "capture_view (r\<lparr>r_afterDrain := c\<rparr>) = capture_view r" "capture_view (r\<lparr>r_standByEnable := c\<rparr>) = capture_view r"
  "capture_view (r\<lparr>r_standByCounter := k\<rparr>) = capture_view r" "capture_view (r\<lparr>r_startedTime := t\<rparr>) = capture_view r"
  "capture_view (r\<lparr>r_lastWriteTime := t\<rparr>) = capture_view r" "capture_view (r\<lparr>r_underrunCount := k\<rparr>) = capture_view r"
  "capture_view (r\<lparr>r_offloadEnable := c\<rparr>) = capture_view r" "capture_view (r\<lparr>r_fadeoutFlag := f\<rparr>) = capture_view r"
  "capture_view (r\<lparr>r_resetTime := c\<rparr>) = capture_view r" "capture_view (r\<lparr>r_effectModeWhenDual := f\<rparr>) = capture_view r"
  "capture_view (r\<lparr>r_oldAppliedVolume := v\<rparr>) = capture_view r" "capture_view (r\<lparr>r_startMuteTime := f\<rparr>) = capture_view r"
  "capture_view (r\<lparr>r_silentState := f\<rparr>) = capture_view r"
  by (simp_all add: capture_view_def)

abbreviation view_kept :: "RendererInServer \<Rightarrow> (RendererInServer \<times> outside) exec \<Rightarrow> bool" where
  "view_kept r m \<equiv> returns (\<lambda>(r', _). capture_view r' = capture_view r) m"

abbreviation view_kept3 :: "RendererInServer \<Rightarrow> ('a \<times> RendererInServer \<times> outside) exec \<Rightarrow> bool" where
  "view_kept3 r m \<equiv> returns (\<lambda>(_, r', _). capture_view r' = capture_view r) m"

lemma returns_True [simp]: "returns (\<lambda>_. True) m"
  by (rule returns_any) simp

lemma with_buffer_returns: "(\<And>B. r_buffer r = Some B \<Longrightarrow> returns P (m B)) \<Longrightarrow> returns P (with_buffer r m)"
  by (auto simp: with_buffer_def split: option.split)

lemma with_stream_returns: "returns P m \<Longrightarrow> returns P (with_stream r m)"
  by (simp add: with_stream_def)

section \<open>Writing\<close>

text \<open>Delivering data leaves alone the stream's status and its stand-by, too.\<close>

definition write_view :: "RendererInServer \<Rightarrow> AudioProcessConfig \<times> bool \<times> IStatus \<times> bool" where
  "write_view r = (r_config r, r_isInnerCapEnabled r, r_status r, r_standByEnable r)"

lemma write_view_updates [simp]:
  "write_view (r\<lparr>r_buffer := b\<rparr>) = write_view r" "write_view (r\<lparr>r_mem := m\<rparr>) = write_view r"
  "write_view (r\<lparr>r_needForceWrite := n\<rparr>) = write_view r" "write_view (r\<lparr>r_afterDrain := c\<rparr>) = write_view r"
  "write_view (r\<lparr>r_standByCounter := k\<rparr>) = write_view r" "write_view (r\<lparr>r_lastWriteTime := t\<rparr>) = write_view r"
  "write_view (r\<lparr>r_fadeoutFlag := f\<rparr>) = write_view r" "write_view (r\<lparr>r_oldAppliedVolume := v\<rparr>) = write_view r"
  "write_view (r\<lparr>r_startMuteTime := f\<rparr>) = write_view r" "write_view (r\<lparr>r_silentState := f\<rparr>) = write_view r"
  by (simp_all add: write_view_def)

lemma write_view_capture: "write_view r' = write_view r \<Longrightarrow> capture_view r' = capture_view r"
  by (simp add: write_view_def capture_view_def)

abbreviation write_kept :: "RendererInServer \<Rightarrow> (RendererInServer \<times> outside) exec \<Rightarrow> bool" where
  "write_kept r m \<equiv> returns (\<lambda>(r', _). write_view r' = write_view r) m"

abbreviation write_kept3 :: "RendererInServer \<Rightarrow> ('a \<times> RendererInServer \<times> outside) exec \<Rightarrow> bool" where
  "write_kept3 r m \<equiv> returns (\<lambda>(_, r', _). write_view r' = write_view r) m"

lemma shape_span_write: "shape_span R b bs r = (bs', r') \<Longrightarrow> write_view r' = write_view r"
  by (auto simp: shape_span_def VolumeHandle_def DoFadingOut_def Let_def split: option.splits if_splits prod.splits)

lemma WriteMute_write: "write_kept r (WriteMuteDataSysEvent bs r x)"
  by (auto simp: WriteMuteDataSysEvent_def Let_def split: list.split prod.split)

lemma write_span_write: "write_kept r (write_span R d p b r x)"
proof -
  obtain bs r1 where sh: "shape_span R b (span_bytes d (r_mem r)) r = (bs, r1)" by (rule prod.exhaust)
  show ?thesis
    unfolding write_span_def sh prod.case Let_def returns_bind
    by (rule returns_mono [OF WriteMute_write])
      (auto simp: shape_span_write [OF sh] intro!: with_buffer_returns returns_bind_any)
qed

lemma WriteData_write: "write_kept3 r (WriteData R r x)"
  unfolding WriteData_def Let_def
proof (intro with_buffer_returns)
  fix B
  have tail: "write_kept3 r (exec_bind m (\<lambda>(r1, x1). case cur_nano (tell FutexWake x1) of (t, x2) \<Rightarrow>
      Inr (SUCCESS, r1\<lparr>r_standByCounter := 0, r_lastWriteTime := t\<rparr>, x2)))" if "write_kept r m" for m
    unfolding returns_bind
    by (rule returns_mono [OF that]) (auto split: prod.split)
  have head: "write_kept r (case res of Inl _ \<Rightarrow> Inr (r, x)
      | Inr d \<Rightarrow> with_stream r (write_span R d n b r x))" for res :: "err + BufferDesc" and n b
    by (cases res) (auto intro!: with_stream_returns write_span_write)
  show "write_kept3 r
    (if GetCurReadFrame B + r_spanSizeInFrame r > GetCurWriteFrame B then Inr (ERR_OPERATION_FAILED, r, tell FutexWake x)
     else exec_bind (GetReadbuffer B (GetCurReadFrame B)) (\<lambda>res.
       exec_bind (case res of Inl _ \<Rightarrow> Inr (r, x)
         | Inr d \<Rightarrow> with_stream r (write_span R d (GetCurReadFrame B + r_spanSizeInFrame r)
             (GetCurReadFrame B + r_spanSizeInFrame r = GetCurWriteFrame B) r x))
         (\<lambda>(r1, x1). case cur_nano (tell FutexWake x1) of (t, x2) \<Rightarrow>
           Inr (SUCCESS, r1\<lparr>r_standByCounter := 0, r_lastWriteTime := t\<rparr>, x2))))"
    by (auto intro!: returns_bind_any tail [OF head])
qed

lemma write_times_write: "write_kept3 r (write_times R n b r x)"
proof (induction n arbitrary: b r x)
  case (Suc n)
  show ?case unfolding write_times.simps returns_bind
  proof (rule returns_mono [OF WriteData_write])
    fix q :: "err \<times> RendererInServer \<times> outside"
    assume q: "case q of (_, r', _) \<Rightarrow> write_view r' = write_view r"
    obtain e r1 x1 where "q = (e, r1, x1)" by (rule prod_cases3)
    then show "write_kept3 r (case q of (ret, r1, x1) \<Rightarrow> write_times R n (ret \<noteq> SUCCESS \<or> b) r1 x1)"
      using q Suc.IH [of r1] by simp
  qed
qed simp

lemma OnWriteData_write: "write_kept3 r (OnWriteData R writable len r x)"
  unfolding OnWriteData_def returns_bind
proof (rule returns_mono [where P = "\<lambda>(_, r', _). write_view r' = write_view r"])
  show "write_kept3 r (if writable then if r_spanSizeInByte r = 0 then Inl DivByZero
      else write_times R (unat (len div r_spanSizeInByte r)) False r x else Inr (True, r, x))"
    by (simp add: write_times_write)
qed (auto simp: returns_bind Let_def split: prod.split intro!: with_stream_returns with_buffer_returns returns_bind_any)

lemma force_write_write: "write_kept r (force_write R b r x)"
proof -
  have "write_kept r (exec_bind (WriteData R r y) (\<lambda>(_, r1, x2). Inr (r1\<lparr>r_needForceWrite := r_needForceWrite r1 + 1\<rparr>, x2)))" for y
    unfolding returns_bind by (rule returns_mono [OF WriteData_write]) auto
  then show ?thesis by (auto simp: force_write_def split: prod.split intro!: with_stream_returns)
qed

lemma UpdateWriteIndex_write: "write_kept3 r (UpdateWriteIndex R b1 b2 r x)"
  unfolding UpdateWriteIndex_def Let_def returns_bind
proof (rule returns_mono [OF force_write_write])
  fix q :: "RendererInServer \<times> outside"
  assume q: "case q of (r', _) \<Rightarrow> write_view r' = write_view r"
  obtain r1 x1 where "q = (r1, x1)" by (rule prod.exhaust)
  then show "write_kept3 r (case q of (r1, x1) \<Rightarrow>
      if r_afterDrain r1 \<and> b2
      then exec_bind (WriteData R (r1\<lparr>r_afterDrain := False\<rparr>) x1) (\<lambda>(_, r2, x2). Inr (SUCCESS, r2, x2))
      else Inr (SUCCESS, r1, x1))"
    using q by (auto simp: returns_bind intro!: returns_mono [OF WriteData_write])
qed

lemma WriteData_view: "view_kept3 r (WriteData R r x)"
  by (rule returns_mono [OF WriteData_write]) (auto dest: write_view_capture)

lemma OnWriteData_view: "view_kept3 r (OnWriteData R writable len r x)"
  by (rule returns_mono [OF OnWriteData_write]) (auto dest: write_view_capture)

lemma UpdateWriteIndex_view: "view_kept3 r (UpdateWriteIndex R b1 b2 r x)"
  by (rule returns_mono [OF UpdateWriteIndex_write]) (auto dest: write_view_capture)

section \<open>Callbacks and requests\<close>

lemma StandByCheck_view: "view_kept r (StandByCheck r x)"
  by (auto simp: StandByCheck_def Let_def split: prod.split intro!: with_stream_returns)

lemma count_underrun_view: "view_kept r (count_underrun r x)"
  by (auto simp: count_underrun_def Let_def split: prod.split intro!: with_buffer_returns)

lemma OnStatusUpdateSub_view: "view_kept r (OnStatusUpdateSub R c r x)"
proof -
  have under: "view_kept r (with_buffer r (\<lambda>B. exec_bind (GetAvailableDataFrames B) (\<lambda>n.
      if n = m then Inr (r\<lparr>r_needForceWrite := 0\<rparr>, x)
      else exec_bind (WriteData R r x) (\<lambda>(_, r1, x1). Inr (r1, x1)))))" for m
    by (auto simp: returns_bind [where m = "WriteData R r x"] intro!: with_buffer_returns returns_bind_any returns_mono [OF WriteData_view])
  have flow: "view_kept r (exec_bind (count_underrun r x) (\<lambda>(r1, x1). StandByCheck r1 x1))"
    unfolding returns_bind
  proof (rule returns_mono [OF count_underrun_view])
    fix q :: "RendererInServer \<times> outside"
    assume "case q of (r', _) \<Rightarrow> capture_view r' = capture_view r"
    then show "view_kept r (case q of (r1, x1) \<Rightarrow> StandByCheck r1 x1)"
      using StandByCheck_view [of "fst q" "snd q"] by (simp add: case_prod_beta)
  qed
  show ?thesis
    by (cases c) (auto simp: OnStatusUpdateSub_def under flow notify_listener_def)
qed

lemma HandleOperationFlushed_view [simp]: "capture_view (HandleOperationFlushed r) = capture_view r"
  by (simp add: HandleOperationFlushed_def split: IStatus.split)

lemma OnStatusUpdateExt_view: "OnStatusUpdateExt r x = (r', x') \<Longrightarrow> capture_view r' = capture_view r"
  by (auto simp: OnStatusUpdateExt_def split: if_splits)

lemma OnStatusUpdate_view: "view_kept r (OnStatusUpdate R c r x)"
proof -
  have ext: "case OnStatusUpdateExt r x of (r', _) \<Rightarrow> capture_view r' = capture_view r"
    by (auto dest: OnStatusUpdateExt_view split: prod.split)
  show ?thesis
    unfolding OnStatusUpdate_def
    by (cases c) (auto simp: OnStatusUpdateSub_view ext split: prod.split intro!: with_buffer_returns)
qed

lemma leave_standby_view: "returns (\<lambda>r'. capture_view r' = capture_view r) (leave_standby s r)"
  by (auto simp: leave_standby_def intro!: with_buffer_returns)

lemma start_dual_view: "start_dual r x = (r', x') \<Longrightarrow> capture_view r' = capture_view r"
  by (auto simp: start_dual_def split: if_splits prod.splits)

lemma exit_standby_view: "view_kept3 r (exit_standby r x)"
  by (auto simp: exit_standby_def Let_def split: prod.split intro!: with_buffer_returns)

lemma Renderer_Start_view: "view_kept3 r (Renderer_Start r x)"
  by (auto simp: Renderer_Start_def Let_def exit_standby_view dest!: start_dual_view
      split: prod.split intro!: with_buffer_returns returns_bind_any)

lemma Renderer_Pause_view: "view_kept3 r (Renderer_Pause r x)"
  by (auto simp: Renderer_Pause_def Let_def returns_bind split: prod.split
      intro!: returns_mono [OF leave_standby_view [of "r\<lparr>r_status := I_STATUS_PAUSING\<rparr>"]])

lemma Renderer_Stop_view: "view_kept3 r (Renderer_Stop r x)"
  by (auto simp: Renderer_Stop_def Let_def returns_bind split: prod.split
      intro!: returns_mono [OF leave_standby_view [of "r\<lparr>r_status := I_STATUS_STOPPING\<rparr>"]])

lemma Renderer_Drain_view: "view_kept3 r (Renderer_Drain b r x)"
  by (auto simp: Renderer_Drain_def Let_def split: prod.split intro!: with_stream_returns)

lemma Renderer_Flush_view:
  assumes "Renderer_Flush r x = Some m"
  shows "view_kept3 r m"
  using assms
  by (auto simp: Renderer_Flush_def Let_def split: option.splits prod.split
      intro!: returns_bind_any with_stream_returns)

lemma choose_manager_view: "choose_manager r x = (r', x') \<Longrightarrow> capture_view r' = capture_view r"
  by (auto simp: choose_manager_def capture_view_def Let_def split: prod.splits if_splits)

lemma CreateRender_view: "CreateRender_on t r x = (e, r', x') \<Longrightarrow> capture_view r' = capture_view r"
  by (auto simp: CreateRender_on_def capture_view_def split: prod.splits)

lemma ConfigServerBuffer_view: "view_kept3 r (Renderer_ConfigServerBuffer os r x)"
  by (auto simp: Renderer_ConfigServerBuffer_def Let_def capture_view_def split: prod.split option.split
      intro!: with_stream_returns returns_bind_any)

lemma Renderer_Init_view: "view_kept3 r (Renderer_Init os r x)"
proof -
  obtain r1 x1 where c: "choose_manager r x = (r1, x1)" by (rule prod.exhaust)
  obtain e r2 x2 where m: "CreateRender_on (r_managerType r1) r1 x1 = (e, r2, x2)" by (rule prod_cases3)
  define again where "again = (if e \<noteq> SUCCESS \<and> (r_managerType r2 = DIRECT_PLAYBACK \<or> r_managerType r2 = VOIP_PLAYBACK)
            then CreateRender_on PLAYBACK (r2\<lparr>r_managerType := PLAYBACK\<rparr>) x2 else (e, r2, x2))"
  obtain e3 r3 x3 where g: "again = (e3, r3, x3)" by (rule prod_cases3)
  have v2: "capture_view r2 = capture_view r" using choose_manager_view [OF c] CreateRender_view [OF m] by simp
  have mt: "capture_view (r2\<lparr>r_managerType := PLAYBACK\<rparr>) = capture_view r2" by (simp add: capture_view_def)
  have v: "capture_view r3 = capture_view r"
    using g v2 mt CreateRender_view [of PLAYBACK "r2\<lparr>r_managerType := PLAYBACK\<rparr>" x2 e3 r3 x3]
    by (auto simp: again_def split: if_splits)
  have si: "capture_view (r3\<lparr>r_streamIndex := i\<rparr>) = capture_view r" for i
    using v by (simp add: capture_view_def)
  have "view_kept3 r (exec_bind (Renderer_ConfigServerBuffer os (r3\<lparr>r_streamIndex := i\<rparr>) y)
      (\<lambda>(code, r5, x5). Inr (if code \<noteq> SUCCESS then ERR_OPERATION_FAILED else SUCCESS, r5, x5)))" for i y
    unfolding returns_bind by (rule returns_mono [OF ConfigServerBuffer_view]) (use si [of i] in auto)
  then show ?thesis
    unfolding Renderer_Init_def c m prod.case again_def [symmetric] g using v by (auto split: prod.split)
qed

section \<open>The steps of a stream\<close>

inductive renderer_act :: "float_repr \<Rightarrow> RendererInServer \<Rightarrow> outside \<Rightarrow> RendererInServer \<Rightarrow> outside \<Rightarrow> bool" for R where
  act_status: "OnStatusUpdate R c r x = Inr (r', x') \<Longrightarrow> renderer_act R r x r' x'"
| act_write: "OnWriteData R w len r x = Inr (code, r', x') \<Longrightarrow> renderer_act R r x r' x'"
| act_update: "UpdateWriteIndex R b1 b2 r x = Inr (code, r', x') \<Longrightarrow> renderer_act R r x r' x'"
| act_start: "Renderer_Start r x = Inr (code, r', x') \<Longrightarrow> renderer_act R r x r' x'"
| act_pause: "Renderer_Pause r x = Inr (code, r', x') \<Longrightarrow> renderer_act R r x r' x'"
| act_flush: "Renderer_Flush r x = Some (Inr (code, r', x')) \<Longrightarrow> renderer_act R r x r' x'"
| act_drain: "Renderer_Drain b r x = Inr (code, r', x') \<Longrightarrow> renderer_act R r x r' x'"
| act_stop: "Renderer_Stop r x = Inr (code, r', x') \<Longrightarrow> renderer_act R r x r' x'"

lemma renderer_act_view: "renderer_act R r x r' x' \<Longrightarrow> capture_view r' = capture_view r"
proof (induction rule: renderer_act.induct)
  case (act_status c r x r' x')
  then show ?case using OnStatusUpdate_view [of r R c x] by simp
next
  case (act_write w len r x code r' x')
  then show ?case using OnWriteData_view [of r R w len x] by simp
next
  case (act_update b1 b2 r x code r' x')
  then show ?case using UpdateWriteIndex_view [of r R b1 b2 x] by simp
next
  case (act_start r x code r' x')
  then show ?case using Renderer_Start_view [of r x] by simp
next
  case (act_pause r x code r' x')
  then show ?case using Renderer_Pause_view [of r x] by simp
next
  case (act_flush r x code r' x')
  then show ?case using Renderer_Flush_view [of r x] by simp
next
  case (act_drain b r x code r' x')
  then show ?case using Renderer_Drain_view [of r b x] by simp
next
  case (act_stop r x code r' x')
  then show ?case using Renderer_Stop_view [of r x] by simp
qed

end
