(* ===== verification/RendererProps.thy ===== *)
theory RendererProps
  imports RendererInv RendererFrame
begin

text \<open>
  What a normal playback stream does: it keeps its buffer sound under every interleaving with its
  client, delivers each span once to all its sinks and gives it back cleared, empties the buffer on a
  flush, follows its protocol of states, and goes to stand-by when its client has fallen silent.
\<close>

section \<open>Reachable streams\<close>

text \<open>One step of the server or of the client. The client writes bytes and a stream status, moves the
  write position and sets volumes; the server's steps are callbacks, requests and settings.\<close>

inductive renderer_step :: "float_repr \<Rightarrow> RendererInServer \<Rightarrow> RendererInServer \<Rightarrow> bool" for R where
  client_bytes: "length m = length (r_mem r) \<Longrightarrow> renderer_step R r (r\<lparr>r_mem := m\<rparr>)"
| client_moves: "r_buffer r = Some B \<Longrightarrow> SetCurWriteFrame B n = Inr (e, B') \<Longrightarrow>
    renderer_step R r (r\<lparr>r_buffer := Some B'\<rparr>)"
| client_status: "r_buffer r = Some B \<Longrightarrow> renderer_step R r (r\<lparr>r_buffer := Some (set_stream_status B s)\<rparr>)"
| client_volume: "r_buffer r = Some B \<Longrightarrow> renderer_step R r (r\<lparr>r_buffer := Some (snd (SetStreamVolume B v))\<rparr>)"
| client_duck: "r_buffer r = Some B \<Longrightarrow> renderer_step R r (r\<lparr>r_buffer := Some (snd (SetDuckFactor B v))\<rparr>)"
| client_mute: "r_buffer r = Some B \<Longrightarrow> renderer_step R r (r\<lparr>r_buffer := Some (snd (SetMuteFactor B v))\<rparr>)"
| client_leaves: "renderer_step R r (r\<lparr>r_listener := False\<rparr>)"
| callback: "OnStatusUpdate R c r x = Inr (r', x') \<Longrightarrow> renderer_step R r r'"
| want_data: "OnWriteData R free len r x = Inr (e, r', x') \<Longrightarrow> renderer_step R r r'"
| update_index: "UpdateWriteIndex R f1 f2 r x = Inr (e, r', x') \<Longrightarrow> renderer_step R r r'"
| do_start: "Renderer_Start r x = Inr (e, r', x') \<Longrightarrow> renderer_step R r r'"
| do_pause: "Renderer_Pause r x = Inr (e, r', x') \<Longrightarrow> renderer_step R r r'"
| do_flush: "Renderer_Flush r x = Some (Inr (e, r', x')) \<Longrightarrow> renderer_step R r r'"
| do_drain: "Renderer_Drain b r x = Inr (e, r', x') \<Longrightarrow> renderer_step R r r'"
| do_stop: "Renderer_Stop r x = Inr (e, r', x') \<Longrightarrow> renderer_step R r r'"
| do_release: "Renderer_Release r x = (e, r', x') \<Longrightarrow> renderer_step R r r'"
| inner_cap_on: "EnableInnerCap r x = (e, r', x') \<Longrightarrow> renderer_step R r r'"
| inner_cap_off: "DisableInnerCap r x = (e, r', x') \<Longrightarrow> renderer_step R r r'"
| dual_on: "EnableDualTone r x = Inr (e, r', x') \<Longrightarrow> renderer_step R r r'"
| dual_off: "DisableDualTone r x = (e, r', x') \<Longrightarrow> renderer_step R r r'"
| get_time: "Renderer_GetAudioTime r x = Inr (e, p, r', x') \<Longrightarrow> renderer_step R r r'"
| low_power: "SetLowPowerVolume v r = (e, r') \<Longrightarrow> renderer_step R r r'"
| silent_mode: "SetSilentModeAndMixWithOthers b r = (e, r') \<Longrightarrow> renderer_step R r r'"
| set_mute: "Renderer_SetNonInterruptMute b r x = (r', x') \<Longrightarrow> renderer_step R r r'"

text \<open>A stream that was initialised; the span size its stream reports fits the 32 bits of the buffer's.\<close>

inductive renderer_reach :: "os_env \<Rightarrow> float_repr \<Rightarrow> RendererInServer \<Rightarrow> bool" for os R where
  created: "Renderer_Init os (RendererInServer_ctor cfg l) x = Inr (SUCCESS, r, x') \<Longrightarrow>
    r_spanSizeInFrame r < 2 ^ 32 \<Longrightarrow> renderer_reach os R r"
| step: "renderer_reach os R r \<Longrightarrow> renderer_step R r r' \<Longrightarrow> renderer_reach os R r'"

lemma made_buffer_ready:
  assumes made: "CreateFromLocal os (ucast t) (ucast (r_spanSizeInFrame r)) y = Inr (Some B)"
    and small: "r_spanSizeInFrame r < 2 ^ 32" and "r_stream r"
  shows "stream_ready (r\<lparr>r_buffer := Some (reset_spans SPAN_READ_DONE B), r_mem := replicate (unat (GetDataSize B)) 0\<rparr>)"
proof -
  have ok: "sound B" using CreateFromLocal_ok [OF made] by (simp add: sound_def)
  have kept: "sound (reset_spans SPAN_READ_DONE B)" "same_sizes B (reset_spans SPAN_READ_DONE B)"
    using ok setters_keep_sound(7) [of B SPAN_READ_DONE] by (simp_all add: keeps_sound_def)
  obtain b1 where "spanSizeInFrame B = ucast (r_spanSizeInFrame r)"
    by (rule CreateFromLocal_shape [OF made])
  moreover have "ucast (ucast (r_spanSizeInFrame r) :: u32) = r_spanSizeInFrame r"
  proof -
    have "unat (r_spanSizeInFrame r) < 2 ^ 32" using small by (simp add: word_less_nat_alt)
    then show ?thesis by (simp add: word_unat_eq_iff unat_ucast_64_32)
  qed
  moreover have "geometry_ok B" using ok by (auto simp: sound_def elim: ring_okE)
  ultimately show ?thesis
    using kept assms(3) by (simp add: stream_ready_def same_sizes_def GetDataSize_def geometry_ok_def)
qed

lemma ready_configured [simp]:
  "stream_ready (r\<lparr>r_isBufferConfiged := b\<rparr>) = stream_ready r"
  "stream_ready (r\<lparr>r_isInited := b\<rparr>) = stream_ready r"
  "stream_ready (r\<lparr>r_listener := b\<rparr>) = stream_ready r"
  by (simp_all add: stream_ready_def cong: option.case_cong)

lemma ConfigServerBuffer_ready:
  assumes "Renderer_ConfigServerBuffer os r x = Inr (SUCCESS, r', x')" and "r_buffer r = None"
    and "r_stream r" and "r_spanSizeInFrame r' < 2 ^ 32"
  shows "stream_ready r'"
proof -
  obtain a1 x1 where a1: "ask (OnStream MainStream GetSpanSizePerFrame) x = (a1, x1)" by (rule prod.exhaust)
  obtain a2 x2 where a2: "ask (OnStream MainStream GetByteSizePerFrame) x1 = (a2, x2)" by (rule prod.exhaust)
  let ?r2 = "r\<lparr>r_spanSizeInFrame := rp_amount a1, r_totalSizeInFrame := rp_amount a1 * 4,
      r_byteSizePerFrame := rp_amount a2, r_spanSizeInByte := rp_amount a1 * rp_amount a2\<rparr>"
  obtain B where made: "CreateFromLocal os (ucast (rp_amount a1 * 4)) (ucast (rp_amount a1)) (ucast (rp_amount a2)) = Inr (Some B)"
    and r': "r' = ?r2\<lparr>r_buffer := Some (reset_spans SPAN_READ_DONE B), r_mem := replicate (unat (GetDataSize B)) 0,
      r_isBufferConfiged := True, r_isInited := True\<rparr>"
    using assms(1-3)
    by (auto simp: Renderer_ConfigServerBuffer_def with_stream_def a1 a2 Let_def exec_bind_Inr
        Renderer_InitBufferStatus_def split: if_splits option.splits)
  have "stream_ready (?r2\<lparr>r_buffer := Some (reset_spans SPAN_READ_DONE B), r_mem := replicate (unat (GetDataSize B)) 0\<rparr>)"
    by (rule made_buffer_ready) (use made assms(3,4) r' in simp_all)
  then show ?thesis by (simp add: r')
qed

lemma Renderer_Init_ready:
  assumes "Renderer_Init os (RendererInServer_ctor cfg l) x = Inr (SUCCESS, r, x')" and "r_spanSizeInFrame r < 2 ^ 32"
  shows "stream_ready r"
proof -
  have chosen: "choose_manager r0 y = (r', y') \<Longrightarrow> r_buffer r' = r_buffer r0" for r0 y r' y'
    by (auto simp: choose_manager_def Let_def split: prod.splits if_splits)
  have created: "CreateRender_on t r0 y = (e, r', y') \<Longrightarrow> r_buffer r' = r_buffer r0" for t r0 y e r' y'
    by (auto simp: CreateRender_on_def split: prod.splits)
  obtain r1 x1 where 1: "choose_manager (RendererInServer_ctor cfg l) x = (r1, x1)" by (rule prod.exhaust)
  obtain e2 r2 x2 where 2: "CreateRender_on (r_managerType r1) r1 x1 = (e2, r2, x2)" by (rule prod_cases3)
  obtain e3 r3 x3 where 3: "(if e2 \<noteq> SUCCESS \<and> (r_managerType r2 = DIRECT_PLAYBACK \<or> r_managerType r2 = VOIP_PLAYBACK)
      then CreateRender_on PLAYBACK (r2\<lparr>r_managerType := PLAYBACK\<rparr>) x2 else (e2, r2, x2)) = (e3, r3, x3)"
    by (rule prod_cases3)
  obtain a x4 where a: "ask (OnStream MainStream GetStreamIndex) x3 = (a, x4)" by (rule prod.exhaust)
  have b: "r_buffer r3 = None"
    using 3 created [of PLAYBACK "r2\<lparr>r_managerType := PLAYBACK\<rparr>" x2 e3 r3 x3] chosen [OF 1] created [OF 2]
    by (simp add: RendererInServer_ctor_def split: if_splits)
  have s: "r_stream r3"
    and "exec_bind (Renderer_ConfigServerBuffer os (r3\<lparr>r_streamIndex := ucast (rp_amount a)\<rparr>) x4)
          (\<lambda>(ret5, r5, x5). Inr (if ret5 \<noteq> SUCCESS then ERR_OPERATION_FAILED else SUCCESS, r5, x5)) = Inr (SUCCESS, r, x')"
    using assms(1) unfolding Renderer_Init_def 1 prod.case 2 3 a by (simp_all split: if_splits)
  then obtain x6 where "Renderer_ConfigServerBuffer os (r3\<lparr>r_streamIndex := ucast (rp_amount a)\<rparr>) x4 = Inr (SUCCESS, r, x6)"
    by (auto simp: exec_bind_Inr split: if_splits)
  moreover have "r_buffer (r3\<lparr>r_streamIndex := ucast (rp_amount a)\<rparr>) = None" "r_stream (r3\<lparr>r_streamIndex := ucast (rp_amount a)\<rparr>)"
    using b s by simp_all
  ultimately show ?thesis using ConfigServerBuffer_ready assms(2) by blast
qed

lemma renderer_step_ready:
  assumes "renderer_step R r r'" and ready: "stream_ready r" and repr: "repr_ok R"
  shows "stream_ready r'"
  using assms(1)
proof cases
  case (client_bytes m)
  then show ?thesis using ready by (simp add: stream_ready_def cong: option.case_cong)
next
  case (client_moves B n e B')
  then show ?thesis
    using ready sound_SetCurWriteFrame ready_put_buffer(2) [OF ready client_moves(2), of B' "r_mem r"]
    by (auto elim!: stream_readyE)
next
  case (client_status B s)
  then show ?thesis using keeps_ready_buffer [OF ready _ setters_keep_sound(6)] by blast
next
  case (client_volume B v)
  then show ?thesis using keeps_ready_buffer [OF ready _ setters_keep_sound(2)] by blast
next
  case (client_duck B v)
  then show ?thesis using keeps_ready_buffer [OF ready _ setters_keep_sound(4)] by blast
next
  case (client_mute B v)
  then show ?thesis using keeps_ready_buffer [OF ready _ setters_keep_sound(3)] by blast
next
  case client_leaves
  then show ?thesis using ready by simp
next
  case (callback c x x')
  then show ?thesis using OnStatusUpdate_ready [OF ready repr, of c x] by simp
next
  case (want_data free len x e x')
  then show ?thesis using OnWriteData_ready [OF ready repr, of free len x] by simp
next
  case (update_index f1 f2 x e x')
  then show ?thesis using UpdateWriteIndex_ready [OF ready repr, of f1 f2 x] by simp
next
  case (do_start x e x')
  then show ?thesis using Renderer_Start_ready [OF ready, of x] by simp
next
  case (do_pause x e x')
  then show ?thesis using Renderer_Pause_ready [OF ready, of x] by simp
next
  case (do_flush x e x')
  obtain B where B: "r_buffer r = Some B" using ready by (auto elim!: stream_readyE)
  show ?thesis
  proof (cases "flushing (r_status r)")
    case None
    then show ?thesis using do_flush ready by (simp add: Renderer_Flush_def)
  next
    case (Some s)
    then show ?thesis
      using Renderer_Flush_spec [OF ready B Some, of x] do_flush by auto
  qed
next
  case (do_drain b x e x')
  then show ?thesis using Renderer_Drain_ready [OF ready, of b x] by simp
next
  case (do_stop x e x')
  then show ?thesis using Renderer_Stop_ready [OF ready, of x] by simp
next
  case (do_release x e x')
  then show ?thesis using Renderer_Release_ready [OF ready, of x] by simp
next
  case (inner_cap_on x e x')
  then show ?thesis using copies_ready(1) [OF ready, of x] by simp
next
  case (inner_cap_off x e x')
  then show ?thesis using copies_ready(2) [OF ready, of x] by simp
next
  case (dual_on x e x')
  then show ?thesis using copies_ready(3) [OF ready, of x] by simp
next
  case (dual_off x e x')
  then show ?thesis using copies_ready(4) [OF ready, of x] by simp
next
  case (get_time x e p x')
  then show ?thesis
    using ready by (auto simp: Renderer_GetAudioTime_def with_stream_def split: if_splits prod.splits)
next
  case (low_power v e)
  then show ?thesis using ready by (auto simp: SetLowPowerVolume_def split: if_splits)
next
  case (silent_mode b e)
  then show ?thesis using ready by (auto simp: SetSilentModeAndMixWithOthers_def)
next
  case (set_mute b x x')
  then show ?thesis using ready by (auto simp: Renderer_SetNonInterruptMute_def)
qed

text \<open>
  C22: Whatever a client does to the shared buffer of a normal playback stream, in every interleaving
  with the callbacks, requests and settings of the server, the ring stays sound, its positions stay on
  span boundaries, and the stream's idea of a span stays that of the buffer.
\<close>

theorem renderer_stays_ready:
  assumes "renderer_reach os R r" and "repr_ok R"
  shows "stream_ready r"
  using assms
proof (induction rule: renderer_reach.induct)
  case (created cfg l x r x')
  then show ?case by (simp add: Renderer_Init_ready)
next
  case (step r r')
  then show ?case using renderer_step_ready by blast
qed

section \<open>Spans and flushes\<close>

text \<open>
  C23: Whenever a whole span is unread, \<open>WriteData\<close> succeeds and delivers exactly that span: the same
  bytes, shaped by the volumes, go to the stream and to the copies that are enabled and present, each
  once and in this order; the span is cleared in the shared buffer and nothing else is; the read
  position moves on by one span, the write position stays; the client is woken.
\<close>

theorem unread_span_is_delivered:
  assumes "stream_ready r" and "r_buffer r = Some B" and "repr_ok R"
    and "unat (GetCurReadFrame B) + spanN B \<le> unat (GetCurWriteFrame B)"
  shows "\<exists>r' x'. WriteData R r x = Inr (SUCCESS, r', x') \<and> delivered R r x r' x'"
  using WriteData_delivers [OF assms] by blast

lemma flush_ends:
  assumes "stream_ready r" and "r_buffer r = Some B" and "flushing (r_status r) = Some s"
  shows "\<exists>ret r' x'. Renderer_Flush r x = Some (Inr (ret, r', x')) \<and> r_status r' = s"
  using Renderer_Flush_spec [OF assms] by blast

text \<open>
  C25: A flush ends. From every status that allows one it leaves no span unread, clears the bytes of the
  spans that were unread and no others, and waits in the status that remembers where it came from.
\<close>

theorem flush_empties_buffer:
  assumes "stream_ready r" and "r_buffer r = Some B" and "flushing (r_status r) = Some s"
  shows "\<exists>ret r' x' B'. Renderer_Flush r x = Some (Inr (ret, r', x')) \<and> r_status r' = s \<and>
    r_buffer r' = Some B' \<and> unread B' = {} \<and> GetCurWriteFrame B' = GetCurWriteFrame B \<and>
    flushed B (r_mem r) (r_mem r')"
proof -
  obtain ret r' x' B' where "Renderer_Flush r x = Some (Inr (ret, r', x'))" "r_status r' = s" "r_buffer r' = Some B'"
    "GetCurReadFrame B' = GetCurWriteFrame B" "GetCurWriteFrame B' = GetCurWriteFrame B" "flushed B (r_mem r) (r_mem r')"
    using Renderer_Flush_spec [OF assms] by blast
  moreover have "unread B' = {}" using calculation(4,5) by (auto simp: unread_def)
  ultimately show ?thesis by blast
qed

section \<open>The protocol\<close>

datatype request = RequestStart | RequestPause | RequestFlush | RequestDrain bool | RequestStop

fun serve :: "request \<Rightarrow> RendererInServer \<Rightarrow> outside \<Rightarrow> (err \<times> RendererInServer \<times> outside) exec option" where
  "serve RequestStart r x = Some (Renderer_Start r x)"
| "serve RequestPause r x = Some (Renderer_Pause r x)"
| "serve RequestFlush r x = Renderer_Flush r x"
| "serve (RequestDrain b) r x = Some (Renderer_Drain b r x)"
| "serve RequestStop r x = Some (Renderer_Stop r x)"

text \<open>The specification: where a request leads, or that it is refused.\<close>

fun protocol :: "request \<Rightarrow> IStatus \<Rightarrow> IStatus option" where
  "protocol RequestStart s =
     (if s \<in> {I_STATUS_IDLE, I_STATUS_PAUSED, I_STATUS_STOPPED} then Some I_STATUS_STARTING else None)"
| "protocol RequestPause s = (if s = I_STATUS_STARTED then Some I_STATUS_PAUSING else None)"
| "protocol RequestFlush s =
     (case s of I_STATUS_STARTED \<Rightarrow> Some I_STATUS_FLUSHING_WHEN_STARTED
      | I_STATUS_PAUSED \<Rightarrow> Some I_STATUS_FLUSHING_WHEN_PAUSED
      | I_STATUS_STOPPED \<Rightarrow> Some I_STATUS_FLUSHING_WHEN_STOPPED
      | _ \<Rightarrow> None)"
| "protocol (RequestDrain b) s = (if s = I_STATUS_STARTED then Some I_STATUS_DRAINING else None)"
| "protocol RequestStop s =
     (if s \<in> {I_STATUS_STARTED, I_STATUS_PAUSED, I_STATUS_DRAINING, I_STATUS_STARTING}
      then Some I_STATUS_STOPPING else None)"

lemma flushing_protocol: "flushing s = protocol RequestFlush s"
  by (cases s) (simp_all add: flushing_def)

lemma start_dual_status: "r_status (fst (start_dual r x)) = r_status r" "r_standByEnable (fst (start_dual r x)) = r_standByEnable r"
  by (simp_all add: start_dual_def split: prod.split)

lemma Renderer_Flush_frame:
  "Renderer_Flush r x = Some (Inr (ret, r', x')) \<Longrightarrow> r_standByEnable r' = r_standByEnable r"
  by (auto simp: Renderer_Flush_def Let_def with_stream_def exec_bind_Inr split: option.splits if_splits prod.splits)

lemma request_served:
  assumes "stream_ready r" and "\<not> r_standByEnable r"
  shows "\<exists>ret r' x'. serve q r x = Some (Inr (ret, r', x')) \<and> \<not> r_standByEnable r' \<and>
    (case protocol q (r_status r) of
       None \<Rightarrow> ret = ERR_ILLEGAL_STATE \<and> r_status r' = r_status r \<and> x' = x
     | Some s \<Rightarrow> r_status r' = s)"
proof -
  obtain B i where B: "r_stream r" "r_buffer r = Some B" "basicBufferInfo B = Some i"
    using assms(1) by (auto elim!: stream_readyE)
  have handle: "SetHandleInfo B p t = Inr (put_info B (i\<lparr>handlePos := p, handleTime := t\<rparr>))" for p t
    by (simp add: SetHandleInfo_def B(3))
  show ?thesis
  proof (cases q)
    case RequestStart
    have "\<exists>ret r' x'. Renderer_Start r x = Inr (ret, r', x') \<and> \<not> r_standByEnable r' \<and> r_status r' = I_STATUS_STARTING"
      if "r_status r \<in> {I_STATUS_IDLE, I_STATUS_PAUSED, I_STATUS_STOPPED}"
      using that assms(2) B(2)
      by (auto simp: Renderer_Start_def Let_def with_buffer_def handle start_dual_def split: prod.split)
    then show ?thesis
      using RequestStart assms(2) by (auto simp: Renderer_Start_def Let_def)
  next
    case RequestPause
    then show ?thesis
      using assms(2) by (auto simp: Renderer_Pause_def leave_standby_def Let_def split: prod.split)
  next
    case RequestFlush
    have p: "protocol q (r_status r) = flushing (r_status r)" unfolding RequestFlush by (rule flushing_protocol [symmetric])
    show ?thesis
    proof (cases "flushing (r_status r)")
      case None
      then show ?thesis unfolding p using RequestFlush assms(2) by (simp add: Renderer_Flush_def)
    next
      case (Some s)
      from flush_ends [OF assms(1) B(2) Some, of x] obtain ret r' x' where
        "Renderer_Flush r x = Some (Inr (ret, r', x'))" "r_status r' = s" by blast
      with Renderer_Flush_frame show ?thesis unfolding p using RequestFlush assms(2) Some by fastforce
    qed
  next
    case (RequestDrain b)
    then show ?thesis
      using assms(2) B(1) by (auto simp: Renderer_Drain_def with_stream_def Let_def split: prod.split)
  next
    case RequestStop
    then show ?thesis
      using assms(2) by (auto simp: Renderer_Stop_def leave_standby_def Let_def split: prod.split)
  qed
qed

text \<open>
  C24: Outside stand-by a request of the client always returns, and the stream follows the protocol: a
  request the protocol has no step for is refused with the error of an illegal state and changes
  neither status nor anything outside; every other leaves exactly the status the protocol names,
  whatever the stream managers answer.
\<close>

theorem requests_follow_protocol:
  assumes "stream_ready r" and "\<not> r_standByEnable r"
  shows "\<exists>ret r' x'. serve q r x = Some (Inr (ret, r', x')) \<and> \<not> r_standByEnable r' \<and>
    (case protocol q (r_status r) of
       None \<Rightarrow> ret = ERR_ILLEGAL_STATE \<and> r_status r' = r_status r \<and> x' = x
     | Some s \<Rightarrow> r_status r' = s)"
  by (rule request_served [OF assms])

text \<open>
  What happens to a stream between two changes of status its stream reports: everything the client
  does, its requests, the stream's demands for data and its underruns, the copies and the settings.
\<close>

inductive between_callbacks :: "float_repr \<Rightarrow> RendererInServer \<Rightarrow> RendererInServer \<Rightarrow> bool" for R where
  no_step: "between_callbacks R r r"
| bytes: "between_callbacks R r r1 \<Longrightarrow> length m = length (r_mem r1) \<Longrightarrow> between_callbacks R r (r1\<lparr>r_mem := m\<rparr>)"
| moves: "between_callbacks R r r1 \<Longrightarrow> r_buffer r1 = Some B \<Longrightarrow> SetCurWriteFrame B n = Inr (e, B') \<Longrightarrow>
    between_callbacks R r (r1\<lparr>r_buffer := Some B'\<rparr>)"
| volume: "between_callbacks R r r1 \<Longrightarrow> r_buffer r1 = Some B \<Longrightarrow>
    B' \<in> {set_stream_status B s, snd (SetStreamVolume B v), snd (SetDuckFactor B v), snd (SetMuteFactor B v)} \<Longrightarrow>
    between_callbacks R r (r1\<lparr>r_buffer := Some B'\<rparr>)"
| asks: "between_callbacks R r r1 \<Longrightarrow> serve q r1 x = Some (Inr (e, r2, x')) \<Longrightarrow> between_callbacks R r r2"
| wants_data: "between_callbacks R r r1 \<Longrightarrow> OnWriteData R free len r1 x = Inr (ok, r2, x') \<Longrightarrow> between_callbacks R r r2"
| underrun: "between_callbacks R r r1 \<Longrightarrow> OnStatusUpdate R OPERATION_UNDERRUN r1 x = Inr (r2, x') \<Longrightarrow> between_callbacks R r r2"
| new_index: "between_callbacks R r r1 \<Longrightarrow> UpdateWriteIndex R f1 f2 r1 x = Inr (e, r2, x') \<Longrightarrow> between_callbacks R r r2"
| copy_on: "between_callbacks R r r1 \<Longrightarrow> EnableInnerCap r1 x = (e, r2, x') \<Longrightarrow> between_callbacks R r r2"
| copy_off: "between_callbacks R r r1 \<Longrightarrow> DisableInnerCap r1 x = (e, r2, x') \<Longrightarrow> between_callbacks R r r2"
| second_on: "between_callbacks R r r1 \<Longrightarrow> EnableDualTone r1 x = Inr (e, r2, x') \<Longrightarrow> between_callbacks R r r2"
| second_off: "between_callbacks R r r1 \<Longrightarrow> DisableDualTone r1 x = (e, r2, x') \<Longrightarrow> between_callbacks R r r2"
| power: "between_callbacks R r r1 \<Longrightarrow> SetLowPowerVolume v r1 = (e, r2) \<Longrightarrow> between_callbacks R r r2"
| silent: "between_callbacks R r r1 \<Longrightarrow> SetSilentModeAndMixWithOthers b r1 = (e, r2) \<Longrightarrow> between_callbacks R r r2"
| mute: "between_callbacks R r r1 \<Longrightarrow> Renderer_SetNonInterruptMute b r1 x = (r2, x') \<Longrightarrow> between_callbacks R r r2"
| leaves: "between_callbacks R r r1 \<Longrightarrow> between_callbacks R r (r1\<lparr>r_listener := False\<rparr>)"
| time: "between_callbacks R r r1 \<Longrightarrow> Renderer_GetAudioTime r1 x = Inr (e, p, r2, x') \<Longrightarrow> between_callbacks R r r2"

definition pausing :: "RendererInServer \<Rightarrow> bool" where
  "pausing r \<longleftrightarrow> stream_ready r \<and> r_status r = I_STATUS_PAUSING \<and> \<not> r_standByEnable r"

lemma pausing_step:
  assumes "pausing r" and "renderer_step R r r'" and "repr_ok R"
    and "r_status r' = r_status r" and "r_standByEnable r' = r_standByEnable r"
  shows "pausing r'"
  using assms renderer_step_ready by (auto simp: pausing_def)

lemma pausing_refuses:
  assumes "pausing r"
  shows "\<exists>r'. serve q r x = Some (Inr (ERR_ILLEGAL_STATE, r', x)) \<and> r_status r' = I_STATUS_PAUSING \<and> \<not> r_standByEnable r'"
proof -
  have "protocol q I_STATUS_PAUSING = None" by (cases q) simp_all
  then show ?thesis using request_served [of r q x] assms by (auto simp: pausing_def)
qed

lemma serve_step: "serve q r x = Some (Inr (e, r', x')) \<Longrightarrow> renderer_step R r r'"
  by (cases q) (auto intro: renderer_step.intros)

lemma write_view_frame: "write_view r' = write_view r \<Longrightarrow> r_status r' = r_status r \<and> r_standByEnable r' = r_standByEnable r"
  by (simp add: write_view_def)

lemma OnUnderrun_write: "write_kept r (OnStatusUpdate R OPERATION_UNDERRUN r x)"
  by (auto simp: OnStatusUpdate_def OnStatusUpdateSub_def returns_bind [where m = "WriteData R r x"]
      intro!: with_buffer_returns returns_bind_any returns_mono [OF WriteData_write])

lemma copies_frame:
  "EnableInnerCap r x = (e, r', x') \<Longrightarrow> r_status r' = r_status r \<and> r_standByEnable r' = r_standByEnable r"
  "DisableInnerCap r x = (e, r', x') \<Longrightarrow> r_status r' = r_status r \<and> r_standByEnable r' = r_standByEnable r"
  "EnableDualTone r x = Inr (e, r', x') \<Longrightarrow> r_status r' = r_status r \<and> r_standByEnable r' = r_standByEnable r"
  "DisableDualTone r x = (e, r', x') \<Longrightarrow> r_status r' = r_status r \<and> r_standByEnable r' = r_standByEnable r"
  by (auto simp: EnableInnerCap_def Renderer_InitDupStream_def DisableInnerCap_def EnableDualTone_def InitDualToneStream_def
      DisableDualTone_def with_stream_def ask_def exec_bind_Inr Let_def split: if_splits)

lemma stays_pausing:
  assumes "between_callbacks R r r'" and "pausing r" and "repr_ok R"
  shows "pausing r'"
  using assms
proof (induction rule: between_callbacks.induct)
  case (bytes r r1 m)
  have "renderer_step R r1 (r1\<lparr>r_mem := m\<rparr>)" using bytes.hyps(2) by (rule renderer_step.client_bytes)
  then show ?case by (rule pausing_step [OF bytes.IH [OF bytes.prems] _ bytes.prems(2)]) simp_all
next
  case (moves r r1 B n e B')
  have "renderer_step R r1 (r1\<lparr>r_buffer := Some B'\<rparr>)" using moves.hyps(2,3) by (rule renderer_step.client_moves)
  then show ?case by (rule pausing_step [OF moves.IH [OF moves.prems] _ moves.prems(2)]) simp_all
next
  case (volume r r1 B B' s v)
  have "renderer_step R r1 (r1\<lparr>r_buffer := Some B'\<rparr>)" using volume.hyps(2,3) by (auto intro: renderer_step.intros)
  then show ?case by (rule pausing_step [OF volume.IH [OF volume.prems] _ volume.prems(2)]) simp_all
next
  case (asks r r1 q x e r2 x')
  have p: "pausing r1" by (rule asks.IH [OF asks.prems])
  show ?case
    using pausing_refuses [OF p, of q x] asks.hyps(2) pausing_step [OF p serve_step [OF asks.hyps(2)] asks.prems(2)] p
    by (auto simp: pausing_def)
next
  case (wants_data r r1 free len x ok r2 x')
  have v: "write_view r2 = write_view r1" using OnWriteData_write [of r1 R free len x] wants_data.hyps(2) by simp
  show ?case
    by (rule pausing_step [OF wants_data.IH [OF wants_data.prems] renderer_step.want_data [OF wants_data.hyps(2)] wants_data.prems(2)]) (simp_all add: write_view_frame [OF v])
next
  case (underrun r r1 x r2 x')
  have v: "write_view r2 = write_view r1" using OnUnderrun_write [of r1 R x] underrun.hyps(2) by simp
  show ?case
    by (rule pausing_step [OF underrun.IH [OF underrun.prems] renderer_step.callback [OF underrun.hyps(2)] underrun.prems(2)]) (simp_all add: write_view_frame [OF v])
next
  case (new_index r r1 f1 f2 x e r2 x')
  have v: "write_view r2 = write_view r1" using UpdateWriteIndex_write [of r1 R f1 f2 x] new_index.hyps(2) by simp
  show ?case
    by (rule pausing_step [OF new_index.IH [OF new_index.prems] renderer_step.update_index [OF new_index.hyps(2)] new_index.prems(2)]) (simp_all add: write_view_frame [OF v])
next
  case (copy_on r r1 x e r2 x')
  show ?case
    by (rule pausing_step [OF copy_on.IH [OF copy_on.prems] renderer_step.inner_cap_on [OF copy_on.hyps(2)] copy_on.prems(2)])
      (simp_all add: copies_frame(1) [OF copy_on.hyps(2)])
next
  case (copy_off r r1 x e r2 x')
  show ?case
    by (rule pausing_step [OF copy_off.IH [OF copy_off.prems] renderer_step.inner_cap_off [OF copy_off.hyps(2)] copy_off.prems(2)])
      (simp_all add: copies_frame(2) [OF copy_off.hyps(2)])
next
  case (second_on r r1 x e r2 x')
  show ?case
    by (rule pausing_step [OF second_on.IH [OF second_on.prems] renderer_step.dual_on [OF second_on.hyps(2)] second_on.prems(2)])
      (simp_all add: copies_frame(3) [OF second_on.hyps(2)])
next
  case (second_off r r1 x e r2 x')
  show ?case
    by (rule pausing_step [OF second_off.IH [OF second_off.prems] renderer_step.dual_off [OF second_off.hyps(2)] second_off.prems(2)])
      (simp_all add: copies_frame(4) [OF second_off.hyps(2)])
next
  case (power r r1 v e r2)
  show ?case
    by (rule pausing_step [OF power.IH [OF power.prems] renderer_step.low_power [OF power.hyps(2)] power.prems(2)])
      (use power.hyps(2) in \<open>auto simp: SetLowPowerVolume_def split: if_splits\<close>)
next
  case (silent r r1 b e r2)
  show ?case
    by (rule pausing_step [OF silent.IH [OF silent.prems] renderer_step.silent_mode [OF silent.hyps(2)] silent.prems(2)])
      (use silent.hyps(2) in \<open>auto simp: SetSilentModeAndMixWithOthers_def split: if_splits\<close>)
next
  case (mute r r1 b x r2 x')
  show ?case
    by (rule pausing_step [OF mute.IH [OF mute.prems] renderer_step.set_mute [OF mute.hyps(2)] mute.prems(2)])
      (use mute.hyps(2) in \<open>auto simp: Renderer_SetNonInterruptMute_def split: if_splits\<close>)
next
  case (leaves r r1)
  show ?case
    by (rule pausing_step [OF leaves.IH [OF leaves.prems] renderer_step.client_leaves leaves.prems(2)]) simp_all
next
  case (time r r1 x e p r2 x')
  show ?case
    by (rule pausing_step [OF time.IH [OF time.prems] renderer_step.get_time [OF time.hyps(2)] time.prems(2)])
      (use time.hyps(2) in \<open>auto simp: Renderer_GetAudioTime_def with_stream_def split: if_splits prod.splits\<close>)
qed simp

text \<open>
  C27: A pause the stream manager refuses cannot be taken back: the stream is left pausing, out of
  stand-by, and stays so through every sequence of requests, client writes, demands for data,
  underruns, copies and settings; every start, pause, flush, drain and stop on the way is refused and
  reaches no manager. Only another callback of the stream, or the release, ends it.
\<close>

theorem failed_pause_wedges:
  assumes "stream_ready r" and "repr_ok R" and "Renderer_Pause r x = Inr (ret, r', x')"
    and "r_status r = I_STATUS_STARTED" and "ret \<noteq> SUCCESS" and "between_callbacks R r' r2"
  shows "r_status r2 = I_STATUS_PAUSING \<and>
    (\<forall>q y. \<exists>r3. serve q r2 y = Some (Inr (ERR_ILLEGAL_STATE, r3, y)) \<and> r_status r3 = I_STATUS_PAUSING)"
proof -
  have "stream_ready r'" using Renderer_Pause_ready [OF assms(1), of x] assms(3) by simp
  moreover have "r_status r' = I_STATUS_PAUSING" "\<not> r_standByEnable r'"
    using assms(3,4)
    by (auto simp: Renderer_Pause_def leave_standby_def with_buffer_def ask_def exec_bind_Inr Let_def
        split: if_splits option.splits)
  ultimately have "pausing r2" using stays_pausing [OF assms(6) _ assms(2)] by (simp add: pausing_def)
  then show ?thesis using pausing_refuses by (fastforce simp: pausing_def)
qed

section \<open>Stand-by\<close>

fun underflows :: "float_repr \<Rightarrow> nat \<Rightarrow> RendererInServer \<Rightarrow> outside \<Rightarrow> (RendererInServer \<times> outside) exec" where
  "underflows R 0 r x = Inr (r, x)"
| "underflows R (Suc n) r x =
     exec_bind (underflows R n r x) (\<lambda>(r1, x1). OnStatusUpdate R OPERATION_UNDERFLOW r1 x1)"

definition standby_limit :: "RendererInServer \<Rightarrow> nat" where
  "standby_limit r = (if r_offloadEnable r then 400 else 50)"

definition standby_time :: "RendererInServer \<Rightarrow> s64" where
  "standby_time r = (if r_offloadEnable r then 8000000000 else 1000000000)"

text \<open>What stays and what counts while a stream that plays gets underflows.\<close>

definition waiting :: "RendererInServer \<Rightarrow> outside \<Rightarrow> nat \<Rightarrow> RendererInServer \<Rightarrow> outside \<Rightarrow> bool" where
  "waiting r x n r' x' \<longleftrightarrow> stream_ready r' \<and> r_listener r' \<and> r_managerType r' = PLAYBACK \<and> \<not> r_standByEnable r' \<and>
     r_standByCounter r' = of_nat n \<and> r_offloadEnable r' = r_offloadEnable r \<and>
     r_lastWriteTime r' = r_lastWriteTime r \<and> now x' = now x \<and> nows x' = nows x + 2 * n \<and> asked x' = asked x"

lemma count_underrun_shape:
  assumes "stream_ready r"
  shows "\<exists>B k. count_underrun r x = Inr (r\<lparr>r_underrunCount := k, r_buffer := Some B\<rparr>, snd (cur_nano x)) \<and>
    stream_ready (r\<lparr>r_buffer := Some B\<rparr>)"
proof -
  obtain B where B: "r_buffer r = Some B" using assms by (auto elim!: stream_readyE)
  have same: "r = r\<lparr>r_underrunCount := r_underrunCount r, r_buffer := Some B\<rparr>" using B by simp
  show ?thesis
  proof (cases "START_MIN_COST <s fst (cur_nano x) - r_startedTime r")
    case True
    then show ?thesis
      using B keeps_ready_buffer [OF assms B setters_keep_sound(5)]
      by (auto simp: count_underrun_def with_buffer_def Let_def split: prod.split)
  next
    case False
    obtain t y where ty: "cur_nano x = (t, y)" by (rule prod.exhaust)
    have "count_underrun r x = Inr (r, snd (cur_nano x))"
      using False by (simp add: count_underrun_def Let_def ty)
    moreover have "r\<lparr>r_buffer := Some B\<rparr> = r" using B by simp
    ultimately show ?thesis using same assms by metis
  qed
qed

lemma underflow_step:
  assumes w: "waiting r x n r1 x1" and n: "n < standby_limit r"
  shows "\<exists>r2 x2. OnStatusUpdate R OPERATION_UNDERFLOW r1 x1 = Inr (r2, x2) \<and>
    (if Suc n = standby_limit r \<and> standby_time r \<le>s now x (nows x + 2 * n + 1) - r_lastWriteTime r
     then r_standByEnable r2 \<and> asked x2 = asked x @ [OnStream MainStream (StreamPause True)]
     else waiting r x (Suc n) r2 x2)"
proof -
  have ready: "stream_ready r1" and l: "r_listener r1" "r_managerType r1 = PLAYBACK" "\<not> r_standByEnable r1"
    and c: "r_standByCounter r1 = of_nat n" "r_offloadEnable r1 = r_offloadEnable r"
    "r_lastWriteTime r1 = r_lastWriteTime r" "now x1 = now x" "nows x1 = nows x + 2 * n" "asked x1 = asked x"
    using w by (simp_all add: waiting_def)
  obtain B i where B: "r_buffer r1 = Some B" "basicBufferInfo B = Some i" "r_stream r1" using ready by (auto elim!: stream_readyE)
  obtain B' k where cu: "count_underrun r1 x1 = Inr (r1\<lparr>r_underrunCount := k, r_buffer := Some B'\<rparr>, snd (cur_nano x1))"
    and B': "stream_ready (r1\<lparr>r_buffer := Some B'\<rparr>)" using count_underrun_shape [OF ready] by blast
  have B'': "stream_ready (r1\<lparr>r_underrunCount := k, r_buffer := Some B'\<rparr>)"
    using B' by (simp add: stream_ready_def cong: option.case_cong)
  let ?r = "r1\<lparr>r_underrunCount := k, r_buffer := Some B', r_standByCounter := r_standByCounter r1 + 1\<rparr>"
  let ?x = "snd (cur_nano (snd (cur_nano x1)))"
  have up: "OnStatusUpdate R OPERATION_UNDERFLOW r1 x1 = StandByCheck (r1\<lparr>r_underrunCount := k, r_buffer := Some B'\<rparr>) (snd (cur_nano x1))"
    using l(1) B(1,2) by (simp add: OnStatusUpdate_def OnStatusUpdateSub_def with_buffer_def GetStreamStatus_def cu)
  have lim: "(if r_offloadEnable r1 then 400 else 50) = (of_nat (standby_limit r) :: u32)"
    and tim: "(if r_offloadEnable r1 then 8 * AUDIO_NS_PER_SECOND else 1000000000) = standby_time r"
    by (simp_all add: c(2) standby_limit_def standby_time_def cfg_defs)
  have cnt: "r_standByCounter ?r = of_nat (Suc n)" by (simp add: c(1))
  have small: "standby_limit r < 2 ^ 32" "Suc n \<le> standby_limit r" using n by (simp_all add: standby_limit_def)
  have reach: "(of_nat (standby_limit r) \<le> (of_nat (Suc n) :: u32)) = (Suc n = standby_limit r)"
  proof -
    have "unat (of_nat k :: u32) = k" if "k < 2 ^ 32" for k using that by (simp add: unat_of_nat)
    then have "unat (of_nat (standby_limit r) :: u32) = standby_limit r" "unat (of_nat (Suc n) :: u32) = Suc n"
      using small by (simp_all del: of_nat_Suc)
    then show ?thesis using small(2) by (simp add: word_le_nat_alt del: of_nat_Suc) linarith
  qed
  have reached: "(of_nat (standby_limit r) \<le> (of_nat n + 1 :: u32)) = (Suc n = standby_limit r)"
    using reach by (simp only: of_nat_Suc add.commute)
  have time: "fst (cur_nano (snd (cur_nano x1))) = now x (nows x + 2 * n + 1)"
    by (simp add: cur_nano_def c)
  have should: "ShouldEnableStandBy ?r (snd (cur_nano x1)) =
      (Suc n = standby_limit r \<and> standby_time r \<le>s now x (nows x + 2 * n + 1) - r_lastWriteTime r, ?x)"
    unfolding ShouldEnableStandBy_def Let_def
    by (simp only: prod.case_eq_if time) (simp add: lim tim c(1,3) reached)
  show ?thesis
    unfolding up StandByCheck_def Let_def
    using l B(3) should B'' c
    by (auto simp: with_stream_def waiting_def cur_nano_def split: prod.split)
qed

text \<open>
  C26: A stream of the playback manager whose client has stopped writing goes to stand-by exactly after the fiftieth
  underflow since the last span (the four hundredth when offloaded), and only if a second (eight) has
  gone by since then; until that its stream is not paused and nothing outside is told.
\<close>

theorem silent_client_goes_to_standby:
  assumes "stream_ready r" and "r_listener r" and "r_managerType r = PLAYBACK" and "\<not> r_standByEnable r"
    and "r_standByCounter r = 0" and "n \<le> standby_limit r"
  shows "\<exists>r' x'. underflows R n r x = Inr (r', x') \<and>
    (if n = standby_limit r \<and> standby_time r \<le>s now x (nows x + 2 * n - 1) - r_lastWriteTime r
     then r_standByEnable r' \<and> asked x' = asked x @ [OnStream MainStream (StreamPause True)]
     else \<not> r_standByEnable r' \<and> r_standByCounter r' = of_nat n \<and> asked x' = asked x)"
proof (cases n)
  case 0
  then show ?thesis using assms(4,5) by (simp add: standby_limit_def)
next
  case (Suc m)
  have steps: "\<exists>r' x'. underflows R k r x = Inr (r', x') \<and> waiting r x k r' x'" if "k \<le> m" for k
    using that
  proof (induction k)
    case 0
    show ?case using assms(1-5) by (simp add: waiting_def)
  next
    case (Suc k)
    then obtain r1 x1 where 1: "underflows R k r x = Inr (r1, x1)" "waiting r x k r1 x1" by auto
    have "k < standby_limit r" "Suc k \<noteq> standby_limit r" using Suc.prems \<open>n = Suc m\<close> assms(6) by linarith+
    then show ?case using underflow_step [OF 1(2), of R] 1(1) by auto
  qed
  obtain r1 x1 where 1: "underflows R m r x = Inr (r1, x1)" "waiting r x m r1 x1" using steps [of m] by auto
  have "m < standby_limit r" using Suc assms(6) by simp
  from underflow_step [OF 1(2) this, of R] show ?thesis
    using 1(1) Suc by (auto simp: waiting_def split: if_splits)
qed

section \<open>The copies\<close>

text \<open>
  When the second sink is taken from a stream that is also captured, the copy for inner capture is
  dropped with it: the stream still counts as captured, so enabling capture again reports success and
  does nothing, but no span is copied any more. The call itself reports an error.
\<close>

theorem dual_tone_off_ends_capture:
  assumes "r_isInnerCapEnabled r" and "r_isDualToneEnabled r" and "DisableDualTone r x = (ret, r', x')"
  shows "ret = ERROR \<and> r_isInnerCapEnabled r' \<and> EnableInnerCap r' y = (SUCCESS, r', y) \<and>
    OtherStreamEnqueue bs r' y = y"
  using assms
  by (auto simp: DisableDualTone_def EnableInnerCap_def OtherStreamEnqueue_def tell_dup_def tell_dual_def)

section \<open>A stream of four spans\<close>

definition demo_reply :: "nat \<Rightarrow> stream_reply" where
  "demo_reply n = \<lparr>rp_code = SUCCESS, rp_made = True, rp_amount = (if n = 2 then 2 else 4), rp_second = 0,
     rp_level = FFin 1, rp_mode = 0, rp_block = None\<rparr>"

definition demo_outside :: outside where
  "demo_outside = \<lparr>now = (\<lambda>n. of_nat n), nows = 0, wall = int, walls = 0, answers = demo_reply, asked = []\<rparr>"

definition demo_renderer :: "u64 \<Rightarrow> RendererInServer" where
  "demo_renderer w = (RendererInServer_ctor demo_config True)
     \<lparr>r_stream := True, r_status := I_STATUS_STARTED, r_spanSizeInFrame := 2, r_spanSizeInByte := 8,
      r_byteSizePerFrame := 4, r_buffer := Some (demo_ring 0 0 w), r_mem := replicate 32 1\<rparr>"

lemma demo_repr_ok: "repr_ok demo_repr"
  by (simp add: repr_ok_def demo_repr_def)

lemma demo_renderer_ready: "w \<in> {0, 2, 4, 6, 8} \<Longrightarrow> stream_ready (demo_renderer w)"
  by (auto simp: stream_ready_def demo_renderer_def sound_def demo_ring_def ring_ok_def geometry_ok_def window_ok_def
      spans_aligned_def init_server_info_def init_positions_def)

lemma demo_init:
  "case Renderer_Init demo_os (RendererInServer_ctor demo_config True) demo_outside of
     Inr (e, r, x) \<Rightarrow> e = SUCCESS \<and> r_spanSizeInFrame r = 2
   | _ \<Rightarrow> False"
  by code_simp

lemma demo_state [simp]:
  "r_status (demo_renderer w) = I_STATUS_STARTED" "r_buffer (demo_renderer w) = Some (demo_ring 0 0 w)"
  "\<not> r_standByEnable (demo_renderer w)" "r_listener (demo_renderer w)" "r_managerType (demo_renderer w) = PLAYBACK"
  "r_standByCounter (demo_renderer w) = 0" "\<not> r_offloadEnable (demo_renderer w)" "r_lastWriteTime (demo_renderer w) = 0"
  by (simp_all add: demo_renderer_def RendererInServer_ctor_def)

theorem renderer_stays_ready_witness:
  "\<exists>r. renderer_reach demo_os demo_repr r \<and> r_silentModeAndMixWithOthers r \<and> stream_ready r"
proof -
  obtain r x where r: "Renderer_Init demo_os (RendererInServer_ctor demo_config True) demo_outside = Inr (SUCCESS, r, x)"
    "r_spanSizeInFrame r = 2" using demo_init by (auto split: sum.splits)
  have "renderer_reach demo_os demo_repr (r\<lparr>r_silentModeAndMixWithOthers := True\<rparr>)"
    by (rule renderer_reach.step [OF renderer_reach.created [OF r(1)]])
      (simp_all add: r(2) renderer_step.silent_mode [of True] SetSilentModeAndMixWithOthers_def)
  with renderer_stays_ready [OF this demo_repr_ok] show ?thesis by (intro exI) auto
qed

theorem unread_span_is_delivered_witness:
  "\<exists>r' x'. WriteData demo_repr (demo_renderer 4) demo_outside = Inr (SUCCESS, r', x') \<and>
     delivered demo_repr (demo_renderer 4) demo_outside r' x'"
proof -
  have "unat (GetCurReadFrame (demo_ring 0 0 4)) + spanN (demo_ring 0 0 4) \<le> unat (GetCurWriteFrame (demo_ring 0 0 4))"
    by code_simp
  then show ?thesis
    using unread_span_is_delivered [OF demo_renderer_ready [of 4] _ demo_repr_ok, of "demo_ring 0 0 4" demo_outside] by simp
qed

theorem flush_empties_buffer_witness:
  "\<exists>ret r' x' B'. Renderer_Flush (demo_renderer 6) demo_outside = Some (Inr (ret, r', x')) \<and>
     r_status r' = I_STATUS_FLUSHING_WHEN_STARTED \<and> r_buffer r' = Some B' \<and> unread B' = {} \<and>
     unread (demo_ring 0 0 6) \<noteq> {}"
proof -
  have "0 \<in> unread (demo_ring 0 0 6)"
    by (simp add: unread_def demo_ring_def init_server_info_def init_positions_def GetCurReadFrame_def GetCurWriteFrame_def)
  then show ?thesis
    using flush_empties_buffer [OF demo_renderer_ready [of 6], of "demo_ring 0 0 6" I_STATUS_FLUSHING_WHEN_STARTED demo_outside]
    by (auto simp: flushing_def)
qed

theorem requests_follow_protocol_witness:
  "\<exists>ret r' x'. serve RequestStop (demo_renderer 2) demo_outside = Some (Inr (ret, r', x')) \<and> r_status r' = I_STATUS_STOPPING"
  using requests_follow_protocol [OF demo_renderer_ready [of 2], of RequestStop demo_outside] by auto

definition demo_refusing :: outside where
  "demo_refusing = demo_outside\<lparr>answers := (\<lambda>n. (demo_reply n)\<lparr>rp_code := ERROR\<rparr>)\<rparr>"

theorem failed_pause_wedges_witness:
  "case Renderer_Pause (demo_renderer 2) demo_refusing of
     Inl _ \<Rightarrow> False
   | Inr (ret, r', x') \<Rightarrow> ret = ERROR \<and>
       (\<exists>r3. serve RequestStart (r'\<lparr>r_mem := replicate 32 0\<rparr>) x' = Some (Inr (ERR_ILLEGAL_STATE, r3, x')) \<and>
         r_status r3 = I_STATUS_PAUSING)"
proof -
  have "case Renderer_Pause (demo_renderer 2) demo_refusing of
      Inl _ \<Rightarrow> False | Inr (ret, r', x') \<Rightarrow> ret = ERROR \<and> length (r_mem r') = 32"
    by (simp add: Renderer_Pause_def leave_standby_def Let_def ask_def demo_refusing_def demo_outside_def demo_renderer_def
        RendererInServer_ctor_def split: prod.split)
  then obtain r' x' where p: "Renderer_Pause (demo_renderer 2) demo_refusing = Inr (ERROR, r', x')" "length (r_mem r') = 32"
    by (auto split: sum.splits)
  have "ERROR \<noteq> SUCCESS" by code_simp
  moreover have "between_callbacks demo_repr r' (r'\<lparr>r_mem := replicate 32 0\<rparr>)"
    by (rule between_callbacks.bytes [OF between_callbacks.no_step]) (simp add: p(2))
  ultimately show ?thesis
    using failed_pause_wedges [OF demo_renderer_ready [of 2] demo_repr_ok p(1), of "r'\<lparr>r_mem := replicate 32 0\<rparr>"]
    by (auto simp: p(1) simp del: serve.simps)
qed

definition demo_silence :: outside where
  "demo_silence = demo_outside\<lparr>now := (\<lambda>n. 2000000000)\<rparr>"

theorem silent_client_goes_to_standby_witness:
  "\<exists>r' x'. underflows demo_repr 50 (demo_renderer 0) demo_silence = Inr (r', x') \<and>
     r_standByEnable r' \<and> asked x' = [OnStream MainStream (StreamPause True)]"
  using silent_client_goes_to_standby [OF demo_renderer_ready [of 0], of 50 demo_repr demo_silence]
  by (simp add: standby_limit_def standby_time_def demo_silence_def demo_outside_def)

definition demo_dual :: RendererInServer where
  "demo_dual = (demo_renderer 2)\<lparr>r_isInnerCapEnabled := True, r_dupStream := True,
     r_isDualToneEnabled := True, r_dualToneStream := True\<rparr>"

theorem dual_tone_off_ends_capture_witness:
  "case DisableDualTone demo_dual demo_outside of (ret, r', x') \<Rightarrow>
     ret = ERROR \<and> r_isInnerCapEnabled r' \<and> EnableInnerCap r' x' = (SUCCESS, r', x') \<and>
     OtherStreamEnqueue [1, 2] demo_dual x' \<noteq> x' \<and> OtherStreamEnqueue [1, 2] r' x' = x'"
proof -
  obtain ret r' x' where d: "DisableDualTone demo_dual demo_outside = (ret, r', x')" by (rule prod_cases3)
  have "asked (OtherStreamEnqueue [1, 2] demo_dual x') \<noteq> asked x'"
    by (simp add: OtherStreamEnqueue_def tell_dup_def tell_dual_def demo_dual_def)
  then have "OtherStreamEnqueue [1, 2] demo_dual x' \<noteq> x'" by metis
  moreover have "r_isInnerCapEnabled demo_dual" "r_isDualToneEnabled demo_dual" by (simp_all add: demo_dual_def)
  ultimately show ?thesis using dual_tone_off_ends_capture [OF _ _ d, of x' "[1, 2]"] by (simp add: d)
qed

end
