(* ===== verification/CapturerInServer.thy ===== *)
theory CapturerInServer
  imports RendererControl AudioRingCache ProcessInServer
begin

text \<open>
  A recording stream on the server's side (\<open>capturer_in_server.cpp\<close>): the blocks its PulseAudio
  stream delivers go through a ring cache, and leave it span by span into the buffer shared with the
  client. The bounds-checked copies of the C library are the parameter \<open>sec\<close>, the permission checks
  of the platform \<open>permission_env\<close> and \<open>downlink\<close>.

  Where a span would be recorded that must not be heard, it goes to the buffer \<open>c_discharge\<close>, which
  exists only for silent inner capture.

  Not modelled: traces, dump files and the media monitor's copy of the data.
\<close>

record CapturerInServer =
  c_stream :: bool
  c_streamIndex :: u32
  c_operation :: IOperation
  c_status :: IStatus
  c_needCheckBackground :: bool
  c_filterConfig :: AudioPlaybackCaptureConfig
  c_listener :: bool
  c_config :: AudioProcessConfig
  c_totalSizeInFrame :: u64
  c_spanSizeInFrame :: u64
  c_byteSizePerFrame :: u64
  c_spanSizeInBytes :: u64
  c_isBufferConfiged :: bool
  c_isInited :: bool
  c_buffer :: "OHAudioBuffer option"
  c_mem :: "u8 list"
  c_needStart :: s32
  c_underflowCount :: s32
  c_resetTime :: bool
  c_resetTimestamp :: u64
  c_overFlowLogFlag :: u32
  c_ringCache :: "AudioRingCache option"
  c_cacheSizeInBytes :: u64
  c_discharge :: "u8 list option"
  c_muteFlag :: bool

definition CAPTURER_BUFFER_DEFAULT_NUM :: u64 where [cfg_defs]: "CAPTURER_BUFFER_DEFAULT_NUM = 4"
definition CAPTURER_BUFFER_WAKE_UP_NUM :: u64 where [cfg_defs]: "CAPTURER_BUFFER_WAKE_UP_NUM = 100"
definition OVERFLOW_LOG_LOOP_COUNT :: u32 where [cfg_defs]: "OVERFLOW_LOG_LOOP_COUNT = 100"
definition LEGACY_MUTE_CAP :: u32 where [cfg_defs]: "LEGACY_MUTE_CAP = 1"
definition MODERN_INNER_CAP :: u32 where [cfg_defs]: "MODERN_INNER_CAP = 2"

definition CapturerInServer_ctor :: "AudioProcessConfig \<Rightarrow> bool \<Rightarrow> CapturerInServer" where
  "CapturerInServer_ctor cfg listener =
     \<lparr>c_stream = False, c_streamIndex = - 1, c_operation = OPERATION_INVALID, c_status = I_STATUS_IDLE,
      c_needCheckBackground = False,
      c_filterConfig = \<lparr>filterOptions = \<lparr>fo_usages = [], fo_usageFilterMode = 0, fo_pids = [], fo_pidFilterMode = 0\<rparr>,
        silentCapture = False\<rparr>,
      c_listener = listener, c_config = cfg, c_totalSizeInFrame = 0, c_spanSizeInFrame = 0,
      c_byteSizePerFrame = 0, c_spanSizeInBytes = 0, c_isBufferConfiged = False, c_isInited = False,
      c_buffer = None, c_mem = [], c_needStart = 0, c_underflowCount = 0, c_resetTime = False,
      c_resetTimestamp = 0, c_overFlowLogFlag = 0, c_ringCache = None, c_cacheSizeInBytes = 0,
      c_discharge = None, c_muteFlag = False\<rparr>"

definition source_is :: "SourceType \<Rightarrow> CapturerInServer \<Rightarrow> bool" where
  "source_is s c \<longleftrightarrow> ci_sourceType (capturerInfo (c_config c)) = source_word s"

text \<open>Inner capture that records silence.\<close>

definition mute_capture :: "CapturerInServer \<Rightarrow> bool" where
  "mute_capture c \<longleftrightarrow> source_is SOURCE_TYPE_PLAYBACK_CAPTURE c \<and> innerCapMode (c_config c) = LEGACY_MUTE_CAP"

definition on_stream :: "CapturerInServer \<Rightarrow> 'a exec \<Rightarrow> 'a exec" where
  "on_stream c m = (if c_stream c then m else Inl NullDeref)"

definition on_buffer :: "CapturerInServer \<Rightarrow> (OHAudioBuffer \<Rightarrow> 'a exec) \<Rightarrow> 'a exec" where
  "on_buffer c m = (case c_buffer c of None \<Rightarrow> Inl NullDeref | Some B \<Rightarrow> m B)"

definition on_cache :: "CapturerInServer \<Rightarrow> (AudioRingCache \<Rightarrow> 'a exec) \<Rightarrow> 'a exec" where
  "on_cache c m = (case c_ringCache c of None \<Rightarrow> Inl NullDeref | Some q \<Rightarrow> m q)"

section \<open>Construction\<close>

text \<open>The times of writing are not reset: the code resets those of reading twice.\<close>

definition reset_read_span :: "SpanInfo \<Rightarrow> SpanInfo" where
  "reset_read_span s =
     s\<lparr>spanStatus := SPAN_READ_DONE, offsetInFrame := 0, readStartTime := 0, readDoneTime := 0,
       volumeStart := 2 ^ VOLUME_SHIFT_NUMBER, volumeEnd := 2 ^ VOLUME_SHIFT_NUMBER, isMute := False\<rparr>"

definition Capturer_InitBufferStatus :: "OHAudioBuffer option \<Rightarrow> err \<times> OHAudioBuffer option" where
  "Capturer_InitBufferStatus b =
     (case b of None \<Rightarrow> (ERR_ILLEGAL_STATE, None)
      | Some B \<Rightarrow>
        let n = unat (GetSpanCount B)
        in (SUCCESS, Some (B\<lparr>spanInfoList := map reset_read_span (take n (spanInfoList B)) @ drop n (spanInfoList B)\<rparr>)))"

definition InitCacheBuffer :: "securec \<Rightarrow> u64 \<Rightarrow> CapturerInServer \<Rightarrow> (err \<times> CapturerInServer) exec" where
  "InitCacheBuffer sec targetSize c =
     (if c_spanSizeInBytes c = 0 then Inr (ERR_OPERATION_FAILED, c)
      else
        let c1 = c\<lparr>c_cacheSizeInBytes := targetSize\<rparr> in
        exec_bind
          (case c_ringCache c1 of
             None \<Rightarrow> Inr (True, RingCache_Create sec targetSize)
           | Some q \<Rightarrow> exec_bind (ReConfig sec q targetSize False)
               (\<lambda>(result, q'). Inr (ret result = OPERATION_SUCCESS, Some q')))
          (\<lambda>(ok, q).
            let c2 = c1\<lparr>c_ringCache := q\<rparr>
            in if \<not> ok then Inr (ERR_OPERATION_FAILED, c2)
               else Inr (SUCCESS, if mute_capture c2
                                  then c2\<lparr>c_discharge := Some (replicate (unat targetSize) 0)\<rparr> else c2)))"

definition Capturer_ConfigServerBuffer ::
    "securec \<Rightarrow> os_env \<Rightarrow> CapturerInServer \<Rightarrow> outside \<Rightarrow> (err \<times> CapturerInServer \<times> outside) exec" where
  "Capturer_ConfigServerBuffer sec os c x =
     (if c_buffer c \<noteq> None then Inr (SUCCESS, c, x)
      else on_stream c
        (case ask (OnStream MainStream GetSpanSizePerFrame) x of (a1, x1) \<Rightarrow>
         case ask (OnStream MainStream GetByteSizePerFrame) x1 of (a2, x2) \<Rightarrow>
         let num = (if source_is SOURCE_TYPE_WAKEUP c then CAPTURER_BUFFER_WAKE_UP_NUM else CAPTURER_BUFFER_DEFAULT_NUM);
             c1 = c\<lparr>c_spanSizeInFrame := rp_amount a1, c_totalSizeInFrame := rp_amount a1 * num,
                    c_byteSizePerFrame := rp_amount a2, c_spanSizeInBytes := rp_amount a2 * rp_amount a1\<rparr>
         in if c_totalSizeInFrame c1 = 0 \<or> c_spanSizeInFrame c1 = 0 \<or>
               c_totalSizeInFrame c1 mod c_spanSizeInFrame c1 \<noteq> 0
            then Inr (ERR_INVALID_PARAM, c1, x2)
            else exec_bind (InitCacheBuffer sec (2 * c_spanSizeInBytes c1) c1) (\<lambda>(ret, c2).
              if ret \<noteq> SUCCESS then Inr (ret, c2, x2)
              else exec_bind (CreateFromLocal os (ucast (c_totalSizeInFrame c2)) (ucast (c_spanSizeInFrame c2))
                                (ucast (c_byteSizePerFrame c2))) (\<lambda>made. case made of
                  None \<Rightarrow> Inr (ERR_OPERATION_FAILED, c2, x2)
                | Some B \<Rightarrow>
                  Inr (SUCCESS,
                    c2\<lparr>c_buffer := snd (Capturer_InitBufferStatus (Some B)),
                       c_mem := replicate (unat (GetDataSize B)) 0,
                       c_isBufferConfiged := True, c_isInited := True\<rparr>, x2)))))"

definition Capturer_Init ::
    "securec \<Rightarrow> os_env \<Rightarrow> CapturerInServer \<Rightarrow> outside \<Rightarrow> (err \<times> CapturerInServer \<times> outside) exec" where
  "Capturer_Init sec os c x =
     (case ask (OnManager RECORDER CreateCapturer) x of (a, x1) \<Rightarrow>
      let c1 = c\<lparr>c_stream := rp_made a\<rparr> in
      if \<not> (rp_code a = SUCCESS \<and> c_stream c1) then Inr (ERR_OPERATION_FAILED, c1, x1)
      else case ask (OnStream MainStream GetStreamIndex) x1 of (i, x2) \<Rightarrow>
        exec_bind (Capturer_ConfigServerBuffer sec os (c1\<lparr>c_streamIndex := ucast (rp_amount i)\<rparr>) x2)
          (\<lambda>(ret, c2, x3). Inr (if ret \<noteq> SUCCESS then ERR_OPERATION_FAILED else SUCCESS, c2, x3)))"

section \<open>Callbacks\<close>

definition flushed_status :: "IStatus \<Rightarrow> IStatus" where
  "flushed_status s =
     (if s = I_STATUS_FLUSHING_WHEN_STARTED then I_STATUS_STARTED
      else if s = I_STATUS_FLUSHING_WHEN_PAUSED then I_STATUS_PAUSED
      else if s = I_STATUS_FLUSHING_WHEN_STOPPED then I_STATUS_STOPPED
      else s)"

definition Capturer_OnStatusUpdate :: "IOperation \<Rightarrow> CapturerInServer \<Rightarrow> outside \<Rightarrow> CapturerInServer \<times> outside" where
  "Capturer_OnStatusUpdate op c x =
     (let c1 = c\<lparr>c_operation := op\<rparr> in
      if c_status c1 = I_STATUS_RELEASED then (c1, x)
      else if \<not> c_listener c1 then (c1, x)
      else case op of
        OPERATION_UNDERFLOW \<Rightarrow>
          (let c2 = c1\<lparr>c_underflowCount := c_underflowCount c1 + 1\<rparr>
           in (c2, tell (OnOperationHandled BUFFER_OVERFLOW (scast (c_underflowCount c2))) x))
      | OPERATION_STARTED \<Rightarrow> (c1\<lparr>c_status := I_STATUS_STARTED\<rparr>, tell (OnOperationHandled START_STREAM 0) x)
      | OPERATION_PAUSED \<Rightarrow> (c1\<lparr>c_status := I_STATUS_PAUSED\<rparr>, tell (OnOperationHandled PAUSE_STREAM 0) x)
      | OPERATION_STOPPED \<Rightarrow> (c1\<lparr>c_status := I_STATUS_STOPPED\<rparr>, tell (OnOperationHandled STOP_STREAM 0) x)
      | OPERATION_FLUSHED \<Rightarrow>
          (c1\<lparr>c_status := flushed_status (c_status c1)\<rparr>, tell (OnOperationHandled FLUSH_STREAM 0) x)
      | _ \<Rightarrow> (c1\<lparr>c_status := I_STATUS_INVALID\<rparr>, x))"

text \<open>The counter that thins out the log; the block the stream has is given back unread.\<close>

definition IsReadDataOverFlow ::
    "u64 \<Rightarrow> u64 \<Rightarrow> CapturerInServer \<Rightarrow> outside \<Rightarrow> (bool \<times> CapturerInServer \<times> outside) exec" where
  "IsReadDataOverFlow len currentWriteFrame c x =
     on_buffer c (\<lambda>B. exec_bind (GetAvailableDataFrames B) (\<lambda>n.
       if n \<le> sint (ucast (c_spanSizeInFrame c) :: s32)
       then on_stream c
         (let c1 = c\<lparr>c_overFlowLogFlag := (if c_overFlowLogFlag c = OVERFLOW_LOG_LOOP_COUNT then 0 else c_overFlowLogFlag c) + 1\<rparr>
          in case ask (OnStream MainStream (DequeueBuffer len)) x of (a, x1) \<Rightarrow>
             Inr (True, c1, tell (OnOperationHandled UPDATE_STREAM currentWriteFrame)
               (tell (OnStream MainStream (EnqueueBuffer (rp_block a))) x1)))
       else Inr (False, c, x)))"

text \<open>Where the span goes: into the shared buffer, or into the buffer nobody reads, which may be null.\<close>

definition span_target :: "CapturerInServer \<Rightarrow> BufferDesc \<Rightarrow> u8 list option" where
  "span_target c d =
     (let n = unat (bufLength d);
          t = (if mute_capture c \<or> c_muteFlag c then map_option (take n) (c_discharge c)
               else Some (span_bytes d (c_mem c)))
      in if c_muteFlag c then map_option (\<lambda>bs. replicate (length bs) 0) t else t)"

definition put_target :: "CapturerInServer \<Rightarrow> BufferDesc \<Rightarrow> u8 list \<Rightarrow> CapturerInServer" where
  "put_target c d bs =
     (if mute_capture c \<or> c_muteFlag c then c\<lparr>c_discharge := map_option (\<lambda>m. overwrite m 0 bs) (c_discharge c)\<rparr>
      else c\<lparr>c_mem := put_span d bs (c_mem c)\<rparr>)"

definition record_span ::
    "securec \<Rightarrow> BufferDesc \<Rightarrow> AudioRingCache \<Rightarrow> CapturerInServer \<Rightarrow> CapturerInServer exec" where
  "record_span sec d q c =
     (if (mute_capture c \<or> c_muteFlag c) \<and> (\<exists>m. c_discharge c = Some m \<and> length m < unat (bufLength d))
      then Inl UncheckedAccess
      else exec_bind (Dequeue sec q \<lparr>dataPtr = span_target c d, dataSize = bufLength d\<rparr>)
        (\<lambda>(_, bs, q'). Inr (put_target (c\<lparr>c_ringCache := Some q'\<rparr>) d bs)))"

text \<open>The block the stream has, through the cache, into the span at the write position.\<close>

definition read_block ::
    "securec \<Rightarrow> u64 \<Rightarrow> OHAudioBuffer \<Rightarrow> CapturerInServer \<Rightarrow> outside \<Rightarrow> (CapturerInServer \<times> outside) exec" where
  "read_block sec currentWriteFrame B c x =
     on_cache c (\<lambda>q.
       if ret (GetWritableSize q) \<noteq> OPERATION_SUCCESS then Inr (c, x)
       else on_stream c
         (case ask (OnStream MainStream (DequeueBuffer (rsize (GetWritableSize q)))) x of (src, x1) \<Rightarrow>
          exec_bind (Enqueue sec q \<lparr>dataPtr = rp_block src,
              dataSize = (case rp_block src of None \<Rightarrow> 0 | Some bs \<Rightarrow> of_nat (length bs))\<rparr>) (\<lambda>(_, q1).
            let c1 = c\<lparr>c_ringCache := Some q1\<rparr>; given = OnStream MainStream (EnqueueBuffer (rp_block src)) in
            if ret (GetReadableSize q1) \<noteq> OPERATION_SUCCESS \<or> rsize (GetReadableSize q1) < c_spanSizeInBytes c1
            then Inr (c1, tell given x1)
            else exec_bind (GetWriteBuffer B (GetCurWriteFrame B)) (\<lambda>res. case res of
                Inl _ \<Rightarrow> Inr (c1, x1)
              | Inr d \<Rightarrow>
                exec_bind (record_span sec d q1 c1) (\<lambda>c2.
                  exec_bind (SetCurWriteFrame B (currentWriteFrame + c_spanSizeInFrame c1)) (\<lambda>(_, B1).
                    case cur_nano x1 of (t, x2) \<Rightarrow>
                    exec_bind (SetHandleInfo B1 currentWriteFrame t) (\<lambda>B2.
                      Inr (c2\<lparr>c_buffer := Some B2\<rparr>,
                        tell (OnOperationHandled UPDATE_STREAM currentWriteFrame) (tell given x2)))))))))"

definition ReadData :: "securec \<Rightarrow> u64 \<Rightarrow> CapturerInServer \<Rightarrow> outside \<Rightarrow> (CapturerInServer \<times> outside) exec" where
  "ReadData sec len c x =
     (if \<not> len \<ge> c_spanSizeInBytes c then Inr (c, x)
      else if \<not> c_listener c then Inr (c, x)
      else on_buffer c (\<lambda>B.
        exec_bind (IsReadDataOverFlow len (GetCurWriteFrame B) c x) (\<lambda>(over, c1, x1).
          if over then Inr (c1, x1) else read_block sec (GetCurWriteFrame B) B c1 x1)))"

definition OnReadData :: "securec \<Rightarrow> u64 \<Rightarrow> CapturerInServer \<Rightarrow> outside \<Rightarrow> (err \<times> CapturerInServer \<times> outside) exec" where
  "OnReadData sec len c x = exec_bind (ReadData sec len c x) (\<lambda>(c', x'). Inr (SUCCESS, c', x'))"

section \<open>Requests of the client\<close>

definition Capturer_ResolveBuffer :: "CapturerInServer \<Rightarrow> err \<times> OHAudioBuffer option" where
  "Capturer_ResolveBuffer c = (SUCCESS, c_buffer c)"

definition Capturer_DequeueBuffer :: "u64 \<Rightarrow> CapturerInServer \<Rightarrow> outside \<Rightarrow> (stream_reply \<times> outside) exec" where
  "Capturer_DequeueBuffer len c x = on_stream c (Inr (ask (OnStream MainStream (DequeueBuffer len)) x))"

definition DrainAudioBuffer :: err where "DrainAudioBuffer = SUCCESS"

definition UpdateReadIndex :: "CapturerInServer \<Rightarrow> err exec" where
  "UpdateReadIndex c = on_buffer c (\<lambda>B. exec_bind (GetAvailableDataFrames B) (\<lambda>_. Inr SUCCESS))"

definition Capturer_GetSessionId :: "CapturerInServer \<Rightarrow> err \<times> u32 option" where
  "Capturer_GetSessionId c =
     (if \<not> c_stream c then (ERR_OPERATION_FAILED, None)
      else (if c_streamIndex c < 2147483647 then SUCCESS else ERR_OPERATION_FAILED, Some (c_streamIndex c)))"

definition token :: "CapturerInServer \<Rightarrow> u32" where
  "token c = appTokenId (appInfo (c_config c))"

text \<open>Recording in the background is checked once it has been found necessary, and noted.\<close>

definition may_record ::
    "permission_env \<Rightarrow> CapturerInServer \<Rightarrow> outside \<Rightarrow> err \<times> CapturerInServer \<times> outside" where
  "may_record pe c x =
     (let c1 = c\<lparr>c_needCheckBackground := c_needCheckBackground c \<or>
                  NeedVerifyBackgroundCapture pe (callerUid (c_config c)) (ci_sourceType (capturerInfo (c_config c)))\<rparr>
      in if \<not> c_needCheckBackground c1 then (SUCCESS, c1, x)
         else if \<not> VerifyBackgroundCapture pe (token c1) (appFullTokenId (appInfo (c_config c1)))
         then (ERR_OPERATION_FAILED, c1, x)
         else case ask (NotifyPrivacy (token c1) True) x of (a, x1) \<Rightarrow>
           (if rp_made a then SUCCESS else ERR_PERMISSION_DENIED, c1, x1))"

definition Capturer_Start ::
    "permission_env \<Rightarrow> CapturerInServer \<Rightarrow> outside \<Rightarrow> (err \<times> CapturerInServer \<times> outside) exec" where
  "Capturer_Start pe c x =
     (let c0 = c\<lparr>c_needStart := 0\<rparr> in
      if c_status c0 \<noteq> I_STATUS_IDLE \<and> c_status c0 \<noteq> I_STATUS_PAUSED \<and> c_status c0 \<noteq> I_STATUS_STOPPED
      then Inr (ERR_ILLEGAL_STATE, c0, x)
      else case may_record pe c0 x of (ok, c1, x1) \<Rightarrow>
        if ok \<noteq> SUCCESS then Inr (ok, c1, x1)
        else
          let c2 = c1\<lparr>c_status := I_STATUS_STARTING\<rparr>
          in on_stream c2 (case ask (OnStream MainStream StreamStart) x1 of (a, x2) \<Rightarrow>
               if rp_code a \<noteq> SUCCESS then Inr (rp_code a, c2, x2)
               else Inr (SUCCESS, c2\<lparr>c_resetTime := True\<rparr>, x2)))"

definition privacy_stop :: "CapturerInServer \<Rightarrow> outside \<Rightarrow> outside" where
  "privacy_stop c x = (if c_needCheckBackground c then tell (NotifyPrivacy (token c) False) x else x)"

definition Capturer_Pause :: "CapturerInServer \<Rightarrow> outside \<Rightarrow> (err \<times> CapturerInServer \<times> outside) exec" where
  "Capturer_Pause c x =
     (if c_status c \<noteq> I_STATUS_STARTED then Inr (ERR_ILLEGAL_STATE, c, x)
      else
        let x1 = privacy_stop c x; c1 = c\<lparr>c_status := I_STATUS_PAUSING\<rparr>
        in on_stream c1 (case ask (OnStream MainStream (StreamPause False)) x1 of (a, x2) \<Rightarrow> Inr (rp_code a, c1, x2)))"

text \<open>The same walk over the unread spans as that of a playback stream.\<close>

definition Capturer_Flush :: "CapturerInServer \<Rightarrow> outside \<Rightarrow> (err \<times> CapturerInServer \<times> outside) exec option" where
  "Capturer_Flush c x =
     (case flushing (c_status c) of
        None \<Rightarrow> Some (Inr (ERR_ILLEGAL_STATE, c, x))
      | Some s \<Rightarrow>
        let c1 = c\<lparr>c_status := s\<rparr> in
        (case c_buffer c1 of
           None \<Rightarrow> Some (Inl NullDeref)
         | Some B \<Rightarrow>
           (case flush_walk (c_spanSizeInFrame c1) (GetCurReadFrame B) (GetCurWriteFrame B) B (c_mem c1) of
              None \<Rightarrow> None
            | Some m \<Rightarrow> Some (exec_bind m (\<lambda>(ok, B', mem').
                let c2 = c1\<lparr>c_buffer := Some B', c_mem := mem'\<rparr>
                in if \<not> ok then Inr (ERR_OPERATION_FAILED, c2, x)
                   else on_stream c2 (case ask (OnStream MainStream StreamFlush) x of (a, x1) \<Rightarrow>
                     Inr (rp_code a, c2, x1)))))))"

definition Capturer_Stop :: "CapturerInServer \<Rightarrow> outside \<Rightarrow> (err \<times> CapturerInServer \<times> outside) exec" where
  "Capturer_Stop c x =
     (if c_status c \<noteq> I_STATUS_STARTED \<and> c_status c \<noteq> I_STATUS_PAUSED then Inr (ERR_ILLEGAL_STATE, c, x)
      else
        let c1 = c\<lparr>c_status := I_STATUS_STOPPING\<rparr>; x1 = privacy_stop c1 x
        in on_stream c1 (case ask (OnStream MainStream StreamStop) x1 of (a, x2) \<Rightarrow> Inr (rp_code a, c1, x2)))"

definition Capturer_Release :: "CapturerInServer \<Rightarrow> outside \<Rightarrow> err \<times> CapturerInServer \<times> outside" where
  "Capturer_Release c x =
     (let x0 = tell (OnService (RemoveCapturer (c_streamIndex c))) x in
      if c_status c = I_STATUS_RELEASED then (SUCCESS, c, x0)
      else case ask (OnManager RECORDER (ReleaseCapturer (c_streamIndex c))) x0 of (a, x1) \<Rightarrow>
        if rp_code a < 0 then (rp_code a, c\<lparr>c_status := I_STATUS_INVALID\<rparr>, x1)
        else
          let c1 = c\<lparr>c_status := I_STATUS_RELEASED\<rparr>;
              x2 = (if source_is SOURCE_TYPE_PLAYBACK_CAPTURE c1
                    then if innerCapMode (c_config c1) = MODERN_INNER_CAP
                         then tell (OnService (RemovePlaybackCapturerFilterInfo (c_streamIndex c1))) x1
                         else tell (OnService (SetInnerCapturerState False)) x1
                    else x1)
          in (SUCCESS, c1, privacy_stop c1 x2))"

text \<open>The destructor.\<close>

definition CapturerInServer_dtor :: "CapturerInServer \<Rightarrow> outside \<Rightarrow> CapturerInServer \<times> outside" where
  "CapturerInServer_dtor c x =
     (if c_status c \<noteq> I_STATUS_RELEASED \<and> c_status c \<noteq> I_STATUS_IDLE then snd (Capturer_Release c x) else (c, x))"

section \<open>Inner capture\<close>

definition defaultUsages :: "enum32 list" where "defaultUsages = [1, 1, 10, 11, 12]"

definition UpdatePlaybackCaptureConfigInLegacy :: "AudioPlaybackCaptureConfig \<Rightarrow> outside \<Rightarrow> err \<times> outside" where
  "UpdatePlaybackCaptureConfigInLegacy config x =
     (SUCCESS, tell (OnService (SetInnerCapturerState True))
        (tell (OnService (SetSupportStreamUsage (fo_usages (filterOptions config)))) x))"

definition UpdatePlaybackCaptureConfig ::
    "(u32 \<Rightarrow> bool) \<Rightarrow> AudioPlaybackCaptureConfig \<Rightarrow> CapturerInServer \<Rightarrow> outside \<Rightarrow> err \<times> CapturerInServer \<times> outside" where
  "UpdatePlaybackCaptureConfig downlink config c x =
     (if \<not> source_is SOURCE_TYPE_PLAYBACK_CAPTURE c then (ERR_INVALID_OPERATION, c, x)
      else if 2 \<in> set (fo_usages (filterOptions config)) \<and> \<not> downlink (token c) then (ERR_PERMISSION_DENIED, c, x)
      else
        let cfg = (if fo_usages (filterOptions config) = []
                   then config\<lparr>filterOptions := (filterOptions config)\<lparr>fo_usages := defaultUsages\<rparr>\<rparr> else config);
            c1 = c\<lparr>c_filterConfig := cfg\<rparr>
        in if innerCapMode (c_config c1) \<noteq> MODERN_INNER_CAP
           then case UpdatePlaybackCaptureConfigInLegacy cfg x of (e, x1) \<Rightarrow> (e, c1, x1)
           else (SUCCESS, c1, tell (OnService (SetPlaybackCapturerFilterInfo (c_streamIndex c1) cfg)) x))"

section \<open>Position and settings\<close>

definition Capturer_GetAudioTime ::
    "CapturerInServer \<Rightarrow> outside \<Rightarrow> (err \<times> (u64 \<times> u64) option \<times> CapturerInServer \<times> outside) exec" where
  "Capturer_GetAudioTime c x =
     (if c_status c = I_STATUS_STOPPED then Inr (ERR_ILLEGAL_STATE, None, c, x)
      else on_stream c
        (case ask (OnStream MainStream GetStreamFramesRead) x of (a, x1) \<Rightarrow>
         case ask (OnStream MainStream GetCurrentTimeStamp) x1 of (b, x2) \<Rightarrow>
         Inr (SUCCESS, Some (rp_amount a, rp_amount b),
              (if c_resetTime c then c\<lparr>c_resetTime := False, c_resetTimestamp := rp_amount b\<rparr> else c), x2)))"

definition Capturer_GetLatency :: "CapturerInServer \<Rightarrow> outside \<Rightarrow> (stream_reply \<times> outside) exec" where
  "Capturer_GetLatency c x = on_stream c (Inr (ask (OnStream MainStream GetLatency) x))"

definition Capturer_SetNonInterruptMute :: "bool \<Rightarrow> CapturerInServer \<Rightarrow> outside \<Rightarrow> CapturerInServer \<times> outside" where
  "Capturer_SetNonInterruptMute mute c x =
     (c\<lparr>c_muteFlag := mute\<rparr>, tell (OnService (UpdateMuteControlSet (c_streamIndex c) mute)) x)"

definition Capturer_RestoreSession :: "CapturerInServer \<Rightarrow> outside \<Rightarrow> outside" where
  "Capturer_RestoreSession c x = (if c_listener c then tell (OnOperationHandled RESTORE_SESSION 0) x else x)"

end
