(* ===== verification/CapturerProps.thy ===== *)
theory CapturerProps
  imports CapturerInServer RendererProps ByteFifo
begin

text \<open>
  What a recording stream does: it keeps its buffer and its ring cache sound, it hands the recorded
  bytes to the client in order and completely, and what it does with them while it is muted.
\<close>

section \<open>The write side of the ring\<close>

lemma GetWriteBuffer_spec:
  assumes "ring_ok b" and i: "basicBufferInfo b = Some i" and room: "writeN i < readN i + totalN b"
  shows "\<exists>d. GetWriteBuffer b (curWriteFrame i) = Inr (Inr d) \<and>
    unat (bufOffset d) = span_offset b (writeN i) \<and> unat (bufLength d) = spanN b * byteN b"
proof -
  from assms have g: "geometry_ok b" and w: "window_ok b i" by (auto elim!: ring_okE)
  have b: "baseN i \<le> writeN i" "writeN i < baseN i + 2 * totalN b" "readN i \<le> writeN i" "totalN b dvd baseN i"
    using w room by (simp_all add: window_ok_def)
  have t: "totalN b < 10485760" using g by (rule geometry_total_small)
  have "unat (2 * totalSizeInFrame b) = 2 * totalN b" using t by (subst unat_mult_lem [THEN iffD1]) simp_all
  then have "writeN i - baseN i < unat (ucast (2 * totalSizeInFrame b) :: u64)" using b(1,2) by (simp add: unat_ucast_32_64)
  then have "curWriteFrame i - basePosInFrame i < ucast (2 * totalSizeInFrame b)"
    using b(1) by (simp only: word_less_nat_alt word_le_nat_alt unat_sub_le)
  then show ?thesis
    using GetBufferByFrame_spec [OF g i b(4,1,2)] b by (simp add: GetWriteBuffer_def i word_le_nat_alt)
qed

lemma SetCurWriteFrame_advances:
  assumes r: "ring_ok b" "spans_aligned b" and i: "basicBufferInfo b = Some i"
    and room: "writeN i + spanN b \<le> readN i + totalN b" and small: "writeN i + spanN b < 2 ^ 64"
  shows "SetCurWriteFrame b (curWriteFrame i + span64 b) =
    Inr (SUCCESS, put_info b (i\<lparr>curWriteFrame := curWriteFrame i + span64 b\<rparr>))"
proof -
  from r i have g: "geometry_ok b" and w: "window_ok b i" by (auto elim!: ring_okE)
  have al: "spanN b dvd writeN i" using r(2) i by (simp add: spans_aligned_def)
  from g have s: "0 < spanN b" "spanN b dvd totalN b" by (simp_all add: geometry_ok_def)
  have t: "totalN b < 10485760" using g by (rule geometry_total_small)
  have w': "baseN i \<le> readN i" "readN i < baseN i + totalN b" "readN i \<le> writeN i" using w by (simp_all add: window_ok_def)
  let ?w = "curWriteFrame i + span64 b"
  have wN: "unat ?w = writeN i + spanN b" using small by (subst unat_add_small) simp_all
  have base: "spanN b dvd baseN i" using s(2) w unfolding window_ok_def by (meson dvd_trans)
  have dN: "unat (?w - basePosInFrame i) = writeN i + spanN b - baseN i"
    using w wN by (subst unat_sub_le) (simp_all add: word_le_nat_alt window_ok_def)
  have "spanN b dvd writeN i + spanN b - baseN i" using al base by (intro dvd_diff_nat) simp_all
  then have d: "(?w - basePosInFrame i) div span64 b * span64 b = ?w - basePosInFrame i"
    by (simp only: word_div_mult_eq_iff dN unat_ucast_32_64)
  have "unat (totalSizeInFrame b + totalSizeInFrame b) = 2 * totalN b" using t by (subst unat_add_small) simp_all
  then have lt: "?w - basePosInFrame i < ucast (totalSizeInFrame b + totalSizeInFrame b)"
    using w' room by (simp add: word_less_nat_alt dN unat_ucast_32_64)
  have rd: "unat (?w - curReadFrame i) = writeN i + spanN b - readN i"
    using w wN by (subst unat_sub_le) (simp_all add: word_le_nat_alt window_ok_def)
  have c: "?w \<noteq> curWriteFrame i" "?w > curWriteFrame i" "?w \<ge> curReadFrame i" "?w - curReadFrame i \<le> total64 b"
    using wN s(1) room w by (auto simp: word_le_nat_alt word_less_nat_alt rd unat_ucast_32_64 window_ok_def)
  show ?thesis
    unfolding SetCurWriteFrame_def Let_def i option.case
    using c lt geometry_span_pos [OF g] d by simp
qed

lemma GetAvailable_spec:
  assumes "ring_ok b" and i: "basicBufferInfo b = Some i"
  shows "GetAvailableDataFrames b = Inr (int (totalN b - (writeN i - readN i)))"
proof -
  from assms have g: "geometry_ok b" and w: "window_ok b i" by (auto elim!: ring_okE)
  have t: "totalN b < 10485760" using g by (rule geometry_total_small)
  have rw: "readN i \<le> writeN i" "writeN i - readN i \<le> totalN b" using w by (auto simp: window_ok_def)
  let ?d = "curWriteFrame i - curReadFrame i"
  have dN: "unat ?d = writeN i - readN i" using rw by (subst unat_sub_le) (simp_all add: word_le_nat_alt)
  have uN: "unat (ucast ?d :: u32) = writeN i - readN i"
    using rw(2) t by (simp add: unat_ucast_64_32 dN)
  have le: "curReadFrame i \<le> curWriteFrame i" "(ucast ?d :: u32) \<le> 2147483647" "ucast ?d \<le> totalSizeInFrame b"
    using rw t by (simp_all add: word_le_nat_alt uN)
  have sN: "unat (totalSizeInFrame b - ucast ?d) = totalN b - (writeN i - readN i)"
    using le(3) by (subst unat_sub_le) (simp_all add: uN)
  have "sint (totalSizeInFrame b - ucast ?d) = int (totalN b - (writeN i - readN i))"
  proof -
    have "unat (totalSizeInFrame b - ucast ?d) < 2 ^ 31" unfolding sN using t by simp
    then have "sint (totalSizeInFrame b - ucast ?d) = int (unat (totalSizeInFrame b - ucast ?d))" by (rule sint_small_u32)
    then show ?thesis by (simp only: sN)
  qed
  then show ?thesis using le by (simp add: GetAvailableDataFrames_def i Let_def)
qed

section \<open>The invariant\<close>

definition capture_ready :: "CapturerInServer \<Rightarrow> bool" where
  "capture_ready c \<longleftrightarrow> c_stream c \<and>
     (case (c_buffer c, c_ringCache c) of
        (Some B, Some q) \<Rightarrow>
          sound B \<and> c_spanSizeInFrame c = span64 B \<and> unat (c_spanSizeInBytes c) = spanN B * byteN B \<and>
          length (c_mem c) = totalN B * byteN B \<and> cache_ok q \<and> cacheN q = 2 * (spanN B * byteN B) \<and>
          (\<forall>m. c_discharge c = Some m \<longrightarrow> length m = 2 * (spanN B * byteN B))
      | _ \<Rightarrow> False)"

lemma capture_readyE:
  assumes "capture_ready c"
  obtains B i q where "c_stream c" "c_buffer c = Some B" "c_ringCache c = Some q" "basicBufferInfo B = Some i"
    "sound B" "geometry_ok B" "window_ok B i" "c_spanSizeInFrame c = span64 B"
    "unat (c_spanSizeInBytes c) = spanN B * byteN B" "length (c_mem c) = totalN B * byteN B" "cache_ok q"
    "cacheN q = 2 * (spanN B * byteN B)" "\<And>m. c_discharge c = Some m \<Longrightarrow> length m = 2 * (spanN B * byteN B)"
proof -
  from assms obtain B q where B: "c_stream c" "c_buffer c = Some B" "c_ringCache c = Some q" "sound B"
    "c_spanSizeInFrame c = span64 B" "unat (c_spanSizeInBytes c) = spanN B * byteN B"
    "length (c_mem c) = totalN B * byteN B" "cache_ok q" "cacheN q = 2 * (spanN B * byteN B)"
    "\<forall>m. c_discharge c = Some m \<longrightarrow> length m = 2 * (spanN B * byteN B)"
    by (auto simp: capture_ready_def split: option.splits)
  from B(4) have "ring_ok B" by (simp add: sound_def)
  then obtain i where "basicBufferInfo B = Some i" "geometry_ok B" "window_ok B i" by (rule ring_okE)
  with B show thesis by (intro that) blast+
qed

lemma capture_ready_put:
  assumes "capture_ready c" and "c_buffer c = Some B" and "sound B'" and "same_sizes B B'"
  shows "capture_ready (c\<lparr>c_buffer := Some B'\<rparr>)"
  using assms by (auto simp: capture_ready_def same_sizes_def split: option.splits)

lemma capture_ready_cache:
  assumes "capture_ready c" and "c_ringCache c = Some q" and "cache_ok q'" and "cacheN q' = cacheN q"
  shows "capture_ready (c\<lparr>c_ringCache := Some q'\<rparr>)"
    and "length m = length (c_mem c) \<Longrightarrow> capture_ready (c\<lparr>c_ringCache := Some q', c_mem := m\<rparr>)"
  using assms by (auto simp: capture_ready_def split: option.splits)

lemma capture_ready_updates [simp]:
  "capture_ready (c\<lparr>c_streamIndex := i\<rparr>) = capture_ready c"
  "capture_ready (c\<lparr>c_operation := op\<rparr>) = capture_ready c"
  "capture_ready (c\<lparr>c_status := s\<rparr>) = capture_ready c"
  "capture_ready (c\<lparr>c_needCheckBackground := b\<rparr>) = capture_ready c"
  "capture_ready (c\<lparr>c_filterConfig := f\<rparr>) = capture_ready c"
  "capture_ready (c\<lparr>c_listener := b\<rparr>) = capture_ready c"
  "capture_ready (c\<lparr>c_isBufferConfiged := b\<rparr>) = capture_ready c"
  "capture_ready (c\<lparr>c_isInited := b\<rparr>) = capture_ready c"
  "capture_ready (c\<lparr>c_needStart := k\<rparr>) = capture_ready c"
  "capture_ready (c\<lparr>c_underflowCount := k\<rparr>) = capture_ready c"
  "capture_ready (c\<lparr>c_resetTime := b\<rparr>) = capture_ready c"
  "capture_ready (c\<lparr>c_resetTimestamp := t\<rparr>) = capture_ready c"
  "capture_ready (c\<lparr>c_overFlowLogFlag := n\<rparr>) = capture_ready c"
  "capture_ready (c\<lparr>c_muteFlag := b\<rparr>) = capture_ready c"
  by (simp_all add: capture_ready_def cong: option.case_cong)

section \<open>Reading a block\<close>

lemma enqueue_appends:
  assumes sec: "securec_ok sec" and ok: "cache_ok q" and "bs \<noteq> []"
    and fit: "length (cache_content q) + length bs \<le> cacheN q"
  shows "\<exists>r q1. Enqueue sec q \<lparr>dataPtr = Some bs, dataSize = of_nat (length bs)\<rparr> = Inr (r, q1) \<and> cache_ok q1 \<and>
    cache_content q1 = cache_content q @ bs \<and> cacheN q1 = cacheN q"
proof -
  have "length bs \<le> 16777216" using fit cache_okD(3) [OF ok] by linarith
  then have n: "unat (of_nat (length bs) :: u64) = length bs" by (simp add: unat_of_nat)
  have f: "cwriteN q - creadN q + unat (of_nat (length bs) :: u64) \<le> cacheN q" using fit by (simp add: n)
  from Enqueue_fits [OF sec ok assms(3) n [symmetric] f] obtain mem where
    e: "Enqueue sec q \<lparr>dataPtr = Some bs, dataSize = of_nat (length bs)\<rparr> =
        Inr (\<lparr>ret = OPERATION_SUCCESS, rsize = of_nat (length bs)\<rparr>, q\<lparr>basePtr := mem, writeIndex := writeIndex q + of_nat (length bs)\<rparr>)"
    and m: "length mem = cacheN q" "ring_list mem (creadN q - cbaseN q) (cwriteN q - creadN q + unat (of_nat (length bs) :: u64)) = cache_content q @ bs"
    by blast
  let ?q1 = "q\<lparr>basePtr := mem, writeIndex := writeIndex q + of_nat (length bs)\<rparr>"
  have ok1: "cache_ok ?q1" by (rule cache_ok_put [OF ok f m(1)])
  have w: "cwriteN ?q1 = cwriteN q + length bs" using unat_write_end [OF ok f] by (simp add: n)
  have "cwriteN ?q1 - creadN ?q1 = cwriteN q - creadN q + length bs" using w cache_okD(7) [OF ok] by simp
  then have "cache_content ?q1 = cache_content q @ bs" using m(2) by (simp add: cache_content_def n)
  with e ok1 show ?thesis by (intro exI [of _ "\<lparr>ret = OPERATION_SUCCESS, rsize = of_nat (length bs)\<rparr>"] exI [of _ ?q1]) simp
qed

text \<open>With room for more than a span and a block that completes one, everything up to the choice of
  where the span goes.\<close>

lemma ReadData_run:
  assumes ready: "capture_ready c" and l: "c_listener c" and sec: "securec_ok sec"
    and B: "c_buffer c = Some B" "basicBufferInfo B = Some i" "c_ringCache c = Some q"
    and len: "c_spanSizeInBytes c \<le> len"
    and room: "writeN i + spanN B < readN i + totalN B" "writeN i + spanN B < 2 ^ 64"
    and blk: "rp_block (answers x (length (asked x))) = Some bs" "bs \<noteq> []"
    and fit: "length (cache_content q) + length bs \<le> cacheN q" "spanN B * byteN B \<le> length (cache_content q) + length bs"
  shows "\<exists>d q1 B2 x'. cache_ok q1 \<and> cache_content q1 = cache_content q @ bs \<and> cacheN q1 = cacheN q \<and>
    unat (bufOffset d) = span_offset B (writeN i) \<and> unat (bufLength d) = spanN B * byteN B \<and>
    sound B2 \<and> same_sizes B B2 \<and> basicBufferInfo B2 \<noteq> None \<and> GetCurReadFrame B2 = curReadFrame i \<and>
    unat (GetCurWriteFrame B2) = writeN i + spanN B \<and>
    asked x' = asked x @ [OnStream MainStream (DequeueBuffer (rsize (GetWritableSize q))),
      OnStream MainStream (EnqueueBuffer (Some bs)), OnOperationHandled UPDATE_STREAM (curWriteFrame i)] \<and>
    ReadData sec len c x = exec_bind (record_span sec d q1 (c\<lparr>c_ringCache := Some q1\<rparr>))
      (\<lambda>c3. Inr (c3\<lparr>c_buffer := Some B2\<rparr>, x'))"
proof -
  from ready B have r: "c_stream c" "sound B" "geometry_ok B" "window_ok B i" "c_spanSizeInFrame c = span64 B"
    "unat (c_spanSizeInBytes c) = spanN B * byteN B" "cache_ok q" by (auto elim!: capture_readyE)
  have ring: "ring_ok B" "spans_aligned B" using r(2) by (simp_all add: sound_def)
  have pos: "GetCurWriteFrame B = curWriteFrame i" "GetCurReadFrame B = curReadFrame i"
    by (simp_all add: GetCurWriteFrame_def GetCurReadFrame_def B)
  have s: "spanN B < 10485760"
  proof -
    have "spanN B \<le> totalN B" using r(3) by (simp add: geometry_ok_def dvd_imp_le)
    then show ?thesis using geometry_total_small [OF r(3)] by simp
  qed
  have "sint (ucast (c_spanSizeInFrame c) :: s32) = int (spanN B)"
  proof -
    have "unat (span64 B) < 2 ^ 32" using s by (simp add: unat_ucast_32_64)
    then have "(ucast (span64 B) :: s32) = spanSizeInFrame B"
      by (simp only: word_unat_eq_iff unat_ucast_64_32 unat_ucast_32_64)
    then show ?thesis using s by (simp add: r(5) sint_small_u32)
  qed
  moreover have "writeN i - readN i + spanN B < totalN B"
  proof -
    have "readN i \<le> writeN i" using r(4) by (simp add: window_ok_def)
    then show ?thesis using room(1) by linarith
  qed
  then have "spanN B < totalN B - (writeN i - readN i)" by linarith
  ultimately have over: "\<not> int (totalN B - (writeN i - readN i)) \<le> sint (ucast (c_spanSizeInFrame c) :: s32)"
    by (simp only: not_le of_nat_less_iff)
  have no: "IsReadDataOverFlow len w c x = Inr (False, c, x)" for w
    using over by (simp add: IsReadDataOverFlow_def on_buffer_def B GetAvailable_spec [OF ring(1) B(2)])
  obtain e q1 where enq: "Enqueue sec q \<lparr>dataPtr = Some bs, dataSize = of_nat (length bs)\<rparr> = Inr (e, q1)"
    and q1: "cache_ok q1" "cache_content q1 = cache_content q @ bs" "cacheN q1 = cacheN q"
    using enqueue_appends [OF sec r(7) blk(2) fit(1)] by blast
  have wr: "ret (GetWritableSize q) = OPERATION_SUCCESS"
    using writable_ok(1) [OF r(7)] by (simp add: GetWritableSize_def)
  have rd: "ret (GetReadableSize q1) = OPERATION_SUCCESS" "unat (rsize (GetReadableSize q1)) = length (cache_content q1)"
    using readable_ok [OF q1(1)] by (simp_all add: GetReadableSize_def)
  have enough: "\<not> rsize (GetReadableSize q1) < c_spanSizeInBytes c"
    using fit(2) by (simp add: word_less_nat_alt rd(2) r(6) q1(2) del: length_cache_content)
  obtain d where d: "GetWriteBuffer B (curWriteFrame i) = Inr (Inr d)" "unat (bufOffset d) = span_offset B (writeN i)"
    "unat (bufLength d) = spanN B * byteN B"
    using GetWriteBuffer_spec [OF ring(1) B(2)] room(1) by auto
  let ?B1 = "put_info B (i\<lparr>curWriteFrame := curWriteFrame i + span64 B\<rparr>)"
  have adv: "SetCurWriteFrame B (curWriteFrame i + span64 B) = Inr (SUCCESS, ?B1)"
    by (rule SetCurWriteFrame_advances [OF ring B(2) _ room(2)]) (use room(1) in simp)
  have s1: "sound ?B1" "same_sizes B ?B1" using sound_SetCurWriteFrame [OF r(2) adv] by blast+
  define a where "a = answers x (length (asked x))"
  define x2 where "x2 = tell (OnStream MainStream (DequeueBuffer (rsize (GetWritableSize q)))) x"
  have dq: "ask (OnStream MainStream (DequeueBuffer (rsize (GetWritableSize q)))) x = (a, x2)"
    by (simp add: ask_def a_def x2_def)
  obtain t x3 where t: "cur_nano x2 = (t, x3)" by (rule prod.exhaust)
  have x3: "asked x3 = asked x2" using asked_clocks(1) [of x2] by (simp add: t)
  define B2 where "B2 = put_info B (i\<lparr>curWriteFrame := curWriteFrame i + span64 B, handlePos := curWriteFrame i, handleTime := t\<rparr>)"
  have hi: "SetHandleInfo ?B1 (curWriteFrame i) t = Inr B2" by (simp add: SetHandleInfo_def B2_def)
  have keep: "keeps_sound ?B1 B2" by (rule setters_keep_sound(1) [OF hi])
  have B2: "sound B2" "same_sizes B B2" using keep s1 by (auto simp: keeps_sound_def same_sizes_def)
  let ?x' = "tell (OnOperationHandled UPDATE_STREAM (curWriteFrame i)) (tell (OnStream MainStream (EnqueueBuffer (Some bs))) x3)"
  have run: "ReadData sec len c x = exec_bind (record_span sec d q1 (c\<lparr>c_ringCache := Some q1\<rparr>)) (\<lambda>c3. Inr (c3\<lparr>c_buffer := Some B2\<rparr>, ?x'))"
    unfolding ReadData_def read_block_def on_buffer_def B option.case Let_def pos no exec_bind_simps prod.case on_cache_def on_stream_def dq if_False
    using len l r(1) wr rd(1) enough blk(1)
    by (simp add: enq a_def [symmetric] d(1) adv t hi r(5))
  have "writeN i + spanN B < 2 ^ 64" by (rule room(2))
  then have "unat (GetCurWriteFrame B2) = writeN i + spanN B"
    by (simp add: GetCurWriteFrame_def B2_def) (subst unat_add_small, simp_all)
  moreover have "GetCurReadFrame B2 = curReadFrame i" by (simp add: GetCurReadFrame_def B2_def)
  moreover have "basicBufferInfo B2 \<noteq> None" by (simp add: B2_def)
  moreover have "asked ?x' = asked x @ [OnStream MainStream (DequeueBuffer (rsize (GetWritableSize q))),
      OnStream MainStream (EnqueueBuffer (Some bs)), OnOperationHandled UPDATE_STREAM (curWriteFrame i)]"
    by (simp add: x3 x2_def)
  ultimately show ?thesis using q1 d(2,3) B2 run by blast
qed

lemma mute_capture_kept [simp]: "mute_capture (c\<lparr>c_ringCache := q\<rparr>) = mute_capture c"
  "mute_capture (c\<lparr>c_muteFlag := b\<rparr>) = mute_capture c" "mute_capture (c\<lparr>c_mem := m\<rparr>) = mute_capture c"
  "mute_capture (c\<lparr>c_buffer := B\<rparr>) = mute_capture c"
  by (simp_all add: mute_capture_def source_is_def)

text \<open>A span that may be heard.\<close>

lemma record_heard:
  assumes sec: "securec_ok sec" and q: "cache_ok q" and quiet: "\<not> mute_capture c" "\<not> c_muteFlag c"
    and n: "unat (bufLength d) = n" "0 < n" "n \<le> length (cache_content q)" "unat (bufOffset d) + n \<le> length (c_mem c)"
  shows "\<exists>q'. record_span sec d q c =
      Inr (c\<lparr>c_ringCache := Some q', c_mem := put_span d (take n (cache_content q)) (c_mem c)\<rparr>) \<and>
    cache_ok q' \<and> cache_content q' = drop n (cache_content q) \<and> cacheN q' = cacheN q"
proof -
  let ?out = "span_bytes d (c_mem c)"
  have out: "length ?out = unat (bufLength d)" by (rule length_span_bytes) (use n in simp)
  have pos: "0 < unat (bufLength d)" "unat (bufLength d) \<le> cwriteN q - creadN q" using n by simp_all
  from Dequeue_avail [OF sec q pos out] obtain q' where
    "Dequeue sec q \<lparr>dataPtr = Some ?out, dataSize = bufLength d\<rparr> =
      Inr (\<lparr>ret = OPERATION_SUCCESS, rsize = bufLength d\<rparr>, take n (cache_content q), q')"
    "cache_ok q'" "cache_content q' = drop n (cache_content q)" "cacheN q' = cacheN q" by (auto simp: n(1))
  then show ?thesis
    using quiet by (auto simp: record_span_def span_target_def put_target_def)
qed

text \<open>A span while the stream is muted, without a buffer to discharge it into.\<close>

lemma record_muted:
  assumes "c_muteFlag c" and "c_discharge c = None"
  shows "record_span sec d q c = Inr (c\<lparr>c_ringCache := Some q\<rparr>)"
  using assms by (simp add: record_span_def span_target_def put_target_def Dequeue_def)

lemma record_span_ready:
  assumes ready: "capture_ready c" and sec: "securec_ok sec" and B: "c_buffer c = Some B"
    and q: "cache_ok q" "cacheN q = 2 * (spanN B * byteN B)" "spanN B * byteN B \<le> length (cache_content q)"
    and d: "unat (bufOffset d) + unat (bufLength d) \<le> length (c_mem c)" "unat (bufLength d) = spanN B * byteN B"
  shows "returns (\<lambda>c3. capture_ready c3 \<and> c_buffer c3 = Some B) (record_span sec d q c)"
proof -
  obtain q0 where q0: "c_ringCache c = Some q0" "cacheN q0 = 2 * (spanN B * byteN B)" and g: "geometry_ok B"
    and dis: "\<And>m. c_discharge c = Some m \<Longrightarrow> length m = 2 * (spanN B * byteN B)"
    using ready B by (auto elim!: capture_readyE)
  have pos: "0 < unat (bufLength d)" using g by (simp add: d(2) geometry_ok_def)
  show ?thesis
  proof (cases "mute_capture c \<or> c_muteFlag c")
    case False
    from record_heard [OF sec q(1) _ _ refl pos _ d(1)] False q(3) d(2) obtain q' where
      "record_span sec d q c = Inr (c\<lparr>c_ringCache := Some q',
         c_mem := put_span d (take (unat (bufLength d)) (cache_content q)) (c_mem c)\<rparr>)"
      "cache_ok q'" "cacheN q' = cacheN q" by auto
    moreover have "length (put_span d (take (unat (bufLength d)) (cache_content q)) (c_mem c)) = length (c_mem c)"
      using d q(3) by (intro length_put_span) simp
    ultimately show ?thesis using capture_ready_cache(2) [OF ready q0(1)] q(2) q0(2) B by simp
  next
    case True
    show ?thesis
    proof (cases "c_discharge c")
      case None
      then have "record_span sec d q c = Inr (c\<lparr>c_ringCache := Some q\<rparr>)"
        using True by (auto simp: record_span_def span_target_def put_target_def Dequeue_def)
      then show ?thesis using capture_ready_cache(1) [OF ready q0(1) q(1)] q(2) q0(2) B by simp
    next
      case (Some m)
      have m: "length m = 2 * (spanN B * byteN B)" by (rule dis [OF Some])
      define out where "out = (if c_muteFlag c then replicate (unat (bufLength d)) 0 else take (unat (bufLength d)) m)"
      have out: "span_target c d = Some out" "length out = unat (bufLength d)"
        using True Some m d(2) by (auto simp: span_target_def Let_def out_def)
      have av: "unat (bufLength d) \<le> cwriteN q - creadN q" using q(3) d(2) by simp
      from Dequeue_avail [OF sec q(1) pos av out(2)] obtain q' where
        dq: "Dequeue sec q \<lparr>dataPtr = Some out, dataSize = bufLength d\<rparr> =
          Inr (\<lparr>ret = OPERATION_SUCCESS, rsize = bufLength d\<rparr>, take (unat (bufLength d)) (cache_content q), q')"
        "cache_ok q'" "cacheN q' = cacheN q" by blast
      let ?bs = "take (unat (bufLength d)) (cache_content q)"
      have run: "record_span sec d q c = Inr (c\<lparr>c_ringCache := Some q', c_discharge := Some (overwrite m 0 ?bs)\<rparr>)"
        using True Some m d(2) dq(1) by (auto simp: record_span_def out put_target_def)
      have "length (overwrite m 0 ?bs) = length m" using m d(2) q(3) by (simp add: overwrite_def)
      then have "capture_ready (c\<lparr>c_ringCache := Some q', c_discharge := Some (overwrite m 0 ?bs)\<rparr>)"
        using ready B q0 dq(2,3) q(2) m by (simp add: capture_ready_def)
      then show ?thesis by (simp add: run B)
    qed
  qed
qed

lemma enqueue_keeps:
  assumes sec: "securec_ok sec" and ok: "cache_ok q" and short: "\<And>bs. blk = Some bs \<Longrightarrow> length bs < 2 ^ 64"
  shows "\<exists>r q1. Enqueue sec q \<lparr>dataPtr = blk, dataSize = (case blk of None \<Rightarrow> 0 | Some bs \<Rightarrow> of_nat (length bs))\<rparr> = Inr (r, q1) \<and>
    cache_ok q1 \<and> cacheN q1 = cacheN q"
proof (cases blk)
  case None
  then show ?thesis using ok by (simp add: Enqueue_def)
next
  case (Some bs)
  have n: "length bs = unat (of_nat (length bs) :: u64)" using short [OF Some] by (simp add: unat_of_nat)
  show ?thesis
  proof (cases "bs = [] \<or> cacheN q < length (cache_content q) + length bs")
    case True
    then have big: "bs = [] \<or> cacheN q < cwriteN q - creadN q + unat (of_nat (length bs) :: u64)" by (simp flip: n)
    show ?thesis using Enqueue_refused [OF ok n big, of sec] ok Some by auto
  next
    case False
    then have "bs \<noteq> []" "length (cache_content q) + length bs \<le> cacheN q" by auto
    from enqueue_appends [OF sec ok this] Some show ?thesis by auto
  qed
qed

lemma read_block_ready:
  assumes ready: "capture_ready c" and sec: "securec_ok sec" and B0: "c_buffer c = Some B"
    and short: "\<And>n bs. rp_block (answers x n) = Some bs \<Longrightarrow> length bs < 2 ^ 64"
  shows "returns (\<lambda>(c', _). capture_ready c') (read_block sec w B c x)"
proof -
  obtain i q where B: "basicBufferInfo B = Some i" "c_ringCache c = Some q"
    and r: "c_stream c" "sound B" "geometry_ok B" "window_ok B i"
    "unat (c_spanSizeInBytes c) = spanN B * byteN B" "cache_ok q" "cacheN q = 2 * (spanN B * byteN B)"
    "length (c_mem c) = totalN B * byteN B"
    using ready B0 by (auto elim!: capture_readyE)
  let ?src = "answers x (length (asked x))"
  obtain e q1 where enq: "Enqueue sec q \<lparr>dataPtr = rp_block ?src,
      dataSize = (case rp_block ?src of None \<Rightarrow> 0 | Some bs \<Rightarrow> of_nat (length bs))\<rparr> = Inr (e, q1)"
    and q1: "cache_ok q1" "cacheN q1 = cacheN q"
    using enqueue_keeps [OF sec r(6)] short by metis
  let ?c1 = "c\<lparr>c_ringCache := Some q1\<rparr>"
  have c1: "capture_ready ?c1" by (rule capture_ready_cache(1) [OF ready B(2) q1])
  have move: "returns (\<lambda>(c', _). capture_ready c')
      (exec_bind (SetCurWriteFrame B v) (\<lambda>(_, B1). case cur_nano y of (t, y') \<Rightarrow>
         exec_bind (SetHandleInfo B1 p t) (\<lambda>B2. Inr (c2\<lparr>c_buffer := Some B2\<rparr>, g y'))))"
    if c2: "capture_ready c2" "c_buffer c2 = Some B" for c2 v p y and g :: "outside \<Rightarrow> outside"
  proof -
    obtain t y' where t: "cur_nano y = (t, y')" by (rule prod.exhaust)
    have "capture_ready (c2\<lparr>c_buffer := Some B2\<rparr>)"
      if "SetCurWriteFrame B v = Inr (u, B1)" "SetHandleInfo B1 p t = Inr B2" for u B1 B2
    proof -
      have "sound B1 \<and> same_sizes B B1" by (rule sound_SetCurWriteFrame [OF r(2) that(1)])
      moreover have "keeps_sound B1 B2" by (rule setters_keep_sound(1) [OF that(2)])
      ultimately show ?thesis using capture_ready_put [OF c2] by (auto simp: keeps_sound_def same_sizes_def)
    qed
    then show ?thesis by (auto simp: returns_def exec_bind_def t split: sum.splits)
  qed
  have wb: "unat (bufOffset d) = span_offset B (unat (GetCurWriteFrame B)) \<and> unat (bufLength d) = spanN B * byteN B"
    if "GetWriteBuffer B (GetCurWriteFrame B) = Inr (Inr d)" for d
  proof -
    have "baseN i \<le> writeN i" "totalN B dvd baseN i" "writeN i < baseN i + 2 * totalN B"
      using r(4) by (auto simp: window_ok_def)
    from GetBufferByFrame_spec [OF r(3) B(1) this(2,1,3)] that show ?thesis
      by (auto simp: GetWriteBuffer_def GetCurWriteFrame_def B Let_def split: if_splits)
  qed
  have en: "spanN B * byteN B \<le> length (cache_content q1)" if "\<not> rsize (GetReadableSize q1) < c_spanSizeInBytes c"
    using that readable_ok [OF q1(1)] by (simp add: GetReadableSize_def word_less_nat_alt r(5))
  have span: "returns (\<lambda>c2. capture_ready c2 \<and> c_buffer c2 = Some B) (record_span sec d q1 ?c1)"
    if "GetWriteBuffer B (GetCurWriteFrame B) = Inr (Inr d)" "\<not> rsize (GetReadableSize q1) < c_spanSizeInBytes c" for d
  proof (rule record_span_ready [OF c1 sec _ q1(1) _ en [OF that(2)]])
    show "unat (bufOffset d) + unat (bufLength d) \<le> length (c_mem ?c1)"
      using span_offset_in_bounds [OF r(3)] wb [OF that(1)] by (simp add: r(8))
  qed (simp_all add: B0 q1(2) r(7) wb [OF that(1)])
  have last: "returns (\<lambda>(c', _). capture_ready c') (exec_bind (GetWriteBuffer B (GetCurWriteFrame B)) (\<lambda>res. case res of
        Inl _ \<Rightarrow> Inr (?c1, y)
      | Inr d \<Rightarrow> exec_bind (record_span sec d q1 ?c1) (\<lambda>c2. exec_bind (SetCurWriteFrame B v) (\<lambda>(_, B1).
          case cur_nano y of (t, y') \<Rightarrow> exec_bind (SetHandleInfo B1 w t) (\<lambda>B2. Inr (c2\<lparr>c_buffer := Some B2\<rparr>, g y'))))))"
    if "\<not> rsize (GetReadableSize q1) < c_spanSizeInBytes c" for y v and g :: "outside \<Rightarrow> outside"
  proof (cases "GetWriteBuffer B (GetCurWriteFrame B)")
    case (Inr res)
    show ?thesis
    proof (cases res)
      case (Inr d)
      have g: "GetWriteBuffer B (GetCurWriteFrame B) = Inr (Inr d)" using \<open>GetWriteBuffer B _ = _\<close> Inr by simp
      show ?thesis
        unfolding g exec_bind_simps sum.case returns_bind [of _ "record_span sec d q1 ?c1"]
        by (rule returns_mono [OF span [OF g that]]) (use move in blast)
    qed (use \<open>GetWriteBuffer B _ = _\<close> c1 in simp)
  qed simp
  show ?thesis
    using ready c1 unfolding read_block_def on_cache_def B option.case on_stream_def
    by (simp add: r(1) ask_def enq Let_def) (intro impI, rule last, simp)
qed

lemma IsReadDataOverFlow_cases:
  assumes "IsReadDataOverFlow len w c x = Inr (ov, c1, x1)"
  shows "if ov then c1 = c\<lparr>c_overFlowLogFlag := c_overFlowLogFlag c1\<rparr> else c1 = c \<and> x1 = x"
  using assms
  by (auto simp: IsReadDataOverFlow_def on_buffer_def on_stream_def exec_bind_Inr Let_def split: option.splits if_splits prod.splits)

lemma ReadData_ready:
  assumes ready: "capture_ready c" and sec: "securec_ok sec"
    and short: "\<And>n bs. rp_block (answers x n) = Some bs \<Longrightarrow> length bs < 2 ^ 64"
  shows "returns (\<lambda>(c', _). capture_ready c') (ReadData sec len c x)"
proof -
  obtain B where B: "c_buffer c = Some B" using ready by (auto elim!: capture_readyE)
  have "returns (\<lambda>(c', _). capture_ready c')
      (exec_bind (IsReadDataOverFlow len w c x) (\<lambda>(over, c1, x1). if over then Inr (c1, x1) else read_block sec w B c1 x1))" for w
  proof (cases "IsReadDataOverFlow len w c x")
    case (Inr z)
    obtain ov c1 x1 where z: "z = (ov, c1, x1)" by (rule prod_cases3)
    note cs = IsReadDataOverFlow_cases [OF Inr [unfolded z]]
    show ?thesis
    proof (cases ov)
      case True
      then have "capture_ready c1" using cs ready capture_ready_updates(13) by (metis (full_types))
      then show ?thesis using True by (simp add: Inr z)
    next
      case False
      then show ?thesis using cs read_block_ready [OF ready sec B short] by (simp add: Inr z)
    qed
  qed simp
  then show ?thesis using ready by (simp add: ReadData_def on_buffer_def B)
qed

section \<open>Reachable streams\<close>

lemma RingCache_Create_succeeds:
  assumes "securec_ok sec" and "0 < unat sz" and "unat sz \<le> 16777216"
  shows "\<exists>q. RingCache_Create sec sz = Some q"
proof -
  have "\<not> sz > MAX_CACHE_SIZE" using assms(3) by (simp only: not_less word_le_nat_alt unat_MAX_CACHE_SIZE)
  moreover have "fst (memset_s sec (replicate (unat sz) 0) 0)" using assms(1,2) by (simp add: securec_ok_def)
  ultimately show ?thesis
    by (auto simp: RingCache_Create_def RingCache_Init_def AudioRingCache_ctor_def split: prod.splits)
qed

lemma small_times_u64:
  assumes "unat (a::u64) * unat (b::u64) < 2 ^ 64"
  shows "unat (a * b) = unat a * unat b"
  using assms by (subst unat_mult_lem [THEN iffD1]) simp_all

lemma sound_Capturer_InitBufferStatus:
  assumes "sound B"
  shows "\<exists>B'. snd (Capturer_InitBufferStatus (Some B)) = Some B' \<and> sound B' \<and> same_sizes B B'"
  using sound_cong [OF assms] by (auto simp: Capturer_InitBufferStatus_def Let_def)

lemma Capturer_ConfigServerBuffer_ready:
  assumes run: "Capturer_ConfigServerBuffer sec os c x = Inr (SUCCESS, c', x')" and sec: "securec_ok sec"
    and c: "c_buffer c = None" "c_ringCache c = None" "c_discharge c = None" "c_stream c"
    and small: "c_spanSizeInFrame c' < 2 ^ 32" "c_byteSizePerFrame c' < 2 ^ 32"
  shows "capture_ready c'"
proof -
  obtain a1 x1 where a1: "ask (OnStream MainStream GetSpanSizePerFrame) x = (a1, x1)" by (rule prod.exhaust)
  obtain a2 x2 where a2: "ask (OnStream MainStream GetByteSizePerFrame) x1 = (a2, x2)" by (rule prod.exhaust)
  define num where "num = (if source_is SOURCE_TYPE_WAKEUP c then CAPTURER_BUFFER_WAKE_UP_NUM else CAPTURER_BUFFER_DEFAULT_NUM)"
  define s where "s = rp_amount a1"
  define y where "y = rp_amount a2"
  let ?c1 = "c\<lparr>c_spanSizeInFrame := s, c_totalSizeInFrame := s * num, c_byteSizePerFrame := y, c_spanSizeInBytes := y * s\<rparr>"
  let ?c2 = "?c1\<lparr>c_cacheSizeInBytes := 2 * (y * s), c_ringCache := RingCache_Create sec (2 * (y * s))\<rparr>"
  let ?c3 = "if mute_capture ?c2 then ?c2\<lparr>c_discharge := Some (replicate (unat (2 * (y * s))) 0)\<rparr> else ?c2"
  have cache: "InitCacheBuffer sec (2 * (y * s)) ?c1 = Inr (if y * s = 0 then (ERR_OPERATION_FAILED, ?c1) else (SUCCESS, ?c3))"
    by (simp add: InitCacheBuffer_def c(2))
  have "SUCCESS \<noteq> ERR_OPERATION_FAILED" by code_simp
  then obtain B where made: "CreateFromLocal os (ucast (s * num)) (ucast s) (ucast y) = Inr (Some B)"
    and c': "c' = ?c3\<lparr>c_buffer := snd (Capturer_InitBufferStatus (Some B)), c_mem := replicate (unat (GetDataSize B)) 0,
      c_isBufferConfiged := True, c_isInited := True\<rparr>" and nz: "y * s \<noteq> 0"
    using run c cache
    by (auto simp: Capturer_ConfigServerBuffer_def on_stream_def a1 a2 Let_def num_def [symmetric] s_def [symmetric]
        y_def [symmetric] exec_bind_Inr split: if_splits option.splits)
  have B: "sound B" using CreateFromLocal_ok [OF made] by (simp add: sound_def)
  then have g: "geometry_ok B" by (auto simp: sound_def elim: ring_okE)
  obtain B' where B': "snd (Capturer_InitBufferStatus (Some B)) = Some B'" "sound B'" "same_sizes B B'"
    using sound_Capturer_InitBufferStatus [OF B] by blast
  have fields: "c_spanSizeInFrame c' = s" "c_byteSizePerFrame c' = y" "c_spanSizeInBytes c' = y * s"
    "c_ringCache c' = RingCache_Create sec (2 * (y * s))" "c_buffer c' = Some B'" "c_stream c'"
    "c_mem c' = replicate (unat (GetDataSize B)) 0"
    "c_discharge c' = (if mute_capture ?c2 then Some (replicate (unat (2 * (y * s))) 0) else None)"
    using c(3,4) by (simp_all add: c' B')
  have sy: "unat s < 2 ^ 32" "unat y < 2 ^ 32" using small by (simp_all add: fields word_less_nat_alt)
  obtain sm dm b1 where sh: "spanSizeInFrame B = ucast s" "byteSizePerFrame B = ucast y"
    by (rule CreateFromLocal_shape [OF made])
  have sN: "spanN B = unat s" "byteN B = unat y" using sy by (simp_all add: sh unat_ucast_64_32)
  have span: "s = span64 B" using sy(1) by (simp add: word_unat_eq_iff sN)
  have prod: "spanN B * byteN B < 10485760"
  proof -
    have "spanN B \<le> totalN B" using g by (simp add: geometry_ok_def dvd_imp_le)
    then have "spanN B * byteN B \<le> totalN B * byteN B" by (rule mult_le_mono1)
    moreover have "totalN B * byteN B < 10485760" using g by (simp add: geometry_ok_def)
    ultimately show ?thesis by (rule le_less_trans)
  qed
  have "unat y * unat s < 2 ^ 64" using prod by (simp only: sN mult.commute [of "unat y"]) simp
  then have ys: "unat (y * s) = spanN B * byteN B" by (simp only: small_times_u64 sN mult.commute)
  have two: "unat (2 * (y * s)) = 2 * (spanN B * byteN B)"
  proof -
    define n where "n = spanN B * byteN B"
    have "n < 10485760" using prod by (simp only: n_def)
    then have "unat (2::u64) * unat (y * s) < 2 ^ 64" by (simp add: ys n_def [symmetric])
    then have "unat (2 * (y * s)) = unat (2::u64) * unat (y * s)" by (rule small_times_u64)
    then show ?thesis by (simp only: ys) simp
  qed
  have tot: "2 * (spanN B * byteN B) \<le> 16777216"
  proof -
    have "spanN B * 1 \<le> spanN B * byteN B" using g by (intro mult_le_mono2) (simp add: geometry_ok_def)
    with prod have "unat s < 10485760" by (simp only: sN mult_1_right)
    moreover have num: "unat num = 4 \<or> unat num = 100" by (simp add: num_def cfg_defs)
    ultimately have small': "unat s * unat num < 2 ^ 32" by auto
    then have "unat (s * num) = unat s * unat num" by (intro small_times_u64) simp
    moreover have "totalSizeInFrame B = ucast (s * num)" by (rule CreateFromLocal_shape [OF made])
    ultimately have "totalN B = unat s * unat num" using small' by (simp add: unat_ucast_64_32)
    then have "2 * spanN B \<le> totalN B" using num by (auto simp: sN)
    then have "2 * spanN B * byteN B \<le> totalN B * byteN B" by (rule mult_le_mono1)
    moreover have "totalN B * byteN B < 10485760" using g by (simp add: geometry_ok_def)
    ultimately show ?thesis by linarith
  qed
  have pos: "0 < unat (2 * (y * s))" using g by (simp add: two geometry_ok_def)
  obtain q where q: "RingCache_Create sec (2 * (y * s)) = Some q"
    using RingCache_Create_succeeds [OF sec pos] tot by (auto simp: two)
  note qok = RingCache_Create_ok [OF sec q]
  have "unat (GetDataSize B) = totalN B * byteN B" using g by (simp add: GetDataSize_def geometry_ok_def)
  then show ?thesis
    using B'(2,3) qok q fields span ys two
    by (auto simp: capture_ready_def same_sizes_def split: if_splits)
qed

lemma Capturer_Init_ready:
  assumes "Capturer_Init sec os (CapturerInServer_ctor cfg l) x = Inr (SUCCESS, c, x')" and "securec_ok sec"
    and "c_spanSizeInFrame c < 2 ^ 32" "c_byteSizePerFrame c < 2 ^ 32"
  shows "capture_ready c"
proof -
  obtain a x1 where a: "ask (OnManager RECORDER CreateCapturer) x = (a, x1)" by (rule prod.exhaust)
  obtain i x2 where i: "ask (OnStream MainStream GetStreamIndex) x1 = (i, x2)" by (rule prod.exhaust)
  let ?c = "(CapturerInServer_ctor cfg l)\<lparr>c_stream := True, c_streamIndex := ucast (rp_amount i)\<rparr>"
  have "ERR_OPERATION_FAILED \<noteq> SUCCESS" by code_simp
  then obtain x3 where "Capturer_ConfigServerBuffer sec os ?c x2 = Inr (SUCCESS, c, x3)"
    using assms(1) by (auto simp: Capturer_Init_def a i Let_def exec_bind_Inr split: if_splits)
  from Capturer_ConfigServerBuffer_ready [OF this assms(2) _ _ _ _ assms(3,4)] show ?thesis
    by (simp add: CapturerInServer_ctor_def)
qed

lemma capturer_requests_ready:
  assumes "capture_ready c"
  shows "returns (\<lambda>(_, c', _). capture_ready c') (Capturer_Start pe c x)"
    "returns (\<lambda>(_, c', _). capture_ready c') (Capturer_Pause c x)"
    "returns (\<lambda>(_, c', _). capture_ready c') (Capturer_Stop c x)"
    "capture_ready (fst (snd (Capturer_Release c x)))"
    "capture_ready (fst (snd (UpdatePlaybackCaptureConfig dl cfg c x)))"
    "capture_ready (fst (Capturer_OnStatusUpdate op c x))"
  using assms
  by (auto simp: Capturer_Start_def may_record_def Capturer_Pause_def Capturer_Stop_def Capturer_Release_def
      UpdatePlaybackCaptureConfig_def Capturer_OnStatusUpdate_def on_stream_def Let_def
      split: prod.split IOperation.split)

lemma Capturer_Flush_spec:
  assumes ready: "capture_ready c" and B: "c_buffer c = Some B" and s: "flushing (c_status c) = Some s"
  shows "\<exists>e c' x' B'. Capturer_Flush c x = Some (Inr (e, c', x')) \<and> capture_ready c' \<and>
    c_status c' = s \<and> c_buffer c' = Some B' \<and> unread B' = {} \<and> flushed B (c_mem c) (c_mem c')"
proof -
  obtain i q where i: "basicBufferInfo B = Some i" and so: "sound B" and r: "c_stream c" "c_spanSizeInFrame c = span64 B"
    "length (c_mem c) = totalN B * byteN B" using ready B by (auto elim!: capture_readyE)
  obtain B' m' where walk: "flush_walk (span64 B) (GetCurReadFrame B) (GetCurWriteFrame B) B (c_mem c) = Some (Inr (True, B', m'))"
    and B': "sound B'" "same_sizes B B'" "GetCurReadFrame B' = GetCurWriteFrame B" "GetCurWriteFrame B' = GetCurWriteFrame B"
    and fl: "flushed B (c_mem c) m'" using flush_walk_spec [OF so i r(3)] by blast
  let ?c2 = "c\<lparr>c_status := s, c_buffer := Some B', c_mem := m'\<rparr>"
  have "length m' = length (c_mem c)" using fl by (simp add: flushed_def)
  then have "capture_ready ?c2" using ready B B'(1,2) by (auto simp: capture_ready_def same_sizes_def split: option.splits)
  moreover have "\<exists>e x'. Capturer_Flush c x = Some (Inr (e, ?c2, x'))"
    using s walk B r(1,2) by (auto simp: Capturer_Flush_def Let_def on_stream_def split: prod.split)
  moreover have "unread B' = {}" using B'(3,4) by (auto simp: unread_def)
  ultimately show ?thesis using fl by auto
qed

text \<open>One step of the server or of the client. A block a stream hands over is shorter than \<open>2^64\<close>.\<close>

definition blocks_fit :: "outside \<Rightarrow> bool" where
  "blocks_fit x \<longleftrightarrow> (\<forall>n bs. rp_block (answers x n) = Some bs \<longrightarrow> length bs < 2 ^ 64)"

inductive capturer_step :: "securec \<Rightarrow> CapturerInServer \<Rightarrow> CapturerInServer \<Rightarrow> bool" for sec where
  client_bytes: "length m = length (c_mem c) \<Longrightarrow> capturer_step sec c (c\<lparr>c_mem := m\<rparr>)"
| client_reads: "c_buffer c = Some B \<Longrightarrow> SetCurReadFrame B n = Inr (e, B') \<Longrightarrow>
    capturer_step sec c (c\<lparr>c_buffer := Some B'\<rparr>)"
| client_status: "c_buffer c = Some B \<Longrightarrow> capturer_step sec c (c\<lparr>c_buffer := Some (set_stream_status B s)\<rparr>)"
| client_leaves: "capturer_step sec c (c\<lparr>c_listener := False\<rparr>)"
| callback: "Capturer_OnStatusUpdate op c x = (c', x') \<Longrightarrow> capturer_step sec c c'"
| recorded: "blocks_fit x \<Longrightarrow> OnReadData sec len c x = Inr (e, c', x') \<Longrightarrow> capturer_step sec c c'"
| do_start: "Capturer_Start pe c x = Inr (e, c', x') \<Longrightarrow> capturer_step sec c c'"
| do_pause: "Capturer_Pause c x = Inr (e, c', x') \<Longrightarrow> capturer_step sec c c'"
| do_flush: "Capturer_Flush c x = Some (Inr (e, c', x')) \<Longrightarrow> capturer_step sec c c'"
| do_stop: "Capturer_Stop c x = Inr (e, c', x') \<Longrightarrow> capturer_step sec c c'"
| do_release: "Capturer_Release c x = (e, c', x') \<Longrightarrow> capturer_step sec c c'"
| configure: "UpdatePlaybackCaptureConfig dl cfg c x = (e, c', x') \<Longrightarrow> capturer_step sec c c'"
| get_time: "Capturer_GetAudioTime c x = Inr (e, p, c', x') \<Longrightarrow> capturer_step sec c c'"
| set_mute: "Capturer_SetNonInterruptMute b c x = (c', x') \<Longrightarrow> capturer_step sec c c'"

inductive capturer_reach :: "securec \<Rightarrow> os_env \<Rightarrow> CapturerInServer \<Rightarrow> bool" for sec os where
  created: "Capturer_Init sec os (CapturerInServer_ctor cfg l) x = Inr (SUCCESS, c, x') \<Longrightarrow>
    c_spanSizeInFrame c < 2 ^ 32 \<Longrightarrow> c_byteSizePerFrame c < 2 ^ 32 \<Longrightarrow> capturer_reach sec os c"
| step: "capturer_reach sec os c \<Longrightarrow> capturer_step sec c c' \<Longrightarrow> capturer_reach sec os c'"

text \<open>
  C28: Through every interleaving of its client with its callbacks, recorded blocks, requests and
  settings, a recording stream's shared ring stays sound, its positions on span boundaries, its cache
  a ring of two spans, and its sizes those of the buffer.
\<close>

theorem capturer_stays_ready:
  assumes "capturer_reach sec os c" and "securec_ok sec"
  shows "capture_ready c"
  using assms
proof (induction rule: capturer_reach.induct)
  case (created cfg l x c x')
  then show ?case by (intro Capturer_Init_ready)
next
  case (step c c')
  then have ready: "capture_ready c" by blast
  from step.hyps(2) show ?case
  proof cases
    case (client_bytes m)
    then show ?thesis using ready by (auto simp: capture_ready_def split: option.splits)
  next
    case (client_reads B n e B')
    have "sound B" using ready client_reads(2) by (auto elim!: capture_readyE)
    from sound_SetCurReadFrame [OF this client_reads(3)] capture_ready_put [OF ready client_reads(2)]
    show ?thesis by (simp add: client_reads(1))
  next
    case (client_status B s)
    have "sound B" using ready client_status(2) by (auto elim!: capture_readyE)
    with setters_keep_sound(6) [of B s] capture_ready_put [OF ready client_status(2)] show ?thesis
      by (simp add: client_status(1) keeps_sound_def)
  next
    case client_leaves
    then show ?thesis using ready by simp
  next
    case (callback op x x')
    then show ?thesis using capturer_requests_ready(6) [OF ready, of op x] by simp
  next
    case (recorded x len e x')
    then show ?thesis
      using ReadData_ready [OF ready step.prems, of x len] by (auto simp: OnReadData_def exec_bind_Inr blocks_fit_def)
  next
    case (do_start pe x e x')
    then show ?thesis using capturer_requests_ready(1) [OF ready, of pe x] by simp
  next
    case (do_pause x e x')
    then show ?thesis using capturer_requests_ready(2) [OF ready, of x] by simp
  next
    case (do_flush x e x')
    obtain B where B: "c_buffer c = Some B" using ready by (auto elim!: capture_readyE)
    show ?thesis
    proof (cases "flushing (c_status c)")
      case None
      then show ?thesis using do_flush ready by (simp add: Capturer_Flush_def)
    next
      case (Some s)
      then show ?thesis using Capturer_Flush_spec [OF ready B Some, of x] do_flush by auto
    qed
  next
    case (do_stop x e x')
    then show ?thesis using capturer_requests_ready(3) [OF ready, of x] by simp
  next
    case (do_release x e x')
    then show ?thesis using capturer_requests_ready(4) [OF ready, of x] by simp
  next
    case (configure dl cfg x e x')
    then show ?thesis using capturer_requests_ready(5) [OF ready, of dl cfg x] by simp
  next
    case (get_time x e p x')
    then show ?thesis using ready by (auto simp: Capturer_GetAudioTime_def on_stream_def split: if_splits prod.splits)
  next
    case (set_mute b x x')
    then show ?thesis using ready by (auto simp: Capturer_SetNonInterruptMute_def)
  qed
qed

section \<open>What is recorded\<close>

text \<open>With room for more than a span in the shared buffer, and a block that fits the cache and completes
  a span in it.\<close>

definition recordable :: "CapturerInServer \<Rightarrow> u64 \<Rightarrow> outside \<Rightarrow> u8 list \<Rightarrow> bool" where
  "recordable c len x bs \<longleftrightarrow> c_listener c \<and> c_spanSizeInBytes c \<le> len \<and>
     rp_block (answers x (length (asked x))) = Some bs \<and> bs \<noteq> [] \<and>
     (case (c_buffer c, c_ringCache c) of
        (Some B, Some q) \<Rightarrow>
          unat (GetCurWriteFrame B) + spanN B < unat (GetCurReadFrame B) + totalN B \<and>
          unat (GetCurWriteFrame B) + spanN B < 2 ^ 64 \<and>
          length (cache_content q) + length bs \<le> cacheN q \<and>
          spanN B * byteN B \<le> length (cache_content q) + length bs
      | _ \<Rightarrow> False)"

definition cached :: "CapturerInServer \<Rightarrow> u8 list" where
  "cached c = (case c_ringCache c of None \<Rightarrow> [] | Some q \<Rightarrow> cache_content q)"

text \<open>The span at the write position of the buffer a stream had.\<close>

definition span_at :: "OHAudioBuffer \<Rightarrow> nat" where
  "span_at B = span_offset B (unat (GetCurWriteFrame B))"

definition one_span :: "OHAudioBuffer \<Rightarrow> nat" where
  "one_span B = spanN B * byteN B"

lemma recordableE:
  assumes "recordable c len x bs" and "capture_ready c"
  obtains B i q where "c_buffer c = Some B" "basicBufferInfo B = Some i" "c_ringCache c = Some q" "c_listener c"
    "c_spanSizeInBytes c \<le> len" "writeN i + spanN B < readN i + totalN B" "writeN i + spanN B < 2 ^ 64"
    "rp_block (answers x (length (asked x))) = Some bs" "bs \<noteq> []"
    "length (cache_content q) + length bs \<le> cacheN q" "spanN B * byteN B \<le> length (cache_content q) + length bs"
    "geometry_ok B" "length (c_mem c) = totalN B * byteN B" "cached c = cache_content q" "span_at B = span_offset B (writeN i)"
    "cacheN q = 2 * one_span B" "window_ok B i" "sound B"
proof -
  from assms(2) obtain B i q where B: "c_buffer c = Some B" "basicBufferInfo B = Some i" "c_ringCache c = Some q"
    "geometry_ok B" "length (c_mem c) = totalN B * byteN B" "cacheN q = 2 * one_span B" "window_ok B i" "sound B"
    by (auto elim!: capture_readyE simp: one_span_def)
  with assms(1) that show thesis
    by (simp add: recordable_def GetCurWriteFrame_def GetCurReadFrame_def cached_def span_at_def)
qed

lemma recorded:
  assumes ready: "capture_ready c" and sec: "securec_ok sec" and quiet: "\<not> mute_capture c" "\<not> c_muteFlag c"
    and rec: "recordable c len x bs" and B: "c_buffer c = Some B"
  shows "\<exists>c' x' B'. ReadData sec len c x = Inr (c', x') \<and> c_buffer c' = Some B' \<and> capture_ready c' \<and>
    length (slice (span_at B) (one_span B) (c_mem c')) = one_span B \<and>
    cached c @ bs = slice (span_at B) (one_span B) (c_mem c') @ cached c' \<and>
    c_mem c' = EndpointState.overwrite (c_mem c) (span_at B) (take (one_span B) (cached c @ bs)) \<and>
    unat (GetCurWriteFrame B') = unat (GetCurWriteFrame B) + spanN B \<and> GetCurReadFrame B' = GetCurReadFrame B \<and>
    last (asked x') = OnOperationHandled UPDATE_STREAM (GetCurWriteFrame B)"
proof -
  obtain i q where i: "basicBufferInfo B = Some i" "c_ringCache c = Some q"
    and r: "c_listener c" "c_spanSizeInBytes c \<le> len" "writeN i + spanN B < readN i + totalN B" "writeN i + spanN B < 2 ^ 64"
    "rp_block (answers x (length (asked x))) = Some bs" "bs \<noteq> []"
    "length (cache_content q) + length bs \<le> cacheN q" "spanN B * byteN B \<le> length (cache_content q) + length bs"
    and g: "geometry_ok B" "length (c_mem c) = totalN B * byteN B" "cached c = cache_content q" "span_at B = span_offset B (writeN i)"
    "cacheN q = 2 * one_span B"
    using recordableE [OF rec ready] B by (metis option.inject)
  obtain d q1 B2 x' where q1: "cache_ok q1" "cache_content q1 = cache_content q @ bs" "cacheN q1 = cacheN q"
    and d: "unat (bufOffset d) = span_offset B (writeN i)" "unat (bufLength d) = spanN B * byteN B"
    and B2: "sound B2" "same_sizes B B2" "GetCurReadFrame B2 = curReadFrame i" "unat (GetCurWriteFrame B2) = writeN i + spanN B"
    and ask: "asked x' = asked x @ [OnStream MainStream (DequeueBuffer (rsize (GetWritableSize q))),
      OnStream MainStream (EnqueueBuffer (Some bs)), OnOperationHandled UPDATE_STREAM (curWriteFrame i)]"
    and run: "ReadData sec len c x = exec_bind (record_span sec d q1 (c\<lparr>c_ringCache := Some q1\<rparr>))
      (\<lambda>c3. Inr (c3\<lparr>c_buffer := Some B2\<rparr>, x'))"
    using ReadData_run [OF ready r(1) sec B i r(2-8)] by blast
  let ?c1 = "c\<lparr>c_ringCache := Some q1\<rparr>" and ?n = "spanN B * byteN B" and ?off = "span_offset B (writeN i)"
  have fits: "?off + ?n \<le> length (c_mem c)" using span_offset_in_bounds [OF g(1)] by (simp add: g(2))
  have n: "0 < ?n" using g(1) by (simp add: geometry_ok_def)
  from record_heard [OF sec q1(1) _ _ d(2) n, of ?c1] quiet r(8) fits d(1) q1(2) obtain q' where
    rs: "record_span sec d q1 ?c1 = Inr (?c1\<lparr>c_ringCache := Some q', c_mem := put_span d (take ?n (cache_content q1)) (c_mem c)\<rparr>)"
    and q': "cache_ok q'" "cache_content q' = drop ?n (cache_content q1)" "cacheN q' = cacheN q1" by auto
  let ?w = "take ?n (cache_content q1)"
  let ?c' = "?c1\<lparr>c_ringCache := Some q', c_mem := put_span d ?w (c_mem c), c_buffer := Some B2\<rparr>"
  have w: "length ?w = ?n" using r(8) q1(2) by simp
  have res: "ReadData sec len c x = Inr (?c', x')" using run by (simp add: rs)
  have mem: "put_span d ?w (c_mem c) = EndpointState.overwrite (c_mem c) ?off ?w" by (simp add: put_span_def d(1))
  have sl: "slice ?off ?n (put_span d ?w (c_mem c)) = ?w"
    using put_span_same [of d ?w "c_mem c"] fits w by (simp add: d(1))
  have "capture_ready ?c'"
  proof -
    have "length (put_span d ?w (c_mem c)) = length (c_mem c)" by (rule length_put_span) (use fits w d(1) in simp)
    from capture_ready_cache(2) [OF ready i(2) q'(1) _ this] q'(3) q1(3)
    have "capture_ready (c\<lparr>c_ringCache := Some q', c_mem := put_span d ?w (c_mem c)\<rparr>)" by simp
    from capture_ready_put [OF this _ B2(1,2)] B show ?thesis by simp
  qed
  moreover have "cached c @ bs = slice (span_at B) (one_span B) (c_mem ?c') @ cached ?c'"
  proof -
    have "cached ?c' = drop ?n (cache_content q1)" by (simp add: cached_def q'(2))
    moreover have "slice (span_at B) (one_span B) (c_mem ?c') = ?w" using sl by (simp add: g(4) one_span_def)
    moreover have "cached c @ bs = cache_content q1" by (simp only: g(3) q1(2))
    ultimately show ?thesis by (simp only: append_take_drop_id)
  qed
  moreover have "c_mem ?c' = EndpointState.overwrite (c_mem c) (span_at B) (take (one_span B) (cached c @ bs))"
    using mem by (simp add: g(3,4) one_span_def q1(2))
  moreover have "last (asked x') = OnOperationHandled UPDATE_STREAM (GetCurWriteFrame B)"
    by (simp add: ask GetCurWriteFrame_def i(1))
  moreover have "unat (GetCurWriteFrame B2) = unat (GetCurWriteFrame B) + spanN B" "GetCurReadFrame B2 = GetCurReadFrame B"
    using B2(3,4) by (simp_all add: GetCurWriteFrame_def GetCurReadFrame_def i(1))
  moreover have "length (slice (span_at B) (one_span B) (c_mem ?c')) = one_span B"
    using w by (simp add: g(4) one_span_def sl)
  ultimately show ?thesis using res by (intro exI [of _ ?c'] exI [of _ x'] exI [of _ B2]) simp
qed

text \<open>
  C29: An unmuted recording stream loses and reorders nothing as long as it has room: when a block
  completes a span, fits the cache, and the shared buffer has room for more than one span, the bytes
  that were cached and the block are, byte for byte, the span written at the write position followed
  by what stays cached. Nothing else in the buffer changes, the write position moves by one span, and
  the client is told. A muted stream, a stream that finds no room and a block that overflows the cache
  are outside this statement.
\<close>

theorem recorded_bytes_in_order:
  assumes "capture_ready c" and "securec_ok sec" and "\<not> mute_capture c" and "\<not> c_muteFlag c"
    and "recordable c len x bs" and "c_buffer c = Some B"
  shows "\<exists>c' x' B'. ReadData sec len c x = Inr (c', x') \<and> c_buffer c' = Some B' \<and>
    cached c @ bs = slice (span_at B) (one_span B) (c_mem c') @ cached c' \<and>
    c_mem c' = EndpointState.overwrite (c_mem c) (span_at B) (take (one_span B) (cached c @ bs)) \<and>
    unat (GetCurWriteFrame B') = unat (GetCurWriteFrame B) + spanN B \<and> GetCurReadFrame B' = GetCurReadFrame B \<and>
    last (asked x') = OnOperationHandled UPDATE_STREAM (GetCurWriteFrame B)"
  using recorded [OF assms] by blast

text \<open>
  C30: Sound recorded while the stream is muted is kept and heard later. A stream without a buffer to
  discharge into reports the span as written without touching it, and keeps the recorded bytes in
  its cache; the next span it delivers once it is no longer muted begins with them.
\<close>

theorem muted_sound_is_heard_later:
  assumes ready: "capture_ready c" and sec: "securec_ok sec" and m: "\<not> mute_capture c" "c_muteFlag c" "c_discharge c = None"
    and rec: "recordable c len x bs" and B: "c_buffer c = Some B"
  shows "\<exists>c' x' B'. ReadData sec len c x = Inr (c', x') \<and> c_buffer c' = Some B' \<and>
    unat (GetCurWriteFrame B') = unat (GetCurWriteFrame B) + spanN B \<and> c_mem c' = c_mem c \<and> cached c' = cached c @ bs \<and>
    (\<forall>y len' bs'. recordable (c'\<lparr>c_muteFlag := False\<rparr>) len' y bs' \<longrightarrow>
       (\<exists>c'' y'. ReadData sec len' (c'\<lparr>c_muteFlag := False\<rparr>) y = Inr (c'', y') \<and>
          slice (span_at B') (one_span B') (c_mem c'') = take (one_span B') (cached c @ bs @ bs')))"
proof -
  obtain i q where i: "basicBufferInfo B = Some i" "c_ringCache c = Some q"
    and r: "c_listener c" "c_spanSizeInBytes c \<le> len" "writeN i + spanN B < readN i + totalN B" "writeN i + spanN B < 2 ^ 64"
    "rp_block (answers x (length (asked x))) = Some bs" "bs \<noteq> []"
    "length (cache_content q) + length bs \<le> cacheN q" "spanN B * byteN B \<le> length (cache_content q) + length bs"
    and g: "cached c = cache_content q"
    using recordableE [OF rec ready] B by (metis option.inject)
  obtain d q1 B2 x' where q1: "cache_ok q1" "cache_content q1 = cache_content q @ bs" "cacheN q1 = cacheN q"
    and B2: "sound B2" "same_sizes B B2" "unat (GetCurWriteFrame B2) = writeN i + spanN B"
    and run: "ReadData sec len c x = exec_bind (record_span sec d q1 (c\<lparr>c_ringCache := Some q1\<rparr>))
      (\<lambda>c3. Inr (c3\<lparr>c_buffer := Some B2\<rparr>, x'))"
    using ReadData_run [OF ready r(1) sec B i r(2-8)] by blast
  let ?c' = "c\<lparr>c_ringCache := Some q1, c_buffer := Some B2\<rparr>"
  have res: "ReadData sec len c x = Inr (?c', x')" using run m by (simp add: record_muted)
  have "capture_ready (c\<lparr>c_ringCache := Some q1\<rparr>)" by (rule capture_ready_cache(1) [OF ready i(2) q1(1,3)])
  from capture_ready_put [OF this _ B2(1,2)] B have ready': "capture_ready (?c'\<lparr>c_muteFlag := False\<rparr>)" by simp
  have keep: "cached ?c' = cached c @ bs" by (simp add: cached_def i(2) q1(2))
  have later: "\<exists>c'' y'. ReadData sec len' (?c'\<lparr>c_muteFlag := False\<rparr>) y = Inr (c'', y') \<and>
      slice (span_at B2) (one_span B2) (c_mem c'') = take (one_span B2) (cached c @ bs @ bs')"
    if "recordable (?c'\<lparr>c_muteFlag := False\<rparr>) len' y bs'" for y len' bs'
  proof -
    have "\<not> mute_capture (?c'\<lparr>c_muteFlag := False\<rparr>)" "\<not> c_muteFlag (?c'\<lparr>c_muteFlag := False\<rparr>)"
      "c_buffer (?c'\<lparr>c_muteFlag := False\<rparr>) = Some B2" using m(1) by simp_all
    from recorded [OF ready' sec this(1,2) that this(3)] obtain c'' y' where
      c'': "ReadData sec len' (?c'\<lparr>c_muteFlag := False\<rparr>) y = Inr (c'', y')"
      and split: "cached (?c'\<lparr>c_muteFlag := False\<rparr>) @ bs' = slice (span_at B2) (one_span B2) (c_mem c'') @ cached c''"
      and n: "length (slice (span_at B2) (one_span B2) (c_mem c'')) = one_span B2"
      by blast
    have same: "cached (?c'\<lparr>c_muteFlag := False\<rparr>) = cached c @ bs" using keep by (simp add: cached_def)
    have "slice (span_at B2) (one_span B2) (c_mem c'') = take (one_span B2) ((cached c @ bs) @ bs')"
      using split n unfolding same by (metis append_eq_conv_conj)
    then show ?thesis using c'' by simp
  qed
  have "unat (GetCurWriteFrame B2) = unat (GetCurWriteFrame B) + spanN B" using B2(3) by (simp add: GetCurWriteFrame_def i(1))
  then show ?thesis using res keep later by (intro exI [of _ ?c'] exI [of _ x'] exI [of _ B2]) simp
qed

section \<open>A stream of four spans\<close>

definition demo_capture_cache :: AudioRingCache where
  "demo_capture_cache = \<lparr>basePtr = replicate 16 0, cacheTotalSize = 16, baseIndex = 0, writeIndex = 0, readIndex = 0\<rparr>"

definition demo_capturer :: "bool \<Rightarrow> CapturerInServer" where
  "demo_capturer muted = (CapturerInServer_ctor demo_config True)
     \<lparr>c_stream := True, c_status := I_STATUS_STARTED, c_spanSizeInFrame := 2, c_spanSizeInBytes := 8,
      c_byteSizePerFrame := 4, c_buffer := Some (demo_ring 0 0 0), c_mem := replicate 32 1,
      c_ringCache := Some demo_capture_cache, c_muteFlag := muted\<rparr>"

definition demo_block :: "u8 list" where "demo_block = [1, 2, 3, 4, 5, 6, 7, 8, 9, 10]"

definition demo_recording :: outside where
  "demo_recording = demo_outside\<lparr>answers := (\<lambda>n. (demo_reply n)\<lparr>rp_block := Some demo_block\<rparr>)\<rparr>"

lemma demo_capturer_ready: "capture_ready (demo_capturer muted)"
  by (simp add: capture_ready_def demo_capturer_def sound_def demo_ring_def ring_ok_def geometry_ok_def window_ok_def
      spans_aligned_def init_server_info_def init_positions_def cache_ok_def demo_capture_cache_def CapturerInServer_ctor_def)

lemma demo_capturer_quiet: "\<not> mute_capture (demo_capturer muted)" "c_muteFlag (demo_capturer muted) = muted"
  "c_discharge (demo_capturer muted) = None" "c_buffer (demo_capturer muted) = Some (demo_ring 0 0 0)"
  "cached (demo_capturer muted) = []"
  by (simp_all add: mute_capture_def source_is_def source_word_def demo_capturer_def CapturerInServer_ctor_def demo_config_def demo_capturer_info_def
      cached_def cache_content_def demo_capture_cache_def)

lemma demo_recordable: "recordable (demo_capturer muted) 8 demo_recording demo_block"
  by (simp add: recordable_def demo_capturer_def CapturerInServer_ctor_def demo_recording_def demo_outside_def demo_block_def
      demo_ring_def init_server_info_def init_positions_def GetCurWriteFrame_def GetCurReadFrame_def demo_capture_cache_def)

lemma demo_capturer_init:
  "case Capturer_Init demo_sec demo_os (CapturerInServer_ctor demo_config True) demo_outside of
     Inr (e, c, x) \<Rightarrow> e = SUCCESS \<and> c_spanSizeInFrame c = 2 \<and> c_byteSizePerFrame c = 4
   | _ \<Rightarrow> False"
  by code_simp

theorem capturer_stays_ready_witness:
  "\<exists>c. capturer_reach demo_sec demo_os c \<and> c_muteFlag c \<and> capture_ready c"
proof -
  obtain c x where c: "Capturer_Init demo_sec demo_os (CapturerInServer_ctor demo_config True) demo_outside = Inr (SUCCESS, c, x)"
    "c_spanSizeInFrame c = 2" "c_byteSizePerFrame c = 4" using demo_capturer_init by (auto split: sum.splits)
  have "capturer_reach demo_sec demo_os (c\<lparr>c_muteFlag := True\<rparr>)"
    by (rule capturer_reach.step [OF capturer_reach.created [OF c(1)]])
      (simp_all add: c(2,3) capturer_step.set_mute [of True] Capturer_SetNonInterruptMute_def)
  from capturer_stays_ready [OF this demo_sec_ok] this show ?thesis by (intro exI) auto
qed

theorem recorded_bytes_in_order_witness:
  "\<exists>c' x'. ReadData demo_sec 8 (demo_capturer False) demo_recording = Inr (c', x') \<and>
     demo_block = slice 0 8 (c_mem c') @ cached c'"
proof -
  have "span_at (demo_ring 0 0 0) = 0" "one_span (demo_ring 0 0 0) = 8" by code_simp+
  with recorded_bytes_in_order [OF demo_capturer_ready demo_sec_ok demo_capturer_quiet(1) _ demo_recordable demo_capturer_quiet(4), of False]
  show ?thesis by (auto simp: demo_capturer_quiet)
qed

theorem muted_sound_is_heard_later_witness:
  "\<exists>c' x'. ReadData demo_sec 8 (demo_capturer True) demo_recording = Inr (c', x') \<and>
     c_mem c' = c_mem (demo_capturer True) \<and> cached c' = demo_block"
  using muted_sound_is_heard_later [OF demo_capturer_ready demo_sec_ok demo_capturer_quiet(1) _ demo_capturer_quiet(3) demo_recordable
      demo_capturer_quiet(4), of True]
  by (auto simp: demo_capturer_quiet)

end
