(* ===== verification/AudioService.thy ===== *)
theory AudioService
  imports RendererControl CapturerInServer "HOL-Library.List_Lexorder" "HOL-Library.Char_ord"
begin

text \<open>
  The service that holds the server's streams together (\<open>audio_service.cpp\<close>): it knows the normal
  streams by their session id, the fast streams with the endpoints they are linked to, which
  sessions are muted, and which streams are copied for inner capture and for a second sink. The
  filter for inner capture comes through \<open>PlaybackCapturerManager\<close>
  (\<open>playback_capturer_manager.cpp\<close>).

  Streams live in stores and a pointer is a number. The maps hold weak pointers: \<open>rendAlive\<close> and
  \<open>capAlive\<close> are the streams that still exist. A \<open>std::map\<close> is a list of pairs in the order of the
  keys.

  An operation may fault, and it may wait for ever: \<open>mutedSessionsMutex_\<close> is not recursive, and a
  thread that locks it twice does not return. The value \<^const>\<open>None\<close> is such a wait. The other locks
  are taken once per operation, so an operation is one step.

  Not modelled: the dump text.
\<close>

definition ERR_INVALID_INDEX :: err where [err_defs]: "ERR_INVALID_INDEX = BASE_AUDIO_ERR_OFFSET - 17"
definition USAGE_ALARM :: enum32 where [cfg_defs]: "USAGE_ALARM = 4"
definition USAGE_RINGTONE :: enum32 where [cfg_defs]: "USAGE_RINGTONE = 6"
definition USAGE_VOICE_RINGTONE :: enum32 where [cfg_defs]: "USAGE_VOICE_RINGTONE = 20"

section \<open>State\<close>

record PlaybackCapturerManager =
  supportStreamUsageSet :: "enum32 set"
  isCaptureSilently :: bool
  isInnerCapturerRunning :: bool
  filterListener :: bool

record AudioService = fast_server +
  linkedPairedList :: "(pref \<times> eref) list"
  releasingEndpointSet :: "string set"
  endpointList :: "(string \<times> eref) list"
  independentId :: int
  delayedReleases :: "(string \<times> s32) list"
  innerCapturerMgr :: bool
  manager :: PlaybackCapturerManager
  workingInnerCapId :: u32
  workingDualToneId :: u32
  workingConfig :: AudioPlaybackCaptureConfig
  rends :: "nat \<Rightarrow> RendererInServer"
  rendAlive :: "nat set"
  caps :: "nat \<Rightarrow> CapturerInServer"
  capAlive :: "nat set"
  allRendererMap :: "(u32 \<times> nat) list"
  allCapturerMap :: "(u32 \<times> nat) list"
  filteredRendererMap :: "nat list"
  filteredDualToneRendererMap :: "nat list"
  mutedLocked :: bool
  mutedSessions :: "u32 set"
  out :: outside

text \<open>What the platform, the policy service and the adapters answer. An endpoint of the class for
  independent streams (\<open>audio_endpoint_separate.cpp\<close>) is not modelled: \<open>v_separate\<close> is the one made.\<close>

record service_env =
  v_adapter :: adapter_env
  v_perm :: permission_env
  v_os :: os_env
  v_meanwhile :: "AudioEndpoint \<times> server \<Rightarrow> AudioEndpoint \<times> server"
  v_device :: "AudioProcessConfig \<Rightarrow> DeviceInfo option"
  v_blank :: DeviceInfo
  v_blank_stream :: AudioStreamInfo
  v_separate_flag :: int
  v_separate :: "AudioEndpoint option"

type_synonym 'a run = "'a exec option"

definition run_bind :: "'a run \<Rightarrow> ('a \<Rightarrow> 'b run) \<Rightarrow> 'b run" where
  "run_bind m f = (case m of None \<Rightarrow> None | Some (Inl e) \<Rightarrow> Some (Inl e) | Some (Inr x) \<Rightarrow> f x)"

lemma run_bind_simps [simp]:
  "run_bind None f = None" "run_bind (Some (Inl e)) f = Some (Inl e)" "run_bind (Some (Inr x)) f = f x"
  by (simp_all add: run_bind_def)

abbreviation returning :: "'a \<Rightarrow> 'a run" where
  "returning x \<equiv> Some (Inr x)"

fun each :: "('b \<Rightarrow> 'a \<Rightarrow> 'a run) \<Rightarrow> 'b list \<Rightarrow> 'a \<Rightarrow> 'a run" where
  "each f [] s = returning s"
| "each f (b # bs) s = run_bind (f b s) (each f bs)"

fun put_key :: "'k::linorder \<Rightarrow> 'v \<Rightarrow> ('k \<times> 'v) list \<Rightarrow> ('k \<times> 'v) list" where
  "put_key k v [] = [(k, v)]"
| "put_key k v ((k', v') # m) =
     (if k = k' then (k, v) # m else if k < k' then (k, v) # (k', v') # m else (k', v') # put_key k v m)"

definition drop_key :: "'k \<Rightarrow> ('k \<times> 'v) list \<Rightarrow> ('k \<times> 'v) list" where
  "drop_key k m = filter (\<lambda>e. fst e \<noteq> k) m"

lemma map_of_put_key [simp]: "map_of (put_key k v m) = (map_of m)(k \<mapsto> v)"
  by (induction k v m rule: put_key.induct) (auto simp: fun_eq_iff)

lemma map_of_drop_key [simp]: "map_of (drop_key k m) j = (if j = k then None else map_of m j)"
  by (induction m) (auto simp: drop_key_def)

lemma set_drop_key: "set (drop_key k m) = {e \<in> set m. fst e \<noteq> k}"
  by (simp add: drop_key_def)

lemma set_put_key: "set (put_key k v m) \<subseteq> insert (k, v) (set m)"
  by (induction k v m rule: put_key.induct) auto

abbreviation put_renderer :: "nat \<Rightarrow> RendererInServer \<Rightarrow> outside \<Rightarrow> AudioService \<Rightarrow> AudioService" where
  "put_renderer k r x s \<equiv> s\<lparr>rends := (rends s)(k := r), out := x\<rparr>"

abbreviation put_capturer :: "nat \<Rightarrow> CapturerInServer \<Rightarrow> outside \<Rightarrow> AudioService \<Rightarrow> AudioService" where
  "put_capturer k c x s \<equiv> s\<lparr>caps := (caps s)(k := c), out := x\<rparr>"

section \<open>Muted sessions\<close>

definition Service_UpdateMuteControlSet :: "u32 \<Rightarrow> bool \<Rightarrow> AudioService \<Rightarrow> AudioService run" where
  "Service_UpdateMuteControlSet sid mute s =
     (if sid < MIN_SESSIONID \<or> sid > MAX_SESSIONID then returning s
      else if mutedLocked s then None
      else returning (s\<lparr>mutedSessions := (if mute then insert sid (mutedSessions s) else mutedSessions s - {sid})\<rparr>))"

definition RemoveIdFromMuteControlSet :: "u32 \<Rightarrow> AudioService \<Rightarrow> AudioService run" where
  "RemoveIdFromMuteControlSet sid s =
     (if mutedLocked s then None else returning (s\<lparr>mutedSessions := mutedSessions s - {sid}\<rparr>))"

text \<open>Each stream that is muted tells the service.\<close>

definition mute_renderer :: "nat \<Rightarrow> bool \<Rightarrow> AudioService \<Rightarrow> AudioService run" where
  "mute_renderer k mute s =
     (case Renderer_SetNonInterruptMute mute (rends s k) (out s) of (r, x) \<Rightarrow>
      Service_UpdateMuteControlSet (r_streamIndex r) mute (put_renderer k r x s))"

definition mute_capturer :: "nat \<Rightarrow> bool \<Rightarrow> AudioService \<Rightarrow> AudioService run" where
  "mute_capturer k mute s =
     (case Capturer_SetNonInterruptMute mute (caps s k) (out s) of (c, x) \<Rightarrow>
      Service_UpdateMuteControlSet (c_streamIndex c) mute (put_capturer k c x s))"

text \<open>\<open>AudioProcessInServer::SetNonInterruptMute\<close>.\<close>

definition mute_process :: "pref \<Rightarrow> bool \<Rightarrow> AudioService \<Rightarrow> AudioService run" where
  "mute_process p mute s =
     (let P = (procs (srv s) p)\<lparr>muteFlag := mute\<rparr>
      in Service_UpdateMuteControlSet (ap_sessionId P) mute (s\<lparr>srv := put_proc (srv s) p P\<rparr>))"

text \<open>The three checks of a new stream hold the lock while they mute it.\<close>

definition check_muted :: "(AudioService \<Rightarrow> AudioService run) \<Rightarrow> u32 \<Rightarrow> AudioService \<Rightarrow> AudioService run" where
  "check_muted mute sid s =
     (if mutedLocked s then None
      else run_bind (if sid \<in> mutedSessions s then mute (s\<lparr>mutedLocked := True\<rparr>) else returning (s\<lparr>mutedLocked := True\<rparr>))
             (\<lambda>s1. returning (s1\<lparr>mutedLocked := False\<rparr>)))"

definition CheckRenderSessionMuteState :: "u32 \<Rightarrow> nat \<Rightarrow> AudioService \<Rightarrow> AudioService run" where
  "CheckRenderSessionMuteState sid k = check_muted (mute_renderer k True) sid"

definition CheckCaptureSessionMuteState :: "u32 \<Rightarrow> nat \<Rightarrow> AudioService \<Rightarrow> AudioService run" where
  "CheckCaptureSessionMuteState sid k = check_muted (mute_capturer k True) sid"

definition CheckFastSessionMuteState :: "u32 \<Rightarrow> pref \<Rightarrow> AudioService \<Rightarrow> AudioService run" where
  "CheckFastSessionMuteState sid p = check_muted (mute_process p True) sid"

section \<open>The streams by session\<close>

definition InsertRenderer :: "u32 \<Rightarrow> nat \<Rightarrow> AudioService \<Rightarrow> AudioService" where
  "InsertRenderer sid k s = s\<lparr>allRendererMap := put_key sid k (allRendererMap s)\<rparr>"

definition Service_RemoveRenderer :: "u32 \<Rightarrow> AudioService \<Rightarrow> AudioService run" where
  "Service_RemoveRenderer sid s =
     (if map_of (allRendererMap s) sid = None then returning s
      else RemoveIdFromMuteControlSet sid (s\<lparr>allRendererMap := drop_key sid (allRendererMap s)\<rparr>))"

definition InsertCapturer :: "u32 \<Rightarrow> nat \<Rightarrow> AudioService \<Rightarrow> AudioService" where
  "InsertCapturer sid k s = s\<lparr>allCapturerMap := put_key sid k (allCapturerMap s)\<rparr>"

definition Service_RemoveCapturer :: "u32 \<Rightarrow> AudioService \<Rightarrow> AudioService run" where
  "Service_RemoveCapturer sid s =
     (if map_of (allCapturerMap s) sid = None then returning s
      else RemoveIdFromMuteControlSet sid (s\<lparr>allCapturerMap := drop_key sid (allCapturerMap s)\<rparr>))"

definition GetRendererBySessionID :: "u32 \<Rightarrow> AudioService \<Rightarrow> nat option" where
  "GetRendererBySessionID sid s =
     (case map_of (allRendererMap s) sid of None \<Rightarrow> None | Some k \<Rightarrow> if k \<in> rendAlive s then Some k else None)"

definition GetCapturerBySessionID :: "u32 \<Rightarrow> AudioService \<Rightarrow> nat option" where
  "GetCapturerBySessionID sid s =
     (case map_of (allCapturerMap s) sid of None \<Rightarrow> None | Some k \<Rightarrow> if k \<in> capAlive s then Some k else None)"

text \<open>Here the weak pointers are followed unchecked.\<close>

definition Service_SetNonInterruptMute :: "u32 \<Rightarrow> bool \<Rightarrow> AudioService \<Rightarrow> AudioService run" where
  "Service_SetNonInterruptMute sid mute s =
     (case map_of (allRendererMap s) sid of
        Some k \<Rightarrow> if k \<in> rendAlive s then mute_renderer k mute s else Some (Inl NullDeref)
      | None \<Rightarrow>
        (case map_of (allCapturerMap s) sid of
           Some k \<Rightarrow> if k \<in> capAlive s then mute_capturer k mute s else Some (Inl NullDeref)
         | None \<Rightarrow>
           (case List.find (\<lambda>q. ap_sessionId (procs (srv s) (fst q)) = sid) (linkedPairedList s) of
              Some q \<Rightarrow> mute_process (fst q) mute s
            | None \<Rightarrow> returning s)))"

definition offload_call ::
    "(RendererInServer \<Rightarrow> outside \<Rightarrow> (err \<times> outside) exec) \<Rightarrow> u32 \<Rightarrow> AudioService \<Rightarrow> (err \<times> AudioService) exec" where
  "offload_call f sid s =
     (case map_of (allRendererMap s) sid of
        None \<Rightarrow> Inr (ERR_INVALID_INDEX, s)
      | Some k \<Rightarrow>
        if k \<notin> rendAlive s then Inl NullDeref
        else exec_bind (f (rends s k) (out s)) (\<lambda>(code, x). Inr (code, s\<lparr>out := x\<rparr>)))"

definition Service_SetOffloadMode :: "u32 \<Rightarrow> s32 \<Rightarrow> bool \<Rightarrow> AudioService \<Rightarrow> (err \<times> AudioService) exec" where
  "Service_SetOffloadMode sid state isAppBack = offload_call (Renderer_SetOffloadMode state isAppBack) sid"

definition Service_UnsetOffloadMode :: "u32 \<Rightarrow> AudioService \<Rightarrow> (err \<times> AudioService) exec" where
  "Service_UnsetOffloadMode sid = offload_call Renderer_UnsetOffloadMode sid"

section \<open>The manager of inner capture\<close>

definition Mgr_SetSupportStreamUsage :: "enum32 list \<Rightarrow> PlaybackCapturerManager \<Rightarrow> PlaybackCapturerManager" where
  "Mgr_SetSupportStreamUsage usage m = m\<lparr>supportStreamUsageSet := set usage\<rparr>"

definition IsStreamSupportInnerCapturer :: "enum32 \<Rightarrow> PlaybackCapturerManager \<Rightarrow> bool" where
  "IsStreamSupportInnerCapturer usage m =
     (if supportStreamUsageSet m = {} then usage \<in> {1, 10, 11, 12} else usage \<in> supportStreamUsageSet m)"

definition IsPrivacySupportInnerCapturer :: "enum32 \<Rightarrow> bool" where
  "IsPrivacySupportInnerCapturer privacy \<longleftrightarrow> privacy = 0"

definition SetCaptureSilentState :: "bool \<Rightarrow> PlaybackCapturerManager \<Rightarrow> PlaybackCapturerManager" where
  "SetCaptureSilentState b m = m\<lparr>isCaptureSilently := b\<rparr>"

definition IsCaptureSilently :: "PlaybackCapturerManager \<Rightarrow> bool" where
  "IsCaptureSilently m = isCaptureSilently m"

definition Mgr_SetInnerCapturerState :: "bool \<Rightarrow> PlaybackCapturerManager \<Rightarrow> PlaybackCapturerManager" where
  "Mgr_SetInnerCapturerState b m = m\<lparr>isInnerCapturerRunning := b\<rparr>"

definition GetInnerCapturerState :: "PlaybackCapturerManager \<Rightarrow> bool" where
  "GetInnerCapturerState m = isInnerCapturerRunning m"

definition RegisterCapturerFilterListener :: "bool \<Rightarrow> PlaybackCapturerManager \<Rightarrow> bool \<times> PlaybackCapturerManager" where
  "RegisterCapturerFilterListener listener m =
     (if \<not> listener \<or> filterListener m then (False, m) else (True, m\<lparr>filterListener := True\<rparr>))"

section \<open>Which streams are captured\<close>

datatype InnerCapFilterPolicy = POLICY_INVALID | POLICY_USAGES_ONLY | POLICY_USAGES_AND_PIDS

definition GetInnerCapFilterPolicy :: "AudioPlaybackCaptureConfig \<Rightarrow> InnerCapFilterPolicy" where
  "GetInnerCapFilterPolicy cfg =
     (let usages = fo_usages (filterOptions cfg); pids = fo_pids (filterOptions cfg) in
      if usages = [] \<and> pids = [] then POLICY_INVALID
      else if usages \<noteq> [] \<and> pids = [] then POLICY_USAGES_ONLY
      else POLICY_USAGES_AND_PIDS)"

definition isFilterMatched :: "'a list \<Rightarrow> 'a \<Rightarrow> u32 \<Rightarrow> bool" where
  "isFilterMatched params param filterMode =
     (let found = List.member params param in filterMode = 0 \<and> found \<or> filterMode = 1 \<and> \<not> found)"

definition ShouldBeInnerCap :: "AudioPlaybackCaptureConfig \<Rightarrow> AudioProcessConfig \<Rightarrow> bool" where
  "ShouldBeInnerCap cfg rendererConfig =
     (if privacyType rendererConfig \<noteq> 0 then False
      else
        let f = filterOptions cfg;
            usageOk = isFilterMatched (fo_usages f) (ri_streamUsage (rendererInfo rendererConfig)) (fo_usageFilterMode f)
        in case GetInnerCapFilterPolicy cfg of
             POLICY_INVALID \<Rightarrow> False
           | POLICY_USAGES_ONLY \<Rightarrow> usageOk
           | POLICY_USAGES_AND_PIDS \<Rightarrow>
               usageOk \<and> isFilterMatched (fo_pids f) (appPid (appInfo rendererConfig)) (fo_pidFilterMode f))"

definition enable_cap :: "nat \<Rightarrow> AudioService \<Rightarrow> AudioService" where
  "enable_cap k s = (case EnableInnerCap (rends s k) (out s) of (_, r, x) \<Rightarrow> put_renderer k r x s)"

definition disable_cap :: "nat \<Rightarrow> AudioService \<Rightarrow> AudioService" where
  "disable_cap k s = (case DisableInnerCap (rends s k) (out s) of (_, r, x) \<Rightarrow> put_renderer k r x s)"

definition should_cap :: "AudioService \<Rightarrow> nat \<Rightarrow> bool" where
  "should_cap s k = ShouldBeInnerCap (workingConfig s) (r_config (rends s k))"

definition CheckInnerCapForRenderer :: "nat \<Rightarrow> AudioService \<Rightarrow> AudioService" where
  "CheckInnerCapForRenderer k s =
     (if workingInnerCapId s = 0 then s
      else if should_cap s k
      then enable_cap k (s\<lparr>filteredRendererMap := filteredRendererMap s @ [k]\<rparr>)
      else s)"

text \<open>A fast stream is captured at its endpoint: the state of the process is what the endpoint asks.\<close>

definition enable_fast :: "eref \<Rightarrow> AudioService \<Rightarrow> AudioService exec" where
  "enable_fast e s =
     exec_bind (EnableFastInnerCap (eps s e) (srv s)) (\<lambda>(_, E, w). Inr (s\<lparr>eps := (eps s)(e := E), srv := w\<rparr>))"

definition disable_fast :: "eref \<Rightarrow> AudioService \<Rightarrow> AudioService" where
  "disable_fast e s =
     (case DisableFastInnerCap (eps s e) (srv s) of (_, E, w) \<Rightarrow> s\<lparr>eps := (eps s)(e := E), srv := w\<rparr>)"

definition cap_process :: "bool \<Rightarrow> pref \<Rightarrow> AudioService \<Rightarrow> AudioService" where
  "cap_process b p s = s\<lparr>srv := put_proc (srv s) p (SetInnerCapState b (procs (srv s) p))\<rparr>"

fun filter_linked :: "(pref \<times> eref) list \<Rightarrow> AudioService \<Rightarrow> AudioService exec" where
  "filter_linked [] s = Inr s"
| "filter_linked ((p, e) # qs) s =
     (let cfg = processConfig (procs (srv s) p) in
      if pc_audioMode cfg = 0 \<and> ShouldBeInnerCap (workingConfig s) cfg
      then exec_bind (enable_fast e (cap_process True p s)) (filter_linked qs)
      else filter_linked qs (cap_process False p s))"

definition FilterAllFastProcess :: "AudioService \<Rightarrow> AudioService exec" where
  "FilterAllFastProcess s =
     (if linkedPairedList s = [] then Inr s
      else exec_bind (filter_linked (linkedPairedList s) s) (\<lambda>s1.
        Inr (fold (\<lambda>(_, e) s. if is_output (eps s e) \<and> \<not> ShouldInnerCap (eps s e) (srv s) then disable_fast e s else s)
               (endpointList s1) s1)))"

definition CheckInnerCapForProcess :: "pref \<Rightarrow> eref \<Rightarrow> AudioService \<Rightarrow> AudioService exec" where
  "CheckInnerCapForProcess p e s =
     (if workingInnerCapId s = 0 then Inr s
      else if ShouldBeInnerCap (workingConfig s) (processConfig (procs (srv s) p))
      then enable_fast e (cap_process True p s)
      else Inr (cap_process False p s))"

definition init_cap :: "nat \<Rightarrow> AudioService \<Rightarrow> AudioService" where
  "init_cap k s =
     (if k \<notin> rendAlive s then s
      else if should_cap s k
      then (let s1 = enable_cap k s in s1\<lparr>filteredRendererMap := filteredRendererMap s1 @ [k]\<rparr>)
      else s)"

definition OnInitInnerCapList :: "AudioService \<Rightarrow> (err \<times> AudioService) exec" where
  "OnInitInnerCapList s =
     exec_bind (FilterAllFastProcess s) (\<lambda>s1. Inr (SUCCESS, fold init_cap (map snd (allRendererMap s1)) s1))"

definition update_cap :: "nat \<Rightarrow> AudioService \<Rightarrow> AudioService" where
  "update_cap k s = (if k \<notin> rendAlive s then s else if \<not> should_cap s k then disable_cap k s else s)"

definition OnUpdateInnerCapList :: "AudioService \<Rightarrow> (err \<times> AudioService) exec" where
  "OnUpdateInnerCapList s =
     OnInitInnerCapList ((fold update_cap (filteredRendererMap s) s)\<lparr>filteredRendererMap := []\<rparr>)"

definition OnCapturerFilterChange ::
    "u32 \<Rightarrow> AudioPlaybackCaptureConfig \<Rightarrow> AudioService \<Rightarrow> (err \<times> AudioService) exec" where
  "OnCapturerFilterChange sid cfg s =
     (if workingInnerCapId s = 0 then OnInitInnerCapList (s\<lparr>workingInnerCapId := sid, workingConfig := cfg\<rparr>)
      else if workingInnerCapId s = sid then OnUpdateInnerCapList (s\<lparr>workingConfig := cfg\<rparr>)
      else Inr (ERR_OPERATION_FAILED, s))"

definition no_capture_config :: AudioPlaybackCaptureConfig where
  "no_capture_config =
     \<lparr>filterOptions = \<lparr>fo_usages = [], fo_usageFilterMode = 0, fo_pids = [], fo_pidFilterMode = 0\<rparr>, silentCapture = False\<rparr>"

definition drop_cap :: "nat \<Rightarrow> AudioService \<Rightarrow> AudioService" where
  "drop_cap k s = (if k \<notin> rendAlive s then s else disable_cap k s)"

definition OnCapturerFilterRemove :: "u32 \<Rightarrow> AudioService \<Rightarrow> err \<times> AudioService" where
  "OnCapturerFilterRemove sid s =
     (if workingInnerCapId s \<noteq> sid then (SUCCESS, s)
      else
        let s1 = s\<lparr>workingInnerCapId := 0, workingConfig := no_capture_config\<rparr>;
            s2 = fold (\<lambda>(_, e) s. if is_output (eps s e) then disable_fast e s else s) (endpointList s1) s1;
            s3 = fold drop_cap (filteredRendererMap s2) s2
        in (SUCCESS, s3\<lparr>filteredRendererMap := []\<rparr>))"

definition Mgr_SetPlaybackCapturerFilterInfo ::
    "u32 \<Rightarrow> AudioPlaybackCaptureConfig \<Rightarrow> AudioService \<Rightarrow> (err \<times> AudioService) exec" where
  "Mgr_SetPlaybackCapturerFilterInfo sid cfg s =
     (if \<not> filterListener (manager s) then Inr (ERR_ILLEGAL_STATE, s) else OnCapturerFilterChange sid cfg s)"

definition Mgr_RemovePlaybackCapturerFilterInfo :: "u32 \<Rightarrow> AudioService \<Rightarrow> err \<times> AudioService" where
  "Mgr_RemovePlaybackCapturerFilterInfo sid s =
     (if \<not> filterListener (manager s) then (ERR_ILLEGAL_STATE, s) else OnCapturerFilterRemove sid s)"

section \<open>The second sink\<close>

definition IsRingerOrAlarmerStreamUsage :: "enum32 \<Rightarrow> bool" where
  "IsRingerOrAlarmerStreamUsage usage \<longleftrightarrow> usage = USAGE_ALARM \<or> usage = USAGE_VOICE_RINGTONE \<or> usage = USAGE_RINGTONE"

definition ShouldBeDualTone :: "service_env \<Rightarrow> AudioProcessConfig \<Rightarrow> bool" where
  "ShouldBeDualTone v config =
     (if \<not> IsRingerOrAlarmerStreamUsage (ri_streamUsage (rendererInfo config)) then False
      else case v_device v config of
        None \<Rightarrow> False
      | Some d \<Rightarrow>
        if pc_audioMode config \<noteq> 0 then False
        else if di_deviceType d = DEV_WIRED_HEADSET \<or> di_deviceType d = DEV_WIRED_HEADPHONES \<or>
                di_deviceType d = DEV_BLUETOOTH_A2DP \<or> di_deviceType d = DEV_USB_HEADSET \<or>
                di_deviceType d = DEV_USB_ARM_HEADSET
        then ri_streamUsage (rendererInfo config) = USAGE_ALARM \<or>
             ri_streamUsage (rendererInfo config) = USAGE_VOICE_RINGTONE \<or>
             ri_streamUsage (rendererInfo config) = USAGE_RINGTONE
        else False)"

fun enable_dual_list :: "service_env \<Rightarrow> nat list \<Rightarrow> AudioService \<Rightarrow> AudioService exec" where
  "enable_dual_list v [] s = Inr s"
| "enable_dual_list v (k # ks) s =
     (if k \<notin> rendAlive s then enable_dual_list v ks s
      else if ShouldBeDualTone v (r_config (rends s k))
      then exec_bind (EnableDualTone (rends s k) (out s)) (\<lambda>(_, r, x).
        let s1 = put_renderer k r x s
        in enable_dual_list v ks (s1\<lparr>filteredDualToneRendererMap := filteredDualToneRendererMap s1 @ [k]\<rparr>))
      else enable_dual_list v ks s)"

definition EnableDualToneList :: "service_env \<Rightarrow> u32 \<Rightarrow> AudioService \<Rightarrow> (err \<times> AudioService) exec" where
  "EnableDualToneList v sid s =
     (let s1 = s\<lparr>workingDualToneId := sid\<rparr>
      in exec_bind (enable_dual_list v (map snd (allRendererMap s1)) s1) (\<lambda>s2. Inr (SUCCESS, s2)))"

definition disable_dual :: "nat \<Rightarrow> AudioService \<Rightarrow> AudioService" where
  "disable_dual k s =
     (if k \<notin> rendAlive s then s
      else case DisableDualTone (rends s k) (out s) of (_, r, x) \<Rightarrow> put_renderer k r x s)"

definition DisableDualToneList :: "AudioService \<Rightarrow> err \<times> AudioService" where
  "DisableDualToneList s =
     (SUCCESS, (fold disable_dual (filteredDualToneRendererMap s) s)\<lparr>filteredDualToneRendererMap := []\<rparr>)"

section \<open>Normal streams and their clients\<close>

text \<open>The object a client holds (\<open>ipc_stream_in_server.cpp\<close>).\<close>

record IpcStream =
  is_config :: AudioProcessConfig
  is_mode :: enum32
  is_renderer :: "nat option"
  is_capturer :: "nat option"

text \<open>\<open>k\<close> is where the new stream is put. A stream whose initialisation failed is destroyed at once.\<close>

definition ConfigRenderer :: "service_env \<Rightarrow> nat \<Rightarrow> AudioProcessConfig \<Rightarrow> AudioService \<Rightarrow> (err \<times> AudioService) exec" where
  "ConfigRenderer v k config s =
     exec_bind (Renderer_Init (v_os v) (RendererInServer_ctor config True) (out s)) (\<lambda>(code, r, x).
       let s1 = put_renderer k r x s in
       if code \<noteq> SUCCESS then Inr (ERR_OPERATION_FAILED, s1\<lparr>rendAlive := rendAlive s1 - {k}\<rparr>)
       else Inr (SUCCESS, s1\<lparr>rendAlive := insert k (rendAlive s1)\<rparr>))"

definition ConfigCapturer ::
    "securec \<Rightarrow> service_env \<Rightarrow> nat \<Rightarrow> AudioProcessConfig \<Rightarrow> AudioService \<Rightarrow> (err \<times> AudioService) exec" where
  "ConfigCapturer sec v k config s =
     exec_bind (Capturer_Init sec (v_os v) (CapturerInServer_ctor config True) (out s)) (\<lambda>(code, c, x).
       let s1 = put_capturer k c x s in
       if code \<noteq> SUCCESS then Inr (ERR_OPERATION_FAILED, s1\<lparr>capAlive := capAlive s1 - {k}\<rparr>)
       else Inr (SUCCESS, s1\<lparr>capAlive := insert k (capAlive s1)\<rparr>))"

definition IpcStream_Create ::
    "securec \<Rightarrow> service_env \<Rightarrow> nat \<Rightarrow> AudioProcessConfig \<Rightarrow> AudioService \<Rightarrow>
     (err \<times> IpcStream option \<times> AudioService) exec" where
  "IpcStream_Create sec v k config s =
     (let ipc = \<lparr>is_config = config, is_mode = pc_audioMode config, is_renderer = None, is_capturer = None\<rparr> in
      if pc_audioMode config = 0
      then exec_bind (ConfigRenderer v k config s) (\<lambda>(code, s1).
        Inr (code, if code = SUCCESS then Some (ipc\<lparr>is_renderer := Some k\<rparr>) else None, s1))
      else if pc_audioMode config = 1
      then exec_bind (ConfigCapturer sec v k config s) (\<lambda>(code, s1).
        Inr (code, if code = SUCCESS then Some (ipc\<lparr>is_capturer := Some k\<rparr>) else None, s1))
      else Inr (ERR_OPERATION_FAILED, None, s))"

definition know_manager :: "AudioService \<Rightarrow> AudioService" where
  "know_manager s =
     (if innerCapturerMgr s then s
      else s\<lparr>innerCapturerMgr := True, manager := snd (RegisterCapturerFilterListener True (manager s))\<rparr>)"

definition register_renderer :: "nat \<Rightarrow> AudioService \<Rightarrow> AudioService run" where
  "register_renderer k s =
     (case Renderer_GetSessionId (rends s k) of
        (code, Some sid) \<Rightarrow>
          if code \<noteq> SUCCESS then returning s
          else CheckRenderSessionMuteState sid k (CheckInnerCapForRenderer k (InsertRenderer sid k s))
      | (_, None) \<Rightarrow> returning s)"

definition register_capturer :: "nat \<Rightarrow> AudioService \<Rightarrow> AudioService run" where
  "register_capturer k s =
     (case Capturer_GetSessionId (caps s k) of
        (code, Some sid) \<Rightarrow>
          if code \<noteq> SUCCESS then returning s
          else CheckCaptureSessionMuteState sid k (InsertCapturer sid k s)
      | (_, None) \<Rightarrow> returning s)"

definition register_stream :: "IpcStream option \<Rightarrow> AudioService \<Rightarrow> AudioService run" where
  "register_stream ipc s =
     (case ipc of None \<Rightarrow> returning s
      | Some i \<Rightarrow>
        run_bind (case is_renderer i of Some r \<Rightarrow> register_renderer r s | None \<Rightarrow> returning s)
          (\<lambda>s1. case is_capturer i of Some c \<Rightarrow> register_capturer c s1 | None \<Rightarrow> returning s1))"

definition GetIpcStream ::
    "securec \<Rightarrow> service_env \<Rightarrow> nat \<Rightarrow> AudioProcessConfig \<Rightarrow> AudioService \<Rightarrow>
     (err \<times> IpcStream option \<times> AudioService) run" where
  "GetIpcStream sec v k config s =
     run_bind (Some (IpcStream_Create sec v k config (know_manager s))) (\<lambda>(code, ipc, s1).
       run_bind (register_stream ipc s1) (\<lambda>s2. returning (code, ipc, s2)))"

section \<open>What a stream asks of the service\<close>

text \<open>The calls a stream notes for the service, carried out in their order once the stream's operation
  has ended. Muting is the exception: it is carried out by \<^const>\<open>mute_renderer\<close> and
  \<^const>\<open>mute_capturer\<close>.\<close>

definition carry_out :: "service_op \<Rightarrow> AudioService \<Rightarrow> AudioService run" where
  "carry_out c s =
     (case c of
        RemoveRenderer sid \<Rightarrow> Service_RemoveRenderer sid s
      | RemoveCapturer sid \<Rightarrow> Service_RemoveCapturer sid s
      | UpdateMuteControlSet sid b \<Rightarrow> Service_UpdateMuteControlSet sid b s
      | SetPlaybackCapturerFilterInfo sid cfg \<Rightarrow>
          Some (exec_bind (Mgr_SetPlaybackCapturerFilterInfo sid cfg s) (\<lambda>r. Inr (snd r)))
      | RemovePlaybackCapturerFilterInfo sid \<Rightarrow> returning (snd (Mgr_RemovePlaybackCapturerFilterInfo sid s))
      | SetSupportStreamUsage usages \<Rightarrow> returning (s\<lparr>manager := Mgr_SetSupportStreamUsage usages (manager s)\<rparr>)
      | SetInnerCapturerState b \<Rightarrow> returning (s\<lparr>manager := Mgr_SetInnerCapturerState b (manager s)\<rparr>))"

fun service_ops :: "outside_call list \<Rightarrow> service_op list" where
  "service_ops [] = []"
| "service_ops (OnService c # cs) = c # service_ops cs"
| "service_ops (_ # cs) = service_ops cs"

definition carry_out_since :: "outside \<Rightarrow> AudioService \<Rightarrow> AudioService run" where
  "carry_out_since x s = each carry_out (service_ops (drop (length (asked x)) (asked (out s)))) s"

definition release_renderer :: "nat \<Rightarrow> AudioService \<Rightarrow> (err \<times> AudioService) run" where
  "release_renderer k s =
     (case Renderer_Release (rends s k) (out s) of (code, r, x) \<Rightarrow>
      run_bind (carry_out_since (out s) (put_renderer k r x s)) (\<lambda>s1. returning (code, s1)))"

definition release_capturer :: "nat \<Rightarrow> AudioService \<Rightarrow> (err \<times> AudioService) run" where
  "release_capturer k s =
     (case Capturer_Release (caps s k) (out s) of (code, c, x) \<Rightarrow>
      run_bind (carry_out_since (out s) (put_capturer k c x s)) (\<lambda>s1. returning (code, s1)))"

definition configure_capture ::
    "(u32 \<Rightarrow> bool) \<Rightarrow> AudioPlaybackCaptureConfig \<Rightarrow> nat \<Rightarrow> AudioService \<Rightarrow> (err \<times> AudioService) run" where
  "configure_capture downlink cfg k s =
     (case UpdatePlaybackCaptureConfig downlink cfg (caps s k) (out s) of (code, c, x) \<Rightarrow>
      run_bind (carry_out_since (out s) (put_capturer k c x s)) (\<lambda>s1. returning (code, s1)))"

text \<open>The last reference to a stream is dropped: its destructor releases it, unless it is released
  already or was never started.\<close>

definition drop_renderer :: "nat \<Rightarrow> AudioService \<Rightarrow> AudioService run" where
  "drop_renderer k s =
     run_bind
       (if r_status (rends s k) \<noteq> I_STATUS_RELEASED \<and> r_status (rends s k) \<noteq> I_STATUS_IDLE
        then run_bind (release_renderer k s) (\<lambda>(_, s1). returning s1) else returning s)
       (\<lambda>s1. returning (s1\<lparr>rendAlive := rendAlive s1 - {k}\<rparr>))"

definition drop_capturer :: "nat \<Rightarrow> AudioService \<Rightarrow> AudioService run" where
  "drop_capturer k s =
     run_bind
       (case CapturerInServer_dtor (caps s k) (out s) of (c, x) \<Rightarrow>
        carry_out_since (out s) (put_capturer k c x s))
       (\<lambda>s1. returning (s1\<lparr>capAlive := capAlive s1 - {k}\<rparr>))"

end
