(* ===== verification/FastService.thy ===== *)
theory FastService
  imports AudioService
begin

text \<open>
  How \<open>AudioService\<close> (\<open>audio_service.cpp\<close>) gives a fast stream its endpoint, and takes it back: one
  endpoint per device and kind of stream, made when it is first needed, linked to the processes that
  use it, and released some seconds after the last one left.

  The thread that releases an endpoint is two steps: it is noted in \<open>delayedReleases\<close> when it is
  started, and \<open>release_after_wait\<close> is what it does when its wait is over. What happens meanwhile are
  the other operations.

  An object that is made takes its place in the stores from \<open>fresh_refs\<close>.
\<close>

record fresh_refs =
  f_proc :: pref
  f_ep :: eref
  f_procbuf :: bref
  f_epbuf :: bref
  f_procmem :: "u8 list"
  f_epmem :: "u8 list"

definition NORMAL_ENDPOINT_RELEASE_DELAY_TIME :: s32 where [cfg_defs]: "NORMAL_ENDPOINT_RELEASE_DELAY_TIME = 10000"
definition A2DP_ENDPOINT_RELEASE_DELAY_TIME :: s32 where [cfg_defs]: "A2DP_ENDPOINT_RELEASE_DELAY_TIME = 3000"
definition AUDIO_FLAG_MMAP :: s32 where [cfg_defs]: "AUDIO_FLAG_MMAP = 1"
definition AUDIO_FLAG_VOIP_FAST :: s32 where [cfg_defs]: "AUDIO_FLAG_VOIP_FAST = 2"

section \<open>Names\<close>

fun show_nat :: "nat \<Rightarrow> string" where
  "show_nat n = (if n < 10 then [char_of (48 + n)] else show_nat (n div 10) @ [char_of (48 + n mod 10)])"

declare show_nat.simps [simp del]

definition show_int :: "int \<Rightarrow> string" where
  "show_int i = (if i < 0 then ''-'' @ show_nat (nat (- i)) else show_nat (nat i))"

definition GenerateEndpointKey :: "DeviceInfo \<Rightarrow> s32 \<Rightarrow> string" where
  "GenerateEndpointKey d endpointFlag =
     (let endpointId = (if di_deviceType d = DEV_BLUETOOTH_A2DP then di_deviceId d else 0)
      in di_networkId d @ ''_'' @ show_int (sint endpointId) @ ''_'' @ show_int (sint (di_deviceRole d)) @
         ''_'' @ show_int (sint endpointFlag))"

definition GetEndpointName :: "AudioEndpoint \<Rightarrow> string" where
  "GetEndpointName e = GenerateEndpointKey (deviceInfo e) (word_of_int (ep_id e))"

definition Endpoint_SetVolume :: err where "Endpoint_SetVolume = SUCCESS"

section \<open>Endpoints for devices\<close>

definition CreateEndpoint ::
    "service_env \<Rightarrow> fresh_refs \<Rightarrow> EndpointType \<Rightarrow> int \<Rightarrow> AudioProcessConfig \<Rightarrow> DeviceInfo \<Rightarrow> AudioService \<Rightarrow>
     (eref option \<times> AudioService) exec" where
  "CreateEndpoint v fr type i config d s =
     (if type = TYPE_INDEPENDENT \<and> di_deviceRole d \<noteq> 1 \<and> di_networkId d = LOCAL_NETWORK
      then case v_separate v of
             None \<Rightarrow> Inr (None, s)
           | Some E \<Rightarrow> Inr (Some (f_ep fr), s\<lparr>eps := (eps s)(f_ep fr := E)\<rparr>)
      else exec_bind (Config (v_adapter v) (f_epbuf fr) (f_epmem fr) d
                        (AudioEndpointInner_ctor type i config (v_blank v) (v_blank_stream v)) (srv s))
             (\<lambda>(made, E, w).
               if made then Inr (Some (f_ep fr), s\<lparr>eps := (eps s)(f_ep fr := E), srv := w\<rparr>)
               else Inr (None, s\<lparr>srv := w\<rparr>)))"

text \<open>The device of a process whose device the policy service does not know.\<close>

definition mock_device :: "service_env \<Rightarrow> AudioProcessConfig \<Rightarrow> DeviceInfo" where
  "mock_device v config =
     (let d = (v_blank v)\<lparr>di_networkId := LOCAL_NETWORK, di_deviceName := ''mmap_device'',
            di_audioStreamInfo := \<lparr>ws_encoding = 0, ws_format = 1, ws_channelLayout = 0, ws_samplingRate = {48000}, ws_channels = {2}\<rparr>\<rparr>
      in if pc_audioMode config = 1
         then d\<lparr>di_deviceId := 1, di_deviceRole := 1, di_deviceType := 15\<rparr>
         else d\<lparr>di_deviceId := 6, di_deviceRole := 2, di_deviceType := 2\<rparr>)"

definition GetDeviceInfoForProcess :: "service_env \<Rightarrow> AudioProcessConfig \<Rightarrow> DeviceInfo" where
  "GetDeviceInfoForProcess v config = (case v_device v config of Some d \<Rightarrow> d | None \<Rightarrow> mock_device v config)"

definition IsEndpointTypeVoip :: "AudioProcessConfig \<Rightarrow> DeviceInfo \<Rightarrow> bool" where
  "IsEndpointTypeVoip config d =
     (if ri_streamUsage (rendererInfo config) = 2 \<or> ri_streamUsage (rendererInfo config) = 17
      then ri_originalFlag (rendererInfo config) = AUDIO_FLAG_VOIP_FAST \<or> di_networkId d \<noteq> LOCAL_NETWORK
      else if ci_sourceType (capturerInfo config) = source_word SOURCE_TYPE_VOICE_COMMUNICATION
      then ci_originalFlag (capturerInfo config) = AUDIO_FLAG_VOIP_FAST \<or> di_networkId d \<noteq> LOCAL_NETWORK
      else False)"

definition GetAudioEndpointForDevice ::
    "service_env \<Rightarrow> fresh_refs \<Rightarrow> DeviceInfo \<Rightarrow> AudioProcessConfig \<Rightarrow> bool \<Rightarrow> AudioService \<Rightarrow>
     (eref option \<times> AudioService) exec" where
  "GetAudioEndpointForDevice v fr d config isVoipStream s =
     (if di_deviceRole d = 1 \<or> di_networkId d \<noteq> LOCAL_NETWORK \<or> di_deviceRole d = 2 \<or> v_separate_flag v = 1
      then
        let flag = (if isVoipStream then AUDIO_FLAG_VOIP_FAST else AUDIO_FLAG_MMAP);
            deviceKey = GenerateEndpointKey d flag
        in case map_of (endpointList s) deviceKey of
             Some e \<Rightarrow> Inr (Some e, s)
           | None \<Rightarrow>
             exec_bind (CreateEndpoint v fr (if isVoipStream then TYPE_VOIP_MMAP else TYPE_MMAP) (sint flag) config d s)
               (\<lambda>(made, s1). case made of
                  None \<Rightarrow> Inr (None, s1)
                | Some e \<Rightarrow> Inr (Some e, s1\<lparr>endpointList := put_key deviceKey e (endpointList s1)\<rparr>))
      else
        let deviceKey = di_networkId d @ show_int (sint (di_deviceId d)) @ ''_'' @ show_int (independentId s)
        in exec_bind (CreateEndpoint v fr TYPE_INDEPENDENT (independentId s) config d s)
             (\<lambda>(made, s1). case made of
                None \<Rightarrow> Inr (None, s1)
              | Some e \<Rightarrow> Inr (Some e, s1\<lparr>independentId := independentId s1 + 1,
                                          endpointList := put_key deviceKey e (endpointList s1)\<rparr>)))"

section \<open>Linking\<close>

definition LinkProcessToEndpoint :: "service_env \<Rightarrow> pref \<Rightarrow> eref \<Rightarrow> AudioService \<Rightarrow> err \<times> AudioService" where
  "LinkProcessToEndpoint v p e s =
     (case LinkProcessStream (v_meanwhile v) (Some p) (eps s e) (srv s) of (code, E, w) \<Rightarrow>
      let s1 = s\<lparr>eps := (eps s)(e := E), srv := w\<rparr> in
      if code \<noteq> SUCCESS then (ERR_OPERATION_FAILED, s1)
      else case AddProcessStatusListener e (procs (srv s1) p) of (code2, P) \<Rightarrow>
        let s2 = s1\<lparr>srv := put_proc (srv s1) p P\<rparr> in
        if code2 \<noteq> SUCCESS then (ERR_OPERATION_FAILED, s2)
        else (SUCCESS, s2\<lparr>releasingEndpointSet := releasingEndpointSet s2 - {GetEndpointName (eps s2 e)}\<rparr>))"

definition UnlinkProcessToEndpoint :: "pref \<Rightarrow> eref \<Rightarrow> AudioService \<Rightarrow> err \<times> AudioService" where
  "UnlinkProcessToEndpoint p e s =
     (case UnlinkProcessStream (Some p) (eps s e) (srv s) of (code, E, w) \<Rightarrow>
      let s1 = s\<lparr>eps := (eps s)(e := E), srv := w\<rparr> in
      if code \<noteq> SUCCESS then (ERR_OPERATION_FAILED, s1)
      else case RemoveProcessStatusListener e (procs (srv s1) p) of (code2, P) \<Rightarrow>
        let s2 = s1\<lparr>srv := put_proc (srv s1) p P\<rparr> in
        if code2 \<noteq> SUCCESS then (ERR_OPERATION_FAILED, s2) else (SUCCESS, s2))"

text \<open>A process that could not be linked stays in the list: nobody holds it who could release it.\<close>

definition link_process :: "service_env \<Rightarrow> pref \<Rightarrow> eref \<Rightarrow> AudioService \<Rightarrow> (pref option \<times> AudioService) exec" where
  "link_process v p e s =
     (case LinkProcessToEndpoint v p e s of (code, s1) \<Rightarrow>
      let s2 = s1\<lparr>linkedPairedList := linkedPairedList s1 @ [(p, e)]\<rparr> in
      if code \<noteq> SUCCESS then Inr (None, s2)
      else exec_bind (CheckInnerCapForProcess p e s2) (\<lambda>s3. Inr (Some p, s3)))"

definition prepare_process ::
    "service_env \<Rightarrow> fresh_refs \<Rightarrow> DeviceInfo \<Rightarrow> AudioProcessConfig \<Rightarrow> eref \<Rightarrow> AudioService \<Rightarrow> (err \<times> AudioService) run" where
  "prepare_process v fr d config e s =
     (let p = f_proc fr; P = AudioProcessInServer_ctor (v_perm v) config True;
          s1 = s\<lparr>srv := put_proc (srv s) p P\<rparr>
      in run_bind (CheckFastSessionMuteState (ap_sessionId P) p s1) (\<lambda>s2.
        case GetPreferBufferInfo (eps s2 e) of (_, totalSize, spanSize) \<Rightarrow>
        run_bind (Some (ConfigProcessBuffer (a_os (v_adapter v)) (f_procbuf fr) (f_procmem fr) totalSize spanSize
                    (di_audioStreamInfo d)
                    (if endpointType (eps s2 e) = TYPE_INDEPENDENT then dstAudioBuffer (eps s2 e) else None) p (srv s2)))
          (\<lambda>(code, w). returning (code, s2\<lparr>srv := w\<rparr>))))"

definition join_endpoint ::
    "service_env \<Rightarrow> fresh_refs \<Rightarrow> DeviceInfo \<Rightarrow> AudioProcessConfig \<Rightarrow> eref \<Rightarrow> AudioService \<Rightarrow>
     (pref option \<times> AudioService) run" where
  "join_endpoint v fr d config e s =
     (if ws_samplingRate (di_audioStreamInfo d) = {} then Some (Inl UncheckedAccess)
      else if \<not> last_in_order (ws_samplingRate (di_audioStreamInfo d)) > 0 then returning (None, s)
      else run_bind (prepare_process v fr d config e s) (\<lambda>(code, s1).
        if code \<noteq> SUCCESS then returning (None, s1) else Some (link_process v (f_proc fr) e s1)))"

definition GetAudioProcess ::
    "service_env \<Rightarrow> fresh_refs \<Rightarrow> AudioProcessConfig \<Rightarrow> AudioService \<Rightarrow> (pref option \<times> AudioService) run" where
  "GetAudioProcess v fr config s =
     (let d = GetDeviceInfoForProcess v config in
      run_bind (Some (GetAudioEndpointForDevice v fr d config (IsEndpointTypeVoip config d) s)) (\<lambda>(found, s1).
        case found of None \<Rightarrow> returning (None, s1) | Some e \<Rightarrow> join_endpoint v fr d config e s1))"

section \<open>Releasing\<close>

text \<open>The erased element's iterator is read again: at its place is now the next pair, or nothing.\<close>

definition remove_pair ::
    "(pref \<times> eref) list \<Rightarrow> (pref \<times> eref) list \<Rightarrow> pref \<Rightarrow> eref \<Rightarrow> AudioService \<Rightarrow> AudioService run" where
  "remove_pair before after p e s =
     (case UnlinkProcessToEndpoint p e s of (_, s1) \<Rightarrow>
      let s2 = s1\<lparr>linkedPairedList := before @ after\<rparr>; name = GetEndpointName (eps s1 e)
      in if GetStatus (eps s1 e) \<noteq> UNLINKED then returning s2
         else case after of
           [] \<Rightarrow> Some (Inl UncheckedAccess)
         | (_, e') # _ \<Rightarrow>
           returning (s2\<lparr>releasingEndpointSet := insert name (releasingEndpointSet s2),
             delayedReleases := delayedReleases s2 @
               [(name, if di_deviceType (deviceInfo (eps s2 e')) = DEV_BLUETOOTH_A2DP
                       then A2DP_ENDPOINT_RELEASE_DELAY_TIME else NORMAL_ENDPOINT_RELEASE_DELAY_TIME)]\<rparr>))"

definition OnProcessRelease :: "pref \<Rightarrow> AudioService \<Rightarrow> AudioService run" where
  "OnProcessRelease p s =
     (case dropWhile (\<lambda>q. fst q \<noteq> p) (linkedPairedList s) of
        [] \<Rightarrow> returning s
      | (_, e) # after \<Rightarrow>
        run_bind (RemoveIdFromMuteControlSet (ap_sessionId (procs (srv s) p)) s)
          (remove_pair (takeWhile (\<lambda>q. fst q \<noteq> p) (linkedPairedList s)) after p e))"

text \<open>\<open>AudioProcessInServer::Release\<close>, with the service as its callback.\<close>

definition release_process :: "pref \<Rightarrow> AudioService \<Rightarrow> (err \<times> AudioService) run" where
  "release_process = process_release OnProcessRelease"

definition release_endpoint :: "string \<Rightarrow> eref \<Rightarrow> AudioService \<Rightarrow> AudioService" where
  "release_endpoint name e s =
     (case Release (eps s e) (srv s) of (E, w) \<Rightarrow>
      s\<lparr>eps := (eps s)(e := E), srv := w, endpointList := drop_key name (endpointList s)\<rparr>)"

definition release_after_wait :: "string \<Rightarrow> AudioService \<Rightarrow> AudioService" where
  "release_after_wait name s =
     (if name \<notin> releasingEndpointSet s then s
      else
        let s1 = s\<lparr>releasingEndpointSet := releasingEndpointSet s - {name}\<rparr>
        in case map_of (endpointList s1) name of
             None \<Rightarrow> s1
           | Some e \<Rightarrow> if GetStatus (eps s1 e) = UNLINKED then release_endpoint name e s1 else s1)"

definition DelayCallReleaseEndpoint :: "string \<Rightarrow> (AudioService \<Rightarrow> AudioService) \<Rightarrow> AudioService \<Rightarrow> AudioService" where
  "DelayCallReleaseEndpoint name meanwhile s =
     (if map_of (endpointList s) name = None then s else release_after_wait name (meanwhile s))"

text \<open>A process leaves its endpoint, which is released, and is linked to the one its device has now;
  \<^const>\<open>False\<close>: the reset is given up.\<close>

definition move_pair :: "service_env \<Rightarrow> fresh_refs \<Rightarrow> pref \<Rightarrow> eref \<Rightarrow> AudioService \<Rightarrow> (bool \<times> AudioService) exec" where
  "move_pair v fr q old s =
     (let config = processConfig (procs (srv s) q) in
      case UnlinkProcessToEndpoint q old s of (code, s1) \<Rightarrow>
        if code \<noteq> SUCCESS then Inr (False, s1)
        else
          let name = GetEndpointName (eps s1 old);
              s2 = (if map_of (endpointList s1) name \<noteq> None then release_endpoint name old s1 else s1);
              d = GetDeviceInfoForProcess v config
          in exec_bind (GetAudioEndpointForDevice v fr d config (IsEndpointTypeVoip config d) s2) (\<lambda>(found, s3).
               case found of
                 None \<Rightarrow> Inr (False, s3)
               | Some e \<Rightarrow> exec_bind (link_process v q e s3) (\<lambda>(linked, s4). Inr (linked \<noteq> None, s4))))"

text \<open>The pairs at \<open>i\<close> and behind: \<open>n\<close> are still to be visited, since a turn takes one pair out and
  adds one at the end. After the removal the iterator is at the next pair, which is the one moved.\<close>

fun reset_from :: "service_env \<Rightarrow> (nat \<Rightarrow> fresh_refs) \<Rightarrow> nat \<Rightarrow> nat \<Rightarrow> AudioService \<Rightarrow> AudioService exec" where
  "reset_from v fresh 0 i s = Inr s"
| "reset_from v fresh (Suc n) i s =
     (if endpointType (eps s (snd (linkedPairedList s ! i))) \<noteq> TYPE_MMAP then reset_from v fresh n (Suc i) s
      else
        let l = take i (linkedPairedList s) @ drop (Suc i) (linkedPairedList s)
        in if length l \<le> i then Inl UncheckedAccess
           else exec_bind (move_pair v (fresh i) (fst (l ! i)) (snd (l ! i)) (s\<lparr>linkedPairedList := l\<rparr>))
                  (\<lambda>(go, s1). if go then reset_from v fresh n (Suc i) s1 else Inr s1))"

definition ResetAudioEndpoint :: "service_env \<Rightarrow> (nat \<Rightarrow> fresh_refs) \<Rightarrow> AudioService \<Rightarrow> AudioService exec" where
  "ResetAudioEndpoint v fresh s = reset_from v fresh (length (linkedPairedList s)) 0 s"

section \<open>Volume and amplitude\<close>

definition NotifyStreamVolumeChanged :: "AudioService \<Rightarrow> err" where
  "NotifyStreamVolumeChanged s =
     foldl (\<lambda>code (name, e). if GetEndpointName (eps s e) = name
              then (if code \<noteq> SUCCESS then code else Endpoint_SetVolume) else code) SUCCESS (endpointList s)"

text \<open>\<open>amplitude\<close> is what the endpoints measure.\<close>

definition GetMaxAmplitude :: "(eref \<Rightarrow> f32) \<Rightarrow> bool \<Rightarrow> AudioService \<Rightarrow> f32" where
  "GetMaxAmplitude amplitude isOutputDevice s =
     foldl (\<lambda>m (_, e).
       if (if isOutputDevice then is_output (eps s e) else is_input (eps s e)) \<and> f32_less m (amplitude e)
       then amplitude e else m) (FFin 0) (linkedPairedList s)"

end
