(* ===== verification/ServiceInv.thy ===== *)
theory ServiceInv
  imports FastService
begin

text \<open>
  What every operation of \<open>AudioService\<close> keeps: a stream is copied for inner capture only while a
  filter is set that it matches, and the service knows it as such.
\<close>

section \<open>Captured streams\<close>

definition registered :: "AudioService \<Rightarrow> nat set" where
  "registered s = snd ` set (allRendererMap s) \<inter> rendAlive s"

definition captured :: "AudioService \<Rightarrow> nat \<Rightarrow> bool" where
  "captured s k = r_isInnerCapEnabled (rends s k)"

definition capture_safe :: "AudioService \<Rightarrow> bool" where
  "capture_safe s \<longleftrightarrow>
     (\<forall>k \<in> registered s. captured s k \<longrightarrow>
        workingInnerCapId s \<noteq> 0 \<and> should_cap s k \<and> k \<in> set (filteredRendererMap s))"

definition matches :: "AudioService \<Rightarrow> pref \<Rightarrow> bool" where
  "matches s p = ShouldBeInnerCap (workingConfig s) (processConfig (procs (srv s) p))"

definition linked_procs :: "AudioService \<Rightarrow> pref set" where
  "linked_procs s = fst ` set (linkedPairedList s)"

definition fast_safe :: "AudioService \<Rightarrow> bool" where
  "fast_safe s \<longleftrightarrow>
     (workingInnerCapId s \<noteq> 0 \<longrightarrow>
        (\<forall>p \<in> linked_procs s. isInnerCapped (procs (srv s) p) \<longrightarrow> matches s p))"

text \<open>An operation that concerns neither the filter nor what is captured.\<close>

definition quiet :: "AudioService \<Rightarrow> AudioService \<Rightarrow> bool" where
  "quiet s s' \<longleftrightarrow>
     workingInnerCapId s' = workingInnerCapId s \<and> workingConfig s' = workingConfig s \<and>
     filteredRendererMap s' = filteredRendererMap s \<and> registered s' \<subseteq> registered s \<and>
     (\<forall>k \<in> registered s'. r_config (rends s' k) = r_config (rends s k) \<and> (captured s' k \<longrightarrow> captured s k))"

definition same_streams :: "AudioService \<Rightarrow> AudioService \<Rightarrow> bool" where
  "same_streams s s' \<longleftrightarrow>
     workingInnerCapId s' = workingInnerCapId s \<and> workingConfig s' = workingConfig s \<and>
     linked_procs s' \<subseteq> linked_procs s \<and>
     (\<forall>p \<in> linked_procs s'. processConfig (procs (srv s') p) = processConfig (procs (srv s) p) \<and>
          isInnerCapped (procs (srv s') p) = isInnerCapped (procs (srv s) p))"

lemma quiet_safe: "capture_safe s \<Longrightarrow> quiet s s' \<Longrightarrow> capture_safe s'"
  unfolding capture_safe_def quiet_def should_cap_def by fastforce

lemma same_streams_safe: "fast_safe s \<Longrightarrow> same_streams s s' \<Longrightarrow> fast_safe s'"
  unfolding fast_safe_def same_streams_def matches_def by auto

lemma quiet_refl [simp]: "quiet s s" and same_streams_refl [simp]: "same_streams s s"
  by (simp_all add: quiet_def same_streams_def)

lemma quiet_trans: "quiet s t \<Longrightarrow> quiet t u \<Longrightarrow> quiet s u"
  unfolding quiet_def by auto

lemma same_streams_trans: "same_streams s t \<Longrightarrow> same_streams t u \<Longrightarrow> same_streams s u"
  unfolding same_streams_def by auto

text \<open>\<open>run_returns P m\<close>: if \<open>m\<close> returns, its value has \<open>P\<close>.\<close>

definition run_returns :: "('a \<Rightarrow> bool) \<Rightarrow> 'a run \<Rightarrow> bool" where
  "run_returns P m \<longleftrightarrow> (case m of None \<Rightarrow> True | Some r \<Rightarrow> returns P r)"

lemma run_returns_simps [simp]: "run_returns P None" "run_returns P (Some r) = returns P r"
  by (simp_all add: run_returns_def)

lemma run_returns_bind: "run_returns P (run_bind m f) = run_returns (\<lambda>x. run_returns P (f x)) m"
  by (auto simp: run_returns_def run_bind_def returns_def split: option.splits sum.splits)

lemma run_returns_mono: "run_returns P m \<Longrightarrow> (\<And>x. P x \<Longrightarrow> Q x) \<Longrightarrow> run_returns Q m"
  by (auto simp: run_returns_def returns_def split: option.splits sum.splits)

lemma run_returnsD: "run_returns P m \<Longrightarrow> m = Some (Inr x) \<Longrightarrow> P x"
  by simp

lemma run_returns_any: "(\<And>x. P x) \<Longrightarrow> run_returns P m"
  by (auto simp: run_returns_def returns_def split: option.splits sum.splits)

lemma each_returns:
  assumes "P s" and "\<And>b s. P s \<Longrightarrow> run_returns P (f b s)"
  shows "run_returns P (each f bs s)"
  using assms(1)
proof (induction bs arbitrary: s)
  case (Cons b bs)
  then show ?case unfolding each.simps run_returns_bind
    by (rule_tac run_returns_mono [OF assms(2)])
qed simp

section \<open>The filter\<close>

text \<open>What the walks over the renderers leave alone.\<close>

definition cap_frame :: "AudioService \<Rightarrow> AudioService \<Rightarrow> bool" where
  "cap_frame s s' \<longleftrightarrow>
     workingInnerCapId s' = workingInnerCapId s \<and> workingConfig s' = workingConfig s \<and>
     allRendererMap s' = allRendererMap s \<and> rendAlive s' = rendAlive s \<and> srv s' = srv s \<and> eps s' = eps s \<and>
     linkedPairedList s' = linkedPairedList s \<and> endpointList s' = endpointList s \<and>
     (\<forall>k. r_config (rends s' k) = r_config (rends s k))"

lemma cap_frame_refl [simp]: "cap_frame s s"
  by (simp add: cap_frame_def)

lemma cap_frame_trans: "cap_frame s t \<Longrightarrow> cap_frame t u \<Longrightarrow> cap_frame s u"
  by (simp add: cap_frame_def)

lemma cap_frame_registered: "cap_frame s s' \<Longrightarrow> registered s' = registered s"
  by (simp add: cap_frame_def registered_def)

lemma cap_frame_should: "cap_frame s s' \<Longrightarrow> should_cap s' k = should_cap s k"
  by (simp add: cap_frame_def should_cap_def)

lemma EnableInnerCap_config: "EnableInnerCap r x = (code, r', x') \<Longrightarrow> r_config r' = r_config r"
  by (auto simp: EnableInnerCap_def Renderer_InitDupStream_def ask_def Let_def split: if_splits prod.splits)

lemma DisableInnerCap_spec:
  "DisableInnerCap r x = (code, r', x') \<Longrightarrow> r_config r' = r_config r \<and> \<not> r_isInnerCapEnabled r'"
  by (auto simp: DisableInnerCap_def split: if_splits)

lemma enable_cap_spec:
  "cap_frame s (enable_cap k s)" "filteredRendererMap (enable_cap k s) = filteredRendererMap s"
  "j \<noteq> k \<Longrightarrow> captured (enable_cap k s) j = captured s j"
  by (auto simp: enable_cap_def cap_frame_def captured_def dest: EnableInnerCap_config split: prod.split)

lemma disable_cap_spec:
  "cap_frame s (disable_cap k s)" "filteredRendererMap (disable_cap k s) = filteredRendererMap s"
  "captured (disable_cap k s) j = (j \<noteq> k \<and> captured s j)"
  by (auto simp: disable_cap_def cap_frame_def captured_def dest: DisableInnerCap_spec split: prod.split)

lemma fold_disable:
  assumes "\<And>k s. f k s = (if k \<in> rendAlive s \<and> P s k then disable_cap k s else s)"
    and "\<And>s s' k. cap_frame s s' \<Longrightarrow> P s' k = P s k"
  shows "cap_frame s (fold f ks s) \<and> filteredRendererMap (fold f ks s) = filteredRendererMap s \<and>
    (\<forall>j. captured (fold f ks s) j = (captured s j \<and> \<not> (j \<in> set ks \<and> j \<in> rendAlive s \<and> P s j)))"
proof (induction ks arbitrary: s)
  case (Cons k ks)
  define t where "t = f k s"
  have t: "cap_frame s t" "filteredRendererMap t = filteredRendererMap s"
    "captured t j = (captured s j \<and> \<not> (j = k \<and> k \<in> rendAlive s \<and> P s k))" for j
    by (auto simp: t_def assms(1) disable_cap_spec)
  have alive: "rendAlive t = rendAlive s" using t(1) by (simp add: cap_frame_def)
  have P: "P t j = P s j" for j using assms(2) [OF t(1)] .
  have IH: "cap_frame t (fold f ks t)" "filteredRendererMap (fold f ks t) = filteredRendererMap t"
    "captured (fold f ks t) j = (captured t j \<and> \<not> (j \<in> set ks \<and> j \<in> rendAlive t \<and> P t j))" for j
    using Cons.IH [of t] by auto
  have "fold f (k # ks) s = fold f ks t" by (simp add: t_def)
  then show ?case using IH t cap_frame_trans [OF t(1) IH(1)] by (auto simp: alive P)
qed simp

lemma fold_init:
  "cap_frame s (fold init_cap ks s) \<and> set (filteredRendererMap s) \<subseteq> set (filteredRendererMap (fold init_cap ks s)) \<and>
   (\<forall>k \<in> set ks. k \<in> rendAlive s \<and> should_cap s k \<longrightarrow> k \<in> set (filteredRendererMap (fold init_cap ks s))) \<and>
   (\<forall>k. captured (fold init_cap ks s) k \<longrightarrow> captured s k \<or> should_cap s k)"
proof (induction ks arbitrary: s)
  case (Cons k ks)
  define t where "t = init_cap k s"
  have t: "cap_frame s t" "set (filteredRendererMap s) \<subseteq> set (filteredRendererMap t)"
    "k \<in> rendAlive s \<and> should_cap s k \<longrightarrow> k \<in> set (filteredRendererMap t)"
    using enable_cap_spec(1,2) [where s = s and k = k]
    by (auto simp: t_def init_cap_def Let_def cap_frame_def)
  have cap: "captured t j \<longrightarrow> captured s j \<or> should_cap s j" for j
    using enable_cap_spec(3) [where s = s and k = k and j = j]
    by (cases "j = k") (auto simp: t_def init_cap_def Let_def captured_def)
  note IH = Cons.IH [of t]
  have "rendAlive t = rendAlive s" "should_cap t j = should_cap s j" for j
    using t(1) cap_frame_should by (auto simp: cap_frame_def)
  moreover have "fold init_cap (k # ks) s = fold init_cap ks t" by (simp add: t_def)
  ultimately show ?case using IH t cap cap_frame_trans [OF t(1)] by (fastforce simp: subset_iff)
qed simp

text \<open>The fast streams: their endpoints and their states change, nothing else of the service.\<close>

definition only_fast :: "AudioService \<Rightarrow> AudioService \<Rightarrow> bool" where
  "only_fast s s' \<longleftrightarrow> (\<exists>E w. s' = s\<lparr>eps := E, srv := w\<rparr>)"

definition fast_frame :: "AudioService \<Rightarrow> AudioService \<Rightarrow> bool" where
  "fast_frame s s' \<longleftrightarrow> only_fast s s' \<and> procs (srv s') = procs (srv s)"

lemma only_fast_updates [simp]:
  "only_fast s s" "only_fast s (s\<lparr>srv := w\<rparr>)" "only_fast s (s\<lparr>eps := E, srv := w\<rparr>)"
proof -
  have u: "only_fast s (s\<lparr>eps := E, srv := w\<rparr>)" for E w by (auto simp: only_fast_def)
  from u [where E = "eps s" and w = "srv s"] u [where E = "eps s" and w = w] u [where E = E and w = w]
  show "only_fast s s" "only_fast s (s\<lparr>srv := w\<rparr>)" "only_fast s (s\<lparr>eps := E, srv := w\<rparr>)" by simp_all
qed

lemma only_fast_trans:
  assumes "only_fast s t" and "only_fast t u"
  shows "only_fast s u"
proof -
  obtain E w E' w' where "t = s\<lparr>eps := E, srv := w\<rparr>" "u = t\<lparr>eps := E', srv := w'\<rparr>"
    using assms by (auto simp: only_fast_def)
  then have "u = s\<lparr>eps := E', srv := w'\<rparr>" by simp
  then show ?thesis by simp
qed

lemma fast_frame_trans: "fast_frame s t \<Longrightarrow> fast_frame t u \<Longrightarrow> fast_frame s u"
  by (auto simp: fast_frame_def intro: only_fast_trans)

lemma fast_frame_refl [simp]: "fast_frame s s"
  by (simp add: fast_frame_def)

lemma only_fast_same:
  assumes "only_fast s s'"
  shows "rends s' = rends s" "rendAlive s' = rendAlive s" "caps s' = caps s" "capAlive s' = capAlive s"
    "allRendererMap s' = allRendererMap s" "workingInnerCapId s' = workingInnerCapId s" "workingConfig s' = workingConfig s"
    "filteredRendererMap s' = filteredRendererMap s" "linkedPairedList s' = linkedPairedList s" "out s' = out s"
    "endpointList s' = endpointList s" "mutedSessions s' = mutedSessions s" "mutedLocked s' = mutedLocked s"
    "releasingEndpointSet s' = releasingEndpointSet s" "manager s' = manager s"
  using assms by (auto simp: only_fast_def)

lemma only_fast_view:
  assumes "only_fast s s'"
  shows "registered s' = registered s" "captured s' k = captured s k" "should_cap s' k = should_cap s k"
    "linked_procs s' = linked_procs s"
  using assms by (auto simp: only_fast_def registered_def captured_def should_cap_def linked_procs_def)

lemma EnableFast_procs: "returns (\<lambda>(_, E, w'). procs w' = procs w) (EnableFastInnerCap e w)"
  by (auto simp: EnableFastInnerCap_def InitDupStream_def adapter_call_def note_call_def Let_def returns_bind
      split: option.split)

lemma DisableFast_procs: "DisableFastInnerCap e w = (code, E, w') \<Longrightarrow> procs w' = procs w"
  by (auto simp: DisableFastInnerCap_def note_call_def split: if_splits)

lemma enable_fast_frame: "returns (fast_frame s) (enable_fast e s)"
  unfolding enable_fast_def returns_bind
  by (rule returns_mono [OF EnableFast_procs]) (auto simp: fast_frame_def)

lemma disable_fast_frame: "fast_frame s (disable_fast e s)"
  by (auto simp: disable_fast_def fast_frame_def dest: DisableFast_procs split: prod.split)

lemma fold_disable_fast:
  assumes "\<And>q s. f q s = (if P q s then disable_fast (snd q) s else s)"
  shows "fast_frame s (fold f qs s)"
proof (induction qs arbitrary: s)
  case (Cons q qs)
  have "fast_frame s (f q s)" using disable_fast_frame by (simp add: assms)
  then show ?case using fast_frame_trans [OF _ Cons.IH [of "f q s"]] by simp
qed simp

text \<open>After the walk the linked processes are captured where they match.\<close>

definition recapped :: "pref set \<Rightarrow> AudioService \<Rightarrow> AudioService \<Rightarrow> bool" where
  "recapped S s s' \<longleftrightarrow> only_fast s s' \<and>
     (\<forall>p. processConfig (procs (srv s') p) = processConfig (procs (srv s) p) \<and>
          isInnerCapped (procs (srv s') p) =
            (if p \<in> S then pc_audioMode (processConfig (procs (srv s) p)) = 0 \<and> matches s p
             else isInnerCapped (procs (srv s) p)))"

lemma recapped_trans:
  assumes "recapped {p} s t" and "recapped S t u"
  shows "recapped (insert p S) s u"
proof -
  have "workingConfig t = workingConfig s" using assms(1) only_fast_same by (auto simp: recapped_def)
  then show ?thesis using assms by (auto simp: recapped_def matches_def intro: only_fast_trans)
qed

lemma cap_process_recapped:
  "b = (pc_audioMode (processConfig (procs (srv s) p)) = 0 \<and> matches s p) \<Longrightarrow> recapped {p} s (cap_process b p s)"
  by (auto simp: recapped_def cap_process_def SetInnerCapState_def)

lemma fast_frame_recapped: "fast_frame t u \<Longrightarrow> recapped S s t \<Longrightarrow> recapped S s u"
  by (auto simp: fast_frame_def recapped_def intro: only_fast_trans)

lemma filter_linked_recapped: "returns (recapped (fst ` set qs) s) (filter_linked qs s)"
proof (induction qs arbitrary: s)
  case Nil
  show ?case by (simp add: recapped_def)
next
  case (Cons q qs)
  obtain p e where q: "q = (p, e)" by (rule prod.exhaust)
  have step: "recapped {p} s t \<Longrightarrow> returns (recapped (fst ` set (q # qs)) s) (filter_linked qs t)" for t
    by (rule returns_mono [OF Cons.IH]) (auto simp: q dest: recapped_trans)
  show ?case
  proof (cases "pc_audioMode (processConfig (procs (srv s) p)) = 0 \<and> matches s p")
    case True
    then have first: "recapped {p} s (cap_process True p s)" by (intro cap_process_recapped) simp
    have "returns (recapped {p} s) (enable_fast e (cap_process True p s))"
      by (rule returns_mono [OF enable_fast_frame]) (rule fast_frame_recapped [OF _ first])
    then have "returns (\<lambda>t. returns (recapped (fst ` set (q # qs)) s) (filter_linked qs t)) (enable_fast e (cap_process True p s))"
      by (rule returns_mono) (rule step)
    then show ?thesis using True by (simp add: q matches_def returns_bind Let_def)
  next
    case False
    have "recapped {p} s (cap_process False p s)" by (rule cap_process_recapped) (use False in auto)
    then have "returns (recapped (fst ` set (q # qs)) s) (filter_linked qs (cap_process False p s))" by (rule step)
    moreover have "filter_linked (q # qs) s = filter_linked qs (cap_process False p s)"
      using False by (auto simp: q matches_def Let_def)
    ultimately show ?thesis by (simp only:)
  qed
qed

lemma FilterAll_recapped: "returns (recapped (linked_procs s) s) (FilterAllFastProcess s)"
proof (cases "linkedPairedList s = []")
  case True
  then show ?thesis by (simp add: FilterAllFastProcess_def recapped_def linked_procs_def)
next
  case False
  let ?f = "\<lambda>(_, e) s. if is_output (eps s e) \<and> \<not> ShouldInnerCap (eps s e) (srv s) then disable_fast e s else s"
  have "fast_frame t (fold ?f (endpointList t) t)" for t
    by (rule fold_disable_fast [where P = "\<lambda>q s. is_output (eps s (snd q)) \<and> \<not> ShouldInnerCap (eps s (snd q)) (srv s)"])
      (simp add: case_prod_beta)
  then have "recapped S s t \<Longrightarrow> recapped S s (fold ?f (endpointList t) t)" for S t by (rule fast_frame_recapped)
  then have "returns (\<lambda>t. recapped (linked_procs s) s (fold ?f (endpointList t) t)) (filter_linked (linkedPairedList s) s)"
    unfolding linked_procs_def by (intro returns_mono [OF filter_linked_recapped])
  then show ?thesis using False by (simp add: FilterAllFastProcess_def returns_bind)
qed

section \<open>Setting and removing a filter\<close>

text \<open>A stream manager that makes every copy it is asked for.\<close>

definition obliging :: "outside \<Rightarrow> bool" where
  "obliging x \<longleftrightarrow> (\<forall>n. rp_code (answers x n) = SUCCESS \<and> rp_made (answers x n))"

lemma answers_kept [simp]: "answers (tell c x) = answers x" "answers (snd (ask c x)) = answers x"
  by (simp_all add: tell_def ask_def)

lemma enable_cap_obliging:
  assumes "obliging (out s)"
  shows "captured (enable_cap k s) k \<and> obliging (out (enable_cap k s))"
  using assms
  by (simp add: enable_cap_def captured_def EnableInnerCap_def Renderer_InitDupStream_def ask_def obliging_def Let_def
      split: prod.split)

lemma disable_cap_out: "obliging (out s) \<Longrightarrow> obliging (out (disable_cap k s))"
  by (simp add: disable_cap_def DisableInnerCap_def obliging_def split: prod.split)

lemma enable_cap_keeps: "captured s j \<Longrightarrow> captured (enable_cap k s) j"
  by (cases "j = k") (simp add: enable_cap_def captured_def EnableInnerCap_def, simp add: enable_cap_spec)

lemma fold_init_obliging:
  assumes "obliging (out s)"
  shows "(\<forall>k. captured s k \<longrightarrow> captured (fold init_cap ks s) k) \<and>
    (\<forall>k \<in> set ks. k \<in> rendAlive s \<and> should_cap s k \<longrightarrow> captured (fold init_cap ks s) k)"
  using assms
proof (induction ks arbitrary: s)
  case (Cons k ks)
  define t where "t = init_cap k s"
  have t: "obliging (out t)" "captured s j \<longrightarrow> captured t j"
    "k \<in> rendAlive s \<and> should_cap s k \<longrightarrow> captured t k" for j
    using Cons.prems enable_cap_obliging [of s k] enable_cap_keeps [of s j k]
    by (auto simp: t_def init_cap_def Let_def captured_def)
  have "cap_frame s t" using fold_init [of s "[k]"] by (simp add: t_def)
  then have "rendAlive t = rendAlive s" "should_cap t j = should_cap s j" for j
    using cap_frame_should by (auto simp: cap_frame_def)
  moreover have "fold init_cap (k # ks) s = fold init_cap ks t" by (simp add: t_def)
  ultimately show ?case using Cons.IH [OF t(1)] t(2,3) by auto
qed simp

definition follows_filter :: "AudioService \<Rightarrow> AudioService \<Rightarrow> bool" where
  "follows_filter s s' \<longleftrightarrow>
     capture_safe s' \<and> fast_safe s' \<and> workingInnerCapId s' = workingInnerCapId s \<and> workingConfig s' = workingConfig s \<and>
     registered s' = registered s \<and> linked_procs s' = linked_procs s \<and>
     (\<forall>k. r_config (rends s' k) = r_config (rends s k)) \<and>
     (\<forall>k \<in> registered s. should_cap s k \<longrightarrow> k \<in> set (filteredRendererMap s')) \<and>
     (\<forall>p \<in> linked_procs s. processConfig (procs (srv s') p) = processConfig (procs (srv s) p) \<and>
        isInnerCapped (procs (srv s') p) = (pc_audioMode (processConfig (procs (srv s) p)) = 0 \<and> matches s p)) \<and>
     (obliging (out s) \<longrightarrow> (\<forall>k \<in> registered s. captured s' k = should_cap s k))"

lemma OnInit_follows:
  assumes only: "\<And>k. k \<in> registered s \<Longrightarrow> captured s k \<Longrightarrow> should_cap s k" and working: "workingInnerCapId s \<noteq> 0"
  shows "returns (\<lambda>(code, s'). code = SUCCESS \<and> follows_filter s s') (OnInitInnerCapList s)"
proof -
  have "follows_filter s (fold init_cap (map snd (allRendererMap t)) t)" if rec: "recapped (linked_procs s) s t" for t
  proof -
    define u where "u = fold init_cap (map snd (allRendererMap t)) t"
    have t: "only_fast s t" using rec by (simp add: recapped_def)
    note tv = only_fast_same [OF t] only_fast_view [OF t]
    have u: "cap_frame t u" "\<And>k. k \<in> registered t \<Longrightarrow> should_cap t k \<Longrightarrow> k \<in> set (filteredRendererMap u)"
      "\<And>k. captured u k \<Longrightarrow> captured t k \<or> should_cap t k"
      using fold_init [of t "map snd (allRendererMap t)"] by (auto simp: u_def registered_def)
    have ob: "obliging (out t) \<Longrightarrow> k \<in> registered t \<Longrightarrow> should_cap t k \<Longrightarrow> captured u k" for k
      using fold_init_obliging [of t "map snd (allRendererMap t)"] by (auto simp: u_def registered_def)
    have uv: "registered u = registered s" "should_cap u k = should_cap s k" "srv u = srv t"
      "workingInnerCapId u = workingInnerCapId s" "workingConfig u = workingConfig s"
      "linked_procs u = linked_procs s" "r_config (rends u k) = r_config (rends s k)" for k
      using cap_frame_registered [OF u(1)] cap_frame_should [OF u(1)] u(1) tv
      by (simp_all add: cap_frame_def linked_procs_def)
    have sub: "captured u k \<Longrightarrow> k \<in> registered s \<Longrightarrow> should_cap s k" for k
      using u(3) only tv by auto
    have "capture_safe u" using sub u(2) working uv tv by (auto simp: capture_safe_def)
    moreover have "fast_safe u" using rec uv tv by (simp add: fast_safe_def matches_def recapped_def)
    moreover have "obliging (out s) \<longrightarrow> (\<forall>k \<in> registered s. captured u k = should_cap s k)"
      using ob sub tv by auto
    ultimately show ?thesis using uv u(2) rec tv unfolding u_def [symmetric]
      by (auto simp: follows_filter_def recapped_def)
  qed
  then show ?thesis
    by (auto simp: OnInitInnerCapList_def returns_bind intro!: returns_mono [OF FilterAll_recapped])
qed

lemma follows_filter_cong:
  assumes "follows_filter t s'" and "workingInnerCapId t = workingInnerCapId s" "workingConfig t = workingConfig s"
    and "registered t = registered s" "linked_procs t = linked_procs s" "srv t = srv s"
    and "\<And>k. r_config (rends t k) = r_config (rends s k)" and "obliging (out s) \<Longrightarrow> obliging (out t)"
  shows "follows_filter s s'"
  using assms by (auto simp: follows_filter_def should_cap_def matches_def)

lemma fold_disable_out:
  assumes "\<And>k s. f k s = s \<or> f k s = disable_cap k s" and "obliging (out s)"
  shows "obliging (out (fold f ks s))"
  using assms(2)
proof (induction ks arbitrary: s)
  case (Cons k ks)
  then have "obliging (out (f k s))" using assms(1) [of k s] disable_cap_out by auto
  then show ?case using Cons.IH by simp
qed simp

lemma OnCapturerFilterChange_spec:
  assumes safe: "capture_safe s" and sid: "sid \<noteq> 0"
  shows "returns (\<lambda>(code, s').
      if workingInnerCapId s = 0 \<or> workingInnerCapId s = sid
      then code = SUCCESS \<and> follows_filter (s\<lparr>workingInnerCapId := sid, workingConfig := cfg\<rparr>) s'
      else code = ERR_OPERATION_FAILED \<and> s' = s) (OnCapturerFilterChange sid cfg s)"
proof -
  let ?s = "s\<lparr>workingInnerCapId := sid, workingConfig := cfg\<rparr>"
  have reg: "registered ?s = registered s" "captured ?s k = captured s k" for k
    by (simp_all add: registered_def captured_def)
  consider (init) "workingInnerCapId s = 0" | (upd) "workingInnerCapId s = sid" "workingInnerCapId s \<noteq> 0"
    | (other) "workingInnerCapId s \<noteq> 0" "workingInnerCapId s \<noteq> sid" by blast
  then show ?thesis
  proof cases
    case init
    have "returns (\<lambda>(code, s'). code = SUCCESS \<and> follows_filter ?s s') (OnInitInnerCapList ?s)"
      by (rule OnInit_follows) (use safe sid init in \<open>auto simp: capture_safe_def reg\<close>)
    then show ?thesis using init by (simp add: OnCapturerFilterChange_def)
  next
    case upd
    define s1 where "s1 = s\<lparr>workingConfig := cfg\<rparr>"
    define t where "t = fold update_cap (filteredRendererMap s1) s1"
    have t: "cap_frame s1 t" "captured t j = (captured s1 j \<and> \<not> (j \<in> set (filteredRendererMap s1) \<and> j \<in> rendAlive s1 \<and> \<not> should_cap s1 j))" for j
      using fold_disable [where f = update_cap and P = "\<lambda>s k. \<not> should_cap s k" and s = s1 and ks = "filteredRendererMap s1"]
      by (auto simp: update_cap_def t_def cap_frame_should)
    have tout: "obliging (out s1) \<Longrightarrow> obliging (out t)"
      unfolding t_def by (rule fold_disable_out) (auto simp: update_cap_def)
    let ?t = "t\<lparr>filteredRendererMap := []\<rparr>"
    have tv: "registered ?t = registered s" "captured ?t j = captured t j" "should_cap ?t j = should_cap s1 j"
      "linked_procs ?t = linked_procs s" for j
      using t(1) by (simp_all add: registered_def captured_def should_cap_def cap_frame_def linked_procs_def s1_def)
    have "returns (\<lambda>(code, s'). code = SUCCESS \<and> follows_filter ?t s') (OnInitInnerCapList ?t)"
    proof (rule OnInit_follows)
      fix k assume "k \<in> registered ?t" and "captured ?t k"
      then show "should_cap ?t k" using safe t(2) [of k] unfolding tv
        by (auto simp: capture_safe_def registered_def captured_def s1_def)
    qed (use upd t(1) in \<open>simp add: cap_frame_def s1_def\<close>)
    moreover have "follows_filter ?t s' \<Longrightarrow> follows_filter ?s s'" for s'
      by (erule follows_filter_cong [of ?t]) (use t(1) tv tout upd in \<open>simp_all add: cap_frame_def s1_def reg linked_procs_def\<close>)
    ultimately have "returns (\<lambda>(code, s'). code = SUCCESS \<and> follows_filter ?s s') (OnInitInnerCapList ?t)"
      by (auto elim: returns_mono)
    then show ?thesis using upd
      by (simp add: OnCapturerFilterChange_def OnUpdateInnerCapList_def s1_def [symmetric] t_def [symmetric])
  next
    case other
    then show ?thesis by (simp add: OnCapturerFilterChange_def)
  qed
qed

lemma fold_disable_fast_off:
  assumes "\<And>q s. f q s = (if is_output (eps s (snd q)) then disable_fast (snd q) s else s)"
  shows "(\<forall>e. is_output (eps (fold f qs s) e) = is_output (eps s e) \<and>
            (isInnerCapEnabled (eps (fold f qs s) e) \<longrightarrow> isInnerCapEnabled (eps s e))) \<and>
         (\<forall>q \<in> set qs. is_output (eps s (snd q)) \<longrightarrow> \<not> isInnerCapEnabled (eps (fold f qs s) (snd q)))"
proof (induction qs arbitrary: s)
  case (Cons q qs)
  have q: "is_output (eps (f q s) e) = is_output (eps s e)"
    "isInnerCapEnabled (eps (f q s) e) \<longrightarrow> isInnerCapEnabled (eps s e)"
    "is_output (eps s (snd q)) \<longrightarrow> \<not> isInnerCapEnabled (eps (f q s) (snd q))" for e
    by (auto simp: assms disable_fast_def DisableFastInnerCap_def split: if_splits)
  then show ?case using Cons.IH [of "f q s"] by auto
qed simp

lemma OnCapturerFilterRemove_spec:
  assumes safe: "capture_safe s" and "OnCapturerFilterRemove sid s = (code, s')"
  shows "code = SUCCESS \<and> capture_safe s' \<and> registered s' = registered s \<and> endpointList s' = endpointList s \<and>
    (if workingInnerCapId s \<noteq> sid then s' = s
     else workingInnerCapId s' = 0 \<and> (\<forall>k \<in> registered s. \<not> captured s' k) \<and>
       (\<forall>(name, e) \<in> set (endpointList s). is_output (eps s' e) \<longrightarrow> \<not> isInnerCapEnabled (eps s' e)))"
proof (cases "workingInnerCapId s = sid")
  case True
  define s1 where "s1 = s\<lparr>workingInnerCapId := 0, workingConfig := no_capture_config\<rparr>"
  let ?f = "\<lambda>(_, e) s. if is_output (eps s e) then disable_fast e s else s"
  define s2 where "s2 = fold ?f (endpointList s1) s1"
  define s3 where "s3 = fold drop_cap (filteredRendererMap s2) s2"
  have s': "s' = s3\<lparr>filteredRendererMap := []\<rparr>" and code: "code = SUCCESS"
    using assms(2) True by (simp_all add: OnCapturerFilterRemove_def s1_def s2_def s3_def Let_def)
  have "fast_frame s1 s2" unfolding s2_def
    by (rule fold_disable_fast [where P = "\<lambda>q s. is_output (eps s (snd q))"]) (simp add: case_prod_beta)
  then have f2: "only_fast s1 s2" by (simp add: fast_frame_def)
  have off: "\<forall>q \<in> set (endpointList s1). is_output (eps s2 (snd q)) \<longrightarrow> \<not> isInnerCapEnabled (eps s2 (snd q))"
    using fold_disable_fast_off [where f = ?f and qs = "endpointList s1" and s = s1]
    by (simp add: s2_def case_prod_beta)
  have f3: "cap_frame s2 s3"
    "captured s3 j = (captured s2 j \<and> \<not> (j \<in> set (filteredRendererMap s2) \<and> j \<in> rendAlive s2))" for j
    using fold_disable [where f = drop_cap and P = "\<lambda>_ _. True" and s = s2 and ks = "filteredRendererMap s2"]
    by (auto simp: drop_cap_def s3_def)
  note v = only_fast_same [OF f2] only_fast_view [OF f2]
  have reg: "registered s' = registered s"
    using f3(1) v by (simp add: s' s1_def cap_frame_def registered_def)
  have none: "\<not> captured s' k" if "k \<in> registered s" for k
  proof
    assume "captured s' k"
    then have "captured s3 k" by (simp add: s' captured_def)
    then have "captured s k" "\<not> (k \<in> set (filteredRendererMap s) \<and> k \<in> rendAlive s)"
      using f3(2) [of k] v by (auto simp: s1_def captured_def)
    then show False using safe that by (auto simp: capture_safe_def registered_def)
  qed
  have "endpointList s1 = endpointList s" "endpointList s' = endpointList s" "eps s' = eps s2" "workingInnerCapId s' = 0"
    using f3(1) v by (simp_all add: s' s1_def cap_frame_def)
  then show ?thesis using True code none reg off by (auto simp: capture_safe_def)
next
  case False
  then show ?thesis using assms by (auto simp: OnCapturerFilterRemove_def)
qed

end
