(* ===== verification/FastFrame.thy ===== *)
theory FastFrame
  imports FastService
begin

text \<open>
  What endpoints and the linking of processes leave alone: the configuration of every process, and
  whether it is captured.
\<close>

definition proc_view :: "server \<Rightarrow> pref \<Rightarrow> AudioProcessConfig \<times> bool" where
  "proc_view w p = (processConfig (procs w p), isInnerCapped (procs w p))"

lemma proc_view_updates [simp]:
  "proc_view (w\<lparr>buffers := b\<rparr>) = proc_view w" "proc_view (w\<lparr>mems := m\<rparr>) = proc_view w"
  "proc_view (w\<lparr>ticks := n\<rparr>) = proc_view w" "proc_view (w\<lparr>calls := cs\<rparr>) = proc_view w"
  "proc_view (w\<lparr>queries := n\<rparr>) = proc_view w"
  by (simp_all add: proc_view_def fun_eq_iff)

lemma proc_view_put:
  assumes "processConfig P = processConfig (procs w p)" and "isInnerCapped P = isInnerCapped (procs w p)"
  shows "proc_view (put_proc w p P) = proc_view w"
  using assms by (auto simp: proc_view_def fun_eq_iff)

section \<open>The device\<close>

lemma GetCurNano_view: "GetCurNano w = (t, w') \<Longrightarrow> proc_view w' = proc_view w"
  by (auto simp: GetCurNano_def)

lemma adapter_call_view: "adapter_call c w = (r, w') \<Longrightarrow> proc_view w' = proc_view w"
  by (auto simp: adapter_call_def Let_def)

lemma note_call_view [simp]: "proc_view (note_call c w) = proc_view w"
  by (simp add: note_call_def)

lemma clear_data_view [simp]: "proc_view (clear_data b w) = proc_view w"
  by (simp add: clear_data_def store_at_def)

lemma start_adapter_view: "start_adapter_fails e w = (b, w') \<Longrightarrow> proc_view w' = proc_view w"
  by (auto simp: start_adapter_fails_def split: if_splits prod.splits dest: adapter_call_view)

lemma stop_adapter_view: "stop_adapter e w = (b, w') \<Longrightarrow> proc_view w' = proc_view w"
  by (auto simp: stop_adapter_def split: if_splits prod.splits dest: adapter_call_view)

lemma StartDevice_view: "StartDevice e w = (ok, e', w') \<Longrightarrow> proc_view w' = proc_view w"
  by (auto simp: StartDevice_def Let_def split: if_splits prod.splits dest!: start_adapter_view)

lemma StopDevice_view: "StopDevice e w = (ok, e', w') \<Longrightarrow> proc_view w' = proc_view w"
  by (auto simp: StopDevice_def stop_prologue_def Let_def split: if_splits prod.splits option.splits dest!: stop_adapter_view)

lemma arm_delay_stop_view: "arm_delay_stop e w = (e', w') \<Longrightarrow> proc_view w' = proc_view w"
  by (auto simp: arm_delay_stop_def split: prod.splits dest: GetCurNano_view)

section \<open>Linking\<close>

text \<open>What may happen while a process waits for an endpoint that is starting.\<close>

definition meanwhile_quiet :: "service_env \<Rightarrow> bool" where
  "meanwhile_quiet v \<longleftrightarrow> (\<forall>e w. proc_view (snd (v_meanwhile v (e, w))) = proc_view w)"

lemma link_after_wait_view: "link_after_wait p b n e w = (code, e', w') \<Longrightarrow> proc_view w' = proc_view w"
  by (auto simp: link_after_wait_def Let_def split: if_splits prod.splits dest!: StartDevice_view arm_delay_stop_view)

lemma LinkProcessStream_view:
  assumes "meanwhile_quiet v" and "LinkProcessStream (v_meanwhile v) st e w = (code, e', w')"
  shows "proc_view w' = proc_view w"
proof -
  have m: "v_meanwhile v (e, w1) = (e2, w2) \<Longrightarrow> proc_view w2 = proc_view w1" for w1 e2 w2
    using assms(1) unfolding meanwhile_quiet_def by (metis snd_conv)
  show ?thesis
    using assms(2)
    by (auto simp: LinkProcessStream_def Let_def split: option.splits if_splits prod.splits
        dest!: link_after_wait_view m)
qed

lemma UnlinkProcessStream_view: "UnlinkProcessStream st e w = (code, e', w') \<Longrightarrow> proc_view w' = proc_view w"
  by (auto simp: UnlinkProcessStream_def Let_def split: option.splits if_splits prod.splits dest!: StopDevice_view)

lemma Release_view: "Release e w = (e', w') \<Longrightarrow> proc_view w' = proc_view w"
  by (auto simp: Release_def DisableFastInnerCap_def Let_def split: if_splits)

section \<open>Making endpoints and processes\<close>

abbreviation keeps_view :: "server \<Rightarrow> ('a \<times> 'b \<times> server) exec \<Rightarrow> bool" where
  "keeps_view w m \<equiv> returns (\<lambda>(_, _, w'). proc_view w' = proc_view w) m"

lemma InitAudiobuffer_view: "returns (\<lambda>w'. proc_view w' = proc_view w) (InitAudiobuffer b e w)"
  by (auto simp: InitAudiobuffer_def split: option.split intro!: returns_bind_any)

lemma prepared_view:
  "keeps_view w (exec_bind (InitAudiobuffer True e (clear_data b ((put_buffer w b B)\<lparr>mems := m\<rparr>))) (\<lambda>w2. Inr (code, e, w2)))"
proof -
  let ?w = "clear_data b ((put_buffer w b B)\<lparr>mems := m\<rparr>)"
  have "proc_view ?w = proc_view w" by simp
  then show ?thesis unfolding returns_bind by (intro returns_mono [OF InitAudiobuffer_view]) simp
qed

lemma PrepareDeviceBuffer_view: "keeps_view w (PrepareDeviceBuffer a b mem d e w)"
proof -
  have made: "keeps_view w (case r of None \<Rightarrow> Inr (ERR_ILLEGAL_STATE, e2, w)
      | Some B \<Rightarrow>
        if GetBufferHolder B \<noteq> AUDIO_SERVER_ONLY then Inr (ERR_ILLEGAL_STATE, e2\<lparr>dstAudioBuffer := Some b\<rparr>, put_buffer w b B)
        else if GetStreamStatus B = None then Inr (ERR_INVALID_PARAM, e2\<lparr>dstAudioBuffer := Some b\<rparr>, put_buffer w b B)
        else
          let e3 = e2\<lparr>dstAudioBuffer := Some b\<rparr>;
              w1 = clear_data b ((put_buffer w b (set_stream_status B STREAM_IDEL))\<lparr>mems := (mems w)(b := mem)\<rparr>)
          in exec_bind (InitAudiobuffer True e3 w1) (\<lambda>w2. Inr (SUCCESS, e3, w2)))" for r e2
    by (auto simp: Let_def split: option.split intro: prepared_view)
  obtain code e1 where g: "GetAdapterBufferInfo a d e = (code, e1)" by (rule prod.exhaust)
  show ?thesis
    unfolding PrepareDeviceBuffer_def g prod.case Let_def
    apply (split if_split, intro conjI impI, simp)
    apply (split if_split, intro conjI impI, simp)
    apply (split if_split, intro conjI impI, simp)
    apply (split if_split, intro conjI impI, simp)
    apply (rule returns_bind_any)
    apply (rule made [unfolded Let_def])
    done
qed

lemma ConfigInputPoint_view: "keeps_view w (ConfigInputPoint a b mem d e w)"
proof -
  have tail: "keeps_view w (exec_bind (PrepareDeviceBuffer a b mem d e1 w) (\<lambda>(code, e2, w1).
      if code \<noteq> SUCCESS then Inr (False, e2\<lparr>fastSource := False\<rparr>, note_call SourceDeInit w1)
      else case ConfigSampleRate (writeTimeModel e2) (si_samplingRate (dstStreamInfo e2)) of (ok, m) \<Rightarrow>
        let e3 = e2\<lparr>writeTimeModel := m\<rparr>
        in if \<not> ok then Inr (False, e3, w1) else Inr (True, StartThread e3, w1)))" for e1
    unfolding returns_bind
    by (rule returns_mono [OF PrepareDeviceBuffer_view]) (auto simp: Let_def split: prod.split)
  show ?thesis unfolding ConfigInputPoint_def using tail by (auto simp: Let_def split: prod.split)
qed

lemma Config_view: "keeps_view w (Config a b mem d e w)"
proof -
  have tail: "keeps_view w (exec_bind (PrepareDeviceBuffer a b mem d e3 w) (\<lambda>(code, e4, w1).
      if code \<noteq> SUCCESS then Inr (False, e4\<lparr>fastSink := False\<rparr>, note_call SinkDeInit w1)
      else case ConfigSampleRate (readTimeModel e4) (si_samplingRate (dstStreamInfo e4)) of (ok, m) \<Rightarrow>
        let e5 = e4\<lparr>readTimeModel := m\<rparr>
        in if \<not> ok then Inr (False, e5, w1) else Inr (True, StartThread e5, w1)))" for e3
    unfolding returns_bind
    by (rule returns_mono [OF PrepareDeviceBuffer_view]) (auto simp: Let_def split: prod.split)
  show ?thesis unfolding Config_def using tail ConfigInputPoint_view by (auto simp: Let_def split: prod.split)
qed

lemma InitBufferStatus_view: "proc_view (snd (InitBufferStatus pb w)) = proc_view w"
  by (auto simp: InitBufferStatus_def Let_def split: option.split prod.split dest: GetCurNano_view)

lemma procs_put_view: "processConfig P = processConfig Q \<Longrightarrow> isInnerCapped P = isInnerCapped Q \<Longrightarrow>
    proc_view w' = proc_view w \<Longrightarrow> procs w p = Q \<Longrightarrow> proc_view (put_proc w' p P) = proc_view w"
  by (auto simp: proc_view_def fun_eq_iff)

text \<open>Configuring a process's buffer: the process that is put back still has its configuration.\<close>

definition same_process :: "AudioProcess \<Rightarrow> AudioProcess \<Rightarrow> bool" where
  "same_process P Q \<longleftrightarrow> processConfig Q = processConfig P \<and> isInnerCapped Q = isInnerCapped P"

lemma ConfigProcessBuffer_view:
  "returns (\<lambda>(_, w'). proc_view w' = proc_view w) (ConfigProcessBuffer os fresh mem totalSize spanSize info shared p w)"
proof -
  let ?P = "procs w p"
  have buffer: "returns (\<lambda>(_, P2, w1). same_process ?P P2 \<and> proc_view w1 = proc_view w)
      (case shared of
         Some b \<Rightarrow> Inr (SUCCESS, P1\<lparr>processBuffer := Some b\<rparr>, w)
       | None \<Rightarrow> exec_bind (CreateFromLocal os t n k) (\<lambda>r. case r of
           None \<Rightarrow> Inr (ERR_OPERATION_FAILED, P1, w)
         | Some B \<Rightarrow>
           let P2 = P1\<lparr>processBuffer := Some fresh\<rparr>;
               w1 = (put_buffer w fresh B)\<lparr>mems := (mems w)(fresh := mem)\<rparr>
           in if GetBufferHolder B \<noteq> AUDIO_SERVER_SHARED then Inr (ERR_ILLEGAL_STATE, P2, w1)
              else Inr (SUCCESS, P2, snd (InitBufferStatus (Some fresh) (clear_data fresh w1)))))"
    if "same_process ?P P1" for P1 t n k
    using that
    by (auto simp: same_process_def Let_def InitBufferStatus_view split: option.split intro!: returns_bind_any)
  have finish: "returns (\<lambda>(_, w'). proc_view w' = proc_view w) (exec_bind m (\<lambda>(code, P2, w1).
      if code \<noteq> SUCCESS then Inr (code, put_proc w1 p P2)
      else case processBuffer P2 of None \<Rightarrow> Inl NullDeref
      | Some b \<Rightarrow>
        if GetStreamStatus (buffers w1 b) = None then Inr (ERR_OPERATION_FAILED, put_proc w1 p P2)
        else Inr (SUCCESS, put_proc w1 p
          (P2\<lparr>streamStatusOf := Some b, isBufferConfiged := True, ap_isInited := True\<rparr>))))"
    if "returns (\<lambda>(_, P2, w1). same_process ?P P2 \<and> proc_view w1 = proc_view w) m" for m
    unfolding returns_bind
    by (rule returns_mono [OF that])
      (auto simp: same_process_def split: option.split intro!: procs_put_view [of _ ?P])
  show ?thesis
    unfolding ConfigProcessBuffer_def Let_def
    apply (split if_split, intro conjI impI, simp)
    apply (split if_split, intro conjI impI, simp)
    apply (split if_split, intro conjI impI, simp)
    apply (split if_split, intro conjI impI, simp)
    apply (rule finish [unfolded Let_def])
    apply (rule buffer [unfolded Let_def])
    apply (simp add: same_process_def)
    done
qed

end
