(* ===== verification/ServiceSteps.thy ===== *)
theory ServiceSteps
  imports ServiceInv RendererFrame FastFrame
begin

text \<open>
  Every operation of the service keeps the invariant of inner capture: the walks over its streams, the
  creation and the end of a stream, muting, the second sink, and the linking of fast streams.
\<close>

definition safe :: "AudioService \<Rightarrow> bool" where
  "safe s \<longleftrightarrow> capture_safe s \<and> fast_safe s"

lemma safe_frame: "safe s \<Longrightarrow> quiet s s' \<Longrightarrow> same_streams s s' \<Longrightarrow> safe s'"
  by (auto simp: safe_def intro: quiet_safe same_streams_safe)

definition calm :: "AudioService \<Rightarrow> AudioService \<Rightarrow> bool" where
  "calm s s' \<longleftrightarrow> quiet s s' \<and> same_streams s s'"

lemma calm_safe: "safe s \<Longrightarrow> calm s s' \<Longrightarrow> safe s'"
  by (auto simp: calm_def intro: safe_frame)

lemma calm_refl [simp]: "calm s s"
  by (simp add: calm_def)

lemma calm_trans: "calm s t \<Longrightarrow> calm t u \<Longrightarrow> calm s u"
  by (auto simp: calm_def intro: quiet_trans same_streams_trans)

lemma calmI:
  assumes "workingInnerCapId s' = workingInnerCapId s" "workingConfig s' = workingConfig s"
    "filteredRendererMap s' = filteredRendererMap s" "registered s' \<subseteq> registered s"
    "linked_procs s' \<subseteq> linked_procs s"
    "\<And>p. p \<in> linked_procs s' \<Longrightarrow> proc_view (srv s') p = proc_view (srv s) p"
    "\<And>k. k \<in> registered s' \<Longrightarrow> r_config (rends s' k) = r_config (rends s k) \<and>
      (r_isInnerCapEnabled (rends s' k) \<longrightarrow> r_isInnerCapEnabled (rends s k))"
  shows "calm s s'"
  using assms by (auto simp: calm_def quiet_def same_streams_def captured_def proc_view_def)

text \<open>The usual case: the registered streams and the links are at most those there were.\<close>

lemma calm_sub:
  assumes "workingInnerCapId s' = workingInnerCapId s" "workingConfig s' = workingConfig s"
    "filteredRendererMap s' = filteredRendererMap s" "set (allRendererMap s') \<subseteq> set (allRendererMap s)"
    "rendAlive s' \<subseteq> rendAlive s" "set (linkedPairedList s') \<subseteq> set (linkedPairedList s)"
    "proc_view (srv s') = proc_view (srv s)"
    "\<And>k. r_config (rends s' k) = r_config (rends s k) \<and>
      (r_isInnerCapEnabled (rends s' k) \<longrightarrow> r_isInnerCapEnabled (rends s k))"
  shows "calm s s'"
proof (rule calmI)
  show "registered s' \<subseteq> registered s" "linked_procs s' \<subseteq> linked_procs s"
    using assms(4-6) by (auto simp: registered_def linked_procs_def)
qed (use assms in auto)

abbreviation stays_calm :: "AudioService \<Rightarrow> AudioService run \<Rightarrow> bool" where
  "stays_calm s m \<equiv> run_returns (calm s) m"

section \<open>Muting\<close>

lemma UpdateMute_calm: "stays_calm s (Service_UpdateMuteControlSet sid b s)"
  by (auto simp: Service_UpdateMuteControlSet_def intro!: calm_sub)

lemma RemoveId_calm: "stays_calm s (RemoveIdFromMuteControlSet sid s)"
  by (auto simp: RemoveIdFromMuteControlSet_def intro!: calm_sub)

lemma calm_after: "calm s t \<Longrightarrow> stays_calm t m \<Longrightarrow> stays_calm s m"
  by (erule run_returns_mono) (rule calm_trans)

lemma calm_exec: "calm s t \<Longrightarrow> returns (calm t) m \<Longrightarrow> returns (calm s) m"
  by (erule returns_mono) (rule calm_trans)

lemma put_renderer_calm: "capture_view r = capture_view (rends s k) \<Longrightarrow> calm s (put_renderer k r x s)"
  by (rule calm_sub) (auto simp: capture_view_def)

lemma mute_renderer_calm: "stays_calm s (mute_renderer k b s)"
  unfolding mute_renderer_def Renderer_SetNonInterruptMute_def prod.case
  by (rule calm_after [OF put_renderer_calm UpdateMute_calm]) (simp add: capture_view_def)

lemma mute_capturer_calm: "stays_calm s (mute_capturer k b s)"
  unfolding mute_capturer_def Capturer_SetNonInterruptMute_def prod.case
  by (rule calm_after [OF _ UpdateMute_calm]) (auto intro!: calm_sub)

lemma mute_process_calm: "stays_calm s (mute_process p b s)"
  unfolding mute_process_def Let_def
  by (rule calm_after [OF _ UpdateMute_calm]) (auto intro!: calm_sub proc_view_put)

lemma check_muted_keeps:
  assumes mute: "\<And>t. run_returns (Q t) (mute t)" and lock: "\<And>t b. Q t (t\<lparr>mutedLocked := b\<rparr>)"
    and trans: "\<And>s t u. Q s t \<Longrightarrow> Q t u \<Longrightarrow> Q s u"
  shows "run_returns (Q s) (check_muted mute sid s)"
proof -
  let ?l = "s\<lparr>mutedLocked := True\<rparr>"
  have "run_returns (Q s) (mute ?l)" by (rule run_returns_mono [OF mute]) (rule trans [OF lock])
  then have "run_returns (Q s) (if sid \<in> mutedSessions s then mute ?l else returning ?l)" using lock by simp
  then have "run_returns (\<lambda>t. run_returns (Q s) (returning (t\<lparr>mutedLocked := False\<rparr>)))
      (if sid \<in> mutedSessions s then mute ?l else returning ?l)"
    by (rule run_returns_mono) (auto intro: trans lock)
  then show ?thesis by (simp add: check_muted_def run_returns_bind)
qed

lemma lock_calm: "calm s (s\<lparr>mutedLocked := b\<rparr>)"
  by (auto intro!: calm_sub)

lemma check_muted_calm: "(\<And>t. stays_calm t (mute t)) \<Longrightarrow> stays_calm s (check_muted mute sid s)"
  by (rule check_muted_keeps [where Q = calm]) (auto intro: lock_calm elim: calm_trans)

text \<open>Calm, and every process as it was, linked or not.\<close>

definition tame :: "AudioService \<Rightarrow> AudioService \<Rightarrow> bool" where
  "tame s s' \<longleftrightarrow> calm s s' \<and> proc_view (srv s') = proc_view (srv s) \<and> linkedPairedList s' = linkedPairedList s"

lemma tame_trans: "tame s t \<Longrightarrow> tame t u \<Longrightarrow> tame s u"
  by (auto simp: tame_def intro: calm_trans)

lemma mute_process_tame: "run_returns (tame s) (mute_process p b s)"
proof -
  have "proc_view (put_proc (srv s) p ((procs (srv s) p)\<lparr>muteFlag := b\<rparr>)) = proc_view (srv s)"
    by (rule proc_view_put) simp_all
  then show ?thesis
    by (auto simp: mute_process_def Service_UpdateMuteControlSet_def Let_def tame_def intro!: calm_sub)
qed

lemma CheckFast_tame: "run_returns (tame s) (CheckFastSessionMuteState sid p s)"
  unfolding CheckFastSessionMuteState_def
  by (rule check_muted_keeps [OF mute_process_tame]) (auto simp: tame_def intro: lock_calm elim: calm_trans)

lemma SetNonInterruptMute_calm: "stays_calm s (Service_SetNonInterruptMute sid b s)"
  by (auto simp: Service_SetNonInterruptMute_def mute_renderer_calm mute_capturer_calm mute_process_calm split: option.split)

lemma RemoveRenderer_calm: "stays_calm s (Service_RemoveRenderer sid s)"
  by (auto simp: Service_RemoveRenderer_def set_drop_key intro!: calm_after [OF _ RemoveId_calm] calm_sub)

lemma RemoveCapturer_calm: "stays_calm s (Service_RemoveCapturer sid s)"
  by (auto simp: Service_RemoveCapturer_def intro!: calm_after [OF _ RemoveId_calm] calm_sub)

lemma offload_calm: "returns (\<lambda>(_, s'). calm s s') (offload_call f sid s)"
  by (auto simp: offload_call_def split: option.split intro!: returns_bind_any calm_sub)

section \<open>The second sink\<close>

lemma EnableDualTone_view: "view_kept3 r (EnableDualTone r x)"
  by (auto simp: EnableDualTone_def InitDualToneStream_def returns_bind Let_def capture_view_def
      split: prod.split intro!: with_stream_returns)

lemma DisableDualTone_view: "DisableDualTone r x = (code, r', x') \<Longrightarrow> capture_view r' = capture_view r"
  by (auto simp: DisableDualTone_def capture_view_def split: if_splits)

lemma enable_dual_calm: "returns (calm s) (enable_dual_list v ks s)"
proof (induction ks arbitrary: s)
  case (Cons k ks)
  have step: "returns (\<lambda>q. returns (calm s) (case q of (_, r, x) \<Rightarrow>
      let s1 = put_renderer k r x s
      in enable_dual_list v ks (s1\<lparr>filteredDualToneRendererMap := filteredDualToneRendererMap s1 @ [k]\<rparr>)))
      (EnableDualTone (rends s k) (out s))"
  proof (rule returns_mono [OF EnableDualTone_view])
    fix q :: "err \<times> RendererInServer \<times> outside"
    assume q: "case q of (_, r', _) \<Rightarrow> capture_view r' = capture_view (rends s k)"
    obtain e r x where qq: "q = (e, r, x)" by (rule prod_cases3)
    let ?s1 = "put_renderer k r x s"
    have "calm s (?s1\<lparr>filteredDualToneRendererMap := filteredDualToneRendererMap ?s1 @ [k]\<rparr>)"
      by (rule calm_sub) (use q qq in \<open>auto simp: capture_view_def\<close>)
    then show "returns (calm s) (case q of (_, r, x) \<Rightarrow>
      let s1 = put_renderer k r x s
      in enable_dual_list v ks (s1\<lparr>filteredDualToneRendererMap := filteredDualToneRendererMap s1 @ [k]\<rparr>))"
      unfolding qq prod.case Let_def by (rule calm_exec) (rule Cons.IH)
  qed
  show ?case using Cons.IH step by (simp add: returns_bind)
qed simp

lemma EnableDualToneList_calm: "returns (\<lambda>(_, s'). calm s s') (EnableDualToneList v sid s)"
proof -
  have "calm s (s\<lparr>workingDualToneId := sid\<rparr>)" by (auto intro!: calm_sub)
  then have "returns (calm s) (enable_dual_list v ks (s\<lparr>workingDualToneId := sid\<rparr>))" for ks
    by (rule calm_exec) (rule enable_dual_calm)
  then show ?thesis by (simp add: EnableDualToneList_def returns_bind)
qed

lemma DisableDualToneList_calm: "DisableDualToneList s = (code, s') \<Longrightarrow> calm s s'"
proof -
  have "calm t (disable_dual k t)" for k t
    using put_renderer_calm by (auto simp: disable_dual_def dest: DisableDualTone_view split: prod.split)
  then have fold: "calm s (fold disable_dual ks s)" for ks
    by (induction ks arbitrary: s) (auto intro: calm_trans)
  have "calm t (t\<lparr>filteredDualToneRendererMap := []\<rparr>)" for t by (auto intro!: calm_sub)
  then show "DisableDualToneList s = (code, s') \<Longrightarrow> calm s s'"
    using calm_trans [OF fold] by (auto simp: DisableDualToneList_def)
qed

section \<open>Fast streams\<close>

lemma release_endpoint_calm: "calm s (release_endpoint name e s)"
  by (auto simp: release_endpoint_def dest: Release_view split: prod.split intro!: calm_sub)

lemma release_after_wait_calm: "calm s (release_after_wait name s)"
proof -
  have "calm s (s\<lparr>releasingEndpointSet := A\<rparr>)" for A by (auto intro!: calm_sub)
  then show ?thesis
    by (auto simp: release_after_wait_def Let_def split: option.split intro: calm_trans [OF _ release_endpoint_calm])
qed

lemma listener_view:
  "AddProcessStatusListener e (procs w p) = (code, P) \<Longrightarrow> proc_view (put_proc w p P) = proc_view w"
  "RemoveProcessStatusListener e (procs w p) = (code, P) \<Longrightarrow> proc_view (put_proc w p P) = proc_view w"
  by (auto simp: AddProcessStatusListener_def RemoveProcessStatusListener_def intro!: proc_view_put)

lemma Link_tame:
  assumes "meanwhile_quiet v" and "LinkProcessToEndpoint v p e s = (code, s')"
  shows "tame s s'"
proof -
  obtain c E w where l: "LinkProcessStream (v_meanwhile v) (Some p) (eps s e) (srv s) = (c, E, w)" by (rule prod_cases3)
  obtain c2 P where a: "AddProcessStatusListener e (procs w p) = (c2, P)" by (rule prod.exhaust)
  have "proc_view w = proc_view (srv s)" by (rule LinkProcessStream_view [OF assms(1) l])
  then show ?thesis using assms(2) listener_view(1) [OF a]
    by (auto simp: LinkProcessToEndpoint_def l a Let_def tame_def split: if_splits intro!: calm_sub)
qed

lemma Unlink_calm:
  assumes "UnlinkProcessToEndpoint p e s = (code, s')"
  shows "calm s s' \<and> linkedPairedList s' = linkedPairedList s"
proof -
  obtain c E w where l: "UnlinkProcessStream (Some p) (eps s e) (srv s) = (c, E, w)" by (rule prod_cases3)
  obtain c2 P where a: "RemoveProcessStatusListener e (procs w p) = (c2, P)" by (rule prod.exhaust)
  show ?thesis using assms listener_view(2) [OF a] UnlinkProcessStream_view [OF l]
    by (auto simp: UnlinkProcessToEndpoint_def l a Let_def split: if_splits intro!: calm_sub)
qed

lemma remove_pair_calm:
  assumes "set (before @ after) \<subseteq> set (linkedPairedList s)"
  shows "stays_calm s (remove_pair before after p e s)"
proof -
  obtain c s1 where u: "UnlinkProcessToEndpoint p e s = (c, s1)" by (rule prod.exhaust)
  have "calm s s1" "linkedPairedList s1 = linkedPairedList s" using Unlink_calm [OF u] by simp_all
  then have "calm s (s1\<lparr>linkedPairedList := before @ after\<rparr>)"
    "calm s (s1\<lparr>linkedPairedList := before @ after, releasingEndpointSet := A, delayedReleases := D\<rparr>)" for A D
    using assms by (auto intro!: calm_trans [of s s1] calm_sub)
  then show ?thesis by (auto simp: remove_pair_def u Let_def split: list.split)
qed

lemma OnProcessRelease_calm: "stays_calm s (OnProcessRelease p s)"
proof (cases "dropWhile (\<lambda>q. fst q \<noteq> p) (linkedPairedList s)")
  case Nil
  then show ?thesis unfolding OnProcessRelease_def Nil by simp
next
  case (Cons q after)
  obtain p' e where q: "q = (p', e)" by (rule prod.exhaust)
  define before where "before = takeWhile (\<lambda>q. fst q \<noteq> p) (linkedPairedList s)"
  have l: "linkedPairedList s = before @ q # after" using Cons by (metis before_def takeWhile_dropWhile_id)
  have "run_returns (\<lambda>s1. calm s s1 \<and> linkedPairedList s1 = linkedPairedList s) (RemoveIdFromMuteControlSet sid s)" for sid
    by (auto simp: RemoveIdFromMuteControlSet_def intro!: calm_sub)
  then have "run_returns (\<lambda>s1. stays_calm s (remove_pair before after p e s1)) (RemoveIdFromMuteControlSet sid s)" for sid
    by (rule run_returns_mono) (use l in \<open>auto intro!: calm_after [OF _ remove_pair_calm]\<close>)
  then show ?thesis
    unfolding OnProcessRelease_def Cons q before_def by (simp add: run_returns_bind)
qed

lemma notify_privacy_view: "proc_view (snd (notify_privacy t b w)) = proc_view w"
  by (auto simp: notify_privacy_def dest: adapter_call_view split: prod.split)

lemma release_process_calm: "run_returns (\<lambda>(_, s'). calm s s') (release_process p s)"
proof -
  have put: "calm s (s\<lparr>srv := w\<rparr>)" if "proc_view w = proc_view (srv s)" for w
    using that by (auto intro!: calm_sub)
  have P: "proc_view (put_proc (srv s) p ((procs (srv s) p)\<lparr>clientThreadPriorityRequested := False, ap_isInited := False\<rparr>)) = proc_view (srv s)"
    by (rule proc_view_put) simp_all
  have go: "run_returns (\<lambda>(_, s'). calm s s') (case OnProcessRelease p t of None \<Rightarrow> None
      | Some m \<Rightarrow> Some (exec_bind m (\<lambda>f3. Inr (SUCCESS, f3))))" if "calm s t" for t
    using calm_after [OF that OnProcessRelease_calm [of t p]] by (auto simp: returns_bind split: option.split)
  show ?thesis
    unfolding release_process_def process_release_def Let_def
    using P notify_privacy_view by (auto intro!: go put)
qed

section \<open>New fast streams\<close>

lemma CreateEndpoint_calm: "returns (\<lambda>(_, s'). calm s s' \<and> linkedPairedList s' = linkedPairedList s) (CreateEndpoint v fr type i cfg d s)"
proof -
  have "returns (\<lambda>(_, s'). calm s s' \<and> linkedPairedList s' = linkedPairedList s)
      (exec_bind (Config a b mem d e (srv s)) (\<lambda>(made, E, w).
               if made then Inr (Some (f_ep fr), s\<lparr>eps := (eps s)(f_ep fr := E), srv := w\<rparr>)
               else Inr (None, s\<lparr>srv := w\<rparr>)))" for a b mem e
    unfolding returns_bind by (rule returns_mono [OF Config_view]) (auto intro!: calm_sub)
  moreover have "calm s (s\<lparr>eps := E\<rparr>)" for E by (auto intro!: calm_sub)
  ultimately show ?thesis by (auto simp: CreateEndpoint_def split: option.split)
qed

lemma GetAudioEndpointForDevice_calm:
  "returns (\<lambda>(_, s'). calm s s' \<and> linkedPairedList s' = linkedPairedList s) (GetAudioEndpointForDevice v fr d cfg voip s)"
proof -
  have put: "calm t (t\<lparr>endpointList := l\<rparr>)" "calm t (t\<lparr>independentId := n, endpointList := l\<rparr>)" for t n l
    by (auto intro!: calm_sub)
  have add: "returns (\<lambda>(_, s'). calm s s' \<and> linkedPairedList s' = linkedPairedList s)
      (exec_bind (CreateEndpoint v fr type i cfg d s) (\<lambda>(made, s1). case made of
         None \<Rightarrow> Inr (None, s1) | Some e \<Rightarrow> Inr (Some e, f e s1)))"
    if "\<And>e t. calm t (f e t) \<and> linkedPairedList (f e t) = linkedPairedList t" for f type i
    unfolding returns_bind
    by (rule returns_mono [OF CreateEndpoint_calm])
      (auto simp: that split: option.split intro: calm_trans [OF _ that [THEN conjunct1]])
  show ?thesis
    unfolding GetAudioEndpointForDevice_def Let_def
    by (split if_split, intro conjI impI)
      (auto split: option.split intro!: add put)
qed

lemma only_fast_capture: "only_fast s s' \<Longrightarrow> capture_safe s \<Longrightarrow> capture_safe s'"
  using only_fast_same [of s s'] only_fast_view [of s s'] by (simp add: capture_safe_def)

lemma CheckInnerCapForProcess_safe:
  assumes cap: "capture_safe s" and fast: "\<And>q. workingInnerCapId s \<noteq> 0 \<Longrightarrow>
      q \<in> linked_procs s - {p} \<Longrightarrow> isInnerCapped (procs (srv s) q) \<Longrightarrow> matches s q"
  shows "returns safe (CheckInnerCapForProcess p e s)"
proof (cases "workingInnerCapId s = 0")
  case True
  then show ?thesis using cap by (simp add: CheckInnerCapForProcess_def safe_def fast_safe_def)
next
  case False
  have set: "safe t" if t: "only_fast s t" "\<And>q. processConfig (procs (srv t) q) = processConfig (procs (srv s) q)"
      "\<And>q. isInnerCapped (procs (srv t) q) = (if q = p then b else isInnerCapped (procs (srv s) q))"
      "b \<longrightarrow> matches s p" for t b
  proof -
    have "matches t q = matches s q" for q using t(2) only_fast_same [OF t(1)] by (simp add: matches_def)
    then have "fast_safe t"
      using t(3,4) fast False only_fast_same [OF t(1)] only_fast_view [OF t(1)] by (auto simp: fast_safe_def)
    then show ?thesis using only_fast_capture [OF t(1) cap] by (simp add: safe_def)
  qed
  have put: "only_fast s (cap_process b p s)" "processConfig (procs (srv (cap_process b p s)) q) = processConfig (procs (srv s) q)"
    "isInnerCapped (procs (srv (cap_process b p s)) q) = (if q = p then b else isInnerCapped (procs (srv s) q))" for b q
    by (auto simp: cap_process_def SetInnerCapState_def)
  show ?thesis
  proof (cases "matches s p")
    case True
    have "returns safe (enable_fast e (cap_process True p s))"
    proof (rule returns_mono [OF enable_fast_frame])
      fix t assume "fast_frame (cap_process True p s) t"
      then have "only_fast s t" "procs (srv t) = procs (srv (cap_process True p s))"
        using only_fast_trans put(1) by (auto simp: fast_frame_def)
      then show "safe t" using put True by (intro set [where b = True]) simp_all
    qed
    then show ?thesis using True False by (simp add: CheckInnerCapForProcess_def matches_def)
  next
    case no: False
    have "safe (cap_process False p s)" by (rule set [where b = False]) (simp_all add: put)
    then show ?thesis using no False by (simp add: CheckInnerCapForProcess_def matches_def)
  qed
qed

lemma link_process_safe:
  assumes quiet: "meanwhile_quiet v" and safe: "safe s"
    and p: "workingInnerCapId s \<noteq> 0 \<Longrightarrow> isInnerCapped (procs (srv s) p) \<Longrightarrow> matches s p"
  shows "returns (\<lambda>(_, s'). safe s') (link_process v p e s)"
proof -
  obtain code s1 where l: "LinkProcessToEndpoint v p e s = (code, s1)" by (rule prod.exhaust)
  define s2 where "s2 = s1\<lparr>linkedPairedList := linkedPairedList s1 @ [(p, e)]\<rparr>"
  have t: "tame s s1" by (rule Link_tame [OF quiet l])
  then have s1: "safe s1" using safe by (auto simp: tame_def intro: calm_safe)
  have same: "processConfig (procs (srv s1) q) = processConfig (procs (srv s) q)"
    "isInnerCapped (procs (srv s1) q) = isInnerCapped (procs (srv s) q)"
    "workingInnerCapId s1 = workingInnerCapId s" "workingConfig s1 = workingConfig s" for q
    using t by (auto simp: tame_def proc_view_def fun_eq_iff calm_def quiet_def)
  have "quiet s1 s2" by (auto simp: s2_def quiet_def registered_def captured_def)
  then have cap: "capture_safe s2" using s1 by (auto simp: safe_def intro: quiet_safe)
  have fast: "workingInnerCapId s2 \<noteq> 0 \<Longrightarrow> q \<in> linked_procs s2 \<Longrightarrow> isInnerCapped (procs (srv s2) q) \<Longrightarrow> matches s2 q" for q
    using s1 p same by (auto simp: s2_def safe_def fast_safe_def matches_def linked_procs_def)
  have "safe s2" using cap fast by (auto simp: safe_def fast_safe_def)
  moreover have "returns (\<lambda>(_, s'). safe s') (exec_bind (CheckInnerCapForProcess p e s2) (\<lambda>s3. Inr (Some p, s3)))"
    unfolding returns_bind by (rule returns_mono [OF CheckInnerCapForProcess_safe]) (use cap fast in auto)
  ultimately show ?thesis by (simp add: link_process_def l s2_def Let_def)
qed

text \<open>The new process is not linked to anything yet.\<close>

lemma prepare_process_calm:
  assumes fresh: "f_proc fr \<notin> linked_procs s"
  shows "run_returns (\<lambda>(_, s'). calm s s' \<and> \<not> isInnerCapped (procs (srv s') (f_proc fr))) (prepare_process v fr d cfg e s)"
proof -
  let ?p = "f_proc fr"
  define P where "P = AudioProcessInServer_ctor (v_perm v) cfg True"
  define s1 where "s1 = s\<lparr>srv := put_proc (srv s) ?p P\<rparr>"
  have c1: "calm s s1"
  proof (rule calmI)
    fix q assume "q \<in> linked_procs s1"
    moreover have "linked_procs s1 = linked_procs s" by (simp add: s1_def linked_procs_def)
    ultimately have "q \<noteq> ?p" using fresh by auto
    then show "proc_view (srv s1) q = proc_view (srv s) q" by (simp add: s1_def proc_view_def)
  qed (auto simp: s1_def registered_def linked_procs_def)
  have n1: "\<not> isInnerCapped (procs (srv s1) ?p)" by (simp add: s1_def P_def AudioProcessInServer_ctor_def)
  have step: "run_returns (\<lambda>(_, s'). calm s s' \<and> \<not> isInnerCapped (procs (srv s') ?p))
      (case GetPreferBufferInfo (eps s2 e) of (_, totalSize, spanSize) \<Rightarrow>
        run_bind (Some (ConfigProcessBuffer os b m totalSize spanSize info sh ?p (srv s2)))
          (\<lambda>(code, w). returning (code, s2\<lparr>srv := w\<rparr>)))" if "tame s1 s2" for s2 os b m info sh
  proof -
    have s2: "calm s s2" "\<not> isInnerCapped (procs (srv s2) ?p)"
    proof -
      have t: "calm s1 s2" "proc_view (srv s2) ?p = proc_view (srv s1) ?p" using that by (simp_all add: tame_def)
      show "calm s s2" by (rule calm_trans [OF c1 t(1)])
      show "\<not> isInnerCapped (procs (srv s2) ?p)" using t(2) n1 by (simp add: proc_view_def)
    qed
    obtain c t n where g: "GetPreferBufferInfo (eps s2 e) = (c, t, n)" by (rule prod_cases3)
    have view: "calm s (s2\<lparr>srv := w\<rparr>) \<and> \<not> isInnerCapped (procs w ?p)" if w: "proc_view w = proc_view (srv s2)" for w
    proof
      have "calm s2 (s2\<lparr>srv := w\<rparr>)" by (rule calm_sub) (simp_all add: w)
      then show "calm s (s2\<lparr>srv := w\<rparr>)" by (rule calm_trans [OF s2(1)])
      have "proc_view w ?p = proc_view (srv s2) ?p" by (simp add: w)
      then show "\<not> isInnerCapped (procs w ?p)" using s2(2) by (simp add: proc_view_def)
    qed
    show ?thesis unfolding g prod.case run_returns_bind run_returns_simps
      by (rule returns_mono [OF ConfigProcessBuffer_view]) (use view in auto)
  qed
  show ?thesis
    unfolding prepare_process_def Let_def P_def [symmetric] s1_def [symmetric] run_returns_bind
    by (rule run_returns_mono [OF CheckFast_tame]) (rule step [unfolded run_returns_bind])
qed

lemma calm_linked: "calm s s' \<Longrightarrow> linked_procs s' \<subseteq> linked_procs s"
  by (simp add: calm_def same_streams_def)

lemma join_endpoint_safe:
  assumes quiet: "meanwhile_quiet v" and safe: "safe s" and fresh: "f_proc fr \<notin> linked_procs s"
  shows "run_returns (\<lambda>(_, s'). safe s') (join_endpoint v fr d cfg e s)"
proof -
  have "run_returns (\<lambda>(_, s'). safe s') (case q of (code, s1) \<Rightarrow>
      if code \<noteq> SUCCESS then returning (None, s1) else Some (link_process v (f_proc fr) e s1))"
    if "case q of (_, s') \<Rightarrow> calm s s' \<and> \<not> isInnerCapped (procs (srv s') (f_proc fr))" for q
    using that calm_safe [OF safe] link_process_safe [OF quiet] by (cases q) auto
  then have "run_returns (\<lambda>(_, s'). safe s') (run_bind (prepare_process v fr d cfg e s) (\<lambda>(code, s1).
      if code \<noteq> SUCCESS then returning (None, s1) else Some (link_process v (f_proc fr) e s1)))"
    unfolding run_returns_bind by (rule run_returns_mono [OF prepare_process_calm [OF fresh]])
  then show ?thesis using safe by (simp add: join_endpoint_def)
qed

lemma GetAudioProcess_safe:
  assumes quiet: "meanwhile_quiet v" and safe: "safe s" and fresh: "f_proc fr \<notin> linked_procs s"
  shows "run_returns (\<lambda>(_, s'). safe s') (GetAudioProcess v fr cfg s)"
proof -
  have step: "run_returns (\<lambda>(_, s'). safe s') (case q of (found, s1) \<Rightarrow>
      case found of None \<Rightarrow> returning (None, s1) | Some e \<Rightarrow> join_endpoint v fr d cfg e s1)"
    if "case q of (_, s') \<Rightarrow> calm s s' \<and> linkedPairedList s' = linkedPairedList s" for q d
  proof -
    obtain found s1 where q: "q = (found, s1)" by (rule prod.exhaust)
    then have "calm s s1" using that by simp
    then have "safe s1" "f_proc fr \<notin> linked_procs s1" using calm_safe [OF safe] calm_linked fresh by auto
    then show ?thesis using join_endpoint_safe [OF quiet] by (cases found) (simp_all add: q)
  qed
  show ?thesis
    unfolding GetAudioProcess_def Let_def run_returns_bind run_returns_simps
    by (rule returns_mono [OF GetAudioEndpointForDevice_calm]) (rule step)
qed

lemma move_pair_safe:
  assumes quiet: "meanwhile_quiet v" and safe: "safe s" and q: "q \<in> linked_procs s"
  shows "returns (\<lambda>(_, s'). safe s') (move_pair v fr q old s)"
proof -
  obtain code s1 where u: "UnlinkProcessToEndpoint q old s = (code, s1)" by (rule prod.exhaust)
  define s2 where "s2 = (if map_of (endpointList s1) (GetEndpointName (eps s1 old)) \<noteq> None
    then release_endpoint (GetEndpointName (eps s1 old)) old s1 else s1)"
  have c1: "calm s s1" "linkedPairedList s1 = linkedPairedList s" using Unlink_calm [OF u] by simp_all
  have "calm s1 s2" "linkedPairedList s2 = linkedPairedList s1"
    using release_endpoint_calm [of s1] by (auto simp: s2_def release_endpoint_def split: prod.split)
  then have c2: "calm s s2" "linkedPairedList s2 = linkedPairedList s" using c1 calm_trans by auto
  have step: "returns (\<lambda>(_, s'). safe s') (case r of (found, s3) \<Rightarrow> case found of
        None \<Rightarrow> Inr (False, s3)
      | Some e \<Rightarrow> exec_bind (link_process v q e s3) (\<lambda>(linked, s4). Inr (linked \<noteq> None, s4)))"
    if r: "case r of (_, s') \<Rightarrow> calm s2 s' \<and> linkedPairedList s' = linkedPairedList s2" for r
  proof -
    obtain found s3 where rr: "r = (found, s3)" by (rule prod.exhaust)
    have s3: "safe s3" "linkedPairedList s3 = linkedPairedList s"
      using r rr c2 calm_safe [OF safe calm_trans [OF c2(1)]] by auto
    moreover from this have "q \<in> linked_procs s3" using q by (simp add: linked_procs_def)
    ultimately have "workingInnerCapId s3 \<noteq> 0 \<Longrightarrow> isInnerCapped (procs (srv s3) q) \<Longrightarrow> matches s3 q"
      by (simp add: safe_def fast_safe_def)
    note link = link_process_safe [OF quiet s3(1) this]
    have "returns (\<lambda>(_, s'). safe s') (exec_bind (link_process v q e s3) (\<lambda>(linked, s4). Inr (linked \<noteq> None, s4)))" for e
      unfolding returns_bind by (rule returns_mono [OF link]) auto
    then show ?thesis using s3 by (simp add: rr split: option.split)
  qed
  have "returns (\<lambda>(_, s'). safe s') (exec_bind (GetAudioEndpointForDevice v fr d cfg voip s2) (\<lambda>(found, s3). case found of
        None \<Rightarrow> Inr (False, s3)
      | Some e \<Rightarrow> exec_bind (link_process v q e s3) (\<lambda>(linked, s4). Inr (linked \<noteq> None, s4))))" for d cfg voip
    unfolding returns_bind by (rule returns_mono [OF GetAudioEndpointForDevice_calm]) (rule step [unfolded returns_bind])
  then show ?thesis
    using calm_safe [OF safe c1(1)] by (simp only: move_pair_def u prod.case Let_def s2_def [symmetric]) simp
qed

lemma reset_from_safe:
  assumes quiet: "meanwhile_quiet v"
  shows "safe s \<Longrightarrow> returns safe (reset_from v fresh n i s)"
proof (induction n arbitrary: i s)
  case (Suc n)
  define l where "l = take i (linkedPairedList s) @ drop (Suc i) (linkedPairedList s)"
  define s1 where "s1 = s\<lparr>linkedPairedList := l\<rparr>"
  have "calm s s1" by (rule calm_sub) (auto simp: s1_def l_def dest: in_set_takeD in_set_dropD)
  then have s1: "safe s1" using Suc.prems calm_safe by blast
  have "returns safe (exec_bind (move_pair v (fresh i) (fst (l ! i)) (snd (l ! i)) s1)
      (\<lambda>(go, s1). if go then reset_from v fresh n (Suc i) s1 else Inr s1))" if "\<not> length l \<le> i"
  proof -
    have "fst (l ! i) \<in> linked_procs s1" using that by (simp add: linked_procs_def s1_def)
    from move_pair_safe [OF quiet s1 this] show ?thesis
      unfolding returns_bind by (rule returns_mono) (use Suc.IH in auto)
  qed
  then show ?case using Suc by (simp add: Let_def l_def [symmetric] s1_def [symmetric])
qed simp

lemma ResetAudioEndpoint_safe: "meanwhile_quiet v \<Longrightarrow> safe s \<Longrightarrow> returns safe (ResetAudioEndpoint v fresh s)"
  by (simp add: ResetAudioEndpoint_def reset_from_safe)

end
