(* ===== verification/ServiceProps.thy ===== *)
theory ServiceProps
  imports ServiceSteps RendererProps
begin

text \<open>
  The service with its streams: which streams are copied for inner capture, through every sequence of
  what clients, recording streams and endpoints do, and where the service's own records fail it.
\<close>

section \<open>Streams that come\<close>

lemma ConfigRenderer_calm:
  assumes fresh: "k \<notin> snd ` set (allRendererMap s)"
  shows "returns (\<lambda>(_, s'). calm s s' \<and> \<not> captured s' k) (ConfigRenderer v k cfg s)"
proof -
  have put: "calm s (put_renderer k r x s\<lparr>rendAlive := A\<rparr>)" if "A - {k} \<subseteq> rendAlive s" for r x A
  proof (rule calmI)
    fix j assume "j \<in> registered (put_renderer k r x s\<lparr>rendAlive := A\<rparr>)"
    then have "j \<noteq> k" using fresh by (auto simp: registered_def)
    then show "r_config (rends (put_renderer k r x s\<lparr>rendAlive := A\<rparr>) j) = r_config (rends s j) \<and>
        (r_isInnerCapEnabled (rends (put_renderer k r x s\<lparr>rendAlive := A\<rparr>) j) \<longrightarrow> r_isInnerCapEnabled (rends s j))"
      by simp
  qed (use fresh that in \<open>auto simp: registered_def linked_procs_def\<close>)
  show ?thesis
    unfolding ConfigRenderer_def returns_bind
    by (rule returns_mono [OF Renderer_Init_view])
      (auto simp: Let_def captured_def capture_view_def RendererInServer_ctor_def intro!: put)
qed

lemma ConfigCapturer_calm: "returns (\<lambda>(_, s'). calm s s') (ConfigCapturer sec v k cfg s)"
  unfolding ConfigCapturer_def
  by (rule returns_bind_any) (auto simp: Let_def split: prod.split intro!: calm_sub)

definition fresh_stream :: "nat \<Rightarrow> AudioService \<Rightarrow> err \<times> IpcStream option \<times> AudioService \<Rightarrow> bool" where
  "fresh_stream k s q \<longleftrightarrow> (case q of (_, ipc, s') \<Rightarrow> calm s s' \<and>
     (\<forall>i r. ipc = Some i \<longrightarrow> is_renderer i = Some r \<longrightarrow> r = k \<and> \<not> captured s' k))"

lemma IpcStream_Create_fresh:
  assumes "k \<notin> snd ` set (allRendererMap s)"
  shows "returns (fresh_stream k s) (IpcStream_Create sec v k cfg s)"
proof -
  have r: "returns (fresh_stream k s) (exec_bind (ConfigRenderer v k cfg s) (\<lambda>(code, s1).
      Inr (code, if code = SUCCESS then Some (i\<lparr>is_renderer := Some k\<rparr>) else None, s1)))" for i :: IpcStream
    unfolding returns_bind by (rule returns_mono [OF ConfigRenderer_calm [OF assms]]) (auto simp: fresh_stream_def)
  have c: "returns (fresh_stream k s) (exec_bind (ConfigCapturer sec v k cfg s) (\<lambda>(code, s1).
      Inr (code, if code = SUCCESS then Some (i\<lparr>is_capturer := Some k\<rparr>) else None, s1)))"
    if "is_renderer i = None" for i :: IpcStream
    unfolding returns_bind by (rule returns_mono [OF ConfigCapturer_calm]) (use that in \<open>auto simp: fresh_stream_def\<close>)
  show ?thesis using r c by (simp add: IpcStream_Create_def Let_def fresh_stream_def)
qed

lemma CheckInnerCapForRenderer_safe:
  assumes safe: "safe s"
  shows "safe (CheckInnerCapForRenderer k s)"
proof (cases "workingInnerCapId s \<noteq> 0 \<and> should_cap s k")
  case True
  define t where "t = s\<lparr>filteredRendererMap := filteredRendererMap s @ [k]\<rparr>"
  have f: "cap_frame t (enable_cap k t)" "filteredRendererMap (enable_cap k t) = filteredRendererMap t"
    "j \<noteq> k \<Longrightarrow> captured (enable_cap k t) j = captured t j" for j by (rule enable_cap_spec)+
  have v: "registered (enable_cap k t) = registered s" "should_cap (enable_cap k t) j = should_cap s j"
    "captured t j = captured s j" for j
    using cap_frame_registered [OF f(1)] cap_frame_should [OF f(1)]
    by (simp_all add: t_def registered_def should_cap_def captured_def)
  have "capture_safe (enable_cap k t)"
    unfolding capture_safe_def
  proof (intro ballI impI)
    fix j assume j: "j \<in> registered (enable_cap k t)" "captured (enable_cap k t) j"
    have w: "workingInnerCapId (enable_cap k t) = workingInnerCapId s" using f(1) by (simp add: cap_frame_def t_def)
    show "workingInnerCapId (enable_cap k t) \<noteq> 0 \<and> should_cap (enable_cap k t) j \<and>
        j \<in> set (filteredRendererMap (enable_cap k t))"
      using True safe j f v w by (cases "j = k") (auto simp: t_def safe_def capture_safe_def)
  qed
  moreover have "fast_safe (enable_cap k t)"
    using safe f(1) by (auto simp: safe_def fast_safe_def matches_def cap_frame_def linked_procs_def t_def)
  ultimately show ?thesis using True by (simp add: CheckInnerCapForRenderer_def safe_def t_def)
qed (use safe in \<open>auto simp: CheckInnerCapForRenderer_def\<close>)

lemma safe_run:
  assumes "safe s" and "stays_calm s m"
  shows "run_returns safe m"
  by (rule run_returns_mono [OF assms(2)]) (rule calm_safe [OF assms(1)])

lemma InsertRenderer_safe:
  assumes "safe s" and "\<not> captured s k"
  shows "safe (InsertRenderer sid k s)"
proof -
  have "registered (InsertRenderer sid k s) \<subseteq> insert k (registered s)"
    using set_put_key [of sid k "allRendererMap s"] by (force simp: registered_def InsertRenderer_def)
  then have "capture_safe (InsertRenderer sid k s)"
    using assms by (auto simp: capture_safe_def safe_def captured_def should_cap_def InsertRenderer_def)
  then show ?thesis using assms(1) by (simp add: safe_def fast_safe_def matches_def linked_procs_def InsertRenderer_def)
qed

lemma register_renderer_safe:
  assumes "safe s" and "\<not> captured s k"
  shows "run_returns safe (register_renderer k s)"
proof -
  have "run_returns safe (CheckRenderSessionMuteState sid k (CheckInnerCapForRenderer k (InsertRenderer sid k s)))" for sid
    unfolding CheckRenderSessionMuteState_def
    by (rule safe_run [OF CheckInnerCapForRenderer_safe [OF InsertRenderer_safe [OF assms]] check_muted_calm [OF mute_renderer_calm]])
  then show ?thesis using assms(1) by (auto simp: register_renderer_def split: prod.split option.split)
qed

lemma register_capturer_safe: "safe s \<Longrightarrow> run_returns safe (register_capturer k s)"
proof -
  assume s: "safe s"
  have "calm s (InsertCapturer sid k s)" for sid by (auto simp: InsertCapturer_def intro!: calm_sub)
  then have "run_returns safe (CheckCaptureSessionMuteState sid k (InsertCapturer sid k s))" for sid
    unfolding CheckCaptureSessionMuteState_def
    by (rule safe_run [OF calm_safe [OF s] check_muted_calm [OF mute_capturer_calm]])
  then show ?thesis using s by (auto simp: register_capturer_def split: prod.split option.split)
qed

lemma register_stream_safe:
  assumes "safe s" and "\<And>i r. ipc = Some i \<Longrightarrow> is_renderer i = Some r \<Longrightarrow> \<not> captured s r"
  shows "run_returns safe (register_stream ipc s)"
proof (cases ipc)
  case (Some i)
  have first: "run_returns safe (case is_renderer i of Some r \<Rightarrow> register_renderer r s | None \<Rightarrow> returning s)"
    using assms Some by (auto split: option.split intro!: register_renderer_safe)
  have second: "safe t \<Longrightarrow> run_returns safe (case is_capturer i of Some c \<Rightarrow> register_capturer c t | None \<Rightarrow> returning t)" for t
    by (simp add: register_capturer_safe split: option.split)
  show ?thesis unfolding register_stream_def Some option.case run_returns_bind by (rule run_returns_mono [OF first second])
qed (simp add: assms register_stream_def)

lemma GetIpcStream_safe:
  assumes safe: "safe s" and fresh: "k \<notin> snd ` set (allRendererMap s)"
  shows "run_returns (\<lambda>(_, _, s'). safe s') (GetIpcStream sec v k cfg s)"
proof -
  have know: "calm s (know_manager s)" "allRendererMap (know_manager s) = allRendererMap s"
    by (auto simp: know_manager_def intro!: calm_sub)
  have step: "run_returns (\<lambda>(_, _, s'). safe s') (case q of (code, ipc, s1) \<Rightarrow>
       run_bind (register_stream ipc s1) (\<lambda>s2. returning (code, ipc, s2)))"
    if q: "fresh_stream k (know_manager s) q" for q
  proof -
    obtain code ipc s1 where qq: "q = (code, ipc, s1)" by (rule prod_cases3)
    have "safe s1" using q qq calm_safe [OF safe calm_trans [OF know(1)]] by (simp add: fresh_stream_def)
    then have "run_returns safe (register_stream ipc s1)"
      using q qq by (intro register_stream_safe) (auto simp: fresh_stream_def)
    then show ?thesis unfolding qq prod.case run_returns_bind by (rule run_returns_mono) simp
  qed
  have "returns (\<lambda>q. run_returns (\<lambda>(_, _, s'). safe s') (case q of (code, ipc, s1) \<Rightarrow>
       run_bind (register_stream ipc s1) (\<lambda>s2. returning (code, ipc, s2)))) (IpcStream_Create sec v k cfg (know_manager s))"
    by (rule returns_mono [OF IpcStream_Create_fresh step]) (use fresh know(2) in simp)
  then show ?thesis by (simp add: GetIpcStream_def run_returns_bind)
qed

section \<open>What streams ask for, and streams that go\<close>

lemma service_ops_append [simp]: "service_ops (xs @ ys) = service_ops xs @ service_ops ys"
  by (induction xs rule: service_ops.induct) simp_all

definition sane_op :: "service_op \<Rightarrow> bool" where
  "sane_op c \<longleftrightarrow> (\<forall>sid cfg. c = SetPlaybackCapturerFilterInfo sid cfg \<longrightarrow> sid \<noteq> 0)"

lemma carry_out_safe:
  assumes safe: "safe s" and sane: "sane_op c"
  shows "run_returns safe (carry_out c s)"
proof (cases c)
  case (RemoveRenderer sid)
  then show ?thesis using safe_run [OF safe RemoveRenderer_calm] by (simp add: carry_out_def)
next
  case (RemoveCapturer sid)
  then show ?thesis using safe_run [OF safe RemoveCapturer_calm] by (simp add: carry_out_def)
next
  case (UpdateMuteControlSet sid b)
  then show ?thesis using safe_run [OF safe UpdateMute_calm] by (simp add: carry_out_def)
next
  case (SetPlaybackCapturerFilterInfo sid cfg)
  have "returns safe (exec_bind (Mgr_SetPlaybackCapturerFilterInfo sid cfg s) (\<lambda>r. Inr (snd r)))"
  proof (cases "filterListener (manager s)")
    case True
    have "returns (\<lambda>r. safe (snd r)) (OnCapturerFilterChange sid cfg s)"
      by (rule returns_mono [OF OnCapturerFilterChange_spec])
        (use safe sane SetPlaybackCapturerFilterInfo in
          \<open>auto simp: safe_def sane_op_def follows_filter_def split: if_splits\<close>)
    then show ?thesis using True by (simp add: Mgr_SetPlaybackCapturerFilterInfo_def returns_bind)
  qed (simp add: Mgr_SetPlaybackCapturerFilterInfo_def safe)
  then show ?thesis by (simp add: SetPlaybackCapturerFilterInfo carry_out_def)
next
  case (RemovePlaybackCapturerFilterInfo sid)
  obtain code s' where r: "OnCapturerFilterRemove sid s = (code, s')" by (rule prod.exhaust)
  have "safe s'" using OnCapturerFilterRemove_spec [OF _ r] safe by (auto simp: safe_def fast_safe_def split: if_splits)
  then show ?thesis
    using safe by (simp add: RemovePlaybackCapturerFilterInfo carry_out_def Mgr_RemovePlaybackCapturerFilterInfo_def r)
next
  case (SetSupportStreamUsage usages)
  have "calm s (s\<lparr>manager := m\<rparr>)" for m by (auto intro!: calm_sub)
  then show ?thesis using safe SetSupportStreamUsage by (auto simp: carry_out_def intro: calm_safe)
next
  case (SetInnerCapturerState b)
  have "calm s (s\<lparr>manager := m\<rparr>)" for m by (auto intro!: calm_sub)
  then show ?thesis using safe SetInnerCapturerState by (auto simp: carry_out_def intro: calm_safe)
qed

lemma carry_out_all_safe:
  assumes "safe s" and "\<forall>c \<in> set cs. sane_op c"
  shows "run_returns safe (each carry_out cs s)"
  using assms
proof (induction cs arbitrary: s)
  case (Cons c cs)
  then have "run_returns safe (carry_out c s)" by (intro carry_out_safe) simp_all
  then show ?case unfolding each.simps run_returns_bind by (rule run_returns_mono) (use Cons in auto)
qed simp

lemma carry_out_since_safe:
  assumes "safe s" and "asked (out s) = asked x @ l" and "\<forall>c \<in> set (service_ops l). sane_op c"
  shows "run_returns safe (carry_out_since x s)"
  using assms by (simp add: carry_out_since_def carry_out_all_safe)

lemma Renderer_Release_asks:
  assumes "Renderer_Release r x = (code, r', x')"
  shows "r_config r' = r_config r \<and> (r_isInnerCapEnabled r' \<longrightarrow> r_isInnerCapEnabled r) \<and>
    (\<exists>l. asked x' = asked x @ l \<and> service_ops l = [RemoveRenderer (r_streamIndex r)])"
  using assms
  by (auto simp: Renderer_Release_def DisableInnerCap_def DisableDualTone_def ask_def Let_def split: if_splits)

lemma release_renderer_safe: "safe s \<Longrightarrow> run_returns (\<lambda>(_, s'). safe s') (release_renderer k s)"
proof -
  assume s: "safe s"
  obtain code r x where rel: "Renderer_Release (rends s k) (out s) = (code, r, x)" by (rule prod_cases3)
  obtain l where l: "asked x = asked (out s) @ l" "service_ops l = [RemoveRenderer (r_streamIndex (rends s k))]"
    using Renderer_Release_asks [OF rel] by auto
  have "calm s (put_renderer k r x s)" by (rule calm_sub) (use Renderer_Release_asks [OF rel] in auto)
  then have "run_returns safe (carry_out_since (out s) (put_renderer k r x s))"
    by (intro carry_out_since_safe [where l = l] calm_safe [OF s]) (use l in \<open>simp_all add: sane_op_def\<close>)
  then show ?thesis
    unfolding release_renderer_def rel prod.case run_returns_bind by (rule run_returns_mono) simp
qed

lemma drop_alive_calm: "calm s (s\<lparr>rendAlive := rendAlive s - {k}\<rparr>)"
  by (auto intro!: calm_sub)

lemma drop_renderer_safe: "safe s \<Longrightarrow> run_returns safe (drop_renderer k s)"
proof -
  assume s: "safe s"
  have "run_returns safe (run_bind (release_renderer k s) (\<lambda>(_, s1). returning s1))"
    unfolding run_returns_bind by (rule run_returns_mono [OF release_renderer_safe [OF s]]) auto
  then have "run_returns safe (if r_status (rends s k) \<noteq> I_STATUS_RELEASED \<and> r_status (rends s k) \<noteq> I_STATUS_IDLE
        then run_bind (release_renderer k s) (\<lambda>(_, s1). returning s1) else returning s)" using s by simp
  then show ?thesis unfolding drop_renderer_def run_returns_bind
    by (rule run_returns_mono) (auto intro: calm_safe drop_alive_calm)
qed

lemma put_capturer_calm: "calm s (put_capturer k c x s)"
  by (auto intro!: calm_sub)

lemma Capturer_Release_asks:
  assumes "Capturer_Release c x = (code, c', x')"
  shows "\<exists>l. asked x' = asked x @ l \<and> (\<forall>op \<in> set (service_ops l). sane_op op)"
  using assms
  by (auto simp: Capturer_Release_def privacy_stop_def ask_def sane_op_def Let_def split: if_splits)

lemma release_capturer_safe: "safe s \<Longrightarrow> run_returns (\<lambda>(_, s'). safe s') (release_capturer k s)"
proof -
  assume s: "safe s"
  obtain code c x where rel: "Capturer_Release (caps s k) (out s) = (code, c, x)" by (rule prod_cases3)
  obtain l where l: "asked x = asked (out s) @ l" "\<forall>op \<in> set (service_ops l). sane_op op"
    using Capturer_Release_asks [OF rel] by auto
  have "run_returns safe (carry_out_since (out s) (put_capturer k c x s))"
    by (intro carry_out_since_safe [where l = l] calm_safe [OF s put_capturer_calm]) (use l in simp_all)
  then show ?thesis
    unfolding release_capturer_def rel prod.case run_returns_bind by (rule run_returns_mono) simp
qed

lemma drop_capturer_safe: "safe s \<Longrightarrow> run_returns safe (drop_capturer k s)"
proof -
  assume s: "safe s"
  obtain c x where d: "CapturerInServer_dtor (caps s k) (out s) = (c, x)" by (rule prod.exhaust)
  obtain l where l: "asked x = asked (out s) @ l" "\<forall>op \<in> set (service_ops l). sane_op op"
  proof (cases "c_status (caps s k) \<noteq> I_STATUS_RELEASED \<and> c_status (caps s k) \<noteq> I_STATUS_IDLE")
    case True
    then have "Capturer_Release (caps s k) (out s) = (fst (Capturer_Release (caps s k) (out s)), c, x)"
      using d by (simp add: CapturerInServer_dtor_def prod_eq_iff)
    then show ?thesis using that Capturer_Release_asks by blast
  next
    case False
    then have "x = out s" using d by (simp add: CapturerInServer_dtor_def split: if_splits)
    then have "asked x = asked (out s) @ []" "\<forall>op \<in> set (service_ops []). sane_op op" by simp_all
    then show ?thesis by (rule that)
  qed
  have "run_returns safe (carry_out_since (out s) (put_capturer k c x s))"
    by (intro carry_out_since_safe [where l = l] calm_safe [OF s put_capturer_calm]) (use l in simp_all)
  then show ?thesis unfolding drop_capturer_def d prod.case run_returns_bind
    by (rule run_returns_mono) (simp, erule calm_safe, auto intro!: calm_sub)
qed

lemma configure_asks:
  assumes "UpdatePlaybackCaptureConfig downlink cfg c x = (code, c', x')" and "c_streamIndex c \<noteq> 0"
  shows "\<exists>l. asked x' = asked x @ l \<and> (\<forall>op \<in> set (service_ops l). sane_op op)"
  using assms
  by (auto simp: UpdatePlaybackCaptureConfig_def UpdatePlaybackCaptureConfigInLegacy_def sane_op_def Let_def split: if_splits)

lemma configure_capture_safe:
  assumes "safe s" and "c_streamIndex (caps s k) \<noteq> 0"
  shows "run_returns (\<lambda>(_, s'). safe s') (configure_capture downlink cfg k s)"
proof -
  obtain code c x where rel: "UpdatePlaybackCaptureConfig downlink cfg (caps s k) (out s) = (code, c, x)" by (rule prod_cases3)
  obtain l where l: "asked x = asked (out s) @ l" "\<forall>op \<in> set (service_ops l). sane_op op"
    using configure_asks [OF rel assms(2)] by auto
  have "run_returns safe (carry_out_since (out s) (put_capturer k c x s))"
    by (intro carry_out_since_safe [where l = l] calm_safe [OF assms(1) put_capturer_calm]) (use l in simp_all)
  then show ?thesis
    unfolding configure_capture_def rel prod.case run_returns_bind by (rule run_returns_mono) simp
qed

section \<open>Everything that happens to the service\<close>

text \<open>What a recording stream does by itself the service does not see but for its calls; an endpoint's
  loops and the requests of a fast stream's client leave the configuration of the processes and their
  capture state alone. A stream that is opened, and a process, is put where none is.\<close>

inductive service_step :: "securec \<Rightarrow> float_repr \<Rightarrow> AudioService \<Rightarrow> AudioService \<Rightarrow> bool" for sec R where
  opened: "GetIpcStream sec v k cfg s = returning (code, ipc, s') \<Longrightarrow> k \<notin> snd ` set (allRendererMap s) \<Longrightarrow>
    service_step sec R s s'"
| closed: "release_renderer k s = returning (code, s') \<Longrightarrow> service_step sec R s s'"
| dropped: "drop_renderer k s = returning s' \<Longrightarrow> service_step sec R s s'"
| acted: "renderer_act R (rends s k) (out s) r x \<Longrightarrow> service_step sec R s (put_renderer k r x s)"
| recorder_closed: "release_capturer k s = returning (code, s') \<Longrightarrow> service_step sec R s s'"
| recorder_dropped: "drop_capturer k s = returning s' \<Longrightarrow> service_step sec R s s'"
| recorder_acted: "service_step sec R s (s\<lparr>caps := (caps s)(k := c), out := x\<rparr>)"
| configured: "configure_capture downlink cfg k s = returning (code, s') \<Longrightarrow> c_streamIndex (caps s k) \<noteq> 0 \<Longrightarrow>
    service_step sec R s s'"
| muted: "Service_SetNonInterruptMute sid b s = returning s' \<Longrightarrow> service_step sec R s s'"
| dual_on: "EnableDualToneList v sid s = Inr (code, s') \<Longrightarrow> service_step sec R s s'"
| dual_off: "DisableDualToneList s = (code, s') \<Longrightarrow> service_step sec R s s'"
| offload_on: "Service_SetOffloadMode sid st b s = Inr (code, s') \<Longrightarrow> service_step sec R s s'"
| offload_off: "Service_UnsetOffloadMode sid s = Inr (code, s') \<Longrightarrow> service_step sec R s s'"
| fast_opened: "GetAudioProcess v fr cfg s = returning (p, s') \<Longrightarrow> f_proc fr \<notin> linked_procs s \<Longrightarrow> meanwhile_quiet v \<Longrightarrow>
    service_step sec R s s'"
| fast_closed: "release_process p s = returning (code, s') \<Longrightarrow> service_step sec R s s'"
| waited: "service_step sec R s (release_after_wait name s)"
| reset: "ResetAudioEndpoint v fresh s = Inr s' \<Longrightarrow> meanwhile_quiet v \<Longrightarrow> service_step sec R s s'"
| fast_acted: "proc_view w = proc_view (srv s) \<Longrightarrow> service_step sec R s (s\<lparr>eps := E, srv := w\<rparr>)"

definition service_start :: "AudioService \<Rightarrow> bool" where
  "service_start s \<longleftrightarrow> allRendererMap s = [] \<and> linkedPairedList s = [] \<and> workingInnerCapId s = 0"

inductive service_reach :: "securec \<Rightarrow> float_repr \<Rightarrow> AudioService \<Rightarrow> bool" for sec R where
  start: "service_start s \<Longrightarrow> service_reach sec R s"
| step: "service_reach sec R s \<Longrightarrow> service_step sec R s s' \<Longrightarrow> service_reach sec R s'"

lemma service_step_safe: "service_step sec R s s' \<Longrightarrow> safe s \<Longrightarrow> safe s'"
proof (induction rule: service_step.induct)
  case (opened v k cfg s code ipc s')
  then show ?case using GetIpcStream_safe [of s k sec v cfg] by simp
next
  case (closed k s code s')
  then show ?case using release_renderer_safe [of s k] by simp
next
  case (dropped k s s')
  then show ?case using drop_renderer_safe [of s k] by simp
next
  case (acted s k r x)
  then show ?case using calm_safe [OF _ put_renderer_calm] renderer_act_view by blast
next
  case (recorder_closed k s code s')
  then show ?case using release_capturer_safe [of s k] by simp
next
  case (recorder_dropped k s s')
  then show ?case using drop_capturer_safe [of s k] by simp
next
  case (recorder_acted s k c x)
  then show ?case by (rule calm_safe [OF _ put_capturer_calm])
next
  case (configured downlink cfg k s code s')
  then show ?case using configure_capture_safe [of s k downlink cfg] by simp
next
  case (muted sid b s s')
  then show ?case using safe_run [OF _ SetNonInterruptMute_calm, of s sid b] by simp
next
  case (dual_on v sid s code s')
  then show ?case using EnableDualToneList_calm [of s v sid] calm_safe by auto
next
  case (dual_off s code s')
  then show ?case using DisableDualToneList_calm calm_safe by blast
next
  case (offload_on sid st b s code s')
  then show ?case using offload_calm [of s "Renderer_SetOffloadMode st b" sid] calm_safe
    by (auto simp: Service_SetOffloadMode_def)
next
  case (offload_off sid s code s')
  then show ?case using offload_calm [of s Renderer_UnsetOffloadMode sid] calm_safe
    by (auto simp: Service_UnsetOffloadMode_def)
next
  case (fast_opened v fr cfg s p s')
  then show ?case using GetAudioProcess_safe [of v s fr cfg] by simp
next
  case (fast_closed p s code s')
  then show ?case using release_process_calm [of s p] calm_safe by auto
next
  case (waited s name)
  then show ?case using release_after_wait_calm calm_safe by blast
next
  case (reset v fresh s s')
  then show ?case using ResetAudioEndpoint_safe [of v s fresh] by simp
next
  case (fast_acted w s E)
  have "calm s (s\<lparr>eps := E, srv := w\<rparr>)" by (rule calm_sub) (simp_all add: fast_acted)
  then show ?case using fast_acted calm_safe by blast
qed

lemma service_reach_safe: "service_reach sec R s \<Longrightarrow> safe s"
proof (induction rule: service_reach.induct)
  case (start s)
  then show ?case
    by (auto simp: service_start_def safe_def capture_safe_def fast_safe_def registered_def linked_procs_def)
qed (rule service_step_safe)

end
