(* ===== verification/ServiceOutcomes.thy ===== *)
theory ServiceOutcomes
  imports ServiceProps EndpointProps ByteFifo
begin

text \<open>
  What the requests of a capturer come to: the filter it sets is followed exactly, its release frees every
  stream, a second capturer is not served, and one that never started keeps the others out. Then the
  sequences of requests the service does not survive.
\<close>

section \<open>What is captured\<close>

text \<open>
  C31: No stream is captured against the filter. Whatever clients, recording streams, devices and time-outs
  do, a registered normal stream is copied for inner capture only while a capturer has set a filter
  that the stream matches, so a private stream never is; and while a filter is set, a linked fast
  stream is captured only if it matches.
\<close>

theorem capture_follows_the_filter:
  assumes "service_reach sec R s"
  shows "(k \<in> registered s \<and> r_isInnerCapEnabled (rends s k) \<longrightarrow>
      workingInnerCapId s \<noteq> 0 \<and> ShouldBeInnerCap (workingConfig s) (r_config (rends s k)) \<and>
      privacyType (r_config (rends s k)) = 0) \<and>
    (workingInnerCapId s \<noteq> 0 \<and> (p, e) \<in> set (linkedPairedList s) \<and> isInnerCapped (procs (srv s) p) \<longrightarrow>
      ShouldBeInnerCap (workingConfig s) (processConfig (procs (srv s) p)) \<and>
      privacyType (processConfig (procs (srv s) p)) = 0)"
proof -
  have safe: "safe s" by (rule service_reach_safe [OF assms])
  have public: "ShouldBeInnerCap f c \<Longrightarrow> privacyType c = 0" for f c
    by (simp add: ShouldBeInnerCap_def split: if_splits)
  show ?thesis using safe public
    by (force simp: safe_def capture_safe_def captured_def should_cap_def fast_safe_def matches_def linked_procs_def)
qed

section \<open>Setting a filter\<close>

definition buffers_there :: "AudioService \<Rightarrow> bool" where
  "buffers_there s \<longleftrightarrow> (\<forall>e. e \<in> snd ` set (linkedPairedList s) \<longrightarrow> dstAudioBuffer (eps s e) \<noteq> None)"

lemma enable_fast_total:
  assumes "dstAudioBuffer (eps s e) \<noteq> None"
  shows "\<exists>t. enable_fast e s = Inr t \<and> only_fast s t \<and> (\<forall>d. dstAudioBuffer (eps t d) = dstAudioBuffer (eps s d))"
proof -
  obtain b where b: "dstAudioBuffer (eps s e) = Some b" using assms by blast
  have "\<exists>code E w. EnableFastInnerCap (eps s e) (srv s) = Inr (code, E, w) \<and> dstAudioBuffer E = Some b"
    by (simp add: EnableFastInnerCap_def InitDupStream_def Let_def b split: prod.split)
  then obtain code E w where "EnableFastInnerCap (eps s e) (srv s) = Inr (code, E, w)" "dstAudioBuffer E = Some b"
    by blast
  then show ?thesis by (intro exI [of _ "s\<lparr>eps := (eps s)(e := E), srv := w\<rparr>"]) (simp add: enable_fast_def b)
qed

lemma cap_process_frame: "only_fast s (cap_process b p s)" "eps (cap_process b p s) = eps s"
  by (simp_all add: cap_process_def)

lemma filter_linked_total:
  assumes "\<forall>e \<in> snd ` set qs. dstAudioBuffer (eps s e) \<noteq> None"
  shows "\<exists>t. filter_linked qs s = Inr t"
  using assms
proof (induction qs arbitrary: s)
  case (Cons q qs)
  obtain p e where q: "q = (p, e)" by (rule prod.exhaust)
  obtain t where t: "enable_fast e (cap_process True p s) = Inr t" "\<forall>d. dstAudioBuffer (eps t d) = dstAudioBuffer (eps s d)"
    using enable_fast_total [of "cap_process True p s" e] Cons.prems by (auto simp: q cap_process_frame)
  have "\<exists>u. filter_linked qs t = Inr u" "\<exists>u. filter_linked qs (cap_process False p s) = Inr u"
    using Cons.prems t(2) by (auto intro!: Cons.IH simp: cap_process_frame)
  then show ?case using t(1) by (simp add: q Let_def)
qed simp

lemma OnInit_total: "buffers_there s \<Longrightarrow> \<exists>t. OnInitInnerCapList s = Inr (SUCCESS, t)"
  using filter_linked_total [of "linkedPairedList s" s]
  by (auto simp: OnInitInnerCapList_def FilterAllFastProcess_def buffers_there_def)

lemma fold_update_frame: "cap_frame s (fold update_cap ks s)"
  using fold_disable [where f = update_cap and P = "\<lambda>s k. \<not> should_cap s k" and s = s and ks = ks]
  by (auto simp: update_cap_def cap_frame_should)

lemma OnChange_total:
  assumes "buffers_there s" and "workingInnerCapId s = 0 \<or> workingInnerCapId s = sid"
  shows "\<exists>t. OnCapturerFilterChange sid cfg s = Inr (SUCCESS, t)"
proof (cases "workingInnerCapId s = 0")
  case True
  then show ?thesis using OnInit_total [of "s\<lparr>workingInnerCapId := sid, workingConfig := cfg\<rparr>"] assms(1)
    by (auto simp: OnCapturerFilterChange_def buffers_there_def)
next
  case False
  define t where "t = (fold update_cap (filteredRendererMap s) (s\<lparr>workingConfig := cfg\<rparr>))\<lparr>filteredRendererMap := []\<rparr>"
  have "buffers_there t" using fold_update_frame [of "s\<lparr>workingConfig := cfg\<rparr>" "filteredRendererMap s"] assms(1)
    by (simp add: t_def buffers_there_def cap_frame_def)
  then show ?thesis using OnInit_total [of t] False assms(2)
    by (simp add: OnCapturerFilterChange_def OnUpdateInnerCapList_def t_def)
qed

text \<open>The filter a capturer asks for, with the usages it gets when it names none.\<close>

definition requested :: "AudioPlaybackCaptureConfig \<Rightarrow> AudioPlaybackCaptureConfig" where
  "requested cfg =
     (if fo_usages (filterOptions cfg) = []
      then cfg\<lparr>filterOptions := (filterOptions cfg)\<lparr>fo_usages := [1, 1, 10, 11, 12]\<rparr>\<rparr> else cfg)"

text \<open>A capturer of playback in the mode that filters, which may hear what it asks for.\<close>

definition may_filter :: "(u32 \<Rightarrow> bool) \<Rightarrow> AudioPlaybackCaptureConfig \<Rightarrow> CapturerInServer \<Rightarrow> bool" where
  "may_filter downlink cfg c \<longleftrightarrow>
     source_is SOURCE_TYPE_PLAYBACK_CAPTURE c \<and> innerCapMode (c_config c) = MODERN_INNER_CAP \<and> c_streamIndex c \<noteq> 0 \<and>
     (2 \<in> set (fo_usages (filterOptions cfg)) \<longrightarrow> downlink (token c))"

lemma configure_capture_is:
  assumes "may_filter downlink cfg (caps s k)"
  shows "configure_capture downlink cfg k s =
    (let i = c_streamIndex (caps s k);
         t = put_capturer k ((caps s k)\<lparr>c_filterConfig := requested cfg\<rparr>)
               (tell (OnService (SetPlaybackCapturerFilterInfo i (requested cfg))) (out s)) s
     in Some (exec_bind (Mgr_SetPlaybackCapturerFilterInfo i (requested cfg) t) (\<lambda>r. Inr (SUCCESS, snd r))))"
proof -
  have upd: "UpdatePlaybackCaptureConfig downlink cfg (caps s k) (out s) =
      (SUCCESS, (caps s k)\<lparr>c_filterConfig := requested cfg\<rparr>,
       tell (OnService (SetPlaybackCapturerFilterInfo (c_streamIndex (caps s k)) (requested cfg))) (out s))"
    using assms by (auto simp: may_filter_def UpdatePlaybackCaptureConfig_def requested_def defaultUsages_def Let_def)
  have run: "run_bind (run_bind (Some (exec_bind m (\<lambda>r. Inr (snd r)))) (each carry_out [])) (\<lambda>s1. returning (SUCCESS, s1)) =
      Some (exec_bind m (\<lambda>r. Inr (SUCCESS, snd r)))" for m :: "(err \<times> AudioService) exec"
    by (cases m) simp_all
  show ?thesis unfolding configure_capture_def upd prod.case
    by (simp add: carry_out_since_def tell_def carry_out_def run [simplified] Let_def)
qed

lemma configure_follows:
  assumes safe: "safe s" and may: "may_filter downlink cfg (caps s k)" and listening: "filterListener (manager s)"
    and free: "workingInnerCapId s = 0 \<or> workingInnerCapId s = c_streamIndex (caps s k)"
    and ready: "buffers_there s" "obliging (out s)"
  shows "\<exists>s'. configure_capture downlink cfg k s = returning (SUCCESS, s') \<and>
    workingInnerCapId s' = c_streamIndex (caps s k) \<and> registered s' = registered s \<and> linked_procs s' = linked_procs s \<and>
    (\<forall>j \<in> registered s. captured s' j = ShouldBeInnerCap (requested cfg) (r_config (rends s j))) \<and>
    (\<forall>p \<in> linked_procs s. isInnerCapped (procs (srv s') p) =
      (pc_audioMode (processConfig (procs (srv s) p)) = 0 \<and>
       ShouldBeInnerCap (requested cfg) (processConfig (procs (srv s) p))))"
proof -
  let ?i = "c_streamIndex (caps s k)"
  define t where "t = put_capturer k ((caps s k)\<lparr>c_filterConfig := requested cfg\<rparr>)
      (tell (OnService (SetPlaybackCapturerFilterInfo ?i (requested cfg))) (out s)) s"
  have cf: "configure_capture downlink cfg k s =
      Some (exec_bind (Mgr_SetPlaybackCapturerFilterInfo ?i (requested cfg) t) (\<lambda>r. Inr (SUCCESS, snd r)))"
    unfolding t_def using configure_capture_is [OF may] by (simp add: Let_def)
  have t: "safe t" "buffers_there t" "workingInnerCapId t = workingInnerCapId s" "filterListener (manager t)"
    "obliging (out t)" "registered t = registered s" "linked_procs t = linked_procs s" "rends t = rends s" "srv t = srv s"
    using calm_safe [OF safe put_capturer_calm] ready listening
    by (simp_all add: t_def buffers_there_def obliging_def registered_def linked_procs_def)
  obtain s' where s': "OnCapturerFilterChange ?i (requested cfg) t = Inr (SUCCESS, s')"
    using OnChange_total [of t ?i "requested cfg"] t free by auto
  define u where "u = t\<lparr>workingInnerCapId := ?i, workingConfig := requested cfg\<rparr>"
  have u: "registered u = registered s" "linked_procs u = linked_procs s" "rends u = rends s" "srv u = srv s"
    "workingInnerCapId u = ?i" "workingConfig u = requested cfg" "obliging (out u)"
    using t by (simp_all add: u_def registered_def linked_procs_def)
  have "follows_filter u s'"
    using OnCapturerFilterChange_spec [of t ?i "requested cfg"] t free may s'
    by (simp add: safe_def may_filter_def u_def)
  then have "workingInnerCapId s' = ?i \<and> registered s' = registered s \<and> linked_procs s' = linked_procs s \<and>
    (\<forall>j \<in> registered s. captured s' j = ShouldBeInnerCap (requested cfg) (r_config (rends s j))) \<and>
    (\<forall>p \<in> linked_procs s. isInnerCapped (procs (srv s') p) =
      (pc_audioMode (processConfig (procs (srv s) p)) = 0 \<and>
       ShouldBeInnerCap (requested cfg) (processConfig (procs (srv s) p))))"
    using u by (simp add: follows_filter_def should_cap_def matches_def)
  then show ?thesis using cf s' t(4) by (intro exI [of _ s']) (simp add: Mgr_SetPlaybackCapturerFilterInfo_def)
qed

text \<open>
  C32: A filter is followed exactly. When a capturer of playback that may capture and can be notified sets its
  filter, no other capturer is working, the stream manager makes the copies it is asked for and the endpoints have their buffers, the request succeeds, and
  of all registered normal streams and linked fast streams exactly those are captured that the filter matches.
\<close>

theorem filter_is_followed_exactly:
  assumes "service_reach sec R s" and "may_filter downlink cfg (caps s k)" and "filterListener (manager s)"
    and "workingInnerCapId s = 0 \<or> workingInnerCapId s = c_streamIndex (caps s k)"
    and "buffers_there s" and "obliging (out s)"
  shows "\<exists>s'. configure_capture downlink cfg k s = returning (SUCCESS, s') \<and>
    (\<forall>j. j \<in> registered s \<longrightarrow>
      r_isInnerCapEnabled (rends s' j) = ShouldBeInnerCap (requested cfg) (r_config (rends s j))) \<and>
    (\<forall>p. p \<in> linked_procs s \<longrightarrow> isInnerCapped (procs (srv s') p) =
      (pc_audioMode (processConfig (procs (srv s) p)) = 0 \<and>
       ShouldBeInnerCap (requested cfg) (processConfig (procs (srv s) p))))"
  using configure_follows [OF service_reach_safe [OF assms(1)] assms(2-6)] by (fastforce simp: captured_def)

section \<open>A second capturer\<close>

text \<open>
  C34: A second capturer is told it succeeded and is not served. While one capturer's filter is in force, another
  that sets its filter gets SUCCESS, and beside the filter noted in the recording stream nothing in
  the service changes: the filter in force, the captured streams and the endpoints stay.
\<close>

theorem second_capturer_is_not_served:
  assumes "may_filter downlink cfg (caps s k)" and "workingInnerCapId s \<noteq> 0"
    and "workingInnerCapId s \<noteq> c_streamIndex (caps s k)"
  shows "\<exists>c x. configure_capture downlink cfg k s = returning (SUCCESS, s\<lparr>caps := (caps s)(k := c), out := x\<rparr>)"
  using assms
  by (auto simp: configure_capture_is Mgr_SetPlaybackCapturerFilterInfo_def OnCapturerFilterChange_def Let_def)

text \<open>
  A capturer that never started keeps the others out. The destructor of a recording stream that is still idle does
  not release it, so the filter it had set stays in force when the stream is gone.
\<close>

theorem unstarted_capturer_keeps_its_filter:
  assumes "c_status (caps s k) = I_STATUS_IDLE"
  shows "\<exists>s'. drop_capturer k s = returning s' \<and> k \<notin> capAlive s' \<and> workingInnerCapId s' = workingInnerCapId s \<and>
    workingConfig s' = workingConfig s \<and> (\<forall>j. r_isInnerCapEnabled (rends s' j) = r_isInnerCapEnabled (rends s j))"
  using assms by (simp add: drop_capturer_def CapturerInServer_dtor_def carry_out_since_def)

section \<open>Removing the filter\<close>

lemma release_capturer_is:
  assumes "may_filter downlink cfg (caps s k)" and "c_status (caps s k) \<noteq> I_STATUS_RELEASED" and "obliging (out s)"
  shows "\<exists>x c. release_capturer k s =
    run_bind (each carry_out [RemoveCapturer (c_streamIndex (caps s k)),
        RemovePlaybackCapturerFilterInfo (c_streamIndex (caps s k))] (put_capturer k c x s))
      (\<lambda>s1. returning (SUCCESS, s1))"
proof -
  let ?c = "caps s k"
  let ?l = "[OnService (RemoveCapturer (c_streamIndex ?c)), OnManager RECORDER (ReleaseCapturer (c_streamIndex ?c)),
      OnService (RemovePlaybackCapturerFilterInfo (c_streamIndex ?c))] @
      (if c_needCheckBackground ?c then [NotifyPrivacy (token ?c) False] else [])"
  obtain code c x where rel0: "Capturer_Release ?c (out s) = (code, c, x)" by (rule prod_cases3)
  have rel: "code = SUCCESS" "asked x = asked (out s) @ ?l"
    using rel0 assms
    by (auto simp: Capturer_Release_def may_filter_def source_is_def ask_def tell_def privacy_stop_def obliging_def token_def
        Let_def SUCCESS_def)
  have ops: "service_ops ?l = [RemoveCapturer (c_streamIndex ?c), RemovePlaybackCapturerFilterInfo (c_streamIndex ?c)]"
    by simp
  show ?thesis unfolding release_capturer_def rel0 prod.case
    by (intro exI [of _ x] exI [of _ c]) (simp add: carry_out_since_def rel ops del: service_ops_append)
qed

text \<open>
  C33: When the working capturer is released, all it held is let go. The request returns, no filter is in force, no
  registered stream is copied and no playback endpoint the service holds makes a copy any more.
\<close>

theorem released_capturer_frees_all:
  assumes "service_reach sec R s" and "may_filter downlink cfg (caps s k)" and "filterListener (manager s)"
    and "workingInnerCapId s = c_streamIndex (caps s k)" and "c_status (caps s k) \<noteq> I_STATUS_RELEASED"
    and "obliging (out s)" and "\<not> mutedLocked s"
  shows "\<exists>s'. release_capturer k s = returning (SUCCESS, s') \<and> workingInnerCapId s' = 0 \<and>
    (\<forall>j. j \<in> registered s' \<longrightarrow> \<not> r_isInnerCapEnabled (rends s' j)) \<and>
    (\<forall>name e. (name, e) \<in> set (endpointList s') \<longrightarrow> is_output (eps s' e) \<longrightarrow> \<not> isInnerCapEnabled (eps s' e))"
proof -
  let ?i = "c_streamIndex (caps s k)"
  obtain c x where rel: "release_capturer k s =
      run_bind (each carry_out [RemoveCapturer ?i, RemovePlaybackCapturerFilterInfo ?i] (put_capturer k c x s))
        (\<lambda>s1. returning (SUCCESS, s1))" using release_capturer_is [OF assms(2,5,6)] by blast
  have s: "safe (put_capturer k c x s)" by (rule calm_safe [OF service_reach_safe [OF assms(1)] put_capturer_calm])
  obtain t where t: "Service_RemoveCapturer ?i (put_capturer k c x s) = returning t" "filterListener (manager t)"
    "workingInnerCapId t = ?i"
    using assms(3,4,7) by (cases "map_of (allCapturerMap s) ?i") (auto simp: Service_RemoveCapturer_def RemoveIdFromMuteControlSet_def)
  have "safe t" using safe_run [OF s RemoveCapturer_calm, of ?i] t(1) by simp
  obtain code s' where r: "OnCapturerFilterRemove ?i t = (code, s')" by (rule prod.exhaust)
  note spec = OnCapturerFilterRemove_spec [OF _ r]
  have m: "\<exists>s'. carry_out (RemovePlaybackCapturerFilterInfo ?i) t = returning s' \<and> s' = snd (OnCapturerFilterRemove ?i t)"
    using t(2) by (simp add: carry_out_def Mgr_RemovePlaybackCapturerFilterInfo_def)
  have "release_capturer k s = returning (SUCCESS, s')"
    using m r by (simp add: rel carry_out_def [of "RemoveCapturer ?i"] t(1))
  then show ?thesis using spec \<open>safe t\<close> t(3) by (auto simp: safe_def captured_def)
qed

section \<open>Endpoints that wait to be released\<close>

lemma delayed_release_is:
  "release_after_wait name s =
    (let s1 = s\<lparr>releasingEndpointSet := releasingEndpointSet s - {name}\<rparr> in
     case map_of (endpointList s) name of
       Some e \<Rightarrow> if name \<in> releasingEndpointSet s \<and> GetStatus (eps s e) = UNLINKED then release_endpoint name e s1 else s1
     | None \<Rightarrow> s1)"
  by (simp add: release_after_wait_def Let_def split: option.split)

text \<open>
  A delayed release takes exactly an unused endpoint. When the wait ends an endpoint that processes are linked to, or that
  was linked again in the meantime, stays in the service's list as it is; one that is still marked and
  still unlinked is taken out of the list and closed.
\<close>

theorem delayed_release_takes_the_unused:
  assumes "distinct (map fst (endpointList s))" and "(name', e) \<in> set (endpointList s)"
  shows "(if name' = name \<and> name \<in> releasingEndpointSet s \<and> GetStatus (eps s e) = UNLINKED
     then (\<forall>d. (name, d) \<notin> set (endpointList (release_after_wait name s))) \<and>
       \<not> ep_isInited (eps (release_after_wait name s) e) \<and> name \<notin> releasingEndpointSet (release_after_wait name s)
     else (name', e) \<in> set (endpointList (release_after_wait name s)) \<and>
       (GetStatus (eps s e) \<noteq> UNLINKED \<longrightarrow> eps (release_after_wait name s) e = eps s e))"
proof -
  have here: "map_of (endpointList s) name' = Some e" using assms by simp
  have closed: "Release d w = (d', w') \<Longrightarrow> \<not> ep_isInited d'" for d w d' w'
    by (auto simp: Release_def DisableFastInnerCap_def Let_def split: if_splits)
  show ?thesis using here assms(2)
    by (auto dest: closed simp: delayed_release_is release_endpoint_def set_drop_key Let_def split: option.splits prod.splits)
qed

section \<open>Requests the service does not survive\<close>

lemma enable_cap_index:
  "r_streamIndex (rends (enable_cap k s) k) = r_streamIndex (rends s k)" "mutedSessions (enable_cap k s) = mutedSessions s"
  by (simp_all add: enable_cap_def EnableInnerCap_def Renderer_InitDupStream_def ask_def Let_def split: prod.split)

lemma check_muted_waits:
  assumes "sid \<in> mutedSessions s" and "mute (s\<lparr>mutedLocked := True\<rparr>) = None"
  shows "check_muted mute sid s = None"
  using assms by (simp add: check_muted_def run_bind_def)

text \<open>
  C35: A stream of a muted session is never opened. The check of a new playback stream holds the lock of the muted
  sessions while it mutes the stream, and muting takes the same lock: when the session id the new stream
  is given is marked as muted, the request does not return.
\<close>

theorem muted_session_never_opens:
  assumes "pc_audioMode config = 0"
    and "Renderer_Init (v_os v) (RendererInServer_ctor config True) (out s) = Inr (SUCCESS, r, x)" and "r_stream r"
    and "r_streamIndex r \<in> mutedSessions s" and "MIN_SESSIONID \<le> r_streamIndex r" and "r_streamIndex r < 2147483647"
  shows "GetIpcStream sec v k config s = None"
proof -
  let ?sid = "r_streamIndex r"
  define m where "m = know_manager s"
  have m: "out m = out s" "mutedSessions m = mutedSessions s" by (simp_all add: m_def know_manager_def)
  define t where "t = put_renderer k r x m\<lparr>rendAlive := insert k (rendAlive m)\<rparr>"
  obtain ipc where ipc: "IpcStream_Create sec v k config m = Inr (SUCCESS, Some ipc, t)" "is_renderer ipc = Some k"
    using assms(1,2) m by (simp add: IpcStream_Create_def ConfigRenderer_def t_def Let_def)
  define u where "u = CheckInnerCapForRenderer k (InsertRenderer ?sid k t)"
  have u: "r_streamIndex (rends u k) = ?sid" "mutedSessions u = mutedSessions s"
    using enable_cap_index m
    by (simp_all add: u_def CheckInnerCapForRenderer_def InsertRenderer_def t_def)
  have "mute_renderer k True (u\<lparr>mutedLocked := True\<rparr>) = None"
    using u(1) assms(5,6)
    by (simp add: mute_renderer_def Renderer_SetNonInterruptMute_def Service_UpdateMuteControlSet_def MAX_SESSIONID_def
        word_less_nat_alt word_le_nat_alt)
  then have "CheckRenderSessionMuteState ?sid k u = None"
    unfolding CheckRenderSessionMuteState_def by (rule check_muted_waits [rotated]) (use u(2) assms(4) in simp)
  moreover have "Renderer_GetSessionId (rends t k) = (SUCCESS, Some ?sid)"
    using assms(3,6) by (simp add: t_def Renderer_GetSessionId_def)
  ultimately have "register_renderer k t = None" by (simp add: register_renderer_def u_def)
  then show ?thesis using ipc by (simp add: GetIpcStream_def m_def [symmetric] register_stream_def run_bind_def)
qed

text \<open>
  A stream that went before it was started leaves a trap. The destructor of an idle playback stream does not take
  it out of the service's map, and the requests that name its session follow the dead pointer.
\<close>

theorem unstarted_stream_leaves_null:
  assumes "r_status (rends s k) = I_STATUS_IDLE" and "map_of (allRendererMap s) sid = Some k"
  shows "\<exists>s'. drop_renderer k s = returning s' \<and>
    Service_SetNonInterruptMute sid mute s' = Some (Inl NullDeref) \<and>
    Service_SetOffloadMode sid state isAppBack s' = Inl NullDeref \<and> Service_UnsetOffloadMode sid s' = Inl NullDeref"
  using assms
  by (simp add: drop_renderer_def Service_SetNonInterruptMute_def Service_SetOffloadMode_def Service_UnsetOffloadMode_def
      offload_call_def)

lemma unlink_last:
  assumes "GetStreamBuffer (procs (srv s) p) = Some b" and "processList (eps s e) = [p]" and "processBufferList (eps s e) = [b]"
    and "UnlinkProcessToEndpoint p e s = (code, s1)"
  shows "GetStatus (eps s1 e) = UNLINKED"
  using assms by (auto simp: UnlinkProcessToEndpoint_def UnlinkProcessStream_def GetStatus_def Let_def split: prod.splits if_splits)

text \<open>
  C36: The last fast stream of the list is released over an erased element. When the process that is released stands last
  among the linked pairs and is the last one on its endpoint, the request reads the type of the
  device through the iterator of the pair it has just erased.
\<close>

theorem last_release_reads_the_erased_pair:
  assumes "linkedPairedList s = before @ [(p, e)]" and "p \<notin> fst ` set before" and "\<not> mutedLocked s"
    and "GetStreamBuffer (procs (srv s) p) = Some b" and "processList (eps s e) = [p]" and "processBufferList (eps s e) = [b]"
  shows "OnProcessRelease p s = Some (Inl UncheckedAccess)"
proof -
  let ?m = "s\<lparr>mutedSessions := mutedSessions s - {ap_sessionId (procs (srv s) p)}\<rparr>"
  obtain code s1 where un: "UnlinkProcessToEndpoint p e ?m = (code, s1)" by (rule prod.exhaust)
  have "GetStatus (eps s1 e) = UNLINKED" by (rule unlink_last [OF _ _ _ un]) (use assms(4-6) in simp_all)
  moreover have "dropWhile (\<lambda>q. fst q \<noteq> p) (before @ [(p, e)]) = [(p, e)]"
    using assms(2) by (subst dropWhile_append2) force+
  ultimately show ?thesis
    using assms(1,3) un by (simp add: OnProcessRelease_def RemoveIdFromMuteControlSet_def remove_pair_def)
qed

lemma reset_skips:
  assumes "\<And>j. j < i + n \<Longrightarrow> endpointType (eps s (snd (linkedPairedList s ! j))) \<noteq> TYPE_MMAP"
  shows "reset_from v fresh (n + m) i s = reset_from v fresh m (i + n) s"
  using assms by (induction n arbitrary: i) simp_all

text \<open>
  A reset reads behind the end of its list. The pair of a shared endpoint is erased before it is read, so its place
  is that of the next pair: when the only pair of a shared endpoint is the last of the list, whatever stands before
  it, the reset goes through the iterator at the end.
\<close>

theorem reset_reads_behind_the_list:
  assumes "linkedPairedList s = before @ [(p, e)]" and "endpointType (eps s e) = TYPE_MMAP"
    and "\<And>q d. (q, d) \<in> set before \<Longrightarrow> endpointType (eps s d) \<noteq> TYPE_MMAP"
  shows "ResetAudioEndpoint v fresh s = Inl UncheckedAccess"
proof -
  have skip: "endpointType (eps s (snd (linkedPairedList s ! j))) \<noteq> TYPE_MMAP" if "j < 0 + length before" for j
    using that assms(1) assms(3) [of "fst (before ! j)" "snd (before ! j)"] by (simp add: nth_append)
  show ?thesis
    using reset_skips [of 0 "length before" s v fresh 1, OF skip] assms(1,2) by (simp add: ResetAudioEndpoint_def nth_append)
qed

section \<open>A stream, a capturer and an endpoint\<close>

definition demo_answers :: outside where
  "demo_answers = demo_outside\<lparr>answers := (\<lambda>n. (demo_reply n)\<lparr>rp_amount := (if n = 1 then 100004 else if n = 2 then 2 else 4)\<rparr>)\<rparr>"

definition demo_music :: AudioProcessConfig where
  "demo_music = demo_config\<lparr>privacyType := 0\<rparr>"

definition demo_filter :: AudioPlaybackCaptureConfig where
  "demo_filter = \<lparr>filterOptions = \<lparr>fo_usages = [], fo_usageFilterMode = 0, fo_pids = [], fo_pidFilterMode = 0\<rparr>, silentCapture = False\<rparr>"

definition demo_inner :: CapturerInServer where
  "demo_inner = (CapturerInServer_ctor (demo_config\<lparr>capturerInfo := demo_capturer_info\<lparr>ci_sourceType := source_word SOURCE_TYPE_PLAYBACK_CAPTURE\<rparr>,
     innerCapMode := MODERN_INNER_CAP\<rparr>) True)\<lparr>c_streamIndex := 100005, c_stream := True\<rparr>"

definition demo_service :: AudioService where
  "demo_service =
     \<lparr>eps = (\<lambda>_. demo_new_endpoint), srv = demo_server, linkedPairedList = [], releasingEndpointSet = {}, endpointList = [],
      independentId = 1, delayedReleases = [], innerCapturerMgr = False,
      manager = \<lparr>supportStreamUsageSet = {}, isCaptureSilently = False, isInnerCapturerRunning = False, filterListener = False\<rparr>,
      workingInnerCapId = 0, workingDualToneId = 0, workingConfig = no_capture_config,
      rends = (\<lambda>_. RendererInServer_ctor demo_music True), rendAlive = {}, caps = (\<lambda>_. demo_inner), capAlive = {},
      allRendererMap = [], allCapturerMap = [], filteredRendererMap = [], filteredDualToneRendererMap = [],
      mutedLocked = False, mutedSessions = {}, out = demo_answers\<rparr>"

definition demo_env :: service_env where
  "demo_env =
     \<lparr>v_adapter = demo_adapter, v_perm = \<lparr>NeedVerifyBackgroundCapture = (\<lambda>_ _. False), VerifyBackgroundCapture = (\<lambda>_ _. True),
        GenerateSessionId = (\<lambda>_. 100001)\<rparr>, v_os = demo_os, v_meanwhile = id, v_device = (\<lambda>_. Some demo_speaker),
      v_blank = demo_device_info, v_blank_stream = demo_stream_info, v_separate_flag = 0, v_separate = None\<rparr>"

abbreviation recording_at :: "nat \<Rightarrow> CapturerInServer \<Rightarrow> AudioService \<Rightarrow> AudioService" where
  "recording_at k c s \<equiv> s\<lparr>caps := (caps s)(k := c), out := demo_answers\<rparr>"

definition demo_ready_service :: "AudioService \<Rightarrow> bool" where
  "demo_ready_service s \<longleftrightarrow>
     map snd (allRendererMap s) = [0] \<and> 0 \<in> rendAlive s \<and> filterListener (manager s) \<and> linkedPairedList s = [] \<and>
     \<not> mutedLocked s"

lemma demo_open:
  "case GetIpcStream demo_sec demo_env 0 demo_music demo_service of
     Some (Inr (code, ipc, s)) \<Rightarrow> demo_ready_service s \<and> workingInnerCapId s = 0 \<and>
       ShouldBeInnerCap (requested demo_filter) (r_config (rends s 0)) \<and>
       (case configure_capture (\<lambda>_. False) demo_filter 7 (recording_at 7 demo_inner s) of
          Some (Inr (code, s')) \<Rightarrow>
            demo_ready_service s' \<and> workingInnerCapId s' = 100005 \<and> r_isInnerCapEnabled (rends s' 0)
        | _ \<Rightarrow> False)
   | _ \<Rightarrow> False"
  by code_simp

lemma run_case: "(case m of Some (Inr q) \<Rightarrow> P q | _ \<Rightarrow> False) \<Longrightarrow> \<exists>q. m = returning q \<and> P q"
  by (simp split: option.splits sum.splits)

lemma demo_opens:
  obtains code ipc s code2 s' where
    "GetIpcStream demo_sec demo_env 0 demo_music demo_service = returning (code, ipc, s)"
    "demo_ready_service s" "workingInnerCapId s = 0" "ShouldBeInnerCap (requested demo_filter) (r_config (rends s 0))"
    "configure_capture (\<lambda>_. False) demo_filter 7 (recording_at 7 demo_inner s) = returning (code2, s')"
    "demo_ready_service s'" "workingInnerCapId s' = 100005" "r_isInnerCapEnabled (rends s' 0)"
proof -
  obtain code ipc s where s: "GetIpcStream demo_sec demo_env 0 demo_music demo_service = returning (code, ipc, s)"
    "demo_ready_service s \<and> workingInnerCapId s = 0 \<and> ShouldBeInnerCap (requested demo_filter) (r_config (rends s 0)) \<and>
      (case configure_capture (\<lambda>_. False) demo_filter 7 (recording_at 7 demo_inner s) of
         Some (Inr (code, s')) \<Rightarrow> demo_ready_service s' \<and> workingInnerCapId s' = 100005 \<and> r_isInnerCapEnabled (rends s' 0)
       | _ \<Rightarrow> False)"
    using run_case [OF demo_open] by auto
  obtain code2 s' where "configure_capture (\<lambda>_. False) demo_filter 7 (recording_at 7 demo_inner s) = returning (code2, s')"
    "demo_ready_service s' \<and> workingInnerCapId s' = 100005 \<and> r_isInnerCapEnabled (rends s' 0)"
    using run_case [OF conjunct2 [OF conjunct2 [OF conjunct2 [OF s(2)]]]] by auto
  with s show ?thesis by (intro that [of code ipc s code2 s']) simp_all
qed

lemma demo_reach:
  assumes "GetIpcStream demo_sec demo_env 0 demo_music demo_service = returning (code, ipc, s)"
  shows "service_reach demo_sec demo_repr (recording_at 7 demo_inner s)"
proof -
  have "service_reach demo_sec demo_repr demo_service"
    by (rule service_reach.start) (simp add: service_start_def demo_service_def)
  then have "service_reach demo_sec demo_repr s"
    by (rule service_reach.step) (rule service_step.opened [OF assms], simp add: demo_service_def)
  then show ?thesis by (rule service_reach.step) (rule service_step.recorder_acted)
qed

lemma demo_filters: "may_filter (\<lambda>_. False) demo_filter demo_inner"
  by code_simp

lemma demo_obliging: "obliging demo_answers"
  by (simp add: obliging_def demo_answers_def demo_outside_def demo_reply_def)

lemma demo_opened:
  obtains s where "service_reach demo_sec demo_repr s" "demo_ready_service s" "workingInnerCapId s = 0"
    "caps s 7 = demo_inner" "out s = demo_answers" "ShouldBeInnerCap (requested demo_filter) (r_config (rends s 0))"
proof -
  obtain code ipc s where s: "GetIpcStream demo_sec demo_env 0 demo_music demo_service = returning (code, ipc, s)"
    "demo_ready_service s" "workingInnerCapId s = 0" "ShouldBeInnerCap (requested demo_filter) (r_config (rends s 0))"
    by (rule demo_opens)
  show ?thesis by (rule that [OF demo_reach [OF s(1)]]) (use s in \<open>simp_all add: demo_ready_service_def\<close>)
qed

lemma demo_working:
  obtains s where "service_reach demo_sec demo_repr s" "demo_ready_service s" "workingInnerCapId s = 100005"
    "caps s 7 = demo_inner" "out s = demo_answers" "r_isInnerCapEnabled (rends s 0)"
proof -
  obtain code ipc s code2 s' where s: "GetIpcStream demo_sec demo_env 0 demo_music demo_service = returning (code, ipc, s)"
    "configure_capture (\<lambda>_. False) demo_filter 7 (recording_at 7 demo_inner s) = returning (code2, s')"
    "demo_ready_service s'" "workingInnerCapId s' = 100005" "r_isInnerCapEnabled (rends s' 0)"
    by (rule demo_opens)
  have "service_reach demo_sec demo_repr s'"
    by (rule service_reach.step [OF demo_reach [OF s(1)]]) (rule service_step.configured [OF s(2)], simp add: demo_inner_def)
  then have "service_reach demo_sec demo_repr (recording_at 7 demo_inner s')"
    by (rule service_reach.step) (rule service_step.recorder_acted)
  then show ?thesis by (rule that) (use s in \<open>simp_all add: demo_ready_service_def\<close>)
qed

lemma demo_registered: "demo_ready_service s \<Longrightarrow> registered s = {0}"
  by (auto simp: demo_ready_service_def registered_def set_map [symmetric] simp del: set_map)

theorem capture_follows_the_filter_witness:
  "\<exists>s. service_reach demo_sec demo_repr s \<and> 0 \<in> registered s \<and> r_isInnerCapEnabled (rends s 0) \<and>
     ShouldBeInnerCap (workingConfig s) (r_config (rends s 0)) \<and> privacyType (r_config (rends s 0)) = 0"
proof -
  obtain s where s: "service_reach demo_sec demo_repr s" "demo_ready_service s" "r_isInnerCapEnabled (rends s 0)"
    by (rule demo_working)
  have "0 \<in> registered s" using demo_registered [OF s(2)] by simp
  with capture_follows_the_filter [OF s(1), of 0] s show ?thesis by blast
qed

theorem filter_is_followed_exactly_witness:
  "\<exists>s s'. service_reach demo_sec demo_repr s \<and> 0 \<in> registered s \<and>
     configure_capture (\<lambda>_. False) demo_filter 7 s = returning (SUCCESS, s') \<and> r_isInnerCapEnabled (rends s' 0)"
proof -
  obtain s where s: "service_reach demo_sec demo_repr s" "demo_ready_service s" "workingInnerCapId s = 0"
    "caps s 7 = demo_inner" "out s = demo_answers" "ShouldBeInnerCap (requested demo_filter) (r_config (rends s 0))"
    by (rule demo_opened)
  have "0 \<in> registered s" using demo_registered [OF s(2)] by simp
  moreover have "filterListener (manager s)" "buffers_there s" using s(2) by (simp_all add: demo_ready_service_def buffers_there_def)
  ultimately show ?thesis
    using filter_is_followed_exactly [OF s(1), of "\<lambda>_. False" demo_filter 7] s demo_filters demo_obliging by fastforce
qed

theorem second_capturer_is_not_served_witness:
  "\<exists>c x. configure_capture (\<lambda>_. False) demo_filter 7 (demo_service\<lparr>workingInnerCapId := 100006\<rparr>) =
     returning (SUCCESS, demo_service\<lparr>workingInnerCapId := 100006, caps := (caps demo_service)(7 := c), out := x\<rparr>)"
  using second_capturer_is_not_served [of "\<lambda>_. False" demo_filter "demo_service\<lparr>workingInnerCapId := 100006\<rparr>" 7] demo_filters
  by (simp add: demo_service_def demo_inner_def)

theorem unstarted_capturer_keeps_its_filter_witness:
  "\<exists>s'. drop_capturer 7 (demo_service\<lparr>workingInnerCapId := 100005\<rparr>) = returning s' \<and> workingInnerCapId s' = 100005"
  using unstarted_capturer_keeps_its_filter [of "demo_service\<lparr>workingInnerCapId := 100005\<rparr>" 7]
  by (auto simp: demo_service_def demo_inner_def CapturerInServer_ctor_def)

theorem released_capturer_frees_all_witness:
  "\<exists>s s'. service_reach demo_sec demo_repr s \<and> 0 \<in> registered s \<and> r_isInnerCapEnabled (rends s 0) \<and>
     release_capturer 7 s = returning (SUCCESS, s') \<and> workingInnerCapId s' = 0 \<and>
     (\<forall>j. j \<in> registered s' \<longrightarrow> \<not> r_isInnerCapEnabled (rends s' j))"
proof -
  obtain s where s: "service_reach demo_sec demo_repr s" "demo_ready_service s" "workingInnerCapId s = 100005"
    "caps s 7 = demo_inner" "out s = demo_answers" "r_isInnerCapEnabled (rends s 0)"
    by (rule demo_working)
  have "0 \<in> registered s" using demo_registered [OF s(2)] by simp
  moreover have "filterListener (manager s)" "\<not> mutedLocked s" using s(2) by (simp_all add: demo_ready_service_def)
  moreover have "c_streamIndex demo_inner = 100005" "c_status demo_inner \<noteq> I_STATUS_RELEASED"
    by (simp_all add: demo_inner_def CapturerInServer_ctor_def)
  ultimately show ?thesis
    using released_capturer_frees_all [OF s(1), of "\<lambda>_. False" demo_filter 7] s demo_filters demo_obliging by auto
qed

lemma demo_new_stream:
  "case Renderer_Init demo_os (RendererInServer_ctor demo_music True) demo_answers of
     Inr (e, r, x) \<Rightarrow> e = SUCCESS \<and> r_stream r \<and> r_streamIndex r = 100004
   | _ \<Rightarrow> False"
  by code_simp

theorem muted_session_never_opens_witness:
  "GetIpcStream demo_sec demo_env 0 demo_music (demo_service\<lparr>mutedSessions := {100004}\<rparr>) = None"
proof -
  obtain r x where "Renderer_Init demo_os (RendererInServer_ctor demo_music True) demo_answers = Inr (SUCCESS, r, x)"
    "r_stream r" "r_streamIndex r = 100004" using demo_new_stream by (auto split: sum.splits)
  then show ?thesis
    using muted_session_never_opens [of demo_music demo_env "demo_service\<lparr>mutedSessions := {100004}\<rparr>" r x]
    by (simp add: demo_service_def demo_env_def demo_music_def demo_config_def MIN_SESSIONID_def)
qed

theorem unstarted_stream_leaves_null_witness:
  "\<exists>s'. drop_renderer 0 (demo_service\<lparr>allRendererMap := [(100004, 0)], rendAlive := {0}\<rparr>) = returning s' \<and>
     Service_SetNonInterruptMute 100004 True s' = Some (Inl NullDeref)"
  using unstarted_stream_leaves_null [of "demo_service\<lparr>allRendererMap := [(100004, 0)], rendAlive := {0}\<rparr>" 0 100004 True 0 False]
  by (auto simp: demo_service_def RendererInServer_ctor_def)

theorem last_release_reads_the_erased_pair_witness:
  "OnProcessRelease 0 (demo_service\<lparr>linkedPairedList := [(0, 3)],
     eps := (\<lambda>_. demo_new_endpoint\<lparr>processList := [0], processBufferList := [0]\<rparr>)\<rparr>) = Some (Inl UncheckedAccess)"
  using last_release_reads_the_erased_pair [of "demo_service\<lparr>linkedPairedList := [(0, 3)],
     eps := (\<lambda>_. demo_new_endpoint\<lparr>processList := [0], processBufferList := [0]\<rparr>)\<rparr>" "[]" 0 3 0]
  by (simp add: demo_service_def demo_server_def demo_process_def GetStreamBuffer_def)

theorem reset_reads_behind_the_list_witness:
  "\<forall>fresh. ResetAudioEndpoint demo_env fresh (demo_service\<lparr>linkedPairedList := [(0, 3)]\<rparr>) = Inl UncheckedAccess"
  by (rule allI, rule reset_reads_behind_the_list [of _ "[]" 0 3])
    (simp_all add: demo_service_def demo_new_endpoint_def AudioEndpointInner_ctor_def)

theorem delayed_release_takes_the_unused_witness:
  "''speaker'' \<notin> releasingEndpointSet (release_after_wait ''speaker''
      (demo_service\<lparr>endpointList := [(''speaker'', 3)], releasingEndpointSet := {''speaker''},
         eps := (\<lambda>_. demo_new_endpoint\<lparr>endpointStatus := UNLINKED\<rparr>)\<rparr>)) \<and>
   (''mic'', 4) \<in> set (endpointList (release_after_wait ''speaker'' (demo_service\<lparr>endpointList := [(''mic'', 4)]\<rparr>)))"
  using delayed_release_takes_the_unused [of "demo_service\<lparr>endpointList := [(''speaker'', 3)],
      releasingEndpointSet := {''speaker''}, eps := (\<lambda>_. demo_new_endpoint\<lparr>endpointStatus := UNLINKED\<rparr>)\<rparr>" "''speaker''" 3 "''speaker''"]
    delayed_release_takes_the_unused [of "demo_service\<lparr>endpointList := [(''mic'', 4)]\<rparr>" "''mic''" 4 "''speaker''"]
  by (simp add: GetStatus_def)

end
