(* ===== verification/Spec2Isabelle.thy ===== *)
theory Spec2Isabelle
  imports SpanRing ByteFifo PosTime TimerThread FocusProps VolumeProps PcmProps RouterProps
    EndpointProps RendererProps CapturerProps ServiceOutcomes
begin

text \<open>
  A verification library for the OpenHarmony audio framework: the policy that decides which
  stream may play and the audio sessions beside it, the devices and the choice of a device for a
  stream, the shared buffers and the time model the audio data goes through, and the arithmetic
  on samples on its way.

  The parts and how they interact.

  \<^item> A client process writes audio data into a shared ring (\<open>OHAudioBuffer\<close>), usually through a
    local byte ring (\<open>AudioRingCache\<close>); the server reads from it, and both sides predict times of
    positions with a linear model (\<open>LinearPosTimeModel\<close>).
  \<^item> The policy server asks \<open>AudioInterruptService\<close> whether a stream may have focus. The service
    keeps a list of streams per zone, a configuration of what two kinds of stream do to each
    other, and an \<open>AudioSessionService\<close> through which a process states how its streams want to
    mix. A session without streams is deactivated by a timer thread after a minute.

  \<^item> When a stream starts or a device comes or goes, the policy server asks \<open>AudioRouterCenter\<close>
    for a device. It asks the routers of the stream's purpose in their configured order; a router
    looks into the lists of \<open>AudioDeviceManager\<close>, the preferences of the user
    (\<open>AudioStateManager\<close>) and the choices of applications (\<open>AudioAffinityManager\<close>).
  \<^item> A fast stream has a process on the server (\<open>AudioProcessInServer\<close>), linked to an endpoint
    (\<open>AudioEndpoint\<close>). The endpoint's loop wakes up once per span, mixes what the processes have
    written into the buffer it shares with the device, or copies what the device recorded to the
    processes, and starts and stops the device.
  \<^item> A normal playback stream (\<open>RendererInServer\<close>) reads the spans its client has written, applies
    the client's volumes and passes each span to its PulseAudio or direct stream and to the copies
    made of it for inner capture and for a second sink.
  \<^item> A recording stream (\<open>CapturerInServer\<close>) collects the blocks PulseAudio delivers in a ring cache
    and moves them span by span into the buffer it shares with its client.
  \<^item> \<open>AudioService\<close> holds the server's streams together: normal streams by their session, fast
    streams with their endpoints, which it makes and takes back, and the sessions that are muted. A
    capturer of playback sets a filter through \<open>PlaybackCapturerManager\<close>; the service copies the
    streams that match it.
  \<^item> Clients and servers exchange configurations and change notices as parcels.
  \<^item> On the server a stream's samples are scaled by its volume (\<open>VolumeTools\<close>), converted between
    formats (\<open>AudioCommonConverter\<close>, \<open>FormatConverter\<close>) and, in the client, its channels are
    blended (\<open>AudioBlend\<close>).

  The theories, in the order of their imports.

  \<^item> \<open>Prelude\<close>: widths of machine integers, faults (\<open>exec\<close>), error codes, word lemmas. A fault
    (division by zero, a null pointer followed, an access out of the buffer) is a value of the
    left of a sum; an operation that returns a code returns the code and the new state.
  \<^item> \<open>OHAudioBuffer\<close> (\<open>oh_audio_buffer.cpp\<close>): the shared ring. The shared status struct is the
    field \<open>basicBufferInfo\<close>, its spans a list; positions are \<open>64\<close>-bit words. \<open>SpanRing\<close> proves the
    invariant of the positions over every sequence of operations, that spans handed out lie in
    the buffer, and the parcel round trip.
  \<^item> \<open>AudioRingCache\<close> (\<open>audio_ring_cache.cpp\<close>): the byte ring over an explicit memory, with the
    bounds-checked copies of the C library as a parameter. \<open>RingList\<close> relates a ring to a list,
    \<open>ByteFifo\<close> states the interface of a bounded byte queue as the locale \<open>byte_fifo\<close> and
    interprets it on the ring.
  \<^item> \<open>PosTime\<close> (\<open>linear_pos_time_model.cpp\<close>): the time model with its arithmetic on signed words.
  \<^item> \<open>AudioTypes\<close>: the enumerations and structs of the policy headers.
  \<^item> \<open>AudioSessions\<close> (\<open>audio_session.cpp\<close>, \<open>audio_session_service.cpp\<close>, \<open>audio_session_timer.cpp\<close>):
    sessions, their service and the timer. \<open>Refinement\<close> is the interface of a component that
    implements an abstract machine; \<open>SessionRegistry\<close> extends it for sessions and interprets it,
    so that the service is a map from processes to sets of streams and the timer runs exactly
    for the empty ones. \<open>TimerThread\<close> is the interleaving of the timer thread with its callers at
    the granularity of the locks, as a step relation.
  \<^item> \<open>InterruptState\<close>, \<open>InterruptFocus\<close>, \<open>InterruptResume\<close>, \<open>InterruptZones\<close>
    (\<open>audio_interrupt_service.cpp\<close>): the state and helpers, activation, deactivation and
    resumption, zones. What the service sends to other objects is a log of events.
    \<open>InterruptSpec\<close> and \<open>InterruptProps\<close> state activation and deactivation as functions on the
    focus list and prove that the code computes them, \<open>InterruptInv\<close> an invariant over all
    operations, \<open>FocusProps\<close> the properties, each with a run of the service.
  \<^item> \<open>Float32\<close>: rounding of rationals to \<open>float\<close>, monotone and exact where the code needs it; the
    representation of floats in memory is a parameter. \<open>VolumeTools\<close> (\<open>volume_tools.cpp\<close>,
    \<open>format_converter.cpp\<close>): a buffer is a list of bytes, a sample an integer read from it.
    \<open>VolumeProps\<close> gives \<open>Process\<close> by its values: scaling is bounded, exact for constant volumes
    and monotone in a ramp.
  \<^item> \<open>PcmConvert\<close> (\<open>audio_common_converter.cpp\<close>, \<open>audio_channel_blend.cpp\<close>): the converters as
    loops over checked accesses. \<open>PcmProps\<close>: exactness, a round trip, what blending changes, and
    the accesses and conversions that fault.
  \<^item> \<open>DeviceTypes\<close>, \<open>DeviceManager\<close>, \<open>DeviceQueries\<close> (\<open>audio_device_manager.cpp\<close>): descriptors live
    in a store, since lists and pairs share them; a pointer is a \<open>ref\<close>. \<open>DeviceInv\<close> has the
    invariant over every sequence of operations, \<open>DeviceProps\<close> the properties.
  \<^item> \<open>DevicePreference\<close> (\<open>audio_state_manager.cpp\<close>, \<open>audio_affinity_manager.cpp\<close>), \<open>Routers\<close>
    (the classes of \<open>routers\<close>, over a view of the services they read), \<open>RouterCenter\<close>
    (\<open>audio_router_center.cpp\<close> and the parsers of its configuration). \<open>RouterProps\<close> composes them
    with the invariant of the device manager: every stream is routed, the user's choice is used,
    routers answer with local devices of their direction. \<open>std::sort\<close> is the locale
    \<open>connection_sort\<close>.

  \<^item> \<open>Parcels\<close>, \<open>ProcessConfig\<close> (\<open>audio_process_config.cpp\<close>), \<open>ChangeInfo\<close> (\<open>audio_info.h\<close>,
    \<open>audio_device_info.h\<close>): writing and reading as actions over any parcel, with round trips from
    the law \<open>parcel_fifo\<close>, which a queue of items satisfies.
  \<^item> \<open>EndpointState\<close>, \<open>EndpointControl\<close>, \<open>EndpointMix\<close>, \<open>EndpointLoop\<close> (\<open>audio_endpoint.cpp\<close>) and
    \<open>ProcessInServer\<close> (\<open>audio_process_in_server.cpp\<close>): buffers, processes and endpoints in stores, with
    the bytes of the shared memories. The answers of the adapter, the clock and the position queries
    are streams in the state. \<open>EndpointInv\<close> has the invariant over every sequence of handlers and
    turns, \<open>EndpointProps\<close> the mix against its reference, the spans handed back, and the device
    over time.

  \<^item> \<open>NormalStream\<close>, \<open>RendererInServer\<close>, \<open>RendererControl\<close> (\<open>renderer_in_server.cpp\<close>): a stream's
    state with its shared buffer and the bytes in it; what it asks outside is noted, the answers are
    a stream in the state. \<open>RendererInv\<close> proves what every operation keeps and what delivering and
    flushing do to the bytes; \<open>RendererProps\<close> the properties over every interleaving with the client:
    delivery, flushes, the protocol of requests, stand-by, and the pause that was refused.
  \<^item> \<open>CapturerInServer\<close> (\<open>capturer_in_server.cpp\<close>): the recording stream in the same style;
    \<open>CapturerProps\<close> has its invariant over every interleaving with the client and proves, over the
    interface \<open>byte_fifo\<close> of the cache, that recorded bytes come out complete and in order.

  \<^item> \<open>AudioService\<close>, \<open>FastService\<close> (\<open>audio_service.cpp\<close>, \<open>playback_capturer_manager.cpp\<close>,
    \<open>ipc_stream_in_server.cpp\<close>): the service over stores of streams, processes and endpoints; a weak
    pointer is a number with the set of the streams that live. An operation may wait for ever on the
    lock of the muted sessions, so it is a \<open>run\<close>, whose value \<open>None\<close> is such a wait. \<open>ServiceInv\<close> has
    the invariant of inner capture and what setting and removing a filter does; \<open>RendererFrame\<close> and
    \<open>FastFrame\<close> say what the streams' and endpoints' own operations leave alone, \<open>ServiceSteps\<close> and
    \<open>ServiceProps\<close> that every operation of the service keeps the invariant. \<open>ServiceOutcomes\<close> has the
    properties: which streams are captured, what the requests of a capturer come to, when an endpoint
    is released, and the requests that do not return or fault.

  Recursion and fuel. Every loop is structural recursion, except the copying of a zone into
  itself (\<open>copy_self\<close>) and the skipping of unread spans (\<open>flush_walk\<close>), which may run for ever and
  are partial functions whose value \<open>None\<close> is a loop that does not end; that a flush of a stream that
  was initialised ends is proved. A lock taken twice by one thread is the value \<open>None\<close> too. No
  definition has fuel.

  Not modelled: bindings (NAPI, CJ, OpenSL ES, OHAudio), the remote-call proxies and stubs, the
  PulseAudio modules and the adapters of the hardware interface, reading XML, parcels of device
  descriptors, the endpoint for independent streams (an argument of \<open>CreateEndpoint\<close>), the level of a buffer in decibels (\<open>log10\<close>), dumps and traces, tests. They
  pass data to libraries that are not part of the source, or print. Concurrency is modelled
  where the code's correctness depends on it (the session timer); the other components hold one
  lock per operation, so their operations are steps.
\<close>

end
